(* ===== verification/Ptp_Prelude.thy ===== *)
theory Ptp_Prelude
  imports Main "HOL-Library.Word"
begin

text \<open>
  Shared vocabulary of the development: the machine integers of
  \<^verbatim>\<open>src/types.m4\<close>, the byte order of the wire
  (\<^verbatim>\<open>cpu_to_net\<close>/\<^verbatim>\<open>net_to_cpu\<close> of \<^verbatim>\<open>src/comp.h\<close>), reads and
  writes of an octet buffer, and the generic facts the components use.

  A C++ integer of \<open>w\<close> bits is a \<open>w word\<close>; a signed integer is the same word
  read through \<^term>\<open>sint\<close>. A \<^verbatim>\<open>size_t\<close> that counts octets of a buffer is a
  \<^typ>\<open>nat\<close>; a \<^verbatim>\<open>ssize_t\<close> is an \<^typ>\<open>int\<close>.
\<close>

subsection \<open>Integer types\<close>

type_synonym uint8_t = "8 word"
type_synonym uint16_t = "16 word"
type_synonym uint32_t = "32 word"
type_synonym uint64_t = "64 word"
type_synonym int8_t = "8 word"
type_synonym int16_t = "16 word"
type_synonym int32_t = "32 word"
type_synonym int64_t = "64 word"
type_synonym octets = "uint8_t list"

text \<open>Rules that run a wire operation when building, when parsing, and on its length.\<close>

named_theorems build_simps
named_theorems parse_simps
named_theorems wire_len
named_theorems step_intros
named_theorems codec_intros

subsection \<open>Big endian and little endian images of a word\<close>

text \<open>
  \<open>be_bytes n x\<close> is the value \<open>x\<close> modulo \<open>256 ^ n\<close> as \<open>n\<close> octets, most
  significant first; \<open>be_nat\<close> reads such octets back.
\<close>

fun be_bytes :: "nat \<Rightarrow> nat \<Rightarrow> octets" where
  "be_bytes 0 x = []"
| "be_bytes (Suc n) x = be_bytes n (x div 256) @ [word_of_nat x]"

definition be_nat :: "octets \<Rightarrow> nat" where
  "be_nat bs = foldl (\<lambda>a b. a * 256 + unat b) 0 bs"

text \<open>
  \<^verbatim>\<open>*(T *)m_cur = cpu_to_net(val)\<close> stores the big endian octets whatever the
  order of the host; \<^verbatim>\<open>net_to_cpu(*(T *)m_cur)\<close> reads them.
\<close>

definition cpu_to_net :: "'a::len word \<Rightarrow> octets" where
  "cpu_to_net w = be_bytes (LENGTH('a) div 8) (unat w)"

definition net_to_cpu :: "octets \<Rightarrow> 'a::len word" where
  "net_to_cpu bs = word_of_nat (be_nat bs)"

text \<open>The linuxptp statistics use little endian order.\<close>

definition cpu_to_le64 :: "uint64_t \<Rightarrow> octets" where
  "cpu_to_le64 w = rev (cpu_to_net w)"

definition le_to_cpu64 :: "octets \<Rightarrow> uint64_t" where
  "le_to_cpu64 bs = net_to_cpu (rev bs)"

lemma word_bound: "unat (w :: 'a::len word) < 2 ^ LENGTH('a)"
  by (rule unsigned_less)

lemma octet_bound: "unat (b :: uint8_t) < 256"
  using word_bound [of b] by simp

lemma unat_ucast_up [simp]:
  "unat (ucast (b :: uint8_t) :: uint16_t) = unat b"
  "unat (ucast (b :: uint8_t) :: uint32_t) = unat b"
  "unat (ucast (h :: uint16_t) :: uint32_t) = unat h"
  using word_bound [of b] word_bound [of h]
  by (simp_all add: unsigned_ucast_eq take_bit_nat_eq_self)

lemma length_be_bytes [simp]: "length (be_bytes n x) = n"
  by (induction n arbitrary: x) auto

lemma be_nat_Nil [simp]: "be_nat [] = 0"
  by (simp add: be_nat_def)

lemma be_nat_snoc [simp]: "be_nat (bs @ [b]) = be_nat bs * 256 + unat b"
  by (simp add: be_nat_def)

lemma be_nat_be_bytes [simp]: "be_nat (be_bytes n x) = x mod 256 ^ n"
proof (induction n arbitrary: x)
  case 0
  show ?case by simp
next
  case (Suc n)
  have "be_nat (be_bytes (Suc n) x) = (x div 256) mod 256 ^ n * 256 + x mod 256"
    by (simp add: Suc.IH unat_word_ariths unsigned_of_nat take_bit_eq_mod)
  also have "\<dots> = x mod 256 ^ Suc n"
    by (simp add: mod_mult2_eq)
  finally show ?case .
qed

lemma be_bytes_be_nat [simp]: "be_bytes (length bs) (be_nat bs) = bs"
proof (induction bs rule: rev_induct)
  case Nil
  show ?case by simp
next
  case (snoc b bs)
  have "unat b < 256"
    by (rule octet_bound)
  moreover have zero: "(256 :: uint8_t) = 0"
    by simp
  ultimately show ?case
    using snoc by (simp add: zero)
qed

lemma be_nat_less: "be_nat bs < 256 ^ length bs"
proof (induction bs rule: rev_induct)
  case Nil
  show ?case by simp
next
  case (snoc b bs)
  have "unat b < 256"
    by (rule octet_bound)
  then show ?case
    using snoc by simp
qed

text \<open>The words of the protocol are whole octets.\<close>

definition octet_word :: "'a::len word itself \<Rightarrow> bool" where
  "octet_word t \<longleftrightarrow> LENGTH('a) = 8 * (LENGTH('a) div 8)"

lemma octet_words [simp]:
  "octet_word TYPE(8 word)" "octet_word TYPE(16 word)"
  "octet_word TYPE(32 word)" "octet_word TYPE(64 word)"
  by (simp_all add: octet_word_def)

lemma length_cpu_to_net [simp, wire_len]:
  "length (cpu_to_net (w :: 'a::len word)) = LENGTH('a) div 8"
  by (simp add: cpu_to_net_def)

lemma net_to_cpu_to_net:
  assumes "octet_word TYPE('a::len word)"
  shows "net_to_cpu (cpu_to_net (w :: 'a word)) = w"
proof -
  have "(256 :: nat) ^ (LENGTH('a) div 8) = 2 ^ LENGTH('a)"
    using assms power_mult [of "2 :: nat" 8 "LENGTH('a) div 8"]
    by (simp add: octet_word_def)
  then have "unat w mod 256 ^ (LENGTH('a) div 8) = unat w"
    using word_bound [of w] by simp
  then show ?thesis
    by (simp add: net_to_cpu_def cpu_to_net_def)
qed

lemma cpu_to_net_to_cpu:
  assumes "octet_word TYPE('a::len word)" and "length bs = LENGTH('a) div 8"
  shows "cpu_to_net (net_to_cpu bs :: 'a word) = bs"
proof -
  have "(256 :: nat) ^ (LENGTH('a) div 8) = 2 ^ LENGTH('a)"
    using assms(1) power_mult [of "2 :: nat" 8 "LENGTH('a) div 8"]
    by (simp add: octet_word_def)
  then have "be_nat bs < 2 ^ LENGTH('a)"
    using be_nat_less [of bs] assms(2) by simp
  then have "unat (net_to_cpu bs :: 'a word) = be_nat bs"
    by (simp add: net_to_cpu_def unsigned_of_nat take_bit_nat_eq_self)
  then show ?thesis
    using be_bytes_be_nat [of bs] assms(2) by (simp add: cpu_to_net_def)
qed

lemma net_cpu_16 [simp]: "net_to_cpu (cpu_to_net (w :: 16 word)) = w"
  and net_cpu_32 [simp]: "net_to_cpu (cpu_to_net (x :: 32 word)) = x"
  and net_cpu_64 [simp]: "net_to_cpu (cpu_to_net (y :: 64 word)) = y"
  by (simp_all add: net_to_cpu_to_net)

lemma length_cpu_to_le64 [simp, wire_len]: "length (cpu_to_le64 w) = 8"
  by (simp add: cpu_to_le64_def)

lemma le_to_cpu_to_le64 [simp]: "le_to_cpu64 (cpu_to_le64 w) = w"
  by (simp add: le_to_cpu64_def cpu_to_le64_def)

subsection \<open>Octet buffers\<close>

text \<open>
  A buffer is the list of its octets. \<open>mem_write\<close> stores octets at an offset and
  \<open>mem_read\<close> loads them. A store that leaves the buffer makes it longer, so \<open>the length
  is unchanged\<close> says that it stayed inside.
\<close>

definition mem_read :: "octets \<Rightarrow> nat \<Rightarrow> nat \<Rightarrow> octets" where
  "mem_read buf cur n = take n (drop cur buf)"

definition mem_write :: "octets \<Rightarrow> nat \<Rightarrow> octets \<Rightarrow> octets" where
  "mem_write buf cur bs = take cur buf @ bs @ drop (cur + length bs) buf"

lemma length_mem_write [simp]:
  "cur + length bs \<le> length buf \<Longrightarrow> length (mem_write buf cur bs) = length buf"
  by (simp add: mem_write_def)

lemma mem_write_Nil [simp]: "cur \<le> length buf \<Longrightarrow> mem_write buf cur [] = buf"
  by (simp add: mem_write_def)

lemma mem_write_append:
  "cur + length as + length bs \<le> length buf \<Longrightarrow>
   mem_write (mem_write buf cur as) (cur + length as) bs = mem_write buf cur (as @ bs)"
  by (simp add: mem_write_def ac_simps)

lemma mem_read_write_same [simp]:
  "cur \<le> length buf \<Longrightarrow> mem_read (mem_write buf cur bs) cur (length bs) = bs"
  by (simp add: mem_read_def mem_write_def)

lemma mem_read_write_before:
  assumes "a + n \<le> cur" "cur + length bs \<le> length buf"
  shows "mem_read (mem_write buf cur bs) a n = mem_read buf a n"
proof -
  have "n - (cur - a) = 0" and "a - cur = 0" and "min n (cur - a) = n"
    using assms by auto
  then show ?thesis
    using assms by (simp add: mem_read_def mem_write_def drop_take)
qed

lemma mem_read_write_after:
  assumes "cur + length bs \<le> a" "cur + length bs \<le> length buf"
  shows "mem_read (mem_write buf cur bs) a n = mem_read buf a n"
  using assms by (simp add: mem_read_def mem_write_def)

lemma nth_mem_write:
  assumes "cur + length bs \<le> length buf" "i < length buf"
  shows "mem_write buf cur bs ! i =
    (if cur \<le> i \<and> i < cur + length bs then bs ! (i - cur) else buf ! i)"
  using assms by (auto simp: mem_write_def nth_append min_def)

lemma mem_read_append:
  "mem_read buf cur (m + n) = mem_read buf cur m @ mem_read buf (cur + m) n"
  by (simp add: mem_read_def take_add add.commute)

lemma length_mem_read [simp]:
  "cur + n \<le> length buf \<Longrightarrow> length (mem_read buf cur n) = n"
  by (simp add: mem_read_def)

end
