(* ===== verification/Ptp_Types.thy ===== *)
theory Ptp_Types
  imports Ptp_Prelude "HOL-Library.AList"
begin

unbundle bit_operations_syntax

text \<open>
  The protocol's basic structures of \<^verbatim>\<open>src/types.m4\<close> and their methods in
  \<^verbatim>\<open>src/types.cpp\<close>: time intervals and time stamps, clock and port identities,
  addresses, texts, the records of the management tables, and the message parameters
  \<^verbatim>\<open>MsgParams\<close>. An \<^verbatim>\<open>enum\<close> with a fixed underlying type can hold every value of
  that type (the parser casts what it reads), so it is the word of that type and its
  enumerators are constants. A \<^verbatim>\<open>Binary\<close> is represented by its octets; the theory of
  \<^verbatim>\<open>bin.cpp\<close> relates the two. The floating point conversions are not modelled.
\<close>

subsection \<open>Names of the basic types\<close>

type_synonym Nibble_t = uint8_t
type_synonym UInteger8_t = uint8_t
type_synonym UInteger16_t = uint16_t
type_synonym UInteger32_t = uint32_t
type_synonym UInteger48_t = uint64_t
type_synonym UInteger64_t = uint64_t
type_synonym Integer8_t = int8_t
type_synonym Integer16_t = int16_t
type_synonym Integer32_t = int32_t
type_synonym Integer48_t = int64_t
type_synonym Integer64_t = int64_t
type_synonym Octet_t = uint8_t
text \<open>A binary64 number is its IEEE 754 image.\<close>
type_synonym Float64_t = "64 word"

type_synonym networkProtocol_e = uint16_t
type_synonym clockAccuracy_e = uint8_t
type_synonym faultRecord_e = uint8_t
type_synonym timeSource_e = uint8_t
type_synonym portState_e = uint8_t
type_synonym delayMechanism_e = uint8_t
type_synonym msgType_e = uint8_t
type_synonym tlvType_e = uint16_t
type_synonym actionField_e = uint8_t
type_synonym managementErrorId_e = uint16_t
type_synonym SMPTEmasterLockingStatus_e = uint8_t
type_synonym linuxptpTimeStamp_e = uint8_t
type_synonym linuxptpPowerProfileVersion_e = uint16_t
type_synonym linuxptpUnicastState_e = uint8_t

datatype MNG_PARSE_ERROR_e =
    MNG_PARSE_ERROR_OK | MNG_PARSE_ERROR_MSG | MNG_PARSE_ERROR_SIG
  | MNG_PARSE_ERROR_SMPTE | MNG_PARSE_ERROR_INVALID_ID | MNG_PARSE_ERROR_INVALID_TLV
  | MNG_PARSE_ERROR_MISMATCH_TLV | MNG_PARSE_ERROR_SIZE_MISS | MNG_PARSE_ERROR_TOO_SMALL
  | MNG_PARSE_ERROR_SIZE | MNG_PARSE_ERROR_VAL | MNG_PARSE_ERROR_HEADER
  | MNG_PARSE_ERROR_ACTION | MNG_PARSE_ERROR_UNSUPPORT | MNG_PARSE_ERROR_MEM
  | MNG_PARSE_ERROR_AUTH | MNG_PARSE_ERROR_AUTH_NONE | MNG_PARSE_ERROR_AUTH_WRONG
  | MNG_PARSE_ERROR_AUTH_NOKEY

datatype implementSpecific_e = noImplementSpecific | linuxptp

definition UINT48_MAX :: uint64_t where
  "UINT48_MAX = 0xffffffffffff"

definition INT48_MAX :: int64_t where
  "INT48_MAX = 0x7fffffffffff"

definition INT48_MIN :: int64_t where
  "INT48_MIN = - 0x7fffffffffff - 1"

definition NSEC_PER_USEC :: nat where
  "NSEC_PER_USEC = 1000"

definition NSEC_PER_SEC :: nat where
  "NSEC_PER_SEC = 1000000000"

subsection \<open>Octet sequences: \<^verbatim>\<open>memcmp\<close>\<close>

text \<open>The sign of \<^verbatim>\<open>memcmp\<close> over two areas of the same length.\<close>

fun memcmp :: "octets \<Rightarrow> octets \<Rightarrow> int" where
  "memcmp (a # as) (b # bs) = (if a < b then - 1 else if b < a then 1 else memcmp as bs)"
| "memcmp _ _ = 0"

lemma memcmp_eq_0: "length as = length bs \<Longrightarrow> memcmp as bs = 0 \<longleftrightarrow> as = bs"
  by (induction as bs rule: list_induct2) auto

lemma memcmp_antisym: "memcmp bs as = - memcmp as bs"
  by (induction as bs rule: memcmp.induct) (auto dest: less_imp_not_less)

lemma memcmp_trans:
  "length as = length bs \<Longrightarrow> length bs = length cs \<Longrightarrow>
   memcmp as bs < 0 \<Longrightarrow> memcmp bs cs < 0 \<Longrightarrow> memcmp as cs < 0"
proof (induction as bs cs rule: list_induct3)
  case Nil
  then show ?case by simp
next
  case (Cons a as b bs c cs)
  then show ?case by (auto split: if_splits)
qed

lemma memcmp_refl [simp]: "memcmp as as = 0"
  by (induction as) auto

subsection \<open>Time interval\<close>

record TimeInterval_t =
  scaledNanoseconds :: Integer64_t

definition getIntervalInt :: "TimeInterval_t \<Rightarrow> int64_t" where
  "getIntervalInt t =
     (if sint (scaledNanoseconds t) < 0
      then - (signed_drop_bit 16 (- scaledNanoseconds t))
      else signed_drop_bit 16 (scaledNanoseconds t))"

definition TimeInterval_size :: nat where
  "TimeInterval_size = 8"

definition TimeInterval_isZero :: "TimeInterval_t \<Rightarrow> bool" where
  "TimeInterval_isZero t \<longleftrightarrow> scaledNanoseconds t = 0"

subsection \<open>Time stamp\<close>

record Timestamp_t =
  secondsField :: UInteger48_t
  nanosecondsField :: UInteger32_t

text \<open>\<^verbatim>\<open>struct timespec\<close> and \<^verbatim>\<open>struct timeval\<close>, with 64 bits members.\<close>

record timespec =
  tv_sec :: int64_t
  tv_nsec :: int64_t

record timeval =
  tvl_sec :: int64_t
  tvl_usec :: int64_t

definition Timestamp_of_timespec :: "timespec \<Rightarrow> Timestamp_t" where
  "Timestamp_of_timespec ts =
     \<lparr>secondsField = tv_sec ts, nanosecondsField = ucast (tv_nsec ts)\<rparr>"

definition toTimespec :: "Timestamp_t \<Rightarrow> timespec" where
  "toTimespec t = \<lparr>tv_sec = secondsField t, tv_nsec = ucast (nanosecondsField t)\<rparr>"

definition Timestamp_of_timeval :: "timeval \<Rightarrow> Timestamp_t" where
  "Timestamp_of_timeval tv =
     \<lparr>secondsField = tvl_sec tv,
      nanosecondsField = ucast (tvl_usec tv * of_nat NSEC_PER_USEC)\<rparr>"

definition toTimeval :: "Timestamp_t \<Rightarrow> timeval" where
  "toTimeval t =
     \<lparr>tvl_sec = secondsField t,
      tvl_usec = ucast (nanosecondsField t div of_nat NSEC_PER_USEC)\<rparr>"

text \<open>
  \<^verbatim>\<open>fromNanoseconds\<close>: \<^verbatim>\<open>lldiv\<close> truncates towards zero, then the loop makes the
  remainder non negative.
\<close>

definition lldiv :: "int \<Rightarrow> int \<Rightarrow> int \<times> int" where
  "lldiv a b = (sgn a * sgn b * (\<bar>a\<bar> div \<bar>b\<bar>), a - b * (sgn a * sgn b * (\<bar>a\<bar> div \<bar>b\<bar>)))"

function fix_rem :: "int \<times> int \<Rightarrow> int \<times> int" where
  "fix_rem (q, r) = (if r < 0 then fix_rem (q - 1, r + int NSEC_PER_SEC) else (q, r))"
  by pat_completeness auto
termination
  by (relation "measure (\<lambda>(q, r). nat (- r))") (auto simp: NSEC_PER_SEC_def)

declare fix_rem.simps [simp del]

definition fromNanoseconds :: "uint64_t \<Rightarrow> Timestamp_t" where
  "fromNanoseconds n =
     (case fix_rem (lldiv (sint n) (int NSEC_PER_SEC)) of
        (q, r) \<Rightarrow> \<lparr>secondsField = word_of_int q, nanosecondsField = word_of_int r\<rparr>)"

definition toNanoseconds :: "Timestamp_t \<Rightarrow> uint64_t" where
  "toNanoseconds t = ucast (nanosecondsField t) + secondsField t * of_nat NSEC_PER_SEC"

definition Timestamp_eq :: "Timestamp_t \<Rightarrow> Timestamp_t \<Rightarrow> bool" where
  "Timestamp_eq a b \<longleftrightarrow> secondsField a = secondsField b \<and> nanosecondsField a = nanosecondsField b"

definition Timestamp_less :: "Timestamp_t \<Rightarrow> Timestamp_t \<Rightarrow> bool" where
  "Timestamp_less a b \<longleftrightarrow> secondsField a < secondsField b \<or>
     (secondsField a = secondsField b \<and> nanosecondsField a < nanosecondsField b)"

definition Timestamp_size :: nat where
  "Timestamp_size = 6 + 4"

definition Timestamp_isZero :: "Timestamp_t \<Rightarrow> bool" where
  "Timestamp_isZero t \<longleftrightarrow> secondsField t = 0 \<and> nanosecondsField t = 0"

text \<open>\<^verbatim>\<open>normNano\<close>: the carry of the nanoseconds into the seconds.\<close>

function normNano :: "Timestamp_t \<Rightarrow> Timestamp_t" where
  "normNano t =
     (if of_nat NSEC_PER_SEC \<le> nanosecondsField t
      then normNano (t\<lparr>nanosecondsField := nanosecondsField t - of_nat NSEC_PER_SEC,
                       secondsField := secondsField t + 1\<rparr>)
      else t)"
  by pat_completeness auto
termination
  by (relation "measure (\<lambda>t. unat (nanosecondsField t))")
    (auto simp: NSEC_PER_SEC_def word_le_nat_alt unat_sub)

declare normNano.simps [simp del]

definition Timestamp_add :: "Timestamp_t \<Rightarrow> Timestamp_t \<Rightarrow> Timestamp_t" where
  "Timestamp_add t u =
     normNano (t\<lparr>secondsField := secondsField t + secondsField u,
                 nanosecondsField := nanosecondsField t + nanosecondsField u\<rparr>)"

text \<open>
  The borrow loop of \<^verbatim>\<open>subt\<close>. \<open>None\<close> is a loop that does not end: the addition to the
  32 bits nanoseconds wraps around.
\<close>

partial_function (option) borrowNano ::
    "UInteger32_t \<Rightarrow> Timestamp_t \<Rightarrow> Timestamp_t option" where
  "borrowNano n t =
     (if nanosecondsField t < n
      then borrowNano n (t\<lparr>nanosecondsField := nanosecondsField t + of_nat NSEC_PER_SEC,
                           secondsField := secondsField t - 1\<rparr>)
      else Some t)"

definition Timestamp_subt :: "Timestamp_t \<Rightarrow> Timestamp_t \<Rightarrow> Timestamp_t option" where
  "Timestamp_subt t u =
     map_option
       (\<lambda>t'. normNano (t'\<lparr>nanosecondsField := nanosecondsField t' - nanosecondsField u\<rparr>))
       (borrowNano (nanosecondsField u)
          (t\<lparr>secondsField := secondsField t - secondsField u\<rparr>))"

subsection \<open>Identities, addresses and texts\<close>

record ClockIdentity_t =
  ci_v :: "Octet_t list"

definition ClockIdentity_size :: nat where
  "ClockIdentity_size = 8"

definition ClockIdentity_clear :: "Octet_t \<Rightarrow> ClockIdentity_t" where
  "ClockIdentity_clear b = \<lparr>ci_v = replicate 8 b\<rparr>"

definition ClockIdentity_eq :: "ClockIdentity_t \<Rightarrow> ClockIdentity_t \<Rightarrow> bool" where
  "ClockIdentity_eq a b \<longleftrightarrow> memcmp (ci_v a) (ci_v b) = 0"

definition ClockIdentity_less :: "ClockIdentity_t \<Rightarrow> ClockIdentity_t \<Rightarrow> bool" where
  "ClockIdentity_less a b \<longleftrightarrow> memcmp (ci_v a) (ci_v b) < 0"

definition ClockIdentity_eq_bin :: "ClockIdentity_t \<Rightarrow> octets \<Rightarrow> bool" where
  "ClockIdentity_eq_bin a b \<longleftrightarrow> length b = ClockIdentity_size \<and> memcmp (ci_v a) b = 0"

record PortIdentity_t =
  clockIdentity :: ClockIdentity_t
  portNumber :: UInteger16_t

definition PortIdentity_clear :: PortIdentity_t where
  "PortIdentity_clear = \<lparr>clockIdentity = ClockIdentity_clear 0, portNumber = 0\<rparr>"

definition PortIdentity_eq :: "PortIdentity_t \<Rightarrow> PortIdentity_t \<Rightarrow> bool" where
  "PortIdentity_eq a b \<longleftrightarrow>
     ClockIdentity_eq (clockIdentity a) (clockIdentity b) \<and> portNumber a = portNumber b"

definition PortIdentity_less :: "PortIdentity_t \<Rightarrow> PortIdentity_t \<Rightarrow> bool" where
  "PortIdentity_less a b \<longleftrightarrow>
     (if ClockIdentity_eq (clockIdentity a) (clockIdentity b)
      then portNumber a < portNumber b
      else ClockIdentity_less (clockIdentity a) (clockIdentity b))"

definition PortIdentity_size :: nat where
  "PortIdentity_size = ClockIdentity_size + 2"

record PortAddress_t =
  networkProtocol :: networkProtocol_e
  addressLength :: UInteger16_t
  addressField :: octets

definition PortAddress_size :: "PortAddress_t \<Rightarrow> nat" where
  "PortAddress_size d = 2 + 2 + length (addressField d)"

record ClockQuality_t =
  clockClass :: UInteger8_t
  clockAccuracy :: clockAccuracy_e
  offsetScaledLogVariance :: uint16_t

definition ClockQuality_size :: nat where
  "ClockQuality_size = 1 + 1 + 2"

record PTPText_t =
  lengthField :: uint8_t
  textField :: octets

definition PTPText_size :: "PTPText_t \<Rightarrow> nat" where
  "PTPText_size d = 1 + length (textField d)"

record FaultRecord_t =
  faultRecordLength :: uint16_t
  faultTime :: Timestamp_t
  severityCode :: faultRecord_e
  faultName :: PTPText_t
  faultValue :: PTPText_t
  faultDescription :: PTPText_t

definition FaultRecord_size :: "FaultRecord_t \<Rightarrow> nat" where
  "FaultRecord_size d = 2 + Timestamp_size + 1 + PTPText_size (faultName d) +
     PTPText_size (faultValue d) + PTPText_size (faultDescription d)"

record AcceptableMaster_t =
  acceptablePortIdentity :: PortIdentity_t
  alternatePriority1 :: uint8_t

definition AcceptableMaster_size :: nat where
  "AcceptableMaster_size = PortIdentity_size + 1"

record LinuxptpUnicastMaster_t =
  portIdentity :: PortIdentity_t
  clockQuality :: ClockQuality_t
  selected :: uint8_t
  portState :: linuxptpUnicastState_e
  priority1 :: UInteger8_t
  priority2 :: UInteger8_t
  portAddress :: PortAddress_t

definition LinuxptpUnicastMaster_size :: "LinuxptpUnicastMaster_t \<Rightarrow> nat" where
  "LinuxptpUnicastMaster_size d = PortIdentity_size + ClockQuality_size + 1 + 1 + 1 + 1 +
     PortAddress_size (portAddress d)"

subsection \<open>Message parameters\<close>

record MsgParams =
  transportSpecific :: uint8_t
  domainNumber :: uint8_t
  boundaryHops :: uint8_t
  minorVersion :: uint8_t
  isUnicast :: bool
  implementSpecific :: implementSpecific_e
  target :: PortIdentity_t
  self_id :: PortIdentity_t
  useZeroGet :: bool
  rcvSignaling :: bool
  filterSignaling :: bool
  rcvSMPTEOrg :: bool
  sendAuth :: bool
  rcvAuth :: uint8_t
  allowSigTlvs :: "(tlvType_e \<times> bool) list"

definition RCV_AUTH_MNG :: uint8_t where "RCV_AUTH_MNG = 1"
definition RCV_AUTH_SIG_LAST :: uint8_t where "RCV_AUTH_SIG_LAST = 2"
definition RCV_AUTH_SIG_ALL :: uint8_t where "RCV_AUTH_SIG_ALL = 4"
definition RCV_AUTH_ALL :: uint8_t where "RCV_AUTH_ALL = 7"
definition RCV_AUTH_IGNORE :: uint8_t where "RCV_AUTH_IGNORE = 8"

definition allPorts :: uint16_t where
  "allPorts = 0xffff"

definition allClocks :: ClockIdentity_t where
  "allClocks = \<lparr>ci_v = replicate 8 0xff\<rparr>"

definition allowSigTlv :: "tlvType_e \<Rightarrow> MsgParams \<Rightarrow> MsgParams" where
  "allowSigTlv t p = p\<lparr>allowSigTlvs := AList.update t True (allowSigTlvs p)\<rparr>"

definition removeSigTlv :: "tlvType_e \<Rightarrow> MsgParams \<Rightarrow> MsgParams" where
  "removeSigTlv t p = p\<lparr>allowSigTlvs := AList.delete t (allowSigTlvs p)\<rparr>"

definition isSigTlv :: "tlvType_e \<Rightarrow> MsgParams \<Rightarrow> bool" where
  "isSigTlv t p \<longleftrightarrow> map_of (allowSigTlvs p) t \<noteq> None"

definition countSigTlvs :: "MsgParams \<Rightarrow> nat" where
  "countSigTlvs p = length (allowSigTlvs p)"

definition new_MsgParams :: MsgParams where
  "new_MsgParams =
     \<lparr>transportSpecific = 0, domainNumber = 0, boundaryHops = 1, minorVersion = 0,
      isUnicast = True, implementSpecific = linuxptp,
      target = \<lparr>clockIdentity = allClocks, portNumber = allPorts\<rparr>,
      self_id = PortIdentity_clear, useZeroGet = True, rcvSignaling = False,
      filterSignaling = True, rcvSMPTEOrg = True, sendAuth = True, rcvAuth = RCV_AUTH_ALL,
      allowSigTlvs = []\<rparr>"

end
