(* ===== verification/Mng_Ids.thy ===== *)
theory Mng_Ids
  imports Ptp_Types
begin

unbundle bit_operations_syntax

text \<open>
  The management identifiers: the table \<^verbatim>\<open>src/ids_base.m4\<close>, from which the build makes
  the enumeration \<^verbatim>\<open>mng_vals_e\<close> and the rows of \<^verbatim>\<open>mng_all_vals\<close>, and the functions
  of \<^verbatim>\<open>src/msg.cpp\<close> that search it.
\<close>

subsection \<open>Actions\<close>

definition GET :: actionField_e where "GET = 0"
definition SET :: actionField_e where "SET = 1"
definition RESPONSE :: actionField_e where "RESPONSE = 2"
definition COMMAND :: actionField_e where "COMMAND = 3"
definition ACKNOWLEDGE :: actionField_e where "ACKNOWLEDGE = 4"

lemmas action_defs = GET_def SET_def RESPONSE_def COMMAND_def ACKNOWLEDGE_def

definition A_GET :: uint8_t where "A_GET = push_bit (unat GET) 1"
definition A_SET :: uint8_t where "A_SET = push_bit (unat SET) 1"
definition A_COMMAND :: uint8_t where "A_COMMAND = push_bit (unat COMMAND) 1"
definition A_USE_LINUXPTP :: uint8_t where "A_USE_LINUXPTP = push_bit 5 1"
definition use_GSC :: uint8_t where "use_GSC = A_GET OR A_SET OR A_COMMAND"
definition use_GS :: uint8_t where "use_GS = A_GET OR A_SET"
definition use_GL :: uint8_t where "use_GL = A_GET OR A_USE_LINUXPTP"
definition use_GSL :: uint8_t where "use_GSL = A_GET OR A_SET OR A_USE_LINUXPTP"

lemma allow_bits:
  "A_GET = 1" "A_SET = 2" "A_COMMAND = 8" "A_USE_LINUXPTP = 0x20"
  "use_GSC = 0xb" "use_GS = 3" "use_GL = 0x21" "use_GSL = 0x23"
  by (simp_all add: A_GET_def A_SET_def A_COMMAND_def A_USE_LINUXPTP_def use_GSC_def use_GS_def
      use_GL_def use_GSL_def action_defs)

subsection \<open>The table\<close>

text \<open>
  The enumerators in the order of the table, then \<^verbatim>\<open>LAST_MNG_ID\<close> and
  \<^verbatim>\<open>SMPTE_MNG_ID\<close>, which have no row.
\<close>

datatype (plugins only: code) mng_vals_e =
    NULL_PTP_MANAGEMENT | CLOCK_DESCRIPTION | USER_DESCRIPTION | SAVE_IN_NON_VOLATILE_STORAGE |
    RESET_NON_VOLATILE_STORAGE | INITIALIZE | FAULT_LOG | FAULT_LOG_RESET | DEFAULT_DATA_SET |
    CURRENT_DATA_SET | PARENT_DATA_SET | TIME_PROPERTIES_DATA_SET | PORT_DATA_SET | PRIORITY1 |
    PRIORITY2 | DOMAIN | SLAVE_ONLY | LOG_ANNOUNCE_INTERVAL | ANNOUNCE_RECEIPT_TIMEOUT |
    LOG_SYNC_INTERVAL | VERSION_NUMBER | ENABLE_PORT | DISABLE_PORT | TIME | CLOCK_ACCURACY |
    UTC_PROPERTIES | TRACEABILITY_PROPERTIES | TIMESCALE_PROPERTIES |
    UNICAST_NEGOTIATION_ENABLE | PATH_TRACE_LIST | PATH_TRACE_ENABLE |
    GRANDMASTER_CLUSTER_TABLE | UNICAST_MASTER_TABLE | UNICAST_MASTER_MAX_TABLE_SIZE |
    ACCEPTABLE_MASTER_TABLE | ACCEPTABLE_MASTER_TABLE_ENABLED |
    ACCEPTABLE_MASTER_MAX_TABLE_SIZE | ALTERNATE_MASTER | ALTERNATE_TIME_OFFSET_ENABLE |
    ALTERNATE_TIME_OFFSET_NAME | ALTERNATE_TIME_OFFSET_MAX_KEY |
    ALTERNATE_TIME_OFFSET_PROPERTIES | TRANSPARENT_CLOCK_PORT_DATA_SET |
    LOG_MIN_PDELAY_REQ_INTERVAL | TRANSPARENT_CLOCK_DEFAULT_DATA_SET | PRIMARY_DOMAIN |
    DELAY_MECHANISM | EXTERNAL_PORT_CONFIGURATION_ENABLED | MASTER_ONLY |
    HOLDOVER_UPGRADE_ENABLE | EXT_PORT_CONFIG_PORT_DATA_SET | TIME_STATUS_NP |
    GRANDMASTER_SETTINGS_NP | PORT_DATA_SET_NP | SUBSCRIBE_EVENTS_NP | PORT_PROPERTIES_NP |
    PORT_STATS_NP | SYNCHRONIZATION_UNCERTAIN_NP | PORT_SERVICE_STATS_NP |
    UNICAST_MASTER_TABLE_NP | PORT_HWCLOCK_NP | POWER_PROFILE_SETTINGS_NP | CMLDS_INFO_NP |
    PORT_CORRECTIONS_NP | EXTERNAL_GRANDMASTER_PROPERTIES_NP | LAST_MNG_ID | SMPTE_MNG_ID

datatype scope_e = s_port | s_clock

text \<open>The kind of function a TLV has: none, parse, parse and build, with a variable size.\<close>

datatype func_e = NA | UF | UFS | UFB | UFBS

record ManagementId_t =
  mid_value :: uint16_t
  mid_scope :: scope_e
  mid_allowed :: uint8_t
  mid_size :: int
  mid_func :: func_e

definition row :: "uint16_t \<Rightarrow> scope_e \<Rightarrow> uint8_t \<Rightarrow> int \<Rightarrow> func_e \<Rightarrow> ManagementId_t option"
  where "row v sc a sz f =
     Some \<lparr>mid_value = v, mid_scope = sc, mid_allowed = a, mid_size = sz, mid_func = f\<rparr>"

lemma row_simps [simp]: "row v sc a sz f =
    Some \<lparr>mid_value = v, mid_scope = sc, mid_allowed = a, mid_size = sz, mid_func = f\<rparr>"
  by (simp add: row_def)

text \<open>\<open>None\<close> is an index outside the array.\<close>

primrec mng_all_vals :: "mng_vals_e \<Rightarrow> ManagementId_t option" where
  "mng_all_vals NULL_PTP_MANAGEMENT = row 0x0000 s_port use_GSC 0 NA"
| "mng_all_vals CLOCK_DESCRIPTION = row 0x0001 s_port A_GET (- 2) UFS"
| "mng_all_vals USER_DESCRIPTION = row 0x0002 s_clock use_GS (- 2) UFBS"
| "mng_all_vals SAVE_IN_NON_VOLATILE_STORAGE = row 0x0003 s_clock A_COMMAND 0 NA"
| "mng_all_vals RESET_NON_VOLATILE_STORAGE = row 0x0004 s_clock A_COMMAND 0 NA"
| "mng_all_vals INITIALIZE = row 0x0005 s_clock A_COMMAND 2 UFB"
| "mng_all_vals FAULT_LOG = row 0x0006 s_clock A_GET (- 2) UFS"
| "mng_all_vals FAULT_LOG_RESET = row 0x0007 s_clock A_COMMAND 0 NA"
| "mng_all_vals DEFAULT_DATA_SET = row 0x2000 s_clock A_GET 20 UF"
| "mng_all_vals CURRENT_DATA_SET = row 0x2001 s_clock A_GET 18 UF"
| "mng_all_vals PARENT_DATA_SET = row 0x2002 s_clock A_GET 32 UF"
| "mng_all_vals TIME_PROPERTIES_DATA_SET = row 0x2003 s_clock A_GET 4 UF"
| "mng_all_vals PORT_DATA_SET = row 0x2004 s_port A_GET 26 UF"
| "mng_all_vals PRIORITY1 = row 0x2005 s_clock use_GS 2 UFB"
| "mng_all_vals PRIORITY2 = row 0x2006 s_clock use_GS 2 UFB"
| "mng_all_vals DOMAIN = row 0x2007 s_clock use_GS 2 UFB"
| "mng_all_vals SLAVE_ONLY = row 0x2008 s_clock use_GS 2 UFB"
| "mng_all_vals LOG_ANNOUNCE_INTERVAL = row 0x2009 s_port use_GS 2 UFB"
| "mng_all_vals ANNOUNCE_RECEIPT_TIMEOUT = row 0x200a s_port use_GS 2 UFB"
| "mng_all_vals LOG_SYNC_INTERVAL = row 0x200b s_port use_GS 2 UFB"
| "mng_all_vals VERSION_NUMBER = row 0x200c s_port use_GS 2 UFB"
| "mng_all_vals ENABLE_PORT = row 0x200d s_port A_COMMAND 0 NA"
| "mng_all_vals DISABLE_PORT = row 0x200e s_port A_COMMAND 0 NA"
| "mng_all_vals TIME = row 0x200f s_clock use_GS 10 UFB"
| "mng_all_vals CLOCK_ACCURACY = row 0x2010 s_clock use_GS 2 UFB"
| "mng_all_vals UTC_PROPERTIES = row 0x2011 s_clock use_GS 4 UFB"
| "mng_all_vals TRACEABILITY_PROPERTIES = row 0x2012 s_clock use_GS 2 UFB"
| "mng_all_vals TIMESCALE_PROPERTIES = row 0x2013 s_clock use_GS 2 UFB"
| "mng_all_vals UNICAST_NEGOTIATION_ENABLE = row 0x2014 s_port use_GS 2 UFB"
| "mng_all_vals PATH_TRACE_LIST = row 0x2015 s_clock A_GET (- 2) UFS"
| "mng_all_vals PATH_TRACE_ENABLE = row 0x2016 s_clock use_GS 2 UFB"
| "mng_all_vals GRANDMASTER_CLUSTER_TABLE = row 0x2017 s_clock use_GS (- 2) UFBS"
| "mng_all_vals UNICAST_MASTER_TABLE = row 0x2018 s_port use_GS (- 2) UFBS"
| "mng_all_vals UNICAST_MASTER_MAX_TABLE_SIZE = row 0x2019 s_port A_GET 2 UF"
| "mng_all_vals ACCEPTABLE_MASTER_TABLE = row 0x201a s_clock use_GS (- 2) UFBS"
| "mng_all_vals ACCEPTABLE_MASTER_TABLE_ENABLED = row 0x201b s_port use_GS 2 UFB"
| "mng_all_vals ACCEPTABLE_MASTER_MAX_TABLE_SIZE = row 0x201c s_clock A_GET 2 UF"
| "mng_all_vals ALTERNATE_MASTER = row 0x201d s_port use_GS 4 UFB"
| "mng_all_vals ALTERNATE_TIME_OFFSET_ENABLE = row 0x201e s_clock use_GS 2 UFB"
| "mng_all_vals ALTERNATE_TIME_OFFSET_NAME = row 0x201f s_clock use_GS (- 2) UFBS"
| "mng_all_vals ALTERNATE_TIME_OFFSET_MAX_KEY = row 0x2020 s_clock A_GET 2 UF"
| "mng_all_vals ALTERNATE_TIME_OFFSET_PROPERTIES = row 0x2021 s_clock use_GS 16 UFB"
| "mng_all_vals TRANSPARENT_CLOCK_PORT_DATA_SET = row 0x4001 s_port A_GET 20 UF"
| "mng_all_vals LOG_MIN_PDELAY_REQ_INTERVAL = row 0x6001 s_port use_GS 2 UFB"
| "mng_all_vals TRANSPARENT_CLOCK_DEFAULT_DATA_SET = row 0x4000 s_clock A_GET 12 UF"
| "mng_all_vals PRIMARY_DOMAIN = row 0x4002 s_clock use_GS 2 UFB"
| "mng_all_vals DELAY_MECHANISM = row 0x6000 s_port use_GS 2 UFB"
| "mng_all_vals EXTERNAL_PORT_CONFIGURATION_ENABLED = row 0x3000 s_clock use_GS 2 UFB"
| "mng_all_vals MASTER_ONLY = row 0x3001 s_port use_GS 2 UFB"
| "mng_all_vals HOLDOVER_UPGRADE_ENABLE = row 0x3002 s_clock use_GS 2 UFB"
| "mng_all_vals EXT_PORT_CONFIG_PORT_DATA_SET = row 0x3003 s_port use_GS 2 UFB"
| "mng_all_vals TIME_STATUS_NP = row 0xc000 s_clock use_GL 50 UF"
| "mng_all_vals GRANDMASTER_SETTINGS_NP = row 0xc001 s_clock use_GSL 8 UFB"
| "mng_all_vals PORT_DATA_SET_NP = row 0xc002 s_port use_GSL 8 UFB"
| "mng_all_vals SUBSCRIBE_EVENTS_NP = row 0xc003 s_clock use_GSL 66 UFB"
| "mng_all_vals PORT_PROPERTIES_NP = row 0xc004 s_port use_GL (- 2) UFS"
| "mng_all_vals PORT_STATS_NP = row 0xc005 s_port use_GL 266 UF"
| "mng_all_vals SYNCHRONIZATION_UNCERTAIN_NP = row 0xc006 s_clock use_GSL 2 UFB"
| "mng_all_vals PORT_SERVICE_STATS_NP = row 0xc007 s_port use_GL 90 UF"
| "mng_all_vals UNICAST_MASTER_TABLE_NP = row 0xc008 s_port use_GL (- 2) UFS"
| "mng_all_vals PORT_HWCLOCK_NP = row 0xc009 s_port use_GL 16 UF"
| "mng_all_vals POWER_PROFILE_SETTINGS_NP = row 0xc00a s_port use_GSL 16 UFB"
| "mng_all_vals CMLDS_INFO_NP = row 0xc00b s_port use_GL 16 UF"
| "mng_all_vals PORT_CORRECTIONS_NP = row 0xc00c s_port use_GSL 24 UFB"
| "mng_all_vals EXTERNAL_GRANDMASTER_PROPERTIES_NP = row 0xc00d s_clock use_GSL 10 UFB"
| "mng_all_vals LAST_MNG_ID = None"
| "mng_all_vals SMPTE_MNG_ID = None"

definition mng_ids :: "mng_vals_e list" where
  "mng_ids =
     [NULL_PTP_MANAGEMENT, CLOCK_DESCRIPTION, USER_DESCRIPTION, SAVE_IN_NON_VOLATILE_STORAGE,
      RESET_NON_VOLATILE_STORAGE, INITIALIZE, FAULT_LOG, FAULT_LOG_RESET, DEFAULT_DATA_SET,
      CURRENT_DATA_SET, PARENT_DATA_SET, TIME_PROPERTIES_DATA_SET, PORT_DATA_SET, PRIORITY1,
      PRIORITY2, DOMAIN, SLAVE_ONLY, LOG_ANNOUNCE_INTERVAL, ANNOUNCE_RECEIPT_TIMEOUT,
      LOG_SYNC_INTERVAL, VERSION_NUMBER, ENABLE_PORT, DISABLE_PORT, TIME, CLOCK_ACCURACY,
      UTC_PROPERTIES, TRACEABILITY_PROPERTIES, TIMESCALE_PROPERTIES, UNICAST_NEGOTIATION_ENABLE,
      PATH_TRACE_LIST, PATH_TRACE_ENABLE, GRANDMASTER_CLUSTER_TABLE, UNICAST_MASTER_TABLE,
      UNICAST_MASTER_MAX_TABLE_SIZE, ACCEPTABLE_MASTER_TABLE, ACCEPTABLE_MASTER_TABLE_ENABLED,
      ACCEPTABLE_MASTER_MAX_TABLE_SIZE, ALTERNATE_MASTER, ALTERNATE_TIME_OFFSET_ENABLE,
      ALTERNATE_TIME_OFFSET_NAME, ALTERNATE_TIME_OFFSET_MAX_KEY,
      ALTERNATE_TIME_OFFSET_PROPERTIES, TRANSPARENT_CLOCK_PORT_DATA_SET,
      LOG_MIN_PDELAY_REQ_INTERVAL, TRANSPARENT_CLOCK_DEFAULT_DATA_SET, PRIMARY_DOMAIN,
      DELAY_MECHANISM, EXTERNAL_PORT_CONFIGURATION_ENABLED, MASTER_ONLY,
      HOLDOVER_UPGRADE_ENABLE, EXT_PORT_CONFIG_PORT_DATA_SET, TIME_STATUS_NP,
      GRANDMASTER_SETTINGS_NP, PORT_DATA_SET_NP, SUBSCRIBE_EVENTS_NP, PORT_PROPERTIES_NP,
      PORT_STATS_NP, SYNCHRONIZATION_UNCERTAIN_NP, PORT_SERVICE_STATS_NP,
      UNICAST_MASTER_TABLE_NP, PORT_HWCLOCK_NP, POWER_PROFILE_SETTINGS_NP, CMLDS_INFO_NP,
      PORT_CORRECTIONS_NP, EXTERNAL_GRANDMASTER_PROPERTIES_NP]"

text \<open>The value of an enumerator.\<close>

primrec mng_ord :: "mng_vals_e \<Rightarrow> nat" where
  "mng_ord NULL_PTP_MANAGEMENT = 0"
| "mng_ord CLOCK_DESCRIPTION = 1"
| "mng_ord USER_DESCRIPTION = 2"
| "mng_ord SAVE_IN_NON_VOLATILE_STORAGE = 3"
| "mng_ord RESET_NON_VOLATILE_STORAGE = 4"
| "mng_ord INITIALIZE = 5"
| "mng_ord FAULT_LOG = 6"
| "mng_ord FAULT_LOG_RESET = 7"
| "mng_ord DEFAULT_DATA_SET = 8"
| "mng_ord CURRENT_DATA_SET = 9"
| "mng_ord PARENT_DATA_SET = 10"
| "mng_ord TIME_PROPERTIES_DATA_SET = 11"
| "mng_ord PORT_DATA_SET = 12"
| "mng_ord PRIORITY1 = 13"
| "mng_ord PRIORITY2 = 14"
| "mng_ord DOMAIN = 15"
| "mng_ord SLAVE_ONLY = 16"
| "mng_ord LOG_ANNOUNCE_INTERVAL = 17"
| "mng_ord ANNOUNCE_RECEIPT_TIMEOUT = 18"
| "mng_ord LOG_SYNC_INTERVAL = 19"
| "mng_ord VERSION_NUMBER = 20"
| "mng_ord ENABLE_PORT = 21"
| "mng_ord DISABLE_PORT = 22"
| "mng_ord TIME = 23"
| "mng_ord CLOCK_ACCURACY = 24"
| "mng_ord UTC_PROPERTIES = 25"
| "mng_ord TRACEABILITY_PROPERTIES = 26"
| "mng_ord TIMESCALE_PROPERTIES = 27"
| "mng_ord UNICAST_NEGOTIATION_ENABLE = 28"
| "mng_ord PATH_TRACE_LIST = 29"
| "mng_ord PATH_TRACE_ENABLE = 30"
| "mng_ord GRANDMASTER_CLUSTER_TABLE = 31"
| "mng_ord UNICAST_MASTER_TABLE = 32"
| "mng_ord UNICAST_MASTER_MAX_TABLE_SIZE = 33"
| "mng_ord ACCEPTABLE_MASTER_TABLE = 34"
| "mng_ord ACCEPTABLE_MASTER_TABLE_ENABLED = 35"
| "mng_ord ACCEPTABLE_MASTER_MAX_TABLE_SIZE = 36"
| "mng_ord ALTERNATE_MASTER = 37"
| "mng_ord ALTERNATE_TIME_OFFSET_ENABLE = 38"
| "mng_ord ALTERNATE_TIME_OFFSET_NAME = 39"
| "mng_ord ALTERNATE_TIME_OFFSET_MAX_KEY = 40"
| "mng_ord ALTERNATE_TIME_OFFSET_PROPERTIES = 41"
| "mng_ord TRANSPARENT_CLOCK_PORT_DATA_SET = 42"
| "mng_ord LOG_MIN_PDELAY_REQ_INTERVAL = 43"
| "mng_ord TRANSPARENT_CLOCK_DEFAULT_DATA_SET = 44"
| "mng_ord PRIMARY_DOMAIN = 45"
| "mng_ord DELAY_MECHANISM = 46"
| "mng_ord EXTERNAL_PORT_CONFIGURATION_ENABLED = 47"
| "mng_ord MASTER_ONLY = 48"
| "mng_ord HOLDOVER_UPGRADE_ENABLE = 49"
| "mng_ord EXT_PORT_CONFIG_PORT_DATA_SET = 50"
| "mng_ord TIME_STATUS_NP = 51"
| "mng_ord GRANDMASTER_SETTINGS_NP = 52"
| "mng_ord PORT_DATA_SET_NP = 53"
| "mng_ord SUBSCRIBE_EVENTS_NP = 54"
| "mng_ord PORT_PROPERTIES_NP = 55"
| "mng_ord PORT_STATS_NP = 56"
| "mng_ord SYNCHRONIZATION_UNCERTAIN_NP = 57"
| "mng_ord PORT_SERVICE_STATS_NP = 58"
| "mng_ord UNICAST_MASTER_TABLE_NP = 59"
| "mng_ord PORT_HWCLOCK_NP = 60"
| "mng_ord POWER_PROFILE_SETTINGS_NP = 61"
| "mng_ord CMLDS_INFO_NP = 62"
| "mng_ord PORT_CORRECTIONS_NP = 63"
| "mng_ord EXTERNAL_GRANDMASTER_PROPERTIES_NP = 64"
| "mng_ord LAST_MNG_ID = 65"
| "mng_ord SMPTE_MNG_ID = 512"

definition FIRST_MNG_ID :: mng_vals_e where
  "FIRST_MNG_ID = NULL_PTP_MANAGEMENT"

text \<open>The cells of the row of an identifier, and the identifiers that have one.\<close>

definition mng_value :: "mng_vals_e \<Rightarrow> uint16_t" where
  "mng_value i = (case mng_all_vals i of Some m \<Rightarrow> mid_value m | None \<Rightarrow> 0)"

definition mng_allowed :: "mng_vals_e \<Rightarrow> uint8_t" where
  "mng_allowed i = (case mng_all_vals i of Some m \<Rightarrow> mid_allowed m | None \<Rightarrow> 0)"

definition mng_size :: "mng_vals_e \<Rightarrow> int" where
  "mng_size i = (case mng_all_vals i of Some m \<Rightarrow> mid_size m | None \<Rightarrow> - 1)"

definition isValidId :: "mng_vals_e \<Rightarrow> bool" where
  "isValidId i \<longleftrightarrow> mng_ord FIRST_MNG_ID \<le> mng_ord i \<and> mng_ord i < mng_ord LAST_MNG_ID"

subsection \<open>Searching the table\<close>

text \<open>
  \<^verbatim>\<open>Message::findTlvId\<close> on the value in host order: the \<^verbatim>\<open>switch\<close> over the values,
  then linuxptp identifiers are blocked unless linuxptp is used.
\<close>

definition findTlvId :: "uint16_t \<Rightarrow> implementSpecific_e \<Rightarrow> mng_vals_e option" where
  "findTlvId val spec =
     (case find (\<lambda>i. mng_value i = val) mng_ids of
        None \<Rightarrow> None
      | Some i \<Rightarrow>
          if spec \<noteq> linuxptp \<and> mng_allowed i AND A_USE_LINUXPTP \<noteq> 0 then None else Some i)"

definition checkReplyAction :: "mng_vals_e \<Rightarrow> uint8_t \<Rightarrow> bool" where
  "checkReplyAction replayTlv_id actionField =
     (let allowed = mng_allowed replayTlv_id in
      if actionField = ACKNOWLEDGE then allowed AND A_COMMAND \<noteq> 0
      else if actionField = RESPONSE then allowed AND (A_SET OR A_GET) \<noteq> 0
      else False)"

definition allowedAction :: "MsgParams \<Rightarrow> mng_vals_e \<Rightarrow> actionField_e \<Rightarrow> bool" where
  "allowedAction prms i action =
     (if action \<noteq> GET \<and> action \<noteq> SET \<and> action \<noteq> COMMAND then False
      else if \<not> isValidId i then False
      else if implementSpecific prms \<noteq> linuxptp \<and> mng_allowed i AND A_USE_LINUXPTP \<noteq> 0
      then False
      else mng_allowed i AND push_bit (unat action) 1 \<noteq> 0)"

section \<open>The search in the table\<close>

text \<open>Facts on the table of identifiers: the values are distinct, so the search inverts it.\<close>

lemma isValidId_row: "Mng_Ids.isValidId i \<longleftrightarrow> mng_all_vals i \<noteq> None"
  by (cases i) (simp_all add: isValidId_def FIRST_MNG_ID_def)

lemma isValidId_ids: "Mng_Ids.isValidId i \<longleftrightarrow> i \<in> set mng_ids"
  by (cases i) (simp_all add: isValidId_def FIRST_MNG_ID_def mng_ids_def)

lemma distinct_values: "distinct (map mng_value mng_ids)"
  by (simp add: mng_ids_def mng_value_def)

lemma find_inj:
  assumes "distinct (map f xs)" "x \<in> set xs"
  shows "find (\<lambda>y. f y = f x) xs = Some x"
  using assms by (induction xs) auto

lemma find_Some_elem: "find P xs = Some x \<Longrightarrow> x \<in> set xs \<and> P x"
  by (induction xs) (auto split: if_splits)

lemma findTlvId_iff:
  "findTlvId v spec = Some i \<longleftrightarrow>
     Mng_Ids.isValidId i \<and> mng_value i = v \<and>
     (spec = linuxptp \<or> mng_allowed i AND A_USE_LINUXPTP = 0)"
proof
  assume "findTlvId v spec = Some i"
  then show "Mng_Ids.isValidId i \<and> mng_value i = v \<and>
      (spec = linuxptp \<or> mng_allowed i AND A_USE_LINUXPTP = 0)"
    by (auto simp: findTlvId_def isValidId_ids split: option.splits if_splits dest: find_Some_elem)
next
  assume "Mng_Ids.isValidId i \<and> mng_value i = v \<and>
    (spec = linuxptp \<or> mng_allowed i AND A_USE_LINUXPTP = 0)"
  then show "findTlvId v spec = Some i"
    using find_inj [OF distinct_values, of i] by (auto simp: findTlvId_def isValidId_ids)
qed

end
