(* ===== verification/Msg_Proc.thy ===== *)
theory Msg_Proc
  imports Ptp_Types
begin

unbundle bit_operations_syntax

text \<open>
  The cursor \<^verbatim>\<open>struct MsgProc\<close> of \<^verbatim>\<open>src/comp.h\<close> and the \<^verbatim>\<open>proc\<close> functions of
  \<^verbatim>\<open>src/mngTlvs.cpp\<close> for the basic types. One function serves both directions: with
  \<^verbatim>\<open>m_build\<close> it stores the value at the cursor, without it loads the value. As in the
  source a function returns \<open>True\<close> on error and updates the value it is given by reference
  and the cursor: \<^typ>\<open>'a \<Rightarrow> 's \<Rightarrow> bool \<times> 'a \<times> 's\<close>. The buffer the pointer
  \<^verbatim>\<open>m_cur\<close> points into is \<open>m_buf\<close>, and \<open>m_cur\<close> is an offset.
\<close>

subsection \<open>The cursor\<close>

record MsgProc =
  m_build :: bool
  m_buf :: octets
  m_cur :: nat
  m_left :: int
  m_size :: nat
  m_err :: MNG_PARSE_ERROR_e

type_synonym 'a proc = "'a \<Rightarrow> MsgProc \<Rightarrow> bool \<times> 'a \<times> MsgProc"

definition move :: "nat \<Rightarrow> MsgProc \<Rightarrow> MsgProc" where
  "move n mp =
     mp\<lparr>m_cur := m_cur mp + n, m_left := m_left mp - int n, m_size := m_size mp + n\<rparr>"

definition store :: "octets \<Rightarrow> MsgProc \<Rightarrow> MsgProc" where
  "store bs mp = mp\<lparr>m_buf := mem_write (m_buf mp) (m_cur mp) bs\<rparr>"

definition load :: "nat \<Rightarrow> MsgProc \<Rightarrow> octets" where
  "load n mp = mem_read (m_buf mp) (m_cur mp) n"

text \<open>
  The body the functions share: fail when fewer than \<open>n\<close> octets are left, otherwise store
  or load \<open>n\<close> octets at the cursor and move it.
\<close>

definition transfer :: "nat \<Rightarrow> ('a \<Rightarrow> octets) \<Rightarrow> (octets \<Rightarrow> 'a) \<Rightarrow> 'a proc" where
  "transfer n enc dec x mp =
     (if m_left mp < int n then (True, x, mp)
      else if m_build mp then (False, x, move n (store (enc x) mp))
      else (False, dec (load n mp), move n mp))"

subsection \<open>Integers\<close>

definition procB8 :: "uint8_t proc" where
  "procB8 = transfer 1 (\<lambda>x. [x]) hd"

definition procBU :: "('a::len word) proc" where
  "procBU = transfer (LENGTH('a) div 8) cpu_to_net net_to_cpu"

text \<open>A signed integer goes through the unsigned type of its width.\<close>

definition procBN :: "('a::len word) proc" where
  "procBN = transfer (LENGTH('a) div 8) cpu_to_net net_to_cpu"

definition procLe :: "uint64_t proc" where
  "procLe = transfer 8 cpu_to_le64 le_to_cpu64"

definition procRes :: "'d proc" where
  "procRes d mp = (case procB8 0 mp of (e, _, mp') \<Rightarrow> (e, d, mp'))"

definition procE8 :: "uint8_t proc" where
  "procE8 x mp =
     (case procB8 (if m_build mp then x else 0) mp of
        (ret, y, mp') \<Rightarrow> (ret, if m_build mp then x else y, mp'))"

definition procE16 :: "uint16_t proc" where
  "procE16 x mp =
     (case procBU (if m_build mp then x else 0) mp of
        (ret, y, mp') \<Rightarrow> (ret, if m_build mp then x else y, mp'))"

definition proc48 :: "UInteger48_t proc" where
  "proc48 x mp =
     (if m_left mp < 6 then (True, x, mp)
      else if m_build mp \<and> x > UINT48_MAX
      then (True, x, mp\<lparr>m_err := MNG_PARSE_ERROR_VAL\<rparr>)
      else
        let high = (if m_build mp then ucast (drop_bit 32 x AND 0xffff) else 0) :: uint16_t;
            low = (if m_build mp then ucast (x AND 0xffffffff) else 0) :: uint32_t
        in case procBU high mp of (e1, high', mp1) \<Rightarrow>
             if e1 then (True, x, mp1)
             else case procBU low mp1 of (e2, low', mp2) \<Rightarrow>
               if e2 then (True, x, mp2)
               else (False,
                     if m_build mp2 then x else ucast low' OR push_bit 32 (ucast high'),
                     mp2))"

definition sig_16bits :: uint16_t where
  "sig_16bits = push_bit 15 1"

definition sig_64bits :: uint64_t where
  "sig_64bits = push_bit 63 1"

definition proc48s :: "Integer48_t proc" where
  "proc48s x mp =
     (if m_left mp < 6 then (True, x, mp)
      else if m_build mp \<and> (sint x < sint INT48_MIN \<or> sint INT48_MAX < sint x)
      then (True, x, mp\<lparr>m_err := MNG_PARSE_ERROR_VAL\<rparr>)
      else
        let high0 = ucast (signed_drop_bit 32 x AND 0x7fff) :: uint16_t;
            high = (if m_build mp
                    then (if sint x < 0 then high0 OR sig_16bits else high0) else 0);
            low = (if m_build mp then ucast (x AND 0xffffffff) else 0) :: uint32_t
        in case procBU high mp of (e1, high', mp1) \<Rightarrow>
             if e1 then (True, x, mp1)
             else case procBU low mp1 of (e2, low', mp2) \<Rightarrow>
               if e2 then (True, x, mp2)
               else
                 let ret = ucast low' OR push_bit 32 (ucast high' AND 0x7fff);
                     ret' = (if high' AND sig_16bits \<noteq> 0 then ret OR sig_64bits else ret)
                 in (False, if m_build mp2 then x else ret', mp2))"

text \<open>
  \<^verbatim>\<open>proc(Float64_t)\<close> on a machine whose \<^verbatim>\<open>double\<close> is a 64 bits IEEE 754 number in host
  order: its image is copied to a 64 bits integer.
\<close>

definition proc_Float64 :: "Float64_t proc" where
  "proc_Float64 x mp = (if m_left mp < 8 then (True, x, mp) else procBU x mp)"

subsection \<open>Octets\<close>

definition proc_octets :: "nat \<Rightarrow> octets proc" where
  "proc_octets n = transfer n (take n) id"

text \<open>
  \<^verbatim>\<open>proc(string &, len)\<close> and \<^verbatim>\<open>proc(Binary &, len)\<close>. When building the parameter
  \<^verbatim>\<open>uint16_t len\<close> is replaced by the length of the value, modulo \<open>2 ^ 16\<close>. The string
  copies \<open>len\<close> octets; \<^verbatim>\<open>Binary::copy\<close> copies the whole value.
\<close>

definition proc_string :: "uint16_t \<Rightarrow> octets proc" where
  "proc_string len str mp =
     (let n = (if m_build mp then unat (of_nat (length str) :: uint16_t) else unat len)
      in if m_left mp < int n then (True, str, mp)
         else if m_build mp then (False, str, move n (store (take n str) mp))
         else (False, load n mp, move n mp))"

definition proc_Binary :: "uint16_t \<Rightarrow> octets proc" where
  "proc_Binary len bin mp =
     (let n = (if m_build mp then unat (of_nat (length bin) :: uint16_t) else unat len)
      in if m_left mp < int n then (True, bin, mp)
         else if m_build mp then (False, bin, move n (store bin mp))
         else (False, load n mp, move n mp))"

text \<open>\<^verbatim>\<open>proc(d.dataField, m_left)\<close>: the octets left, as the \<^verbatim>\<open>uint16_t\<close> length.\<close>

definition proc_Binary_left :: "octets proc" where
  "proc_Binary_left bin mp = proc_Binary (word_of_int (m_left mp)) bin mp"

definition procFlags :: "uint8_t \<Rightarrow> uint8_t proc" where
  "procFlags flagsMask flags mp =
     (let flags' = (if m_build mp
                    then (if flagsMask > 1 then flags AND flagsMask
                          else if flags > 0 then 1 else flags)
                    else flags)
      in procB8 flags' mp)"

subsection \<open>Sequences\<close>

text \<open>
  \<open>fld get upd p\<close> runs \<open>p\<close> on a field of a structure, and \<open>proc_seq\<close> is the short
  circuit \<^verbatim>\<open>proc(d.a) || proc(d.b) || \<dots>\<close>: it stops at the first error.
\<close>

definition fld :: "('d \<Rightarrow> 'a) \<Rightarrow> (('a \<Rightarrow> 'a) \<Rightarrow> 'd \<Rightarrow> 'd) \<Rightarrow> 'a proc \<Rightarrow> 'd proc" where
  "fld get upd p d mp = (case p (get d) mp of (e, x, mp') \<Rightarrow> (e, upd (\<lambda>_. x) d, mp'))"

fun proc_seq :: "'d proc list \<Rightarrow> 'd proc" where
  "proc_seq [] d mp = (False, d, mp)"
| "proc_seq (p # ps) d mp =
     (case p d mp of (e, d', mp') \<Rightarrow> if e then (True, d', mp') else proc_seq ps d' mp')"

text \<open>An assignment before the fields, and one done only when building.\<close>

definition assign :: "('d \<Rightarrow> 'd) \<Rightarrow> 'd proc" where
  "assign f d mp = (False, f d, mp)"

definition on_build :: "('d \<Rightarrow> 'd) \<Rightarrow> 'd proc" where
  "on_build f d mp = (False, if m_build mp then f d else d, mp)"

text \<open>A choice between two bodies, on the structure as it is at that point.\<close>

definition proc_if :: "('d \<Rightarrow> bool) \<Rightarrow> 'd proc \<Rightarrow> 'd proc \<Rightarrow> 'd proc" where
  "proc_if c p q d mp = (if c d then p d mp else q d mp)"

text \<open>A field whose length or count parameter is read from the structure.\<close>

definition fld_len ::
    "('d \<Rightarrow> 'n) \<Rightarrow> ('d \<Rightarrow> 'a) \<Rightarrow> (('a \<Rightarrow> 'a) \<Rightarrow> 'd \<Rightarrow> 'd) \<Rightarrow> ('n \<Rightarrow> 'a proc) \<Rightarrow> 'd proc"
  where "fld_len len get upd p d = fld get upd (p (len d)) d"

text \<open>
  The lists. \<^verbatim>\<open>vector_b\<close>: when building every element is processed. When parsing,
  \<^verbatim>\<open>vector_f\<close> reads \<open>count\<close> elements and \<^verbatim>\<open>vector_o\<close> reads while an element fits.
\<close>

fun vector_b :: "'a proc \<Rightarrow> 'a list proc" where
  "vector_b p [] mp = (False, [], mp)"
| "vector_b p (x # xs) mp =
     (case p x mp of (e, x', mp') \<Rightarrow>
        if e then (True, x' # xs, mp')
        else case vector_b p xs mp' of (e', xs', mp'') \<Rightarrow> (e', x' # xs', mp''))"

fun parse_n :: "'a \<Rightarrow> 'a proc \<Rightarrow> nat \<Rightarrow> 'a list proc" where
  "parse_n new p 0 acc mp = (False, acc, mp)"
| "parse_n new p (Suc n) acc mp =
     (case p new mp of (e, x, mp') \<Rightarrow>
        if e then (True, acc, mp') else parse_n new p n (acc @ [x]) mp')"

definition vector_f :: "'a \<Rightarrow> 'a proc \<Rightarrow> uint32_t \<Rightarrow> 'a list proc" where
  "vector_f new p count vec mp =
     (if m_build mp then vector_b p vec mp else parse_n new p (unat count) vec mp)"

text \<open>
  The fuel of \<open>parse_while\<close> bounds the number of elements. An element consumes \<open>size\<close>
  octets, so the octets left are enough fuel.
\<close>

fun parse_while :: "nat \<Rightarrow> 'a \<Rightarrow> 'a proc \<Rightarrow> nat \<Rightarrow> 'a list proc" where
  "parse_while 0 new p sz acc mp = (False, acc, mp)"
| "parse_while (Suc fuel) new p sz acc mp =
     (if m_left mp < int sz then (False, acc, mp)
      else case p new mp of (e, x, mp') \<Rightarrow>
        if e then (True, acc, mp') else parse_while fuel new p sz (acc @ [x]) mp')"

definition vector_o :: "'a \<Rightarrow> 'a proc \<Rightarrow> nat \<Rightarrow> 'a list proc" where
  "vector_o new p sz vec mp =
     (if m_build mp then vector_b p vec mp
      else parse_while (Suc (nat (m_left mp))) new p sz vec mp)"

subsection \<open>The basic structures\<close>

definition proc_TimeInterval :: "TimeInterval_t proc" where
  "proc_TimeInterval =
     proc_seq [fld scaledNanoseconds scaledNanoseconds_update procBN]"

definition proc_Timestamp :: "Timestamp_t proc" where
  "proc_Timestamp =
     proc_seq [fld secondsField secondsField_update proc48,
               fld nanosecondsField nanosecondsField_update procBU]"

definition proc_ClockIdentity :: "ClockIdentity_t proc" where
  "proc_ClockIdentity = proc_seq [fld ci_v ci_v_update (proc_octets ClockIdentity_size)]"

definition proc_PortIdentity :: "PortIdentity_t proc" where
  "proc_PortIdentity =
     proc_seq [fld clockIdentity clockIdentity_update proc_ClockIdentity,
               fld portNumber portNumber_update procBU]"

definition proc_PortAddress :: "PortAddress_t proc" where
  "proc_PortAddress =
     proc_seq
       [assign (\<lambda>d. d\<lparr>addressLength := of_nat (length (addressField d))\<rparr>),
        fld networkProtocol networkProtocol_update procE16,
        fld addressLength addressLength_update procBU,
        fld_len addressLength addressField addressField_update proc_Binary]"

definition proc_ClockQuality :: "ClockQuality_t proc" where
  "proc_ClockQuality =
     proc_seq [fld clockClass clockClass_update procB8,
               fld clockAccuracy clockAccuracy_update procE8,
               fld offsetScaledLogVariance offsetScaledLogVariance_update procBU]"

text \<open>\<^verbatim>\<open>sz > UINT8_MAX\<close> is tested on the text before the fields, in both directions.\<close>

definition text_too_long :: "PTPText_t proc" where
  "text_too_long d mp = (length (textField d) > 255, d, mp)"

definition proc_PTPText :: "PTPText_t proc" where
  "proc_PTPText =
     proc_seq
       [assign (\<lambda>d. d\<lparr>lengthField := of_nat (length (textField d))\<rparr>),
        text_too_long,
        fld lengthField lengthField_update procB8,
        fld_len (\<lambda>d. ucast (lengthField d)) textField textField_update proc_string]"

definition check_faultRecordLength :: "FaultRecord_t proc" where
  "check_faultRecordLength d mp =
     (if \<not> m_build mp \<and> unat (faultRecordLength d) \<noteq> FaultRecord_size d
      then (True, d, mp\<lparr>m_err := MNG_PARSE_ERROR_SIZE_MISS\<rparr>)
      else (False, d, mp))"

definition proc_FaultRecord :: "FaultRecord_t proc" where
  "proc_FaultRecord =
     proc_seq
       [on_build (\<lambda>d. d\<lparr>faultRecordLength := of_nat (FaultRecord_size d)\<rparr>),
        fld faultRecordLength faultRecordLength_update procBU,
        fld faultTime faultTime_update proc_Timestamp,
        fld severityCode severityCode_update procE8,
        fld faultName faultName_update proc_PTPText,
        fld faultValue faultValue_update proc_PTPText,
        fld faultDescription faultDescription_update proc_PTPText,
        check_faultRecordLength]"

definition proc_AcceptableMaster :: "AcceptableMaster_t proc" where
  "proc_AcceptableMaster =
     proc_seq [fld acceptablePortIdentity acceptablePortIdentity_update proc_PortIdentity,
               fld alternatePriority1 alternatePriority1_update procB8]"

definition proc_LinuxptpUnicastMaster :: "LinuxptpUnicastMaster_t proc" where
  "proc_LinuxptpUnicastMaster =
     proc_seq [fld portIdentity portIdentity_update proc_PortIdentity,
               fld clockQuality clockQuality_update proc_ClockQuality,
               fld selected selected_update procB8,
               fld portState portState_update procE8,
               fld priority1 priority1_update procB8,
               fld priority2 priority2_update procB8,
               fld portAddress portAddress_update proc_PortAddress]"

text \<open>Objects as \<^verbatim>\<open>T rec = {}\<close> makes them.\<close>

definition zero_Timestamp :: Timestamp_t where
  "zero_Timestamp = \<lparr>secondsField = 0, nanosecondsField = 0\<rparr>"

definition zero_TimeInterval :: TimeInterval_t where
  "zero_TimeInterval = \<lparr>scaledNanoseconds = 0\<rparr>"

definition zero_ClockIdentity :: ClockIdentity_t where
  "zero_ClockIdentity = \<lparr>ci_v = replicate 8 0\<rparr>"

definition zero_PortIdentity :: PortIdentity_t where
  "zero_PortIdentity = \<lparr>clockIdentity = zero_ClockIdentity, portNumber = 0\<rparr>"

definition zero_PortAddress :: PortAddress_t where
  "zero_PortAddress = \<lparr>networkProtocol = 0, addressLength = 0, addressField = []\<rparr>"

definition zero_ClockQuality :: ClockQuality_t where
  "zero_ClockQuality = \<lparr>clockClass = 0, clockAccuracy = 0, offsetScaledLogVariance = 0\<rparr>"

definition zero_PTPText :: PTPText_t where
  "zero_PTPText = \<lparr>lengthField = 0, textField = []\<rparr>"

definition zero_FaultRecord :: FaultRecord_t where
  "zero_FaultRecord =
     \<lparr>faultRecordLength = 0, faultTime = zero_Timestamp, severityCode = 0,
      faultName = zero_PTPText, faultValue = zero_PTPText, faultDescription = zero_PTPText\<rparr>"

definition zero_AcceptableMaster :: AcceptableMaster_t where
  "zero_AcceptableMaster =
     \<lparr>acceptablePortIdentity = zero_PortIdentity, alternatePriority1 = 0\<rparr>"

definition zero_LinuxptpUnicastMaster :: LinuxptpUnicastMaster_t where
  "zero_LinuxptpUnicastMaster =
     \<lparr>portIdentity = zero_PortIdentity, clockQuality = zero_ClockQuality, selected = 0,
      portState = 0, priority1 = 0, priority2 = 0, portAddress = zero_PortAddress\<rparr>"

end
