(* ===== verification/Sig_Records.thy ===== *)
theory Sig_Records
  imports Msg_Proc
begin

unbundle bit_operations_syntax

text \<open>
  The TLVs of signaling messages: the structures of \<^verbatim>\<open>src/sigTlvs.m4\<close> and the functions
  of \<^verbatim>\<open>src/sigTlvs.cpp\<close> that process them, in the notation of the management TLVs, and
  the SMPTE TLV a COMMAND message may carry. The management TLVs inside a signaling message
  are with the message.
\<close>

subsection \<open>Records of the lists\<close>

record SLAVE_RX_SYNC_TIMING_DATA_rec_t =
  sequenceId :: UInteger16_t
  syncOriginTimestamp :: Timestamp_t
  totalCorrectionField :: TimeInterval_t
  scaledCumulativeRateOffset :: Integer32_t
  syncEventIngressTimestamp :: Timestamp_t

definition zero_SLAVE_RX_SYNC_TIMING_DATA_rec :: SLAVE_RX_SYNC_TIMING_DATA_rec_t where
  "zero_SLAVE_RX_SYNC_TIMING_DATA_rec =
     \<lparr>SLAVE_RX_SYNC_TIMING_DATA_rec_t.sequenceId = 0,
      SLAVE_RX_SYNC_TIMING_DATA_rec_t.syncOriginTimestamp = zero_Timestamp,
      SLAVE_RX_SYNC_TIMING_DATA_rec_t.totalCorrectionField = zero_TimeInterval,
      SLAVE_RX_SYNC_TIMING_DATA_rec_t.scaledCumulativeRateOffset = 0,
      SLAVE_RX_SYNC_TIMING_DATA_rec_t.syncEventIngressTimestamp = zero_Timestamp\<rparr>"

definition SLAVE_RX_SYNC_TIMING_DATA_rec_size :: nat where
  "SLAVE_RX_SYNC_TIMING_DATA_rec_size = 2 + 2 * Timestamp_size + TimeInterval_size + 4"

definition proc_SLAVE_RX_SYNC_TIMING_DATA_rec :: "SLAVE_RX_SYNC_TIMING_DATA_rec_t proc" where
  "proc_SLAVE_RX_SYNC_TIMING_DATA_rec =
     proc_seq
       [fld SLAVE_RX_SYNC_TIMING_DATA_rec_t.sequenceId SLAVE_RX_SYNC_TIMING_DATA_rec_t.sequenceId_update procBU,
        fld SLAVE_RX_SYNC_TIMING_DATA_rec_t.syncOriginTimestamp SLAVE_RX_SYNC_TIMING_DATA_rec_t.syncOriginTimestamp_update proc_Timestamp,
        fld SLAVE_RX_SYNC_TIMING_DATA_rec_t.totalCorrectionField SLAVE_RX_SYNC_TIMING_DATA_rec_t.totalCorrectionField_update proc_TimeInterval,
        fld SLAVE_RX_SYNC_TIMING_DATA_rec_t.scaledCumulativeRateOffset SLAVE_RX_SYNC_TIMING_DATA_rec_t.scaledCumulativeRateOffset_update procBN,
        fld SLAVE_RX_SYNC_TIMING_DATA_rec_t.syncEventIngressTimestamp SLAVE_RX_SYNC_TIMING_DATA_rec_t.syncEventIngressTimestamp_update proc_Timestamp]"

record SLAVE_RX_SYNC_COMPUTED_DATA_rec_t =
  sequenceId :: UInteger16_t
  offsetFromMaster :: TimeInterval_t
  meanPathDelay :: TimeInterval_t
  scaledNeighborRateRatio :: Integer32_t

definition zero_SLAVE_RX_SYNC_COMPUTED_DATA_rec :: SLAVE_RX_SYNC_COMPUTED_DATA_rec_t where
  "zero_SLAVE_RX_SYNC_COMPUTED_DATA_rec =
     \<lparr>SLAVE_RX_SYNC_COMPUTED_DATA_rec_t.sequenceId = 0,
      SLAVE_RX_SYNC_COMPUTED_DATA_rec_t.offsetFromMaster = zero_TimeInterval,
      SLAVE_RX_SYNC_COMPUTED_DATA_rec_t.meanPathDelay = zero_TimeInterval,
      SLAVE_RX_SYNC_COMPUTED_DATA_rec_t.scaledNeighborRateRatio = 0\<rparr>"

definition SLAVE_RX_SYNC_COMPUTED_DATA_rec_size :: nat where
  "SLAVE_RX_SYNC_COMPUTED_DATA_rec_size = 2 + 2 * TimeInterval_size + 4"

definition proc_SLAVE_RX_SYNC_COMPUTED_DATA_rec :: "SLAVE_RX_SYNC_COMPUTED_DATA_rec_t proc" where
  "proc_SLAVE_RX_SYNC_COMPUTED_DATA_rec =
     proc_seq
       [fld SLAVE_RX_SYNC_COMPUTED_DATA_rec_t.sequenceId SLAVE_RX_SYNC_COMPUTED_DATA_rec_t.sequenceId_update procBU,
        fld SLAVE_RX_SYNC_COMPUTED_DATA_rec_t.offsetFromMaster SLAVE_RX_SYNC_COMPUTED_DATA_rec_t.offsetFromMaster_update proc_TimeInterval,
        fld SLAVE_RX_SYNC_COMPUTED_DATA_rec_t.meanPathDelay SLAVE_RX_SYNC_COMPUTED_DATA_rec_t.meanPathDelay_update proc_TimeInterval,
        fld SLAVE_RX_SYNC_COMPUTED_DATA_rec_t.scaledNeighborRateRatio SLAVE_RX_SYNC_COMPUTED_DATA_rec_t.scaledNeighborRateRatio_update procBN]"

record SLAVE_TX_EVENT_TIMESTAMPS_rec_t =
  sequenceId :: UInteger16_t
  eventEgressTimestamp :: Timestamp_t

definition zero_SLAVE_TX_EVENT_TIMESTAMPS_rec :: SLAVE_TX_EVENT_TIMESTAMPS_rec_t where
  "zero_SLAVE_TX_EVENT_TIMESTAMPS_rec =
     \<lparr>SLAVE_TX_EVENT_TIMESTAMPS_rec_t.sequenceId = 0,
      SLAVE_TX_EVENT_TIMESTAMPS_rec_t.eventEgressTimestamp = zero_Timestamp\<rparr>"

definition SLAVE_TX_EVENT_TIMESTAMPS_rec_size :: nat where
  "SLAVE_TX_EVENT_TIMESTAMPS_rec_size = 2 + Timestamp_size"

definition proc_SLAVE_TX_EVENT_TIMESTAMPS_rec :: "SLAVE_TX_EVENT_TIMESTAMPS_rec_t proc" where
  "proc_SLAVE_TX_EVENT_TIMESTAMPS_rec =
     proc_seq
       [fld SLAVE_TX_EVENT_TIMESTAMPS_rec_t.sequenceId SLAVE_TX_EVENT_TIMESTAMPS_rec_t.sequenceId_update procBU,
        fld SLAVE_TX_EVENT_TIMESTAMPS_rec_t.eventEgressTimestamp SLAVE_TX_EVENT_TIMESTAMPS_rec_t.eventEgressTimestamp_update proc_Timestamp]"

record SLAVE_DELAY_TIMING_DATA_NP_rec_t =
  sequenceId :: UInteger16_t
  delayOriginTimestamp :: Timestamp_t
  totalCorrectionField :: TimeInterval_t
  delayResponseTimestamp :: Timestamp_t

definition zero_SLAVE_DELAY_TIMING_DATA_NP_rec :: SLAVE_DELAY_TIMING_DATA_NP_rec_t where
  "zero_SLAVE_DELAY_TIMING_DATA_NP_rec =
     \<lparr>SLAVE_DELAY_TIMING_DATA_NP_rec_t.sequenceId = 0,
      SLAVE_DELAY_TIMING_DATA_NP_rec_t.delayOriginTimestamp = zero_Timestamp,
      SLAVE_DELAY_TIMING_DATA_NP_rec_t.totalCorrectionField = zero_TimeInterval,
      SLAVE_DELAY_TIMING_DATA_NP_rec_t.delayResponseTimestamp = zero_Timestamp\<rparr>"

definition SLAVE_DELAY_TIMING_DATA_NP_rec_size :: nat where
  "SLAVE_DELAY_TIMING_DATA_NP_rec_size = 2 + TimeInterval_size + 2 * Timestamp_size"

definition proc_SLAVE_DELAY_TIMING_DATA_NP_rec :: "SLAVE_DELAY_TIMING_DATA_NP_rec_t proc" where
  "proc_SLAVE_DELAY_TIMING_DATA_NP_rec =
     proc_seq
       [fld SLAVE_DELAY_TIMING_DATA_NP_rec_t.sequenceId SLAVE_DELAY_TIMING_DATA_NP_rec_t.sequenceId_update procBU,
        fld SLAVE_DELAY_TIMING_DATA_NP_rec_t.delayOriginTimestamp SLAVE_DELAY_TIMING_DATA_NP_rec_t.delayOriginTimestamp_update proc_Timestamp,
        fld SLAVE_DELAY_TIMING_DATA_NP_rec_t.totalCorrectionField SLAVE_DELAY_TIMING_DATA_NP_rec_t.totalCorrectionField_update proc_TimeInterval,
        fld SLAVE_DELAY_TIMING_DATA_NP_rec_t.delayResponseTimestamp SLAVE_DELAY_TIMING_DATA_NP_rec_t.delayResponseTimestamp_update proc_Timestamp]"

subsection \<open>ORGANIZATION_EXTENSION\<close>

record ORGANIZATION_EXTENSION_t =
  organizationId :: octets
  organizationSubType :: octets
  dataField :: octets

definition new_ORGANIZATION_EXTENSION :: ORGANIZATION_EXTENSION_t where
  "new_ORGANIZATION_EXTENSION =
     \<lparr>ORGANIZATION_EXTENSION_t.organizationId = replicate 3 0,
      ORGANIZATION_EXTENSION_t.organizationSubType = replicate 3 0,
      ORGANIZATION_EXTENSION_t.dataField = []\<rparr>"

definition ORGANIZATION_EXTENSION_f :: "ORGANIZATION_EXTENSION_t proc" where
  "ORGANIZATION_EXTENSION_f =
     proc_seq
       [fld ORGANIZATION_EXTENSION_t.organizationId ORGANIZATION_EXTENSION_t.organizationId_update (proc_octets 3),
        fld ORGANIZATION_EXTENSION_t.organizationSubType ORGANIZATION_EXTENSION_t.organizationSubType_update (proc_octets 3),
        fld ORGANIZATION_EXTENSION_t.dataField ORGANIZATION_EXTENSION_t.dataField_update proc_Binary_left]"

subsection \<open>PATH_TRACE\<close>

record PATH_TRACE_t =
  pathSequence :: "ClockIdentity_t list"

definition new_PATH_TRACE :: PATH_TRACE_t where
  "new_PATH_TRACE =
     \<lparr>PATH_TRACE_t.pathSequence = []\<rparr>"

definition PATH_TRACE_f :: "PATH_TRACE_t proc" where
  "PATH_TRACE_f =
     proc_seq
       [fld PATH_TRACE_t.pathSequence PATH_TRACE_t.pathSequence_update (vector_o zero_ClockIdentity proc_ClockIdentity ClockIdentity_size)]"

subsection \<open>ALTERNATE_TIME_OFFSET_INDICATOR\<close>

record ALTERNATE_TIME_OFFSET_INDICATOR_t =
  keyField :: UInteger8_t
  currentOffset :: Integer32_t
  jumpSeconds :: Integer32_t
  timeOfNextJump :: UInteger48_t
  displayName :: PTPText_t

definition new_ALTERNATE_TIME_OFFSET_INDICATOR :: ALTERNATE_TIME_OFFSET_INDICATOR_t where
  "new_ALTERNATE_TIME_OFFSET_INDICATOR =
     \<lparr>ALTERNATE_TIME_OFFSET_INDICATOR_t.keyField = 0,
      ALTERNATE_TIME_OFFSET_INDICATOR_t.currentOffset = 0,
      ALTERNATE_TIME_OFFSET_INDICATOR_t.jumpSeconds = 0,
      ALTERNATE_TIME_OFFSET_INDICATOR_t.timeOfNextJump = 0,
      ALTERNATE_TIME_OFFSET_INDICATOR_t.displayName = zero_PTPText\<rparr>"

definition ALTERNATE_TIME_OFFSET_INDICATOR_f :: "ALTERNATE_TIME_OFFSET_INDICATOR_t proc" where
  "ALTERNATE_TIME_OFFSET_INDICATOR_f =
     proc_seq
       [fld ALTERNATE_TIME_OFFSET_INDICATOR_t.keyField ALTERNATE_TIME_OFFSET_INDICATOR_t.keyField_update procB8,
        fld ALTERNATE_TIME_OFFSET_INDICATOR_t.currentOffset ALTERNATE_TIME_OFFSET_INDICATOR_t.currentOffset_update procBN,
        fld ALTERNATE_TIME_OFFSET_INDICATOR_t.jumpSeconds ALTERNATE_TIME_OFFSET_INDICATOR_t.jumpSeconds_update procBN,
        fld ALTERNATE_TIME_OFFSET_INDICATOR_t.timeOfNextJump ALTERNATE_TIME_OFFSET_INDICATOR_t.timeOfNextJump_update proc48,
        fld ALTERNATE_TIME_OFFSET_INDICATOR_t.displayName ALTERNATE_TIME_OFFSET_INDICATOR_t.displayName_update proc_PTPText]"

subsection \<open>ENHANCED_ACCURACY_METRICS\<close>

record ENHANCED_ACCURACY_METRICS_t =
  bcHopCount :: UInteger8_t
  tcHopCount :: UInteger8_t
  maxGmInaccuracy :: TimeInterval_t
  varGmInaccuracy :: Float64_t
  maxTransientInaccuracy :: TimeInterval_t
  varTransientInaccuracy :: Float64_t
  maxDynamicInaccuracy :: TimeInterval_t
  varDynamicInaccuracy :: Float64_t
  maxStaticInstanceInaccuracy :: TimeInterval_t
  varStaticInstanceInaccuracy :: Float64_t
  maxStaticMediumInaccuracy :: TimeInterval_t
  varStaticMediumInaccuracy :: Float64_t

definition new_ENHANCED_ACCURACY_METRICS :: ENHANCED_ACCURACY_METRICS_t where
  "new_ENHANCED_ACCURACY_METRICS =
     \<lparr>ENHANCED_ACCURACY_METRICS_t.bcHopCount = 0, ENHANCED_ACCURACY_METRICS_t.tcHopCount = 0,
      ENHANCED_ACCURACY_METRICS_t.maxGmInaccuracy = zero_TimeInterval,
      ENHANCED_ACCURACY_METRICS_t.varGmInaccuracy = 0,
      ENHANCED_ACCURACY_METRICS_t.maxTransientInaccuracy = zero_TimeInterval,
      ENHANCED_ACCURACY_METRICS_t.varTransientInaccuracy = 0,
      ENHANCED_ACCURACY_METRICS_t.maxDynamicInaccuracy = zero_TimeInterval,
      ENHANCED_ACCURACY_METRICS_t.varDynamicInaccuracy = 0,
      ENHANCED_ACCURACY_METRICS_t.maxStaticInstanceInaccuracy = zero_TimeInterval,
      ENHANCED_ACCURACY_METRICS_t.varStaticInstanceInaccuracy = 0,
      ENHANCED_ACCURACY_METRICS_t.maxStaticMediumInaccuracy = zero_TimeInterval,
      ENHANCED_ACCURACY_METRICS_t.varStaticMediumInaccuracy = 0\<rparr>"

definition ENHANCED_ACCURACY_METRICS_f :: "ENHANCED_ACCURACY_METRICS_t proc" where
  "ENHANCED_ACCURACY_METRICS_f =
     proc_seq
       [fld ENHANCED_ACCURACY_METRICS_t.bcHopCount ENHANCED_ACCURACY_METRICS_t.bcHopCount_update procB8,
        fld ENHANCED_ACCURACY_METRICS_t.tcHopCount ENHANCED_ACCURACY_METRICS_t.tcHopCount_update procB8,
        procRes,
        procRes,
        fld ENHANCED_ACCURACY_METRICS_t.maxGmInaccuracy ENHANCED_ACCURACY_METRICS_t.maxGmInaccuracy_update proc_TimeInterval,
        fld ENHANCED_ACCURACY_METRICS_t.varGmInaccuracy ENHANCED_ACCURACY_METRICS_t.varGmInaccuracy_update proc_Float64,
        fld ENHANCED_ACCURACY_METRICS_t.maxTransientInaccuracy ENHANCED_ACCURACY_METRICS_t.maxTransientInaccuracy_update proc_TimeInterval,
        fld ENHANCED_ACCURACY_METRICS_t.varTransientInaccuracy ENHANCED_ACCURACY_METRICS_t.varTransientInaccuracy_update proc_Float64,
        fld ENHANCED_ACCURACY_METRICS_t.maxDynamicInaccuracy ENHANCED_ACCURACY_METRICS_t.maxDynamicInaccuracy_update proc_TimeInterval,
        fld ENHANCED_ACCURACY_METRICS_t.varDynamicInaccuracy ENHANCED_ACCURACY_METRICS_t.varDynamicInaccuracy_update proc_Float64,
        fld ENHANCED_ACCURACY_METRICS_t.maxStaticInstanceInaccuracy ENHANCED_ACCURACY_METRICS_t.maxStaticInstanceInaccuracy_update proc_TimeInterval,
        fld ENHANCED_ACCURACY_METRICS_t.varStaticInstanceInaccuracy ENHANCED_ACCURACY_METRICS_t.varStaticInstanceInaccuracy_update proc_Float64,
        fld ENHANCED_ACCURACY_METRICS_t.maxStaticMediumInaccuracy ENHANCED_ACCURACY_METRICS_t.maxStaticMediumInaccuracy_update proc_TimeInterval,
        fld ENHANCED_ACCURACY_METRICS_t.varStaticMediumInaccuracy ENHANCED_ACCURACY_METRICS_t.varStaticMediumInaccuracy_update proc_Float64]"

subsection \<open>L1_SYNC\<close>

record L1_SYNC_t =
  flags1 :: uint8_t
  flags2 :: uint8_t
  flags3 :: uint8_t
  phaseOffsetTx :: TimeInterval_t
  phaseOffsetTxTimestamp :: Timestamp_t
  freqOffsetTx :: TimeInterval_t
  freqOffsetTxTimestamp :: Timestamp_t

definition L1_SYNC_flagsMask1 :: uint8_t where
  "L1_SYNC_flagsMask1 = 0xf"

definition L1_SYNC_flagsMask2 :: uint8_t where
  "L1_SYNC_flagsMask2 = 0x7"

definition L1_SYNC_flagsMask3 :: uint8_t where
  "L1_SYNC_flagsMask3 = 0x7"

definition L1_SYNC_optParamsEnabled :: uint8_t where
  "L1_SYNC_optParamsEnabled = 0x8"

definition new_L1_SYNC :: L1_SYNC_t where
  "new_L1_SYNC =
     \<lparr>L1_SYNC_t.flags1 = 0, L1_SYNC_t.flags2 = 0, L1_SYNC_t.flags3 = 0,
      L1_SYNC_t.phaseOffsetTx = zero_TimeInterval,
      L1_SYNC_t.phaseOffsetTxTimestamp = zero_Timestamp,
      L1_SYNC_t.freqOffsetTx = zero_TimeInterval,
      L1_SYNC_t.freqOffsetTxTimestamp = zero_Timestamp\<rparr>"

definition L1_SYNC_f :: "L1_SYNC_t proc" where
  "L1_SYNC_f =
     proc_seq
       [fld L1_SYNC_t.flags1 L1_SYNC_t.flags1_update (procFlags L1_SYNC_flagsMask1),
        fld L1_SYNC_t.flags2 L1_SYNC_t.flags2_update (procFlags L1_SYNC_flagsMask2),
        proc_if (\<lambda>d. L1_SYNC_t.flags1 d AND L1_SYNC_optParamsEnabled > 0)
          (proc_seq
             [fld L1_SYNC_t.flags3 L1_SYNC_t.flags3_update (procFlags L1_SYNC_flagsMask3),
              fld L1_SYNC_t.phaseOffsetTx L1_SYNC_t.phaseOffsetTx_update proc_TimeInterval,
              fld L1_SYNC_t.phaseOffsetTxTimestamp L1_SYNC_t.phaseOffsetTxTimestamp_update proc_Timestamp,
              fld L1_SYNC_t.freqOffsetTx L1_SYNC_t.freqOffsetTx_update proc_TimeInterval,
              fld L1_SYNC_t.freqOffsetTxTimestamp L1_SYNC_t.freqOffsetTxTimestamp_update proc_Timestamp])
          (assign (\<lambda>d. d\<lparr>L1_SYNC_t.flags3 := 0, L1_SYNC_t.phaseOffsetTx := zero_TimeInterval,
              L1_SYNC_t.phaseOffsetTxTimestamp := zero_Timestamp,
              L1_SYNC_t.freqOffsetTx := zero_TimeInterval,
              L1_SYNC_t.freqOffsetTxTimestamp := zero_Timestamp\<rparr>))]"

subsection \<open>PORT_COMMUNICATION_AVAILABILITY\<close>

record PORT_COMMUNICATION_AVAILABILITY_t =
  syncMessageAvailability :: uint8_t
  delayRespMessageAvailability :: uint8_t

definition PORT_COMMUNICATION_AVAILABILITY_flagsMask1 :: uint8_t where
  "PORT_COMMUNICATION_AVAILABILITY_flagsMask1 = 0xf"

definition PORT_COMMUNICATION_AVAILABILITY_flagsMask2 :: uint8_t where
  "PORT_COMMUNICATION_AVAILABILITY_flagsMask2 = 0xf"

definition new_PORT_COMMUNICATION_AVAILABILITY :: PORT_COMMUNICATION_AVAILABILITY_t where
  "new_PORT_COMMUNICATION_AVAILABILITY =
     \<lparr>PORT_COMMUNICATION_AVAILABILITY_t.syncMessageAvailability = 0,
      PORT_COMMUNICATION_AVAILABILITY_t.delayRespMessageAvailability = 0\<rparr>"

definition PORT_COMMUNICATION_AVAILABILITY_f :: "PORT_COMMUNICATION_AVAILABILITY_t proc" where
  "PORT_COMMUNICATION_AVAILABILITY_f =
     proc_seq
       [fld PORT_COMMUNICATION_AVAILABILITY_t.syncMessageAvailability PORT_COMMUNICATION_AVAILABILITY_t.syncMessageAvailability_update (procFlags PORT_COMMUNICATION_AVAILABILITY_flagsMask1),
        fld PORT_COMMUNICATION_AVAILABILITY_t.delayRespMessageAvailability PORT_COMMUNICATION_AVAILABILITY_t.delayRespMessageAvailability_update (procFlags PORT_COMMUNICATION_AVAILABILITY_flagsMask2)]"

subsection \<open>PROTOCOL_ADDRESS\<close>

record PROTOCOL_ADDRESS_t =
  portProtocolAddress :: PortAddress_t

definition new_PROTOCOL_ADDRESS :: PROTOCOL_ADDRESS_t where
  "new_PROTOCOL_ADDRESS =
     \<lparr>PROTOCOL_ADDRESS_t.portProtocolAddress = zero_PortAddress\<rparr>"

definition PROTOCOL_ADDRESS_f :: "PROTOCOL_ADDRESS_t proc" where
  "PROTOCOL_ADDRESS_f =
     proc_seq
       [fld PROTOCOL_ADDRESS_t.portProtocolAddress PROTOCOL_ADDRESS_t.portProtocolAddress_update proc_PortAddress]"

subsection \<open>SLAVE_RX_SYNC_TIMING_DATA\<close>

record SLAVE_RX_SYNC_TIMING_DATA_t =
  syncSourcePortIdentity :: PortIdentity_t
  list :: "SLAVE_RX_SYNC_TIMING_DATA_rec_t list"

definition new_SLAVE_RX_SYNC_TIMING_DATA :: SLAVE_RX_SYNC_TIMING_DATA_t where
  "new_SLAVE_RX_SYNC_TIMING_DATA =
     \<lparr>SLAVE_RX_SYNC_TIMING_DATA_t.syncSourcePortIdentity = zero_PortIdentity,
      SLAVE_RX_SYNC_TIMING_DATA_t.list = []\<rparr>"

definition SLAVE_RX_SYNC_TIMING_DATA_f :: "SLAVE_RX_SYNC_TIMING_DATA_t proc" where
  "SLAVE_RX_SYNC_TIMING_DATA_f =
     proc_seq
       [fld SLAVE_RX_SYNC_TIMING_DATA_t.syncSourcePortIdentity SLAVE_RX_SYNC_TIMING_DATA_t.syncSourcePortIdentity_update proc_PortIdentity,
        fld SLAVE_RX_SYNC_TIMING_DATA_t.list SLAVE_RX_SYNC_TIMING_DATA_t.list_update (vector_o zero_SLAVE_RX_SYNC_TIMING_DATA_rec proc_SLAVE_RX_SYNC_TIMING_DATA_rec SLAVE_RX_SYNC_TIMING_DATA_rec_size)]"

subsection \<open>SLAVE_RX_SYNC_COMPUTED_DATA\<close>

record SLAVE_RX_SYNC_COMPUTED_DATA_t =
  sourcePortIdentity :: PortIdentity_t
  computedFlags :: uint8_t
  list :: "SLAVE_RX_SYNC_COMPUTED_DATA_rec_t list"

definition SLAVE_RX_SYNC_COMPUTED_DATA_flagsMask :: uint8_t where
  "SLAVE_RX_SYNC_COMPUTED_DATA_flagsMask = 0x7"

definition new_SLAVE_RX_SYNC_COMPUTED_DATA :: SLAVE_RX_SYNC_COMPUTED_DATA_t where
  "new_SLAVE_RX_SYNC_COMPUTED_DATA =
     \<lparr>SLAVE_RX_SYNC_COMPUTED_DATA_t.sourcePortIdentity = zero_PortIdentity,
      SLAVE_RX_SYNC_COMPUTED_DATA_t.computedFlags = 0, SLAVE_RX_SYNC_COMPUTED_DATA_t.list = []\<rparr>"

definition SLAVE_RX_SYNC_COMPUTED_DATA_f :: "SLAVE_RX_SYNC_COMPUTED_DATA_t proc" where
  "SLAVE_RX_SYNC_COMPUTED_DATA_f =
     proc_seq
       [fld SLAVE_RX_SYNC_COMPUTED_DATA_t.sourcePortIdentity SLAVE_RX_SYNC_COMPUTED_DATA_t.sourcePortIdentity_update proc_PortIdentity,
        fld SLAVE_RX_SYNC_COMPUTED_DATA_t.computedFlags SLAVE_RX_SYNC_COMPUTED_DATA_t.computedFlags_update (procFlags SLAVE_RX_SYNC_COMPUTED_DATA_flagsMask),
        procRes,
        fld SLAVE_RX_SYNC_COMPUTED_DATA_t.list SLAVE_RX_SYNC_COMPUTED_DATA_t.list_update (vector_o zero_SLAVE_RX_SYNC_COMPUTED_DATA_rec proc_SLAVE_RX_SYNC_COMPUTED_DATA_rec SLAVE_RX_SYNC_COMPUTED_DATA_rec_size)]"

subsection \<open>SLAVE_TX_EVENT_TIMESTAMPS\<close>

record SLAVE_TX_EVENT_TIMESTAMPS_t =
  sourcePortIdentity :: PortIdentity_t
  eventMessageType :: msgType_e
  list :: "SLAVE_TX_EVENT_TIMESTAMPS_rec_t list"

definition new_SLAVE_TX_EVENT_TIMESTAMPS :: SLAVE_TX_EVENT_TIMESTAMPS_t where
  "new_SLAVE_TX_EVENT_TIMESTAMPS =
     \<lparr>SLAVE_TX_EVENT_TIMESTAMPS_t.sourcePortIdentity = zero_PortIdentity,
      SLAVE_TX_EVENT_TIMESTAMPS_t.eventMessageType = 0, SLAVE_TX_EVENT_TIMESTAMPS_t.list = []\<rparr>"

definition SLAVE_TX_EVENT_TIMESTAMPS_f :: "SLAVE_TX_EVENT_TIMESTAMPS_t proc" where
  "SLAVE_TX_EVENT_TIMESTAMPS_f =
     proc_seq
       [fld SLAVE_TX_EVENT_TIMESTAMPS_t.sourcePortIdentity SLAVE_TX_EVENT_TIMESTAMPS_t.sourcePortIdentity_update proc_PortIdentity,
        fld SLAVE_TX_EVENT_TIMESTAMPS_t.eventMessageType SLAVE_TX_EVENT_TIMESTAMPS_t.eventMessageType_update procE8,
        procRes,
        fld SLAVE_TX_EVENT_TIMESTAMPS_t.list SLAVE_TX_EVENT_TIMESTAMPS_t.list_update (vector_o zero_SLAVE_TX_EVENT_TIMESTAMPS_rec proc_SLAVE_TX_EVENT_TIMESTAMPS_rec SLAVE_TX_EVENT_TIMESTAMPS_rec_size)]"

subsection \<open>CUMULATIVE_RATE_RATIO\<close>

record CUMULATIVE_RATE_RATIO_t =
  scaledCumulativeRateRatio :: Integer32_t

definition new_CUMULATIVE_RATE_RATIO :: CUMULATIVE_RATE_RATIO_t where
  "new_CUMULATIVE_RATE_RATIO =
     \<lparr>CUMULATIVE_RATE_RATIO_t.scaledCumulativeRateRatio = 0\<rparr>"

definition CUMULATIVE_RATE_RATIO_f :: "CUMULATIVE_RATE_RATIO_t proc" where
  "CUMULATIVE_RATE_RATIO_f =
     proc_seq
       [fld CUMULATIVE_RATE_RATIO_t.scaledCumulativeRateRatio CUMULATIVE_RATE_RATIO_t.scaledCumulativeRateRatio_update procBN]"

subsection \<open>SMPTE_ORGANIZATION_EXTENSION\<close>

record SMPTE_ORGANIZATION_EXTENSION_t =
  organizationId :: octets
  organizationSubType :: octets
  defaultSystemFrameRate_numerator :: UInteger32_t
  defaultSystemFrameRate_denominator :: UInteger32_t
  masterLockingStatus :: SMPTEmasterLockingStatus_e
  timeAddressFlags :: uint8_t
  currentLocalOffset :: Integer32_t
  jumpSeconds :: Integer32_t
  timeOfNextJump :: UInteger48_t
  timeOfNextJam :: UInteger48_t
  timeOfPreviousJam :: UInteger48_t
  previousJamLocalOffset :: Integer32_t
  daylightSaving :: uint8_t
  leapSecondJump :: uint8_t

definition new_SMPTE_ORGANIZATION_EXTENSION :: SMPTE_ORGANIZATION_EXTENSION_t where
  "new_SMPTE_ORGANIZATION_EXTENSION =
     \<lparr>SMPTE_ORGANIZATION_EXTENSION_t.organizationId = replicate 3 0,
      SMPTE_ORGANIZATION_EXTENSION_t.organizationSubType = replicate 3 0,
      SMPTE_ORGANIZATION_EXTENSION_t.defaultSystemFrameRate_numerator = 0,
      SMPTE_ORGANIZATION_EXTENSION_t.defaultSystemFrameRate_denominator = 0,
      SMPTE_ORGANIZATION_EXTENSION_t.masterLockingStatus = 0,
      SMPTE_ORGANIZATION_EXTENSION_t.timeAddressFlags = 0,
      SMPTE_ORGANIZATION_EXTENSION_t.currentLocalOffset = 0,
      SMPTE_ORGANIZATION_EXTENSION_t.jumpSeconds = 0,
      SMPTE_ORGANIZATION_EXTENSION_t.timeOfNextJump = 0,
      SMPTE_ORGANIZATION_EXTENSION_t.timeOfNextJam = 0,
      SMPTE_ORGANIZATION_EXTENSION_t.timeOfPreviousJam = 0,
      SMPTE_ORGANIZATION_EXTENSION_t.previousJamLocalOffset = 0,
      SMPTE_ORGANIZATION_EXTENSION_t.daylightSaving = 0,
      SMPTE_ORGANIZATION_EXTENSION_t.leapSecondJump = 0\<rparr>"

definition smpte_oui :: octets where
  "smpte_oui = [0x68, 0x97, 0xe8]"

definition check_smpte_id :: "SMPTE_ORGANIZATION_EXTENSION_t proc" where
  "check_smpte_id d mp =
     (if memcmp (SMPTE_ORGANIZATION_EXTENSION_t.organizationId d) smpte_oui \<noteq> 0
      then (True, d, mp\<lparr>m_err := MNG_PARSE_ERROR_INVALID_ID\<rparr>)
      else (False, d, mp))"

definition SMPTE_ORGANIZATION_EXTENSION_size :: nat where
  "SMPTE_ORGANIZATION_EXTENSION_size = 3 * 2 + 4 * 2 + 1 * 3 + 4 * 3 + 6 * 3 + 1"

definition SMPTE_ORGANIZATION_EXTENSION_f :: "SMPTE_ORGANIZATION_EXTENSION_t proc" where
  "SMPTE_ORGANIZATION_EXTENSION_f =
     proc_seq
       [fld SMPTE_ORGANIZATION_EXTENSION_t.organizationId SMPTE_ORGANIZATION_EXTENSION_t.organizationId_update (proc_octets 3),
        check_smpte_id,
        fld SMPTE_ORGANIZATION_EXTENSION_t.organizationSubType SMPTE_ORGANIZATION_EXTENSION_t.organizationSubType_update (proc_octets 3),
        fld SMPTE_ORGANIZATION_EXTENSION_t.defaultSystemFrameRate_numerator SMPTE_ORGANIZATION_EXTENSION_t.defaultSystemFrameRate_numerator_update procBU,
        fld SMPTE_ORGANIZATION_EXTENSION_t.defaultSystemFrameRate_denominator SMPTE_ORGANIZATION_EXTENSION_t.defaultSystemFrameRate_denominator_update procBU,
        fld SMPTE_ORGANIZATION_EXTENSION_t.masterLockingStatus SMPTE_ORGANIZATION_EXTENSION_t.masterLockingStatus_update procE8,
        fld SMPTE_ORGANIZATION_EXTENSION_t.timeAddressFlags SMPTE_ORGANIZATION_EXTENSION_t.timeAddressFlags_update procB8,
        fld SMPTE_ORGANIZATION_EXTENSION_t.currentLocalOffset SMPTE_ORGANIZATION_EXTENSION_t.currentLocalOffset_update procBN,
        fld SMPTE_ORGANIZATION_EXTENSION_t.jumpSeconds SMPTE_ORGANIZATION_EXTENSION_t.jumpSeconds_update procBN,
        fld SMPTE_ORGANIZATION_EXTENSION_t.timeOfNextJump SMPTE_ORGANIZATION_EXTENSION_t.timeOfNextJump_update proc48,
        fld SMPTE_ORGANIZATION_EXTENSION_t.timeOfNextJam SMPTE_ORGANIZATION_EXTENSION_t.timeOfNextJam_update proc48,
        fld SMPTE_ORGANIZATION_EXTENSION_t.timeOfPreviousJam SMPTE_ORGANIZATION_EXTENSION_t.timeOfPreviousJam_update proc48,
        fld SMPTE_ORGANIZATION_EXTENSION_t.previousJamLocalOffset SMPTE_ORGANIZATION_EXTENSION_t.previousJamLocalOffset_update procBN,
        fld SMPTE_ORGANIZATION_EXTENSION_t.daylightSaving SMPTE_ORGANIZATION_EXTENSION_t.daylightSaving_update procB8,
        fld SMPTE_ORGANIZATION_EXTENSION_t.leapSecondJump SMPTE_ORGANIZATION_EXTENSION_t.leapSecondJump_update procB8]"

subsection \<open>SLAVE_DELAY_TIMING_DATA_NP\<close>

record SLAVE_DELAY_TIMING_DATA_NP_t =
  sourcePortIdentity :: PortIdentity_t
  list :: "SLAVE_DELAY_TIMING_DATA_NP_rec_t list"

definition new_SLAVE_DELAY_TIMING_DATA_NP :: SLAVE_DELAY_TIMING_DATA_NP_t where
  "new_SLAVE_DELAY_TIMING_DATA_NP =
     \<lparr>SLAVE_DELAY_TIMING_DATA_NP_t.sourcePortIdentity = zero_PortIdentity,
      SLAVE_DELAY_TIMING_DATA_NP_t.list = []\<rparr>"

definition SLAVE_DELAY_TIMING_DATA_NP_f :: "SLAVE_DELAY_TIMING_DATA_NP_t proc" where
  "SLAVE_DELAY_TIMING_DATA_NP_f =
     proc_seq
       [fld SLAVE_DELAY_TIMING_DATA_NP_t.sourcePortIdentity SLAVE_DELAY_TIMING_DATA_NP_t.sourcePortIdentity_update proc_PortIdentity,
        fld SLAVE_DELAY_TIMING_DATA_NP_t.list SLAVE_DELAY_TIMING_DATA_NP_t.list_update (vector_o zero_SLAVE_DELAY_TIMING_DATA_NP_rec proc_SLAVE_DELAY_TIMING_DATA_NP_rec SLAVE_DELAY_TIMING_DATA_NP_rec_size)]"

end
