(* ===== verification/Mng_Records.thy ===== *)
theory Mng_Records
  imports Msg_Proc
begin

unbundle bit_operations_syntax

text \<open>
  The management TLVs: the structures of \<^verbatim>\<open>src/mngTlvs.m4\<close>, the flag masks, and for
  each TLV the function \<open>X_f\<close> of \<^verbatim>\<open>src/mngTlvs.cpp\<close> that builds or parses its
  dataField, as the sequence of its fields. \<open>new_X\<close> is the object a parser allocates (its
  numbers are not initialised by the code; they are zero here, and no result depends on
  them). \<open>X_s\<close> is the size the message reserves for a TLV with a variable dataField.
\<close>

definition vector_l :: "('a \<Rightarrow> nat) \<Rightarrow> nat \<Rightarrow> 'a list \<Rightarrow> nat" where
  "vector_l sz ret vec = foldl (\<lambda>r x. r + sz x) ret vec"

subsection \<open>CLOCK_DESCRIPTION\<close>

record CLOCK_DESCRIPTION_t =
  clockType :: uint16_t
  physicalLayerProtocol :: PTPText_t
  physicalAddressLength :: UInteger16_t
  physicalAddress :: octets
  protocolAddress :: PortAddress_t
  manufacturerIdentity :: octets
  productDescription :: PTPText_t
  revisionData :: PTPText_t
  userDescription :: PTPText_t
  profileIdentity :: octets

definition new_CLOCK_DESCRIPTION :: CLOCK_DESCRIPTION_t where
  "new_CLOCK_DESCRIPTION =
     \<lparr>CLOCK_DESCRIPTION_t.clockType = 0,
      CLOCK_DESCRIPTION_t.physicalLayerProtocol = zero_PTPText,
      CLOCK_DESCRIPTION_t.physicalAddressLength = 0, CLOCK_DESCRIPTION_t.physicalAddress = [],
      CLOCK_DESCRIPTION_t.protocolAddress = zero_PortAddress,
      CLOCK_DESCRIPTION_t.manufacturerIdentity = replicate 3 0,
      CLOCK_DESCRIPTION_t.productDescription = zero_PTPText,
      CLOCK_DESCRIPTION_t.revisionData = zero_PTPText,
      CLOCK_DESCRIPTION_t.userDescription = zero_PTPText,
      CLOCK_DESCRIPTION_t.profileIdentity = replicate 6 0\<rparr>"

definition CLOCK_DESCRIPTION_f :: "CLOCK_DESCRIPTION_t proc" where
  "CLOCK_DESCRIPTION_f =
     proc_seq
       [assign (\<lambda>d. d\<lparr>CLOCK_DESCRIPTION_t.physicalAddressLength := of_nat (length (CLOCK_DESCRIPTION_t.physicalAddress d))\<rparr>),
        fld CLOCK_DESCRIPTION_t.clockType CLOCK_DESCRIPTION_t.clockType_update procBU,
        fld CLOCK_DESCRIPTION_t.physicalLayerProtocol CLOCK_DESCRIPTION_t.physicalLayerProtocol_update proc_PTPText,
        fld CLOCK_DESCRIPTION_t.physicalAddressLength CLOCK_DESCRIPTION_t.physicalAddressLength_update procBU,
        fld_len CLOCK_DESCRIPTION_t.physicalAddressLength CLOCK_DESCRIPTION_t.physicalAddress CLOCK_DESCRIPTION_t.physicalAddress_update proc_Binary,
        fld CLOCK_DESCRIPTION_t.protocolAddress CLOCK_DESCRIPTION_t.protocolAddress_update proc_PortAddress,
        fld CLOCK_DESCRIPTION_t.manufacturerIdentity CLOCK_DESCRIPTION_t.manufacturerIdentity_update (proc_octets 3),
        procRes,
        fld CLOCK_DESCRIPTION_t.productDescription CLOCK_DESCRIPTION_t.productDescription_update proc_PTPText,
        fld CLOCK_DESCRIPTION_t.revisionData CLOCK_DESCRIPTION_t.revisionData_update proc_PTPText,
        fld CLOCK_DESCRIPTION_t.userDescription CLOCK_DESCRIPTION_t.userDescription_update proc_PTPText,
        fld CLOCK_DESCRIPTION_t.profileIdentity CLOCK_DESCRIPTION_t.profileIdentity_update (proc_octets 6)]"

definition CLOCK_DESCRIPTION_s :: "CLOCK_DESCRIPTION_t \<Rightarrow> nat" where
  "CLOCK_DESCRIPTION_s d = 13 + length (CLOCK_DESCRIPTION_t.physicalAddress d) + PortAddress_size (CLOCK_DESCRIPTION_t.protocolAddress d) +
     PTPText_size (CLOCK_DESCRIPTION_t.physicalLayerProtocol d) + PTPText_size (CLOCK_DESCRIPTION_t.productDescription d) +
     PTPText_size (CLOCK_DESCRIPTION_t.revisionData d) + PTPText_size (CLOCK_DESCRIPTION_t.userDescription d)"

subsection \<open>USER_DESCRIPTION\<close>

record USER_DESCRIPTION_t =
  userDescription :: PTPText_t

definition new_USER_DESCRIPTION :: USER_DESCRIPTION_t where
  "new_USER_DESCRIPTION =
     \<lparr>USER_DESCRIPTION_t.userDescription = zero_PTPText\<rparr>"

definition USER_DESCRIPTION_f :: "USER_DESCRIPTION_t proc" where
  "USER_DESCRIPTION_f =
     proc_seq
       [fld USER_DESCRIPTION_t.userDescription USER_DESCRIPTION_t.userDescription_update proc_PTPText]"

definition USER_DESCRIPTION_s :: "USER_DESCRIPTION_t \<Rightarrow> nat" where
  "USER_DESCRIPTION_s d = PTPText_size (USER_DESCRIPTION_t.userDescription d)"

subsection \<open>INITIALIZE\<close>

record INITIALIZE_t =
  initializationKey :: uint16_t

definition new_INITIALIZE :: INITIALIZE_t where
  "new_INITIALIZE =
     \<lparr>INITIALIZE_t.initializationKey = 0\<rparr>"

definition INITIALIZE_f :: "INITIALIZE_t proc" where
  "INITIALIZE_f =
     proc_seq
       [fld INITIALIZE_t.initializationKey INITIALIZE_t.initializationKey_update procBU]"

subsection \<open>FAULT_LOG\<close>

record FAULT_LOG_t =
  numberOfFaultRecords :: UInteger16_t
  faultRecords :: "FaultRecord_t list"

definition new_FAULT_LOG :: FAULT_LOG_t where
  "new_FAULT_LOG =
     \<lparr>FAULT_LOG_t.numberOfFaultRecords = 0, FAULT_LOG_t.faultRecords = []\<rparr>"

definition FAULT_LOG_f :: "FAULT_LOG_t proc" where
  "FAULT_LOG_f =
     proc_seq
       [on_build (\<lambda>d. d\<lparr>FAULT_LOG_t.numberOfFaultRecords := of_nat (length (FAULT_LOG_t.faultRecords d))\<rparr>),
        fld FAULT_LOG_t.numberOfFaultRecords FAULT_LOG_t.numberOfFaultRecords_update procBU,
        fld_len (\<lambda>d. ucast (FAULT_LOG_t.numberOfFaultRecords d)) FAULT_LOG_t.faultRecords FAULT_LOG_t.faultRecords_update (vector_f zero_FaultRecord proc_FaultRecord)]"

definition FAULT_LOG_s :: "FAULT_LOG_t \<Rightarrow> nat" where
  "FAULT_LOG_s d = vector_l FaultRecord_size 2 (FAULT_LOG_t.faultRecords d)"

subsection \<open>DEFAULT_DATA_SET\<close>

record DEFAULT_DATA_SET_t =
  flags :: uint8_t
  numberPorts :: UInteger16_t
  priority1 :: UInteger8_t
  clockQuality :: ClockQuality_t
  priority2 :: UInteger8_t
  clockIdentity :: ClockIdentity_t
  domainNumber :: UInteger8_t

definition DEFAULT_DATA_SET_flagsMask :: uint8_t where
  "DEFAULT_DATA_SET_flagsMask = 0x3"

definition new_DEFAULT_DATA_SET :: DEFAULT_DATA_SET_t where
  "new_DEFAULT_DATA_SET =
     \<lparr>DEFAULT_DATA_SET_t.flags = 0, DEFAULT_DATA_SET_t.numberPorts = 0,
      DEFAULT_DATA_SET_t.priority1 = 0, DEFAULT_DATA_SET_t.clockQuality = zero_ClockQuality,
      DEFAULT_DATA_SET_t.priority2 = 0, DEFAULT_DATA_SET_t.clockIdentity = zero_ClockIdentity,
      DEFAULT_DATA_SET_t.domainNumber = 0\<rparr>"

definition DEFAULT_DATA_SET_f :: "DEFAULT_DATA_SET_t proc" where
  "DEFAULT_DATA_SET_f =
     proc_seq
       [fld DEFAULT_DATA_SET_t.flags DEFAULT_DATA_SET_t.flags_update (procFlags DEFAULT_DATA_SET_flagsMask),
        procRes,
        fld DEFAULT_DATA_SET_t.numberPorts DEFAULT_DATA_SET_t.numberPorts_update procBU,
        fld DEFAULT_DATA_SET_t.priority1 DEFAULT_DATA_SET_t.priority1_update procB8,
        fld DEFAULT_DATA_SET_t.clockQuality DEFAULT_DATA_SET_t.clockQuality_update proc_ClockQuality,
        fld DEFAULT_DATA_SET_t.priority2 DEFAULT_DATA_SET_t.priority2_update procB8,
        fld DEFAULT_DATA_SET_t.clockIdentity DEFAULT_DATA_SET_t.clockIdentity_update proc_ClockIdentity,
        fld DEFAULT_DATA_SET_t.domainNumber DEFAULT_DATA_SET_t.domainNumber_update procB8]"

subsection \<open>CURRENT_DATA_SET\<close>

record CURRENT_DATA_SET_t =
  stepsRemoved :: UInteger16_t
  offsetFromMaster :: TimeInterval_t
  meanPathDelay :: TimeInterval_t

definition new_CURRENT_DATA_SET :: CURRENT_DATA_SET_t where
  "new_CURRENT_DATA_SET =
     \<lparr>CURRENT_DATA_SET_t.stepsRemoved = 0,
      CURRENT_DATA_SET_t.offsetFromMaster = zero_TimeInterval,
      CURRENT_DATA_SET_t.meanPathDelay = zero_TimeInterval\<rparr>"

definition CURRENT_DATA_SET_f :: "CURRENT_DATA_SET_t proc" where
  "CURRENT_DATA_SET_f =
     proc_seq
       [fld CURRENT_DATA_SET_t.stepsRemoved CURRENT_DATA_SET_t.stepsRemoved_update procBU,
        fld CURRENT_DATA_SET_t.offsetFromMaster CURRENT_DATA_SET_t.offsetFromMaster_update proc_TimeInterval,
        fld CURRENT_DATA_SET_t.meanPathDelay CURRENT_DATA_SET_t.meanPathDelay_update proc_TimeInterval]"

subsection \<open>PARENT_DATA_SET\<close>

record PARENT_DATA_SET_t =
  parentPortIdentity :: PortIdentity_t
  flags :: uint8_t
  observedParentOffsetScaledLogVariance :: UInteger16_t
  observedParentClockPhaseChangeRate :: Integer32_t
  grandmasterPriority1 :: UInteger8_t
  grandmasterClockQuality :: ClockQuality_t
  grandmasterPriority2 :: UInteger8_t
  grandmasterIdentity :: ClockIdentity_t

definition PARENT_DATA_SET_flagsMask :: uint8_t where
  "PARENT_DATA_SET_flagsMask = 0x1"

definition new_PARENT_DATA_SET :: PARENT_DATA_SET_t where
  "new_PARENT_DATA_SET =
     \<lparr>PARENT_DATA_SET_t.parentPortIdentity = zero_PortIdentity, PARENT_DATA_SET_t.flags = 0,
      PARENT_DATA_SET_t.observedParentOffsetScaledLogVariance = 0,
      PARENT_DATA_SET_t.observedParentClockPhaseChangeRate = 0,
      PARENT_DATA_SET_t.grandmasterPriority1 = 0,
      PARENT_DATA_SET_t.grandmasterClockQuality = zero_ClockQuality,
      PARENT_DATA_SET_t.grandmasterPriority2 = 0,
      PARENT_DATA_SET_t.grandmasterIdentity = zero_ClockIdentity\<rparr>"

definition PARENT_DATA_SET_f :: "PARENT_DATA_SET_t proc" where
  "PARENT_DATA_SET_f =
     proc_seq
       [fld PARENT_DATA_SET_t.parentPortIdentity PARENT_DATA_SET_t.parentPortIdentity_update proc_PortIdentity,
        fld PARENT_DATA_SET_t.flags PARENT_DATA_SET_t.flags_update (procFlags PARENT_DATA_SET_flagsMask),
        procRes,
        fld PARENT_DATA_SET_t.observedParentOffsetScaledLogVariance PARENT_DATA_SET_t.observedParentOffsetScaledLogVariance_update procBU,
        fld PARENT_DATA_SET_t.observedParentClockPhaseChangeRate PARENT_DATA_SET_t.observedParentClockPhaseChangeRate_update procBN,
        fld PARENT_DATA_SET_t.grandmasterPriority1 PARENT_DATA_SET_t.grandmasterPriority1_update procB8,
        fld PARENT_DATA_SET_t.grandmasterClockQuality PARENT_DATA_SET_t.grandmasterClockQuality_update proc_ClockQuality,
        fld PARENT_DATA_SET_t.grandmasterPriority2 PARENT_DATA_SET_t.grandmasterPriority2_update procB8,
        fld PARENT_DATA_SET_t.grandmasterIdentity PARENT_DATA_SET_t.grandmasterIdentity_update proc_ClockIdentity]"

subsection \<open>TIME_PROPERTIES_DATA_SET\<close>

record TIME_PROPERTIES_DATA_SET_t =
  currentUtcOffset :: Integer16_t
  flags :: uint8_t
  timeSource :: timeSource_e

definition TIME_PROPERTIES_DATA_SET_flagsMask :: uint8_t where
  "TIME_PROPERTIES_DATA_SET_flagsMask = 0x3f"

definition new_TIME_PROPERTIES_DATA_SET :: TIME_PROPERTIES_DATA_SET_t where
  "new_TIME_PROPERTIES_DATA_SET =
     \<lparr>TIME_PROPERTIES_DATA_SET_t.currentUtcOffset = 0, TIME_PROPERTIES_DATA_SET_t.flags = 0,
      TIME_PROPERTIES_DATA_SET_t.timeSource = 0\<rparr>"

definition TIME_PROPERTIES_DATA_SET_f :: "TIME_PROPERTIES_DATA_SET_t proc" where
  "TIME_PROPERTIES_DATA_SET_f =
     proc_seq
       [fld TIME_PROPERTIES_DATA_SET_t.currentUtcOffset TIME_PROPERTIES_DATA_SET_t.currentUtcOffset_update procBN,
        fld TIME_PROPERTIES_DATA_SET_t.flags TIME_PROPERTIES_DATA_SET_t.flags_update (procFlags TIME_PROPERTIES_DATA_SET_flagsMask),
        fld TIME_PROPERTIES_DATA_SET_t.timeSource TIME_PROPERTIES_DATA_SET_t.timeSource_update procE8]"

subsection \<open>PORT_DATA_SET\<close>

record PORT_DATA_SET_t =
  portIdentity :: PortIdentity_t
  portState :: portState_e
  logMinDelayReqInterval :: Integer8_t
  peerMeanPathDelay :: TimeInterval_t
  logAnnounceInterval :: Integer8_t
  announceReceiptTimeout :: UInteger8_t
  logSyncInterval :: Integer8_t
  delayMechanism :: delayMechanism_e
  logMinPdelayReqInterval :: Integer8_t
  versionNumber :: Nibble_t

definition new_PORT_DATA_SET :: PORT_DATA_SET_t where
  "new_PORT_DATA_SET =
     \<lparr>PORT_DATA_SET_t.portIdentity = zero_PortIdentity, PORT_DATA_SET_t.portState = 0,
      PORT_DATA_SET_t.logMinDelayReqInterval = 0,
      PORT_DATA_SET_t.peerMeanPathDelay = zero_TimeInterval,
      PORT_DATA_SET_t.logAnnounceInterval = 0, PORT_DATA_SET_t.announceReceiptTimeout = 0,
      PORT_DATA_SET_t.logSyncInterval = 0, PORT_DATA_SET_t.delayMechanism = 0,
      PORT_DATA_SET_t.logMinPdelayReqInterval = 0, PORT_DATA_SET_t.versionNumber = 0\<rparr>"

definition PORT_DATA_SET_f :: "PORT_DATA_SET_t proc" where
  "PORT_DATA_SET_f =
     proc_seq
       [fld PORT_DATA_SET_t.portIdentity PORT_DATA_SET_t.portIdentity_update proc_PortIdentity,
        fld PORT_DATA_SET_t.portState PORT_DATA_SET_t.portState_update procE8,
        fld PORT_DATA_SET_t.logMinDelayReqInterval PORT_DATA_SET_t.logMinDelayReqInterval_update procB8,
        fld PORT_DATA_SET_t.peerMeanPathDelay PORT_DATA_SET_t.peerMeanPathDelay_update proc_TimeInterval,
        fld PORT_DATA_SET_t.logAnnounceInterval PORT_DATA_SET_t.logAnnounceInterval_update procB8,
        fld PORT_DATA_SET_t.announceReceiptTimeout PORT_DATA_SET_t.announceReceiptTimeout_update procB8,
        fld PORT_DATA_SET_t.logSyncInterval PORT_DATA_SET_t.logSyncInterval_update procB8,
        fld PORT_DATA_SET_t.delayMechanism PORT_DATA_SET_t.delayMechanism_update procE8,
        fld PORT_DATA_SET_t.logMinPdelayReqInterval PORT_DATA_SET_t.logMinPdelayReqInterval_update procB8,
        fld PORT_DATA_SET_t.versionNumber PORT_DATA_SET_t.versionNumber_update procB8]"

subsection \<open>PRIORITY1\<close>

record PRIORITY1_t =
  priority1 :: UInteger8_t

definition new_PRIORITY1 :: PRIORITY1_t where
  "new_PRIORITY1 =
     \<lparr>PRIORITY1_t.priority1 = 0\<rparr>"

definition PRIORITY1_f :: "PRIORITY1_t proc" where
  "PRIORITY1_f =
     proc_seq
       [fld PRIORITY1_t.priority1 PRIORITY1_t.priority1_update procB8]"

subsection \<open>PRIORITY2\<close>

record PRIORITY2_t =
  priority2 :: UInteger8_t

definition new_PRIORITY2 :: PRIORITY2_t where
  "new_PRIORITY2 =
     \<lparr>PRIORITY2_t.priority2 = 0\<rparr>"

definition PRIORITY2_f :: "PRIORITY2_t proc" where
  "PRIORITY2_f =
     proc_seq
       [fld PRIORITY2_t.priority2 PRIORITY2_t.priority2_update procB8]"

subsection \<open>DOMAIN\<close>

record DOMAIN_t =
  domainNumber :: UInteger8_t

definition new_DOMAIN :: DOMAIN_t where
  "new_DOMAIN =
     \<lparr>DOMAIN_t.domainNumber = 0\<rparr>"

definition DOMAIN_f :: "DOMAIN_t proc" where
  "DOMAIN_f =
     proc_seq
       [fld DOMAIN_t.domainNumber DOMAIN_t.domainNumber_update procB8]"

subsection \<open>SLAVE_ONLY\<close>

record SLAVE_ONLY_t =
  flags :: uint8_t

definition SLAVE_ONLY_flagsMask :: uint8_t where
  "SLAVE_ONLY_flagsMask = 0x1"

definition new_SLAVE_ONLY :: SLAVE_ONLY_t where
  "new_SLAVE_ONLY =
     \<lparr>SLAVE_ONLY_t.flags = 0\<rparr>"

definition SLAVE_ONLY_f :: "SLAVE_ONLY_t proc" where
  "SLAVE_ONLY_f =
     proc_seq
       [fld SLAVE_ONLY_t.flags SLAVE_ONLY_t.flags_update (procFlags SLAVE_ONLY_flagsMask)]"

subsection \<open>LOG_ANNOUNCE_INTERVAL\<close>

record LOG_ANNOUNCE_INTERVAL_t =
  logAnnounceInterval :: Integer8_t

definition new_LOG_ANNOUNCE_INTERVAL :: LOG_ANNOUNCE_INTERVAL_t where
  "new_LOG_ANNOUNCE_INTERVAL =
     \<lparr>LOG_ANNOUNCE_INTERVAL_t.logAnnounceInterval = 0\<rparr>"

definition LOG_ANNOUNCE_INTERVAL_f :: "LOG_ANNOUNCE_INTERVAL_t proc" where
  "LOG_ANNOUNCE_INTERVAL_f =
     proc_seq
       [fld LOG_ANNOUNCE_INTERVAL_t.logAnnounceInterval LOG_ANNOUNCE_INTERVAL_t.logAnnounceInterval_update procB8]"

subsection \<open>ANNOUNCE_RECEIPT_TIMEOUT\<close>

record ANNOUNCE_RECEIPT_TIMEOUT_t =
  announceReceiptTimeout :: UInteger8_t

definition new_ANNOUNCE_RECEIPT_TIMEOUT :: ANNOUNCE_RECEIPT_TIMEOUT_t where
  "new_ANNOUNCE_RECEIPT_TIMEOUT =
     \<lparr>ANNOUNCE_RECEIPT_TIMEOUT_t.announceReceiptTimeout = 0\<rparr>"

definition ANNOUNCE_RECEIPT_TIMEOUT_f :: "ANNOUNCE_RECEIPT_TIMEOUT_t proc" where
  "ANNOUNCE_RECEIPT_TIMEOUT_f =
     proc_seq
       [fld ANNOUNCE_RECEIPT_TIMEOUT_t.announceReceiptTimeout ANNOUNCE_RECEIPT_TIMEOUT_t.announceReceiptTimeout_update procB8]"

subsection \<open>LOG_SYNC_INTERVAL\<close>

record LOG_SYNC_INTERVAL_t =
  logSyncInterval :: Integer8_t

definition new_LOG_SYNC_INTERVAL :: LOG_SYNC_INTERVAL_t where
  "new_LOG_SYNC_INTERVAL =
     \<lparr>LOG_SYNC_INTERVAL_t.logSyncInterval = 0\<rparr>"

definition LOG_SYNC_INTERVAL_f :: "LOG_SYNC_INTERVAL_t proc" where
  "LOG_SYNC_INTERVAL_f =
     proc_seq
       [fld LOG_SYNC_INTERVAL_t.logSyncInterval LOG_SYNC_INTERVAL_t.logSyncInterval_update procB8]"

subsection \<open>VERSION_NUMBER\<close>

record VERSION_NUMBER_t =
  versionNumber :: Nibble_t

definition new_VERSION_NUMBER :: VERSION_NUMBER_t where
  "new_VERSION_NUMBER =
     \<lparr>VERSION_NUMBER_t.versionNumber = 0\<rparr>"

definition VERSION_NUMBER_f :: "VERSION_NUMBER_t proc" where
  "VERSION_NUMBER_f =
     proc_seq
       [fld VERSION_NUMBER_t.versionNumber VERSION_NUMBER_t.versionNumber_update procB8]"

subsection \<open>TIME\<close>

record TIME_t =
  currentTime :: Timestamp_t

definition new_TIME :: TIME_t where
  "new_TIME =
     \<lparr>TIME_t.currentTime = zero_Timestamp\<rparr>"

definition TIME_f :: "TIME_t proc" where
  "TIME_f =
     proc_seq
       [fld TIME_t.currentTime TIME_t.currentTime_update proc_Timestamp]"

subsection \<open>CLOCK_ACCURACY\<close>

record CLOCK_ACCURACY_t =
  clockAccuracy :: clockAccuracy_e

definition new_CLOCK_ACCURACY :: CLOCK_ACCURACY_t where
  "new_CLOCK_ACCURACY =
     \<lparr>CLOCK_ACCURACY_t.clockAccuracy = 0\<rparr>"

definition CLOCK_ACCURACY_f :: "CLOCK_ACCURACY_t proc" where
  "CLOCK_ACCURACY_f =
     proc_seq
       [fld CLOCK_ACCURACY_t.clockAccuracy CLOCK_ACCURACY_t.clockAccuracy_update procE8]"

subsection \<open>UTC_PROPERTIES\<close>

record UTC_PROPERTIES_t =
  currentUtcOffset :: Integer16_t
  flags :: uint8_t

definition UTC_PROPERTIES_flagsMask :: uint8_t where
  "UTC_PROPERTIES_flagsMask = 0x7"

definition new_UTC_PROPERTIES :: UTC_PROPERTIES_t where
  "new_UTC_PROPERTIES =
     \<lparr>UTC_PROPERTIES_t.currentUtcOffset = 0, UTC_PROPERTIES_t.flags = 0\<rparr>"

definition UTC_PROPERTIES_f :: "UTC_PROPERTIES_t proc" where
  "UTC_PROPERTIES_f =
     proc_seq
       [fld UTC_PROPERTIES_t.currentUtcOffset UTC_PROPERTIES_t.currentUtcOffset_update procBN,
        fld UTC_PROPERTIES_t.flags UTC_PROPERTIES_t.flags_update (procFlags UTC_PROPERTIES_flagsMask)]"

subsection \<open>TRACEABILITY_PROPERTIES\<close>

record TRACEABILITY_PROPERTIES_t =
  flags :: uint8_t

definition TRACEABILITY_PROPERTIES_flagsMask :: uint8_t where
  "TRACEABILITY_PROPERTIES_flagsMask = 0x30"

definition new_TRACEABILITY_PROPERTIES :: TRACEABILITY_PROPERTIES_t where
  "new_TRACEABILITY_PROPERTIES =
     \<lparr>TRACEABILITY_PROPERTIES_t.flags = 0\<rparr>"

definition TRACEABILITY_PROPERTIES_f :: "TRACEABILITY_PROPERTIES_t proc" where
  "TRACEABILITY_PROPERTIES_f =
     proc_seq
       [fld TRACEABILITY_PROPERTIES_t.flags TRACEABILITY_PROPERTIES_t.flags_update (procFlags TRACEABILITY_PROPERTIES_flagsMask)]"

subsection \<open>TIMESCALE_PROPERTIES\<close>

record TIMESCALE_PROPERTIES_t =
  flags :: uint8_t
  timeSource :: timeSource_e

definition TIMESCALE_PROPERTIES_flagsMask :: uint8_t where
  "TIMESCALE_PROPERTIES_flagsMask = 0x8"

definition new_TIMESCALE_PROPERTIES :: TIMESCALE_PROPERTIES_t where
  "new_TIMESCALE_PROPERTIES =
     \<lparr>TIMESCALE_PROPERTIES_t.flags = 0, TIMESCALE_PROPERTIES_t.timeSource = 0\<rparr>"

definition TIMESCALE_PROPERTIES_f :: "TIMESCALE_PROPERTIES_t proc" where
  "TIMESCALE_PROPERTIES_f =
     proc_seq
       [fld TIMESCALE_PROPERTIES_t.flags TIMESCALE_PROPERTIES_t.flags_update (procFlags TIMESCALE_PROPERTIES_flagsMask),
        fld TIMESCALE_PROPERTIES_t.timeSource TIMESCALE_PROPERTIES_t.timeSource_update procE8]"

subsection \<open>UNICAST_NEGOTIATION_ENABLE\<close>

record UNICAST_NEGOTIATION_ENABLE_t =
  flags :: uint8_t

definition UNICAST_NEGOTIATION_ENABLE_flagsMask :: uint8_t where
  "UNICAST_NEGOTIATION_ENABLE_flagsMask = 0x1"

definition new_UNICAST_NEGOTIATION_ENABLE :: UNICAST_NEGOTIATION_ENABLE_t where
  "new_UNICAST_NEGOTIATION_ENABLE =
     \<lparr>UNICAST_NEGOTIATION_ENABLE_t.flags = 0\<rparr>"

definition UNICAST_NEGOTIATION_ENABLE_f :: "UNICAST_NEGOTIATION_ENABLE_t proc" where
  "UNICAST_NEGOTIATION_ENABLE_f =
     proc_seq
       [fld UNICAST_NEGOTIATION_ENABLE_t.flags UNICAST_NEGOTIATION_ENABLE_t.flags_update (procFlags UNICAST_NEGOTIATION_ENABLE_flagsMask)]"

subsection \<open>PATH_TRACE_LIST\<close>

record PATH_TRACE_LIST_t =
  pathSequence :: "ClockIdentity_t list"

definition new_PATH_TRACE_LIST :: PATH_TRACE_LIST_t where
  "new_PATH_TRACE_LIST =
     \<lparr>PATH_TRACE_LIST_t.pathSequence = []\<rparr>"

definition PATH_TRACE_LIST_f :: "PATH_TRACE_LIST_t proc" where
  "PATH_TRACE_LIST_f =
     proc_seq
       [fld PATH_TRACE_LIST_t.pathSequence PATH_TRACE_LIST_t.pathSequence_update (vector_o zero_ClockIdentity proc_ClockIdentity ClockIdentity_size)]"

definition PATH_TRACE_LIST_s :: "PATH_TRACE_LIST_t \<Rightarrow> nat" where
  "PATH_TRACE_LIST_s d = ClockIdentity_size * length (PATH_TRACE_LIST_t.pathSequence d)"

subsection \<open>PATH_TRACE_ENABLE\<close>

record PATH_TRACE_ENABLE_t =
  flags :: uint8_t

definition PATH_TRACE_ENABLE_flagsMask :: uint8_t where
  "PATH_TRACE_ENABLE_flagsMask = 0x1"

definition new_PATH_TRACE_ENABLE :: PATH_TRACE_ENABLE_t where
  "new_PATH_TRACE_ENABLE =
     \<lparr>PATH_TRACE_ENABLE_t.flags = 0\<rparr>"

definition PATH_TRACE_ENABLE_f :: "PATH_TRACE_ENABLE_t proc" where
  "PATH_TRACE_ENABLE_f =
     proc_seq
       [fld PATH_TRACE_ENABLE_t.flags PATH_TRACE_ENABLE_t.flags_update (procFlags PATH_TRACE_ENABLE_flagsMask)]"

subsection \<open>GRANDMASTER_CLUSTER_TABLE\<close>

record GRANDMASTER_CLUSTER_TABLE_t =
  logQueryInterval :: Integer8_t
  actualTableSize :: UInteger8_t
  PortAddress :: "PortAddress_t list"

definition new_GRANDMASTER_CLUSTER_TABLE :: GRANDMASTER_CLUSTER_TABLE_t where
  "new_GRANDMASTER_CLUSTER_TABLE =
     \<lparr>GRANDMASTER_CLUSTER_TABLE_t.logQueryInterval = 0,
      GRANDMASTER_CLUSTER_TABLE_t.actualTableSize = 0,
      GRANDMASTER_CLUSTER_TABLE_t.PortAddress = []\<rparr>"

definition GRANDMASTER_CLUSTER_TABLE_f :: "GRANDMASTER_CLUSTER_TABLE_t proc" where
  "GRANDMASTER_CLUSTER_TABLE_f =
     proc_seq
       [on_build (\<lambda>d. d\<lparr>GRANDMASTER_CLUSTER_TABLE_t.actualTableSize := of_nat (length (GRANDMASTER_CLUSTER_TABLE_t.PortAddress d))\<rparr>),
        fld GRANDMASTER_CLUSTER_TABLE_t.logQueryInterval GRANDMASTER_CLUSTER_TABLE_t.logQueryInterval_update procB8,
        fld GRANDMASTER_CLUSTER_TABLE_t.actualTableSize GRANDMASTER_CLUSTER_TABLE_t.actualTableSize_update procB8,
        fld_len (\<lambda>d. ucast (GRANDMASTER_CLUSTER_TABLE_t.actualTableSize d)) GRANDMASTER_CLUSTER_TABLE_t.PortAddress GRANDMASTER_CLUSTER_TABLE_t.PortAddress_update (vector_f zero_PortAddress proc_PortAddress)]"

definition GRANDMASTER_CLUSTER_TABLE_s :: "GRANDMASTER_CLUSTER_TABLE_t \<Rightarrow> nat" where
  "GRANDMASTER_CLUSTER_TABLE_s d = vector_l PortAddress_size 2 (GRANDMASTER_CLUSTER_TABLE_t.PortAddress d)"

subsection \<open>UNICAST_MASTER_TABLE\<close>

record UNICAST_MASTER_TABLE_t =
  logQueryInterval :: Integer8_t
  actualTableSize :: UInteger16_t
  PortAddress :: "PortAddress_t list"

definition new_UNICAST_MASTER_TABLE :: UNICAST_MASTER_TABLE_t where
  "new_UNICAST_MASTER_TABLE =
     \<lparr>UNICAST_MASTER_TABLE_t.logQueryInterval = 0, UNICAST_MASTER_TABLE_t.actualTableSize = 0,
      UNICAST_MASTER_TABLE_t.PortAddress = []\<rparr>"

definition UNICAST_MASTER_TABLE_f :: "UNICAST_MASTER_TABLE_t proc" where
  "UNICAST_MASTER_TABLE_f =
     proc_seq
       [on_build (\<lambda>d. d\<lparr>UNICAST_MASTER_TABLE_t.actualTableSize := of_nat (length (UNICAST_MASTER_TABLE_t.PortAddress d))\<rparr>),
        fld UNICAST_MASTER_TABLE_t.logQueryInterval UNICAST_MASTER_TABLE_t.logQueryInterval_update procB8,
        fld UNICAST_MASTER_TABLE_t.actualTableSize UNICAST_MASTER_TABLE_t.actualTableSize_update procBU,
        fld_len (\<lambda>d. ucast (UNICAST_MASTER_TABLE_t.actualTableSize d)) UNICAST_MASTER_TABLE_t.PortAddress UNICAST_MASTER_TABLE_t.PortAddress_update (vector_f zero_PortAddress proc_PortAddress)]"

definition UNICAST_MASTER_TABLE_s :: "UNICAST_MASTER_TABLE_t \<Rightarrow> nat" where
  "UNICAST_MASTER_TABLE_s d = vector_l PortAddress_size 3 (UNICAST_MASTER_TABLE_t.PortAddress d)"

subsection \<open>UNICAST_MASTER_MAX_TABLE_SIZE\<close>

record UNICAST_MASTER_MAX_TABLE_SIZE_t =
  maxTableSize :: UInteger16_t

definition new_UNICAST_MASTER_MAX_TABLE_SIZE :: UNICAST_MASTER_MAX_TABLE_SIZE_t where
  "new_UNICAST_MASTER_MAX_TABLE_SIZE =
     \<lparr>UNICAST_MASTER_MAX_TABLE_SIZE_t.maxTableSize = 0\<rparr>"

definition UNICAST_MASTER_MAX_TABLE_SIZE_f :: "UNICAST_MASTER_MAX_TABLE_SIZE_t proc" where
  "UNICAST_MASTER_MAX_TABLE_SIZE_f =
     proc_seq
       [fld UNICAST_MASTER_MAX_TABLE_SIZE_t.maxTableSize UNICAST_MASTER_MAX_TABLE_SIZE_t.maxTableSize_update procBU]"

subsection \<open>ACCEPTABLE_MASTER_TABLE\<close>

record ACCEPTABLE_MASTER_TABLE_t =
  actualTableSize :: Integer16_t
  list :: "AcceptableMaster_t list"

definition new_ACCEPTABLE_MASTER_TABLE :: ACCEPTABLE_MASTER_TABLE_t where
  "new_ACCEPTABLE_MASTER_TABLE =
     \<lparr>ACCEPTABLE_MASTER_TABLE_t.actualTableSize = 0, ACCEPTABLE_MASTER_TABLE_t.list = []\<rparr>"

definition ACCEPTABLE_MASTER_TABLE_f :: "ACCEPTABLE_MASTER_TABLE_t proc" where
  "ACCEPTABLE_MASTER_TABLE_f =
     proc_seq
       [on_build (\<lambda>d. d\<lparr>ACCEPTABLE_MASTER_TABLE_t.actualTableSize := of_nat (length (ACCEPTABLE_MASTER_TABLE_t.list d))\<rparr>),
        fld ACCEPTABLE_MASTER_TABLE_t.actualTableSize ACCEPTABLE_MASTER_TABLE_t.actualTableSize_update procBN,
        fld_len (\<lambda>d. scast (ACCEPTABLE_MASTER_TABLE_t.actualTableSize d)) ACCEPTABLE_MASTER_TABLE_t.list ACCEPTABLE_MASTER_TABLE_t.list_update (vector_f zero_AcceptableMaster proc_AcceptableMaster)]"

definition ACCEPTABLE_MASTER_TABLE_s :: "ACCEPTABLE_MASTER_TABLE_t \<Rightarrow> nat" where
  "ACCEPTABLE_MASTER_TABLE_s d = 2 + AcceptableMaster_size * length (ACCEPTABLE_MASTER_TABLE_t.list d)"

subsection \<open>ACCEPTABLE_MASTER_TABLE_ENABLED\<close>

record ACCEPTABLE_MASTER_TABLE_ENABLED_t =
  flags :: uint8_t

definition ACCEPTABLE_MASTER_TABLE_ENABLED_flagsMask :: uint8_t where
  "ACCEPTABLE_MASTER_TABLE_ENABLED_flagsMask = 0x1"

definition new_ACCEPTABLE_MASTER_TABLE_ENABLED :: ACCEPTABLE_MASTER_TABLE_ENABLED_t where
  "new_ACCEPTABLE_MASTER_TABLE_ENABLED =
     \<lparr>ACCEPTABLE_MASTER_TABLE_ENABLED_t.flags = 0\<rparr>"

definition ACCEPTABLE_MASTER_TABLE_ENABLED_f :: "ACCEPTABLE_MASTER_TABLE_ENABLED_t proc" where
  "ACCEPTABLE_MASTER_TABLE_ENABLED_f =
     proc_seq
       [fld ACCEPTABLE_MASTER_TABLE_ENABLED_t.flags ACCEPTABLE_MASTER_TABLE_ENABLED_t.flags_update (procFlags ACCEPTABLE_MASTER_TABLE_ENABLED_flagsMask)]"

subsection \<open>ACCEPTABLE_MASTER_MAX_TABLE_SIZE\<close>

record ACCEPTABLE_MASTER_MAX_TABLE_SIZE_t =
  maxTableSize :: UInteger16_t

definition new_ACCEPTABLE_MASTER_MAX_TABLE_SIZE :: ACCEPTABLE_MASTER_MAX_TABLE_SIZE_t where
  "new_ACCEPTABLE_MASTER_MAX_TABLE_SIZE =
     \<lparr>ACCEPTABLE_MASTER_MAX_TABLE_SIZE_t.maxTableSize = 0\<rparr>"

definition ACCEPTABLE_MASTER_MAX_TABLE_SIZE_f :: "ACCEPTABLE_MASTER_MAX_TABLE_SIZE_t proc" where
  "ACCEPTABLE_MASTER_MAX_TABLE_SIZE_f =
     proc_seq
       [fld ACCEPTABLE_MASTER_MAX_TABLE_SIZE_t.maxTableSize ACCEPTABLE_MASTER_MAX_TABLE_SIZE_t.maxTableSize_update procBU]"

subsection \<open>ALTERNATE_MASTER\<close>

record ALTERNATE_MASTER_t =
  flags :: uint8_t
  logAlternateMulticastSyncInterval :: Integer8_t
  numberOfAlternateMasters :: UInteger8_t

definition ALTERNATE_MASTER_flagsMask :: uint8_t where
  "ALTERNATE_MASTER_flagsMask = 0x1"

definition new_ALTERNATE_MASTER :: ALTERNATE_MASTER_t where
  "new_ALTERNATE_MASTER =
     \<lparr>ALTERNATE_MASTER_t.flags = 0, ALTERNATE_MASTER_t.logAlternateMulticastSyncInterval = 0,
      ALTERNATE_MASTER_t.numberOfAlternateMasters = 0\<rparr>"

definition ALTERNATE_MASTER_f :: "ALTERNATE_MASTER_t proc" where
  "ALTERNATE_MASTER_f =
     proc_seq
       [fld ALTERNATE_MASTER_t.flags ALTERNATE_MASTER_t.flags_update (procFlags ALTERNATE_MASTER_flagsMask),
        fld ALTERNATE_MASTER_t.logAlternateMulticastSyncInterval ALTERNATE_MASTER_t.logAlternateMulticastSyncInterval_update procB8,
        fld ALTERNATE_MASTER_t.numberOfAlternateMasters ALTERNATE_MASTER_t.numberOfAlternateMasters_update procB8]"

subsection \<open>ALTERNATE_TIME_OFFSET_ENABLE\<close>

record ALTERNATE_TIME_OFFSET_ENABLE_t =
  keyField :: UInteger8_t
  flags :: uint8_t

definition ALTERNATE_TIME_OFFSET_ENABLE_flagsMask :: uint8_t where
  "ALTERNATE_TIME_OFFSET_ENABLE_flagsMask = 0x1"

definition new_ALTERNATE_TIME_OFFSET_ENABLE :: ALTERNATE_TIME_OFFSET_ENABLE_t where
  "new_ALTERNATE_TIME_OFFSET_ENABLE =
     \<lparr>ALTERNATE_TIME_OFFSET_ENABLE_t.keyField = 0, ALTERNATE_TIME_OFFSET_ENABLE_t.flags = 0\<rparr>"

definition ALTERNATE_TIME_OFFSET_ENABLE_f :: "ALTERNATE_TIME_OFFSET_ENABLE_t proc" where
  "ALTERNATE_TIME_OFFSET_ENABLE_f =
     proc_seq
       [fld ALTERNATE_TIME_OFFSET_ENABLE_t.keyField ALTERNATE_TIME_OFFSET_ENABLE_t.keyField_update procB8,
        fld ALTERNATE_TIME_OFFSET_ENABLE_t.flags ALTERNATE_TIME_OFFSET_ENABLE_t.flags_update (procFlags ALTERNATE_TIME_OFFSET_ENABLE_flagsMask)]"

subsection \<open>ALTERNATE_TIME_OFFSET_NAME\<close>

record ALTERNATE_TIME_OFFSET_NAME_t =
  keyField :: UInteger8_t
  displayName :: PTPText_t

definition new_ALTERNATE_TIME_OFFSET_NAME :: ALTERNATE_TIME_OFFSET_NAME_t where
  "new_ALTERNATE_TIME_OFFSET_NAME =
     \<lparr>ALTERNATE_TIME_OFFSET_NAME_t.keyField = 0,
      ALTERNATE_TIME_OFFSET_NAME_t.displayName = zero_PTPText\<rparr>"

definition ALTERNATE_TIME_OFFSET_NAME_f :: "ALTERNATE_TIME_OFFSET_NAME_t proc" where
  "ALTERNATE_TIME_OFFSET_NAME_f =
     proc_seq
       [fld ALTERNATE_TIME_OFFSET_NAME_t.keyField ALTERNATE_TIME_OFFSET_NAME_t.keyField_update procB8,
        fld ALTERNATE_TIME_OFFSET_NAME_t.displayName ALTERNATE_TIME_OFFSET_NAME_t.displayName_update proc_PTPText]"

definition ALTERNATE_TIME_OFFSET_NAME_s :: "ALTERNATE_TIME_OFFSET_NAME_t \<Rightarrow> nat" where
  "ALTERNATE_TIME_OFFSET_NAME_s d = 1 + PTPText_size (ALTERNATE_TIME_OFFSET_NAME_t.displayName d)"

subsection \<open>ALTERNATE_TIME_OFFSET_MAX_KEY\<close>

record ALTERNATE_TIME_OFFSET_MAX_KEY_t =
  maxKey :: UInteger8_t

definition new_ALTERNATE_TIME_OFFSET_MAX_KEY :: ALTERNATE_TIME_OFFSET_MAX_KEY_t where
  "new_ALTERNATE_TIME_OFFSET_MAX_KEY =
     \<lparr>ALTERNATE_TIME_OFFSET_MAX_KEY_t.maxKey = 0\<rparr>"

definition ALTERNATE_TIME_OFFSET_MAX_KEY_f :: "ALTERNATE_TIME_OFFSET_MAX_KEY_t proc" where
  "ALTERNATE_TIME_OFFSET_MAX_KEY_f =
     proc_seq
       [fld ALTERNATE_TIME_OFFSET_MAX_KEY_t.maxKey ALTERNATE_TIME_OFFSET_MAX_KEY_t.maxKey_update procB8]"

subsection \<open>ALTERNATE_TIME_OFFSET_PROPERTIES\<close>

record ALTERNATE_TIME_OFFSET_PROPERTIES_t =
  keyField :: UInteger8_t
  currentOffset :: Integer32_t
  jumpSeconds :: Integer32_t
  timeOfNextJump :: UInteger48_t

definition new_ALTERNATE_TIME_OFFSET_PROPERTIES :: ALTERNATE_TIME_OFFSET_PROPERTIES_t where
  "new_ALTERNATE_TIME_OFFSET_PROPERTIES =
     \<lparr>ALTERNATE_TIME_OFFSET_PROPERTIES_t.keyField = 0,
      ALTERNATE_TIME_OFFSET_PROPERTIES_t.currentOffset = 0,
      ALTERNATE_TIME_OFFSET_PROPERTIES_t.jumpSeconds = 0,
      ALTERNATE_TIME_OFFSET_PROPERTIES_t.timeOfNextJump = 0\<rparr>"

definition ALTERNATE_TIME_OFFSET_PROPERTIES_f :: "ALTERNATE_TIME_OFFSET_PROPERTIES_t proc" where
  "ALTERNATE_TIME_OFFSET_PROPERTIES_f =
     proc_seq
       [fld ALTERNATE_TIME_OFFSET_PROPERTIES_t.keyField ALTERNATE_TIME_OFFSET_PROPERTIES_t.keyField_update procB8,
        fld ALTERNATE_TIME_OFFSET_PROPERTIES_t.currentOffset ALTERNATE_TIME_OFFSET_PROPERTIES_t.currentOffset_update procBN,
        fld ALTERNATE_TIME_OFFSET_PROPERTIES_t.jumpSeconds ALTERNATE_TIME_OFFSET_PROPERTIES_t.jumpSeconds_update procBN,
        fld ALTERNATE_TIME_OFFSET_PROPERTIES_t.timeOfNextJump ALTERNATE_TIME_OFFSET_PROPERTIES_t.timeOfNextJump_update proc48]"

subsection \<open>TRANSPARENT_CLOCK_PORT_DATA_SET\<close>

record TRANSPARENT_CLOCK_PORT_DATA_SET_t =
  portIdentity :: PortIdentity_t
  flags :: uint8_t
  logMinPdelayReqInterval :: Integer8_t
  peerMeanPathDelay :: TimeInterval_t

definition TRANSPARENT_CLOCK_PORT_DATA_SET_flagsMask :: uint8_t where
  "TRANSPARENT_CLOCK_PORT_DATA_SET_flagsMask = 0x1"

definition new_TRANSPARENT_CLOCK_PORT_DATA_SET :: TRANSPARENT_CLOCK_PORT_DATA_SET_t where
  "new_TRANSPARENT_CLOCK_PORT_DATA_SET =
     \<lparr>TRANSPARENT_CLOCK_PORT_DATA_SET_t.portIdentity = zero_PortIdentity,
      TRANSPARENT_CLOCK_PORT_DATA_SET_t.flags = 0,
      TRANSPARENT_CLOCK_PORT_DATA_SET_t.logMinPdelayReqInterval = 0,
      TRANSPARENT_CLOCK_PORT_DATA_SET_t.peerMeanPathDelay = zero_TimeInterval\<rparr>"

definition TRANSPARENT_CLOCK_PORT_DATA_SET_f :: "TRANSPARENT_CLOCK_PORT_DATA_SET_t proc" where
  "TRANSPARENT_CLOCK_PORT_DATA_SET_f =
     proc_seq
       [fld TRANSPARENT_CLOCK_PORT_DATA_SET_t.portIdentity TRANSPARENT_CLOCK_PORT_DATA_SET_t.portIdentity_update proc_PortIdentity,
        fld TRANSPARENT_CLOCK_PORT_DATA_SET_t.flags TRANSPARENT_CLOCK_PORT_DATA_SET_t.flags_update (procFlags TRANSPARENT_CLOCK_PORT_DATA_SET_flagsMask),
        fld TRANSPARENT_CLOCK_PORT_DATA_SET_t.logMinPdelayReqInterval TRANSPARENT_CLOCK_PORT_DATA_SET_t.logMinPdelayReqInterval_update procB8,
        fld TRANSPARENT_CLOCK_PORT_DATA_SET_t.peerMeanPathDelay TRANSPARENT_CLOCK_PORT_DATA_SET_t.peerMeanPathDelay_update proc_TimeInterval]"

subsection \<open>LOG_MIN_PDELAY_REQ_INTERVAL\<close>

record LOG_MIN_PDELAY_REQ_INTERVAL_t =
  logMinPdelayReqInterval :: Integer8_t

definition new_LOG_MIN_PDELAY_REQ_INTERVAL :: LOG_MIN_PDELAY_REQ_INTERVAL_t where
  "new_LOG_MIN_PDELAY_REQ_INTERVAL =
     \<lparr>LOG_MIN_PDELAY_REQ_INTERVAL_t.logMinPdelayReqInterval = 0\<rparr>"

definition LOG_MIN_PDELAY_REQ_INTERVAL_f :: "LOG_MIN_PDELAY_REQ_INTERVAL_t proc" where
  "LOG_MIN_PDELAY_REQ_INTERVAL_f =
     proc_seq
       [fld LOG_MIN_PDELAY_REQ_INTERVAL_t.logMinPdelayReqInterval LOG_MIN_PDELAY_REQ_INTERVAL_t.logMinPdelayReqInterval_update procB8]"

subsection \<open>TRANSPARENT_CLOCK_DEFAULT_DATA_SET\<close>

record TRANSPARENT_CLOCK_DEFAULT_DATA_SET_t =
  clockIdentity :: ClockIdentity_t
  numberPorts :: UInteger16_t
  delayMechanism :: delayMechanism_e
  primaryDomain :: UInteger8_t

definition new_TRANSPARENT_CLOCK_DEFAULT_DATA_SET :: TRANSPARENT_CLOCK_DEFAULT_DATA_SET_t where
  "new_TRANSPARENT_CLOCK_DEFAULT_DATA_SET =
     \<lparr>TRANSPARENT_CLOCK_DEFAULT_DATA_SET_t.clockIdentity = zero_ClockIdentity,
      TRANSPARENT_CLOCK_DEFAULT_DATA_SET_t.numberPorts = 0,
      TRANSPARENT_CLOCK_DEFAULT_DATA_SET_t.delayMechanism = 0,
      TRANSPARENT_CLOCK_DEFAULT_DATA_SET_t.primaryDomain = 0\<rparr>"

definition TRANSPARENT_CLOCK_DEFAULT_DATA_SET_f :: "TRANSPARENT_CLOCK_DEFAULT_DATA_SET_t proc" where
  "TRANSPARENT_CLOCK_DEFAULT_DATA_SET_f =
     proc_seq
       [fld TRANSPARENT_CLOCK_DEFAULT_DATA_SET_t.clockIdentity TRANSPARENT_CLOCK_DEFAULT_DATA_SET_t.clockIdentity_update proc_ClockIdentity,
        fld TRANSPARENT_CLOCK_DEFAULT_DATA_SET_t.numberPorts TRANSPARENT_CLOCK_DEFAULT_DATA_SET_t.numberPorts_update procBU,
        fld TRANSPARENT_CLOCK_DEFAULT_DATA_SET_t.delayMechanism TRANSPARENT_CLOCK_DEFAULT_DATA_SET_t.delayMechanism_update procE8,
        fld TRANSPARENT_CLOCK_DEFAULT_DATA_SET_t.primaryDomain TRANSPARENT_CLOCK_DEFAULT_DATA_SET_t.primaryDomain_update procB8]"

subsection \<open>PRIMARY_DOMAIN\<close>

record PRIMARY_DOMAIN_t =
  primaryDomain :: UInteger8_t

definition new_PRIMARY_DOMAIN :: PRIMARY_DOMAIN_t where
  "new_PRIMARY_DOMAIN =
     \<lparr>PRIMARY_DOMAIN_t.primaryDomain = 0\<rparr>"

definition PRIMARY_DOMAIN_f :: "PRIMARY_DOMAIN_t proc" where
  "PRIMARY_DOMAIN_f =
     proc_seq
       [fld PRIMARY_DOMAIN_t.primaryDomain PRIMARY_DOMAIN_t.primaryDomain_update procB8]"

subsection \<open>DELAY_MECHANISM\<close>

record DELAY_MECHANISM_t =
  delayMechanism :: delayMechanism_e

definition new_DELAY_MECHANISM :: DELAY_MECHANISM_t where
  "new_DELAY_MECHANISM =
     \<lparr>DELAY_MECHANISM_t.delayMechanism = 0\<rparr>"

definition DELAY_MECHANISM_f :: "DELAY_MECHANISM_t proc" where
  "DELAY_MECHANISM_f =
     proc_seq
       [fld DELAY_MECHANISM_t.delayMechanism DELAY_MECHANISM_t.delayMechanism_update procE8]"

subsection \<open>EXTERNAL_PORT_CONFIGURATION_ENABLED\<close>

record EXTERNAL_PORT_CONFIGURATION_ENABLED_t =
  flags :: uint8_t

definition EXTERNAL_PORT_CONFIGURATION_ENABLED_flagsMask :: uint8_t where
  "EXTERNAL_PORT_CONFIGURATION_ENABLED_flagsMask = 0x1"

definition new_EXTERNAL_PORT_CONFIGURATION_ENABLED :: EXTERNAL_PORT_CONFIGURATION_ENABLED_t where
  "new_EXTERNAL_PORT_CONFIGURATION_ENABLED =
     \<lparr>EXTERNAL_PORT_CONFIGURATION_ENABLED_t.flags = 0\<rparr>"

definition EXTERNAL_PORT_CONFIGURATION_ENABLED_f :: "EXTERNAL_PORT_CONFIGURATION_ENABLED_t proc" where
  "EXTERNAL_PORT_CONFIGURATION_ENABLED_f =
     proc_seq
       [fld EXTERNAL_PORT_CONFIGURATION_ENABLED_t.flags EXTERNAL_PORT_CONFIGURATION_ENABLED_t.flags_update (procFlags EXTERNAL_PORT_CONFIGURATION_ENABLED_flagsMask)]"

subsection \<open>MASTER_ONLY\<close>

record MASTER_ONLY_t =
  flags :: uint8_t

definition MASTER_ONLY_flagsMask :: uint8_t where
  "MASTER_ONLY_flagsMask = 0x1"

definition new_MASTER_ONLY :: MASTER_ONLY_t where
  "new_MASTER_ONLY =
     \<lparr>MASTER_ONLY_t.flags = 0\<rparr>"

definition MASTER_ONLY_f :: "MASTER_ONLY_t proc" where
  "MASTER_ONLY_f =
     proc_seq
       [fld MASTER_ONLY_t.flags MASTER_ONLY_t.flags_update (procFlags MASTER_ONLY_flagsMask)]"

subsection \<open>HOLDOVER_UPGRADE_ENABLE\<close>

record HOLDOVER_UPGRADE_ENABLE_t =
  flags :: uint8_t

definition HOLDOVER_UPGRADE_ENABLE_flagsMask :: uint8_t where
  "HOLDOVER_UPGRADE_ENABLE_flagsMask = 0x1"

definition new_HOLDOVER_UPGRADE_ENABLE :: HOLDOVER_UPGRADE_ENABLE_t where
  "new_HOLDOVER_UPGRADE_ENABLE =
     \<lparr>HOLDOVER_UPGRADE_ENABLE_t.flags = 0\<rparr>"

definition HOLDOVER_UPGRADE_ENABLE_f :: "HOLDOVER_UPGRADE_ENABLE_t proc" where
  "HOLDOVER_UPGRADE_ENABLE_f =
     proc_seq
       [fld HOLDOVER_UPGRADE_ENABLE_t.flags HOLDOVER_UPGRADE_ENABLE_t.flags_update (procFlags HOLDOVER_UPGRADE_ENABLE_flagsMask)]"

subsection \<open>EXT_PORT_CONFIG_PORT_DATA_SET\<close>

record EXT_PORT_CONFIG_PORT_DATA_SET_t =
  flags :: uint8_t
  desiredState :: portState_e

definition EXT_PORT_CONFIG_PORT_DATA_SET_flagsMask :: uint8_t where
  "EXT_PORT_CONFIG_PORT_DATA_SET_flagsMask = 0x1"

definition new_EXT_PORT_CONFIG_PORT_DATA_SET :: EXT_PORT_CONFIG_PORT_DATA_SET_t where
  "new_EXT_PORT_CONFIG_PORT_DATA_SET =
     \<lparr>EXT_PORT_CONFIG_PORT_DATA_SET_t.flags = 0,
      EXT_PORT_CONFIG_PORT_DATA_SET_t.desiredState = 0\<rparr>"

definition EXT_PORT_CONFIG_PORT_DATA_SET_f :: "EXT_PORT_CONFIG_PORT_DATA_SET_t proc" where
  "EXT_PORT_CONFIG_PORT_DATA_SET_f =
     proc_seq
       [fld EXT_PORT_CONFIG_PORT_DATA_SET_t.flags EXT_PORT_CONFIG_PORT_DATA_SET_t.flags_update (procFlags EXT_PORT_CONFIG_PORT_DATA_SET_flagsMask),
        fld EXT_PORT_CONFIG_PORT_DATA_SET_t.desiredState EXT_PORT_CONFIG_PORT_DATA_SET_t.desiredState_update procE8]"

subsection \<open>TIME_STATUS_NP\<close>

record TIME_STATUS_NP_t =
  master_offset :: int64_t
  ingress_time :: int64_t
  cumulativeScaledRateOffset :: Integer32_t
  scaledLastGmPhaseChange :: Integer32_t
  gmTimeBaseIndicator :: UInteger16_t
  nanoseconds_msb :: uint16_t
  nanoseconds_lsb :: uint64_t
  fractional_nanoseconds :: uint16_t
  gmPresent :: Integer32_t
  gmIdentity :: ClockIdentity_t

definition new_TIME_STATUS_NP :: TIME_STATUS_NP_t where
  "new_TIME_STATUS_NP =
     \<lparr>TIME_STATUS_NP_t.master_offset = 0, TIME_STATUS_NP_t.ingress_time = 0,
      TIME_STATUS_NP_t.cumulativeScaledRateOffset = 0,
      TIME_STATUS_NP_t.scaledLastGmPhaseChange = 0, TIME_STATUS_NP_t.gmTimeBaseIndicator = 0,
      TIME_STATUS_NP_t.nanoseconds_msb = 0, TIME_STATUS_NP_t.nanoseconds_lsb = 0,
      TIME_STATUS_NP_t.fractional_nanoseconds = 0, TIME_STATUS_NP_t.gmPresent = 0,
      TIME_STATUS_NP_t.gmIdentity = zero_ClockIdentity\<rparr>"

definition TIME_STATUS_NP_f :: "TIME_STATUS_NP_t proc" where
  "TIME_STATUS_NP_f =
     proc_seq
       [fld TIME_STATUS_NP_t.master_offset TIME_STATUS_NP_t.master_offset_update procBN,
        fld TIME_STATUS_NP_t.ingress_time TIME_STATUS_NP_t.ingress_time_update procBN,
        fld TIME_STATUS_NP_t.cumulativeScaledRateOffset TIME_STATUS_NP_t.cumulativeScaledRateOffset_update procBN,
        fld TIME_STATUS_NP_t.scaledLastGmPhaseChange TIME_STATUS_NP_t.scaledLastGmPhaseChange_update procBN,
        fld TIME_STATUS_NP_t.gmTimeBaseIndicator TIME_STATUS_NP_t.gmTimeBaseIndicator_update procBU,
        fld TIME_STATUS_NP_t.nanoseconds_msb TIME_STATUS_NP_t.nanoseconds_msb_update procBU,
        fld TIME_STATUS_NP_t.nanoseconds_lsb TIME_STATUS_NP_t.nanoseconds_lsb_update procBU,
        fld TIME_STATUS_NP_t.fractional_nanoseconds TIME_STATUS_NP_t.fractional_nanoseconds_update procBU,
        fld TIME_STATUS_NP_t.gmPresent TIME_STATUS_NP_t.gmPresent_update procBN,
        fld TIME_STATUS_NP_t.gmIdentity TIME_STATUS_NP_t.gmIdentity_update proc_ClockIdentity]"

subsection \<open>GRANDMASTER_SETTINGS_NP\<close>

record GRANDMASTER_SETTINGS_NP_t =
  clockQuality :: ClockQuality_t
  currentUtcOffset :: Integer16_t
  flags :: uint8_t
  timeSource :: timeSource_e

definition GRANDMASTER_SETTINGS_NP_flagsMask :: uint8_t where
  "GRANDMASTER_SETTINGS_NP_flagsMask = 0x3f"

definition new_GRANDMASTER_SETTINGS_NP :: GRANDMASTER_SETTINGS_NP_t where
  "new_GRANDMASTER_SETTINGS_NP =
     \<lparr>GRANDMASTER_SETTINGS_NP_t.clockQuality = zero_ClockQuality,
      GRANDMASTER_SETTINGS_NP_t.currentUtcOffset = 0, GRANDMASTER_SETTINGS_NP_t.flags = 0,
      GRANDMASTER_SETTINGS_NP_t.timeSource = 0\<rparr>"

definition GRANDMASTER_SETTINGS_NP_f :: "GRANDMASTER_SETTINGS_NP_t proc" where
  "GRANDMASTER_SETTINGS_NP_f =
     proc_seq
       [fld GRANDMASTER_SETTINGS_NP_t.clockQuality GRANDMASTER_SETTINGS_NP_t.clockQuality_update proc_ClockQuality,
        fld GRANDMASTER_SETTINGS_NP_t.currentUtcOffset GRANDMASTER_SETTINGS_NP_t.currentUtcOffset_update procBN,
        fld GRANDMASTER_SETTINGS_NP_t.flags GRANDMASTER_SETTINGS_NP_t.flags_update (procFlags GRANDMASTER_SETTINGS_NP_flagsMask),
        fld GRANDMASTER_SETTINGS_NP_t.timeSource GRANDMASTER_SETTINGS_NP_t.timeSource_update procE8]"

subsection \<open>PORT_DATA_SET_NP\<close>

record PORT_DATA_SET_NP_t =
  neighborPropDelayThresh :: UInteger32_t
  asCapable :: Integer32_t

definition new_PORT_DATA_SET_NP :: PORT_DATA_SET_NP_t where
  "new_PORT_DATA_SET_NP =
     \<lparr>PORT_DATA_SET_NP_t.neighborPropDelayThresh = 0, PORT_DATA_SET_NP_t.asCapable = 0\<rparr>"

definition PORT_DATA_SET_NP_f :: "PORT_DATA_SET_NP_t proc" where
  "PORT_DATA_SET_NP_f =
     proc_seq
       [fld PORT_DATA_SET_NP_t.neighborPropDelayThresh PORT_DATA_SET_NP_t.neighborPropDelayThresh_update procBU,
        fld PORT_DATA_SET_NP_t.asCapable PORT_DATA_SET_NP_t.asCapable_update procBN]"

subsection \<open>SUBSCRIBE_EVENTS_NP\<close>

record SUBSCRIBE_EVENTS_NP_t =
  duration :: uint16_t
  bitmask :: octets

definition new_SUBSCRIBE_EVENTS_NP :: SUBSCRIBE_EVENTS_NP_t where
  "new_SUBSCRIBE_EVENTS_NP =
     \<lparr>SUBSCRIBE_EVENTS_NP_t.duration = 0, SUBSCRIBE_EVENTS_NP_t.bitmask = replicate 64 0\<rparr>"

definition SUBSCRIBE_EVENTS_NP_f :: "SUBSCRIBE_EVENTS_NP_t proc" where
  "SUBSCRIBE_EVENTS_NP_f =
     proc_seq
       [fld SUBSCRIBE_EVENTS_NP_t.duration SUBSCRIBE_EVENTS_NP_t.duration_update procBU,
        fld SUBSCRIBE_EVENTS_NP_t.bitmask SUBSCRIBE_EVENTS_NP_t.bitmask_update (proc_octets 64)]"

subsection \<open>PORT_PROPERTIES_NP\<close>

record PORT_PROPERTIES_NP_t =
  portIdentity :: PortIdentity_t
  portState :: portState_e
  timestamping :: linuxptpTimeStamp_e
  interface :: PTPText_t

definition new_PORT_PROPERTIES_NP :: PORT_PROPERTIES_NP_t where
  "new_PORT_PROPERTIES_NP =
     \<lparr>PORT_PROPERTIES_NP_t.portIdentity = zero_PortIdentity, PORT_PROPERTIES_NP_t.portState = 0,
      PORT_PROPERTIES_NP_t.timestamping = 0, PORT_PROPERTIES_NP_t.interface = zero_PTPText\<rparr>"

definition PORT_PROPERTIES_NP_f :: "PORT_PROPERTIES_NP_t proc" where
  "PORT_PROPERTIES_NP_f =
     proc_seq
       [fld PORT_PROPERTIES_NP_t.portIdentity PORT_PROPERTIES_NP_t.portIdentity_update proc_PortIdentity,
        fld PORT_PROPERTIES_NP_t.portState PORT_PROPERTIES_NP_t.portState_update procE8,
        fld PORT_PROPERTIES_NP_t.timestamping PORT_PROPERTIES_NP_t.timestamping_update procE8,
        fld PORT_PROPERTIES_NP_t.interface PORT_PROPERTIES_NP_t.interface_update proc_PTPText]"

definition PORT_PROPERTIES_NP_s :: "PORT_PROPERTIES_NP_t \<Rightarrow> nat" where
  "PORT_PROPERTIES_NP_s d = 2 + PortIdentity_size + PTPText_size (PORT_PROPERTIES_NP_t.interface d)"

subsection \<open>PORT_STATS_NP\<close>

record PORT_STATS_NP_t =
  portIdentity :: PortIdentity_t
  rxMsgType :: "uint64_t list"
  txMsgType :: "uint64_t list"

definition new_PORT_STATS_NP :: PORT_STATS_NP_t where
  "new_PORT_STATS_NP =
     \<lparr>PORT_STATS_NP_t.portIdentity = zero_PortIdentity,
      PORT_STATS_NP_t.rxMsgType = replicate 16 0, PORT_STATS_NP_t.txMsgType = replicate 16 0\<rparr>"

definition PORT_STATS_NP_f :: "PORT_STATS_NP_t proc" where
  "PORT_STATS_NP_f =
     proc_seq
       [fld PORT_STATS_NP_t.portIdentity PORT_STATS_NP_t.portIdentity_update proc_PortIdentity,
        fld PORT_STATS_NP_t.rxMsgType PORT_STATS_NP_t.rxMsgType_update (vector_b procLe),
        fld PORT_STATS_NP_t.txMsgType PORT_STATS_NP_t.txMsgType_update (vector_b procLe)]"

subsection \<open>SYNCHRONIZATION_UNCERTAIN_NP\<close>

record SYNCHRONIZATION_UNCERTAIN_NP_t =
  val :: uint8_t

definition new_SYNCHRONIZATION_UNCERTAIN_NP :: SYNCHRONIZATION_UNCERTAIN_NP_t where
  "new_SYNCHRONIZATION_UNCERTAIN_NP =
     \<lparr>SYNCHRONIZATION_UNCERTAIN_NP_t.val = 0\<rparr>"

definition SYNCHRONIZATION_UNCERTAIN_NP_f :: "SYNCHRONIZATION_UNCERTAIN_NP_t proc" where
  "SYNCHRONIZATION_UNCERTAIN_NP_f =
     proc_seq
       [fld SYNCHRONIZATION_UNCERTAIN_NP_t.val SYNCHRONIZATION_UNCERTAIN_NP_t.val_update procB8]"

subsection \<open>PORT_SERVICE_STATS_NP\<close>

record PORT_SERVICE_STATS_NP_t =
  portIdentity :: PortIdentity_t
  announce_timeout :: uint64_t
  sync_timeout :: uint64_t
  delay_timeout :: uint64_t
  unicast_service_timeout :: uint64_t
  unicast_request_timeout :: uint64_t
  master_announce_timeout :: uint64_t
  master_sync_timeout :: uint64_t
  qualification_timeout :: uint64_t
  sync_mismatch :: uint64_t
  followup_mismatch :: uint64_t

definition new_PORT_SERVICE_STATS_NP :: PORT_SERVICE_STATS_NP_t where
  "new_PORT_SERVICE_STATS_NP =
     \<lparr>PORT_SERVICE_STATS_NP_t.portIdentity = zero_PortIdentity,
      PORT_SERVICE_STATS_NP_t.announce_timeout = 0, PORT_SERVICE_STATS_NP_t.sync_timeout = 0,
      PORT_SERVICE_STATS_NP_t.delay_timeout = 0,
      PORT_SERVICE_STATS_NP_t.unicast_service_timeout = 0,
      PORT_SERVICE_STATS_NP_t.unicast_request_timeout = 0,
      PORT_SERVICE_STATS_NP_t.master_announce_timeout = 0,
      PORT_SERVICE_STATS_NP_t.master_sync_timeout = 0,
      PORT_SERVICE_STATS_NP_t.qualification_timeout = 0,
      PORT_SERVICE_STATS_NP_t.sync_mismatch = 0, PORT_SERVICE_STATS_NP_t.followup_mismatch = 0\<rparr>"

definition PORT_SERVICE_STATS_NP_f :: "PORT_SERVICE_STATS_NP_t proc" where
  "PORT_SERVICE_STATS_NP_f =
     proc_seq
       [fld PORT_SERVICE_STATS_NP_t.portIdentity PORT_SERVICE_STATS_NP_t.portIdentity_update proc_PortIdentity,
        fld PORT_SERVICE_STATS_NP_t.announce_timeout PORT_SERVICE_STATS_NP_t.announce_timeout_update procLe,
        fld PORT_SERVICE_STATS_NP_t.sync_timeout PORT_SERVICE_STATS_NP_t.sync_timeout_update procLe,
        fld PORT_SERVICE_STATS_NP_t.delay_timeout PORT_SERVICE_STATS_NP_t.delay_timeout_update procLe,
        fld PORT_SERVICE_STATS_NP_t.unicast_service_timeout PORT_SERVICE_STATS_NP_t.unicast_service_timeout_update procLe,
        fld PORT_SERVICE_STATS_NP_t.unicast_request_timeout PORT_SERVICE_STATS_NP_t.unicast_request_timeout_update procLe,
        fld PORT_SERVICE_STATS_NP_t.master_announce_timeout PORT_SERVICE_STATS_NP_t.master_announce_timeout_update procLe,
        fld PORT_SERVICE_STATS_NP_t.master_sync_timeout PORT_SERVICE_STATS_NP_t.master_sync_timeout_update procLe,
        fld PORT_SERVICE_STATS_NP_t.qualification_timeout PORT_SERVICE_STATS_NP_t.qualification_timeout_update procLe,
        fld PORT_SERVICE_STATS_NP_t.sync_mismatch PORT_SERVICE_STATS_NP_t.sync_mismatch_update procLe,
        fld PORT_SERVICE_STATS_NP_t.followup_mismatch PORT_SERVICE_STATS_NP_t.followup_mismatch_update procLe]"

subsection \<open>UNICAST_MASTER_TABLE_NP\<close>

record UNICAST_MASTER_TABLE_NP_t =
  actualTableSize :: Integer16_t
  unicastMasters :: "LinuxptpUnicastMaster_t list"

definition new_UNICAST_MASTER_TABLE_NP :: UNICAST_MASTER_TABLE_NP_t where
  "new_UNICAST_MASTER_TABLE_NP =
     \<lparr>UNICAST_MASTER_TABLE_NP_t.actualTableSize = 0,
      UNICAST_MASTER_TABLE_NP_t.unicastMasters = []\<rparr>"

definition UNICAST_MASTER_TABLE_NP_f :: "UNICAST_MASTER_TABLE_NP_t proc" where
  "UNICAST_MASTER_TABLE_NP_f =
     proc_seq
       [on_build (\<lambda>d. d\<lparr>UNICAST_MASTER_TABLE_NP_t.actualTableSize := of_nat (length (UNICAST_MASTER_TABLE_NP_t.unicastMasters d))\<rparr>),
        fld UNICAST_MASTER_TABLE_NP_t.actualTableSize UNICAST_MASTER_TABLE_NP_t.actualTableSize_update procBN,
        fld_len (\<lambda>d. scast (UNICAST_MASTER_TABLE_NP_t.actualTableSize d)) UNICAST_MASTER_TABLE_NP_t.unicastMasters UNICAST_MASTER_TABLE_NP_t.unicastMasters_update (vector_f zero_LinuxptpUnicastMaster proc_LinuxptpUnicastMaster)]"

definition UNICAST_MASTER_TABLE_NP_s :: "UNICAST_MASTER_TABLE_NP_t \<Rightarrow> nat" where
  "UNICAST_MASTER_TABLE_NP_s d = vector_l LinuxptpUnicastMaster_size 2 (UNICAST_MASTER_TABLE_NP_t.unicastMasters d)"

subsection \<open>PORT_HWCLOCK_NP\<close>

record PORT_HWCLOCK_NP_t =
  portIdentity :: PortIdentity_t
  phc_index :: Integer32_t
  flags :: UInteger8_t

definition new_PORT_HWCLOCK_NP :: PORT_HWCLOCK_NP_t where
  "new_PORT_HWCLOCK_NP =
     \<lparr>PORT_HWCLOCK_NP_t.portIdentity = zero_PortIdentity, PORT_HWCLOCK_NP_t.phc_index = 0,
      PORT_HWCLOCK_NP_t.flags = 0\<rparr>"

definition PORT_HWCLOCK_NP_f :: "PORT_HWCLOCK_NP_t proc" where
  "PORT_HWCLOCK_NP_f =
     proc_seq
       [fld PORT_HWCLOCK_NP_t.portIdentity PORT_HWCLOCK_NP_t.portIdentity_update proc_PortIdentity,
        fld PORT_HWCLOCK_NP_t.phc_index PORT_HWCLOCK_NP_t.phc_index_update procBN,
        fld PORT_HWCLOCK_NP_t.flags PORT_HWCLOCK_NP_t.flags_update procB8]"

subsection \<open>POWER_PROFILE_SETTINGS_NP\<close>

record POWER_PROFILE_SETTINGS_NP_t =
  version :: linuxptpPowerProfileVersion_e
  grandmasterID :: UInteger16_t
  grandmasterTimeInaccuracy :: UInteger32_t
  networkTimeInaccuracy :: UInteger32_t
  totalTimeInaccuracy :: UInteger32_t

definition new_POWER_PROFILE_SETTINGS_NP :: POWER_PROFILE_SETTINGS_NP_t where
  "new_POWER_PROFILE_SETTINGS_NP =
     \<lparr>POWER_PROFILE_SETTINGS_NP_t.version = 0, POWER_PROFILE_SETTINGS_NP_t.grandmasterID = 0,
      POWER_PROFILE_SETTINGS_NP_t.grandmasterTimeInaccuracy = 0,
      POWER_PROFILE_SETTINGS_NP_t.networkTimeInaccuracy = 0,
      POWER_PROFILE_SETTINGS_NP_t.totalTimeInaccuracy = 0\<rparr>"

definition POWER_PROFILE_SETTINGS_NP_f :: "POWER_PROFILE_SETTINGS_NP_t proc" where
  "POWER_PROFILE_SETTINGS_NP_f =
     proc_seq
       [fld POWER_PROFILE_SETTINGS_NP_t.version POWER_PROFILE_SETTINGS_NP_t.version_update procE16,
        fld POWER_PROFILE_SETTINGS_NP_t.grandmasterID POWER_PROFILE_SETTINGS_NP_t.grandmasterID_update procBU,
        fld POWER_PROFILE_SETTINGS_NP_t.grandmasterTimeInaccuracy POWER_PROFILE_SETTINGS_NP_t.grandmasterTimeInaccuracy_update procBU,
        fld POWER_PROFILE_SETTINGS_NP_t.networkTimeInaccuracy POWER_PROFILE_SETTINGS_NP_t.networkTimeInaccuracy_update procBU,
        fld POWER_PROFILE_SETTINGS_NP_t.totalTimeInaccuracy POWER_PROFILE_SETTINGS_NP_t.totalTimeInaccuracy_update procBU]"

subsection \<open>CMLDS_INFO_NP\<close>

record CMLDS_INFO_NP_t =
  meanLinkDelay :: TimeInterval_t
  scaledNeighborRateRatio :: Integer32_t
  as_capable :: uint32_t

definition new_CMLDS_INFO_NP :: CMLDS_INFO_NP_t where
  "new_CMLDS_INFO_NP =
     \<lparr>CMLDS_INFO_NP_t.meanLinkDelay = zero_TimeInterval,
      CMLDS_INFO_NP_t.scaledNeighborRateRatio = 0, CMLDS_INFO_NP_t.as_capable = 0\<rparr>"

definition CMLDS_INFO_NP_f :: "CMLDS_INFO_NP_t proc" where
  "CMLDS_INFO_NP_f =
     proc_seq
       [fld CMLDS_INFO_NP_t.meanLinkDelay CMLDS_INFO_NP_t.meanLinkDelay_update proc_TimeInterval,
        fld CMLDS_INFO_NP_t.scaledNeighborRateRatio CMLDS_INFO_NP_t.scaledNeighborRateRatio_update procBN,
        fld CMLDS_INFO_NP_t.as_capable CMLDS_INFO_NP_t.as_capable_update procBU]"

subsection \<open>PORT_CORRECTIONS_NP\<close>

record PORT_CORRECTIONS_NP_t =
  egressLatency :: Integer64_t
  ingressLatency :: Integer64_t
  delayAsymmetry :: Integer64_t

definition new_PORT_CORRECTIONS_NP :: PORT_CORRECTIONS_NP_t where
  "new_PORT_CORRECTIONS_NP =
     \<lparr>PORT_CORRECTIONS_NP_t.egressLatency = 0, PORT_CORRECTIONS_NP_t.ingressLatency = 0,
      PORT_CORRECTIONS_NP_t.delayAsymmetry = 0\<rparr>"

definition PORT_CORRECTIONS_NP_f :: "PORT_CORRECTIONS_NP_t proc" where
  "PORT_CORRECTIONS_NP_f =
     proc_seq
       [fld PORT_CORRECTIONS_NP_t.egressLatency PORT_CORRECTIONS_NP_t.egressLatency_update procBN,
        fld PORT_CORRECTIONS_NP_t.ingressLatency PORT_CORRECTIONS_NP_t.ingressLatency_update procBN,
        fld PORT_CORRECTIONS_NP_t.delayAsymmetry PORT_CORRECTIONS_NP_t.delayAsymmetry_update procBN]"

subsection \<open>EXTERNAL_GRANDMASTER_PROPERTIES_NP\<close>

record EXTERNAL_GRANDMASTER_PROPERTIES_NP_t =
  gmIdentity :: ClockIdentity_t
  stepsRemoved :: UInteger16_t

definition new_EXTERNAL_GRANDMASTER_PROPERTIES_NP :: EXTERNAL_GRANDMASTER_PROPERTIES_NP_t where
  "new_EXTERNAL_GRANDMASTER_PROPERTIES_NP =
     \<lparr>EXTERNAL_GRANDMASTER_PROPERTIES_NP_t.gmIdentity = zero_ClockIdentity,
      EXTERNAL_GRANDMASTER_PROPERTIES_NP_t.stepsRemoved = 0\<rparr>"

definition EXTERNAL_GRANDMASTER_PROPERTIES_NP_f :: "EXTERNAL_GRANDMASTER_PROPERTIES_NP_t proc" where
  "EXTERNAL_GRANDMASTER_PROPERTIES_NP_f =
     proc_seq
       [fld EXTERNAL_GRANDMASTER_PROPERTIES_NP_t.gmIdentity EXTERNAL_GRANDMASTER_PROPERTIES_NP_t.gmIdentity_update proc_ClockIdentity,
        fld EXTERNAL_GRANDMASTER_PROPERTIES_NP_t.stepsRemoved EXTERNAL_GRANDMASTER_PROPERTIES_NP_t.stepsRemoved_update procBU]"

end
