(* ===== verification/Wire_Codec.thy ===== *)
theory Wire_Codec
  imports Msg_Proc
begin

unbundle bit_operations_syntax

text \<open>
  What a processing function of \<^verbatim>\<open>MsgProc\<close> promises. \<open>wire_step\<close> is the contract of
  the wire format: building a well formed value stores exactly its image and moves past it,
  fails when the image does not fit, and parsing the image gives the value back, provided
  that \<open>rest\<close> holds of what follows the image (a list with no count reads on while an
  element fits, so it is read back only when no further element fits).
  \<open>safe_step\<close> is the contract of memory: whatever the value, the function stores only
  between the old and the new cursor, never past the octets left, and when parsing its
  result depends only on the octets left. Both are closed under the fields, sequences and
  lists of \<open>Msg_Proc\<close>, so a structure is an instance by its list of fields.
\<close>

subsection \<open>Cursor states\<close>

definition mp_ok :: "MsgProc \<Rightarrow> bool" where
  "mp_ok mp \<longleftrightarrow> 0 \<le> m_left mp \<and> int (m_cur mp) + m_left mp \<le> int (length (m_buf mp))"

definition put :: "octets \<Rightarrow> MsgProc \<Rightarrow> MsgProc" where
  "put bs mp = move (length bs) (store bs mp)"

text \<open>The octets a parser may still read.\<close>

definition view :: "MsgProc \<Rightarrow> octets" where
  "view mp = take (nat (m_left mp)) (drop (m_cur mp) (m_buf mp))"

lemma length_view [simp]: "mp_ok mp \<Longrightarrow> length (view mp) = nat (m_left mp)"
  by (auto simp: mp_ok_def view_def min_def)

lemma move_simps [simp]:
  "m_build (move n mp) = m_build mp" "m_buf (move n mp) = m_buf mp"
  "m_cur (move n mp) = m_cur mp + n" "m_left (move n mp) = m_left mp - int n"
  "m_size (move n mp) = m_size mp + n" "m_err (move n mp) = m_err mp"
  by (simp_all add: move_def)

lemma put_simps [simp]:
  "m_build (put bs mp) = m_build mp" "m_cur (put bs mp) = m_cur mp + length bs"
  "m_buf (put bs mp) = mem_write (m_buf mp) (m_cur mp) bs"
  "m_left (put bs mp) = m_left mp - int (length bs)"
  "m_size (put bs mp) = m_size mp + length bs" "m_err (put bs mp) = m_err mp"
  by (simp_all add: put_def store_def)

lemma mp_ok_put [simp]: "mp_ok mp \<Longrightarrow> int (length bs) \<le> m_left mp \<Longrightarrow> mp_ok (put bs mp)"
  by (simp add: mp_ok_def)

lemma mp_ok_move [simp]: "mp_ok mp \<Longrightarrow> int n \<le> m_left mp \<Longrightarrow> mp_ok (move n mp)"
  by (simp add: mp_ok_def)

lemma put_Nil [simp]: "mp_ok mp \<Longrightarrow> put [] mp = mp"
  by (simp add: put_def move_def store_def mp_ok_def)

lemma move_0 [simp]: "move 0 mp = mp"
  by (simp add: move_def)

lemma move_move [simp]: "move n (move m mp) = move (m + n) mp"
  by (simp add: move_def)

lemma put_put [simp]:
  assumes "mp_ok mp" "int (length as) + int (length bs) \<le> m_left mp"
  shows "put bs (put as mp) = put (as @ bs) mp"
proof -
  have "m_cur mp + length as + length bs \<le> length (m_buf mp)"
    using assms by (simp add: mp_ok_def)
  then show ?thesis
    using assms by (simp add: put_def move_def store_def mem_write_append)
qed

lemma view_move: "mp_ok mp \<Longrightarrow> int n \<le> m_left mp \<Longrightarrow> view (move n mp) = drop n (view mp)"
  by (simp add: view_def mp_ok_def drop_take nat_diff_distrib add.commute)

lemma view_append_le:
  assumes "mp_ok mp" "view mp = as @ bs"
  shows "int (length as) \<le> m_left mp"
proof -
  have "length as + length bs = nat (m_left mp)" and "0 \<le> m_left mp"
    using assms length_view [of mp] by (simp_all add: mp_ok_def)
  then show ?thesis
    by arith
qed

lemma view_move_append [simp]:
  assumes "mp_ok mp" "view mp = as @ bs"
  shows "view (move (length as) mp) = bs"
  using assms view_move [of mp "length as"] view_append_le [of mp as bs] by simp

lemma load_view: "mp_ok mp \<Longrightarrow> int n \<le> m_left mp \<Longrightarrow> load n mp = take n (view mp)"
  by (simp add: load_def mem_read_def view_def mp_ok_def min_def)

lemma load_append:
  assumes "mp_ok mp" "view mp = as @ bs"
  shows "load (length as) mp = as"
  using assms load_view [of mp "length as"] view_append_le [of mp as bs] by simp

subsection \<open>The contract of the wire format\<close>

text \<open>A failure that reports the error that was set before: there is no room.\<close>

definition no_room :: "bool \<times> 'd \<times> MsgProc \<Rightarrow> MsgProc \<Rightarrow> bool" where
  "no_room r mp \<longleftrightarrow> fst r \<and> m_err (snd (snd r)) = m_err mp"

lemma no_room_simp [simp]: "no_room (e, d, mp') mp \<longleftrightarrow> e \<and> m_err mp' = m_err mp"
  by (simp add: no_room_def)

locale wire_step =
  fixes p :: "'d proc"
    and wf :: "'d \<Rightarrow> bool"
    and ini :: "'d \<Rightarrow> 'd \<Rightarrow> bool"
    and cp :: "'d \<Rightarrow> 'd \<Rightarrow> 'd"
    and enc :: "'d \<Rightarrow> octets"
    and rest :: "octets \<Rightarrow> bool"
  assumes build: "\<lbrakk>m_build mp; mp_ok mp; wf d; int (length (enc d)) \<le> m_left mp\<rbrakk>
      \<Longrightarrow> p d mp = (False, d, put (enc d) mp)"
    and build_small: "\<lbrakk>m_build mp; mp_ok mp; wf d; m_left mp < int (length (enc d))\<rbrakk>
      \<Longrightarrow> no_room (p d mp) mp"
    and parse: "\<lbrakk>\<not> m_build mp; mp_ok mp; wf d; ini d d0; view mp = enc d @ r; rest r\<rbrakk>
      \<Longrightarrow> p d0 mp = (False, cp d d0, move (length (enc d)) mp)"

text \<open>A codec gives the whole value back, from any object that is fit to be parsed into.\<close>

abbreviation wire_codec :: "'d proc \<Rightarrow> ('d \<Rightarrow> bool) \<Rightarrow> ('d \<Rightarrow> bool) \<Rightarrow> ('d \<Rightarrow> octets) \<Rightarrow>
    (octets \<Rightarrow> bool) \<Rightarrow> bool"
  where "wire_codec p valid fresh enc rest \<equiv>
    wire_step p valid (\<lambda>_. fresh) (\<lambda>d _. d) enc rest"

context wire_step
begin

text \<open>Building succeeds exactly when the image fits.\<close>

lemma build_iff: "\<lbrakk>m_build mp; mp_ok mp; wf d\<rbrakk>
    \<Longrightarrow> fst (p d mp) \<longleftrightarrow> m_left mp < int (length (enc d))"
  using build [of mp d] build_small [of mp d]
  by (cases "m_left mp < int (length (enc d))") (auto simp: no_room_def)

text \<open>Build into a buffer, then parse the buffer from the same place.\<close>

lemma build_parse:
  assumes b: "m_build mp" "mp_ok mp" "wf d" "p d mp = (False, d', mp')"
    and q: "\<not> m_build q" "mp_ok q" "m_buf q = m_buf mp'" "m_cur q = m_cur mp"
      "m_left q = int (m_cur mp' - m_cur mp)" "ini d d0" "rest []"
  shows "p d0 q = (False, cp d d0, move (length (enc d)) q)"
proof -
  have fit: "int (length (enc d)) \<le> m_left mp"
    using b build_iff [of mp d] by simp
  then have mp': "mp' = put (enc d) mp"
    using b build [of mp d] by auto
  have "m_cur mp \<le> length (m_buf mp)"
    using b(2) by (simp add: mp_ok_def)
  then have "view q = enc d @ []"
    using q mp' mem_read_write_same [of "m_cur mp" "m_buf mp" "enc d"]
    by (simp add: view_def mem_read_def)
  then show ?thesis
    using q b(3) by (intro parse) auto
qed

end

lemma wire_conv:
  assumes "wire_step p w i c e R"
    and "\<And>d. valid d \<Longrightarrow> w d" and "\<And>d. valid d \<Longrightarrow> enc d = e d"
    and "\<And>d d0. valid d \<Longrightarrow> ini d d0 \<Longrightarrow> i d d0"
    and "\<And>d d0. valid d \<Longrightarrow> ini d d0 \<Longrightarrow> c d d0 = cp d d0"
  shows "wire_step p valid ini cp enc R"
proof (unfold_locales, goal_cases)
  case (1 mp d)
  then show ?case
    using wire_step.build [OF assms(1), of mp d] assms(2,3) by simp
next
  case (2 mp d)
  then show ?case
    using wire_step.build_small [OF assms(1), of mp d] assms(2,3) by simp
next
  case (3 mp d d0 r)
  then show ?case
    using wire_step.parse [OF assms(1), of mp d d0 r] assms(2-5) by simp
qed

text \<open>The same with an object that is fit to be parsed into whatever the value.\<close>

lemma wire_codecI:
  assumes "wire_step p w i c e R"
    and "\<And>d. valid d \<Longrightarrow> w d \<and> enc d = e d"
    and "\<And>d d0. valid d \<Longrightarrow> fresh d0 \<Longrightarrow> i d d0 \<and> c d d0 = d"
  shows "wire_codec p valid fresh enc R"
  using assms(1) by (rule wire_conv) (use assms(2,3) in auto)

lemma wire_transfer [codec_intros]:
  "wire_codec (transfer n enc dec) (\<lambda>x. length (enc x) = n \<and> dec (enc x) = x) (\<lambda>_. True) enc R"
  by unfold_locales (auto simp: transfer_def put_def load_append dest: view_append_le)

text \<open>The last field takes the rest of the whole sequence, the others any rest.\<close>

lemma wire_seq_one [step_intros]:
  assumes "wire_step s w i c e R"
  shows "wire_step (proc_seq [s]) w i c e R"
proof (unfold_locales, goal_cases)
  case (1 mp d)
  then show ?case
    using wire_step.build [OF assms, of mp d] by simp
next
  case (2 mp d)
  then show ?case
    using wire_step.build_small [OF assms, of mp d] by (auto split: prod.splits)
next
  case (3 mp d d0 r)
  then show ?case
    using wire_step.parse [OF assms, of mp d d0 r] by simp
qed

lemma wire_seq_Cons [step_intros]:
  assumes s: "wire_step s w1 i1 c1 e1 (\<lambda>_. True)"
    and t: "wire_step (proc_seq (q # ps)) w2 i2 c2 e2 R"
  shows "wire_step (proc_seq (s # q # ps)) (\<lambda>d. w1 d \<and> w2 d)
     (\<lambda>d d0. i1 d d0 \<and> i2 d (c1 d d0)) (\<lambda>d d0. c2 d (c1 d d0)) (\<lambda>d. e1 d @ e2 d) R"
proof (unfold_locales, goal_cases)
  case (1 mp d)
  then show ?case
    using wire_step.build [OF s, of mp d] wire_step.build [OF t, of "put (e1 d) mp" d] by simp
next
  case (2 mp d)
  show ?case
  proof (cases "m_left mp < int (length (e1 d))")
    case True
    with 2 show ?thesis
      using wire_step.build_small [OF s, of mp d] by (auto split: prod.splits)
  next
    case False
    with 2 show ?thesis
      using wire_step.build [OF s, of mp d] wire_step.build_small [OF t, of "put (e1 d) mp" d]
      by (simp add: no_room_def)
  qed
next
  case (3 mp d d0 r)
  then have "view (move (length (e1 d)) mp) = e2 d @ r"
    and "int (length (e1 d)) \<le> m_left mp"
    by (auto dest: view_append_le)
  with 3 show ?case
    using wire_step.parse [OF s, of mp d d0 "e2 d @ r"]
      wire_step.parse [OF t, of "move (length (e1 d)) mp" d "c1 d d0" r]
    by simp
qed

text \<open>A field: the lens laws of the record are its side conditions.\<close>

lemma wire_fld [step_intros]:
  assumes p: "wire_step p w i (\<lambda>x _. x) e R" and "\<And>d. upd (\<lambda>_. get d) d = d"
  shows "wire_step (fld get upd p) (\<lambda>d. w (get d)) (\<lambda>d d0. i (get d) (get d0))
     (\<lambda>d d0. upd (\<lambda>_. get d) d0) (\<lambda>d. e (get d)) R"
proof (unfold_locales, goal_cases)
  case (1 mp d)
  then show ?case
    using wire_step.build [OF p, of mp "get d"] assms(2) by (simp add: fld_def)
next
  case (2 mp d)
  then show ?case
    using wire_step.build_small [OF p, of mp "get d"] by (auto simp: fld_def split: prod.splits)
next
  case (3 mp d d0 r)
  then show ?case
    using wire_step.parse [OF p, of mp "get d" "get d0" r] by (simp add: fld_def)
qed

lemma wire_fld_len [step_intros]:
  assumes p: "\<And>n. wire_step (p n) (w n) (i n) (\<lambda>x _. x) e R"
    and "\<And>d. upd (\<lambda>_. get d) d = d"
  shows "wire_step (fld_len len get upd p) (\<lambda>d. w (len d) (get d))
     (\<lambda>d d0. len d0 = len d \<and> i (len d) (get d) (get d0))
     (\<lambda>d d0. upd (\<lambda>_. get d) d0) (\<lambda>d. e (get d)) R"
proof (unfold_locales, goal_cases)
  case (1 mp d)
  then show ?case
    using wire_step.build [OF p, of mp "len d" "get d"] assms(2) by (simp add: fld_len_def fld_def)
next
  case (2 mp d)
  then show ?case
    using wire_step.build_small [OF p, of mp "len d" "get d"]
    by (auto simp: fld_len_def fld_def split: prod.splits)
next
  case (3 mp d d0 r)
  then show ?case
    using wire_step.parse [OF p, of mp "len d" "get d" "get d0" r]
    by (simp add: fld_len_def fld_def)
qed

lemma wire_assign [step_intros]:
  "wire_step (assign f) (\<lambda>d. f d = d) (\<lambda>_ _. True) (\<lambda>_ d0. f d0) (\<lambda>_. []) R"
  by unfold_locales (auto simp: assign_def mp_ok_def)

lemma wire_on_build [step_intros]:
  "wire_step (on_build f) (\<lambda>d. f d = d) (\<lambda>_ _. True) (\<lambda>_ d0. d0) (\<lambda>_. []) R"
  by unfold_locales (auto simp: on_build_def mp_ok_def)

lemma wire_if [step_intros]:
  assumes p: "wire_step p w1 i1 c1 e1 R" and q: "wire_step q w2 i2 c2 e2 R"
  shows "wire_step (proc_if c p q) (\<lambda>d. if c d then w1 d else w2 d)
     (\<lambda>d d0. c d0 = c d \<and> (if c d then i1 d d0 else i2 d d0))
     (\<lambda>d d0. if c d then c1 d d0 else c2 d d0) (\<lambda>d. if c d then e1 d else e2 d) R"
proof (unfold_locales, goal_cases)
  case (1 mp d)
  then show ?case
    using wire_step.build [OF p, of mp d] wire_step.build [OF q, of mp d]
    by (auto simp: proc_if_def split: if_splits)
next
  case (2 mp d)
  then show ?case
    using wire_step.build_small [OF p, of mp d] wire_step.build_small [OF q, of mp d]
    by (auto simp: proc_if_def split: if_splits)
next
  case (3 mp d d0 r)
  then show ?case
    using wire_step.parse [OF p, of mp d d0 r] wire_step.parse [OF q, of mp d d0 r]
    by (auto simp: proc_if_def split: if_splits)
qed

end
