(* ===== verification/Wire_Basic.thy ===== *)
theory Wire_Basic
  imports Wire_Codec
begin

unbundle bit_operations_syntax

text \<open>
  The wire images of the basic types, and that the functions of \<open>Msg_Proc\<close> implement them.
  An image is written as the protocol lays it out: integers in network order, a 48 bits
  integer in six octets, texts and addresses after their length.
\<close>

subsection \<open>Integers\<close>

lemma wire_procB8 [codec_intros]:
  "wire_codec procB8 (\<lambda>_. True) (\<lambda>_. True) (\<lambda>x. [x]) R"
  unfolding procB8_def by (rule wire_conv [OF wire_transfer]) auto

lemma wire_procBU [codec_intros]:
  "octet_word TYPE('a word) \<Longrightarrow>
   wire_codec (procBU :: ('a::len word) proc) (\<lambda>_. True) (\<lambda>_. True) cpu_to_net R"
  unfolding procBU_def
  by (rule wire_conv [OF wire_transfer]) (auto simp: net_to_cpu_to_net)

lemma wire_procBN [codec_intros]:
  "octet_word TYPE('a word) \<Longrightarrow>
   wire_codec (procBN :: ('a::len word) proc) (\<lambda>_. True) (\<lambda>_. True) cpu_to_net R"
  unfolding procBN_def
  by (rule wire_conv [OF wire_transfer]) (auto simp: net_to_cpu_to_net)

lemma wire_procLe [codec_intros]:
  "wire_codec procLe (\<lambda>_. True) (\<lambda>_. True) cpu_to_le64 R"
  unfolding procLe_def by (rule wire_conv [OF wire_transfer]) auto

lemma wire_procRes [step_intros]:
  "wire_step procRes (\<lambda>_. True) (\<lambda>_ _. True) (\<lambda>_ d0. d0) (\<lambda>_. [0]) R"
proof (unfold_locales, goal_cases)
  case (1 mp d)
  then show ?case
    using wire_step.build [OF wire_procB8, of mp 0] by (simp add: procRes_def)
next
  case (2 mp d)
  then show ?case
    using wire_step.build_small [OF wire_procB8, of mp 0]
    by (auto simp: procRes_def split: prod.splits)
next
  case (3 mp d d0 r)
  then show ?case
    using wire_step.parse [OF wire_procB8, of mp 0 r R 0] by (simp add: procRes_def)
qed

lemma wire_procE8 [codec_intros]:
  "wire_codec procE8 (\<lambda>_. True) (\<lambda>_. True) (\<lambda>x. [x]) R"
proof (unfold_locales, goal_cases)
  case (1 mp d)
  then show ?case
    using wire_step.build [OF wire_procB8, of mp d] by (simp add: procE8_def)
next
  case (2 mp d)
  then show ?case
    using wire_step.build_small [OF wire_procB8, of mp d]
    by (auto simp: procE8_def split: prod.splits)
next
  case (3 mp d d0 r)
  then show ?case
    using wire_step.parse [OF wire_procB8, of mp d r R 0] by (simp add: procE8_def)
qed

lemma wire_procE16 [codec_intros]:
  "wire_codec procE16 (\<lambda>_. True) (\<lambda>_. True) cpu_to_net R"
proof (unfold_locales, goal_cases)
  case (1 mp d)
  then show ?case
    using wire_step.build [OF wire_procBU, of mp d] by (simp add: procE16_def)
next
  case (2 mp d)
  then show ?case
    using wire_step.build_small [OF wire_procBU, of mp d]
    by (auto simp: procE16_def split: prod.splits)
next
  case (3 mp d d0 r)
  then show ?case
    using wire_step.parse [OF wire_procBU, of mp d r R 0] by (simp add: procE16_def)
qed

text \<open>Flags that building leaves as they are.\<close>

definition valid_flags :: "uint8_t \<Rightarrow> uint8_t \<Rightarrow> bool" where
  "valid_flags msk f \<longleftrightarrow> (if msk > 1 then f AND msk = f else f \<le> 1)"

lemma wire_procFlags [codec_intros]:
  "wire_codec (procFlags msk) (valid_flags msk) (\<lambda>_. True) (\<lambda>x. [x]) R"
proof (unfold_locales, goal_cases)
  case (1 mp d)
  then have "(if msk > 1 then d AND msk else if d > 0 then 1 else d) = d"
    by (auto simp: valid_flags_def order.antisym word_less_nat_alt word_le_nat_alt unat_eq_zero
        split: if_splits)
  with 1 show ?case
    using wire_step.build [OF wire_procB8, of mp d] by (simp add: procFlags_def)
next
  case (2 mp d)
  then show ?case
    using wire_step.build_small [OF wire_procB8, of mp] by (auto simp: procFlags_def Let_def)
next
  case (3 mp d d0 r)
  then show ?case
    using wire_step.parse [OF wire_procB8, of mp d r R d0] by (simp add: procFlags_def)
qed

lemma wire_proc_Float64 [codec_intros]:
  "wire_codec proc_Float64 (\<lambda>_. True) (\<lambda>_. True) cpu_to_net R"
proof (unfold_locales, goal_cases)
  case (1 mp d)
  then show ?case
    using wire_step.build [OF wire_procBU, of mp d] by (simp add: proc_Float64_def)
next
  case (2 mp d)
  then show ?case
    by (simp add: proc_Float64_def)
next
  case (3 mp d d0 r)
  then show ?case
    using wire_step.parse [OF wire_procBU, of mp d r R d0] view_append_le [of mp "cpu_to_net d" r]
    by (simp add: proc_Float64_def)
qed

subsection \<open>48 bits\<close>

definition enc48 :: "UInteger48_t \<Rightarrow> octets" where
  "enc48 x = be_bytes 6 (unat x)"

lemma length_enc48 [simp, wire_len]: "length (enc48 x) = 6"
  by (simp add: enc48_def)

lemma be_bytes_append:
  "be_bytes (m + n) x = be_bytes m (x div 256 ^ n) @ be_bytes n x"
proof (induction n arbitrary: x)
  case 0
  show ?case by simp
next
  case (Suc n)
  show ?case
    using Suc [of "x div 256"] by (simp add: div_mult2_eq)
qed

lemma be_bytes_mod: "be_bytes n (x mod 256 ^ n) = be_bytes n x"
proof -
  have "be_bytes n (be_nat (be_bytes n x)) = be_bytes n x"
    using be_bytes_be_nat [of "be_bytes n x"] by simp
  then show ?thesis by simp
qed

definition high48 :: "UInteger48_t \<Rightarrow> uint16_t" where
  "high48 x = ucast (drop_bit 32 x AND 0xffff)"

definition low48 :: "UInteger48_t \<Rightarrow> uint32_t" where
  "low48 x = ucast (x AND 0xffffffff)"

lemma high48_ucast: "high48 x = ucast (drop_bit 32 x)"
  and low48_ucast: "low48 x = ucast x"
proof -
  have "(0xffff :: uint64_t) = mask 16" and "(0xffffffff :: uint64_t) = mask 32"
    by (simp_all add: mask_eq_exp_minus_1)
  then show "high48 x = ucast (drop_bit 32 x)" and "low48 x = ucast x"
    by (simp_all add: high48_def low48_def bit_eq_iff bit_simps bit_and_iff bit_mask_iff)
qed

lemma unat_high48: "unat (high48 x) = (unat x div 2 ^ 32) mod 2 ^ 16"
  and unat_low48: "unat (low48 x) = unat x mod 2 ^ 32"
  by (simp_all add: high48_ucast low48_ucast unsigned_ucast_eq drop_bit_eq_div take_bit_eq_mod
      unat_div)

lemma enc48_split: "cpu_to_net (high48 x) @ cpu_to_net (low48 x) = enc48 x"
proof -
  have "cpu_to_net (high48 x) = be_bytes 2 (unat x div 256 ^ 4)"
    using be_bytes_mod [of 2 "unat x div 2 ^ 32"] by (simp add: cpu_to_net_def unat_high48)
  moreover have "cpu_to_net (low48 x) = be_bytes 4 (unat x)"
    using be_bytes_mod [of 4 "unat x"] by (simp add: cpu_to_net_def unat_low48)
  ultimately show ?thesis
    using be_bytes_append [of 2 4 "unat x"] by (simp add: enc48_def)
qed

lemma join48:
  assumes "x \<le> UINT48_MAX"
  shows "ucast (low48 x) OR push_bit 32 (ucast (high48 x)) = x"
proof (rule bit_word_eqI)
  fix n
  assume n: "n < LENGTH(64)"
  have "x = x AND mask 48"
    using assms
    by (simp add: UINT48_MAX_def word_le_nat_alt word_unat_eq_iff unsigned_take_bit_eq
        take_bit_eq_mod unat_mod flip: take_bit_eq_mask)
  then have high: "bit x n \<longrightarrow> n < 48"
    by (metis bit_and_iff bit_mask_iff)
  show "bit (ucast (low48 x) OR push_bit 32 (ucast (high48 x)) :: uint64_t) n = bit x n"
    unfolding high48_ucast low48_ucast using n high
    by (cases "n < 32")
      (auto simp: bit_or_iff bit_push_bit_iff bit_unsigned_iff bit_drop_bit_eq)
qed

lemma wire_proc48 [codec_intros]:
  "wire_codec proc48 (\<lambda>x. x \<le> UINT48_MAX) (\<lambda>_. True) enc48 R"
proof (unfold_locales, goal_cases)
  case (1 mp x)
  then have "procBU (high48 x) mp = (False, high48 x, put (cpu_to_net (high48 x)) mp)"
    and "procBU (low48 x) (put (cpu_to_net (high48 x)) mp) =
      (False, low48 x, put (cpu_to_net (low48 x)) (put (cpu_to_net (high48 x)) mp))"
    by (simp_all add: wire_step.build [OF wire_procBU])
  with 1 show ?case
    by (simp add: proc48_def enc48_split flip: high48_def low48_def)
next
  case (2 mp x)
  then show ?case
    by (simp add: proc48_def)
next
  case (3 mp x x0 r)
  let ?h = "cpu_to_net (high48 x)" and ?l = "cpu_to_net (low48 x)"
  have v: "view mp = ?h @ ?l @ r"
    using 3 enc48_split [of x] by simp
  then have le: "6 \<le> m_left mp"
    using view_append_le [OF 3(2), of "?h @ ?l" r] by simp
  have "procBU (0 :: uint16_t) mp = (False, high48 x, move 2 mp)"
    using wire_step.parse [OF wire_procBU, of mp "high48 x" "?l @ r" "\<lambda>_. True" 0] 3 v by simp
  moreover have "procBU (0 :: uint32_t) (move 2 mp) = (False, low48 x, move 6 mp)"
    using wire_step.parse [OF wire_procBU, of "move 2 mp" "low48 x" r "\<lambda>_. True" 0] 3 le
      view_move_append [OF 3(2) v] by simp
  ultimately show ?case
    using 3 le join48 [of x] by (simp add: proc48_def)
qed

subsection \<open>Octets and lists\<close>

lemma wire_proc_octets [codec_intros]:
  "wire_codec (proc_octets n) (\<lambda>x. length x = n) (\<lambda>_. True) (\<lambda>x. x) R"
  unfolding proc_octets_def by (rule wire_conv [OF wire_transfer]) auto

text \<open>A text and an address are read back when the length field before them is right.\<close>

lemma len16 [simp]: "unat (word_of_nat n :: uint16_t) = n mod 2 ^ 16"
  and len8 [simp]: "unat (word_of_nat n :: uint8_t) = n mod 2 ^ 8"
  by (simp_all add: unsigned_of_nat take_bit_eq_mod)

lemma len16_ok: "m = unat (l :: uint16_t) \<Longrightarrow> m mod 65536 = m"
  using word_bound [of l] by simp

lemma load_len:
  "\<lbrakk>mp_ok mp; view mp = s @ r; length s = n\<rbrakk> \<Longrightarrow> load n mp = s"
  using load_append [of mp s r] by simp

lemma wire_proc_string [codec_intros]:
  "wire_codec (proc_string l) (\<lambda>s. length s = unat l) (\<lambda>_. True) (\<lambda>s. s) R"
  by unfold_locales
    (auto simp: proc_string_def Let_def len16_ok put_def load_len dest: view_append_le)

lemma wire_proc_Binary [codec_intros]:
  "wire_codec (proc_Binary l) (\<lambda>s. length s = unat l) (\<lambda>_. True) (\<lambda>s. s) R"
  by unfold_locales
    (auto simp: proc_Binary_def Let_def len16_ok put_def load_len dest: view_append_le)

lemma wire_proc_Binary_left [codec_intros]:
  "wire_codec proc_Binary_left (\<lambda>s. length s < 2 ^ 16) (\<lambda>_. True) (\<lambda>s. s) (\<lambda>r. r = [])"
proof (unfold_locales, goal_cases)
  case (1 mp s)
  then show ?case
    by (simp add: proc_Binary_left_def proc_Binary_def put_def)
next
  case (2 mp s)
  then show ?case
    by (simp add: proc_Binary_left_def proc_Binary_def)
next
  case (3 mp s s0 r)
  then have "m_left mp = int (length s)"
    using length_view [of mp] by (simp add: mp_ok_def)
  then show ?case
    using 3 wire_step.parse [OF wire_proc_Binary, of mp s "word_of_nat (length s)" "[]" "\<lambda>_. True" s0]
    by (simp add: proc_Binary_left_def)
qed

definition enc_list :: "('a \<Rightarrow> octets) \<Rightarrow> 'a list \<Rightarrow> octets" where
  "enc_list e xs = concat (map e xs)"

lemma enc_list_simps [simp]:
  "enc_list e [] = []" "enc_list e (x # xs) = e x @ enc_list e xs"
  by (simp_all add: enc_list_def)

lemma vector_b_build:
  assumes p: "wire_codec p V F e (\<lambda>_. True)"
    and "m_build mp" "mp_ok mp" "\<forall>x \<in> set xs. V x" "int (length (enc_list e xs)) \<le> m_left mp"
  shows "vector_b p xs mp = (False, xs, put (enc_list e xs) mp)"
  using assms(2-)
proof (induction xs arbitrary: mp)
  case Nil
  then show ?case by simp
next
  case (Cons x xs)
  then have "p x mp = (False, x, put (e x) mp)"
    using wire_step.build [OF p, of mp x] by simp
  moreover have "vector_b p xs (put (e x) mp) = (False, xs, put (enc_list e xs) (put (e x) mp))"
    using Cons.prems by (intro Cons.IH) auto
  ultimately show ?case
    using Cons.prems by simp
qed

lemma vector_b_small:
  assumes p: "wire_codec p V F e (\<lambda>_. True)"
    and "m_build mp" "mp_ok mp" "\<forall>x \<in> set xs. V x" "m_left mp < int (length (enc_list e xs))"
  shows "no_room (vector_b p xs mp) mp"
  using assms(2-)
proof (induction xs arbitrary: mp)
  case Nil
  then show ?case by (simp add: mp_ok_def)
next
  case (Cons x xs)
  show ?case
  proof (cases "m_left mp < int (length (e x))")
    case True
    then show ?thesis
      using Cons.prems wire_step.build_small [OF p, of mp x] by (auto split: prod.splits)
  next
    case False
    then have "p x mp = (False, x, put (e x) mp)"
      using Cons.prems wire_step.build [OF p, of mp x] by simp
    moreover have "no_room (vector_b p xs (put (e x) mp)) (put (e x) mp)"
      using Cons.prems False by (intro Cons.IH) auto
    ultimately show ?thesis
      by (auto split: prod.splits)
  qed
qed

lemma parse_n_enc:
  assumes p: "wire_codec p V F e (\<lambda>_. True)" and "F new"
    and "\<not> m_build mp" "mp_ok mp" "\<forall>x \<in> set xs. V x" "view mp = enc_list e xs @ r"
  shows "parse_n new p (length xs) acc mp = (False, acc @ xs, move (length (enc_list e xs)) mp)"
  using assms(2-)
proof (induction xs arbitrary: mp acc)
  case Nil
  then show ?case by simp
next
  case (Cons x xs)
  then have v: "view mp = e x @ enc_list e xs @ r" and V: "V x"
    by simp_all
  then have "p new mp = (False, x, move (length (e x)) mp)"
    using wire_step.parse [OF p, of mp x new "enc_list e xs @ r"] Cons.prems by simp
  moreover have "parse_n new p (length xs) (acc @ [x]) (move (length (e x)) mp) =
      (False, (acc @ [x]) @ xs, move (length (enc_list e xs)) (move (length (e x)) mp))"
    using Cons.prems v view_append_le [of mp "e x"] by (intro Cons.IH) auto
  ultimately show ?case
    by simp
qed

lemma parse_while_enc:
  assumes p: "wire_codec p V F e (\<lambda>_. True)" and sz: "\<And>x. V x \<Longrightarrow> sz \<le> length (e x)"
    and "F new" "\<not> m_build mp" "mp_ok mp" "\<forall>x \<in> set xs. V x" "view mp = enc_list e xs @ r"
    "length r < sz" "length xs < fuel"
  shows "parse_while fuel new p sz acc mp =
    (False, acc @ xs, move (length (enc_list e xs)) mp)"
  using assms(3-)
proof (induction xs arbitrary: mp acc fuel)
  case Nil
  then have "nat (m_left mp) < sz"
    using length_view [of mp] by simp
  then show ?case
    using Nil by (cases fuel) auto
next
  case (Cons x xs)
  then obtain k where k: "fuel = Suc k"
    by (cases fuel) auto
  have v: "view mp = e x @ enc_list e xs @ r" and V: "V x"
    using Cons.prems by simp_all
  have "int sz \<le> m_left mp"
    using sz [OF V] view_append_le [OF _ v] Cons.prems by simp
  moreover have "p new mp = (False, x, move (length (e x)) mp)"
    using wire_step.parse [OF p, of mp x new "enc_list e xs @ r"] Cons.prems v by simp
  moreover have "parse_while k new p sz (acc @ [x]) (move (length (e x)) mp) =
      (False, (acc @ [x]) @ xs, move (length (enc_list e xs)) (move (length (e x)) mp))"
    using Cons.prems v k view_append_le [of mp "e x"] by (intro Cons.IH) auto
  ultimately show ?case
    by (simp add: k)
qed

lemma wire_vector_f [codec_intros]:
  assumes p: "wire_codec p V F e (\<lambda>_. True)" and "F new"
  shows "wire_codec (vector_f new p count) (\<lambda>xs. length xs = unat count \<and> (\<forall>x \<in> set xs. V x))
     (\<lambda>xs. xs = []) (enc_list e) R"
proof (unfold_locales, goal_cases)
  case (1 mp d)
  then show ?case
    by (simp add: vector_f_def vector_b_build [OF p])
next
  case (2 mp d)
  then show ?case
    by (simp add: vector_f_def vector_b_small [OF p])
next
  case (3 mp xs xs0 r)
  then show ?case
    using parse_n_enc [OF assms, of mp xs r "[]"] by (simp add: vector_f_def)
qed

lemma length_enc_list_ge:
  assumes "\<And>x. V x \<Longrightarrow> 0 < length (e x)" and "\<forall>x \<in> set xs. V x"
  shows "length xs \<le> length (enc_list e xs)"
  using assms(2)
proof (induction xs)
  case (Cons x xs)
  then show ?case
    using assms(1) [of x] by (cases "e x") auto
qed simp

lemma wire_vector_o [codec_intros]:
  assumes p: "wire_codec p V F e (\<lambda>_. True)" and "F new"
    and sz: "\<And>x. V x \<Longrightarrow> sz \<le> length (e x)" "0 < sz" "\<And>r. R r \<Longrightarrow> length r < sz"
  shows "wire_codec (vector_o new p sz) (\<lambda>xs. \<forall>x \<in> set xs. V x) (\<lambda>xs. xs = []) (enc_list e) R"
proof (unfold_locales, goal_cases)
  case (1 mp d)
  then show ?case
    by (simp add: vector_o_def vector_b_build [OF p])
next
  case (2 mp d)
  then show ?case
    by (simp add: vector_o_def vector_b_small [OF p])
next
  case (3 mp xs xs0 r)
  have "length xs \<le> length (enc_list e xs)"
    using 3(3) sz(1,2) by (intro length_enc_list_ge [where V = V]) (auto dest: order.strict_trans2)
  then have "length xs < Suc (nat (m_left mp))"
    using view_append_le [OF 3(2,5)] by linarith
  then show ?case
    using 3 sz(3) [OF 3(6)]
      parse_while_enc [OF p sz(1) assms(2), of mp xs r "Suc (nat (m_left mp))" "[]"]
    by (simp add: vector_o_def del: parse_while.simps)
qed

text \<open>An array is processed in place, element by element.\<close>

lemma wire_vector_b [codec_intros]:
  assumes p: "wire_codec p V F e (\<lambda>_. True)"
  shows "wire_step (vector_b p) (\<lambda>xs. \<forall>x \<in> set xs. V x)
     (\<lambda>xs ys. length ys = length xs \<and> (\<forall>y \<in> set ys. F y)) (\<lambda>xs _. xs) (enc_list e) R"
proof (unfold_locales, goal_cases)
  case (1 mp d)
  then show ?case
    by (simp add: vector_b_build [OF p])
next
  case (2 mp d)
  then show ?case
    by (simp add: vector_b_small [OF p])
next
  case (3 mp xs ys r)
  then have "length ys = length xs" "\<forall>y \<in> set ys. F y"
    by simp_all
  then show ?case
    using 3(1-3,5)
  proof (induction ys xs arbitrary: mp rule: list_induct2)
    case (Cons y ys x xs)
    then have v: "view mp = e x @ enc_list e xs @ r"
      by simp
    then have "p y mp = (False, x, move (length (e x)) mp)"
      using wire_step.parse [OF p, of mp x y "enc_list e xs @ r"] Cons.prems by simp
    moreover have "vector_b p ys (move (length (e x)) mp) =
        (False, xs, move (length (enc_list e xs)) (move (length (e x)) mp))"
      using Cons.prems v view_append_le [of mp "e x"] by (intro Cons.IH) auto
    ultimately show ?case
      by simp
  qed simp
qed

end
