(* ===== verification/Wire_Structs.thy ===== *)
theory Wire_Structs
  imports Wire_Basic
begin

unbundle bit_operations_syntax

text \<open>
  The wire images of the structures of \<^verbatim>\<open>src/types.m4\<close>, field by field in the order of
  the protocol, the values that have an image, and that the functions of \<open>Msg_Proc\<close>
  implement them.
\<close>

definition enc_TimeInterval :: "TimeInterval_t \<Rightarrow> octets" where
  "enc_TimeInterval d = cpu_to_net (scaledNanoseconds d)"

lemma wire_proc_TimeInterval [codec_intros]:
  "wire_codec proc_TimeInterval (\<lambda>_. True) (\<lambda>_. True) enc_TimeInterval R"
  unfolding proc_TimeInterval_def
  by (rule wire_codecI, (rule step_intros codec_intros | simp add: enc_TimeInterval_def)+)

definition valid_Timestamp :: "Timestamp_t \<Rightarrow> bool" where
  "valid_Timestamp d \<longleftrightarrow> secondsField d \<le> UINT48_MAX"

definition enc_Timestamp :: "Timestamp_t \<Rightarrow> octets" where
  "enc_Timestamp d = enc48 (secondsField d) @ cpu_to_net (nanosecondsField d)"

lemma wire_proc_Timestamp [codec_intros]:
  "wire_codec proc_Timestamp valid_Timestamp (\<lambda>_. True) enc_Timestamp R"
  unfolding proc_Timestamp_def
  by (rule wire_codecI, (rule step_intros codec_intros | simp)+) 
    (simp_all add: enc_Timestamp_def valid_Timestamp_def)

definition valid_ClockIdentity :: "ClockIdentity_t \<Rightarrow> bool" where
  "valid_ClockIdentity d \<longleftrightarrow> length (ci_v d) = 8"

lemma wire_proc_ClockIdentity [codec_intros]:
  "wire_codec proc_ClockIdentity valid_ClockIdentity (\<lambda>_. True) ci_v R"
  unfolding proc_ClockIdentity_def
  by (rule wire_codecI, (rule step_intros codec_intros | simp)+)
    (simp_all add: valid_ClockIdentity_def ClockIdentity_size_def)

definition valid_PortIdentity :: "PortIdentity_t \<Rightarrow> bool" where
  "valid_PortIdentity d \<longleftrightarrow> valid_ClockIdentity (clockIdentity d)"

definition enc_PortIdentity :: "PortIdentity_t \<Rightarrow> octets" where
  "enc_PortIdentity d = ci_v (clockIdentity d) @ cpu_to_net (portNumber d)"

lemma wire_proc_PortIdentity [codec_intros]:
  "wire_codec proc_PortIdentity valid_PortIdentity (\<lambda>_. True) enc_PortIdentity R"
  unfolding proc_PortIdentity_def
  by (rule wire_codecI, (rule step_intros codec_intros | simp)+)
    (simp_all add: valid_PortIdentity_def enc_PortIdentity_def)

definition valid_PortAddress :: "PortAddress_t \<Rightarrow> bool" where
  "valid_PortAddress d \<longleftrightarrow> length (addressField d) = unat (addressLength d)"

definition enc_PortAddress :: "PortAddress_t \<Rightarrow> octets" where
  "enc_PortAddress d =
     cpu_to_net (networkProtocol d) @ cpu_to_net (addressLength d) @ addressField d"

lemma wire_proc_PortAddress [codec_intros]:
  "wire_codec proc_PortAddress valid_PortAddress (\<lambda>_. True) enc_PortAddress R"
  unfolding proc_PortAddress_def
  by (rule wire_codecI, (rule step_intros codec_intros | simp)+)
    (simp_all add: valid_PortAddress_def enc_PortAddress_def)

definition enc_ClockQuality :: "ClockQuality_t \<Rightarrow> octets" where
  "enc_ClockQuality d =
     clockClass d # clockAccuracy d # cpu_to_net (offsetScaledLogVariance d)"

lemma wire_proc_ClockQuality [codec_intros]:
  "wire_codec proc_ClockQuality (\<lambda>_. True) (\<lambda>_. True) enc_ClockQuality R"
  unfolding proc_ClockQuality_def
  by (rule wire_codecI, (rule step_intros codec_intros | simp)+)
    (simp_all add: enc_ClockQuality_def)

definition valid_PTPText :: "PTPText_t \<Rightarrow> bool" where
  "valid_PTPText d \<longleftrightarrow> length (textField d) = unat (lengthField d)"

definition enc_PTPText :: "PTPText_t \<Rightarrow> octets" where
  "enc_PTPText d = lengthField d # textField d"

lemma wire_text_too_long [step_intros]:
  "wire_step text_too_long (\<lambda>d. length (textField d) \<le> 255)
     (\<lambda>_ d0. length (textField d0) \<le> 255) (\<lambda>_ d0. d0) (\<lambda>_. []) R"
  by unfold_locales (auto simp: text_too_long_def mp_ok_def)

lemma valid_text_length: "valid_PTPText d \<Longrightarrow> length (textField d) \<le> 255"
  using octet_bound [of "lengthField d"] by (simp add: valid_PTPText_def)

lemma wire_proc_PTPText [codec_intros]:
  "wire_codec proc_PTPText valid_PTPText (\<lambda>d. textField d = []) enc_PTPText R"
  unfolding proc_PTPText_def
  by (rule wire_codecI, (rule step_intros codec_intros | simp)+)
    (simp_all add: valid_text_length, simp_all add: valid_PTPText_def enc_PTPText_def)

definition valid_FaultRecord :: "FaultRecord_t \<Rightarrow> bool" where
  "valid_FaultRecord d \<longleftrightarrow>
     unat (faultRecordLength d) = FaultRecord_size d \<and> valid_Timestamp (faultTime d) \<and>
     valid_PTPText (faultName d) \<and> valid_PTPText (faultValue d) \<and>
     valid_PTPText (faultDescription d)"

definition fresh_FaultRecord :: "FaultRecord_t \<Rightarrow> bool" where
  "fresh_FaultRecord d \<longleftrightarrow> textField (faultName d) = [] \<and> textField (faultValue d) = [] \<and>
     textField (faultDescription d) = []"

definition enc_FaultRecord :: "FaultRecord_t \<Rightarrow> octets" where
  "enc_FaultRecord d =
     cpu_to_net (faultRecordLength d) @ enc_Timestamp (faultTime d) @ [severityCode d] @
     enc_PTPText (faultName d) @ enc_PTPText (faultValue d) @ enc_PTPText (faultDescription d)"

lemma wire_check_faultRecordLength [step_intros]:
  "wire_step check_faultRecordLength (\<lambda>_. True)
     (\<lambda>_ d0. unat (faultRecordLength d0) = FaultRecord_size d0) (\<lambda>_ d0. d0) (\<lambda>_. []) R"
  by unfold_locales (auto simp: check_faultRecordLength_def mp_ok_def)

lemma valid_FaultRecord_length:
  assumes "valid_FaultRecord d"
  shows "word_of_nat (FaultRecord_size d) = faultRecordLength d"
proof -
  have "FaultRecord_size d = unat (faultRecordLength d)"
    using assms by (simp add: valid_FaultRecord_def)
  then show ?thesis
    by simp
qed

lemma wire_proc_FaultRecord [codec_intros]:
  "wire_codec proc_FaultRecord valid_FaultRecord fresh_FaultRecord enc_FaultRecord R"
  unfolding proc_FaultRecord_def
  by (rule wire_codecI, (rule step_intros codec_intros | simp)+)
    (simp_all add: valid_FaultRecord_length,
     simp_all add: valid_FaultRecord_def fresh_FaultRecord_def enc_FaultRecord_def
       FaultRecord_size_def)

definition valid_AcceptableMaster :: "AcceptableMaster_t \<Rightarrow> bool" where
  "valid_AcceptableMaster d \<longleftrightarrow> valid_PortIdentity (acceptablePortIdentity d)"

definition enc_AcceptableMaster :: "AcceptableMaster_t \<Rightarrow> octets" where
  "enc_AcceptableMaster d =
     enc_PortIdentity (acceptablePortIdentity d) @ [alternatePriority1 d]"

lemma wire_proc_AcceptableMaster [codec_intros]:
  "wire_codec proc_AcceptableMaster valid_AcceptableMaster (\<lambda>_. True) enc_AcceptableMaster R"
  unfolding proc_AcceptableMaster_def
  by (rule wire_codecI, (rule step_intros codec_intros | simp)+)
    (simp_all add: valid_AcceptableMaster_def enc_AcceptableMaster_def)

definition valid_LinuxptpUnicastMaster :: "LinuxptpUnicastMaster_t \<Rightarrow> bool" where
  "valid_LinuxptpUnicastMaster d \<longleftrightarrow>
     valid_PortIdentity (portIdentity d) \<and> valid_PortAddress (portAddress d)"

definition enc_LinuxptpUnicastMaster :: "LinuxptpUnicastMaster_t \<Rightarrow> octets" where
  "enc_LinuxptpUnicastMaster d =
     enc_PortIdentity (portIdentity d) @ enc_ClockQuality (clockQuality d) @
     [selected d, portState d, priority1 d, priority2 d] @ enc_PortAddress (portAddress d)"

lemma wire_proc_LinuxptpUnicastMaster [codec_intros]:
  "wire_codec proc_LinuxptpUnicastMaster valid_LinuxptpUnicastMaster (\<lambda>_. True)
     enc_LinuxptpUnicastMaster R"
  unfolding proc_LinuxptpUnicastMaster_def
  by (rule wire_codecI, (rule step_intros codec_intros | simp)+)
    (simp_all add: valid_LinuxptpUnicastMaster_def enc_LinuxptpUnicastMaster_def)

subsection \<open>The sizes of the images\<close>

lemma length_enc [simp, wire_len]:
  "length (enc_TimeInterval ti) = 8" "length (enc_Timestamp ts) = 10"
  "length (enc_ClockQuality cq) = 4"
  "valid_PortIdentity pi \<Longrightarrow> length (enc_PortIdentity pi) = 10"
  "length (enc_PTPText tx) = 1 + length (textField tx)"
  "length (enc_PortAddress pa) = 4 + length (addressField pa)"
  "valid_AcceptableMaster am \<Longrightarrow> length (enc_AcceptableMaster am) = 11"
  by (simp_all add: enc_TimeInterval_def enc_Timestamp_def enc_ClockQuality_def
      enc_PortIdentity_def valid_PortIdentity_def valid_ClockIdentity_def enc_PTPText_def
      enc_PortAddress_def enc_AcceptableMaster_def valid_AcceptableMaster_def)

end
