(* ===== verification/Wire_Safe.thy ===== *)
theory Wire_Safe
  imports Wire_Structs
begin

unbundle bit_operations_syntax

text \<open>
  The memory contract of the processing functions, for every input and not only for the
  values that have a wire image.

  \<open>safe_step p W\<close>: from a cursor inside its buffer \<open>p\<close> leaves the cursor inside the
  buffer, moves it forward by at most the octets left, accounts the octets in \<^verbatim>\<open>m_left\<close>
  and \<^verbatim>\<open>m_size\<close>, sets no error to OK, and changes no octet outside those it moved over (none at all when
  parsing). \<open>W\<close> is what the code needs of the value it builds: it holds before and after.
  When parsing, the result depends only on the octets left: two buffers that agree on them
  give the same value, the same error and the same move.
\<close>

named_theorems safe_intros

definition advance :: "MsgProc \<Rightarrow> MsgProc \<Rightarrow> bool" where
  "advance mp mp' \<longleftrightarrow>
     mp_ok mp' \<and> m_build mp' = m_build mp \<and> m_cur mp \<le> m_cur mp' \<and>
     m_left mp' = m_left mp - int (m_cur mp' - m_cur mp) \<and>
     m_size mp' = m_size mp + (m_cur mp' - m_cur mp) \<and>
     length (m_buf mp') = length (m_buf mp) \<and>
     take (m_cur mp) (m_buf mp') = take (m_cur mp) (m_buf mp) \<and>
     drop (m_cur mp') (m_buf mp') = drop (m_cur mp') (m_buf mp) \<and>
     (\<not> m_build mp \<longrightarrow> m_buf mp' = m_buf mp) \<and>
     (m_err mp \<noteq> MNG_PARSE_ERROR_OK \<longrightarrow> m_err mp' \<noteq> MNG_PARSE_ERROR_OK)"

definition same_view :: "MsgProc \<Rightarrow> MsgProc \<Rightarrow> bool" where
  "same_view mp mp' \<longleftrightarrow>
     \<not> m_build mp \<and> \<not> m_build mp' \<and> mp_ok mp \<and> mp_ok mp' \<and> view mp = view mp' \<and>
     m_left mp = m_left mp' \<and> m_size mp = m_size mp' \<and> m_err mp = m_err mp'"

lemma advance_refl [simp]: "mp_ok mp \<Longrightarrow> advance mp mp"
  by (simp add: advance_def)

lemma take_take_eq:
  "\<lbrakk>take n xs = take n ys; m \<le> n\<rbrakk> \<Longrightarrow> take m xs = take m ys"
  by (metis min.absorb1 take_take)

lemma drop_drop_eq:
  "\<lbrakk>drop n xs = drop n ys; n \<le> m\<rbrakk> \<Longrightarrow> drop m xs = drop m ys"
  by (metis drop_drop le_add_diff_inverse2)

lemma advance_trans:
  assumes "advance a b" "advance b c"
  shows "advance a c"
proof -
  have "take (m_cur a) (m_buf c) = take (m_cur a) (m_buf b)"
    by (rule take_take_eq [of "m_cur b"]) (use assms in \<open>simp_all add: advance_def\<close>)
  moreover have "drop (m_cur c) (m_buf b) = drop (m_cur c) (m_buf a)"
    by (rule drop_drop_eq [of "m_cur b"]) (use assms in \<open>simp_all add: advance_def\<close>)
  moreover have le: "m_cur a \<le> m_cur b" "m_cur b \<le> m_cur c"
    using assms by (simp_all add: advance_def)
  moreover have "m_left c = m_left a - int (m_cur b - m_cur a) - int (m_cur c - m_cur b)"
    and "m_size c = m_size a + (m_cur b - m_cur a) + (m_cur c - m_cur b)"
    using assms by (simp_all add: advance_def)
  then have "m_left c = m_left a - int (m_cur c - m_cur a)"
    and "m_size c = m_size a + (m_cur c - m_cur a)"
    using le by simp_all
  moreover have "m_build c = m_build a" "mp_ok c" "length (m_buf c) = length (m_buf a)"
    "\<not> m_build a \<longrightarrow> m_buf c = m_buf a"
    "m_err a \<noteq> MNG_PARSE_ERROR_OK \<longrightarrow> m_err c \<noteq> MNG_PARSE_ERROR_OK"
    "take (m_cur a) (m_buf b) = take (m_cur a) (m_buf a)"
    "drop (m_cur c) (m_buf c) = drop (m_cur c) (m_buf b)"
    using assms by (simp_all add: advance_def)
  ultimately show ?thesis
    unfolding advance_def by simp
qed

lemma advance_move: "mp_ok mp \<Longrightarrow> int n \<le> m_left mp \<Longrightarrow> advance mp (move n mp)"
  by (simp add: advance_def)

lemma advance_put:
  assumes "mp_ok mp" "int (length bs) \<le> m_left mp" "m_build mp"
  shows "advance mp (put bs mp)"
proof -
  have "m_cur mp + length bs \<le> length (m_buf mp)"
    using assms by (simp add: mp_ok_def)
  then show ?thesis
    using assms by (simp add: advance_def mem_write_def)
qed

lemma advance_err [simp]:
  "mp_ok mp \<Longrightarrow> x \<noteq> MNG_PARSE_ERROR_OK \<Longrightarrow> advance mp (mp\<lparr>m_err := x\<rparr>)"
  by (simp add: advance_def mp_ok_def)

lemma advance_ok: "advance mp mp' \<Longrightarrow> mp_ok mp' \<and> m_build mp' = m_build mp"
  by (simp add: advance_def)

lemma same_view_move:
  "same_view a b \<Longrightarrow> int n \<le> m_left a \<Longrightarrow> same_view (move n a) (move n b)"
  by (simp add: same_view_def view_move)

lemma same_view_load: "same_view a b \<Longrightarrow> int n \<le> m_left a \<Longrightarrow> load n a = load n b"
  by (simp add: same_view_def load_view)

lemma same_view_err [simp]: "same_view a b \<Longrightarrow> same_view (a\<lparr>m_err := x\<rparr>) (b\<lparr>m_err := x\<rparr>)"
  by (auto simp: same_view_def mp_ok_def view_def)

locale safe_step =
  fixes p :: "'d proc" and W :: "'d \<Rightarrow> bool"
  assumes frame: "\<lbrakk>mp_ok mp; m_build mp \<Longrightarrow> W d; p d mp = (e, d', mp')\<rbrakk>
      \<Longrightarrow> advance mp mp' \<and> (m_build mp \<longrightarrow> W d')"
    and reads: "\<lbrakk>same_view mp mq; p d mp = (e, d', mp'); p d mq = (f, g, mq')\<rbrakk>
      \<Longrightarrow> e = f \<and> d' = g \<and> same_view mp' mq'"
begin

lemma stays_inside:
  assumes "mp_ok mp" "m_build mp \<Longrightarrow> W d"
  shows "mp_ok (snd (snd (p d mp)))"
  using frame [OF assms, of "fst (p d mp)" "fst (snd (p d mp))" "snd (snd (p d mp))"]
  by (simp add: advance_def)

end

lemma safe_transfer: "safe_step (transfer n enc dec) (\<lambda>x. length (enc x) = n)"
proof (unfold_locales, goal_cases)
  case (1 mp d e d' mp')
  then show ?case
    using advance_put [of mp "enc d"] advance_move [of mp n]
    by (auto simp: transfer_def put_def split: if_splits)
next
  case (2 mp mq d e d' mp' f g mq')
  then show ?case
    using same_view_load [of mp mq n] same_view_move [of mp mq n]
    by (auto simp: transfer_def same_view_def split: if_splits)
qed

lemma safe_seq [safe_intros]:
  assumes "list_all (\<lambda>s. safe_step s W) ps"
  shows "safe_step (proc_seq ps) W"
proof (unfold_locales, goal_cases)
  case (1 mp d e d' mp')
  then show ?case
    using assms
  proof (induction ps arbitrary: mp d)
    case (Cons s ps)
    obtain e1 d1 mp1 where s: "s d mp = (e1, d1, mp1)"
      by (metis prod_cases3)
    then have *: "advance mp mp1 \<and> (m_build mp \<longrightarrow> W d1)"
      using Cons.prems by (intro safe_step.frame [of s W]) auto
    then show ?case
      using Cons.prems s Cons.IH [of mp1 d1] advance_trans [of mp mp1 mp']
      by (auto dest: advance_ok split: if_splits)
  qed auto
next
  case (2 mp mq d e d' mp' f g mq')
  then show ?case
    using assms
  proof (induction ps arbitrary: mp mq d)
    case (Cons s ps)
    obtain e1 d1 mp1 e2 d2 mq1 where s: "s d mp = (e1, d1, mp1)" "s d mq = (e2, d2, mq1)"
      by (metis prod_cases3)
    then have "e1 = e2 \<and> d1 = d2 \<and> same_view mp1 mq1"
      using Cons.prems by (intro safe_step.reads [of s W mp mq d]) auto
    then show ?case
      using Cons.prems s Cons.IH [of mp1 mq1 d1] by (auto split: if_splits)
  qed auto
qed

lemma safe_fld [safe_intros]:
  assumes p: "safe_step p V" and "\<And>d. W d \<Longrightarrow> V (get d)"
    and "\<And>d x. W d \<Longrightarrow> V x \<Longrightarrow> W (upd (\<lambda>_. x) d)"
  shows "safe_step (fld get upd p) W"
proof (unfold_locales, goal_cases)
  case (1 mp d e d' mp')
  then show ?case
    using safe_step.frame [OF p, of mp "get d"] assms(2,3)
    by (fastforce simp: fld_def split: prod.splits)
next
  case (2 mp mq d e d' mp' f g mq')
  then show ?case
    using safe_step.reads [OF p, of mp mq "get d"] by (fastforce simp: fld_def split: prod.splits)
qed

lemma safe_fld_len [safe_intros]:
  assumes "\<And>n. safe_step (p n) V" and "\<And>d. W d \<Longrightarrow> V (get d)"
    and "\<And>d x. W d \<Longrightarrow> V x \<Longrightarrow> W (upd (\<lambda>_. x) d)"
  shows "safe_step (fld_len len get upd p) W"
proof -
  have f: "safe_step (fld get upd (p n)) W" for n
    by (rule safe_fld) (fact assms)+
  show ?thesis
  proof (unfold_locales, goal_cases)
    case (1 mp d e d' mp')
    then show ?case
      using safe_step.frame [OF f, of mp d "len d"] by (simp add: fld_len_def)
  next
    case (2 mp mq d e d' mp' f g mq')
    then show ?case
      using safe_step.reads [OF f, of mp mq "len d" d] by (simp add: fld_len_def)
  qed
qed

lemma safe_assign [safe_intros]: "(\<And>d. W d \<Longrightarrow> W (f d)) \<Longrightarrow> safe_step (assign f) W"
  by unfold_locales (auto simp: assign_def)

lemma safe_on_build [safe_intros]: "(\<And>d. W d \<Longrightarrow> W (f d)) \<Longrightarrow> safe_step (on_build f) W"
  by unfold_locales (auto simp: on_build_def same_view_def)

lemma safe_if [safe_intros]:
  assumes p: "safe_step p W" and q: "safe_step q W"
  shows "safe_step (proc_if c p q) W"
proof (unfold_locales, goal_cases)
  case (1 mp d e d' mp')
  then show ?case
    using safe_step.frame [OF p, of mp d e d' mp'] safe_step.frame [OF q, of mp d e d' mp']
    by (auto simp: proc_if_def split: if_splits)
next
  case (2 mp mq d e d' mp' f g mq')
  then show ?case
    using safe_step.reads [OF p 2(1), of d e d' mp' f g mq']
      safe_step.reads [OF q 2(1), of d e d' mp' f g mq']
    by (auto simp: proc_if_def split: if_splits)
qed

subsection \<open>The basic types\<close>

lemma safe_conv: "safe_step p V \<Longrightarrow> (\<And>d. W d = V d) \<Longrightarrow> safe_step p W"
  by presburger

lemma safe_procB8 [safe_intros]: "safe_step procB8 (\<lambda>_. True)"
  unfolding procB8_def by (rule safe_conv [OF safe_transfer]) simp

lemma safe_procBU [safe_intros]: "safe_step procBU (\<lambda>_. True)"
  unfolding procBU_def by (rule safe_conv [OF safe_transfer]) simp

lemma safe_procBN [safe_intros]: "safe_step procBN (\<lambda>_. True)"
  unfolding procBN_def by (rule safe_conv [OF safe_transfer]) simp

lemma safe_procLe [safe_intros]: "safe_step procLe (\<lambda>_. True)"
  unfolding procLe_def by (rule safe_conv [OF safe_transfer]) simp

lemma safe_proc_octets [safe_intros]: "safe_step (proc_octets n) (\<lambda>x. n \<le> length x)"
  unfolding proc_octets_def by (rule safe_conv [OF safe_transfer]) auto

text \<open>A function that runs another one on a value of its own keeps the contract.\<close>

lemma safe_wrap:
  assumes p: "safe_step p (\<lambda>_. True)"
    and q: "\<And>d mp. q d mp = (case p (f d (m_build mp)) mp of (e, x, mp') \<Rightarrow>
       (e, g d (m_build mp) x, mp'))"
    and "\<And>d x. W d \<Longrightarrow> W (g d True x)"
  shows "safe_step q W"
proof (unfold_locales, goal_cases)
  case (1 mp d e d' mp')
  then show ?case
    using safe_step.frame [OF p, of mp "f d (m_build mp)"] assms(3)
    by (fastforce simp: q split: prod.splits)
next
  case (2 mp mq d e d' mp' ee g mq')
  then have "\<not> m_build mp" "\<not> m_build mq"
    by (simp_all add: same_view_def)
  with 2 show ?case
    using safe_step.reads [OF p, of mp mq "f d False"] by (fastforce simp: q split: prod.splits)
qed

lemma safe_procRes [safe_intros]: "safe_step procRes W"
  by (rule safe_wrap [OF safe_procB8, where f = "\<lambda>_ _. 0" and g = "\<lambda>d _ _. d"])
    (simp_all add: procRes_def)

lemma safe_procE8 [safe_intros]: "safe_step procE8 (\<lambda>_. True)"
  by (rule safe_wrap [OF safe_procB8, where f = "\<lambda>x b. if b then x else 0"
        and g = "\<lambda>x b y. if b then x else y"])
    (simp_all add: procE8_def)

lemma safe_procE16 [safe_intros]: "safe_step procE16 (\<lambda>_. True)"
  by (rule safe_wrap [OF safe_procBU, where f = "\<lambda>x b. if b then x else 0"
        and g = "\<lambda>x b y. if b then x else y"])
    (simp_all add: procE16_def)

lemma safe_procFlags [safe_intros]: "safe_step (procFlags m) (\<lambda>_. True)"
  by (rule safe_wrap [OF safe_procB8, where g = "\<lambda>_ _ y. y" and
        f = "\<lambda>x b. if b then (if m > 1 then x AND m else if x > 0 then 1 else x) else x"])
    (simp_all add: procFlags_def Let_def)

lemma safe_proc_Float64 [safe_intros]: "safe_step proc_Float64 (\<lambda>_. True)"
proof (unfold_locales, goal_cases)
  case (1 mp d e d' mp')
  then show ?case
    using safe_step.frame [OF safe_procBU, of mp d] by (auto simp: proc_Float64_def split: if_splits)
next
  case (2 mp mq d e d' mp' f g mq')
  then have "m_left mp = m_left mq"
    by (simp add: same_view_def)
  then show ?case
    using 2 safe_step.reads [OF safe_procBU 2(1), of d e d' mp' f g mq']
    by (cases "m_left mq < 8") (auto simp: proc_Float64_def)
qed

lemma safe_proc_string [safe_intros]: "safe_step (proc_string l) (\<lambda>_. True)"
proof (unfold_locales, goal_cases)
  case (1 mp d e d' mp')
  then show ?case
    using advance_put [of mp "take (length d mod 65536) d"] advance_move [of mp "unat l"]
    by (auto simp: proc_string_def Let_def put_def split: if_splits)
next
  case (2 mp mq d e d' mp' f g mq')
  then show ?case
    using same_view_load [of mp mq "unat l"] same_view_move [of mp mq "unat l"]
    by (auto simp: proc_string_def Let_def same_view_def split: if_splits)
qed

text \<open>An address of \<open>2 ^ 16\<close> octets or more would be stored past the octets left.\<close>

lemma safe_proc_Binary [safe_intros]: "safe_step (proc_Binary l) (\<lambda>b. length b < 2 ^ 16)"
proof (unfold_locales, goal_cases)
  case (1 mp d e d' mp')
  then show ?case
    using advance_put [of mp d] advance_move [of mp "unat l"]
    by (auto simp: proc_Binary_def Let_def put_def split: if_splits)
next
  case (2 mp mq d e d' mp' f g mq')
  then show ?case
    using same_view_load [of mp mq "unat l"] same_view_move [of mp mq "unat l"]
    by (auto simp: proc_Binary_def Let_def same_view_def split: if_splits)
qed

lemma safe_proc_Binary_left [safe_intros]:
  "safe_step proc_Binary_left (\<lambda>b. length b < 2 ^ 16)"
proof (unfold_locales, goal_cases)
  case (1 mp d e d' mp')
  then show ?case
    using safe_step.frame [OF safe_proc_Binary, of mp d] by (simp add: proc_Binary_left_def)
next
  case (2 mp mq d e d' mp' f g mq')
  then have "m_left mp = m_left mq"
    by (simp add: same_view_def)
  then show ?case
    using 2 safe_step.reads [OF safe_proc_Binary 2(1)] by (simp add: proc_Binary_left_def)
qed

lemma safe_proc48 [safe_intros]: "safe_step proc48 (\<lambda>_. True)"
proof (unfold_locales, goal_cases)
  case (1 mp x e x' mp')
  let ?h = "(if m_build mp then high48 x else 0)" and ?l = "(if m_build mp then low48 x else 0)"
  obtain e1 h mp1 where 2: "procBU ?h mp = (e1, h, mp1)"
    by (metis prod_cases3)
  obtain e2 l mp2 where 3: "procBU ?l mp1 = (e2, l, mp2)"
    by (metis prod_cases3)
  have a1: "advance mp mp1"
    using 1 2 safe_step.frame [OF safe_procBU, of mp] by blast
  then have "advance mp1 mp2"
    using 3 safe_step.frame [OF safe_procBU, of mp1] advance_ok by blast
  with a1 have "advance mp mp2"
    by (rule advance_trans)
  with 1 2 3 a1 show ?case
    by (auto simp: proc48_def Let_def simp flip: high48_def low48_def split: if_splits)
next
  case (2 mp mq x e x' mp' f g mq')
  obtain e1 h mp1 where 3: "procBU (0 :: uint16_t) mp = (e1, h, mp1)"
    by (metis prod_cases3)
  obtain e1' h' mq1 where 4: "procBU (0 :: uint16_t) mq = (e1', h', mq1)"
    by (metis prod_cases3)
  obtain e2 l mp2 where 5: "procBU (0 :: uint32_t) mp1 = (e2, l, mp2)"
    by (metis prod_cases3)
  obtain e2' l' mq2 where 6: "procBU (0 :: uint32_t) mq1 = (e2', l', mq2)"
    by (metis prod_cases3)
  have a: "e1 = e1' \<and> h = h' \<and> same_view mp1 mq1"
    using safe_step.reads [OF safe_procBU 2(1) 3 4] .
  moreover have "e2 = e2' \<and> l = l' \<and> same_view mp2 mq2"
    using safe_step.reads [OF safe_procBU _ 5 6] a by blast
  ultimately show ?case
    using 2 3 4 5 6 by (auto simp: proc48_def same_view_def split: if_splits)
qed

subsection \<open>Lists\<close>

lemma vector_b_frame:
  assumes p: "safe_step p V"
    and "mp_ok mp" "m_build mp \<Longrightarrow> \<forall>x \<in> set xs. V x" "vector_b p xs mp = (e, ys, mp')"
  shows "advance mp mp' \<and> (m_build mp \<longrightarrow> (\<forall>x \<in> set ys. V x))"
  using assms(2-)
proof (induction xs arbitrary: mp ys)
  case (Cons x xs)
  obtain e1 x1 mp1 where 1: "p x mp = (e1, x1, mp1)"
    by (metis prod_cases3)
  obtain e2 zs mp2 where 2: "vector_b p xs mp1 = (e2, zs, mp2)"
    by (metis prod_cases3)
  have a: "advance mp mp1 \<and> (m_build mp \<longrightarrow> V x1)"
    using safe_step.frame [OF p Cons.prems(1) _ 1] Cons.prems(2) by auto
  show ?case
  proof (cases e1)
    case True
    with 1 a Cons.prems show ?thesis
      by auto
  next
    case False
    have "e2 = e \<and> zs = tl ys \<and> mp2 = mp' \<and> ys = x1 # tl ys"
      using Cons.prems(3) 1 2 False by auto
    moreover have "advance mp1 mp2 \<and> (m_build mp1 \<longrightarrow> (\<forall>x \<in> set zs. V x))"
      using Cons.IH [of mp1 zs] a 2 Cons.prems(2) calculation by (auto dest: advance_ok)
    ultimately show ?thesis
      using a advance_trans [of mp mp1 mp'] advance_ok [of mp mp1] by (metis set_ConsD)
  qed
qed auto

lemma safe_vector_b [safe_intros]:
  assumes p: "safe_step p V"
  shows "safe_step (vector_b p) (\<lambda>xs. \<forall>x \<in> set xs. V x)"
proof (unfold_locales, goal_cases)
  case (1 mp xs e ys mp')
  then show ?case
    by (rule vector_b_frame [OF p])
next
  case (2 mp mq xs e ys mp' f zs mq')
  then show ?case
  proof (induction xs arbitrary: mp mq ys zs)
    case (Cons x xs)
    obtain e1 x1 mp1 e2 x2 mq1 where *: "p x mp = (e1, x1, mp1)" "p x mq = (e2, x2, mq1)"
      by (metis prod_cases3)
    then have "e1 = e2 \<and> x1 = x2 \<and> same_view mp1 mq1"
      using safe_step.reads [OF p Cons.prems(1)] by auto
    then show ?case
      using Cons.prems * Cons.IH [of mp1 mq1] by (auto split: if_splits prod.splits)
  qed auto
qed

lemma parse_n_safe:
  assumes p: "safe_step p V"
  shows "\<lbrakk>mp_ok mp; \<not> m_build mp; parse_n new p n acc mp = (e, ys, mp')\<rbrakk> \<Longrightarrow> advance mp mp'"
    and "\<lbrakk>same_view mp mq; parse_n new p n acc mp = (e, ys, mp');
      parse_n new p n acc mq = (f, zs, mq')\<rbrakk> \<Longrightarrow> e = f \<and> ys = zs \<and> same_view mp' mq'"
proof (induction n arbitrary: mp mq acc)
  case (Suc n)
  {
    case 1
    obtain e1 x1 mp1 where *: "p new mp = (e1, x1, mp1)"
      by (metis prod_cases3)
    then have "advance mp mp1"
      using safe_step.frame [OF p, of mp new] 1 by auto
    then show ?case
      using 1 * Suc(1) [of mp1 "acc @ [x1]"] advance_trans [of mp mp1 mp']
      by (auto dest: advance_ok split: if_splits)
  next
    case 2
    obtain e1 x1 mp1 e2 x2 mq1 where *: "p new mp = (e1, x1, mp1)" "p new mq = (e2, x2, mq1)"
      by (metis prod_cases3)
    then have "e1 = e2 \<and> x1 = x2 \<and> same_view mp1 mq1"
      using safe_step.reads [OF p 2(1)] by auto
    then show ?case
      using 2 * Suc(2) [of mp1 mq1 "acc @ [x1]"] by (auto split: if_splits)
  }
qed auto

lemma parse_while_safe:
  assumes p: "safe_step p V"
  shows "\<lbrakk>mp_ok mp; \<not> m_build mp; parse_while n new p sz acc mp = (e, ys, mp')\<rbrakk> \<Longrightarrow> advance mp mp'"
    and "\<lbrakk>same_view mp mq; parse_while n new p sz acc mp = (e, ys, mp');
      parse_while n new p sz acc mq = (f, zs, mq')\<rbrakk> \<Longrightarrow> e = f \<and> ys = zs \<and> same_view mp' mq'"
proof (induction n arbitrary: mp mq acc)
  case (Suc n)
  {
    case 1
    obtain e1 x1 mp1 where *: "p new mp = (e1, x1, mp1)"
      by (metis prod_cases3)
    then have "advance mp mp1"
      using safe_step.frame [OF p, of mp new] 1 by auto
    then show ?case
      using 1 * Suc(1) [of mp1 "acc @ [x1]"] advance_trans [of mp mp1 mp']
      by (auto dest: advance_ok split: if_splits)
  next
    case 2
    obtain e1 x1 mp1 e2 x2 mq1 where *: "p new mp = (e1, x1, mp1)" "p new mq = (e2, x2, mq1)"
      by (metis prod_cases3)
    moreover have "e1 = e2 \<and> x1 = x2 \<and> same_view mp1 mq1"
      using * safe_step.reads [OF p 2(1)] by auto
    moreover have "m_left mp = m_left mq"
      using 2(1) by (simp add: same_view_def)
    ultimately show ?case
      using 2 Suc(2) [of mp1 mq1 "acc @ [x1]"] by (auto split: if_splits)
  }
qed auto

lemma safe_vector_f [safe_intros]:
  assumes p: "safe_step p V"
  shows "safe_step (vector_f new p count) (\<lambda>xs. \<forall>x \<in> set xs. V x)"
proof (unfold_locales, goal_cases)
  case (1 mp xs e ys mp')
  then show ?case
    using vector_b_frame [OF p, of mp xs e ys mp'] parse_n_safe(1) [OF p, of mp]
    by (auto simp: vector_f_def split: if_splits)
next
  case (2 mp mq xs e ys mp' f zs mq')
  then have "\<not> m_build mp" "\<not> m_build mq"
    by (simp_all add: same_view_def)
  then show ?case
    using parse_n_safe(2) [OF p 2(1), of new "unat count" xs] 2(2,3) by (simp add: vector_f_def)
qed

lemma safe_vector_o [safe_intros]:
  assumes p: "safe_step p V"
  shows "safe_step (vector_o new p sz) (\<lambda>xs. \<forall>x \<in> set xs. V x)"
proof (unfold_locales, goal_cases)
  case (1 mp xs e ys mp')
  then show ?case
    using vector_b_frame [OF p, of mp xs e ys mp'] parse_while_safe(1) [OF p, of mp]
    by (auto simp: vector_o_def simp del: parse_while.simps split: if_splits)
next
  case (2 mp mq xs e ys mp' f zs mq')
  then have "\<not> m_build mp" "\<not> m_build mq" "m_left mp = m_left mq"
    by (simp_all add: same_view_def)
  then show ?case
    using parse_while_safe(2) [OF p 2(1), of "Suc (nat (m_left mq))" new sz xs] 2(2,3)
    by (simp add: vector_o_def del: parse_while.simps)
qed

subsection \<open>The structures\<close>

definition safe_ClockIdentity :: "ClockIdentity_t \<Rightarrow> bool" where
  "safe_ClockIdentity d \<longleftrightarrow> 8 \<le> length (ci_v d)"

definition safe_PortIdentity :: "PortIdentity_t \<Rightarrow> bool" where
  "safe_PortIdentity d \<longleftrightarrow> safe_ClockIdentity (clockIdentity d)"

definition safe_PortAddress :: "PortAddress_t \<Rightarrow> bool" where
  "safe_PortAddress d \<longleftrightarrow> length (addressField d) < 2 ^ 16"

definition safe_AcceptableMaster :: "AcceptableMaster_t \<Rightarrow> bool" where
  "safe_AcceptableMaster d \<longleftrightarrow> safe_PortIdentity (acceptablePortIdentity d)"

definition safe_LinuxptpUnicastMaster :: "LinuxptpUnicastMaster_t \<Rightarrow> bool" where
  "safe_LinuxptpUnicastMaster d \<longleftrightarrow>
     safe_PortIdentity (portIdentity d) \<and> safe_PortAddress (portAddress d)"

lemma safe_proc_TimeInterval [safe_intros]: "safe_step proc_TimeInterval (\<lambda>_. True)"
  unfolding proc_TimeInterval_def by (rule safe_seq) (simp, (rule safe_intros | simp)+)

lemma safe_proc_Timestamp [safe_intros]: "safe_step proc_Timestamp (\<lambda>_. True)"
  unfolding proc_Timestamp_def by (rule safe_seq) (simp, (rule safe_intros conjI | simp)+)

lemma safe_proc_ClockIdentity [safe_intros]: "safe_step proc_ClockIdentity safe_ClockIdentity"
  unfolding proc_ClockIdentity_def ClockIdentity_size_def safe_ClockIdentity_def
  by (rule safe_seq) (simp, (rule safe_intros | simp)+)

lemma safe_proc_PortIdentity [safe_intros]: "safe_step proc_PortIdentity safe_PortIdentity"
  unfolding proc_PortIdentity_def safe_PortIdentity_def
  by (rule safe_seq) (simp, (rule safe_intros conjI | simp)+)

lemma safe_proc_PortAddress [safe_intros]: "safe_step proc_PortAddress safe_PortAddress"
  unfolding proc_PortAddress_def safe_PortAddress_def
  by (rule safe_seq) (simp, (rule safe_intros conjI | simp)+)

lemma safe_proc_ClockQuality [safe_intros]: "safe_step proc_ClockQuality (\<lambda>_. True)"
  unfolding proc_ClockQuality_def by (rule safe_seq) (simp, (rule safe_intros conjI | simp)+)

lemma safe_text_too_long [safe_intros]: "safe_step text_too_long W"
  by unfold_locales (auto simp: text_too_long_def)

lemma safe_proc_PTPText [safe_intros]: "safe_step proc_PTPText (\<lambda>_. True)"
  unfolding proc_PTPText_def by (rule safe_seq) (simp, (rule safe_intros conjI | simp)+)

lemma safe_check_faultRecordLength [safe_intros]: "safe_step check_faultRecordLength W"
  by unfold_locales (auto simp: check_faultRecordLength_def same_view_def mp_ok_def view_def
      split: if_splits)

lemma safe_proc_FaultRecord [safe_intros]: "safe_step proc_FaultRecord (\<lambda>_. True)"
  unfolding proc_FaultRecord_def by (rule safe_seq) (simp, (rule safe_intros conjI | simp)+)

lemma safe_proc_AcceptableMaster [safe_intros]:
  "safe_step proc_AcceptableMaster safe_AcceptableMaster"
  unfolding proc_AcceptableMaster_def safe_AcceptableMaster_def
  by (rule safe_seq) (simp, (rule safe_intros conjI | simp)+)

lemma safe_proc_LinuxptpUnicastMaster [safe_intros]:
  "safe_step proc_LinuxptpUnicastMaster safe_LinuxptpUnicastMaster"
  unfolding proc_LinuxptpUnicastMaster_def safe_LinuxptpUnicastMaster_def
  by (rule safe_seq) (simp, (rule safe_intros conjI | simp)+)

text \<open>
  The fuel of \<^verbatim>\<open>vector_o\<close> is enough: when reading an element uses octets, more fuel
  than octets left changes nothing, so the loop ends by its own conditions.
\<close>

lemma parse_while_fuel:
  assumes p: "safe_step p V"
    and less: "\<And>mp x mp'. \<lbrakk>\<not> m_build mp; mp_ok mp; p new mp = (False, x, mp')\<rbrakk> \<Longrightarrow> m_left mp' < m_left mp"
  shows "\<lbrakk>\<not> m_build mp; mp_ok mp; nat (m_left mp) < n; nat (m_left mp) < k; 0 < sz\<rbrakk> \<Longrightarrow>
    parse_while n new p sz acc mp = parse_while k new p sz acc mp"
proof (induction n arbitrary: k mp acc)
  case (Suc n)
  obtain k' where k: "k = Suc k'"
    using Suc.prems(4) by (cases k) auto
  obtain e x mp' where s: "p new mp = (e, x, mp')"
    by (metis prod_cases3)
  then have "advance mp mp'"
    using safe_step.frame [OF p, of mp new] Suc.prems by auto
  then have "mp_ok mp'" "\<not> m_build mp'"
    using Suc.prems by (auto dest: advance_ok simp: advance_def)
  moreover have "nat (m_left mp') < n" "nat (m_left mp') < k'" if "\<not> e" "\<not> m_left mp < int sz"
    using that less [OF Suc.prems(1,2)] s Suc.prems(3-5) k by auto
  ultimately show ?case
    using Suc.IH [of mp' k' "acc @ [x]"] Suc.prems(5) by (simp add: s k)
qed simp

lemma ClockIdentity_uses:
  "\<not> m_build mp \<Longrightarrow> mp_ok mp \<Longrightarrow> proc_ClockIdentity c mp = (False, x, mp') \<Longrightarrow> m_left mp' < m_left mp"
  by (auto simp: proc_ClockIdentity_def proc_octets_def fld_def transfer_def ClockIdentity_size_def Let_def
      split: if_splits prod.splits)

end
