(* ===== verification/Mng_Wire.thy ===== *)
theory Mng_Wire
  imports Mng_Records Wire_Safe
begin

unbundle bit_operations_syntax

text \<open>
  The wire image \<open>enc_X\<close> of the dataField of every management TLV, the values \<open>valid_X\<close>
  that have one, and that \<open>X_f\<close> implements it: a value is built to its image and read back
  from it, with at most one octet of padding behind. \<open>safe_X\<close> is what \<open>X_f\<close> needs of a
  value to stay inside the buffer: its arrays have their size, its addresses fit 16 bits.
\<close>

named_theorems tlv_defs

definition pad :: "octets \<Rightarrow> bool" where
  "pad r \<longleftrightarrow> length r \<le> 1"

lemma count_word [simp]: "ucast (scast (h :: int16_t) :: uint32_t) = h"
  by (rule bit_word_eqI) (simp add: bit_simps)

lemma fresh_zero [simp]: "fresh_FaultRecord zero_FaultRecord"
  by (simp add: fresh_FaultRecord_def zero_FaultRecord_def zero_PTPText_def)

lemma path_size [simp]:
  "0 < ClockIdentity_size" "pad r \<Longrightarrow> length r < ClockIdentity_size"
  "valid_ClockIdentity x \<Longrightarrow> ClockIdentity_size \<le> length (ci_v x)"
  by (simp_all add: ClockIdentity_size_def pad_def valid_ClockIdentity_def)

subsection \<open>CLOCK_DESCRIPTION\<close>

definition enc_CLOCK_DESCRIPTION :: "CLOCK_DESCRIPTION_t \<Rightarrow> octets" where
  "enc_CLOCK_DESCRIPTION d =
     cpu_to_net (CLOCK_DESCRIPTION_t.clockType d) @
     enc_PTPText (CLOCK_DESCRIPTION_t.physicalLayerProtocol d) @
     cpu_to_net (CLOCK_DESCRIPTION_t.physicalAddressLength d) @
     CLOCK_DESCRIPTION_t.physicalAddress d @
     enc_PortAddress (CLOCK_DESCRIPTION_t.protocolAddress d) @
     CLOCK_DESCRIPTION_t.manufacturerIdentity d @ [0] @
     enc_PTPText (CLOCK_DESCRIPTION_t.productDescription d) @
     enc_PTPText (CLOCK_DESCRIPTION_t.revisionData d) @
     enc_PTPText (CLOCK_DESCRIPTION_t.userDescription d) @ CLOCK_DESCRIPTION_t.profileIdentity d"

definition valid_CLOCK_DESCRIPTION :: "CLOCK_DESCRIPTION_t \<Rightarrow> bool" where
  "valid_CLOCK_DESCRIPTION d \<longleftrightarrow>
     valid_PTPText (CLOCK_DESCRIPTION_t.physicalLayerProtocol d) \<and>
     length (CLOCK_DESCRIPTION_t.physicalAddress d) = unat (CLOCK_DESCRIPTION_t.physicalAddressLength d) \<and>
     valid_PortAddress (CLOCK_DESCRIPTION_t.protocolAddress d) \<and>
     length (CLOCK_DESCRIPTION_t.manufacturerIdentity d) = 3 \<and>
     valid_PTPText (CLOCK_DESCRIPTION_t.productDescription d) \<and>
     valid_PTPText (CLOCK_DESCRIPTION_t.revisionData d) \<and>
     valid_PTPText (CLOCK_DESCRIPTION_t.userDescription d) \<and>
     length (CLOCK_DESCRIPTION_t.profileIdentity d) = 6"

definition fresh_CLOCK_DESCRIPTION :: "CLOCK_DESCRIPTION_t \<Rightarrow> bool" where
  "fresh_CLOCK_DESCRIPTION d \<longleftrightarrow>
     textField (CLOCK_DESCRIPTION_t.physicalLayerProtocol d) = [] \<and>
     textField (CLOCK_DESCRIPTION_t.productDescription d) = [] \<and>
     textField (CLOCK_DESCRIPTION_t.revisionData d) = [] \<and>
     textField (CLOCK_DESCRIPTION_t.userDescription d) = []"

lemma wire_CLOCK_DESCRIPTION [codec_intros]:
  "wire_codec CLOCK_DESCRIPTION_f valid_CLOCK_DESCRIPTION fresh_CLOCK_DESCRIPTION enc_CLOCK_DESCRIPTION pad"
  unfolding CLOCK_DESCRIPTION_f_def
  by (rule wire_codecI, (rule step_intros codec_intros | simp)+)
    (simp_all add: enc_CLOCK_DESCRIPTION_def valid_CLOCK_DESCRIPTION_def fresh_CLOCK_DESCRIPTION_def)

definition safe_CLOCK_DESCRIPTION :: "CLOCK_DESCRIPTION_t \<Rightarrow> bool" where
  "safe_CLOCK_DESCRIPTION d \<longleftrightarrow>
     length (CLOCK_DESCRIPTION_t.physicalAddress d) < 2 ^ 16 \<and>
     safe_PortAddress (CLOCK_DESCRIPTION_t.protocolAddress d) \<and>
     3 \<le> length (CLOCK_DESCRIPTION_t.manufacturerIdentity d) \<and>
     6 \<le> length (CLOCK_DESCRIPTION_t.profileIdentity d)"

lemma safe_CLOCK_DESCRIPTION_f [safe_intros]: "safe_step CLOCK_DESCRIPTION_f safe_CLOCK_DESCRIPTION"
  unfolding CLOCK_DESCRIPTION_f_def safe_CLOCK_DESCRIPTION_def
  by (rule safe_seq) (simp, (rule safe_intros conjI | simp)+)

subsection \<open>USER_DESCRIPTION\<close>

definition enc_USER_DESCRIPTION :: "USER_DESCRIPTION_t \<Rightarrow> octets" where
  "enc_USER_DESCRIPTION d =
     enc_PTPText (USER_DESCRIPTION_t.userDescription d)"

definition valid_USER_DESCRIPTION :: "USER_DESCRIPTION_t \<Rightarrow> bool" where
  "valid_USER_DESCRIPTION d \<longleftrightarrow>
     valid_PTPText (USER_DESCRIPTION_t.userDescription d)"

definition fresh_USER_DESCRIPTION :: "USER_DESCRIPTION_t \<Rightarrow> bool" where
  "fresh_USER_DESCRIPTION d \<longleftrightarrow>
     textField (USER_DESCRIPTION_t.userDescription d) = []"

lemma wire_USER_DESCRIPTION [codec_intros]:
  "wire_codec USER_DESCRIPTION_f valid_USER_DESCRIPTION fresh_USER_DESCRIPTION enc_USER_DESCRIPTION pad"
  unfolding USER_DESCRIPTION_f_def
  by (rule wire_codecI, (rule step_intros codec_intros | simp)+)
    (simp_all add: enc_USER_DESCRIPTION_def valid_USER_DESCRIPTION_def fresh_USER_DESCRIPTION_def)

lemma safe_USER_DESCRIPTION_f [safe_intros]: "safe_step USER_DESCRIPTION_f (\<lambda>_. True)"
  unfolding USER_DESCRIPTION_f_def
  by (rule safe_seq) (simp, (rule safe_intros conjI | simp)+)

subsection \<open>INITIALIZE\<close>

definition enc_INITIALIZE :: "INITIALIZE_t \<Rightarrow> octets" where
  "enc_INITIALIZE d =
     cpu_to_net (INITIALIZE_t.initializationKey d)"

lemma wire_INITIALIZE [codec_intros]:
  "wire_codec INITIALIZE_f (\<lambda>_. True) (\<lambda>_. True) enc_INITIALIZE pad"
  unfolding INITIALIZE_f_def
  by (rule wire_codecI, (rule step_intros codec_intros | simp)+)
    (simp_all add: enc_INITIALIZE_def)

lemma safe_INITIALIZE_f [safe_intros]: "safe_step INITIALIZE_f (\<lambda>_. True)"
  unfolding INITIALIZE_f_def
  by (rule safe_seq) (simp, (rule safe_intros conjI | simp)+)

subsection \<open>FAULT_LOG\<close>

definition enc_FAULT_LOG :: "FAULT_LOG_t \<Rightarrow> octets" where
  "enc_FAULT_LOG d =
     cpu_to_net (FAULT_LOG_t.numberOfFaultRecords d) @
     enc_list enc_FaultRecord (FAULT_LOG_t.faultRecords d)"

definition valid_FAULT_LOG :: "FAULT_LOG_t \<Rightarrow> bool" where
  "valid_FAULT_LOG d \<longleftrightarrow>
     length (FAULT_LOG_t.faultRecords d) = unat (ucast (FAULT_LOG_t.numberOfFaultRecords d) :: uint32_t) \<and>
     (\<forall>x \<in> set (FAULT_LOG_t.faultRecords d). valid_FaultRecord x)"

definition fresh_FAULT_LOG :: "FAULT_LOG_t \<Rightarrow> bool" where
  "fresh_FAULT_LOG d \<longleftrightarrow>
     FAULT_LOG_t.faultRecords d = []"

lemma wire_FAULT_LOG [codec_intros]:
  "wire_codec FAULT_LOG_f valid_FAULT_LOG fresh_FAULT_LOG enc_FAULT_LOG pad"
  unfolding FAULT_LOG_f_def
  by (rule wire_codecI, (rule step_intros codec_intros | simp)+)
    (simp_all add: enc_FAULT_LOG_def valid_FAULT_LOG_def fresh_FAULT_LOG_def)

lemma safe_FAULT_LOG_f [safe_intros]: "safe_step FAULT_LOG_f (\<lambda>_. True)"
  unfolding FAULT_LOG_f_def
  by (rule safe_seq) (simp, (rule safe_intros conjI | simp)+)

subsection \<open>DEFAULT_DATA_SET\<close>

definition enc_DEFAULT_DATA_SET :: "DEFAULT_DATA_SET_t \<Rightarrow> octets" where
  "enc_DEFAULT_DATA_SET d =
     [DEFAULT_DATA_SET_t.flags d] @ [0] @ cpu_to_net (DEFAULT_DATA_SET_t.numberPorts d) @
     [DEFAULT_DATA_SET_t.priority1 d] @ enc_ClockQuality (DEFAULT_DATA_SET_t.clockQuality d) @
     [DEFAULT_DATA_SET_t.priority2 d] @ ci_v (DEFAULT_DATA_SET_t.clockIdentity d) @
     [DEFAULT_DATA_SET_t.domainNumber d]"

definition valid_DEFAULT_DATA_SET :: "DEFAULT_DATA_SET_t \<Rightarrow> bool" where
  "valid_DEFAULT_DATA_SET d \<longleftrightarrow>
     valid_flags DEFAULT_DATA_SET_flagsMask (DEFAULT_DATA_SET_t.flags d) \<and>
     valid_ClockIdentity (DEFAULT_DATA_SET_t.clockIdentity d)"

lemma wire_DEFAULT_DATA_SET [codec_intros]:
  "wire_codec DEFAULT_DATA_SET_f valid_DEFAULT_DATA_SET (\<lambda>_. True) enc_DEFAULT_DATA_SET pad"
  unfolding DEFAULT_DATA_SET_f_def
  by (rule wire_codecI, (rule step_intros codec_intros | simp)+)
    (simp_all add: enc_DEFAULT_DATA_SET_def valid_DEFAULT_DATA_SET_def)

definition safe_DEFAULT_DATA_SET :: "DEFAULT_DATA_SET_t \<Rightarrow> bool" where
  "safe_DEFAULT_DATA_SET d \<longleftrightarrow>
     safe_ClockIdentity (DEFAULT_DATA_SET_t.clockIdentity d)"

lemma safe_DEFAULT_DATA_SET_f [safe_intros]: "safe_step DEFAULT_DATA_SET_f safe_DEFAULT_DATA_SET"
  unfolding DEFAULT_DATA_SET_f_def safe_DEFAULT_DATA_SET_def
  by (rule safe_seq) (simp, (rule safe_intros conjI | simp)+)

subsection \<open>CURRENT_DATA_SET\<close>

definition enc_CURRENT_DATA_SET :: "CURRENT_DATA_SET_t \<Rightarrow> octets" where
  "enc_CURRENT_DATA_SET d =
     cpu_to_net (CURRENT_DATA_SET_t.stepsRemoved d) @
     enc_TimeInterval (CURRENT_DATA_SET_t.offsetFromMaster d) @
     enc_TimeInterval (CURRENT_DATA_SET_t.meanPathDelay d)"

lemma wire_CURRENT_DATA_SET [codec_intros]:
  "wire_codec CURRENT_DATA_SET_f (\<lambda>_. True) (\<lambda>_. True) enc_CURRENT_DATA_SET pad"
  unfolding CURRENT_DATA_SET_f_def
  by (rule wire_codecI, (rule step_intros codec_intros | simp)+)
    (simp_all add: enc_CURRENT_DATA_SET_def)

lemma safe_CURRENT_DATA_SET_f [safe_intros]: "safe_step CURRENT_DATA_SET_f (\<lambda>_. True)"
  unfolding CURRENT_DATA_SET_f_def
  by (rule safe_seq) (simp, (rule safe_intros conjI | simp)+)

subsection \<open>PARENT_DATA_SET\<close>

definition enc_PARENT_DATA_SET :: "PARENT_DATA_SET_t \<Rightarrow> octets" where
  "enc_PARENT_DATA_SET d =
     enc_PortIdentity (PARENT_DATA_SET_t.parentPortIdentity d) @ [PARENT_DATA_SET_t.flags d] @
     [0] @ cpu_to_net (PARENT_DATA_SET_t.observedParentOffsetScaledLogVariance d) @
     cpu_to_net (PARENT_DATA_SET_t.observedParentClockPhaseChangeRate d) @
     [PARENT_DATA_SET_t.grandmasterPriority1 d] @
     enc_ClockQuality (PARENT_DATA_SET_t.grandmasterClockQuality d) @
     [PARENT_DATA_SET_t.grandmasterPriority2 d] @ ci_v (PARENT_DATA_SET_t.grandmasterIdentity d)"

definition valid_PARENT_DATA_SET :: "PARENT_DATA_SET_t \<Rightarrow> bool" where
  "valid_PARENT_DATA_SET d \<longleftrightarrow>
     valid_PortIdentity (PARENT_DATA_SET_t.parentPortIdentity d) \<and>
     valid_flags PARENT_DATA_SET_flagsMask (PARENT_DATA_SET_t.flags d) \<and>
     valid_ClockIdentity (PARENT_DATA_SET_t.grandmasterIdentity d)"

lemma wire_PARENT_DATA_SET [codec_intros]:
  "wire_codec PARENT_DATA_SET_f valid_PARENT_DATA_SET (\<lambda>_. True) enc_PARENT_DATA_SET pad"
  unfolding PARENT_DATA_SET_f_def
  by (rule wire_codecI, (rule step_intros codec_intros | simp)+)
    (simp_all add: enc_PARENT_DATA_SET_def valid_PARENT_DATA_SET_def)

definition safe_PARENT_DATA_SET :: "PARENT_DATA_SET_t \<Rightarrow> bool" where
  "safe_PARENT_DATA_SET d \<longleftrightarrow>
     safe_PortIdentity (PARENT_DATA_SET_t.parentPortIdentity d) \<and>
     safe_ClockIdentity (PARENT_DATA_SET_t.grandmasterIdentity d)"

lemma safe_PARENT_DATA_SET_f [safe_intros]: "safe_step PARENT_DATA_SET_f safe_PARENT_DATA_SET"
  unfolding PARENT_DATA_SET_f_def safe_PARENT_DATA_SET_def
  by (rule safe_seq) (simp, (rule safe_intros conjI | simp)+)

subsection \<open>TIME_PROPERTIES_DATA_SET\<close>

definition enc_TIME_PROPERTIES_DATA_SET :: "TIME_PROPERTIES_DATA_SET_t \<Rightarrow> octets" where
  "enc_TIME_PROPERTIES_DATA_SET d =
     cpu_to_net (TIME_PROPERTIES_DATA_SET_t.currentUtcOffset d) @
     [TIME_PROPERTIES_DATA_SET_t.flags d] @ [TIME_PROPERTIES_DATA_SET_t.timeSource d]"

definition valid_TIME_PROPERTIES_DATA_SET :: "TIME_PROPERTIES_DATA_SET_t \<Rightarrow> bool" where
  "valid_TIME_PROPERTIES_DATA_SET d \<longleftrightarrow>
     valid_flags TIME_PROPERTIES_DATA_SET_flagsMask (TIME_PROPERTIES_DATA_SET_t.flags d)"

lemma wire_TIME_PROPERTIES_DATA_SET [codec_intros]:
  "wire_codec TIME_PROPERTIES_DATA_SET_f valid_TIME_PROPERTIES_DATA_SET (\<lambda>_. True) enc_TIME_PROPERTIES_DATA_SET pad"
  unfolding TIME_PROPERTIES_DATA_SET_f_def
  by (rule wire_codecI, (rule step_intros codec_intros | simp)+)
    (simp_all add: enc_TIME_PROPERTIES_DATA_SET_def valid_TIME_PROPERTIES_DATA_SET_def)

lemma safe_TIME_PROPERTIES_DATA_SET_f [safe_intros]: "safe_step TIME_PROPERTIES_DATA_SET_f (\<lambda>_. True)"
  unfolding TIME_PROPERTIES_DATA_SET_f_def
  by (rule safe_seq) (simp, (rule safe_intros conjI | simp)+)

subsection \<open>PORT_DATA_SET\<close>

definition enc_PORT_DATA_SET :: "PORT_DATA_SET_t \<Rightarrow> octets" where
  "enc_PORT_DATA_SET d =
     enc_PortIdentity (PORT_DATA_SET_t.portIdentity d) @ [PORT_DATA_SET_t.portState d] @
     [PORT_DATA_SET_t.logMinDelayReqInterval d] @
     enc_TimeInterval (PORT_DATA_SET_t.peerMeanPathDelay d) @
     [PORT_DATA_SET_t.logAnnounceInterval d] @ [PORT_DATA_SET_t.announceReceiptTimeout d] @
     [PORT_DATA_SET_t.logSyncInterval d] @ [PORT_DATA_SET_t.delayMechanism d] @
     [PORT_DATA_SET_t.logMinPdelayReqInterval d] @ [PORT_DATA_SET_t.versionNumber d]"

definition valid_PORT_DATA_SET :: "PORT_DATA_SET_t \<Rightarrow> bool" where
  "valid_PORT_DATA_SET d \<longleftrightarrow>
     valid_PortIdentity (PORT_DATA_SET_t.portIdentity d)"

lemma wire_PORT_DATA_SET [codec_intros]:
  "wire_codec PORT_DATA_SET_f valid_PORT_DATA_SET (\<lambda>_. True) enc_PORT_DATA_SET pad"
  unfolding PORT_DATA_SET_f_def
  by (rule wire_codecI, (rule step_intros codec_intros | simp)+)
    (simp_all add: enc_PORT_DATA_SET_def valid_PORT_DATA_SET_def)

definition safe_PORT_DATA_SET :: "PORT_DATA_SET_t \<Rightarrow> bool" where
  "safe_PORT_DATA_SET d \<longleftrightarrow>
     safe_PortIdentity (PORT_DATA_SET_t.portIdentity d)"

lemma safe_PORT_DATA_SET_f [safe_intros]: "safe_step PORT_DATA_SET_f safe_PORT_DATA_SET"
  unfolding PORT_DATA_SET_f_def safe_PORT_DATA_SET_def
  by (rule safe_seq) (simp, (rule safe_intros conjI | simp)+)

subsection \<open>PRIORITY1\<close>

definition enc_PRIORITY1 :: "PRIORITY1_t \<Rightarrow> octets" where
  "enc_PRIORITY1 d =
     [PRIORITY1_t.priority1 d]"

lemma wire_PRIORITY1 [codec_intros]:
  "wire_codec PRIORITY1_f (\<lambda>_. True) (\<lambda>_. True) enc_PRIORITY1 pad"
  unfolding PRIORITY1_f_def
  by (rule wire_codecI, (rule step_intros codec_intros | simp)+)
    (simp_all add: enc_PRIORITY1_def)

lemma safe_PRIORITY1_f [safe_intros]: "safe_step PRIORITY1_f (\<lambda>_. True)"
  unfolding PRIORITY1_f_def
  by (rule safe_seq) (simp, (rule safe_intros conjI | simp)+)

subsection \<open>PRIORITY2\<close>

definition enc_PRIORITY2 :: "PRIORITY2_t \<Rightarrow> octets" where
  "enc_PRIORITY2 d =
     [PRIORITY2_t.priority2 d]"

lemma wire_PRIORITY2 [codec_intros]:
  "wire_codec PRIORITY2_f (\<lambda>_. True) (\<lambda>_. True) enc_PRIORITY2 pad"
  unfolding PRIORITY2_f_def
  by (rule wire_codecI, (rule step_intros codec_intros | simp)+)
    (simp_all add: enc_PRIORITY2_def)

lemma safe_PRIORITY2_f [safe_intros]: "safe_step PRIORITY2_f (\<lambda>_. True)"
  unfolding PRIORITY2_f_def
  by (rule safe_seq) (simp, (rule safe_intros conjI | simp)+)

subsection \<open>DOMAIN\<close>

definition enc_DOMAIN :: "DOMAIN_t \<Rightarrow> octets" where
  "enc_DOMAIN d =
     [DOMAIN_t.domainNumber d]"

lemma wire_DOMAIN [codec_intros]:
  "wire_codec DOMAIN_f (\<lambda>_. True) (\<lambda>_. True) enc_DOMAIN pad"
  unfolding DOMAIN_f_def
  by (rule wire_codecI, (rule step_intros codec_intros | simp)+)
    (simp_all add: enc_DOMAIN_def)

lemma safe_DOMAIN_f [safe_intros]: "safe_step DOMAIN_f (\<lambda>_. True)"
  unfolding DOMAIN_f_def
  by (rule safe_seq) (simp, (rule safe_intros conjI | simp)+)

subsection \<open>SLAVE_ONLY\<close>

definition enc_SLAVE_ONLY :: "SLAVE_ONLY_t \<Rightarrow> octets" where
  "enc_SLAVE_ONLY d =
     [SLAVE_ONLY_t.flags d]"

definition valid_SLAVE_ONLY :: "SLAVE_ONLY_t \<Rightarrow> bool" where
  "valid_SLAVE_ONLY d \<longleftrightarrow>
     valid_flags SLAVE_ONLY_flagsMask (SLAVE_ONLY_t.flags d)"

lemma wire_SLAVE_ONLY [codec_intros]:
  "wire_codec SLAVE_ONLY_f valid_SLAVE_ONLY (\<lambda>_. True) enc_SLAVE_ONLY pad"
  unfolding SLAVE_ONLY_f_def
  by (rule wire_codecI, (rule step_intros codec_intros | simp)+)
    (simp_all add: enc_SLAVE_ONLY_def valid_SLAVE_ONLY_def)

lemma safe_SLAVE_ONLY_f [safe_intros]: "safe_step SLAVE_ONLY_f (\<lambda>_. True)"
  unfolding SLAVE_ONLY_f_def
  by (rule safe_seq) (simp, (rule safe_intros conjI | simp)+)

subsection \<open>LOG_ANNOUNCE_INTERVAL\<close>

definition enc_LOG_ANNOUNCE_INTERVAL :: "LOG_ANNOUNCE_INTERVAL_t \<Rightarrow> octets" where
  "enc_LOG_ANNOUNCE_INTERVAL d =
     [LOG_ANNOUNCE_INTERVAL_t.logAnnounceInterval d]"

lemma wire_LOG_ANNOUNCE_INTERVAL [codec_intros]:
  "wire_codec LOG_ANNOUNCE_INTERVAL_f (\<lambda>_. True) (\<lambda>_. True) enc_LOG_ANNOUNCE_INTERVAL pad"
  unfolding LOG_ANNOUNCE_INTERVAL_f_def
  by (rule wire_codecI, (rule step_intros codec_intros | simp)+)
    (simp_all add: enc_LOG_ANNOUNCE_INTERVAL_def)

lemma safe_LOG_ANNOUNCE_INTERVAL_f [safe_intros]: "safe_step LOG_ANNOUNCE_INTERVAL_f (\<lambda>_. True)"
  unfolding LOG_ANNOUNCE_INTERVAL_f_def
  by (rule safe_seq) (simp, (rule safe_intros conjI | simp)+)

subsection \<open>ANNOUNCE_RECEIPT_TIMEOUT\<close>

definition enc_ANNOUNCE_RECEIPT_TIMEOUT :: "ANNOUNCE_RECEIPT_TIMEOUT_t \<Rightarrow> octets" where
  "enc_ANNOUNCE_RECEIPT_TIMEOUT d =
     [ANNOUNCE_RECEIPT_TIMEOUT_t.announceReceiptTimeout d]"

lemma wire_ANNOUNCE_RECEIPT_TIMEOUT [codec_intros]:
  "wire_codec ANNOUNCE_RECEIPT_TIMEOUT_f (\<lambda>_. True) (\<lambda>_. True) enc_ANNOUNCE_RECEIPT_TIMEOUT pad"
  unfolding ANNOUNCE_RECEIPT_TIMEOUT_f_def
  by (rule wire_codecI, (rule step_intros codec_intros | simp)+)
    (simp_all add: enc_ANNOUNCE_RECEIPT_TIMEOUT_def)

lemma safe_ANNOUNCE_RECEIPT_TIMEOUT_f [safe_intros]: "safe_step ANNOUNCE_RECEIPT_TIMEOUT_f (\<lambda>_. True)"
  unfolding ANNOUNCE_RECEIPT_TIMEOUT_f_def
  by (rule safe_seq) (simp, (rule safe_intros conjI | simp)+)

subsection \<open>LOG_SYNC_INTERVAL\<close>

definition enc_LOG_SYNC_INTERVAL :: "LOG_SYNC_INTERVAL_t \<Rightarrow> octets" where
  "enc_LOG_SYNC_INTERVAL d =
     [LOG_SYNC_INTERVAL_t.logSyncInterval d]"

lemma wire_LOG_SYNC_INTERVAL [codec_intros]:
  "wire_codec LOG_SYNC_INTERVAL_f (\<lambda>_. True) (\<lambda>_. True) enc_LOG_SYNC_INTERVAL pad"
  unfolding LOG_SYNC_INTERVAL_f_def
  by (rule wire_codecI, (rule step_intros codec_intros | simp)+)
    (simp_all add: enc_LOG_SYNC_INTERVAL_def)

lemma safe_LOG_SYNC_INTERVAL_f [safe_intros]: "safe_step LOG_SYNC_INTERVAL_f (\<lambda>_. True)"
  unfolding LOG_SYNC_INTERVAL_f_def
  by (rule safe_seq) (simp, (rule safe_intros conjI | simp)+)

subsection \<open>VERSION_NUMBER\<close>

definition enc_VERSION_NUMBER :: "VERSION_NUMBER_t \<Rightarrow> octets" where
  "enc_VERSION_NUMBER d =
     [VERSION_NUMBER_t.versionNumber d]"

lemma wire_VERSION_NUMBER [codec_intros]:
  "wire_codec VERSION_NUMBER_f (\<lambda>_. True) (\<lambda>_. True) enc_VERSION_NUMBER pad"
  unfolding VERSION_NUMBER_f_def
  by (rule wire_codecI, (rule step_intros codec_intros | simp)+)
    (simp_all add: enc_VERSION_NUMBER_def)

lemma safe_VERSION_NUMBER_f [safe_intros]: "safe_step VERSION_NUMBER_f (\<lambda>_. True)"
  unfolding VERSION_NUMBER_f_def
  by (rule safe_seq) (simp, (rule safe_intros conjI | simp)+)

subsection \<open>TIME\<close>

definition enc_TIME :: "TIME_t \<Rightarrow> octets" where
  "enc_TIME d =
     enc_Timestamp (TIME_t.currentTime d)"

definition valid_TIME :: "TIME_t \<Rightarrow> bool" where
  "valid_TIME d \<longleftrightarrow>
     valid_Timestamp (TIME_t.currentTime d)"

lemma wire_TIME [codec_intros]:
  "wire_codec TIME_f valid_TIME (\<lambda>_. True) enc_TIME pad"
  unfolding TIME_f_def
  by (rule wire_codecI, (rule step_intros codec_intros | simp)+)
    (simp_all add: enc_TIME_def valid_TIME_def)

lemma safe_TIME_f [safe_intros]: "safe_step TIME_f (\<lambda>_. True)"
  unfolding TIME_f_def
  by (rule safe_seq) (simp, (rule safe_intros conjI | simp)+)

subsection \<open>CLOCK_ACCURACY\<close>

definition enc_CLOCK_ACCURACY :: "CLOCK_ACCURACY_t \<Rightarrow> octets" where
  "enc_CLOCK_ACCURACY d =
     [CLOCK_ACCURACY_t.clockAccuracy d]"

lemma wire_CLOCK_ACCURACY [codec_intros]:
  "wire_codec CLOCK_ACCURACY_f (\<lambda>_. True) (\<lambda>_. True) enc_CLOCK_ACCURACY pad"
  unfolding CLOCK_ACCURACY_f_def
  by (rule wire_codecI, (rule step_intros codec_intros | simp)+)
    (simp_all add: enc_CLOCK_ACCURACY_def)

lemma safe_CLOCK_ACCURACY_f [safe_intros]: "safe_step CLOCK_ACCURACY_f (\<lambda>_. True)"
  unfolding CLOCK_ACCURACY_f_def
  by (rule safe_seq) (simp, (rule safe_intros conjI | simp)+)

subsection \<open>UTC_PROPERTIES\<close>

definition enc_UTC_PROPERTIES :: "UTC_PROPERTIES_t \<Rightarrow> octets" where
  "enc_UTC_PROPERTIES d =
     cpu_to_net (UTC_PROPERTIES_t.currentUtcOffset d) @ [UTC_PROPERTIES_t.flags d]"

definition valid_UTC_PROPERTIES :: "UTC_PROPERTIES_t \<Rightarrow> bool" where
  "valid_UTC_PROPERTIES d \<longleftrightarrow>
     valid_flags UTC_PROPERTIES_flagsMask (UTC_PROPERTIES_t.flags d)"

lemma wire_UTC_PROPERTIES [codec_intros]:
  "wire_codec UTC_PROPERTIES_f valid_UTC_PROPERTIES (\<lambda>_. True) enc_UTC_PROPERTIES pad"
  unfolding UTC_PROPERTIES_f_def
  by (rule wire_codecI, (rule step_intros codec_intros | simp)+)
    (simp_all add: enc_UTC_PROPERTIES_def valid_UTC_PROPERTIES_def)

lemma safe_UTC_PROPERTIES_f [safe_intros]: "safe_step UTC_PROPERTIES_f (\<lambda>_. True)"
  unfolding UTC_PROPERTIES_f_def
  by (rule safe_seq) (simp, (rule safe_intros conjI | simp)+)

subsection \<open>TRACEABILITY_PROPERTIES\<close>

definition enc_TRACEABILITY_PROPERTIES :: "TRACEABILITY_PROPERTIES_t \<Rightarrow> octets" where
  "enc_TRACEABILITY_PROPERTIES d =
     [TRACEABILITY_PROPERTIES_t.flags d]"

definition valid_TRACEABILITY_PROPERTIES :: "TRACEABILITY_PROPERTIES_t \<Rightarrow> bool" where
  "valid_TRACEABILITY_PROPERTIES d \<longleftrightarrow>
     valid_flags TRACEABILITY_PROPERTIES_flagsMask (TRACEABILITY_PROPERTIES_t.flags d)"

lemma wire_TRACEABILITY_PROPERTIES [codec_intros]:
  "wire_codec TRACEABILITY_PROPERTIES_f valid_TRACEABILITY_PROPERTIES (\<lambda>_. True) enc_TRACEABILITY_PROPERTIES pad"
  unfolding TRACEABILITY_PROPERTIES_f_def
  by (rule wire_codecI, (rule step_intros codec_intros | simp)+)
    (simp_all add: enc_TRACEABILITY_PROPERTIES_def valid_TRACEABILITY_PROPERTIES_def)

lemma safe_TRACEABILITY_PROPERTIES_f [safe_intros]: "safe_step TRACEABILITY_PROPERTIES_f (\<lambda>_. True)"
  unfolding TRACEABILITY_PROPERTIES_f_def
  by (rule safe_seq) (simp, (rule safe_intros conjI | simp)+)

subsection \<open>TIMESCALE_PROPERTIES\<close>

definition enc_TIMESCALE_PROPERTIES :: "TIMESCALE_PROPERTIES_t \<Rightarrow> octets" where
  "enc_TIMESCALE_PROPERTIES d =
     [TIMESCALE_PROPERTIES_t.flags d] @ [TIMESCALE_PROPERTIES_t.timeSource d]"

definition valid_TIMESCALE_PROPERTIES :: "TIMESCALE_PROPERTIES_t \<Rightarrow> bool" where
  "valid_TIMESCALE_PROPERTIES d \<longleftrightarrow>
     valid_flags TIMESCALE_PROPERTIES_flagsMask (TIMESCALE_PROPERTIES_t.flags d)"

lemma wire_TIMESCALE_PROPERTIES [codec_intros]:
  "wire_codec TIMESCALE_PROPERTIES_f valid_TIMESCALE_PROPERTIES (\<lambda>_. True) enc_TIMESCALE_PROPERTIES pad"
  unfolding TIMESCALE_PROPERTIES_f_def
  by (rule wire_codecI, (rule step_intros codec_intros | simp)+)
    (simp_all add: enc_TIMESCALE_PROPERTIES_def valid_TIMESCALE_PROPERTIES_def)

lemma safe_TIMESCALE_PROPERTIES_f [safe_intros]: "safe_step TIMESCALE_PROPERTIES_f (\<lambda>_. True)"
  unfolding TIMESCALE_PROPERTIES_f_def
  by (rule safe_seq) (simp, (rule safe_intros conjI | simp)+)

subsection \<open>UNICAST_NEGOTIATION_ENABLE\<close>

definition enc_UNICAST_NEGOTIATION_ENABLE :: "UNICAST_NEGOTIATION_ENABLE_t \<Rightarrow> octets" where
  "enc_UNICAST_NEGOTIATION_ENABLE d =
     [UNICAST_NEGOTIATION_ENABLE_t.flags d]"

definition valid_UNICAST_NEGOTIATION_ENABLE :: "UNICAST_NEGOTIATION_ENABLE_t \<Rightarrow> bool" where
  "valid_UNICAST_NEGOTIATION_ENABLE d \<longleftrightarrow>
     valid_flags UNICAST_NEGOTIATION_ENABLE_flagsMask (UNICAST_NEGOTIATION_ENABLE_t.flags d)"

lemma wire_UNICAST_NEGOTIATION_ENABLE [codec_intros]:
  "wire_codec UNICAST_NEGOTIATION_ENABLE_f valid_UNICAST_NEGOTIATION_ENABLE (\<lambda>_. True) enc_UNICAST_NEGOTIATION_ENABLE pad"
  unfolding UNICAST_NEGOTIATION_ENABLE_f_def
  by (rule wire_codecI, (rule step_intros codec_intros | simp)+)
    (simp_all add: enc_UNICAST_NEGOTIATION_ENABLE_def valid_UNICAST_NEGOTIATION_ENABLE_def)

lemma safe_UNICAST_NEGOTIATION_ENABLE_f [safe_intros]: "safe_step UNICAST_NEGOTIATION_ENABLE_f (\<lambda>_. True)"
  unfolding UNICAST_NEGOTIATION_ENABLE_f_def
  by (rule safe_seq) (simp, (rule safe_intros conjI | simp)+)

subsection \<open>PATH_TRACE_LIST\<close>

definition enc_PATH_TRACE_LIST :: "PATH_TRACE_LIST_t \<Rightarrow> octets" where
  "enc_PATH_TRACE_LIST d =
     enc_list ci_v (PATH_TRACE_LIST_t.pathSequence d)"

definition valid_PATH_TRACE_LIST :: "PATH_TRACE_LIST_t \<Rightarrow> bool" where
  "valid_PATH_TRACE_LIST d \<longleftrightarrow>
     (\<forall>x \<in> set (PATH_TRACE_LIST_t.pathSequence d). valid_ClockIdentity x)"

definition fresh_PATH_TRACE_LIST :: "PATH_TRACE_LIST_t \<Rightarrow> bool" where
  "fresh_PATH_TRACE_LIST d \<longleftrightarrow>
     PATH_TRACE_LIST_t.pathSequence d = []"

lemma wire_PATH_TRACE_LIST [codec_intros]:
  "wire_codec PATH_TRACE_LIST_f valid_PATH_TRACE_LIST fresh_PATH_TRACE_LIST enc_PATH_TRACE_LIST pad"
  unfolding PATH_TRACE_LIST_f_def
  by (rule wire_codecI, (rule step_intros codec_intros | simp)+)
    (simp_all add: enc_PATH_TRACE_LIST_def valid_PATH_TRACE_LIST_def fresh_PATH_TRACE_LIST_def)

definition safe_PATH_TRACE_LIST :: "PATH_TRACE_LIST_t \<Rightarrow> bool" where
  "safe_PATH_TRACE_LIST d \<longleftrightarrow>
     (\<forall>x \<in> set (PATH_TRACE_LIST_t.pathSequence d). safe_ClockIdentity x)"

lemma safe_PATH_TRACE_LIST_f [safe_intros]: "safe_step PATH_TRACE_LIST_f safe_PATH_TRACE_LIST"
  unfolding PATH_TRACE_LIST_f_def safe_PATH_TRACE_LIST_def
  by (rule safe_seq) (simp, (rule safe_intros conjI | simp)+)

subsection \<open>PATH_TRACE_ENABLE\<close>

definition enc_PATH_TRACE_ENABLE :: "PATH_TRACE_ENABLE_t \<Rightarrow> octets" where
  "enc_PATH_TRACE_ENABLE d =
     [PATH_TRACE_ENABLE_t.flags d]"

definition valid_PATH_TRACE_ENABLE :: "PATH_TRACE_ENABLE_t \<Rightarrow> bool" where
  "valid_PATH_TRACE_ENABLE d \<longleftrightarrow>
     valid_flags PATH_TRACE_ENABLE_flagsMask (PATH_TRACE_ENABLE_t.flags d)"

lemma wire_PATH_TRACE_ENABLE [codec_intros]:
  "wire_codec PATH_TRACE_ENABLE_f valid_PATH_TRACE_ENABLE (\<lambda>_. True) enc_PATH_TRACE_ENABLE pad"
  unfolding PATH_TRACE_ENABLE_f_def
  by (rule wire_codecI, (rule step_intros codec_intros | simp)+)
    (simp_all add: enc_PATH_TRACE_ENABLE_def valid_PATH_TRACE_ENABLE_def)

lemma safe_PATH_TRACE_ENABLE_f [safe_intros]: "safe_step PATH_TRACE_ENABLE_f (\<lambda>_. True)"
  unfolding PATH_TRACE_ENABLE_f_def
  by (rule safe_seq) (simp, (rule safe_intros conjI | simp)+)

subsection \<open>GRANDMASTER_CLUSTER_TABLE\<close>

definition enc_GRANDMASTER_CLUSTER_TABLE :: "GRANDMASTER_CLUSTER_TABLE_t \<Rightarrow> octets" where
  "enc_GRANDMASTER_CLUSTER_TABLE d =
     [GRANDMASTER_CLUSTER_TABLE_t.logQueryInterval d] @
     [GRANDMASTER_CLUSTER_TABLE_t.actualTableSize d] @
     enc_list enc_PortAddress (GRANDMASTER_CLUSTER_TABLE_t.PortAddress d)"

definition valid_GRANDMASTER_CLUSTER_TABLE :: "GRANDMASTER_CLUSTER_TABLE_t \<Rightarrow> bool" where
  "valid_GRANDMASTER_CLUSTER_TABLE d \<longleftrightarrow>
     length (GRANDMASTER_CLUSTER_TABLE_t.PortAddress d) = unat (ucast (GRANDMASTER_CLUSTER_TABLE_t.actualTableSize d) :: uint32_t) \<and>
     (\<forall>x \<in> set (GRANDMASTER_CLUSTER_TABLE_t.PortAddress d). valid_PortAddress x)"

definition fresh_GRANDMASTER_CLUSTER_TABLE :: "GRANDMASTER_CLUSTER_TABLE_t \<Rightarrow> bool" where
  "fresh_GRANDMASTER_CLUSTER_TABLE d \<longleftrightarrow>
     GRANDMASTER_CLUSTER_TABLE_t.PortAddress d = []"

lemma wire_GRANDMASTER_CLUSTER_TABLE [codec_intros]:
  "wire_codec GRANDMASTER_CLUSTER_TABLE_f valid_GRANDMASTER_CLUSTER_TABLE fresh_GRANDMASTER_CLUSTER_TABLE enc_GRANDMASTER_CLUSTER_TABLE pad"
  unfolding GRANDMASTER_CLUSTER_TABLE_f_def
  by (rule wire_codecI, (rule step_intros codec_intros | simp)+)
    (simp_all add: enc_GRANDMASTER_CLUSTER_TABLE_def valid_GRANDMASTER_CLUSTER_TABLE_def fresh_GRANDMASTER_CLUSTER_TABLE_def)

definition safe_GRANDMASTER_CLUSTER_TABLE :: "GRANDMASTER_CLUSTER_TABLE_t \<Rightarrow> bool" where
  "safe_GRANDMASTER_CLUSTER_TABLE d \<longleftrightarrow>
     (\<forall>x \<in> set (GRANDMASTER_CLUSTER_TABLE_t.PortAddress d). safe_PortAddress x)"

lemma safe_GRANDMASTER_CLUSTER_TABLE_f [safe_intros]: "safe_step GRANDMASTER_CLUSTER_TABLE_f safe_GRANDMASTER_CLUSTER_TABLE"
  unfolding GRANDMASTER_CLUSTER_TABLE_f_def safe_GRANDMASTER_CLUSTER_TABLE_def
  by (rule safe_seq) (simp, (rule safe_intros conjI | simp)+)

subsection \<open>UNICAST_MASTER_TABLE\<close>

definition enc_UNICAST_MASTER_TABLE :: "UNICAST_MASTER_TABLE_t \<Rightarrow> octets" where
  "enc_UNICAST_MASTER_TABLE d =
     [UNICAST_MASTER_TABLE_t.logQueryInterval d] @
     cpu_to_net (UNICAST_MASTER_TABLE_t.actualTableSize d) @
     enc_list enc_PortAddress (UNICAST_MASTER_TABLE_t.PortAddress d)"

definition valid_UNICAST_MASTER_TABLE :: "UNICAST_MASTER_TABLE_t \<Rightarrow> bool" where
  "valid_UNICAST_MASTER_TABLE d \<longleftrightarrow>
     length (UNICAST_MASTER_TABLE_t.PortAddress d) = unat (ucast (UNICAST_MASTER_TABLE_t.actualTableSize d) :: uint32_t) \<and>
     (\<forall>x \<in> set (UNICAST_MASTER_TABLE_t.PortAddress d). valid_PortAddress x)"

definition fresh_UNICAST_MASTER_TABLE :: "UNICAST_MASTER_TABLE_t \<Rightarrow> bool" where
  "fresh_UNICAST_MASTER_TABLE d \<longleftrightarrow>
     UNICAST_MASTER_TABLE_t.PortAddress d = []"

lemma wire_UNICAST_MASTER_TABLE [codec_intros]:
  "wire_codec UNICAST_MASTER_TABLE_f valid_UNICAST_MASTER_TABLE fresh_UNICAST_MASTER_TABLE enc_UNICAST_MASTER_TABLE pad"
  unfolding UNICAST_MASTER_TABLE_f_def
  by (rule wire_codecI, (rule step_intros codec_intros | simp)+)
    (simp_all add: enc_UNICAST_MASTER_TABLE_def valid_UNICAST_MASTER_TABLE_def fresh_UNICAST_MASTER_TABLE_def)

definition safe_UNICAST_MASTER_TABLE :: "UNICAST_MASTER_TABLE_t \<Rightarrow> bool" where
  "safe_UNICAST_MASTER_TABLE d \<longleftrightarrow>
     (\<forall>x \<in> set (UNICAST_MASTER_TABLE_t.PortAddress d). safe_PortAddress x)"

lemma safe_UNICAST_MASTER_TABLE_f [safe_intros]: "safe_step UNICAST_MASTER_TABLE_f safe_UNICAST_MASTER_TABLE"
  unfolding UNICAST_MASTER_TABLE_f_def safe_UNICAST_MASTER_TABLE_def
  by (rule safe_seq) (simp, (rule safe_intros conjI | simp)+)

subsection \<open>UNICAST_MASTER_MAX_TABLE_SIZE\<close>

definition enc_UNICAST_MASTER_MAX_TABLE_SIZE :: "UNICAST_MASTER_MAX_TABLE_SIZE_t \<Rightarrow> octets" where
  "enc_UNICAST_MASTER_MAX_TABLE_SIZE d =
     cpu_to_net (UNICAST_MASTER_MAX_TABLE_SIZE_t.maxTableSize d)"

lemma wire_UNICAST_MASTER_MAX_TABLE_SIZE [codec_intros]:
  "wire_codec UNICAST_MASTER_MAX_TABLE_SIZE_f (\<lambda>_. True) (\<lambda>_. True) enc_UNICAST_MASTER_MAX_TABLE_SIZE pad"
  unfolding UNICAST_MASTER_MAX_TABLE_SIZE_f_def
  by (rule wire_codecI, (rule step_intros codec_intros | simp)+)
    (simp_all add: enc_UNICAST_MASTER_MAX_TABLE_SIZE_def)

lemma safe_UNICAST_MASTER_MAX_TABLE_SIZE_f [safe_intros]: "safe_step UNICAST_MASTER_MAX_TABLE_SIZE_f (\<lambda>_. True)"
  unfolding UNICAST_MASTER_MAX_TABLE_SIZE_f_def
  by (rule safe_seq) (simp, (rule safe_intros conjI | simp)+)

subsection \<open>ACCEPTABLE_MASTER_TABLE\<close>

definition enc_ACCEPTABLE_MASTER_TABLE :: "ACCEPTABLE_MASTER_TABLE_t \<Rightarrow> octets" where
  "enc_ACCEPTABLE_MASTER_TABLE d =
     cpu_to_net (ACCEPTABLE_MASTER_TABLE_t.actualTableSize d) @
     enc_list enc_AcceptableMaster (ACCEPTABLE_MASTER_TABLE_t.list d)"

definition valid_ACCEPTABLE_MASTER_TABLE :: "ACCEPTABLE_MASTER_TABLE_t \<Rightarrow> bool" where
  "valid_ACCEPTABLE_MASTER_TABLE d \<longleftrightarrow>
     length (ACCEPTABLE_MASTER_TABLE_t.list d) = unat (scast (ACCEPTABLE_MASTER_TABLE_t.actualTableSize d) :: uint32_t) \<and>
     (\<forall>x \<in> set (ACCEPTABLE_MASTER_TABLE_t.list d). valid_AcceptableMaster x)"

definition fresh_ACCEPTABLE_MASTER_TABLE :: "ACCEPTABLE_MASTER_TABLE_t \<Rightarrow> bool" where
  "fresh_ACCEPTABLE_MASTER_TABLE d \<longleftrightarrow>
     ACCEPTABLE_MASTER_TABLE_t.list d = []"

lemma wire_ACCEPTABLE_MASTER_TABLE [codec_intros]:
  "wire_codec ACCEPTABLE_MASTER_TABLE_f valid_ACCEPTABLE_MASTER_TABLE fresh_ACCEPTABLE_MASTER_TABLE enc_ACCEPTABLE_MASTER_TABLE pad"
  unfolding ACCEPTABLE_MASTER_TABLE_f_def
  by (rule wire_codecI, (rule step_intros codec_intros | simp)+)
    (simp_all add: enc_ACCEPTABLE_MASTER_TABLE_def valid_ACCEPTABLE_MASTER_TABLE_def fresh_ACCEPTABLE_MASTER_TABLE_def)

definition safe_ACCEPTABLE_MASTER_TABLE :: "ACCEPTABLE_MASTER_TABLE_t \<Rightarrow> bool" where
  "safe_ACCEPTABLE_MASTER_TABLE d \<longleftrightarrow>
     (\<forall>x \<in> set (ACCEPTABLE_MASTER_TABLE_t.list d). safe_AcceptableMaster x)"

lemma safe_ACCEPTABLE_MASTER_TABLE_f [safe_intros]: "safe_step ACCEPTABLE_MASTER_TABLE_f safe_ACCEPTABLE_MASTER_TABLE"
  unfolding ACCEPTABLE_MASTER_TABLE_f_def safe_ACCEPTABLE_MASTER_TABLE_def
  by (rule safe_seq) (simp, (rule safe_intros conjI | simp)+)

subsection \<open>ACCEPTABLE_MASTER_TABLE_ENABLED\<close>

definition enc_ACCEPTABLE_MASTER_TABLE_ENABLED :: "ACCEPTABLE_MASTER_TABLE_ENABLED_t \<Rightarrow> octets" where
  "enc_ACCEPTABLE_MASTER_TABLE_ENABLED d =
     [ACCEPTABLE_MASTER_TABLE_ENABLED_t.flags d]"

definition valid_ACCEPTABLE_MASTER_TABLE_ENABLED :: "ACCEPTABLE_MASTER_TABLE_ENABLED_t \<Rightarrow> bool" where
  "valid_ACCEPTABLE_MASTER_TABLE_ENABLED d \<longleftrightarrow>
     valid_flags ACCEPTABLE_MASTER_TABLE_ENABLED_flagsMask (ACCEPTABLE_MASTER_TABLE_ENABLED_t.flags d)"

lemma wire_ACCEPTABLE_MASTER_TABLE_ENABLED [codec_intros]:
  "wire_codec ACCEPTABLE_MASTER_TABLE_ENABLED_f valid_ACCEPTABLE_MASTER_TABLE_ENABLED (\<lambda>_. True) enc_ACCEPTABLE_MASTER_TABLE_ENABLED pad"
  unfolding ACCEPTABLE_MASTER_TABLE_ENABLED_f_def
  by (rule wire_codecI, (rule step_intros codec_intros | simp)+)
    (simp_all add: enc_ACCEPTABLE_MASTER_TABLE_ENABLED_def valid_ACCEPTABLE_MASTER_TABLE_ENABLED_def)

lemma safe_ACCEPTABLE_MASTER_TABLE_ENABLED_f [safe_intros]: "safe_step ACCEPTABLE_MASTER_TABLE_ENABLED_f (\<lambda>_. True)"
  unfolding ACCEPTABLE_MASTER_TABLE_ENABLED_f_def
  by (rule safe_seq) (simp, (rule safe_intros conjI | simp)+)

subsection \<open>ACCEPTABLE_MASTER_MAX_TABLE_SIZE\<close>

definition enc_ACCEPTABLE_MASTER_MAX_TABLE_SIZE :: "ACCEPTABLE_MASTER_MAX_TABLE_SIZE_t \<Rightarrow> octets" where
  "enc_ACCEPTABLE_MASTER_MAX_TABLE_SIZE d =
     cpu_to_net (ACCEPTABLE_MASTER_MAX_TABLE_SIZE_t.maxTableSize d)"

lemma wire_ACCEPTABLE_MASTER_MAX_TABLE_SIZE [codec_intros]:
  "wire_codec ACCEPTABLE_MASTER_MAX_TABLE_SIZE_f (\<lambda>_. True) (\<lambda>_. True) enc_ACCEPTABLE_MASTER_MAX_TABLE_SIZE pad"
  unfolding ACCEPTABLE_MASTER_MAX_TABLE_SIZE_f_def
  by (rule wire_codecI, (rule step_intros codec_intros | simp)+)
    (simp_all add: enc_ACCEPTABLE_MASTER_MAX_TABLE_SIZE_def)

lemma safe_ACCEPTABLE_MASTER_MAX_TABLE_SIZE_f [safe_intros]: "safe_step ACCEPTABLE_MASTER_MAX_TABLE_SIZE_f (\<lambda>_. True)"
  unfolding ACCEPTABLE_MASTER_MAX_TABLE_SIZE_f_def
  by (rule safe_seq) (simp, (rule safe_intros conjI | simp)+)

subsection \<open>ALTERNATE_MASTER\<close>

definition enc_ALTERNATE_MASTER :: "ALTERNATE_MASTER_t \<Rightarrow> octets" where
  "enc_ALTERNATE_MASTER d =
     [ALTERNATE_MASTER_t.flags d] @ [ALTERNATE_MASTER_t.logAlternateMulticastSyncInterval d] @
     [ALTERNATE_MASTER_t.numberOfAlternateMasters d]"

definition valid_ALTERNATE_MASTER :: "ALTERNATE_MASTER_t \<Rightarrow> bool" where
  "valid_ALTERNATE_MASTER d \<longleftrightarrow>
     valid_flags ALTERNATE_MASTER_flagsMask (ALTERNATE_MASTER_t.flags d)"

lemma wire_ALTERNATE_MASTER [codec_intros]:
  "wire_codec ALTERNATE_MASTER_f valid_ALTERNATE_MASTER (\<lambda>_. True) enc_ALTERNATE_MASTER pad"
  unfolding ALTERNATE_MASTER_f_def
  by (rule wire_codecI, (rule step_intros codec_intros | simp)+)
    (simp_all add: enc_ALTERNATE_MASTER_def valid_ALTERNATE_MASTER_def)

lemma safe_ALTERNATE_MASTER_f [safe_intros]: "safe_step ALTERNATE_MASTER_f (\<lambda>_. True)"
  unfolding ALTERNATE_MASTER_f_def
  by (rule safe_seq) (simp, (rule safe_intros conjI | simp)+)

subsection \<open>ALTERNATE_TIME_OFFSET_ENABLE\<close>

definition enc_ALTERNATE_TIME_OFFSET_ENABLE :: "ALTERNATE_TIME_OFFSET_ENABLE_t \<Rightarrow> octets" where
  "enc_ALTERNATE_TIME_OFFSET_ENABLE d =
     [ALTERNATE_TIME_OFFSET_ENABLE_t.keyField d] @ [ALTERNATE_TIME_OFFSET_ENABLE_t.flags d]"

definition valid_ALTERNATE_TIME_OFFSET_ENABLE :: "ALTERNATE_TIME_OFFSET_ENABLE_t \<Rightarrow> bool" where
  "valid_ALTERNATE_TIME_OFFSET_ENABLE d \<longleftrightarrow>
     valid_flags ALTERNATE_TIME_OFFSET_ENABLE_flagsMask (ALTERNATE_TIME_OFFSET_ENABLE_t.flags d)"

lemma wire_ALTERNATE_TIME_OFFSET_ENABLE [codec_intros]:
  "wire_codec ALTERNATE_TIME_OFFSET_ENABLE_f valid_ALTERNATE_TIME_OFFSET_ENABLE (\<lambda>_. True) enc_ALTERNATE_TIME_OFFSET_ENABLE pad"
  unfolding ALTERNATE_TIME_OFFSET_ENABLE_f_def
  by (rule wire_codecI, (rule step_intros codec_intros | simp)+)
    (simp_all add: enc_ALTERNATE_TIME_OFFSET_ENABLE_def valid_ALTERNATE_TIME_OFFSET_ENABLE_def)

lemma safe_ALTERNATE_TIME_OFFSET_ENABLE_f [safe_intros]: "safe_step ALTERNATE_TIME_OFFSET_ENABLE_f (\<lambda>_. True)"
  unfolding ALTERNATE_TIME_OFFSET_ENABLE_f_def
  by (rule safe_seq) (simp, (rule safe_intros conjI | simp)+)

subsection \<open>ALTERNATE_TIME_OFFSET_NAME\<close>

definition enc_ALTERNATE_TIME_OFFSET_NAME :: "ALTERNATE_TIME_OFFSET_NAME_t \<Rightarrow> octets" where
  "enc_ALTERNATE_TIME_OFFSET_NAME d =
     [ALTERNATE_TIME_OFFSET_NAME_t.keyField d] @
     enc_PTPText (ALTERNATE_TIME_OFFSET_NAME_t.displayName d)"

definition valid_ALTERNATE_TIME_OFFSET_NAME :: "ALTERNATE_TIME_OFFSET_NAME_t \<Rightarrow> bool" where
  "valid_ALTERNATE_TIME_OFFSET_NAME d \<longleftrightarrow>
     valid_PTPText (ALTERNATE_TIME_OFFSET_NAME_t.displayName d)"

definition fresh_ALTERNATE_TIME_OFFSET_NAME :: "ALTERNATE_TIME_OFFSET_NAME_t \<Rightarrow> bool" where
  "fresh_ALTERNATE_TIME_OFFSET_NAME d \<longleftrightarrow>
     textField (ALTERNATE_TIME_OFFSET_NAME_t.displayName d) = []"

lemma wire_ALTERNATE_TIME_OFFSET_NAME [codec_intros]:
  "wire_codec ALTERNATE_TIME_OFFSET_NAME_f valid_ALTERNATE_TIME_OFFSET_NAME fresh_ALTERNATE_TIME_OFFSET_NAME enc_ALTERNATE_TIME_OFFSET_NAME pad"
  unfolding ALTERNATE_TIME_OFFSET_NAME_f_def
  by (rule wire_codecI, (rule step_intros codec_intros | simp)+)
    (simp_all add: enc_ALTERNATE_TIME_OFFSET_NAME_def valid_ALTERNATE_TIME_OFFSET_NAME_def fresh_ALTERNATE_TIME_OFFSET_NAME_def)

lemma safe_ALTERNATE_TIME_OFFSET_NAME_f [safe_intros]: "safe_step ALTERNATE_TIME_OFFSET_NAME_f (\<lambda>_. True)"
  unfolding ALTERNATE_TIME_OFFSET_NAME_f_def
  by (rule safe_seq) (simp, (rule safe_intros conjI | simp)+)

subsection \<open>ALTERNATE_TIME_OFFSET_MAX_KEY\<close>

definition enc_ALTERNATE_TIME_OFFSET_MAX_KEY :: "ALTERNATE_TIME_OFFSET_MAX_KEY_t \<Rightarrow> octets" where
  "enc_ALTERNATE_TIME_OFFSET_MAX_KEY d =
     [ALTERNATE_TIME_OFFSET_MAX_KEY_t.maxKey d]"

lemma wire_ALTERNATE_TIME_OFFSET_MAX_KEY [codec_intros]:
  "wire_codec ALTERNATE_TIME_OFFSET_MAX_KEY_f (\<lambda>_. True) (\<lambda>_. True) enc_ALTERNATE_TIME_OFFSET_MAX_KEY pad"
  unfolding ALTERNATE_TIME_OFFSET_MAX_KEY_f_def
  by (rule wire_codecI, (rule step_intros codec_intros | simp)+)
    (simp_all add: enc_ALTERNATE_TIME_OFFSET_MAX_KEY_def)

lemma safe_ALTERNATE_TIME_OFFSET_MAX_KEY_f [safe_intros]: "safe_step ALTERNATE_TIME_OFFSET_MAX_KEY_f (\<lambda>_. True)"
  unfolding ALTERNATE_TIME_OFFSET_MAX_KEY_f_def
  by (rule safe_seq) (simp, (rule safe_intros conjI | simp)+)

subsection \<open>ALTERNATE_TIME_OFFSET_PROPERTIES\<close>

definition enc_ALTERNATE_TIME_OFFSET_PROPERTIES :: "ALTERNATE_TIME_OFFSET_PROPERTIES_t \<Rightarrow> octets" where
  "enc_ALTERNATE_TIME_OFFSET_PROPERTIES d =
     [ALTERNATE_TIME_OFFSET_PROPERTIES_t.keyField d] @
     cpu_to_net (ALTERNATE_TIME_OFFSET_PROPERTIES_t.currentOffset d) @
     cpu_to_net (ALTERNATE_TIME_OFFSET_PROPERTIES_t.jumpSeconds d) @
     enc48 (ALTERNATE_TIME_OFFSET_PROPERTIES_t.timeOfNextJump d)"

definition valid_ALTERNATE_TIME_OFFSET_PROPERTIES :: "ALTERNATE_TIME_OFFSET_PROPERTIES_t \<Rightarrow> bool" where
  "valid_ALTERNATE_TIME_OFFSET_PROPERTIES d \<longleftrightarrow>
     ALTERNATE_TIME_OFFSET_PROPERTIES_t.timeOfNextJump d \<le> UINT48_MAX"

lemma wire_ALTERNATE_TIME_OFFSET_PROPERTIES [codec_intros]:
  "wire_codec ALTERNATE_TIME_OFFSET_PROPERTIES_f valid_ALTERNATE_TIME_OFFSET_PROPERTIES (\<lambda>_. True) enc_ALTERNATE_TIME_OFFSET_PROPERTIES pad"
  unfolding ALTERNATE_TIME_OFFSET_PROPERTIES_f_def
  by (rule wire_codecI, (rule step_intros codec_intros | simp)+)
    (simp_all add: enc_ALTERNATE_TIME_OFFSET_PROPERTIES_def valid_ALTERNATE_TIME_OFFSET_PROPERTIES_def)

lemma safe_ALTERNATE_TIME_OFFSET_PROPERTIES_f [safe_intros]: "safe_step ALTERNATE_TIME_OFFSET_PROPERTIES_f (\<lambda>_. True)"
  unfolding ALTERNATE_TIME_OFFSET_PROPERTIES_f_def
  by (rule safe_seq) (simp, (rule safe_intros conjI | simp)+)

subsection \<open>TRANSPARENT_CLOCK_PORT_DATA_SET\<close>

definition enc_TRANSPARENT_CLOCK_PORT_DATA_SET :: "TRANSPARENT_CLOCK_PORT_DATA_SET_t \<Rightarrow> octets" where
  "enc_TRANSPARENT_CLOCK_PORT_DATA_SET d =
     enc_PortIdentity (TRANSPARENT_CLOCK_PORT_DATA_SET_t.portIdentity d) @
     [TRANSPARENT_CLOCK_PORT_DATA_SET_t.flags d] @
     [TRANSPARENT_CLOCK_PORT_DATA_SET_t.logMinPdelayReqInterval d] @
     enc_TimeInterval (TRANSPARENT_CLOCK_PORT_DATA_SET_t.peerMeanPathDelay d)"

definition valid_TRANSPARENT_CLOCK_PORT_DATA_SET :: "TRANSPARENT_CLOCK_PORT_DATA_SET_t \<Rightarrow> bool" where
  "valid_TRANSPARENT_CLOCK_PORT_DATA_SET d \<longleftrightarrow>
     valid_PortIdentity (TRANSPARENT_CLOCK_PORT_DATA_SET_t.portIdentity d) \<and>
     valid_flags TRANSPARENT_CLOCK_PORT_DATA_SET_flagsMask (TRANSPARENT_CLOCK_PORT_DATA_SET_t.flags d)"

lemma wire_TRANSPARENT_CLOCK_PORT_DATA_SET [codec_intros]:
  "wire_codec TRANSPARENT_CLOCK_PORT_DATA_SET_f valid_TRANSPARENT_CLOCK_PORT_DATA_SET (\<lambda>_. True) enc_TRANSPARENT_CLOCK_PORT_DATA_SET pad"
  unfolding TRANSPARENT_CLOCK_PORT_DATA_SET_f_def
  by (rule wire_codecI, (rule step_intros codec_intros | simp)+)
    (simp_all add: enc_TRANSPARENT_CLOCK_PORT_DATA_SET_def valid_TRANSPARENT_CLOCK_PORT_DATA_SET_def)

definition safe_TRANSPARENT_CLOCK_PORT_DATA_SET :: "TRANSPARENT_CLOCK_PORT_DATA_SET_t \<Rightarrow> bool" where
  "safe_TRANSPARENT_CLOCK_PORT_DATA_SET d \<longleftrightarrow>
     safe_PortIdentity (TRANSPARENT_CLOCK_PORT_DATA_SET_t.portIdentity d)"

lemma safe_TRANSPARENT_CLOCK_PORT_DATA_SET_f [safe_intros]: "safe_step TRANSPARENT_CLOCK_PORT_DATA_SET_f safe_TRANSPARENT_CLOCK_PORT_DATA_SET"
  unfolding TRANSPARENT_CLOCK_PORT_DATA_SET_f_def safe_TRANSPARENT_CLOCK_PORT_DATA_SET_def
  by (rule safe_seq) (simp, (rule safe_intros conjI | simp)+)

subsection \<open>LOG_MIN_PDELAY_REQ_INTERVAL\<close>

definition enc_LOG_MIN_PDELAY_REQ_INTERVAL :: "LOG_MIN_PDELAY_REQ_INTERVAL_t \<Rightarrow> octets" where
  "enc_LOG_MIN_PDELAY_REQ_INTERVAL d =
     [LOG_MIN_PDELAY_REQ_INTERVAL_t.logMinPdelayReqInterval d]"

lemma wire_LOG_MIN_PDELAY_REQ_INTERVAL [codec_intros]:
  "wire_codec LOG_MIN_PDELAY_REQ_INTERVAL_f (\<lambda>_. True) (\<lambda>_. True) enc_LOG_MIN_PDELAY_REQ_INTERVAL pad"
  unfolding LOG_MIN_PDELAY_REQ_INTERVAL_f_def
  by (rule wire_codecI, (rule step_intros codec_intros | simp)+)
    (simp_all add: enc_LOG_MIN_PDELAY_REQ_INTERVAL_def)

lemma safe_LOG_MIN_PDELAY_REQ_INTERVAL_f [safe_intros]: "safe_step LOG_MIN_PDELAY_REQ_INTERVAL_f (\<lambda>_. True)"
  unfolding LOG_MIN_PDELAY_REQ_INTERVAL_f_def
  by (rule safe_seq) (simp, (rule safe_intros conjI | simp)+)

subsection \<open>TRANSPARENT_CLOCK_DEFAULT_DATA_SET\<close>

definition enc_TRANSPARENT_CLOCK_DEFAULT_DATA_SET :: "TRANSPARENT_CLOCK_DEFAULT_DATA_SET_t \<Rightarrow> octets" where
  "enc_TRANSPARENT_CLOCK_DEFAULT_DATA_SET d =
     ci_v (TRANSPARENT_CLOCK_DEFAULT_DATA_SET_t.clockIdentity d) @
     cpu_to_net (TRANSPARENT_CLOCK_DEFAULT_DATA_SET_t.numberPorts d) @
     [TRANSPARENT_CLOCK_DEFAULT_DATA_SET_t.delayMechanism d] @
     [TRANSPARENT_CLOCK_DEFAULT_DATA_SET_t.primaryDomain d]"

definition valid_TRANSPARENT_CLOCK_DEFAULT_DATA_SET :: "TRANSPARENT_CLOCK_DEFAULT_DATA_SET_t \<Rightarrow> bool" where
  "valid_TRANSPARENT_CLOCK_DEFAULT_DATA_SET d \<longleftrightarrow>
     valid_ClockIdentity (TRANSPARENT_CLOCK_DEFAULT_DATA_SET_t.clockIdentity d)"

lemma wire_TRANSPARENT_CLOCK_DEFAULT_DATA_SET [codec_intros]:
  "wire_codec TRANSPARENT_CLOCK_DEFAULT_DATA_SET_f valid_TRANSPARENT_CLOCK_DEFAULT_DATA_SET (\<lambda>_. True) enc_TRANSPARENT_CLOCK_DEFAULT_DATA_SET pad"
  unfolding TRANSPARENT_CLOCK_DEFAULT_DATA_SET_f_def
  by (rule wire_codecI, (rule step_intros codec_intros | simp)+)
    (simp_all add: enc_TRANSPARENT_CLOCK_DEFAULT_DATA_SET_def valid_TRANSPARENT_CLOCK_DEFAULT_DATA_SET_def)

definition safe_TRANSPARENT_CLOCK_DEFAULT_DATA_SET :: "TRANSPARENT_CLOCK_DEFAULT_DATA_SET_t \<Rightarrow> bool" where
  "safe_TRANSPARENT_CLOCK_DEFAULT_DATA_SET d \<longleftrightarrow>
     safe_ClockIdentity (TRANSPARENT_CLOCK_DEFAULT_DATA_SET_t.clockIdentity d)"

lemma safe_TRANSPARENT_CLOCK_DEFAULT_DATA_SET_f [safe_intros]: "safe_step TRANSPARENT_CLOCK_DEFAULT_DATA_SET_f safe_TRANSPARENT_CLOCK_DEFAULT_DATA_SET"
  unfolding TRANSPARENT_CLOCK_DEFAULT_DATA_SET_f_def safe_TRANSPARENT_CLOCK_DEFAULT_DATA_SET_def
  by (rule safe_seq) (simp, (rule safe_intros conjI | simp)+)

subsection \<open>PRIMARY_DOMAIN\<close>

definition enc_PRIMARY_DOMAIN :: "PRIMARY_DOMAIN_t \<Rightarrow> octets" where
  "enc_PRIMARY_DOMAIN d =
     [PRIMARY_DOMAIN_t.primaryDomain d]"

lemma wire_PRIMARY_DOMAIN [codec_intros]:
  "wire_codec PRIMARY_DOMAIN_f (\<lambda>_. True) (\<lambda>_. True) enc_PRIMARY_DOMAIN pad"
  unfolding PRIMARY_DOMAIN_f_def
  by (rule wire_codecI, (rule step_intros codec_intros | simp)+)
    (simp_all add: enc_PRIMARY_DOMAIN_def)

lemma safe_PRIMARY_DOMAIN_f [safe_intros]: "safe_step PRIMARY_DOMAIN_f (\<lambda>_. True)"
  unfolding PRIMARY_DOMAIN_f_def
  by (rule safe_seq) (simp, (rule safe_intros conjI | simp)+)

subsection \<open>DELAY_MECHANISM\<close>

definition enc_DELAY_MECHANISM :: "DELAY_MECHANISM_t \<Rightarrow> octets" where
  "enc_DELAY_MECHANISM d =
     [DELAY_MECHANISM_t.delayMechanism d]"

lemma wire_DELAY_MECHANISM [codec_intros]:
  "wire_codec DELAY_MECHANISM_f (\<lambda>_. True) (\<lambda>_. True) enc_DELAY_MECHANISM pad"
  unfolding DELAY_MECHANISM_f_def
  by (rule wire_codecI, (rule step_intros codec_intros | simp)+)
    (simp_all add: enc_DELAY_MECHANISM_def)

lemma safe_DELAY_MECHANISM_f [safe_intros]: "safe_step DELAY_MECHANISM_f (\<lambda>_. True)"
  unfolding DELAY_MECHANISM_f_def
  by (rule safe_seq) (simp, (rule safe_intros conjI | simp)+)

subsection \<open>EXTERNAL_PORT_CONFIGURATION_ENABLED\<close>

definition enc_EXTERNAL_PORT_CONFIGURATION_ENABLED :: "EXTERNAL_PORT_CONFIGURATION_ENABLED_t \<Rightarrow> octets" where
  "enc_EXTERNAL_PORT_CONFIGURATION_ENABLED d =
     [EXTERNAL_PORT_CONFIGURATION_ENABLED_t.flags d]"

definition valid_EXTERNAL_PORT_CONFIGURATION_ENABLED :: "EXTERNAL_PORT_CONFIGURATION_ENABLED_t \<Rightarrow> bool" where
  "valid_EXTERNAL_PORT_CONFIGURATION_ENABLED d \<longleftrightarrow>
     valid_flags EXTERNAL_PORT_CONFIGURATION_ENABLED_flagsMask (EXTERNAL_PORT_CONFIGURATION_ENABLED_t.flags d)"

lemma wire_EXTERNAL_PORT_CONFIGURATION_ENABLED [codec_intros]:
  "wire_codec EXTERNAL_PORT_CONFIGURATION_ENABLED_f valid_EXTERNAL_PORT_CONFIGURATION_ENABLED (\<lambda>_. True) enc_EXTERNAL_PORT_CONFIGURATION_ENABLED pad"
  unfolding EXTERNAL_PORT_CONFIGURATION_ENABLED_f_def
  by (rule wire_codecI, (rule step_intros codec_intros | simp)+)
    (simp_all add: enc_EXTERNAL_PORT_CONFIGURATION_ENABLED_def valid_EXTERNAL_PORT_CONFIGURATION_ENABLED_def)

lemma safe_EXTERNAL_PORT_CONFIGURATION_ENABLED_f [safe_intros]: "safe_step EXTERNAL_PORT_CONFIGURATION_ENABLED_f (\<lambda>_. True)"
  unfolding EXTERNAL_PORT_CONFIGURATION_ENABLED_f_def
  by (rule safe_seq) (simp, (rule safe_intros conjI | simp)+)

subsection \<open>MASTER_ONLY\<close>

definition enc_MASTER_ONLY :: "MASTER_ONLY_t \<Rightarrow> octets" where
  "enc_MASTER_ONLY d =
     [MASTER_ONLY_t.flags d]"

definition valid_MASTER_ONLY :: "MASTER_ONLY_t \<Rightarrow> bool" where
  "valid_MASTER_ONLY d \<longleftrightarrow>
     valid_flags MASTER_ONLY_flagsMask (MASTER_ONLY_t.flags d)"

lemma wire_MASTER_ONLY [codec_intros]:
  "wire_codec MASTER_ONLY_f valid_MASTER_ONLY (\<lambda>_. True) enc_MASTER_ONLY pad"
  unfolding MASTER_ONLY_f_def
  by (rule wire_codecI, (rule step_intros codec_intros | simp)+)
    (simp_all add: enc_MASTER_ONLY_def valid_MASTER_ONLY_def)

lemma safe_MASTER_ONLY_f [safe_intros]: "safe_step MASTER_ONLY_f (\<lambda>_. True)"
  unfolding MASTER_ONLY_f_def
  by (rule safe_seq) (simp, (rule safe_intros conjI | simp)+)

subsection \<open>HOLDOVER_UPGRADE_ENABLE\<close>

definition enc_HOLDOVER_UPGRADE_ENABLE :: "HOLDOVER_UPGRADE_ENABLE_t \<Rightarrow> octets" where
  "enc_HOLDOVER_UPGRADE_ENABLE d =
     [HOLDOVER_UPGRADE_ENABLE_t.flags d]"

definition valid_HOLDOVER_UPGRADE_ENABLE :: "HOLDOVER_UPGRADE_ENABLE_t \<Rightarrow> bool" where
  "valid_HOLDOVER_UPGRADE_ENABLE d \<longleftrightarrow>
     valid_flags HOLDOVER_UPGRADE_ENABLE_flagsMask (HOLDOVER_UPGRADE_ENABLE_t.flags d)"

lemma wire_HOLDOVER_UPGRADE_ENABLE [codec_intros]:
  "wire_codec HOLDOVER_UPGRADE_ENABLE_f valid_HOLDOVER_UPGRADE_ENABLE (\<lambda>_. True) enc_HOLDOVER_UPGRADE_ENABLE pad"
  unfolding HOLDOVER_UPGRADE_ENABLE_f_def
  by (rule wire_codecI, (rule step_intros codec_intros | simp)+)
    (simp_all add: enc_HOLDOVER_UPGRADE_ENABLE_def valid_HOLDOVER_UPGRADE_ENABLE_def)

lemma safe_HOLDOVER_UPGRADE_ENABLE_f [safe_intros]: "safe_step HOLDOVER_UPGRADE_ENABLE_f (\<lambda>_. True)"
  unfolding HOLDOVER_UPGRADE_ENABLE_f_def
  by (rule safe_seq) (simp, (rule safe_intros conjI | simp)+)

subsection \<open>EXT_PORT_CONFIG_PORT_DATA_SET\<close>

definition enc_EXT_PORT_CONFIG_PORT_DATA_SET :: "EXT_PORT_CONFIG_PORT_DATA_SET_t \<Rightarrow> octets" where
  "enc_EXT_PORT_CONFIG_PORT_DATA_SET d =
     [EXT_PORT_CONFIG_PORT_DATA_SET_t.flags d] @
     [EXT_PORT_CONFIG_PORT_DATA_SET_t.desiredState d]"

definition valid_EXT_PORT_CONFIG_PORT_DATA_SET :: "EXT_PORT_CONFIG_PORT_DATA_SET_t \<Rightarrow> bool" where
  "valid_EXT_PORT_CONFIG_PORT_DATA_SET d \<longleftrightarrow>
     valid_flags EXT_PORT_CONFIG_PORT_DATA_SET_flagsMask (EXT_PORT_CONFIG_PORT_DATA_SET_t.flags d)"

lemma wire_EXT_PORT_CONFIG_PORT_DATA_SET [codec_intros]:
  "wire_codec EXT_PORT_CONFIG_PORT_DATA_SET_f valid_EXT_PORT_CONFIG_PORT_DATA_SET (\<lambda>_. True) enc_EXT_PORT_CONFIG_PORT_DATA_SET pad"
  unfolding EXT_PORT_CONFIG_PORT_DATA_SET_f_def
  by (rule wire_codecI, (rule step_intros codec_intros | simp)+)
    (simp_all add: enc_EXT_PORT_CONFIG_PORT_DATA_SET_def valid_EXT_PORT_CONFIG_PORT_DATA_SET_def)

lemma safe_EXT_PORT_CONFIG_PORT_DATA_SET_f [safe_intros]: "safe_step EXT_PORT_CONFIG_PORT_DATA_SET_f (\<lambda>_. True)"
  unfolding EXT_PORT_CONFIG_PORT_DATA_SET_f_def
  by (rule safe_seq) (simp, (rule safe_intros conjI | simp)+)

subsection \<open>TIME_STATUS_NP\<close>

definition enc_TIME_STATUS_NP :: "TIME_STATUS_NP_t \<Rightarrow> octets" where
  "enc_TIME_STATUS_NP d =
     cpu_to_net (TIME_STATUS_NP_t.master_offset d) @
     cpu_to_net (TIME_STATUS_NP_t.ingress_time d) @
     cpu_to_net (TIME_STATUS_NP_t.cumulativeScaledRateOffset d) @
     cpu_to_net (TIME_STATUS_NP_t.scaledLastGmPhaseChange d) @
     cpu_to_net (TIME_STATUS_NP_t.gmTimeBaseIndicator d) @
     cpu_to_net (TIME_STATUS_NP_t.nanoseconds_msb d) @
     cpu_to_net (TIME_STATUS_NP_t.nanoseconds_lsb d) @
     cpu_to_net (TIME_STATUS_NP_t.fractional_nanoseconds d) @
     cpu_to_net (TIME_STATUS_NP_t.gmPresent d) @ ci_v (TIME_STATUS_NP_t.gmIdentity d)"

definition valid_TIME_STATUS_NP :: "TIME_STATUS_NP_t \<Rightarrow> bool" where
  "valid_TIME_STATUS_NP d \<longleftrightarrow>
     valid_ClockIdentity (TIME_STATUS_NP_t.gmIdentity d)"

lemma wire_TIME_STATUS_NP [codec_intros]:
  "wire_codec TIME_STATUS_NP_f valid_TIME_STATUS_NP (\<lambda>_. True) enc_TIME_STATUS_NP pad"
  unfolding TIME_STATUS_NP_f_def
  by (rule wire_codecI, (rule step_intros codec_intros | simp)+)
    (simp_all add: enc_TIME_STATUS_NP_def valid_TIME_STATUS_NP_def)

definition safe_TIME_STATUS_NP :: "TIME_STATUS_NP_t \<Rightarrow> bool" where
  "safe_TIME_STATUS_NP d \<longleftrightarrow>
     safe_ClockIdentity (TIME_STATUS_NP_t.gmIdentity d)"

lemma safe_TIME_STATUS_NP_f [safe_intros]: "safe_step TIME_STATUS_NP_f safe_TIME_STATUS_NP"
  unfolding TIME_STATUS_NP_f_def safe_TIME_STATUS_NP_def
  by (rule safe_seq) (simp, (rule safe_intros conjI | simp)+)

subsection \<open>GRANDMASTER_SETTINGS_NP\<close>

definition enc_GRANDMASTER_SETTINGS_NP :: "GRANDMASTER_SETTINGS_NP_t \<Rightarrow> octets" where
  "enc_GRANDMASTER_SETTINGS_NP d =
     enc_ClockQuality (GRANDMASTER_SETTINGS_NP_t.clockQuality d) @
     cpu_to_net (GRANDMASTER_SETTINGS_NP_t.currentUtcOffset d) @
     [GRANDMASTER_SETTINGS_NP_t.flags d] @ [GRANDMASTER_SETTINGS_NP_t.timeSource d]"

definition valid_GRANDMASTER_SETTINGS_NP :: "GRANDMASTER_SETTINGS_NP_t \<Rightarrow> bool" where
  "valid_GRANDMASTER_SETTINGS_NP d \<longleftrightarrow>
     valid_flags GRANDMASTER_SETTINGS_NP_flagsMask (GRANDMASTER_SETTINGS_NP_t.flags d)"

lemma wire_GRANDMASTER_SETTINGS_NP [codec_intros]:
  "wire_codec GRANDMASTER_SETTINGS_NP_f valid_GRANDMASTER_SETTINGS_NP (\<lambda>_. True) enc_GRANDMASTER_SETTINGS_NP pad"
  unfolding GRANDMASTER_SETTINGS_NP_f_def
  by (rule wire_codecI, (rule step_intros codec_intros | simp)+)
    (simp_all add: enc_GRANDMASTER_SETTINGS_NP_def valid_GRANDMASTER_SETTINGS_NP_def)

lemma safe_GRANDMASTER_SETTINGS_NP_f [safe_intros]: "safe_step GRANDMASTER_SETTINGS_NP_f (\<lambda>_. True)"
  unfolding GRANDMASTER_SETTINGS_NP_f_def
  by (rule safe_seq) (simp, (rule safe_intros conjI | simp)+)

subsection \<open>PORT_DATA_SET_NP\<close>

definition enc_PORT_DATA_SET_NP :: "PORT_DATA_SET_NP_t \<Rightarrow> octets" where
  "enc_PORT_DATA_SET_NP d =
     cpu_to_net (PORT_DATA_SET_NP_t.neighborPropDelayThresh d) @
     cpu_to_net (PORT_DATA_SET_NP_t.asCapable d)"

lemma wire_PORT_DATA_SET_NP [codec_intros]:
  "wire_codec PORT_DATA_SET_NP_f (\<lambda>_. True) (\<lambda>_. True) enc_PORT_DATA_SET_NP pad"
  unfolding PORT_DATA_SET_NP_f_def
  by (rule wire_codecI, (rule step_intros codec_intros | simp)+)
    (simp_all add: enc_PORT_DATA_SET_NP_def)

lemma safe_PORT_DATA_SET_NP_f [safe_intros]: "safe_step PORT_DATA_SET_NP_f (\<lambda>_. True)"
  unfolding PORT_DATA_SET_NP_f_def
  by (rule safe_seq) (simp, (rule safe_intros conjI | simp)+)

subsection \<open>SUBSCRIBE_EVENTS_NP\<close>

definition enc_SUBSCRIBE_EVENTS_NP :: "SUBSCRIBE_EVENTS_NP_t \<Rightarrow> octets" where
  "enc_SUBSCRIBE_EVENTS_NP d =
     cpu_to_net (SUBSCRIBE_EVENTS_NP_t.duration d) @ SUBSCRIBE_EVENTS_NP_t.bitmask d"

definition valid_SUBSCRIBE_EVENTS_NP :: "SUBSCRIBE_EVENTS_NP_t \<Rightarrow> bool" where
  "valid_SUBSCRIBE_EVENTS_NP d \<longleftrightarrow>
     length (SUBSCRIBE_EVENTS_NP_t.bitmask d) = 64"

lemma wire_SUBSCRIBE_EVENTS_NP [codec_intros]:
  "wire_codec SUBSCRIBE_EVENTS_NP_f valid_SUBSCRIBE_EVENTS_NP (\<lambda>_. True) enc_SUBSCRIBE_EVENTS_NP pad"
  unfolding SUBSCRIBE_EVENTS_NP_f_def
  by (rule wire_codecI, (rule step_intros codec_intros | simp)+)
    (simp_all add: enc_SUBSCRIBE_EVENTS_NP_def valid_SUBSCRIBE_EVENTS_NP_def)

definition safe_SUBSCRIBE_EVENTS_NP :: "SUBSCRIBE_EVENTS_NP_t \<Rightarrow> bool" where
  "safe_SUBSCRIBE_EVENTS_NP d \<longleftrightarrow>
     64 \<le> length (SUBSCRIBE_EVENTS_NP_t.bitmask d)"

lemma safe_SUBSCRIBE_EVENTS_NP_f [safe_intros]: "safe_step SUBSCRIBE_EVENTS_NP_f safe_SUBSCRIBE_EVENTS_NP"
  unfolding SUBSCRIBE_EVENTS_NP_f_def safe_SUBSCRIBE_EVENTS_NP_def
  by (rule safe_seq) (simp, (rule safe_intros conjI | simp)+)

subsection \<open>PORT_PROPERTIES_NP\<close>

definition enc_PORT_PROPERTIES_NP :: "PORT_PROPERTIES_NP_t \<Rightarrow> octets" where
  "enc_PORT_PROPERTIES_NP d =
     enc_PortIdentity (PORT_PROPERTIES_NP_t.portIdentity d) @
     [PORT_PROPERTIES_NP_t.portState d] @ [PORT_PROPERTIES_NP_t.timestamping d] @
     enc_PTPText (PORT_PROPERTIES_NP_t.interface d)"

definition valid_PORT_PROPERTIES_NP :: "PORT_PROPERTIES_NP_t \<Rightarrow> bool" where
  "valid_PORT_PROPERTIES_NP d \<longleftrightarrow>
     valid_PortIdentity (PORT_PROPERTIES_NP_t.portIdentity d) \<and>
     valid_PTPText (PORT_PROPERTIES_NP_t.interface d)"

definition fresh_PORT_PROPERTIES_NP :: "PORT_PROPERTIES_NP_t \<Rightarrow> bool" where
  "fresh_PORT_PROPERTIES_NP d \<longleftrightarrow>
     textField (PORT_PROPERTIES_NP_t.interface d) = []"

lemma wire_PORT_PROPERTIES_NP [codec_intros]:
  "wire_codec PORT_PROPERTIES_NP_f valid_PORT_PROPERTIES_NP fresh_PORT_PROPERTIES_NP enc_PORT_PROPERTIES_NP pad"
  unfolding PORT_PROPERTIES_NP_f_def
  by (rule wire_codecI, (rule step_intros codec_intros | simp)+)
    (simp_all add: enc_PORT_PROPERTIES_NP_def valid_PORT_PROPERTIES_NP_def fresh_PORT_PROPERTIES_NP_def)

definition safe_PORT_PROPERTIES_NP :: "PORT_PROPERTIES_NP_t \<Rightarrow> bool" where
  "safe_PORT_PROPERTIES_NP d \<longleftrightarrow>
     safe_PortIdentity (PORT_PROPERTIES_NP_t.portIdentity d)"

lemma safe_PORT_PROPERTIES_NP_f [safe_intros]: "safe_step PORT_PROPERTIES_NP_f safe_PORT_PROPERTIES_NP"
  unfolding PORT_PROPERTIES_NP_f_def safe_PORT_PROPERTIES_NP_def
  by (rule safe_seq) (simp, (rule safe_intros conjI | simp)+)

subsection \<open>PORT_STATS_NP\<close>

definition enc_PORT_STATS_NP :: "PORT_STATS_NP_t \<Rightarrow> octets" where
  "enc_PORT_STATS_NP d =
     enc_PortIdentity (PORT_STATS_NP_t.portIdentity d) @
     enc_list cpu_to_le64 (PORT_STATS_NP_t.rxMsgType d) @
     enc_list cpu_to_le64 (PORT_STATS_NP_t.txMsgType d)"

definition valid_PORT_STATS_NP :: "PORT_STATS_NP_t \<Rightarrow> bool" where
  "valid_PORT_STATS_NP d \<longleftrightarrow>
     valid_PortIdentity (PORT_STATS_NP_t.portIdentity d) \<and>
     length (PORT_STATS_NP_t.rxMsgType d) = 16 \<and> length (PORT_STATS_NP_t.txMsgType d) = 16"

definition fresh_PORT_STATS_NP :: "PORT_STATS_NP_t \<Rightarrow> bool" where
  "fresh_PORT_STATS_NP d \<longleftrightarrow>
     length (PORT_STATS_NP_t.rxMsgType d) = 16 \<and> length (PORT_STATS_NP_t.txMsgType d) = 16"

lemma wire_PORT_STATS_NP [codec_intros]:
  "wire_codec PORT_STATS_NP_f valid_PORT_STATS_NP fresh_PORT_STATS_NP enc_PORT_STATS_NP pad"
  unfolding PORT_STATS_NP_f_def
  by (rule wire_codecI, (rule step_intros codec_intros | simp)+)
    (simp_all add: enc_PORT_STATS_NP_def valid_PORT_STATS_NP_def fresh_PORT_STATS_NP_def)

definition safe_PORT_STATS_NP :: "PORT_STATS_NP_t \<Rightarrow> bool" where
  "safe_PORT_STATS_NP d \<longleftrightarrow>
     safe_PortIdentity (PORT_STATS_NP_t.portIdentity d)"

lemma safe_PORT_STATS_NP_f [safe_intros]: "safe_step PORT_STATS_NP_f safe_PORT_STATS_NP"
  unfolding PORT_STATS_NP_f_def safe_PORT_STATS_NP_def
  by (rule safe_seq) (simp, (rule safe_intros conjI | simp)+)

subsection \<open>SYNCHRONIZATION_UNCERTAIN_NP\<close>

definition enc_SYNCHRONIZATION_UNCERTAIN_NP :: "SYNCHRONIZATION_UNCERTAIN_NP_t \<Rightarrow> octets" where
  "enc_SYNCHRONIZATION_UNCERTAIN_NP d =
     [SYNCHRONIZATION_UNCERTAIN_NP_t.val d]"

lemma wire_SYNCHRONIZATION_UNCERTAIN_NP [codec_intros]:
  "wire_codec SYNCHRONIZATION_UNCERTAIN_NP_f (\<lambda>_. True) (\<lambda>_. True) enc_SYNCHRONIZATION_UNCERTAIN_NP pad"
  unfolding SYNCHRONIZATION_UNCERTAIN_NP_f_def
  by (rule wire_codecI, (rule step_intros codec_intros | simp)+)
    (simp_all add: enc_SYNCHRONIZATION_UNCERTAIN_NP_def)

lemma safe_SYNCHRONIZATION_UNCERTAIN_NP_f [safe_intros]: "safe_step SYNCHRONIZATION_UNCERTAIN_NP_f (\<lambda>_. True)"
  unfolding SYNCHRONIZATION_UNCERTAIN_NP_f_def
  by (rule safe_seq) (simp, (rule safe_intros conjI | simp)+)

subsection \<open>PORT_SERVICE_STATS_NP\<close>

definition enc_PORT_SERVICE_STATS_NP :: "PORT_SERVICE_STATS_NP_t \<Rightarrow> octets" where
  "enc_PORT_SERVICE_STATS_NP d =
     enc_PortIdentity (PORT_SERVICE_STATS_NP_t.portIdentity d) @
     cpu_to_le64 (PORT_SERVICE_STATS_NP_t.announce_timeout d) @
     cpu_to_le64 (PORT_SERVICE_STATS_NP_t.sync_timeout d) @
     cpu_to_le64 (PORT_SERVICE_STATS_NP_t.delay_timeout d) @
     cpu_to_le64 (PORT_SERVICE_STATS_NP_t.unicast_service_timeout d) @
     cpu_to_le64 (PORT_SERVICE_STATS_NP_t.unicast_request_timeout d) @
     cpu_to_le64 (PORT_SERVICE_STATS_NP_t.master_announce_timeout d) @
     cpu_to_le64 (PORT_SERVICE_STATS_NP_t.master_sync_timeout d) @
     cpu_to_le64 (PORT_SERVICE_STATS_NP_t.qualification_timeout d) @
     cpu_to_le64 (PORT_SERVICE_STATS_NP_t.sync_mismatch d) @
     cpu_to_le64 (PORT_SERVICE_STATS_NP_t.followup_mismatch d)"

definition valid_PORT_SERVICE_STATS_NP :: "PORT_SERVICE_STATS_NP_t \<Rightarrow> bool" where
  "valid_PORT_SERVICE_STATS_NP d \<longleftrightarrow>
     valid_PortIdentity (PORT_SERVICE_STATS_NP_t.portIdentity d)"

lemma wire_PORT_SERVICE_STATS_NP [codec_intros]:
  "wire_codec PORT_SERVICE_STATS_NP_f valid_PORT_SERVICE_STATS_NP (\<lambda>_. True) enc_PORT_SERVICE_STATS_NP pad"
  unfolding PORT_SERVICE_STATS_NP_f_def
  by (rule wire_codecI, (rule step_intros codec_intros | simp)+)
    (simp_all add: enc_PORT_SERVICE_STATS_NP_def valid_PORT_SERVICE_STATS_NP_def)

definition safe_PORT_SERVICE_STATS_NP :: "PORT_SERVICE_STATS_NP_t \<Rightarrow> bool" where
  "safe_PORT_SERVICE_STATS_NP d \<longleftrightarrow>
     safe_PortIdentity (PORT_SERVICE_STATS_NP_t.portIdentity d)"

lemma safe_PORT_SERVICE_STATS_NP_f [safe_intros]: "safe_step PORT_SERVICE_STATS_NP_f safe_PORT_SERVICE_STATS_NP"
  unfolding PORT_SERVICE_STATS_NP_f_def safe_PORT_SERVICE_STATS_NP_def
  by (rule safe_seq) (simp, (rule safe_intros conjI | simp)+)

subsection \<open>UNICAST_MASTER_TABLE_NP\<close>

definition enc_UNICAST_MASTER_TABLE_NP :: "UNICAST_MASTER_TABLE_NP_t \<Rightarrow> octets" where
  "enc_UNICAST_MASTER_TABLE_NP d =
     cpu_to_net (UNICAST_MASTER_TABLE_NP_t.actualTableSize d) @
     enc_list enc_LinuxptpUnicastMaster (UNICAST_MASTER_TABLE_NP_t.unicastMasters d)"

definition valid_UNICAST_MASTER_TABLE_NP :: "UNICAST_MASTER_TABLE_NP_t \<Rightarrow> bool" where
  "valid_UNICAST_MASTER_TABLE_NP d \<longleftrightarrow>
     length (UNICAST_MASTER_TABLE_NP_t.unicastMasters d) = unat (scast (UNICAST_MASTER_TABLE_NP_t.actualTableSize d) :: uint32_t) \<and>
     (\<forall>x \<in> set (UNICAST_MASTER_TABLE_NP_t.unicastMasters d). valid_LinuxptpUnicastMaster x)"

definition fresh_UNICAST_MASTER_TABLE_NP :: "UNICAST_MASTER_TABLE_NP_t \<Rightarrow> bool" where
  "fresh_UNICAST_MASTER_TABLE_NP d \<longleftrightarrow>
     UNICAST_MASTER_TABLE_NP_t.unicastMasters d = []"

lemma wire_UNICAST_MASTER_TABLE_NP [codec_intros]:
  "wire_codec UNICAST_MASTER_TABLE_NP_f valid_UNICAST_MASTER_TABLE_NP fresh_UNICAST_MASTER_TABLE_NP enc_UNICAST_MASTER_TABLE_NP pad"
  unfolding UNICAST_MASTER_TABLE_NP_f_def
  by (rule wire_codecI, (rule step_intros codec_intros | simp)+)
    (simp_all add: enc_UNICAST_MASTER_TABLE_NP_def valid_UNICAST_MASTER_TABLE_NP_def fresh_UNICAST_MASTER_TABLE_NP_def)

definition safe_UNICAST_MASTER_TABLE_NP :: "UNICAST_MASTER_TABLE_NP_t \<Rightarrow> bool" where
  "safe_UNICAST_MASTER_TABLE_NP d \<longleftrightarrow>
     (\<forall>x \<in> set (UNICAST_MASTER_TABLE_NP_t.unicastMasters d). safe_LinuxptpUnicastMaster x)"

lemma safe_UNICAST_MASTER_TABLE_NP_f [safe_intros]: "safe_step UNICAST_MASTER_TABLE_NP_f safe_UNICAST_MASTER_TABLE_NP"
  unfolding UNICAST_MASTER_TABLE_NP_f_def safe_UNICAST_MASTER_TABLE_NP_def
  by (rule safe_seq) (simp, (rule safe_intros conjI | simp)+)

subsection \<open>PORT_HWCLOCK_NP\<close>

definition enc_PORT_HWCLOCK_NP :: "PORT_HWCLOCK_NP_t \<Rightarrow> octets" where
  "enc_PORT_HWCLOCK_NP d =
     enc_PortIdentity (PORT_HWCLOCK_NP_t.portIdentity d) @
     cpu_to_net (PORT_HWCLOCK_NP_t.phc_index d) @ [PORT_HWCLOCK_NP_t.flags d]"

definition valid_PORT_HWCLOCK_NP :: "PORT_HWCLOCK_NP_t \<Rightarrow> bool" where
  "valid_PORT_HWCLOCK_NP d \<longleftrightarrow>
     valid_PortIdentity (PORT_HWCLOCK_NP_t.portIdentity d)"

lemma wire_PORT_HWCLOCK_NP [codec_intros]:
  "wire_codec PORT_HWCLOCK_NP_f valid_PORT_HWCLOCK_NP (\<lambda>_. True) enc_PORT_HWCLOCK_NP pad"
  unfolding PORT_HWCLOCK_NP_f_def
  by (rule wire_codecI, (rule step_intros codec_intros | simp)+)
    (simp_all add: enc_PORT_HWCLOCK_NP_def valid_PORT_HWCLOCK_NP_def)

definition safe_PORT_HWCLOCK_NP :: "PORT_HWCLOCK_NP_t \<Rightarrow> bool" where
  "safe_PORT_HWCLOCK_NP d \<longleftrightarrow>
     safe_PortIdentity (PORT_HWCLOCK_NP_t.portIdentity d)"

lemma safe_PORT_HWCLOCK_NP_f [safe_intros]: "safe_step PORT_HWCLOCK_NP_f safe_PORT_HWCLOCK_NP"
  unfolding PORT_HWCLOCK_NP_f_def safe_PORT_HWCLOCK_NP_def
  by (rule safe_seq) (simp, (rule safe_intros conjI | simp)+)

subsection \<open>POWER_PROFILE_SETTINGS_NP\<close>

definition enc_POWER_PROFILE_SETTINGS_NP :: "POWER_PROFILE_SETTINGS_NP_t \<Rightarrow> octets" where
  "enc_POWER_PROFILE_SETTINGS_NP d =
     cpu_to_net (POWER_PROFILE_SETTINGS_NP_t.version d) @
     cpu_to_net (POWER_PROFILE_SETTINGS_NP_t.grandmasterID d) @
     cpu_to_net (POWER_PROFILE_SETTINGS_NP_t.grandmasterTimeInaccuracy d) @
     cpu_to_net (POWER_PROFILE_SETTINGS_NP_t.networkTimeInaccuracy d) @
     cpu_to_net (POWER_PROFILE_SETTINGS_NP_t.totalTimeInaccuracy d)"

lemma wire_POWER_PROFILE_SETTINGS_NP [codec_intros]:
  "wire_codec POWER_PROFILE_SETTINGS_NP_f (\<lambda>_. True) (\<lambda>_. True) enc_POWER_PROFILE_SETTINGS_NP pad"
  unfolding POWER_PROFILE_SETTINGS_NP_f_def
  by (rule wire_codecI, (rule step_intros codec_intros | simp)+)
    (simp_all add: enc_POWER_PROFILE_SETTINGS_NP_def)

lemma safe_POWER_PROFILE_SETTINGS_NP_f [safe_intros]: "safe_step POWER_PROFILE_SETTINGS_NP_f (\<lambda>_. True)"
  unfolding POWER_PROFILE_SETTINGS_NP_f_def
  by (rule safe_seq) (simp, (rule safe_intros conjI | simp)+)

subsection \<open>CMLDS_INFO_NP\<close>

definition enc_CMLDS_INFO_NP :: "CMLDS_INFO_NP_t \<Rightarrow> octets" where
  "enc_CMLDS_INFO_NP d =
     enc_TimeInterval (CMLDS_INFO_NP_t.meanLinkDelay d) @
     cpu_to_net (CMLDS_INFO_NP_t.scaledNeighborRateRatio d) @
     cpu_to_net (CMLDS_INFO_NP_t.as_capable d)"

lemma wire_CMLDS_INFO_NP [codec_intros]:
  "wire_codec CMLDS_INFO_NP_f (\<lambda>_. True) (\<lambda>_. True) enc_CMLDS_INFO_NP pad"
  unfolding CMLDS_INFO_NP_f_def
  by (rule wire_codecI, (rule step_intros codec_intros | simp)+)
    (simp_all add: enc_CMLDS_INFO_NP_def)

lemma safe_CMLDS_INFO_NP_f [safe_intros]: "safe_step CMLDS_INFO_NP_f (\<lambda>_. True)"
  unfolding CMLDS_INFO_NP_f_def
  by (rule safe_seq) (simp, (rule safe_intros conjI | simp)+)

subsection \<open>PORT_CORRECTIONS_NP\<close>

definition enc_PORT_CORRECTIONS_NP :: "PORT_CORRECTIONS_NP_t \<Rightarrow> octets" where
  "enc_PORT_CORRECTIONS_NP d =
     cpu_to_net (PORT_CORRECTIONS_NP_t.egressLatency d) @
     cpu_to_net (PORT_CORRECTIONS_NP_t.ingressLatency d) @
     cpu_to_net (PORT_CORRECTIONS_NP_t.delayAsymmetry d)"

lemma wire_PORT_CORRECTIONS_NP [codec_intros]:
  "wire_codec PORT_CORRECTIONS_NP_f (\<lambda>_. True) (\<lambda>_. True) enc_PORT_CORRECTIONS_NP pad"
  unfolding PORT_CORRECTIONS_NP_f_def
  by (rule wire_codecI, (rule step_intros codec_intros | simp)+)
    (simp_all add: enc_PORT_CORRECTIONS_NP_def)

lemma safe_PORT_CORRECTIONS_NP_f [safe_intros]: "safe_step PORT_CORRECTIONS_NP_f (\<lambda>_. True)"
  unfolding PORT_CORRECTIONS_NP_f_def
  by (rule safe_seq) (simp, (rule safe_intros conjI | simp)+)

subsection \<open>EXTERNAL_GRANDMASTER_PROPERTIES_NP\<close>

definition enc_EXTERNAL_GRANDMASTER_PROPERTIES_NP :: "EXTERNAL_GRANDMASTER_PROPERTIES_NP_t \<Rightarrow> octets" where
  "enc_EXTERNAL_GRANDMASTER_PROPERTIES_NP d =
     ci_v (EXTERNAL_GRANDMASTER_PROPERTIES_NP_t.gmIdentity d) @
     cpu_to_net (EXTERNAL_GRANDMASTER_PROPERTIES_NP_t.stepsRemoved d)"

definition valid_EXTERNAL_GRANDMASTER_PROPERTIES_NP :: "EXTERNAL_GRANDMASTER_PROPERTIES_NP_t \<Rightarrow> bool" where
  "valid_EXTERNAL_GRANDMASTER_PROPERTIES_NP d \<longleftrightarrow>
     valid_ClockIdentity (EXTERNAL_GRANDMASTER_PROPERTIES_NP_t.gmIdentity d)"

lemma wire_EXTERNAL_GRANDMASTER_PROPERTIES_NP [codec_intros]:
  "wire_codec EXTERNAL_GRANDMASTER_PROPERTIES_NP_f valid_EXTERNAL_GRANDMASTER_PROPERTIES_NP (\<lambda>_. True) enc_EXTERNAL_GRANDMASTER_PROPERTIES_NP pad"
  unfolding EXTERNAL_GRANDMASTER_PROPERTIES_NP_f_def
  by (rule wire_codecI, (rule step_intros codec_intros | simp)+)
    (simp_all add: enc_EXTERNAL_GRANDMASTER_PROPERTIES_NP_def valid_EXTERNAL_GRANDMASTER_PROPERTIES_NP_def)

definition safe_EXTERNAL_GRANDMASTER_PROPERTIES_NP :: "EXTERNAL_GRANDMASTER_PROPERTIES_NP_t \<Rightarrow> bool" where
  "safe_EXTERNAL_GRANDMASTER_PROPERTIES_NP d \<longleftrightarrow>
     safe_ClockIdentity (EXTERNAL_GRANDMASTER_PROPERTIES_NP_t.gmIdentity d)"

lemma safe_EXTERNAL_GRANDMASTER_PROPERTIES_NP_f [safe_intros]: "safe_step EXTERNAL_GRANDMASTER_PROPERTIES_NP_f safe_EXTERNAL_GRANDMASTER_PROPERTIES_NP"
  unfolding EXTERNAL_GRANDMASTER_PROPERTIES_NP_f_def safe_EXTERNAL_GRANDMASTER_PROPERTIES_NP_def
  by (rule safe_seq) (simp, (rule safe_intros conjI | simp)+)

end
