(* ===== verification/Sig_Wire.thy ===== *)
theory Sig_Wire
  imports Sig_Records Mng_Wire
begin

unbundle bit_operations_syntax

text \<open>
  The wire images of the signaling TLVs and of the SMPTE TLV, and that their functions
  implement them. A list with no count is read while a record fits, an organization
  extension reads all that is left.
\<close>

lemmas rec_sizes = SLAVE_RX_SYNC_TIMING_DATA_rec_size_def SLAVE_RX_SYNC_COMPUTED_DATA_rec_size_def
  SLAVE_TX_EVENT_TIMESTAMPS_rec_size_def SLAVE_DELAY_TIMING_DATA_NP_rec_size_def
  Timestamp_size_def TimeInterval_size_def

definition enc_SLAVE_RX_SYNC_TIMING_DATA_rec :: "SLAVE_RX_SYNC_TIMING_DATA_rec_t \<Rightarrow> octets" where
  "enc_SLAVE_RX_SYNC_TIMING_DATA_rec d =
     cpu_to_net (SLAVE_RX_SYNC_TIMING_DATA_rec_t.sequenceId d) @
     enc_Timestamp (SLAVE_RX_SYNC_TIMING_DATA_rec_t.syncOriginTimestamp d) @
     enc_TimeInterval (SLAVE_RX_SYNC_TIMING_DATA_rec_t.totalCorrectionField d) @
     cpu_to_net (SLAVE_RX_SYNC_TIMING_DATA_rec_t.scaledCumulativeRateOffset d) @
     enc_Timestamp (SLAVE_RX_SYNC_TIMING_DATA_rec_t.syncEventIngressTimestamp d)"

definition valid_SLAVE_RX_SYNC_TIMING_DATA_rec :: "SLAVE_RX_SYNC_TIMING_DATA_rec_t \<Rightarrow> bool" where
  "valid_SLAVE_RX_SYNC_TIMING_DATA_rec d \<longleftrightarrow>
     valid_Timestamp (SLAVE_RX_SYNC_TIMING_DATA_rec_t.syncOriginTimestamp d) \<and>
     valid_Timestamp (SLAVE_RX_SYNC_TIMING_DATA_rec_t.syncEventIngressTimestamp d)"

lemma wire_proc_SLAVE_RX_SYNC_TIMING_DATA_rec [codec_intros]:
  "wire_codec proc_SLAVE_RX_SYNC_TIMING_DATA_rec valid_SLAVE_RX_SYNC_TIMING_DATA_rec (\<lambda>_. True) enc_SLAVE_RX_SYNC_TIMING_DATA_rec R"
  unfolding proc_SLAVE_RX_SYNC_TIMING_DATA_rec_def
  by (rule wire_codecI, (rule step_intros codec_intros | simp)+)
    (simp_all add: enc_SLAVE_RX_SYNC_TIMING_DATA_rec_def valid_SLAVE_RX_SYNC_TIMING_DATA_rec_def)

lemma size_SLAVE_RX_SYNC_TIMING_DATA_rec [simp]:
  "length (enc_SLAVE_RX_SYNC_TIMING_DATA_rec d) = SLAVE_RX_SYNC_TIMING_DATA_rec_size" "0 < SLAVE_RX_SYNC_TIMING_DATA_rec_size"
  "pad r \<Longrightarrow> length r < SLAVE_RX_SYNC_TIMING_DATA_rec_size"
  by (simp_all add: enc_SLAVE_RX_SYNC_TIMING_DATA_rec_def rec_sizes pad_def)

lemma safe_proc_SLAVE_RX_SYNC_TIMING_DATA_rec [safe_intros]: "safe_step proc_SLAVE_RX_SYNC_TIMING_DATA_rec (\<lambda>_. True)"
  unfolding proc_SLAVE_RX_SYNC_TIMING_DATA_rec_def
  by (rule safe_seq) (simp, (rule safe_intros conjI | simp)+)

definition enc_SLAVE_RX_SYNC_COMPUTED_DATA_rec :: "SLAVE_RX_SYNC_COMPUTED_DATA_rec_t \<Rightarrow> octets" where
  "enc_SLAVE_RX_SYNC_COMPUTED_DATA_rec d =
     cpu_to_net (SLAVE_RX_SYNC_COMPUTED_DATA_rec_t.sequenceId d) @
     enc_TimeInterval (SLAVE_RX_SYNC_COMPUTED_DATA_rec_t.offsetFromMaster d) @
     enc_TimeInterval (SLAVE_RX_SYNC_COMPUTED_DATA_rec_t.meanPathDelay d) @
     cpu_to_net (SLAVE_RX_SYNC_COMPUTED_DATA_rec_t.scaledNeighborRateRatio d)"

lemma wire_proc_SLAVE_RX_SYNC_COMPUTED_DATA_rec [codec_intros]:
  "wire_codec proc_SLAVE_RX_SYNC_COMPUTED_DATA_rec (\<lambda>_. True) (\<lambda>_. True) enc_SLAVE_RX_SYNC_COMPUTED_DATA_rec R"
  unfolding proc_SLAVE_RX_SYNC_COMPUTED_DATA_rec_def
  by (rule wire_codecI, (rule step_intros codec_intros | simp)+)
    (simp_all add: enc_SLAVE_RX_SYNC_COMPUTED_DATA_rec_def)

lemma size_SLAVE_RX_SYNC_COMPUTED_DATA_rec [simp]:
  "length (enc_SLAVE_RX_SYNC_COMPUTED_DATA_rec d) = SLAVE_RX_SYNC_COMPUTED_DATA_rec_size" "0 < SLAVE_RX_SYNC_COMPUTED_DATA_rec_size"
  "pad r \<Longrightarrow> length r < SLAVE_RX_SYNC_COMPUTED_DATA_rec_size"
  by (simp_all add: enc_SLAVE_RX_SYNC_COMPUTED_DATA_rec_def rec_sizes pad_def)

lemma safe_proc_SLAVE_RX_SYNC_COMPUTED_DATA_rec [safe_intros]: "safe_step proc_SLAVE_RX_SYNC_COMPUTED_DATA_rec (\<lambda>_. True)"
  unfolding proc_SLAVE_RX_SYNC_COMPUTED_DATA_rec_def
  by (rule safe_seq) (simp, (rule safe_intros conjI | simp)+)

definition enc_SLAVE_TX_EVENT_TIMESTAMPS_rec :: "SLAVE_TX_EVENT_TIMESTAMPS_rec_t \<Rightarrow> octets" where
  "enc_SLAVE_TX_EVENT_TIMESTAMPS_rec d =
     cpu_to_net (SLAVE_TX_EVENT_TIMESTAMPS_rec_t.sequenceId d) @
     enc_Timestamp (SLAVE_TX_EVENT_TIMESTAMPS_rec_t.eventEgressTimestamp d)"

definition valid_SLAVE_TX_EVENT_TIMESTAMPS_rec :: "SLAVE_TX_EVENT_TIMESTAMPS_rec_t \<Rightarrow> bool" where
  "valid_SLAVE_TX_EVENT_TIMESTAMPS_rec d \<longleftrightarrow>
     valid_Timestamp (SLAVE_TX_EVENT_TIMESTAMPS_rec_t.eventEgressTimestamp d)"

lemma wire_proc_SLAVE_TX_EVENT_TIMESTAMPS_rec [codec_intros]:
  "wire_codec proc_SLAVE_TX_EVENT_TIMESTAMPS_rec valid_SLAVE_TX_EVENT_TIMESTAMPS_rec (\<lambda>_. True) enc_SLAVE_TX_EVENT_TIMESTAMPS_rec R"
  unfolding proc_SLAVE_TX_EVENT_TIMESTAMPS_rec_def
  by (rule wire_codecI, (rule step_intros codec_intros | simp)+)
    (simp_all add: enc_SLAVE_TX_EVENT_TIMESTAMPS_rec_def valid_SLAVE_TX_EVENT_TIMESTAMPS_rec_def)

lemma size_SLAVE_TX_EVENT_TIMESTAMPS_rec [simp]:
  "length (enc_SLAVE_TX_EVENT_TIMESTAMPS_rec d) = SLAVE_TX_EVENT_TIMESTAMPS_rec_size" "0 < SLAVE_TX_EVENT_TIMESTAMPS_rec_size"
  "pad r \<Longrightarrow> length r < SLAVE_TX_EVENT_TIMESTAMPS_rec_size"
  by (simp_all add: enc_SLAVE_TX_EVENT_TIMESTAMPS_rec_def rec_sizes pad_def)

lemma safe_proc_SLAVE_TX_EVENT_TIMESTAMPS_rec [safe_intros]: "safe_step proc_SLAVE_TX_EVENT_TIMESTAMPS_rec (\<lambda>_. True)"
  unfolding proc_SLAVE_TX_EVENT_TIMESTAMPS_rec_def
  by (rule safe_seq) (simp, (rule safe_intros conjI | simp)+)

definition enc_SLAVE_DELAY_TIMING_DATA_NP_rec :: "SLAVE_DELAY_TIMING_DATA_NP_rec_t \<Rightarrow> octets" where
  "enc_SLAVE_DELAY_TIMING_DATA_NP_rec d =
     cpu_to_net (SLAVE_DELAY_TIMING_DATA_NP_rec_t.sequenceId d) @
     enc_Timestamp (SLAVE_DELAY_TIMING_DATA_NP_rec_t.delayOriginTimestamp d) @
     enc_TimeInterval (SLAVE_DELAY_TIMING_DATA_NP_rec_t.totalCorrectionField d) @
     enc_Timestamp (SLAVE_DELAY_TIMING_DATA_NP_rec_t.delayResponseTimestamp d)"

definition valid_SLAVE_DELAY_TIMING_DATA_NP_rec :: "SLAVE_DELAY_TIMING_DATA_NP_rec_t \<Rightarrow> bool" where
  "valid_SLAVE_DELAY_TIMING_DATA_NP_rec d \<longleftrightarrow>
     valid_Timestamp (SLAVE_DELAY_TIMING_DATA_NP_rec_t.delayOriginTimestamp d) \<and>
     valid_Timestamp (SLAVE_DELAY_TIMING_DATA_NP_rec_t.delayResponseTimestamp d)"

lemma wire_proc_SLAVE_DELAY_TIMING_DATA_NP_rec [codec_intros]:
  "wire_codec proc_SLAVE_DELAY_TIMING_DATA_NP_rec valid_SLAVE_DELAY_TIMING_DATA_NP_rec (\<lambda>_. True) enc_SLAVE_DELAY_TIMING_DATA_NP_rec R"
  unfolding proc_SLAVE_DELAY_TIMING_DATA_NP_rec_def
  by (rule wire_codecI, (rule step_intros codec_intros | simp)+)
    (simp_all add: enc_SLAVE_DELAY_TIMING_DATA_NP_rec_def valid_SLAVE_DELAY_TIMING_DATA_NP_rec_def)

lemma size_SLAVE_DELAY_TIMING_DATA_NP_rec [simp]:
  "length (enc_SLAVE_DELAY_TIMING_DATA_NP_rec d) = SLAVE_DELAY_TIMING_DATA_NP_rec_size" "0 < SLAVE_DELAY_TIMING_DATA_NP_rec_size"
  "pad r \<Longrightarrow> length r < SLAVE_DELAY_TIMING_DATA_NP_rec_size"
  by (simp_all add: enc_SLAVE_DELAY_TIMING_DATA_NP_rec_def rec_sizes pad_def)

lemma safe_proc_SLAVE_DELAY_TIMING_DATA_NP_rec [safe_intros]: "safe_step proc_SLAVE_DELAY_TIMING_DATA_NP_rec (\<lambda>_. True)"
  unfolding proc_SLAVE_DELAY_TIMING_DATA_NP_rec_def
  by (rule safe_seq) (simp, (rule safe_intros conjI | simp)+)

subsection \<open>ORGANIZATION_EXTENSION\<close>

definition enc_ORGANIZATION_EXTENSION :: "ORGANIZATION_EXTENSION_t \<Rightarrow> octets" where
  "enc_ORGANIZATION_EXTENSION d =
     ORGANIZATION_EXTENSION_t.organizationId d @
     ORGANIZATION_EXTENSION_t.organizationSubType d @ ORGANIZATION_EXTENSION_t.dataField d"

definition valid_ORGANIZATION_EXTENSION :: "ORGANIZATION_EXTENSION_t \<Rightarrow> bool" where
  "valid_ORGANIZATION_EXTENSION d \<longleftrightarrow>
     length (ORGANIZATION_EXTENSION_t.organizationId d) = 3 \<and>
     length (ORGANIZATION_EXTENSION_t.organizationSubType d) = 3 \<and>
     length (ORGANIZATION_EXTENSION_t.dataField d) < 2 ^ 16"

lemma wire_ORGANIZATION_EXTENSION [codec_intros]:
  "wire_codec ORGANIZATION_EXTENSION_f valid_ORGANIZATION_EXTENSION (\<lambda>_. True) enc_ORGANIZATION_EXTENSION (\<lambda>r. r = [])"
  unfolding ORGANIZATION_EXTENSION_f_def
  by (rule wire_codecI, (rule step_intros codec_intros | simp)+)
    (simp_all add: enc_ORGANIZATION_EXTENSION_def valid_ORGANIZATION_EXTENSION_def)

definition safe_ORGANIZATION_EXTENSION :: "ORGANIZATION_EXTENSION_t \<Rightarrow> bool" where
  "safe_ORGANIZATION_EXTENSION d \<longleftrightarrow>
     3 \<le> length (ORGANIZATION_EXTENSION_t.organizationId d) \<and>
     3 \<le> length (ORGANIZATION_EXTENSION_t.organizationSubType d) \<and>
     length (ORGANIZATION_EXTENSION_t.dataField d) < 2 ^ 16"

lemma safe_ORGANIZATION_EXTENSION_f [safe_intros]: "safe_step ORGANIZATION_EXTENSION_f safe_ORGANIZATION_EXTENSION"
  unfolding ORGANIZATION_EXTENSION_f_def safe_ORGANIZATION_EXTENSION_def
  by (rule safe_seq) (simp, (rule safe_intros conjI | simp)+)

subsection \<open>PATH_TRACE\<close>

definition enc_PATH_TRACE :: "PATH_TRACE_t \<Rightarrow> octets" where
  "enc_PATH_TRACE d =
     enc_list ci_v (PATH_TRACE_t.pathSequence d)"

definition valid_PATH_TRACE :: "PATH_TRACE_t \<Rightarrow> bool" where
  "valid_PATH_TRACE d \<longleftrightarrow>
     (\<forall>x \<in> set (PATH_TRACE_t.pathSequence d). valid_ClockIdentity x)"

definition fresh_PATH_TRACE :: "PATH_TRACE_t \<Rightarrow> bool" where
  "fresh_PATH_TRACE d \<longleftrightarrow>
     PATH_TRACE_t.pathSequence d = []"

lemma wire_PATH_TRACE [codec_intros]:
  "wire_codec PATH_TRACE_f valid_PATH_TRACE fresh_PATH_TRACE enc_PATH_TRACE pad"
  unfolding PATH_TRACE_f_def
  by (rule wire_codecI, (rule step_intros codec_intros | simp)+)
    (simp_all add: enc_PATH_TRACE_def valid_PATH_TRACE_def fresh_PATH_TRACE_def)

definition safe_PATH_TRACE :: "PATH_TRACE_t \<Rightarrow> bool" where
  "safe_PATH_TRACE d \<longleftrightarrow>
     (\<forall>x \<in> set (PATH_TRACE_t.pathSequence d). safe_ClockIdentity x)"

lemma safe_PATH_TRACE_f [safe_intros]: "safe_step PATH_TRACE_f safe_PATH_TRACE"
  unfolding PATH_TRACE_f_def safe_PATH_TRACE_def
  by (rule safe_seq) (simp, (rule safe_intros conjI | simp)+)

subsection \<open>ALTERNATE_TIME_OFFSET_INDICATOR\<close>

definition enc_ALTERNATE_TIME_OFFSET_INDICATOR :: "ALTERNATE_TIME_OFFSET_INDICATOR_t \<Rightarrow> octets" where
  "enc_ALTERNATE_TIME_OFFSET_INDICATOR d =
     [ALTERNATE_TIME_OFFSET_INDICATOR_t.keyField d] @
     cpu_to_net (ALTERNATE_TIME_OFFSET_INDICATOR_t.currentOffset d) @
     cpu_to_net (ALTERNATE_TIME_OFFSET_INDICATOR_t.jumpSeconds d) @
     enc48 (ALTERNATE_TIME_OFFSET_INDICATOR_t.timeOfNextJump d) @
     enc_PTPText (ALTERNATE_TIME_OFFSET_INDICATOR_t.displayName d)"

definition valid_ALTERNATE_TIME_OFFSET_INDICATOR :: "ALTERNATE_TIME_OFFSET_INDICATOR_t \<Rightarrow> bool" where
  "valid_ALTERNATE_TIME_OFFSET_INDICATOR d \<longleftrightarrow>
     ALTERNATE_TIME_OFFSET_INDICATOR_t.timeOfNextJump d \<le> UINT48_MAX \<and>
     valid_PTPText (ALTERNATE_TIME_OFFSET_INDICATOR_t.displayName d)"

definition fresh_ALTERNATE_TIME_OFFSET_INDICATOR :: "ALTERNATE_TIME_OFFSET_INDICATOR_t \<Rightarrow> bool" where
  "fresh_ALTERNATE_TIME_OFFSET_INDICATOR d \<longleftrightarrow>
     textField (ALTERNATE_TIME_OFFSET_INDICATOR_t.displayName d) = []"

lemma wire_ALTERNATE_TIME_OFFSET_INDICATOR [codec_intros]:
  "wire_codec ALTERNATE_TIME_OFFSET_INDICATOR_f valid_ALTERNATE_TIME_OFFSET_INDICATOR fresh_ALTERNATE_TIME_OFFSET_INDICATOR enc_ALTERNATE_TIME_OFFSET_INDICATOR pad"
  unfolding ALTERNATE_TIME_OFFSET_INDICATOR_f_def
  by (rule wire_codecI, (rule step_intros codec_intros | simp)+)
    (simp_all add: enc_ALTERNATE_TIME_OFFSET_INDICATOR_def valid_ALTERNATE_TIME_OFFSET_INDICATOR_def fresh_ALTERNATE_TIME_OFFSET_INDICATOR_def)

lemma safe_ALTERNATE_TIME_OFFSET_INDICATOR_f [safe_intros]: "safe_step ALTERNATE_TIME_OFFSET_INDICATOR_f (\<lambda>_. True)"
  unfolding ALTERNATE_TIME_OFFSET_INDICATOR_f_def
  by (rule safe_seq) (simp, (rule safe_intros conjI | simp)+)

subsection \<open>ENHANCED_ACCURACY_METRICS\<close>

definition enc_ENHANCED_ACCURACY_METRICS :: "ENHANCED_ACCURACY_METRICS_t \<Rightarrow> octets" where
  "enc_ENHANCED_ACCURACY_METRICS d =
     [ENHANCED_ACCURACY_METRICS_t.bcHopCount d] @ [ENHANCED_ACCURACY_METRICS_t.tcHopCount d] @
     [0] @ [0] @ enc_TimeInterval (ENHANCED_ACCURACY_METRICS_t.maxGmInaccuracy d) @
     cpu_to_net (ENHANCED_ACCURACY_METRICS_t.varGmInaccuracy d) @
     enc_TimeInterval (ENHANCED_ACCURACY_METRICS_t.maxTransientInaccuracy d) @
     cpu_to_net (ENHANCED_ACCURACY_METRICS_t.varTransientInaccuracy d) @
     enc_TimeInterval (ENHANCED_ACCURACY_METRICS_t.maxDynamicInaccuracy d) @
     cpu_to_net (ENHANCED_ACCURACY_METRICS_t.varDynamicInaccuracy d) @
     enc_TimeInterval (ENHANCED_ACCURACY_METRICS_t.maxStaticInstanceInaccuracy d) @
     cpu_to_net (ENHANCED_ACCURACY_METRICS_t.varStaticInstanceInaccuracy d) @
     enc_TimeInterval (ENHANCED_ACCURACY_METRICS_t.maxStaticMediumInaccuracy d) @
     cpu_to_net (ENHANCED_ACCURACY_METRICS_t.varStaticMediumInaccuracy d)"

lemma wire_ENHANCED_ACCURACY_METRICS [codec_intros]:
  "wire_codec ENHANCED_ACCURACY_METRICS_f (\<lambda>_. True) (\<lambda>_. True) enc_ENHANCED_ACCURACY_METRICS pad"
  unfolding ENHANCED_ACCURACY_METRICS_f_def
  by (rule wire_codecI, (rule step_intros codec_intros | simp)+)
    (simp_all add: enc_ENHANCED_ACCURACY_METRICS_def)

lemma safe_ENHANCED_ACCURACY_METRICS_f [safe_intros]: "safe_step ENHANCED_ACCURACY_METRICS_f (\<lambda>_. True)"
  unfolding ENHANCED_ACCURACY_METRICS_f_def
  by (rule safe_seq) (simp, (rule safe_intros conjI | simp)+)

subsection \<open>L1_SYNC\<close>

definition L1_SYNC_ext :: "L1_SYNC_t \<Rightarrow> bool" where
  "L1_SYNC_ext d \<longleftrightarrow> L1_SYNC_t.flags1 d AND L1_SYNC_optParamsEnabled > 0"

definition enc_L1_SYNC :: "L1_SYNC_t \<Rightarrow> octets" where
  "enc_L1_SYNC d =
     [L1_SYNC_t.flags1 d] @ [L1_SYNC_t.flags2 d] @
     (if L1_SYNC_ext d
      then [L1_SYNC_t.flags3 d] @ enc_TimeInterval (L1_SYNC_t.phaseOffsetTx d) @
        enc_Timestamp (L1_SYNC_t.phaseOffsetTxTimestamp d) @
        enc_TimeInterval (L1_SYNC_t.freqOffsetTx d) @
        enc_Timestamp (L1_SYNC_t.freqOffsetTxTimestamp d)
      else [])"

text \<open>The parameters of the extended format are zero in the basic format.\<close>

definition valid_L1_SYNC :: "L1_SYNC_t \<Rightarrow> bool" where
  "valid_L1_SYNC d \<longleftrightarrow>
     valid_flags L1_SYNC_flagsMask1 (L1_SYNC_t.flags1 d) \<and>
     valid_flags L1_SYNC_flagsMask2 (L1_SYNC_t.flags2 d) \<and>
     (if L1_SYNC_ext d
      then valid_flags L1_SYNC_flagsMask3 (L1_SYNC_t.flags3 d) \<and>
        valid_Timestamp (L1_SYNC_t.phaseOffsetTxTimestamp d) \<and>
        valid_Timestamp (L1_SYNC_t.freqOffsetTxTimestamp d)
      else L1_SYNC_t.flags3 d = 0 \<and> L1_SYNC_t.phaseOffsetTx d = zero_TimeInterval \<and>
        L1_SYNC_t.phaseOffsetTxTimestamp d = zero_Timestamp \<and>
        L1_SYNC_t.freqOffsetTx d = zero_TimeInterval \<and>
        L1_SYNC_t.freqOffsetTxTimestamp d = zero_Timestamp)"

lemma wire_L1_SYNC [codec_intros]:
  "wire_codec L1_SYNC_f valid_L1_SYNC (\<lambda>_. True) enc_L1_SYNC R"
  unfolding L1_SYNC_f_def
  by (rule wire_codecI, (rule step_intros codec_intros | simp)+)
    (simp_all add: enc_L1_SYNC_def valid_L1_SYNC_def L1_SYNC_ext_def split: if_splits)

lemma safe_L1_SYNC_f [safe_intros]: "safe_step L1_SYNC_f (\<lambda>_. True)"
  unfolding L1_SYNC_f_def
  by (rule safe_seq) (simp, (rule safe_intros conjI | simp)+)

subsection \<open>PORT_COMMUNICATION_AVAILABILITY\<close>

definition enc_PORT_COMMUNICATION_AVAILABILITY :: "PORT_COMMUNICATION_AVAILABILITY_t \<Rightarrow> octets" where
  "enc_PORT_COMMUNICATION_AVAILABILITY d =
     [PORT_COMMUNICATION_AVAILABILITY_t.syncMessageAvailability d] @
     [PORT_COMMUNICATION_AVAILABILITY_t.delayRespMessageAvailability d]"

definition valid_PORT_COMMUNICATION_AVAILABILITY :: "PORT_COMMUNICATION_AVAILABILITY_t \<Rightarrow> bool" where
  "valid_PORT_COMMUNICATION_AVAILABILITY d \<longleftrightarrow>
     valid_flags PORT_COMMUNICATION_AVAILABILITY_flagsMask1 (PORT_COMMUNICATION_AVAILABILITY_t.syncMessageAvailability d) \<and>
     valid_flags PORT_COMMUNICATION_AVAILABILITY_flagsMask2 (PORT_COMMUNICATION_AVAILABILITY_t.delayRespMessageAvailability d)"

lemma wire_PORT_COMMUNICATION_AVAILABILITY [codec_intros]:
  "wire_codec PORT_COMMUNICATION_AVAILABILITY_f valid_PORT_COMMUNICATION_AVAILABILITY (\<lambda>_. True) enc_PORT_COMMUNICATION_AVAILABILITY pad"
  unfolding PORT_COMMUNICATION_AVAILABILITY_f_def
  by (rule wire_codecI, (rule step_intros codec_intros | simp)+)
    (simp_all add: enc_PORT_COMMUNICATION_AVAILABILITY_def valid_PORT_COMMUNICATION_AVAILABILITY_def)

lemma safe_PORT_COMMUNICATION_AVAILABILITY_f [safe_intros]: "safe_step PORT_COMMUNICATION_AVAILABILITY_f (\<lambda>_. True)"
  unfolding PORT_COMMUNICATION_AVAILABILITY_f_def
  by (rule safe_seq) (simp, (rule safe_intros conjI | simp)+)

subsection \<open>PROTOCOL_ADDRESS\<close>

definition enc_PROTOCOL_ADDRESS :: "PROTOCOL_ADDRESS_t \<Rightarrow> octets" where
  "enc_PROTOCOL_ADDRESS d =
     enc_PortAddress (PROTOCOL_ADDRESS_t.portProtocolAddress d)"

definition valid_PROTOCOL_ADDRESS :: "PROTOCOL_ADDRESS_t \<Rightarrow> bool" where
  "valid_PROTOCOL_ADDRESS d \<longleftrightarrow>
     valid_PortAddress (PROTOCOL_ADDRESS_t.portProtocolAddress d)"

lemma wire_PROTOCOL_ADDRESS [codec_intros]:
  "wire_codec PROTOCOL_ADDRESS_f valid_PROTOCOL_ADDRESS (\<lambda>_. True) enc_PROTOCOL_ADDRESS pad"
  unfolding PROTOCOL_ADDRESS_f_def
  by (rule wire_codecI, (rule step_intros codec_intros | simp)+)
    (simp_all add: enc_PROTOCOL_ADDRESS_def valid_PROTOCOL_ADDRESS_def)

definition safe_PROTOCOL_ADDRESS :: "PROTOCOL_ADDRESS_t \<Rightarrow> bool" where
  "safe_PROTOCOL_ADDRESS d \<longleftrightarrow>
     safe_PortAddress (PROTOCOL_ADDRESS_t.portProtocolAddress d)"

lemma safe_PROTOCOL_ADDRESS_f [safe_intros]: "safe_step PROTOCOL_ADDRESS_f safe_PROTOCOL_ADDRESS"
  unfolding PROTOCOL_ADDRESS_f_def safe_PROTOCOL_ADDRESS_def
  by (rule safe_seq) (simp, (rule safe_intros conjI | simp)+)

subsection \<open>SLAVE_RX_SYNC_TIMING_DATA\<close>

definition enc_SLAVE_RX_SYNC_TIMING_DATA :: "SLAVE_RX_SYNC_TIMING_DATA_t \<Rightarrow> octets" where
  "enc_SLAVE_RX_SYNC_TIMING_DATA d =
     enc_PortIdentity (SLAVE_RX_SYNC_TIMING_DATA_t.syncSourcePortIdentity d) @
     enc_list enc_SLAVE_RX_SYNC_TIMING_DATA_rec (SLAVE_RX_SYNC_TIMING_DATA_t.list d)"

definition valid_SLAVE_RX_SYNC_TIMING_DATA :: "SLAVE_RX_SYNC_TIMING_DATA_t \<Rightarrow> bool" where
  "valid_SLAVE_RX_SYNC_TIMING_DATA d \<longleftrightarrow>
     valid_PortIdentity (SLAVE_RX_SYNC_TIMING_DATA_t.syncSourcePortIdentity d) \<and>
     (\<forall>x \<in> set (SLAVE_RX_SYNC_TIMING_DATA_t.list d). valid_SLAVE_RX_SYNC_TIMING_DATA_rec x)"

definition fresh_SLAVE_RX_SYNC_TIMING_DATA :: "SLAVE_RX_SYNC_TIMING_DATA_t \<Rightarrow> bool" where
  "fresh_SLAVE_RX_SYNC_TIMING_DATA d \<longleftrightarrow>
     SLAVE_RX_SYNC_TIMING_DATA_t.list d = []"

lemma wire_SLAVE_RX_SYNC_TIMING_DATA [codec_intros]:
  "wire_codec SLAVE_RX_SYNC_TIMING_DATA_f valid_SLAVE_RX_SYNC_TIMING_DATA fresh_SLAVE_RX_SYNC_TIMING_DATA enc_SLAVE_RX_SYNC_TIMING_DATA pad"
  unfolding SLAVE_RX_SYNC_TIMING_DATA_f_def
  by (rule wire_codecI, (rule step_intros codec_intros | simp)+)
    (simp_all add: enc_SLAVE_RX_SYNC_TIMING_DATA_def valid_SLAVE_RX_SYNC_TIMING_DATA_def fresh_SLAVE_RX_SYNC_TIMING_DATA_def)

definition safe_SLAVE_RX_SYNC_TIMING_DATA :: "SLAVE_RX_SYNC_TIMING_DATA_t \<Rightarrow> bool" where
  "safe_SLAVE_RX_SYNC_TIMING_DATA d \<longleftrightarrow>
     safe_PortIdentity (SLAVE_RX_SYNC_TIMING_DATA_t.syncSourcePortIdentity d)"

lemma safe_SLAVE_RX_SYNC_TIMING_DATA_f [safe_intros]: "safe_step SLAVE_RX_SYNC_TIMING_DATA_f safe_SLAVE_RX_SYNC_TIMING_DATA"
  unfolding SLAVE_RX_SYNC_TIMING_DATA_f_def safe_SLAVE_RX_SYNC_TIMING_DATA_def
  by (rule safe_seq) (simp, (rule safe_intros conjI | simp)+)

subsection \<open>SLAVE_RX_SYNC_COMPUTED_DATA\<close>

definition enc_SLAVE_RX_SYNC_COMPUTED_DATA :: "SLAVE_RX_SYNC_COMPUTED_DATA_t \<Rightarrow> octets" where
  "enc_SLAVE_RX_SYNC_COMPUTED_DATA d =
     enc_PortIdentity (SLAVE_RX_SYNC_COMPUTED_DATA_t.sourcePortIdentity d) @
     [SLAVE_RX_SYNC_COMPUTED_DATA_t.computedFlags d] @ [0] @
     enc_list enc_SLAVE_RX_SYNC_COMPUTED_DATA_rec (SLAVE_RX_SYNC_COMPUTED_DATA_t.list d)"

definition valid_SLAVE_RX_SYNC_COMPUTED_DATA :: "SLAVE_RX_SYNC_COMPUTED_DATA_t \<Rightarrow> bool" where
  "valid_SLAVE_RX_SYNC_COMPUTED_DATA d \<longleftrightarrow>
     valid_PortIdentity (SLAVE_RX_SYNC_COMPUTED_DATA_t.sourcePortIdentity d) \<and>
     valid_flags SLAVE_RX_SYNC_COMPUTED_DATA_flagsMask (SLAVE_RX_SYNC_COMPUTED_DATA_t.computedFlags d)"

definition fresh_SLAVE_RX_SYNC_COMPUTED_DATA :: "SLAVE_RX_SYNC_COMPUTED_DATA_t \<Rightarrow> bool" where
  "fresh_SLAVE_RX_SYNC_COMPUTED_DATA d \<longleftrightarrow>
     SLAVE_RX_SYNC_COMPUTED_DATA_t.list d = []"

lemma wire_SLAVE_RX_SYNC_COMPUTED_DATA [codec_intros]:
  "wire_codec SLAVE_RX_SYNC_COMPUTED_DATA_f valid_SLAVE_RX_SYNC_COMPUTED_DATA fresh_SLAVE_RX_SYNC_COMPUTED_DATA enc_SLAVE_RX_SYNC_COMPUTED_DATA pad"
  unfolding SLAVE_RX_SYNC_COMPUTED_DATA_f_def
  by (rule wire_codecI, (rule step_intros codec_intros | simp)+)
    (simp_all add: enc_SLAVE_RX_SYNC_COMPUTED_DATA_def valid_SLAVE_RX_SYNC_COMPUTED_DATA_def fresh_SLAVE_RX_SYNC_COMPUTED_DATA_def)

definition safe_SLAVE_RX_SYNC_COMPUTED_DATA :: "SLAVE_RX_SYNC_COMPUTED_DATA_t \<Rightarrow> bool" where
  "safe_SLAVE_RX_SYNC_COMPUTED_DATA d \<longleftrightarrow>
     safe_PortIdentity (SLAVE_RX_SYNC_COMPUTED_DATA_t.sourcePortIdentity d)"

lemma safe_SLAVE_RX_SYNC_COMPUTED_DATA_f [safe_intros]: "safe_step SLAVE_RX_SYNC_COMPUTED_DATA_f safe_SLAVE_RX_SYNC_COMPUTED_DATA"
  unfolding SLAVE_RX_SYNC_COMPUTED_DATA_f_def safe_SLAVE_RX_SYNC_COMPUTED_DATA_def
  by (rule safe_seq) (simp, (rule safe_intros conjI | simp)+)

subsection \<open>SLAVE_TX_EVENT_TIMESTAMPS\<close>

definition enc_SLAVE_TX_EVENT_TIMESTAMPS :: "SLAVE_TX_EVENT_TIMESTAMPS_t \<Rightarrow> octets" where
  "enc_SLAVE_TX_EVENT_TIMESTAMPS d =
     enc_PortIdentity (SLAVE_TX_EVENT_TIMESTAMPS_t.sourcePortIdentity d) @
     [SLAVE_TX_EVENT_TIMESTAMPS_t.eventMessageType d] @ [0] @
     enc_list enc_SLAVE_TX_EVENT_TIMESTAMPS_rec (SLAVE_TX_EVENT_TIMESTAMPS_t.list d)"

definition valid_SLAVE_TX_EVENT_TIMESTAMPS :: "SLAVE_TX_EVENT_TIMESTAMPS_t \<Rightarrow> bool" where
  "valid_SLAVE_TX_EVENT_TIMESTAMPS d \<longleftrightarrow>
     valid_PortIdentity (SLAVE_TX_EVENT_TIMESTAMPS_t.sourcePortIdentity d) \<and>
     (\<forall>x \<in> set (SLAVE_TX_EVENT_TIMESTAMPS_t.list d). valid_SLAVE_TX_EVENT_TIMESTAMPS_rec x)"

definition fresh_SLAVE_TX_EVENT_TIMESTAMPS :: "SLAVE_TX_EVENT_TIMESTAMPS_t \<Rightarrow> bool" where
  "fresh_SLAVE_TX_EVENT_TIMESTAMPS d \<longleftrightarrow>
     SLAVE_TX_EVENT_TIMESTAMPS_t.list d = []"

lemma wire_SLAVE_TX_EVENT_TIMESTAMPS [codec_intros]:
  "wire_codec SLAVE_TX_EVENT_TIMESTAMPS_f valid_SLAVE_TX_EVENT_TIMESTAMPS fresh_SLAVE_TX_EVENT_TIMESTAMPS enc_SLAVE_TX_EVENT_TIMESTAMPS pad"
  unfolding SLAVE_TX_EVENT_TIMESTAMPS_f_def
  by (rule wire_codecI, (rule step_intros codec_intros | simp)+)
    (simp_all add: enc_SLAVE_TX_EVENT_TIMESTAMPS_def valid_SLAVE_TX_EVENT_TIMESTAMPS_def fresh_SLAVE_TX_EVENT_TIMESTAMPS_def)

definition safe_SLAVE_TX_EVENT_TIMESTAMPS :: "SLAVE_TX_EVENT_TIMESTAMPS_t \<Rightarrow> bool" where
  "safe_SLAVE_TX_EVENT_TIMESTAMPS d \<longleftrightarrow>
     safe_PortIdentity (SLAVE_TX_EVENT_TIMESTAMPS_t.sourcePortIdentity d)"

lemma safe_SLAVE_TX_EVENT_TIMESTAMPS_f [safe_intros]: "safe_step SLAVE_TX_EVENT_TIMESTAMPS_f safe_SLAVE_TX_EVENT_TIMESTAMPS"
  unfolding SLAVE_TX_EVENT_TIMESTAMPS_f_def safe_SLAVE_TX_EVENT_TIMESTAMPS_def
  by (rule safe_seq) (simp, (rule safe_intros conjI | simp)+)

subsection \<open>CUMULATIVE_RATE_RATIO\<close>

definition enc_CUMULATIVE_RATE_RATIO :: "CUMULATIVE_RATE_RATIO_t \<Rightarrow> octets" where
  "enc_CUMULATIVE_RATE_RATIO d =
     cpu_to_net (CUMULATIVE_RATE_RATIO_t.scaledCumulativeRateRatio d)"

lemma wire_CUMULATIVE_RATE_RATIO [codec_intros]:
  "wire_codec CUMULATIVE_RATE_RATIO_f (\<lambda>_. True) (\<lambda>_. True) enc_CUMULATIVE_RATE_RATIO pad"
  unfolding CUMULATIVE_RATE_RATIO_f_def
  by (rule wire_codecI, (rule step_intros codec_intros | simp)+)
    (simp_all add: enc_CUMULATIVE_RATE_RATIO_def)

lemma safe_CUMULATIVE_RATE_RATIO_f [safe_intros]: "safe_step CUMULATIVE_RATE_RATIO_f (\<lambda>_. True)"
  unfolding CUMULATIVE_RATE_RATIO_f_def
  by (rule safe_seq) (simp, (rule safe_intros conjI | simp)+)

subsection \<open>SMPTE_ORGANIZATION_EXTENSION\<close>

definition enc_SMPTE_ORGANIZATION_EXTENSION :: "SMPTE_ORGANIZATION_EXTENSION_t \<Rightarrow> octets" where
  "enc_SMPTE_ORGANIZATION_EXTENSION d =
     SMPTE_ORGANIZATION_EXTENSION_t.organizationId d @
     SMPTE_ORGANIZATION_EXTENSION_t.organizationSubType d @
     cpu_to_net (SMPTE_ORGANIZATION_EXTENSION_t.defaultSystemFrameRate_numerator d) @
     cpu_to_net (SMPTE_ORGANIZATION_EXTENSION_t.defaultSystemFrameRate_denominator d) @
     [SMPTE_ORGANIZATION_EXTENSION_t.masterLockingStatus d] @
     [SMPTE_ORGANIZATION_EXTENSION_t.timeAddressFlags d] @
     cpu_to_net (SMPTE_ORGANIZATION_EXTENSION_t.currentLocalOffset d) @
     cpu_to_net (SMPTE_ORGANIZATION_EXTENSION_t.jumpSeconds d) @
     enc48 (SMPTE_ORGANIZATION_EXTENSION_t.timeOfNextJump d) @
     enc48 (SMPTE_ORGANIZATION_EXTENSION_t.timeOfNextJam d) @
     enc48 (SMPTE_ORGANIZATION_EXTENSION_t.timeOfPreviousJam d) @
     cpu_to_net (SMPTE_ORGANIZATION_EXTENSION_t.previousJamLocalOffset d) @
     [SMPTE_ORGANIZATION_EXTENSION_t.daylightSaving d] @
     [SMPTE_ORGANIZATION_EXTENSION_t.leapSecondJump d]"

definition valid_SMPTE_ORGANIZATION_EXTENSION :: "SMPTE_ORGANIZATION_EXTENSION_t \<Rightarrow> bool" where
  "valid_SMPTE_ORGANIZATION_EXTENSION d \<longleftrightarrow>
     SMPTE_ORGANIZATION_EXTENSION_t.organizationId d = smpte_oui \<and>
     length (SMPTE_ORGANIZATION_EXTENSION_t.organizationSubType d) = 3 \<and>
     SMPTE_ORGANIZATION_EXTENSION_t.timeOfNextJump d \<le> UINT48_MAX \<and>
     SMPTE_ORGANIZATION_EXTENSION_t.timeOfNextJam d \<le> UINT48_MAX \<and>
     SMPTE_ORGANIZATION_EXTENSION_t.timeOfPreviousJam d \<le> UINT48_MAX"

lemma wire_check_smpte_id [step_intros]:
  "wire_step check_smpte_id (\<lambda>d. SMPTE_ORGANIZATION_EXTENSION_t.organizationId d = smpte_oui)
     (\<lambda>_ d0. SMPTE_ORGANIZATION_EXTENSION_t.organizationId d0 = smpte_oui) (\<lambda>_ d0. d0) (\<lambda>_. []) R"
  by unfold_locales (auto simp: check_smpte_id_def mp_ok_def)

lemma safe_check_smpte_id [safe_intros]: "safe_step check_smpte_id W"
  by unfold_locales (auto simp: check_smpte_id_def split: if_splits)

lemma wire_SMPTE_ORGANIZATION_EXTENSION [codec_intros]:
  "wire_codec SMPTE_ORGANIZATION_EXTENSION_f valid_SMPTE_ORGANIZATION_EXTENSION (\<lambda>_. True) enc_SMPTE_ORGANIZATION_EXTENSION pad"
  unfolding SMPTE_ORGANIZATION_EXTENSION_f_def
  by (rule wire_codecI, (rule step_intros codec_intros | simp)+)
    (simp_all add: enc_SMPTE_ORGANIZATION_EXTENSION_def valid_SMPTE_ORGANIZATION_EXTENSION_def smpte_oui_def)

definition safe_SMPTE_ORGANIZATION_EXTENSION :: "SMPTE_ORGANIZATION_EXTENSION_t \<Rightarrow> bool" where
  "safe_SMPTE_ORGANIZATION_EXTENSION d \<longleftrightarrow>
     3 \<le> length (SMPTE_ORGANIZATION_EXTENSION_t.organizationId d) \<and>
     3 \<le> length (SMPTE_ORGANIZATION_EXTENSION_t.organizationSubType d)"

lemma safe_SMPTE_ORGANIZATION_EXTENSION_f [safe_intros]: "safe_step SMPTE_ORGANIZATION_EXTENSION_f safe_SMPTE_ORGANIZATION_EXTENSION"
  unfolding SMPTE_ORGANIZATION_EXTENSION_f_def safe_SMPTE_ORGANIZATION_EXTENSION_def
  by (rule safe_seq) (simp, (rule safe_intros conjI | simp)+)

subsection \<open>SLAVE_DELAY_TIMING_DATA_NP\<close>

definition enc_SLAVE_DELAY_TIMING_DATA_NP :: "SLAVE_DELAY_TIMING_DATA_NP_t \<Rightarrow> octets" where
  "enc_SLAVE_DELAY_TIMING_DATA_NP d =
     enc_PortIdentity (SLAVE_DELAY_TIMING_DATA_NP_t.sourcePortIdentity d) @
     enc_list enc_SLAVE_DELAY_TIMING_DATA_NP_rec (SLAVE_DELAY_TIMING_DATA_NP_t.list d)"

definition valid_SLAVE_DELAY_TIMING_DATA_NP :: "SLAVE_DELAY_TIMING_DATA_NP_t \<Rightarrow> bool" where
  "valid_SLAVE_DELAY_TIMING_DATA_NP d \<longleftrightarrow>
     valid_PortIdentity (SLAVE_DELAY_TIMING_DATA_NP_t.sourcePortIdentity d) \<and>
     (\<forall>x \<in> set (SLAVE_DELAY_TIMING_DATA_NP_t.list d). valid_SLAVE_DELAY_TIMING_DATA_NP_rec x)"

definition fresh_SLAVE_DELAY_TIMING_DATA_NP :: "SLAVE_DELAY_TIMING_DATA_NP_t \<Rightarrow> bool" where
  "fresh_SLAVE_DELAY_TIMING_DATA_NP d \<longleftrightarrow>
     SLAVE_DELAY_TIMING_DATA_NP_t.list d = []"

lemma wire_SLAVE_DELAY_TIMING_DATA_NP [codec_intros]:
  "wire_codec SLAVE_DELAY_TIMING_DATA_NP_f valid_SLAVE_DELAY_TIMING_DATA_NP fresh_SLAVE_DELAY_TIMING_DATA_NP enc_SLAVE_DELAY_TIMING_DATA_NP pad"
  unfolding SLAVE_DELAY_TIMING_DATA_NP_f_def
  by (rule wire_codecI, (rule step_intros codec_intros | simp)+)
    (simp_all add: enc_SLAVE_DELAY_TIMING_DATA_NP_def valid_SLAVE_DELAY_TIMING_DATA_NP_def fresh_SLAVE_DELAY_TIMING_DATA_NP_def)

definition safe_SLAVE_DELAY_TIMING_DATA_NP :: "SLAVE_DELAY_TIMING_DATA_NP_t \<Rightarrow> bool" where
  "safe_SLAVE_DELAY_TIMING_DATA_NP d \<longleftrightarrow>
     safe_PortIdentity (SLAVE_DELAY_TIMING_DATA_NP_t.sourcePortIdentity d)"

lemma safe_SLAVE_DELAY_TIMING_DATA_NP_f [safe_intros]: "safe_step SLAVE_DELAY_TIMING_DATA_NP_f safe_SLAVE_DELAY_TIMING_DATA_NP"
  unfolding SLAVE_DELAY_TIMING_DATA_NP_f_def safe_SLAVE_DELAY_TIMING_DATA_NP_def
  by (rule safe_seq) (simp, (rule safe_intros conjI | simp)+)

end
