(* ===== verification/Mng_Tlvs.thy ===== *)
theory Mng_Tlvs
  imports Mng_Ids Sig_Wire
begin

unbundle bit_operations_syntax

text \<open>
  The management TLV behind a pointer \<^verbatim>\<open>BaseMngTlv *\<close>: one constructor per derived
  structure. \<open>call_tlv_data\<close> is the dispatch of \<^verbatim>\<open>MsgProc::call_tlv_data\<close> over the
  identifiers and \<open>dataFieldSize\<close> that of \<^verbatim>\<open>Message::dataFieldSize\<close>. The lemmas lift
  the contracts of the TLV functions to the dispatch.
\<close>

subsection \<open>The TLVs\<close>

datatype (plugins only: code) BaseMngTlv =
    CLOCK_DESCRIPTION_v CLOCK_DESCRIPTION_t
  | USER_DESCRIPTION_v USER_DESCRIPTION_t
  | INITIALIZE_v INITIALIZE_t
  | FAULT_LOG_v FAULT_LOG_t
  | DEFAULT_DATA_SET_v DEFAULT_DATA_SET_t
  | CURRENT_DATA_SET_v CURRENT_DATA_SET_t
  | PARENT_DATA_SET_v PARENT_DATA_SET_t
  | TIME_PROPERTIES_DATA_SET_v TIME_PROPERTIES_DATA_SET_t
  | PORT_DATA_SET_v PORT_DATA_SET_t
  | PRIORITY1_v PRIORITY1_t
  | PRIORITY2_v PRIORITY2_t
  | DOMAIN_v DOMAIN_t
  | SLAVE_ONLY_v SLAVE_ONLY_t
  | LOG_ANNOUNCE_INTERVAL_v LOG_ANNOUNCE_INTERVAL_t
  | ANNOUNCE_RECEIPT_TIMEOUT_v ANNOUNCE_RECEIPT_TIMEOUT_t
  | LOG_SYNC_INTERVAL_v LOG_SYNC_INTERVAL_t
  | VERSION_NUMBER_v VERSION_NUMBER_t
  | TIME_v TIME_t
  | CLOCK_ACCURACY_v CLOCK_ACCURACY_t
  | UTC_PROPERTIES_v UTC_PROPERTIES_t
  | TRACEABILITY_PROPERTIES_v TRACEABILITY_PROPERTIES_t
  | TIMESCALE_PROPERTIES_v TIMESCALE_PROPERTIES_t
  | UNICAST_NEGOTIATION_ENABLE_v UNICAST_NEGOTIATION_ENABLE_t
  | PATH_TRACE_LIST_v PATH_TRACE_LIST_t
  | PATH_TRACE_ENABLE_v PATH_TRACE_ENABLE_t
  | GRANDMASTER_CLUSTER_TABLE_v GRANDMASTER_CLUSTER_TABLE_t
  | UNICAST_MASTER_TABLE_v UNICAST_MASTER_TABLE_t
  | UNICAST_MASTER_MAX_TABLE_SIZE_v UNICAST_MASTER_MAX_TABLE_SIZE_t
  | ACCEPTABLE_MASTER_TABLE_v ACCEPTABLE_MASTER_TABLE_t
  | ACCEPTABLE_MASTER_TABLE_ENABLED_v ACCEPTABLE_MASTER_TABLE_ENABLED_t
  | ACCEPTABLE_MASTER_MAX_TABLE_SIZE_v ACCEPTABLE_MASTER_MAX_TABLE_SIZE_t
  | ALTERNATE_MASTER_v ALTERNATE_MASTER_t
  | ALTERNATE_TIME_OFFSET_ENABLE_v ALTERNATE_TIME_OFFSET_ENABLE_t
  | ALTERNATE_TIME_OFFSET_NAME_v ALTERNATE_TIME_OFFSET_NAME_t
  | ALTERNATE_TIME_OFFSET_MAX_KEY_v ALTERNATE_TIME_OFFSET_MAX_KEY_t
  | ALTERNATE_TIME_OFFSET_PROPERTIES_v ALTERNATE_TIME_OFFSET_PROPERTIES_t
  | TRANSPARENT_CLOCK_PORT_DATA_SET_v TRANSPARENT_CLOCK_PORT_DATA_SET_t
  | LOG_MIN_PDELAY_REQ_INTERVAL_v LOG_MIN_PDELAY_REQ_INTERVAL_t
  | TRANSPARENT_CLOCK_DEFAULT_DATA_SET_v TRANSPARENT_CLOCK_DEFAULT_DATA_SET_t
  | PRIMARY_DOMAIN_v PRIMARY_DOMAIN_t
  | DELAY_MECHANISM_v DELAY_MECHANISM_t
  | EXTERNAL_PORT_CONFIGURATION_ENABLED_v EXTERNAL_PORT_CONFIGURATION_ENABLED_t
  | MASTER_ONLY_v MASTER_ONLY_t
  | HOLDOVER_UPGRADE_ENABLE_v HOLDOVER_UPGRADE_ENABLE_t
  | EXT_PORT_CONFIG_PORT_DATA_SET_v EXT_PORT_CONFIG_PORT_DATA_SET_t
  | TIME_STATUS_NP_v TIME_STATUS_NP_t
  | GRANDMASTER_SETTINGS_NP_v GRANDMASTER_SETTINGS_NP_t
  | PORT_DATA_SET_NP_v PORT_DATA_SET_NP_t
  | SUBSCRIBE_EVENTS_NP_v SUBSCRIBE_EVENTS_NP_t
  | PORT_PROPERTIES_NP_v PORT_PROPERTIES_NP_t
  | PORT_STATS_NP_v PORT_STATS_NP_t
  | SYNCHRONIZATION_UNCERTAIN_NP_v SYNCHRONIZATION_UNCERTAIN_NP_t
  | PORT_SERVICE_STATS_NP_v PORT_SERVICE_STATS_NP_t
  | UNICAST_MASTER_TABLE_NP_v UNICAST_MASTER_TABLE_NP_t
  | PORT_HWCLOCK_NP_v PORT_HWCLOCK_NP_t
  | POWER_PROFILE_SETTINGS_NP_v POWER_PROFILE_SETTINGS_NP_t
  | CMLDS_INFO_NP_v CMLDS_INFO_NP_t
  | PORT_CORRECTIONS_NP_v PORT_CORRECTIONS_NP_t
  | EXTERNAL_GRANDMASTER_PROPERTIES_NP_v EXTERNAL_GRANDMASTER_PROPERTIES_NP_t
  | SMPTE_ORGANIZATION_EXTENSION_v SMPTE_ORGANIZATION_EXTENSION_t

text \<open>The identifier whose structure the TLV has: what \<^verbatim>\<open>dynamic_cast\<close> tests.\<close>

primrec tlv_type :: "BaseMngTlv \<Rightarrow> mng_vals_e" where
    "tlv_type (CLOCK_DESCRIPTION_v d) = CLOCK_DESCRIPTION"
  | "tlv_type (USER_DESCRIPTION_v d) = USER_DESCRIPTION"
  | "tlv_type (INITIALIZE_v d) = INITIALIZE"
  | "tlv_type (FAULT_LOG_v d) = FAULT_LOG"
  | "tlv_type (DEFAULT_DATA_SET_v d) = DEFAULT_DATA_SET"
  | "tlv_type (CURRENT_DATA_SET_v d) = CURRENT_DATA_SET"
  | "tlv_type (PARENT_DATA_SET_v d) = PARENT_DATA_SET"
  | "tlv_type (TIME_PROPERTIES_DATA_SET_v d) = TIME_PROPERTIES_DATA_SET"
  | "tlv_type (PORT_DATA_SET_v d) = PORT_DATA_SET"
  | "tlv_type (PRIORITY1_v d) = PRIORITY1"
  | "tlv_type (PRIORITY2_v d) = PRIORITY2"
  | "tlv_type (DOMAIN_v d) = DOMAIN"
  | "tlv_type (SLAVE_ONLY_v d) = SLAVE_ONLY"
  | "tlv_type (LOG_ANNOUNCE_INTERVAL_v d) = LOG_ANNOUNCE_INTERVAL"
  | "tlv_type (ANNOUNCE_RECEIPT_TIMEOUT_v d) = ANNOUNCE_RECEIPT_TIMEOUT"
  | "tlv_type (LOG_SYNC_INTERVAL_v d) = LOG_SYNC_INTERVAL"
  | "tlv_type (VERSION_NUMBER_v d) = VERSION_NUMBER"
  | "tlv_type (TIME_v d) = TIME"
  | "tlv_type (CLOCK_ACCURACY_v d) = CLOCK_ACCURACY"
  | "tlv_type (UTC_PROPERTIES_v d) = UTC_PROPERTIES"
  | "tlv_type (TRACEABILITY_PROPERTIES_v d) = TRACEABILITY_PROPERTIES"
  | "tlv_type (TIMESCALE_PROPERTIES_v d) = TIMESCALE_PROPERTIES"
  | "tlv_type (UNICAST_NEGOTIATION_ENABLE_v d) = UNICAST_NEGOTIATION_ENABLE"
  | "tlv_type (PATH_TRACE_LIST_v d) = PATH_TRACE_LIST"
  | "tlv_type (PATH_TRACE_ENABLE_v d) = PATH_TRACE_ENABLE"
  | "tlv_type (GRANDMASTER_CLUSTER_TABLE_v d) = GRANDMASTER_CLUSTER_TABLE"
  | "tlv_type (UNICAST_MASTER_TABLE_v d) = UNICAST_MASTER_TABLE"
  | "tlv_type (UNICAST_MASTER_MAX_TABLE_SIZE_v d) = UNICAST_MASTER_MAX_TABLE_SIZE"
  | "tlv_type (ACCEPTABLE_MASTER_TABLE_v d) = ACCEPTABLE_MASTER_TABLE"
  | "tlv_type (ACCEPTABLE_MASTER_TABLE_ENABLED_v d) = ACCEPTABLE_MASTER_TABLE_ENABLED"
  | "tlv_type (ACCEPTABLE_MASTER_MAX_TABLE_SIZE_v d) = ACCEPTABLE_MASTER_MAX_TABLE_SIZE"
  | "tlv_type (ALTERNATE_MASTER_v d) = ALTERNATE_MASTER"
  | "tlv_type (ALTERNATE_TIME_OFFSET_ENABLE_v d) = ALTERNATE_TIME_OFFSET_ENABLE"
  | "tlv_type (ALTERNATE_TIME_OFFSET_NAME_v d) = ALTERNATE_TIME_OFFSET_NAME"
  | "tlv_type (ALTERNATE_TIME_OFFSET_MAX_KEY_v d) = ALTERNATE_TIME_OFFSET_MAX_KEY"
  | "tlv_type (ALTERNATE_TIME_OFFSET_PROPERTIES_v d) = ALTERNATE_TIME_OFFSET_PROPERTIES"
  | "tlv_type (TRANSPARENT_CLOCK_PORT_DATA_SET_v d) = TRANSPARENT_CLOCK_PORT_DATA_SET"
  | "tlv_type (LOG_MIN_PDELAY_REQ_INTERVAL_v d) = LOG_MIN_PDELAY_REQ_INTERVAL"
  | "tlv_type (TRANSPARENT_CLOCK_DEFAULT_DATA_SET_v d) = TRANSPARENT_CLOCK_DEFAULT_DATA_SET"
  | "tlv_type (PRIMARY_DOMAIN_v d) = PRIMARY_DOMAIN"
  | "tlv_type (DELAY_MECHANISM_v d) = DELAY_MECHANISM"
  | "tlv_type (EXTERNAL_PORT_CONFIGURATION_ENABLED_v d) = EXTERNAL_PORT_CONFIGURATION_ENABLED"
  | "tlv_type (MASTER_ONLY_v d) = MASTER_ONLY"
  | "tlv_type (HOLDOVER_UPGRADE_ENABLE_v d) = HOLDOVER_UPGRADE_ENABLE"
  | "tlv_type (EXT_PORT_CONFIG_PORT_DATA_SET_v d) = EXT_PORT_CONFIG_PORT_DATA_SET"
  | "tlv_type (TIME_STATUS_NP_v d) = TIME_STATUS_NP"
  | "tlv_type (GRANDMASTER_SETTINGS_NP_v d) = GRANDMASTER_SETTINGS_NP"
  | "tlv_type (PORT_DATA_SET_NP_v d) = PORT_DATA_SET_NP"
  | "tlv_type (SUBSCRIBE_EVENTS_NP_v d) = SUBSCRIBE_EVENTS_NP"
  | "tlv_type (PORT_PROPERTIES_NP_v d) = PORT_PROPERTIES_NP"
  | "tlv_type (PORT_STATS_NP_v d) = PORT_STATS_NP"
  | "tlv_type (SYNCHRONIZATION_UNCERTAIN_NP_v d) = SYNCHRONIZATION_UNCERTAIN_NP"
  | "tlv_type (PORT_SERVICE_STATS_NP_v d) = PORT_SERVICE_STATS_NP"
  | "tlv_type (UNICAST_MASTER_TABLE_NP_v d) = UNICAST_MASTER_TABLE_NP"
  | "tlv_type (PORT_HWCLOCK_NP_v d) = PORT_HWCLOCK_NP"
  | "tlv_type (POWER_PROFILE_SETTINGS_NP_v d) = POWER_PROFILE_SETTINGS_NP"
  | "tlv_type (CMLDS_INFO_NP_v d) = CMLDS_INFO_NP"
  | "tlv_type (PORT_CORRECTIONS_NP_v d) = PORT_CORRECTIONS_NP"
  | "tlv_type (EXTERNAL_GRANDMASTER_PROPERTIES_NP_v d) = EXTERNAL_GRANDMASTER_PROPERTIES_NP"
  | "tlv_type (SMPTE_ORGANIZATION_EXTENSION_v d) = SMPTE_MNG_ID"

text \<open>\<^verbatim>\<open>new n##_t\<close>; an identifier with no dataField has no structure.\<close>

primrec new_tlv :: "mng_vals_e \<Rightarrow> BaseMngTlv option" where
    "new_tlv NULL_PTP_MANAGEMENT = None"
  | "new_tlv CLOCK_DESCRIPTION = Some (CLOCK_DESCRIPTION_v new_CLOCK_DESCRIPTION)"
  | "new_tlv USER_DESCRIPTION = Some (USER_DESCRIPTION_v new_USER_DESCRIPTION)"
  | "new_tlv SAVE_IN_NON_VOLATILE_STORAGE = None"
  | "new_tlv RESET_NON_VOLATILE_STORAGE = None"
  | "new_tlv INITIALIZE = Some (INITIALIZE_v new_INITIALIZE)"
  | "new_tlv FAULT_LOG = Some (FAULT_LOG_v new_FAULT_LOG)"
  | "new_tlv FAULT_LOG_RESET = None"
  | "new_tlv DEFAULT_DATA_SET = Some (DEFAULT_DATA_SET_v new_DEFAULT_DATA_SET)"
  | "new_tlv CURRENT_DATA_SET = Some (CURRENT_DATA_SET_v new_CURRENT_DATA_SET)"
  | "new_tlv PARENT_DATA_SET = Some (PARENT_DATA_SET_v new_PARENT_DATA_SET)"
  | "new_tlv TIME_PROPERTIES_DATA_SET = Some (TIME_PROPERTIES_DATA_SET_v new_TIME_PROPERTIES_DATA_SET)"
  | "new_tlv PORT_DATA_SET = Some (PORT_DATA_SET_v new_PORT_DATA_SET)"
  | "new_tlv PRIORITY1 = Some (PRIORITY1_v new_PRIORITY1)"
  | "new_tlv PRIORITY2 = Some (PRIORITY2_v new_PRIORITY2)"
  | "new_tlv DOMAIN = Some (DOMAIN_v new_DOMAIN)"
  | "new_tlv SLAVE_ONLY = Some (SLAVE_ONLY_v new_SLAVE_ONLY)"
  | "new_tlv LOG_ANNOUNCE_INTERVAL = Some (LOG_ANNOUNCE_INTERVAL_v new_LOG_ANNOUNCE_INTERVAL)"
  | "new_tlv ANNOUNCE_RECEIPT_TIMEOUT = Some (ANNOUNCE_RECEIPT_TIMEOUT_v new_ANNOUNCE_RECEIPT_TIMEOUT)"
  | "new_tlv LOG_SYNC_INTERVAL = Some (LOG_SYNC_INTERVAL_v new_LOG_SYNC_INTERVAL)"
  | "new_tlv VERSION_NUMBER = Some (VERSION_NUMBER_v new_VERSION_NUMBER)"
  | "new_tlv ENABLE_PORT = None"
  | "new_tlv DISABLE_PORT = None"
  | "new_tlv TIME = Some (TIME_v new_TIME)"
  | "new_tlv CLOCK_ACCURACY = Some (CLOCK_ACCURACY_v new_CLOCK_ACCURACY)"
  | "new_tlv UTC_PROPERTIES = Some (UTC_PROPERTIES_v new_UTC_PROPERTIES)"
  | "new_tlv TRACEABILITY_PROPERTIES = Some (TRACEABILITY_PROPERTIES_v new_TRACEABILITY_PROPERTIES)"
  | "new_tlv TIMESCALE_PROPERTIES = Some (TIMESCALE_PROPERTIES_v new_TIMESCALE_PROPERTIES)"
  | "new_tlv UNICAST_NEGOTIATION_ENABLE = Some (UNICAST_NEGOTIATION_ENABLE_v new_UNICAST_NEGOTIATION_ENABLE)"
  | "new_tlv PATH_TRACE_LIST = Some (PATH_TRACE_LIST_v new_PATH_TRACE_LIST)"
  | "new_tlv PATH_TRACE_ENABLE = Some (PATH_TRACE_ENABLE_v new_PATH_TRACE_ENABLE)"
  | "new_tlv GRANDMASTER_CLUSTER_TABLE = Some (GRANDMASTER_CLUSTER_TABLE_v new_GRANDMASTER_CLUSTER_TABLE)"
  | "new_tlv UNICAST_MASTER_TABLE = Some (UNICAST_MASTER_TABLE_v new_UNICAST_MASTER_TABLE)"
  | "new_tlv UNICAST_MASTER_MAX_TABLE_SIZE = Some (UNICAST_MASTER_MAX_TABLE_SIZE_v new_UNICAST_MASTER_MAX_TABLE_SIZE)"
  | "new_tlv ACCEPTABLE_MASTER_TABLE = Some (ACCEPTABLE_MASTER_TABLE_v new_ACCEPTABLE_MASTER_TABLE)"
  | "new_tlv ACCEPTABLE_MASTER_TABLE_ENABLED = Some (ACCEPTABLE_MASTER_TABLE_ENABLED_v new_ACCEPTABLE_MASTER_TABLE_ENABLED)"
  | "new_tlv ACCEPTABLE_MASTER_MAX_TABLE_SIZE = Some (ACCEPTABLE_MASTER_MAX_TABLE_SIZE_v new_ACCEPTABLE_MASTER_MAX_TABLE_SIZE)"
  | "new_tlv ALTERNATE_MASTER = Some (ALTERNATE_MASTER_v new_ALTERNATE_MASTER)"
  | "new_tlv ALTERNATE_TIME_OFFSET_ENABLE = Some (ALTERNATE_TIME_OFFSET_ENABLE_v new_ALTERNATE_TIME_OFFSET_ENABLE)"
  | "new_tlv ALTERNATE_TIME_OFFSET_NAME = Some (ALTERNATE_TIME_OFFSET_NAME_v new_ALTERNATE_TIME_OFFSET_NAME)"
  | "new_tlv ALTERNATE_TIME_OFFSET_MAX_KEY = Some (ALTERNATE_TIME_OFFSET_MAX_KEY_v new_ALTERNATE_TIME_OFFSET_MAX_KEY)"
  | "new_tlv ALTERNATE_TIME_OFFSET_PROPERTIES = Some (ALTERNATE_TIME_OFFSET_PROPERTIES_v new_ALTERNATE_TIME_OFFSET_PROPERTIES)"
  | "new_tlv TRANSPARENT_CLOCK_PORT_DATA_SET = Some (TRANSPARENT_CLOCK_PORT_DATA_SET_v new_TRANSPARENT_CLOCK_PORT_DATA_SET)"
  | "new_tlv LOG_MIN_PDELAY_REQ_INTERVAL = Some (LOG_MIN_PDELAY_REQ_INTERVAL_v new_LOG_MIN_PDELAY_REQ_INTERVAL)"
  | "new_tlv TRANSPARENT_CLOCK_DEFAULT_DATA_SET = Some (TRANSPARENT_CLOCK_DEFAULT_DATA_SET_v new_TRANSPARENT_CLOCK_DEFAULT_DATA_SET)"
  | "new_tlv PRIMARY_DOMAIN = Some (PRIMARY_DOMAIN_v new_PRIMARY_DOMAIN)"
  | "new_tlv DELAY_MECHANISM = Some (DELAY_MECHANISM_v new_DELAY_MECHANISM)"
  | "new_tlv EXTERNAL_PORT_CONFIGURATION_ENABLED = Some (EXTERNAL_PORT_CONFIGURATION_ENABLED_v new_EXTERNAL_PORT_CONFIGURATION_ENABLED)"
  | "new_tlv MASTER_ONLY = Some (MASTER_ONLY_v new_MASTER_ONLY)"
  | "new_tlv HOLDOVER_UPGRADE_ENABLE = Some (HOLDOVER_UPGRADE_ENABLE_v new_HOLDOVER_UPGRADE_ENABLE)"
  | "new_tlv EXT_PORT_CONFIG_PORT_DATA_SET = Some (EXT_PORT_CONFIG_PORT_DATA_SET_v new_EXT_PORT_CONFIG_PORT_DATA_SET)"
  | "new_tlv TIME_STATUS_NP = Some (TIME_STATUS_NP_v new_TIME_STATUS_NP)"
  | "new_tlv GRANDMASTER_SETTINGS_NP = Some (GRANDMASTER_SETTINGS_NP_v new_GRANDMASTER_SETTINGS_NP)"
  | "new_tlv PORT_DATA_SET_NP = Some (PORT_DATA_SET_NP_v new_PORT_DATA_SET_NP)"
  | "new_tlv SUBSCRIBE_EVENTS_NP = Some (SUBSCRIBE_EVENTS_NP_v new_SUBSCRIBE_EVENTS_NP)"
  | "new_tlv PORT_PROPERTIES_NP = Some (PORT_PROPERTIES_NP_v new_PORT_PROPERTIES_NP)"
  | "new_tlv PORT_STATS_NP = Some (PORT_STATS_NP_v new_PORT_STATS_NP)"
  | "new_tlv SYNCHRONIZATION_UNCERTAIN_NP = Some (SYNCHRONIZATION_UNCERTAIN_NP_v new_SYNCHRONIZATION_UNCERTAIN_NP)"
  | "new_tlv PORT_SERVICE_STATS_NP = Some (PORT_SERVICE_STATS_NP_v new_PORT_SERVICE_STATS_NP)"
  | "new_tlv UNICAST_MASTER_TABLE_NP = Some (UNICAST_MASTER_TABLE_NP_v new_UNICAST_MASTER_TABLE_NP)"
  | "new_tlv PORT_HWCLOCK_NP = Some (PORT_HWCLOCK_NP_v new_PORT_HWCLOCK_NP)"
  | "new_tlv POWER_PROFILE_SETTINGS_NP = Some (POWER_PROFILE_SETTINGS_NP_v new_POWER_PROFILE_SETTINGS_NP)"
  | "new_tlv CMLDS_INFO_NP = Some (CMLDS_INFO_NP_v new_CMLDS_INFO_NP)"
  | "new_tlv PORT_CORRECTIONS_NP = Some (PORT_CORRECTIONS_NP_v new_PORT_CORRECTIONS_NP)"
  | "new_tlv EXTERNAL_GRANDMASTER_PROPERTIES_NP = Some (EXTERNAL_GRANDMASTER_PROPERTIES_NP_v new_EXTERNAL_GRANDMASTER_PROPERTIES_NP)"
  | "new_tlv LAST_MNG_ID = None"
  | "new_tlv SMPTE_MNG_ID = None"

definition lift_tlv :: "('d \<Rightarrow> BaseMngTlv) \<Rightarrow> 'd proc \<Rightarrow> 'd \<Rightarrow> MsgProc \<Rightarrow> bool \<times> BaseMngTlv \<times> MsgProc"
  where "lift_tlv c p d mp = (case p d mp of (e, d', mp') \<Rightarrow> (e, c d', mp'))"

primrec tlv_f :: "BaseMngTlv proc" where
    "tlv_f (CLOCK_DESCRIPTION_v d) = lift_tlv CLOCK_DESCRIPTION_v CLOCK_DESCRIPTION_f d"
  | "tlv_f (USER_DESCRIPTION_v d) = lift_tlv USER_DESCRIPTION_v USER_DESCRIPTION_f d"
  | "tlv_f (INITIALIZE_v d) = lift_tlv INITIALIZE_v INITIALIZE_f d"
  | "tlv_f (FAULT_LOG_v d) = lift_tlv FAULT_LOG_v FAULT_LOG_f d"
  | "tlv_f (DEFAULT_DATA_SET_v d) = lift_tlv DEFAULT_DATA_SET_v DEFAULT_DATA_SET_f d"
  | "tlv_f (CURRENT_DATA_SET_v d) = lift_tlv CURRENT_DATA_SET_v CURRENT_DATA_SET_f d"
  | "tlv_f (PARENT_DATA_SET_v d) = lift_tlv PARENT_DATA_SET_v PARENT_DATA_SET_f d"
  | "tlv_f (TIME_PROPERTIES_DATA_SET_v d) = lift_tlv TIME_PROPERTIES_DATA_SET_v TIME_PROPERTIES_DATA_SET_f d"
  | "tlv_f (PORT_DATA_SET_v d) = lift_tlv PORT_DATA_SET_v PORT_DATA_SET_f d"
  | "tlv_f (PRIORITY1_v d) = lift_tlv PRIORITY1_v PRIORITY1_f d"
  | "tlv_f (PRIORITY2_v d) = lift_tlv PRIORITY2_v PRIORITY2_f d"
  | "tlv_f (DOMAIN_v d) = lift_tlv DOMAIN_v DOMAIN_f d"
  | "tlv_f (SLAVE_ONLY_v d) = lift_tlv SLAVE_ONLY_v SLAVE_ONLY_f d"
  | "tlv_f (LOG_ANNOUNCE_INTERVAL_v d) = lift_tlv LOG_ANNOUNCE_INTERVAL_v LOG_ANNOUNCE_INTERVAL_f d"
  | "tlv_f (ANNOUNCE_RECEIPT_TIMEOUT_v d) = lift_tlv ANNOUNCE_RECEIPT_TIMEOUT_v ANNOUNCE_RECEIPT_TIMEOUT_f d"
  | "tlv_f (LOG_SYNC_INTERVAL_v d) = lift_tlv LOG_SYNC_INTERVAL_v LOG_SYNC_INTERVAL_f d"
  | "tlv_f (VERSION_NUMBER_v d) = lift_tlv VERSION_NUMBER_v VERSION_NUMBER_f d"
  | "tlv_f (TIME_v d) = lift_tlv TIME_v TIME_f d"
  | "tlv_f (CLOCK_ACCURACY_v d) = lift_tlv CLOCK_ACCURACY_v CLOCK_ACCURACY_f d"
  | "tlv_f (UTC_PROPERTIES_v d) = lift_tlv UTC_PROPERTIES_v UTC_PROPERTIES_f d"
  | "tlv_f (TRACEABILITY_PROPERTIES_v d) = lift_tlv TRACEABILITY_PROPERTIES_v TRACEABILITY_PROPERTIES_f d"
  | "tlv_f (TIMESCALE_PROPERTIES_v d) = lift_tlv TIMESCALE_PROPERTIES_v TIMESCALE_PROPERTIES_f d"
  | "tlv_f (UNICAST_NEGOTIATION_ENABLE_v d) = lift_tlv UNICAST_NEGOTIATION_ENABLE_v UNICAST_NEGOTIATION_ENABLE_f d"
  | "tlv_f (PATH_TRACE_LIST_v d) = lift_tlv PATH_TRACE_LIST_v PATH_TRACE_LIST_f d"
  | "tlv_f (PATH_TRACE_ENABLE_v d) = lift_tlv PATH_TRACE_ENABLE_v PATH_TRACE_ENABLE_f d"
  | "tlv_f (GRANDMASTER_CLUSTER_TABLE_v d) = lift_tlv GRANDMASTER_CLUSTER_TABLE_v GRANDMASTER_CLUSTER_TABLE_f d"
  | "tlv_f (UNICAST_MASTER_TABLE_v d) = lift_tlv UNICAST_MASTER_TABLE_v UNICAST_MASTER_TABLE_f d"
  | "tlv_f (UNICAST_MASTER_MAX_TABLE_SIZE_v d) = lift_tlv UNICAST_MASTER_MAX_TABLE_SIZE_v UNICAST_MASTER_MAX_TABLE_SIZE_f d"
  | "tlv_f (ACCEPTABLE_MASTER_TABLE_v d) = lift_tlv ACCEPTABLE_MASTER_TABLE_v ACCEPTABLE_MASTER_TABLE_f d"
  | "tlv_f (ACCEPTABLE_MASTER_TABLE_ENABLED_v d) = lift_tlv ACCEPTABLE_MASTER_TABLE_ENABLED_v ACCEPTABLE_MASTER_TABLE_ENABLED_f d"
  | "tlv_f (ACCEPTABLE_MASTER_MAX_TABLE_SIZE_v d) = lift_tlv ACCEPTABLE_MASTER_MAX_TABLE_SIZE_v ACCEPTABLE_MASTER_MAX_TABLE_SIZE_f d"
  | "tlv_f (ALTERNATE_MASTER_v d) = lift_tlv ALTERNATE_MASTER_v ALTERNATE_MASTER_f d"
  | "tlv_f (ALTERNATE_TIME_OFFSET_ENABLE_v d) = lift_tlv ALTERNATE_TIME_OFFSET_ENABLE_v ALTERNATE_TIME_OFFSET_ENABLE_f d"
  | "tlv_f (ALTERNATE_TIME_OFFSET_NAME_v d) = lift_tlv ALTERNATE_TIME_OFFSET_NAME_v ALTERNATE_TIME_OFFSET_NAME_f d"
  | "tlv_f (ALTERNATE_TIME_OFFSET_MAX_KEY_v d) = lift_tlv ALTERNATE_TIME_OFFSET_MAX_KEY_v ALTERNATE_TIME_OFFSET_MAX_KEY_f d"
  | "tlv_f (ALTERNATE_TIME_OFFSET_PROPERTIES_v d) = lift_tlv ALTERNATE_TIME_OFFSET_PROPERTIES_v ALTERNATE_TIME_OFFSET_PROPERTIES_f d"
  | "tlv_f (TRANSPARENT_CLOCK_PORT_DATA_SET_v d) = lift_tlv TRANSPARENT_CLOCK_PORT_DATA_SET_v TRANSPARENT_CLOCK_PORT_DATA_SET_f d"
  | "tlv_f (LOG_MIN_PDELAY_REQ_INTERVAL_v d) = lift_tlv LOG_MIN_PDELAY_REQ_INTERVAL_v LOG_MIN_PDELAY_REQ_INTERVAL_f d"
  | "tlv_f (TRANSPARENT_CLOCK_DEFAULT_DATA_SET_v d) = lift_tlv TRANSPARENT_CLOCK_DEFAULT_DATA_SET_v TRANSPARENT_CLOCK_DEFAULT_DATA_SET_f d"
  | "tlv_f (PRIMARY_DOMAIN_v d) = lift_tlv PRIMARY_DOMAIN_v PRIMARY_DOMAIN_f d"
  | "tlv_f (DELAY_MECHANISM_v d) = lift_tlv DELAY_MECHANISM_v DELAY_MECHANISM_f d"
  | "tlv_f (EXTERNAL_PORT_CONFIGURATION_ENABLED_v d) = lift_tlv EXTERNAL_PORT_CONFIGURATION_ENABLED_v EXTERNAL_PORT_CONFIGURATION_ENABLED_f d"
  | "tlv_f (MASTER_ONLY_v d) = lift_tlv MASTER_ONLY_v MASTER_ONLY_f d"
  | "tlv_f (HOLDOVER_UPGRADE_ENABLE_v d) = lift_tlv HOLDOVER_UPGRADE_ENABLE_v HOLDOVER_UPGRADE_ENABLE_f d"
  | "tlv_f (EXT_PORT_CONFIG_PORT_DATA_SET_v d) = lift_tlv EXT_PORT_CONFIG_PORT_DATA_SET_v EXT_PORT_CONFIG_PORT_DATA_SET_f d"
  | "tlv_f (TIME_STATUS_NP_v d) = lift_tlv TIME_STATUS_NP_v TIME_STATUS_NP_f d"
  | "tlv_f (GRANDMASTER_SETTINGS_NP_v d) = lift_tlv GRANDMASTER_SETTINGS_NP_v GRANDMASTER_SETTINGS_NP_f d"
  | "tlv_f (PORT_DATA_SET_NP_v d) = lift_tlv PORT_DATA_SET_NP_v PORT_DATA_SET_NP_f d"
  | "tlv_f (SUBSCRIBE_EVENTS_NP_v d) = lift_tlv SUBSCRIBE_EVENTS_NP_v SUBSCRIBE_EVENTS_NP_f d"
  | "tlv_f (PORT_PROPERTIES_NP_v d) = lift_tlv PORT_PROPERTIES_NP_v PORT_PROPERTIES_NP_f d"
  | "tlv_f (PORT_STATS_NP_v d) = lift_tlv PORT_STATS_NP_v PORT_STATS_NP_f d"
  | "tlv_f (SYNCHRONIZATION_UNCERTAIN_NP_v d) = lift_tlv SYNCHRONIZATION_UNCERTAIN_NP_v SYNCHRONIZATION_UNCERTAIN_NP_f d"
  | "tlv_f (PORT_SERVICE_STATS_NP_v d) = lift_tlv PORT_SERVICE_STATS_NP_v PORT_SERVICE_STATS_NP_f d"
  | "tlv_f (UNICAST_MASTER_TABLE_NP_v d) = lift_tlv UNICAST_MASTER_TABLE_NP_v UNICAST_MASTER_TABLE_NP_f d"
  | "tlv_f (PORT_HWCLOCK_NP_v d) = lift_tlv PORT_HWCLOCK_NP_v PORT_HWCLOCK_NP_f d"
  | "tlv_f (POWER_PROFILE_SETTINGS_NP_v d) = lift_tlv POWER_PROFILE_SETTINGS_NP_v POWER_PROFILE_SETTINGS_NP_f d"
  | "tlv_f (CMLDS_INFO_NP_v d) = lift_tlv CMLDS_INFO_NP_v CMLDS_INFO_NP_f d"
  | "tlv_f (PORT_CORRECTIONS_NP_v d) = lift_tlv PORT_CORRECTIONS_NP_v PORT_CORRECTIONS_NP_f d"
  | "tlv_f (EXTERNAL_GRANDMASTER_PROPERTIES_NP_v d) = lift_tlv EXTERNAL_GRANDMASTER_PROPERTIES_NP_v EXTERNAL_GRANDMASTER_PROPERTIES_NP_f d"
  | "tlv_f (SMPTE_ORGANIZATION_EXTENSION_v d) = lift_tlv SMPTE_ORGANIZATION_EXTENSION_v SMPTE_ORGANIZATION_EXTENSION_f d"

text \<open>
  \<open>call_tlv_data mem i tlv mp\<close>: \<open>mem\<close> is whether \<^verbatim>\<open>new\<close> succeeds. Building needs
  the structure of the identifier; parsing makes one and keeps it only on success.
\<close>

definition call_tlv_data :: "bool \<Rightarrow> mng_vals_e \<Rightarrow> BaseMngTlv option \<Rightarrow> MsgProc \<Rightarrow>
    MNG_PARSE_ERROR_e \<times> BaseMngTlv option \<times> MsgProc" where
  "call_tlv_data mem i tlv mp0 =
     (let mp = mp0\<lparr>m_err := MNG_PARSE_ERROR_TOO_SMALL\<rparr> in
      case mng_all_vals i of
        None \<Rightarrow> (MNG_PARSE_ERROR_UNSUPPORT, tlv, mp)
      | Some m \<Rightarrow>
          if mid_func m = NA then (MNG_PARSE_ERROR_OK, tlv, mp)
          else if m_build mp then
            (case tlv of
               None \<Rightarrow> (MNG_PARSE_ERROR_MISMATCH_TLV, tlv, mp)
             | Some a \<Rightarrow>
                 if tlv_type a \<noteq> i then (MNG_PARSE_ERROR_MISMATCH_TLV, tlv, mp)
                 else (case tlv_f a mp of (e, a', mp') \<Rightarrow>
                   (if e then m_err mp' else MNG_PARSE_ERROR_OK, Some a', mp')))
          else
            (case new_tlv i of
               None \<Rightarrow> (MNG_PARSE_ERROR_UNSUPPORT, tlv, mp)
             | Some t \<Rightarrow>
                 if \<not> mem then (MNG_PARSE_ERROR_MEM, tlv, mp)
                 else (case tlv_f t mp of (e, t', mp') \<Rightarrow>
                   if e then (m_err mp', tlv, mp') else (MNG_PARSE_ERROR_OK, Some t', mp'))))"

subsection \<open>The sizes\<close>

definition tlv_s :: "BaseMngTlv \<Rightarrow> nat option" where
  "tlv_s a =
     (case a of
        CLOCK_DESCRIPTION_v d \<Rightarrow> Some (CLOCK_DESCRIPTION_s d)
      | USER_DESCRIPTION_v d \<Rightarrow> Some (USER_DESCRIPTION_s d)
      | FAULT_LOG_v d \<Rightarrow> Some (FAULT_LOG_s d)
      | PATH_TRACE_LIST_v d \<Rightarrow> Some (PATH_TRACE_LIST_s d)
      | GRANDMASTER_CLUSTER_TABLE_v d \<Rightarrow> Some (GRANDMASTER_CLUSTER_TABLE_s d)
      | UNICAST_MASTER_TABLE_v d \<Rightarrow> Some (UNICAST_MASTER_TABLE_s d)
      | ACCEPTABLE_MASTER_TABLE_v d \<Rightarrow> Some (ACCEPTABLE_MASTER_TABLE_s d)
      | ALTERNATE_TIME_OFFSET_NAME_v d \<Rightarrow> Some (ALTERNATE_TIME_OFFSET_NAME_s d)
      | PORT_PROPERTIES_NP_v d \<Rightarrow> Some (PORT_PROPERTIES_NP_s d)
      | UNICAST_MASTER_TABLE_NP_v d \<Rightarrow> Some (UNICAST_MASTER_TABLE_NP_s d)
      | _ \<Rightarrow> None)"

text \<open>
  \<open>dataFieldSize i tlv\<close>: the size of the TLV it is given when that has the structure of
  the identifier \<^verbatim>\<open>m_tlv_id\<close>, otherwise of an empty one; \<open>- 2\<close> for other identifiers.
\<close>

definition dataFieldSize :: "mng_vals_e \<Rightarrow> BaseMngTlv option \<Rightarrow> int" where
  "dataFieldSize i tlv =
     (let a = (case tlv of Some t \<Rightarrow> if tlv_type t = i then Some t else new_tlv i
               | None \<Rightarrow> new_tlv i)
      in case Option.bind a tlv_s of Some n \<Rightarrow> int n | None \<Rightarrow> - 2)"

subsection \<open>The wire format of all TLVs\<close>

primrec enc_tlv :: "BaseMngTlv \<Rightarrow> octets" where
    "enc_tlv (CLOCK_DESCRIPTION_v d) = enc_CLOCK_DESCRIPTION d"
  | "enc_tlv (USER_DESCRIPTION_v d) = enc_USER_DESCRIPTION d"
  | "enc_tlv (INITIALIZE_v d) = enc_INITIALIZE d"
  | "enc_tlv (FAULT_LOG_v d) = enc_FAULT_LOG d"
  | "enc_tlv (DEFAULT_DATA_SET_v d) = enc_DEFAULT_DATA_SET d"
  | "enc_tlv (CURRENT_DATA_SET_v d) = enc_CURRENT_DATA_SET d"
  | "enc_tlv (PARENT_DATA_SET_v d) = enc_PARENT_DATA_SET d"
  | "enc_tlv (TIME_PROPERTIES_DATA_SET_v d) = enc_TIME_PROPERTIES_DATA_SET d"
  | "enc_tlv (PORT_DATA_SET_v d) = enc_PORT_DATA_SET d"
  | "enc_tlv (PRIORITY1_v d) = enc_PRIORITY1 d"
  | "enc_tlv (PRIORITY2_v d) = enc_PRIORITY2 d"
  | "enc_tlv (DOMAIN_v d) = enc_DOMAIN d"
  | "enc_tlv (SLAVE_ONLY_v d) = enc_SLAVE_ONLY d"
  | "enc_tlv (LOG_ANNOUNCE_INTERVAL_v d) = enc_LOG_ANNOUNCE_INTERVAL d"
  | "enc_tlv (ANNOUNCE_RECEIPT_TIMEOUT_v d) = enc_ANNOUNCE_RECEIPT_TIMEOUT d"
  | "enc_tlv (LOG_SYNC_INTERVAL_v d) = enc_LOG_SYNC_INTERVAL d"
  | "enc_tlv (VERSION_NUMBER_v d) = enc_VERSION_NUMBER d"
  | "enc_tlv (TIME_v d) = enc_TIME d"
  | "enc_tlv (CLOCK_ACCURACY_v d) = enc_CLOCK_ACCURACY d"
  | "enc_tlv (UTC_PROPERTIES_v d) = enc_UTC_PROPERTIES d"
  | "enc_tlv (TRACEABILITY_PROPERTIES_v d) = enc_TRACEABILITY_PROPERTIES d"
  | "enc_tlv (TIMESCALE_PROPERTIES_v d) = enc_TIMESCALE_PROPERTIES d"
  | "enc_tlv (UNICAST_NEGOTIATION_ENABLE_v d) = enc_UNICAST_NEGOTIATION_ENABLE d"
  | "enc_tlv (PATH_TRACE_LIST_v d) = enc_PATH_TRACE_LIST d"
  | "enc_tlv (PATH_TRACE_ENABLE_v d) = enc_PATH_TRACE_ENABLE d"
  | "enc_tlv (GRANDMASTER_CLUSTER_TABLE_v d) = enc_GRANDMASTER_CLUSTER_TABLE d"
  | "enc_tlv (UNICAST_MASTER_TABLE_v d) = enc_UNICAST_MASTER_TABLE d"
  | "enc_tlv (UNICAST_MASTER_MAX_TABLE_SIZE_v d) = enc_UNICAST_MASTER_MAX_TABLE_SIZE d"
  | "enc_tlv (ACCEPTABLE_MASTER_TABLE_v d) = enc_ACCEPTABLE_MASTER_TABLE d"
  | "enc_tlv (ACCEPTABLE_MASTER_TABLE_ENABLED_v d) = enc_ACCEPTABLE_MASTER_TABLE_ENABLED d"
  | "enc_tlv (ACCEPTABLE_MASTER_MAX_TABLE_SIZE_v d) = enc_ACCEPTABLE_MASTER_MAX_TABLE_SIZE d"
  | "enc_tlv (ALTERNATE_MASTER_v d) = enc_ALTERNATE_MASTER d"
  | "enc_tlv (ALTERNATE_TIME_OFFSET_ENABLE_v d) = enc_ALTERNATE_TIME_OFFSET_ENABLE d"
  | "enc_tlv (ALTERNATE_TIME_OFFSET_NAME_v d) = enc_ALTERNATE_TIME_OFFSET_NAME d"
  | "enc_tlv (ALTERNATE_TIME_OFFSET_MAX_KEY_v d) = enc_ALTERNATE_TIME_OFFSET_MAX_KEY d"
  | "enc_tlv (ALTERNATE_TIME_OFFSET_PROPERTIES_v d) = enc_ALTERNATE_TIME_OFFSET_PROPERTIES d"
  | "enc_tlv (TRANSPARENT_CLOCK_PORT_DATA_SET_v d) = enc_TRANSPARENT_CLOCK_PORT_DATA_SET d"
  | "enc_tlv (LOG_MIN_PDELAY_REQ_INTERVAL_v d) = enc_LOG_MIN_PDELAY_REQ_INTERVAL d"
  | "enc_tlv (TRANSPARENT_CLOCK_DEFAULT_DATA_SET_v d) = enc_TRANSPARENT_CLOCK_DEFAULT_DATA_SET d"
  | "enc_tlv (PRIMARY_DOMAIN_v d) = enc_PRIMARY_DOMAIN d"
  | "enc_tlv (DELAY_MECHANISM_v d) = enc_DELAY_MECHANISM d"
  | "enc_tlv (EXTERNAL_PORT_CONFIGURATION_ENABLED_v d) = enc_EXTERNAL_PORT_CONFIGURATION_ENABLED d"
  | "enc_tlv (MASTER_ONLY_v d) = enc_MASTER_ONLY d"
  | "enc_tlv (HOLDOVER_UPGRADE_ENABLE_v d) = enc_HOLDOVER_UPGRADE_ENABLE d"
  | "enc_tlv (EXT_PORT_CONFIG_PORT_DATA_SET_v d) = enc_EXT_PORT_CONFIG_PORT_DATA_SET d"
  | "enc_tlv (TIME_STATUS_NP_v d) = enc_TIME_STATUS_NP d"
  | "enc_tlv (GRANDMASTER_SETTINGS_NP_v d) = enc_GRANDMASTER_SETTINGS_NP d"
  | "enc_tlv (PORT_DATA_SET_NP_v d) = enc_PORT_DATA_SET_NP d"
  | "enc_tlv (SUBSCRIBE_EVENTS_NP_v d) = enc_SUBSCRIBE_EVENTS_NP d"
  | "enc_tlv (PORT_PROPERTIES_NP_v d) = enc_PORT_PROPERTIES_NP d"
  | "enc_tlv (PORT_STATS_NP_v d) = enc_PORT_STATS_NP d"
  | "enc_tlv (SYNCHRONIZATION_UNCERTAIN_NP_v d) = enc_SYNCHRONIZATION_UNCERTAIN_NP d"
  | "enc_tlv (PORT_SERVICE_STATS_NP_v d) = enc_PORT_SERVICE_STATS_NP d"
  | "enc_tlv (UNICAST_MASTER_TABLE_NP_v d) = enc_UNICAST_MASTER_TABLE_NP d"
  | "enc_tlv (PORT_HWCLOCK_NP_v d) = enc_PORT_HWCLOCK_NP d"
  | "enc_tlv (POWER_PROFILE_SETTINGS_NP_v d) = enc_POWER_PROFILE_SETTINGS_NP d"
  | "enc_tlv (CMLDS_INFO_NP_v d) = enc_CMLDS_INFO_NP d"
  | "enc_tlv (PORT_CORRECTIONS_NP_v d) = enc_PORT_CORRECTIONS_NP d"
  | "enc_tlv (EXTERNAL_GRANDMASTER_PROPERTIES_NP_v d) = enc_EXTERNAL_GRANDMASTER_PROPERTIES_NP d"
  | "enc_tlv (SMPTE_ORGANIZATION_EXTENSION_v d) = enc_SMPTE_ORGANIZATION_EXTENSION d"

primrec valid_tlv :: "BaseMngTlv \<Rightarrow> bool" where
    "valid_tlv (CLOCK_DESCRIPTION_v d) = valid_CLOCK_DESCRIPTION d"
  | "valid_tlv (USER_DESCRIPTION_v d) = valid_USER_DESCRIPTION d"
  | "valid_tlv (INITIALIZE_v d) = True"
  | "valid_tlv (FAULT_LOG_v d) = valid_FAULT_LOG d"
  | "valid_tlv (DEFAULT_DATA_SET_v d) = valid_DEFAULT_DATA_SET d"
  | "valid_tlv (CURRENT_DATA_SET_v d) = True"
  | "valid_tlv (PARENT_DATA_SET_v d) = valid_PARENT_DATA_SET d"
  | "valid_tlv (TIME_PROPERTIES_DATA_SET_v d) = valid_TIME_PROPERTIES_DATA_SET d"
  | "valid_tlv (PORT_DATA_SET_v d) = valid_PORT_DATA_SET d"
  | "valid_tlv (PRIORITY1_v d) = True"
  | "valid_tlv (PRIORITY2_v d) = True"
  | "valid_tlv (DOMAIN_v d) = True"
  | "valid_tlv (SLAVE_ONLY_v d) = valid_SLAVE_ONLY d"
  | "valid_tlv (LOG_ANNOUNCE_INTERVAL_v d) = True"
  | "valid_tlv (ANNOUNCE_RECEIPT_TIMEOUT_v d) = True"
  | "valid_tlv (LOG_SYNC_INTERVAL_v d) = True"
  | "valid_tlv (VERSION_NUMBER_v d) = True"
  | "valid_tlv (TIME_v d) = valid_TIME d"
  | "valid_tlv (CLOCK_ACCURACY_v d) = True"
  | "valid_tlv (UTC_PROPERTIES_v d) = valid_UTC_PROPERTIES d"
  | "valid_tlv (TRACEABILITY_PROPERTIES_v d) = valid_TRACEABILITY_PROPERTIES d"
  | "valid_tlv (TIMESCALE_PROPERTIES_v d) = valid_TIMESCALE_PROPERTIES d"
  | "valid_tlv (UNICAST_NEGOTIATION_ENABLE_v d) = valid_UNICAST_NEGOTIATION_ENABLE d"
  | "valid_tlv (PATH_TRACE_LIST_v d) = valid_PATH_TRACE_LIST d"
  | "valid_tlv (PATH_TRACE_ENABLE_v d) = valid_PATH_TRACE_ENABLE d"
  | "valid_tlv (GRANDMASTER_CLUSTER_TABLE_v d) = valid_GRANDMASTER_CLUSTER_TABLE d"
  | "valid_tlv (UNICAST_MASTER_TABLE_v d) = valid_UNICAST_MASTER_TABLE d"
  | "valid_tlv (UNICAST_MASTER_MAX_TABLE_SIZE_v d) = True"
  | "valid_tlv (ACCEPTABLE_MASTER_TABLE_v d) = valid_ACCEPTABLE_MASTER_TABLE d"
  | "valid_tlv (ACCEPTABLE_MASTER_TABLE_ENABLED_v d) = valid_ACCEPTABLE_MASTER_TABLE_ENABLED d"
  | "valid_tlv (ACCEPTABLE_MASTER_MAX_TABLE_SIZE_v d) = True"
  | "valid_tlv (ALTERNATE_MASTER_v d) = valid_ALTERNATE_MASTER d"
  | "valid_tlv (ALTERNATE_TIME_OFFSET_ENABLE_v d) = valid_ALTERNATE_TIME_OFFSET_ENABLE d"
  | "valid_tlv (ALTERNATE_TIME_OFFSET_NAME_v d) = valid_ALTERNATE_TIME_OFFSET_NAME d"
  | "valid_tlv (ALTERNATE_TIME_OFFSET_MAX_KEY_v d) = True"
  | "valid_tlv (ALTERNATE_TIME_OFFSET_PROPERTIES_v d) = valid_ALTERNATE_TIME_OFFSET_PROPERTIES d"
  | "valid_tlv (TRANSPARENT_CLOCK_PORT_DATA_SET_v d) = valid_TRANSPARENT_CLOCK_PORT_DATA_SET d"
  | "valid_tlv (LOG_MIN_PDELAY_REQ_INTERVAL_v d) = True"
  | "valid_tlv (TRANSPARENT_CLOCK_DEFAULT_DATA_SET_v d) = valid_TRANSPARENT_CLOCK_DEFAULT_DATA_SET d"
  | "valid_tlv (PRIMARY_DOMAIN_v d) = True"
  | "valid_tlv (DELAY_MECHANISM_v d) = True"
  | "valid_tlv (EXTERNAL_PORT_CONFIGURATION_ENABLED_v d) = valid_EXTERNAL_PORT_CONFIGURATION_ENABLED d"
  | "valid_tlv (MASTER_ONLY_v d) = valid_MASTER_ONLY d"
  | "valid_tlv (HOLDOVER_UPGRADE_ENABLE_v d) = valid_HOLDOVER_UPGRADE_ENABLE d"
  | "valid_tlv (EXT_PORT_CONFIG_PORT_DATA_SET_v d) = valid_EXT_PORT_CONFIG_PORT_DATA_SET d"
  | "valid_tlv (TIME_STATUS_NP_v d) = valid_TIME_STATUS_NP d"
  | "valid_tlv (GRANDMASTER_SETTINGS_NP_v d) = valid_GRANDMASTER_SETTINGS_NP d"
  | "valid_tlv (PORT_DATA_SET_NP_v d) = True"
  | "valid_tlv (SUBSCRIBE_EVENTS_NP_v d) = valid_SUBSCRIBE_EVENTS_NP d"
  | "valid_tlv (PORT_PROPERTIES_NP_v d) = valid_PORT_PROPERTIES_NP d"
  | "valid_tlv (PORT_STATS_NP_v d) = valid_PORT_STATS_NP d"
  | "valid_tlv (SYNCHRONIZATION_UNCERTAIN_NP_v d) = True"
  | "valid_tlv (PORT_SERVICE_STATS_NP_v d) = valid_PORT_SERVICE_STATS_NP d"
  | "valid_tlv (UNICAST_MASTER_TABLE_NP_v d) = valid_UNICAST_MASTER_TABLE_NP d"
  | "valid_tlv (PORT_HWCLOCK_NP_v d) = valid_PORT_HWCLOCK_NP d"
  | "valid_tlv (POWER_PROFILE_SETTINGS_NP_v d) = True"
  | "valid_tlv (CMLDS_INFO_NP_v d) = True"
  | "valid_tlv (PORT_CORRECTIONS_NP_v d) = True"
  | "valid_tlv (EXTERNAL_GRANDMASTER_PROPERTIES_NP_v d) = valid_EXTERNAL_GRANDMASTER_PROPERTIES_NP d"
  | "valid_tlv (SMPTE_ORGANIZATION_EXTENSION_v d) = valid_SMPTE_ORGANIZATION_EXTENSION d"

primrec fresh_tlv :: "BaseMngTlv \<Rightarrow> bool" where
    "fresh_tlv (CLOCK_DESCRIPTION_v d) = fresh_CLOCK_DESCRIPTION d"
  | "fresh_tlv (USER_DESCRIPTION_v d) = fresh_USER_DESCRIPTION d"
  | "fresh_tlv (INITIALIZE_v d) = True"
  | "fresh_tlv (FAULT_LOG_v d) = fresh_FAULT_LOG d"
  | "fresh_tlv (DEFAULT_DATA_SET_v d) = True"
  | "fresh_tlv (CURRENT_DATA_SET_v d) = True"
  | "fresh_tlv (PARENT_DATA_SET_v d) = True"
  | "fresh_tlv (TIME_PROPERTIES_DATA_SET_v d) = True"
  | "fresh_tlv (PORT_DATA_SET_v d) = True"
  | "fresh_tlv (PRIORITY1_v d) = True"
  | "fresh_tlv (PRIORITY2_v d) = True"
  | "fresh_tlv (DOMAIN_v d) = True"
  | "fresh_tlv (SLAVE_ONLY_v d) = True"
  | "fresh_tlv (LOG_ANNOUNCE_INTERVAL_v d) = True"
  | "fresh_tlv (ANNOUNCE_RECEIPT_TIMEOUT_v d) = True"
  | "fresh_tlv (LOG_SYNC_INTERVAL_v d) = True"
  | "fresh_tlv (VERSION_NUMBER_v d) = True"
  | "fresh_tlv (TIME_v d) = True"
  | "fresh_tlv (CLOCK_ACCURACY_v d) = True"
  | "fresh_tlv (UTC_PROPERTIES_v d) = True"
  | "fresh_tlv (TRACEABILITY_PROPERTIES_v d) = True"
  | "fresh_tlv (TIMESCALE_PROPERTIES_v d) = True"
  | "fresh_tlv (UNICAST_NEGOTIATION_ENABLE_v d) = True"
  | "fresh_tlv (PATH_TRACE_LIST_v d) = fresh_PATH_TRACE_LIST d"
  | "fresh_tlv (PATH_TRACE_ENABLE_v d) = True"
  | "fresh_tlv (GRANDMASTER_CLUSTER_TABLE_v d) = fresh_GRANDMASTER_CLUSTER_TABLE d"
  | "fresh_tlv (UNICAST_MASTER_TABLE_v d) = fresh_UNICAST_MASTER_TABLE d"
  | "fresh_tlv (UNICAST_MASTER_MAX_TABLE_SIZE_v d) = True"
  | "fresh_tlv (ACCEPTABLE_MASTER_TABLE_v d) = fresh_ACCEPTABLE_MASTER_TABLE d"
  | "fresh_tlv (ACCEPTABLE_MASTER_TABLE_ENABLED_v d) = True"
  | "fresh_tlv (ACCEPTABLE_MASTER_MAX_TABLE_SIZE_v d) = True"
  | "fresh_tlv (ALTERNATE_MASTER_v d) = True"
  | "fresh_tlv (ALTERNATE_TIME_OFFSET_ENABLE_v d) = True"
  | "fresh_tlv (ALTERNATE_TIME_OFFSET_NAME_v d) = fresh_ALTERNATE_TIME_OFFSET_NAME d"
  | "fresh_tlv (ALTERNATE_TIME_OFFSET_MAX_KEY_v d) = True"
  | "fresh_tlv (ALTERNATE_TIME_OFFSET_PROPERTIES_v d) = True"
  | "fresh_tlv (TRANSPARENT_CLOCK_PORT_DATA_SET_v d) = True"
  | "fresh_tlv (LOG_MIN_PDELAY_REQ_INTERVAL_v d) = True"
  | "fresh_tlv (TRANSPARENT_CLOCK_DEFAULT_DATA_SET_v d) = True"
  | "fresh_tlv (PRIMARY_DOMAIN_v d) = True"
  | "fresh_tlv (DELAY_MECHANISM_v d) = True"
  | "fresh_tlv (EXTERNAL_PORT_CONFIGURATION_ENABLED_v d) = True"
  | "fresh_tlv (MASTER_ONLY_v d) = True"
  | "fresh_tlv (HOLDOVER_UPGRADE_ENABLE_v d) = True"
  | "fresh_tlv (EXT_PORT_CONFIG_PORT_DATA_SET_v d) = True"
  | "fresh_tlv (TIME_STATUS_NP_v d) = True"
  | "fresh_tlv (GRANDMASTER_SETTINGS_NP_v d) = True"
  | "fresh_tlv (PORT_DATA_SET_NP_v d) = True"
  | "fresh_tlv (SUBSCRIBE_EVENTS_NP_v d) = True"
  | "fresh_tlv (PORT_PROPERTIES_NP_v d) = fresh_PORT_PROPERTIES_NP d"
  | "fresh_tlv (PORT_STATS_NP_v d) = fresh_PORT_STATS_NP d"
  | "fresh_tlv (SYNCHRONIZATION_UNCERTAIN_NP_v d) = True"
  | "fresh_tlv (PORT_SERVICE_STATS_NP_v d) = True"
  | "fresh_tlv (UNICAST_MASTER_TABLE_NP_v d) = fresh_UNICAST_MASTER_TABLE_NP d"
  | "fresh_tlv (PORT_HWCLOCK_NP_v d) = True"
  | "fresh_tlv (POWER_PROFILE_SETTINGS_NP_v d) = True"
  | "fresh_tlv (CMLDS_INFO_NP_v d) = True"
  | "fresh_tlv (PORT_CORRECTIONS_NP_v d) = True"
  | "fresh_tlv (EXTERNAL_GRANDMASTER_PROPERTIES_NP_v d) = True"
  | "fresh_tlv (SMPTE_ORGANIZATION_EXTENSION_v d) = True"

primrec safe_tlv :: "BaseMngTlv \<Rightarrow> bool" where
    "safe_tlv (CLOCK_DESCRIPTION_v d) = safe_CLOCK_DESCRIPTION d"
  | "safe_tlv (USER_DESCRIPTION_v d) = True"
  | "safe_tlv (INITIALIZE_v d) = True"
  | "safe_tlv (FAULT_LOG_v d) = True"
  | "safe_tlv (DEFAULT_DATA_SET_v d) = safe_DEFAULT_DATA_SET d"
  | "safe_tlv (CURRENT_DATA_SET_v d) = True"
  | "safe_tlv (PARENT_DATA_SET_v d) = safe_PARENT_DATA_SET d"
  | "safe_tlv (TIME_PROPERTIES_DATA_SET_v d) = True"
  | "safe_tlv (PORT_DATA_SET_v d) = safe_PORT_DATA_SET d"
  | "safe_tlv (PRIORITY1_v d) = True"
  | "safe_tlv (PRIORITY2_v d) = True"
  | "safe_tlv (DOMAIN_v d) = True"
  | "safe_tlv (SLAVE_ONLY_v d) = True"
  | "safe_tlv (LOG_ANNOUNCE_INTERVAL_v d) = True"
  | "safe_tlv (ANNOUNCE_RECEIPT_TIMEOUT_v d) = True"
  | "safe_tlv (LOG_SYNC_INTERVAL_v d) = True"
  | "safe_tlv (VERSION_NUMBER_v d) = True"
  | "safe_tlv (TIME_v d) = True"
  | "safe_tlv (CLOCK_ACCURACY_v d) = True"
  | "safe_tlv (UTC_PROPERTIES_v d) = True"
  | "safe_tlv (TRACEABILITY_PROPERTIES_v d) = True"
  | "safe_tlv (TIMESCALE_PROPERTIES_v d) = True"
  | "safe_tlv (UNICAST_NEGOTIATION_ENABLE_v d) = True"
  | "safe_tlv (PATH_TRACE_LIST_v d) = safe_PATH_TRACE_LIST d"
  | "safe_tlv (PATH_TRACE_ENABLE_v d) = True"
  | "safe_tlv (GRANDMASTER_CLUSTER_TABLE_v d) = safe_GRANDMASTER_CLUSTER_TABLE d"
  | "safe_tlv (UNICAST_MASTER_TABLE_v d) = safe_UNICAST_MASTER_TABLE d"
  | "safe_tlv (UNICAST_MASTER_MAX_TABLE_SIZE_v d) = True"
  | "safe_tlv (ACCEPTABLE_MASTER_TABLE_v d) = safe_ACCEPTABLE_MASTER_TABLE d"
  | "safe_tlv (ACCEPTABLE_MASTER_TABLE_ENABLED_v d) = True"
  | "safe_tlv (ACCEPTABLE_MASTER_MAX_TABLE_SIZE_v d) = True"
  | "safe_tlv (ALTERNATE_MASTER_v d) = True"
  | "safe_tlv (ALTERNATE_TIME_OFFSET_ENABLE_v d) = True"
  | "safe_tlv (ALTERNATE_TIME_OFFSET_NAME_v d) = True"
  | "safe_tlv (ALTERNATE_TIME_OFFSET_MAX_KEY_v d) = True"
  | "safe_tlv (ALTERNATE_TIME_OFFSET_PROPERTIES_v d) = True"
  | "safe_tlv (TRANSPARENT_CLOCK_PORT_DATA_SET_v d) = safe_TRANSPARENT_CLOCK_PORT_DATA_SET d"
  | "safe_tlv (LOG_MIN_PDELAY_REQ_INTERVAL_v d) = True"
  | "safe_tlv (TRANSPARENT_CLOCK_DEFAULT_DATA_SET_v d) = safe_TRANSPARENT_CLOCK_DEFAULT_DATA_SET d"
  | "safe_tlv (PRIMARY_DOMAIN_v d) = True"
  | "safe_tlv (DELAY_MECHANISM_v d) = True"
  | "safe_tlv (EXTERNAL_PORT_CONFIGURATION_ENABLED_v d) = True"
  | "safe_tlv (MASTER_ONLY_v d) = True"
  | "safe_tlv (HOLDOVER_UPGRADE_ENABLE_v d) = True"
  | "safe_tlv (EXT_PORT_CONFIG_PORT_DATA_SET_v d) = True"
  | "safe_tlv (TIME_STATUS_NP_v d) = safe_TIME_STATUS_NP d"
  | "safe_tlv (GRANDMASTER_SETTINGS_NP_v d) = True"
  | "safe_tlv (PORT_DATA_SET_NP_v d) = True"
  | "safe_tlv (SUBSCRIBE_EVENTS_NP_v d) = safe_SUBSCRIBE_EVENTS_NP d"
  | "safe_tlv (PORT_PROPERTIES_NP_v d) = safe_PORT_PROPERTIES_NP d"
  | "safe_tlv (PORT_STATS_NP_v d) = safe_PORT_STATS_NP d"
  | "safe_tlv (SYNCHRONIZATION_UNCERTAIN_NP_v d) = True"
  | "safe_tlv (PORT_SERVICE_STATS_NP_v d) = safe_PORT_SERVICE_STATS_NP d"
  | "safe_tlv (UNICAST_MASTER_TABLE_NP_v d) = safe_UNICAST_MASTER_TABLE_NP d"
  | "safe_tlv (PORT_HWCLOCK_NP_v d) = safe_PORT_HWCLOCK_NP d"
  | "safe_tlv (POWER_PROFILE_SETTINGS_NP_v d) = True"
  | "safe_tlv (CMLDS_INFO_NP_v d) = True"
  | "safe_tlv (PORT_CORRECTIONS_NP_v d) = True"
  | "safe_tlv (EXTERNAL_GRANDMASTER_PROPERTIES_NP_v d) = safe_EXTERNAL_GRANDMASTER_PROPERTIES_NP d"
  | "safe_tlv (SMPTE_ORGANIZATION_EXTENSION_v d) = safe_SMPTE_ORGANIZATION_EXTENSION d"

lemma lift_build:
  "\<lbrakk>wire_codec p V F e pad; m_build mp; mp_ok mp; V d; int (length (e d)) \<le> m_left mp\<rbrakk>
   \<Longrightarrow> lift_tlv c p d mp = (False, c d, put (e d) mp)"
  by (simp add: lift_tlv_def wire_step.build)

lemma lift_small:
  "\<lbrakk>wire_codec p V F e pad; m_build mp; mp_ok mp; V d; m_left mp < int (length (e d))\<rbrakk>
   \<Longrightarrow> no_room (lift_tlv c p d mp) mp"
  using wire_step.build_small [of p V "\<lambda>_. F" "\<lambda>d _. d" e pad mp d]
  by (auto simp: lift_tlv_def split: prod.splits)

lemma lift_parse:
  "\<lbrakk>wire_codec p V F e pad; \<not> m_build mp; mp_ok mp; V d; F d0; view mp = e d @ r; pad r\<rbrakk>
   \<Longrightarrow> lift_tlv c p d0 mp = (False, c d, move (length (e d)) mp)"
  using wire_step.parse [of p V "\<lambda>_. F" "\<lambda>d _. d" e pad mp d d0 r] by (simp add: lift_tlv_def)

lemma lift_safe:
  assumes p: "safe_step p W"
  shows "\<lbrakk>mp_ok mp; m_build mp \<Longrightarrow> W d; lift_tlv c p d mp = (e, t, mp')\<rbrakk>
      \<Longrightarrow> advance mp mp' \<and> (\<exists>d'. t = c d' \<and> (m_build mp \<longrightarrow> W d'))"
    and "\<lbrakk>same_view mp mq; lift_tlv c p d mp = (e, t, mp'); lift_tlv c p d mq = (f, u, mq')\<rbrakk>
      \<Longrightarrow> e = f \<and> t = u \<and> same_view mp' mq'"
  using safe_step.frame [OF p, of mp d] safe_step.reads [OF p, of mp mq d]
  by (fastforce simp: lift_tlv_def split: prod.splits)+

lemmas tlv_intros = codec_intros safe_intros

end
