(* ===== verification/Mng_Dispatch.thy ===== *)
theory Mng_Dispatch
  imports Mng_Tlvs
begin

unbundle bit_operations_syntax

text \<open>
  The contracts of the TLV functions lifted to the dispatch over all management TLVs: what
  \<open>call_tlv_data\<close> builds is the image of the TLV, it reads the TLV back, it stays inside
  the buffer, and the sizes of the table and of \<open>dataFieldSize\<close> are the sizes of the
  images.
\<close>

lemmas wire_tlvs =
  wire_CLOCK_DESCRIPTION wire_USER_DESCRIPTION wire_INITIALIZE wire_FAULT_LOG
  wire_DEFAULT_DATA_SET wire_CURRENT_DATA_SET wire_PARENT_DATA_SET wire_TIME_PROPERTIES_DATA_SET
  wire_PORT_DATA_SET wire_PRIORITY1 wire_PRIORITY2 wire_DOMAIN wire_SLAVE_ONLY
  wire_LOG_ANNOUNCE_INTERVAL wire_ANNOUNCE_RECEIPT_TIMEOUT wire_LOG_SYNC_INTERVAL
  wire_VERSION_NUMBER wire_TIME wire_CLOCK_ACCURACY wire_UTC_PROPERTIES
  wire_TRACEABILITY_PROPERTIES wire_TIMESCALE_PROPERTIES wire_UNICAST_NEGOTIATION_ENABLE
  wire_PATH_TRACE_LIST wire_PATH_TRACE_ENABLE wire_GRANDMASTER_CLUSTER_TABLE
  wire_UNICAST_MASTER_TABLE wire_UNICAST_MASTER_MAX_TABLE_SIZE wire_ACCEPTABLE_MASTER_TABLE
  wire_ACCEPTABLE_MASTER_TABLE_ENABLED wire_ACCEPTABLE_MASTER_MAX_TABLE_SIZE
  wire_ALTERNATE_MASTER wire_ALTERNATE_TIME_OFFSET_ENABLE wire_ALTERNATE_TIME_OFFSET_NAME
  wire_ALTERNATE_TIME_OFFSET_MAX_KEY wire_ALTERNATE_TIME_OFFSET_PROPERTIES
  wire_TRANSPARENT_CLOCK_PORT_DATA_SET wire_LOG_MIN_PDELAY_REQ_INTERVAL
  wire_TRANSPARENT_CLOCK_DEFAULT_DATA_SET wire_PRIMARY_DOMAIN wire_DELAY_MECHANISM
  wire_EXTERNAL_PORT_CONFIGURATION_ENABLED wire_MASTER_ONLY wire_HOLDOVER_UPGRADE_ENABLE
  wire_EXT_PORT_CONFIG_PORT_DATA_SET wire_TIME_STATUS_NP wire_GRANDMASTER_SETTINGS_NP
  wire_PORT_DATA_SET_NP wire_SUBSCRIBE_EVENTS_NP wire_PORT_PROPERTIES_NP wire_PORT_STATS_NP
  wire_SYNCHRONIZATION_UNCERTAIN_NP wire_PORT_SERVICE_STATS_NP wire_UNICAST_MASTER_TABLE_NP
  wire_PORT_HWCLOCK_NP wire_POWER_PROFILE_SETTINGS_NP wire_CMLDS_INFO_NP
  wire_PORT_CORRECTIONS_NP wire_EXTERNAL_GRANDMASTER_PROPERTIES_NP
  wire_SMPTE_ORGANIZATION_EXTENSION

lemmas safe_tlvs =
  safe_CLOCK_DESCRIPTION_f safe_USER_DESCRIPTION_f safe_INITIALIZE_f safe_FAULT_LOG_f
  safe_DEFAULT_DATA_SET_f safe_CURRENT_DATA_SET_f safe_PARENT_DATA_SET_f
  safe_TIME_PROPERTIES_DATA_SET_f safe_PORT_DATA_SET_f safe_PRIORITY1_f safe_PRIORITY2_f
  safe_DOMAIN_f safe_SLAVE_ONLY_f safe_LOG_ANNOUNCE_INTERVAL_f safe_ANNOUNCE_RECEIPT_TIMEOUT_f
  safe_LOG_SYNC_INTERVAL_f safe_VERSION_NUMBER_f safe_TIME_f safe_CLOCK_ACCURACY_f
  safe_UTC_PROPERTIES_f safe_TRACEABILITY_PROPERTIES_f safe_TIMESCALE_PROPERTIES_f
  safe_UNICAST_NEGOTIATION_ENABLE_f safe_PATH_TRACE_LIST_f safe_PATH_TRACE_ENABLE_f
  safe_GRANDMASTER_CLUSTER_TABLE_f safe_UNICAST_MASTER_TABLE_f
  safe_UNICAST_MASTER_MAX_TABLE_SIZE_f safe_ACCEPTABLE_MASTER_TABLE_f
  safe_ACCEPTABLE_MASTER_TABLE_ENABLED_f safe_ACCEPTABLE_MASTER_MAX_TABLE_SIZE_f
  safe_ALTERNATE_MASTER_f safe_ALTERNATE_TIME_OFFSET_ENABLE_f safe_ALTERNATE_TIME_OFFSET_NAME_f
  safe_ALTERNATE_TIME_OFFSET_MAX_KEY_f safe_ALTERNATE_TIME_OFFSET_PROPERTIES_f
  safe_TRANSPARENT_CLOCK_PORT_DATA_SET_f safe_LOG_MIN_PDELAY_REQ_INTERVAL_f
  safe_TRANSPARENT_CLOCK_DEFAULT_DATA_SET_f safe_PRIMARY_DOMAIN_f safe_DELAY_MECHANISM_f
  safe_EXTERNAL_PORT_CONFIGURATION_ENABLED_f safe_MASTER_ONLY_f safe_HOLDOVER_UPGRADE_ENABLE_f
  safe_EXT_PORT_CONFIG_PORT_DATA_SET_f safe_TIME_STATUS_NP_f safe_GRANDMASTER_SETTINGS_NP_f
  safe_PORT_DATA_SET_NP_f safe_SUBSCRIBE_EVENTS_NP_f safe_PORT_PROPERTIES_NP_f
  safe_PORT_STATS_NP_f safe_SYNCHRONIZATION_UNCERTAIN_NP_f safe_PORT_SERVICE_STATS_NP_f
  safe_UNICAST_MASTER_TABLE_NP_f safe_PORT_HWCLOCK_NP_f safe_POWER_PROFILE_SETTINGS_NP_f
  safe_CMLDS_INFO_NP_f safe_PORT_CORRECTIONS_NP_f safe_EXTERNAL_GRANDMASTER_PROPERTIES_NP_f
  safe_SMPTE_ORGANIZATION_EXTENSION_f

lemmas enc_defs =
  enc_CLOCK_DESCRIPTION_def enc_USER_DESCRIPTION_def enc_INITIALIZE_def enc_FAULT_LOG_def
  enc_DEFAULT_DATA_SET_def enc_CURRENT_DATA_SET_def enc_PARENT_DATA_SET_def
  enc_TIME_PROPERTIES_DATA_SET_def enc_PORT_DATA_SET_def enc_PRIORITY1_def enc_PRIORITY2_def
  enc_DOMAIN_def enc_SLAVE_ONLY_def enc_LOG_ANNOUNCE_INTERVAL_def
  enc_ANNOUNCE_RECEIPT_TIMEOUT_def enc_LOG_SYNC_INTERVAL_def enc_VERSION_NUMBER_def enc_TIME_def
  enc_CLOCK_ACCURACY_def enc_UTC_PROPERTIES_def enc_TRACEABILITY_PROPERTIES_def
  enc_TIMESCALE_PROPERTIES_def enc_UNICAST_NEGOTIATION_ENABLE_def enc_PATH_TRACE_LIST_def
  enc_PATH_TRACE_ENABLE_def enc_GRANDMASTER_CLUSTER_TABLE_def enc_UNICAST_MASTER_TABLE_def
  enc_UNICAST_MASTER_MAX_TABLE_SIZE_def enc_ACCEPTABLE_MASTER_TABLE_def
  enc_ACCEPTABLE_MASTER_TABLE_ENABLED_def enc_ACCEPTABLE_MASTER_MAX_TABLE_SIZE_def
  enc_ALTERNATE_MASTER_def enc_ALTERNATE_TIME_OFFSET_ENABLE_def
  enc_ALTERNATE_TIME_OFFSET_NAME_def enc_ALTERNATE_TIME_OFFSET_MAX_KEY_def
  enc_ALTERNATE_TIME_OFFSET_PROPERTIES_def enc_TRANSPARENT_CLOCK_PORT_DATA_SET_def
  enc_LOG_MIN_PDELAY_REQ_INTERVAL_def enc_TRANSPARENT_CLOCK_DEFAULT_DATA_SET_def
  enc_PRIMARY_DOMAIN_def enc_DELAY_MECHANISM_def enc_EXTERNAL_PORT_CONFIGURATION_ENABLED_def
  enc_MASTER_ONLY_def enc_HOLDOVER_UPGRADE_ENABLE_def enc_EXT_PORT_CONFIG_PORT_DATA_SET_def
  enc_TIME_STATUS_NP_def enc_GRANDMASTER_SETTINGS_NP_def enc_PORT_DATA_SET_NP_def
  enc_SUBSCRIBE_EVENTS_NP_def enc_PORT_PROPERTIES_NP_def enc_PORT_STATS_NP_def
  enc_SYNCHRONIZATION_UNCERTAIN_NP_def enc_PORT_SERVICE_STATS_NP_def
  enc_UNICAST_MASTER_TABLE_NP_def enc_PORT_HWCLOCK_NP_def enc_POWER_PROFILE_SETTINGS_NP_def
  enc_CMLDS_INFO_NP_def enc_PORT_CORRECTIONS_NP_def enc_EXTERNAL_GRANDMASTER_PROPERTIES_NP_def
  enc_SMPTE_ORGANIZATION_EXTENSION_def

lemmas valid_defs =
  valid_CLOCK_DESCRIPTION_def valid_USER_DESCRIPTION_def valid_FAULT_LOG_def
  valid_DEFAULT_DATA_SET_def valid_PARENT_DATA_SET_def valid_TIME_PROPERTIES_DATA_SET_def
  valid_PORT_DATA_SET_def valid_SLAVE_ONLY_def valid_TIME_def valid_UTC_PROPERTIES_def
  valid_TRACEABILITY_PROPERTIES_def valid_TIMESCALE_PROPERTIES_def
  valid_UNICAST_NEGOTIATION_ENABLE_def valid_PATH_TRACE_LIST_def valid_PATH_TRACE_ENABLE_def
  valid_GRANDMASTER_CLUSTER_TABLE_def valid_UNICAST_MASTER_TABLE_def
  valid_ACCEPTABLE_MASTER_TABLE_def valid_ACCEPTABLE_MASTER_TABLE_ENABLED_def
  valid_ALTERNATE_MASTER_def valid_ALTERNATE_TIME_OFFSET_ENABLE_def
  valid_ALTERNATE_TIME_OFFSET_NAME_def valid_ALTERNATE_TIME_OFFSET_PROPERTIES_def
  valid_TRANSPARENT_CLOCK_PORT_DATA_SET_def valid_TRANSPARENT_CLOCK_DEFAULT_DATA_SET_def
  valid_EXTERNAL_PORT_CONFIGURATION_ENABLED_def valid_MASTER_ONLY_def
  valid_HOLDOVER_UPGRADE_ENABLE_def valid_EXT_PORT_CONFIG_PORT_DATA_SET_def
  valid_TIME_STATUS_NP_def valid_GRANDMASTER_SETTINGS_NP_def valid_SUBSCRIBE_EVENTS_NP_def
  valid_PORT_PROPERTIES_NP_def valid_PORT_STATS_NP_def valid_PORT_SERVICE_STATS_NP_def
  valid_UNICAST_MASTER_TABLE_NP_def valid_PORT_HWCLOCK_NP_def
  valid_EXTERNAL_GRANDMASTER_PROPERTIES_NP_def valid_SMPTE_ORGANIZATION_EXTENSION_def

lemmas fresh_defs =
  fresh_CLOCK_DESCRIPTION_def fresh_USER_DESCRIPTION_def fresh_FAULT_LOG_def
  fresh_PATH_TRACE_LIST_def fresh_GRANDMASTER_CLUSTER_TABLE_def fresh_UNICAST_MASTER_TABLE_def
  fresh_ACCEPTABLE_MASTER_TABLE_def fresh_ALTERNATE_TIME_OFFSET_NAME_def
  fresh_PORT_PROPERTIES_NP_def fresh_PORT_STATS_NP_def fresh_UNICAST_MASTER_TABLE_NP_def
  new_CLOCK_DESCRIPTION_def new_USER_DESCRIPTION_def new_FAULT_LOG_def new_PATH_TRACE_LIST_def
  new_GRANDMASTER_CLUSTER_TABLE_def new_UNICAST_MASTER_TABLE_def new_ACCEPTABLE_MASTER_TABLE_def
  new_ALTERNATE_TIME_OFFSET_NAME_def new_PORT_PROPERTIES_NP_def new_PORT_STATS_NP_def
  new_UNICAST_MASTER_TABLE_NP_def

lemmas size_defs =
  CLOCK_DESCRIPTION_s_def USER_DESCRIPTION_s_def FAULT_LOG_s_def PATH_TRACE_LIST_s_def
  GRANDMASTER_CLUSTER_TABLE_s_def UNICAST_MASTER_TABLE_s_def ACCEPTABLE_MASTER_TABLE_s_def
  ALTERNATE_TIME_OFFSET_NAME_s_def PORT_PROPERTIES_NP_s_def UNICAST_MASTER_TABLE_NP_s_def

lemma fresh_new [simp]:
  "fresh_CLOCK_DESCRIPTION new_CLOCK_DESCRIPTION"
  "fresh_USER_DESCRIPTION new_USER_DESCRIPTION"
  "fresh_FAULT_LOG new_FAULT_LOG"
  "fresh_PATH_TRACE_LIST new_PATH_TRACE_LIST"
  "fresh_GRANDMASTER_CLUSTER_TABLE new_GRANDMASTER_CLUSTER_TABLE"
  "fresh_UNICAST_MASTER_TABLE new_UNICAST_MASTER_TABLE"
  "fresh_ACCEPTABLE_MASTER_TABLE new_ACCEPTABLE_MASTER_TABLE"
  "fresh_ALTERNATE_TIME_OFFSET_NAME new_ALTERNATE_TIME_OFFSET_NAME"
  "fresh_PORT_PROPERTIES_NP new_PORT_PROPERTIES_NP"
  "fresh_PORT_STATS_NP new_PORT_STATS_NP"
  "fresh_UNICAST_MASTER_TABLE_NP new_UNICAST_MASTER_TABLE_NP"
  by (simp_all add: fresh_defs zero_PTPText_def)

lemma tlv_build:
  assumes "m_build mp" "mp_ok mp" "valid_tlv t" "int (length (enc_tlv t)) \<le> m_left mp"
  shows "tlv_f t mp = (False, t, put (enc_tlv t) mp)"
  using assms by (cases t) (simp_all add: wire_tlvs [THEN lift_build])

lemma tlv_build_small:
  assumes "m_build mp" "mp_ok mp" "valid_tlv t" "m_left mp < int (length (enc_tlv t))"
  shows "no_room (tlv_f t mp) mp"
  using assms by (cases t) (simp_all add: wire_tlvs [THEN lift_small])

lemma tlv_parse:
  assumes "\<not> m_build mp" "mp_ok mp" "valid_tlv t" "new_tlv (tlv_type t) = Some t0"
    "view mp = enc_tlv t @ r" "pad r"
  shows "tlv_f t0 mp = (False, t, move (length (enc_tlv t)) mp)"
  using assms
  by (cases t; clarsimp)
    ((rule wire_tlvs [THEN lift_parse], (assumption | rule fresh_new TrueI)+)[1])+

lemma tlv_frame:
  assumes "mp_ok mp" "m_build mp \<Longrightarrow> safe_tlv t" "tlv_f t mp = (e, t', mp')"
  shows "advance mp mp' \<and> tlv_type t' = tlv_type t \<and> (m_build mp \<longrightarrow> safe_tlv t')"
  using assms by (cases t) (auto dest!: safe_tlvs [THEN lift_safe(1), rotated -1])

lemma tlv_reads:
  assumes "same_view mp mq" "tlv_f t mp = (e, t', mp')" "tlv_f t mq = (f, u, mq')"
  shows "e = f \<and> t' = u \<and> same_view mp' mq'"
  using assms by (cases t) (auto dest: safe_tlvs [THEN lift_safe(2)])

subsection \<open>Sizes\<close>

text \<open>A fixed size of the table is the size of the image, rounded up to an even number.\<close>

lemma port_master_length [simp]:
  "valid_LinuxptpUnicastMaster m \<Longrightarrow> length (enc_LinuxptpUnicastMaster m) = LinuxptpUnicastMaster_size m"
  "length (enc_PortAddress a) = PortAddress_size a"
  "length (enc_FaultRecord f) = FaultRecord_size f"
  by (simp_all add: valid_LinuxptpUnicastMaster_def enc_LinuxptpUnicastMaster_def
      LinuxptpUnicastMaster_size_def PortIdentity_size_def ClockIdentity_size_def
      ClockQuality_size_def PortAddress_size_def enc_FaultRecord_def FaultRecord_size_def
      PTPText_size_def Timestamp_size_def enc_PortAddress_def)

lemma vector_l_sum: "vector_l sz n xs = n + sum_list (map sz xs)"
  by (induction xs arbitrary: n) (simp_all add: vector_l_def)

lemma length_enc_list:
  "(\<And>x. x \<in> set xs \<Longrightarrow> length (e x) = sz x) \<Longrightarrow> length (enc_list e xs) = sum_list (map sz xs)"
  by (induction xs) simp_all

lemma length_enc_list_const:
  "(\<And>x. x \<in> set xs \<Longrightarrow> length (e x) = n) \<Longrightarrow> length (enc_list e xs) = n * length xs"
  by (induction xs) simp_all

lemmas wire_sizes = length_enc_list_const [where e = cpu_to_le64 and n = 8]
  length_enc_list_const [where e = ci_v and n = 8]
  length_enc_list_const [where e = enc_AcceptableMaster and n = 11]
  length_enc_list [where e = enc_PortAddress and sz = PortAddress_size]
  length_enc_list [where e = enc_FaultRecord and sz = FaultRecord_size]
  length_enc_list [where e = enc_LinuxptpUnicastMaster and sz = LinuxptpUnicastMaster_size]

lemma tlv_fixed_size:
  assumes "valid_tlv t" "0 \<le> mng_size (tlv_type t)"
  shows "mng_size (tlv_type t) = int (length (enc_tlv t)) + int (length (enc_tlv t)) mod 2"
  using assms
  by (cases t) (simp_all add: mng_size_def valid_defs enc_defs wire_sizes valid_ClockIdentity_def)

text \<open>
  The calculated size is the size of the image, but for \<^verbatim>\<open>CLOCK_DESCRIPTION\<close>, where it is
  one octet less.
\<close>

lemma tlv_variable_size:
  assumes "valid_tlv t" "tlv_s t = Some n"
  shows "length (enc_tlv t) = (if tlv_type t = CLOCK_DESCRIPTION then n + 1 else n)"
  using assms
  by (cases t) (auto simp: tlv_s_def valid_defs enc_defs size_defs wire_sizes vector_l_sum
      PTPText_size_def PortAddress_size_def ClockIdentity_size_def PortIdentity_size_def
      AcceptableMaster_size_def valid_ClockIdentity_def)

section \<open>The contracts of all management TLVs\<close>

text \<open>
  The functions of all management TLVs, behind one dispatch, provide the two contracts of
  \<open>Wire_Codec\<close> and \<open>Wire_Safe\<close>: the wire format and the use of memory. The clients take
  the facts of the locales from here.
\<close>

interpretation tlv: wire_step tlv_f valid_tlv "\<lambda>t t0. new_tlv (tlv_type t) = Some t0" "\<lambda>t _. t"
    enc_tlv pad
  by unfold_locales (auto intro: tlv_build tlv_build_small tlv_parse)

interpretation tlv_mem: safe_step tlv_f safe_tlv
proof (unfold_locales, goal_cases)
  case (1 mp d e d' mp')
  then show ?case
    using tlv_frame [of mp d e d' mp'] by blast
next
  case (2 mp mq d e d' mp' f g mq')
  then show ?case
    using tlv_reads [of mp mq d e d' mp' f g mq'] by blast
qed

end
