(* ===== verification/Sa_Keys.thy ===== *)
theory Sa_Keys
  imports Ptp_Types
begin

text \<open>
  The security associations of \<^verbatim>\<open>src/cfg.cpp\<close>: \<^verbatim>\<open>Spp\<close> holds the keys of one security
  parameters pointer by their identifier, \<^verbatim>\<open>SaFile\<close> the pool of them. A \<^verbatim>\<open>std::map\<close>
  is an association list with distinct keys. \<open>Spp_ok\<close> is what \<^verbatim>\<open>addKey\<close> ensures of
  every key; the message relies on it for the length of the integrity check value.

  The HMAC libraries (OpenSSL and others) are not part of the program: \<open>hmac_lib\<close> is
  what the program calls of one.
\<close>

subsection \<open>Keys\<close>

datatype HMAC_t = HMAC_SHA256 | HMAC_AES128 | HMAC_AES256

record key_t =
  kt_type :: HMAC_t
  kt_key :: octets
  kt_mac_size :: nat

record Spp =
  m_keys :: "(uint32_t \<times> key_t) list"
  m_own_id :: int8_t

definition Spp_new :: "uint8_t \<Rightarrow> Spp" where
  "Spp_new i = \<lparr>m_keys = [], m_own_id = i\<rparr>"

definition Spp_default :: Spp where
  "Spp_default = \<lparr>m_keys = [], m_own_id = - 1\<rparr>"

definition Spp_set :: "int \<Rightarrow> Spp \<Rightarrow> Spp" where
  "Spp_set i s = s\<lparr>m_own_id := word_of_int i, m_keys := []\<rparr>"

definition Spp_have :: "Spp \<Rightarrow> uint32_t \<Rightarrow> bool" where
  "Spp_have s k \<longleftrightarrow> k > 0 \<and> map_of (m_keys s) k \<noteq> None"

definition Spp_at :: "Spp \<Rightarrow> uint32_t \<Rightarrow> (key_t \<Rightarrow> 'a) \<Rightarrow> 'a \<Rightarrow> 'a" where
  "Spp_at s i v d =
     (if Spp_have s i then (case map_of (m_keys s) i of Some k \<Rightarrow> v k | None \<Rightarrow> d) else d)"

definition mac_size :: "Spp \<Rightarrow> uint32_t \<Rightarrow> nat" where
  "mac_size s i = Spp_at s i kt_mac_size 0"

definition Spp_key :: "Spp \<Rightarrow> uint32_t \<Rightarrow> octets" where
  "Spp_key s i = Spp_at s i kt_key []"

definition htype :: "Spp \<Rightarrow> uint32_t \<Rightarrow> HMAC_t" where
  "htype s i = Spp_at s i kt_type HMAC_SHA256"

definition Spp_keys :: "Spp \<Rightarrow> nat" where
  "Spp_keys s = length (m_keys s)"

definition ownID :: "Spp \<Rightarrow> uint8_t" where
  "ownID s = m_own_id s"

text \<open>The table \<^verbatim>\<open>key_limit\<close>: the size of a key, 0 for any, and the largest digest.\<close>

fun key_limit :: "HMAC_t \<Rightarrow> nat \<times> nat" where
  "key_limit HMAC_SHA256 = (0, 32)"
| "key_limit HMAC_AES128 = (16, 16)"
| "key_limit HMAC_AES256 = (32, 16)"

definition addKey :: "uint32_t \<Rightarrow> HMAC_t \<Rightarrow> octets \<Rightarrow> nat \<Rightarrow> bool \<Rightarrow> Spp \<Rightarrow> bool \<times> Spp" where
  "addKey i type val digest repl s =
     (if i = 0 then (False, s)
      else if val = [] then (False, s)
      else if digest < 2 \<or> odd digest then (False, s)
      else if Spp_have s i \<and> \<not> repl then (False, s)
      else if fst (key_limit type) > 0 \<and> fst (key_limit type) \<noteq> length val then (False, s)
      else if digest > snd (key_limit type) then (False, s)
      else (True, s\<lparr>m_keys := AList.update i
              \<lparr>kt_type = type, kt_key = val, kt_mac_size = digest\<rparr> (m_keys s)\<rparr>))"

subsection \<open>The pool\<close>

record SaFile =
  m_spps :: "(uint8_t \<times> Spp) list"

definition SaFile_new :: SaFile where
  "SaFile_new = \<lparr>m_spps = []\<rparr>"

definition SaFile_haveSpp :: "SaFile \<Rightarrow> uint8_t \<Rightarrow> bool" where
  "SaFile_haveSpp sa sppID \<longleftrightarrow> map_of (m_spps sa) sppID \<noteq> None"

definition SaFile_have :: "SaFile \<Rightarrow> uint8_t \<Rightarrow> uint32_t \<Rightarrow> bool" where
  "SaFile_have sa sppID k \<longleftrightarrow>
     (case map_of (m_spps sa) sppID of None \<Rightarrow> False | Some s \<Rightarrow> Spp_have s k)"

definition SaFile_spp :: "SaFile \<Rightarrow> uint8_t \<Rightarrow> Spp" where
  "SaFile_spp sa sppID =
     (case map_of (m_spps sa) sppID of Some s \<Rightarrow> s | None \<Rightarrow> Spp_default)"

subsection \<open>What a key is\<close>

definition key_ok :: "key_t \<Rightarrow> bool" where
  "key_ok k \<longleftrightarrow> kt_key k \<noteq> [] \<and> 2 \<le> kt_mac_size k \<and> even (kt_mac_size k) \<and>
     kt_mac_size k \<le> snd (key_limit (kt_type k)) \<and>
     (fst (key_limit (kt_type k)) = 0 \<or> fst (key_limit (kt_type k)) = length (kt_key k))"

definition Spp_ok :: "Spp \<Rightarrow> bool" where
  "Spp_ok s \<longleftrightarrow> distinct (map fst (m_keys s)) \<and> (\<forall>(i, k) \<in> set (m_keys s). i \<noteq> 0 \<and> key_ok k)"

lemma Spp_ok_empty [simp]: "Spp_ok (Spp_new i)" "Spp_ok (Spp_set j s)" "Spp_ok Spp_default"
  by (simp_all add: Spp_ok_def Spp_new_def Spp_set_def Spp_default_def)

lemma key_limit_32: "snd (key_limit t) \<le> 32"
  by (cases t) auto

lemma set_AList_update: "set (AList.update i k xs) \<subseteq> insert (i, k) (set xs)"
  by (induction xs) auto

lemma Spp_ok_addKey:
  assumes "Spp_ok s"
  shows "Spp_ok (snd (addKey i t v d r s))"
proof -
  have "Spp_ok (s\<lparr>m_keys := AList.update i k (m_keys s)\<rparr>)" if "i \<noteq> 0" "key_ok k" for k
  proof -
    have "distinct (map fst (AList.update i k (m_keys s)))"
      using assms by (simp add: Spp_ok_def distinct_update)
    then show ?thesis
      using assms that set_AList_update [of i k "m_keys s"] by (auto simp: Spp_ok_def)
  qed
  then show ?thesis
    using assms by (auto simp: addKey_def key_ok_def)
qed

lemma mac_size_ok:
  assumes "Spp_ok s" "Spp_have s k"
  shows "2 \<le> mac_size s k" "even (mac_size s k)" "mac_size s k \<le> 32"
proof -
  obtain x where x: "map_of (m_keys s) k = Some x" and "mac_size s k = kt_mac_size x"
    using assms(2) by (auto simp: mac_size_def Spp_at_def Spp_have_def)
  moreover have "key_ok x"
    using assms(1) map_of_SomeD [OF x] by (auto simp: Spp_ok_def)
  ultimately show "2 \<le> mac_size s k" "even (mac_size s k)" "mac_size s k \<le> 32"
    using key_limit_32 [of "kt_type x"] by (auto simp: key_ok_def)
qed

lemma mac_size_le:
  assumes "Spp_ok s"
  shows "mac_size s k \<le> 32 \<and> even (mac_size s k)"
  using mac_size_ok [OF assms, of k] by (cases "Spp_have s k") (auto simp: mac_size_def Spp_at_def)

definition SaFile_ok :: "SaFile \<Rightarrow> bool" where
  "SaFile_ok sa \<longleftrightarrow> (\<forall>(i, s) \<in> set (m_spps sa). Spp_ok s)"

lemma SaFile_ok_spp: "SaFile_ok sa \<Longrightarrow> Spp_ok (SaFile_spp sa i)"
  by (auto simp: SaFile_ok_def SaFile_spp_def split: option.splits dest: map_of_SomeD)

lemma SaFile_have_spp: "SaFile_have sa i k \<Longrightarrow> Spp_have (SaFile_spp sa i) k"
  by (auto simp: SaFile_have_def SaFile_spp_def split: option.splits)

subsection \<open>The HMAC library\<close>

text \<open>
  \<open>hl_alloc\<close>: a key object can be made; \<open>hl_digest\<close>: the integrity check value of octets
  in a given length, \<open>None\<close> when the library fails; \<open>hl_verify\<close>: the library accepts a
  value for the octets.
\<close>

record hmac_lib =
  hl_alloc :: "HMAC_t \<Rightarrow> octets \<Rightarrow> bool"
  hl_digest :: "HMAC_t \<Rightarrow> octets \<Rightarrow> octets \<Rightarrow> nat \<Rightarrow> octets option"
  hl_verify :: "HMAC_t \<Rightarrow> octets \<Rightarrow> octets \<Rightarrow> octets \<Rightarrow> bool"

text \<open>
  What the program relies on: a digest has the length it was asked for, and the library
  verifies its own digests.
\<close>

definition hmac_ok :: "hmac_lib \<Rightarrow> bool" where
  "hmac_ok hl \<longleftrightarrow> (\<forall>t k data n mac. hl_digest hl t k data n = Some mac \<longrightarrow>
     length mac = n \<and> hl_verify hl t k data mac)"

end
