(* ===== verification/Message_Base.thy ===== *)
theory Message_Base
  imports Mng_Dispatch Sa_Keys
begin

unbundle bit_operations_syntax

text \<open>
  The class \<^verbatim>\<open>Message\<close> of \<^verbatim>\<open>pub/msg.h\<close> and \<^verbatim>\<open>src/msg.cpp\<close>: its state, the choice of
  the action and of the TLV to send, the parameters and the authentication to use, and the
  layout of a management message.
\<close>

subsection \<open>Constants\<close>

definition Signaling :: msgType_e where "Signaling = 0xc"
definition Management :: msgType_e where "Management = 0xd"

definition MANAGEMENT :: tlvType_e where "MANAGEMENT = 0x0001"
definition MANAGEMENT_ERROR_STATUS :: tlvType_e where "MANAGEMENT_ERROR_STATUS = 0x0002"
definition ORGANIZATION_EXTENSION :: tlvType_e where "ORGANIZATION_EXTENSION = 0x0003"
definition PATH_TRACE :: tlvType_e where "PATH_TRACE = 0x0008"
definition ALTERNATE_TIME_OFFSET_INDICATOR :: tlvType_e where
  "ALTERNATE_TIME_OFFSET_INDICATOR = 0x0009"
definition ORGANIZATION_EXTENSION_PROPAGATE :: tlvType_e where
  "ORGANIZATION_EXTENSION_PROPAGATE = 0x4000"
definition ENHANCED_ACCURACY_METRICS :: tlvType_e where "ENHANCED_ACCURACY_METRICS = 0x4001"
definition ORGANIZATION_EXTENSION_DO_NOT_PROPAGATE :: tlvType_e where
  "ORGANIZATION_EXTENSION_DO_NOT_PROPAGATE = 0x8000"
definition L1_SYNC :: tlvType_e where "L1_SYNC = 0x8001"
definition PORT_COMMUNICATION_AVAILABILITY :: tlvType_e where
  "PORT_COMMUNICATION_AVAILABILITY = 0x8002"
definition PROTOCOL_ADDRESS :: tlvType_e where "PROTOCOL_ADDRESS = 0x8003"
definition SLAVE_RX_SYNC_TIMING_DATA :: tlvType_e where "SLAVE_RX_SYNC_TIMING_DATA = 0x8004"
definition SLAVE_RX_SYNC_COMPUTED_DATA :: tlvType_e where
  "SLAVE_RX_SYNC_COMPUTED_DATA = 0x8005"
definition SLAVE_TX_EVENT_TIMESTAMPS :: tlvType_e where "SLAVE_TX_EVENT_TIMESTAMPS = 0x8006"
definition CUMULATIVE_RATE_RATIO :: tlvType_e where "CUMULATIVE_RATE_RATIO = 0x8007"
definition AUTHENTICATION :: tlvType_e where "AUTHENTICATION = 0x8009"
definition SLAVE_DELAY_TIMING_DATA_NP :: tlvType_e where "SLAVE_DELAY_TIMING_DATA_NP = 0x7f00"

lemmas tlvType_defs = MANAGEMENT_def MANAGEMENT_ERROR_STATUS_def ORGANIZATION_EXTENSION_def
  PATH_TRACE_def ALTERNATE_TIME_OFFSET_INDICATOR_def ORGANIZATION_EXTENSION_PROPAGATE_def
  ENHANCED_ACCURACY_METRICS_def ORGANIZATION_EXTENSION_DO_NOT_PROPAGATE_def L1_SYNC_def
  PORT_COMMUNICATION_AVAILABILITY_def PROTOCOL_ADDRESS_def SLAVE_RX_SYNC_TIMING_DATA_def
  SLAVE_RX_SYNC_COMPUTED_DATA_def SLAVE_TX_EVENT_TIMESTAMPS_def CUMULATIVE_RATE_RATIO_def
  AUTHENTICATION_def SLAVE_DELAY_TIMING_DATA_NP_def

definition ptp_major_ver :: uint8_t where "ptp_major_ver = 2"
definition controlFieldMng :: uint8_t where "controlFieldMng = 4"
definition logMessageIntervalDef :: uint8_t where "logMessageIntervalDef = 0x7f"
definition unicastFlag :: uint8_t where "unicastFlag = push_bit 2 1"
definition PTPProfileSpecific1 :: uint8_t where "PTPProfileSpecific1 = push_bit 5 1"
definition PTPProfileSpecific2 :: uint8_t where "PTPProfileSpecific2 = push_bit 6 1"

text \<open>
  Sizes of the packed structures: the header of a management message, of a signaling
  message, of a TLV, of a management TLV, of the error TLV and of the authentication TLV.
\<close>

definition sizeof_managementMessage :: nat where "sizeof_managementMessage = 48"
definition sigBaseSize :: nat where "sigBaseSize = 34 + 10"
definition tlvSizeHdr :: nat where "tlvSizeHdr = 4"
definition lengthFieldMngBase :: nat where "lengthFieldMngBase = 6 - tlvSizeHdr"
definition sizeof_managementErrorTLV :: nat where "sizeof_managementErrorTLV = 8"
definition authTlvSize :: nat where "authTlvSize = 10"
definition mngMsgBaseSize :: nat where "mngMsgBaseSize = sizeof_managementMessage + 6"
definition mngMsgMinSize :: nat where "mngMsgMinSize = sizeof_managementMessage + tlvSizeHdr"

lemmas msg_sizes = sizeof_managementMessage_def sigBaseSize_def tlvSizeHdr_def
  lengthFieldMngBase_def sizeof_managementErrorTLV_def authTlvSize_def mngMsgBaseSize_def
  mngMsgMinSize_def

subsection \<open>State\<close>

record MANAGEMENT_t =
  managementId :: mng_vals_e
  tlvData :: "BaseMngTlv option"

record MANAGEMENT_ERROR_STATUS_t =
  managementId :: mng_vals_e
  managementErrorId :: managementErrorId_e
  displayData :: PTPText_t

datatype (plugins only: code) BaseSigTlv =
    MANAGEMENT_v MANAGEMENT_t
  | MANAGEMENT_ERROR_STATUS_v MANAGEMENT_ERROR_STATUS_t
  | ORGANIZATION_EXTENSION_v ORGANIZATION_EXTENSION_t
  | PATH_TRACE_v PATH_TRACE_t
  | ALTERNATE_TIME_OFFSET_INDICATOR_v ALTERNATE_TIME_OFFSET_INDICATOR_t
  | ENHANCED_ACCURACY_METRICS_v ENHANCED_ACCURACY_METRICS_t
  | L1_SYNC_v L1_SYNC_t
  | PORT_COMMUNICATION_AVAILABILITY_v PORT_COMMUNICATION_AVAILABILITY_t
  | PROTOCOL_ADDRESS_v PROTOCOL_ADDRESS_t
  | SLAVE_RX_SYNC_TIMING_DATA_v SLAVE_RX_SYNC_TIMING_DATA_t
  | SLAVE_RX_SYNC_COMPUTED_DATA_v SLAVE_RX_SYNC_COMPUTED_DATA_t
  | SLAVE_TX_EVENT_TIMESTAMPS_v SLAVE_TX_EVENT_TIMESTAMPS_t
  | CUMULATIVE_RATE_RATIO_v CUMULATIVE_RATE_RATIO_t
  | SLAVE_DELAY_TIMING_DATA_NP_v SLAVE_DELAY_TIMING_DATA_NP_t

text \<open>
  \<^verbatim>\<open>MessageSigTlvs\<close>: the TLVs of the last signaling message, and whether the last message
  was one. \<open>m_dataSend\<close> is the object the user passes to \<open>setAction\<close>: the message keeps
  a pointer, so building may change the user's object. \<open>m_hmac\<close> is the key object made for
  sending.
\<close>

record MessageSigTlvs =
  m_lastSig :: bool
  m_tlvs :: "(tlvType_e \<times> BaseSigTlv) list"

record Message =
  m_sendAction :: actionField_e
  m_msgLen :: nat
  m_dataSend :: "BaseMngTlv option"
  m_tlv_id :: mng_vals_e
  m_sequence :: uint16_t
  m_isUnicast :: bool
  m_PTPProfileSpecific :: uint8_t
  m_replyAction :: actionField_e
  m_replayTlv_id :: mng_vals_e
  m_sdoId :: uint32_t
  m_type :: msgType_e
  m_mngType :: tlvType_e
  m_domainNumber :: uint8_t
  m_versionPTP :: uint8_t
  m_minorVersionPTP :: uint8_t
  m_sigTlvs :: MessageSigTlvs
  m_dataGet :: "BaseMngTlv option"
  m_prms :: MsgParams
  m_keyID :: uint32_t
  m_sppID :: uint8_t
  m_sa :: SaFile
  m_haveAuth :: bool
  m_hmac :: "(HMAC_t \<times> octets) option"
  m_peer :: PortIdentity_t
  m_target :: PortIdentity_t
  m_errorId :: managementErrorId_e
  m_errorDisplay :: PTPText_t

definition new_Message :: "MsgParams \<Rightarrow> Message" where
  "new_Message prms =
     \<lparr>m_sendAction = GET, m_msgLen = 0, m_dataSend = None, m_tlv_id = NULL_PTP_MANAGEMENT,
      m_sequence = 0, m_isUnicast = True, m_PTPProfileSpecific = 0, m_replyAction = RESPONSE,
      m_replayTlv_id = NULL_PTP_MANAGEMENT, m_sdoId = 0, m_type = Management,
      m_mngType = MANAGEMENT, m_domainNumber = 0, m_versionPTP = 2, m_minorVersionPTP = 1,
      m_sigTlvs = \<lparr>m_lastSig = False, m_tlvs = []\<rparr>, m_dataGet = None,
      m_prms = (if transportSpecific prms > 0xf then prms\<lparr>transportSpecific := 0\<rparr> else prms),
      m_keyID = 0, m_sppID = - 1, m_sa = SaFile_new, m_haveAuth = False, m_hmac = None,
      m_peer = zero_PortIdentity, m_target = zero_PortIdentity, m_errorId = 0,
      m_errorDisplay = zero_PTPText\<rparr>"

subsection \<open>What to send\<close>

definition updateParams :: "MsgParams \<Rightarrow> Message \<Rightarrow> bool \<times> Message" where
  "updateParams prms m =
     (if transportSpecific prms > 0xf then (False, m) else (True, m\<lparr>m_prms := prms\<rparr>))"

definition isEmpty :: "mng_vals_e \<Rightarrow> bool" where
  "isEmpty i \<longleftrightarrow> Mng_Ids.isValidId i \<and> mng_size i = 0"

definition Message_isValidId :: "Message \<Rightarrow> mng_vals_e \<Rightarrow> bool" where
  "Message_isValidId m i =
     (if \<not> Mng_Ids.isValidId i then False
      else if implementSpecific (m_prms m) \<noteq> linuxptp \<and> mng_allowed i AND A_USE_LINUXPTP \<noteq> 0
      then False else True)"

text \<open>The structure of the TLV is that of the identifier, which has one.\<close>

definition verifyTlv :: "mng_vals_e \<Rightarrow> BaseMngTlv option \<Rightarrow> bool" where
  "verifyTlv i tlv =
     (case tlv of None \<Rightarrow> False
      | Some t \<Rightarrow> (case mng_all_vals i of None \<Rightarrow> False
          | Some r \<Rightarrow> if mid_func r = NA then False else tlv_type t = i))"

definition setAction :: "actionField_e \<Rightarrow> mng_vals_e \<Rightarrow> BaseMngTlv option \<Rightarrow> Message \<Rightarrow>
    bool \<times> Message" where
  "setAction actionField i dataSend m =
     (if \<not> allowedAction (m_prms m) i actionField then (False, m)
      else if i \<noteq> NULL_PTP_MANAGEMENT \<and> actionField \<noteq> GET \<and> mng_size i \<noteq> 0 then
        if \<not> verifyTlv i dataSend then (False, m)
        else (True, m\<lparr>m_dataSend := dataSend, m_sendAction := actionField, m_tlv_id := i\<rparr>)
      else (True, m\<lparr>m_dataSend := None, m_sendAction := actionField, m_tlv_id := i\<rparr>))"

definition clearData :: "Message \<Rightarrow> Message" where
  "clearData m =
     (if m_dataSend m \<noteq> None then m\<lparr>m_sendAction := GET, m_dataSend := None\<rparr> else m)"

subsection \<open>Authentication\<close>

text \<open>\<^verbatim>\<open>useAuth(sa, sppID, keyID)\<close>, the two \<^verbatim>\<open>changeAuth\<close> and \<^verbatim>\<open>disableAuth\<close>.\<close>

definition useAuth :: "hmac_lib \<Rightarrow> SaFile \<Rightarrow> uint8_t \<Rightarrow> uint32_t \<Rightarrow> Message \<Rightarrow> bool \<times> Message" where
  "useAuth hl sa sppID keyID m =
     (if SaFile_have sa sppID keyID then
        let s = SaFile_spp sa sppID; t = htype s keyID; k = Spp_key s keyID in
        if \<not> hl_alloc hl t k then (False, m)
        else (True, m\<lparr>m_hmac := Some (t, k), m_sa := sa, m_sppID := sppID, m_keyID := keyID,
                      m_haveAuth := True\<rparr>)
      else (False, m))"

definition changeAuth :: "hmac_lib \<Rightarrow> uint8_t \<Rightarrow> uint32_t \<Rightarrow> Message \<Rightarrow> bool \<times> Message" where
  "changeAuth hl sppID keyID m =
     (if m_haveAuth m \<and> SaFile_have (m_sa m) sppID keyID then
        let s = SaFile_spp (m_sa m) sppID; t = htype s keyID; k = Spp_key s keyID in
        if \<not> hl_alloc hl t k then (False, m)
        else (True, m\<lparr>m_hmac := Some (t, k), m_sppID := sppID, m_keyID := keyID\<rparr>)
      else (False, m))"

definition changeAuthKey :: "hmac_lib \<Rightarrow> uint32_t \<Rightarrow> Message \<Rightarrow> bool \<times> Message" where
  "changeAuthKey hl keyID m =
     (if m_haveAuth m \<and> SaFile_have (m_sa m) (m_sppID m) keyID then
        let s = SaFile_spp (m_sa m) (m_sppID m); t = htype s keyID; k = Spp_key s keyID in
        if \<not> hl_alloc hl t k then (False, m)
        else (True, m\<lparr>m_hmac := Some (t, k), m_keyID := keyID\<rparr>)
      else (False, m))"

definition disableAuth :: "Message \<Rightarrow> bool \<times> Message" where
  "disableAuth m = (True, m\<lparr>m_haveAuth := False\<rparr>)"

definition usedAuthSppID :: "Message \<Rightarrow> int" where
  "usedAuthSppID m = (if m_haveAuth m then uint (m_sppID m) else - 1)"

definition usedAuthKeyID :: "Message \<Rightarrow> uint32_t" where
  "usedAuthKeyID m = (if m_haveAuth m then m_keyID m else 0)"

text \<open>The octets the authentication TLV adds to a message.\<close>

definition addAuth :: "Message \<Rightarrow> nat" where
  "addAuth m =
     (if m_haveAuth m \<and> sendAuth (m_prms m)
      then authTlvSize + mac_size (SaFile_spp (m_sa m) (m_sppID m)) (m_keyID m) else 0)"

definition getMsgPlanedLen :: "Message \<Rightarrow> int" where
  "getMsgPlanedLen m =
     (if \<not> Mng_Ids.isValidId (m_tlv_id m) then - 1
      else if m_sendAction m = GET \<and> useZeroGet (m_prms m)
      then int mngMsgBaseSize + int (addAuth m)
      else
        let tlv = (if m_sendAction m \<noteq> GET then m_dataSend m else None);
            size = mng_size (m_tlv_id m)
        in if size = - 2 \<and> tlv = None \<and> m_sendAction m \<noteq> GET then - 2
           else
             let ret = (if size = - 2 then dataFieldSize (m_tlv_id m) tlv else size)
             in if ret < 0 then ret
                else (if odd ret then ret + 1 else ret) + int mngMsgBaseSize + int (addAuth m))"

end
