(* ===== verification/Msg_Parse.thy ===== *)
theory Msg_Parse
  imports Message_Base
begin

unbundle bit_operations_syntax

text \<open>
  \<^verbatim>\<open>Message::parse\<close>, \<^verbatim>\<open>parseAuth\<close> and \<^verbatim>\<open>parseSig\<close> of \<^verbatim>\<open>src/msg.cpp\<close>. The fields of the
  packed structures are read at their offsets in the buffer. \<open>parse_env\<close> holds what the
  functions take from outside: the HMAC library, whether \<^verbatim>\<open>new\<close> succeeds, and the value
  that the pointers \<^verbatim>\<open>tlv\<close> of \<^verbatim>\<open>parse\<close> and \<^verbatim>\<open>mtlv\<close> of \<^verbatim>\<open>parseSig\<close> happen to have: the
  code does not initialise them.
\<close>

record parse_env =
  pe_hmac :: hmac_lib
  pe_mem :: bool
  pe_uninit :: "BaseMngTlv option"

definition rd8 :: "octets \<Rightarrow> nat \<Rightarrow> uint8_t" where
  "rd8 buf o1 = buf ! o1"

definition rd16 :: "octets \<Rightarrow> nat \<Rightarrow> uint16_t" where
  "rd16 buf o1 = net_to_cpu (mem_read buf o1 2)"

definition rd32 :: "octets \<Rightarrow> nat \<Rightarrow> uint32_t" where
  "rd32 buf o1 = net_to_cpu (mem_read buf o1 4)"

definition rd_PortIdentity :: "octets \<Rightarrow> nat \<Rightarrow> PortIdentity_t" where
  "rd_PortIdentity buf o1 =
     \<lparr>PortIdentity_t.clockIdentity = \<lparr>ci_v = mem_read buf o1 8\<rparr>, portNumber = rd16 buf (o1 + 8)\<rparr>"

text \<open>A cursor that parses \<open>n\<close> octets of the buffer at an offset.\<close>

definition parse_at :: "octets \<Rightarrow> nat \<Rightarrow> nat \<Rightarrow> MsgProc" where
  "parse_at buf cur n =
     \<lparr>m_build = False, m_buf = buf, m_cur = cur, m_left = int n, m_size = 0,
      m_err = MNG_PARSE_ERROR_TOO_SMALL\<rparr>"

subsection \<open>Authentication\<close>

text \<open>
  \<open>auth\<close> is the offset of the authentication TLV, \<open>left\<close> the octets from there. With
  \<open>check\<close> the type and the length field are verified, a signaling message did that before.
\<close>

definition parseAuth :: "hmac_lib \<Rightarrow> Message \<Rightarrow> octets \<Rightarrow> nat \<Rightarrow> int \<Rightarrow> bool \<Rightarrow>
    MNG_PARSE_ERROR_e" where
  "parseAuth hl m buf auth left check =
     (if left < int authTlvSize then MNG_PARSE_ERROR_AUTH_NONE
      else if check \<and> rd16 buf auth \<noteq> AUTHENTICATION then MNG_PARSE_ERROR_AUTH_NONE
      else
        let sppID = rd8 buf (auth + 4); keyID = rd32 buf (auth + 6);
            len = (if check then unat (rd16 buf (auth + 2)) + tlvSizeHdr else nat left);
            n = len - authTlvSize; s = SaFile_spp (m_sa m) sppID
        in if \<not> SaFile_have (m_sa m) sppID keyID then MNG_PARSE_ERROR_AUTH_NOKEY
           else if check \<and> int len > left then MNG_PARSE_ERROR_AUTH
           else if check \<and> len < authTlvSize then MNG_PARSE_ERROR_AUTH
           else if rd8 buf (auth + 5) \<noteq> 0 then MNG_PARSE_ERROR_AUTH
           else if odd n \<or> n < 2 then MNG_PARSE_ERROR_AUTH
           else if n > mac_size s (m_keyID m) then MNG_PARSE_ERROR_AUTH_WRONG
           else
             let hm = (if m_sppID m = sppID \<and> m_keyID m = keyID then m_hmac m
                       else if hl_alloc hl (htype s keyID) (Spp_key s keyID)
                       then Some (htype s keyID, Spp_key s keyID) else None);
                 icv = auth + authTlvSize
             in case hm of None \<Rightarrow> MNG_PARSE_ERROR_AUTH
                | Some (t, k) \<Rightarrow>
                    if hl_verify hl t k (mem_read buf 0 icv) (mem_read buf icv n)
                    then MNG_PARSE_ERROR_OK else MNG_PARSE_ERROR_AUTH_WRONG)"

subsection \<open>Management messages\<close>

text \<open>The three kinds of TLV. \<open>n\<close> is the length field of the TLV, at offset 52.\<close>

definition parse_error_status :: "Message \<Rightarrow> octets \<Rightarrow> uint8_t \<Rightarrow> nat \<Rightarrow> MNG_PARSE_ERROR_e \<Rightarrow>
    MNG_PARSE_ERROR_e \<times> Message" where
  "parse_error_status m buf action n errAuth =
     (if action \<noteq> RESPONSE \<and> action \<noteq> ACKNOWLEDGE then (MNG_PARSE_ERROR_ACTION, m)
      else
        let m1 = m\<lparr>m_replyAction := action\<rparr> in
        if n < sizeof_managementErrorTLV then (MNG_PARSE_ERROR_TOO_SMALL, m1)
        else case findTlvId (rd16 buf 54) (implementSpecific (m_prms m)) of
          None \<Rightarrow> (MNG_PARSE_ERROR_INVALID_ID, m1)
        | Some i \<Rightarrow>
            let m2 = m1\<lparr>m_replayTlv_id := i\<rparr> in
            if \<not> checkReplyAction i action then (MNG_PARSE_ERROR_ACTION, m2)
            else
              let m3 = m2\<lparr>m_errorId := rd16 buf 52\<rparr>; left = n - sizeof_managementErrorTLV in
              case (if left > 1 then proc_PTPText (m_errorDisplay m) (parse_at buf 60 left)
                    else (False, m_errorDisplay m, parse_at buf 60 left)) of
                (e, txt, _) \<Rightarrow>
                  let m4 = m3\<lparr>m_errorDisplay := txt\<rparr> in
                  if e then (MNG_PARSE_ERROR_TOO_SMALL, m4)
                  else if errAuth \<noteq> MNG_PARSE_ERROR_OK then (errAuth, m4)
                  else (MNG_PARSE_ERROR_MSG, m4))"

definition parse_management :: "parse_env \<Rightarrow> Message \<Rightarrow> octets \<Rightarrow> uint8_t \<Rightarrow> nat \<Rightarrow>
    MNG_PARSE_ERROR_e \<Rightarrow> MNG_PARSE_ERROR_e \<times> Message" where
  "parse_management env m buf action n errAuth =
     (if action \<noteq> RESPONSE \<and> action \<noteq> ACKNOWLEDGE then (MNG_PARSE_ERROR_ACTION, m)
      else
        let m1 = m\<lparr>m_replyAction := action\<rparr> in
        if n < lengthFieldMngBase then (MNG_PARSE_ERROR_TOO_SMALL, m1)
        else case findTlvId (rd16 buf 52) (implementSpecific (m_prms m)) of
          None \<Rightarrow> (MNG_PARSE_ERROR_INVALID_ID, m1)
        | Some i \<Rightarrow>
            let m2 = m1\<lparr>m_replayTlv_id := i\<rparr>; left = n - lengthFieldMngBase in
            if \<not> checkReplyAction i action then (MNG_PARSE_ERROR_ACTION, m2)
            else if left = 0 then (errAuth, m2)
            else case call_tlv_data (pe_mem env) i (pe_uninit env) (parse_at buf 54 left) of
              (err, tlv, _) \<Rightarrow>
                if err \<noteq> MNG_PARSE_ERROR_OK then (err, m2)
                else (errAuth, m2\<lparr>m_dataGet := tlv\<rparr>))"

definition parse_smpte :: "parse_env \<Rightarrow> Message \<Rightarrow> octets \<Rightarrow> uint8_t \<Rightarrow> nat \<Rightarrow>
    MNG_PARSE_ERROR_e \<Rightarrow> MNG_PARSE_ERROR_e \<times> Message" where
  "parse_smpte env m buf action n errAuth =
     (if action \<noteq> COMMAND then (MNG_PARSE_ERROR_ACTION, m)
      else
        let m1 = m\<lparr>m_replyAction := COMMAND\<rparr> in
        if \<not> pe_mem env then (MNG_PARSE_ERROR_MEM, m1)
        else case SMPTE_ORGANIZATION_EXTENSION_f new_SMPTE_ORGANIZATION_EXTENSION
                    (parse_at buf 52 n) of
          (e, d, mp) \<Rightarrow>
            if e then (m_err mp, m1)
            else
              let m2 = m1\<lparr>m_dataGet := Some (SMPTE_ORGANIZATION_EXTENSION_v d),
                         m_replayTlv_id := SMPTE_MNG_ID\<rparr>
              in if errAuth \<noteq> MNG_PARSE_ERROR_OK then (errAuth, m2)
                 else (MNG_PARSE_ERROR_SMPTE, m2))"

text \<open>The part of \<^verbatim>\<open>parse\<close> for a management message.\<close>

definition parseMng :: "parse_env \<Rightarrow> Message \<Rightarrow> octets \<Rightarrow> int \<Rightarrow> MNG_PARSE_ERROR_e \<times> Message" where
  "parseMng env m0 buf msgSize =
     (let m = m0\<lparr>m_sigTlvs := (m_sigTlvs m0)\<lparr>m_lastSig := False\<rparr>\<rparr>;
          action = 0xf AND rd8 buf 46 in
      if action \<noteq> RESPONSE \<and> action \<noteq> ACKNOWLEDGE \<and> action \<noteq> COMMAND
      then (MNG_PARSE_ERROR_ACTION, m)
      else
        let tlvType = rd16 buf 48; m1 = m\<lparr>m_mngType := tlvType\<rparr>;
            n = unat (rd16 buf 50); left = msgSize - int mngMsgMinSize
        in if left < int n \<or> odd n then (MNG_PARSE_ERROR_TOO_SMALL, m1)
           else
             let errAuth = (if m_haveAuth m1 \<and> rcvAuth (m_prms m1) AND RCV_AUTH_MNG > 0
                   then parseAuth (pe_hmac env) m1 buf (52 + n) (left - int n) True
                   else MNG_PARSE_ERROR_OK)
             in if errAuth \<noteq> MNG_PARSE_ERROR_OK \<and> rcvAuth (m_prms m1) AND RCV_AUTH_IGNORE = 0
                then (errAuth, m1)
                else if tlvType = MANAGEMENT_ERROR_STATUS
                then parse_error_status m1 buf action n errAuth
                else if tlvType = MANAGEMENT then parse_management env m1 buf action n errAuth
                else if tlvType = ORGANIZATION_EXTENSION \<and> rcvSMPTEOrg (m_prms m1)
                then parse_smpte env m1 buf action n errAuth
                else (MNG_PARSE_ERROR_INVALID_TLV, m1))"

subsection \<open>Signaling messages\<close>

text \<open>The TLV of a type, from the cursor: an early return, or a TLV to keep.\<close>

definition caseBuild :: "parse_env \<Rightarrow> 'd \<Rightarrow> 'd proc \<Rightarrow> ('d \<Rightarrow> BaseSigTlv) \<Rightarrow> MsgProc \<Rightarrow>
    MNG_PARSE_ERROR_e + BaseSigTlv option \<times> MsgProc" where
  "caseBuild env new p c mp =
     (if \<not> pe_mem env then Inl MNG_PARSE_ERROR_MEM
      else case p new mp of (e, d, mp') \<Rightarrow>
        if e then Inl (m_err mp') else Inr (Some (c d), mp'))"

definition sig_error_status :: "parse_env \<Rightarrow> Message \<Rightarrow> MsgProc \<Rightarrow>
    MNG_PARSE_ERROR_e + BaseSigTlv option \<times> MsgProc" where
  "sig_error_status env m mp =
     (if m_left mp < int sizeof_managementErrorTLV then Inl MNG_PARSE_ERROR_TOO_SMALL
      else case findTlvId (rd16 (m_buf mp) (m_cur mp + 2)) (implementSpecific (m_prms m)) of
        None \<Rightarrow> Inr (None, mp)
      | Some i \<Rightarrow>
          if \<not> pe_mem env then Inl MNG_PARSE_ERROR_MEM
          else
            let mp1 = mp\<lparr>m_cur := m_cur mp + sizeof_managementErrorTLV,
                  m_left := m_left mp - int sizeof_managementErrorTLV\<rparr> in
            case (if m_left mp1 > 1 then proc_PTPText zero_PTPText mp1
                  else (False, zero_PTPText, mp1)) of
              (e, txt, mp2) \<Rightarrow>
                if e then Inl MNG_PARSE_ERROR_TOO_SMALL
                else Inr (Some (MANAGEMENT_ERROR_STATUS_v
                  \<lparr>MANAGEMENT_ERROR_STATUS_t.managementId = i,
                   managementErrorId = rd16 (m_buf mp) (m_cur mp), displayData = txt\<rparr>), mp2))"

definition sig_management :: "parse_env \<Rightarrow> Message \<Rightarrow> MsgProc \<Rightarrow>
    MNG_PARSE_ERROR_e + BaseSigTlv option \<times> MsgProc" where
  "sig_management env m mp =
     (if m_left mp < 2 then Inl MNG_PARSE_ERROR_TOO_SMALL
      else case findTlvId (rd16 (m_buf mp) (m_cur mp)) (implementSpecific (m_prms m)) of
        None \<Rightarrow> Inr (None, mp)
      | Some i \<Rightarrow>
          if m_left mp \<le> 2 then Inr (None, mp)
          else
            case call_tlv_data (pe_mem env) i (pe_uninit env)
                   (mp\<lparr>m_cur := m_cur mp + 2, m_left := m_left mp - 2\<rparr>) of
              (err, tlv, mp1) \<Rightarrow>
                if err \<noteq> MNG_PARSE_ERROR_OK then Inl err
                else if \<not> pe_mem env then Inl MNG_PARSE_ERROR_MEM
                else Inr (Some (MANAGEMENT_v
                  \<lparr>MANAGEMENT_t.managementId = i, tlvData = tlv\<rparr>), mp1))"

definition sig_tlv :: "parse_env \<Rightarrow> Message \<Rightarrow> tlvType_e \<Rightarrow> MsgProc \<Rightarrow>
    MNG_PARSE_ERROR_e + BaseSigTlv option \<times> MsgProc" where
  "sig_tlv env m ty mp =
     (if ty = ORGANIZATION_EXTENSION_PROPAGATE \<or> ty = ORGANIZATION_EXTENSION_DO_NOT_PROPAGATE \<or>
        ty = ORGANIZATION_EXTENSION
      then caseBuild env new_ORGANIZATION_EXTENSION ORGANIZATION_EXTENSION_f
        ORGANIZATION_EXTENSION_v mp
      else if ty = PATH_TRACE then caseBuild env new_PATH_TRACE PATH_TRACE_f PATH_TRACE_v mp
      else if ty = ALTERNATE_TIME_OFFSET_INDICATOR
      then caseBuild env new_ALTERNATE_TIME_OFFSET_INDICATOR ALTERNATE_TIME_OFFSET_INDICATOR_f
        ALTERNATE_TIME_OFFSET_INDICATOR_v mp
      else if ty = ENHANCED_ACCURACY_METRICS
      then caseBuild env new_ENHANCED_ACCURACY_METRICS ENHANCED_ACCURACY_METRICS_f
        ENHANCED_ACCURACY_METRICS_v mp
      else if ty = L1_SYNC then caseBuild env new_L1_SYNC L1_SYNC_f L1_SYNC_v mp
      else if ty = PORT_COMMUNICATION_AVAILABILITY
      then caseBuild env new_PORT_COMMUNICATION_AVAILABILITY PORT_COMMUNICATION_AVAILABILITY_f
        PORT_COMMUNICATION_AVAILABILITY_v mp
      else if ty = PROTOCOL_ADDRESS
      then caseBuild env new_PROTOCOL_ADDRESS PROTOCOL_ADDRESS_f PROTOCOL_ADDRESS_v mp
      else if ty = SLAVE_RX_SYNC_TIMING_DATA
      then caseBuild env new_SLAVE_RX_SYNC_TIMING_DATA SLAVE_RX_SYNC_TIMING_DATA_f
        SLAVE_RX_SYNC_TIMING_DATA_v mp
      else if ty = SLAVE_RX_SYNC_COMPUTED_DATA
      then caseBuild env new_SLAVE_RX_SYNC_COMPUTED_DATA SLAVE_RX_SYNC_COMPUTED_DATA_f
        SLAVE_RX_SYNC_COMPUTED_DATA_v mp
      else if ty = SLAVE_TX_EVENT_TIMESTAMPS
      then caseBuild env new_SLAVE_TX_EVENT_TIMESTAMPS SLAVE_TX_EVENT_TIMESTAMPS_f
        SLAVE_TX_EVENT_TIMESTAMPS_v mp
      else if ty = CUMULATIVE_RATE_RATIO
      then caseBuild env new_CUMULATIVE_RATE_RATIO CUMULATIVE_RATE_RATIO_f
        CUMULATIVE_RATE_RATIO_v mp
      else if ty = MANAGEMENT_ERROR_STATUS then sig_error_status env m mp
      else if ty = MANAGEMENT then sig_management env m mp
      else if ty = SLAVE_DELAY_TIMING_DATA_NP
      then if implementSpecific (m_prms m) = linuxptp
        then caseBuild env new_SLAVE_DELAY_TIMING_DATA_NP SLAVE_DELAY_TIMING_DATA_NP_f
          SLAVE_DELAY_TIMING_DATA_NP_v mp
        else Inr (None, mp)
      else Inr (None, mp))"

text \<open>The variables of the loop.\<close>

record sig_loop =
  sl_msg :: Message
  sl_mp :: MsgProc
  sl_leftAll :: int
  sl_lastTlv :: tlvType_e
  sl_lastAuth :: nat
  sl_lastAuthLen :: uint16_t
  sl_errAuth :: MNG_PARSE_ERROR_e

definition push_sig :: "tlvType_e \<Rightarrow> BaseSigTlv option \<Rightarrow> Message \<Rightarrow> Message" where
  "push_sig ty tlv m =
     (case tlv of None \<Rightarrow> m
      | Some t \<Rightarrow> m\<lparr>m_sigTlvs := (m_sigTlvs m)\<lparr>m_tlvs := m_tlvs (m_sigTlvs m) @ [(ty, t)]\<rparr>\<rparr>)"

text \<open>
  One round of the loop on the type and length of the TLV at the cursor. After an
  AUTHENTICATION TLV the cursor stays behind the TLV header: the code goes on with the next
  round without moving over the content of the TLV.
\<close>

definition sig_body :: "parse_env \<Rightarrow> octets \<Rightarrow> sig_loop \<Rightarrow> tlvType_e \<Rightarrow> uint16_t \<Rightarrow>
    MNG_PARSE_ERROR_e \<times> Message + sig_loop" where
  "sig_body env buf st ty len =
     (let m = sl_msg st; mp = sl_mp st; cur = m_cur mp; prms = m_prms m;
          mp1 = mp\<lparr>m_cur := cur + tlvSizeHdr\<rparr>;
          left1 = sl_leftAll st - int tlvSizeHdr;
          left2 = left1 - int (unat len);
          st1 = st\<lparr>sl_lastTlv := ty, sl_mp := mp1, sl_leftAll := left2\<rparr>
      in if int (unat len) > left1 then Inl (MNG_PARSE_ERROR_TOO_SMALL, m)
         else if ty = AUTHENTICATION then
           if m_haveAuth m then
             let alen = len + of_nat tlvSizeHdr;
                 st2 = st1\<lparr>sl_lastAuthLen := alen, sl_lastAuth := cur\<rparr>
             in if rcvAuth prms AND RCV_AUTH_SIG_ALL > 0 then
                  let e = parseAuth (pe_hmac env) m buf cur (int (unat alen)) False in
                  if e \<noteq> MNG_PARSE_ERROR_OK \<and> rcvAuth prms AND RCV_AUTH_IGNORE = 0
                  then Inl (e, m)
                  else Inr (st2\<lparr>sl_errAuth := e\<rparr>)
                else Inr st2
           else Inr st1
         else if filterSignaling prms \<and> \<not> isSigTlv ty prms
         then Inr (st1\<lparr>sl_mp := mp1\<lparr>m_cur := m_cur mp1 + unat len\<rparr>\<rparr>)
         else case sig_tlv env m ty (mp1\<lparr>m_left := int (unat len)\<rparr>) of
           Inl e \<Rightarrow> Inl (e, m)
         | Inr (tlv, mp2) \<Rightarrow>
             Inr (st1\<lparr>sl_mp := (if m_left mp2 > 0
                     then mp2\<lparr>m_cur := m_cur mp2 + nat (m_left mp2)\<rparr> else mp2),
                   sl_msg := push_sig ty tlv m\<rparr>))"

definition sig_round :: "parse_env \<Rightarrow> octets \<Rightarrow> sig_loop \<Rightarrow>
    MNG_PARSE_ERROR_e \<times> Message + sig_loop" where
  "sig_round env buf st =
     sig_body env buf st (rd16 buf (m_cur (sl_mp st))) (rd16 buf (m_cur (sl_mp st) + 2))"

lemma sig_round_left:
  "sig_round env buf st = Inr st' \<Longrightarrow> sl_leftAll st' \<le> sl_leftAll st - 4"
  by (auto simp: sig_round_def sig_body_def Let_def tlvSizeHdr_def split: if_splits sum.splits prod.splits)

function sig_run :: "parse_env \<Rightarrow> octets \<Rightarrow> sig_loop \<Rightarrow>
    MNG_PARSE_ERROR_e \<times> Message + sig_loop" where
  "sig_run env buf st =
     (if sl_leftAll st < int tlvSizeHdr then Inr st
      else case sig_round env buf st of
        Inl r \<Rightarrow> Inl r
      | Inr st' \<Rightarrow> sig_run env buf st')"
  by pat_completeness auto
termination
  by (relation "measure (\<lambda>(_, _, st). nat (sl_leftAll st))")
    (auto dest!: sig_round_left simp: tlvSizeHdr_def)

declare sig_run.simps [simp del]

definition parseSig :: "parse_env \<Rightarrow> Message \<Rightarrow> octets \<Rightarrow> int \<Rightarrow> MNG_PARSE_ERROR_e \<times> Message" where
  "parseSig env m0 buf left =
     (let m = m0\<lparr>m_sigTlvs := \<lparr>m_lastSig = True, m_tlvs = []\<rparr>\<rparr> in
      case sig_run env buf
        \<lparr>sl_msg = m, sl_mp = parse_at buf sigBaseSize 0, sl_leftAll = left, sl_lastTlv = 0,
         sl_lastAuth = 0, sl_lastAuthLen = 0, sl_errAuth = MNG_PARSE_ERROR_OK\<rparr> of
        Inl r \<Rightarrow> r
      | Inr st \<Rightarrow>
          let m' = sl_msg st; rcv = rcvAuth (m_prms m') in
          if m_haveAuth m' \<and> rcv AND (RCV_AUTH_SIG_ALL OR RCV_AUTH_SIG_LAST) > 0 then
            if sl_lastTlv st \<noteq> AUTHENTICATION then (MNG_PARSE_ERROR_AUTH_NONE, m')
            else
              let e = (if rcv AND RCV_AUTH_SIG_ALL = 0
                then parseAuth (pe_hmac env) m' buf (sl_lastAuth st)
                       (int (unat (sl_lastAuthLen st))) False
                else sl_errAuth st)
              in if e \<noteq> MNG_PARSE_ERROR_OK then (e, m') else (MNG_PARSE_ERROR_SIG, m')
          else (MNG_PARSE_ERROR_SIG, m'))"

subsection \<open>All messages\<close>

definition parse_header :: "Message \<Rightarrow> octets \<Rightarrow> Message" where
  "parse_header m buf =
     m\<lparr>m_sdoId := ucast (rd8 buf 5) OR push_bit 4 (ucast (rd8 buf 0 AND 0xf0)),
       m_domainNumber := rd8 buf 4,
       m_isUnicast := rd8 buf 6 AND unicastFlag \<noteq> 0,
       m_PTPProfileSpecific := rd8 buf 6 AND (PTPProfileSpecific1 OR PTPProfileSpecific2),
       m_sequence := rd16 buf 30,
       m_peer := rd_PortIdentity buf 20,
       m_target := rd_PortIdentity buf 34\<rparr>"

definition parse :: "parse_env \<Rightarrow> Message \<Rightarrow> octets \<Rightarrow> int \<Rightarrow> MNG_PARSE_ERROR_e \<times> Message" where
  "parse env m0 buf bufSize =
     (if bufSize < int sigBaseSize then (MNG_PARSE_ERROR_TOO_SMALL, m0)
      else
        let msgSize = int (unat (rd16 buf 2)) in
        if msgSize > bufSize then (MNG_PARSE_ERROR_HEADER, m0)
        else
          let ty = rd8 buf 0 AND 0xf; m1 = m0\<lparr>m_type := ty\<rparr> in
          if ty = Signaling \<and> \<not> rcvSignaling (m_prms m1) then (MNG_PARSE_ERROR_HEADER, m1)
          else if ty = Management \<and> msgSize < int mngMsgMinSize
          then (MNG_PARSE_ERROR_TOO_SMALL, m1)
          else if ty \<noteq> Signaling \<and> ty \<noteq> Management then (MNG_PARSE_ERROR_HEADER, m1)
          else
            let m2 = m1\<lparr>m_versionPTP := rd8 buf 1 AND 0xf,
                        m_minorVersionPTP := drop_bit 4 (rd8 buf 1)\<rparr> in
            if m_versionPTP m2 \<noteq> ptp_major_ver \<or> rd8 buf 33 \<noteq> logMessageIntervalDef
            then (MNG_PARSE_ERROR_HEADER, m2)
            else
              let m3 = parse_header m2 buf in
              if ty = Signaling then parseSig env m3 buf (msgSize - int sigBaseSize)
              else parseMng env m3 buf msgSize)"

text \<open>\<^verbatim>\<open>parse(const Buf &, bufSize)\<close>.\<close>

definition parse_Buf :: "parse_env \<Rightarrow> Message \<Rightarrow> octets \<Rightarrow> int \<Rightarrow> MNG_PARSE_ERROR_e \<times> Message" where
  "parse_Buf env m buf bufSize =
     (if int (length buf) < bufSize then (MNG_PARSE_ERROR_TOO_SMALL, m)
      else parse env m buf bufSize)"

end
