(* ===== verification/Msg_Build.thy ===== *)
theory Msg_Build
  imports Message_Base
begin

unbundle bit_operations_syntax

text \<open>
  \<^verbatim>\<open>Message::build\<close> of \<^verbatim>\<open>src/msg.cpp\<close>: a management message in the user's buffer. The
  packed structures are written as their octets, in network order. The parts of the function
  are \<open>build_header\<close>, \<open>build_dataField\<close> and \<open>build_auth\<close>; \<open>build\<close> runs them as the
  code does, each on the buffer the one before left.
\<close>

subsection \<open>The header\<close>

record managementMessage_p =
  messageType_majorSdoId :: Nibble_t
  versionPTP :: Nibble_t
  messageLength :: UInteger16_t
  domainNumber :: UInteger8_t
  minorSdoId :: UInteger8_t
  flagField :: "Octet_t \<times> Octet_t"
  correctionField :: Integer64_t
  messageTypeSpecific :: "uint32_t"
  sourcePortIdentity :: PortIdentity_t
  sequenceId :: UInteger16_t
  controlField :: UInteger8_t
  logMessageInterval :: Integer8_t
  targetPortIdentity :: PortIdentity_t
  startingBoundaryHops :: uint8_t
  boundaryHops :: uint8_t
  actionField :: uint8_t
  res5 :: uint8_t

definition pack_PortIdentity :: "PortIdentity_t \<Rightarrow> octets" where
  "pack_PortIdentity p = take 8 (ci_v (PortIdentity_t.clockIdentity p)) @
     cpu_to_net (PortIdentity_t.portNumber p)"

definition pack_managementMessage :: "managementMessage_p \<Rightarrow> octets" where
  "pack_managementMessage h =
     [messageType_majorSdoId h, versionPTP h] @ cpu_to_net (messageLength h) @
     [managementMessage_p.domainNumber h, minorSdoId h, fst (flagField h), snd (flagField h)] @
     cpu_to_net (correctionField h) @ cpu_to_net (messageTypeSpecific h) @
     pack_PortIdentity (sourcePortIdentity h) @ cpu_to_net (sequenceId h) @
     [controlField h, logMessageInterval h] @ pack_PortIdentity (targetPortIdentity h) @
     [startingBoundaryHops h, managementMessage_p.boundaryHops h, actionField h, res5 h]"

text \<open>The header as \<^verbatim>\<open>build\<close> first fills it: the length comes later.\<close>

definition build_header :: "Message \<Rightarrow> uint16_t \<Rightarrow> managementMessage_p" where
  "build_header m sequence =
     (let p = m_prms m in
      \<lparr>messageType_majorSdoId = Management OR push_bit 4 (transportSpecific p),
       versionPTP = push_bit 4 (minorVersion p) OR ptp_major_ver,
       messageLength = 0,
       domainNumber = MsgParams.domainNumber p, minorSdoId = 0,
       flagField = (if isUnicast p then unicastFlag else 0, 0),
       correctionField = 0, messageTypeSpecific = 0,
       sourcePortIdentity = self_id p,
       sequenceId = sequence,
       controlField = controlFieldMng, logMessageInterval = logMessageIntervalDef,
       targetPortIdentity = target p,
       startingBoundaryHops = MsgParams.boundaryHops p,
       boundaryHops = MsgParams.boundaryHops p,
       actionField = m_sendAction m, res5 = 0\<rparr>)"

subsection \<open>The dataField\<close>

text \<open>
  A SET or a COMMAND with data builds its TLV and pads it to an even size. A GET has an empty
  dataField, or a zero one with the size of the TLV when the parameters ask for it.
\<close>

definition build_dataField :: "Message \<Rightarrow> MsgProc \<Rightarrow> MNG_PARSE_ERROR_e \<times> Message \<times> MsgProc" where
  "build_dataField m mp =
     (let tlvSize = mng_size (m_tlv_id m) in
      if m_sendAction m \<noteq> GET \<and> m_dataSend m \<noteq> None then
        (case call_tlv_data True (m_tlv_id m) (m_dataSend m) (mp\<lparr>m_build := True\<rparr>) of
           (err, tlv, mp1) \<Rightarrow>
             let m1 = m\<lparr>m_dataSend := tlv\<rparr> in
             if err \<noteq> MNG_PARSE_ERROR_OK then (err, m1, mp1)
             else if odd (m_size mp1) then
               (case procRes () mp1 of (e, _, mp2) \<Rightarrow>
                  (if e then MNG_PARSE_ERROR_TOO_SMALL else MNG_PARSE_ERROR_OK, m1, mp2))
             else (MNG_PARSE_ERROR_OK, m1, mp1))
      else if m_sendAction m = GET \<and> \<not> useZeroGet (m_prms m) \<and> tlvSize \<noteq> 0 then
        let sz = (if tlvSize = - 2 then dataFieldSize (m_tlv_id m) None else tlvSize);
            sz2 = (if odd sz then sz + 1 else sz)
        in if sz < 0 then (MNG_PARSE_ERROR_INVALID_ID, m, mp)
           else if sz2 > m_left mp then (MNG_PARSE_ERROR_TOO_SMALL, m, mp)
           else (MNG_PARSE_ERROR_OK, m, move (nat sz2) (store (replicate (nat sz2) 0) mp))
      else (MNG_PARSE_ERROR_OK, m, mp))"

subsection \<open>The authentication TLV\<close>

definition pack_authenticationTlv :: "uint16_t \<Rightarrow> uint8_t \<Rightarrow> uint32_t \<Rightarrow> octets" where
  "pack_authenticationTlv len sppID keyID =
     cpu_to_net AUTHENTICATION @ cpu_to_net len @ [sppID, 0] @ cpu_to_net keyID"

text \<open>
  The last part of \<^verbatim>\<open>build\<close>. \<open>size\<close> is the length of the message so far. The key object
  \<open>m_hmac\<close> exists whenever authentication is used.
\<close>

definition build_auth :: "hmac_lib \<Rightarrow> Message \<Rightarrow> nat \<Rightarrow> MsgProc \<Rightarrow>
    MNG_PARSE_ERROR_e \<times> octets \<times> Message" where
  "build_auth hl m size0 mp =
     (if m_haveAuth m \<and> sendAuth (m_prms m) then
        let mac_sz = mac_size (SaFile_spp (m_sa m) (m_sppID m)) (m_keyID m) in
        if int (authTlvSize + mac_sz) > m_left mp
        then (MNG_PARSE_ERROR_TOO_SMALL, m_buf mp, m)
        else
          let mp1 = move authTlvSize
                (store (pack_authenticationTlv (of_nat (authTlvSize + mac_sz - tlvSizeHdr))
                   (m_sppID m) (m_keyID m)) mp);
              sz = size0 + (authTlvSize + mac_sz);
              buf1 = mem_write (m_buf mp1) 2 (cpu_to_net (of_nat sz :: uint16_t))
          in case m_hmac m of
               None \<Rightarrow> (MNG_PARSE_ERROR_AUTH, buf1, m)
             | Some (t, k) \<Rightarrow>
                 (case hl_digest hl t k (mem_read buf1 0 (sz - mac_sz)) mac_sz of
                    None \<Rightarrow> (MNG_PARSE_ERROR_AUTH, buf1, m)
                  | Some mac \<Rightarrow> (MNG_PARSE_ERROR_OK, mem_write buf1 (m_cur mp1) mac,
                                 m\<lparr>m_msgLen := sz\<rparr>))
      else (MNG_PARSE_ERROR_OK, mem_write (m_buf mp) 2 (cpu_to_net (of_nat size0 :: uint16_t)),
            m\<lparr>m_msgLen := size0\<rparr>))"

definition build :: "hmac_lib \<Rightarrow> Message \<Rightarrow> octets option \<Rightarrow> uint16_t \<Rightarrow>
    MNG_PARSE_ERROR_e \<times> octets option \<times> Message" where
  "build hl m ubuf sequence =
     (case ubuf of
        None \<Rightarrow> (MNG_PARSE_ERROR_TOO_SMALL, None, m)
      | Some buf \<Rightarrow>
          if length buf < mngMsgBaseSize then (MNG_PARSE_ERROR_TOO_SMALL, ubuf, m)
          else
            let b1 = mem_write buf 0 (pack_managementMessage (build_header m sequence));
                b2 = mem_write b1 48 (cpu_to_net MANAGEMENT);
                b3 = mem_write b2 52 (cpu_to_net (mng_value (m_tlv_id m)));
                mp0 = \<lparr>m_build = False, m_buf = b3, m_cur = mngMsgBaseSize,
                       m_left = int (length buf - mngMsgBaseSize), m_size = 0,
                       m_err = MNG_PARSE_ERROR_TOO_SMALL\<rparr>
            in case build_dataField m mp0 of (err, m1, mp) \<Rightarrow>
                 if err \<noteq> MNG_PARSE_ERROR_OK then (err, Some (m_buf mp), m1)
                 else
                   let size0 = mngMsgBaseSize + m_size mp in
                   if odd size0 then (MNG_PARSE_ERROR_SIZE, Some (m_buf mp), m1)
                   else
                     let mp1 = mp\<lparr>m_buf := mem_write (m_buf mp) 50
                           (cpu_to_net (of_nat (lengthFieldMngBase + m_size mp) :: uint16_t))\<rparr>
                     in case build_auth hl m1 size0 mp1 of
                          (err, buf', m2) \<Rightarrow> (err, Some buf', m2))"

end
