(* ===== verification/Tlv_Call.thy ===== *)
theory Tlv_Call
  imports Mng_Dispatch
begin

text \<open>
  What \<open>call_tlv_data\<close> promises its callers: the message when it builds and parses a
  dataField, and the signaling message when it carries management TLVs.
\<close>

lemma new_tlv_row: "new_tlv i \<noteq> None \<longleftrightarrow> (\<exists>r. mng_all_vals i = Some r \<and> mid_func r \<noteq> NA)"
  by (cases i) simp_all

lemma new_tlv_type: "new_tlv i = Some t \<Longrightarrow> tlv_type t = i"
  by (cases i) auto

lemma tlv_row:
  "tlv_type t \<noteq> SMPTE_MNG_ID \<Longrightarrow>
   \<exists>r t0. mng_all_vals (tlv_type t) = Some r \<and> mid_func r \<noteq> NA \<and> new_tlv (tlv_type t) = Some t0"
  by (cases t) simp_all

lemma mp_ok_err [simp]: "mp_ok (mp\<lparr>m_err := x\<rparr>) = mp_ok mp"
  by (simp add: mp_ok_def)

lemma view_err [simp]: "view (mp\<lparr>m_err := x\<rparr>) = view mp"
  by (simp add: view_def)

subsection \<open>Build\<close>

lemma call_build:
  assumes "m_build mp" "mp_ok mp" "valid_tlv t" "tlv_type t \<noteq> SMPTE_MNG_ID"
    "int (length (enc_tlv t)) \<le> m_left mp"
  shows "call_tlv_data mem (tlv_type t) (Some t) mp =
    (MNG_PARSE_ERROR_OK, Some t, put (enc_tlv t) (mp\<lparr>m_err := MNG_PARSE_ERROR_TOO_SMALL\<rparr>))"
  using assms tlv_row [of t] tlv_build [of "mp\<lparr>m_err := MNG_PARSE_ERROR_TOO_SMALL\<rparr>" t]
  by (auto simp: call_tlv_data_def)

lemma call_build_small:
  assumes "m_build mp" "mp_ok mp" "valid_tlv t" "tlv_type t \<noteq> SMPTE_MNG_ID"
    "m_left mp < int (length (enc_tlv t))"
  shows "fst (call_tlv_data mem (tlv_type t) (Some t) mp) = MNG_PARSE_ERROR_TOO_SMALL"
  using assms tlv_row [of t] tlv_build_small [of "mp\<lparr>m_err := MNG_PARSE_ERROR_TOO_SMALL\<rparr>" t]
  by (auto simp: call_tlv_data_def split: prod.splits)

text \<open>
  Building with a TLV of another identifier is refused; the functions of the TLVs leave
  the structure of the TLV as it is.
\<close>

lemma call_build_mismatch:
  "m_build mp \<Longrightarrow> new_tlv i \<noteq> None \<Longrightarrow> tlv = None \<or> (\<exists>t. tlv = Some t \<and> tlv_type t \<noteq> i) \<Longrightarrow>
   fst (call_tlv_data mem i tlv mp) = MNG_PARSE_ERROR_MISMATCH_TLV"
  using new_tlv_row [of i] by (auto simp: call_tlv_data_def)

subsection \<open>Parse\<close>

lemma call_parse:
  assumes "\<not> m_build mp" "mp_ok mp" "valid_tlv t" "tlv_type t \<noteq> SMPTE_MNG_ID"
    "view mp = enc_tlv t @ r" "pad r"
  shows "call_tlv_data True (tlv_type t) tlv mp =
    (MNG_PARSE_ERROR_OK, Some t,
     move (length (enc_tlv t)) (mp\<lparr>m_err := MNG_PARSE_ERROR_TOO_SMALL\<rparr>))"
  using assms tlv_row [of t] tlv_parse [of "mp\<lparr>m_err := MNG_PARSE_ERROR_TOO_SMALL\<rparr>" t _ r]
  by (auto simp: call_tlv_data_def)

text \<open>An identifier with no dataField leaves the caller's pointer alone.\<close>

lemma call_parse_NA:
  assumes "mng_all_vals i = Some m" "mid_func m = NA"
  shows "call_tlv_data mem i tlv mp =
    (MNG_PARSE_ERROR_OK, tlv, mp\<lparr>m_err := MNG_PARSE_ERROR_TOO_SMALL\<rparr>)"
  using assms by (simp add: call_tlv_data_def)

text \<open>What parsing returns has the structure of the identifier.\<close>

lemma call_parse_type:
  assumes "\<not> m_build mp" "mp_ok mp" "new_tlv i \<noteq> None"
    "call_tlv_data mem i tlv mp = (MNG_PARSE_ERROR_OK, tlv', mp')"
  shows "\<exists>t. tlv' = Some t \<and> tlv_type t = i"
proof -
  obtain t0 where t0: "new_tlv i = Some t0"
    using assms(3) by auto
  obtain e t' mq where f: "tlv_f t0 (mp\<lparr>m_err := MNG_PARSE_ERROR_TOO_SMALL\<rparr>) = (e, t', mq)"
    by (metis prod_cases3)
  have "tlv_type t' = i" and "m_err mq \<noteq> MNG_PARSE_ERROR_OK"
    using tlv_frame [OF _ _ f] assms(1,2) new_tlv_type [OF t0] by (simp_all add: advance_def)
  then show ?thesis
    using assms t0 f new_tlv_row [of i] by (auto simp: call_tlv_data_def Let_def split: if_splits)
qed

subsection \<open>Memory\<close>

lemma advance_set_err:
  "advance (mp\<lparr>m_err := x\<rparr>) mp' \<Longrightarrow> x \<noteq> MNG_PARSE_ERROR_OK \<Longrightarrow> advance mp mp'"
  by (simp add: advance_def)

lemma call_frame:
  assumes "mp_ok mp" "\<And>t. m_build mp \<Longrightarrow> tlv = Some t \<Longrightarrow> safe_tlv t"
    "call_tlv_data mem i tlv mp = (err, tlv', mp')"
  shows "advance mp mp'"
proof -
  let ?q = "mp\<lparr>m_err := MNG_PARSE_ERROR_TOO_SMALL\<rparr>"
  have q: "advance mp ?q"
    using assms(1) by simp
  have f: "advance mp mq" if "tlv_f t ?q = (e, t', mq)" "m_build mp \<longrightarrow> safe_tlv t" for t e t' mq
    using tlv_frame [OF _ _ that(1)] that(2) assms(1) advance_set_err [of _ mp mq] by fastforce
  consider "mp' = ?q"
    | t e t' where "tlv_f t ?q = (e, t', mp')" "m_build mp \<longrightarrow> safe_tlv t"
    using assms(2,3)
    by (auto simp: call_tlv_data_def Let_def split: option.splits if_splits prod.splits)
  then show ?thesis
    using q f by cases auto
qed

lemma call_reads:
  assumes "same_view mp mq" "call_tlv_data mem i tlv mp = (err, t, mp')"
    "call_tlv_data mem i tlv mq = (err', u, mq')"
  shows "err = err' \<and> t = u \<and> same_view mp' mq'"
proof (cases "mng_all_vals i")
  case None
  then show ?thesis
    using assms by (auto simp: call_tlv_data_def)
next
  case (Some m)
  let ?p = "mp\<lparr>m_err := MNG_PARSE_ERROR_TOO_SMALL\<rparr>" and ?q = "mq\<lparr>m_err := MNG_PARSE_ERROR_TOO_SMALL\<rparr>"
  have v: "same_view ?p ?q" and b: "\<not> m_build mp" "\<not> m_build mq"
    using assms(1) by (auto simp: same_view_def)
  show ?thesis
  proof (cases "mid_func m = NA \<or> new_tlv i = None \<or> \<not> mem")
    case True
    then show ?thesis
      using assms b v Some by (auto simp: call_tlv_data_def Let_def split: option.splits if_splits)
  next
    case False
    then obtain t0 where t0: "new_tlv i = Some t0"
      by auto
    obtain e t1 mp1 f u1 mq1 where f: "tlv_f t0 ?p = (e, t1, mp1)" "tlv_f t0 ?q = (f, u1, mq1)"
      by (metis prod_cases3)
    have "e = f \<and> t1 = u1 \<and> same_view mp1 mq1"
      using tlv_reads [OF v f] .
    moreover from this have "m_err mp1 = m_err mq1"
      by (simp add: same_view_def)
    ultimately show ?thesis
      using assms b Some False t0 f by (auto simp: call_tlv_data_def Let_def split: if_splits)
  qed
qed

subsection \<open>Sizes\<close>

definition even_pad :: "octets \<Rightarrow> octets" where
  "even_pad bs = (if odd (length bs) then bs @ [0] else bs)"

lemma length_even_pad: "length (even_pad bs) = length bs + length bs mod 2"
  by (simp add: even_pad_def odd_iff_mod_2_eq_one)

text \<open>The size the message plans for a TLV is the padded size of its image.\<close>

lemma planned_size:
  assumes "valid_tlv t" "tlv_type t \<noteq> SMPTE_MNG_ID" "tlv_type t \<noteq> CLOCK_DESCRIPTION"
  shows "(let s = (if mng_size (tlv_type t) = - 2 then dataFieldSize (tlv_type t) (Some t)
                   else mng_size (tlv_type t))
          in s \<ge> 0 \<and> (if odd s then s + 1 else s) = int (length (even_pad (enc_tlv t))))"
proof (cases "mng_size (tlv_type t) = - 2")
  case True
  then obtain n where n: "tlv_s t = Some n"
    using assms(2) by (cases t) (simp_all add: mng_size_def tlv_s_def)
  then have "length (enc_tlv t) = n"
    using tlv_variable_size [OF assms(1) n] assms(3) by simp
  then show ?thesis
    using True n by (simp add: dataFieldSize_def even_pad_def)
next
  case False
  then have "0 \<le> mng_size (tlv_type t)"
    using assms(2) by (cases t) (simp_all add: mng_size_def)
  then have "mng_size (tlv_type t) = int (length (even_pad (enc_tlv t)))"
    using tlv_fixed_size [OF assms(1)] by (simp add: length_even_pad zmod_int)
  moreover have "even (length (even_pad (enc_tlv t)))"
    by (simp add: even_pad_def)
  ultimately show ?thesis
    using False by simp
qed

end
