(* ===== verification/Msg_Built.thy ===== *)
theory Msg_Built
  imports Msg_Build Tlv_Call
begin

unbundle bit_operations_syntax

text \<open>
  What \<open>build\<close> makes: the octets of the message as the protocol lays them out, in the
  length \<open>getMsgPlanedLen\<close> announced, for every message the interface can be asked for.
\<close>

subsection \<open>The state a message to send is in\<close>

text \<open>
  The identifier is one of the table, and data is there exactly for a SET or COMMAND of an
  identifier that has a dataField; then it has the structure of the identifier.
\<close>

definition send_inv :: "Message \<Rightarrow> bool" where
  "send_inv m \<longleftrightarrow>
     Mng_Ids.isValidId (m_tlv_id m) \<and> m_sendAction m \<in> {GET, SET, COMMAND} \<and>
     (case m_dataSend m of
        None \<Rightarrow> m_sendAction m = GET \<or> m_tlv_id m = NULL_PTP_MANAGEMENT \<or> mng_size (m_tlv_id m) = 0
      | Some t \<Rightarrow> m_sendAction m \<noteq> GET \<and> tlv_type t = m_tlv_id m \<and>
          mng_allowed (m_tlv_id m) AND push_bit (unat (m_sendAction m)) 1 \<noteq> 0)"

lemma send_inv_new: "send_inv (new_Message prms)"
  by (simp add: send_inv_def new_Message_def isValidId_def FIRST_MNG_ID_def)

lemma allowedActionD:
  "allowedAction p i a \<Longrightarrow> Mng_Ids.isValidId i \<and> a \<in> {GET, SET, COMMAND} \<and>
     mng_allowed i AND push_bit (unat a) 1 \<noteq> 0"
  by (auto simp: allowedAction_def split: if_splits)

lemma verifyTlvD: "verifyTlv i d \<Longrightarrow> \<exists>t. d = Some t \<and> tlv_type t = i"
  by (auto simp: verifyTlv_def split: option.splits if_splits)

lemma send_inv_setAction:
  assumes "send_inv m"
  shows "send_inv (snd (setAction a i d m))"
proof (cases "allowedAction (m_prms m) i a")
  case True
  note a = allowedActionD [OF True]
  show ?thesis
  proof (cases "i \<noteq> NULL_PTP_MANAGEMENT \<and> a \<noteq> GET \<and> mng_size i \<noteq> 0")
    case data: True
    then show ?thesis
      using a True assms verifyTlvD [of i d]
      by (cases "verifyTlv i d") (auto simp: setAction_def send_inv_def)
  next
    case False
    then show ?thesis
      using a True by (auto simp: setAction_def send_inv_def)
  qed
qed (use assms in \<open>simp add: setAction_def\<close>)

lemma send_inv_clearData: "send_inv m \<Longrightarrow> send_inv (clearData m)"
  by (auto simp: clearData_def send_inv_def)

lemma send_inv_updateParams: "send_inv m \<Longrightarrow> send_inv (snd (updateParams p m))"
  by (cases "transportSpecific p > 0xf") (simp_all add: updateParams_def send_inv_def split: option.splits)

lemma send_inv_data:
  assumes "send_inv m" "m_dataSend m = Some t"
  shows "tlv_type t = m_tlv_id m" "tlv_type t \<noteq> SMPTE_MNG_ID" "tlv_type t \<noteq> CLOCK_DESCRIPTION"
    "m_sendAction m \<noteq> GET"
proof -
  show *: "tlv_type t = m_tlv_id m" and "m_sendAction m \<noteq> GET"
    using assms by (auto simp: send_inv_def)
  show "tlv_type t \<noteq> SMPTE_MNG_ID"
    using assms * by (auto simp: send_inv_def isValidId_def)
  show "tlv_type t \<noteq> CLOCK_DESCRIPTION"
    using assms * by (auto simp: send_inv_def mng_allowed_def allow_bits action_defs)
qed

subsection \<open>The image of a message\<close>

definition round_even :: "int \<Rightarrow> int" where
  "round_even n = (if odd n then n + 1 else n)"

text \<open>The dataField of a GET that does not use an empty one.\<close>

definition get_size :: "mng_vals_e \<Rightarrow> nat" where
  "get_size i = nat (round_even (if mng_size i = - 2 then dataFieldSize i None else mng_size i))"

definition data_image :: "Message \<Rightarrow> octets" where
  "data_image m =
     (case m_dataSend m of
        Some t \<Rightarrow> even_pad (enc_tlv t)
      | None \<Rightarrow> if m_sendAction m = GET \<and> \<not> useZeroGet (m_prms m)
          then replicate (get_size (m_tlv_id m)) 0 else [])"

definition msg_image :: "Message \<Rightarrow> uint16_t \<Rightarrow> octets" where
  "msg_image m sequence =
     pack_managementMessage ((build_header m sequence)\<lparr>messageLength :=
       of_nat (mngMsgBaseSize + length (data_image m) + addAuth m)\<rparr>) @
     cpu_to_net MANAGEMENT @
     cpu_to_net (of_nat (lengthFieldMngBase + length (data_image m)) :: uint16_t) @
     cpu_to_net (mng_value (m_tlv_id m)) @ data_image m"

text \<open>The data of the message has a wire image, its port identities are eight octets.\<close>

definition msg_valid :: "Message \<Rightarrow> bool" where
  "msg_valid m \<longleftrightarrow> send_inv m \<and> (\<forall>t. m_dataSend m = Some t \<longrightarrow> valid_tlv t) \<and>
     valid_PortIdentity (target (m_prms m)) \<and> valid_PortIdentity (self_id (m_prms m))"

lemma get_size_ok:
  assumes "Mng_Ids.isValidId i"
  shows "(if mng_size i = - 2 then dataFieldSize i None else mng_size i) \<ge> 0" "even (get_size i)"
proof -
  show *: "(if mng_size i = - 2 then dataFieldSize i None else mng_size i) \<ge> 0"
    using assms
    by (cases i) (simp_all add: mng_size_def dataFieldSize_def tlv_s_def isValidId_def)
  then show "even (get_size i)"
    by (auto simp: get_size_def round_even_def even_nat_iff)
qed

lemma even_data_image: "send_inv m \<Longrightarrow> even (length (data_image m))"
  using get_size_ok(2) [of "m_tlv_id m"]
  by (auto simp: data_image_def send_inv_def even_pad_def split: option.splits)

subsection \<open>The dataField\<close>

lemma build_dataField_get:
  assumes "Mng_Ids.isValidId (m_tlv_id m)" "m_dataSend m = None"
  shows "build_dataField m mp =
    (if m_sendAction m = GET \<and> \<not> useZeroGet (m_prms m) \<and> mng_size (m_tlv_id m) \<noteq> 0
     then if m_left mp < int (get_size (m_tlv_id m)) then (MNG_PARSE_ERROR_TOO_SMALL, m, mp)
          else (MNG_PARSE_ERROR_OK, m, put (replicate (get_size (m_tlv_id m)) 0) mp)
     else (MNG_PARSE_ERROR_OK, m, mp))"
proof -
  define sz where "sz = (if mng_size (m_tlv_id m) = - 2 then dataFieldSize (m_tlv_id m) None
    else mng_size (m_tlv_id m))"
  have "0 \<le> sz" and "get_size (m_tlv_id m) = nat (if odd sz then sz + 1 else sz)"
    using get_size_ok(1) [OF assms(1)] by (simp_all add: get_size_def round_even_def sz_def)
  then show ?thesis
    using assms(2)
    by (simp add: build_dataField_def Let_def put_def not_le not_less flip: sz_def)
qed

lemma build_dataField_ok:
  assumes "msg_valid m" "mp_ok mp" "m_size mp = 0"
    and "int (length (data_image m)) \<le> m_left mp"
  shows "\<exists>mp'. build_dataField m mp = (MNG_PARSE_ERROR_OK, m, mp') \<and>
    m_buf mp' = mem_write (m_buf mp) (m_cur mp) (data_image m) \<and>
    m_cur mp' = m_cur mp + length (data_image m) \<and>
    m_left mp' = m_left mp - int (length (data_image m)) \<and> m_size mp' = length (data_image m)"
proof (cases "m_dataSend m")
  case None
  have i: "Mng_Ids.isValidId (m_tlv_id m)" and "m_cur mp \<le> length (m_buf mp)"
    using assms by (simp_all add: msg_valid_def send_inv_def mp_ok_def)
  then show ?thesis
    using None assms
    by (auto simp: build_dataField_get data_image_def get_size_def round_even_def split: if_splits)
next
  case (Some t)
  let ?q = "mp\<lparr>m_build := True, m_err := MNG_PARSE_ERROR_TOO_SMALL\<rparr>"
  note d = send_inv_data [OF _ Some]
  have t: "valid_tlv t" "send_inv m" and ok: "mp_ok ?q"
    using assms Some by (simp_all add: msg_valid_def mp_ok_def)
  have len: "int (length (even_pad (enc_tlv t))) \<le> m_left mp"
    using assms(4) Some by (simp add: data_image_def)
  then have "int (length (enc_tlv t)) \<le> m_left mp"
    by (auto simp: even_pad_def split: if_splits)
  then have "call_tlv_data True (m_tlv_id m) (m_dataSend m) (mp\<lparr>m_build := True\<rparr>) =
      (MNG_PARSE_ERROR_OK, Some t, put (enc_tlv t) ?q)"
    using call_build [of "mp\<lparr>m_build := True\<rparr>" t True] t d Some ok by (simp add: mp_ok_def)
  moreover have "procRes () (put (enc_tlv t) ?q) = (False, (), put [0] (put (enc_tlv t) ?q))"
    if "odd (length (enc_tlv t))"
    using that len ok by (intro wire_step.build [OF wire_procRes]) (simp_all add: even_pad_def)
  moreover have "put [0] (put (enc_tlv t) ?q) = put (enc_tlv t @ [0]) ?q"
    if "odd (length (enc_tlv t))"
    using that len ok by (simp add: even_pad_def)
  ultimately show ?thesis
    using d t Some assms(3) by (auto simp: build_dataField_def data_image_def even_pad_def)
qed

lemma build_dataField_small:
  assumes "msg_valid m" "mp_ok mp" "m_size mp = 0"
    and "m_left mp < int (length (data_image m))"
  shows "fst (build_dataField m mp) = MNG_PARSE_ERROR_TOO_SMALL"
proof (cases "m_dataSend m")
  case None
  have i: "Mng_Ids.isValidId (m_tlv_id m)"
    using assms by (simp add: msg_valid_def send_inv_def)
  then show ?thesis
    using None assms
    by (auto simp: build_dataField_get data_image_def get_size_def round_even_def mp_ok_def
        split: if_splits)
next
  case (Some t)
  let ?q = "mp\<lparr>m_build := True, m_err := MNG_PARSE_ERROR_TOO_SMALL\<rparr>"
  note d = send_inv_data [OF _ Some]
  have t: "valid_tlv t" "send_inv m" and ok: "mp_ok ?q"
    using assms Some by (simp_all add: msg_valid_def mp_ok_def)
  have len: "m_left mp < int (length (even_pad (enc_tlv t)))"
    using assms(4) Some by (simp add: data_image_def)
  show ?thesis
  proof (cases "int (length (enc_tlv t)) \<le> m_left mp")
    case True
    then have "call_tlv_data True (m_tlv_id m) (m_dataSend m) (mp\<lparr>m_build := True\<rparr>) =
        (MNG_PARSE_ERROR_OK, Some t, put (enc_tlv t) ?q)"
      using call_build [of "mp\<lparr>m_build := True\<rparr>" t True] t d Some ok by (simp add: mp_ok_def)
    moreover have "no_room (procRes () (put (enc_tlv t) ?q)) (put (enc_tlv t) ?q)"
      using True len ok
      by (intro wire_step.build_small [OF wire_procRes [where R = "\<lambda>_. True"]])
        (auto simp: even_pad_def split: if_splits)
    moreover have "odd (length (enc_tlv t))"
      using True len by (auto simp: even_pad_def split: if_splits)
    ultimately show ?thesis
      using d t Some assms(3) by (auto simp: build_dataField_def no_room_def split: prod.splits)
  next
    case False
    then have "fst (call_tlv_data True (m_tlv_id m) (m_dataSend m) (mp\<lparr>m_build := True\<rparr>)) =
        MNG_PARSE_ERROR_TOO_SMALL"
      using call_build_small [of "mp\<lparr>m_build := True\<rparr>" t True] t d Some ok by (simp add: mp_ok_def)
    then show ?thesis
      using d t Some by (auto simp: build_dataField_def Let_def split: prod.splits)
  qed
qed

subsection \<open>The message\<close>

lemma mem_write_at:
  "\<lbrakk>n = length as; length bs' = length bs\<rbrakk> \<Longrightarrow> mem_write (as @ bs @ cs) n bs' = as @ bs' @ cs"
  by (simp add: mem_write_def)

lemma split_at:
  assumes "n \<le> length xs"
  obtains as bs where "xs = as @ bs" "length as = n"
  using assms by (metis append_take_drop_id length_take min.absorb2)

lemma length_pack_managementMessage:
  "\<lbrakk>valid_PortIdentity (sourcePortIdentity h); valid_PortIdentity (targetPortIdentity h)\<rbrakk>
   \<Longrightarrow> length (pack_managementMessage h) = 48"
  by (simp add: pack_managementMessage_def pack_PortIdentity_def valid_PortIdentity_def
      valid_ClockIdentity_def)

text \<open>The header around its length field.\<close>

lemma pack_header_split:
  obtains a b where "length a = 2"
    "\<And>l. pack_managementMessage ((build_header m sq)\<lparr>messageLength := l\<rparr>) = a @ cpu_to_net l @ b"
    "pack_managementMessage (build_header m sq) = a @ cpu_to_net (0 :: uint16_t) @ b"
  using that [of "[messageType_majorSdoId (build_header m sq), versionPTP (build_header m sq)]"]
  by (simp add: pack_managementMessage_def build_header_def Let_def)

lemma length_msg_image:
  "msg_valid m \<Longrightarrow> length (msg_image m sq) = mngMsgBaseSize + length (data_image m)"
  by (simp add: msg_image_def length_pack_managementMessage msg_valid_def build_header_def Let_def
      msg_sizes)

text \<open>
  The buffer before the authentication: the image of the message, with the message length
  still zero.
\<close>

definition pre_image :: "Message \<Rightarrow> uint16_t \<Rightarrow> octets" where
  "pre_image m sq =
     pack_managementMessage (build_header m sq) @ cpu_to_net MANAGEMENT @
     cpu_to_net (of_nat (lengthFieldMngBase + length (data_image m)) :: uint16_t) @
     cpu_to_net (mng_value (m_tlv_id m)) @ data_image m"

lemma length_pre_image:
  "msg_valid m \<Longrightarrow> length (pre_image m sq) = mngMsgBaseSize + length (data_image m)"
  by (simp add: pre_image_def length_pack_managementMessage msg_valid_def build_header_def Let_def
      msg_sizes)

lemma set_length_pre_image:
  "mem_write (pre_image m sq @ r) 2
     (cpu_to_net (of_nat (mngMsgBaseSize + length (data_image m) + addAuth m) :: uint16_t)) =
   msg_image m sq @ r"
proof -
  obtain a b where ab: "length a = 2"
    "\<And>l. pack_managementMessage ((build_header m sq)\<lparr>messageLength := l\<rparr>) = a @ cpu_to_net l @ b"
    "pack_managementMessage (build_header m sq) = a @ cpu_to_net (0 :: uint16_t) @ b"
    using pack_header_split [of m sq] by blast
  show ?thesis
    unfolding pre_image_def msg_image_def ab(2,3)
    using mem_write_at [of 2 a] ab(1) by simp
qed

lemma build_split:
  assumes "msg_valid m" "mngMsgBaseSize + length (data_image m) \<le> length buf"
  shows "\<exists>mp. build hl m (Some buf) sq =
      (case build_auth hl m (mngMsgBaseSize + length (data_image m)) mp of
         (err, b, m') \<Rightarrow> (err, Some b, m')) \<and>
    m_buf mp = pre_image m sq @ drop (mngMsgBaseSize + length (data_image m)) buf \<and>
    m_cur mp = mngMsgBaseSize + length (data_image m) \<and>
    m_left mp = int (length buf) - int (mngMsgBaseSize + length (data_image m))"
proof -
  let ?D = "data_image m" and ?P = "pack_managementMessage (build_header m sq)"
  let ?v = "cpu_to_net (mng_value (m_tlv_id m))" and ?t = "cpu_to_net MANAGEMENT"
  let ?l = "cpu_to_net (of_nat (lengthFieldMngBase + length ?D) :: uint16_t)"
  have P: "length ?P = 48"
    using assms(1) by (simp add: length_pack_managementMessage msg_valid_def build_header_def Let_def)
  have len: "54 + length ?D \<le> length buf"
    using assms(2) by (simp add: msg_sizes)
  obtain h x1 x2 x3 d r where buf: "buf = h @ x1 @ x2 @ x3 @ d @ r"
    and h: "length h = 48" "length x1 = 2" "length x2 = 2" "length x3 = 2" "length d = length ?D"
  proof -
    obtain h u where "buf = h @ u" "length h = 48"
      using split_at [of 48 buf] len by auto
    moreover obtain x1 v where "u = x1 @ v" "length x1 = 2"
      using split_at [of 2 u] len calculation by auto
    moreover obtain x2 w where "v = x2 @ w" "length x2 = 2"
      using split_at [of 2 v] len calculation by auto
    moreover obtain x3 x where "w = x3 @ x" "length x3 = 2"
      using split_at [of 2 w] len calculation by auto
    moreover obtain d r where "x = d @ r" "length d = length ?D"
      using split_at [of "length ?D" x] len calculation by auto
    ultimately show thesis
      using that by simp
  qed
  let ?b3 = "?P @ ?t @ x2 @ ?v @ d @ r"
  have b1: "mem_write buf 0 ?P = ?P @ x1 @ x2 @ x3 @ d @ r"
    using mem_write_at [of 0 "[]" ?P h] P h by (simp add: buf)
  have b2: "mem_write (?P @ x1 @ x2 @ x3 @ d @ r) 48 ?t = ?P @ ?t @ x2 @ x3 @ d @ r"
    using mem_write_at [of 48 ?P ?t x1] P h by simp
  have b3: "mem_write (?P @ ?t @ x2 @ x3 @ d @ r) 52 ?v = ?b3"
    using mem_write_at [of 52 "?P @ ?t @ x2" ?v x3] P h by simp
  define mp0 where "mp0 = \<lparr>m_build = False, m_buf = ?b3, m_cur = mngMsgBaseSize,
    m_left = int (length buf - mngMsgBaseSize), m_size = 0, m_err = MNG_PARSE_ERROR_TOO_SMALL\<rparr>"
  have "mp_ok mp0" "m_size mp0 = 0" "int (length ?D) \<le> m_left mp0"
    using P h by (simp_all add: mp0_def mp_ok_def buf msg_sizes)
  then obtain mp where mp: "build_dataField m mp0 = (MNG_PARSE_ERROR_OK, m, mp)"
    "m_buf mp = mem_write ?b3 54 ?D" "m_cur mp = 54 + length ?D"
    "m_left mp = int (length buf - 54) - int (length ?D)" "m_size mp = length ?D"
    using build_dataField_ok [OF assms(1), of mp0] by (auto simp: mp0_def msg_sizes)
  have "m_buf mp = ?P @ ?t @ x2 @ ?v @ ?D @ r"
    using mem_write_at [of 54 "?P @ ?t @ x2 @ ?v" ?D d r] P h mp(2) by simp
  then have b4: "mem_write (m_buf mp) 50 ?l = ?P @ ?t @ ?l @ ?v @ ?D @ r"
    using mem_write_at [of 50 "?P @ ?t" ?l x2] P h by simp
  have "even (length ?D)"
    using assms(1) even_data_image by (simp add: msg_valid_def)
  then have "build hl m (Some buf) sq =
      (case build_auth hl m (mngMsgBaseSize + length ?D)
          (mp\<lparr>m_buf := mem_write (m_buf mp) 50 ?l\<rparr>) of (err, b, m') \<Rightarrow> (err, Some b, m'))"
    using len mp(1,5) b1 b2 b3 by (simp add: build_def Let_def msg_sizes mp0_def of_nat_diff)
  then show ?thesis
    using mp(3,4) b4 h P len
    by (intro exI [of _ "mp\<lparr>m_buf := mem_write (m_buf mp) 50 ?l\<rparr>"])
      (simp add: pre_image_def msg_sizes buf of_nat_diff)
qed

text \<open>
  The authentication TLV and the integrity check value over all the octets before it,
  \<open>None\<close> when the library makes no digest.
\<close>

definition auth_tail :: "hmac_lib \<Rightarrow> Message \<Rightarrow> uint16_t \<Rightarrow> octets option" where
  "auth_tail hl m sq =
     (if m_haveAuth m \<and> sendAuth (m_prms m) then
        let n = mac_size (SaFile_spp (m_sa m) (m_sppID m)) (m_keyID m);
            a = pack_authenticationTlv (of_nat (authTlvSize + n - tlvSizeHdr)) (m_sppID m) (m_keyID m)
        in case m_hmac m of None \<Rightarrow> None
           | Some (t, k) \<Rightarrow> map_option (\<lambda>mac. a @ mac) (hl_digest hl t k (msg_image m sq @ a) n)
      else Some [])"

lemma length_pack_authenticationTlv [simp]: "length (pack_authenticationTlv l s k) = authTlvSize"
  by (simp add: pack_authenticationTlv_def authTlvSize_def)

lemma length_auth_tail:
  "hmac_ok hl \<Longrightarrow> auth_tail hl m sq = Some au \<Longrightarrow> length au = addAuth m"
  by (auto simp: auth_tail_def addAuth_def hmac_ok_def Let_def split: if_splits option.splits)

lemma build_auth_ok:
  assumes hl: "hmac_ok hl" and m: "msg_valid m" and au: "auth_tail hl m sq = Some au"
    and mp: "m_buf mp = pre_image m sq @ r" "m_cur mp = mngMsgBaseSize + length (data_image m)"
      "m_left mp = int (length r)"
    and len: "addAuth m \<le> length r"
  shows "build_auth hl m (mngMsgBaseSize + length (data_image m)) mp =
    (MNG_PARSE_ERROR_OK, msg_image m sq @ au @ drop (addAuth m) r,
     m\<lparr>m_msgLen := length (msg_image m sq @ au)\<rparr>)"
proof (cases "m_haveAuth m \<and> sendAuth (m_prms m)")
  case True
  define n where "n = mac_size (SaFile_spp (m_sa m) (m_sppID m)) (m_keyID m)"
  define a where "a =
    pack_authenticationTlv (of_nat (authTlvSize + n - tlvSizeHdr)) (m_sppID m) (m_keyID m)"
  obtain t k mac where k: "m_hmac m = Some (t, k)"
    and mac: "hl_digest hl t k (msg_image m sq @ a) n = Some mac" "au = a @ mac"
    using au True by (auto simp: auth_tail_def n_def a_def Let_def split: option.splits)
  have la: "length a = authTlvSize" and lm: "length mac = n" and add: "addAuth m = authTlvSize + n"
    using hl mac True by (auto simp: hmac_ok_def a_def addAuth_def n_def)
  obtain u v w where r: "r = u @ v @ w" "length u = authTlvSize" "length v = n"
  proof -
    obtain u x where "r = u @ x" "length u = authTlvSize"
      using split_at [of authTlvSize r] len add by auto
    moreover obtain v w where "x = v @ w" "length v = n"
      using split_at [of n x] len add calculation by auto
    ultimately show thesis
      using that by simp
  qed
  have im: "length (msg_image m sq) = m_cur mp" "length (pre_image m sq) = m_cur mp"
    using length_msg_image [OF m] length_pre_image [OF m] mp(2) by simp_all
  have "m_buf (move authTlvSize (store a mp)) = pre_image m sq @ a @ v @ w"
    using mem_write_at [of "m_cur mp" "pre_image m sq" a u "v @ w"] im la mp(1) r
    by (simp add: store_def)
  then have b1: "mem_write (m_buf (move authTlvSize (store a mp))) 2
      (cpu_to_net (of_nat (mngMsgBaseSize + length (data_image m) + addAuth m) :: uint16_t)) =
    msg_image m sq @ a @ v @ w"
    using set_length_pre_image [of m sq "a @ v @ w"] by simp
  have cur: "m_cur (move authTlvSize (store a mp)) = length (msg_image m sq @ a)"
    using im la by (simp add: store_def)
  have rd: "mem_read (msg_image m sq @ a @ v @ w) 0
      (mngMsgBaseSize + length (data_image m) + addAuth m - n) = msg_image m sq @ a"
    using im mp(2) la add by (simp add: mem_read_def)
  have wr: "mem_write (msg_image m sq @ a @ v @ w) (length (msg_image m sq @ a)) mac =
      msg_image m sq @ a @ mac @ w"
    using mem_write_at [of "length (msg_image m sq @ a)" "msg_image m sq @ a" mac v w] lm r by simp
  show ?thesis
    using True k mac(1) b1 cur rd wr len add mp(2,3) im la lm r
    by (simp add: build_auth_def Let_def mac(2) flip: n_def a_def)
next
  case False
  then show ?thesis
    using au mp set_length_pre_image [of m sq r] length_msg_image [OF m]
    by (auto simp: build_auth_def auth_tail_def addAuth_def)
qed

lemma build_complete:
  assumes hl: "hmac_ok hl" and m: "msg_valid m" and au: "auth_tail hl m sq = Some au"
    and len: "mngMsgBaseSize + length (data_image m) + addAuth m \<le> length buf"
  shows "build hl m (Some buf) sq =
    (MNG_PARSE_ERROR_OK,
     Some (msg_image m sq @ au @ drop (length (msg_image m sq @ au)) buf),
     m\<lparr>m_msgLen := length (msg_image m sq @ au)\<rparr>)"
proof -
  let ?n = "mngMsgBaseSize + length (data_image m)"
  obtain mp where mp: "build hl m (Some buf) sq =
      (case build_auth hl m ?n mp of (err, b, m') \<Rightarrow> (err, Some b, m'))"
    "m_buf mp = pre_image m sq @ drop ?n buf" "m_cur mp = ?n"
    "m_left mp = int (length buf) - int ?n"
    using build_split [OF m, of buf hl sq] len by auto
  have left: "m_left mp = int (length (drop ?n buf))"
    using mp(4) len by (simp add: of_nat_diff)
  have "addAuth m \<le> length (drop ?n buf)"
    using len by simp
  then show ?thesis
    using build_auth_ok [OF hl m au mp(2,3) left] mp(1) length_msg_image [OF m]
      length_auth_tail [OF hl au]
    by (simp add: add.commute)
qed

text \<open>A buffer that is too small is reported.\<close>

lemma build_too_small:
  assumes m: "msg_valid m"
    and len: "length buf < mngMsgBaseSize + length (data_image m) + addAuth m"
  shows "fst (build hl m (Some buf) sq) = MNG_PARSE_ERROR_TOO_SMALL"
proof (cases "mngMsgBaseSize + length (data_image m) \<le> length buf")
  case True
  then obtain mp where "build hl m (Some buf) sq =
      (case build_auth hl m (mngMsgBaseSize + length (data_image m)) mp of
         (err, b, m') \<Rightarrow> (err, Some b, m'))"
    "m_left mp = int (length buf) - int (mngMsgBaseSize + length (data_image m))"
    using build_split [OF m, of buf hl sq] by auto
  then show ?thesis
    using True len by (auto simp: build_auth_def addAuth_def split: if_splits)
next
  case False
  show ?thesis
  proof (cases "length buf < mngMsgBaseSize")
    case small: False
    define b3 where "b3 = mem_write (mem_write (mem_write buf 0
      (pack_managementMessage (build_header m sq))) 48 (cpu_to_net MANAGEMENT)) 52
      (cpu_to_net (mng_value (m_tlv_id m)))"
    define mp0 where "mp0 = \<lparr>m_build = False, m_buf = b3, m_cur = mngMsgBaseSize,
      m_left = int (length buf - mngMsgBaseSize), m_size = 0, m_err = MNG_PARSE_ERROR_TOO_SMALL\<rparr>"
    have "length (pack_managementMessage (build_header m sq)) = 48"
      using m by (simp add: length_pack_managementMessage msg_valid_def build_header_def Let_def)
    then have "length b3 = length buf"
      using small by (simp add: b3_def msg_sizes)
    then have "mp_ok mp0" "m_left mp0 < int (length (data_image m))" "m_size mp0 = 0"
      using small False by (simp_all add: mp0_def mp_ok_def)
    then have "fst (build_dataField m mp0) = MNG_PARSE_ERROR_TOO_SMALL"
      by (intro build_dataField_small [OF m])
    then show ?thesis
      using small by (auto simp: build_def Let_def b3_def mp0_def split: prod.splits)
  qed (simp add: build_def)
qed

subsection \<open>The planned length\<close>

lemma planned_length:
  assumes "msg_valid m"
  shows "getMsgPlanedLen m = int (mngMsgBaseSize + length (data_image m) + addAuth m)"
proof (cases "m_dataSend m")
  case None
  have i: "Mng_Ids.isValidId (m_tlv_id m)"
    and d: "m_sendAction m = GET \<or> m_tlv_id m = NULL_PTP_MANAGEMENT \<or> mng_size (m_tlv_id m) = 0"
    using assms None by (auto simp: msg_valid_def send_inv_def)
  have 0: "mng_size NULL_PTP_MANAGEMENT = 0"
    by (simp add: mng_size_def)
  show ?thesis
    using None i d 0 get_size_ok(1) [OF i]
    by (auto simp: getMsgPlanedLen_def data_image_def get_size_def round_even_def Let_def)
next
  case (Some t)
  have s: "send_inv m" and t: "valid_tlv t"
    using assms Some by (simp_all add: msg_valid_def)
  note d = send_inv_data [OF s Some]
  have i: "Mng_Ids.isValidId (m_tlv_id m)"
    using s by (simp add: send_inv_def)
  show ?thesis
    using planned_size [OF t d(2,3)] d(1,4) i Some
    by (auto simp: getMsgPlanedLen_def data_image_def Let_def)
qed

subsection \<open>Memory\<close>

text \<open>
  For every message, also one whose data has no wire image: \<open>build\<close> stores only inside the
  buffer it is given.
\<close>

definition msg_safe :: "Message \<Rightarrow> bool" where
  "msg_safe m \<longleftrightarrow> (\<forall>t. m_dataSend m = Some t \<longrightarrow> safe_tlv t) \<and>
     safe_PortIdentity (target (m_prms m)) \<and> safe_PortIdentity (self_id (m_prms m))"

lemma advance_build: "mp_ok mp \<Longrightarrow> mp_ok (mp\<lparr>m_build := b\<rparr>)"
  by (simp add: mp_ok_def)

lemma build_dataField_frame:
  assumes "msg_safe m" "mp_ok mp" "build_dataField m mp = (err, m', mp')"
  shows "mp_ok mp' \<and> length (m_buf mp') = length (m_buf mp)"
proof -
  let ?q = "mp\<lparr>m_build := True\<rparr>"
  have call: "mp_ok mp1 \<and> m_build mp1 \<and> length (m_buf mp1) = length (m_buf mp)"
    if "call_tlv_data True (m_tlv_id m) (m_dataSend m) ?q = (e, t, mp1)" for e t mp1
  proof -
    have "advance ?q mp1"
      using that assms(1,2) by (intro call_frame [OF _ _ that]) (auto simp: msg_safe_def mp_ok_def)
    then show ?thesis
      by (simp add: advance_def)
  qed
  have res: "mp_ok mp2 \<and> length (m_buf mp2) = length (m_buf mp1)"
    if "procRes () mp1 = (e, u, mp2)" "mp_ok mp1" for e u mp1 mp2
    using safe_step.frame [OF safe_procRes [where W = "\<lambda>_. True"] that(2) _ that(1)]
    by (simp add: advance_def)
  have zero: "mp_ok (move (nat n) (store (replicate (nat n) 0) mp)) \<and>
      length (m_buf (move (nat n) (store (replicate (nat n) 0) mp))) = length (m_buf mp)"
    if "n \<le> m_left mp" for n
    using that assms(2) by (auto simp: mp_ok_def store_def)
  show ?thesis
    using assms(2,3) call res zero
    by (fastforce simp: build_dataField_def Let_def split: if_splits prod.splits)
qed

lemma build_auth_frame:
  assumes "hmac_ok hl" "mp_ok mp" "4 \<le> length (m_buf mp)" "build_auth hl m n mp = (err, buf, m')"
  shows "length buf = length (m_buf mp)"
proof (cases "m_haveAuth m \<and> sendAuth (m_prms m)")
  case True
  define k where "k = mac_size (SaFile_spp (m_sa m) (m_sppID m)) (m_keyID m)"
  define a where "a =
    pack_authenticationTlv (of_nat (authTlvSize + k - tlvSizeHdr)) (m_sppID m) (m_keyID m)"
  have *: "m_cur mp + (authTlvSize + k) \<le> length (m_buf mp)" if "int (authTlvSize + k) \<le> m_left mp"
    using that assms(2) by (simp add: mp_ok_def)
  have "length a = authTlvSize"
    by (simp add: a_def)
  then show ?thesis
    using assms(1,3,4) True *
    by (auto simp: build_auth_def Let_def store_def hmac_ok_def not_less simp flip: k_def a_def
        split: if_splits option.splits)
qed (use assms in \<open>auto simp: build_auth_def\<close>)

lemma build_frame:
  assumes "hmac_ok hl" "msg_safe m" "build hl m (Some buf) sq = (err, buf', m')"
  shows "\<exists>b. buf' = Some b \<and> length b = length buf"
proof (cases "length buf < mngMsgBaseSize")
  case False
  define b3 where "b3 = mem_write (mem_write (mem_write buf 0
    (pack_managementMessage (build_header m sq))) 48 (cpu_to_net MANAGEMENT)) 52
    (cpu_to_net (mng_value (m_tlv_id m)))"
  define mp0 where "mp0 = \<lparr>m_build = False, m_buf = b3, m_cur = mngMsgBaseSize,
    m_left = int (length buf - mngMsgBaseSize), m_size = 0, m_err = MNG_PARSE_ERROR_TOO_SMALL\<rparr>"
  have "length (pack_managementMessage (build_header m sq)) = 48"
    using assms(2)
    by (simp add: msg_safe_def safe_PortIdentity_def safe_ClockIdentity_def build_header_def Let_def
        pack_managementMessage_def pack_PortIdentity_def)
  then have b3: "length b3 = length buf"
    using False by (simp add: b3_def msg_sizes)
  then have ok: "mp_ok mp0"
    using False by (simp add: mp0_def mp_ok_def)
  obtain e m1 mp where d: "build_dataField m mp0 = (e, m1, mp)"
    by (metis prod_cases3)
  then have mp: "mp_ok mp" "length (m_buf mp) = length buf"
    using build_dataField_frame [OF assms(2) ok d] b3 by (simp_all add: mp0_def)
  define mp1 where "mp1 = mp\<lparr>m_buf := mem_write (m_buf mp) 50
    (cpu_to_net (of_nat (lengthFieldMngBase + m_size mp) :: uint16_t))\<rparr>"
  have len: "54 \<le> length buf"
    using False by (simp add: msg_sizes)
  then have mp1: "mp_ok mp1" "length (m_buf mp1) = length buf"
    using mp by (simp_all add: mp1_def mp_ok_def)
  then have "length b = length buf" if "build_auth hl m1 n mp1 = (e', b, m'')" for n e' b m''
    using build_auth_frame [OF assms(1) _ _ that] len by simp
  moreover have "build hl m (Some buf) sq =
      (if e \<noteq> MNG_PARSE_ERROR_OK then (e, Some (m_buf mp), m1)
       else if odd (mngMsgBaseSize + m_size mp) then (MNG_PARSE_ERROR_SIZE, Some (m_buf mp), m1)
       else (case build_auth hl m1 (mngMsgBaseSize + m_size mp) mp1 of
               (err, buf', m2) \<Rightarrow> (err, Some buf', m2)))"
    using False d by (simp add: build_def Let_def b3_def mp0_def mp1_def)
  ultimately show ?thesis
    using assms(3) mp(2) by (auto split: if_splits prod.splits)
qed (use assms in \<open>auto simp: build_def\<close>)

end
