(* ===== verification/Msg_Parsed.thy ===== *)
theory Msg_Parsed
  imports Msg_Parse Msg_Built Mng_Ids
begin

unbundle bit_operations_syntax

text \<open>
  What \<open>parse\<close> makes of the octets of a management message: the fields of the header, the
  TLV of a reply, and only of the octets it is told to read.
\<close>

subsection \<open>Reading the header\<close>

lemma mem_read_at: "n = length as \<Longrightarrow> k = length bs \<Longrightarrow> mem_read (as @ bs @ cs) n k = bs"
  by (simp add: mem_read_def)

lemma mem_read_skip:
  "length as \<le> n \<Longrightarrow> mem_read (as @ bs) n k = mem_read bs (n - length as) k"
  by (simp add: mem_read_def)

lemma mem_read_head: "k = length bs \<Longrightarrow> mem_read (bs @ cs) 0 k = bs"
  by (simp add: mem_read_def)

lemma mem_read_Cons: "0 < n \<Longrightarrow> mem_read (x # xs) n k = mem_read xs (n - 1) k"
  by (simp add: mem_read_def drop_Cons')

lemmas read_simps = mem_read_skip mem_read_head mem_read_Cons nth_append

lemma rd_header:
  assumes "valid_PortIdentity (sourcePortIdentity h)" "valid_PortIdentity (targetPortIdentity h)"
  shows "rd8 (pack_managementMessage h @ r) 0 = messageType_majorSdoId h"
    "rd8 (pack_managementMessage h @ r) 1 = versionPTP h"
    "rd16 (pack_managementMessage h @ r) 2 = messageLength h"
    "rd8 (pack_managementMessage h @ r) 4 = managementMessage_p.domainNumber h"
    "rd8 (pack_managementMessage h @ r) 5 = minorSdoId h"
    "rd8 (pack_managementMessage h @ r) 6 = fst (flagField h)"
    "rd_PortIdentity (pack_managementMessage h @ r) 20 = sourcePortIdentity h"
    "rd16 (pack_managementMessage h @ r) 30 = sequenceId h"
    "rd8 (pack_managementMessage h @ r) 33 = logMessageInterval h"
    "rd_PortIdentity (pack_managementMessage h @ r) 34 = targetPortIdentity h"
    "rd8 (pack_managementMessage h @ r) 46 = actionField h"
  using assms
  by (simp_all add: rd8_def rd16_def rd_PortIdentity_def pack_managementMessage_def read_simps
      pack_PortIdentity_def valid_PortIdentity_def valid_ClockIdentity_def)

text \<open>
  The octets of a management message with one TLV; the message goes on for \<open>k\<close> octets behind
  them, with an authentication TLV.
\<close>

definition mng_octets :: "managementMessage_p \<Rightarrow> mng_vals_e \<Rightarrow> octets \<Rightarrow> nat \<Rightarrow> octets" where
  "mng_octets h i data k =
     pack_managementMessage (h\<lparr>messageLength := of_nat (mngMsgBaseSize + length data + k)\<rparr>) @
     cpu_to_net MANAGEMENT @ cpu_to_net (of_nat (lengthFieldMngBase + length data) :: uint16_t) @
     cpu_to_net (mng_value i) @ data"

lemma msg_image_octets:
  "msg_image m sq = mng_octets (build_header m sq) (m_tlv_id m) (data_image m) (addAuth m)"
  by (simp add: msg_image_def mng_octets_def)

lemma length_mng_octets:
  "\<lbrakk>valid_PortIdentity (sourcePortIdentity h); valid_PortIdentity (targetPortIdentity h)\<rbrakk>
   \<Longrightarrow> length (mng_octets h i data k) = mngMsgBaseSize + length data"
  by (simp add: mng_octets_def length_pack_managementMessage msg_sizes)

lemma rd_tlv:
  assumes "valid_PortIdentity (sourcePortIdentity h)" "valid_PortIdentity (targetPortIdentity h)"
  shows "rd16 (mng_octets h i data k @ r) 48 = MANAGEMENT"
    "rd16 (mng_octets h i data k @ r) 50 = of_nat (lengthFieldMngBase + length data)"
    "rd16 (mng_octets h i data k @ r) 52 = mng_value i"
    "drop 54 (mng_octets h i data k @ r) = data @ r"
proof -
  have "length (pack_managementMessage
      (h\<lparr>messageLength := of_nat (mngMsgBaseSize + length data + k)\<rparr>)) = 48"
    using assms by (simp add: length_pack_managementMessage)
  then show "rd16 (mng_octets h i data k @ r) 48 = MANAGEMENT"
    "rd16 (mng_octets h i data k @ r) 50 = of_nat (lengthFieldMngBase + length data)"
    "rd16 (mng_octets h i data k @ r) 52 = mng_value i"
    "drop 54 (mng_octets h i data k @ r) = data @ r"
    by (simp_all add: rd16_def mng_octets_def read_simps)
qed

subsection \<open>A reply\<close>

lemma unat_of_nat16: "n < 2 ^ 16 \<Longrightarrow> unat (of_nat n :: uint16_t) = n"
  by (simp add: unsigned_of_nat take_bit_nat_eq_self)

definition reply_header :: "managementMessage_p \<Rightarrow> bool" where
  "reply_header h \<longleftrightarrow>
     messageType_majorSdoId h AND 0xf = Management \<and> versionPTP h AND 0xf = ptp_major_ver \<and>
     logMessageInterval h = logMessageIntervalDef \<and>
     valid_PortIdentity (sourcePortIdentity h) \<and> valid_PortIdentity (targetPortIdentity h)"

text \<open>The message object once the header is read.\<close>

definition rcv_header :: "managementMessage_p \<Rightarrow> Message \<Rightarrow> Message" where
  "rcv_header h m =
     m\<lparr>m_type := Management, m_versionPTP := ptp_major_ver,
       m_minorVersionPTP := drop_bit 4 (versionPTP h),
       m_sdoId := ucast (minorSdoId h) OR push_bit 4 (ucast (messageType_majorSdoId h AND 0xf0)),
       m_domainNumber := managementMessage_p.domainNumber h,
       m_isUnicast := fst (flagField h) AND unicastFlag \<noteq> 0,
       m_PTPProfileSpecific := fst (flagField h) AND (PTPProfileSpecific1 OR PTPProfileSpecific2),
       m_sequence := sequenceId h, m_peer := sourcePortIdentity h,
       m_target := targetPortIdentity h,
       m_sigTlvs := (m_sigTlvs m)\<lparr>m_lastSig := False\<rparr>\<rparr>"

lemma parse_mng_header:
  assumes h: "reply_header h" and n: "mngMsgBaseSize + length data + k < 2 ^ 16"
    and b: "int (mngMsgBaseSize + length data + k) \<le> bufSize"
  shows "parse env m (mng_octets h i data k @ r) bufSize =
    parseMng env
      (rcv_header h m\<lparr>m_sigTlvs := m_sigTlvs m\<rparr>)
      (mng_octets h i data k @ r) (int (mngMsgBaseSize + length data + k))"
proof -
  let ?h = "h\<lparr>messageLength := of_nat (mngMsgBaseSize + length data + k)\<rparr>"
  obtain x where x: "mng_octets h i data k @ r = pack_managementMessage ?h @ x"
    by (simp add: mng_octets_def)
  have "valid_PortIdentity (sourcePortIdentity ?h)" "valid_PortIdentity (targetPortIdentity ?h)"
    using h by (simp_all add: reply_header_def)
  note rd = rd_header [OF this, of x]
  have "unat (messageLength ?h) = mngMsgBaseSize + length data + k"
    using unat_of_nat16 [OF n] by simp
  then show ?thesis
    using h b rd
    by (simp add: parse_def x reply_header_def Let_def msg_sizes parse_header_def rcv_header_def
        Management_def Signaling_def)
qed

lemma view_parse_at: "cur + n \<le> length buf \<Longrightarrow> view (parse_at buf cur n) = take n (drop cur buf)"
  by (simp add: view_def parse_at_def)

lemma mp_ok_parse_at: "mp_ok (parse_at buf cur n) \<longleftrightarrow> cur + n \<le> length buf"
  by (auto simp: mp_ok_def parse_at_def)

lemma parse_management_tlv:
  assumes "valid_tlv t" "tlv_type t = i" "i \<noteq> SMPTE_MNG_ID" "pe_mem env"
    and "findTlvId (rd16 buf 52) (implementSpecific (m_prms m)) = Some i"
    and "action = RESPONSE \<or> action = ACKNOWLEDGE" "checkReplyAction i action"
    and "enc_tlv t \<noteq> []" "drop 54 buf = even_pad (enc_tlv t) @ r"
  shows "parse_management env m buf action (lengthFieldMngBase + length (even_pad (enc_tlv t))) err =
    (err, m\<lparr>m_replyAction := action, m_replayTlv_id := i, m_dataGet := Some t\<rparr>)"
proof -
  let ?n = "length (even_pad (enc_tlv t))"
  obtain p where p: "even_pad (enc_tlv t) = enc_tlv t @ p" "pad p"
    by (cases "odd (length (enc_tlv t))") (auto simp: even_pad_def pad_def)
  have n: "0 < ?n"
    using p assms(8) by simp
  moreover have "length buf - 54 = ?n + length r"
    using arg_cong [OF assms(9), of length] by simp
  then have "54 + ?n \<le> length buf"
    using n by linarith
  then have "view (parse_at buf 54 ?n) = enc_tlv t @ p" "mp_ok (parse_at buf 54 ?n)"
    using view_parse_at [of 54 ?n buf] mp_ok_parse_at [of buf 54 ?n] assms(9) p by simp_all
  then have "\<exists>mp. call_tlv_data True i (pe_uninit env) (parse_at buf 54 ?n) =
      (MNG_PARSE_ERROR_OK, Some t, mp)"
    using call_parse [of "parse_at buf 54 ?n" t p "pe_uninit env"] assms(1-3) p
    by (auto simp: parse_at_def)
  ultimately show ?thesis
    using assms(4-7) by (auto simp: parse_management_def Let_def)
qed

text \<open>The check of the authentication depends on the keys of the message only.\<close>

lemma parseAuth_cong:
  assumes "m_sa m = m_sa m'" "m_sppID m = m_sppID m'" "m_keyID m = m_keyID m'"
    "m_hmac m = m_hmac m'"
  shows "parseAuth hl m buf auth left check = parseAuth hl m' buf auth left check"
  unfolding parseAuth_def Let_def assms ..

text \<open>Either no authentication is asked for, or the message has an accepted one.\<close>

definition auth_passed :: "hmac_lib \<Rightarrow> Message \<Rightarrow> octets \<Rightarrow> nat \<Rightarrow> nat \<Rightarrow> bool" where
  "auth_passed hl m buf auth left \<longleftrightarrow> \<not> m_haveAuth m \<or> rcvAuth (m_prms m) AND RCV_AUTH_MNG = 0 \<or>
     parseAuth hl m buf auth (int left) True = MNG_PARSE_ERROR_OK"

lemma parse_reply:
  assumes h: "reply_header h" and t: "valid_tlv t" "tlv_type t = i" "i \<noteq> SMPTE_MNG_ID"
      "enc_tlv t \<noteq> []"
    and act: "action = 0xf AND actionField h" "action = RESPONSE \<or> action = ACKNOWLEDGE"
      "checkReplyAction i action"
    and spec: "implementSpecific (m_prms m) = linuxptp \<or> mng_allowed i AND A_USE_LINUXPTP = 0"
    and n: "mngMsgBaseSize + length (even_pad (enc_tlv t)) + k < 2 ^ 16"
    and b: "int (mngMsgBaseSize + length (even_pad (enc_tlv t)) + k) \<le> bufSize"
    and env: "pe_mem env" "auth_passed (pe_hmac env) m (mng_octets h i (even_pad (enc_tlv t)) k @ r)
      (mngMsgBaseSize + length (even_pad (enc_tlv t))) k"
  shows "parse env m (mng_octets h i (even_pad (enc_tlv t)) k @ r) bufSize =
    (MNG_PARSE_ERROR_OK,
     rcv_header h m\<lparr>m_mngType := MANAGEMENT, m_replyAction := action, m_replayTlv_id := i,
       m_dataGet := Some t\<rparr>)"
proof -
  let ?D = "even_pad (enc_tlv t)"
  let ?buf = "mng_octets h i ?D k @ r"
  let ?m = "rcv_header h m\<lparr>m_mngType := MANAGEMENT\<rparr>"
  have ids: "valid_PortIdentity (sourcePortIdentity h)" "valid_PortIdentity (targetPortIdentity h)"
    using h by (simp_all add: reply_header_def)
  note rd = rd_tlv [OF ids, of i ?D k r]
  have "\<exists>x. ?buf = pack_managementMessage (h\<lparr>messageLength := of_nat (mngMsgBaseSize + length ?D + k)\<rparr>) @ x"
    by (simp add: mng_octets_def)
  then have a: "rd8 ?buf 46 = actionField h"
    using rd_header(11) [of "h\<lparr>messageLength := of_nat (mngMsgBaseSize + length ?D + k)\<rparr>"] ids by auto
  have len: "unat (rd16 ?buf 50) = lengthFieldMngBase + length ?D"
    using n unat_of_nat16 [of "lengthFieldMngBase + length ?D"] by (simp only: rd(2) msg_sizes)
  have even: "even (length ?D)"
    by (simp add: even_pad_def)
  have keys: "parseAuth hl ?m bf at l c = parseAuth hl m bf at l c" for hl bf at l c
    by (rule parseAuth_cong) (simp_all add: rcv_header_def)
  have "findTlvId (rd16 ?buf 52) (implementSpecific (m_prms m)) = Some i"
    using rd(3) spec t tlv_row [of t] by (auto simp: findTlvId_iff isValidId_row)
  then have "parse_management env ?m ?buf action (lengthFieldMngBase + length ?D)
      MNG_PARSE_ERROR_OK =
    (MNG_PARSE_ERROR_OK, ?m\<lparr>m_replyAction := action, m_replayTlv_id := i, m_dataGet := Some t\<rparr>)"
    using t act env rd(4) by (intro parse_management_tlv) (simp_all add: rcv_header_def)
  moreover have "parseMng env (rcv_header h m\<lparr>m_sigTlvs := m_sigTlvs m\<rparr>) ?buf
      (int (mngMsgBaseSize + length ?D + k)) =
    parse_management env ?m ?buf action (lengthFieldMngBase + length ?D) MNG_PARSE_ERROR_OK"
  proof -
    have m: "(rcv_header h m\<lparr>m_sigTlvs := m_sigTlvs m\<rparr>)\<lparr>m_sigTlvs :=
        (m_sigTlvs (rcv_header h m\<lparr>m_sigTlvs := m_sigTlvs m\<rparr>))\<lparr>m_lastSig := False\<rparr>,
        m_mngType := MANAGEMENT\<rparr> = ?m"
      by (simp add: rcv_header_def)
    have k: "52 + (lengthFieldMngBase + length ?D) = mngMsgBaseSize + length ?D"
      "int (mngMsgBaseSize + length ?D + k) - int mngMsgMinSize - int (lengthFieldMngBase + length ?D) = int k"
      by (simp_all add: msg_sizes)
    have "(if m_haveAuth ?m \<and> rcvAuth (m_prms ?m) AND RCV_AUTH_MNG > 0
        then parseAuth (pe_hmac env) ?m ?buf (mngMsgBaseSize + length ?D) (int k) True
        else MNG_PARSE_ERROR_OK) = MNG_PARSE_ERROR_OK"
      using env(2) unfolding auth_passed_def keys by (auto simp: rcv_header_def)
    moreover have "int (lengthFieldMngBase + length ?D) \<le> int (mngMsgBaseSize + length ?D + k) - int mngMsgMinSize"
      "even (lengthFieldMngBase + length ?D)" "\<not> MANAGEMENT = MANAGEMENT_ERROR_STATUS"
      using even by (simp_all add: msg_sizes MANAGEMENT_def MANAGEMENT_ERROR_STATUS_def)
    ultimately show ?thesis
      unfolding parseMng_def Let_def a len rd(1) act(1) [symmetric] k m using act(2) by auto
  qed
  ultimately show ?thesis
    using parse_mng_header [OF h n b, of env m i r] by simp
qed

end
