(* ===== verification/Msg_Reads.thy ===== *)
theory Msg_Reads
  imports Msg_Parsed
begin

unbundle bit_operations_syntax

text \<open>
  The parser reads only the octets it is told to: two buffers that agree on the first
  \<open>bufSize\<close> octets give the same error and the same message object. A read past them would
  make the result depend on what is there.
\<close>

definition agree :: "nat \<Rightarrow> octets \<Rightarrow> octets \<Rightarrow> bool" where
  "agree n a b \<longleftrightarrow> n \<le> length a \<and> n \<le> length b \<and> take n a = take n b"

lemma agree_rd8: "agree n a b \<Longrightarrow> k < n \<Longrightarrow> rd8 a k = rd8 b k"
  unfolding agree_def rd8_def by (metis nth_take)

lemma agree_read:
  assumes "agree n a b" "k + l \<le> n"
  shows "mem_read a k l = mem_read b k l"
proof -
  have "take l (drop k (take n a)) = take l (drop k (take n b))"
    using assms(1) by (simp add: agree_def)
  then show ?thesis
    using assms(2) by (simp add: mem_read_def drop_take min_absorb1)
qed

lemma agree_rd16: "agree n a b \<Longrightarrow> k + 2 \<le> n \<Longrightarrow> rd16 a k = rd16 b k"
  by (simp add: rd16_def agree_read)

lemma agree_rd32: "agree n a b \<Longrightarrow> k + 4 \<le> n \<Longrightarrow> rd32 a k = rd32 b k"
  by (simp add: rd32_def agree_read)

lemma agree_rd_PortIdentity:
  "agree n a b \<Longrightarrow> k + 10 \<le> n \<Longrightarrow> rd_PortIdentity a k = rd_PortIdentity b k"
  by (simp add: rd_PortIdentity_def agree_rd16 agree_read)

lemma agree_same_view:
  assumes "agree n a b" "k + l \<le> n"
  shows "same_view (parse_at a k l) (parse_at b k l)"
proof -
  have "view (parse_at a k l) = view (parse_at b k l)"
    using agree_read [OF assms] assms by (simp add: view_parse_at agree_def mem_read_def)
  then show ?thesis
    using assms by (simp add: same_view_def mp_ok_parse_at agree_def) (simp add: parse_at_def)
qed

text \<open>The contract of memory in the form its clients use here.\<close>

context safe_step
begin

lemma reads_ex:
  assumes "same_view mp mq"
  shows "\<exists>e t mp1 mp2. p d mp = (e, t, mp1) \<and> p d mq = (e, t, mp2) \<and> m_err mp1 = m_err mp2 \<and>
    same_view mp1 mp2"
proof -
  obtain e t mp1 where 1: "p d mp = (e, t, mp1)"
    by (rule prod_cases3)
  obtain f u mp2 where 2: "p d mq = (f, u, mp2)"
    by (rule prod_cases3)
  show ?thesis
    using reads [OF assms 1 2] 1 2 by (auto simp: same_view_def)
qed

end

subsection \<open>Management messages\<close>

lemma parseAuth_reads:
  assumes "agree n a b" "int k + left \<le> int n"
  shows "parseAuth hl m a k left c = parseAuth hl m b k left c"
proof (cases "left < int authTlvSize")
  case False
  then have k: "k + 10 \<le> n" and left: "10 \<le> left"
    using assms(2) by (simp_all add: authTlvSize_def)
  have rd: "rd16 a k = rd16 b k" "rd16 a (k + 2) = rd16 b (k + 2)" "rd8 a (k + 4) = rd8 b (k + 4)"
    "rd8 a (k + 5) = rd8 b (k + 5)" "rd32 a (k + 6) = rd32 b (k + 6)"
    "mem_read a 0 (k + authTlvSize) = mem_read b 0 (k + authTlvSize)"
    using k by (simp_all add: agree_rd16 [OF assms(1)] agree_rd8 [OF assms(1)]
        agree_rd32 [OF assms(1)] agree_read [OF assms(1)] authTlvSize_def)
  have icv: "mem_read a (k + authTlvSize) (len - authTlvSize) =
      mem_read b (k + authTlvSize) (len - authTlvSize)" if "int len \<le> left" for len
    using that assms(2) k by (intro agree_read [OF assms(1)]) (simp add: authTlvSize_def)
  define len where "len = (if c then unat (rd16 b (k + 2)) + tlvSizeHdr else nat left)"
  show ?thesis
  proof (cases "c \<and> int len > left")
    case True
    then show ?thesis
      unfolding parseAuth_def Let_def rd len_def [symmetric] by (simp only: simp_thms if_True if_cancel)
  next
    case fit: False
    then have "int len \<le> left"
      using left by (auto simp: len_def)
    then show ?thesis
      unfolding parseAuth_def Let_def rd len_def [symmetric]
      using icv [of len] by (simp only:)
  qed
qed (simp add: parseAuth_def)

lemma parse_management_reads:
  assumes "agree n a b" "52 + k \<le> n"
  shows "parse_management env m a act k err = parse_management env m b act k err"
proof (cases "k < lengthFieldMngBase")
  case False
  then have k: "2 \<le> k"
    by (simp add: msg_sizes)
  have rd: "rd16 a 52 = rd16 b 52"
    using assms k by (intro agree_rd16 [OF assms(1)]) simp
  let ?l = "k - lengthFieldMngBase"
  have v: "same_view (parse_at a 54 ?l) (parse_at b 54 ?l)"
    using assms(2) k by (intro agree_same_view [OF assms(1)]) (simp add: msg_sizes)
  show ?thesis
  proof (cases "findTlvId (rd16 b 52) (implementSpecific (m_prms m))")
    case (Some i)
    let ?c = "call_tlv_data (pe_mem env) i (pe_uninit env)"
    obtain e t mp1 mp2 where "?c (parse_at a 54 ?l) = (e, t, mp1)" "?c (parse_at b 54 ?l) = (e, t, mp2)"
      using call_reads [OF v] by (metis prod_cases3)
    then show ?thesis
      using Some rd by (simp add: parse_management_def Let_def)
  qed (simp add: parse_management_def Let_def rd)
qed (simp add: parse_management_def)

lemma parse_error_status_reads:
  assumes "agree n a b" "52 + k \<le> n"
  shows "parse_error_status m a act k err = parse_error_status m b act k err"
proof (cases "k < sizeof_managementErrorTLV")
  case False
  then have k: "8 \<le> k"
    by (simp add: msg_sizes)
  have rd: "rd16 a 52 = rd16 b 52" "rd16 a 54 = rd16 b 54"
    using assms k by (simp_all add: agree_rd16 [OF assms(1)])
  let ?l = "k - sizeof_managementErrorTLV"
  have v: "same_view (parse_at a 60 ?l) (parse_at b 60 ?l)"
    using assms(2) k by (intro agree_same_view [OF assms(1)]) (simp add: msg_sizes)
  obtain e t mp1 mp2 where "proc_PTPText (m_errorDisplay m) (parse_at a 60 ?l) = (e, t, mp1)"
    "proc_PTPText (m_errorDisplay m) (parse_at b 60 ?l) = (e, t, mp2)"
    using safe_step.reads_ex [OF safe_proc_PTPText v] by blast
  then show ?thesis
    by (simp add: parse_error_status_def Let_def rd split: option.splits)
qed (simp add: parse_error_status_def)

lemma parse_smpte_reads:
  assumes "agree n a b" "52 + k \<le> n"
  shows "parse_smpte env m a act k err = parse_smpte env m b act k err"
proof -
  have v: "same_view (parse_at a 52 k) (parse_at b 52 k)"
    using assms by (intro agree_same_view)
  let ?f = "SMPTE_ORGANIZATION_EXTENSION_f new_SMPTE_ORGANIZATION_EXTENSION"
  obtain e t mp1 mp2 where "?f (parse_at a 52 k) = (e, t, mp1)" "?f (parse_at b 52 k) = (e, t, mp2)"
    "m_err mp1 = m_err mp2"
    using safe_step.reads_ex [OF safe_SMPTE_ORGANIZATION_EXTENSION_f v] by blast
  then show ?thesis
    by (simp add: parse_smpte_def Let_def)
qed

lemma parseMng_reads:
  assumes "agree n a b" "msgSize \<le> int n" "52 \<le> msgSize"
  shows "parseMng env m a msgSize = parseMng env m b msgSize"
proof -
  have rd: "rd8 a 46 = rd8 b 46" "rd16 a 48 = rd16 b 48" "rd16 a 50 = rd16 b 50"
    using assms by (simp_all add: agree_rd8 [OF assms(1)] agree_rd16 [OF assms(1)])
  let ?k = "unat (rd16 b 50)" and ?left = "msgSize - int mngMsgMinSize"
  show ?thesis
  proof (cases "?left < int ?k \<or> odd ?k")
    case True
    then show ?thesis
      by (simp add: parseMng_def Let_def rd)
  next
    case False
    then have "int ?k \<le> ?left"
      by simp
    then have k: "52 + ?k \<le> n"
      using assms(2) unfolding msg_sizes by linarith
    have "parseAuth hl m' a (52 + ?k) (?left - int ?k) True =
        parseAuth hl m' b (52 + ?k) (?left - int ?k) True" for hl m'
      using assms(2) by (intro parseAuth_reads [OF assms(1)]) (simp add: msg_sizes)
    then show ?thesis
      unfolding parseMng_def Let_def rd parse_management_reads [OF assms(1) k]
        parse_error_status_reads [OF assms(1) k] parse_smpte_reads [OF assms(1) k]
      by (simp only:)
  qed
qed

subsection \<open>Signaling messages\<close>

text \<open>Two cursors at the same place of buffers that agree on all they may read.\<close>

definition sim :: "nat \<Rightarrow> MsgProc \<Rightarrow> MsgProc \<Rightarrow> bool" where
  "sim n mp mq \<longleftrightarrow>
     \<not> m_build mp \<and> \<not> m_build mq \<and> agree n (m_buf mp) (m_buf mq) \<and> m_cur mp = m_cur mq \<and>
     m_left mp = m_left mq \<and> m_size mp = m_size mq \<and> m_err mp = m_err mq"

definition fits :: "nat \<Rightarrow> MsgProc \<Rightarrow> bool" where
  "fits n mp \<longleftrightarrow> 0 \<le> m_left mp \<and> int (m_cur mp) + m_left mp \<le> int n"

lemma sim_same_view:
  assumes "sim n mp mq" "fits n mp"
  shows "same_view mp mq"
proof -
  have "mem_read (m_buf mp) (m_cur mp) (nat (m_left mp)) =
      mem_read (m_buf mq) (m_cur mp) (nat (m_left mp))"
    using assms by (intro agree_read [of n]) (auto simp: sim_def fits_def)
  then show ?thesis
    using assms by (auto simp: same_view_def sim_def fits_def mp_ok_def view_def mem_read_def agree_def)
qed

lemma sim_ok: "sim n mp mq \<Longrightarrow> fits n mp \<Longrightarrow> mp_ok mp \<and> mp_ok mq"
  using sim_same_view by (auto simp: same_view_def)

lemma sim_advance:
  assumes "sim n mp mq" "advance mp mp'" "advance mq mq'" "same_view mp' mq'"
  shows "sim n mp' mq'" "int (m_cur mp') + m_left mp' = int (m_cur mp) + m_left mp" "0 \<le> m_left mp'"
proof -
  have p: "m_left mp' = m_left mp - int (m_cur mp' - m_cur mp)" "m_cur mp \<le> m_cur mp'"
    and q: "m_left mq' = m_left mq - int (m_cur mq' - m_cur mq)" "m_cur mq \<le> m_cur mq'"
    using assms(2,3) by (simp_all add: advance_def)
  then show sum: "int (m_cur mp') + m_left mp' = int (m_cur mp) + m_left mp"
    by simp
  have "m_left mp' = m_left mq'" "m_size mp' = m_size mq'" "m_err mp' = m_err mq'"
    "\<not> m_build mp'" "\<not> m_build mq'" and ok: "mp_ok mp'"
    using assms(4) by (simp_all add: same_view_def)
  moreover have "m_cur mp = m_cur mq" "m_left mp = m_left mq"
    using assms(1) by (simp_all add: sim_def)
  moreover have "m_buf mp' = m_buf mp" "m_buf mq' = m_buf mq"
    using assms(1-3) by (simp_all add: advance_def sim_def)
  moreover have "m_cur mp' = m_cur mq'"
    using p q calculation by linarith
  ultimately show "sim n mp' mq'"
    using assms(1) by (simp add: sim_def)
  show "0 \<le> m_left mp'"
    using ok by (simp add: mp_ok_def)
qed

text \<open>Two results of reading a TLV that match.\<close>

fun match :: "nat \<Rightarrow> int \<Rightarrow> MNG_PARSE_ERROR_e + 'b \<times> MsgProc \<Rightarrow> MNG_PARSE_ERROR_e + 'b \<times> MsgProc
    \<Rightarrow> bool" where
  "match n k (Inl e) (Inl f) \<longleftrightarrow> e = f"
| "match n k (Inr (t, mp)) (Inr (u, mq)) \<longleftrightarrow>
     t = u \<and> sim n mp mq \<and> 0 \<le> m_left mp \<and> int (m_cur mp) + m_left mp = k"
| "match n k _ _ \<longleftrightarrow> False"

lemma caseBuild_reads:
  assumes p: "safe_step p W" and s: "sim n mp mq" "fits n mp"
  shows "match n (int (m_cur mp) + m_left mp) (caseBuild env new p c mp) (caseBuild env new p c mq)"
proof -
  obtain e t mp1 mp2 where r: "p new mp = (e, t, mp1)" "p new mq = (e, t, mp2)"
    "m_err mp1 = m_err mp2" "same_view mp1 mp2"
    using safe_step.reads_ex [OF p sim_same_view [OF s], of new] by blast
  have b: "\<not> m_build mp" "\<not> m_build mq"
    using s by (simp_all add: sim_def)
  have "advance mp mp1" "advance mq mp2"
    using safe_step.frame [OF p _ _ r(1)] safe_step.frame [OF p _ _ r(2)] sim_ok [OF s] b by auto
  then show ?thesis
    using sim_advance [OF s(1) _ _ r(4)] r by (simp add: caseBuild_def)
qed

lemma sim_rd16: "sim n mp mq \<Longrightarrow> m_cur mp + k + 2 \<le> n \<Longrightarrow>
    rd16 (m_buf mp) (m_cur mp + k) = rd16 (m_buf mq) (m_cur mq + k)"
  using agree_rd16 [of n "m_buf mp" "m_buf mq" "m_cur mp + k"] by (simp add: sim_def)

lemma sim_skip:
  "sim n mp mq \<Longrightarrow> fits n mp \<Longrightarrow> int k \<le> m_left mp \<Longrightarrow>
   sim n (mp\<lparr>m_cur := m_cur mp + k, m_left := m_left mp - int k\<rparr>)
         (mq\<lparr>m_cur := m_cur mq + k, m_left := m_left mq - int k\<rparr>) \<and>
   fits n (mp\<lparr>m_cur := m_cur mp + k, m_left := m_left mp - int k\<rparr>)"
  by (simp add: sim_def fits_def)

lemma sig_error_status_reads:
  assumes s: "sim n mp mq" "fits n mp"
  shows "match n (int (m_cur mp) + m_left mp) (sig_error_status env m mp) (sig_error_status env m mq)"
proof (cases "m_left mp < int sizeof_managementErrorTLV")
  case True
  then show ?thesis
    using s(1) by (simp add: sig_error_status_def sim_def)
next
  case False
  let ?p = "mp\<lparr>m_cur := m_cur mp + sizeof_managementErrorTLV,
    m_left := m_left mp - int sizeof_managementErrorTLV\<rparr>"
  let ?q = "mq\<lparr>m_cur := m_cur mq + sizeof_managementErrorTLV,
    m_left := m_left mq - int sizeof_managementErrorTLV\<rparr>"
  have s': "sim n ?p ?q" "fits n ?p"
    using sim_skip [OF s, of sizeof_managementErrorTLV] False by simp_all
  have "m_cur mp + 8 \<le> n"
    using s(2) False by (simp add: fits_def msg_sizes)
  then have rd: "rd16 (m_buf mp) (m_cur mp) = rd16 (m_buf mq) (m_cur mq)"
    "rd16 (m_buf mp) (m_cur mp + 2) = rd16 (m_buf mq) (m_cur mq + 2)"
    using sim_rd16 [OF s(1), of 0] sim_rd16 [OF s(1), of 2] by simp_all
  obtain e t mp1 mp2 where r: "proc_PTPText zero_PTPText ?p = (e, t, mp1)"
    "proc_PTPText zero_PTPText ?q = (e, t, mp2)" "same_view mp1 mp2"
    using safe_step.reads_ex [OF safe_proc_PTPText sim_same_view [OF s'], of zero_PTPText] by blast
  have "advance ?p mp1" "advance ?q mp2"
    using safe_step.frame [OF safe_proc_PTPText _ _ r(1)] safe_step.frame [OF safe_proc_PTPText _ _ r(2)]
      sim_ok [OF s'] by auto
  note a = sim_advance [OF s'(1) this r(3)]
  have "m_left mp = m_left mq"
    using s(1) by (simp add: sim_def)
  then show ?thesis
    using False r(1,2) a s s' rd
    by (simp add: sig_error_status_def Let_def fits_def split: option.splits)
qed

lemma sig_management_reads:
  assumes s: "sim n mp mq" "fits n mp"
  shows "match n (int (m_cur mp) + m_left mp) (sig_management env m mp) (sig_management env m mq)"
proof (cases "m_left mp < 2")
  case True
  then show ?thesis
    using s(1) by (simp add: sig_management_def sim_def)
next
  case False
  let ?p = "mp\<lparr>m_cur := m_cur mp + 2, m_left := m_left mp - 2\<rparr>"
  let ?q = "mq\<lparr>m_cur := m_cur mq + 2, m_left := m_left mq - 2\<rparr>"
  have s': "sim n ?p ?q" "fits n ?p"
    using sim_skip [OF s, of 2] False by simp_all
  have rd: "rd16 (m_buf mp) (m_cur mp) = rd16 (m_buf mq) (m_cur mq)"
    using sim_rd16 [OF s(1), of 0] s(2) False by (simp add: fits_def)
  have call: "\<exists>e t mp1 mp2. call_tlv_data (pe_mem env) i (pe_uninit env) ?p = (e, t, mp1) \<and>
      call_tlv_data (pe_mem env) i (pe_uninit env) ?q = (e, t, mp2) \<and> sim n mp1 mp2 \<and>
      0 \<le> m_left mp1 \<and> int (m_cur mp1) + m_left mp1 = int (m_cur mp) + m_left mp" for i
  proof -
    obtain e t mp1 where 1: "call_tlv_data (pe_mem env) i (pe_uninit env) ?p = (e, t, mp1)"
      by (rule prod_cases3)
    obtain f u mp2 where 2: "call_tlv_data (pe_mem env) i (pe_uninit env) ?q = (f, u, mp2)"
      by (rule prod_cases3)
    have b: "\<not> m_build ?p" "\<not> m_build ?q"
      using s by (simp_all add: sim_def)
    have "advance ?p mp1" "advance ?q mp2"
      using call_frame [OF _ _ 1] call_frame [OF _ _ 2] sim_ok [OF s'] b by blast+
    then show ?thesis
      using call_reads [OF sim_same_view [OF s'] 1 2] 1 2 sim_advance [OF s'(1), of mp1 mp2] by auto
  qed
  have left: "m_left mp = m_left mq"
    using s(1) by (simp add: sim_def)
  show ?thesis
  proof (cases "findTlvId (rd16 (m_buf mq) (m_cur mq)) (implementSpecific (m_prms m))")
    case None
    then show ?thesis
      using False s rd left by (simp add: sig_management_def fits_def)
  next
    case (Some i)
    then show ?thesis
      using False s rd left call [of i] by (auto simp: sig_management_def fits_def)
  qed
qed

lemma sig_tlv_reads:
  assumes "sim n mp mq" "fits n mp"
  shows "match n (int (m_cur mp) + m_left mp) (sig_tlv env m ty mp) (sig_tlv env m ty mq)"
proof -
  have "match n (int (m_cur mp) + m_left mp)
      (Inr (None, mp) :: MNG_PARSE_ERROR_e + BaseSigTlv option \<times> MsgProc) (Inr (None, mq))"
    using assms by (simp add: fits_def)
  then show ?thesis
    unfolding sig_tlv_def
    using assms sig_management_reads [OF assms] sig_error_status_reads [OF assms]
    by (simp add: caseBuild_reads [OF safe_ORGANIZATION_EXTENSION_f]
        caseBuild_reads [OF safe_PATH_TRACE_f]
        caseBuild_reads [OF safe_ALTERNATE_TIME_OFFSET_INDICATOR_f]
        caseBuild_reads [OF safe_ENHANCED_ACCURACY_METRICS_f] caseBuild_reads [OF safe_L1_SYNC_f]
        caseBuild_reads [OF safe_PORT_COMMUNICATION_AVAILABILITY_f]
        caseBuild_reads [OF safe_PROTOCOL_ADDRESS_f]
        caseBuild_reads [OF safe_SLAVE_RX_SYNC_TIMING_DATA_f]
        caseBuild_reads [OF safe_SLAVE_RX_SYNC_COMPUTED_DATA_f]
        caseBuild_reads [OF safe_SLAVE_TX_EVENT_TIMESTAMPS_f]
        caseBuild_reads [OF safe_CUMULATIVE_RATE_RATIO_f]
        caseBuild_reads [OF safe_SLAVE_DELAY_TIMING_DATA_NP_f])
qed

text \<open>
  Two states of the loop that match: the octets that are still to be read and the last
  authentication TLV lie inside the part the buffers agree on. After an authentication TLV
  the cursor is behind the octets accounted for, so there may be more room than accounted.
\<close>

definition sim_loop :: "nat \<Rightarrow> sig_loop \<Rightarrow> sig_loop \<Rightarrow> bool" where
  "sim_loop n st su \<longleftrightarrow>
     sl_msg st = sl_msg su \<and> sim n (sl_mp st) (sl_mp su) \<and> sl_leftAll st = sl_leftAll su \<and>
     sl_lastTlv st = sl_lastTlv su \<and> sl_lastAuth st = sl_lastAuth su \<and>
     sl_lastAuthLen st = sl_lastAuthLen su \<and> sl_errAuth st = sl_errAuth su \<and>
     int (m_cur (sl_mp st)) + sl_leftAll st \<le> int n \<and>
     sl_lastAuth st + unat (sl_lastAuthLen st) \<le> n"

fun match_loop :: "nat \<Rightarrow> MNG_PARSE_ERROR_e \<times> Message + sig_loop \<Rightarrow>
    MNG_PARSE_ERROR_e \<times> Message + sig_loop \<Rightarrow> bool" where
  "match_loop n (Inl r) (Inl s) \<longleftrightarrow> r = s"
| "match_loop n (Inr st) (Inr su) \<longleftrightarrow> sim_loop n st su"
| "match_loop n _ _ \<longleftrightarrow> False"

lemma alen_le: "unat ((len :: uint16_t) + of_nat tlvSizeHdr) \<le> unat len + 4"
  by (simp add: tlvSizeHdr_def unat_word_ariths)

lemma sim_move: "sim n mp mq \<Longrightarrow> sim n (mp\<lparr>m_cur := c\<rparr>) (mq\<lparr>m_cur := c\<rparr>)"
  by (simp add: sim_def)

text \<open>The three ways a round goes on.\<close>

lemma sig_body_auth_reads:
  assumes ag: "agree n a b" and s: "sim_loop n st su"
    and fit: "int (unat len) \<le> sl_leftAll st - int tlvSizeHdr"
  shows "match_loop n (sig_body env a st AUTHENTICATION len) (sig_body env b su AUTHENTICATION len)"
proof -
  define c where "c = m_cur (sl_mp st)"
  define al where "al = len + of_nat tlvSizeHdr"
  have eq: "m_cur (sl_mp su) = c" "sl_msg su = sl_msg st" "sl_leftAll su = sl_leftAll st"
    "sl_lastAuth su = sl_lastAuth st" "sl_lastAuthLen su = sl_lastAuthLen st"
    "sl_errAuth su = sl_errAuth st"
    and sim: "sim n (sl_mp st) (sl_mp su)"
    and left: "int c + sl_leftAll st \<le> int n"
    using s by (simp_all add: sim_loop_def sim_def c_def)
  have la: "sl_lastAuth st + unat (sl_lastAuthLen st) \<le> n"
    using s unfolding sim_loop_def by blast
  have al: "c + unat al \<le> n"
    using left fit alen_le [of len] unfolding al_def tlvSizeHdr_def by linarith
  have pa: "parseAuth hl m a c (int (unat al)) False = parseAuth hl m b c (int (unat al)) False" for hl m
    using al by (intro parseAuth_reads [OF ag]) linarith
  have left': "int (c + tlvSizeHdr) + (sl_leftAll st - int tlvSizeHdr - int (unat len)) \<le> int n"
    using left by linarith
  have ok: "sim_loop n
      (st\<lparr>sl_lastTlv := t, sl_mp := (sl_mp st)\<lparr>m_cur := c + tlvSizeHdr\<rparr>,
        sl_leftAll := sl_leftAll st - int tlvSizeHdr - int (unat len),
        sl_lastAuthLen := x, sl_lastAuth := y, sl_errAuth := e\<rparr>)
      (su\<lparr>sl_lastTlv := t, sl_mp := (sl_mp su)\<lparr>m_cur := c + tlvSizeHdr\<rparr>,
        sl_leftAll := sl_leftAll st - int tlvSizeHdr - int (unat len),
        sl_lastAuthLen := x, sl_lastAuth := y, sl_errAuth := e\<rparr>)" if "y + unat x \<le> n" for t x y e
    unfolding sim_loop_def using that sim_move [OF sim] left' eq by (simp del: of_nat_add)
  note ok1 = ok [OF la, of "sl_errAuth st" AUTHENTICATION]
    and ok2 = ok [OF al, of "sl_errAuth st" AUTHENTICATION]
    and ok3 = ok [OF al, where t = AUTHENTICATION]
  show ?thesis
  proof (cases "m_haveAuth (sl_msg st) \<and> rcvAuth (m_prms (sl_msg st)) AND RCV_AUTH_SIG_ALL > 0")
    case True
    then show ?thesis
      using fit pa ok3 unfolding sig_body_def Let_def eq c_def [symmetric] al_def [symmetric]
      by simp
  next
    case no: False
    then show ?thesis
      using fit ok1 ok2 eq(4-6) unfolding sig_body_def Let_def eq(1-3) c_def [symmetric] al_def [symmetric]
      by (cases "m_haveAuth (sl_msg st)") (simp_all add: sim_loop_def)
  qed
qed

lemma sig_body_other_reads:
  assumes ag: "agree n a b" and s: "sim_loop n st su"
    and fit: "int (unat len) \<le> sl_leftAll st - int tlvSizeHdr"
    and ty: "ty \<noteq> AUTHENTICATION"
  shows "match_loop n (sig_body env a st ty len) (sig_body env b su ty len)"
proof -
  define c where "c = m_cur (sl_mp st)"
  have eq: "m_cur (sl_mp su) = c" "sl_msg su = sl_msg st" "sl_leftAll su = sl_leftAll st"
    and rest: "sl_lastAuth su = sl_lastAuth st" "sl_lastAuthLen su = sl_lastAuthLen st"
    "sl_errAuth su = sl_errAuth st"
    and sim: "sim n (sl_mp st) (sl_mp su)"
    and left: "int c + sl_leftAll st \<le> int n"
    using s by (simp_all add: sim_loop_def sim_def c_def)
  have la: "sl_lastAuth st + unat (sl_lastAuthLen st) \<le> n"
    using s unfolding sim_loop_def by blast
  let ?left = "sl_leftAll st - int tlvSizeHdr - int (unat len)"
  have left': "int c + int tlvSizeHdr + int (unat len) + ?left \<le> int n"
    using left by linarith
  have next_ok: "sim_loop n
      (st\<lparr>sl_lastTlv := ty, sl_mp := mp, sl_leftAll := ?left, sl_msg := m\<rparr>)
      (su\<lparr>sl_lastTlv := ty, sl_mp := mq, sl_leftAll := ?left, sl_msg := m\<rparr>)"
    if "sim n mp mq" "int (m_cur mp) = int c + int tlvSizeHdr + int (unat len)" for mp mq m
    unfolding sim_loop_def using that left' la rest by simp
  show ?thesis
  proof (cases "filterSignaling (m_prms (sl_msg st)) \<and> \<not> isSigTlv ty (m_prms (sl_msg st))")
    case True
    have "sim_loop n
        (st\<lparr>sl_lastTlv := ty, sl_mp := (sl_mp st)\<lparr>m_cur := c + tlvSizeHdr + unat len\<rparr>, sl_leftAll := ?left\<rparr>)
        (su\<lparr>sl_lastTlv := ty, sl_mp := (sl_mp su)\<lparr>m_cur := c + tlvSizeHdr + unat len\<rparr>, sl_leftAll := ?left\<rparr>)"
      using next_ok [OF sim_move [OF sim, of "c + tlvSizeHdr + unat len"], of "sl_msg st"] eq(2) rest
      by (simp add: sim_loop_def)
    then show ?thesis
      using True fit ty unfolding sig_body_def Let_def eq c_def [symmetric]
      by (auto simp add: sim_loop_def)
  next
    case nofilter: False
    let ?p = "(sl_mp st)\<lparr>m_cur := c + tlvSizeHdr, m_left := int (unat len)\<rparr>"
    let ?q = "(sl_mp su)\<lparr>m_cur := c + tlvSizeHdr, m_left := int (unat len)\<rparr>"
    have pq: "sim n ?p ?q" "fits n ?p"
      using sim left fit by (simp_all add: sim_def fits_def)
    have m: "match n (int c + int tlvSizeHdr + int (unat len))
        (sig_tlv env (sl_msg st) ty ?p) (sig_tlv env (sl_msg st) ty ?q)"
      using sig_tlv_reads [OF pq, of env "sl_msg st" ty] by simp
    show ?thesis
    proof (cases "sig_tlv env (sl_msg st) ty ?p")
      case (Inl e)
      then show ?thesis
        using m fit ty nofilter unfolding sig_body_def Let_def eq c_def [symmetric]
        by (cases "sig_tlv env (sl_msg st) ty ?q") auto
    next
      case (Inr r)
      then obtain t mp mq where p: "sig_tlv env (sl_msg st) ty ?p = Inr (t, mp)"
        and q: "sig_tlv env (sl_msg st) ty ?q = Inr (t, mq)" and m': "sim n mp mq" "0 \<le> m_left mp"
        "int (m_cur mp) + m_left mp = int c + int tlvSizeHdr + int (unat len)"
        using m by (cases r; cases "sig_tlv env (sl_msg st) ty ?q") auto
      let ?n = "\<lambda>mp. if m_left mp > 0 then mp\<lparr>m_cur := m_cur mp + nat (m_left mp)\<rparr> else mp"
      have "sim n (?n mp) (?n mq)" "int (m_cur (?n mp)) = int c + int tlvSizeHdr + int (unat len)"
        using m' by (auto simp: sim_def)
      note next_ok [OF this, of "push_sig ty t (sl_msg st)"]
      then show ?thesis
        using p q fit ty rest la unfolding sig_body_def Let_def eq c_def [symmetric]
        by (simp add: nofilter sim_loop_def split del: if_split)
    qed
  qed
qed

lemma sig_round_reads:
  assumes "agree n a b" "sim_loop n st su" "int tlvSizeHdr \<le> sl_leftAll st"
  shows "match_loop n (sig_round env a st) (sig_round env b su)"
proof -
  have eq: "m_cur (sl_mp su) = m_cur (sl_mp st)" "sl_msg su = sl_msg st" "sl_leftAll su = sl_leftAll st"
    and left: "int (m_cur (sl_mp st)) + sl_leftAll st \<le> int n"
    using assms(2) by (simp_all add: sim_loop_def sim_def)
  have rd: "rd16 a (m_cur (sl_mp st)) = rd16 b (m_cur (sl_mp st))"
    "rd16 a (m_cur (sl_mp st) + 2) = rd16 b (m_cur (sl_mp st) + 2)"
    using assms(3) left by (simp_all add: agree_rd16 [OF assms(1)] tlvSizeHdr_def)
  have "match_loop n (sig_body env a st ty len) (sig_body env b su ty len)" for ty len
  proof (cases "int (unat len) \<le> sl_leftAll st - int tlvSizeHdr")
    case True
    then show ?thesis
      using sig_body_auth_reads [OF assms(1,2)] sig_body_other_reads [OF assms(1,2)]
      by (cases "ty = AUTHENTICATION") simp_all
  qed (simp add: sig_body_def Let_def eq)
  then show ?thesis
    unfolding sig_round_def rd eq .
qed

lemma sig_run_reads:
  "agree n a b \<Longrightarrow> sim_loop n st su \<Longrightarrow> match_loop n (sig_run env a st) (sig_run env b su)"
proof (induction env a st arbitrary: su rule: sig_run.induct)
  case (1 env a st)
  have eq: "sl_leftAll su = sl_leftAll st"
    using 1(3) by (simp add: sim_loop_def)
  show ?case
  proof (cases "sl_leftAll st < int tlvSizeHdr")
    case True
    then show ?thesis
      using 1(3) eq by (simp add: sig_run.simps [of _ _ st] sig_run.simps [of _ _ su])
  next
    case False
    then have m: "match_loop n (sig_round env a st) (sig_round env b su)"
      using sig_round_reads [OF 1(2,3)] by simp
    show ?thesis
    proof (cases "sig_round env a st")
      case (Inl r)
      then show ?thesis
        using m False eq
        by (cases "sig_round env b su") (simp_all add: sig_run.simps [of _ _ st] sig_run.simps [of _ _ su])
    next
      case (Inr st')
      then obtain su' where q: "sig_round env b su = Inr su'" and "sim_loop n st' su'"
        using m by (cases "sig_round env b su") simp_all
      then show ?thesis
        using 1(1) [OF False Inr 1(2)] Inr False eq
        by (simp add: sig_run.simps [of _ _ st] sig_run.simps [of _ _ su])
    qed
  qed
qed

lemma parseSig_reads:
  assumes "agree n a b" "int sigBaseSize + left \<le> int n"
  shows "parseSig env m a left = parseSig env m b left"
proof -
  let ?m = "m\<lparr>m_sigTlvs := \<lparr>m_lastSig = True, m_tlvs = []\<rparr>\<rparr>"
  let ?st = "\<lambda>buf. \<lparr>sl_msg = ?m, sl_mp = parse_at buf sigBaseSize 0, sl_leftAll = left,
    sl_lastTlv = 0, sl_lastAuth = 0, sl_lastAuthLen = 0, sl_errAuth = MNG_PARSE_ERROR_OK\<rparr>"
  have "sim_loop n (?st a) (?st b)"
    using assms by (simp add: sim_loop_def sim_def parse_at_def)
  then have m: "match_loop n (sig_run env a (?st a)) (sig_run env b (?st b))"
    by (rule sig_run_reads [OF assms(1)])
  show ?thesis
  proof (cases "sig_run env a (?st a)")
    case (Inl r)
    then show ?thesis
      using m by (cases "sig_run env b (?st b)") (simp_all add: parseSig_def Let_def)
  next
    case (Inr st)
    then obtain su where q: "sig_run env b (?st b) = Inr su" and s: "sim_loop n st su"
      using m by (cases "sig_run env b (?st b)") simp_all
    then have eq: "sl_msg su = sl_msg st" "sl_lastTlv su = sl_lastTlv st"
      "sl_lastAuth su = sl_lastAuth st" "sl_lastAuthLen su = sl_lastAuthLen st"
      "sl_errAuth su = sl_errAuth st"
      by (simp_all add: sim_loop_def)
    have "parseAuth hl m a (sl_lastAuth st) (int (unat (sl_lastAuthLen st))) False =
        parseAuth hl m b (sl_lastAuth st) (int (unat (sl_lastAuthLen st))) False" for hl m
      using s unfolding sim_loop_def by (intro parseAuth_reads [OF assms(1)]) linarith
    then show ?thesis
      unfolding parseSig_def Let_def Inr q by (simp only: sum.case eq)
  qed
qed

lemma parse_agree:
  assumes "agree (nat bufSize) a b"
  shows "parse env m a bufSize = parse env m b bufSize"
proof (cases "bufSize < int sigBaseSize")
  case False
  then have n: "44 \<le> nat bufSize"
    by (simp add: msg_sizes)
  have rd: "rd8 a 0 = rd8 b 0" "rd8 a 1 = rd8 b 1" "rd16 a 2 = rd16 b 2" "rd8 a 4 = rd8 b 4"
    "rd8 a 5 = rd8 b 5" "rd8 a 6 = rd8 b 6" "rd16 a 30 = rd16 b 30" "rd8 a 33 = rd8 b 33"
    "rd_PortIdentity a 20 = rd_PortIdentity b 20" "rd_PortIdentity a 34 = rd_PortIdentity b 34"
    using n by (simp_all add: agree_rd8 [OF assms] agree_rd16 [OF assms] agree_rd_PortIdentity [OF assms])
  let ?s = "int (unat (rd16 b 2))"
  have hd: "parse_header m a = parse_header m b" for m
    by (simp add: parse_header_def rd)
  have sig: "parseSig env m a (?s - int sigBaseSize) = parseSig env m b (?s - int sigBaseSize)"
    if "?s \<le> bufSize" for m
    using that False by (intro parseSig_reads [OF assms]) simp
  have mng: "parseMng env m a ?s = parseMng env m b ?s" if "?s \<le> bufSize" "int mngMsgMinSize \<le> ?s" for m
    using that by (intro parseMng_reads [OF assms]) (simp_all add: msg_sizes)
  show ?thesis
    using sig mng unfolding parse_def Let_def rd hd by (simp add: not_less)
qed (simp add: parse_def)

end
