(* ===== verification/Msg_Auth.thy ===== *)
theory Msg_Auth
  imports Msg_Parsed
begin

unbundle bit_operations_syntax

text \<open>
  Authentication of management messages: the message object holds the key object of the key
  it uses for sending, a message it builds is accepted by the check of a receiver with the
  same keys, and a message that is accepted carries a value that the library verified with
  the key the message names.
\<close>

subsection \<open>The key in use\<close>

definition auth_inv :: "Message \<Rightarrow> bool" where
  "auth_inv m \<longleftrightarrow> (m_haveAuth m \<longrightarrow>
     SaFile_have (m_sa m) (m_sppID m) (m_keyID m) \<and>
     m_hmac m = Some (htype (SaFile_spp (m_sa m) (m_sppID m)) (m_keyID m),
                      Spp_key (SaFile_spp (m_sa m) (m_sppID m)) (m_keyID m)))"

lemma auth_inv_new: "auth_inv (new_Message prms)"
  by (simp add: auth_inv_def new_Message_def)

lemma auth_inv_ops:
  "auth_inv m \<Longrightarrow> auth_inv (snd (useAuth hl sa s k m))"
  "auth_inv m \<Longrightarrow> auth_inv (snd (changeAuth hl s k m))"
  "auth_inv m \<Longrightarrow> auth_inv (snd (changeAuthKey hl k m))"
  "auth_inv (snd (disableAuth m))"
  by (auto simp: auth_inv_def useAuth_def changeAuth_def changeAuthKey_def disableAuth_def Let_def)

subsection \<open>A message of our own is accepted\<close>

lemma rd_auth:
  assumes "length as = k"
  shows "rd16 (as @ pack_authenticationTlv l s i @ r) k = AUTHENTICATION"
    "rd16 (as @ pack_authenticationTlv l s i @ r) (k + 2) = l"
    "rd8 (as @ pack_authenticationTlv l s i @ r) (k + 4) = s"
    "rd8 (as @ pack_authenticationTlv l s i @ r) (k + 5) = 0"
    "rd32 (as @ pack_authenticationTlv l s i @ r) (k + 6) = i"
  using assms
  by (simp_all add: pack_authenticationTlv_def rd8_def rd16_def rd32_def read_simps)

text \<open>The authentication TLV with the integrity check value, for octets and a key of the pool.\<close>

definition auth_octets :: "hmac_lib \<Rightarrow> SaFile \<Rightarrow> uint8_t \<Rightarrow> uint32_t \<Rightarrow> octets \<Rightarrow> octets option" where
  "auth_octets hl sa sppID keyID img =
     (let s = SaFile_spp sa sppID; n = mac_size s keyID;
          a = pack_authenticationTlv (of_nat (authTlvSize + n - tlvSizeHdr)) sppID keyID
      in map_option (\<lambda>mac. a @ mac) (hl_digest hl (htype s keyID) (Spp_key s keyID) (img @ a) n))"

lemma auth_tail_octets:
  assumes "m_haveAuth m" "sendAuth (m_prms m)" "auth_inv m"
  shows "auth_tail hl m sq = auth_octets hl (m_sa m) (m_sppID m) (m_keyID m) (msg_image m sq)"
  using assms by (simp add: auth_tail_def auth_octets_def auth_inv_def Let_def)

lemma parseAuth_accept:
  assumes hl: "hmac_ok hl" and a: "m_haveAuth m" "auth_inv m" and sa: "SaFile_ok (m_sa m)"
    and au: "auth_octets hl (m_sa m) (m_sppID m) (m_keyID m) img = Some au"
    and left: "int (length au) \<le> left"
  shows "parseAuth hl m (img @ au @ r) (length img) left True = MNG_PARSE_ERROR_OK"
proof -
  define s where "s = SaFile_spp (m_sa m) (m_sppID m)"
  define n where "n = mac_size s (m_keyID m)"
  define l where "l = (of_nat (authTlvSize + n - tlvSizeHdr) :: uint16_t)"
  let ?a = "pack_authenticationTlv l (m_sppID m) (m_keyID m)" and ?L = "length img"
  have hv: "SaFile_have (m_sa m) (m_sppID m) (m_keyID m)"
    and key: "m_hmac m = Some (htype s (m_keyID m), Spp_key s (m_keyID m))"
    using a by (simp_all add: auth_inv_def s_def)
  have n: "2 \<le> n" "even n" "n \<le> 32"
    using mac_size_ok [OF SaFile_ok_spp [OF sa] SaFile_have_spp [OF hv]] by (simp_all add: n_def s_def)
  obtain mac where mac: "hl_digest hl (htype s (m_keyID m)) (Spp_key s (m_keyID m))
      (img @ ?a) n = Some mac" and au': "au = ?a @ mac"
    using au by (auto simp: auth_octets_def Let_def n_def s_def l_def)
  have len: "length mac = n" and ver: "hl_verify hl (htype s (m_keyID m)) (Spp_key s (m_keyID m))
      (img @ ?a) mac"
    using hl mac by (auto simp: hmac_ok_def)
  have ul: "unat l + tlvSizeHdr = authTlvSize + n"
    using n unat_of_nat16 [of "authTlvSize + n - tlvSizeHdr"] by (simp add: l_def msg_sizes)
  have buf: "img @ au @ r = img @ ?a @ mac @ r"
    by (simp add: au')
  note rd = rd_auth [OF refl, of img l "m_sppID m" "m_keyID m" "mac @ r"]
  have r1: "mem_read (img @ ?a @ mac @ r) 0 (?L + authTlvSize) = img @ ?a"
    and r2: "mem_read (img @ ?a @ mac @ r) (?L + authTlvSize) n = mac"
    using len mem_read_at [of "?L + authTlvSize" "img @ ?a" n mac r]
    by (simp_all add: mem_read_def)
  have left': "int (authTlvSize + n) \<le> left" "\<not> left < int authTlvSize"
    using left len by (simp_all add: au')
  show ?thesis
    unfolding buf parseAuth_def Let_def rd if_True ul s_def [symmetric]
    using left' hv n key ver r1 r2
    by (simp add: n_def [symmetric])
qed

subsection \<open>What is accepted was verified\<close>

text \<open>
  The integrity check value of a message whose authentication TLV is at the offset \<open>auth\<close>,
  in a message of \<open>msgSize\<close> octets: the TLV is inside the message, names a key of the pool,
  and the library verified the octets of the TLV behind its fields with this very key as
  the value of all octets of the message before them.
\<close>

definition key_verified :: "hmac_lib \<Rightarrow> SaFile \<Rightarrow> octets \<Rightarrow> nat \<Rightarrow> int \<Rightarrow> bool" where
  "key_verified hl sa buf auth msgSize \<longleftrightarrow>
     (let sppID = rd8 buf (auth + 4); keyID = rd32 buf (auth + 6); s = SaFile_spp sa sppID;
          icv = auth + authTlvSize; n = unat (rd16 buf (auth + 2)) + tlvSizeHdr - authTlvSize
      in rd16 buf auth = AUTHENTICATION \<and> SaFile_have sa sppID keyID \<and> 2 \<le> n \<and> even n \<and>
         int (icv + n) \<le> msgSize \<and>
         hl_verify hl (htype s keyID) (Spp_key s keyID) (mem_read buf 0 icv) (mem_read buf icv n))"

lemma parseAuth_verified:
  assumes "auth_inv m" "m_haveAuth m" "parseAuth hl m buf auth left True = MNG_PARSE_ERROR_OK"
  shows "key_verified hl (m_sa m) buf auth (int auth + left)"
proof -
  define sppID where "sppID = rd8 buf (auth + 4)"
  define keyID where "keyID = rd32 buf (auth + 6)"
  define len where "len = unat (rd16 buf (auth + 2)) + tlvSizeHdr"
  define hm where "hm = (if m_sppID m = sppID \<and> m_keyID m = keyID then m_hmac m
    else if hl_alloc hl (htype (SaFile_spp (m_sa m) sppID) keyID) (Spp_key (SaFile_spp (m_sa m) sppID) keyID)
    then Some (htype (SaFile_spp (m_sa m) sppID) keyID, Spp_key (SaFile_spp (m_sa m) sppID) keyID)
    else None)"
  have ty: "rd16 buf auth = AUTHENTICATION" and hv: "SaFile_have (m_sa m) sppID keyID"
    and len: "int len \<le> left" "authTlvSize \<le> len" and n: "2 \<le> len - authTlvSize" "even (len - authTlvSize)"
    and v: "(case hm of None \<Rightarrow> MNG_PARSE_ERROR_AUTH
       | Some (t, k) \<Rightarrow> if hl_verify hl t k (mem_read buf 0 (auth + authTlvSize))
             (mem_read buf (auth + authTlvSize) (len - authTlvSize))
           then MNG_PARSE_ERROR_OK else MNG_PARSE_ERROR_AUTH_WRONG) = MNG_PARSE_ERROR_OK"
    using assms(3)
    unfolding parseAuth_def Let_def if_True sppID_def [symmetric] keyID_def [symmetric]
      len_def [symmetric] hm_def [symmetric]
    by (simp_all split: if_split_asm)
  have "hm = Some (htype (SaFile_spp (m_sa m) sppID) keyID, Spp_key (SaFile_spp (m_sa m) sppID) keyID)"
    using v assms(1,2) by (auto simp: hm_def auth_inv_def split: if_splits)
  then show ?thesis
    using v ty hv len n
    unfolding key_verified_def Let_def sppID_def [symmetric] keyID_def [symmetric] len_def [symmetric]
    by (auto split: if_splits)
qed

text \<open>
  A management message is taken only with a verified value, when the parameters ask for the
  check and do not ask to ignore its result. The authentication TLV is the one behind the
  management TLV, whose length field is at offset 50.
\<close>

lemma parseMng_verified:
  assumes inv: "auth_inv m" "m_haveAuth m"
    and rcv: "rcvAuth (m_prms m) AND RCV_AUTH_MNG > 0" "rcvAuth (m_prms m) AND RCV_AUTH_IGNORE = 0"
    and r: "fst (parseMng env m buf msgSize) \<in> {MNG_PARSE_ERROR_OK, MNG_PARSE_ERROR_MSG, MNG_PARSE_ERROR_SMPTE}"
  shows "key_verified (pe_hmac env) (m_sa m) buf (52 + unat (rd16 buf 50)) msgSize"
proof (rule ccontr)
  assume no: "\<not> ?thesis"
  let ?n = "unat (rd16 buf 50)"
  have bad: "parseAuth (pe_hmac env) m' buf (52 + ?n) (msgSize - int mngMsgMinSize - int ?n) True \<noteq>
      MNG_PARSE_ERROR_OK"
    if "m_sa m' = m_sa m" "m_sppID m' = m_sppID m" "m_keyID m' = m_keyID m" "m_hmac m' = m_hmac m" for m'
    using parseAuth_verified [OF inv, of "pe_hmac env" buf "52 + ?n" "msgSize - int mngMsgMinSize - int ?n"]
      no parseAuth_cong [OF that] by (auto simp: msg_sizes)
  have good: "parseAuth (pe_hmac env) m' buf auth left True \<notin>
      {MNG_PARSE_ERROR_MSG, MNG_PARSE_ERROR_SMPTE}" for m' auth left
    by (auto simp: parseAuth_def Let_def split: option.splits)
  show False
    using r bad good inv(2) rcv
    by (auto simp: parseMng_def Let_def split: if_splits)
qed

lemma parse_verified:
  assumes inv: "auth_inv m" "m_haveAuth m"
    and rcv: "rcvAuth (m_prms m) AND RCV_AUTH_MNG > 0" "rcvAuth (m_prms m) AND RCV_AUTH_IGNORE = 0"
    and r: "fst (parse env m buf bufSize) \<in> {MNG_PARSE_ERROR_OK, MNG_PARSE_ERROR_MSG, MNG_PARSE_ERROR_SMPTE}"
    and sig: "rd8 buf 0 AND 0xf \<noteq> Signaling"
  shows "key_verified (pe_hmac env) (m_sa m) buf (52 + unat (rd16 buf 50)) (int (unat (rd16 buf 2))) \<and>
    int (unat (rd16 buf 2)) \<le> bufSize"
proof -
  let ?m = "parse_header (m\<lparr>m_type := rd8 buf 0 AND 0xf, m_versionPTP := rd8 buf 1 AND 0xf,
    m_minorVersionPTP := drop_bit 4 (rd8 buf 1)\<rparr>) buf"
  have "fst (parseMng env ?m buf (int (unat (rd16 buf 2)))) \<in>
      {MNG_PARSE_ERROR_OK, MNG_PARSE_ERROR_MSG, MNG_PARSE_ERROR_SMPTE}"
    and "int (unat (rd16 buf 2)) \<le> bufSize"
    using r sig by (auto simp: parse_def Let_def split: if_splits)
  moreover have "auth_inv ?m" "m_haveAuth ?m" "m_prms ?m = m_prms m" "m_sa ?m = m_sa m"
    using inv by (simp_all add: parse_header_def auth_inv_def)
  ultimately show ?thesis
    using parseMng_verified [of ?m env buf] rcv by simp
qed

end
