(* ===== verification/Msg_Echo.thy ===== *)
theory Msg_Echo
  imports Msg_Auth
begin

unbundle bit_operations_syntax

text \<open>
  A request and its answer: the answer to a SET or COMMAND that carries the data of the request
  back is taken by \<^verbatim>\<open>parse\<close> and gives the data to the user, with or without authentication. And what
  a result of \<^verbatim>\<open>parse\<close> says of the octets and of the message object: which checks a message that is
  taken has passed, and which TLV the user finds in the object.
\<close>

text \<open>The action of the answer.\<close>

definition answer :: "Message \<Rightarrow> actionField_e" where
  "answer m = (if m_sendAction m = COMMAND then ACKNOWLEDGE else RESPONSE)"

definition answer_header :: "Message \<Rightarrow> uint16_t \<Rightarrow> managementMessage_p" where
  "answer_header m sq = (build_header m sq)\<lparr>actionField := answer m\<rparr>"

lemma low_nibble: "((b :: uint8_t) OR push_bit 4 x) AND 0xf = b AND 0xf"
proof (rule bit_word_eqI)
  fix n
  have "bit (0xf :: uint8_t) n \<longleftrightarrow> n < 4"
    using bit_mask_iff [of 4 n, where 'a = "8 word"] by (auto simp: mask_eq_exp_minus_1 bit_simps)
  then show "bit ((b OR push_bit 4 x) AND 0xf) n \<longleftrightarrow> bit (b AND 0xf) n"
    by (auto simp: bit_simps)
qed

lemma low_nibble_left: "(push_bit 4 x OR (b :: uint8_t)) AND 0xf = b AND 0xf"
  using low_nibble [of b x] by (simp add: or.commute)

lemma reply_header_answer: "msg_valid m \<Longrightarrow> reply_header (answer_header m sq)"
  by (simp add: answer_header_def build_header_def Let_def reply_header_def msg_valid_def low_nibble
      low_nibble_left Management_def ptp_major_ver_def)

lemma answer_cases:
  "answer m = RESPONSE \<or> answer m = ACKNOWLEDGE" "0xf AND answer m = answer m"
  by (simp_all add: answer_def action_defs)

lemma answer_allowed:
  assumes "send_inv m" "m_dataSend m = Some t"
  shows "checkReplyAction (m_tlv_id m) (answer m)"
proof -
  have "w AND (A_SET OR A_GET) \<noteq> 0" if "w AND A_SET \<noteq> 0" for w
    using that by (simp only: bit.conj_disj_distrib or_eq_0_iff) simp
  then show ?thesis
    using assms
    by (cases "m_sendAction m = COMMAND")
      (auto simp: answer_def checkReplyAction_def send_inv_def Let_def A_COMMAND_def A_SET_def
        action_defs)
qed

text \<open>Only the action differs on the wire.\<close>

lemma answer_octets:
  assumes "msg_valid m"
  shows "(msg_image m sq @ r)[46 := answer m] =
    mng_octets (answer_header m sq) (m_tlv_id m) (data_image m) (addAuth m) @ r"
proof -
  have "(pack_managementMessage h @ x)[46 := a] = pack_managementMessage (h\<lparr>actionField := a\<rparr>) @ x"
    if "valid_PortIdentity (sourcePortIdentity h)" "valid_PortIdentity (targetPortIdentity h)" for h x a
    using that
    by (simp add: pack_managementMessage_def list_update_append pack_PortIdentity_def
        valid_PortIdentity_def valid_ClockIdentity_def)
  then show ?thesis
    using assms
    by (simp add: msg_image_octets mng_octets_def answer_header_def msg_valid_def build_header_def Let_def)
qed

lemma data_image_Some: "m_dataSend m = Some t \<Longrightarrow> data_image m = even_pad (enc_tlv t)"
  by (simp add: data_image_def)

lemma parse_answer:
  assumes m: "msg_valid m" "m_dataSend m = Some t" "enc_tlv t \<noteq> []"
    and n: "mngMsgBaseSize + length (data_image m) + k < 2 ^ 16"
    and b: "int (mngMsgBaseSize + length (data_image m) + k) \<le> bufSize"
    and c: "pe_mem env" "implementSpecific (m_prms c) = linuxptp \<or> mng_allowed (m_tlv_id m) AND A_USE_LINUXPTP = 0"
      "auth_passed (pe_hmac env) c (mng_octets (answer_header m sq) (m_tlv_id m) (data_image m) k @ r)
        (mngMsgBaseSize + length (data_image m)) k"
  shows "parse env c (mng_octets (answer_header m sq) (m_tlv_id m) (data_image m) k @ r) bufSize =
    (MNG_PARSE_ERROR_OK, rcv_header (answer_header m sq) c\<lparr>m_mngType := MANAGEMENT,
       m_replyAction := answer m, m_replayTlv_id := m_tlv_id m, m_dataGet := Some t\<rparr>)"
proof -
  have s: "send_inv m" and v: "valid_tlv t"
    using m by (simp_all add: msg_valid_def)
  note d = send_inv_data [OF s m(2)]
  have act: "answer m = 0xf AND actionField (answer_header m sq)"
    using answer_cases by (simp add: answer_header_def)
  show ?thesis
    using n b c d(2) answer_cases(1) answer_allowed [OF s m(2)] unfolding data_image_Some [OF m(2)]
    by (intro parse_reply [OF reply_header_answer [OF m(1)] v d(1) _ m(3) act]) (simp_all only: d(1) simp_thms)
qed

lemma parse_answer_auth:
  assumes hl: "hmac_ok (pe_hmac env)" "pe_mem env"
    and m: "msg_valid m" "m_dataSend m = Some t" "enc_tlv t \<noteq> []"
    and c: "auth_inv c" "SaFile_ok (m_sa c)" "m_haveAuth c"
      "implementSpecific (m_prms c) = linuxptp \<or> mng_allowed (m_tlv_id m) AND A_USE_LINUXPTP = 0"
    and au: "auth_octets (pe_hmac env) (m_sa c) (m_sppID c) (m_keyID c)
        (mng_octets (answer_header m sq) (m_tlv_id m) (data_image m) (length au)) = Some au"
    and n: "mngMsgBaseSize + length (data_image m) + length au < 2 ^ 16"
      "int (mngMsgBaseSize + length (data_image m) + length au) \<le> bufSize"
  shows "parse env c
      (mng_octets (answer_header m sq) (m_tlv_id m) (data_image m) (length au) @ au @ r) bufSize =
      (MNG_PARSE_ERROR_OK, rcv_header (answer_header m sq) c\<lparr>m_mngType := MANAGEMENT,
       m_replyAction := answer m, m_replayTlv_id := m_tlv_id m, m_dataGet := Some t\<rparr>)"
proof -
  let ?img = "mng_octets (answer_header m sq) (m_tlv_id m) (data_image m) (length au)"
  have len: "length ?img = mngMsgBaseSize + length (data_image m)"
    using reply_header_answer [OF m(1), of sq] by (intro length_mng_octets) (simp_all add: reply_header_def)
  have "auth_passed (pe_hmac env) c (?img @ au @ r) (mngMsgBaseSize + length (data_image m)) (length au)"
    using parseAuth_accept [OF hl(1) c(3,1,2) au, of "int (length au)" r]
    by (simp add: auth_passed_def len)
  then show ?thesis
    by (rule parse_answer [OF m n hl(2) c(4)])
qed

section \<open>Messages that are taken\<close>

subsection \<open>The header\<close>

definition taken :: "MNG_PARSE_ERROR_e set" where
  "taken = {MNG_PARSE_ERROR_OK, MNG_PARSE_ERROR_MSG, MNG_PARSE_ERROR_SMPTE, MNG_PARSE_ERROR_SIG}"

lemma parse_taken_header:
  assumes "fst (parse env m buf bufSize) \<in> taken"
  shows "44 \<le> bufSize \<and> int (unat (rd16 buf 2)) \<le> bufSize \<and> rd8 buf 1 AND 0xf = 2 \<and>
    rd8 buf 33 = 0x7f \<and>
    (rd8 buf 0 AND 0xf = Management \<and> 52 \<le> int (unat (rd16 buf 2)) \<or>
     rd8 buf 0 AND 0xf = Signaling \<and> rcvSignaling (m_prms m))"
  using assms
  by (auto simp: parse_def taken_def Let_def msg_sizes ptp_major_ver_def logMessageIntervalDef_def
      split: if_splits)

subsection \<open>The data\<close>

text \<open>The dataField of a management TLV with a structure: the object is of that structure.\<close>

lemma parse_management_data:
  assumes "parse_management env m buf action n err = (MNG_PARSE_ERROR_OK, m')"
    "lengthFieldMngBase < n" "52 + n \<le> length buf" "new_tlv (m_replayTlv_id m') \<noteq> None"
  shows "\<exists>t. m_dataGet m' = Some t \<and> tlv_type t = m_replayTlv_id m'"
proof -
  obtain i where i: "findTlvId (rd16 buf 52) (implementSpecific (m_prms m)) = Some i"
    using assms(1,2) by (auto simp: parse_management_def Let_def split: if_splits option.splits)
  obtain e tlv mp where c: "call_tlv_data (pe_mem env) i (pe_uninit env)
      (parse_at buf 54 (n - lengthFieldMngBase)) = (e, tlv, mp)"
    by (metis prod_cases3)
  have m': "e = MNG_PARSE_ERROR_OK" "m_replayTlv_id m' = i" "m_dataGet m' = tlv"
    using assms(1,2) i c by (auto simp: parse_management_def Let_def split: if_splits)
  have "mp_ok (parse_at buf 54 (n - lengthFieldMngBase))"
    using assms(2,3) by (simp add: mp_ok_parse_at lengthFieldMngBase_def tlvSizeHdr_def)
  from call_parse_type [OF _ this _ c [unfolded m'(1)]] show ?thesis
    using m'(2,3) assms(4) by (simp add: parse_at_def)
qed

text \<open>How \<^verbatim>\<open>parse\<close> comes to the management TLV.\<close>

lemma parseMng_management:
  assumes "parseMng env m buf n = (MNG_PARSE_ERROR_OK, m')" "rd16 buf 48 = MANAGEMENT"
  shows "\<exists>err m1. int (unat (rd16 buf 50)) \<le> n - int mngMsgMinSize \<and> m_dataGet m1 = m_dataGet m \<and>
    parse_management env m1 buf (0xf AND rd8 buf 46) (unat (rd16 buf 50)) err = (MNG_PARSE_ERROR_OK, m')"
proof -
  define m1 where "m1 = m\<lparr>m_sigTlvs := (m_sigTlvs m)\<lparr>m_lastSig := False\<rparr>, m_mngType := MANAGEMENT\<rparr>"
  define e where "e = (if m_haveAuth m1 \<and> rcvAuth (m_prms m1) AND RCV_AUTH_MNG > 0
    then parseAuth (pe_hmac env) m1 buf (52 + unat (rd16 buf 50))
      (n - int mngMsgMinSize - int (unat (rd16 buf 50))) True
    else MNG_PARSE_ERROR_OK)"
  have ne: "MANAGEMENT \<noteq> MANAGEMENT_ERROR_STATUS"
    by (simp add: tlvType_defs)
  have "int (unat (rd16 buf 50)) \<le> n - int mngMsgMinSize \<and>
      parse_management env m1 buf (0xf AND rd8 buf 46) (unat (rd16 buf 50)) e = (MNG_PARSE_ERROR_OK, m')"
    using assms(1) ne unfolding parseMng_def Let_def assms(2) m1_def [symmetric] e_def [symmetric]
    by (auto split: if_splits)
  then show ?thesis
    by (intro exI [of _ e] exI [of _ m1]) (simp add: m1_def)
qed

lemma parse_management_OK:
  assumes "parse env m buf bufSize = (MNG_PARSE_ERROR_OK, m')" "rd16 buf 48 = MANAGEMENT"
    "rd8 buf 0 AND 0xf = Management"
  shows "\<exists>err m1. 52 + int (unat (rd16 buf 50)) \<le> bufSize \<and> m_dataGet m1 = m_dataGet m \<and>
    parse_management env m1 buf (0xf AND rd8 buf 46) (unat (rd16 buf 50)) err = (MNG_PARSE_ERROR_OK, m')"
proof -
  define m1 where "m1 = parse_header (m\<lparr>m_type := Management, m_versionPTP := rd8 buf 1 AND 0xf,
    m_minorVersionPTP := drop_bit 4 (rd8 buf 1)\<rparr>) buf"
  have ne: "Management \<noteq> Signaling"
    by (simp add: Management_def Signaling_def)
  have p: "parseMng env m1 buf (int (unat (rd16 buf 2))) = (MNG_PARSE_ERROR_OK, m')"
    and l: "int (unat (rd16 buf 2)) \<le> bufSize"
    using assms(1) ne unfolding parse_def Let_def assms(3) m1_def
    by (auto split: if_splits)
  have "m_dataGet m1 = m_dataGet m"
    by (simp add: m1_def parse_header_def)
  then show ?thesis
    using parseMng_management [OF p assms(2)] l by (auto simp: msg_sizes)
qed

text \<open>An empty dataField leaves the TLV of an earlier message in the object.\<close>

lemma parse_management_empty:
  assumes "parse_management env m buf action n err = (MNG_PARSE_ERROR_OK, m')" "n = lengthFieldMngBase"
  shows "m_dataGet m' = m_dataGet m"
  using assms by (auto simp: parse_management_def Let_def split: if_splits option.splits)

end
