(* ===== verification/Msg_Steps.thy ===== *)
theory Msg_Steps
  imports Msg_Auth
begin

unbundle bit_operations_syntax

text \<open>
  The life of a \<^verbatim>\<open>Message\<close> object: every sequence of calls of its interface, with any
  arguments, any buffers and any behaviour of the HMAC library. \<open>message_reachable\<close> are the
  states such a sequence ends in; the invariants of \<open>Msg_Built\<close> and \<open>Msg_Auth\<close> hold in all
  of them.
\<close>

subsection \<open>Calls\<close>

text \<open>
  The message keeps a pointer to the TLV to send, so its owner may change the fields of the
  object between two calls: \<open>change_data\<close>.
\<close>

inductive message_step :: "Message \<Rightarrow> Message \<Rightarrow> bool" where
  update_params: "message_step m (snd (updateParams p m))"
| set_action: "message_step m (snd (setAction a i d m))"
| change_data: "m_dataSend m = Some t \<Longrightarrow> tlv_type t' = tlv_type t \<Longrightarrow>
    message_step m (m\<lparr>m_dataSend := Some t'\<rparr>)"
| clear_data: "message_step m (clearData m)"
| use_auth: "SaFile_ok sa \<Longrightarrow> message_step m (snd (useAuth hl sa s k m))"
| change_auth: "message_step m (snd (changeAuth hl s k m))"
| change_key: "message_step m (snd (changeAuthKey hl k m))"
| disable_auth: "message_step m (snd (disableAuth m))"
| build_msg: "message_step m (snd (snd (build hl m ubuf sq)))"
| parse_msg: "message_step m (snd (parse env m buf n))"

inductive message_reachable :: "Message \<Rightarrow> bool" where
  made: "message_reachable (new_Message p)"
| called: "message_reachable m \<Longrightarrow> message_step m m' \<Longrightarrow> message_reachable m'"

subsection \<open>What parsing leaves alone\<close>

text \<open>The fields that \<^verbatim>\<open>build\<close> and the authentication use.\<close>

definition sending :: "Message \<Rightarrow> actionField_e \<times> nat \<times> BaseMngTlv option \<times> mng_vals_e \<times> MsgParams \<times>
    uint32_t \<times> uint8_t \<times> SaFile \<times> bool \<times> (HMAC_t \<times> octets) option" where
  "sending m = (m_sendAction m, m_msgLen m, m_dataSend m, m_tlv_id m, m_prms m, m_keyID m, m_sppID m,
     m_sa m, m_haveAuth m, m_hmac m)"

lemma sending_parts:
  "sending (snd (parse_error_status m buf a n e)) = sending m"
  "sending (snd (parse_management env m buf a n e)) = sending m"
  "sending (snd (parse_smpte env m buf a n e)) = sending m"
  by (auto simp: parse_error_status_def parse_management_def parse_smpte_def sending_def Let_def
      split: option.splits prod.splits)

lemma sending_parseMng: "sending (snd (parseMng env m buf n)) = sending m"
proof -
  define m1 where "m1 = m\<lparr>m_sigTlvs := (m_sigTlvs m)\<lparr>m_lastSig := False\<rparr>\<rparr>"
  define m2 where "m2 = m1\<lparr>m_mngType := rd16 buf 48\<rparr>"
  have "sending m1 = sending m" "sending m2 = sending m"
    by (simp_all add: sending_def m1_def m2_def)
  then show ?thesis
    unfolding parseMng_def Let_def m1_def [symmetric] m2_def [symmetric]
    by (simp add: sending_parts split: if_split)
qed

lemma sending_sig_body:
  "sig_body env buf st ty len = Inl (e, m) \<Longrightarrow> sending m = sending (sl_msg st)"
  "sig_body env buf st ty len = Inr st' \<Longrightarrow> sending (sl_msg st') = sending (sl_msg st)"
  by (auto simp: sig_body_def push_sig_def sending_def Let_def
      split: if_splits option.splits sum.splits prod.splits)

lemma sending_sig_run:
  "sending (case sig_run env buf st of Inl (e, m) \<Rightarrow> m | Inr st' \<Rightarrow> sl_msg st') = sending (sl_msg st)"
proof (induction env buf st rule: sig_run.induct)
  case (1 env buf st)
  then show ?case
    using sending_sig_body [of env buf st]
    by (subst sig_run.simps) (auto simp: sig_round_def split: sum.splits prod.splits)
qed

lemma sending_parseSig: "sending (snd (parseSig env m buf left)) = sending m"
proof -
  let ?st = "\<lparr>sl_msg = m\<lparr>m_sigTlvs := \<lparr>m_lastSig = True, m_tlvs = []\<rparr>\<rparr>,
    sl_mp = parse_at buf sigBaseSize 0, sl_leftAll = left, sl_lastTlv = 0, sl_lastAuth = 0,
    sl_lastAuthLen = 0, sl_errAuth = MNG_PARSE_ERROR_OK\<rparr>"
  have "sending (sl_msg ?st) = sending m"
    by (simp add: sending_def)
  then show ?thesis
    using sending_sig_run [of env buf ?st] by (auto simp: parseSig_def Let_def split: sum.splits prod.splits)
qed

lemma sending_parse: "sending (snd (parse env m buf n)) = sending m"
proof -
  define m1 where "m1 = m\<lparr>m_type := rd8 buf 0 AND 0xf\<rparr>"
  define m2 where "m2 = m1\<lparr>m_versionPTP := rd8 buf 1 AND 0xf, m_minorVersionPTP := drop_bit 4 (rd8 buf 1)\<rparr>"
  have "sending m1 = sending m" "sending m2 = sending m" "sending (parse_header m2 buf) = sending m"
    by (simp_all add: sending_def m1_def m2_def parse_header_def)
  then show ?thesis
    unfolding parse_def Let_def m1_def [symmetric] m2_def [symmetric]
    by (simp add: sending_parseMng sending_parseSig split: if_split)
qed

subsection \<open>What building leaves alone\<close>

lemma tlv_f_type: "tlv_f t mp = (e, t', mp') \<Longrightarrow> tlv_type t' = tlv_type t"
  by (cases t) (auto simp: lift_tlv_def split: prod.splits)

lemma call_build_type:
  assumes "m_build mp" "call_tlv_data mem i (Some t) mp = (err, tlv', mp')"
  shows "\<exists>t'. tlv' = Some t' \<and> tlv_type t' = tlv_type t"
  using assms
  by (auto simp: call_tlv_data_def Let_def split: option.splits if_splits prod.splits dest: tlv_f_type)

text \<open>The octets of the TLV change the object of the user at most in its fields.\<close>

definition same_send :: "Message \<Rightarrow> Message \<Rightarrow> bool" where
  "same_send m m' \<longleftrightarrow>
     (case m_dataSend m of None \<Rightarrow> m_dataSend m' = None
      | Some t \<Rightarrow> (\<exists>t'. m_dataSend m' = Some t' \<and> tlv_type t' = tlv_type t)) \<and>
     sending (m'\<lparr>m_dataSend := None, m_msgLen := 0\<rparr>) = sending (m\<lparr>m_dataSend := None, m_msgLen := 0\<rparr>)"

lemma same_send_refl [simp]: "same_send m m"
  by (simp add: same_send_def split: option.splits)

lemma build_dataField_send: "build_dataField m mp = (err, m', mp') \<Longrightarrow> same_send m m'"
proof (cases "m_sendAction m \<noteq> GET \<and> m_dataSend m \<noteq> None")
  case True
  assume b: "build_dataField m mp = (err, m', mp')"
  obtain t where t: "m_dataSend m = Some t"
    using True by auto
  obtain e tlv mp1 where c: "call_tlv_data True (m_tlv_id m) (Some t) (mp\<lparr>m_build := True\<rparr>) = (e, tlv, mp1)"
    by (metis prod_cases3)
  have m': "m' = m\<lparr>m_dataSend := tlv\<rparr>"
    using b True t c by (auto simp: build_dataField_def Let_def split: if_splits prod.splits)
  obtain t' where "tlv = Some t'" "tlv_type t' = tlv_type t"
    using call_build_type [OF _ c] by auto
  then show ?thesis
    using t by (simp add: m' same_send_def sending_def)
qed (auto simp: build_dataField_def Let_def split: if_splits)

lemma build_auth_send:
  "build_auth hl m n mp = (err, b, m') \<Longrightarrow> m' = m \<or> (\<exists>l. m' = m\<lparr>m_msgLen := l\<rparr>)"
  by (auto simp: build_auth_def Let_def split: if_splits option.splits)

lemma same_send_msgLen: "same_send m m' \<Longrightarrow> same_send m (m'\<lparr>m_msgLen := l\<rparr>)"
  by (auto simp: same_send_def sending_def split: option.splits)

lemma build_send: "same_send m (snd (snd (build hl m ubuf sq)))"
  by (auto simp: build_def Let_def split: option.splits prod.splits
      dest!: build_dataField_send build_auth_send intro: same_send_msgLen)

subsection \<open>Invariants\<close>

lemma send_inv_same: "same_send m m' \<Longrightarrow> send_inv m \<Longrightarrow> send_inv m'"
  by (auto simp: same_send_def send_inv_def sending_def split: option.splits)

lemma send_inv_sending: "sending m' = sending m \<Longrightarrow> send_inv m' = send_inv m"
  by (auto simp: sending_def send_inv_def split: option.split)

lemma auth_inv_sending: "sending m' = sending m \<Longrightarrow> auth_inv m' = auth_inv m"
  by (simp add: sending_def auth_inv_def)

text \<open>
  The whole invariant: what is to send fits the table of identifiers, the key object belongs to
  the key in use, the keys are well formed, and the transport specific nibble is one.
\<close>

definition message_inv :: "Message \<Rightarrow> bool" where
  "message_inv m \<longleftrightarrow> send_inv m \<and> auth_inv m \<and> SaFile_ok (m_sa m) \<and> transportSpecific (m_prms m) \<le> 0xf"

lemma message_inv_sending: "sending m' = sending m \<Longrightarrow> message_inv m \<Longrightarrow> message_inv m'"
  using send_inv_sending [of m' m] auth_inv_sending [of m' m] by (simp add: message_inv_def) (simp add: sending_def)

lemma same_send_inv: "same_send m m' \<Longrightarrow> message_inv m \<Longrightarrow> message_inv m'"
  using send_inv_same [of m m'] by (auto simp: message_inv_def auth_inv_def same_send_def sending_def)

lemma message_inv_new: "message_inv (new_Message p)"
  using send_inv_new [of p] auth_inv_new [of p]
  by (auto simp: message_inv_def new_Message_def SaFile_ok_def SaFile_new_def)

lemma send_inv_auths:
  "send_inv m \<Longrightarrow> send_inv (snd (useAuth hl sa s k m))"
  "send_inv m \<Longrightarrow> send_inv (snd (changeAuth hl s k m))"
  "send_inv m \<Longrightarrow> send_inv (snd (changeAuthKey hl k m))"
  "send_inv m \<Longrightarrow> send_inv (snd (disableAuth m))"
  by (auto simp: send_inv_def useAuth_def changeAuth_def changeAuthKey_def disableAuth_def Let_def
      split: option.splits)

lemma message_step_inv:
  assumes "message_step m m'" "message_inv m"
  shows "message_inv m'"
  using assms
proof cases
  case (update_params p)
  then show ?thesis
    using assms(2) send_inv_updateParams [of m p]
    by (auto simp: message_inv_def updateParams_def auth_inv_def)
next
  case (set_action a i d)
  then show ?thesis
    using assms(2) send_inv_setAction [of m a i d]
    by (auto simp: message_inv_def setAction_def auth_inv_def)
next
  case (change_data t t')
  then have "same_send m m'"
    by (simp add: same_send_def sending_def)
  then show ?thesis
    using assms(2) by (rule same_send_inv)
next
  case clear_data
  then show ?thesis
    using assms(2) send_inv_clearData [of m] by (auto simp: message_inv_def clearData_def auth_inv_def)
next
  case (use_auth sa hl s k)
  then show ?thesis
    using assms(2) auth_inv_ops(1) [of m hl sa s k] send_inv_auths(1) [of m hl sa s k]
    by (auto simp: message_inv_def useAuth_def Let_def)
next
  case (change_auth hl s k)
  then show ?thesis
    using assms(2) auth_inv_ops(2) [of m hl s k] send_inv_auths(2) [of m hl s k]
    by (auto simp: message_inv_def changeAuth_def Let_def)
next
  case (change_key hl k)
  then show ?thesis
    using assms(2) auth_inv_ops(3) [of m hl k] send_inv_auths(3) [of m hl k]
    by (auto simp: message_inv_def changeAuthKey_def Let_def)
next
  case disable_auth
  then show ?thesis
    using assms(2) auth_inv_ops(4) [of m] send_inv_auths(4) [of m]
    by (auto simp: message_inv_def disableAuth_def)
next
  case (build_msg hl ubuf sq)
  then show ?thesis
    using same_send_inv [OF build_send assms(2)] by simp
next
  case (parse_msg env buf n)
  then show ?thesis
    using message_inv_sending [OF sending_parse assms(2)] by simp
qed

lemma message_reachable_inv: "message_reachable m \<Longrightarrow> message_inv m"
  by (induction rule: message_reachable.induct) (auto intro: message_inv_new message_step_inv)

end
