(* ===== verification/Ptp_Binary.thy ===== *)
theory Ptp_Binary
  imports Ptp_Types
begin

unbundle bit_operations_syntax

text \<open>
  The class \<^verbatim>\<open>Binary\<close> of \<^verbatim>\<open>src/bin.cpp\<close>: octets in memory that grows. \<open>b_mem\<close> is the
  allocated memory \<^verbatim>\<open>m_buf\<close>, its length is \<^verbatim>\<open>m_alloc\<close>, and a null pointer is the empty
  list. \<open>b_octets\<close> are the octets the object holds; the lemmas relate every operation to
  an operation on that list. Allocation may fail: \<open>mem n\<close> tells whether the system gives
  \<open>n\<close> octets. Sizes are natural numbers, far below the wrap around of \<^verbatim>\<open>size_t\<close>. The
  conversions to and from IP addresses call the system and are not modelled.
\<close>

subsection \<open>State and operations\<close>

record Binary =
  b_mem :: octets
  b_size :: nat

definition b_alloc :: "Binary \<Rightarrow> nat" where
  "b_alloc b = length (b_mem b)"

definition b_octets :: "Binary \<Rightarrow> octets" where
  "b_octets b = take (b_size b) (b_mem b)"

definition min_alloc_size :: nat where
  "min_alloc_size = push_bit 5 1"

definition alloc_size :: "nat \<Rightarrow> nat" where
  "alloc_size l =
     (if l \<le> min_alloc_size then min_alloc_size
      else l + (min_alloc_size - ((l - 1) AND (min_alloc_size - 1)) - 1))"

definition iResize :: "(nat \<Rightarrow> bool) \<Rightarrow> nat \<Rightarrow> Binary \<Rightarrow> bool \<times> Binary" where
  "iResize mem l b =
     (if l \<le> b_alloc b \<and> b_mem b \<noteq> [] then (True, b)
      else if \<not> mem (alloc_size l) then (False, b)
      else (True, b\<lparr>b_mem := take (b_size b) (b_mem b) @ replicate (alloc_size l - b_size b) 0\<rparr>))"

definition Binary_null :: Binary where
  "Binary_null = \<lparr>b_mem = [], b_size = 0\<rparr>"

definition new_Binary :: "(nat \<Rightarrow> bool) \<Rightarrow> Binary" where
  "new_Binary mem = snd (iResize mem 1 Binary_null)"

definition setBin :: "(nat \<Rightarrow> bool) \<Rightarrow> octets \<Rightarrow> Binary \<Rightarrow> Binary" where
  "setBin mem xs b =
     (if xs = [] then b\<lparr>b_size := 0\<rparr>
      else case iResize mem (length xs) b of
        (True, b') \<Rightarrow> b'\<lparr>b_size := length xs, b_mem := mem_write (b_mem b') 0 xs\<rparr>
      | (False, b') \<Rightarrow> b')"

definition Binary_of_buf :: "(nat \<Rightarrow> bool) \<Rightarrow> octets \<Rightarrow> Binary" where
  "Binary_of_buf mem xs = snd (iResize mem 1 (setBin mem xs Binary_null))"

definition Binary_copy :: "(nat \<Rightarrow> bool) \<Rightarrow> Binary \<Rightarrow> Binary" where
  "Binary_copy mem rhs = snd (iResize mem 1 (setBin mem (b_octets rhs) Binary_null))"

definition Binary_fill :: "(nat \<Rightarrow> bool) \<Rightarrow> nat \<Rightarrow> uint8_t \<Rightarrow> Binary" where
  "Binary_fill mem n v =
     (if n = 0 then Binary_null
      else case iResize mem n Binary_null of
        (True, b') \<Rightarrow> b'\<lparr>b_size := n, b_mem := mem_write (b_mem b') 0 (replicate n v)\<rparr>
      | (False, b') \<Rightarrow> b')"

definition Binary_clear :: "Binary \<Rightarrow> Binary" where
  "Binary_clear b = b\<lparr>b_mem := replicate (b_alloc b) 0, b_size := 0\<rparr>"

definition setBin_string :: "(nat \<Rightarrow> bool) \<Rightarrow> octets \<Rightarrow> Binary \<Rightarrow> Binary" where
  "setBin_string mem s b = (if s = [] then Binary_clear b else setBin mem s b)"

definition setBin_at :: "(nat \<Rightarrow> bool) \<Rightarrow> nat \<Rightarrow> uint8_t \<Rightarrow> Binary \<Rightarrow> Binary" where
  "setBin_at mem pos v b =
     (case iResize mem (pos + 1) b of
        (True, b') \<Rightarrow> b'\<lparr>b_size := max (b_size b') (pos + 1), b_mem := (b_mem b')[pos := v]\<rparr>
      | (False, b') \<Rightarrow> b')"

text \<open>\<^verbatim>\<open>mvBin\<close> and the move constructor: the new object and what is left of the other.\<close>

definition mvBin :: "Binary \<Rightarrow> Binary \<Rightarrow> Binary \<times> Binary" where
  "mvBin rhs b = (rhs, Binary_null)"

definition getBin :: "nat \<Rightarrow> Binary \<Rightarrow> uint8_t" where
  "getBin pos b = (if b_size b \<le> pos then 0 else b_mem b ! pos)"

definition Binary_resize :: "(nat \<Rightarrow> bool) \<Rightarrow> nat \<Rightarrow> Binary \<Rightarrow> Binary" where
  "Binary_resize mem n b =
     (if n = 0 then Binary_clear b
      else case iResize mem n b of
        (True, b') \<Rightarrow>
          (if n < b_alloc b'
           then b'\<lparr>b_mem := mem_write (b_mem b') n (replicate (b_alloc b' - n) 0)\<rparr> else b')
          \<lparr>b_size := n\<rparr>
      | (False, b') \<Rightarrow> b')"

text \<open>The target of \<^verbatim>\<open>copy\<close> is the memory from the pointer on.\<close>

definition Binary_copy_to :: "Binary \<Rightarrow> octets \<Rightarrow> octets" where
  "Binary_copy_to b t =
     (if b_mem b \<noteq> [] \<and> b_size b > 0 then mem_write t 0 (mem_read (b_mem b) 0 (b_size b)) else t)"

definition Binary_append :: "(nat \<Rightarrow> bool) \<Rightarrow> uint8_t \<Rightarrow> Binary \<Rightarrow> Binary" where
  "Binary_append mem x b =
     (case iResize mem (b_size b + 1) b of
        (True, b') \<Rightarrow> b'\<lparr>b_mem := (b_mem b')[b_size b' := x], b_size := b_size b' + 1\<rparr>
      | (False, b') \<Rightarrow> b')"

definition Binary_append_bin :: "(nat \<Rightarrow> bool) \<Rightarrow> Binary \<Rightarrow> Binary \<Rightarrow> Binary" where
  "Binary_append_bin mem rhs b =
     (if b_size rhs > 0 then
        case iResize mem (b_size b + b_size rhs) b of
          (True, b') \<Rightarrow> b'\<lparr>b_mem := mem_write (b_mem b') (b_size b') (b_octets rhs),
                           b_size := b_size b' + b_size rhs\<rparr>
        | (False, b') \<Rightarrow> b'
      else b)"

definition isMacLen :: "Binary \<Rightarrow> bool" where
  "isMacLen b \<longleftrightarrow> b_size b = 6 \<or> b_size b = 8"

definition eui48ToEui64 :: "(nat \<Rightarrow> bool) \<Rightarrow> Binary \<Rightarrow> bool \<times> Binary" where
  "eui48ToEui64 mem b =
     (if b_size b = 8 then (True, b)
      else if b_size b \<noteq> 6 then (False, b)
      else case iResize mem 8 b of
        (False, b') \<Rightarrow> (False, b')
      | (True, b') \<Rightarrow>
          let m = b_mem b'; m1 = m[7 := m ! 5]; m2 = m1[6 := m1 ! 4]; m3 = m2[5 := m2 ! 3]
          in (True, b'\<lparr>b_size := b_size b' + 2, b_mem := m3[4 := 0xfe, 3 := 0xff]\<rparr>))"

subsection \<open>Well formed objects\<close>

definition never_fails :: "(nat \<Rightarrow> bool) \<Rightarrow> bool" where
  "never_fails mem \<longleftrightarrow> (\<forall>n. mem n)"

definition Binary_ok :: "Binary \<Rightarrow> bool" where
  "Binary_ok b \<longleftrightarrow> b_size b \<le> b_alloc b \<and> min_alloc_size dvd b_alloc b"

lemma min_alloc_size_32 [simp]: "min_alloc_size = 32"
  by (simp add: min_alloc_size_def)

lemma and_31: "(n :: nat) AND 31 = n mod 32"
  using take_bit_eq_mask [of 5 n] take_bit_eq_mod [of 5 n] by (simp add: mask_eq_exp_minus_1)

lemma alloc_size_le: "l \<le> alloc_size l" "0 < alloc_size l"
  by (simp_all add: alloc_size_def)

lemma alloc_size_dvd: "32 dvd alloc_size l"
proof (cases "l \<le> 32")
  case False
  define q r where "q = (l - 1) div 32" "r = (l - 1) mod 32"
  then have "q * 32 + r = l - 1" "r < 32"
    by simp_all
  then have "l = q * 32 + r + 1" "31 - r + r = 31"
    using False by simp_all
  then have "l + (31 - r) = (q + 1) * 32"
    by simp
  then show ?thesis
    using False by (simp add: alloc_size_def and_31 q_r_def [symmetric] del: One_nat_def)
qed (simp add: alloc_size_def)

lemma iResize_ok:
  assumes "Binary_ok b" "iResize mem l b = (r, b')"
  shows "Binary_ok b' \<and> b_octets b' = b_octets b \<and> b_size b' = b_size b \<and>
    (r \<longrightarrow> l \<le> b_alloc b' \<and> b_mem b' \<noteq> []) \<and> (\<not> r \<longrightarrow> b' = b)"
proof (cases "l \<le> b_alloc b \<and> b_mem b \<noteq> []")
  case True
  then show ?thesis
    using assms by (auto simp: iResize_def)
next
  case False
  show ?thesis
  proof (cases "mem (alloc_size l)")
    case mem: True
    have s: "b_size b \<le> alloc_size l"
    proof (cases "b_mem b = []")
      case True
      then show ?thesis
        using assms(1) by (simp add: Binary_ok_def b_alloc_def)
    next
      case nonempty: False
      then show ?thesis
        using False assms(1) alloc_size_le(1) [of l] by (simp add: Binary_ok_def)
    qed
    have "r" and b': "b' = b\<lparr>b_mem := b_octets b @ replicate (alloc_size l - b_size b) 0\<rparr>"
      using assms(2) False mem by (auto simp: iResize_def b_octets_def)
    moreover have "length (b_octets b) = b_size b"
      using assms(1) by (simp add: Binary_ok_def b_alloc_def b_octets_def)
    ultimately show ?thesis
      using s alloc_size_le [of l] alloc_size_dvd [of l]
      by (auto simp: Binary_ok_def b_alloc_def b_octets_def)
  next
    case no: False
    then show ?thesis
      using assms False by (auto simp: iResize_def)
  qed
qed

lemma iResize_succeeds: "never_fails mem \<Longrightarrow> fst (iResize mem l b)"
  by (simp add: iResize_def never_fails_def)

lemma iResizeE:
  assumes "Binary_ok b"
  obtains (resized) b' where "iResize mem l b = (True, b')" "Binary_ok b'" "b_octets b' = b_octets b"
      "b_size b' = b_size b" "l \<le> length (b_mem b')" "b_mem b' \<noteq> []"
    | (failed) "iResize mem l b = (False, b)" "\<not> never_fails mem"
proof (cases "iResize mem l b")
  case (Pair r b')
  show ?thesis
    using iResize_ok [OF assms Pair] Pair that iResize_succeeds [of mem l b]
    by (cases r) (auto simp: b_alloc_def)
qed

lemma Binary_ok_null [simp]: "Binary_ok Binary_null" "b_octets Binary_null = []"
  by (simp_all add: Binary_ok_def b_alloc_def Binary_null_def b_octets_def)

lemma length_b_octets [simp]: "Binary_ok b \<Longrightarrow> length (b_octets b) = b_size b"
  by (simp add: Binary_ok_def b_octets_def b_alloc_def)

lemma setBin_ok:
  assumes "Binary_ok b"
  shows "Binary_ok (setBin mem xs b) \<and> (never_fails mem \<longrightarrow> b_octets (setBin mem xs b) = xs)"
proof (cases "xs = []")
  case True
  then show ?thesis
    using assms by (simp add: setBin_def Binary_ok_def b_octets_def b_alloc_def)
next
  case False
  then show ?thesis
    by (cases rule: iResizeE [OF assms, of mem "length xs"])
      (use assms in \<open>auto simp: setBin_def Binary_ok_def b_octets_def b_alloc_def mem_write_def\<close>)
qed

lemma Binary_append_ok:
  assumes "Binary_ok b"
  shows "Binary_ok (Binary_append mem x b) \<and>
    b_octets (Binary_append mem x b) \<in> {b_octets b @ [x], b_octets b} \<and>
    (never_fails mem \<longrightarrow> b_octets (Binary_append mem x b) = b_octets b @ [x])"
proof (rule iResizeE [OF assms, of mem "b_size b + 1"])
  fix b'
  assume b': "iResize mem (b_size b + 1) b = (True, b')" "Binary_ok b'" "b_octets b' = b_octets b"
    "b_size b' = b_size b" "b_size b + 1 \<le> length (b_mem b')"
  then have "take (Suc (b_size b)) ((b_mem b')[b_size b := x]) = b_octets b' @ [x]"
    by (simp add: take_Suc_conv_app_nth b_octets_def)
  then show ?thesis
    using b' by (simp add: Binary_append_def Binary_ok_def b_alloc_def b_octets_def)
qed (use assms in \<open>simp add: Binary_append_def\<close>)

lemma never_failsI [simp]: "never_fails (\<lambda>_. True)"
  by (simp add: never_fails_def)

lemma new_Binary_ok [simp]: "Binary_ok (new_Binary mem)" "b_octets (new_Binary mem) = []"
proof -
  have "Binary_ok (new_Binary mem) \<and> b_octets (new_Binary mem) = []"
    by (cases rule: iResizeE [OF Binary_ok_null(1), of mem 1]) (simp_all add: new_Binary_def)
  then show "Binary_ok (new_Binary mem)" "b_octets (new_Binary mem) = []"
    by auto
qed

lemma iResize_snd:
  assumes "Binary_ok b"
  shows "Binary_ok (snd (iResize mem l b)) \<and> b_octets (snd (iResize mem l b)) = b_octets b"
  by (cases rule: iResizeE [OF assms, of mem l]) (use assms in simp_all)

lemma Binary_of_buf_ok:
  "Binary_ok (Binary_of_buf mem xs) \<and> (never_fails mem \<longrightarrow> b_octets (Binary_of_buf mem xs) = xs)"
  using iResize_snd [of "setBin mem xs Binary_null" mem 1] setBin_ok [of Binary_null mem xs]
  by (simp add: Binary_of_buf_def)

lemma Binary_copy_ok:
  "Binary_ok (Binary_copy mem b) \<and> (never_fails mem \<longrightarrow> b_octets (Binary_copy mem b) = b_octets b)"
  using iResize_snd [of "setBin mem (b_octets b) Binary_null" mem 1]
    setBin_ok [of Binary_null mem "b_octets b"]
  by (simp add: Binary_copy_def)

lemma Binary_clear_ok: "Binary_ok b \<Longrightarrow> Binary_ok (Binary_clear b) \<and> b_octets (Binary_clear b) = []"
  by (simp add: Binary_clear_def Binary_ok_def b_alloc_def b_octets_def)

lemma Binary_fill_ok:
  "Binary_ok (Binary_fill mem n v) \<and>
   (never_fails mem \<longrightarrow> b_octets (Binary_fill mem n v) = replicate n v)"
proof (cases "n = 0")
  case False
  then show ?thesis
    by (cases rule: iResizeE [OF Binary_ok_null(1), of mem n])
      (auto simp: Binary_fill_def Binary_ok_def b_octets_def b_alloc_def mem_write_def Binary_null_def)
qed (simp add: Binary_fill_def)

lemma Binary_append_bin_ok:
  assumes "Binary_ok b" "Binary_ok r"
  shows "Binary_ok (Binary_append_bin mem r b) \<and>
    (never_fails mem \<longrightarrow> b_octets (Binary_append_bin mem r b) = b_octets b @ b_octets r)"
proof (cases "b_size r = 0")
  case True
  then show ?thesis
    using assms by (simp add: Binary_append_bin_def b_octets_def)
next
  case False
  show ?thesis
    using assms(1)
  proof (cases rule: iResizeE [where mem = mem and l = "b_size b + b_size r"])
    case (resized b')
    have "length (b_octets r) = b_size r" "b_octets b = take (b_size b) (b_mem b')"
      using assms resized by (simp_all add: b_octets_def Binary_ok_def b_alloc_def)
    then show ?thesis
      using False resized
      by (auto simp: Binary_append_bin_def Binary_ok_def b_alloc_def mem_write_def b_octets_def)
  qed (use assms False in \<open>simp add: Binary_append_bin_def\<close>)
qed

lemma setBin_at_ok:
  assumes "Binary_ok b"
  shows "Binary_ok (setBin_at mem pos v b) \<and>
    (never_fails mem \<longrightarrow> pos < b_size b \<longrightarrow>
      b_octets (setBin_at mem pos v b) = (b_octets b)[pos := v]) \<and>
    (never_fails mem \<longrightarrow> getBin pos (setBin_at mem pos v b) = v)"
  using assms
proof (cases rule: iResizeE [where mem = mem and l = "pos + 1"])
  case (resized b')
  have "b_octets b = take (b_size b) (b_mem b')"
    using resized by (simp add: b_octets_def)
  then show ?thesis
    using resized
    by (cases "pos < b_size b")
      (auto simp: setBin_at_def Binary_ok_def b_alloc_def b_octets_def getBin_def take_update_swap
        max_absorb1 max_absorb2)
qed (use assms in \<open>simp add: setBin_at_def\<close>)

lemma Binary_resize_ok:
  assumes "Binary_ok b"
  shows "Binary_ok (Binary_resize mem n b) \<and>
    (never_fails mem \<longrightarrow> b_size (Binary_resize mem n b) = n \<and>
      (n \<le> b_size b \<longrightarrow> b_octets (Binary_resize mem n b) = take n (b_octets b)))"
proof (cases "n = 0")
  case True
  then show ?thesis
    using assms Binary_clear_ok [OF assms] by (simp add: Binary_resize_def Binary_clear_def)
next
  case False
  show ?thesis
    using assms
  proof (cases rule: iResizeE [where mem = mem and l = n])
    case (resized b')
    have "b_octets b = take (b_size b) (b_mem b')"
      using resized by (simp add: b_octets_def)
    then show ?thesis
      using False resized
      by (auto simp: Binary_resize_def Binary_ok_def b_alloc_def b_octets_def mem_write_def min_def)
  qed (use assms False in \<open>simp add: Binary_resize_def\<close>)
qed

lemma six_octets:
  assumes "length xs \<ge> 8"
  obtains a0 a1 a2 a3 a4 a5 a6 a7 r where "xs = a0 # a1 # a2 # a3 # a4 # a5 # a6 # a7 # r"
  using assms by (auto simp: numeral_eq_Suc Suc_le_length_iff)

lemma eui48ToEui64_octets:
  assumes "Binary_ok b" "never_fails mem" "b_size b = 6"
  shows "fst (eui48ToEui64 mem b) \<and> Binary_ok (snd (eui48ToEui64 mem b)) \<and>
    b_octets (snd (eui48ToEui64 mem b)) = take 3 (b_octets b) @ [0xff, 0xfe] @ drop 3 (b_octets b)"
  using assms(1)
proof (cases rule: iResizeE [where mem = mem and l = 8])
  case (resized b')
  obtain a0 a1 a2 a3 a4 a5 a6 a7 r where m: "b_mem b' = a0 # a1 # a2 # a3 # a4 # a5 # a6 # a7 # r"
    using six_octets [OF resized(5)] by blast
  have "b_octets b = [a0, a1, a2, a3, a4, a5]"
    using resized(3,4) assms(3) m by (simp add: b_octets_def numeral_eq_Suc)
  then show ?thesis
    using resized m assms(3)
    by (simp add: eui48ToEui64_def Let_def Binary_ok_def b_alloc_def b_octets_def numeral_eq_Suc)
qed (use assms in simp)

subsection \<open>Comparison\<close>

definition Binary_eq :: "Binary \<Rightarrow> Binary \<Rightarrow> bool" where
  "Binary_eq a b \<longleftrightarrow> b_size a = b_size b \<and>
     (b_size a = 0 \<or> memcmp (mem_read (b_mem a) 0 (b_size a)) (mem_read (b_mem b) 0 (b_size a)) = 0)"

definition Binary_less :: "Binary \<Rightarrow> Binary \<Rightarrow> bool" where
  "Binary_less a b \<longleftrightarrow>
     (let n = min (b_size a) (b_size b) in
      n > 0 \<and> memcmp (mem_read (b_mem a) 0 n) (mem_read (b_mem b) 0 n) < 0)"

lemma Binary_eq_octets:
  assumes "Binary_ok a" "Binary_ok b"
  shows "Binary_eq a b \<longleftrightarrow> b_octets a = b_octets b"
proof (cases "b_size a = b_size b")
  case True
  then show ?thesis
    using assms by (auto simp: Binary_eq_def mem_read_def memcmp_eq_0 Binary_ok_def b_alloc_def b_octets_def)
next
  case False
  then show ?thesis
    using length_b_octets [OF assms(1)] length_b_octets [OF assms(2)] by (auto simp: Binary_eq_def)
qed

end
