(* ===== verification/Bin_Text.thy ===== *)
theory Bin_Text
  imports Ptp_Binary
begin

unbundle bit_operations_syntax

text \<open>
  The text forms of a \<^verbatim>\<open>Binary\<close> in \<^verbatim>\<open>src/bin.cpp\<close>: identifiers with separators,
  hexadecimal, and base 64, with what the code uses of the C library (\<^verbatim>\<open>strtol\<close> in base
  16, \<^verbatim>\<open>strtok_r\<close> through the class \<^verbatim>\<open>Token\<close> of \<^verbatim>\<open>src/comp.h\<close>, \<^verbatim>\<open>snprintf\<close> of
  two hexadecimal digits). A C string is the list of its characters, without the
  terminating one.
\<close>

subsection \<open>The C library\<close>

definition cstr :: "string \<Rightarrow> string" where
  "cstr s = takeWhile (\<lambda>c. c \<noteq> CHR 0x00) s"

definition isspace :: "char \<Rightarrow> bool" where
  "isspace c \<longleftrightarrow> (let n = of_char c :: nat in n = 32 \<or> (9 \<le> n \<and> n \<le> 13))"

definition hexval :: "char \<Rightarrow> nat option" where
  "hexval c =
     (let n = of_char c :: nat in
      if 48 \<le> n \<and> n \<le> 57 then Some (n - 48)
      else if 97 \<le> n \<and> n \<le> 102 then Some (n - 87)
      else if 65 \<le> n \<and> n \<le> 70 then Some (n - 55) else None)"

definition hex_nat :: "string \<Rightarrow> nat" where
  "hex_nat ds = foldl (\<lambda>a c. a * 16 + (case hexval c of Some d \<Rightarrow> d | None \<Rightarrow> 0)) 0 ds"

text \<open>
  \<^verbatim>\<open>strtol(cur, &end, 16)\<close>: the number and what follows it, which is the whole string when
  there is no number. A number that does not fit is larger than what the caller accepts.
\<close>

definition strtol16 :: "string \<Rightarrow> int \<times> string" where
  "strtol16 s =
     (let s1 = dropWhile isspace s;
          neg = (s1 \<noteq> [] \<and> hd s1 = CHR ''-'');
          s2 = (if s1 \<noteq> [] \<and> (hd s1 = CHR ''-'' \<or> hd s1 = CHR ''+'') then tl s1 else s1);
          s3 = (case s2 of a # x # d # _ \<Rightarrow>
                  if a = CHR ''0'' \<and> (x = CHR ''x'' \<or> x = CHR ''X'') \<and> hexval d \<noteq> None
                  then tl (tl s2) else s2
                | _ \<Rightarrow> s2);
          ds = takeWhile (\<lambda>c. hexval c \<noteq> None) s3
      in if ds = [] then (0, s)
         else (if neg then - int (hex_nat ds) else int (hex_nat ds), drop (length ds) s3))"

text \<open>The tokens that \<^verbatim>\<open>first\<close> and \<^verbatim>\<open>next\<close> give: the longest runs of other characters.\<close>

function tokens :: "string \<Rightarrow> string \<Rightarrow> string list" where
  "tokens sep s =
     (let s1 = dropWhile (\<lambda>c. c \<in> set sep) s in
      if s1 = [] then []
      else takeWhile (\<lambda>c. c \<notin> set sep) s1 # tokens sep (dropWhile (\<lambda>c. c \<notin> set sep) s1))"
  by pat_completeness auto
termination
proof (relation "measure (\<lambda>(sep, s). length s)")
  fix sep s :: string and s1
  assume s1: "s1 = dropWhile (\<lambda>c. c \<in> set sep) s" "s1 \<noteq> []"
  then have "hd s1 \<notin> set sep"
    using hd_dropWhile [of "\<lambda>c. c \<in> set sep" s] by simp
  then have "length (dropWhile (\<lambda>c. c \<notin> set sep) s1) < length s1"
    using s1(2) length_dropWhile_le [of "\<lambda>c. c \<notin> set sep" "tl s1"] by (cases s1) auto
  also have "\<dots> \<le> length s"
    by (simp add: s1(1) length_dropWhile_le)
  finally show "((sep, dropWhile (\<lambda>c. c \<notin> set sep) s1), (sep, s)) \<in> measure (\<lambda>(sep, s). length s)"
    by simp
qed simp

declare tokens.simps [simp del]

definition hexdig :: "nat \<Rightarrow> char" where
  "hexdig n = ''0123456789abcdef'' ! n"

text \<open>\<^verbatim>\<open>%02x\<close> of an octet.\<close>

definition hex2 :: "uint8_t \<Rightarrow> string" where
  "hex2 x = [hexdig (unat x div 16), hexdig (unat x mod 16)]"

subsection \<open>Identifiers and hexadecimal\<close>

definition idsep :: string where
  "idsep = '':.-''"

definition parseByte :: "(nat \<Rightarrow> bool) \<Rightarrow> string \<Rightarrow> Binary \<Rightarrow> Binary option" where
  "parseByte mem cur b =
     (case strtol16 cur of (a, rest) \<Rightarrow>
        if rest = cur \<or> rest \<noteq> [] \<or> a < 0 \<or> a > 0xff then None
        else Some (Binary_append mem (word_of_int a) b))"

fun bufToId :: "string \<Rightarrow> octets \<Rightarrow> string" where
  "bufToId sep [] = ''''"
| "bufToId sep [x] = hex2 x"
| "bufToId sep (x # y # r) = hex2 x @ sep @ bufToId sep (y # r)"

definition toId :: "string \<Rightarrow> Binary \<Rightarrow> string" where
  "toId sep b = bufToId sep (b_octets b)"

primrec parseBytes :: "(nat \<Rightarrow> bool) \<Rightarrow> string list \<Rightarrow> Binary \<Rightarrow> Binary option" where
  "parseBytes mem [] b = Some b"
| "parseBytes mem (t # ts) b =
     (case parseByte mem t b of None \<Rightarrow> None | Some b' \<Rightarrow> parseBytes mem ts b')"

definition fromId :: "(nat \<Rightarrow> bool) \<Rightarrow> string \<Rightarrow> Binary \<Rightarrow> bool \<times> Binary" where
  "fromId mem s b =
     (if length s < 2 then (False, b)
      else if \<not> mem (length (cstr s) + 1) then (False, b)
      else case parseBytes mem (tokens idsep (cstr s)) (new_Binary mem) of
        None \<Rightarrow> (False, b)
      | Some i \<Rightarrow> (True, setBin mem (b_octets i) b))"

definition fromMac :: "(nat \<Rightarrow> bool) \<Rightarrow> string \<Rightarrow> Binary \<Rightarrow> bool \<times> Binary" where
  "fromMac mem s b = (case fromId mem s b of (r, b') \<Rightarrow> (r \<and> isMacLen b', b'))"

text \<open>The loop of \<^verbatim>\<open>fromHex\<close> on one token: two characters a time, the last may be alone.\<close>

fun parseNibbles :: "(nat \<Rightarrow> bool) \<Rightarrow> string \<Rightarrow> Binary \<Rightarrow> Binary option" where
  "parseNibbles mem [] b = Some b"
| "parseNibbles mem [c] b = parseByte mem [c] b"
| "parseNibbles mem [c, d] b = parseByte mem [c, d] b"
| "parseNibbles mem (c # d # e # r) b =
     (case parseByte mem [c, d] b of None \<Rightarrow> None | Some b' \<Rightarrow> parseNibbles mem (e # r) b')"

primrec parseHexTokens :: "(nat \<Rightarrow> bool) \<Rightarrow> string list \<Rightarrow> Binary \<Rightarrow> Binary option" where
  "parseHexTokens mem [] b = Some b"
| "parseHexTokens mem (t # ts) b =
     (case parseNibbles mem t b of None \<Rightarrow> None | Some b' \<Rightarrow> parseHexTokens mem ts b')"

definition fromHex :: "(nat \<Rightarrow> bool) \<Rightarrow> string \<Rightarrow> Binary \<Rightarrow> bool \<times> Binary" where
  "fromHex mem s b =
     (if s = [] then (False, b)
      else if \<not> mem (length (cstr s) + 1) then (False, b)
      else case parseHexTokens mem (tokens idsep (cstr s)) (new_Binary mem) of
        None \<Rightarrow> (False, b)
      | Some i \<Rightarrow> (True, setBin mem (b_octets i) b))"

definition bufToHex :: "octets \<Rightarrow> string" where
  "bufToHex xs = concat (map hex2 xs)"

definition toHex :: "Binary \<Rightarrow> string" where
  "toHex b = bufToHex (b_octets b)"

subsection \<open>Base 64\<close>

definition toB64 :: string where
  "toB64 = ''ABCDEFGHIJKLMNOPQRSTUVWXYZabcdefghijklmnopqrstuvwxyz0123456789''"

definition B64 :: "int list" where
  "B64 = [62, 73, 82, -1, 63, 52, 53, 54, 55, 56, 57, 58, 59, 60, 61,
     -1, -1, -1, -1, -1, -1, -1, 0, 1, 2, 3, 4, 5, 6, 7, 8, 9, 10, 11, 12, 13,
     14, 15, 16, 17, 18, 19, 20, 21, 22, 23, 24, 25, -1, -1, -1, -1, 83, -1,
     26, 27, 28, 29, 30, 31, 32, 33, 34, 35, 36, 37, 38, 39, 40, 41, 42, 43,
     44, 45, 46, 47, 48, 49, 50, 51]"

definition URL :: uint8_t where "URL = 1"
definition BOTH :: uint8_t where "BOTH = 2"
definition STAND :: uint8_t where "STAND = 4"
definition IMAP :: uint8_t where "IMAP = 8"

text \<open>The value of a character and the alphabets the characters so far allow.\<close>

definition parseB64 :: "char \<Rightarrow> uint8_t \<Rightarrow> (uint8_t \<times> uint8_t) option" where
  "parseB64 c safe =
     (let n = of_char c :: nat in
      if n < 43 \<or> n > 122 then None
      else
        let r = B64 ! (n - 43) in
        if r = - 1 then None
        else if r = 62 then
          if safe AND URL > 0 then None else Some (word_of_int r, safe OR BOTH)
        else if r = 63 then
          if safe AND (URL OR IMAP) > 0 then None else Some (word_of_int r, BOTH OR STAND)
        else if r = 73 then
          if safe AND (URL OR STAND) > 0 then None
          else Some (word_of_int (r - 10), BOTH OR IMAP)
        else if r = 82 \<or> r = 83 then
          if safe AND BOTH > 0 then None else Some (word_of_int (r - 20), URL)
        else Some (word_of_int r, safe))"

definition b64_1 :: "uint8_t \<Rightarrow> uint8_t \<Rightarrow> uint8_t" where
  "b64_1 a0 a1 = (push_bit 2 a0 AND 0xfc) OR (drop_bit 4 a1 AND 0x03)"

definition b64_2 :: "uint8_t \<Rightarrow> uint8_t \<Rightarrow> uint8_t" where
  "b64_2 a1 a2 = (push_bit 4 a1 AND 0xf0) OR (drop_bit 2 a2 AND 0x0f)"

definition b64_3 :: "uint8_t \<Rightarrow> uint8_t \<Rightarrow> uint8_t" where
  "b64_3 a2 a3 = (push_bit 6 a2 AND 0xc0) OR (a3 AND 0x3f)"

text \<open>Characters one after the other.\<close>

fun parseB64s :: "string \<Rightarrow> uint8_t \<Rightarrow> (octets \<times> uint8_t) option" where
  "parseB64s [] safe = Some ([], safe)"
| "parseB64s (c # cs) safe =
     (case parseB64 c safe of None \<Rightarrow> None
      | Some (v, safe') \<Rightarrow>
          (case parseB64s cs safe' of None \<Rightarrow> None
           | Some (vs, safe'') \<Rightarrow> Some (v # vs, safe'')))"

text \<open>The last group, of two to four characters; \<open>pad\<close> asks for padding.\<close>

definition b64_last :: "(nat \<Rightarrow> bool) \<Rightarrow> bool \<Rightarrow> string \<Rightarrow> uint8_t \<Rightarrow> Binary \<Rightarrow> Binary option" where
  "b64_last mem pad cs safe b =
     (if length cs < 2 \<or> pad \<and> length cs \<noteq> 4 then None
      else
        let l1 = (if length cs = 4 \<and> cs ! 3 = CHR ''='' then 3 else length cs);
            l2 = (if l1 = 3 \<and> cs ! 2 = CHR ''='' then 2 else l1)
        in case parseB64s (take l2 cs) safe of None \<Rightarrow> None
           | Some (a, _) \<Rightarrow>
               let b1 = Binary_append mem (b64_1 (a ! 0) (a ! 1)) b
               in if l2 > 2 then
                    let b2 = Binary_append mem (b64_2 (a ! 1) (a ! 2)) b1
                    in if l2 = 4 then Some (Binary_append mem (b64_3 (a ! 2) (a ! 3)) b2)
                       else Some b2
                  else Some b1)"

fun b64_groups :: "(nat \<Rightarrow> bool) \<Rightarrow> bool \<Rightarrow> string \<Rightarrow> uint8_t \<Rightarrow> Binary \<Rightarrow> Binary option" where
  "b64_groups mem pad (c0 # c1 # c2 # c3 # c4 # r) safe b =
     (case parseB64s [c0, c1, c2, c3] safe of None \<Rightarrow> None
      | Some (a, safe') \<Rightarrow>
          b64_groups mem pad (c4 # r) safe'
            (Binary_append mem (b64_3 (a ! 2) (a ! 3))
              (Binary_append mem (b64_2 (a ! 1) (a ! 2))
                (Binary_append mem (b64_1 (a ! 0) (a ! 1)) b))))"
| "b64_groups mem pad cs safe b = b64_last mem pad cs safe b"

definition fromBase64 :: "(nat \<Rightarrow> bool) \<Rightarrow> string \<Rightarrow> bool \<Rightarrow> Binary \<Rightarrow> bool \<times> Binary" where
  "fromBase64 mem s pad b =
     (if s = [] then (True, Binary_clear b)
      else case b64_groups mem pad s 0 (new_Binary mem) of
        None \<Rightarrow> (False, b)
      | Some i \<Rightarrow> (True, setBin mem (b_octets i) b))"

definition b64_char :: "char \<Rightarrow> char \<Rightarrow> uint8_t \<Rightarrow> char" where
  "b64_char v62 v63 i = (toB64 @ [v62, v63]) ! unat i"

definition b64_idx :: "uint8_t \<Rightarrow> uint8_t \<Rightarrow> uint8_t \<Rightarrow> octets" where
  "b64_idx c0 c1 c2 =
     [drop_bit 2 c0 AND 0x3f,
      (push_bit 4 (c0 AND 0x03) AND 0x30) OR (drop_bit 4 c1 AND 0x0f),
      (push_bit 2 (c1 AND 0x0f) AND 0x3c) OR (drop_bit 6 c2 AND 0x03),
      c2 AND 0x3f]"

fun bufToBase64 :: "bool \<Rightarrow> char \<Rightarrow> char \<Rightarrow> octets \<Rightarrow> string" where
  "bufToBase64 pad v62 v63 (c0 # c1 # c2 # c3 # r) =
     map (b64_char v62 v63) (b64_idx c0 c1 c2) @ bufToBase64 pad v62 v63 (c3 # r)"
| "bufToBase64 pad v62 v63 [c0, c1, c2] = map (b64_char v62 v63) (b64_idx c0 c1 c2)"
| "bufToBase64 pad v62 v63 [c0, c1] =
     map (b64_char v62 v63) (take 3 (b64_idx c0 c1 0)) @ (if pad then ''='' else [])"
| "bufToBase64 pad v62 v63 [c0] =
     map (b64_char v62 v63) (take 2 (b64_idx c0 0 0)) @ (if pad then ''=='' else [])"
| "bufToBase64 pad v62 v63 [] = []"

definition toBase64 :: "bool \<Rightarrow> char \<Rightarrow> char \<Rightarrow> Binary \<Rightarrow> string" where
  "toBase64 pad v62 v63 b = bufToBase64 pad v62 v63 (b_octets b)"

end
