(* ===== verification/Cfg_Line.thy ===== *)
theory Cfg_Line
  imports Bin_Text "HOL-Library.Monad_Syntax"
begin

text \<open>
  Reading lines in \<^verbatim>\<open>src/cfg.cpp\<close>: the line buffer of 512 characters on the stack, \<^verbatim>\<open>fgets\<close>, the
  functions that walk over the buffer, \<^verbatim>\<open>strtok_r\<close> and \<^verbatim>\<open>strtol\<close>. The buffer is a list of
  characters and a pointer into it an index. What earlier lines left in the buffer stays in it, as
  in the program. A step outside the buffer has no defined result: it is \<open>None\<close>.
\<close>

definition lineSize :: nat where
  "lineSize = 512"

definition NUL :: char where
  "NUL = CHR 0x00"

subsection \<open>Walking over the buffer\<close>

function skip_spaces :: "string \<Rightarrow> nat \<Rightarrow> nat option" where
  "skip_spaces m cur =
     (if cur < length m then if isspace (m ! cur) then skip_spaces m (cur + 1) else Some cur
      else None)"
  by pat_completeness auto
termination
  by (relation "measure (\<lambda>(m, cur). length m - cur)") auto

text \<open>The first loop of \<^verbatim>\<open>next_space_token\<close>: only a space ends it.\<close>

function find_space :: "string \<Rightarrow> nat \<Rightarrow> nat option" where
  "find_space m cur =
     (if cur < length m then if isspace (m ! cur) then Some cur else find_space m (cur + 1)
      else None)"
  by pat_completeness auto
termination
  by (relation "measure (\<lambda>(m, cur). length m - cur)") auto

declare skip_spaces.simps [simp del] find_space.simps [simp del]

definition next_space_token :: "string \<Rightarrow> nat \<Rightarrow> (string \<times> nat) option" where
  "next_space_token m cur = do {
     p \<leftarrow> find_space m cur;
     let m' = m[p := NUL];
     v \<leftarrow> skip_spaces m' (p + 1);
     Some (m', v)
   }"

text \<open>The last character that is not a space in front of \<open>end\<close> gets a zero behind it.\<close>

primrec strip_end_spaces :: "string \<Rightarrow> nat \<Rightarrow> string option" where
  "strip_end_spaces m 0 = None"
| "strip_end_spaces m (Suc e) =
     (if e < length m
      then if isspace (m ! e) then strip_end_spaces m e
           else if e + 1 < length m then Some (m[e + 1 := NUL]) else None
      else None)"

text \<open>The C string at a pointer; its terminating zero is in the buffer.\<close>

definition str_at :: "string \<Rightarrow> nat \<Rightarrow> string option" where
  "str_at m p = (if NUL \<in> set (drop p m) then Some (cstr (drop p m)) else None)"

text \<open>\<^verbatim>\<open>strchr\<close>: the place of a character in the string at a pointer.\<close>

definition strchr :: "string \<Rightarrow> char \<Rightarrow> nat option" where
  "strchr s c = (if c \<in> set s then Some (length (takeWhile (\<lambda>d. d \<noteq> c) s)) else None)"

subsection \<open>The C library\<close>

text \<open>
  \<^verbatim>\<open>fgets\<close> of a file that has the text \<open>f\<close> left: up to \<open>n\<close> characters, a line end included, and the
  text behind them.
\<close>

fun fgets_line :: "nat \<Rightarrow> string \<Rightarrow> string \<times> string" where
  "fgets_line 0 f = ([], f)"
| "fgets_line (Suc n) [] = ([], [])"
| "fgets_line (Suc n) (c # f) =
     (if c = CHR 0x0A then ([c], f) else case fgets_line n f of (l, r) \<Rightarrow> (c # l, r))"

lemma fgets_line_split:
  "fgets_line n f = (l, r) \<Longrightarrow> f = l @ r \<and> length l \<le> n \<and> (0 < n \<and> f \<noteq> [] \<longrightarrow> l \<noteq> [])"
  by (induction n f arbitrary: l rule: fgets_line.induct) (auto split: if_splits prod.splits)

definition fgets :: "string \<Rightarrow> string \<Rightarrow> (string \<times> string) option" where
  "fgets m f =
     (if f = [] then None
      else case fgets_line (lineSize - 1) f of
        (l, r) \<Rightarrow> Some (l @ [NUL] @ drop (length l + 1) m, r))"

lemma fgets_shorter: "fgets m f = Some (m', r) \<Longrightarrow> length r < length f"
  using fgets_line_split [of "lineSize - 1" f]
  by (fastforce simp: fgets_def lineSize_def split: if_splits prod.splits)

text \<open>\<^verbatim>\<open>strtok_r\<close> in the buffer: the token, the buffer with a zero behind it and the saved pointer.\<close>

definition strtok_r :: "string \<Rightarrow> string \<Rightarrow> nat \<Rightarrow> ((string option) \<times> string \<times> nat) option" where
  "strtok_r sep m p = do {
     s \<leftarrow> str_at m p;
     let s1 = dropWhile (\<lambda>c. c \<in> set sep) s;
     let b = p + (length s - length s1);
     let t = takeWhile (\<lambda>c. c \<notin> set sep) s1;
     let e = b + length t;
     if s1 = [] then Some (None, m, b)
     else if t = s1 then Some (Some t, m, e)
     else Some (Some t, m[e := NUL], e + 1)
   }"

definition isdigit :: "char \<Rightarrow> bool" where
  "isdigit c \<longleftrightarrow> (let n = of_char c :: nat in 48 \<le> n \<and> n \<le> 57)"

definition digit_below :: "nat \<Rightarrow> char \<Rightarrow> bool" where
  "digit_below b c \<longleftrightarrow> (case hexval c of None \<Rightarrow> False | Some d \<Rightarrow> d < b)"

definition num_of :: "nat \<Rightarrow> string \<Rightarrow> int" where
  "num_of b ds = foldl (\<lambda>a c. a * int b + (case hexval c of Some d \<Rightarrow> int d | None \<Rightarrow> 0)) 0 ds"

text \<open>
  The functions of the family of \<^verbatim>\<open>strtol\<close>, with base 10 or, as base 0, the base of the prefix: sign,
  number and the text behind the number, the whole text when there is none.
\<close>

definition strto_parts :: "nat \<Rightarrow> string \<Rightarrow> bool \<times> int \<times> string" where
  "strto_parts base s =
     (let s1 = dropWhile isspace s;
          neg = (s1 \<noteq> [] \<and> hd s1 = CHR ''-'');
          s2 = (if s1 \<noteq> [] \<and> (hd s1 = CHR ''-'' \<or> hd s1 = CHR ''+'') then tl s1 else s1);
          hex = (base = 0 \<and> (case s2 of a # x # d # _ \<Rightarrow>
                   a = CHR ''0'' \<and> (x = CHR ''x'' \<or> x = CHR ''X'') \<and> hexval d \<noteq> None | _ \<Rightarrow> False));
          b = (if base \<noteq> 0 then base else if hex then 16 else if s2 \<noteq> [] \<and> hd s2 = CHR ''0'' then 8 else 10);
          s3 = (if hex then tl (tl s2) else s2);
          ds = takeWhile (digit_below b) s3
      in if ds = [] then (False, 0, s) else (neg, num_of b ds, drop (length ds) s3))"

text \<open>
  \<^verbatim>\<open>strtoimax\<close>, and \<^verbatim>\<open>strtol\<close> and \<^verbatim>\<open>strtoll\<close> on 64 bits: the result is limited to the type.
  \<^verbatim>\<open>strtoumax\<close> negates a number with a sign modulo the type.
\<close>

definition strtoimax :: "nat \<Rightarrow> string \<Rightarrow> int \<times> string" where
  "strtoimax base s =
     (case strto_parts base s of (neg, n, r) \<Rightarrow>
        (if neg then max (- (2 ^ 63)) (- n) else min (2 ^ 63 - 1) n, r))"

definition strtoumax :: "nat \<Rightarrow> string \<Rightarrow> int \<times> string" where
  "strtoumax base s =
     (case strto_parts base s of (neg, n, r) \<Rightarrow>
        (if 2 ^ 64 \<le> n then 2 ^ 64 - 1 else if neg then (- n) mod 2 ^ 64 else n, r))"

definition strtol0 :: "string \<Rightarrow> int \<times> string" where
  "strtol0 s = strtoimax 0 s"

subsection \<open>The loop over the lines of a file\<close>

text \<open>
  Both readers have this loop: a line is fetched into the buffer and handled; a wrong line ends the
  loop. What holds of every line holds of the whole file.
\<close>

definition LF :: char where
  "LF = CHR 0x0A"

text \<open>A buffer with a complete line in it.\<close>

definition full_line :: "string \<Rightarrow> bool" where
  "full_line m \<longleftrightarrow> length m = lineSize \<and> (\<exists>k. Suc k < lineSize \<and> m ! k = LF \<and> m ! Suc k = NUL)"

definition file_text :: "string list \<Rightarrow> string" where
  "file_text ls = concat (map (\<lambda>l. l @ [LF]) ls)"

definition line_fits :: "string \<Rightarrow> bool" where
  "line_fits l \<longleftrightarrow> LF \<notin> set l \<and> length l + 2 \<le> lineSize"

lemma fgets_line_complete:
  "LF \<notin> set l \<Longrightarrow> length l < n \<Longrightarrow> fgets_line n (l @ LF # r) = (l @ [LF], r)"
proof (induction l arbitrary: n)
  case Nil
  then show ?case
    by (cases n) (simp_all add: LF_def)
next
  case (Cons c l)
  then show ?case
    by (cases n) (auto simp: LF_def)
qed

lemma fgets_complete:
  assumes "line_fits l" "length m = lineSize"
  shows "fgets m (l @ LF # r) = Some (l @ [LF, NUL] @ drop (length l + 2) m, r)"
    "full_line (l @ [LF, NUL] @ drop (length l + 2) m)"
proof -
  show "fgets m (l @ LF # r) = Some (l @ [LF, NUL] @ drop (length l + 2) m, r)"
    using assms fgets_line_complete [of l "lineSize - 1" r]
    by (auto simp: fgets_def line_fits_def)
  show "full_line (l @ [LF, NUL] @ drop (length l + 2) m)"
    using assms by (auto simp: full_line_def line_fits_def nth_append intro!: exI [of _ "length l"])
qed

locale line_loop =
  fixes run :: "string \<Rightarrow> string \<Rightarrow> 's \<Rightarrow> (bool \<times> 's) option"
    and line :: "string \<Rightarrow> 's \<Rightarrow> (bool \<times> string \<times> 's) option"
  assumes run_step: "run m f s =
     (case fgets m f of
        None \<Rightarrow> Some (True, s)
      | Some (m1, r) \<Rightarrow>
          (case line m1 s of
             None \<Rightarrow> None
           | Some (ok, m2, s') \<Rightarrow> if ok then run m2 r s' else Some (False, s')))"
begin

lemma run_keeps:
  assumes line: "\<And>m s ok m' s'. line m s = Some (ok, m', s') \<Longrightarrow> P s \<Longrightarrow> P s'"
    and "run m f s = Some (ok, s')" "P s"
  shows "P s'"
  using assms(2,3)
proof (induction "length f" arbitrary: m f s rule: less_induct)
  case less
  show ?case
  proof (cases "fgets m f")
    case None
    then show ?thesis
      using less.prems by (simp add: run_step [of m f s])
  next
    case (Some x)
    then obtain m1 r where r: "fgets m f = Some (m1, r)" "length r < length f"
      by (cases x) (auto dest: fgets_shorter)
    then obtain ok1 m2 s1 where l: "line m1 s = Some (ok1, m2, s1)"
      using less.prems(1) by (auto simp: run_step [of m f s] split: option.splits)
    then have "P s1"
      using line less.prems(2) by blast
    then show ?thesis
      using less.hyps [OF r(2), of m2 s1] less.prems(1) r(1) l
      by (auto simp: run_step [of m f s] split: if_splits)
  qed
qed

lemma run_complete:
  assumes line: "\<And>m s. full_line m \<Longrightarrow> \<exists>ok m' s'. line m s = Some (ok, m', s') \<and> length m' = lineSize"
    and "\<forall>l \<in> set ls. line_fits l" "length m = lineSize"
  shows "\<exists>ok s'. run m (file_text ls) s = Some (ok, s')"
  using assms(2,3)
proof (induction ls arbitrary: m s)
  case Nil
  then show ?case
    by (auto simp: run_step [of m] file_text_def fgets_def)
next
  case (Cons l ls)
  have f: "file_text (l # ls) = l @ LF # file_text ls"
    by (simp add: file_text_def)
  have l: "line_fits l"
    using Cons.prems by simp
  note g = fgets_complete [OF l Cons.prems(2)]
  obtain ok m2 s2 where "line (l @ [LF, NUL] @ drop (length l + 2) m) s = Some (ok, m2, s2)"
    "length m2 = lineSize"
    using line [OF g(2)] by blast
  then show ?case
    using Cons.IH [of m2 s2] Cons.prems(1) g(1) by (auto simp: run_step [of m "_ @ _"] f)
qed

text \<open>Entries on complete lines of their own that are right, one after the other.\<close>

lemma run_lines:
  assumes line: "\<And>e m s. e \<in> set es \<Longrightarrow> length m = lineSize \<Longrightarrow>
      \<exists>m'. line (put e @ [LF, NUL] @ drop (length (put e) + 2) m) s = Some (True, m', act e s) \<and>
        length m' = lineSize"
    and "\<forall>e \<in> set es. line_fits (put e)" "length m = lineSize"
  shows "run m (file_text (map put es)) s = Some (True, fold act es s)"
  using assms
proof (induction es arbitrary: m s)
  case Nil
  then show ?case
    by (simp add: run_step [of m] file_text_def fgets_def)
next
  case (Cons e es)
  have f: "file_text (put e # map put es) = put e @ LF # file_text (map put es)"
    by (simp add: file_text_def)
  have l: "line_fits (put e)"
    using Cons.prems by simp
  obtain m2 where "line (put e @ [LF, NUL] @ drop (length (put e) + 2) m) s = Some (True, m2, act e s)"
    "length m2 = lineSize"
    using Cons.prems(1) [of e m s] Cons.prems(3) by auto
  then show ?case
    using Cons.IH [of m2 "act e s"] Cons.prems(1,2) fgets_complete(1) [OF l Cons.prems(3)]
    by (simp add: run_step [of m "_ @ _"] f)
qed

end

end
