(* ===== verification/Cfg_File.thy ===== *)
theory Cfg_File
  imports Cfg_Line "HOL-Library.AList"
begin

text \<open>
  The class \<^verbatim>\<open>ConfigFile\<close> of \<^verbatim>\<open>src/cfg.cpp\<close> and \<^verbatim>\<open>pub/cfg.h\<close>: sections of settings read from a
  ptp4l configuration file, with the defaults in the section \<^verbatim>\<open>global\<close>. The map of sections is an
  association list. \<open>mem\<close> says which allocations succeed, \<open>fs\<close> gives the text of a file that can
  be opened.
\<close>

subsection \<open>Settings\<close>

text \<open>The enumerator of the settings: nine numbers, two texts, two addresses.\<close>

definition val_base_val :: nat where "val_base_val = 0"
definition transportSpecific_val :: nat where "transportSpecific_val = 0"
definition domainNumber_val :: nat where "domainNumber_val = 1"
definition udp6_scope_val :: nat where "udp6_scope_val = 2"
definition udp_ttl_val :: nat where "udp_ttl_val = 3"
definition socket_priority_val :: nat where "socket_priority_val = 4"
definition network_transport_val :: nat where "network_transport_val = 5"
definition active_key_id_val :: nat where "active_key_id_val = 6"
definition spp_val :: nat where "spp_val = 7"
definition allow_unauth_val :: nat where "allow_unauth_val = 8"
definition str_base_val :: nat where "str_base_val = 9"
definition uds_address_val :: nat where "uds_address_val = 9"
definition sa_file_val :: nat where "sa_file_val = 10"
definition bin_base_val :: nat where "bin_base_val = 11"
definition ptp_dst_mac_val :: nat where "ptp_dst_mac_val = 11"
definition p2p_dst_mac_val :: nat where "p2p_dst_mac_val = 12"
definition last_val :: nat where "last_val = 13"

lemmas val_defs = val_base_val_def transportSpecific_val_def domainNumber_val_def udp6_scope_val_def
  udp_ttl_val_def socket_priority_val_def network_transport_val_def active_key_id_val_def
  spp_val_def allow_unauth_val_def str_base_val_def uds_address_val_def sa_file_val_def
  bin_base_val_def ptp_dst_mac_val_def p2p_dst_mac_val_def last_val_def

record range_t =
  rg_name :: string
  rg_defStr :: string
  rg_defVal :: int
  rg_min :: int
  rg_max :: int

definition rang_val :: "string \<Rightarrow> int \<Rightarrow> int \<Rightarrow> int \<Rightarrow> range_t" where
  "rang_val n d lo hi = \<lparr>rg_name = n, rg_defStr = [], rg_defVal = d, rg_min = lo, rg_max = hi\<rparr>"

definition rang_str :: "string \<Rightarrow> string \<Rightarrow> range_t" where
  "rang_str n d = \<lparr>rg_name = n, rg_defStr = d, rg_defVal = 0, rg_min = 0, rg_max = 0\<rparr>"

definition ranges :: "range_t list" where
  "ranges =
     [rang_val ''transportSpecific'' 0 0 0xf,
      rang_val ''domainNumber'' 0 0 0xff,
      rang_val ''udp6_scope'' 0xe 0 0xf,
      rang_val ''udp_ttl'' 1 1 0xff,
      rang_val ''socket_priority'' 0 0 15,
      rang_val ''network_transport'' 52 50 54,
      rang_val ''active_key_id'' 0 0 0xffffffff,
      rang_val ''spp'' 0 0 0xff,
      rang_val ''allow_unauth'' 0 0 2,
      rang_str ''uds_address'' ''/var/run/ptp/ptp4l'',
      rang_str ''sa_file'' [],
      rang_str ''ptp_dst_mac'' ''1:1b:19:0:0:0'',
      rang_str ''p2p_dst_mac'' ''1:80:c2:0:0:e'']"

definition globalSection :: string where
  "globalSection = ''global''"

record ConfigSection =
  m_str_vals :: "string list"
  m_bin_vals :: "Binary list"
  m_vals :: "uint32_t list"
  m_set :: "bool list"

text \<open>
  A section the map makes. The numbers have no value in the program; nothing reads one that was not
  set.
\<close>

definition new_ConfigSection :: "(nat \<Rightarrow> bool) \<Rightarrow> ConfigSection" where
  "new_ConfigSection mem =
     \<lparr>m_str_vals = replicate (bin_base_val - str_base_val) [],
      m_bin_vals = replicate (last_val - bin_base_val) (new_Binary mem),
      m_vals = replicate (str_base_val - val_base_val) 0, m_set = replicate last_val False\<rparr>"

definition setGlobal :: "(nat \<Rightarrow> bool) \<Rightarrow> ConfigSection \<Rightarrow> ConfigSection" where
  "setGlobal mem s =
     s\<lparr>m_str_vals := map (\<lambda>i. rg_defStr (ranges ! i)) [str_base_val..<bin_base_val],
       m_bin_vals := map (\<lambda>i. snd (fromMac mem (rg_defStr (ranges ! i)) (m_bin_vals s ! (i - bin_base_val))))
         [bin_base_val..<last_val],
       m_vals := map (\<lambda>i. word_of_int (rg_defVal (ranges ! i))) [val_base_val..<str_base_val]\<rparr>"

text \<open>The place of a name in the table.\<close>

definition find_range :: "string \<Rightarrow> nat option" where
  "find_range n = find (\<lambda>i. rg_name (ranges ! i) = n) [val_base_val..<last_val]"

text \<open>The switch of \<^verbatim>\<open>set_val\<close> over the settings: \<open>None\<close> is a value that is refused.\<close>

definition set_switch :: "(nat \<Rightarrow> bool) \<Rightarrow> nat \<Rightarrow> string \<Rightarrow> ConfigSection \<Rightarrow> ConfigSection option" where
  "set_switch mem idx val s =
     (if idx = uds_address_val \<or> idx = sa_file_val
      then Some (s\<lparr>m_str_vals := (m_str_vals s)[idx - str_base_val := val]\<rparr>)
      else if idx = ptp_dst_mac_val \<or> idx = p2p_dst_mac_val then
        (case fromMac mem val (new_Binary mem) of
           (False, _) \<Rightarrow> None
         | (True, b) \<Rightarrow> Some (s\<lparr>m_bin_vals := (m_bin_vals s)[idx - bin_base_val :=
             setBin mem (b_octets b) (m_bin_vals s ! (idx - bin_base_val))]\<rparr>))
      else if idx = network_transport_val then
        if val = ''UDPv4'' then Some (s\<lparr>m_vals := (m_vals s)[idx - val_base_val := 52]\<rparr>)
        else if val = ''UDPv6'' then Some (s\<lparr>m_vals := (m_vals s)[idx - val_base_val := 54]\<rparr>)
        else if val = ''L2'' then Some (s\<lparr>m_vals := (m_vals s)[idx - val_base_val := 50]\<rparr>)
        else None
      else if idx \<ge> str_base_val then None
      else case strtol0 val of (ret, rest) \<Rightarrow>
        if ret < rg_min (ranges ! idx) \<or> ret > rg_max (ranges ! idx) \<or> rest \<noteq> [] then None
        else Some (s\<lparr>m_vals := (m_vals s)[idx - val_base_val := word_of_int ret]\<rparr>))"

text \<open>\<^verbatim>\<open>set_val\<close> on the line at a pointer: the buffer and the section after it, and the result.\<close>

definition set_val :: "(nat \<Rightarrow> bool) \<Rightarrow> string \<Rightarrow> nat \<Rightarrow> ConfigSection \<Rightarrow>
    (bool \<times> string \<times> ConfigSection) option" where
  "set_val mem m line s = do {
     (m1, v) \<leftarrow> next_space_token m line;
     name \<leftarrow> str_at m1 line;
     case find_range name of
       None \<Rightarrow> Some (True, m1, s)
     | Some idx \<Rightarrow> do {
         val0 \<leftarrow> str_at m1 v;
         m2 \<leftarrow> strip_end_spaces m1 (v + length val0);
         val \<leftarrow> str_at m2 v;
         if val = [] then Some (False, m2, s)
         else case set_switch mem idx val s of
           None \<Rightarrow> Some (False, m2, s)
         | Some s' \<Rightarrow> Some (True, m2, s'\<lparr>m_set := (m_set s')[idx := True]\<rparr>)
       }
   }"

subsection \<open>The file\<close>

record ConfigFile =
  cfgSec :: "(string \<times> ConfigSection) list"

definition clear_sections :: "(nat \<Rightarrow> bool) \<Rightarrow> ConfigFile" where
  "clear_sections mem = \<lparr>cfgSec = [(globalSection, setGlobal mem (new_ConfigSection mem))]\<rparr>"

text \<open>\<^verbatim>\<open>cfgSec[name]\<close>: the section, a new one when there is none.\<close>

definition cfg_section :: "(nat \<Rightarrow> bool) \<Rightarrow> ConfigFile \<Rightarrow> string \<Rightarrow> ConfigSection" where
  "cfg_section mem c n =
     (case map_of (cfgSec c) n of Some s \<Rightarrow> s | None \<Rightarrow> new_ConfigSection mem)"

text \<open>
  One line in the buffer: whether it is right, the buffer, and the name of the section in use with the
  sections.
\<close>

definition cfg_line :: "(nat \<Rightarrow> bool) \<Rightarrow> string \<Rightarrow> string \<times> ConfigFile \<Rightarrow>
    (bool \<times> string \<times> string \<times> ConfigFile) option" where
  "cfg_line mem m st = do {
     let (sec, c) = st;
     cur \<leftarrow> skip_spaces m 0;
     if m ! cur = CHR ''['' then do {
       cur1 \<leftarrow> skip_spaces m (cur + 1);
       s \<leftarrow> str_at m cur1;
       case strchr s CHR '']'' of
         None \<Rightarrow> Some (False, m, sec, c)
       | Some e \<Rightarrow> do {
           m1 \<leftarrow> strip_end_spaces m (cur1 + e);
           n \<leftarrow> str_at m1 cur1;
           Some (True, m1, n, c)
         }
     }
     else if m ! cur \<noteq> NUL \<and> m ! cur \<noteq> CHR ''#'' then do {
       (ok, m1, s) \<leftarrow> set_val mem m cur (cfg_section mem c sec);
       Some (ok, m1, sec, c\<lparr>cfgSec := AList.update sec s (cfgSec c)\<rparr>)
     }
     else Some (True, m, sec, c)
   }"

function cfg_loop :: "(nat \<Rightarrow> bool) \<Rightarrow> string \<Rightarrow> string \<Rightarrow> string \<times> ConfigFile \<Rightarrow>
    (bool \<times> string \<times> ConfigFile) option" where
  "cfg_loop mem m f st =
     (case fgets m f of
        None \<Rightarrow> Some (True, st)
      | Some (m1, r) \<Rightarrow>
          (case cfg_line mem m1 st of
             None \<Rightarrow> None
           | Some (ok, m2, st') \<Rightarrow>
               if ok then cfg_loop mem m2 r st' else Some (False, st')))"
  by pat_completeness auto
termination
  by (relation "measure (\<lambda>(mem, m, f, st). length f)") (auto dest: fgets_shorter)

declare cfg_loop.simps [simp del]

interpretation cfg_lines: line_loop "cfg_loop mem" "cfg_line mem" for mem
  by unfold_locales (rule cfg_loop.simps)

text \<open>\<open>m0\<close> is what the stack held before: the program does not clear the buffer.\<close>

definition read_cfg :: "(nat \<Rightarrow> bool) \<Rightarrow> (string \<Rightarrow> string option) \<Rightarrow> string \<Rightarrow> string \<Rightarrow> ConfigFile \<Rightarrow>
    (bool \<times> ConfigFile) option" where
  "read_cfg mem fs m0 file c =
     (if file = [] then Some (False, c)
      else case fs file of
        None \<Rightarrow> Some (False, c)
      | Some text \<Rightarrow> do {
          (ok, sec, c') \<leftarrow> cfg_loop mem m0 text (globalSection, clear_sections mem);
          Some (ok, c')
        })"

subsection \<open>Reading settings\<close>

definition cfgGlobal :: "(nat \<Rightarrow> bool) \<Rightarrow> ConfigFile \<Rightarrow> ConfigSection" where
  "cfgGlobal mem c = cfg_section mem c globalSection"

definition is_global :: "nat \<Rightarrow> string \<Rightarrow> ConfigFile \<Rightarrow> bool" where
  "is_global idx section c \<longleftrightarrow>
     section = [] \<or>
     (case map_of (cfgSec c) section of None \<Rightarrow> True | Some s \<Rightarrow> \<not> m_set s ! idx)"

text \<open>The section a setting is taken from.\<close>

definition cfg_from :: "(nat \<Rightarrow> bool) \<Rightarrow> nat \<Rightarrow> string \<Rightarrow> ConfigFile \<Rightarrow> ConfigSection" where
  "cfg_from mem idx section c =
     (if is_global idx section c then cfgGlobal mem c else cfg_section mem c section)"

definition get_num :: "(nat \<Rightarrow> bool) \<Rightarrow> nat \<Rightarrow> string \<Rightarrow> ConfigFile \<Rightarrow> uint32_t" where
  "get_num mem idx section c = m_vals (cfg_from mem idx section c) ! (idx - val_base_val)"

definition get_str :: "(nat \<Rightarrow> bool) \<Rightarrow> nat \<Rightarrow> string \<Rightarrow> ConfigFile \<Rightarrow> string" where
  "get_str mem idx section c = m_str_vals (cfg_from mem idx section c) ! (idx - str_base_val)"

definition get_bin :: "(nat \<Rightarrow> bool) \<Rightarrow> nat \<Rightarrow> string \<Rightarrow> ConfigFile \<Rightarrow> Binary" where
  "get_bin mem idx section c = m_bin_vals (cfg_from mem idx section c) ! (idx - bin_base_val)"

text \<open>The function of a setting of eight bits.\<close>

definition get_func :: "(nat \<Rightarrow> bool) \<Rightarrow> nat \<Rightarrow> string \<Rightarrow> ConfigFile \<Rightarrow> uint8_t" where
  "get_func mem idx section c = ucast (get_num mem idx section c)"

definition get_func32 :: "(nat \<Rightarrow> bool) \<Rightarrow> nat \<Rightarrow> string \<Rightarrow> ConfigFile \<Rightarrow> uint32_t" where
  "get_func32 mem idx section c = get_num mem idx section c"

text \<open>\<^verbatim>\<open>haveSpp\<close> throws for a section that is not there: \<open>None\<close>.\<close>

definition haveSpp :: "(nat \<Rightarrow> bool) \<Rightarrow> string \<Rightarrow> ConfigFile \<Rightarrow> bool option" where
  "haveSpp mem section c =
     (if m_set (cfgGlobal mem c) ! spp_val then Some True
      else if section = [] then Some False
      else case map_of (cfgSec c) section of None \<Rightarrow> None | Some s \<Rightarrow> Some (m_set s ! spp_val))"

end
