(* ===== verification/Sa_File.thy ===== *)
theory Sa_File
  imports Cfg_File Sa_Keys
begin

text \<open>
  The reader of key files in \<^verbatim>\<open>src/cfg.cpp\<close>: \<^verbatim>\<open>Spp::set_val\<close> takes a line with a key,
  \<^verbatim>\<open>SaFile::read_sa\<close> a file with security associations. The line buffer and the results are as in
  \<open>Cfg_File\<close>.
\<close>

definition spaceToken :: string where
  "spaceToken = [CHR '' '', CHR 0x09, CHR 0x0A, CHR 0x0D]"

record key_cfg_t =
  kc_name :: string
  kc_type :: HMAC_t
  kc_digest :: nat

definition key_cfg :: "key_cfg_t list" where
  "key_cfg =
     [\<lparr>kc_name = ''SHA256-128'', kc_type = HMAC_SHA256, kc_digest = 16\<rparr>,
      \<lparr>kc_name = ''SHA256'', kc_type = HMAC_SHA256, kc_digest = 32\<rparr>,
      \<lparr>kc_name = ''AES128'', kc_type = HMAC_AES128, kc_digest = 16\<rparr>,
      \<lparr>kc_name = ''AES256'', kc_type = HMAC_AES256, kc_digest = 16\<rparr>]"

definition string_octets :: "string \<Rightarrow> octets" where
  "string_octets s = map (\<lambda>c. of_nat (of_char c)) s"

definition strncmp_eq :: "string \<Rightarrow> string \<Rightarrow> bool" where
  "strncmp_eq s prefix \<longleftrightarrow> take (length prefix) s = prefix"

text \<open>The octets of the key a text gives, \<open>None\<close> for a text that is refused.\<close>

definition key_octets :: "(nat \<Rightarrow> bool) \<Rightarrow> string \<Rightarrow> octets option" where
  "key_octets mem cur =
     (let key = new_Binary mem in
      if strncmp_eq cur ''ASCII:''
      then Some (b_octets (setBin_string mem (string_octets (drop 6 cur)) key))
      else if strncmp_eq cur ''HEX:'' then
        (case fromHex mem (drop 4 cur) key of (ok, b) \<Rightarrow> if ok then Some (b_octets b) else None)
      else if strncmp_eq cur ''B64:'' then
        (case fromBase64 mem (drop 4 cur) False key of (ok, b) \<Rightarrow> if ok then Some (b_octets b) else None)
      else Some (b_octets (setBin_string mem (string_octets cur) key)))"

text \<open>
  The optional size in front of the value: the third token is the size when there is a fourth.
\<close>

definition key_size :: "string \<Rightarrow> string option \<Rightarrow> (int \<times> string) option" where
  "key_size a nxt =
     (case nxt of
        None \<Rightarrow> Some (0, a)
      | Some b \<Rightarrow> (case strtol0 a of (ret, rest) \<Rightarrow> if rest \<noteq> [] \<or> ret < 1 then None else Some (ret, b)))"

text \<open>The end of a line with a key: the key is added when everything fits.\<close>

definition set_key :: "(nat \<Rightarrow> bool) \<Rightarrow> uint32_t \<Rightarrow> key_cfg_t \<Rightarrow> string \<Rightarrow> string option \<Rightarrow> Spp \<Rightarrow>
    bool \<times> Spp" where
  "set_key mem keyID k a nxt s =
     (case key_size a nxt of
        None \<Rightarrow> (False, s)
      | Some (keySize, txt) \<Rightarrow>
          (case key_octets mem txt of
             None \<Rightarrow> (False, s)
           | Some key \<Rightarrow>
               if keySize > 0 \<and> int (length key) \<noteq> keySize then (False, s)
               else addKey keyID (kc_type k) key (kc_digest k) False s))"

definition Spp_set_val :: "(nat \<Rightarrow> bool) \<Rightarrow> string \<Rightarrow> nat \<Rightarrow> Spp \<Rightarrow> (bool \<times> string \<times> Spp) option" where
  "Spp_set_val mem m line s = do {
     (m1, cur) \<leftarrow> next_space_token m line;
     if \<not> isdigit (m1 ! line) then Some (True, m1, s)
     else do {
       txt \<leftarrow> str_at m1 line;
       let (ret, rest) = strtol0 txt;
       if rest \<noteq> [] \<or> ret < 1 \<or> ret > 0xffffffff then Some (False, m1, s)
       else do {
         (t1, m2, p2) \<leftarrow> strtok_r spaceToken m1 cur;
         case Option.bind t1 (\<lambda>n. find (\<lambda>k. kc_name k = n) key_cfg) of
           None \<Rightarrow> Some (False, m2, s)
         | Some k \<Rightarrow> do {
             (t2, m3, p3) \<leftarrow> strtok_r spaceToken m2 p2;
             case t2 of
               None \<Rightarrow> Some (False, m3, s)
             | Some a \<Rightarrow> do {
                 (t3, m4, p4) \<leftarrow> strtok_r spaceToken m3 p3;
                 (t4, m5, p5) \<leftarrow> strtok_r spaceToken m4 p4;
                 if t4 \<noteq> None then Some (False, m5, s)
                 else let (ok, s') = set_key mem (word_of_int ret) k a t3 s in Some (ok, m5, s')
               }
           }
       }
     }
   }"

subsection \<open>The file\<close>

text \<open>The variables of the loop of \<^verbatim>\<open>read_sa\<close>.\<close>

record sa_loop =
  sa_step :: nat
  sa_cspp :: Spp
  sa_spps :: "(uint8_t \<times> Spp) list"

definition sa_store :: "sa_loop \<Rightarrow> sa_loop" where
  "sa_store st = st\<lparr>sa_spps := AList.update (ownID (sa_cspp st)) (sa_cspp st) (sa_spps st)\<rparr>"

text \<open>A line that opens a section: the association before it is stored, if it has keys.\<close>

definition sa_section :: "string \<Rightarrow> sa_loop \<Rightarrow> bool \<times> sa_loop" where
  "sa_section name st =
     (if sa_step st = 2 \<and> Spp_keys (sa_cspp st) < 1 then (False, st)
      else
        let st1 = (if sa_step st = 2 then sa_store st else st)
        in (True, st1\<lparr>sa_step := (if name = ''security_association'' then 1 else 0)\<rparr>))"

definition sa_line :: "(nat \<Rightarrow> bool) \<Rightarrow> string \<Rightarrow> sa_loop \<Rightarrow> (bool \<times> string \<times> sa_loop) option" where
  "sa_line mem m st = do {
     cur \<leftarrow> skip_spaces m 0;
     if m ! cur = CHR ''['' then do {
       cur1 \<leftarrow> skip_spaces m (cur + 1);
       s \<leftarrow> str_at m cur1;
       case strchr s CHR '']'' of
         None \<Rightarrow> Some (False, m, st)
       | Some e \<Rightarrow> do {
           m1 \<leftarrow> strip_end_spaces m (cur1 + e);
           n \<leftarrow> str_at m1 cur1;
           let (ok, st') = sa_section n st;
           Some (ok, m1, st')
         }
     }
     else if m ! cur = NUL \<or> m ! cur = CHR ''#'' then Some (True, m, st)
     else if sa_step st = 1 then do {
       (m1, v) \<leftarrow> next_space_token m cur;
       name \<leftarrow> str_at m1 cur;
       if name \<noteq> ''spp'' then Some (False, m1, st)
       else do {
         val0 \<leftarrow> str_at m1 v;
         m2 \<leftarrow> strip_end_spaces m1 (v + length val0);
         val \<leftarrow> str_at m2 v;
         let (ret, rest) = strtol0 val;
         if rest \<noteq> [] \<or> ret < 0 \<or> ret > 0xff then Some (False, m2, st)
         else Some (True, m2, st\<lparr>sa_step := 2, sa_cspp := Spp_set ret (sa_cspp st)\<rparr>)
       }
     }
     else if sa_step st = 2 then do {
       (ok, m1, s) \<leftarrow> Spp_set_val mem m cur (sa_cspp st);
       Some (ok, m1, st\<lparr>sa_cspp := s\<rparr>)
     }
     else Some (False, m, st)
   }"

function sa_run :: "(nat \<Rightarrow> bool) \<Rightarrow> string \<Rightarrow> string \<Rightarrow> sa_loop \<Rightarrow> (bool \<times> sa_loop) option" where
  "sa_run mem m f st =
     (case fgets m f of
        None \<Rightarrow> Some (True, st)
      | Some (m1, r) \<Rightarrow>
          (case sa_line mem m1 st of
             None \<Rightarrow> None
           | Some (ok, m2, st') \<Rightarrow> if ok then sa_run mem m2 r st' else Some (False, st')))"
  by pat_completeness auto
termination
  by (relation "measure (\<lambda>(mem, m, f, st). length f)") (auto dest: fgets_shorter)

declare sa_run.simps [simp del]

interpretation sa_lines: line_loop "sa_run mem" "sa_line mem" for mem
  by unfold_locales (rule sa_run.simps)

definition read_sa :: "(nat \<Rightarrow> bool) \<Rightarrow> (string \<Rightarrow> string option) \<Rightarrow> string \<Rightarrow> string \<Rightarrow> SaFile \<Rightarrow>
    (bool \<times> SaFile) option" where
  "read_sa mem fs m0 file sa =
     (if file = [] then Some (False, sa)
      else case fs file of
        None \<Rightarrow> Some (False, sa)
      | Some text \<Rightarrow> do {
          (ok, st) \<leftarrow> sa_run mem m0 text \<lparr>sa_step = 0, sa_cspp = Spp_default, sa_spps = []\<rparr>;
          if \<not> ok then Some (False, sa)
          else if sa_step st = 2 then
            if Spp_keys (sa_cspp st) < 1 then Some (False, sa)
            else Some (True, \<lparr>m_spps = sa_spps (sa_store st)\<rparr>)
          else Some (True, \<lparr>m_spps = sa_spps st\<rparr>)
        })"

text \<open>\<^verbatim>\<open>read_sa\<close> of the file a configuration names.\<close>

definition read_sa_cfg :: "(nat \<Rightarrow> bool) \<Rightarrow> (string \<Rightarrow> string option) \<Rightarrow> string \<Rightarrow> ConfigFile \<Rightarrow> string \<Rightarrow>
    SaFile \<Rightarrow> (bool \<times> SaFile) option" where
  "read_sa_cfg mem fs m0 c section sa =
     (let file = get_str mem sa_file_val section c in
      if file = [] then Some (False, sa) else read_sa mem fs m0 file sa)"

subsection \<open>What is read is well formed\<close>

lemma Spp_ok_set_key: "set_key mem i k a nxt s = (ok, s') \<Longrightarrow> Spp_ok s \<Longrightarrow> Spp_ok s'"
  using Spp_ok_addKey [of s] by (auto simp: set_key_def split: option.splits if_splits) (metis snd_conv)+

lemma Spp_ok_set_val:
  assumes "Spp_set_val mem m line s = Some (ok, m', s')" "Spp_ok s"
  shows "Spp_ok s'"
  using assms
  by (auto simp: Spp_set_val_def Let_def split: bind_splits option.splits if_splits prod.splits
      intro: Spp_ok_set_key)

definition sa_loop_ok :: "sa_loop \<Rightarrow> bool" where
  "sa_loop_ok st \<longleftrightarrow> Spp_ok (sa_cspp st) \<and> SaFile_ok \<lparr>m_spps = sa_spps st\<rparr>"

lemma sa_store_ok: "sa_loop_ok st \<Longrightarrow> sa_loop_ok (sa_store st)"
  using set_AList_update [of "ownID (sa_cspp st)" "sa_cspp st" "sa_spps st"]
  by (auto simp: sa_loop_ok_def sa_store_def SaFile_ok_def)

lemma sa_section_ok: "sa_loop_ok st \<Longrightarrow> sa_loop_ok (snd (sa_section n st))"
  using sa_store_ok [of st] by (auto simp: sa_section_def Let_def sa_loop_ok_def)

lemma sa_line_ok:
  assumes "sa_line mem m st = Some (ok, m', st')" "sa_loop_ok st"
  shows "sa_loop_ok st'"
proof -
  have set: "sa_loop_ok (st\<lparr>sa_step := k, sa_cspp := Spp_set i (sa_cspp st)\<rparr>)" for k i
    using assms(2) by (simp add: sa_loop_ok_def)
  have val: "sa_loop_ok (st\<lparr>sa_cspp := s\<rparr>)" if "Spp_set_val mem m cur (sa_cspp st) = Some (r, m1, s)"
    for cur r m1 s
    using Spp_ok_set_val [OF that] assms(2) by (simp add: sa_loop_ok_def)
  have sec: "sa_loop_ok t" if "sa_section n st = (r, t)" for n r t
    using sa_section_ok [OF assms(2), of n] that by simp
  show ?thesis
    using assms set val sec
    by (auto simp: sa_line_def Let_def split: bind_splits option.splits if_splits prod.splits)
qed

lemma sa_run_ok: "sa_run mem m f st = Some (ok, st') \<Longrightarrow> sa_loop_ok st \<Longrightarrow> sa_loop_ok st'"
  using sa_lines.run_keeps [of mem sa_loop_ok m f st ok st'] sa_line_ok by blast

lemma read_sa_ok:
  assumes "read_sa mem fs m0 file sa = Some (ok, sa')" "SaFile_ok sa"
  shows "SaFile_ok sa'"
proof -
  let ?st = "\<lparr>sa_step = 0, sa_cspp = Spp_default, sa_spps = []\<rparr>"
  have "sa_loop_ok ?st"
    by (simp add: sa_loop_ok_def SaFile_ok_def)
  then have "sa_loop_ok st" "sa_loop_ok (sa_store st)" if "sa_run mem m0 tx ?st = Some (r, st)" for tx r st
    using sa_run_ok [OF that] sa_store_ok by simp_all
  then show ?thesis
    using assms by (fastforce simp: read_sa_def sa_loop_ok_def split: option.splits if_splits bind_splits)
qed

lemma read_sa_fails: "read_sa mem fs m0 file sa = Some (False, sa') \<Longrightarrow> sa' = sa"
  by (auto simp: read_sa_def split: option.splits if_splits bind_splits)

end
