(* ===== verification/Cfg_Safe.thy ===== *)
theory Cfg_Safe
  imports Sa_File
begin

text \<open>
  A file of complete lines, each short enough for the buffer, is read without leaving the line
  buffer, by the reader of configurations and by the reader of keys.
\<close>

lemma not_space_NUL [simp]: "\<not> isspace NUL"
  by (simp add: isspace_def NUL_def)

lemma space_LF [simp]: "isspace LF"
  by (simp add: isspace_def LF_def)

subsection \<open>The walks end inside the buffer\<close>

lemma skip_spaces_found:
  "p \<le> k \<Longrightarrow> k < length m \<Longrightarrow> \<not> isspace (m ! k) \<Longrightarrow>
   \<exists>q. skip_spaces m p = Some q \<and> p \<le> q \<and> q \<le> k \<and> \<not> isspace (m ! q)"
proof (induction "k - p" arbitrary: p)
  case 0
  then show ?case
    by (simp add: skip_spaces.simps [of m p])
next
  case (Suc n)
  then have "n = k - (p + 1)" "p + 1 \<le> k"
    by simp_all
  from Suc.hyps(1) [OF this] show ?case
    using Suc.prems by (auto simp: skip_spaces.simps [of m p])
qed

lemma find_space_found:
  "p \<le> k \<Longrightarrow> k < length m \<Longrightarrow> isspace (m ! k) \<Longrightarrow>
   \<exists>q. find_space m p = Some q \<and> p \<le> q \<and> q \<le> k \<and> isspace (m ! q)"
proof (induction "k - p" arbitrary: p)
  case 0
  then show ?case
    by (simp add: find_space.simps [of m p])
next
  case (Suc n)
  then have "n = k - (p + 1)" "p + 1 \<le> k"
    by simp_all
  from Suc.hyps(1) [OF this] show ?case
    using Suc.prems by (auto simp: find_space.simps [of m p])
qed

lemma strip_found:
  "p < e \<Longrightarrow> e < length m \<Longrightarrow> \<not> isspace (m ! p) \<Longrightarrow>
   \<exists>q. strip_end_spaces m e = Some (m[q := NUL]) \<and> p < q \<and> q \<le> e"
proof (induction e)
  case (Suc e)
  show ?case
  proof (cases "isspace (m ! e)")
    case True
    then have "p \<noteq> e"
      using Suc.prems by auto
    then show ?thesis
      using Suc True by fastforce
  next
    case False
    then show ?thesis
      using Suc.prems by auto
  qed
qed simp

lemma NUL_stays: "m ! k = NUL \<Longrightarrow> m[r := NUL] ! k = NUL"
  by (cases "r < length m") (simp_all add: nth_list_update list_update_beyond)

lemma str_at_found:
  assumes "p \<le> k" "k < length m" "m ! k = NUL"
  obtains s where "str_at m p = Some s" "p + length s \<le> k"
proof -
  have n: "drop p m ! (k - p) = NUL" "k - p < length (drop p m)"
    using assms by auto
  then have "NUL \<in> set (drop p m)"
    by (metis nth_mem)
  moreover have "length (cstr (drop p m)) \<le> k - p"
  proof (rule ccontr)
    assume "\<not> ?thesis"
    then have l: "k - p < length (takeWhile (\<lambda>c. c \<noteq> NUL) (drop p m))"
      by (simp add: cstr_def NUL_def)
    then have "takeWhile (\<lambda>c. c \<noteq> NUL) (drop p m) ! (k - p) \<noteq> NUL"
      using nth_mem set_takeWhileD by fastforce
    then show False
      using n(1) l by (simp add: takeWhile_nth)
  qed
  ultimately show ?thesis
    using that assms(1) by (simp add: str_at_def)
qed

lemma strtok_found:
  assumes "p \<le> k" "k < length m" "m ! k = NUL"
  obtains t m' p' where "strtok_r sep m p = Some (t, m', p')" "length m' = length m" "p' \<le> k" "m' ! k = NUL"
proof -
  obtain s where s: "str_at m p = Some s" "p + length s \<le> k"
    using str_at_found [OF assms] .
  define s1 where "s1 = dropWhile (\<lambda>c. c \<in> set sep) s"
  define t where "t = takeWhile (\<lambda>c. c \<notin> set sep) s1"
  have 1: "length s1 \<le> length s" "length t \<le> length s1"
    by (simp_all add: s1_def t_def length_dropWhile_le length_takeWhile_le)
  have 2: "length t < length s1" if "t \<noteq> s1"
    using that 1(2) by (metis le_neq_implies_less t_def takeWhile_eq_all_conv take_all_iff takeWhile_eq_take)
  define e where "e = p + (length s - length s1) + length t"
  have r: "strtok_r sep m p = (if s1 = [] then Some (None, m, p + (length s - length s1))
      else if t = s1 then Some (Some t, m, e) else Some (Some t, m[e := NUL], e + 1))"
    unfolding strtok_r_def Let_def e_def t_def s1_def using s(1) by simp
  consider "s1 = []" | "s1 \<noteq> []" "t = s1" | "s1 \<noteq> []" "t \<noteq> s1"
    by blast
  then show ?thesis
  proof cases
    case 1
    then show ?thesis
      using that [of None m "p + (length s - length s1)"] r s(2) assms by simp
  next
    case 2
    then show ?thesis
      using that [of "Some t" m e] r s(2) 1 assms by (simp add: e_def)
  next
    case 3
    then have "e < k"
      using 1 2 s(2) by (simp add: e_def)
    then show ?thesis
      using that [of "Some t" "m[e := NUL]" "e + 1"] r 3 assms by (simp add: nth_list_update)
  qed
qed

text \<open>The first token of a complete line that ends at \<open>k\<close>.\<close>

lemma token_found:
  assumes "p \<le> k" "Suc k < length m" "isspace (m ! k)" "m ! Suc k = NUL"
  obtains q v where "next_space_token m p = Some (m[q := NUL], v)" "p \<le> q" "q < v" "v \<le> Suc k"
    "m[q := NUL] ! Suc k = NUL" "m[q := NUL] ! q = NUL"
proof -
  obtain q where q: "find_space m p = Some q" "p \<le> q" "q \<le> k"
    using find_space_found [OF assms(1) _ assms(3)] assms(2) by auto
  have n: "m[q := NUL] ! Suc k = NUL" "m[q := NUL] ! q = NUL"
    using q assms by (simp_all add: nth_list_update)
  obtain v where "skip_spaces (m[q := NUL]) (q + 1) = Some v" "q + 1 \<le> v" "v \<le> Suc k"
    using skip_spaces_found [of "q + 1" "Suc k" "m[q := NUL]"] q assms(2) n(1) by auto
  then show ?thesis
    using that [of q v] q n by (simp add: next_space_token_def)
qed

text \<open>The value behind the token, without the spaces at its end.\<close>

lemma value_found:
  assumes "q < v" "v \<le> k" "k < length m" "m ! k = NUL" "m ! q = NUL"
  obtains s m' s' where "str_at m v = Some s" "strip_end_spaces m (v + length s) = Some m'"
    "length m' = length m" "str_at m' v = Some s'"
proof -
  obtain s where s: "str_at m v = Some s" "v + length s \<le> k"
    using str_at_found [OF assms(2-4)] .
  obtain r where r: "strip_end_spaces m (v + length s) = Some (m[r := NUL])"
    using strip_found [of q "v + length s" m] assms s by auto
  obtain s' where "str_at (m[r := NUL]) v = Some s'"
    using str_at_found [OF assms(2), of "m[r := NUL]"] NUL_stays [OF assms(4)] assms(3) by auto
  then show ?thesis
    using that s r by auto
qed

subsection \<open>Lines\<close>

lemma set_val_found:
  assumes "line \<le> k" "Suc k < length m" "isspace (m ! k)" "m ! Suc k = NUL"
  shows "\<exists>ok m' s'. set_val mem m line s = Some (ok, m', s') \<and> length m' = length m"
proof -
  obtain q v where t: "next_space_token m line = Some (m[q := NUL], v)" "line \<le> q" "q < v" "v \<le> Suc k"
    "m[q := NUL] ! Suc k = NUL" "m[q := NUL] ! q = NUL"
    using token_found [OF assms] .
  let ?m = "m[q := NUL]"
  obtain n where n: "str_at ?m line = Some n"
    using str_at_found [of line "Suc k" ?m] assms t by auto
  obtain s0 m' s' where "str_at ?m v = Some s0" "strip_end_spaces ?m (v + length s0) = Some m'"
    "length m' = length ?m" "str_at m' v = Some s'"
    using value_found [OF t(3,4) _ t(5,6)] assms(2) by auto
  then show ?thesis
    using t(1) n by (auto simp: set_val_def split: option.splits)
qed

text \<open>The start of a line, and a line that opens a section.\<close>

lemma full_lineE:
  assumes "full_line m"
  obtains k cur where "length m = lineSize" "Suc k < length m" "isspace (m ! k)" "m ! Suc k = NUL"
    "skip_spaces m 0 = Some cur" "cur \<le> Suc k" "\<not> isspace (m ! cur)" "m ! cur \<noteq> NUL \<longrightarrow> cur < k"
proof -
  obtain k where k: "length m = lineSize" "Suc k < length m" "isspace (m ! k)" "m ! Suc k = NUL"
    using assms by (auto simp: full_line_def)
  obtain cur where c: "skip_spaces m 0 = Some cur" "cur \<le> Suc k" "\<not> isspace (m ! cur)"
    using skip_spaces_found [of 0 "Suc k" m] k by auto
  have "cur < k" if "m ! cur \<noteq> NUL"
    using that c k by (metis le_SucE le_neq_implies_less)
  then show ?thesis
    using that k c by blast
qed

lemma section_found:
  assumes "cur < k" "k < length m" "m ! k = NUL" "m ! cur = CHR ''[''"
  obtains cur1 s where "skip_spaces m (cur + 1) = Some cur1" "str_at m cur1 = Some s"
    "strchr s CHR '']'' = None \<or> (\<exists>e m' n. strchr s CHR '']'' = Some e \<and>
       strip_end_spaces m (cur1 + e) = Some m' \<and> length m' = length m \<and> str_at m' cur1 = Some n)"
proof -
  obtain cur1 where c: "skip_spaces m (cur + 1) = Some cur1" "cur + 1 \<le> cur1" "cur1 \<le> k"
    using skip_spaces_found [of "cur + 1" k m] assms by auto
  obtain s where s: "str_at m cur1 = Some s" "cur1 + length s \<le> k"
    using str_at_found [OF c(3) assms(2,3)] .
  show ?thesis
  proof (cases "strchr s CHR '']''")
    case None
    then show ?thesis
      using that c s by blast
  next
    case (Some e)
    then have "e \<le> length s"
      by (auto simp: strchr_def length_takeWhile_le split: if_splits)
    then obtain r where r: "strip_end_spaces m (cur1 + e) = Some (m[r := NUL])"
      using strip_found [of cur "cur1 + e" m] c s assms by (auto simp: isspace_def)
    obtain n where "str_at (m[r := NUL]) cur1 = Some n"
      using str_at_found [OF c(3), of "m[r := NUL]"] NUL_stays [OF assms(3)] assms(2) by auto
    then show ?thesis
      using that c s Some r by auto
  qed
qed

lemma cfg_line_total:
  assumes "full_line m"
  shows "\<exists>ok m' st'. cfg_line mem m st = Some (ok, m', st') \<and> length m' = lineSize"
proof -
  obtain k cur where k: "length m = lineSize" "Suc k < length m" "isspace (m ! k)" "m ! Suc k = NUL"
    and c: "skip_spaces m 0 = Some cur" "m ! cur \<noteq> NUL \<longrightarrow> cur < k"
    using full_lineE [OF assms] by metis
  obtain sec cf where st: "st = (sec, cf)"
    by (cases st)
  consider "m ! cur = CHR ''[''" | "m ! cur \<noteq> CHR ''[''" "m ! cur \<noteq> NUL" | "m ! cur = NUL"
    by blast
  then show ?thesis
  proof cases
    case 1
    then have lt: "cur < Suc k"
      using c(2) by (auto simp: NUL_def)
    obtain cur1 s where s: "skip_spaces m (cur + 1) = Some cur1" "str_at m cur1 = Some s"
      "strchr s CHR '']'' = None \<or> (\<exists>e m' n. strchr s CHR '']'' = Some e \<and>
         strip_end_spaces m (cur1 + e) = Some m' \<and> length m' = length m \<and> str_at m' cur1 = Some n)"
      using section_found [OF lt k(2,4) 1] .
    then show ?thesis
      using 1 c(1) k(1) by (auto simp: cfg_line_def st)
  next
    case 2
    then obtain ok m' s' where "set_val mem m cur (cfg_section mem cf sec) = Some (ok, m', s')"
      "length m' = length m"
      using set_val_found [OF _ k(2-4), of cur] c(2) by (meson less_imp_le)
    then show ?thesis
      using 2 c(1) k(1) by (auto simp: cfg_line_def st)
  next
    case 3
    then show ?thesis
      using c(1) k(1) by (auto simp: cfg_line_def st NUL_def)
  qed
qed

lemma read_cfg_total:
  assumes "\<forall>l \<in> set ls. line_fits l" "length m0 = lineSize" "fs file = Some (file_text ls)"
  shows "\<exists>ok c'. read_cfg mem fs m0 file c = Some (ok, c')"
proof -
  have "\<exists>ok st. cfg_loop mem m0 (file_text ls) (globalSection, clear_sections mem) = Some (ok, st)"
    by (rule cfg_lines.run_complete [OF cfg_line_total assms(1,2)])
  then show ?thesis
    using assms(3) by (auto simp: read_cfg_def)
qed

lemma Spp_set_val_found:
  assumes "line \<le> k" "Suc k < length m" "isspace (m ! k)" "m ! Suc k = NUL"
  shows "\<exists>ok m' s'. Spp_set_val mem m line s = Some (ok, m', s') \<and> length m' = length m"
proof -
  obtain q v where t: "next_space_token m line = Some (m[q := NUL], v)" "line \<le> q" "q < v" "v \<le> Suc k"
    "m[q := NUL] ! Suc k = NUL" "m[q := NUL] ! q = NUL"
    using token_found [OF assms] .
  let ?m = "m[q := NUL]"
  have l: "Suc k < length ?m"
    using assms(2) by simp
  obtain n where n: "str_at ?m line = Some n"
    using str_at_found [of line "Suc k" ?m] assms t by auto
  obtain t1 m1 p1 where 1: "strtok_r spaceToken ?m v = Some (t1, m1, p1)" "length m1 = length ?m"
    "p1 \<le> Suc k" "m1 ! Suc k = NUL"
    using strtok_found [OF t(4) l t(5)] .
  obtain t2 m2 p2 where 2: "strtok_r spaceToken m1 p1 = Some (t2, m2, p2)" "length m2 = length m1"
    "p2 \<le> Suc k" "m2 ! Suc k = NUL"
    using strtok_found [OF 1(3) _ 1(4)] l 1(2) by metis
  obtain t3 m3 p3 where 3: "strtok_r spaceToken m2 p2 = Some (t3, m3, p3)" "length m3 = length m2"
    "p3 \<le> Suc k" "m3 ! Suc k = NUL"
    using strtok_found [OF 2(3) _ 2(4)] l 1(2) 2(2) by metis
  obtain t4 m4 p4 where 4: "strtok_r spaceToken m3 p3 = Some (t4, m4, p4)" "length m4 = length m3"
    using strtok_found [OF 3(3) _ 3(4)] l 1(2) 2(2) 3(2) by metis
  have len: "length m1 = length m" "length m2 = length m" "length m4 = length m"
    using 1(2) 2(2) 3(2) 4(2) by simp_all
  show ?thesis
    using t(1) n 1(1) 2(1) 3(1) 4(1) len
    by (auto simp: Spp_set_val_def Let_def split: option.splits prod.splits)
qed

lemma sa_line_total:
  assumes "full_line m"
  shows "\<exists>ok m' st'. sa_line mem m st = Some (ok, m', st') \<and> length m' = lineSize"
proof -
  obtain k cur where k: "length m = lineSize" "Suc k < length m" "isspace (m ! k)" "m ! Suc k = NUL"
    and c: "skip_spaces m 0 = Some cur" "m ! cur \<noteq> NUL \<longrightarrow> cur < k"
    using full_lineE [OF assms] by metis
  consider "m ! cur = CHR ''[''" | "m ! cur = NUL \<or> m ! cur = CHR ''#''"
    | "m ! cur \<noteq> CHR ''[''" "m ! cur \<noteq> NUL" "m ! cur \<noteq> CHR ''#''"
    by blast
  then show ?thesis
  proof cases
    case 1
    then have lt: "cur < Suc k"
      using c(2) by (auto simp: NUL_def)
    obtain cur1 s where s: "skip_spaces m (cur + 1) = Some cur1" "str_at m cur1 = Some s"
      "strchr s CHR '']'' = None \<or> (\<exists>e m' n. strchr s CHR '']'' = Some e \<and>
         strip_end_spaces m (cur1 + e) = Some m' \<and> length m' = length m \<and> str_at m' cur1 = Some n)"
      using section_found [OF lt k(2,4) 1] .
    then show ?thesis
      using 1 c(1) k(1) by (auto simp: sa_line_def split: prod.splits)
  next
    case 2
    then show ?thesis
      using c(1) k(1) by (auto simp: sa_line_def NUL_def)
  next
    case 3
    then have cur: "cur \<le> k"
      using c(2) by simp
    obtain ok m' s' where v: "Spp_set_val mem m cur (sa_cspp st) = Some (ok, m', s')" "length m' = length m"
      using Spp_set_val_found [OF cur k(2-4)] by metis
    obtain q v where t: "next_space_token m cur = Some (m[q := NUL], v)" "cur \<le> q" "q < v" "v \<le> Suc k"
      "m[q := NUL] ! Suc k = NUL" "m[q := NUL] ! q = NUL"
      using token_found [OF cur k(2-4)] .
    obtain n where n: "str_at (m[q := NUL]) cur = Some n"
      using str_at_found [of cur "Suc k" "m[q := NUL]"] k t by auto
    obtain s0 m2 s2 where "str_at (m[q := NUL]) v = Some s0"
      "strip_end_spaces (m[q := NUL]) (v + length s0) = Some m2"
      "length m2 = length m" "str_at m2 v = Some s2"
      using value_found [OF t(3,4) _ t(5,6)] k(2) by auto
    then show ?thesis
      using 3 c(1) k(1) v t(1) n by (auto simp: sa_line_def split: prod.splits)
  qed
qed

lemma read_sa_total:
  assumes "\<forall>l \<in> set ls. line_fits l" "length m0 = lineSize" "fs file = Some (file_text ls)"
  shows "\<exists>ok sa'. read_sa mem fs m0 file sa = Some (ok, sa')"
proof -
  have "\<exists>ok st. sa_run mem m0 (file_text ls) \<lparr>sa_step = 0, sa_cspp = Spp_default, sa_spps = []\<rparr> = Some (ok, st)"
    by (rule sa_lines.run_complete [OF sa_line_total assms(1,2)])
  then show ?thesis
    using assms(3) by (auto simp: read_sa_def)
qed

end
