(* ===== verification/Dec_Text.thy ===== *)
theory Dec_Text
  imports Cfg_Line
begin

text \<open>
  Numbers in decimal: \<open>dec\<close> is what \<^verbatim>\<open>printf\<close> and \<^verbatim>\<open>std::to_string\<close> write for an unsigned number, and
  the functions of the family of \<^verbatim>\<open>strtol\<close> read it back.
\<close>

fun dec :: "nat \<Rightarrow> string" where
  "dec n = (if n < 10 then [char_of (48 + n)] else dec (n div 10) @ [char_of (48 + n mod 10)])"

declare dec.simps [simp del]

lemma hexval_digit: "d < 10 \<Longrightarrow> hexval (char_of (48 + d)) = Some d"
  by (auto simp: hexval_def Let_def)

lemma num_of_snoc: "d < 10 \<Longrightarrow> num_of b (s @ [char_of (48 + d)]) = num_of b s * int b + int d"
  by (simp add: num_of_def hexval_digit)

lemma dec_digits: "\<forall>c \<in> set (dec n). \<exists>d :: nat. d < 10 \<and> c = char_of (48 + d)"
proof (induction n rule: dec.induct)
  case (1 n)
  have "\<exists>d :: nat. d < 10 \<and> (char_of (48 + n mod 10) :: char) = char_of (48 + d)"
    by (rule exI [of _ "n mod 10"]) simp
  then show ?case
    using 1 by (subst dec.simps) (auto simp del: char_of_eq_iff)
qed

lemma dec_num: "num_of 10 (dec n) = int n"
proof (induction n rule: dec.induct)
  case (1 n)
  show ?case
  proof (cases "n < 10")
    case True
    then show ?thesis
      using num_of_snoc [of n 10 "[]"] by (subst dec.simps) (simp add: num_of_def)
  next
    case False
    have "num_of 10 (dec n) = num_of 10 (dec (n div 10)) * 10 + int (n mod 10)"
      using False num_of_snoc [of "n mod 10" 10] by (subst dec.simps) simp
    then show ?thesis
      using 1 False by (simp add: zdiv_int zmod_int)
  qed
qed

lemma dec_hd: "dec n \<noteq> [] \<and> (\<exists>d :: nat. d < 10 \<and> hd (dec n) = char_of (48 + d) \<and> (d = 0 \<longrightarrow> n = 0))"
proof (induction n rule: dec.induct)
  case (1 n)
  show ?case
  proof (cases "n < 10")
    case True
    then show ?thesis
      by (subst (1 2) dec.simps) auto
  next
    case False
    then show ?thesis
      using 1 by (subst (1 2) dec.simps) auto
  qed
qed

lemma of_char_48: "d < 10 \<Longrightarrow> (of_char (char_of (48 + d) :: char) :: nat) = 48 + d"
  by simp

lemma digit_plain:
  fixes d :: nat
  assumes "d < 10"
  shows "\<not> isspace (char_of (48 + d))" "(char_of (48 + d) :: char) \<notin> {NUL, LF, CHR ''-'', CHR ''+'', CHR ''x'', CHR ''X''}"
proof -
  have "d \<in> {0, 1, 2, 3, 4, 5, 6, 7, 8, 9}"
    using assms by auto
  then show "\<not> isspace (char_of (48 + d))"
    "(char_of (48 + d) :: char) \<notin> {NUL, LF, CHR ''-'', CHR ''+'', CHR ''x'', CHR ''X''}"
    by (auto simp: isspace_def NUL_def LF_def char_of_def)
qed

lemma dec_0: "dec 0 = ''0''"
  by (simp add: dec.simps [of 0] char_of_def bit_0)

lemma dec_head:
  assumes "n \<noteq> 0"
  obtains d :: nat and s where "dec n = char_of (48 + d) # s" "d < 10" "d \<noteq> 0" "hd (dec n) \<noteq> CHR ''0''"
proof -
  obtain d :: nat and s where d: "dec n = char_of (48 + d) # s" "d < 10" "d \<noteq> 0"
    using dec_hd [of n] assms by (metis list.collapse)
  moreover have "(char_of (48 + d) :: char) \<noteq> CHR ''0''"
  proof
    assume "(char_of (48 + d) :: char) = CHR ''0''"
    then have "(of_char (char_of (48 + d) :: char) :: nat) = of_char CHR ''0''"
      by simp
    then show False
      using of_char_48 [OF d(2)] d(3) by simp
  qed
  ultimately show ?thesis
    using that by simp
qed

lemma dec_below: "list_all (digit_below 10) (dec n)"
  using dec_digits [of n] by (fastforce simp: digit_below_def hexval_digit list_all_iff)

lemma strto_digits:
  assumes "s \<noteq> []" "list_all (digit_below 10) s" "\<not> isspace (hd s)" "hd s \<notin> {CHR ''-'', CHR ''+''}"
    and "base = 10 \<or> base = 0 \<and> hd s \<noteq> CHR ''0''"
  shows "strto_parts base s = (False, num_of 10 s, [])" "strto_parts base (CHR ''-'' # s) = (True, num_of 10 s, [])"
proof -
  have t: "takeWhile (digit_below 10) s = s" "dropWhile isspace s = s"
    "dropWhile isspace (CHR ''-'' # s) = CHR ''-'' # s"
    using assms(1-3) by (cases s; auto simp: list_all_iff isspace_def)+
  have h: "(case s of a # x # d # _ \<Rightarrow>
      a = CHR ''0'' \<and> (x = CHR ''x'' \<or> x = CHR ''X'') \<and> hexval d \<noteq> None | _ \<Rightarrow> False) = False" if "hd s \<noteq> CHR ''0''"
    using that by (auto split: list.splits)
  show "strto_parts base s = (False, num_of 10 s, [])"
    using assms(1,4,5) by (elim disjE) (simp_all add: strto_parts_def Let_def t h)
  show "strto_parts base (CHR ''-'' # s) = (True, num_of 10 s, [])"
    using assms(1,4,5) by (elim disjE) (simp_all add: strto_parts_def Let_def t h isspace_def)
qed

lemma dec_start: "dec n \<noteq> []" "\<not> isspace (hd (dec n))" "hd (dec n) \<notin> {CHR ''-'', CHR ''+''}"
proof -
  obtain d :: nat where d: "dec n \<noteq> []" "d < 10" "hd (dec n) = char_of (48 + d)"
    using dec_hd [of n] by blast
  then show "dec n \<noteq> []" "\<not> isspace (hd (dec n))" "hd (dec n) \<notin> {CHR ''-'', CHR ''+''}"
    using digit_plain [OF d(2)] by simp_all
qed

lemma strto_dec:
  assumes "base = 0 \<or> base = 10"
  shows "strto_parts base (dec n) = (False, int n, [])"
proof (cases "n = 0 \<and> base = 0")
  case True
  then show ?thesis
    by (simp add: dec_0 strto_parts_def digit_below_def num_of_def hexval_def isspace_def)
next
  case False
  then have "base = 10 \<or> base = 0 \<and> hd (dec n) \<noteq> CHR ''0''"
    using assms dec_head [of n] by (metis neq0_conv)
  then show ?thesis
    using strto_digits(1) [OF dec_start(1) dec_below dec_start(2,3)] dec_num by simp
qed

lemma strto_minus_dec: "strto_parts 10 (CHR ''-'' # dec n) = (True, int n, [])"
  using strto_digits(2) [OF dec_start(1) dec_below dec_start(2,3)] dec_num by simp

lemma strtol0_dec:
  assumes "n < 2 ^ 63"
  shows "strtol0 (dec n) = (int n, [])"
  using assms strto_dec [of 0 n] by (simp add: strtol0_def strtoimax_def)

lemma digit_char_plain:
  assumes "c \<in> set (dec n)"
  shows "\<not> isspace c" "c \<noteq> NUL" "c \<noteq> LF"
proof -
  obtain d :: nat where "d < 10" "c = char_of (48 + d)"
    using dec_digits [of n] assms by blast
  then show "\<not> isspace c" "c \<noteq> NUL" "c \<noteq> LF"
    using digit_plain [of d] by simp_all
qed

end
