(* ===== verification/Cfg_Written.thy ===== *)
theory Cfg_Written
  imports Cfg_Checked Cfg_Safe Dec_Text
begin

text \<open>
  Configurations as they are written: a list of entries, each on a line of its own. Reading the text
  of the entries does what the entries say, one after the other, and a number that is written in
  decimal is the number the configuration returns.
\<close>

datatype cfg_entry = Comment string | Section_is string | Setting nat string

definition entry_line :: "cfg_entry \<Rightarrow> string" where
  "entry_line e =
     (case e of
        Comment t \<Rightarrow> CHR ''#'' # t
      | Section_is n \<Rightarrow> CHR ''['' # n @ '']''
      | Setting i v \<Rightarrow> rg_name (ranges ! i) @ '' '' @ v)"

text \<open>A text that stands between spaces as it is.\<close>

definition plain :: "string \<Rightarrow> bool" where
  "plain s \<longleftrightarrow> s \<noteq> [] \<and> \<not> isspace (hd s) \<and> \<not> isspace (last s) \<and> NUL \<notin> set s \<and> LF \<notin> set s"

definition entry_ok :: "(nat \<Rightarrow> bool) \<Rightarrow> cfg_entry \<Rightarrow> bool" where
  "entry_ok mem e \<longleftrightarrow> line_fits (entry_line e) \<and>
     (case e of
        Comment t \<Rightarrow> True
      | Section_is n \<Rightarrow> plain n \<and> CHR '']'' \<notin> set n
      | Setting i v \<Rightarrow> i < last_val \<and> plain v \<and> (\<forall>s. set_switch mem i v s \<noteq> None))"

definition put_setting :: "(nat \<Rightarrow> bool) \<Rightarrow> nat \<Rightarrow> string \<Rightarrow> ConfigSection \<Rightarrow> ConfigSection" where
  "put_setting mem i v s =
     (case set_switch mem i v s of None \<Rightarrow> s | Some s' \<Rightarrow> s'\<lparr>m_set := (m_set s')[i := True]\<rparr>)"

definition entry_act :: "(nat \<Rightarrow> bool) \<Rightarrow> cfg_entry \<Rightarrow> string \<times> ConfigFile \<Rightarrow> string \<times> ConfigFile" where
  "entry_act mem e st =
     (case st of (sec, c) \<Rightarrow>
      case e of
        Comment t \<Rightarrow> (sec, c)
      | Section_is n \<Rightarrow> (n, c)
      | Setting i v \<Rightarrow>
          (sec, c\<lparr>cfgSec := AList.update sec (put_setting mem i v (cfg_section mem c sec)) (cfgSec c)\<rparr>))"

subsection \<open>Numbers\<close>

lemma plain_dec: "plain (dec n)"
proof -
  have "hd (dec n) \<in> set (dec n)" "last (dec n) \<in> set (dec n)" "dec n \<noteq> []"
    using dec_hd [of n] by simp_all
  then show ?thesis
    unfolding plain_def using digit_char_plain by blast
qed

lemma set_switch_dec:
  assumes "i < str_base_val" "i \<noteq> network_transport_val" "rg_min (ranges ! i) \<le> int n" "int n \<le> rg_max (ranges ! i)"
  shows "set_switch mem i (dec n) s = Some (s\<lparr>m_vals := (m_vals s)[i := of_nat n]\<rparr>)"
proof -
  have "\<forall>i < str_base_val. rg_max (ranges ! i) < 2 ^ 63"
    unfolding below_9 by (simp add: ranges_def rang_val_def)
  then have "strtol0 (dec n) = (int n, [])"
    using assms by (auto intro!: strtol0_dec)
  then show ?thesis
    using assms by (simp add: set_switch_def val_defs)
qed

subsection \<open>Lines\<close>

lemma find_space_text:
  "\<forall>c \<in> set s. \<not> isspace c \<Longrightarrow> isspace c \<Longrightarrow> find_space (a @ s @ c # r) (length a) = Some (length a + length s)"
proof (induction s arbitrary: a)
  case Nil
  then show ?case
    by (simp add: find_space.simps)
next
  case (Cons x s)
  then show ?case
    using Cons.IH [of "a @ [x]"] by (subst find_space.simps) simp
qed

lemma skip_spaces_text: "s \<noteq> [] \<Longrightarrow> \<not> isspace (hd s) \<Longrightarrow> skip_spaces (a @ s) (length a) = Some (length a)"
  by (cases s) (simp_all add: skip_spaces.simps [of _ "length a"])

lemma str_at_text:
  assumes "NUL \<notin> set s"
  shows "str_at (a @ s @ NUL # r) (length a) = Some s"
proof -
  have "cstr (s @ NUL # r) = s"
    using assms by (induction s) (auto simp: cstr_def NUL_def)
  then show ?thesis
    by (simp add: str_at_def)
qed

lemma strip_text:
  assumes "s \<noteq> []" "\<not> isspace (last s)" "r \<noteq> []"
  shows "strip_end_spaces (a @ s @ r) (length a + length s) = Some (a @ s @ NUL # tl r)"
proof -
  obtain t x where t: "s = t @ [x]"
    using assms(1) by (cases s rule: rev_cases) auto
  then show ?thesis
    using assms by (cases r) (simp_all add: nth_append list_update_append)
qed

lemma strip_text_space:
  assumes "s \<noteq> []" "\<not> isspace (last s)" "isspace c"
  shows "strip_end_spaces (a @ s @ c # r) (length a + length s + 1) = Some (a @ s @ NUL # r)"
  using strip_text [OF assms(1,2), of "c # r" a] assms(3)
  by (simp add: nth_append)

lemma range_names:
  "list_all (\<lambda>i. let n = rg_name (ranges ! i) in
     plain n \<and> list_all (\<lambda>c. \<not> isspace c) n \<and> hd n \<noteq> CHR ''['' \<and> hd n \<noteq> CHR ''#'' \<and>
     find_range n = Some i) [0..<last_val]"
  by code_simp

lemma range_name:
  assumes "i < last_val"
  shows "plain (rg_name (ranges ! i))" "\<forall>c \<in> set (rg_name (ranges ! i)). \<not> isspace c"
    "hd (rg_name (ranges ! i)) \<notin> {CHR ''['', CHR ''#''}" "find_range (rg_name (ranges ! i)) = Some i"
  using range_names assms by (simp_all add: list_all_iff Let_def)

lemma set_val_text:
  assumes "i < last_val" "plain v" "set_switch mem i v s = Some s'"
  shows "set_val mem (rg_name (ranges ! i) @ '' '' @ v @ [LF, NUL] @ r) 0 s =
    Some (True, rg_name (ranges ! i) @ [NUL] @ v @ [NUL, NUL] @ r, s'\<lparr>m_set := (m_set s')[i := True]\<rparr>)"
proof -
  let ?n = "rg_name (ranges ! i)"
  note n = range_name [OF assms(1)]
  have v: "v \<noteq> []" "\<not> isspace (hd v)" "\<not> isspace (last v)" "NUL \<notin> set v"
    using assms(2) by (simp_all add: plain_def)
  have "find_space (?n @ '' '' @ v @ [LF, NUL] @ r) 0 = Some (length ?n)"
    using find_space_text [OF n(2), of "CHR '' ''" "[]"] by (simp add: isspace_def)
  moreover have "skip_spaces (?n @ [NUL] @ v @ [LF, NUL] @ r) (length ?n + 1) = Some (length ?n + 1)"
    using skip_spaces_text [of "v @ [LF, NUL] @ r" "?n @ [NUL]"] v by simp
  ultimately have tok: "next_space_token (?n @ '' '' @ v @ [LF, NUL] @ r) 0 =
      Some (?n @ [NUL] @ v @ [LF, NUL] @ r, length ?n + 1)"
    by (simp add: next_space_token_def list_update_append)
  have name: "str_at (?n @ [NUL] @ v @ [LF, NUL] @ r) 0 = Some ?n"
    using str_at_text [of ?n "[]"] n(1) by (simp add: plain_def)
  have val0: "str_at (?n @ [NUL] @ v @ [LF, NUL] @ r) (length ?n + 1) = Some (v @ [LF])"
    using str_at_text [of "v @ [LF]" "?n @ [NUL]" r] v by (simp add: LF_def NUL_def)
  have strip: "strip_end_spaces (?n @ [NUL] @ v @ [LF, NUL] @ r) (length ?n + 1 + length (v @ [LF])) =
      Some (?n @ [NUL] @ v @ [NUL, NUL] @ r)"
    using strip_text_space [OF v(1,3) space_LF, of "?n @ [NUL]" "NUL # r"] by (simp del: strip_end_spaces.simps)
  have val: "str_at (?n @ [NUL] @ v @ [NUL, NUL] @ r) (length ?n + 1) = Some v"
    using str_at_text [of v "?n @ [NUL]" "NUL # r"] v by simp
  show ?thesis
    unfolding set_val_def tok bind.bind_lunit prod.case name n(4) option.case val0 strip val
    using v(1) assms(3) by simp
qed

lemma cfg_line_setting:
  assumes "i < last_val" "plain v" "\<forall>s. set_switch mem i v s \<noteq> None"
  shows "cfg_line mem (rg_name (ranges ! i) @ '' '' @ v @ [LF, NUL] @ r) (sec, c) =
    Some (True, rg_name (ranges ! i) @ [NUL] @ v @ [NUL, NUL] @ r, entry_act mem (Setting i v) (sec, c))"
proof -
  let ?n = "rg_name (ranges ! i)"
  obtain s' where s: "set_switch mem i v (cfg_section mem c sec) = Some s'"
    using assms(3) by blast
  have n: "?n \<noteq> []" "\<not> isspace (hd ?n)" "hd ?n \<noteq> CHR ''[''" "hd ?n \<noteq> CHR ''#''" "NUL \<notin> set ?n"
    using range_name [OF assms(1)] by (simp_all add: plain_def)
  have n': "hd ?n \<noteq> NUL"
    using hd_in_set [OF n(1)] n(5) by metis
  from n have h: "(?n @ '' '' @ v @ [LF, NUL] @ r) ! 0 = hd ?n"
    by (simp add: hd_conv_nth nth_append)
  have k: "skip_spaces (?n @ '' '' @ v @ [LF, NUL] @ r) 0 = Some 0"
    using skip_spaces_text [of "?n @ '' '' @ v @ [LF, NUL] @ r" "[]"] n by simp
  show ?thesis
    unfolding cfg_line_def Let_def prod.case k bind.bind_lunit h set_val_text [OF assms(1,2) s]
    using n n' s by (simp add: entry_act_def put_setting_def)
qed

lemma cfg_line_section:
  assumes "plain n" "CHR '']'' \<notin> set n"
  shows "cfg_line mem (CHR ''['' # n @ '']'' @ [LF, NUL] @ r) (sec, c) =
    Some (True, CHR ''['' # n @ [NUL] @ [LF, NUL] @ r, entry_act mem (Section_is n) (sec, c))"
proof -
  have n: "n \<noteq> []" "\<not> isspace (hd n)" "\<not> isspace (last n)" "NUL \<notin> set n"
    using assms(1) by (simp_all add: plain_def)
  let ?m = "''['' @ n @ '']'' @ [LF, NUL] @ r"
  have k: "skip_spaces ?m 0 = Some 0" "skip_spaces ?m (0 + 1) = Some 1"
    using skip_spaces_text [of ?m "[]"] skip_spaces_text [of "n @ '']'' @ [LF, NUL] @ r" "''[''"] n
    by (simp_all add: isspace_def)
  have s: "str_at ?m 1 = Some (n @ '']'' @ [LF])"
    using str_at_text [of "n @ '']'' @ [LF]" "''[''" r] n(4) by (simp add: LF_def NUL_def)
  have e: "strchr (n @ '']'' @ [LF]) CHR '']'' = Some (length n)"
  proof -
    have "takeWhile (\<lambda>d. d \<noteq> CHR '']'') (n @ '']'' @ [LF]) = n"
      using assms(2) by (subst takeWhile_append2) auto
    then show ?thesis
      by (simp add: strchr_def)
  qed
  have m: "strip_end_spaces ?m (1 + length n) = Some (''['' @ n @ [NUL] @ [LF, NUL] @ r)"
    using strip_text [OF n(1,3), of "'']'' @ [LF, NUL] @ r" "''[''"] by simp
  have t: "str_at (''['' @ n @ [NUL] @ [LF, NUL] @ r) 1 = Some n"
    using str_at_text [OF n(4), of "''[''" "[LF, NUL] @ r"] by simp
  have h: "?m ! 0 = CHR ''[''"
    by simp
  have "cfg_line mem ?m (sec, c) = Some (True, ''['' @ n @ [NUL] @ [LF, NUL] @ r, n, c)"
    unfolding cfg_line_def Let_def prod.case k(1) bind.bind_lunit h k(2) s e option.case m t if_True simp_thms
    by simp
  then show ?thesis
    by (simp add: entry_act_def)
qed

lemma cfg_line_comment:
  "cfg_line mem (CHR ''#'' # r) (sec, c) = Some (True, CHR ''#'' # r, entry_act mem (Comment t) (sec, c))"
proof -
  have "skip_spaces (CHR ''#'' # r) 0 = Some 0"
    using skip_spaces_text [of "CHR ''#'' # r" "[]"] by (simp add: isspace_def)
  then show ?thesis
    by (simp add: cfg_line_def entry_act_def)
qed

lemma cfg_line_entry:
  assumes "entry_ok mem e" "length m = lineSize"
  shows "\<exists>m'. cfg_line mem (entry_line e @ [LF, NUL] @ drop (length (entry_line e) + 2) m) st =
    Some (True, m', entry_act mem e st) \<and> length m' = lineSize"
proof -
  obtain sec c where st: "st = (sec, c)"
    by (cases st)
  let ?r = "drop (length (entry_line e) + 2) m"
  have len: "length (entry_line e) + 2 + length ?r = lineSize"
    using assms by (auto simp: entry_ok_def line_fits_def)
  show ?thesis
  proof (cases e)
    case (Comment t)
    then show ?thesis
      using cfg_line_comment [of mem "t @ [LF, NUL] @ ?r" sec c t] len st by (simp add: entry_line_def)
  next
    case (Section_is n)
    then show ?thesis
      using cfg_line_section [of n mem ?r sec c] assms(1) len st by (simp add: entry_line_def entry_ok_def)
  next
    case (Setting i v)
    then show ?thesis
      using cfg_line_setting [of i v mem ?r sec c] assms(1) len st by (simp add: entry_line_def entry_ok_def)
  qed
qed

subsection \<open>Files\<close>

lemma read_cfg_written:
  assumes "\<forall>e \<in> set es. entry_ok mem e" "length m0 = lineSize" "file \<noteq> []"
    "fs file = Some (file_text (map entry_line es))"
  shows "read_cfg mem fs m0 file c = Some (True, snd (fold (entry_act mem) es (globalSection, clear_sections mem)))"
  using assms cfg_lines.run_lines [of es mem entry_line "entry_act mem" m0] cfg_line_entry
  by (fastforce simp: read_cfg_def case_prod_beta entry_ok_def)

subsection \<open>The number that is written last\<close>

fun names_section :: "cfg_entry \<Rightarrow> bool" where
  "names_section (Section_is n) = True"
| "names_section e = False"

fun sets :: "nat \<Rightarrow> cfg_entry \<Rightarrow> bool" where
  "sets i (Setting j v) = (i = j)"
| "sets i e = False"

text \<open>The section in use has a value for a number.\<close>

definition has_number :: "(nat \<Rightarrow> bool) \<Rightarrow> string \<Rightarrow> nat \<Rightarrow> uint32_t \<Rightarrow> string \<times> ConfigFile \<Rightarrow> bool" where
  "has_number mem sec i w st \<longleftrightarrow> fst st = sec \<and>
     (case map_of (cfgSec (snd st)) sec of None \<Rightarrow> False | Some s \<Rightarrow> m_set s ! i \<and> m_vals s ! i = w)"

lemma put_setting_ok:
  assumes "i < last_val" "section_ok s"
  shows "section_ok (put_setting mem i v s) \<and> (all_in_range s \<longrightarrow> all_in_range (put_setting mem i v s))"
  using set_switch_section [OF _ assms(1)] assms(2) by (auto simp: put_setting_def split: option.splits)

lemma put_setting_other:
  assumes "i \<noteq> j" "j < last_val"
  shows "m_set (put_setting mem j v s) ! i = m_set s ! i \<and> m_vals (put_setting mem j v s) ! i = m_vals s ! i"
proof (cases "set_switch mem j v s")
  case (Some s')
  then show ?thesis
    using set_switch_ok [OF Some assms(2)] assms(1) by (auto simp: put_setting_def)
qed (simp add: put_setting_def)

lemma entry_act_ok:
  assumes "entry_ok mem e" "cfg_ok (snd st)"
  shows "cfg_ok (snd (entry_act mem e st))"
proof (cases e)
  case (Setting i v)
  obtain sec c where st: "st = (sec, c)"
    by (cases st)
  have "section_ok (put_setting mem i v (cfg_section mem c sec)) \<and>
      (all_in_range (cfg_section mem c sec) \<longrightarrow> all_in_range (put_setting mem i v (cfg_section mem c sec)))"
    using put_setting_ok cfg_ok_section assms Setting st by (simp add: entry_ok_def)
  then show ?thesis
    using cfg_ok_update [of c _ mem sec] assms(2) Setting st by (simp add: entry_act_def)
qed (use assms in \<open>auto simp: entry_act_def split: prod.splits\<close>)

lemma fold_entry_ok:
  "\<forall>e \<in> set es. entry_ok mem e \<Longrightarrow> cfg_ok (snd st) \<Longrightarrow> cfg_ok (snd (fold (entry_act mem) es st))"
  by (induction es arbitrary: st) (simp_all add: entry_act_ok)

lemma fold_same_section:
  "\<forall>e \<in> set es. \<not> names_section e \<Longrightarrow> fst (fold (entry_act mem) es st) = fst st"
proof (induction es arbitrary: st)
  case (Cons e es)
  then show ?case
    by (cases e) (auto simp: entry_act_def split: prod.splits)
qed simp

lemma has_number_kept:
  assumes "\<forall>e \<in> set es. entry_ok mem e \<and> \<not> names_section e \<and> \<not> sets i e" "has_number mem sec i w st"
  shows "has_number mem sec i w (fold (entry_act mem) es st)"
  using assms
proof (induction es arbitrary: st)
  case (Cons e es)
  have "has_number mem sec i w (entry_act mem e st)"
    using Cons.prems put_setting_other
    by (cases e; cases st) (auto simp: has_number_def entry_act_def entry_ok_def cfg_section_def update_conv' split: option.splits)
  then show ?case
    using Cons by simp
qed simp

lemma number_put:
  assumes "i < str_base_val" "i \<noteq> network_transport_val" "rg_min (ranges ! i) \<le> int n" "int n \<le> rg_max (ranges ! i)"
    "cfg_ok (snd st)" "fst st = sec"
  shows "has_number mem sec i (of_nat n) (entry_act mem (Setting i (dec n)) st)"
proof -
  obtain c where st: "st = (sec, c)"
    using assms(6) by (cases st) auto
  have "section_ok (cfg_section mem c sec)"
    using cfg_ok_section assms(5) st by simp
  then have "i < length (m_set (cfg_section mem c sec))" "i < length (m_vals (cfg_section mem c sec))"
    using assms(1) by (simp_all add: section_ok_def str_base_val_def last_val_def)
  then show ?thesis
    using set_switch_dec [OF assms(1-4)] st by (simp add: has_number_def entry_act_def put_setting_def update_conv')
qed

lemma has_number_get:
  "has_number mem sec i w (sec', c) \<Longrightarrow> sec \<noteq> [] \<Longrightarrow> get_num mem i sec c = w"
  by (auto simp: has_number_def get_num_def cfg_from_def is_global_def cfg_section_def val_base_val_def
      split: option.splits)

lemma number_written:
  assumes "\<forall>e \<in> set es. entry_ok mem e" "length m0 = lineSize" "file \<noteq> []"
    "fs file = Some (file_text (map entry_line es))"
    "es = es1 @ Section_is sec # es2 @ Setting i (dec n) # es3"
    "\<forall>e \<in> set es2. \<not> names_section e" "\<forall>e \<in> set es3. \<not> names_section e \<and> \<not> sets i e"
    "i < str_base_val" "i \<noteq> network_transport_val" "rg_min (ranges ! i) \<le> int n" "int n \<le> rg_max (ranges ! i)"
  shows "\<exists>c'. read_cfg mem fs m0 file c = Some (True, c') \<and> get_num mem i sec c' = of_nat n"
proof -
  let ?f = "fold (entry_act mem)"
  define st0 where "st0 = ?f (es1 @ Section_is sec # es2) (globalSection, clear_sections mem)"
  define st1 where "st1 = ?f es3 (entry_act mem (Setting i (dec n)) st0)"
  have "cfg_ok (snd st0)"
    unfolding st0_def by (rule fold_entry_ok) (use assms(1,5) cfg_ok_clear in auto)
  moreover have "fst st0 = sec"
    by (simp add: st0_def fold_same_section [OF assms(6)]) (simp add: entry_act_def split: prod.splits)
  ultimately have "has_number mem sec i (of_nat n) st1"
    unfolding st1_def using assms(1,5,7) by (intro has_number_kept number_put [OF assms(8-11)]) auto
  moreover have "sec \<noteq> []"
    using assms(1,5) by (simp add: entry_ok_def plain_def)
  ultimately have "get_num mem i sec (snd st1) = of_nat n"
    using has_number_get [of mem sec i "of_nat n" "fst st1" "snd st1"] by simp
  moreover have "read_cfg mem fs m0 file c = Some (True, snd st1)"
    using read_cfg_written [of es mem m0 "file" fs c] assms(1-4) by (simp add: assms(5) st0_def st1_def)
  ultimately show ?thesis
    by blast
qed

subsection \<open>A last line\<close>

lemma two_lines:
  "fgets m f = Some (m1, r) \<Longrightarrow> cfg_line mem m1 st = Some (True, m2, st1) \<Longrightarrow> fgets m2 r = Some (m3, []) \<Longrightarrow>
   cfg_line mem m3 st1 = Some (True, m4, st2) \<Longrightarrow> cfg_loop mem m f st = Some (True, st2)"
  by (simp add: cfg_loop.simps [of mem m] cfg_loop.simps [of mem m2 r] cfg_loop.simps [of mem m4 "[]"] fgets_def)

end
