(* ===== verification/Msg_Config.thy ===== *)
theory Msg_Config
  imports Msg_Steps Cfg_Written
begin

text \<open>
  Authentication from a configuration: \<^verbatim>\<open>Message::useAuth(cfg, section)\<close> of
  \<^verbatim>\<open>src/msg.cpp\<close> takes the key, the association and the file of keys from the configuration.
\<close>

text \<open>\<open>None\<close>: the look-up of the section throws, or the file leads outside the line buffer.\<close>

definition useAuth_cfg :: "(nat \<Rightarrow> bool) \<Rightarrow> (string \<Rightarrow> string option) \<Rightarrow> string \<Rightarrow> hmac_lib \<Rightarrow> ConfigFile \<Rightarrow>
    string \<Rightarrow> Message \<Rightarrow> (bool \<times> Message) option" where
  "useAuth_cfg mem fs m0 hl cfg section m = do {
     let keyID = get_func32 mem active_key_id_val section cfg;
     spp \<leftarrow> haveSpp mem section cfg;
     if spp \<and> keyID > 0 then do {
       (ok, sa) \<leftarrow> read_sa_cfg mem fs m0 cfg section SaFile_new;
       if ok then Some (useAuth hl sa (get_func mem spp_val section cfg) keyID m)
       else Some (False, m)
     }
     else Some (False, m)
   }"

definition useConfig :: "(nat \<Rightarrow> bool) \<Rightarrow> ConfigFile \<Rightarrow> string \<Rightarrow> Message \<Rightarrow> bool \<times> Message" where
  "useConfig mem cfg section m =
     (let ts = get_func mem transportSpecific_val section cfg in
      if ts > 0xf then (False, m)
      else (True, m\<lparr>m_prms := (m_prms m)\<lparr>transportSpecific := ts,
              MsgParams.domainNumber := get_func mem domainNumber_val section cfg\<rparr>\<rparr>))"

lemma read_sa_cfg_ok:
  "read_sa_cfg mem fs m0 cfg section sa = Some (ok, sa') \<Longrightarrow> SaFile_ok sa \<Longrightarrow> SaFile_ok sa'"
  using read_sa_ok by (auto simp: read_sa_cfg_def Let_def split: if_splits)

lemma useAuth_cfg_cases:
  assumes "useAuth_cfg mem fs m0 hl cfg section m = Some (ok, m')"
  obtains "\<not> ok" "m' = m"
  | sa where "read_sa_cfg mem fs m0 cfg section SaFile_new = Some (True, sa)" "SaFile_ok sa"
      "useAuth hl sa (get_func mem spp_val section cfg) (get_func32 mem active_key_id_val section cfg) m = (ok, m')"
proof -
  have "SaFile_ok SaFile_new"
    by (simp add: SaFile_ok_def SaFile_new_def)
  then show ?thesis
    using assms that read_sa_cfg_ok
    by (auto simp: useAuth_cfg_def Let_def split: bind_splits if_splits prod.splits)
qed

lemma useAuth_fails: "useAuth hl sa s k m = (False, m') \<Longrightarrow> m' = m"
  by (auto simp: useAuth_def Let_def split: if_splits)

lemma useAuth_cfg_fails: "useAuth_cfg mem fs m0 hl cfg section m = Some (False, m') \<Longrightarrow> m' = m"
  by (erule useAuth_cfg_cases) (auto dest: useAuth_fails)

lemma useAuth_cfg_uses:
  assumes "useAuth_cfg mem fs m0 hl cfg section m = Some (True, m')"
  shows "m_haveAuth m'" "m_keyID m' = get_func32 mem active_key_id_val section cfg"
    "m_sppID m' = get_func mem spp_val section cfg" "SaFile_have (m_sa m') (m_sppID m') (m_keyID m')"
  using assms
  by (auto elim!: useAuth_cfg_cases simp: useAuth_def Let_def split: if_splits)

lemma useAuth_cfg_step:
  "useAuth_cfg mem fs m0 hl cfg section m = Some (ok, m') \<Longrightarrow> message_reachable m \<Longrightarrow> message_reachable m'"
  by (erule useAuth_cfg_cases) (simp, metis message_reachable.called message_step.use_auth snd_conv)

text \<open>A configuration that was read is always accepted.\<close>

lemma useConfig_accepts:
  assumes "cfg_ok cfg"
  shows "useConfig mem cfg section m =
    (True, m\<lparr>m_prms := (m_prms m)\<lparr>transportSpecific := get_func mem transportSpecific_val section cfg,
       MsgParams.domainNumber := get_func mem domainNumber_val section cfg\<rparr>\<rparr>)"
proof -
  let ?n = "get_num mem transportSpecific_val section cfg"
  have "uint ?n \<le> 15"
    using get_num_range [OF assms, of transportSpecific_val mem "section"]
    by (simp add: in_range_def ranges_def rang_val_def transportSpecific_val_def str_base_val_def)
  then have "uint (ucast ?n :: uint8_t) \<le> 15"
    by (simp add: unsigned_ucast_eq take_bit_int_eq_self)
  then have "\<not> get_func mem transportSpecific_val section cfg > 0xf"
    by (simp add: get_func_def word_less_def)
  then show ?thesis
    by (simp add: useConfig_def)
qed

lemma useConfig_step:
  "message_reachable m \<Longrightarrow> message_reachable (snd (useConfig mem cfg section m))"
proof -
  assume m: "message_reachable m"
  let ?p = "(m_prms m)\<lparr>transportSpecific := get_func mem transportSpecific_val section cfg,
       MsgParams.domainNumber := get_func mem domainNumber_val section cfg\<rparr>"
  have "snd (useConfig mem cfg section m) = snd (updateParams ?p m)"
    by (simp add: useConfig_def updateParams_def Let_def)
  then show ?thesis
    using message_reachable.called [OF m message_step.update_params] by metis
qed

end
