(* ===== verification/Tlv_Sets.thy ===== *)
theory Tlv_Sets
  imports Tlv_Call
begin

unbundle bit_operations_syntax

text \<open>
  What building does to a TLV that the user filled in. The functions of the TLVs set the
  length fields of texts and addresses, the length of a fault record and the counts of
  tables from the data, and clear the flags that the protocol does not have, before they
  store a field. \<open>built t\<close> is the TLV with these fields set. \<open>set_step\<close> is the contract of a
  function when it builds: it stores the image of a value and leaves the value with its
  fields set, or reports that there is no room. It generalises the first half of
  \<open>wire_step\<close>, where the fields are right from the start, and is closed under fields,
  sequences and lists in the same way.
\<close>

named_theorems set_intros

locale set_step =
  fixes p :: "'d proc"
    and wf :: "'d \<Rightarrow> bool"
    and set_by :: "'d \<Rightarrow> 'd"
    and enc :: "'d \<Rightarrow> octets"
  assumes build: "\<lbrakk>m_build mp; mp_ok mp; wf d; int (length (enc d)) \<le> m_left mp\<rbrakk>
      \<Longrightarrow> p d mp = (False, set_by d, put (enc d) mp)"
    and small: "\<lbrakk>m_build mp; mp_ok mp; wf d; m_left mp < int (length (enc d))\<rbrakk>
      \<Longrightarrow> no_room (p d mp) mp"

text \<open>A structure whose image is the one of the value with its fields set.\<close>

abbreviation set_codec :: "'d proc \<Rightarrow> ('d \<Rightarrow> bool) \<Rightarrow> ('d \<Rightarrow> 'd) \<Rightarrow> ('d \<Rightarrow> octets) \<Rightarrow> bool"
  where "set_codec p valid s enc \<equiv> set_step p (\<lambda>d. valid (s d)) s (\<lambda>d. enc (s d))"

lemma set_conv:
  assumes "set_step p w s e"
    and "\<And>d. w' d \<Longrightarrow> w d \<and> s d = s' d \<and> e d = e' d"
  shows "set_step p w' s' e'"
proof (unfold_locales, goal_cases)
  case (1 mp d)
  then show ?case
    using set_step.build [OF assms(1), of mp d] assms(2) [of d] by simp
next
  case (2 mp d)
  then show ?case
    using set_step.small [OF assms(1), of mp d] assms(2) [of d] by simp
qed

lemma set_codecI:
  assumes "set_step p w s e"
    and "\<And>d. valid (s' d) \<Longrightarrow> w d" and "\<And>d. valid (s' d) \<Longrightarrow> s d = s' d"
    and "\<And>d. valid (s' d) \<Longrightarrow> e d = enc (s' d)"
  shows "set_codec p valid s' enc"
  using assms(1) by (rule set_conv) (simp add: assms(2-))

subsection \<open>Fields, sequences and lists\<close>

text \<open>A function of the wire format that has nothing to set.\<close>

lemma set_wire:
  assumes "wire_step p w i c e R"
  shows "set_step p w (\<lambda>d. d) e"
  using assms by (simp add: set_step_def wire_step_def)

lemma set_seq_one [set_intros]:
  assumes "set_step p w s e"
  shows "set_step (proc_seq [p]) w s e"
proof (unfold_locales, goal_cases)
  case (1 mp d)
  then show ?case
    using set_step.build [OF assms, of mp d] by simp
next
  case (2 mp d)
  then show ?case
    using set_step.small [OF assms, of mp d] by (auto split: prod.splits)
qed

lemma set_seq_Cons [set_intros]:
  assumes p: "set_step p w1 s1 e1" and t: "set_step (proc_seq (q # ps)) w2 s2 e2"
  shows "set_step (proc_seq (p # q # ps)) (\<lambda>d. w1 d \<and> w2 (s1 d)) (\<lambda>d. s2 (s1 d))
     (\<lambda>d. e1 d @ e2 (s1 d))"
proof (unfold_locales, goal_cases)
  case (1 mp d)
  then show ?case
    using set_step.build [OF p, of mp d] set_step.build [OF t, of "put (e1 d) mp" "s1 d"] by simp
next
  case (2 mp d)
  show ?case
  proof (cases "m_left mp < int (length (e1 d))")
    case True
    with 2 show ?thesis
      using set_step.small [OF p, of mp d] by (auto split: prod.splits)
  next
    case False
    with 2 show ?thesis
      using set_step.build [OF p, of mp d] set_step.small [OF t, of "put (e1 d) mp" "s1 d"]
      by (simp add: no_room_def)
  qed
qed

lemma set_fld [set_intros]:
  assumes "set_step p w s e"
  shows "set_step (fld get upd p) (\<lambda>d. w (get d)) (\<lambda>d. upd (\<lambda>_. s (get d)) d) (\<lambda>d. e (get d))"
proof (unfold_locales, goal_cases)
  case (1 mp d)
  then show ?case
    using set_step.build [OF assms, of mp "get d"] by (simp add: fld_def)
next
  case (2 mp d)
  then show ?case
    using set_step.small [OF assms, of mp "get d"] by (auto simp: fld_def split: prod.splits)
qed

lemma set_fld_len [set_intros]:
  assumes "\<And>n. set_step (p n) (w n) s e"
  shows "set_step (fld_len len get upd p) (\<lambda>d. w (len d) (get d))
     (\<lambda>d. upd (\<lambda>_. s (get d)) d) (\<lambda>d. e (get d))"
proof (unfold_locales, goal_cases)
  case (1 mp d)
  then show ?case
    using set_step.build [OF assms, of mp "len d" "get d"] by (simp add: fld_len_def fld_def)
next
  case (2 mp d)
  then show ?case
    using set_step.small [OF assms, of mp "len d" "get d"]
    by (auto simp: fld_len_def fld_def split: prod.splits)
qed

lemma set_assign [set_intros]: "set_step (assign f) (\<lambda>_. True) f (\<lambda>_. [])"
  by unfold_locales (auto simp: assign_def mp_ok_def)

lemma set_on_build [set_intros]: "set_step (on_build f) (\<lambda>_. True) f (\<lambda>_. [])"
  by unfold_locales (auto simp: on_build_def mp_ok_def)

lemma vector_b_sets:
  assumes p: "set_step p w s e" and "m_build mp" "mp_ok mp" "\<forall>x \<in> set xs. w x"
  shows "if int (length (enc_list e xs)) \<le> m_left mp
    then vector_b p xs mp = (False, map s xs, put (enc_list e xs) mp)
    else no_room (vector_b p xs mp) mp"
  using assms(2-)
proof (induction xs arbitrary: mp)
  case Nil
  then show ?case by (simp add: mp_ok_def)
next
  case (Cons x xs)
  show ?case
  proof (cases "int (length (e x)) \<le> m_left mp")
    case True
    then have "p x mp = (False, s x, put (e x) mp)" and "mp_ok (put (e x) mp)"
      using Cons.prems set_step.build [OF p, of mp x] by simp_all
    then show ?thesis
      using Cons.prems True Cons.IH [of "put (e x) mp"]
      by (auto simp: no_room_def split: if_splits prod.splits)
  next
    case False
    then show ?thesis
      using Cons.prems set_step.small [OF p, of mp x] by (auto split: prod.splits)
  qed
qed

lemma set_vector_f [set_intros]:
  assumes "set_step p w s e"
  shows "set_step (vector_f new p n) (\<lambda>xs. \<forall>x \<in> set xs. w x) (map s) (enc_list e)"
  using vector_b_sets [OF assms] by unfold_locales (auto simp: vector_f_def split: if_splits)

lemma enc_list_map [simp]: "enc_list e (map s xs) = enc_list (\<lambda>x. e (s x)) xs"
  by (induction xs) simp_all

subsection \<open>Flags and structures\<close>

definition set_flags :: "uint8_t \<Rightarrow> uint8_t \<Rightarrow> uint8_t" where
  "set_flags flagsMask f =
     (if flagsMask > 1 then f AND flagsMask else if f > 0 then 1 else f)"

lemma set_procFlags [set_intros]:
  "set_step (procFlags m) (\<lambda>_. True) (set_flags m) (\<lambda>f. [set_flags m f])"
proof (unfold_locales, goal_cases)
  case (1 mp f)
  then show ?case
    using wire_step.build [OF wire_procB8, of mp "set_flags m f"]
    by (simp add: procFlags_def set_flags_def)
next
  case (2 mp f)
  then show ?case
    using wire_step.build_small [OF wire_procB8, of mp "set_flags m f"]
    by (simp add: procFlags_def set_flags_def)
qed

definition set_PTPText :: "PTPText_t \<Rightarrow> PTPText_t" where
  "set_PTPText d = d\<lparr>lengthField := of_nat (length (textField d))\<rparr>"

definition set_PortAddress :: "PortAddress_t \<Rightarrow> PortAddress_t" where
  "set_PortAddress d = d\<lparr>addressLength := of_nat (length (addressField d))\<rparr>"

definition set_FaultRecord :: "FaultRecord_t \<Rightarrow> FaultRecord_t" where
  "set_FaultRecord d = d\<lparr>faultRecordLength := of_nat (FaultRecord_size d),
     faultName := set_PTPText (faultName d), faultValue := set_PTPText (faultValue d),
     faultDescription := set_PTPText (faultDescription d)\<rparr>"

definition set_LinuxptpUnicastMaster :: "LinuxptpUnicastMaster_t \<Rightarrow> LinuxptpUnicastMaster_t" where
  "set_LinuxptpUnicastMaster d = d\<lparr>portAddress := set_PortAddress (portAddress d)\<rparr>"

lemma sets_PTPText [set_intros]: "set_codec proc_PTPText valid_PTPText set_PTPText enc_PTPText"
  unfolding proc_PTPText_def
  by (rule set_codecI, (rule set_intros | rule set_wire, rule step_intros codec_intros | simp)+)
    (auto simp: set_PTPText_def valid_PTPText_def enc_PTPText_def)

lemma sets_PortAddress [set_intros]:
  "set_codec proc_PortAddress valid_PortAddress set_PortAddress enc_PortAddress"
  unfolding proc_PortAddress_def
  by (rule set_codecI, (rule set_intros | rule set_wire, rule step_intros codec_intros | simp)+)
    (auto simp: set_PortAddress_def valid_PortAddress_def enc_PortAddress_def)

lemma sets_FaultRecord [set_intros]:
  "set_codec proc_FaultRecord valid_FaultRecord set_FaultRecord enc_FaultRecord"
  unfolding proc_FaultRecord_def
  by (rule set_codecI, (rule set_intros | rule set_wire, rule step_intros codec_intros | simp)+)
    (auto simp: set_FaultRecord_def valid_FaultRecord_def enc_FaultRecord_def)

lemma sets_LinuxptpUnicastMaster [set_intros]:
  "set_codec proc_LinuxptpUnicastMaster valid_LinuxptpUnicastMaster set_LinuxptpUnicastMaster
     enc_LinuxptpUnicastMaster"
  unfolding proc_LinuxptpUnicastMaster_def
  by (rule set_codecI, (rule set_intros | rule set_wire, rule step_intros codec_intros | simp)+)
    (auto simp: set_LinuxptpUnicastMaster_def valid_LinuxptpUnicastMaster_def
      enc_LinuxptpUnicastMaster_def)

subsection \<open>The TLVs that have something to set\<close>

definition set_CLOCK_DESCRIPTION :: "CLOCK_DESCRIPTION_t \<Rightarrow> CLOCK_DESCRIPTION_t" where
  "set_CLOCK_DESCRIPTION d = d\<lparr>CLOCK_DESCRIPTION_t.physicalAddressLength := of_nat (length (CLOCK_DESCRIPTION_t.physicalAddress d)),
     CLOCK_DESCRIPTION_t.physicalLayerProtocol := set_PTPText (CLOCK_DESCRIPTION_t.physicalLayerProtocol d),
     CLOCK_DESCRIPTION_t.protocolAddress := set_PortAddress (CLOCK_DESCRIPTION_t.protocolAddress d),
     CLOCK_DESCRIPTION_t.productDescription := set_PTPText (CLOCK_DESCRIPTION_t.productDescription d),
     CLOCK_DESCRIPTION_t.revisionData := set_PTPText (CLOCK_DESCRIPTION_t.revisionData d),
     CLOCK_DESCRIPTION_t.userDescription := set_PTPText (CLOCK_DESCRIPTION_t.userDescription d)\<rparr>"

lemma sets_CLOCK_DESCRIPTION: "set_codec CLOCK_DESCRIPTION_f valid_CLOCK_DESCRIPTION set_CLOCK_DESCRIPTION enc_CLOCK_DESCRIPTION"
  unfolding CLOCK_DESCRIPTION_f_def
  by (rule set_codecI, (rule set_intros | (rule set_wire, rule step_intros codec_intros) | simp)+)
    (simp_all add: set_CLOCK_DESCRIPTION_def valid_CLOCK_DESCRIPTION_def enc_CLOCK_DESCRIPTION_def)

definition set_USER_DESCRIPTION :: "USER_DESCRIPTION_t \<Rightarrow> USER_DESCRIPTION_t" where
  "set_USER_DESCRIPTION d = d\<lparr>USER_DESCRIPTION_t.userDescription := set_PTPText (USER_DESCRIPTION_t.userDescription d)\<rparr>"

lemma sets_USER_DESCRIPTION: "set_codec USER_DESCRIPTION_f valid_USER_DESCRIPTION set_USER_DESCRIPTION enc_USER_DESCRIPTION"
  unfolding USER_DESCRIPTION_f_def
  by (rule set_codecI, (rule set_intros | (rule set_wire, rule step_intros codec_intros) | simp)+)
    (simp_all add: set_USER_DESCRIPTION_def valid_USER_DESCRIPTION_def enc_USER_DESCRIPTION_def)

definition set_FAULT_LOG :: "FAULT_LOG_t \<Rightarrow> FAULT_LOG_t" where
  "set_FAULT_LOG d = d\<lparr>FAULT_LOG_t.numberOfFaultRecords := of_nat (length (FAULT_LOG_t.faultRecords d)),
     FAULT_LOG_t.faultRecords := map set_FaultRecord (FAULT_LOG_t.faultRecords d)\<rparr>"

lemma sets_FAULT_LOG: "set_codec FAULT_LOG_f valid_FAULT_LOG set_FAULT_LOG enc_FAULT_LOG"
  unfolding FAULT_LOG_f_def
  by (rule set_codecI, (rule set_intros | (rule set_wire, rule step_intros codec_intros) | simp)+)
    (simp_all add: set_FAULT_LOG_def valid_FAULT_LOG_def enc_FAULT_LOG_def)

definition set_DEFAULT_DATA_SET :: "DEFAULT_DATA_SET_t \<Rightarrow> DEFAULT_DATA_SET_t" where
  "set_DEFAULT_DATA_SET d = d\<lparr>DEFAULT_DATA_SET_t.flags := set_flags DEFAULT_DATA_SET_flagsMask (DEFAULT_DATA_SET_t.flags d)\<rparr>"

lemma sets_DEFAULT_DATA_SET: "set_codec DEFAULT_DATA_SET_f valid_DEFAULT_DATA_SET set_DEFAULT_DATA_SET enc_DEFAULT_DATA_SET"
  unfolding DEFAULT_DATA_SET_f_def
  by (rule set_codecI, (rule set_intros | (rule set_wire, rule step_intros codec_intros) | simp)+)
    (simp_all add: set_DEFAULT_DATA_SET_def valid_DEFAULT_DATA_SET_def enc_DEFAULT_DATA_SET_def)

definition set_PARENT_DATA_SET :: "PARENT_DATA_SET_t \<Rightarrow> PARENT_DATA_SET_t" where
  "set_PARENT_DATA_SET d = d\<lparr>PARENT_DATA_SET_t.flags := set_flags PARENT_DATA_SET_flagsMask (PARENT_DATA_SET_t.flags d)\<rparr>"

lemma sets_PARENT_DATA_SET: "set_codec PARENT_DATA_SET_f valid_PARENT_DATA_SET set_PARENT_DATA_SET enc_PARENT_DATA_SET"
  unfolding PARENT_DATA_SET_f_def
  by (rule set_codecI, (rule set_intros | (rule set_wire, rule step_intros codec_intros) | simp)+)
    (simp_all add: set_PARENT_DATA_SET_def valid_PARENT_DATA_SET_def enc_PARENT_DATA_SET_def)

definition set_TIME_PROPERTIES_DATA_SET :: "TIME_PROPERTIES_DATA_SET_t \<Rightarrow> TIME_PROPERTIES_DATA_SET_t" where
  "set_TIME_PROPERTIES_DATA_SET d = d\<lparr>TIME_PROPERTIES_DATA_SET_t.flags := set_flags TIME_PROPERTIES_DATA_SET_flagsMask (TIME_PROPERTIES_DATA_SET_t.flags d)\<rparr>"

lemma sets_TIME_PROPERTIES_DATA_SET: "set_codec TIME_PROPERTIES_DATA_SET_f valid_TIME_PROPERTIES_DATA_SET set_TIME_PROPERTIES_DATA_SET enc_TIME_PROPERTIES_DATA_SET"
  unfolding TIME_PROPERTIES_DATA_SET_f_def
  by (rule set_codecI, (rule set_intros | (rule set_wire, rule step_intros codec_intros) | simp)+)
    (simp_all add: set_TIME_PROPERTIES_DATA_SET_def valid_TIME_PROPERTIES_DATA_SET_def enc_TIME_PROPERTIES_DATA_SET_def)

definition set_SLAVE_ONLY :: "SLAVE_ONLY_t \<Rightarrow> SLAVE_ONLY_t" where
  "set_SLAVE_ONLY d = d\<lparr>SLAVE_ONLY_t.flags := set_flags SLAVE_ONLY_flagsMask (SLAVE_ONLY_t.flags d)\<rparr>"

lemma sets_SLAVE_ONLY: "set_codec SLAVE_ONLY_f valid_SLAVE_ONLY set_SLAVE_ONLY enc_SLAVE_ONLY"
  unfolding SLAVE_ONLY_f_def
  by (rule set_codecI, (rule set_intros | (rule set_wire, rule step_intros codec_intros) | simp)+)
    (simp_all add: set_SLAVE_ONLY_def valid_SLAVE_ONLY_def enc_SLAVE_ONLY_def)

definition set_UTC_PROPERTIES :: "UTC_PROPERTIES_t \<Rightarrow> UTC_PROPERTIES_t" where
  "set_UTC_PROPERTIES d = d\<lparr>UTC_PROPERTIES_t.flags := set_flags UTC_PROPERTIES_flagsMask (UTC_PROPERTIES_t.flags d)\<rparr>"

lemma sets_UTC_PROPERTIES: "set_codec UTC_PROPERTIES_f valid_UTC_PROPERTIES set_UTC_PROPERTIES enc_UTC_PROPERTIES"
  unfolding UTC_PROPERTIES_f_def
  by (rule set_codecI, (rule set_intros | (rule set_wire, rule step_intros codec_intros) | simp)+)
    (simp_all add: set_UTC_PROPERTIES_def valid_UTC_PROPERTIES_def enc_UTC_PROPERTIES_def)

definition set_TRACEABILITY_PROPERTIES :: "TRACEABILITY_PROPERTIES_t \<Rightarrow> TRACEABILITY_PROPERTIES_t" where
  "set_TRACEABILITY_PROPERTIES d = d\<lparr>TRACEABILITY_PROPERTIES_t.flags := set_flags TRACEABILITY_PROPERTIES_flagsMask (TRACEABILITY_PROPERTIES_t.flags d)\<rparr>"

lemma sets_TRACEABILITY_PROPERTIES: "set_codec TRACEABILITY_PROPERTIES_f valid_TRACEABILITY_PROPERTIES set_TRACEABILITY_PROPERTIES enc_TRACEABILITY_PROPERTIES"
  unfolding TRACEABILITY_PROPERTIES_f_def
  by (rule set_codecI, (rule set_intros | (rule set_wire, rule step_intros codec_intros) | simp)+)
    (simp_all add: set_TRACEABILITY_PROPERTIES_def valid_TRACEABILITY_PROPERTIES_def enc_TRACEABILITY_PROPERTIES_def)

definition set_TIMESCALE_PROPERTIES :: "TIMESCALE_PROPERTIES_t \<Rightarrow> TIMESCALE_PROPERTIES_t" where
  "set_TIMESCALE_PROPERTIES d = d\<lparr>TIMESCALE_PROPERTIES_t.flags := set_flags TIMESCALE_PROPERTIES_flagsMask (TIMESCALE_PROPERTIES_t.flags d)\<rparr>"

lemma sets_TIMESCALE_PROPERTIES: "set_codec TIMESCALE_PROPERTIES_f valid_TIMESCALE_PROPERTIES set_TIMESCALE_PROPERTIES enc_TIMESCALE_PROPERTIES"
  unfolding TIMESCALE_PROPERTIES_f_def
  by (rule set_codecI, (rule set_intros | (rule set_wire, rule step_intros codec_intros) | simp)+)
    (simp_all add: set_TIMESCALE_PROPERTIES_def valid_TIMESCALE_PROPERTIES_def enc_TIMESCALE_PROPERTIES_def)

definition set_UNICAST_NEGOTIATION_ENABLE :: "UNICAST_NEGOTIATION_ENABLE_t \<Rightarrow> UNICAST_NEGOTIATION_ENABLE_t" where
  "set_UNICAST_NEGOTIATION_ENABLE d = d\<lparr>UNICAST_NEGOTIATION_ENABLE_t.flags := set_flags UNICAST_NEGOTIATION_ENABLE_flagsMask (UNICAST_NEGOTIATION_ENABLE_t.flags d)\<rparr>"

lemma sets_UNICAST_NEGOTIATION_ENABLE: "set_codec UNICAST_NEGOTIATION_ENABLE_f valid_UNICAST_NEGOTIATION_ENABLE set_UNICAST_NEGOTIATION_ENABLE enc_UNICAST_NEGOTIATION_ENABLE"
  unfolding UNICAST_NEGOTIATION_ENABLE_f_def
  by (rule set_codecI, (rule set_intros | (rule set_wire, rule step_intros codec_intros) | simp)+)
    (simp_all add: set_UNICAST_NEGOTIATION_ENABLE_def valid_UNICAST_NEGOTIATION_ENABLE_def enc_UNICAST_NEGOTIATION_ENABLE_def)

definition set_PATH_TRACE_ENABLE :: "PATH_TRACE_ENABLE_t \<Rightarrow> PATH_TRACE_ENABLE_t" where
  "set_PATH_TRACE_ENABLE d = d\<lparr>PATH_TRACE_ENABLE_t.flags := set_flags PATH_TRACE_ENABLE_flagsMask (PATH_TRACE_ENABLE_t.flags d)\<rparr>"

lemma sets_PATH_TRACE_ENABLE: "set_codec PATH_TRACE_ENABLE_f valid_PATH_TRACE_ENABLE set_PATH_TRACE_ENABLE enc_PATH_TRACE_ENABLE"
  unfolding PATH_TRACE_ENABLE_f_def
  by (rule set_codecI, (rule set_intros | (rule set_wire, rule step_intros codec_intros) | simp)+)
    (simp_all add: set_PATH_TRACE_ENABLE_def valid_PATH_TRACE_ENABLE_def enc_PATH_TRACE_ENABLE_def)

definition set_GRANDMASTER_CLUSTER_TABLE :: "GRANDMASTER_CLUSTER_TABLE_t \<Rightarrow> GRANDMASTER_CLUSTER_TABLE_t" where
  "set_GRANDMASTER_CLUSTER_TABLE d = d\<lparr>GRANDMASTER_CLUSTER_TABLE_t.actualTableSize := of_nat (length (GRANDMASTER_CLUSTER_TABLE_t.PortAddress d)),
     GRANDMASTER_CLUSTER_TABLE_t.PortAddress := map set_PortAddress (GRANDMASTER_CLUSTER_TABLE_t.PortAddress d)\<rparr>"

lemma sets_GRANDMASTER_CLUSTER_TABLE: "set_codec GRANDMASTER_CLUSTER_TABLE_f valid_GRANDMASTER_CLUSTER_TABLE set_GRANDMASTER_CLUSTER_TABLE enc_GRANDMASTER_CLUSTER_TABLE"
  unfolding GRANDMASTER_CLUSTER_TABLE_f_def
  by (rule set_codecI, (rule set_intros | (rule set_wire, rule step_intros codec_intros) | simp)+)
    (simp_all add: set_GRANDMASTER_CLUSTER_TABLE_def valid_GRANDMASTER_CLUSTER_TABLE_def enc_GRANDMASTER_CLUSTER_TABLE_def)

definition set_UNICAST_MASTER_TABLE :: "UNICAST_MASTER_TABLE_t \<Rightarrow> UNICAST_MASTER_TABLE_t" where
  "set_UNICAST_MASTER_TABLE d = d\<lparr>UNICAST_MASTER_TABLE_t.actualTableSize := of_nat (length (UNICAST_MASTER_TABLE_t.PortAddress d)),
     UNICAST_MASTER_TABLE_t.PortAddress := map set_PortAddress (UNICAST_MASTER_TABLE_t.PortAddress d)\<rparr>"

lemma sets_UNICAST_MASTER_TABLE: "set_codec UNICAST_MASTER_TABLE_f valid_UNICAST_MASTER_TABLE set_UNICAST_MASTER_TABLE enc_UNICAST_MASTER_TABLE"
  unfolding UNICAST_MASTER_TABLE_f_def
  by (rule set_codecI, (rule set_intros | (rule set_wire, rule step_intros codec_intros) | simp)+)
    (simp_all add: set_UNICAST_MASTER_TABLE_def valid_UNICAST_MASTER_TABLE_def enc_UNICAST_MASTER_TABLE_def)

definition set_ACCEPTABLE_MASTER_TABLE :: "ACCEPTABLE_MASTER_TABLE_t \<Rightarrow> ACCEPTABLE_MASTER_TABLE_t" where
  "set_ACCEPTABLE_MASTER_TABLE d = d\<lparr>ACCEPTABLE_MASTER_TABLE_t.actualTableSize := of_nat (length (ACCEPTABLE_MASTER_TABLE_t.list d))\<rparr>"

lemma sets_ACCEPTABLE_MASTER_TABLE: "set_codec ACCEPTABLE_MASTER_TABLE_f valid_ACCEPTABLE_MASTER_TABLE set_ACCEPTABLE_MASTER_TABLE enc_ACCEPTABLE_MASTER_TABLE"
  unfolding ACCEPTABLE_MASTER_TABLE_f_def
  by (rule set_codecI, (rule set_intros | (rule set_wire, rule step_intros codec_intros) | simp)+)
    (simp_all add: set_ACCEPTABLE_MASTER_TABLE_def valid_ACCEPTABLE_MASTER_TABLE_def enc_ACCEPTABLE_MASTER_TABLE_def)

definition set_ACCEPTABLE_MASTER_TABLE_ENABLED :: "ACCEPTABLE_MASTER_TABLE_ENABLED_t \<Rightarrow> ACCEPTABLE_MASTER_TABLE_ENABLED_t" where
  "set_ACCEPTABLE_MASTER_TABLE_ENABLED d = d\<lparr>ACCEPTABLE_MASTER_TABLE_ENABLED_t.flags := set_flags ACCEPTABLE_MASTER_TABLE_ENABLED_flagsMask (ACCEPTABLE_MASTER_TABLE_ENABLED_t.flags d)\<rparr>"

lemma sets_ACCEPTABLE_MASTER_TABLE_ENABLED: "set_codec ACCEPTABLE_MASTER_TABLE_ENABLED_f valid_ACCEPTABLE_MASTER_TABLE_ENABLED set_ACCEPTABLE_MASTER_TABLE_ENABLED enc_ACCEPTABLE_MASTER_TABLE_ENABLED"
  unfolding ACCEPTABLE_MASTER_TABLE_ENABLED_f_def
  by (rule set_codecI, (rule set_intros | (rule set_wire, rule step_intros codec_intros) | simp)+)
    (simp_all add: set_ACCEPTABLE_MASTER_TABLE_ENABLED_def valid_ACCEPTABLE_MASTER_TABLE_ENABLED_def enc_ACCEPTABLE_MASTER_TABLE_ENABLED_def)

definition set_ALTERNATE_MASTER :: "ALTERNATE_MASTER_t \<Rightarrow> ALTERNATE_MASTER_t" where
  "set_ALTERNATE_MASTER d = d\<lparr>ALTERNATE_MASTER_t.flags := set_flags ALTERNATE_MASTER_flagsMask (ALTERNATE_MASTER_t.flags d)\<rparr>"

lemma sets_ALTERNATE_MASTER: "set_codec ALTERNATE_MASTER_f valid_ALTERNATE_MASTER set_ALTERNATE_MASTER enc_ALTERNATE_MASTER"
  unfolding ALTERNATE_MASTER_f_def
  by (rule set_codecI, (rule set_intros | (rule set_wire, rule step_intros codec_intros) | simp)+)
    (simp_all add: set_ALTERNATE_MASTER_def valid_ALTERNATE_MASTER_def enc_ALTERNATE_MASTER_def)

definition set_ALTERNATE_TIME_OFFSET_ENABLE :: "ALTERNATE_TIME_OFFSET_ENABLE_t \<Rightarrow> ALTERNATE_TIME_OFFSET_ENABLE_t" where
  "set_ALTERNATE_TIME_OFFSET_ENABLE d = d\<lparr>ALTERNATE_TIME_OFFSET_ENABLE_t.flags := set_flags ALTERNATE_TIME_OFFSET_ENABLE_flagsMask (ALTERNATE_TIME_OFFSET_ENABLE_t.flags d)\<rparr>"

lemma sets_ALTERNATE_TIME_OFFSET_ENABLE: "set_codec ALTERNATE_TIME_OFFSET_ENABLE_f valid_ALTERNATE_TIME_OFFSET_ENABLE set_ALTERNATE_TIME_OFFSET_ENABLE enc_ALTERNATE_TIME_OFFSET_ENABLE"
  unfolding ALTERNATE_TIME_OFFSET_ENABLE_f_def
  by (rule set_codecI, (rule set_intros | (rule set_wire, rule step_intros codec_intros) | simp)+)
    (simp_all add: set_ALTERNATE_TIME_OFFSET_ENABLE_def valid_ALTERNATE_TIME_OFFSET_ENABLE_def enc_ALTERNATE_TIME_OFFSET_ENABLE_def)

definition set_ALTERNATE_TIME_OFFSET_NAME :: "ALTERNATE_TIME_OFFSET_NAME_t \<Rightarrow> ALTERNATE_TIME_OFFSET_NAME_t" where
  "set_ALTERNATE_TIME_OFFSET_NAME d = d\<lparr>ALTERNATE_TIME_OFFSET_NAME_t.displayName := set_PTPText (ALTERNATE_TIME_OFFSET_NAME_t.displayName d)\<rparr>"

lemma sets_ALTERNATE_TIME_OFFSET_NAME: "set_codec ALTERNATE_TIME_OFFSET_NAME_f valid_ALTERNATE_TIME_OFFSET_NAME set_ALTERNATE_TIME_OFFSET_NAME enc_ALTERNATE_TIME_OFFSET_NAME"
  unfolding ALTERNATE_TIME_OFFSET_NAME_f_def
  by (rule set_codecI, (rule set_intros | (rule set_wire, rule step_intros codec_intros) | simp)+)
    (simp_all add: set_ALTERNATE_TIME_OFFSET_NAME_def valid_ALTERNATE_TIME_OFFSET_NAME_def enc_ALTERNATE_TIME_OFFSET_NAME_def)

definition set_TRANSPARENT_CLOCK_PORT_DATA_SET :: "TRANSPARENT_CLOCK_PORT_DATA_SET_t \<Rightarrow> TRANSPARENT_CLOCK_PORT_DATA_SET_t" where
  "set_TRANSPARENT_CLOCK_PORT_DATA_SET d = d\<lparr>TRANSPARENT_CLOCK_PORT_DATA_SET_t.flags := set_flags TRANSPARENT_CLOCK_PORT_DATA_SET_flagsMask (TRANSPARENT_CLOCK_PORT_DATA_SET_t.flags d)\<rparr>"

lemma sets_TRANSPARENT_CLOCK_PORT_DATA_SET: "set_codec TRANSPARENT_CLOCK_PORT_DATA_SET_f valid_TRANSPARENT_CLOCK_PORT_DATA_SET set_TRANSPARENT_CLOCK_PORT_DATA_SET enc_TRANSPARENT_CLOCK_PORT_DATA_SET"
  unfolding TRANSPARENT_CLOCK_PORT_DATA_SET_f_def
  by (rule set_codecI, (rule set_intros | (rule set_wire, rule step_intros codec_intros) | simp)+)
    (simp_all add: set_TRANSPARENT_CLOCK_PORT_DATA_SET_def valid_TRANSPARENT_CLOCK_PORT_DATA_SET_def enc_TRANSPARENT_CLOCK_PORT_DATA_SET_def)

definition set_EXTERNAL_PORT_CONFIGURATION_ENABLED :: "EXTERNAL_PORT_CONFIGURATION_ENABLED_t \<Rightarrow> EXTERNAL_PORT_CONFIGURATION_ENABLED_t" where
  "set_EXTERNAL_PORT_CONFIGURATION_ENABLED d = d\<lparr>EXTERNAL_PORT_CONFIGURATION_ENABLED_t.flags := set_flags EXTERNAL_PORT_CONFIGURATION_ENABLED_flagsMask (EXTERNAL_PORT_CONFIGURATION_ENABLED_t.flags d)\<rparr>"

lemma sets_EXTERNAL_PORT_CONFIGURATION_ENABLED: "set_codec EXTERNAL_PORT_CONFIGURATION_ENABLED_f valid_EXTERNAL_PORT_CONFIGURATION_ENABLED set_EXTERNAL_PORT_CONFIGURATION_ENABLED enc_EXTERNAL_PORT_CONFIGURATION_ENABLED"
  unfolding EXTERNAL_PORT_CONFIGURATION_ENABLED_f_def
  by (rule set_codecI, (rule set_intros | (rule set_wire, rule step_intros codec_intros) | simp)+)
    (simp_all add: set_EXTERNAL_PORT_CONFIGURATION_ENABLED_def valid_EXTERNAL_PORT_CONFIGURATION_ENABLED_def enc_EXTERNAL_PORT_CONFIGURATION_ENABLED_def)

definition set_MASTER_ONLY :: "MASTER_ONLY_t \<Rightarrow> MASTER_ONLY_t" where
  "set_MASTER_ONLY d = d\<lparr>MASTER_ONLY_t.flags := set_flags MASTER_ONLY_flagsMask (MASTER_ONLY_t.flags d)\<rparr>"

lemma sets_MASTER_ONLY: "set_codec MASTER_ONLY_f valid_MASTER_ONLY set_MASTER_ONLY enc_MASTER_ONLY"
  unfolding MASTER_ONLY_f_def
  by (rule set_codecI, (rule set_intros | (rule set_wire, rule step_intros codec_intros) | simp)+)
    (simp_all add: set_MASTER_ONLY_def valid_MASTER_ONLY_def enc_MASTER_ONLY_def)

definition set_HOLDOVER_UPGRADE_ENABLE :: "HOLDOVER_UPGRADE_ENABLE_t \<Rightarrow> HOLDOVER_UPGRADE_ENABLE_t" where
  "set_HOLDOVER_UPGRADE_ENABLE d = d\<lparr>HOLDOVER_UPGRADE_ENABLE_t.flags := set_flags HOLDOVER_UPGRADE_ENABLE_flagsMask (HOLDOVER_UPGRADE_ENABLE_t.flags d)\<rparr>"

lemma sets_HOLDOVER_UPGRADE_ENABLE: "set_codec HOLDOVER_UPGRADE_ENABLE_f valid_HOLDOVER_UPGRADE_ENABLE set_HOLDOVER_UPGRADE_ENABLE enc_HOLDOVER_UPGRADE_ENABLE"
  unfolding HOLDOVER_UPGRADE_ENABLE_f_def
  by (rule set_codecI, (rule set_intros | (rule set_wire, rule step_intros codec_intros) | simp)+)
    (simp_all add: set_HOLDOVER_UPGRADE_ENABLE_def valid_HOLDOVER_UPGRADE_ENABLE_def enc_HOLDOVER_UPGRADE_ENABLE_def)

definition set_EXT_PORT_CONFIG_PORT_DATA_SET :: "EXT_PORT_CONFIG_PORT_DATA_SET_t \<Rightarrow> EXT_PORT_CONFIG_PORT_DATA_SET_t" where
  "set_EXT_PORT_CONFIG_PORT_DATA_SET d = d\<lparr>EXT_PORT_CONFIG_PORT_DATA_SET_t.flags := set_flags EXT_PORT_CONFIG_PORT_DATA_SET_flagsMask (EXT_PORT_CONFIG_PORT_DATA_SET_t.flags d)\<rparr>"

lemma sets_EXT_PORT_CONFIG_PORT_DATA_SET: "set_codec EXT_PORT_CONFIG_PORT_DATA_SET_f valid_EXT_PORT_CONFIG_PORT_DATA_SET set_EXT_PORT_CONFIG_PORT_DATA_SET enc_EXT_PORT_CONFIG_PORT_DATA_SET"
  unfolding EXT_PORT_CONFIG_PORT_DATA_SET_f_def
  by (rule set_codecI, (rule set_intros | (rule set_wire, rule step_intros codec_intros) | simp)+)
    (simp_all add: set_EXT_PORT_CONFIG_PORT_DATA_SET_def valid_EXT_PORT_CONFIG_PORT_DATA_SET_def enc_EXT_PORT_CONFIG_PORT_DATA_SET_def)

definition set_GRANDMASTER_SETTINGS_NP :: "GRANDMASTER_SETTINGS_NP_t \<Rightarrow> GRANDMASTER_SETTINGS_NP_t" where
  "set_GRANDMASTER_SETTINGS_NP d = d\<lparr>GRANDMASTER_SETTINGS_NP_t.flags := set_flags GRANDMASTER_SETTINGS_NP_flagsMask (GRANDMASTER_SETTINGS_NP_t.flags d)\<rparr>"

lemma sets_GRANDMASTER_SETTINGS_NP: "set_codec GRANDMASTER_SETTINGS_NP_f valid_GRANDMASTER_SETTINGS_NP set_GRANDMASTER_SETTINGS_NP enc_GRANDMASTER_SETTINGS_NP"
  unfolding GRANDMASTER_SETTINGS_NP_f_def
  by (rule set_codecI, (rule set_intros | (rule set_wire, rule step_intros codec_intros) | simp)+)
    (simp_all add: set_GRANDMASTER_SETTINGS_NP_def valid_GRANDMASTER_SETTINGS_NP_def enc_GRANDMASTER_SETTINGS_NP_def)

definition set_PORT_PROPERTIES_NP :: "PORT_PROPERTIES_NP_t \<Rightarrow> PORT_PROPERTIES_NP_t" where
  "set_PORT_PROPERTIES_NP d = d\<lparr>PORT_PROPERTIES_NP_t.interface := set_PTPText (PORT_PROPERTIES_NP_t.interface d)\<rparr>"

lemma sets_PORT_PROPERTIES_NP: "set_codec PORT_PROPERTIES_NP_f valid_PORT_PROPERTIES_NP set_PORT_PROPERTIES_NP enc_PORT_PROPERTIES_NP"
  unfolding PORT_PROPERTIES_NP_f_def
  by (rule set_codecI, (rule set_intros | (rule set_wire, rule step_intros codec_intros) | simp)+)
    (simp_all add: set_PORT_PROPERTIES_NP_def valid_PORT_PROPERTIES_NP_def enc_PORT_PROPERTIES_NP_def)

definition set_UNICAST_MASTER_TABLE_NP :: "UNICAST_MASTER_TABLE_NP_t \<Rightarrow> UNICAST_MASTER_TABLE_NP_t" where
  "set_UNICAST_MASTER_TABLE_NP d = d\<lparr>UNICAST_MASTER_TABLE_NP_t.actualTableSize := of_nat (length (UNICAST_MASTER_TABLE_NP_t.unicastMasters d)),
     UNICAST_MASTER_TABLE_NP_t.unicastMasters := map set_LinuxptpUnicastMaster (UNICAST_MASTER_TABLE_NP_t.unicastMasters d)\<rparr>"

lemma sets_UNICAST_MASTER_TABLE_NP: "set_codec UNICAST_MASTER_TABLE_NP_f valid_UNICAST_MASTER_TABLE_NP set_UNICAST_MASTER_TABLE_NP enc_UNICAST_MASTER_TABLE_NP"
  unfolding UNICAST_MASTER_TABLE_NP_f_def
  by (rule set_codecI, (rule set_intros | (rule set_wire, rule step_intros codec_intros) | simp)+)
    (simp_all add: set_UNICAST_MASTER_TABLE_NP_def valid_UNICAST_MASTER_TABLE_NP_def enc_UNICAST_MASTER_TABLE_NP_def)

subsection \<open>All TLVs\<close>

primrec built :: "BaseMngTlv \<Rightarrow> BaseMngTlv" where
    "built (CLOCK_DESCRIPTION_v d) = CLOCK_DESCRIPTION_v (set_CLOCK_DESCRIPTION d)"
  | "built (USER_DESCRIPTION_v d) = USER_DESCRIPTION_v (set_USER_DESCRIPTION d)"
  | "built (INITIALIZE_v d) = INITIALIZE_v d"
  | "built (FAULT_LOG_v d) = FAULT_LOG_v (set_FAULT_LOG d)"
  | "built (DEFAULT_DATA_SET_v d) = DEFAULT_DATA_SET_v (set_DEFAULT_DATA_SET d)"
  | "built (CURRENT_DATA_SET_v d) = CURRENT_DATA_SET_v d"
  | "built (PARENT_DATA_SET_v d) = PARENT_DATA_SET_v (set_PARENT_DATA_SET d)"
  | "built (TIME_PROPERTIES_DATA_SET_v d) = TIME_PROPERTIES_DATA_SET_v (set_TIME_PROPERTIES_DATA_SET d)"
  | "built (PORT_DATA_SET_v d) = PORT_DATA_SET_v d"
  | "built (PRIORITY1_v d) = PRIORITY1_v d"
  | "built (PRIORITY2_v d) = PRIORITY2_v d"
  | "built (DOMAIN_v d) = DOMAIN_v d"
  | "built (SLAVE_ONLY_v d) = SLAVE_ONLY_v (set_SLAVE_ONLY d)"
  | "built (LOG_ANNOUNCE_INTERVAL_v d) = LOG_ANNOUNCE_INTERVAL_v d"
  | "built (ANNOUNCE_RECEIPT_TIMEOUT_v d) = ANNOUNCE_RECEIPT_TIMEOUT_v d"
  | "built (LOG_SYNC_INTERVAL_v d) = LOG_SYNC_INTERVAL_v d"
  | "built (VERSION_NUMBER_v d) = VERSION_NUMBER_v d"
  | "built (TIME_v d) = TIME_v d"
  | "built (CLOCK_ACCURACY_v d) = CLOCK_ACCURACY_v d"
  | "built (UTC_PROPERTIES_v d) = UTC_PROPERTIES_v (set_UTC_PROPERTIES d)"
  | "built (TRACEABILITY_PROPERTIES_v d) = TRACEABILITY_PROPERTIES_v (set_TRACEABILITY_PROPERTIES d)"
  | "built (TIMESCALE_PROPERTIES_v d) = TIMESCALE_PROPERTIES_v (set_TIMESCALE_PROPERTIES d)"
  | "built (UNICAST_NEGOTIATION_ENABLE_v d) = UNICAST_NEGOTIATION_ENABLE_v (set_UNICAST_NEGOTIATION_ENABLE d)"
  | "built (PATH_TRACE_LIST_v d) = PATH_TRACE_LIST_v d"
  | "built (PATH_TRACE_ENABLE_v d) = PATH_TRACE_ENABLE_v (set_PATH_TRACE_ENABLE d)"
  | "built (GRANDMASTER_CLUSTER_TABLE_v d) = GRANDMASTER_CLUSTER_TABLE_v (set_GRANDMASTER_CLUSTER_TABLE d)"
  | "built (UNICAST_MASTER_TABLE_v d) = UNICAST_MASTER_TABLE_v (set_UNICAST_MASTER_TABLE d)"
  | "built (UNICAST_MASTER_MAX_TABLE_SIZE_v d) = UNICAST_MASTER_MAX_TABLE_SIZE_v d"
  | "built (ACCEPTABLE_MASTER_TABLE_v d) = ACCEPTABLE_MASTER_TABLE_v (set_ACCEPTABLE_MASTER_TABLE d)"
  | "built (ACCEPTABLE_MASTER_TABLE_ENABLED_v d) = ACCEPTABLE_MASTER_TABLE_ENABLED_v (set_ACCEPTABLE_MASTER_TABLE_ENABLED d)"
  | "built (ACCEPTABLE_MASTER_MAX_TABLE_SIZE_v d) = ACCEPTABLE_MASTER_MAX_TABLE_SIZE_v d"
  | "built (ALTERNATE_MASTER_v d) = ALTERNATE_MASTER_v (set_ALTERNATE_MASTER d)"
  | "built (ALTERNATE_TIME_OFFSET_ENABLE_v d) = ALTERNATE_TIME_OFFSET_ENABLE_v (set_ALTERNATE_TIME_OFFSET_ENABLE d)"
  | "built (ALTERNATE_TIME_OFFSET_NAME_v d) = ALTERNATE_TIME_OFFSET_NAME_v (set_ALTERNATE_TIME_OFFSET_NAME d)"
  | "built (ALTERNATE_TIME_OFFSET_MAX_KEY_v d) = ALTERNATE_TIME_OFFSET_MAX_KEY_v d"
  | "built (ALTERNATE_TIME_OFFSET_PROPERTIES_v d) = ALTERNATE_TIME_OFFSET_PROPERTIES_v d"
  | "built (TRANSPARENT_CLOCK_PORT_DATA_SET_v d) = TRANSPARENT_CLOCK_PORT_DATA_SET_v (set_TRANSPARENT_CLOCK_PORT_DATA_SET d)"
  | "built (LOG_MIN_PDELAY_REQ_INTERVAL_v d) = LOG_MIN_PDELAY_REQ_INTERVAL_v d"
  | "built (TRANSPARENT_CLOCK_DEFAULT_DATA_SET_v d) = TRANSPARENT_CLOCK_DEFAULT_DATA_SET_v d"
  | "built (PRIMARY_DOMAIN_v d) = PRIMARY_DOMAIN_v d"
  | "built (DELAY_MECHANISM_v d) = DELAY_MECHANISM_v d"
  | "built (EXTERNAL_PORT_CONFIGURATION_ENABLED_v d) = EXTERNAL_PORT_CONFIGURATION_ENABLED_v (set_EXTERNAL_PORT_CONFIGURATION_ENABLED d)"
  | "built (MASTER_ONLY_v d) = MASTER_ONLY_v (set_MASTER_ONLY d)"
  | "built (HOLDOVER_UPGRADE_ENABLE_v d) = HOLDOVER_UPGRADE_ENABLE_v (set_HOLDOVER_UPGRADE_ENABLE d)"
  | "built (EXT_PORT_CONFIG_PORT_DATA_SET_v d) = EXT_PORT_CONFIG_PORT_DATA_SET_v (set_EXT_PORT_CONFIG_PORT_DATA_SET d)"
  | "built (TIME_STATUS_NP_v d) = TIME_STATUS_NP_v d"
  | "built (GRANDMASTER_SETTINGS_NP_v d) = GRANDMASTER_SETTINGS_NP_v (set_GRANDMASTER_SETTINGS_NP d)"
  | "built (PORT_DATA_SET_NP_v d) = PORT_DATA_SET_NP_v d"
  | "built (SUBSCRIBE_EVENTS_NP_v d) = SUBSCRIBE_EVENTS_NP_v d"
  | "built (PORT_PROPERTIES_NP_v d) = PORT_PROPERTIES_NP_v (set_PORT_PROPERTIES_NP d)"
  | "built (PORT_STATS_NP_v d) = PORT_STATS_NP_v d"
  | "built (SYNCHRONIZATION_UNCERTAIN_NP_v d) = SYNCHRONIZATION_UNCERTAIN_NP_v d"
  | "built (PORT_SERVICE_STATS_NP_v d) = PORT_SERVICE_STATS_NP_v d"
  | "built (UNICAST_MASTER_TABLE_NP_v d) = UNICAST_MASTER_TABLE_NP_v (set_UNICAST_MASTER_TABLE_NP d)"
  | "built (PORT_HWCLOCK_NP_v d) = PORT_HWCLOCK_NP_v d"
  | "built (POWER_PROFILE_SETTINGS_NP_v d) = POWER_PROFILE_SETTINGS_NP_v d"
  | "built (CMLDS_INFO_NP_v d) = CMLDS_INFO_NP_v d"
  | "built (PORT_CORRECTIONS_NP_v d) = PORT_CORRECTIONS_NP_v d"
  | "built (EXTERNAL_GRANDMASTER_PROPERTIES_NP_v d) = EXTERNAL_GRANDMASTER_PROPERTIES_NP_v d"
  | "built (SMPTE_ORGANIZATION_EXTENSION_v d) = SMPTE_ORGANIZATION_EXTENSION_v d"

lemmas set_tlvs =  sets_CLOCK_DESCRIPTION sets_USER_DESCRIPTION sets_FAULT_LOG sets_DEFAULT_DATA_SET
  sets_PARENT_DATA_SET sets_TIME_PROPERTIES_DATA_SET sets_SLAVE_ONLY sets_UTC_PROPERTIES
  sets_TRACEABILITY_PROPERTIES sets_TIMESCALE_PROPERTIES sets_UNICAST_NEGOTIATION_ENABLE
  sets_PATH_TRACE_ENABLE sets_GRANDMASTER_CLUSTER_TABLE sets_UNICAST_MASTER_TABLE
  sets_ACCEPTABLE_MASTER_TABLE sets_ACCEPTABLE_MASTER_TABLE_ENABLED sets_ALTERNATE_MASTER
  sets_ALTERNATE_TIME_OFFSET_ENABLE sets_ALTERNATE_TIME_OFFSET_NAME
  sets_TRANSPARENT_CLOCK_PORT_DATA_SET sets_EXTERNAL_PORT_CONFIGURATION_ENABLED
  sets_MASTER_ONLY sets_HOLDOVER_UPGRADE_ENABLE sets_EXT_PORT_CONFIG_PORT_DATA_SET
  sets_GRANDMASTER_SETTINGS_NP sets_PORT_PROPERTIES_NP sets_UNICAST_MASTER_TABLE_NP

text \<open>
  Building any TLV, whatever its length fields, counts and spare flags held: the octets are the
  image of \<open>built t\<close>, and the TLV of the user is \<open>built t\<close> afterwards.
\<close>

lemma lift_set:
  "set_codec p V s e \<Longrightarrow> m_build mp \<Longrightarrow> mp_ok mp \<Longrightarrow> V (s d) \<Longrightarrow> int (length (e (s d))) \<le> m_left mp \<Longrightarrow>
   lift_tlv c p d mp = (False, c (s d), put (e (s d)) mp)"
  "set_codec p V s e \<Longrightarrow> m_build mp \<Longrightarrow> mp_ok mp \<Longrightarrow> V (s d) \<Longrightarrow> m_left mp < int (length (e (s d))) \<Longrightarrow>
   no_room (lift_tlv c p d mp) mp"
  using set_step.small [of p "\<lambda>d. V (s d)" s "\<lambda>d. e (s d)" mp d]
  by (auto simp: lift_tlv_def set_step.build split: prod.splits)

lemma tlv_sets:
  assumes "m_build mp" "mp_ok mp" "valid_tlv (built t)" "int (length (enc_tlv (built t))) \<le> m_left mp"
  shows "tlv_f t mp = (False, built t, put (enc_tlv (built t)) mp)"
  using assms by (cases t) (simp_all add: wire_tlvs [THEN lift_build] set_tlvs [THEN lift_set(1)])

lemma tlv_sets_small:
  assumes "m_build mp" "mp_ok mp" "valid_tlv (built t)" "m_left mp < int (length (enc_tlv (built t)))"
  shows "no_room (tlv_f t mp) mp"
  using assms by (cases t) (simp_all add: wire_tlvs [THEN lift_small] set_tlvs [THEN lift_set(2)])

interpretation tlv_set: set_step tlv_f "\<lambda>t. valid_tlv (built t)" built "\<lambda>t. enc_tlv (built t)"
  by unfold_locales (auto intro: tlv_sets tlv_sets_small)

lemma built_type [simp]: "tlv_type (built t) = tlv_type t"
  by (cases t) simp_all

lemma call_sets:
  assumes "m_build mp" "mp_ok mp" "valid_tlv (built t)" "tlv_type t \<noteq> SMPTE_MNG_ID"
    "int (length (enc_tlv (built t))) \<le> m_left mp"
  shows "call_tlv_data mem (tlv_type t) (Some t) mp =
    (MNG_PARSE_ERROR_OK, Some (built t),
     put (enc_tlv (built t)) (mp\<lparr>m_err := MNG_PARSE_ERROR_TOO_SMALL\<rparr>))"
  using assms tlv_row [of t] tlv_set.build [of "mp\<lparr>m_err := MNG_PARSE_ERROR_TOO_SMALL\<rparr>" t]
  by (auto simp: call_tlv_data_def)

lemma call_sets_small:
  assumes "m_build mp" "mp_ok mp" "valid_tlv (built t)" "tlv_type t \<noteq> SMPTE_MNG_ID"
    "m_left mp < int (length (enc_tlv (built t)))"
  shows "fst (call_tlv_data mem (tlv_type t) (Some t) mp) = MNG_PARSE_ERROR_TOO_SMALL"
  using assms tlv_row [of t] tlv_set.small [of "mp\<lparr>m_err := MNG_PARSE_ERROR_TOO_SMALL\<rparr>" t]
  by (auto simp: call_tlv_data_def split: prod.splits)

text \<open>A TLV whose fields are right is built without a change.\<close>

lemma set_flags_valid: "valid_flags m f \<Longrightarrow> set_flags m f = f"
  by (auto simp: set_flags_def valid_flags_def order.antisym word_less_nat_alt word_le_nat_alt
      unat_eq_zero split: if_splits)

lemma set_struct_valid:
  "valid_PTPText x \<Longrightarrow> set_PTPText x = x" "valid_PortAddress a \<Longrightarrow> set_PortAddress a = a"
  "valid_FaultRecord f \<Longrightarrow> set_FaultRecord f = f"
  "valid_LinuxptpUnicastMaster m \<Longrightarrow> set_LinuxptpUnicastMaster m = m"
proof -
  show t: "set_PTPText x = x" if "valid_PTPText x" for x
    using that by (simp add: set_PTPText_def valid_PTPText_def)
  show a: "set_PortAddress a = a" if "valid_PortAddress a" for a
    using that by (simp add: set_PortAddress_def valid_PortAddress_def)
  show "set_FaultRecord f = f" if "valid_FaultRecord f"
    using that valid_FaultRecord_length [OF that] by (simp add: set_FaultRecord_def t valid_FaultRecord_def)
  show "set_LinuxptpUnicastMaster m = m" if "valid_LinuxptpUnicastMaster m"
    using that by (simp add: set_LinuxptpUnicastMaster_def a valid_LinuxptpUnicastMaster_def)
qed

lemma set_list_valid: "\<forall>x \<in> set xs. V x \<Longrightarrow> (\<And>x. V x \<Longrightarrow> s x = x) \<Longrightarrow> map s xs = xs"
  by (simp add: map_idI)

lemmas set_defs =
  set_CLOCK_DESCRIPTION_def set_USER_DESCRIPTION_def set_FAULT_LOG_def
  set_DEFAULT_DATA_SET_def set_PARENT_DATA_SET_def set_TIME_PROPERTIES_DATA_SET_def
  set_SLAVE_ONLY_def set_UTC_PROPERTIES_def set_TRACEABILITY_PROPERTIES_def
  set_TIMESCALE_PROPERTIES_def set_UNICAST_NEGOTIATION_ENABLE_def set_PATH_TRACE_ENABLE_def
  set_GRANDMASTER_CLUSTER_TABLE_def set_UNICAST_MASTER_TABLE_def
  set_ACCEPTABLE_MASTER_TABLE_def set_ACCEPTABLE_MASTER_TABLE_ENABLED_def
  set_ALTERNATE_MASTER_def set_ALTERNATE_TIME_OFFSET_ENABLE_def
  set_ALTERNATE_TIME_OFFSET_NAME_def set_TRANSPARENT_CLOCK_PORT_DATA_SET_def
  set_EXTERNAL_PORT_CONFIGURATION_ENABLED_def set_MASTER_ONLY_def
  set_HOLDOVER_UPGRADE_ENABLE_def set_EXT_PORT_CONFIG_PORT_DATA_SET_def
  set_GRANDMASTER_SETTINGS_NP_def set_PORT_PROPERTIES_NP_def set_UNICAST_MASTER_TABLE_NP_def

lemma built_valid: "valid_tlv t \<Longrightarrow> built t = t"
  by (cases t) (simp_all add: set_defs valid_defs set_flags_valid set_struct_valid
      set_list_valid [where V = valid_FaultRecord] set_list_valid [where V = valid_PortAddress]
      set_list_valid [where V = valid_LinuxptpUnicastMaster])

end
