(* ===== verification/Cfg_Read.thy ===== *)
theory Cfg_Read
  imports Cfg_Written
begin

text \<open>
  What a file of complete lines says does not depend on what the line buffer held before: every
  line is handled as in a buffer that was cleared, one after the other, up to the end of the file
  or to the first line that is refused. A last line without a line end is different: a setting
  without a value takes its value from what the line before left in the buffer.
\<close>

subsection \<open>Buffers that agree up to the end of a line\<close>

definition same_to :: "nat \<Rightarrow> string \<Rightarrow> string \<Rightarrow> bool" where
  "same_to k m m' \<longleftrightarrow> length m = length m' \<and> k < length m \<and> m ! k = NUL \<and> take (Suc k) m = take (Suc k) m'"

lemma same_to_nth: "same_to k m m' \<Longrightarrow> i \<le> k \<Longrightarrow> m' ! i = m ! i"
  by (metis same_to_def nth_take le_imp_less_Suc)

lemma same_to_sym: "same_to k m m' \<Longrightarrow> same_to k m' m"
  using same_to_nth [of k m m' k] by (simp add: same_to_def)

lemma same_to_NUL:
  assumes "same_to k m m'"
  shows "same_to k (m[q := NUL]) (m'[q := NUL])"
  using assms NUL_stays [of m k q] by (simp add: same_to_def take_update_swap)

lemma same_skip:
  assumes "same_to k m m'" "p \<le> k"
  shows "skip_spaces m' p = skip_spaces m p \<and> (\<exists>q \<le> k. skip_spaces m p = Some q)"
  using assms(2)
proof (induction "k - p" arbitrary: p)
  case 0
  then show ?case
    using assms(1) same_to_nth [OF assms(1), of p]
    by (simp add: skip_spaces.simps [of _ p] same_to_def)
next
  case (Suc n)
  then have "n = k - (p + 1)" "p + 1 \<le> k"
    by simp_all
  from Suc.hyps(1) [OF this] show ?case
    using assms(1) Suc.prems same_to_nth [OF assms(1), of p]
    by (auto simp: skip_spaces.simps [of _ p] same_to_def)
qed

lemma same_find:
  assumes "same_to k m m'" "p \<le> j" "j < k" "isspace (m ! j)"
  shows "find_space m' p = find_space m p \<and> (\<exists>q < k. find_space m p = Some q)"
  using assms(2)
proof (induction "j - p" arbitrary: p)
  case 0
  then show ?case
    using assms same_to_nth [OF assms(1), of p]
    by (simp add: find_space.simps [of _ p] same_to_def)
next
  case (Suc n)
  then have "n = j - (p + 1)" "p + 1 \<le> j"
    by simp_all
  from Suc.hyps(1) [OF this] show ?case
    using assms Suc.prems same_to_nth [OF assms(1), of p]
    by (auto simp: find_space.simps [of _ p] same_to_def)
qed

lemma same_token:
  assumes "same_to k m m'" "p \<le> j" "j < k" "isspace (m ! j)"
  obtains q v where "next_space_token m p = Some (m[q := NUL], v)"
    "next_space_token m' p = Some (m'[q := NUL], v)" "v \<le> k" "same_to k (m[q := NUL]) (m'[q := NUL])"
proof -
  obtain q where q: "find_space m p = Some q" "find_space m' p = Some q" "q < k"
    using same_find [OF assms] by auto
  note s = same_to_NUL [OF assms(1), of q]
  obtain v where "skip_spaces (m[q := NUL]) (q + 1) = Some v" "skip_spaces (m'[q := NUL]) (q + 1) = Some v" "v \<le> k"
    using same_skip [OF s, of "q + 1"] q(3) by auto
  then show ?thesis
    using that q s by (simp add: next_space_token_def)
qed

lemma cstr_take: "NUL \<in> set (take i l) \<Longrightarrow> cstr l = cstr (take i l)"
proof (induction l arbitrary: i)
  case (Cons c l)
  then show ?case
    by (cases i) (auto simp: cstr_def NUL_def)
qed simp

lemma same_str:
  assumes "same_to k m m'" "p \<le> k"
  shows "str_at m' p = str_at m p \<and> (\<exists>s. str_at m p = Some s \<and> p + length s \<le> k)"
proof -
  obtain s where s: "str_at m p = Some s" "p + length s \<le> k"
    using str_at_found [of p k m] assms unfolding same_to_def by metis
  define t where "t = take (Suc k - p) (drop p m)"
  have t': "t = take (Suc k - p) (drop p m')"
    using assms by (simp add: same_to_def take_drop t_def)
  have "t ! (k - p) = NUL" "k - p < length t"
    using assms by (auto simp: same_to_def t_def)
  then have n: "NUL \<in> set t"
    by (metis nth_mem)
  then have "NUL \<in> set (drop p m)" "NUL \<in> set (drop p m')"
    using in_set_takeD [of NUL "Suc k - p" "drop p m"] in_set_takeD [of NUL "Suc k - p" "drop p m'"] t'
    by (simp_all add: t_def)
  moreover have "cstr (drop p m) = cstr t" "cstr (drop p m') = cstr t"
    using cstr_take [of "Suc k - p"] n t' unfolding t_def by metis+
  ultimately have "str_at m' p = str_at m p"
    by (simp add: str_at_def)
  then show ?thesis
    using s by blast
qed

lemma same_strip:
  assumes "same_to k m m'" "e \<le> k"
  shows "(strip_end_spaces m e = None \<and> strip_end_spaces m' e = None) \<or>
    (\<exists>q. strip_end_spaces m e = Some (m[q := NUL]) \<and> strip_end_spaces m' e = Some (m'[q := NUL]))"
  using assms(2)
proof (induction e)
  case (Suc e)
  then show ?case
    using assms(1) same_to_nth [OF assms(1), of e] by (auto simp: same_to_def)
qed simp

lemma same_strtok:
  assumes "same_to k m m'" "p \<le> k"
  obtains t m1 m1' p1 where "strtok_r sep m p = Some (t, m1, p1)" "strtok_r sep m' p = Some (t, m1', p1)"
    "same_to k m1 m1'" "p1 \<le> k"
proof -
  have b: "p \<le> k" "k < length m" "m ! k = NUL"
    using assms by (simp_all add: same_to_def)
  obtain t m1 p1 where 1: "strtok_r sep m p = Some (t, m1, p1)" "p1 \<le> k"
    using strtok_found [OF b] by metis
  obtain s where s: "str_at m p = Some s" "str_at m' p = Some s"
    using same_str [OF assms] by auto
  define s1 where "s1 = dropWhile (\<lambda>c. c \<in> set sep) s"
  define t' where "t' = takeWhile (\<lambda>c. c \<notin> set sep) s1"
  define e where "e = p + (length s - length s1) + length t'"
  have r: "strtok_r sep x p = (if s1 = [] then Some (None, x, p + (length s - length s1))
      else if t' = s1 then Some (Some t', x, e) else Some (Some t', x[e := NUL], e + 1))"
    if "str_at x p = Some s" for x
    unfolding strtok_r_def Let_def e_def t'_def s1_def using that by simp
  show ?thesis
  proof (cases "s1 \<noteq> [] \<and> t' \<noteq> s1")
    case True
    then show ?thesis
      using that [OF 1(1), of "m'[e := NUL]"] 1 r [OF s(1)] r [OF s(2)] same_to_NUL [OF assms(1), of e] by simp
  next
    case False
    then show ?thesis
      using that [OF 1(1), of m'] 1 r [OF s(1)] r [OF s(2)] assms(1) by (auto split: if_splits)
  qed
qed

subsection \<open>Lines\<close>

definition says :: "(bool \<times> string \<times> 's) option \<Rightarrow> (bool \<times> 's) option" where
  "says r = map_option (\<lambda>(ok, m, s). (ok, s)) r"

text \<open>The value at a pointer, after the spaces at its end are cut off.\<close>

lemma same_value:
  assumes "same_to k m m'" "v \<le> k"
  obtains s where "str_at m v = Some s" "str_at m' v = Some s"
    "(strip_end_spaces m (v + length s) = None \<and> strip_end_spaces m' (v + length s) = None) \<or>
     (\<exists>q t. strip_end_spaces m (v + length s) = Some (m[q := NUL]) \<and>
        strip_end_spaces m' (v + length s) = Some (m'[q := NUL]) \<and>
        str_at (m[q := NUL]) v = Some t \<and> str_at (m'[q := NUL]) v = Some t)"
proof -
  obtain s where s: "str_at m v = Some s" "str_at m' v = Some s" "v + length s \<le> k"
    using same_str [OF assms] by auto
  have "\<exists>t. str_at (m[q := NUL]) v = Some t \<and> str_at (m'[q := NUL]) v = Some t" for q
    using same_str [OF same_to_NUL [OF assms(1), of q] assms(2)] by auto
  then show ?thesis
    using that [OF s(1,2)] same_strip [OF assms(1) s(3)] by blast
qed

lemma set_val_same:
  assumes "same_to k m m'" "p \<le> j" "j < k" "isspace (m ! j)"
  shows "says (set_val mem m' p s) = says (set_val mem m p s)"
proof -
  obtain q v where t: "next_space_token m p = Some (m[q := NUL], v)"
    "next_space_token m' p = Some (m'[q := NUL], v)" "v \<le> k" "same_to k (m[q := NUL]) (m'[q := NUL])"
    using same_token [OF assms] .
  have n: "str_at (m'[q := NUL]) p = str_at (m[q := NUL]) p"
    using same_str [OF t(4), of p] assms(2,3) by simp
  obtain x where x: "str_at (m[q := NUL]) v = Some x" "str_at (m'[q := NUL]) v = Some x"
    "(strip_end_spaces (m[q := NUL]) (v + length x) = None \<and> strip_end_spaces (m'[q := NUL]) (v + length x) = None) \<or>
     (\<exists>e y. strip_end_spaces (m[q := NUL]) (v + length x) = Some (m[q := NUL, e := NUL]) \<and>
        strip_end_spaces (m'[q := NUL]) (v + length x) = Some (m'[q := NUL, e := NUL]) \<and>
        str_at (m[q := NUL, e := NUL]) v = Some y \<and> str_at (m'[q := NUL, e := NUL]) v = Some y)"
    using same_value [OF t(4,3)] .
  show ?thesis
    using t(1,2) n x by (cases "str_at (m[q := NUL]) p")
      (auto simp: set_val_def says_def split: option.splits)
qed

lemma Spp_set_val_same:
  assumes "same_to k m m'" "p \<le> j" "j < k" "isspace (m ! j)"
  shows "says (Spp_set_val mem m' p s) = says (Spp_set_val mem m p s)"
proof -
  obtain q v where t: "next_space_token m p = Some (m[q := NUL], v)"
    "next_space_token m' p = Some (m'[q := NUL], v)" "v \<le> k" "same_to k (m[q := NUL]) (m'[q := NUL])"
    using same_token [OF assms] .
  have n: "str_at (m'[q := NUL]) p = str_at (m[q := NUL]) p" "m'[q := NUL] ! p = m[q := NUL] ! p"
    using same_str [OF t(4), of p] same_to_nth [OF t(4), of p] assms(2,3) by simp_all
  obtain t1 m1 m1' p1 where 1: "strtok_r spaceToken (m[q := NUL]) v = Some (t1, m1, p1)"
    "strtok_r spaceToken (m'[q := NUL]) v = Some (t1, m1', p1)" "same_to k m1 m1'" "p1 \<le> k"
    using same_strtok [OF t(4,3)] .
  obtain t2 m2 m2' p2 where 2: "strtok_r spaceToken m1 p1 = Some (t2, m2, p2)"
    "strtok_r spaceToken m1' p1 = Some (t2, m2', p2)" "same_to k m2 m2'" "p2 \<le> k"
    using same_strtok [OF 1(3,4)] .
  obtain t3 m3 m3' p3 where 3: "strtok_r spaceToken m2 p2 = Some (t3, m3, p3)"
    "strtok_r spaceToken m2' p2 = Some (t3, m3', p3)" "same_to k m3 m3'" "p3 \<le> k"
    using same_strtok [OF 2(3,4)] .
  obtain t4 m4 m4' p4 where 4: "strtok_r spaceToken m3 p3 = Some (t4, m4, p4)"
    "strtok_r spaceToken m3' p3 = Some (t4, m4', p4)"
    using same_strtok [OF 3(3,4)] by metis
  show ?thesis
    using t(1,2) n 1(1,2) 2(1,2) 3(1,2) 4 by (cases "str_at (m[q := NUL]) p")
      (auto simp: Spp_set_val_def Let_def says_def split: option.splits prod.splits)
qed

text \<open>A line of the buffer that opens a section.\<close>

lemma same_section:
  assumes "same_to k m m'" "p \<le> k"
  obtains c s where "skip_spaces m p = Some c" "skip_spaces m' p = Some c" "str_at m c = Some s" "str_at m' c = Some s"
    "strchr s CHR '']'' = None \<or> (\<exists>e. strchr s CHR '']'' = Some e \<and>
      ((strip_end_spaces m (c + e) = None \<and> strip_end_spaces m' (c + e) = None) \<or>
       (\<exists>q n. strip_end_spaces m (c + e) = Some (m[q := NUL]) \<and> strip_end_spaces m' (c + e) = Some (m'[q := NUL]) \<and>
          str_at (m[q := NUL]) c = Some n \<and> str_at (m'[q := NUL]) c = Some n)))"
proof -
  obtain c where c: "skip_spaces m p = Some c" "skip_spaces m' p = Some c" "c \<le> k"
    using same_skip [OF assms] by auto
  obtain s where s: "str_at m c = Some s" "str_at m' c = Some s" "c + length s \<le> k"
    using same_str [OF assms(1) c(3)] by auto
  have n: "\<exists>n. str_at (m[q := NUL]) c = Some n \<and> str_at (m'[q := NUL]) c = Some n" for q
    using same_str [OF same_to_NUL [OF assms(1), of q] c(3)] by auto
  have "e \<le> length s" if "strchr s CHR '']'' = Some e" for e
    using that by (auto simp: strchr_def length_takeWhile_le split: if_splits)
  then show ?thesis
    using that [OF c(1,2) s(1,2)] same_strip [OF assms(1)] s(3) n
    by (cases "strchr s CHR '']''") (simp, metis add_le_mono order.trans order_refl)
qed

text \<open>The first character of a line that is not a space, in two buffers with the same line.\<close>

lemma same_start:
  assumes "same_to k m m'" "isspace (m ! (k - 1))" "0 < k"
  obtains cur where "skip_spaces m 0 = Some cur" "skip_spaces m' 0 = Some cur" "m' ! cur = m ! cur"
    "m ! cur \<noteq> NUL \<longrightarrow> cur < k - 1"
proof -
  obtain cur where c: "skip_spaces m 0 = Some cur" "skip_spaces m' 0 = Some cur" "cur \<le> k" "m' ! cur = m ! cur"
    using same_skip [OF assms(1), of 0] same_to_nth [OF assms(1)] by auto
  have "\<not> isspace (m ! cur)"
    using c(1) skip_spaces_found [of 0 k m] assms(1) by (auto simp: same_to_def)
  then have "cur \<noteq> k - 1"
    using assms(2) by auto
  moreover have "m ! cur = NUL" if "cur = k"
    using that assms(1) by (simp add: same_to_def)
  ultimately show ?thesis
    using that c by fastforce
qed

lemma cfg_line_same:
  assumes "same_to k m m'" "isspace (m ! (k - 1))" "0 < k"
  shows "says (cfg_line mem m' st) = says (cfg_line mem m st)"
proof -
  obtain cur where c: "skip_spaces m 0 = Some cur" "skip_spaces m' 0 = Some cur" "m' ! cur = m ! cur"
    and lt: "m ! cur \<noteq> NUL \<longrightarrow> cur < k - 1"
    using same_start [OF assms] .
  obtain sec cf where st: "st = (sec, cf)"
    by (cases st)
  show ?thesis
  proof (cases "m ! cur = CHR ''[''")
    case True
    then have "cur + 1 \<le> k"
      using lt by (auto simp: NUL_def)
    then show ?thesis
      by (rule same_section [OF assms(1)]) (use True c st in \<open>auto simp: cfg_line_def says_def\<close>)
  next
    case False
    show ?thesis
    proof (cases "m ! cur = NUL")
      case True
      then show ?thesis
        using c st by (simp add: cfg_line_def says_def NUL_def)
    next
      case no: False
      have "says (set_val mem m' cur s) = says (set_val mem m cur s)" for s
        using set_val_same [OF assms(1), of cur "k - 1"] lt no assms(2,3) by simp
      from this [of "cfg_section mem cf sec"] show ?thesis
        using False no c st
        by (cases "set_val mem m cur (cfg_section mem cf sec)"; cases "set_val mem m' cur (cfg_section mem cf sec)")
          (auto simp: cfg_line_def says_def)
    qed
  qed
qed

lemma sa_line_same:
  assumes "same_to k m m'" "isspace (m ! (k - 1))" "0 < k"
  shows "says (sa_line mem m' st) = says (sa_line mem m st)"
proof -
  obtain cur where c: "skip_spaces m 0 = Some cur" "skip_spaces m' 0 = Some cur" "m' ! cur = m ! cur"
    and lt: "m ! cur \<noteq> NUL \<longrightarrow> cur < k - 1"
    using same_start [OF assms] .
  consider "m ! cur = CHR ''[''" | "m ! cur = NUL \<or> m ! cur = CHR ''#''"
    | "m ! cur \<noteq> CHR ''[''" "m ! cur \<noteq> NUL" "m ! cur \<noteq> CHR ''#''"
    by blast
  then show ?thesis
  proof cases
    case 1
    then have "cur + 1 \<le> k"
      using lt by (auto simp: NUL_def)
    then show ?thesis
      by (rule same_section [OF assms(1)])
        (use 1 c in \<open>auto simp: sa_line_def says_def split: prod.splits\<close>)
  next
    case 2
    then show ?thesis
      using c by (auto simp: sa_line_def says_def NUL_def)
  next
    case 3
    have cur: "cur \<le> k - 1" "k - 1 < k"
      using lt 3 by auto
    have v: "says (Spp_set_val mem m' cur (sa_cspp st)) = says (Spp_set_val mem m cur (sa_cspp st))"
      by (rule Spp_set_val_same [OF assms(1) cur assms(2)])
    obtain q v where t: "next_space_token m cur = Some (m[q := NUL], v)"
      "next_space_token m' cur = Some (m'[q := NUL], v)" "v \<le> k" "same_to k (m[q := NUL]) (m'[q := NUL])"
      using same_token [OF assms(1) cur assms(2)] .
    have n: "str_at (m'[q := NUL]) cur = str_at (m[q := NUL]) cur"
      using same_str [OF t(4), of cur] cur by simp
    show ?thesis
    proof (cases "sa_step st = 2")
      case True
      then show ?thesis
        using 3 c v
        by (cases "Spp_set_val mem m cur (sa_cspp st)"; cases "Spp_set_val mem m' cur (sa_cspp st)")
          (auto simp: sa_line_def says_def)
    next
      case False
      show ?thesis
        by (rule same_value [OF t(4,3)], cases "str_at (m[q := NUL]) cur")
          (use False 3 c t(1,2) n in \<open>auto simp: sa_line_def says_def split: prod.splits\<close>)
    qed
  qed
qed

subsection \<open>Files\<close>

text \<open>
  A file as a list of lines: each line is handled on its own, and the first one that is refused is
  the last one.
\<close>

fun read_lines :: "('l \<Rightarrow> 's \<Rightarrow> bool \<times> 's) \<Rightarrow> 'l list \<Rightarrow> 's \<Rightarrow> bool \<times> 's" where
  "read_lines on_line [] s = (True, s)"
| "read_lines on_line (l # ls) s =
     (case on_line l s of (ok, s') \<Rightarrow> if ok then read_lines on_line ls s' else (False, s'))"

lemma read_lines_ok:
  "fst (read_lines f ls s) \<longleftrightarrow> (\<forall>i < length ls. fst (f (ls ! i) (snd (read_lines f (take i ls) s))))"
proof (induction ls arbitrary: s)
  case (Cons l ls)
  show ?case
    using Cons.IH [of "snd (f l s)"] by (auto simp: less_Suc_eq_0_disj split: prod.splits)
qed simp

text \<open>A line alone in a cleared buffer.\<close>

definition clean_line :: "string \<Rightarrow> string" where
  "clean_line l = l @ [LF] @ replicate (lineSize - length l - 1) NUL"

definition on_clean :: "(string \<Rightarrow> 's \<Rightarrow> (bool \<times> string \<times> 's) option) \<Rightarrow> string \<Rightarrow> 's \<Rightarrow> bool \<times> 's" where
  "on_clean line l s = (case line (clean_line l) s of None \<Rightarrow> (False, s) | Some (ok, m, s') \<Rightarrow> (ok, s'))"

lemma clean_same:
  assumes "line_fits l" "length m = lineSize"
  shows "same_to (Suc (length l)) (clean_line l) (l @ [LF, NUL] @ drop (length l + 2) m)"
    "isspace (clean_line l ! (Suc (length l) - 1))"
proof -
  obtain n where n: "lineSize = length l + 2 + n"
    using assms(1) le_Suc_ex unfolding line_fits_def by metis
  show "same_to (Suc (length l)) (clean_line l) (l @ [LF, NUL] @ drop (length l + 2) m)"
    "isspace (clean_line l ! (Suc (length l) - 1))"
    using assms(2) by (simp_all add: same_to_def clean_line_def n nth_append)
qed

context line_loop
begin

lemma run_reads:
  assumes total: "\<And>m s. full_line m \<Longrightarrow> \<exists>ok m' s'. line m s = Some (ok, m', s') \<and> length m' = lineSize"
    and same: "\<And>k m m' s. same_to k m m' \<Longrightarrow> isspace (m ! (k - 1)) \<Longrightarrow> 0 < k \<Longrightarrow> says (line m' s) = says (line m s)"
    and "\<forall>l \<in> set ls. line_fits l" "length m = lineSize"
  shows "run m (file_text ls) s = Some (read_lines (on_clean line) ls s)"
  using assms(3,4)
proof (induction ls arbitrary: m s)
  case Nil
  then show ?case
    by (simp add: run_step [of m] file_text_def fgets_def)
next
  case (Cons l ls)
  have f: "file_text (l # ls) = l @ LF # file_text ls"
    by (simp add: file_text_def)
  have l: "line_fits l"
    using Cons.prems by simp
  let ?m = "l @ [LF, NUL] @ drop (length l + 2) m"
  note g = fgets_complete [OF l Cons.prems(2)]
  obtain ok m2 s2 where r: "line ?m s = Some (ok, m2, s2)" "length m2 = lineSize"
    using total [OF g(2)] by blast
  have "says (line ?m s) = says (line (clean_line l) s)"
    using same [OF clean_same [OF l Cons.prems(2)]] by simp
  then have "on_clean line l s = (ok, s2)"
    using r(1) by (cases "line (clean_line l) s") (auto simp: on_clean_def says_def)
  then show ?case
    using Cons.IH [of m2 s2] Cons.prems(1) g(1) r by (simp add: run_step [of m "_ @ _"] f)
qed

end

lemma read_cfg_lines:
  assumes "\<forall>l \<in> set ls. line_fits l" "length m0 = lineSize" "file \<noteq> []" "fs file = Some (file_text ls)"
  shows "read_cfg mem fs m0 file c =
    (case read_lines (on_clean (cfg_line mem)) ls (globalSection, clear_sections mem) of
       (ok, sec, c') \<Rightarrow> Some (ok, c'))"
  using cfg_lines.run_reads [OF cfg_line_total cfg_line_same assms(1,2)] assms(3,4)
  by (simp add: read_cfg_def split: prod.splits)

lemma read_sa_lines:
  assumes "\<forall>l \<in> set ls. line_fits l" "length m0 = lineSize" "file \<noteq> []" "fs file = Some (file_text ls)"
  shows "read_sa mem fs m0 file sa =
    (case read_lines (on_clean (sa_line mem)) ls \<lparr>sa_step = 0, sa_cspp = Spp_default, sa_spps = []\<rparr> of
       (ok, st) \<Rightarrow>
         Some (if \<not> ok \<or> sa_step st = 2 \<and> Spp_keys (sa_cspp st) < 1 then (False, sa)
               else (True, \<lparr>m_spps = sa_spps (if sa_step st = 2 then sa_store st else st)\<rparr>)))"
  using sa_lines.run_reads [OF sa_line_total sa_line_same assms(1,2)] assms(3,4)
  by (simp add: read_sa_def split: prod.splits)

subsection \<open>A setting without a value\<close>

text \<open>
  The last line of a file has no line end and no value: \<^verbatim>\<open>next_space_token\<close> runs over the end of
  the line into what the line before left in the buffer, and takes the value from there.
\<close>

context line_loop
begin

lemma run_lines_then:
  assumes line: "\<And>e m s. e \<in> set es \<Longrightarrow> length m = lineSize \<Longrightarrow>
      \<exists>m'. line (put e @ [LF, NUL] @ drop (length (put e) + 2) m) s = Some (True, m', act e s) \<and>
        length m' = lineSize"
    and "\<forall>e \<in> set es. line_fits (put e)" "length m = lineSize"
  shows "\<exists>m'. run m (file_text (map put es) @ f) s = run m' f (fold act es s) \<and> length m' = lineSize"
  using assms
proof (induction es arbitrary: m s)
  case Nil
  then show ?case
    by (auto simp: file_text_def)
next
  case (Cons e es)
  have f: "file_text (put e # map put es) @ f = put e @ LF # file_text (map put es) @ f"
    by (simp add: file_text_def)
  have l: "line_fits (put e)"
    using Cons.prems by simp
  obtain m2 where "line (put e @ [LF, NUL] @ drop (length (put e) + 2) m) s = Some (True, m2, act e s)"
    "length m2 = lineSize"
    using Cons.prems(1) [of e m s] Cons.prems(3) by auto
  then show ?case
    using Cons.IH [of m2 "act e s"] Cons.prems(1,2) fgets_complete(1) [OF l Cons.prems(3)]
    by (simp add: run_step [of m "_ @ _"] f)
qed

end

lemma set_val_stale:
  assumes "i < last_val" "\<forall>x \<in> set b. \<not> isspace x" "plain v" "set_switch mem i v s = Some s'"
  shows "\<exists>m'. set_val mem (rg_name (ranges ! i) @ [NUL] @ b @ '' '' @ v @ [LF, NUL] @ r) 0 s =
    Some (True, m', s'\<lparr>m_set := (m_set s')[i := True]\<rparr>)"
proof -
  let ?n = "rg_name (ranges ! i)"
  let ?a = "?n @ [NUL] @ b @ [NUL]"
  note n = range_name [OF assms(1)]
  have v: "v \<noteq> []" "\<not> isspace (hd v)" "\<not> isspace (last v)" "NUL \<notin> set v"
    using assms(3) by (simp_all add: plain_def)
  have "\<forall>x \<in> set (?n @ [NUL] @ b). \<not> isspace x" "isspace (CHR '' '')"
    using n(2) assms(2) by (auto, simp add: isspace_def)
  then have "find_space (?n @ [NUL] @ b @ '' '' @ v @ [LF, NUL] @ r) 0 = Some (length (?n @ [NUL] @ b))"
    using find_space_text [of "?n @ [NUL] @ b" "CHR '' ''" "[]" "v @ [LF, NUL] @ r"] by simp
  moreover have "skip_spaces (?a @ v @ [LF, NUL] @ r) (length ?a) = Some (length ?a)"
    using v by (intro skip_spaces_text) auto
  ultimately have tok: "next_space_token (?n @ [NUL] @ b @ '' '' @ v @ [LF, NUL] @ r) 0 =
      Some (?a @ v @ [LF, NUL] @ r, length ?a)"
    using list_update_length [of "?n @ [NUL] @ b" "CHR '' ''" "v @ [LF, NUL] @ r" NUL]
    by (simp add: next_space_token_def)
  have name: "str_at (?a @ v @ [LF, NUL] @ r) 0 = Some ?n"
    using str_at_text [of ?n "[]" "b @ [NUL] @ v @ [LF, NUL] @ r"] n(1) by (simp add: plain_def)
  have val0: "str_at (?a @ v @ [LF, NUL] @ r) (length ?a) = Some (v @ [LF])"
    using str_at_text [of "v @ [LF]" ?a r] v by (simp add: LF_def NUL_def)
  have strip: "strip_end_spaces (?a @ v @ [LF, NUL] @ r) (length ?a + length (v @ [LF])) =
      Some (?a @ v @ [NUL, NUL] @ r)"
    using strip_text_space [OF v(1,3) space_LF, of ?a "NUL # r"] by (simp del: strip_end_spaces.simps)
  have val: "str_at (?a @ v @ [NUL, NUL] @ r) (length ?a) = Some v"
    using str_at_text [of v ?a "NUL # r"] v by simp
  show ?thesis
    unfolding set_val_def tok bind.bind_lunit prod.case name n(4) option.case val0 strip val
    using v(1) assms(4) by simp
qed

lemma cfg_line_stale:
  assumes "i < last_val" "\<forall>x \<in> set b. \<not> isspace x" "plain v" "\<forall>s. set_switch mem i v s \<noteq> None"
  shows "\<exists>m'. cfg_line mem (rg_name (ranges ! i) @ [NUL] @ b @ '' '' @ v @ [LF, NUL] @ r) (sec, c) =
    Some (True, m', entry_act mem (Setting i v) (sec, c))"
proof -
  let ?n = "rg_name (ranges ! i)"
  let ?m = "?n @ [NUL] @ b @ '' '' @ v @ [LF, NUL] @ r"
  obtain s' where s: "set_switch mem i v (cfg_section mem c sec) = Some s'"
    using assms(4) by blast
  have n: "?n \<noteq> []" "\<not> isspace (hd ?n)" "hd ?n \<noteq> CHR ''[''" "hd ?n \<noteq> CHR ''#''" "NUL \<notin> set ?n"
    using range_name [OF assms(1)] by (simp_all add: plain_def)
  have n': "hd ?n \<noteq> NUL"
    using hd_in_set [OF n(1)] n(5) by metis
  from n have h: "?m ! 0 = hd ?n"
    by (simp add: hd_conv_nth nth_append)
  have k: "skip_spaces ?m 0 = Some 0"
    using skip_spaces_text [of ?m "[]"] n by simp
  obtain m' where v: "set_val mem ?m 0 (cfg_section mem c sec) = Some (True, m', s'\<lparr>m_set := (m_set s')[i := True]\<rparr>)"
    using set_val_stale [OF assms(1-3) s] by blast
  show ?thesis
    unfolding cfg_line_def Let_def prod.case k bind.bind_lunit h v
    using n n' s by (simp add: entry_act_def put_setting_def)
qed

lemma fgets_last:
  assumes "LF \<notin> set l" "length l < lineSize - 1" "l \<noteq> []"
  shows "fgets m l = Some (l @ [NUL] @ drop (length l + 1) m, [])"
proof -
  have "fgets_line n l = (l, [])" if "length l < n" for n
    using that assms(1)
  proof (induction l arbitrary: n)
    case (Cons x l)
    then show ?case
      by (cases n) (auto simp: LF_def)
  qed (metis fgets_line.simps(2) not_less_zero not0_implies_Suc list.size(3))
  then show ?thesis
    using assms by (simp add: fgets_def)
qed

lemma range_name_short:
  "i < last_val \<Longrightarrow> length (rg_name (ranges ! i)) < lineSize - 1"
proof -
  have "list_all (\<lambda>i. length (rg_name (ranges ! i)) < lineSize - 1) [0..<last_val]"
    by code_simp
  then show "i < last_val \<Longrightarrow> length (rg_name (ranges ! i)) < lineSize - 1"
    by (simp add: list_all_iff)
qed

lemma read_cfg_stale:
  assumes "\<forall>e \<in> set es. entry_ok mem e" "entry_ok mem (Setting i v)"
    and c: "entry_ok mem (Comment t)" "CHR ''#'' # t = a @ b @ '' '' @ v"
      "length a = length (rg_name (ranges ! i)) + 1" "\<forall>x \<in> set b. \<not> isspace x"
    and "length m0 = lineSize" "file \<noteq> []"
      "fs file = Some (file_text (map entry_line (es @ [Comment t])) @ rg_name (ranges ! i))"
  shows "read_cfg mem fs m0 file cf =
    Some (True, snd (fold (entry_act mem) (es @ [Setting i v]) (globalSection, clear_sections mem)))"
proof -
  let ?n = "rg_name (ranges ! i)" and ?st = "fold (entry_act mem) es (globalSection, clear_sections mem)"
  let ?t = "entry_line (Comment t)"
  have i: "i < last_val" "plain v" "\<forall>s. set_switch mem i v s \<noteq> None"
    using assms(2) by (simp_all add: entry_ok_def)
  have l: "?t = a @ b @ '' '' @ v" "line_fits ?t"
    using c by (simp_all add: entry_line_def entry_ok_def)
  have "file_text (map entry_line (es @ [Comment t])) @ ?n = file_text (map entry_line es) @ ?t @ LF # ?n"
    by (simp add: file_text_def)
  then obtain m where m: "length m = lineSize" "cfg_loop mem m0 (file_text (map entry_line (es @ [Comment t])) @ ?n)
      (globalSection, clear_sections mem) = cfg_loop mem m (?t @ LF # ?n) ?st"
    using cfg_lines.run_lines_then [of es mem entry_line "entry_act mem" m0 "?t @ LF # ?n" "(globalSection, clear_sections mem)"]
      assms(1,7) cfg_line_entry by (auto simp: entry_ok_def)
  let ?r = "drop (length ?t + 2) m"
  obtain sec c0 where st: "?st = (sec, c0)"
    by (cases ?st)
  have 1: "fgets m (?t @ LF # ?n) = Some (?t @ [LF, NUL] @ ?r, ?n)"
    by (rule fgets_complete(1) [OF l(2) m(1)])
  have 2: "cfg_line mem (?t @ [LF, NUL] @ ?r) ?st = Some (True, ?t @ [LF, NUL] @ ?r, ?st)"
    using cfg_line_comment [of mem "t @ [LF, NUL] @ ?r" sec c0 t] by (simp add: st entry_line_def entry_act_def)
  have n: "LF \<notin> set ?n" "?n \<noteq> []"
    using range_name(1) [OF i(1)] by (simp_all add: plain_def)
  have 3: "fgets (?t @ [LF, NUL] @ ?r) ?n = Some (?n @ [NUL] @ b @ '' '' @ v @ [LF, NUL] @ ?r, [])"
    using fgets_last [OF n(1) range_name_short [OF i(1)] n(2), of "?t @ [LF, NUL] @ ?r"] c(3) l(1) by simp
  obtain m4 where 4: "cfg_line mem (?n @ [NUL] @ b @ '' '' @ v @ [LF, NUL] @ ?r) ?st =
      Some (True, m4, entry_act mem (Setting i v) ?st)"
    using cfg_line_stale [OF i(1) c(4) i(2,3), of ?r sec c0] st by auto
  have "cfg_loop mem m (?t @ LF # ?n) ?st = Some (True, entry_act mem (Setting i v) ?st)"
    by (rule two_lines [OF 1 2 3 4])
  then show ?thesis
    using m(2) assms(8,9) by (simp add: read_cfg_def case_prod_beta)
qed

end
