(* ===== verification/Bin_Spec.thy ===== *)
theory Bin_Spec
  imports Ptp_Binary
begin

text \<open>
  The class \<^verbatim>\<open>Binary\<close> implements a list of octets: every sequence of its operations has the
  effect on the octets of the object that the specification allows. The specification is a
  relation, since the object does not say which octets appear when it grows: they are zero
  as long as no shorter value was assigned over a longer one, and whatever the memory holds
  after that. An operation that fails to allocate leaves the octets alone.
\<close>

text \<open>The operations: the assignment of a buffer, of one octet, appending, resizing and clearing.\<close>

datatype bin_op =
    B_set octets
  | B_put nat uint8_t
  | B_append uint8_t
  | B_append_all octets
  | B_resize nat
  | B_clear

text \<open>On the object; an appended \<^verbatim>\<open>Binary\<close> is one made from its octets.\<close>

fun bin_exec :: "(nat \<Rightarrow> bool) \<Rightarrow> bin_op \<Rightarrow> Binary \<Rightarrow> Binary" where
  "bin_exec mem (B_set xs) b = setBin mem xs b"
| "bin_exec mem (B_put i x) b = setBin_at mem i x b"
| "bin_exec mem (B_append x) b = Binary_append mem x b"
| "bin_exec mem (B_append_all xs) b = Binary_append_bin mem (Binary_of_buf mem xs) b"
| "bin_exec mem (B_resize n) b = Binary_resize mem n b"
| "bin_exec mem B_clear b = Binary_clear b"

text \<open>
  The abstract state: the octets, and whether octets of an earlier value may be left behind
  the end.
\<close>

type_synonym bin_state = "octets \<times> bool"

definition gap_ok :: "bool \<Rightarrow> octets \<Rightarrow> bool" where
  "gap_ok stale gap \<longleftrightarrow> stale \<or> set gap \<subseteq> {0}"

inductive bin_spec :: "bin_op \<Rightarrow> bin_state \<Rightarrow> bin_state \<Rightarrow> bool" where
  assigned: "bin_spec (B_set xs) (ys, stale) (xs, stale \<or> length xs < length ys)"
| inside: "i < length ys \<Longrightarrow> bin_spec (B_put i x) (ys, stale) (ys[i := x], stale)"
| behind: "\<lbrakk>length ys \<le> i; length gap = i - length ys; gap_ok stale gap\<rbrakk> \<Longrightarrow>
    bin_spec (B_put i x) (ys, stale) (ys @ gap @ [x], stale)"
| appended: "bin_spec (B_append x) (ys, stale) (ys @ [x], stale)"
| appended_all: "bin_spec (B_append_all xs) (ys, stale) (ys @ xs, stale)"
| shorter: "n \<le> length ys \<Longrightarrow> bin_spec (B_resize n) (ys, stale) (take n ys, False)"
| longer: "\<lbrakk>length ys < n; length gap = n - length ys; gap_ok stale gap\<rbrakk> \<Longrightarrow>
    bin_spec (B_resize n) (ys, stale) (ys @ gap, False)"
| cleared: "bin_spec B_clear (ys, stale) ([], False)"

text \<open>A sequence of operations; with \<open>fails\<close> each of them may leave the object as it is.\<close>

inductive bin_specs :: "bool \<Rightarrow> bin_op list \<Rightarrow> bin_state \<Rightarrow> bin_state \<Rightarrow> bool" for fails where
  none: "bin_specs fails [] s s"
| some: "bin_spec p s s1 \<or> fails \<and> s1 = s \<Longrightarrow> bin_specs fails ps s1 s2 \<Longrightarrow> bin_specs fails (p # ps) s s2"

text \<open>What the object has to do with the abstract state.\<close>

definition b_rest :: "Binary \<Rightarrow> octets" where
  "b_rest b = drop (b_size b) (b_mem b)"

definition bin_abs :: "Binary \<Rightarrow> bin_state \<Rightarrow> bool" where
  "bin_abs b s \<longleftrightarrow> Binary_ok b \<and> fst s = b_octets b \<and> gap_ok (snd s) (b_rest b)"

text \<open>
  The object after a successful \<^verbatim>\<open>iResize\<close>: the octets, and memory behind them that is long
  enough and zero when it was before.
\<close>

lemma iResize_abs:
  assumes "bin_abs b (ys, stale)"
  obtains (resized) m where "iResize mem l b = (True, b\<lparr>b_mem := ys @ m\<rparr>)" "l \<le> length ys + length m"
      "gap_ok stale m" "b_size b = length ys" "32 dvd length ys + length m"
    | (failed) "iResize mem l b = (False, b)" "\<not> never_fails mem"
proof -
  have ok: "Binary_ok b" and ys: "ys = b_octets b" and gap: "gap_ok stale (b_rest b)"
    using assms by (simp_all add: bin_abs_def)
  show ?thesis
  proof (rule iResizeE [OF ok, of mem l])
    fix b'
    assume r: "iResize mem l b = (True, b')" "Binary_ok b'" "b_octets b' = b_octets b"
      "b_size b' = b_size b" "l \<le> length (b_mem b')" "b_mem b' \<noteq> []"
    have "b_mem b' = b_octets b' @ b_rest b'"
      by (simp add: b_octets_def b_rest_def)
    then have m: "b_mem b' = ys @ b_rest b'" and len: "length ys = b_size b"
      using r(3) ys ok by simp_all
    have "b_size b \<le> length (b_mem b)"
      using ok by (simp add: Binary_ok_def b_alloc_def)
    then have "b' = b\<lparr>b_mem := b_mem b'\<rparr>" and g: "gap_ok stale (b_rest b')"
      using r(1) gap by (auto simp: iResize_def gap_ok_def b_rest_def split: if_splits)
    show ?thesis
    proof (rule resized)
      show "iResize mem l b = (True, b\<lparr>b_mem := ys @ b_rest b'\<rparr>)"
        using r(1) m \<open>b' = b\<lparr>b_mem := b_mem b'\<rparr>\<close> by metis
      have "length ys + length (b_rest b') = length (b_mem b')"
        by (subst m) simp
      then show "l \<le> length ys + length (b_rest b')" "32 dvd length ys + length (b_rest b')"
        using r by (simp_all add: Binary_ok_def b_alloc_def)
    qed (use g len in simp_all)
  qed (use failed in blast)
qed

lemma bin_absI:
  assumes "b_mem b = ys @ r" "b_size b = length ys" "gap_ok stale r" "length ys + length r = k" "32 dvd k"
  shows "bin_abs b (ys, stale)"
  using assms by (auto simp: bin_abs_def Binary_ok_def b_alloc_def b_octets_def b_rest_def)

lemma gap_ok_parts: "gap_ok stale (xs @ ys) \<longleftrightarrow> gap_ok stale xs \<and> gap_ok stale ys"
  "gap_ok stale (replicate n 0)" "gap_ok True xs"
  by (auto simp: gap_ok_def)

lemma gap_ok_drop: "gap_ok stale xs \<Longrightarrow> gap_ok stale (drop n xs)" "gap_ok stale xs \<Longrightarrow> gap_ok stale (take n xs)"
  by (auto simp: gap_ok_def dest: in_set_dropD in_set_takeD)

text \<open>The simulation, operation by operation.\<close>

definition simulates :: "(nat \<Rightarrow> bool) \<Rightarrow> bin_op \<Rightarrow> bool" where
  "simulates mem p \<longleftrightarrow> (\<forall>b s. bin_abs b s \<longrightarrow>
     (\<exists>s'. (bin_spec p s s' \<or> \<not> never_fails mem \<and> s' = s) \<and> bin_abs (bin_exec mem p b) s'))"

lemma simulatesI:
  assumes "\<And>b ys stale. bin_abs b (ys, stale) \<Longrightarrow> \<exists>s'. (bin_spec p (ys, stale) s' \<or>
    \<not> never_fails mem \<and> s' = (ys, stale)) \<and> bin_abs (bin_exec mem p b) s'"
  shows "simulates mem p"
  using assms by (auto simp: simulates_def)

lemma simulates_done:
  "bin_spec p s s' \<Longrightarrow> bin_abs (bin_exec mem p b) s' \<Longrightarrow>
   \<exists>s'. (bin_spec p s s' \<or> \<not> never_fails mem \<and> s' = s) \<and> bin_abs (bin_exec mem p b) s'"
  by blast

lemma simulates_failed:
  "\<not> never_fails mem \<Longrightarrow> bin_exec mem p b = b \<Longrightarrow> bin_abs b s \<Longrightarrow>
   \<exists>s'. (bin_spec p s s' \<or> \<not> never_fails mem \<and> s' = s) \<and> bin_abs (bin_exec mem p b) s'"
  by (intro exI [of _ s]) simp

lemma simulates_set: "simulates mem (B_set xs)"
proof (rule simulatesI)
  fix b ys stale
  assume b: "bin_abs b (ys, stale)"
  let ?s = "(xs, stale \<or> length xs < length ys)"
  show "\<exists>s'. (bin_spec (B_set xs) (ys, stale) s' \<or> \<not> never_fails mem \<and> s' = (ys, stale)) \<and>
      bin_abs (bin_exec mem (B_set xs) b) s'"
  proof (cases "xs = []")
    case True
    then have "bin_abs (bin_exec mem (B_set xs) b) ?s"
      using b by (auto simp: bin_abs_def setBin_def Binary_ok_def b_octets_def b_rest_def b_alloc_def gap_ok_def)
    with assigned show ?thesis
      by (rule simulates_done)
  next
    case False
    show ?thesis
      using b
    proof (cases rule: iResize_abs [where mem = mem and l = "length xs"])
      case (resized m)
      let ?r = "drop (length xs) (ys @ m)"
      have len: "length xs + length ?r = length ys + length m"
        using resized(2) by simp
      have "bin_abs (b\<lparr>b_size := length xs, b_mem := xs @ ?r\<rparr>) ?s"
      proof (rule bin_absI [where r = ?r, OF _ _ _ len resized(5)])
        show "gap_ok (stale \<or> length xs < length ys) ?r"
          using resized(3) by (auto simp: gap_ok_def dest: in_set_dropD)
      qed simp_all
      then have "bin_abs (bin_exec mem (B_set xs) b) ?s"
        using False resized(1) by (simp add: setBin_def mem_write_def)
      with assigned show ?thesis
        by (rule simulates_done)
    next
      case failed
      then show ?thesis
        using b False by (intro simulates_failed) (simp_all add: setBin_def)
    qed
  qed
qed

lemma simulates_put: "simulates mem (B_put i x)"
proof (rule simulatesI)
  fix b ys stale
  assume b: "bin_abs b (ys, stale)"
  then show "\<exists>s'. (bin_spec (B_put i x) (ys, stale) s' \<or> \<not> never_fails mem \<and> s' = (ys, stale)) \<and>
      bin_abs (bin_exec mem (B_put i x) b) s'"
  proof (cases rule: iResize_abs [where mem = mem and l = "i + 1"])
    case (resized m)
    have ex: "bin_exec mem (B_put i x) b =
        b\<lparr>b_mem := (ys @ m)[i := x], b_size := max (length ys) (i + 1)\<rparr>"
      using resized(1,4) by (simp add: setBin_at_def)
    show ?thesis
    proof (cases "i < length ys")
      case True
      then have "bin_abs (bin_exec mem (B_put i x) b) (ys[i := x], stale)"
        unfolding ex using resized(3,5)
        by (intro bin_absI [where r = m]) (simp_all add: list_update_append)
      with inside [OF True] show ?thesis
        by (rule simulates_done)
    next
      case False
      let ?k = "i - length ys"
      have k: "?k < length m"
        using False resized(2) by simp
      then have "m[?k := x] = (take ?k m @ [x]) @ drop (Suc ?k) m"
        by (simp add: upd_conv_take_nth_drop)
      then have "bin_abs (bin_exec mem (B_put i x) b) (ys @ take ?k m @ [x], stale)"
        unfolding ex using False k resized(3)
        by (intro bin_absI [where r = "drop (Suc ?k) m", OF _ _ _ _ resized(5)]) (simp_all add: list_update_append gap_ok_drop)
      moreover have "bin_spec (B_put i x) (ys, stale) (ys @ take ?k m @ [x], stale)"
        using False k resized(3) by (intro behind) (simp_all add: gap_ok_drop)
      ultimately show ?thesis
        using simulates_done by blast
    qed
  next
    case failed
    then show ?thesis
      using b by (intro simulates_failed) (simp_all add: setBin_at_def)
  qed
qed

lemma simulates_append: "simulates mem (B_append x)"
proof (rule simulatesI)
  fix b ys stale
  assume b: "bin_abs b (ys, stale)"
  then have n: "b_size b = length ys"
    by (simp add: bin_abs_def)
  show "\<exists>s'. (bin_spec (B_append x) (ys, stale) s' \<or> \<not> never_fails mem \<and> s' = (ys, stale)) \<and>
      bin_abs (bin_exec mem (B_append x) b) s'"
    using b
  proof (cases rule: iResize_abs [where mem = mem and l = "b_size b + 1"])
    case (resized m)
    then obtain y r where m: "m = y # r"
      by (cases m) auto
    have "bin_abs (bin_exec mem (B_append x) b) (ys @ [x], stale)"
      using resized m gap_ok_parts(1) [of stale "[y]" r] by (intro bin_absI [where r = r]) (simp_all add: Binary_append_def)
    with appended show ?thesis
      by (rule simulates_done)
  next
    case failed
    then show ?thesis
      using b by (intro simulates_failed) (simp_all add: Binary_append_def)
  qed
qed

lemma Binary_of_buf_abs:
  "b_octets (Binary_of_buf mem xs) = xs \<or> \<not> never_fails mem \<and> b_octets (Binary_of_buf mem xs) = []"
proof (cases "xs = []")
  case True
  then have "setBin mem xs Binary_null = Binary_null"
    by (simp add: setBin_def Binary_null_def)
  then show ?thesis
    using True iResize_snd [OF Binary_ok_null(1), of mem 1] by (simp add: Binary_of_buf_def)
next
  case False
  have "setBin mem xs Binary_null = Binary_null \<and> \<not> never_fails mem \<or> b_octets (setBin mem xs Binary_null) = xs"
    using False by (cases rule: iResizeE [OF Binary_ok_null(1), of mem "length xs"])
      (auto simp: setBin_def b_octets_def mem_write_def)
  then show ?thesis
    using iResize_snd [of "setBin mem xs Binary_null" mem 1] setBin_ok [OF Binary_ok_null(1), of mem xs]
    by (auto simp: Binary_of_buf_def)
qed

lemma simulates_append_all: "simulates mem (B_append_all xs)"
proof (rule simulatesI)
  fix b ys stale
  assume b: "bin_abs b (ys, stale)"
  let ?a = "Binary_of_buf mem xs"
  have n: "b_size b = length ys" and a: "b_size ?a = length (b_octets ?a)"
    using b Binary_of_buf_ok [of mem xs] by (simp_all add: bin_abs_def)
  show "\<exists>s'. (bin_spec (B_append_all xs) (ys, stale) s' \<or> \<not> never_fails mem \<and> s' = (ys, stale)) \<and>
      bin_abs (bin_exec mem (B_append_all xs) b) s'"
  proof (cases "b_octets ?a = []")
    case True
    then have "bin_exec mem (B_append_all xs) b = b"
      using a by (simp add: Binary_append_bin_def)
    then show ?thesis
      using b True Binary_of_buf_abs [of mem xs] appended_all [of "[]" ys stale] by auto
  next
    case False
    then have xs: "b_octets ?a = xs" "xs \<noteq> []" "b_size ?a = length xs"
      using Binary_of_buf_abs [of mem xs] a by auto
    show ?thesis
      using b
    proof (cases rule: iResize_abs [where mem = mem and l = "length ys + length xs"])
      case (resized m)
      let ?r = "drop (length xs) m"
      have len: "length (ys @ xs) + length ?r = length ys + length m"
        using resized(2) by simp
      have "bin_abs (b\<lparr>b_mem := (ys @ xs) @ ?r, b_size := length ys + length xs\<rparr>) (ys @ xs, stale)"
        using resized(3) by (intro bin_absI [where r = ?r, OF _ _ _ len resized(5)]) (simp_all add: gap_ok_drop)
      then have "bin_abs (bin_exec mem (B_append_all xs) b) (ys @ xs, stale)"
        using resized(1) xs n by (simp add: Binary_append_bin_def mem_write_def)
      with appended_all show ?thesis
        by (rule simulates_done)
    next
      case failed
      then show ?thesis
        using b n xs by (intro simulates_failed) (simp_all add: Binary_append_bin_def)
    qed
  qed
qed

lemma clear_abs: "bin_abs b s \<Longrightarrow> bin_abs (Binary_clear b) ([], False)"
  by (auto simp: bin_abs_def Binary_clear_def Binary_ok_def b_alloc_def b_octets_def b_rest_def gap_ok_def)

lemma simulates_resize: "simulates mem (B_resize n)"
proof (rule simulatesI)
  fix b ys stale
  assume b: "bin_abs b (ys, stale)"
  show "\<exists>s'. (bin_spec (B_resize n) (ys, stale) s' \<or> \<not> never_fails mem \<and> s' = (ys, stale)) \<and>
      bin_abs (bin_exec mem (B_resize n) b) s'"
  proof (cases "n = 0")
    case True
    then show ?thesis
      using shorter [of n ys stale] clear_abs [OF b] by (intro simulates_done) (simp_all add: Binary_resize_def)
  next
    case False
    show ?thesis
      using b
    proof (cases rule: iResize_abs [where mem = mem and l = n])
      case (resized m)
      let ?m = "take n (ys @ m)"
      have k: "length ?m = n"
        using resized(2) by simp
      have "bin_exec mem (B_resize n) b =
          b\<lparr>b_mem := ?m @ replicate (length ys + length m - n) 0, b_size := n\<rparr>"
        using False resized(1,2) by (simp add: Binary_resize_def b_alloc_def mem_write_def)
      then have abs: "bin_abs (bin_exec mem (B_resize n) b) (?m, False)"
        using k resized(2,5) by (intro bin_absI [where r = "replicate (length ys + length m - n) 0"])
          (simp_all add: gap_ok_parts)
      have "bin_spec (B_resize n) (ys, stale) (?m, False)"
      proof (cases "n \<le> length ys")
        case True
        then show ?thesis
          using shorter [OF True] by simp
      next
        case False
        then show ?thesis
          using longer [of ys n "take (n - length ys) m" stale] resized(2,3) by (simp add: gap_ok_drop)
      qed
      then show ?thesis
        using abs by (rule simulates_done)
    next
      case failed
      then show ?thesis
        using b False by (intro simulates_failed) (simp_all add: Binary_resize_def)
    qed
  qed
qed

lemma bin_simulates: "simulates mem p"
proof (cases p)
  case B_clear
  then show ?thesis
    using cleared clear_abs by (auto intro!: simulatesI simulates_done)
qed (simp_all add: simulates_set simulates_put simulates_append simulates_append_all simulates_resize)

text \<open>Every sequence of operations.\<close>

lemma bin_execs_spec:
  "bin_abs b s \<Longrightarrow>
   \<exists>s'. bin_specs (\<not> never_fails mem) ps s s' \<and> bin_abs (fold (bin_exec mem) ps b) s'"
proof (induction ps arbitrary: b s)
  case Nil
  then show ?case
    using none by (intro exI [of _ s]) simp
next
  case (Cons p ps)
  then obtain s1 where s1: "bin_spec p s s1 \<or> \<not> never_fails mem \<and> s1 = s" "bin_abs (bin_exec mem p b) s1"
    using bin_simulates [of mem p] unfolding simulates_def by blast
  then show ?case
    using Cons.IH [OF s1(2)] some [OF s1(1)] by (auto simp del: split_paired_Ex)
qed

text \<open>Evaluating a specification on concrete operations.\<close>

inductive_cases bin_specsE: "bin_specs fails (p # ps) s s'" "bin_specs fails [] s s'"

inductive_cases bin_specE:
  "bin_spec (B_set xs) s s'" "bin_spec (B_put i x) s s'" "bin_spec (B_append x) s s'"
  "bin_spec (B_append_all xs) s s'" "bin_spec (B_resize n) s s'" "bin_spec B_clear s s'"

lemma bin_abs_new: "bin_abs (new_Binary mem) ([], False)"
  by (simp add: new_Binary_def iResize_def Binary_null_def alloc_size_def bin_abs_def b_octets_def
      b_rest_def Binary_ok_def b_alloc_def gap_ok_def)

end
