(* ===== verification/Sig_Parsed.thy ===== *)
theory Sig_Parsed
  imports Msg_Parsed
begin

unbundle bit_operations_syntax

text \<open>
  What \<open>parseSig\<close> makes of the octets of a signaling message: the TLVs that were encoded, in
  their order; whatever the octets, it keeps only TLVs that the filter lets through, and
  not more than the octets can hold.
\<close>

subsection \<open>The image of a TLV\<close>

fun sig_enc :: "BaseSigTlv \<Rightarrow> octets" where
  "sig_enc (MANAGEMENT_v d) = cpu_to_net (mng_value (MANAGEMENT_t.managementId d)) @
     (case tlvData d of Some t \<Rightarrow> enc_tlv t | None \<Rightarrow> [])"
| "sig_enc (MANAGEMENT_ERROR_STATUS_v d) = cpu_to_net (managementErrorId d) @
     cpu_to_net (mng_value (MANAGEMENT_ERROR_STATUS_t.managementId d)) @ [0, 0, 0, 0] @
     enc_PTPText (displayData d)"
| "sig_enc (ORGANIZATION_EXTENSION_v d) = enc_ORGANIZATION_EXTENSION d"
| "sig_enc (PATH_TRACE_v d) = enc_PATH_TRACE d"
| "sig_enc (ALTERNATE_TIME_OFFSET_INDICATOR_v d) = enc_ALTERNATE_TIME_OFFSET_INDICATOR d"
| "sig_enc (ENHANCED_ACCURACY_METRICS_v d) = enc_ENHANCED_ACCURACY_METRICS d"
| "sig_enc (L1_SYNC_v d) = enc_L1_SYNC d"
| "sig_enc (PORT_COMMUNICATION_AVAILABILITY_v d) = enc_PORT_COMMUNICATION_AVAILABILITY d"
| "sig_enc (PROTOCOL_ADDRESS_v d) = enc_PROTOCOL_ADDRESS d"
| "sig_enc (SLAVE_RX_SYNC_TIMING_DATA_v d) = enc_SLAVE_RX_SYNC_TIMING_DATA d"
| "sig_enc (SLAVE_RX_SYNC_COMPUTED_DATA_v d) = enc_SLAVE_RX_SYNC_COMPUTED_DATA d"
| "sig_enc (SLAVE_TX_EVENT_TIMESTAMPS_v d) = enc_SLAVE_TX_EVENT_TIMESTAMPS d"
| "sig_enc (CUMULATIVE_RATE_RATIO_v d) = enc_CUMULATIVE_RATE_RATIO d"
| "sig_enc (SLAVE_DELAY_TIMING_DATA_NP_v d) = enc_SLAVE_DELAY_TIMING_DATA_NP d"

text \<open>
  The TLVs that have such an image, with their types. The parser does not keep the reserved
  field of the error status, here it is zero.
\<close>

fun sig_valid :: "implementSpecific_e \<Rightarrow> tlvType_e \<Rightarrow> BaseSigTlv \<Rightarrow> bool" where
  "sig_valid spec ty (MANAGEMENT_v d) \<longleftrightarrow> ty = MANAGEMENT \<and>
     (case tlvData d of None \<Rightarrow> False
      | Some t \<Rightarrow> tlv_type t = MANAGEMENT_t.managementId d \<and> valid_tlv t \<and> enc_tlv t \<noteq> [] \<and>
          tlv_type t \<noteq> SMPTE_MNG_ID \<and>
          (spec = linuxptp \<or> mng_allowed (tlv_type t) AND A_USE_LINUXPTP = 0))"
| "sig_valid spec ty (MANAGEMENT_ERROR_STATUS_v d) \<longleftrightarrow> ty = MANAGEMENT_ERROR_STATUS \<and>
     valid_PTPText (displayData d) \<and>
     Mng_Ids.isValidId (MANAGEMENT_ERROR_STATUS_t.managementId d) \<and>
     (spec = linuxptp \<or> mng_allowed (MANAGEMENT_ERROR_STATUS_t.managementId d) AND A_USE_LINUXPTP = 0)"
| "sig_valid spec ty (ORGANIZATION_EXTENSION_v d) \<longleftrightarrow> valid_ORGANIZATION_EXTENSION d \<and>
     (ty = ORGANIZATION_EXTENSION_PROPAGATE \<or> ty = ORGANIZATION_EXTENSION_DO_NOT_PROPAGATE \<or>
      ty = ORGANIZATION_EXTENSION)"
| "sig_valid spec ty (PATH_TRACE_v d) \<longleftrightarrow> ty = PATH_TRACE \<and> valid_PATH_TRACE d"
| "sig_valid spec ty (ALTERNATE_TIME_OFFSET_INDICATOR_v d) \<longleftrightarrow>
     ty = ALTERNATE_TIME_OFFSET_INDICATOR \<and> valid_ALTERNATE_TIME_OFFSET_INDICATOR d"
| "sig_valid spec ty (ENHANCED_ACCURACY_METRICS_v d) \<longleftrightarrow> ty = ENHANCED_ACCURACY_METRICS"
| "sig_valid spec ty (L1_SYNC_v d) \<longleftrightarrow> ty = L1_SYNC \<and> valid_L1_SYNC d"
| "sig_valid spec ty (PORT_COMMUNICATION_AVAILABILITY_v d) \<longleftrightarrow>
     ty = PORT_COMMUNICATION_AVAILABILITY \<and> valid_PORT_COMMUNICATION_AVAILABILITY d"
| "sig_valid spec ty (PROTOCOL_ADDRESS_v d) \<longleftrightarrow> ty = PROTOCOL_ADDRESS \<and> valid_PROTOCOL_ADDRESS d"
| "sig_valid spec ty (SLAVE_RX_SYNC_TIMING_DATA_v d) \<longleftrightarrow>
     ty = SLAVE_RX_SYNC_TIMING_DATA \<and> valid_SLAVE_RX_SYNC_TIMING_DATA d"
| "sig_valid spec ty (SLAVE_RX_SYNC_COMPUTED_DATA_v d) \<longleftrightarrow>
     ty = SLAVE_RX_SYNC_COMPUTED_DATA \<and> valid_SLAVE_RX_SYNC_COMPUTED_DATA d"
| "sig_valid spec ty (SLAVE_TX_EVENT_TIMESTAMPS_v d) \<longleftrightarrow>
     ty = SLAVE_TX_EVENT_TIMESTAMPS \<and> valid_SLAVE_TX_EVENT_TIMESTAMPS d"
| "sig_valid spec ty (CUMULATIVE_RATE_RATIO_v d) \<longleftrightarrow> ty = CUMULATIVE_RATE_RATIO"
| "sig_valid spec ty (SLAVE_DELAY_TIMING_DATA_NP_v d) \<longleftrightarrow>
     ty = SLAVE_DELAY_TIMING_DATA_NP \<and> spec = linuxptp \<and> valid_SLAVE_DELAY_TIMING_DATA_NP d"

lemma caseBuild_parse:
  assumes p: "wire_codec p V F e R" "F new" "V d" "R []" "pe_mem env"
    and mp: "\<not> m_build mp" "mp_ok mp" "view mp = e d"
  shows "caseBuild env new p c mp = Inr (Some (c d), move (length (e d)) mp)"
  using wire_step.parse [OF p(1) mp(1,2) p(3), of new "[]"] p mp(3) by (simp add: caseBuild_def)

lemma pad_Nil [simp]: "pad []"
  by (simp add: pad_def)

lemma fresh_sig:
  "fresh_PATH_TRACE new_PATH_TRACE"
  "fresh_ALTERNATE_TIME_OFFSET_INDICATOR new_ALTERNATE_TIME_OFFSET_INDICATOR"
  "fresh_SLAVE_RX_SYNC_TIMING_DATA new_SLAVE_RX_SYNC_TIMING_DATA"
  "fresh_SLAVE_RX_SYNC_COMPUTED_DATA new_SLAVE_RX_SYNC_COMPUTED_DATA"
  "fresh_SLAVE_TX_EVENT_TIMESTAMPS new_SLAVE_TX_EVENT_TIMESTAMPS"
  "fresh_SLAVE_DELAY_TIMING_DATA_NP new_SLAVE_DELAY_TIMING_DATA_NP"
  by (simp_all add: fresh_PATH_TRACE_def new_PATH_TRACE_def fresh_ALTERNATE_TIME_OFFSET_INDICATOR_def
      new_ALTERNATE_TIME_OFFSET_INDICATOR_def fresh_SLAVE_RX_SYNC_TIMING_DATA_def
      new_SLAVE_RX_SYNC_TIMING_DATA_def fresh_SLAVE_RX_SYNC_COMPUTED_DATA_def
      new_SLAVE_RX_SYNC_COMPUTED_DATA_def fresh_SLAVE_TX_EVENT_TIMESTAMPS_def
      new_SLAVE_TX_EVENT_TIMESTAMPS_def fresh_SLAVE_DELAY_TIMING_DATA_NP_def
      new_SLAVE_DELAY_TIMING_DATA_NP_def zero_PTPText_def)

lemmas sig_case = caseBuild_parse [OF wire_ORGANIZATION_EXTENSION]
  caseBuild_parse [OF wire_PATH_TRACE fresh_sig(1)]
  caseBuild_parse [OF wire_ALTERNATE_TIME_OFFSET_INDICATOR fresh_sig(2)]
  caseBuild_parse [OF wire_ENHANCED_ACCURACY_METRICS]
  caseBuild_parse [OF wire_L1_SYNC]
  caseBuild_parse [OF wire_PORT_COMMUNICATION_AVAILABILITY]
  caseBuild_parse [OF wire_PROTOCOL_ADDRESS]
  caseBuild_parse [OF wire_SLAVE_RX_SYNC_TIMING_DATA fresh_sig(3)]
  caseBuild_parse [OF wire_SLAVE_RX_SYNC_COMPUTED_DATA fresh_sig(4)]
  caseBuild_parse [OF wire_SLAVE_TX_EVENT_TIMESTAMPS fresh_sig(5)]
  caseBuild_parse [OF wire_CUMULATIVE_RATE_RATIO]
  caseBuild_parse [OF wire_SLAVE_DELAY_TIMING_DATA_NP fresh_sig(6)]

text \<open>The cursor after a TLV: together with the octets left, at the same end.\<close>

definition past :: "MsgProc \<Rightarrow> MsgProc \<Rightarrow> bool" where
  "past mp mp' \<longleftrightarrow> \<not> m_build mp' \<and> m_buf mp' = m_buf mp \<and> 0 \<le> m_left mp' \<and>
     int (m_cur mp') + m_left mp' = int (m_cur mp) + m_left mp"

lemma past_view: "mp_ok mp \<Longrightarrow> view mp = xs @ ys \<Longrightarrow> int (length xs) \<le> m_left mp"
  using view_append_le [of mp xs ys] by simp

lemma past_move: "\<not> m_build mp \<Longrightarrow> mp_ok mp \<Longrightarrow> view mp = xs \<Longrightarrow> past mp (move (length xs) mp)"
  using past_view [of mp xs "[]"] by (simp add: past_def)

lemma sig_error_parse:
  assumes v: "sig_valid (implementSpecific (m_prms m)) MANAGEMENT_ERROR_STATUS (MANAGEMENT_ERROR_STATUS_v d)"
      "pe_mem env"
    and mp: "\<not> m_build mp" "mp_ok mp" "view mp = sig_enc (MANAGEMENT_ERROR_STATUS_v d)"
  shows "\<exists>mp'. sig_error_status env m mp = Inr (Some (MANAGEMENT_ERROR_STATUS_v d), mp') \<and> past mp mp'"
proof -
  let ?i = "MANAGEMENT_ERROR_STATUS_t.managementId d" and ?e = "managementErrorId d"
  let ?x = "enc_PTPText (displayData d)"
  have tv: "valid_PTPText (displayData d)"
    using v by simp
  have view: "view mp = cpu_to_net ?e @ cpu_to_net (mng_value ?i) @ [0, 0, 0, 0] @ ?x"
    using mp(3) by simp
  have left: "m_left mp = 9 + int (length (textField (displayData d)))"
    using length_view [OF mp(2)] view mp(2) by (simp add: mp_ok_def enc_PTPText_def)
  have rd: "rd16 (m_buf mp) (m_cur mp) = ?e" "rd16 (m_buf mp) (m_cur mp + 2) = mng_value ?i"
    using load_append [OF mp(2) view]
      load_append [OF mp_ok_move [OF mp(2)] view_move_append [OF mp(2) view]] left
    by (simp_all add: load_def rd16_def)
  have find: "findTlvId (mng_value ?i) (implementSpecific (m_prms m)) = Some ?i"
    using v by (auto simp: findTlvId_iff)
  let ?q = "mp\<lparr>m_cur := m_cur mp + 8, m_left := m_left mp - 8\<rparr>"
  have q: "mp_ok ?q" "view ?q = ?x @ []" "\<not> m_build ?q"
    using mp(1,2) left view_move_append [OF mp(2), of "cpu_to_net ?e @ cpu_to_net (mng_value ?i) @ [0, 0, 0, 0]" ?x]
      view by (simp_all add: mp_ok_def view_def move_def)
  have "proc_PTPText zero_PTPText ?q = (False, displayData d, move (length ?x) ?q)"
    using wire_step.parse [OF wire_proc_PTPText q(3,1) tv _ q(2)] by (simp add: zero_PTPText_def)
  moreover have "displayData d = zero_PTPText" if "textField (displayData d) = []"
    using that tv by (cases "displayData d") (simp add: valid_PTPText_def zero_PTPText_def unat_eq_0)
  ultimately show ?thesis
    using v(2) rd find left mp(1)
    by (auto simp: sig_error_status_def past_def msg_sizes enc_PTPText_def Let_def)
qed

lemma sig_management_parse:
  assumes v: "sig_valid (implementSpecific (m_prms m)) MANAGEMENT (MANAGEMENT_v d)" "pe_mem env"
    and mp: "\<not> m_build mp" "mp_ok mp" "view mp = sig_enc (MANAGEMENT_v d)"
  shows "\<exists>mp'. sig_management env m mp = Inr (Some (MANAGEMENT_v d), mp') \<and> past mp mp'"
proof -
  obtain t where t: "tlvData d = Some t" "tlv_type t = MANAGEMENT_t.managementId d" "valid_tlv t"
    "enc_tlv t \<noteq> []" "tlv_type t \<noteq> SMPTE_MNG_ID"
    "implementSpecific (m_prms m) = linuxptp \<or> mng_allowed (tlv_type t) AND A_USE_LINUXPTP = 0"
    using v by (auto split: option.splits)
  let ?v = "cpu_to_net (mng_value (tlv_type t))"
  have view: "view mp = ?v @ enc_tlv t"
    using mp(3) t by simp
  have left: "m_left mp = 2 + int (length (enc_tlv t))"
    using length_view [OF mp(2)] view mp(2) by (simp add: mp_ok_def)
  have rd: "rd16 (m_buf mp) (m_cur mp) = mng_value (tlv_type t)"
    using load_append [OF mp(2) view] by (simp add: load_def rd16_def)
  have find: "findTlvId (mng_value (tlv_type t)) (implementSpecific (m_prms m)) = Some (tlv_type t)"
    using t tlv_row [of t] by (auto simp: findTlvId_iff isValidId_row)
  let ?q = "mp\<lparr>m_cur := m_cur mp + 2, m_left := m_left mp - 2\<rparr>"
  have q: "mp_ok ?q" "view ?q = enc_tlv t @ []"
    using mp(2) left view_move_append [OF mp(2) view] by (simp_all add: mp_ok_def view_def move_def)
  have "\<exists>mp'. call_tlv_data True (tlv_type t) (pe_uninit env) ?q = (MNG_PARSE_ERROR_OK, Some t, mp') \<and>
      past ?q mp'"
    using call_parse [OF _ q(1) t(3,5) q(2), of "pe_uninit env"] mp(1) past_view [OF q]
    by (simp add: past_def)
  then show ?thesis
    using v(2) rd find left t by (auto simp: sig_management_def past_def)
qed

lemma sig_tlv_types:
  "sig_tlv env m MANAGEMENT mp = sig_management env m mp"
  "sig_tlv env m MANAGEMENT_ERROR_STATUS mp = sig_error_status env m mp"
  "sig_tlv env m ORGANIZATION_EXTENSION_PROPAGATE mp =
     caseBuild env new_ORGANIZATION_EXTENSION ORGANIZATION_EXTENSION_f ORGANIZATION_EXTENSION_v mp"
  "sig_tlv env m ORGANIZATION_EXTENSION_DO_NOT_PROPAGATE mp =
     caseBuild env new_ORGANIZATION_EXTENSION ORGANIZATION_EXTENSION_f ORGANIZATION_EXTENSION_v mp"
  "sig_tlv env m ORGANIZATION_EXTENSION mp =
     caseBuild env new_ORGANIZATION_EXTENSION ORGANIZATION_EXTENSION_f ORGANIZATION_EXTENSION_v mp"
  "sig_tlv env m PATH_TRACE mp =
     caseBuild env new_PATH_TRACE PATH_TRACE_f PATH_TRACE_v mp"
  "sig_tlv env m ALTERNATE_TIME_OFFSET_INDICATOR mp =
     caseBuild env new_ALTERNATE_TIME_OFFSET_INDICATOR ALTERNATE_TIME_OFFSET_INDICATOR_f ALTERNATE_TIME_OFFSET_INDICATOR_v mp"
  "sig_tlv env m ENHANCED_ACCURACY_METRICS mp =
     caseBuild env new_ENHANCED_ACCURACY_METRICS ENHANCED_ACCURACY_METRICS_f ENHANCED_ACCURACY_METRICS_v mp"
  "sig_tlv env m L1_SYNC mp =
     caseBuild env new_L1_SYNC L1_SYNC_f L1_SYNC_v mp"
  "sig_tlv env m PORT_COMMUNICATION_AVAILABILITY mp =
     caseBuild env new_PORT_COMMUNICATION_AVAILABILITY PORT_COMMUNICATION_AVAILABILITY_f PORT_COMMUNICATION_AVAILABILITY_v mp"
  "sig_tlv env m PROTOCOL_ADDRESS mp =
     caseBuild env new_PROTOCOL_ADDRESS PROTOCOL_ADDRESS_f PROTOCOL_ADDRESS_v mp"
  "sig_tlv env m SLAVE_RX_SYNC_TIMING_DATA mp =
     caseBuild env new_SLAVE_RX_SYNC_TIMING_DATA SLAVE_RX_SYNC_TIMING_DATA_f SLAVE_RX_SYNC_TIMING_DATA_v mp"
  "sig_tlv env m SLAVE_RX_SYNC_COMPUTED_DATA mp =
     caseBuild env new_SLAVE_RX_SYNC_COMPUTED_DATA SLAVE_RX_SYNC_COMPUTED_DATA_f SLAVE_RX_SYNC_COMPUTED_DATA_v mp"
  "sig_tlv env m SLAVE_TX_EVENT_TIMESTAMPS mp =
     caseBuild env new_SLAVE_TX_EVENT_TIMESTAMPS SLAVE_TX_EVENT_TIMESTAMPS_f SLAVE_TX_EVENT_TIMESTAMPS_v mp"
  "sig_tlv env m CUMULATIVE_RATE_RATIO mp =
     caseBuild env new_CUMULATIVE_RATE_RATIO CUMULATIVE_RATE_RATIO_f CUMULATIVE_RATE_RATIO_v mp"
  "implementSpecific (m_prms m) = linuxptp \<Longrightarrow> sig_tlv env m SLAVE_DELAY_TIMING_DATA_NP mp =
     caseBuild env new_SLAVE_DELAY_TIMING_DATA_NP SLAVE_DELAY_TIMING_DATA_NP_f SLAVE_DELAY_TIMING_DATA_NP_v mp"
  by (simp_all add: sig_tlv_def tlvType_defs)

lemma sig_tlv_parse:
  assumes v: "sig_valid (implementSpecific (m_prms m)) ty t" "pe_mem env"
    and mp: "\<not> m_build mp" "mp_ok mp" "view mp = sig_enc t"
  shows "\<exists>mp'. sig_tlv env m ty mp = Inr (Some t, mp') \<and> past mp mp'"
proof (cases t)
  case (MANAGEMENT_v d)
  then show ?thesis
    using sig_management_parse [of m d env mp] v mp by (auto simp: sig_tlv_types)
next
  case (MANAGEMENT_ERROR_STATUS_v d)
  then show ?thesis
    using sig_error_parse [of m d env mp] v mp by (auto simp: sig_tlv_types)
qed (use v mp in \<open>auto simp: sig_tlv_types sig_case past_move\<close>)

subsection \<open>The TLVs of a message\<close>

definition sig_octets :: "(tlvType_e \<times> BaseSigTlv) list \<Rightarrow> octets" where
  "sig_octets xs = concat (map (\<lambda>(ty, t). cpu_to_net ty @
     cpu_to_net (of_nat (length (sig_enc t)) :: uint16_t) @ sig_enc t) xs)"

text \<open>A TLV the parser takes with the parameters it has: valid, of 16 bits length, let through.\<close>

definition sig_taken :: "MsgParams \<Rightarrow> tlvType_e \<times> BaseSigTlv \<Rightarrow> bool" where
  "sig_taken p x \<longleftrightarrow> sig_valid (implementSpecific p) (fst x) (snd x) \<and>
     length (sig_enc (snd x)) < 2 ^ 16 \<and> (\<not> filterSignaling p \<or> isSigTlv (fst x) p)"

definition push_all :: "(tlvType_e \<times> BaseSigTlv) list \<Rightarrow> Message \<Rightarrow> Message" where
  "push_all xs m = m\<lparr>m_sigTlvs := (m_sigTlvs m)\<lparr>m_tlvs := m_tlvs (m_sigTlvs m) @ xs\<rparr>\<rparr>"

lemma push_all_simps:
  "push_sig ty (Some t) m = push_all [(ty, t)] m"
  "push_all ys (push_all xs m) = push_all (xs @ ys) m"
  "push_all [] m = m"
  "m_prms (push_all xs m) = m_prms m"
  by (simp_all add: push_sig_def push_all_def)

lemma sig_valid_auth: "sig_valid spec ty t \<Longrightarrow> ty \<noteq> AUTHENTICATION"
  by (cases t) (auto simp: tlvType_defs)

text \<open>The loop at the octets \<open>xs\<close> of the buffer.\<close>

definition sig_at :: "octets \<Rightarrow> octets \<Rightarrow> sig_loop \<Rightarrow> bool" where
  "sig_at buf xs st \<longleftrightarrow> \<not> m_build (sl_mp st) \<and> m_buf (sl_mp st) = buf \<and>
     drop (m_cur (sl_mp st)) buf = xs"

lemma sig_body_parse:
  fixes len :: uint16_t
  assumes t: "sig_taken (m_prms (sl_msg st)) (ty, t)" "pe_mem env"
    and at: "sig_at buf (cpu_to_net ty @ cpu_to_net len @ sig_enc t @ r) st"
    and n: "unat len = length (sig_enc t)" "4 + int (length (sig_enc t)) \<le> sl_leftAll st"
  shows "\<exists>st'. sig_round env buf st = Inr st' \<and> sl_msg st' = push_all [(ty, t)] (sl_msg st) \<and>
    sl_leftAll st' = sl_leftAll st - (4 + int (length (sig_enc t))) \<and> sig_at buf r st'"
proof -
  let ?mp = "sl_mp st" and ?n = "length (sig_enc t)"
  define mp1 where "mp1 = ?mp\<lparr>m_cur := m_cur ?mp + 4, m_left := int ?n\<rparr>"
  have d: "drop (m_cur ?mp) buf = cpu_to_net ty @ cpu_to_net len @ sig_enc t @ r"
    using at by (simp add: sig_at_def)
  have d2: "drop (m_cur ?mp + 2) buf = cpu_to_net len @ sig_enc t @ r"
    and d4: "drop (m_cur ?mp + 4) buf = sig_enc t @ r"
    using arg_cong [OF d, of "drop 2"] arg_cong [OF d, of "drop 4"] by (simp_all add: add.commute)
  have rd: "rd16 buf (m_cur ?mp) = ty" "rd16 buf (m_cur ?mp + 2) = len"
    by (simp_all only: rd16_def mem_read_def d d2) simp_all
  have "length buf = m_cur ?mp + 4 + ?n + length r"
    using arg_cong [OF d, of length] by (simp split: nat_diff_split_asm)
  then have mp1: "\<not> m_build mp1" "mp_ok mp1" "view mp1 = sig_enc t"
    using at d4 by (simp_all add: mp1_def mp_ok_def view_def sig_at_def)
  obtain mp2 where mp2: "sig_tlv env (sl_msg st) ty mp1 = Inr (Some t, mp2)" and p: "past mp1 mp2"
    using sig_tlv_parse [OF _ t(2) mp1] t(1) by (auto simp: sig_taken_def)
  have e: "m_cur mp2 + nat (m_left mp2) = m_cur ?mp + 4 + ?n" "\<not> m_build mp2" "m_buf mp2 = buf"
    using p at by (auto simp: past_def mp1_def sig_at_def)
  have dr: "drop (m_cur ?mp + 4 + ?n) buf = r"
    using arg_cong [OF d4, of "drop ?n"] by (simp add: add.commute)
  have flt: "\<not> (filterSignaling (m_prms (sl_msg st)) \<and> \<not> isSigTlv ty (m_prms (sl_msg st)))"
    "ty \<noteq> AUTHENTICATION"
    using t(1) sig_valid_auth by (auto simp: sig_taken_def)
  have "sig_round env buf st = Inr (st\<lparr>sl_lastTlv := ty, sl_leftAll := sl_leftAll st - (4 + int ?n),
      sl_mp := (if m_left mp2 > 0 then mp2\<lparr>m_cur := m_cur mp2 + nat (m_left mp2)\<rparr> else mp2),
      sl_msg := push_all [(ty, t)] (sl_msg st)\<rparr>)"
    unfolding sig_round_def rd sig_body_def Let_def n(1)
    using flt n(2) mp2 by (auto simp: tlvSizeHdr_def mp1_def push_all_simps algebra_simps)
  then show ?thesis
    using e dr by (auto simp: sig_at_def)
qed

lemma sig_octets_Cons: "sig_octets ((ty, t) # xs) =
    cpu_to_net ty @ cpu_to_net (of_nat (length (sig_enc t)) :: uint16_t) @ sig_enc t @ sig_octets xs"
  by (simp add: sig_octets_def)

lemma sig_run_parse:
  assumes "\<forall>x \<in> set xs. sig_taken (m_prms (sl_msg st)) x" "pe_mem env"
    and "sig_at buf (sig_octets xs @ r) st" "sl_leftAll st = int (length (sig_octets xs))"
  shows "\<exists>st'. sig_run env buf st = Inr st' \<and> sl_msg st' = push_all xs (sl_msg st)"
  using assms
proof (induction xs arbitrary: st)
  case Nil
  then show ?case
    by (simp add: sig_octets_def sig_run.simps tlvSizeHdr_def push_all_simps)
next
  case (Cons x xs)
  obtain ty t where x: "x = (ty, t)"
    by (cases x)
  have n: "unat (of_nat (length (sig_enc t)) :: uint16_t) = length (sig_enc t)"
    using Cons.prems(1) by (intro unat_of_nat16) (simp add: x sig_taken_def)
  obtain st1 where st1: "sig_round env buf st = Inr st1" "sl_msg st1 = push_all [(ty, t)] (sl_msg st)"
    "sl_leftAll st1 = int (length (sig_octets xs))" "sig_at buf (sig_octets xs @ r) st1"
    using sig_body_parse [OF _ Cons.prems(2) _ n, of st ty buf "sig_octets xs @ r"] Cons.prems
    by (auto simp: x sig_octets_Cons)
  obtain st' where st': "sig_run env buf st1 = Inr st'" "sl_msg st' = push_all xs (sl_msg st1)"
    using Cons.IH [of st1] Cons.prems(1,2) st1 by (auto simp: push_all_simps)
  moreover have "\<not> sl_leftAll st < int tlvSizeHdr"
    using Cons.prems(4) by (simp add: x sig_octets_Cons tlvSizeHdr_def)
  ultimately show ?case
    using st1 by (subst sig_run.simps) (simp add: push_all_simps x)
qed

lemma parseSig_octets:
  assumes "\<forall>x \<in> set xs. sig_taken (m_prms m) x" "pe_mem env" "\<not> m_haveAuth m"
    and "length h = sigBaseSize"
  shows "parseSig env m (h @ sig_octets xs @ r) (int (length (sig_octets xs))) =
    (MNG_PARSE_ERROR_SIG, m\<lparr>m_sigTlvs := \<lparr>m_lastSig = True, m_tlvs = xs\<rparr>\<rparr>)"
proof -
  let ?st = "\<lparr>sl_msg = m\<lparr>m_sigTlvs := \<lparr>m_lastSig = True, m_tlvs = []\<rparr>\<rparr>,
    sl_mp = parse_at (h @ sig_octets xs @ r) sigBaseSize 0, sl_leftAll = int (length (sig_octets xs)),
    sl_lastTlv = 0, sl_lastAuth = 0, sl_lastAuthLen = 0, sl_errAuth = MNG_PARSE_ERROR_OK\<rparr>"
  obtain st' where "sig_run env (h @ sig_octets xs @ r) ?st = Inr st'"
    "sl_msg st' = push_all xs (sl_msg ?st)"
    using sig_run_parse [of xs ?st env "h @ sig_octets xs @ r" r] assms
    by (auto simp: sig_at_def parse_at_def)
  then show ?thesis
    using assms(3) by (simp add: parseSig_def Let_def push_all_def)
qed

subsection \<open>A whole message\<close>

text \<open>The header of a signaling message is that of a management message up to the target.\<close>

definition pack_signaling :: "managementMessage_p \<Rightarrow> octets" where
  "pack_signaling h =
     [messageType_majorSdoId h, versionPTP h] @ cpu_to_net (messageLength h) @
     [managementMessage_p.domainNumber h, minorSdoId h, fst (flagField h), snd (flagField h)] @
     cpu_to_net (correctionField h) @ cpu_to_net (messageTypeSpecific h) @
     pack_PortIdentity (sourcePortIdentity h) @ cpu_to_net (sequenceId h) @
     [controlField h, logMessageInterval h] @ pack_PortIdentity (targetPortIdentity h)"

definition sig_header :: "managementMessage_p \<Rightarrow> bool" where
  "sig_header h \<longleftrightarrow>
     messageType_majorSdoId h AND 0xf = Signaling \<and> versionPTP h AND 0xf = ptp_major_ver \<and>
     logMessageInterval h = logMessageIntervalDef \<and>
     valid_PortIdentity (sourcePortIdentity h) \<and> valid_PortIdentity (targetPortIdentity h)"

lemma length_pack_signaling:
  "\<lbrakk>valid_PortIdentity (sourcePortIdentity h); valid_PortIdentity (targetPortIdentity h)\<rbrakk>
   \<Longrightarrow> length (pack_signaling h) = sigBaseSize"
  by (simp add: pack_signaling_def pack_PortIdentity_def valid_PortIdentity_def
      valid_ClockIdentity_def sigBaseSize_def)

lemma rd_signaling:
  assumes "valid_PortIdentity (sourcePortIdentity h)" "valid_PortIdentity (targetPortIdentity h)"
  shows "rd8 (pack_signaling h @ r) 0 = messageType_majorSdoId h"
    "rd8 (pack_signaling h @ r) 1 = versionPTP h"
    "rd16 (pack_signaling h @ r) 2 = messageLength h"
    "rd8 (pack_signaling h @ r) 33 = logMessageInterval h"
  using assms
  by (simp_all add: rd8_def rd16_def pack_signaling_def read_simps
      pack_PortIdentity_def valid_PortIdentity_def valid_ClockIdentity_def)

lemma parse_signaling:
  assumes h: "sig_header h" and n: "sigBaseSize + length (sig_octets xs) < 2 ^ 16"
    and b: "int (sigBaseSize + length (sig_octets xs)) \<le> bufSize"
    and p: "rcvSignaling (m_prms m)" "\<forall>x \<in> set xs. sig_taken (m_prms m) x" "pe_mem env"
      "\<not> m_haveAuth m"
  shows "\<exists>m'. parse env m (pack_signaling (h\<lparr>messageLength :=
      of_nat (sigBaseSize + length (sig_octets xs))\<rparr>) @ sig_octets xs @ r) bufSize =
      (MNG_PARSE_ERROR_SIG, m') \<and> m_sigTlvs m' = \<lparr>m_lastSig = True, m_tlvs = xs\<rparr> \<and>
      m_type m' = Signaling"
proof -
  let ?h = "h\<lparr>messageLength := of_nat (sigBaseSize + length (sig_octets xs))\<rparr>"
  define buf where "buf = pack_signaling ?h @ sig_octets xs @ r"
  have v: "valid_PortIdentity (sourcePortIdentity ?h)" "valid_PortIdentity (targetPortIdentity ?h)"
    using h by (simp_all add: sig_header_def)
  note rd = rd_signaling [OF v, of "sig_octets xs @ r", folded buf_def]
  have l: "unat (messageLength ?h) = sigBaseSize + length (sig_octets xs)"
    using unat_of_nat16 [OF n] by simp
  define m1 where "m1 = parse_header (m\<lparr>m_type := Signaling, m_versionPTP := ptp_major_ver,
    m_minorVersionPTP := drop_bit 4 (versionPTP h)\<rparr>) buf"
  have m1: "m_prms m1 = m_prms m" "m_haveAuth m1 = m_haveAuth m" "m_type m1 = Signaling"
    by (simp_all add: m1_def parse_header_def)
  have "parse env m buf bufSize = parseSig env m1 buf (int (length (sig_octets xs)))"
    using h b p(1) rd l
    by (simp add: parse_def sig_header_def Let_def m1_def Management_def Signaling_def)
  also have "\<dots> = (MNG_PARSE_ERROR_SIG, m1\<lparr>m_sigTlvs := \<lparr>m_lastSig = True, m_tlvs = xs\<rparr>\<rparr>)"
    unfolding buf_def using p m1 length_pack_signaling [OF v] by (intro parseSig_octets) simp_all
  finally show ?thesis
    using m1(3) unfolding buf_def by simp
qed

subsection \<open>Any octets\<close>

text \<open>
  Whatever the octets are, the message keeps only TLVs that the filter lets through, never an
  authentication TLV, and at most one for each four octets.
\<close>

definition sig_kept :: "MsgParams \<Rightarrow> (tlvType_e \<times> BaseSigTlv) list \<Rightarrow> bool" where
  "sig_kept p xs \<longleftrightarrow>
     (\<forall>(ty, t) \<in> set xs. ty \<noteq> AUTHENTICATION \<and> (filterSignaling p \<longrightarrow> isSigTlv ty p))"

lemma sig_body_Inl: "sig_body env buf st ty len = Inl (e, m) \<Longrightarrow> m = sl_msg st"
  by (auto simp: sig_body_def Let_def split: if_splits sum.splits prod.splits)

lemma sig_body_msg:
  assumes "sig_body env buf st ty len = Inr st'"
  shows "sl_msg st' = sl_msg st \<or> (\<exists>tlv. sl_msg st' = push_sig ty tlv (sl_msg st) \<and>
    ty \<noteq> AUTHENTICATION \<and> (filterSignaling (m_prms (sl_msg st)) \<longrightarrow> isSigTlv ty (m_prms (sl_msg st))))"
  using assms by (auto simp: sig_body_def Let_def split: if_splits sum.splits prod.splits)

lemma sig_body_left:
  assumes "sig_body env buf st ty len = Inr st'"
  shows "0 \<le> sl_leftAll st' \<and> sl_leftAll st' \<le> sl_leftAll st - 4"
  using assms by (auto simp: sig_body_def Let_def tlvSizeHdr_def split: if_splits sum.splits prod.splits)

lemma sig_body_kept:
  assumes "sig_kept (m_prms (sl_msg st)) (m_tlvs (m_sigTlvs (sl_msg st)))"
    "sig_body env buf st ty len = Inr st'"
  shows "m_prms (sl_msg st') = m_prms (sl_msg st) \<and>
      sig_kept (m_prms (sl_msg st)) (m_tlvs (m_sigTlvs (sl_msg st'))) \<and>
      4 * int (length (m_tlvs (m_sigTlvs (sl_msg st')))) + sl_leftAll st' \<le>
        4 * int (length (m_tlvs (m_sigTlvs (sl_msg st)))) + sl_leftAll st \<and> 0 \<le> sl_leftAll st'"
  using sig_body_msg [OF assms(2)]
proof
  assume "sl_msg st' = sl_msg st"
  then show ?thesis
    using assms(1) sig_body_left [OF assms(2)] by simp
next
  assume "\<exists>tlv. sl_msg st' = push_sig ty tlv (sl_msg st) \<and> ty \<noteq> AUTHENTICATION \<and>
    (filterSignaling (m_prms (sl_msg st)) \<longrightarrow> isSigTlv ty (m_prms (sl_msg st)))"
  then obtain tlv where "sl_msg st' = push_sig ty tlv (sl_msg st)" "ty \<noteq> AUTHENTICATION"
    "filterSignaling (m_prms (sl_msg st)) \<longrightarrow> isSigTlv ty (m_prms (sl_msg st))"
    by blast
  then show ?thesis
    using assms(1) sig_body_left [OF assms(2)]
    by (cases tlv) (simp_all add: push_sig_def sig_kept_def)
qed

lemma sig_run_kept:
  assumes "sig_kept (m_prms (sl_msg st)) (m_tlvs (m_sigTlvs (sl_msg st)))"
    "m = (case sig_run env buf st of Inl (e, m) \<Rightarrow> m | Inr st' \<Rightarrow> sl_msg st')" "0 \<le> sl_leftAll st"
  shows "sig_kept (m_prms (sl_msg st)) (m_tlvs (m_sigTlvs m)) \<and>
    4 * int (length (m_tlvs (m_sigTlvs m))) \<le>
      4 * int (length (m_tlvs (m_sigTlvs (sl_msg st)))) + sl_leftAll st"
  using assms
proof (induction env buf st rule: sig_run.induct)
  case (1 env buf st)
  show ?case
  proof (cases "sl_leftAll st < int tlvSizeHdr")
    case True
    then show ?thesis
      using "1.prems" by (simp add: sig_run.simps)
  next
    case False
    show ?thesis
    proof (cases "sig_round env buf st")
      case (Inl r)
      then show ?thesis
        using False "1.prems" sig_body_Inl [of env buf st]
        by (cases r) (auto simp: sig_run.simps [of env buf st] sig_round_def)
    next
      case (Inr st')
      have step: "m_prms (sl_msg st') = m_prms (sl_msg st)"
        "sig_kept (m_prms (sl_msg st)) (m_tlvs (m_sigTlvs (sl_msg st')))"
        "4 * int (length (m_tlvs (m_sigTlvs (sl_msg st')))) + sl_leftAll st' \<le>
          4 * int (length (m_tlvs (m_sigTlvs (sl_msg st)))) + sl_leftAll st" "0 \<le> sl_leftAll st'"
        using sig_body_kept [OF "1.prems"(1)] Inr by (auto simp: sig_round_def)
      have "sig_run env buf st = sig_run env buf st'"
        using False Inr by (simp add: sig_run.simps [of env buf st])
      then show ?thesis
        using "1.IH" [OF False Inr] "1.prems"(2) step by auto
    qed
  qed
qed

lemma parseSig_kept:
  assumes "0 \<le> left"
  shows "sig_kept (m_prms m) (m_tlvs (m_sigTlvs (snd (parseSig env m buf left)))) \<and>
    4 * int (length (m_tlvs (m_sigTlvs (snd (parseSig env m buf left))))) \<le> left"
proof -
  let ?st = "\<lparr>sl_msg = m\<lparr>m_sigTlvs := \<lparr>m_lastSig = True, m_tlvs = []\<rparr>\<rparr>,
    sl_mp = parse_at buf sigBaseSize 0, sl_leftAll = left, sl_lastTlv = 0, sl_lastAuth = 0,
    sl_lastAuthLen = 0, sl_errAuth = MNG_PARSE_ERROR_OK\<rparr>"
  have "snd (parseSig env m buf left) =
      (case sig_run env buf ?st of Inl (e, m) \<Rightarrow> m | Inr st' \<Rightarrow> sl_msg st')"
    by (auto simp: parseSig_def Let_def split: sum.splits prod.splits)
  then show ?thesis
    using sig_run_kept [of ?st "snd (parseSig env m buf left)" env buf] assms
    by (simp add: sig_kept_def)
qed

end
