(* ===== verification/Sig_Access.thy ===== *)
theory Sig_Access
  imports Sig_Parsed
begin

unbundle bit_operations_syntax

text \<open>
  What the user sees of a signaling message: the functions of \<^verbatim>\<open>MessageSigTlvs\<close> and
  \<^verbatim>\<open>MessageSigTlv\<close> in \<^verbatim>\<open>src/msg.cpp\<close>, the copies of their TLVs, and the iterators over
  them.
\<close>

subsection \<open>Reading the TLVs\<close>

definition SigTlvs_size :: "MessageSigTlvs \<Rightarrow> nat" where
  "SigTlvs_size s = (if m_lastSig s then length (m_tlvs s) else 0)"

definition SigTlvs_get :: "MessageSigTlvs \<Rightarrow> nat \<Rightarrow> BaseSigTlv option" where
  "SigTlvs_get s pos =
     (if m_lastSig s \<and> pos < length (m_tlvs s) then Some (snd (m_tlvs s ! pos)) else None)"

definition SigTlvs_getType :: "MessageSigTlvs \<Rightarrow> nat \<Rightarrow> tlvType_e" where
  "SigTlvs_getType s pos =
     (if m_lastSig s \<and> pos < length (m_tlvs s) then fst (m_tlvs s ! pos) else 0)"

text \<open>The \<^verbatim>\<open>dynamic_cast\<close> gives no object for a TLV of another structure.\<close>

fun as_MANAGEMENT :: "BaseSigTlv \<Rightarrow> MANAGEMENT_t option" where
  "as_MANAGEMENT (MANAGEMENT_v d) = Some d"
| "as_MANAGEMENT t = None"

definition SigTlvs_getMng :: "MessageSigTlvs \<Rightarrow> nat \<Rightarrow> MANAGEMENT_t option" where
  "SigTlvs_getMng s pos =
     (if m_lastSig s \<and> pos < length (m_tlvs s) \<and> fst (m_tlvs s ! pos) = MANAGEMENT
      then as_MANAGEMENT (snd (m_tlvs s ! pos)) else None)"

definition SigTlvs_getTlvId :: "MessageSigTlvs \<Rightarrow> nat \<Rightarrow> mng_vals_e" where
  "SigTlvs_getTlvId s pos =
     (case SigTlvs_getMng s pos of None \<Rightarrow> NULL_PTP_MANAGEMENT | Some d \<Rightarrow> MANAGEMENT_t.managementId d)"

definition SigTlvs_getMngTlv :: "MessageSigTlvs \<Rightarrow> nat \<Rightarrow> BaseMngTlv option" where
  "SigTlvs_getMngTlv s pos = (case SigTlvs_getMng s pos of None \<Rightarrow> None | Some d \<Rightarrow> tlvData d)"

definition SigTlvs_getTlv :: "MessageSigTlvs \<Rightarrow> nat \<Rightarrow> tlvType_e \<times> BaseSigTlv option" where
  "SigTlvs_getTlv s pos =
     (if m_lastSig s \<and> pos < length (m_tlvs s)
      then (fst (m_tlvs s ! pos), Some (snd (m_tlvs s ! pos))) else (0, None))"

text \<open>\<^verbatim>\<open>get_BaseMngTlv\<close> and \<^verbatim>\<open>get_MngTlvId\<close> of \<^verbatim>\<open>src/sigTlvs.cpp\<close>.\<close>

definition get_BaseMngTlv :: "BaseSigTlv \<Rightarrow> BaseMngTlv option" where
  "get_BaseMngTlv t = (case as_MANAGEMENT t of None \<Rightarrow> None | Some d \<Rightarrow> tlvData d)"

definition get_MngTlvId :: "BaseSigTlv \<Rightarrow> mng_vals_e" where
  "get_MngTlvId t =
     (case as_MANAGEMENT t of None \<Rightarrow> NULL_PTP_MANAGEMENT | Some d \<Rightarrow> MANAGEMENT_t.managementId d)"

text \<open>
  \<^verbatim>\<open>traverse\<close>: a call-back with a state of its own; the first one that answers true ends the walk.
  Both forms of the function have this loop.
\<close>

fun traverse_loop :: "(tlvType_e \<Rightarrow> BaseSigTlv \<Rightarrow> 's \<Rightarrow> bool \<times> 's) \<Rightarrow> (tlvType_e \<times> BaseSigTlv) list \<Rightarrow>
    's \<Rightarrow> bool \<times> 's" where
  "traverse_loop cb [] s = (False, s)"
| "traverse_loop cb ((ty, t) # xs) s =
     (case cb ty t s of (True, s') \<Rightarrow> (True, s') | (False, s') \<Rightarrow> traverse_loop cb xs s')"

definition SigTlvs_traverse :: "(tlvType_e \<Rightarrow> BaseSigTlv \<Rightarrow> 's \<Rightarrow> bool \<times> 's) \<Rightarrow> MessageSigTlvs \<Rightarrow>
    's \<Rightarrow> bool \<times> 's" where
  "SigTlvs_traverse cb s st = (if m_lastSig s then traverse_loop cb (m_tlvs s) st else (False, st))"

text \<open>From \<^verbatim>\<open>begin\<close> to \<^verbatim>\<open>end\<close>: the iterators do not ask what the last message was.\<close>

definition SigTlvs_range :: "MessageSigTlvs \<Rightarrow> (tlvType_e \<times> BaseSigTlv) list" where
  "SigTlvs_range s = m_tlvs s"

subsection \<open>Copies\<close>

text \<open>
  \<^verbatim>\<open>copyMANAGEMENT\<close> of \<^verbatim>\<open>src/sigTlvs.cpp\<close>: a copy of data of another structure than that of the
  identifier, or of no data, has no identifier.
\<close>

definition copyMANAGEMENT :: "MANAGEMENT_t \<Rightarrow> MANAGEMENT_t" where
  "copyMANAGEMENT src =
     (let tlv = (case tlvData src of None \<Rightarrow> None
                 | Some t \<Rightarrow> if tlv_type t = MANAGEMENT_t.managementId src then Some t else None)
      in \<lparr>MANAGEMENT_t.managementId =
            (if tlv = None then NULL_PTP_MANAGEMENT else MANAGEMENT_t.managementId src),
          tlvData = tlv\<rparr>)"

text \<open>The \<^verbatim>\<open>switch\<close> of the copy constructor: the structure of a type, as the object has it.\<close>

fun sig_fits :: "tlvType_e \<Rightarrow> BaseSigTlv \<Rightarrow> bool" where
  "sig_fits ty (MANAGEMENT_v d) = (ty = MANAGEMENT)"
| "sig_fits ty (MANAGEMENT_ERROR_STATUS_v d) = (ty = MANAGEMENT_ERROR_STATUS)"
| "sig_fits ty (ORGANIZATION_EXTENSION_v d) = (ty = ORGANIZATION_EXTENSION_PROPAGATE \<or>
     ty = ORGANIZATION_EXTENSION_DO_NOT_PROPAGATE \<or> ty = ORGANIZATION_EXTENSION)"
| "sig_fits ty (PATH_TRACE_v d) = (ty = PATH_TRACE)"
| "sig_fits ty (ALTERNATE_TIME_OFFSET_INDICATOR_v d) = (ty = ALTERNATE_TIME_OFFSET_INDICATOR)"
| "sig_fits ty (ENHANCED_ACCURACY_METRICS_v d) = (ty = ENHANCED_ACCURACY_METRICS)"
| "sig_fits ty (L1_SYNC_v d) = (ty = L1_SYNC)"
| "sig_fits ty (PORT_COMMUNICATION_AVAILABILITY_v d) = (ty = PORT_COMMUNICATION_AVAILABILITY)"
| "sig_fits ty (PROTOCOL_ADDRESS_v d) = (ty = PROTOCOL_ADDRESS)"
| "sig_fits ty (SLAVE_RX_SYNC_TIMING_DATA_v d) = (ty = SLAVE_RX_SYNC_TIMING_DATA)"
| "sig_fits ty (SLAVE_RX_SYNC_COMPUTED_DATA_v d) = (ty = SLAVE_RX_SYNC_COMPUTED_DATA)"
| "sig_fits ty (SLAVE_TX_EVENT_TIMESTAMPS_v d) = (ty = SLAVE_TX_EVENT_TIMESTAMPS)"
| "sig_fits ty (CUMULATIVE_RATE_RATIO_v d) = (ty = CUMULATIVE_RATE_RATIO)"
| "sig_fits ty (SLAVE_DELAY_TIMING_DATA_NP_v d) = (ty = SLAVE_DELAY_TIMING_DATA_NP)"

definition copy_tlv :: "BaseSigTlv \<Rightarrow> BaseSigTlv" where
  "copy_tlv t = (case as_MANAGEMENT t of None \<Rightarrow> t | Some d \<Rightarrow> MANAGEMENT_v (copyMANAGEMENT d))"

definition copy_MessageSigTlv :: "tlvType_e \<times> BaseSigTlv option \<Rightarrow> tlvType_e \<times> BaseSigTlv option" where
  "copy_MessageSigTlv src =
     (case src of (ty, None) \<Rightarrow> (0, None)
      | (ty, Some t) \<Rightarrow> if sig_fits ty t then (ty, Some (copy_tlv t)) else (0, None))"

text \<open>The object and the one it is moved from.\<close>

definition move_MessageSigTlv :: "tlvType_e \<times> BaseSigTlv option \<Rightarrow>
    (tlvType_e \<times> BaseSigTlv option) \<times> (tlvType_e \<times> BaseSigTlv option)" where
  "move_MessageSigTlv src = (src, (0, None))"

definition copy_MessageSigTlvs :: "MessageSigTlvs \<Rightarrow> bool \<times> (tlvType_e \<times> BaseSigTlv option) list" where
  "copy_MessageSigTlvs src =
     (let l = (m_lastSig src \<and> m_tlvs src \<noteq> [])
      in (l, if l then map (\<lambda>(ty, t). copy_MessageSigTlv (ty, Some t)) (m_tlvs src) else []))"

definition move_MessageSigTlvs :: "MessageSigTlvs \<Rightarrow> MessageSigTlvs \<times> MessageSigTlvs" where
  "move_MessageSigTlvs src =
     (if m_lastSig src \<and> m_tlvs src \<noteq> []
      then (\<lparr>m_lastSig = True, m_tlvs = m_tlvs src\<rparr>, \<lparr>m_lastSig = False, m_tlvs = []\<rparr>)
      else (\<lparr>m_lastSig = False, m_tlvs = []\<rparr>, \<lparr>m_lastSig = False, m_tlvs = []\<rparr>))"

subsection \<open>Flags and types of the last message\<close>

definition F_LI_61 :: uint8_t where "F_LI_61 = 0x01"
definition F_LI_59 :: uint8_t where "F_LI_59 = 0x02"
definition F_UTCV :: uint8_t where "F_UTCV = 0x04"
definition F_PTP :: uint8_t where "F_PTP = 0x08"
definition F_TTRA :: uint8_t where "F_TTRA = 0x10"
definition F_FTRA :: uint8_t where "F_FTRA = 0x20"

definition is_LI_61 :: "uint8_t \<Rightarrow> bool" where "is_LI_61 f \<longleftrightarrow> f AND F_LI_61 > 0"
definition is_LI_59 :: "uint8_t \<Rightarrow> bool" where "is_LI_59 f \<longleftrightarrow> f AND F_LI_59 > 0"
definition is_UTCV :: "uint8_t \<Rightarrow> bool" where "is_UTCV f \<longleftrightarrow> f AND F_UTCV > 0"
definition is_PTP :: "uint8_t \<Rightarrow> bool" where "is_PTP f \<longleftrightarrow> f AND F_PTP > 0"
definition is_TTRA :: "uint8_t \<Rightarrow> bool" where "is_TTRA f \<longleftrightarrow> f AND F_TTRA > 0"
definition is_FTRA :: "uint8_t \<Rightarrow> bool" where "is_FTRA f \<longleftrightarrow> f AND F_FTRA > 0"

definition isLastMsgSig :: "Message \<Rightarrow> bool" where
  "isLastMsgSig m \<longleftrightarrow> m_type m = Signaling"

definition isLastMsgSMPTE :: "Message \<Rightarrow> bool" where
  "isLastMsgSMPTE m \<longleftrightarrow> m_type m = Management \<and> m_mngType m = ORGANIZATION_EXTENSION \<and>
     m_replayTlv_id m = SMPTE_MNG_ID"

definition setAllClocks :: "Message \<Rightarrow> Message" where
  "setAllClocks m =
     m\<lparr>m_prms := (m_prms m)\<lparr>target := \<lparr>PortIdentity_t.clockIdentity = allClocks, PortIdentity_t.portNumber = allPorts\<rparr>\<rparr>\<rparr>"

definition isAllClocks :: "Message \<Rightarrow> bool" where
  "isAllClocks m \<longleftrightarrow> PortIdentity_t.portNumber (target (m_prms m)) = allPorts \<and>
     ci_v (PortIdentity_t.clockIdentity (target (m_prms m))) = ci_v allClocks"

subsection \<open>What the user sees\<close>

lemma traverse_visits:
  "traverse_loop (\<lambda>ty t vis. (p ty t, vis @ [(ty, t)])) xs vis =
     ((\<exists>(ty, t) \<in> set xs. p ty t),
      vis @ takeWhile (\<lambda>(ty, t). \<not> p ty t) xs @ take 1 (dropWhile (\<lambda>(ty, t). \<not> p ty t) xs))"
  by (induction xs arbitrary: vis) auto

lemma copy_tlv_valid: "sig_valid spec ty t \<Longrightarrow> copy_tlv t = t"
  by (cases t) (auto simp: copy_tlv_def copyMANAGEMENT_def split: option.splits)

lemma sig_valid_fits: "sig_valid spec ty t \<Longrightarrow> sig_fits ty t"
  by (cases t) auto

lemma copy_valid:
  assumes "\<forall>(ty, t) \<in> set (m_tlvs s). sig_valid spec ty t" "m_lastSig s"
  shows "copy_MessageSigTlvs s = (m_tlvs s \<noteq> [], map (\<lambda>(ty, t). (ty, Some t)) (m_tlvs s))"
proof -
  have "copy_MessageSigTlv (ty, Some t) = (ty, Some t)" if "(ty, t) \<in> set (m_tlvs s)" for ty t
    using assms(1) that copy_tlv_valid sig_valid_fits by (fastforce simp: copy_MessageSigTlv_def)
  then show ?thesis
    using assms(2) by (auto simp: copy_MessageSigTlvs_def Let_def)
qed

lemma copy_loses_identifier:
  "copy_MessageSigTlv (MANAGEMENT, Some (MANAGEMENT_v \<lparr>MANAGEMENT_t.managementId = i, tlvData = None\<rparr>)) =
     (MANAGEMENT, Some (MANAGEMENT_v \<lparr>MANAGEMENT_t.managementId = NULL_PTP_MANAGEMENT, tlvData = None\<rparr>))"
  by (simp add: copy_MessageSigTlv_def copy_tlv_def copyMANAGEMENT_def)

lemma parts_sigTlvs:
  "m_sigTlvs (snd (parse_error_status m buf a n e)) = m_sigTlvs m"
  "m_sigTlvs (snd (parse_management env m buf a n e)) = m_sigTlvs m"
  "m_sigTlvs (snd (parse_smpte env m buf a n e)) = m_sigTlvs m"
  by (auto simp: parse_error_status_def parse_management_def parse_smpte_def Let_def
      split: option.splits prod.splits)

lemma parseMng_sigTlvs:
  "m_sigTlvs (snd (parseMng env m buf n)) = (m_sigTlvs m)\<lparr>m_lastSig := False\<rparr>"
proof -
  define m1 where "m1 = m\<lparr>m_sigTlvs := (m_sigTlvs m)\<lparr>m_lastSig := False\<rparr>\<rparr>"
  define m2 where "m2 = m1\<lparr>m_mngType := rd16 buf 48\<rparr>"
  have "m_sigTlvs m1 = (m_sigTlvs m)\<lparr>m_lastSig := False\<rparr>" "m_sigTlvs m2 = (m_sigTlvs m)\<lparr>m_lastSig := False\<rparr>"
    by (simp_all add: m1_def m2_def)
  then show ?thesis
    unfolding parseMng_def Let_def m1_def [symmetric] m2_def [symmetric]
    by (simp add: parts_sigTlvs split: if_split)
qed

end
