(* ===== verification/Json_Lex.thy ===== *)
theory Json_Lex
  imports Cfg_Line "HOL-Library.Char_ord" "HOL-Library.List_Lexorder"
begin

unbundle bit_operations_syntax

text \<open>
  The class \<^verbatim>\<open>jsonParser\<close> of \<^verbatim>\<open>src/jsonParser.cpp\<close> on a text in memory: white space, comments, tokens,
  strings and numbers. The pointer \<^verbatim>\<open>cur\<close> is the text that is left; the terminating zero of the text
  is the end of the list, so \<^verbatim>\<open>isEOF\<close> is the empty list. A function that fails gives \<open>None\<close>: the
  program stops then, and nothing reads the pointer again. The number of the line is not kept,
  since nothing reads it. Code points are natural numbers below \<open>2 ^ 21\<close>, where no operation of the
  code wraps.
\<close>

datatype e_token =
    JSON_OBJ_STA | JSON_OBJ_END | JSON_ARR_STA | JSON_ARR_END | JSON_VAL_SEP | JSON_NAM_SEP
  | JSON_STR | JSON_NUM | JSON_TRUE | JSON_FALSE | JSON_NULL | JSON_EOF | JSON_INV

definition CR :: char where
  "CR = CHR 0x0D"

definition TAB :: char where
  "TAB = CHR 0x09"

definition DQ :: char where
  "DQ = CHR 0x22"

definition BS :: char where
  "BS = CHR 0x5C"

definition skipBOM :: "string \<Rightarrow> string" where
  "skipBOM cur = (if take 3 cur = [CHR 0xEF, CHR 0xBB, CHR 0xBF] then drop 3 cur else cur)"

definition json_ws :: "char \<Rightarrow> bool" where
  "json_ws c \<longleftrightarrow> c = LF \<or> c = CR \<or> c = TAB \<or> c = CHR '' ''"

definition skip_ws :: "string \<Rightarrow> string" where
  "skip_ws cur = dropWhile json_ws cur"

text \<open>The loop of a comment that needs closing; \<open>star\<close> is \<^verbatim>\<open>haveCloseStar\<close>.\<close>

fun closeComment :: "bool \<Rightarrow> string \<Rightarrow> string option" where
  "closeComment star [] = None"
| "closeComment star (c # r) =
     (if c = CHR ''*'' then closeComment True r
      else if c = CHR ''/'' then if star then Some r else closeComment star r
      else closeComment False r)"

definition skipComments :: "string \<Rightarrow> string option" where
  "skipComments cur =
     (case tl cur of
        [] \<Rightarrow> None
      | c # r \<Rightarrow>
          if c = CHR ''/'' then Some (dropWhile (\<lambda>c. c \<noteq> LF) r)
          else if c = CHR ''*'' then closeComment False r
          else None)"

subsection \<open>Tokens\<close>

text \<open>The characters of \<^verbatim>\<open>strchr\<close> that end a keyword or a number.\<close>

definition ends_value :: "char \<Rightarrow> bool" where
  "ends_value c \<longleftrightarrow> c = CHR '']'' \<or> c = CHR ''}'' \<or> c = CHR '','' \<or> json_ws c"

definition lower :: "char \<Rightarrow> bool" where
  "lower c \<longleftrightarrow> CHR ''a'' \<le> c \<and> c \<le> CHR ''z''"

definition keyword :: "string \<Rightarrow> e_token" where
  "keyword key =
     (if key = ''true'' then JSON_TRUE
      else if key = ''false'' then JSON_FALSE
      else if key = ''null'' then JSON_NULL
      else JSON_INV)"

fun getKey :: "string \<Rightarrow> string \<Rightarrow> e_token \<times> string" where
  "getKey key [] = (keyword key, [])"
| "getKey key (c # r) =
     (if ends_value c then (keyword key, c # r)
      else if \<not> lower c then (JSON_INV, c # r)
      else getKey (key @ [c]) r)"

lemma closeComment_shorter: "closeComment s r = Some r' \<Longrightarrow> length r' < length r"
  by (induction s r rule: closeComment.induct) (auto split: if_splits)

lemma skipComments_shorter: "skipComments cur = Some r \<Longrightarrow> length r < length cur"
proof -
  assume a: "skipComments cur = Some r"
  then obtain c t where "cur = c # t" "t \<noteq> []"
    by (cases cur) (auto simp: skipComments_def split: list.splits)
  then show ?thesis
    using a closeComment_shorter length_dropWhile_le [of "\<lambda>c. c \<noteq> LF" "tl t"]
    by (cases t) (fastforce simp: skipComments_def split: if_splits)+
qed

lemma skip_ws_le: "length (skip_ws cur) \<le> length cur"
  by (simp add: skip_ws_def length_dropWhile_le)

text \<open>\<^verbatim>\<open>getToken\<close>: only keywords move the pointer behind the token.\<close>

function getToken :: "bool \<Rightarrow> string \<Rightarrow> e_token \<times> string" where
  "getToken useComments cur =
     (case skip_ws cur of
        [] \<Rightarrow> (JSON_EOF, [])
      | c # r \<Rightarrow>
          if c = CHR ''{'' then (JSON_OBJ_STA, c # r)
          else if c = CHR ''}'' then (JSON_OBJ_END, c # r)
          else if c = CHR ''['' then (JSON_ARR_STA, c # r)
          else if c = CHR '']'' then (JSON_ARR_END, c # r)
          else if c = CHR '','' then (JSON_VAL_SEP, c # r)
          else if c = CHR '':'' then (JSON_NAM_SEP, c # r)
          else if c = DQ then (JSON_STR, c # r)
          else if c = CHR ''-'' then (JSON_NUM, c # r)
          else if c = CHR ''/'' then
            if \<not> useComments then (JSON_INV, c # r)
            else (case skipComments (c # r) of
                    None \<Rightarrow> (JSON_INV, c # r)
                  | Some r' \<Rightarrow> getToken useComments r')
          else if isdigit c then (JSON_NUM, c # r)
          else if lower c then getKey [] (c # r)
          else (JSON_INV, c # r))"
  by pat_completeness auto
termination
proof (relation "measure (\<lambda>(u, cur). length cur)")
  fix u cur c r r'
  assume "skip_ws cur = c # r" "skipComments (c # r) = Some r'"
  then show "((u, r'), u, cur) \<in> measure (\<lambda>(u, cur). length cur)"
    using skip_ws_le [of cur] skipComments_shorter by fastforce
qed simp

declare getToken.simps [simp del]

text \<open>\<^verbatim>\<open>closeTk\<close>\<close>

definition closeTk :: "string \<Rightarrow> string" where
  "closeTk cur = tl cur"

subsection \<open>Strings\<close>

text \<open>Four hexadecimal digits.\<close>

definition uToVal :: "string \<Rightarrow> (nat \<times> string) option" where
  "uToVal cur =
     (if length cur < 4 \<or> (\<exists>c \<in> set (take 4 cur). hexval c = None) then None
      else Some (hex_nat (take 4 cur), drop 4 cur))"

text \<open>The octets that a code point adds.\<close>

definition utf8 :: "nat \<Rightarrow> string" where
  "utf8 val =
     (if val < 0x80 then [char_of (val AND 0x7f)]
      else if val < 0x800 then
        [char_of (0xc0 OR (0x1f AND drop_bit 6 val)), char_of (0x80 OR (0x3f AND val))]
      else if val < 0x10000 then
        [char_of (0xe0 OR (0xf AND drop_bit 12 val)), char_of (0x80 OR (0x3f AND drop_bit 6 val)),
         char_of (0x80 OR (0x3f AND val))]
      else
        [char_of (0xf0 OR (0x7 AND drop_bit 18 val)), char_of (0x80 OR (0x3f AND drop_bit 12 val)),
         char_of (0x80 OR (0x3f AND drop_bit 6 val)), char_of (0x80 OR (0x3f AND val))])"

text \<open>
  \<^verbatim>\<open>uProc\<close>: \<open>sur\<close> is the first value of a surrogate pair, \<open>None\<close> when \<^verbatim>\<open>useSur\<close> is false. The octets
  to add, the new state and the text behind.
\<close>

definition uProc :: "nat option \<Rightarrow> string \<Rightarrow> (string \<times> nat option \<times> string) option" where
  "uProc sur cur =
     (case uToVal cur of
        None \<Rightarrow> None
      | Some (val16, r) \<Rightarrow>
          (case sur of
             Some W1 \<Rightarrow>
               if val16 \<ge> 0xe000 \<or> val16 < 0xdc00 then None
               else Some (utf8 ((push_bit 10 W1 OR ((val16 - 0xdc00) AND 0x3ff)) + 0x10000), None, r)
           | None \<Rightarrow>
               if val16 < 0xd800 \<or> val16 \<ge> 0xe000 then Some (utf8 val16, None, r)
               else if val16 < 0xdc00 then Some ([], Some ((val16 - 0xd800) AND 0x3ff), r)
               else None))"

text \<open>\<^verbatim>\<open>checkUTF8\<close>: the octets of one character and the text behind them.\<close>

definition utf8_more :: "char \<Rightarrow> bool" where
  "utf8_more c \<longleftrightarrow> (let a = of_char c :: nat in 0x80 \<le> a \<and> a < 0xc0)"

definition checkUTF8 :: "string \<Rightarrow> (string \<times> string) option" where
  "checkUTF8 cur =
     (case cur of
        [] \<Rightarrow> None
      | c # r \<Rightarrow>
          let val8 = of_char c :: nat;
              e = (if val8 < 0xc0 then 0 else if val8 < 0xe0 then 1 else if val8 < 0xf0 then 2 else 3)
          in if 0x80 \<le> val8 \<and> val8 < 0xc0 then None
             else if length r < e \<or> \<not> list_all utf8_more (take e r) then None
             else Some (c # take e r, drop e r))"

lemma uToVal_shorter: "uToVal cur = Some (v, r) \<Longrightarrow> length r < length cur"
  by (auto simp: uToVal_def split: if_splits)

lemma uProc_shorter: "uProc sur cur = Some (s, sur', r) \<Longrightarrow> length r < length cur"
  by (auto simp: uProc_def uToVal_shorter split: option.splits if_splits prod.splits)

lemma checkUTF8_shorter: "checkUTF8 cur = Some (s, r) \<Longrightarrow> length r < length cur"
  by (auto simp: checkUTF8_def Let_def split: list.splits if_splits)

text \<open>The character a short escape stands for.\<close>

definition unescape :: "char \<Rightarrow> char option" where
  "unescape c =
     (if c = DQ \<or> c = BS \<or> c = CHR ''/'' then Some c
      else if c = CHR ''b'' then Some CHR 0x08
      else if c = CHR ''f'' then Some CHR 0x0C
      else if c = CHR ''n'' then Some LF
      else if c = CHR ''r'' then Some CR
      else if c = CHR ''t'' then Some TAB
      else None)"

function getStr_loop :: "string \<Rightarrow> nat option \<Rightarrow> string \<Rightarrow> (string \<times> string) option" where
  "getStr_loop ret sur cur =
     (case cur of
        [] \<Rightarrow> None
      | c # r \<Rightarrow>
          if sur \<noteq> None \<and> c \<noteq> BS then None
          else if c = DQ then Some (ret, r)
          else if c = BS then
            (case r of
               [] \<Rightarrow> None
             | d # r1 \<Rightarrow>
                 if sur \<noteq> None \<and> d \<noteq> CHR ''u'' then None
                 else if d = CHR ''u'' then
                   (case uProc sur r1 of
                      None \<Rightarrow> None
                    | Some (s, sur', r2) \<Rightarrow> getStr_loop (ret @ s) sur' r2)
                 else
                   (case unescape d of
                      None \<Rightarrow> None
                    | Some x \<Rightarrow> getStr_loop (ret @ [x]) sur r1))
          else
            (case checkUTF8 cur of
               None \<Rightarrow> None
             | Some (s, r1) \<Rightarrow> getStr_loop (ret @ s) sur r1))"
  by pat_completeness auto
termination
  by (relation "measure (\<lambda>(ret, sur, cur). length cur)") (auto dest: uProc_shorter checkUTF8_shorter)

declare getStr_loop.simps [simp del]

definition getStr :: "string \<Rightarrow> (string \<times> string) option" where
  "getStr cur = getStr_loop [] None (tl cur)"

subsection \<open>Numbers\<close>

text \<open>The variables of the loop of \<^verbatim>\<open>getNum\<close>; \<^verbatim>\<open>locZero\<close> does not change in it.\<close>

record num_loop =
  nl_ret :: string
  nl_dot :: nat
  nl_e :: nat
  nl_haveZero :: bool
  nl_lastNotDigit :: bool
  nl_zeroProhib :: bool
  nl_loc :: nat

text \<open>One character of a number; a sign plus is left out of the text.\<close>

definition num_put :: "char \<Rightarrow> num_loop \<Rightarrow> num_loop" where
  "num_put c st = (if c \<noteq> CHR ''+'' then st\<lparr>nl_ret := nl_ret st @ [c], nl_loc := nl_loc st + 1\<rparr> else st)"

definition num_step :: "nat \<Rightarrow> char \<Rightarrow> num_loop \<Rightarrow> num_loop option" where
  "num_step locZero c st =
     (if c = CHR ''e'' \<or> c = CHR ''E'' then
        if nl_e st > 0 \<or> nl_lastNotDigit st then None
        else Some (num_put c (st\<lparr>nl_e := nl_loc st, nl_haveZero := False, nl_zeroProhib := True,
               nl_lastNotDigit := True\<rparr>))
      else if c = CHR ''.'' then
        if nl_e st > 0 \<or> nl_dot st > 0 \<or> nl_lastNotDigit st then None
        else Some (num_put c (st\<lparr>nl_dot := nl_loc st, nl_haveZero := False, nl_zeroProhib := False,
               nl_lastNotDigit := True\<rparr>))
      else if c = CHR ''+'' \<or> c = CHR ''-'' then
        if nl_e st = 0 \<or> nl_loc st \<noteq> nl_e st + 1 then None
        else Some (num_put c (st\<lparr>nl_zeroProhib := True, nl_lastNotDigit := True\<rparr>))
      else if \<not> isdigit c \<or> nl_haveZero st \<and> nl_loc st > locZero \<or> c = CHR ''0'' \<and> nl_zeroProhib st
      then None
      else Some (num_put c (st\<lparr>nl_zeroProhib := False, nl_lastNotDigit := False\<rparr>)))"

fun getNum_loop :: "nat \<Rightarrow> num_loop \<Rightarrow> string \<Rightarrow> (string \<times> nat \<times> nat \<times> string) option" where
  "getNum_loop locZero st [] =
     (if nl_lastNotDigit st then None else Some (nl_ret st, nl_dot st, nl_e st, []))"
| "getNum_loop locZero st (c # r) =
     (if ends_value c then
        if nl_lastNotDigit st then None else Some (nl_ret st, nl_dot st, nl_e st, c # r)
      else
        (case num_step locZero c st of
           None \<Rightarrow> None
         | Some st' \<Rightarrow> getNum_loop locZero st' r))"

definition getNum :: "string \<Rightarrow> (string \<times> nat \<times> nat \<times> string) option" where
  "getNum cur =
     (case cur of
        [] \<Rightarrow> None
      | first # r \<Rightarrow>
          let st = \<lparr>nl_ret = [first], nl_dot = 0, nl_e = 0, nl_haveZero = False, nl_lastNotDigit = False,
                    nl_zeroProhib = False, nl_loc = 1\<rparr>
          in if first = CHR ''0'' then
               getNum_loop 0 (st\<lparr>nl_haveZero := True, nl_zeroProhib := True\<rparr>) r
             else if first = CHR ''-'' then
               if r = [] then None
               else if hd r = CHR ''0''
               then getNum_loop 1 (st\<lparr>nl_haveZero := True, nl_lastNotDigit := True\<rparr>) r
               else getNum_loop 0 (st\<lparr>nl_lastNotDigit := True\<rparr>) r
             else if \<not> isdigit first then None
             else getNum_loop 0 st r)"

subsection \<open>What the pointer does\<close>

lemma getKey_le: "getKey k cur = (tk, r) \<Longrightarrow> length r \<le> length cur"
  by (induction k cur rule: getKey.induct) (auto split: if_splits)

lemma getToken_comment:
  assumes "skip_ws cur = CHR ''/'' # r" "u" "skipComments (CHR ''/'' # r) = Some r'"
  shows "getToken u cur = getToken u r'"
  using assms unfolding getToken.simps [of u cur] by (simp add: DQ_def)

lemma getToken_at:
  assumes "skip_ws cur = c # r" "\<not> (c = CHR ''/'' \<and> u \<and> skipComments (c # r) \<noteq> None)"
  shows "\<exists>tk. getToken u cur = (tk, c # r) \<or> getToken u cur = getKey [] (c # r)"
  using assms by (simp add: getToken.simps [of u cur])

text \<open>What holds at the end of comments holds of the token.\<close>

lemma getToken_induct:
  assumes eof: "\<And>cur. skip_ws cur = [] \<Longrightarrow> P cur (JSON_EOF, [])"
    and at: "\<And>cur c r t. skip_ws cur = c # r \<Longrightarrow> getToken u cur = t \<Longrightarrow>
      (\<exists>tk. t = (tk, c # r)) \<or> t = getKey [] (c # r) \<Longrightarrow> P cur t"
    and comment: "\<And>cur r r' t. skip_ws cur = CHR ''/'' # r \<Longrightarrow> skipComments (CHR ''/'' # r) = Some r' \<Longrightarrow> P r' t \<Longrightarrow> P cur t"
  shows "P cur (getToken u cur)"
proof (induction "length cur" arbitrary: cur rule: less_induct)
  case less
  show ?case
  proof (cases "skip_ws cur")
    case Nil
    then show ?thesis
      using eof by (simp add: getToken.simps [of u cur])
  next
    case (Cons c r)
    show ?thesis
    proof (cases "c = CHR ''/'' \<and> u \<and> skipComments (c # r) \<noteq> None")
      case True
      then obtain r' where r: "skipComments (CHR ''/'' # r) = Some r'"
        by auto
      then have "length r' < length cur"
        using skipComments_shorter [OF r] skip_ws_le [of cur] Cons True by simp
      then show ?thesis
        using less comment [of cur r r'] getToken_comment [of cur r u r'] Cons True r by simp
    next
      case False
      then show ?thesis
        using at [OF Cons refl] getToken_at [OF Cons False] by blast
    qed
  qed
qed

lemma getToken_le: "length (snd (getToken u cur)) \<le> length cur"
proof (rule getToken_induct)
  fix cur c r t
  assume "skip_ws cur = c # r" "(\<exists>tk. t = (tk, c # r)) \<or> t = getKey [] (c # r)"
  then show "length (snd t) \<le> length cur"
    using skip_ws_le [of cur] getKey_le [of "[]" "c # r" "fst t" "snd t"] by auto
next
  fix cur r r' and t :: "e_token \<times> string"
  assume "skip_ws cur = CHR ''/'' # r" "skipComments (CHR ''/'' # r) = Some r'" "length (snd t) \<le> length r'"
  then show "length (snd t) \<le> length cur"
    using skip_ws_le [of cur] skipComments_shorter by fastforce
qed simp

text \<open>A token other than a keyword stands at the pointer.\<close>

lemma keyword_tokens: "keyword k \<in> {JSON_TRUE, JSON_FALSE, JSON_NULL, JSON_INV}"
  by (simp add: keyword_def)

lemma getKey_tokens: "getKey k cur = (tk, r) \<Longrightarrow> tk \<in> {JSON_TRUE, JSON_FALSE, JSON_NULL, JSON_INV}"
  using keyword_tokens by (induction k cur rule: getKey.induct) (auto split: if_splits simp del: insert_iff)

definition stays :: "e_token \<Rightarrow> bool" where
  "stays tk \<longleftrightarrow> tk \<notin> {JSON_TRUE, JSON_FALSE, JSON_NULL, JSON_INV, JSON_EOF}"

lemma getToken_stays: "stays (fst (getToken u cur)) \<Longrightarrow> snd (getToken u cur) \<noteq> []"
proof (rule getToken_induct [of "\<lambda>_ t. stays (fst t) \<longrightarrow> snd t \<noteq> []", THEN mp])
  fix cur c r and t :: "e_token \<times> string"
  assume "(\<exists>tk. t = (tk, c # r)) \<or> t = getKey [] (c # r)"
  then show "stays (fst t) \<longrightarrow> snd t \<noteq> []"
    using getKey_tokens [of "[]" "c # r" "fst t" "snd t"] by (auto simp: stays_def)
qed (simp_all add: stays_def)

lemma getStr_loop_le: "getStr_loop ret sur cur = Some (s, r) \<Longrightarrow> length r < length cur"
proof (induction "length cur" arbitrary: ret sur cur rule: less_induct)
  case less
  have step: "length r < length cur" if "getStr_loop ret' sur' r1 = Some (s, r)" "length r1 < length cur" for ret' sur' r1
    using less.hyps [OF that(2,1)] that(2) by simp
  show ?case
    using less.prems step uProc_shorter checkUTF8_shorter
    by (subst (asm) getStr_loop.simps) (auto split: list.splits if_splits option.splits prod.splits; fastforce)
qed

lemma getNum_loop_le: "getNum_loop z st cur = Some (s, d, e, r) \<Longrightarrow> length r \<le> length cur"
  by (induction z st cur rule: getNum_loop.induct) (auto split: if_splits option.splits)

lemma getNum_le: "getNum cur = Some (s, d, e, r) \<Longrightarrow> length r \<le> length cur"
  by (auto simp: getNum_def Let_def dest!: getNum_loop_le split: list.splits if_splits)

end
