(* ===== verification/Json_Value.thy ===== *)
theory Json_Value
  imports Json_Lex
begin

unbundle bit_operations_syntax

text \<open>
  JSON values of \<^verbatim>\<open>src/jsonParser.cpp\<close>: the classes \<^verbatim>\<open>jsonValue\<close>, \<^verbatim>\<open>jsonObject\<close> and
  \<^verbatim>\<open>jsonArray\<close>, parsing and printing them, and \<^verbatim>\<open>jsonMain\<close>. The parser calls itself for the values
  inside objects and arrays; it ends because a value that was parsed leaves no more text than there was.
\<close>

datatype e_type = t_non | t_string | t_number | t_boolean | t_null | t_object | t_array

text \<open>
  A number keeps its text and the places of the point and of the exponent. The members of an object
  are a \<^verbatim>\<open>std::multimap\<close>: in the order of the keys, and of insertion for equal keys.
\<close>

datatype jsonValueBase =
    jString string
  | jNumber string nat nat
  | jBoolean bool
  | jNull
  | jObject "(string \<times> jsonValueBase) list"
  | jArray "jsonValueBase list"

fun jsonGetType :: "jsonValueBase \<Rightarrow> e_type" where
  "jsonGetType (jString s) = t_string"
| "jsonGetType (jNumber s d e) = t_number"
| "jsonGetType (jBoolean b) = t_boolean"
| "jsonGetType jNull = t_null"
| "jsonGetType (jObject ms) = t_object"
| "jsonGetType (jArray es) = t_array"

definition insert_member :: "string \<Rightarrow> jsonValueBase \<Rightarrow> (string \<times> jsonValueBase) list \<Rightarrow>
    (string \<times> jsonValueBase) list" where
  "insert_member key e ms =
     takeWhile (\<lambda>m. fst m \<le> key) ms @ (key, e) # dropWhile (\<lambda>m. fst m \<le> key) ms"

subsection \<open>Parsing\<close>

text \<open>
  \<^verbatim>\<open>ParserCreate\<close> with \<^verbatim>\<open>parserVal\<close> of the object it makes, and the loops of the members of an object
  and of the elements of an array: the value and the text behind it.
\<close>

function parserVal :: "bool \<Rightarrow> e_token \<Rightarrow> string \<Rightarrow> (jsonValueBase \<times> string) option"
  and objLoop :: "bool \<Rightarrow> (string \<times> jsonValueBase) list \<Rightarrow> string \<Rightarrow> (jsonValueBase \<times> string) option"
  and arrLoop :: "bool \<Rightarrow> jsonValueBase list \<Rightarrow> e_token \<Rightarrow> string \<Rightarrow> (jsonValueBase \<times> string) option"
where
  "parserVal u tk cur =
     (case tk of
        JSON_OBJ_STA \<Rightarrow>
          (case getToken u (tl cur) of (tk1, cur1) \<Rightarrow>
             if tk1 = JSON_OBJ_END then Some (jObject [], closeTk cur1) else objLoop u [] cur1)
      | JSON_ARR_STA \<Rightarrow>
          (case getToken u (tl cur) of (tk1, cur1) \<Rightarrow>
             if tk1 = JSON_ARR_END then Some (jArray [], closeTk cur1) else arrLoop u [] tk1 cur1)
      | JSON_STR \<Rightarrow> (case getStr cur of None \<Rightarrow> None | Some (s, r) \<Rightarrow> Some (jString s, r))
      | JSON_NUM \<Rightarrow> (case getNum cur of None \<Rightarrow> None | Some (s, d, e, r) \<Rightarrow> Some (jNumber s d e, r))
      | JSON_TRUE \<Rightarrow> Some (jBoolean True, cur)
      | JSON_FALSE \<Rightarrow> Some (jBoolean False, cur)
      | JSON_NULL \<Rightarrow> Some (jNull, cur)
      | _ \<Rightarrow> None)"
| "objLoop u ms cur =
     (case getToken u cur of (tk1, cur1) \<Rightarrow>
      if tk1 \<noteq> JSON_STR then None
      else
        (case getStr cur1 of
           None \<Rightarrow> None
         | Some (key, cur2) \<Rightarrow>
             (case getToken u cur2 of (tk3, cur3) \<Rightarrow>
              if tk3 \<noteq> JSON_NAM_SEP then None
              else
                (case getToken u (closeTk cur3) of (tk4, cur4) \<Rightarrow>
                 (case parserVal u tk4 cur4 of
                    None \<Rightarrow> None
                  | Some (e, cur5) \<Rightarrow>
                      (case getToken u cur5 of (tk6, cur6) \<Rightarrow>
                       if tk6 = JSON_OBJ_END then Some (jObject (insert_member key e ms), closeTk cur6)
                       else if tk6 = JSON_VAL_SEP then objLoop u (insert_member key e ms) (closeTk cur6)
                       else None))))))"
| "arrLoop u es tk cur =
     (case parserVal u tk cur of
        None \<Rightarrow> None
      | Some (e, cur1) \<Rightarrow>
          (case getToken u cur1 of (tk2, cur2) \<Rightarrow>
           if tk2 = JSON_ARR_END then Some (jArray (es @ [e]), closeTk cur2)
           else if tk2 = JSON_VAL_SEP then
             (case getToken u (closeTk cur2) of (tk3, cur3) \<Rightarrow> arrLoop u (es @ [e]) tk3 cur3)
           else None))"
  by pat_completeness auto

lemma getToken_shorter:
  assumes "getToken u cur = (tk, r)"
  shows "length r \<le> length cur" "stays tk \<Longrightarrow> 0 < length r"
  using getToken_le [of u cur] getToken_stays [of u cur] assms by simp_all

lemma closeTk_le: "length (closeTk r) \<le> length r - 1"
  by (simp add: closeTk_def)

lemma getStr_le: "getStr cur = Some (s, r) \<Longrightarrow> length r < length cur"
  using getStr_loop_le [of "[]" None "tl cur"] by (fastforce simp: getStr_def)

lemma stays_simps [simp]: "stays JSON_NAM_SEP" "stays JSON_VAL_SEP" "stays JSON_STR" "stays JSON_OBJ_END" "stays JSON_ARR_END"
  by (simp_all add: stays_def)

lemma parser_le:
  "parserVal_objLoop_arrLoop_dom (Inl (u, tk, cur)) \<Longrightarrow>
     (\<And>v r. parserVal u tk cur = Some (v, r) \<Longrightarrow> length r \<le> length cur)"
  "parserVal_objLoop_arrLoop_dom (Inr (Inl (u, ms, cur))) \<Longrightarrow>
     (\<And>v r. objLoop u ms cur = Some (v, r) \<Longrightarrow> length r \<le> length cur)"
  "parserVal_objLoop_arrLoop_dom (Inr (Inr (u, es, tk, cur))) \<Longrightarrow>
     (\<And>v r. arrLoop u es tk cur = Some (v, r) \<Longrightarrow> length r \<le> length cur)"
proof (induction rule: parserVal_objLoop_arrLoop.pinduct)
  case (1 u tk cur)
  obtain tk1 cur1 where t: "getToken u (tl cur) = (tk1, cur1)"
    by fastforce
  have "length cur1 \<le> length cur" "length (closeTk cur1) \<le> length cur"
    using getToken_shorter(1) [OF t] closeTk_le [of cur1] by simp_all
  then show ?case
    using 1 t getStr_le [of cur] getNum_le [of cur]
    by (fastforce simp: parserVal.psimps split: e_token.splits option.splits if_splits)
next
  case (2 u ms cur)
  note a = 2(1) and p = 2(2) and o = 2(3) and res = 2(4)
  obtain tk1 cur1 where t1: "getToken u cur = (tk1, cur1)" by fastforce
  obtain key cur2 where s: "tk1 = JSON_STR" "getStr cur1 = Some (key, cur2)"
    using res a t1 by (auto simp: objLoop.psimps split: if_splits option.splits)
  obtain tk3 cur3 where t3: "getToken u cur2 = (tk3, cur3)" by fastforce
  obtain tk4 cur4 where t4: "getToken u (closeTk cur3) = (tk4, cur4)" by fastforce
  have n: "tk3 = JSON_NAM_SEP"
    using res a t1 s t3 by (auto simp: objLoop.psimps split: if_splits)
  obtain e cur5 where v: "parserVal u tk4 cur4 = Some (e, cur5)"
    using res a t1 s t3 n t4 by (auto simp: objLoop.psimps split: option.splits)
  obtain tk6 cur6 where t6: "getToken u cur5 = (tk6, cur6)" by fastforce
  have "length cur4 \<le> length cur"
    using getToken_shorter(1) [OF t1] getStr_le [OF s(2)] getToken_shorter(1) [OF t3] getToken_shorter(1) [OF t4]
      closeTk_le [of cur3] by simp
  moreover have "length cur5 \<le> length cur4"
    using p t1 s t3 n t4 v by simp
  ultimately have "length (closeTk cur6) \<le> length cur"
    using getToken_shorter(1) [OF t6] closeTk_le [of cur6] by simp
  moreover have "objLoop u (insert_member key e ms) (closeTk cur6) = Some (v, r) \<Longrightarrow> tk6 = JSON_VAL_SEP \<Longrightarrow>
      length r \<le> length (closeTk cur6)" for v r
    using o [OF t1 [symmetric] _ s(2) _ t3 [symmetric] _ t4 [symmetric] v _ t6 [symmetric]] s(1) n by simp
  ultimately show ?case
    using res a t1 s t3 n t4 v t6 by (fastforce simp: objLoop.psimps split: if_splits)
next
  case (3 u es tk cur)
  note a = 3(1) and p = 3(2) and l = 3(3) and res = 3(4)
  obtain e cur1 where v: "parserVal u tk cur = Some (e, cur1)"
    using res a by (auto simp: arrLoop.psimps split: option.splits)
  obtain tk2 cur2 where t2: "getToken u cur1 = (tk2, cur2)" by fastforce
  obtain tk3 cur3 where t3: "getToken u (closeTk cur2) = (tk3, cur3)" by fastforce
  have "length cur1 \<le> length cur"
    using p v by simp
  then have "length (closeTk cur2) \<le> length cur" "length cur3 \<le> length cur"
    using getToken_shorter(1) [OF t2] closeTk_le [of cur2] getToken_shorter(1) [OF t3] by simp_all
  moreover have "arrLoop u (es @ [e]) tk3 cur3 = Some (w, r) \<Longrightarrow> tk2 = JSON_VAL_SEP \<Longrightarrow> length r \<le> length cur3" for w r
    using l [OF v _ t2 [symmetric] _ _ t3 [symmetric]] by simp
  ultimately show ?case
    using res a v t2 t3 by (fastforce simp: arrLoop.psimps split: if_splits)
qed

text \<open>The measure: the text, and whether the token opens a value with parts.\<close>

definition opens :: "e_token \<Rightarrow> nat" where
  "opens tk = (if tk = JSON_OBJ_STA \<or> tk = JSON_ARR_STA then 2 else 0)"

definition parser_size :: "bool \<times> e_token \<times> string + (bool \<times> (string \<times> jsonValueBase) list \<times> string) +
    (bool \<times> jsonValueBase list \<times> e_token \<times> string) \<Rightarrow> nat" where
  "parser_size x =
     (case x of
        Inl (u, tk, cur) \<Rightarrow> 3 * length cur + opens tk
      | Inr (Inl (u, ms, cur)) \<Rightarrow> 3 * length cur
      | Inr (Inr (u, es, tk, cur)) \<Rightarrow> 3 * length cur + opens tk + 1)"

lemma opens_le: "opens tk \<le> 2"
  by (simp add: opens_def)

lemma getToken_nil: "getToken u [] = (JSON_EOF, [])"
  by (simp add: getToken.simps skip_ws_def)

lemma inside_smaller:
  assumes "getToken u (tl cur) = (tk, r)"
  shows "3 * length r + opens tk + 1 < 3 * length cur + 2"
proof (cases cur)
  case Nil
  then show ?thesis
    using assms getToken_nil by (simp add: opens_def)
next
  case (Cons c t)
  then show ?thesis
    using getToken_shorter(1) [OF assms] opens_le [of tk] by simp
qed

lemma member_smaller:
  assumes "getToken u cur = (JSON_STR, cur1)" "getStr cur1 = Some (key, cur2)"
    "getToken u cur2 = (JSON_NAM_SEP, cur3)" "getToken u (closeTk cur3) = (tk4, cur4)"
  shows "3 * length cur4 + opens tk4 < 3 * length cur" "length cur4 < length cur"
  using getToken_shorter(1) [OF assms(1)] getStr_le [OF assms(2)] getToken_shorter(1) [OF assms(3)]
    getToken_shorter(1) [OF assms(4)] closeTk_le [of cur3] opens_le [of tk4] by simp_all

lemma separator_smaller:
  assumes "getToken u cur = (JSON_VAL_SEP, r)"
  shows "length (closeTk r) < length cur"
  using getToken_shorter [OF assms] closeTk_le [of r] by (cases r) auto

lemma element_smaller:
  assumes "getToken u cur = (JSON_VAL_SEP, cur2)" "getToken u (closeTk cur2) = (tk3, cur3)"
  shows "3 * length cur3 + opens tk3 < 3 * length cur"
  using separator_smaller [OF assms(1)] getToken_shorter(1) [OF assms(2)] opens_le [of tk3] by simp

termination parserVal
proof (relation "measure parser_size", goal_cases)
  case (2 u tk cur tk1 cur1)
  then have "3 * length cur1 < 3 * length cur + opens tk"
    using inside_smaller [of u cur tk1 cur1] by (simp add: opens_def)
  then show ?case
    by (simp add: parser_size_def)
next
  case (3 u tk cur tk1 cur1)
  then have "3 * length cur1 + opens tk1 + 1 < 3 * length cur + opens tk"
    using inside_smaller [of u cur tk1 cur1] by (simp add: opens_def)
  then show ?case
    by (simp add: parser_size_def)
next
  case (4 u ms cur tk1 cur1 y key cur2 tk3 cur3 tk4 cur4)
  then have "3 * length cur4 + opens tk4 < 3 * length cur"
    using member_smaller(1) [of u cur cur1 key cur2 cur3 tk4 cur4] by simp
  then show ?case
    by (simp add: parser_size_def)
next
  case (5 u ms cur tk1 cur1 y key cur2 tk3 cur3 tk4 cur4 v e cur5 tk6 cur6)
  then have "length cur5 \<le> length cur4"
    using parser_le(1) [of u tk4 cur4 e cur5] by simp
  then have "length (closeTk cur6) < length cur"
    using 5 member_smaller(2) [of u cur cur1 key cur2 cur3 tk4 cur4] separator_smaller [of u cur5 cur6] by simp
  then show ?case
    by (simp add: parser_size_def)
next
  case (6 u es tk cur)
  then show ?case
    by (simp add: parser_size_def)
next
  case (7 u es tk cur x e cur1 tk2 cur2 tk3 cur3)
  then have "length cur1 \<le> length cur"
    using parser_le(1) [of u tk cur e cur1] by simp
  then have "3 * length cur3 + opens tk3 < 3 * length cur"
    using 7 element_smaller [of u cur1 cur2 tk3 cur3] by simp
  then show ?case
    by (simp add: parser_size_def)
qed simp

declare parserVal.simps [simp del] objLoop.simps [simp del] arrLoop.simps [simp del]

text \<open>
  \<^verbatim>\<open>jsonMain\<close> holds a value or none. A text without a token is taken and leaves the value as it was.
\<close>

definition paresJson :: "bool \<Rightarrow> string \<Rightarrow> jsonValueBase option \<Rightarrow> bool \<times> jsonValueBase option" where
  "paresJson u cur main =
     (case getToken u cur of (tk, cur1) \<Rightarrow>
      if tk = JSON_EOF then (True, main)
      else
        (case parserVal u tk cur1 of
           None \<Rightarrow> (False, main)
         | Some (m, cur2) \<Rightarrow> if fst (getToken u cur2) \<noteq> JSON_EOF then (False, main) else (True, Some m)))"

definition parseBuffer :: "string \<Rightarrow> bool \<Rightarrow> jsonValueBase option \<Rightarrow> bool \<times> jsonValueBase option" where
  "parseBuffer buffer useComments main =
     (if buffer = [] then (False, main) else paresJson useComments (skipBOM (cstr buffer)) main)"

subsection \<open>Printing\<close>

text \<open>\<^verbatim>\<open>%.4x\<close> of 16 bits.\<close>

definition hex4 :: "nat \<Rightarrow> string" where
  "hex4 v = [hexdig (v div 4096 mod 16), hexdig (v div 256 mod 16), hexdig (v div 16 mod 16), hexdig (v mod 16)]"

definition jUtf16 :: "nat \<Rightarrow> string" where
  "jUtf16 val = BS # CHR ''u'' # hex4 val"

text \<open>The escape of a code point: one value, or a surrogate pair.\<close>

definition esc_point :: "nat \<Rightarrow> string" where
  "esc_point val =
     (if val \<le> 0xffff then jUtf16 val
      else
        let v = val - 0x10000
        in jUtf16 ((drop_bit 10 v AND 0xbff) OR 0xd800) @ jUtf16 ((v AND 0xbff) OR 0xdc00))"

text \<open>The number of octets that follow the first one, and the bits of the first.\<close>

definition utf8_lead :: "nat \<Rightarrow> (nat \<times> nat) option" where
  "utf8_lead v =
     (if v AND 0xe0 = 0xc0 then Some (1, v AND 0x1f)
      else if v AND 0xf0 = 0xe0 then Some (2, v AND 0xf)
      else if v AND 0xf8 = 0xf0 then Some (3, v AND 7)
      else None)"

definition utf8_value :: "nat \<Rightarrow> string \<Rightarrow> nat" where
  "utf8_value val cs = foldl (\<lambda>a c. push_bit 6 a OR (0x3f AND of_char c)) val cs"

definition short_escape :: "char \<Rightarrow> char option" where
  "short_escape c =
     (if c = BS \<or> c = DQ \<or> c = CHR ''/'' then Some c
      else if c = CHR 0x08 then Some CHR ''b''
      else if c = CHR 0x0C then Some CHR ''f''
      else if c = LF then Some CHR ''n''
      else if c = CR then Some CHR ''r''
      else if c = TAB then Some CHR ''t''
      else None)"

text \<open>The loop of \<^verbatim>\<open>strToStr\<close>; \<open>None\<close> when the octets are no UTF-8.\<close>

function strToStr_loop :: "string \<Rightarrow> string option" where
  "strToStr_loop str =
     (case str of
        [] \<Rightarrow> Some []
      | c # r \<Rightarrow>
          (case short_escape c of
             Some d \<Rightarrow> map_option (\<lambda>t. BS # d # t) (strToStr_loop r)
           | None \<Rightarrow>
               let v = of_char c :: nat in
               if 0x20 \<le> v \<and> v < 0x7f then map_option (\<lambda>t. c # t) (strToStr_loop r)
               else if v \<le> 0x7f then map_option (\<lambda>t. esc_point v @ t) (strToStr_loop r)
               else
                 (case utf8_lead v of
                    None \<Rightarrow> None
                  | Some (b, val) \<Rightarrow>
                      if length r < b \<or> \<not> list_all (\<lambda>d. (of_char d :: nat) AND 0xc0 = 0x80) (take b r) then None
                      else map_option (\<lambda>t. esc_point (utf8_value val (take b r)) @ t) (strToStr_loop (drop b r)))))"
  by pat_completeness auto
termination
  by (relation "measure length") auto

declare strToStr_loop.simps [simp del]

definition strToStr :: "string \<Rightarrow> string" where
  "strToStr str =
     (case strToStr_loop str of
        Some t \<Rightarrow> DQ # t @ [DQ]
      | None \<Rightarrow> DQ # str @ [DQ])"

text \<open>\<^verbatim>\<open>ret.erase(ret.size() - 2, 1)\<close>\<close>

definition erase_comma :: "string \<Rightarrow> string" where
  "erase_comma s = take (length s - 2) s @ drop (length s - 1) s"

definition ident_text :: "nat \<Rightarrow> string" where
  "ident_text i = replicate (2 * i) CHR '' ''"

fun toString :: "nat \<Rightarrow> jsonValueBase \<Rightarrow> string"
  and members_text :: "nat \<Rightarrow> (string \<times> jsonValueBase) list \<Rightarrow> string"
  and elements_text :: "nat \<Rightarrow> jsonValueBase list \<Rightarrow> string"
where
  "toString i (jString s) = strToStr s"
| "toString i (jNumber s d e) = s"
| "toString i (jBoolean b) = (if b then ''true'' else ''false'')"
| "toString i jNull = ''null''"
| "toString i (jObject ms) =
     (let ret = ident_text i @ ''{'' @ [LF]
      in (if ms = [] then ret else erase_comma (ret @ members_text i ms)) @ ident_text i @ ''}'')"
| "toString i (jArray es) =
     (let ret = ident_text i @ ''['' @ [LF]
      in (if es = [] then ret else erase_comma (ret @ elements_text i es)) @ ident_text i @ '']'')"
| "members_text i [] = []"
| "members_text i ((k, v) # ms) =
     ident_text i @ ''  '' @ strToStr k @ '' : '' @ toString (i + 2) v @ '','' @ [LF] @ members_text i ms"
| "elements_text i [] = []"
| "elements_text i (v # es) = ident_text i @ ''  '' @ toString (i + 2) v @ '','' @ [LF] @ elements_text i es"

definition main_toString :: "nat \<Rightarrow> jsonValueBase option \<Rightarrow> string" where
  "main_toString i main = (case main of None \<Rightarrow> [] | Some v \<Rightarrow> toString i v)"

subsection \<open>Access\<close>

definition member_count :: "string \<Rightarrow> (string \<times> jsonValueBase) list \<Rightarrow> nat" where
  "member_count key ms = length (filter (\<lambda>m. fst m = key) ms)"

text \<open>\<^verbatim>\<open>getType\<close>, \<^verbatim>\<open>getVal\<close>, \<^verbatim>\<open>getObj\<close> and \<^verbatim>\<open>getArr\<close> of a key: the one member with the key.\<close>

definition member_get :: "string \<Rightarrow> (string \<times> jsonValueBase) list \<Rightarrow> jsonValueBase option" where
  "member_get key ms =
     (if member_count key ms = 1 then map_option snd (find (\<lambda>m. fst m = key) ms) else None)"

definition isJsonValue :: "e_type \<Rightarrow> bool" where
  "isJsonValue ty \<longleftrightarrow> ty = t_string \<or> ty = t_number \<or> ty = t_boolean \<or> ty = t_null"

definition element_get :: "nat \<Rightarrow> jsonValueBase list \<Rightarrow> jsonValueBase option" where
  "element_get idx es = (if idx < length es then Some (es ! idx) else None)"

end
