(* ===== verification/Bin_Round.thy ===== *)
theory Bin_Round
  imports Bin_Text
begin

unbundle bit_operations_syntax

text \<open>
  What the text forms of a \<^verbatim>\<open>Binary\<close> promise: reading back what was printed gives the
  octets. The parsers collect the octets in a local object; \<open>octet_sink\<close> is what they rely
  on of it, and \<^verbatim>\<open>Binary\<close> provides it while the allocations succeed.
\<close>

subsection \<open>Collecting octets\<close>

locale octet_sink =
  fixes ok :: "'s \<Rightarrow> bool" and held :: "'s \<Rightarrow> octets" and push :: "uint8_t \<Rightarrow> 's \<Rightarrow> 's"
  assumes push_ok: "ok s \<Longrightarrow> ok (push x s)"
    and push_held: "ok s \<Longrightarrow> held (push x s) = held s @ [x]"
begin

lemma collected: "ok s \<Longrightarrow> ok (fold push xs s) \<and> held (fold push xs s) = held s @ xs"
  by (induction xs arbitrary: s) (simp_all add: push_ok push_held)

end

interpretation bin: octet_sink Binary_ok b_octets "Binary_append (\<lambda>_. True)"
  by unfold_locales (use Binary_append_ok in auto)

lemma never_fails_eq: "never_fails mem \<longleftrightarrow> mem = (\<lambda>_. True)"
  by (auto simp: never_fails_def)

text \<open>The common end of the parsers.\<close>

lemma collected_set:
  assumes "Binary_ok b"
  shows "b_octets (setBin (\<lambda>_. True) (b_octets (fold (Binary_append (\<lambda>_. True)) xs
      (new_Binary (\<lambda>_. True)))) b) = xs"
  using bin.collected [of "new_Binary (\<lambda>_. True)" xs] setBin_ok [OF assms, of "\<lambda>_. True"] by simp

subsection \<open>Hexadecimal digits\<close>

lemma hexdig_all:
  "\<forall>n \<in> set [0..<16]. hexval (hexdig n) = Some n \<and> \<not> isspace (hexdig n) \<and>
     hexdig n \<notin> {CHR ''-'', CHR ''+'', CHR 0x00} \<and> hexdig n \<notin> set idsep"
  by code_simp

lemma hexdig [simp]:
  assumes "n < 16"
  shows "hexval (hexdig n) = Some n" "\<not> isspace (hexdig n)" "hexdig n \<noteq> CHR ''-''"
    "hexdig n \<noteq> CHR ''+''" "hexdig n \<noteq> CHR 0x00" "hexdig n \<notin> set idsep"
  using hexdig_all assms by auto

lemma octet_nibbles [simp]: "unat (x :: uint8_t) div 16 < 16" "unat x mod 16 < 16"
  using octet_bound [of x] by auto

lemma parseByte_hex2: "parseByte mem (hex2 x) b = Some (Binary_append mem x b)"
proof -
  have "strtol16 (hex2 x) = (int (unat x), [])"
    by (simp add: strtol16_def hex2_def Let_def hex_nat_def)
  moreover have "hex2 x \<noteq> []"
    by (simp add: hex2_def)
  moreover have "int (unat x) \<le> 0xff"
    using octet_bound [of x] by linarith
  ultimately show ?thesis
    by (simp add: parseByte_def)
qed

lemma hex2_chars: "c \<in> set (hex2 x) \<Longrightarrow> c \<notin> set idsep \<and> c \<noteq> CHR 0x00"
  by (auto simp: hex2_def)

lemma cstr_no_nul: "(\<And>c. c \<in> set s \<Longrightarrow> c \<noteq> CHR 0x00) \<Longrightarrow> cstr s = s"
  by (simp add: cstr_def takeWhile_eq_all_conv)

subsection \<open>Hexadecimal\<close>

lemma tokens_one:
  assumes "s \<noteq> []" "\<And>c. c \<in> set s \<Longrightarrow> c \<notin> set sep"
  shows "tokens sep s = [s]"
proof -
  have "dropWhile (\<lambda>c. c \<in> set sep) s = s" "takeWhile (\<lambda>c. c \<notin> set sep) s = s"
    "dropWhile (\<lambda>c. c \<notin> set sep) s = []"
    using assms by (cases s; simp add: takeWhile_eq_all_conv dropWhile_eq_Nil_conv)+
  moreover have "tokens sep [] = []"
    by (simp add: tokens.simps)
  ultimately show ?thesis
    using assms(1) by (simp only: tokens.simps [of sep s] Let_def if_False)
qed

lemma bufToHex_chars: "c \<in> set (bufToHex xs) \<Longrightarrow> c \<notin> set idsep \<and> c \<noteq> CHR 0x00"
  by (auto simp: bufToHex_def dest: hex2_chars)

lemma parseNibbles_hex: "parseNibbles mem (bufToHex xs) b = Some (fold (Binary_append mem) xs b)"
proof (induction xs arbitrary: b)
  case (Cons x xs)
  show ?case
  proof (cases xs)
    case Nil
    then show ?thesis
      using parseByte_hex2 [of mem x b] by (simp add: bufToHex_def hex2_def)
  next
    case (Cons y ys)
    have "parseNibbles mem (bufToHex (x # xs)) b =
        parseNibbles mem (bufToHex xs) (Binary_append mem x b)"
      using parseByte_hex2 [of mem x b] Cons by (simp add: bufToHex_def hex2_def)
    then show ?thesis
      by (simp add: Cons.IH)
  qed
qed (simp add: bufToHex_def)

lemma hex_round:
  assumes "Binary_ok b" "b_octets v \<noteq> []"
  shows "\<exists>b'. fromHex (\<lambda>_. True) (toHex v) b = (True, b') \<and> b_octets b' = b_octets v"
proof -
  let ?s = "bufToHex (b_octets v)"
  have s: "?s \<noteq> []"
    using assms(2) by (cases "b_octets v") (simp_all add: bufToHex_def hex2_def)
  have "cstr ?s = ?s" "tokens idsep ?s = [?s]"
    using bufToHex_chars s by (auto intro!: cstr_no_nul tokens_one)
  then show ?thesis
    using s collected_set [OF assms(1), of "b_octets v"]
    by (simp add: fromHex_def toHex_def parseNibbles_hex)
qed

subsection \<open>Identifiers\<close>

lemma tokens_skip: "set s \<subseteq> set sep \<Longrightarrow> tokens sep (s @ r) = tokens sep r"
  using dropWhile_append2 [of s "\<lambda>c. c \<in> set sep" r]
  by (simp add: tokens.simps [of sep "s @ r"] tokens.simps [of sep r] subset_iff)

lemma tokens_Cons:
  assumes "t \<noteq> []" "\<And>c. c \<in> set t \<Longrightarrow> c \<notin> set sep" "s \<noteq> []" "set s \<subseteq> set sep"
  shows "tokens sep (t @ s @ r) = t # tokens sep r"
proof -
  have "dropWhile (\<lambda>c. c \<in> set sep) (t @ s @ r) = t @ s @ r"
    using assms(1,2) by (cases t) simp_all
  moreover have "takeWhile (\<lambda>c. c \<notin> set sep) (t @ s @ r) = t"
    "dropWhile (\<lambda>c. c \<notin> set sep) (t @ s @ r) = s @ r"
    using assms(2-4) by (cases s; simp add: takeWhile_append2 dropWhile_append2)+
  ultimately show ?thesis
    using assms(1) tokens_skip [OF assms(4)] by (simp add: tokens.simps [of sep "t @ s @ r"])
qed

lemma tokens_hex2: "tokens idsep (hex2 x) = [hex2 x]"
  by (rule tokens_one) (use hex2_chars in \<open>auto simp: hex2_def\<close>)

lemma tokens_id:
  assumes "s \<noteq> []" "set s \<subseteq> set idsep"
  shows "tokens idsep (bufToId s xs) = map hex2 xs"
  using assms
proof (induction s xs rule: bufToId.induct)
  case (1 s)
  show ?case
    by (simp add: tokens.simps)
next
  case (2 s x)
  show ?case
    by (simp add: tokens_hex2)
next
  case (3 s x y r)
  have "tokens idsep (hex2 x @ s @ bufToId s (y # r)) = hex2 x # tokens idsep (bufToId s (y # r))"
    using 3(2,3) hex2_chars by (intro tokens_Cons) (auto simp: hex2_def)
  then show ?case
    using 3 by simp
qed

lemma bufToId_chars:
  "c \<in> set (bufToId s xs) \<Longrightarrow> set s \<subseteq> set idsep \<Longrightarrow> c \<noteq> CHR 0x00"
  by (induction s xs rule: bufToId.induct) (auto simp: idsep_def dest: hex2_chars)

lemma parseBytes_hex: "parseBytes mem (map hex2 xs) b = Some (fold (Binary_append mem) xs b)"
  by (induction xs arbitrary: b) (simp_all add: parseByte_hex2)

lemma length_bufToId: "xs \<noteq> [] \<Longrightarrow> 2 \<le> length (bufToId s xs)"
  by (induction s xs rule: bufToId.induct) (simp_all add: hex2_def)

lemma id_round:
  assumes "Binary_ok b" "b_octets v \<noteq> []" "s \<noteq> []" "set s \<subseteq> set idsep"
  shows "\<exists>b'. fromId (\<lambda>_. True) (toId s v) b = (True, b') \<and> b_octets b' = b_octets v"
proof -
  let ?s = "bufToId s (b_octets v)"
  have "cstr ?s = ?s"
    using bufToId_chars [OF _ assms(4)] by (auto intro!: cstr_no_nul)
  then show ?thesis
    using length_bufToId [OF assms(2), of s] collected_set [OF assms(1), of "b_octets v"]
    by (simp add: fromId_def toId_def tokens_id [OF assms(3,4)] parseBytes_hex)
qed

subsection \<open>Base 64\<close>

lemma octet_eqI:
  fixes a b :: uint8_t
  assumes "\<And>n. n \<in> {0, 1, 2, 3, 4, 5, 6, 7} \<Longrightarrow> bit a n \<longleftrightarrow> bit b n"
  shows "a = b"
proof (rule bit_word_eqI)
  fix n :: nat
  assume "n < LENGTH(8)"
  then have "n \<in> {0, 1, 2, 3, 4, 5, 6, 7}"
    by auto
  then show "bit a n \<longleftrightarrow> bit b n"
    by (rule assms)
qed

lemma b64_octets:
  "b64_1 (b64_idx c0 c1 c2 ! 0) (b64_idx c0 c1 c2 ! 1) = c0"
  "b64_2 (b64_idx c0 c1 c2 ! 1) (b64_idx c0 c1 c2 ! 2) = c1"
  "b64_3 (b64_idx c0 c1 c2 ! 2) (b64_idx c0 c1 c2 ! 3) = c2"
  by (rule octet_eqI; auto simp: b64_1_def b64_2_def b64_3_def b64_idx_def bit_simps;
      simp add: numeral_2_eq_2 numeral_3_eq_3)+

lemma sextet: "(i :: uint8_t) AND 0x3f = i \<Longrightarrow> unat i < 64"
proof -
  assume "i AND 0x3f = i"
  then have "i \<le> 0x3f"
    using word_and_le1 [of i "0x3f"] by (simp add: and.commute)
  then show ?thesis
    by (simp add: word_le_nat_alt)
qed

lemma b64_idx_64: "i \<in> set (b64_idx c0 c1 c2) \<Longrightarrow> unat i < 64"
proof (rule sextet)
  assume "i \<in> set (b64_idx c0 c1 c2)"
  then show "i AND 0x3f = i"
    by (auto simp: b64_idx_def intro!: octet_eqI) (auto simp: bit_simps)
qed

text \<open>
  The three alphabets: the standard one, the one for URLs, and the one of IMAP; each with the
  values \<^verbatim>\<open>safe\<close> has while a text uses it.
\<close>

definition b64_alphabets :: "(char \<times> char) list" where
  "b64_alphabets = [(CHR ''+'', CHR ''/''), (CHR ''-'', CHR ''_''), (CHR ''+'', CHR '','')]"

definition safe_values :: "char \<times> char \<Rightarrow> uint8_t list" where
  "safe_values v =
     (if fst v = CHR ''-'' then [0, 1] else if snd v = CHR ''/'' then [0, 2, 6] else [0, 2, 10])"

definition b64_codes :: "nat list" where
  "b64_codes = [65..<91] @ [97..<123] @ [48..<58]"

lemma toB64_codes: "map of_char toB64 = b64_codes"
  by (simp add: toB64_def b64_codes_def upt_rec)

lemma B64_codes: "map (\<lambda>n. B64 ! (n - 43)) b64_codes = map int [0..<62]"
  by (simp add: B64_def b64_codes_def upt_rec)

lemma length_b64_codes: "length b64_codes = 62"
  by (simp add: b64_codes_def)

lemma set_b64_codes: "n \<in> set b64_codes \<Longrightarrow> 43 \<le> n \<and> n \<le> 122 \<and> n \<noteq> 61"
  by (auto simp: b64_codes_def)

lemma b64_table:
  assumes "i < 62"
  shows "43 \<le> (of_char (toB64 ! i) :: nat) \<and> of_char (toB64 ! i) \<le> (122 :: nat) \<and>
    of_char (toB64 ! i) \<noteq> (61 :: nat) \<and> B64 ! (of_char (toB64 ! i) - 43) = int i"
proof -
  have i: "i < length toB64"
    using assms by (simp add: toB64_def)
  then have c: "of_char (toB64 ! i) = b64_codes ! i"
    using nth_map [of i toB64 "of_char :: char \<Rightarrow> nat"] unfolding toB64_codes by simp
  moreover have "b64_codes ! i \<in> set b64_codes"
    using assms by (intro nth_mem) (simp add: length_b64_codes)
  moreover have "B64 ! (b64_codes ! i - 43) = int i"
    using arg_cong [OF B64_codes, of "\<lambda>xs. xs ! i"] assms
      nth_map [of i b64_codes "\<lambda>n. B64 ! (n - 43)"] nth_map [of i "[0..<62]" int]
    by (simp add: length_b64_codes)
  ultimately show ?thesis
    using set_b64_codes unfolding c by blast
qed

lemma length_toB64: "length toB64 = 62"
  by (simp add: toB64_def)

lemma b64_char_less: "unat i < 62 \<Longrightarrow> b64_char v62 v63 i = toB64 ! unat i"
  by (simp add: b64_char_def nth_append length_toB64)

lemma b64_char_last: "b64_char v62 v63 62 = v62" "b64_char v62 v63 63 = v63"
  by (simp_all add: b64_char_def nth_append length_toB64)

lemma parseB64_plain:
  assumes "unat i < 62"
  shows "parseB64 (b64_char v62 v63 i) s = Some (i, s)"
proof -
  have "word_of_int (int (unat i)) = i"
    by simp
  moreover have "int (unat i) < 62"
    using assms by linarith
  ultimately show ?thesis
    using b64_table [of "unat i"] assms
    by (simp add: parseB64_def b64_char_less Let_def del: of_nat_unat)
qed

lemma sextet_cases:
  fixes i :: uint8_t
  assumes "unat i < 64"
  obtains "unat i < 62" | "i = 62" | "i = 63"
proof -
  consider "unat i < 62" | "unat i = 62" | "unat i = 63"
    using assms by linarith
  then show ?thesis
    using that of_nat_unat [of i, where 'a = "8 word"] by cases (simp_all del: of_nat_unat)
qed

lemma b64_char_not_pad:
  assumes "v \<in> set b64_alphabets" "unat i < 64"
  shows "b64_char (fst v) (snd v) i \<noteq> CHR ''=''"
  using assms(2)
proof (cases rule: sextet_cases)
  case 1
  then show ?thesis
    using b64_table [of "unat i"] by (auto simp: b64_char_less Let_def)
qed (use assms(1) in \<open>auto simp: b64_char_last b64_alphabets_def\<close>)

lemma parseB64_char:
  assumes "v \<in> set b64_alphabets" "unat i < 64" "s \<in> set (safe_values v)"
  shows "\<exists>s' \<in> set (safe_values v). parseB64 (b64_char (fst v) (snd v) i) s = Some (i, s')"
  using assms(2)
proof (cases rule: sextet_cases)
  case 1
  then show ?thesis
    using assms(3) by (simp add: parseB64_plain)
next
  case 2
  then show ?thesis
    using assms(1,3)
    by (auto simp: b64_char_last b64_alphabets_def safe_values_def parseB64_def B64_def
        URL_def BOTH_def STAND_def IMAP_def)
next
  case 3
  then show ?thesis
    using assms(1,3)
    by (auto simp: b64_char_last b64_alphabets_def safe_values_def parseB64_def B64_def
        URL_def BOTH_def STAND_def IMAP_def)
qed

lemma parseB64s_chars:
  assumes "v \<in> set b64_alphabets" "\<And>i. i \<in> set xs \<Longrightarrow> unat i < 64" "s \<in> set (safe_values v)"
  shows "\<exists>s' \<in> set (safe_values v). parseB64s (map (b64_char (fst v) (snd v)) xs) s = Some (xs, s')"
  using assms(2,3)
proof (induction xs arbitrary: s)
  case (Cons i xs)
  obtain s1 where s1: "s1 \<in> set (safe_values v)" "parseB64 (b64_char (fst v) (snd v) i) s = Some (i, s1)"
    using parseB64_char [OF assms(1), of i s] Cons.prems by auto
  obtain s2 where "s2 \<in> set (safe_values v)"
    "parseB64s (map (b64_char (fst v) (snd v)) xs) s1 = Some (xs, s2)"
    using Cons.IH [of s1] Cons.prems s1(1) by auto
  then show ?case
    using s1 by simp
qed simp

lemma length_b64_idx [simp]: "length (b64_idx c0 c1 c2) = 4"
  by (simp add: b64_idx_def)

text \<open>The last group.\<close>

lemma b64_last_4:
  assumes "parseB64s [k0, k1, k2, k3] s = Some ([a0, a1, a2, a3], s')" "k3 \<noteq> CHR ''=''"
  shows "b64_last mem q [k0, k1, k2, k3] s b =
    Some (fold (Binary_append mem) [b64_1 a0 a1, b64_2 a1 a2, b64_3 a2 a3] b)"
  using assms by (simp add: b64_last_def Let_def del: parseB64s.simps)

lemma b64_last_3:
  assumes "parseB64s [k0, k1, k2] s = Some ([a0, a1, a2], s')" "k2 \<noteq> CHR ''=''" "q \<longrightarrow> p"
  shows "b64_last mem q ([k0, k1, k2] @ (if p then ''='' else [])) s b =
    Some (fold (Binary_append mem) [b64_1 a0 a1, b64_2 a1 a2] b)"
  using assms by (simp add: b64_last_def Let_def del: parseB64s.simps)

lemma b64_last_2:
  assumes "parseB64s [k0, k1] s = Some ([a0, a1], s')" "q \<longrightarrow> p"
  shows "b64_last mem q ([k0, k1] @ (if p then ''=='' else [])) s b =
    Some (fold (Binary_append mem) [b64_1 a0 a1] b)"
  using assms by (simp add: b64_last_def Let_def del: parseB64s.simps)

lemma b64_idxE:
  obtains i0 i1 i2 i3 where "b64_idx c0 c1 c2 = [i0, i1, i2, i3]" "b64_1 i0 i1 = c0"
    "b64_2 i1 i2 = c1" "b64_3 i2 i3 = c2" "unat i0 < 64" "unat i1 < 64" "unat i2 < 64" "unat i3 < 64"
  using b64_octets [of c0 c1 c2] b64_idx_64 [of _ c0 c1 c2] by (simp add: b64_idx_def)

lemma parseB64s_list:
  assumes "v \<in> set b64_alphabets" "s \<in> set (safe_values v)" "\<forall>i \<in> set xs. unat i < 64"
  obtains s' where "s' \<in> set (safe_values v)"
    "parseB64s (map (b64_char (fst v) (snd v)) xs) s = Some (xs, s')"
  using parseB64s_chars [OF assms(1) _ assms(2), of xs] assms(3) by auto

lemma b64_last_round:
  assumes v: "v \<in> set b64_alphabets" and s: "s \<in> set (safe_values v)"
    and xs: "xs \<in> {[c0], [c0, c1], [c0, c1, c2]}" and pad: "q \<longrightarrow> p"
  shows "b64_last mem q (bufToBase64 p (fst v) (snd v) xs) s b = Some (fold (Binary_append mem) xs b)"
proof -
  consider "xs = [c0]" | "xs = [c0, c1]" | "xs = [c0, c1, c2]"
    using xs by blast
  then show ?thesis
  proof cases
    case 1
    obtain i0 i1 i2 i3 where i: "b64_idx c0 0 0 = [i0, i1, i2, i3]" "b64_1 i0 i1 = c0"
      "unat i0 < 64" "unat i1 < 64"
      by (rule b64_idxE)
    then show ?thesis
      using 1 b64_last_2 [OF _ pad] by (rule_tac parseB64s_list [OF v s, of "[i0, i1]"])
        (simp_all del: parseB64s.simps)
  next
    case 2
    obtain i0 i1 i2 i3 where i: "b64_idx c0 c1 0 = [i0, i1, i2, i3]" "b64_1 i0 i1 = c0"
      "b64_2 i1 i2 = c1" "unat i0 < 64" "unat i1 < 64" "unat i2 < 64"
      by (rule b64_idxE)
    then show ?thesis
      using 2 b64_last_3 [OF _ _ pad] b64_char_not_pad [OF v, of i2]
      by (rule_tac parseB64s_list [OF v s, of "[i0, i1, i2]"]) (simp_all del: parseB64s.simps)
  next
    case 3
    obtain i0 i1 i2 i3 where i: "b64_idx c0 c1 c2 = [i0, i1, i2, i3]" "b64_1 i0 i1 = c0"
      "b64_2 i1 i2 = c1" "b64_3 i2 i3 = c2" "unat i0 < 64" "unat i1 < 64" "unat i2 < 64" "unat i3 < 64"
      by (rule b64_idxE)
    then show ?thesis
      using 3 b64_last_4 b64_char_not_pad [OF v, of i3]
      by (rule_tac parseB64s_list [OF v s, of "[i0, i1, i2, i3]"]) (simp_all del: parseB64s.simps)
  qed
qed

lemma bufToBase64_nonempty: "xs \<noteq> [] \<Longrightarrow> bufToBase64 p v62 v63 xs \<noteq> []"
  by (induction p v62 v63 xs rule: bufToBase64.induct) (simp_all add: b64_idx_def)

lemma b64_groups_last:
  "length cs \<le> 4 \<Longrightarrow> b64_groups mem q cs s b = b64_last mem q cs s b"
  by (induction mem q cs s b rule: b64_groups.induct) simp_all

lemma length_bufToBase64_last:
  "length xs \<le> 3 \<Longrightarrow> length (bufToBase64 p v62 v63 xs) \<le> 4"
  by (induction p v62 v63 xs rule: bufToBase64.induct) (simp_all add: b64_idx_def)

lemma b64_groups_round:
  assumes v: "v \<in> set b64_alphabets"
  shows "q \<longrightarrow> p \<Longrightarrow> xs \<noteq> [] \<Longrightarrow> s \<in> set (safe_values v) \<Longrightarrow>
    b64_groups mem q (bufToBase64 p (fst v) (snd v) xs) s b = Some (fold (Binary_append mem) xs b)"
proof (induction p "fst v" "snd v" xs arbitrary: s b rule: bufToBase64.induct)
  case (1 p c0 c1 c2 c3 r)
  obtain i0 i1 i2 i3 where i: "b64_idx c0 c1 c2 = [i0, i1, i2, i3]" "b64_1 i0 i1 = c0"
    "b64_2 i1 i2 = c1" "b64_3 i2 i3 = c2" "\<forall>i \<in> set [i0, i1, i2, i3]. unat i < 64"
    by (rule b64_idxE) auto
  obtain s' where s': "s' \<in> set (safe_values v)"
    "parseB64s (map (b64_char (fst v) (snd v)) [i0, i1, i2, i3]) s = Some ([i0, i1, i2, i3], s')"
    using parseB64s_list [OF v 1(4) i(5)] by blast
  obtain c cs where c: "bufToBase64 p (fst v) (snd v) (c3 # r) = c # cs"
    using bufToBase64_nonempty [of "c3 # r" p "fst v" "snd v"] by (cases "bufToBase64 p (fst v) (snd v) (c3 # r)") auto
  show ?case
    using 1(1) [OF 1(2) _ s'(1)] s'(2) i(1-4) c by (simp del: parseB64s.simps)
qed (simp_all add: b64_groups_last length_bufToBase64_last b64_last_round [OF v] del: bufToBase64.simps)

lemma base64_round:
  assumes "Binary_ok b" "(v62, v63) \<in> set b64_alphabets" "q \<longrightarrow> p"
  shows "\<exists>b'. fromBase64 (\<lambda>_. True) (toBase64 p v62 v63 v) q b = (True, b') \<and> b_octets b' = b_octets v"
proof (cases "b_octets v = []")
  case True
  then show ?thesis
    using Binary_clear_ok [OF assms(1)] by (simp add: fromBase64_def toBase64_def)
next
  case False
  have "0 \<in> set (safe_values (v62, v63))"
    by (simp add: safe_values_def)
  then show ?thesis
    using b64_groups_round [OF assms(2,3) False] bufToBase64_nonempty [OF False]
      collected_set [OF assms(1), of "b_octets v"]
    by (simp add: fromBase64_def toBase64_def)
qed

end
