(* ===== verification/Json_Round.thy ===== *)
theory Json_Round
  imports Json_Value Bin_Round
begin

unbundle bit_operations_syntax

text \<open>
  Printing a JSON value and parsing the text gives the value back: code points, strings, numbers,
  objects and arrays, in any depth and with any identation.
\<close>

subsection \<open>Bits of natural numbers\<close>

lemma or_low:
  assumes "y < 2 ^ k"
  shows "(2 ^ k * a :: nat) OR y = 2 ^ k * a + y" "y OR (2 ^ k * a :: nat) = y + 2 ^ k * a"
proof -
  have y: "take_bit k y = y"
    using assms by (simp add: take_bit_nat_eq_self)
  have "push_bit k a AND take_bit k y = 0"
    by (rule bit_eqI) (auto simp: bit_simps)
  then have "push_bit k a + y = push_bit k a OR y"
    using y by (simp add: disjunctive_add_eq_or)
  then show "(2 ^ k * a :: nat) OR y = 2 ^ k * a + y" "y OR (2 ^ k * a :: nat) = y + 2 ^ k * a"
    by (simp_all add: push_bit_eq_mult or.commute ac_simps)
qed

lemma and_low: "(x :: nat) AND (2 ^ k - 1) = x mod 2 ^ k"
  by (simp add: take_bit_eq_mod [symmetric] take_bit_eq_mask mask_eq_exp_minus_1)

lemma mask_simps:
  "(x :: nat) AND 0x7f = x mod 128" "0x3f AND (x :: nat) = x mod 64" "0x1f AND (x :: nat) = x mod 32"
  "0xf AND (x :: nat) = x mod 16" "0x7 AND (x :: nat) = x mod 8" "(x :: nat) AND 0x3ff = x mod 1024"
  "(x :: nat) AND 0x1f = x mod 32" "(x :: nat) AND 0xf = x mod 16" "(x :: nat) AND 7 = x mod 8"
  "(x :: nat) AND 3 = x mod 4"
  using and_low [of x 7] and_low [of x 6] and_low [of x 5] and_low [of x 4] and_low [of x 3] and_low [of x 10]
    and_low [of x 2]
  by (simp_all add: and.commute)

lemma and_high: "(v :: nat) AND 2 ^ k * m = 2 ^ k * (v div 2 ^ k AND m)"
proof -
  have "v AND push_bit k m = push_bit k (drop_bit k v AND m)"
    by (rule bit_eqI) (auto simp: bit_simps)
  then show ?thesis
    by (simp add: push_bit_eq_mult drop_bit_eq_div mult.commute)
qed

lemma lead_simps:
  "y < 64 \<Longrightarrow> 0x80 OR y = (0x80 + y :: nat)" "y < 64 \<Longrightarrow> 0xc0 OR y = (0xc0 + y :: nat)"
  "y < 32 \<Longrightarrow> 0xe0 OR y = (0xe0 + y :: nat)" "y < 16 \<Longrightarrow> 0xf0 OR y = (0xf0 + y :: nat)"
  "y < 64 \<Longrightarrow> push_bit 6 x OR y = (64 * x + y :: nat)" "y < 1024 \<Longrightarrow> push_bit 10 x OR y = (1024 * x + y :: nat)"
  using or_low(1) [of y 6 2] or_low(1) [of y 6 3] or_low(1) [of y 5 7] or_low(1) [of y 4 15]
    or_low(1) [of y 6 x] or_low(1) [of y 10 x]
  by (simp_all add: push_bit_eq_mult mult.commute)

lemma drop_simps: "drop_bit 6 (v :: nat) = v div 64" "drop_bit 12 v = v div 4096" "drop_bit 18 v = v div 262144"
  "drop_bit 10 v = v div 1024"
  by (simp_all add: drop_bit_eq_div)

text \<open>The octets of a code point in arithmetic.\<close>

lemma utf8_arith:
  "v < 0x80 \<Longrightarrow> utf8 v = [char_of v]"
  "0x80 \<le> v \<Longrightarrow> v < 0x800 \<Longrightarrow> utf8 v = [char_of (0xc0 + v div 64), char_of (0x80 + v mod 64)]"
  "0x800 \<le> v \<Longrightarrow> v < 0x10000 \<Longrightarrow>
     utf8 v = [char_of (0xe0 + v div 4096), char_of (0x80 + v div 64 mod 64), char_of (0x80 + v mod 64)]"
  "0x10000 \<le> v \<Longrightarrow> v < 0x110000 \<Longrightarrow>
     utf8 v = [char_of (0xf0 + v div 262144), char_of (0x80 + v div 4096 mod 64),
       char_of (0x80 + v div 64 mod 64), char_of (0x80 + v mod 64)]"
  by (simp_all add: utf8_def mask_simps lead_simps drop_simps)

text \<open>The first octet says how many follow, and the octets that follow are told from first ones.\<close>

lemma lead_bits:
  assumes "(v :: nat) < 256"
  shows "v AND 0xc0 = 0x80 \<longleftrightarrow> 0x80 \<le> v \<and> v < 0xc0" "v AND 0xe0 = 0xc0 \<longleftrightarrow> 0xc0 \<le> v \<and> v < 0xe0"
    "v AND 0xf0 = 0xe0 \<longleftrightarrow> 0xe0 \<le> v \<and> v < 0xf0" "v AND 0xf8 = 0xf0 \<longleftrightarrow> 0xf0 \<le> v \<and> v < 0xf8"
proof -
  have m: "v AND 0xc0 = 64 * (v div 64 mod 4)" "v AND 0xe0 = 32 * (v div 32 mod 8)"
    "v AND 0xf0 = 16 * (v div 16 mod 16)" "v AND 0xf8 = 8 * (v div 8 mod 32)"
    using and_high [of v 6 3] and_high [of v 5 7] and_high [of v 4 15] and_high [of v 3 31]
    by (simp_all add: mask_simps)
  have d: "v div 64 mod 4 = v div 64" "v div 32 mod 8 = v div 32" "v div 16 mod 16 = v div 16" "v div 8 mod 32 = v div 8"
    using assms by (simp_all add: less_mult_imp_div_less)
  have e: "v div n = k \<longleftrightarrow> k * n \<le> v \<and> v < (k + 1) * n" if "0 < n" for n k
    using that by (metis div_nat_eqI Suc_eq_plus1 dividend_less_times_div div_times_less_eq_dividend mult.commute mult_Suc_right add.commute)
  show "v AND 0xc0 = 0x80 \<longleftrightarrow> 0x80 \<le> v \<and> v < 0xc0"
    using e [of 64 2] by (simp add: m d)
  show "v AND 0xe0 = 0xc0 \<longleftrightarrow> 0xc0 \<le> v \<and> v < 0xe0"
    using e [of 32 6] by (simp add: m d)
  show "v AND 0xf0 = 0xe0 \<longleftrightarrow> 0xe0 \<le> v \<and> v < 0xf0"
    using e [of 16 14] by (simp add: m d)
  show "v AND 0xf8 = 0xf0 \<longleftrightarrow> 0xf0 \<le> v \<and> v < 0xf8"
    using e [of 8 30] by (simp add: m d)
qed

lemma of_char_point [simp]: "v < 256 \<Longrightarrow> (of_char (char_of v :: char) :: nat) = v"
  by simp

text \<open>Code points without the surrogates.\<close>

definition code_point :: "nat \<Rightarrow> bool" where
  "code_point v \<longleftrightarrow> v < 0xd800 \<or> 0xe000 \<le> v \<and> v < 0x110000"

subsection \<open>Escapes are read back\<close>

lemma hex4_read: "v < 0x10000 \<Longrightarrow> uToVal (hex4 v @ r) = Some (v, r)"
proof -
  assume v: "v < 0x10000"
  have h: "v div 4096 mod 16 = v div 4096"
    using v by (simp add: less_mult_imp_div_less)
  moreover have "v div 4096 = v div 256 div 16" "v div 256 = v div 16 div 16"
    by (simp_all add: div_mult2_eq [symmetric])
  ultimately have "((v div 4096 mod 16 * 16 + v div 256 mod 16) * 16 + v div 16 mod 16) * 16 + v mod 16 = v"
    by (metis div_mult_mod_eq)
  moreover have "v div 4096 < 16"
    using v by (simp add: less_mult_imp_div_less)
  ultimately show ?thesis
    using h by (simp add: uToVal_def hex4_def hex_nat_def)
qed

lemma getStr_utf16:
  assumes "uProc sur (hex4 v @ r) = Some (s, sur', r)"
  shows "getStr_loop ret sur (jUtf16 v @ r) = getStr_loop (ret @ s) sur' r"
  using assms by (simp add: jUtf16_def getStr_loop.simps [of ret sur] DQ_def BS_def)

text \<open>The mask of the code has one bit too much, which both marks of a surrogate have too.\<close>

lemma surrogate_bits:
  "a < 1024 \<Longrightarrow> ((a :: nat) AND 0xbff) OR 0xd800 = 0xd800 + a" "((w :: nat) AND 0xbff) OR 0xdc00 = 0xdc00 + w mod 1024"
proof -
  have m: "(0xbff :: nat) = 0x3ff OR 0x800" "(0xd800 :: nat) = 0x800 OR 0xd000" "(0xdc00 :: nat) = 0x800 OR 0xd400"
    by simp_all
  have "(x AND (p OR q)) OR (q OR y) = (x AND p) OR (q OR y)" for x y p q :: nat
    by (rule bit_eqI) (auto simp: bit_simps)
  note absorb = this [of _ "0x3ff" "0x800"]
  have s: "(x AND 0xbff) OR 0xd800 = (x mod 1024) OR 0xd800" "(x AND 0xbff) OR 0xdc00 = (x mod 1024) OR 0xdc00"
    for x :: nat
    using absorb [of x "0xd000"] absorb [of x "0xd400"] mask_simps(6) [of x] by (simp_all flip: m)
  show "a < 1024 \<Longrightarrow> ((a :: nat) AND 0xbff) OR 0xd800 = 0xd800 + a"
    using or_low(2) [of a 10 54] by (simp add: s)
  show "((w :: nat) AND 0xbff) OR 0xdc00 = 0xdc00 + w mod 1024"
    using or_low(2) [of "w mod 1024" 10 55] by (simp add: s)
qed

lemma getStr_point:
  assumes "code_point v"
  shows "getStr_loop ret None (esc_point v @ r) = getStr_loop (ret @ utf8 v) None r"
proof (cases "v \<le> 0xffff")
  case True
  then have "uProc None (hex4 v @ r) = Some (utf8 v, None, r)"
    using assms hex4_read [of v r] by (auto simp: uProc_def code_point_def)
  then show ?thesis
    using getStr_utf16 True by (simp add: esc_point_def)
next
  case False
  define w where "w = v - 0x10000"
  have w: "w < 0x100000" "v = w + 0x10000"
    using False assms by (auto simp: w_def code_point_def)
  define a where "a = w div 1024"
  define b where "b = w mod 1024"
  have ab: "a < 1024" "b < 1024" "w = 1024 * a + b"
    using w(1) by (auto simp: a_def b_def)
  have 1: "(drop_bit 10 w AND 0xbff) OR 0xd800 = 0xd800 + a"
    using surrogate_bits(1) [OF ab(1)] by (simp add: drop_simps a_def)
  have 2: "(w AND 0xbff) OR 0xdc00 = 0xdc00 + b"
    using surrogate_bits(2) [of w] by (simp add: b_def)
  have u1: "uProc None (hex4 (0xd800 + a) @ jUtf16 (0xdc00 + b) @ r) = Some ([], Some a, jUtf16 (0xdc00 + b) @ r)"
    using hex4_read [of "0xd800 + a" "jUtf16 (0xdc00 + b) @ r"] ab by (simp add: uProc_def mask_simps)
  have u2: "uProc (Some a) (hex4 (0xdc00 + b) @ r) = Some (utf8 v, None, r)"
    using hex4_read [of "0xdc00 + b" r] ab w(2) by (simp add: uProc_def mask_simps lead_simps)
  have "esc_point v = jUtf16 (0xd800 + a) @ jUtf16 (0xdc00 + b)"
    using False 1 2 by (simp add: esc_point_def w_def [symmetric])
  then show ?thesis
    using getStr_utf16 [OF u1] getStr_utf16 [OF u2] by simp
qed

lemma short_escape_read: "short_escape c = Some d \<Longrightarrow> unescape d = Some c \<and> d \<noteq> CHR ''u''"
  by (auto simp: short_escape_def unescape_def BS_def DQ_def LF_def CR_def TAB_def split: if_splits)

lemma BS_DQ: "BS \<noteq> DQ"
  by (simp add: BS_def DQ_def)

lemma getStr_short:
  assumes "short_escape c = Some d"
  shows "getStr_loop ret None (BS # d # r) = getStr_loop (ret @ [c]) None r"
  using short_escape_read [OF assms] BS_DQ by (simp add: getStr_loop.simps [of ret None "BS # d # r"])

lemma getStr_plain:
  assumes "short_escape c = None" "(of_char c :: nat) < 0x80"
  shows "getStr_loop ret None (c # r) = getStr_loop (ret @ [c]) None r"
proof -
  have "c \<noteq> BS" "c \<noteq> DQ"
    using assms(1) by (auto simp: short_escape_def)
  then show ?thesis
    using assms(2) by (simp add: getStr_loop.simps [of ret None "c # r"] checkUTF8_def)
qed

subsection \<open>What is printed of a code point\<close>

definition print_point :: "nat \<Rightarrow> string" where
  "print_point v =
     (if v < 0x80 then
        (case short_escape (char_of v) of
           Some d \<Rightarrow> [BS, d]
         | None \<Rightarrow> if 0x20 \<le> v \<and> v < 0x7f then [char_of v] else esc_point v)
      else esc_point v)"

lemma short_escape_ascii: "short_escape c = Some d \<Longrightarrow> (of_char c :: nat) < 0x80"
  by (auto simp: short_escape_def BS_def DQ_def LF_def CR_def TAB_def split: if_splits)

lemma print_ascii:
  assumes "v < 0x80"
  shows "strToStr_loop (utf8 v @ r) = map_option (\<lambda>t. print_point v @ t) (strToStr_loop r)"
  using assms
  by (simp add: utf8_arith strToStr_loop.simps [of "char_of v # r"] print_point_def split: option.splits)

lemma print_more:
  assumes "0x80 \<le> x" "x < 256" "utf8_lead x = Some (length cs, val)" "list_all (\<lambda>d. (of_char d :: nat) AND 0xc0 = 0x80) cs"
  shows "strToStr_loop ((char_of x # cs) @ r) = map_option (\<lambda>t. esc_point (utf8_value val cs) @ t) (strToStr_loop r)"
proof -
  have "short_escape (char_of x) = None"
    using short_escape_ascii [of "char_of x"] assms(1,2) by (cases "short_escape (char_of x)") auto
  then show ?thesis
    using assms by (subst strToStr_loop.simps) simp
qed

lemma lead_mod:
  "x < 32 \<Longrightarrow> (0xc0 + x) mod 32 = (x :: nat)" "x < 16 \<Longrightarrow> (0xe0 + x) mod 16 = (x :: nat)"
  "x < 8 \<Longrightarrow> (0xf0 + x) mod 8 = (x :: nat)" "x < 64 \<Longrightarrow> (0x80 + x) mod 64 = (x :: nat)"
  using mod_add_left_eq [of 192 32 x] mod_add_left_eq [of 224 16 x] mod_add_left_eq [of 240 8 x]
    mod_add_left_eq [of 128 64 x]
  by simp_all

text \<open>Six bits after the other.\<close>

lemma utf8_value_snoc:
  assumes "utf8_value x cs = v div 64"
  shows "utf8_value x (cs @ [char_of (0x80 + v mod 64)]) = v"
  using assms by (simp add: utf8_value_def mask_simps lead_simps lead_mod)

lemma utf8_value_nil: "utf8_value x [] = x"
  by (simp add: utf8_value_def)

lemma print_utf8:
  assumes "code_point v"
  shows "strToStr_loop (utf8 v @ r) = map_option (\<lambda>t. print_point v @ t) (strToStr_loop r)"
proof -
  consider "v < 0x80" | "0x80 \<le> v" "v < 0x800" | "0x800 \<le> v" "v < 0x10000" | "0x10000 \<le> v" "v < 0x110000"
    using assms by (fastforce simp: code_point_def)
  then show ?thesis
  proof cases
    case 1
    then show ?thesis
      by (rule print_ascii)
  next
    case 2
    let ?x = "0xc0 + v div 64"
    have x: "?x < 0xe0" "v div 64 < 32"
      using 2 by (simp_all add: less_mult_imp_div_less)
    have "utf8_lead ?x = Some (1, v div 64)"
      using x by (simp add: utf8_lead_def lead_bits mask_simps lead_mod)
    moreover have "utf8_value (v div 64) [char_of (0x80 + v mod 64)] = v"
      using utf8_value_snoc [OF utf8_value_nil] by simp
    ultimately show ?thesis
      using print_more [of ?x "[char_of (0x80 + v mod 64)]" "v div 64" r] 2 x
      by (simp add: utf8_arith print_point_def lead_bits)
  next
    case 3
    let ?x = "0xe0 + v div 4096" and ?cs = "[char_of (0x80 + v div 64 mod 64)] @ [char_of (0x80 + v mod 64)]"
    have x: "v div 4096 < 16"
      using 3 by (simp add: less_mult_imp_div_less)
    have "utf8_lead ?x = Some (2, v div 4096)"
      using x by (simp add: utf8_lead_def lead_bits mask_simps lead_mod)
    moreover have "utf8_value (v div 4096) ?cs = v"
      using utf8_value_snoc [OF utf8_value_snoc, of "v div 4096" "[]" v] by (simp add: utf8_value_nil div_mult2_eq [symmetric])
    ultimately show ?thesis
      using print_more [of ?x ?cs "v div 4096" r] 3 x by (simp add: utf8_arith print_point_def lead_bits)
  next
    case 4
    let ?x = "0xf0 + v div 262144"
    let ?cs = "([char_of (0x80 + v div 4096 mod 64)] @ [char_of (0x80 + v div 64 mod 64)]) @ [char_of (0x80 + v mod 64)]"
    have x: "v div 262144 < 8"
      using 4 by (simp add: less_mult_imp_div_less)
    have "utf8_lead ?x = Some (3, v div 262144)"
      using x by (simp add: utf8_lead_def lead_bits mask_simps lead_mod)
    moreover have "utf8_value (v div 262144) ?cs = v"
      using utf8_value_snoc [OF utf8_value_snoc [OF utf8_value_snoc], of "v div 262144" "[]" v]
      by (simp add: utf8_value_nil div_mult2_eq [symmetric])
    ultimately show ?thesis
      using print_more [of ?x ?cs "v div 262144" r] 4 x by (simp add: utf8_arith print_point_def lead_bits)
  qed
qed

lemma read_point:
  assumes "code_point v"
  shows "getStr_loop ret None (print_point v @ r) = getStr_loop (ret @ utf8 v) None r"
proof (cases "v < 0x80 \<and> print_point v \<noteq> esc_point v")
  case True
  then have "utf8 v = [char_of v]" "(of_char (char_of v :: char) :: nat) < 0x80"
    by (simp_all add: utf8_arith)
  then show ?thesis
    using True getStr_short getStr_plain by (auto simp: print_point_def split: option.splits if_splits)
next
  case False
  then show ?thesis
    using getStr_point [OF assms] by (auto simp: print_point_def)
qed

subsection \<open>Strings\<close>

definition utf8_ok :: "string \<Rightarrow> bool" where
  "utf8_ok s \<longleftrightarrow> (\<exists>vs. list_all code_point vs \<and> s = concat (map utf8 vs))"

lemma print_points:
  "list_all code_point vs \<Longrightarrow> strToStr_loop (concat (map utf8 vs)) = Some (concat (map print_point vs))"
  by (induction vs) (simp_all add: print_utf8 strToStr_loop.simps [of "[]"])

lemma read_points:
  "list_all code_point vs \<Longrightarrow>
   getStr_loop ret None (concat (map print_point vs) @ r) = getStr_loop (ret @ concat (map utf8 vs)) None r"
  by (induction vs arbitrary: ret) (simp_all add: read_point)

lemma string_round:
  assumes "utf8_ok s"
  shows "getStr (strToStr s @ r) = Some (s, r)"
proof -
  obtain vs where v: "list_all code_point vs" "s = concat (map utf8 vs)"
    using assms by (auto simp: utf8_ok_def)
  have "getStr_loop s None (DQ # r) = Some (s, r)"
    by (simp add: getStr_loop.simps)
  then show ?thesis
    using print_points [OF v(1)] read_points [OF v(1), of "[]" "DQ # r"] v(2) by (simp add: getStr_def strToStr_def)
qed

end
