(* ===== verification/Json_Grammar.thy ===== *)
theory Json_Grammar
  imports Json_Round
begin

text \<open>
  The texts of JSON values as a grammar, with spaces wherever JSON allows them, and that the parser takes
  every one of them: the value of a text is the value the parser gives, the members of an object in the
  order of the multimap that holds them.
\<close>

definition stops :: "string \<Rightarrow> bool" where
  "stops r \<longleftrightarrow> r = [] \<or> ends_value (hd r)"

subsection \<open>Tokens of printed values\<close>

lemma getToken_ws: "list_all json_ws w \<Longrightarrow> getToken u (w @ x) = getToken u x"
proof -
  assume "list_all json_ws w"
  then have "skip_ws (w @ x) = skip_ws x"
    by (auto simp: skip_ws_def list_all_iff dropWhile_append2)
  then show ?thesis
    by (simp add: getToken.simps [of u "w @ x"] getToken.simps [of u x])
qed

lemma ws_simps [simp]: "json_ws CHR '' ''" "json_ws LF"
  by (simp_all add: json_ws_def)

lemma token_simps:
  "getToken u (CHR ''{'' # r) = (JSON_OBJ_STA, CHR ''{'' # r)" "getToken u (CHR ''}'' # r) = (JSON_OBJ_END, CHR ''}'' # r)"
  "getToken u (CHR ''['' # r) = (JSON_ARR_STA, CHR ''['' # r)" "getToken u (CHR '']'' # r) = (JSON_ARR_END, CHR '']'' # r)"
  "getToken u (CHR '','' # r) = (JSON_VAL_SEP, CHR '','' # r)" "getToken u (CHR '':'' # r) = (JSON_NAM_SEP, CHR '':'' # r)"
  "getToken u (DQ # r) = (JSON_STR, DQ # r)" "getToken u [] = (JSON_EOF, [])"
  by (simp_all add: getToken.simps skip_ws_def json_ws_def LF_def CR_def TAB_def DQ_def)

lemma getKey_word:
  assumes "list_all lower w" "\<forall>c \<in> set w. \<not> ends_value c" "stops r"
  shows "getKey k (w @ r) = (keyword (k @ w), r)"
  using assms
proof (induction w arbitrary: k)
  case Nil
  then show ?case
    by (cases r) (auto simp: stops_def)
qed simp

lemma keyword_tokens_print:
  assumes "stops r"
  shows "getToken u (''true'' @ r) = (JSON_TRUE, r)" "getToken u (''false'' @ r) = (JSON_FALSE, r)"
    "getToken u (''null'' @ r) = (JSON_NULL, r)"
proof -
  have t: "getToken u (w @ r) = getKey [] (w @ r)" if "w \<in> {''true'', ''false'', ''null''}" for w
    using that by (auto simp: getToken.simps skip_ws_def json_ws_def LF_def CR_def TAB_def DQ_def isdigit_def lower_def
      less_eq_char_def)
  have k: "getKey [] (w @ r) = (keyword w, r)" if "w \<in> {''true'', ''false'', ''null''}" for w
    using that by (auto intro!: getKey_word [OF _ _ assms, of _ "[]", simplified]
      simp: lower_def less_eq_char_def ends_value_def json_ws_def LF_def CR_def TAB_def)
  show "getToken u (''true'' @ r) = (JSON_TRUE, r)" "getToken u (''false'' @ r) = (JSON_FALSE, r)"
    "getToken u (''null'' @ r) = (JSON_NULL, r)"
    using t [of "''true''"] k [of "''true''"] t [of "''false''"] k [of "''false''"] t [of "''null''"] k [of "''null''"]
    by (simp_all add: keyword_def)
qed

subsection \<open>Numbers\<close>

lemma getNum_loop_stop:
  "getNum_loop z st s = Some (t, d, e, []) \<Longrightarrow> stops r \<Longrightarrow> getNum_loop z st (s @ r) = Some (t, d, e, r)"
proof (induction z st s rule: getNum_loop.induct)
  case (1 z st)
  then show ?case
    by (cases r) (auto simp: stops_def split: if_splits)
qed (auto split: if_splits option.splits)

lemma getNum_stop:
  assumes "getNum s = Some (t, d, e, [])" "stops r"
  shows "getNum (s @ r) = Some (t, d, e, r)"
proof (cases s)
  case Nil
  then show ?thesis
    using assms(1) by (simp add: getNum_def)
next
  case (Cons c s')
  have "s' \<noteq> []" if "c = CHR ''-''"
    using assms(1) Cons that by (auto simp: getNum_def)
  then show ?thesis
    using assms getNum_loop_stop [OF _ assms(2)] Cons by (auto simp: getNum_def Let_def split: if_splits)
qed

lemma number_token:
  assumes "getNum s = Some x"
  shows "getToken u (s @ r) = (JSON_NUM, s @ r)"
proof -
  obtain c s' where s: "s = c # s'" "isdigit c \<or> c = CHR ''-''"
    using assms by (cases s) (auto simp: getNum_def isdigit_def Let_def split: if_splits)
  have n: "\<not> json_ws c" "c \<notin> {CHR ''{'', CHR ''}'', CHR ''['', CHR '']'', CHR '','', CHR '':'', DQ, CHR ''/''}"
    using s(2) by (elim disjE; force simp: isdigit_def json_ws_def LF_def CR_def TAB_def DQ_def)+
  then show ?thesis
    using s by (elim disjE) (simp_all add: getToken.simps [of u "_ # s' @ r"] skip_ws_def)
qed

lemma stops_simps [simp]: "stops (LF # r)" "stops (CHR '','' # r)" "stops (CHR ''}'' # r)" "stops (CHR '']'' # r)"
  by (simp_all add: stops_def ends_value_def)

lemma objLoop_ws: "list_all json_ws w \<Longrightarrow> objLoop u acc (w @ x) = objLoop u acc x"
  by (simp add: objLoop.simps [of u acc "w @ x"] objLoop.simps [of u acc x] getToken_ws)

text \<open>A token that stays is read again.\<close>

lemma getToken_again: "getToken u cur = (tk, r) \<Longrightarrow> stays tk \<Longrightarrow> getToken u r = (tk, r)"
proof -
  have "stays (fst (getToken u cur)) \<longrightarrow> getToken u (snd (getToken u cur)) = getToken u cur"
  proof (rule getToken_induct)
    fix cur c r and t :: "e_token \<times> string"
    assume s: "skip_ws cur = c # r" and t: "getToken u cur = t" "(\<exists>tk. t = (tk, c # r)) \<or> t = getKey [] (c # r)"
    have "skip_ws (c # r) = c # r"
      using s hd_dropWhile [of json_ws cur] by (simp add: skip_ws_def)
    then have "getToken u (c # r) = getToken u cur"
      by (simp add: getToken.simps [of u "c # r"] getToken.simps [of u cur] s)
    then show "stays (fst t) \<longrightarrow> getToken u (snd t) = t"
      using t getKey_tokens [of "[]" "c # r" "fst t" "snd t"] by (auto simp: stays_def)
  qed (simp_all add: stays_def)
  then show "getToken u cur = (tk, r) \<Longrightarrow> stays tk \<Longrightarrow> getToken u r = (tk, r)"
    by simp
qed

subsection \<open>The grammar\<close>

definition string_text :: "string \<Rightarrow> string \<Rightarrow> bool" where
  "string_text t k \<longleftrightarrow> (\<exists>s. t = DQ # s) \<and> NUL \<notin> set t \<and> (\<forall>r. getStr (t @ r) = Some (k, r))"

definition insert_members :: "(string \<times> jsonValueBase) list \<Rightarrow> (string \<times> jsonValueBase) list \<Rightarrow>
    (string \<times> jsonValueBase) list" where
  "insert_members = fold (\<lambda>(k, v). insert_member k v)"

inductive value_text :: "string \<Rightarrow> jsonValueBase \<Rightarrow> bool"
  and members_of :: "string \<Rightarrow> (string \<times> jsonValueBase) list \<Rightarrow> bool"
  and elements_of :: "string \<Rightarrow> jsonValueBase list \<Rightarrow> bool"
where
  string_value: "string_text t s \<Longrightarrow> value_text t (jString s)"
| number_value: "getNum t = Some (s, d, e, []) \<Longrightarrow> value_text t (jNumber s d e)"
| true_value: "value_text ''true'' (jBoolean True)"
| false_value: "value_text ''false'' (jBoolean False)"
| null_value: "value_text ''null'' jNull"
| empty_object: "list_all json_ws w \<Longrightarrow> value_text (''{'' @ w @ ''}'') (jObject [])"
| object: "members_of t ms \<Longrightarrow> value_text (''{'' @ t @ ''}'') (jObject (insert_members ms []))"
| empty_array: "list_all json_ws w \<Longrightarrow> value_text (''['' @ w @ '']'') (jArray [])"
| array: "elements_of t es \<Longrightarrow> value_text (''['' @ t @ '']'') (jArray es)"
| last_member: "\<lbrakk>list_all json_ws (w1 @ w2 @ w3 @ w4); string_text kt k; value_text t v\<rbrakk>
    \<Longrightarrow> members_of (w1 @ kt @ w2 @ '':'' @ w3 @ t @ w4) [(k, v)]"
| next_member: "\<lbrakk>list_all json_ws (w1 @ w2 @ w3 @ w4); string_text kt k; value_text t v; members_of t' ms\<rbrakk>
    \<Longrightarrow> members_of (w1 @ kt @ w2 @ '':'' @ w3 @ t @ w4 @ '','' @ t') ((k, v) # ms)"
| last_element: "\<lbrakk>list_all json_ws (w1 @ w2); value_text t v\<rbrakk> \<Longrightarrow> elements_of (w1 @ t @ w2) [v]"
| next_element: "\<lbrakk>list_all json_ws (w1 @ w2); value_text t v; elements_of t' es\<rbrakk>
    \<Longrightarrow> elements_of (w1 @ t @ w2 @ '','' @ t') (v # es)"

subsection \<open>The parser takes the texts\<close>

definition reads :: "bool \<Rightarrow> string \<Rightarrow> jsonValueBase \<Rightarrow> bool" where
  "reads u t v \<longleftrightarrow> (\<forall>r. stops r \<longrightarrow> (case getToken u (t @ r) of (tk, cur) \<Rightarrow> parserVal u tk cur = Some (v, r)))"

lemma readsD:
  assumes "reads u t v" "stops r"
  obtains tk cur where "getToken u (t @ r) = (tk, cur)" "parserVal u tk cur = Some (v, r)"
  using assms by (fastforce simp: reads_def)

lemma stops_ws: "list_all json_ws w \<Longrightarrow> stops r \<Longrightarrow> stops (w @ r)"
  by (cases w) (auto simp: stops_def ends_value_def)

lemma string_token: "string_text t k \<Longrightarrow> getToken u (t @ r) = (JSON_STR, t @ r)"
  using token_simps(7) by (auto simp: string_text_def)

lemma member_read:
  assumes "list_all json_ws (w1 @ w2 @ w3 @ w4)" "string_text kt k" "reads u t v" "stops r"
  shows "objLoop u acc (w1 @ kt @ w2 @ '':'' @ w3 @ t @ w4 @ r) =
    (case getToken u r of (tk6, cur6) \<Rightarrow>
       if tk6 = JSON_OBJ_END then Some (jObject (insert_member k v acc), closeTk cur6)
       else if tk6 = JSON_VAL_SEP then objLoop u (insert_member k v acc) (closeTk cur6) else None)"
proof -
  have w: "list_all json_ws w1" "list_all json_ws w2" "list_all json_ws w3" "list_all json_ws w4"
    using assms(1) by simp_all
  obtain tk cur where v: "getToken u (t @ w4 @ r) = (tk, cur)" "parserVal u tk cur = Some (v, w4 @ r)"
    using readsD [OF assms(3) stops_ws [OF w(4) assms(4)]] .
  have 1: "getToken u (w1 @ kt @ w2 @ '':'' @ w3 @ t @ w4 @ r) = (JSON_STR, kt @ w2 @ '':'' @ w3 @ t @ w4 @ r)"
    using getToken_ws [OF w(1)] string_token [OF assms(2)] by simp
  have 2: "getStr (kt @ w2 @ '':'' @ w3 @ t @ w4 @ r) = Some (k, w2 @ '':'' @ w3 @ t @ w4 @ r)"
    using assms(2) by (simp add: string_text_def)
  have 3: "getToken u (w2 @ '':'' @ w3 @ t @ w4 @ r) = (JSON_NAM_SEP, '':'' @ w3 @ t @ w4 @ r)"
    using getToken_ws [OF w(2)] token_simps(6) by simp
  have 4: "getToken u (w3 @ t @ w4 @ r) = (tk, cur)"
    using getToken_ws [OF w(3)] v(1) by simp
  show ?thesis
    by (subst objLoop.simps) (use 1 2 3 4 v(2) getToken_ws [OF w(4)] in \<open>simp add: closeTk_def split: prod.split\<close>)
qed

lemma element_read:
  assumes "list_all json_ws (w1 @ w2)" "reads u t v" "stops r"
  shows "(case getToken u (w1 @ t @ w2 @ r) of (tk, cur) \<Rightarrow> arrLoop u acc tk cur) =
    (case getToken u r of (tk2, cur2) \<Rightarrow>
       if tk2 = JSON_ARR_END then Some (jArray (acc @ [v]), closeTk cur2)
       else if tk2 = JSON_VAL_SEP
       then (case getToken u (closeTk cur2) of (tk3, cur3) \<Rightarrow> arrLoop u (acc @ [v]) tk3 cur3) else None)"
proof -
  have w: "list_all json_ws w1" "list_all json_ws w2"
    using assms(1) by simp_all
  obtain tk cur where v: "getToken u (t @ w2 @ r) = (tk, cur)" "parserVal u tk cur = Some (v, w2 @ r)"
    using readsD [OF assms(2) stops_ws [OF w(2) assms(3)]] .
  then show ?thesis
    using getToken_ws [OF w(1)] getToken_ws [OF w(2)]
    by (simp add: arrLoop.simps [of u acc tk cur] split: prod.split)
qed

lemma object_read:
  assumes "\<And>acc r. objLoop u acc (t @ ''}'' @ r) = Some (jObject (f acc), r)"
  shows "reads u (''{'' @ t @ ''}'') (jObject (f []))"
proof -
  have "parserVal u JSON_OBJ_STA (CHR ''{'' # t @ CHR ''}'' # r) = Some (jObject (f []), r)" for r
  proof -
    let ?c = "t @ CHR ''}'' # r"
    have l: "objLoop u [] ?c = Some (jObject (f []), r)"
      using assms [of "[]" r] by simp
    obtain tk cur where t: "getToken u ?c = (tk, cur)"
      by fastforce
    then have s: "tk = JSON_STR"
      using l by (auto simp: objLoop.simps [of u "[]" ?c] split: if_splits)
    then have "objLoop u [] cur = objLoop u [] ?c"
      using t getToken_again [OF t] by (simp add: objLoop.simps [of u "[]" cur] objLoop.simps [of u "[]" ?c] stays_def)
    then show ?thesis
      using t l s by (simp add: parserVal.simps)
  qed
  then show ?thesis
    by (simp add: reads_def token_simps)
qed

lemma array_read:
  assumes "\<And>acc r. (case getToken u (t @ '']'' @ r) of (tk, cur) \<Rightarrow> arrLoop u acc tk cur) = Some (jArray (acc @ es), r)"
  shows "reads u (''['' @ t @ '']'') (jArray es)"
proof -
  have "parserVal u JSON_ARR_STA (CHR ''['' # t @ CHR '']'' # r) = Some (jArray es, r)" for r
  proof -
    let ?c = "t @ CHR '']'' # r"
    obtain tk cur where t: "getToken u ?c = (tk, cur)"
      by fastforce
    then have l: "arrLoop u [] tk cur = Some (jArray es, r)"
      using assms [of "[]" r] by simp
    then have "tk \<noteq> JSON_ARR_END"
      by (auto simp: arrLoop.simps [of u "[]" tk cur] parserVal.simps [of u tk cur])
    then show ?thesis
      using t l by (simp add: parserVal.simps)
  qed
  then show ?thesis
    by (simp add: reads_def token_simps)
qed

lemma texts_read:
  "value_text t v \<Longrightarrow> reads u t v"
  "members_of t ms \<Longrightarrow> objLoop u acc (t @ ''}'' @ r) = Some (jObject (insert_members ms acc), r)"
  "elements_of t es \<Longrightarrow> (case getToken u (t @ '']'' @ r) of (tk, cur) \<Rightarrow> arrLoop u acc' tk cur) = Some (jArray (acc' @ es), r)"
proof (induction arbitrary: and acc r and acc' r rule: value_text_members_of_elements_of.inducts)
  case (string_value t s)
  then show ?case
    using string_token by (fastforce simp: reads_def parserVal.simps string_text_def)
next
  case (number_value t s d e)
  then show ?case
    using getNum_stop number_token by (simp add: reads_def parserVal.simps)
next
  case (empty_object w)
  then show ?case
    using getToken_ws [of w u] by (simp add: reads_def parserVal.simps token_simps closeTk_def)
next
  case (object t ms)
  then show ?case
    by (intro object_read) simp
next
  case (empty_array w)
  then show ?case
    using getToken_ws [of w u] by (simp add: reads_def parserVal.simps token_simps closeTk_def)
next
  case (array t es)
  then show ?case
    by (intro array_read)
next
  case (last_member w1 w2 w3 w4 kt k t v)
  then show ?case
    using member_read [OF last_member(1,2,4), of "''}'' @ r" acc]
    by (simp add: token_simps closeTk_def insert_members_def)
next
  case (next_member w1 w2 w3 w4 kt k t v t' ms)
  then show ?case
    using member_read [OF next_member(1,2,5), of "'','' @ t' @ ''}'' @ r" acc]
    by (simp add: token_simps closeTk_def insert_members_def)
next
  case (last_element w1 w2 t v)
  then show ?case
    using element_read [OF last_element(1,3), of "'']'' @ r" acc'] by (simp add: token_simps closeTk_def)
next
  case (next_element w1 w2 t v t' es)
  then show ?case
    using element_read [OF next_element(1,4), of "'','' @ t' @ '']'' @ r" acc'] by (simp add: token_simps closeTk_def)
qed (use keyword_tokens_print in \<open>simp_all add: reads_def parserVal.simps\<close>)

subsection \<open>The whole text\<close>

text \<open>A text has no zero in it and does not start with a byte order mark.\<close>

lemma getNum_loop_plain: "getNum_loop z st s = Some (t, d, e, []) \<Longrightarrow> NUL \<notin> set s"
proof (induction z st s rule: getNum_loop.induct)
  case (2 z st c r)
  have "num_step z NUL st = None"
    by (simp add: num_step_def isdigit_def NUL_def)
  then show ?case
    using 2 by (auto split: if_splits option.splits)
qed simp

lemma getNum_plain: "getNum s = Some (t, d, e, []) \<Longrightarrow> NUL \<notin> set s"
  using getNum_loop_plain
  by (fastforce simp: getNum_def Let_def NUL_def isdigit_def split: list.splits if_splits)

lemma number_head: "getNum s = Some x \<Longrightarrow> s \<noteq> [] \<and> hd s \<noteq> CHR 0xEF"
  by (auto simp: getNum_def isdigit_def split: list.splits if_splits)

lemma ws_plain: "list_all json_ws w \<Longrightarrow> NUL \<notin> set w \<and> CHR 0xEF \<notin> set w"
  by (induction w) (auto simp: json_ws_def NUL_def LF_def CR_def TAB_def)

lemma texts_plain:
  "value_text t v \<Longrightarrow> NUL \<notin> set t"
  "members_of t ms \<Longrightarrow> NUL \<notin> set t"
  "elements_of t es \<Longrightarrow> NUL \<notin> set t"
  by (induction rule: value_text_members_of_elements_of.inducts)
    (use ws_plain getNum_plain in \<open>auto simp: string_text_def NUL_def\<close>)

lemma text_head: "value_text t v \<Longrightarrow> t \<noteq> [] \<and> hd t \<noteq> CHR 0xEF"
  by (cases rule: value_text.cases) (auto simp: string_text_def DQ_def dest: number_head)

lemma parse_text:
  assumes "value_text t v" "list_all json_ws w1" "list_all json_ws w2"
  shows "parseBuffer (w1 @ t @ w2) u main = (True, Some v)"
proof -
  let ?t = "w1 @ t @ w2"
  have c: "cstr ?t = ?t"
    using texts_plain(1) [OF assms(1)] ws_plain [OF assms(2)] ws_plain [OF assms(3)]
    by (intro cstr_no_nul) (auto simp: NUL_def)
  have b: "skipBOM ?t = ?t" "?t \<noteq> []"
    using text_head [OF assms(1)] ws_plain [OF assms(2)] by (cases w1; cases t; auto simp: skipBOM_def)+
  obtain tk cur where r: "getToken u (t @ w2) = (tk, cur)" "parserVal u tk cur = Some (v, w2)"
    by (rule readsD [OF texts_read(1) [OF assms(1)], of w2]) (use stops_ws [OF assms(3), of "[]"] in \<open>simp add: stops_def\<close>)
  then have "tk \<noteq> JSON_EOF"
    by (auto simp: parserVal.simps)
  moreover have "getToken u w2 = (JSON_EOF, [])"
    using getToken_ws [OF assms(3), of u "[]"] token_simps(8) by simp
  ultimately show ?thesis
    using r c b getToken_ws [OF assms(2)] by (simp add: parseBuffer_def paresJson_def)
qed

end
