(* ===== verification/Json_Parsed.thy ===== *)
theory Json_Parsed
  imports Json_Grammar
begin

text \<open>
  The printed text of a JSON value is a text of the grammar for this value, so that the parser gives the
  value back.
\<close>

text \<open>The values that have a text: strings are UTF-8, numbers are texts the parser takes as they are,
  members are in their order.\<close>

fun json_ok :: "jsonValueBase \<Rightarrow> bool"
  and members_ok :: "(string \<times> jsonValueBase) list \<Rightarrow> bool"
  and elements_ok :: "jsonValueBase list \<Rightarrow> bool"
where
  "json_ok (jString s) \<longleftrightarrow> utf8_ok s"
| "json_ok (jNumber s d e) \<longleftrightarrow> getNum s = Some (s, d, e, [])"
| "json_ok (jBoolean b) \<longleftrightarrow> True"
| "json_ok jNull \<longleftrightarrow> True"
| "json_ok (jObject ms) \<longleftrightarrow> sorted (map fst ms) \<and> members_ok ms"
| "json_ok (jArray es) \<longleftrightarrow> elements_ok es"
| "members_ok [] \<longleftrightarrow> True"
| "members_ok ((k, v) # ms) \<longleftrightarrow> utf8_ok k \<and> json_ok v \<and> members_ok ms"
| "elements_ok [] \<longleftrightarrow> True"
| "elements_ok (v # es) \<longleftrightarrow> json_ok v \<and> elements_ok es"

subsection \<open>Objects and arrays\<close>

text \<open>The text of the parts: a comma behind all but the last.\<close>

definition member_line :: "nat \<Rightarrow> string \<times> jsonValueBase \<Rightarrow> string" where
  "member_line i m = ident_text i @ ''  '' @ strToStr (fst m) @ '' : '' @ toString (i + 2) (snd m)"

definition element_line :: "nat \<Rightarrow> jsonValueBase \<Rightarrow> string" where
  "element_line i v = ident_text i @ ''  '' @ toString (i + 2) v"

fun body_text :: "('a \<Rightarrow> string) \<Rightarrow> 'a list \<Rightarrow> string" where
  "body_text line [] = []"
| "body_text line [m] = line m @ [LF]"
| "body_text line (m # n # ms) = line m @ '','' @ [LF] @ body_text line (n # ms)"

lemma erase_comma_append: "2 \<le> length s \<Longrightarrow> erase_comma (p @ s) = p @ erase_comma s"
  by (simp add: erase_comma_def)

lemma parts_text:
  "members_text i ms = concat (map (\<lambda>m. member_line i m @ '','' @ [LF]) ms)"
  "elements_text i es = concat (map (\<lambda>v. element_line i v @ '','' @ [LF]) es)"
  by (induction ms) (auto simp: member_line_def, induction es, auto simp: element_line_def)

lemma erase_body:
  "ms \<noteq> [] \<Longrightarrow> erase_comma (concat (map (\<lambda>m. line m @ '','' @ [LF]) ms)) = body_text line ms"
proof (induction line ms rule: body_text.induct)
  case (2 line m)
  then show ?case
    by (simp add: erase_comma_def)
next
  case (3 line m n ms)
  then show ?case
    using erase_comma_append [of "concat (map (\<lambda>m. line m @ '','' @ [LF]) (n # ms))" "line m @ '','' @ [LF]"] by simp
qed simp

lemma object_text:
  "toString i (jObject ms) = ident_text i @ ''{'' @ [LF] @ body_text (member_line i) ms @ ident_text i @ ''}''"
proof (cases "ms = []")
  case False
  then have "2 \<le> length (members_text i ms)"
    by (cases ms) (simp_all add: parts_text)
  then show ?thesis
    using False erase_comma_append [of "members_text i ms" "ident_text i @ ''{'' @ [LF]"] erase_body [of ms "member_line i"]
    by (simp add: parts_text)
qed simp

lemma array_text:
  "toString i (jArray es) = ident_text i @ ''['' @ [LF] @ body_text (element_line i) es @ ident_text i @ '']''"
proof (cases "es = []")
  case False
  then have "2 \<le> length (elements_text i es)"
    by (cases es) (simp_all add: parts_text)
  then show ?thesis
    using False erase_comma_append [of "elements_text i es" "ident_text i @ ''['' @ [LF]"] erase_body [of es "element_line i"]
    by (simp add: parts_text)
qed simp

subsection \<open>Printed texts are texts of the grammar\<close>

lemma ident_ws [simp]: "list_all json_ws (ident_text i)"
  by (simp add: ident_text_def list_all_iff json_ws_def)

lemma insert_last: "\<forall>m \<in> set ms. fst m \<le> k \<Longrightarrow> insert_member k e ms = ms @ [(k, e)]"
  by (simp add: insert_member_def takeWhile_eq_all_conv dropWhile_eq_Nil_conv)

lemma hex4_plain: "NUL \<notin> set (hex4 v)"
  by (simp add: hex4_def NUL_def hexdig(5) [symmetric])

lemma esc_plain: "NUL \<notin> set (esc_point v)"
  using hex4_plain by (auto simp: esc_point_def jUtf16_def Let_def BS_def NUL_def)

lemma print_point_plain: "NUL \<notin> set (print_point v)"
proof -
  have "(char_of v :: char) \<noteq> NUL" if "0x20 \<le> v" "v < 0x7f"
  proof
    assume "(char_of v :: char) = NUL"
    then have "(of_char (char_of v :: char) :: nat) = of_char NUL"
      by simp
    then show False
      using that by (simp add: NUL_def)
  qed
  then show ?thesis
    using esc_plain
    by (auto simp: print_point_def short_escape_def BS_def DQ_def NUL_def split: option.splits if_splits)
qed

lemma strToStr_plain: "utf8_ok s \<Longrightarrow> NUL \<notin> set (strToStr s)"
  using print_points print_point_plain by (fastforce simp: utf8_ok_def strToStr_def DQ_def NUL_def)

lemma members_okD: "members_ok ms \<Longrightarrow> m \<in> set ms \<Longrightarrow> utf8_ok (fst m) \<and> json_ok (snd m)"
  by (induction ms) auto

lemma elements_okD: "elements_ok es \<Longrightarrow> v \<in> set es \<Longrightarrow> json_ok v"
  by (induction es) auto

lemma insert_members_sorted: "sorted (map fst (acc @ ms)) \<Longrightarrow> insert_members ms acc = acc @ ms"
  by (induction ms arbitrary: acc) (auto simp: insert_members_def insert_last sorted_append)

text \<open>The value with the spaces in front of it.\<close>

definition prints :: "string \<Rightarrow> jsonValueBase \<Rightarrow> bool" where
  "prints t v \<longleftrightarrow> (\<exists>w s. t = w @ s \<and> list_all json_ws w \<and> value_text s v)"

lemma printsE:
  assumes "prints t v"
  obtains w s where "t = w @ s" "list_all json_ws w" "value_text s v"
  using assms by (auto simp: prints_def)

lemma string_prints: "utf8_ok s \<Longrightarrow> string_text (strToStr s) s"
proof -
  have "\<exists>t. strToStr s = DQ # t"
    by (cases "strToStr_loop s") (simp_all add: strToStr_def)
  then show "utf8_ok s \<Longrightarrow> ?thesis"
    using strToStr_plain string_round by (simp add: string_text_def)
qed

lemma members_print:
  assumes "ms \<noteq> []" "\<forall>m \<in> set ms. utf8_ok (fst m) \<and> (\<forall>i. prints (toString i (snd m)) (snd m))" "list_all json_ws w"
  shows "members_of (w @ body_text (member_line i) ms @ ident_text i) ms"
  using assms
proof (induction "member_line i" ms arbitrary: w rule: body_text.induct)
  case (2 m)
  obtain w' s where s: "toString (i + 2) (snd m) = w' @ s" "list_all json_ws w'" "value_text s (snd m)"
    using printsE [of "toString (i + 2) (snd m)" "snd m"] 2(2) by auto
  show ?case
    using last_member [of "w @ ident_text i @ ''  ''" "'' ''" "'' '' @ w'" "LF # ident_text i" "strToStr (fst m)" "fst m" s "snd m"]
      s string_prints 2 by (simp add: member_line_def)
next
  case (3 m n ms)
  obtain w' s where s: "toString (i + 2) (snd m) = w' @ s" "list_all json_ws w'" "value_text s (snd m)"
    using printsE [of "toString (i + 2) (snd m)" "snd m"] 3(3) by auto
  show ?case
    using next_member [of "w @ ident_text i @ ''  ''" "'' ''" "'' '' @ w'" "[]" "strToStr (fst m)" "fst m" s "snd m"]
      s string_prints 3(3,4) 3(1) [of "[LF]"] by (simp add: member_line_def)
qed simp

lemma elements_print:
  assumes "es \<noteq> []" "\<forall>v \<in> set es. \<forall>i. prints (toString i v) v" "list_all json_ws w"
  shows "elements_of (w @ body_text (element_line i) es @ ident_text i) es"
  using assms
proof (induction "element_line i" es arbitrary: w rule: body_text.induct)
  case (2 v)
  obtain w' s where s: "toString (i + 2) v = w' @ s" "list_all json_ws w'" "value_text s v"
    using printsE [of "toString (i + 2) v" v] 2(2) by auto
  show ?case
    using last_element [of "w @ ident_text i @ ''  '' @ w'" "LF # ident_text i" s v] s 2 by (simp add: element_line_def)
next
  case (3 v n ms)
  obtain w' s where s: "toString (i + 2) v = w' @ s" "list_all json_ws w'" "value_text s v"
    using printsE [of "toString (i + 2) v" v] 3(3) by auto
  show ?case
    using next_element [of "w @ ident_text i @ ''  '' @ w'" "[]" s v] s 3(3,4) 3(1) [of "[LF]"] by (simp add: element_line_def)
qed simp

lemma object_prints:
  assumes "\<forall>m \<in> set ms. utf8_ok (fst m) \<and> (\<forall>i. prints (toString i (snd m)) (snd m))" "sorted (map fst ms)"
  shows "prints (toString i (jObject ms)) (jObject ms)"
proof (cases "ms = []")
  case True
  then show ?thesis
    using empty_object [of "LF # ident_text i"]
    by (fastforce simp: prints_def object_text simp del: toString.simps)
next
  case False
  then show ?thesis
    using object [OF members_print [OF False assms(1), of "[LF]" i]] insert_members_sorted [of "[]" ms] assms(2)
    by (fastforce simp: prints_def object_text simp del: toString.simps)
qed

lemma array_prints:
  assumes "\<forall>v \<in> set es. \<forall>i. prints (toString i v) v"
  shows "prints (toString i (jArray es)) (jArray es)"
proof (cases "es = []")
  case True
  then show ?thesis
    using empty_array [of "LF # ident_text i"]
    by (fastforce simp: prints_def array_text simp del: toString.simps)
next
  case False
  then show ?thesis
    using array [OF elements_print [OF False assms(1), of "[LF]" i]]
    by (fastforce simp: prints_def array_text simp del: toString.simps)
qed

lemma value_prints: "json_ok v \<Longrightarrow> prints (toString i v) v"
proof (induction v arbitrary: i)
  case (jString s)
  then show ?case
    using string_value [OF string_prints] by (fastforce simp: prints_def)
next
  case (jNumber s d e)
  then show ?case
    using number_value by (fastforce simp: prints_def)
next
  case (jBoolean b)
  then show ?case
    using true_value false_value by (fastforce simp: prints_def)
next
  case jNull
  then show ?case
    using null_value by (fastforce simp: prints_def)
next
  case (jObject ms)
  then have "\<forall>m \<in> set ms. utf8_ok (fst m) \<and> (\<forall>i. prints (toString i (snd m)) (snd m))"
    using members_okD by (fastforce intro: snds.intros)
  then show ?case
    using object_prints jObject.prems by simp
next
  case (jArray es)
  then show ?case
    using array_prints [of es i] elements_okD [of es] by simp
qed

lemma parse_printed: "json_ok v \<Longrightarrow> parseBuffer (toString i v) u main = (True, Some v)"
  using value_prints [of v i] parse_text [of _ v _ "[]"] by (fastforce simp: prints_def)

end
