(* ===== verification/Json_Shape.thy ===== *)
theory Json_Shape
  imports Json_Parsed
begin

text \<open>
  What the JSON parser makes of any text: the members of objects are in the order of their keys, and a
  number that was taken is taken again as it is, so that a value with strings in UTF-8 survives printing
  and parsing again.
\<close>

fun json_shape :: "jsonValueBase \<Rightarrow> bool"
  and members_shape :: "(string \<times> jsonValueBase) list \<Rightarrow> bool"
  and elements_shape :: "jsonValueBase list \<Rightarrow> bool"
where
  "json_shape (jString s) \<longleftrightarrow> True"
| "json_shape (jNumber s d e) \<longleftrightarrow> getNum s = Some (s, d, e, [])"
| "json_shape (jBoolean b) \<longleftrightarrow> True"
| "json_shape jNull \<longleftrightarrow> True"
| "json_shape (jObject ms) \<longleftrightarrow> sorted (map fst ms) \<and> members_shape ms"
| "json_shape (jArray es) \<longleftrightarrow> elements_shape es"
| "members_shape [] \<longleftrightarrow> True"
| "members_shape ((k, v) # ms) \<longleftrightarrow> json_shape v \<and> members_shape ms"
| "elements_shape [] \<longleftrightarrow> True"
| "elements_shape (v # es) \<longleftrightarrow> json_shape v \<and> elements_shape es"

fun strings_ok :: "jsonValueBase \<Rightarrow> bool"
  and members_strings :: "(string \<times> jsonValueBase) list \<Rightarrow> bool"
  and elements_strings :: "jsonValueBase list \<Rightarrow> bool"
where
  "strings_ok (jString s) \<longleftrightarrow> utf8_ok s"
| "strings_ok (jNumber s d e) \<longleftrightarrow> True"
| "strings_ok (jBoolean b) \<longleftrightarrow> True"
| "strings_ok jNull \<longleftrightarrow> True"
| "strings_ok (jObject ms) \<longleftrightarrow> members_strings ms"
| "strings_ok (jArray es) \<longleftrightarrow> elements_strings es"
| "members_strings [] \<longleftrightarrow> True"
| "members_strings ((k, v) # ms) \<longleftrightarrow> utf8_ok k \<and> strings_ok v \<and> members_strings ms"
| "elements_strings [] \<longleftrightarrow> True"
| "elements_strings (v # es) \<longleftrightarrow> strings_ok v \<and> elements_strings es"

lemma json_ok_parts:
  "json_ok v \<longleftrightarrow> json_shape v \<and> strings_ok v"
  "members_ok ms \<longleftrightarrow> members_shape ms \<and> members_strings ms"
  "elements_ok es \<longleftrightarrow> elements_shape es \<and> elements_strings es"
  by (induction v and ms and es rule: json_ok_members_ok_elements_ok.induct) auto

lemma ascii_utf8:
  assumes "list_all (\<lambda>c. (of_char c :: nat) < 0x80) s"
  shows "utf8_ok s"
proof -
  have "concat (map utf8 (map of_char s)) = s"
    using assms by (induction s) (auto simp: utf8_def mask_simps)
  then show ?thesis
    using assms by (force simp: utf8_ok_def code_point_def list_all_iff intro!: exI [of _ "map of_char s"])
qed

subsection \<open>Numbers are taken again\<close>

text \<open>A sign plus only stands where it changes nothing.\<close>

definition num_inv :: "num_loop \<Rightarrow> bool" where
  "num_inv st \<longleftrightarrow> (0 < nl_e st \<and> nl_loc st = nl_e st + 1 \<longrightarrow> nl_zeroProhib st \<and> nl_lastNotDigit st) \<and>
     nl_e st < nl_loc st"

lemma num_inv_step: "num_step z c st = Some st' \<Longrightarrow> num_inv st \<Longrightarrow> num_inv st'"
  by (auto simp: num_step_def num_put_def num_inv_def isdigit_def split: if_splits)

lemma num_plus: "num_step z CHR ''+'' st = Some st' \<Longrightarrow> num_inv st \<Longrightarrow> st' = st"
  by (auto simp: num_step_def num_put_def num_inv_def split: if_splits)

lemma num_ret: "num_step z c st = Some st' \<Longrightarrow> nl_ret st' = nl_ret st @ filter (\<lambda>c. c \<noteq> CHR ''+'') [c]"
  by (auto simp: num_step_def num_put_def split: if_splits)

lemma getNum_loop_again:
  assumes "getNum_loop z st cur = Some (s, d, e, r)" "num_inv st"
  shows "\<exists>p. cur = p @ r \<and> s = nl_ret st @ filter (\<lambda>c. c \<noteq> CHR ''+'') p \<and>
    getNum_loop z st (filter (\<lambda>c. c \<noteq> CHR ''+'') p) = Some (s, d, e, [])"
  using assms
proof (induction z st cur rule: getNum_loop.induct)
  case (2 z st c cur)
  show ?case
  proof (cases "ends_value c")
    case True
    then show ?thesis
      using 2 by (auto split: if_splits intro!: exI [of _ "[]"])
  next
    case False
    then obtain st' where st: "num_step z c st = Some st'" "getNum_loop z st' cur = Some (s, d, e, r)"
      using 2 by (auto split: option.splits)
    obtain p where p: "cur = p @ r" "s = nl_ret st' @ filter (\<lambda>c. c \<noteq> CHR ''+'') p"
      "getNum_loop z st' (filter (\<lambda>c. c \<noteq> CHR ''+'') p) = Some (s, d, e, [])"
      using 2(1) [OF False st(1,2) num_inv_step [OF st(1) 2(3)]] by blast
    show ?thesis
    proof (cases "c = CHR ''+''")
      case True
      then show ?thesis
        using p num_plus [of z st st'] st(1) 2(3) by (auto intro!: exI [of _ "c # p"])
    next
      case c: False
      then show ?thesis
        using p num_ret [OF st(1)] st(1) False by (auto intro!: exI [of _ "c # p"])
    qed
  qed
qed (auto split: if_splits)

lemma getNum_minus:
  assumes "getNum_loop z st (p @ r) = Some (s, d, e, r)" "nl_lastNotDigit st" "nl_e st = 0"
  obtains c p' where "p = c # p'" "c \<noteq> CHR ''+''"
proof (cases p)
  case Nil
  then show ?thesis
    using assms(1,2) by (cases r) (auto split: if_splits option.splits dest: getNum_loop_le)
next
  case (Cons c p')
  have "c \<noteq> CHR ''+''"
    using assms Cons by (auto simp: num_step_def ends_value_def json_ws_def LF_def CR_def TAB_def)
  then show ?thesis
    using that Cons by blast
qed

lemma getNum_again:
  assumes "getNum cur = Some (s, d, e, r)"
  shows "getNum s = Some (s, d, e, [])"
proof -
  obtain first t where c: "cur = first # t"
    using assms by (cases cur) (auto simp: getNum_def)
  define st where "st = \<lparr>nl_ret = [first], nl_dot = 0, nl_e = 0, nl_haveZero = False, nl_lastNotDigit = False,
      nl_zeroProhib = False, nl_loc = 1\<rparr>"
  have again: "\<exists>p. t = p @ r \<and> s = first # filter (\<lambda>c. c \<noteq> CHR ''+'') p \<and>
      getNum_loop z st' (filter (\<lambda>c. c \<noteq> CHR ''+'') p) = Some (s, d, e, [])"
    if "getNum_loop z st' t = Some (s, d, e, r)" "nl_ret st' = [first]" "nl_e st' = 0" "nl_loc st' = 1" for z st'
    using getNum_loop_again [OF that(1)] that(2-) by (simp add: num_inv_def)
  consider "first = CHR ''0''" | "first = CHR ''-''" | "isdigit first" "first \<noteq> CHR ''0''" "first \<noteq> CHR ''-''"
    using assms c by (auto simp: getNum_def Let_def split: if_splits)
  then show ?thesis
  proof cases
    case 1
    then show ?thesis
      using assms c again [of 0 "st\<lparr>nl_haveZero := True, nl_zeroProhib := True\<rparr>"]
      by (auto simp: getNum_def st_def)
  next
    case 2
    define z st' where "z = (if hd t = CHR ''0'' then 1 else 0 :: nat)"
      and "st' = st\<lparr>nl_haveZero := hd t = CHR ''0'', nl_lastNotDigit := True\<rparr>"
    have g: "getNum_loop z st' t = Some (s, d, e, r)"
      using assms c 2 by (auto simp: getNum_def z_def st'_def st_def Let_def split: if_splits)
    obtain p where p: "t = p @ r" "s = first # filter (\<lambda>c. c \<noteq> CHR ''+'') p"
      "getNum_loop z st' (filter (\<lambda>c. c \<noteq> CHR ''+'') p) = Some (s, d, e, [])"
      using again [OF g] by (auto simp: st'_def st_def)
    obtain c p' where h: "p = c # p'" "c \<noteq> CHR ''+''"
      using getNum_minus [of z st' p r s d e] g p(1) by (auto simp: st'_def st_def)
    show ?thesis
      using 2 p h by (cases "c = CHR ''0''") (simp_all add: getNum_def Let_def z_def st'_def st_def del: getNum_loop.simps)
  next
    case 3
    then show ?thesis
      using assms c again [of 0 st] by (auto simp: getNum_def st_def)
  qed
qed

subsection \<open>Values of any text\<close>

lemma members_shape_append: "members_shape (xs @ ys) \<longleftrightarrow> members_shape xs \<and> members_shape ys"
  by (induction xs) auto

lemma elements_shape_append: "elements_shape (xs @ ys) \<longleftrightarrow> elements_shape xs \<and> elements_shape ys"
  by (induction xs) auto

lemma insert_shape: "members_shape ms \<Longrightarrow> json_shape e \<Longrightarrow> members_shape (insert_member k e ms)"
  using members_shape_append [of "takeWhile (\<lambda>m. fst m \<le> k) ms" "dropWhile (\<lambda>m. fst m \<le> k) ms"]
  by (simp add: insert_member_def members_shape_append)

lemma insert_sorted:
  assumes "sorted (map fst ms)"
  shows "sorted (map fst (insert_member k e ms))"
proof -
  let ?t = "takeWhile (\<lambda>m. fst m \<le> k) ms" and ?d = "dropWhile (\<lambda>m. fst m \<le> k) ms"
  have td: "sorted (map fst ?t)" "sorted (map fst ?d)"
    using assms sorted_append [of "map fst ?t" "map fst ?d"] by (simp_all flip: map_append)
  have "k \<le> fst m" if "m \<in> set ?d" for m
  proof (cases ?d)
    case (Cons x xs)
    then have "\<not> fst x \<le> k"
      using hd_dropWhile [of "\<lambda>m. fst m \<le> k" ms] by simp
    moreover have "fst x \<le> fst m"
      using td(2) Cons that by auto
    ultimately show ?thesis
      by simp
  next
    case Nil
    then show ?thesis
      using that by (metis empty_iff empty_set)
  qed
  moreover have "fst m \<le> k" if "m \<in> set ?t" for m
    using set_takeWhileD [OF that] by simp
  ultimately show ?thesis
    using td by (force simp: insert_member_def sorted_append dest: order_trans)
qed

lemma objLoop_cases:
  assumes "objLoop u ms cur = Some (v, r)"
  obtains cur1 key cur2 cur3 tk4 cur4 e cur5 tk6 cur6 where
    "getToken u cur = (JSON_STR, cur1)" "getStr cur1 = Some (key, cur2)" "getToken u cur2 = (JSON_NAM_SEP, cur3)"
    "getToken u (closeTk cur3) = (tk4, cur4)" "parserVal u tk4 cur4 = Some (e, cur5)" "getToken u cur5 = (tk6, cur6)"
    "tk6 = JSON_OBJ_END \<and> v = jObject (insert_member key e ms) \<or>
     tk6 = JSON_VAL_SEP \<and> objLoop u (insert_member key e ms) (closeTk cur6) = Some (v, r)"
proof -
  obtain tk1 cur1 where t1: "getToken u cur = (tk1, cur1)" by fastforce
  obtain key cur2 where s: "tk1 = JSON_STR" "getStr cur1 = Some (key, cur2)"
    using assms t1 by (auto simp: objLoop.simps [of u ms cur] split: if_splits option.splits)
  obtain tk3 cur3 where t3: "getToken u cur2 = (tk3, cur3)" by fastforce
  have n: "tk3 = JSON_NAM_SEP"
    using assms t1 s t3 by (auto simp: objLoop.simps [of u ms cur] split: if_splits)
  obtain tk4 cur4 where t4: "getToken u (closeTk cur3) = (tk4, cur4)" by fastforce
  obtain e cur5 where v: "parserVal u tk4 cur4 = Some (e, cur5)"
    using assms t1 s t3 n t4 by (auto simp: objLoop.simps [of u ms cur] split: option.splits)
  obtain tk6 cur6 where t6: "getToken u cur5 = (tk6, cur6)" by fastforce
  show ?thesis
    using that [OF _ s(2) _ t4 v t6] assms t1 s t3 n t4 v t6 by (auto simp: objLoop.simps [of u ms cur] split: if_splits)
qed

lemma arrLoop_cases:
  assumes "arrLoop u es tk cur = Some (v, r)"
  obtains e cur1 tk2 cur2 tk3 cur3 where
    "parserVal u tk cur = Some (e, cur1)" "getToken u cur1 = (tk2, cur2)" "getToken u (closeTk cur2) = (tk3, cur3)"
    "tk2 = JSON_ARR_END \<and> v = jArray (es @ [e]) \<or>
     tk2 = JSON_VAL_SEP \<and> arrLoop u (es @ [e]) tk3 cur3 = Some (v, r)"
proof -
  obtain e cur1 where p: "parserVal u tk cur = Some (e, cur1)"
    using assms by (auto simp: arrLoop.simps [of u es tk cur] split: option.splits)
  obtain tk2 cur2 where t2: "getToken u cur1 = (tk2, cur2)" by fastforce
  obtain tk3 cur3 where t3: "getToken u (closeTk cur2) = (tk3, cur3)" by fastforce
  show ?thesis
    using that [OF p t2 t3] assms p t2 t3 by (auto simp: arrLoop.simps [of u es tk cur] split: if_splits)
qed

lemma parsed_shape:
  "\<And>v r. parserVal u tk cur = Some (v, r) \<Longrightarrow> json_shape v"
  "\<And>v r. objLoop u ms cur = Some (v, r) \<Longrightarrow> sorted (map fst ms) \<Longrightarrow> members_shape ms \<Longrightarrow> json_shape v"
  "\<And>v r. arrLoop u es tk cur = Some (v, r) \<Longrightarrow> elements_shape es \<Longrightarrow> json_shape v"
proof (induction u tk cur and u ms cur and u es tk cur rule: parserVal_objLoop_arrLoop.induct)
  case (1 u tk cur)
  then show ?case
    using getNum_again [of cur]
    by (fastforce simp: parserVal.simps [of u tk cur] split: e_token.splits option.splits if_splits prod.splits)
next
  case (2 u ms cur)
  note p = 2(1) and l = 2(2) and prems = 2(3-)
  obtain cur1 key cur2 cur3 tk4 cur4 e cur5 tk6 cur6 where c:
    "getToken u cur = (JSON_STR, cur1)" "getStr cur1 = Some (key, cur2)" "getToken u cur2 = (JSON_NAM_SEP, cur3)"
    "getToken u (closeTk cur3) = (tk4, cur4)" "parserVal u tk4 cur4 = Some (e, cur5)" "getToken u cur5 = (tk6, cur6)"
    and f: "tk6 = JSON_OBJ_END \<and> v = jObject (insert_member key e ms) \<or>
     tk6 = JSON_VAL_SEP \<and> objLoop u (insert_member key e ms) (closeTk cur6) = Some (v, r)"
    using objLoop_cases [OF prems(1)] .
  have "json_shape e"
    using p [OF c(1) [symmetric] _ c(2) _ c(3) [symmetric] _ c(4) [symmetric] c(5)] by simp
  then have i: "members_shape (insert_member key e ms)" "sorted (map fst (insert_member key e ms))"
    using insert_shape insert_sorted prems by simp_all
  then show ?case
    using f l [OF c(1) [symmetric] _ c(2) _ c(3) [symmetric] _ c(4) [symmetric] c(5) _ c(6) [symmetric]] by auto
next
  case (3 u es tk cur)
  note p = 3(1) and l = 3(2) and prems = 3(3-)
  obtain e cur1 tk2 cur2 tk3 cur3 where c:
    "parserVal u tk cur = Some (e, cur1)" "getToken u cur1 = (tk2, cur2)" "getToken u (closeTk cur2) = (tk3, cur3)"
    and f: "tk2 = JSON_ARR_END \<and> v = jArray (es @ [e]) \<or>
     tk2 = JSON_VAL_SEP \<and> arrLoop u (es @ [e]) tk3 cur3 = Some (v, r)"
    using arrLoop_cases [OF prems(1)] .
  have "elements_shape (es @ [e])"
    using p [OF c(1)] prems(2) by (simp add: elements_shape_append)
  then show ?case
    using f l [OF c(1) _ c(2) [symmetric] _ _ c(3) [symmetric]] by auto
qed

lemma parseBuffer_shape:
  assumes "parseBuffer t u None = (True, Some v)"
  shows "json_shape v"
  using assms parsed_shape(1)
  by (auto simp: parseBuffer_def paresJson_def split: if_splits prod.splits option.splits)

end
