(* ===== verification/Mng_Events.thy ===== *)
theory Mng_Events
  imports Mng_Records
begin

unbundle bit_operations_syntax

text \<open>
  The event mask of \<^verbatim>\<open>SUBSCRIBE_EVENTS_NP_t\<close> in \<^verbatim>\<open>src/mngTlvs.cpp\<close>: 64 octets, one bit
  for each event. An event out of range is ignored. \<open>div_event\<close> gives the octet and the
  mask of the bit, as the code keeps them in a \<^verbatim>\<open>div_t\<close>.
\<close>

definition EVENT_BITMASK_CNT :: nat where
  "EVENT_BITMASK_CNT = 64"

definition div_event_wo :: "int \<Rightarrow> nat \<times> uint8_t" where
  "div_event_wo event = (nat (event div 8), push_bit (nat (event mod 8)) 1)"

definition div_event :: "int \<Rightarrow> (nat \<times> uint8_t) option" where
  "div_event event =
     (if event < 0 \<or> event \<ge> int EVENT_BITMASK_CNT * 8 then None else Some (div_event_wo event))"

definition setEvent :: "int \<Rightarrow> SUBSCRIBE_EVENTS_NP_t \<Rightarrow> SUBSCRIBE_EVENTS_NP_t" where
  "setEvent event t =
     (case div_event event of None \<Rightarrow> t
      | Some (q, r) \<Rightarrow> t\<lparr>bitmask := (bitmask t)[q := bitmask t ! q OR r]\<rparr>)"

definition clearEvent :: "int \<Rightarrow> SUBSCRIBE_EVENTS_NP_t \<Rightarrow> SUBSCRIBE_EVENTS_NP_t" where
  "clearEvent event t =
     (case div_event event of None \<Rightarrow> t
      | Some (q, r) \<Rightarrow> t\<lparr>bitmask := (bitmask t)[q := bitmask t ! q AND NOT r]\<rparr>)"

definition clearAll :: "SUBSCRIBE_EVENTS_NP_t \<Rightarrow> SUBSCRIBE_EVENTS_NP_t" where
  "clearAll t = t\<lparr>bitmask := replicate EVENT_BITMASK_CNT 0\<rparr>"

definition getEvent :: "int \<Rightarrow> SUBSCRIBE_EVENTS_NP_t \<Rightarrow> bool" where
  "getEvent event t =
     (case div_event event of None \<Rightarrow> False | Some (q, r) \<Rightarrow> bitmask t ! q AND r > 0)"

subsection \<open>The mask is a set of events\<close>

definition event_ok :: "int \<Rightarrow> bool" where
  "event_ok event \<longleftrightarrow> 0 \<le> event \<and> event < 512"

definition events_ok :: "SUBSCRIBE_EVENTS_NP_t \<Rightarrow> bool" where
  "events_ok t \<longleftrightarrow> length (bitmask t) = EVENT_BITMASK_CNT"

lemma div_event_iff:
  "div_event event = (if event_ok event then Some (nat (event div 8), push_bit (nat (event mod 8)) 1)
     else None)"
  by (auto simp: div_event_def div_event_wo_def event_ok_def EVENT_BITMASK_CNT_def)

lemma and_bit_pos: "(w :: uint8_t) AND 2 ^ n > 0 \<longleftrightarrow> bit w n"
  by (simp add: word_gt_0 and_exp_eq_0_iff_not_bit)

lemma getEvent_bit:
  "getEvent event t \<longleftrightarrow> event_ok event \<and> bit (bitmask t ! nat (event div 8)) (nat (event mod 8))"
  by (auto simp: getEvent_def div_event_iff and_bit_pos nat_less_iff)

lemma event_cell:
  assumes "event_ok a" "event_ok b"
  shows "a = b \<longleftrightarrow> nat (a div 8) = nat (b div 8) \<and> nat (a mod 8) = nat (b mod 8)"
proof -
  have "nat (a div 8) = nat (b div 8) \<longleftrightarrow> a div 8 = b div 8"
    using assms by (intro eq_nat_nat_iff) (auto simp: event_ok_def)
  moreover have "nat (a mod 8) = nat (b mod 8) \<longleftrightarrow> a mod 8 = b mod 8"
    by (intro eq_nat_nat_iff) auto
  ultimately show ?thesis
    by (metis div_mult_mod_eq)
qed

lemma event_octet: "event_ok a \<Longrightarrow> nat (a div 8) < 64"
  unfolding event_ok_def by linarith

lemma getEvent_setEvent:
  assumes "events_ok t"
  shows "getEvent a (setEvent b t) \<longleftrightarrow> getEvent a t \<or> a = b \<and> event_ok b"
proof (cases "event_ok a \<and> event_ok b")
  case True
  then show ?thesis
    using assms event_cell [of a b] event_octet [of a] event_octet [of b]
    by (auto simp: getEvent_bit setEvent_def div_event_iff nth_list_update events_ok_def
        EVENT_BITMASK_CNT_def bit_simps nat_less_iff)
next
  case False
  then show ?thesis
    by (auto simp: getEvent_bit setEvent_def div_event_iff)
qed

lemma getEvent_clearEvent:
  assumes "events_ok t"
  shows "getEvent a (clearEvent b t) \<longleftrightarrow> getEvent a t \<and> a \<noteq> b"
proof (cases "event_ok a \<and> event_ok b")
  case True
  then show ?thesis
    using assms event_cell [of a b] event_octet [of a] event_octet [of b]
    by (auto simp: getEvent_bit clearEvent_def div_event_iff nth_list_update events_ok_def
        EVENT_BITMASK_CNT_def bit_simps nat_less_iff)
next
  case False
  then show ?thesis
    by (auto simp: getEvent_bit clearEvent_def div_event_iff)
qed

lemma getEvent_clearAll: "\<not> getEvent a (clearAll t)"
  by (auto simp: getEvent_bit clearAll_def EVENT_BITMASK_CNT_def dest!: event_octet)

lemma events_ok_ops:
  "events_ok t \<Longrightarrow> events_ok (setEvent a t)" "events_ok t \<Longrightarrow> events_ok (clearEvent a t)"
  "events_ok (clearAll t)"
  by (auto simp: events_ok_def setEvent_def clearEvent_def clearAll_def split: option.splits)

text \<open>The class as a set of events.\<close>

locale event_set =
  fixes ok :: "'s \<Rightarrow> bool" and "get" :: "int \<Rightarrow> 's \<Rightarrow> bool"
    and add :: "int \<Rightarrow> 's \<Rightarrow> 's" and del :: "int \<Rightarrow> 's \<Rightarrow> 's" and none :: "'s \<Rightarrow> 's"
  assumes ok_add: "ok s \<Longrightarrow> ok (add a s)" and ok_del: "ok s \<Longrightarrow> ok (del a s)"
    and ok_none: "ok (none s)"
    and get_add: "ok s \<Longrightarrow> get a (add b s) \<longleftrightarrow> get a s \<or> a = b \<and> 0 \<le> b \<and> b < 512"
    and get_del: "ok s \<Longrightarrow> get a (del b s) \<longleftrightarrow> get a s \<and> a \<noteq> b"
    and get_none: "\<not> get a (none s)"
begin

lemma get_all: "ok s \<Longrightarrow> get a (fold add xs s) \<longleftrightarrow> get a s \<or> a \<in> set xs \<and> 0 \<le> a \<and> a < 512"
  by (induction xs arbitrary: s) (auto simp: get_add ok_add)

lemma ok_all: "ok s \<Longrightarrow> ok (fold add xs s)"
  by (induction xs arbitrary: s) (auto simp: ok_add)

lemma get_some:
  "ok s \<Longrightarrow> get a (fold del ys (fold add xs (none s))) \<longleftrightarrow>
     a \<in> set xs \<and> a \<notin> set ys \<and> 0 \<le> a \<and> a < 512"
proof -
  assume "ok s"
  have del: "ok u \<Longrightarrow> get a (fold del ys u) \<longleftrightarrow> get a u \<and> a \<notin> set ys" for u
    by (induction ys arbitrary: u) (auto simp: get_del ok_del)
  show ?thesis
    by (auto simp: del ok_all get_all ok_none get_none)
qed

end

interpretation events: event_set events_ok getEvent setEvent clearEvent clearAll
  by unfold_locales
    (simp_all add: events_ok_ops getEvent_setEvent getEvent_clearEvent getEvent_clearAll event_ok_def)

end
