(* ===== verification/Json_Proc.thy ===== *)
theory Json_Proc
  imports Mng_Events Sig_Access
begin

unbundle bit_operations_syntax

text \<open>
  \<^verbatim>\<open>struct JsonProc\<close> of \<^verbatim>\<open>src/comp.h\<close>, whose virtual functions process a named value in either
  direction, and the functions \<open>proc_X\<close> of \<^verbatim>\<open>src/json.cpp\<close> that walk over the fields of each
  management TLV. The record \<open>JsonProc\<close> is the table of virtual functions on the state \<open>'s\<close> of an
  implementation; a function gets the name and the value and returns whether it succeeded, the value
  and the state. The functions for floating point numbers are left out: no management TLV has one.
\<close>

subsection \<open>The interface\<close>

type_synonym ('s, 'v) jval = "string \<Rightarrow> 'v \<Rightarrow> 's \<Rightarrow> bool \<times> 'v \<times> 's"
type_synonym ('s, 'd) jstep = "'d \<Rightarrow> 's \<Rightarrow> bool \<times> 'd \<times> 's"

record 's JsonProc =
  procValue_uint8_t :: "('s, uint8_t) jval"
  procValue_uint16_t :: "('s, uint16_t) jval"
  procValue_uint32_t :: "('s, uint32_t) jval"
  procValue_uint64_t :: "('s, uint64_t) jval"
  procValue_int8_t :: "('s, int8_t) jval"
  procValue_int16_t :: "('s, int16_t) jval"
  procValue_int32_t :: "('s, int32_t) jval"
  procValue_int64_t :: "('s, int64_t) jval"
  procValue_networkProtocol_e :: "('s, networkProtocol_e) jval"
  procValue_clockAccuracy_e :: "('s, clockAccuracy_e) jval"
  procValue_faultRecord_e :: "('s, faultRecord_e) jval"
  procValue_timeSource_e :: "('s, timeSource_e) jval"
  procValue_portState_e :: "('s, portState_e) jval"
  procValue_delayMechanism_e :: "('s, delayMechanism_e) jval"
  procValue_linuxptpTimeStamp_e :: "('s, linuxptpTimeStamp_e) jval"
  procValue_linuxptpPowerProfileVersion_e :: "('s, linuxptpPowerProfileVersion_e) jval"
  procValue_linuxptpUnicastState_e :: "('s, linuxptpUnicastState_e) jval"
  procValue_TimeInterval_t :: "('s, TimeInterval_t) jval"
  procValue_Timestamp_t :: "('s, Timestamp_t) jval"
  procValue_ClockIdentity_t :: "('s, ClockIdentity_t) jval"
  procValue_PortIdentity_t :: "('s, PortIdentity_t) jval"
  procValue_PortAddress_t :: "('s, PortAddress_t) jval"
  procValue_ClockQuality_t :: "('s, ClockQuality_t) jval"
  procValue_PTPText_t :: "('s, PTPText_t) jval"
  procValue_FaultRecord_t :: "('s, FaultRecord_t) jval"
  procValue_AcceptableMaster_t :: "('s, AcceptableMaster_t) jval"
  procValue_LinuxptpUnicastMaster_t :: "('s, LinuxptpUnicastMaster_t) jval"
  procBinary :: "('s, octets \<times> uint16_t) jval"
  procOctets :: "nat \<Rightarrow> ('s, octets) jval"
  procFlag :: "uint8_t \<Rightarrow> ('s, uint8_t) jval"
  procZeroFlag :: "uint8_t \<Rightarrow> 's \<Rightarrow> uint8_t \<times> 's"
  procArray_ClockIdentity_t :: "('s, ClockIdentity_t list) jval"
  procArray_PortAddress_t :: "('s, PortAddress_t list) jval"
  procArray_FaultRecord_t :: "('s, FaultRecord_t list) jval"
  procArray_AcceptableMaster_t :: "('s, AcceptableMaster_t list) jval"
  procArray_LinuxptpUnicastMaster_t :: "('s, LinuxptpUnicastMaster_t list) jval"

text \<open>The macros. A sequence with \<^verbatim>\<open>&&\<close> ends at the first function that fails.\<close>

primrec jand :: "('s, 'd) jstep list \<Rightarrow> ('s, 'd) jstep" where
  "jand [] d st = (True, d, st)"
| "jand (f # fs) d st = (case f d st of (ok, d', st') \<Rightarrow> if ok then jand fs d' st' else (False, d', st'))"

definition PROC_VAL :: "('s, 'v) jval \<Rightarrow> string \<Rightarrow> ('d \<Rightarrow> 'v) \<Rightarrow> (('v \<Rightarrow> 'v) \<Rightarrow> 'd \<Rightarrow> 'd) \<Rightarrow> ('s, 'd) jstep" where
  "PROC_VAL f name get upd d st = (case f name (get d) st of (ok, v, st') \<Rightarrow> (ok, upd (\<lambda>_. v) d, st'))"

definition PROC_BIN :: "'s JsonProc \<Rightarrow> string \<Rightarrow> ('d \<Rightarrow> octets) \<Rightarrow> ((octets \<Rightarrow> octets) \<Rightarrow> 'd \<Rightarrow> 'd) \<Rightarrow>
    ('d \<Rightarrow> uint16_t) \<Rightarrow> ((uint16_t \<Rightarrow> uint16_t) \<Rightarrow> 'd \<Rightarrow> 'd) \<Rightarrow> ('s, 'd) jstep" where
  "PROC_BIN P name get upd getl updl d st =
     (case procBinary P name (get d, getl d) st of (ok, (v, l), st') \<Rightarrow> (ok, updl (\<lambda>_. l) (upd (\<lambda>_. v) d), st'))"

definition PROC_OCT :: "'s JsonProc \<Rightarrow> string \<Rightarrow> nat \<Rightarrow> ('d \<Rightarrow> octets) \<Rightarrow> ((octets \<Rightarrow> octets) \<Rightarrow> 'd \<Rightarrow> 'd) \<Rightarrow>
    ('s, 'd) jstep" where
  "PROC_OCT P name n get upd = PROC_VAL (procOctets P n) name get upd"

definition PROC_ZFLG :: "'s JsonProc \<Rightarrow> ('d \<Rightarrow> uint8_t) \<Rightarrow> ((uint8_t \<Rightarrow> uint8_t) \<Rightarrow> 'd \<Rightarrow> 'd) \<Rightarrow> ('s, 'd) jstep" where
  "PROC_ZFLG P get upd d st = (case procZeroFlag P (get d) st of (v, st') \<Rightarrow> (True, upd (\<lambda>_. v) d, st'))"

definition PROC_FLG :: "'s JsonProc \<Rightarrow> string \<Rightarrow> uint8_t \<Rightarrow> ('d \<Rightarrow> uint8_t) \<Rightarrow> ((uint8_t \<Rightarrow> uint8_t) \<Rightarrow> 'd \<Rightarrow> 'd) \<Rightarrow>
    ('s, 'd) jstep" where
  "PROC_FLG P name msk get upd = PROC_VAL (procFlag P msk) name get upd"

definition PROC_FLD :: "'s JsonProc \<Rightarrow> string \<Rightarrow> nat \<Rightarrow> ('d \<Rightarrow> uint64_t list) \<Rightarrow>
    ((uint64_t list \<Rightarrow> uint64_t list) \<Rightarrow> 'd \<Rightarrow> 'd) \<Rightarrow> ('s, 'd) jstep" where
  "PROC_FLD P name i get upd =
     PROC_VAL (procValue_uint64_t P) name (\<lambda>d. get d ! i) (\<lambda>f. upd (\<lambda>xs. xs[i := f (xs ! i)]))"

definition STAT_SYNC :: nat where
  "STAT_SYNC = 0"

definition STAT_DELAY_REQ :: nat where
  "STAT_DELAY_REQ = 1"

definition STAT_PDELAY_REQ :: nat where
  "STAT_PDELAY_REQ = 2"

definition STAT_PDELAY_RESP :: nat where
  "STAT_PDELAY_RESP = 3"

definition STAT_FOLLOW_UP :: nat where
  "STAT_FOLLOW_UP = 8"

definition STAT_DELAY_RESP :: nat where
  "STAT_DELAY_RESP = 9"

definition STAT_PDELAY_RESP_FOLLOW_UP :: nat where
  "STAT_PDELAY_RESP_FOLLOW_UP = 10"

definition STAT_ANNOUNCE :: nat where
  "STAT_ANNOUNCE = 11"

definition STAT_SIGNALING :: nat where
  "STAT_SIGNALING = 12"

definition STAT_MANAGEMENT :: nat where
  "STAT_MANAGEMENT = 13"

definition NOTIFY_PORT_STATE :: int where
  "NOTIFY_PORT_STATE = 0"

definition NOTIFY_TIME_SYNC :: int where
  "NOTIFY_TIME_SYNC = 1"

definition NOTIFY_PARENT_DATA_SET :: int where
  "NOTIFY_PARENT_DATA_SET = 2"

definition NOTIFY_CMLDS :: int where
  "NOTIFY_CMLDS = 3"

lemmas event_numbers = NOTIFY_PORT_STATE_def NOTIFY_TIME_SYNC_def NOTIFY_PARENT_DATA_SET_def NOTIFY_CMLDS_def

lemmas stat_numbers = STAT_SYNC_def STAT_DELAY_REQ_def STAT_PDELAY_REQ_def STAT_PDELAY_RESP_def STAT_FOLLOW_UP_def STAT_DELAY_RESP_def STAT_PDELAY_RESP_FOLLOW_UP_def STAT_ANNOUNCE_def STAT_SIGNALING_def STAT_MANAGEMENT_def

definition PROC_EVENT_FLG :: "'s JsonProc \<Rightarrow> string \<Rightarrow> int \<Rightarrow> ('s, SUBSCRIBE_EVENTS_NP_t) jstep" where
  "PROC_EVENT_FLG P name event =
     (case div_event_wo event of (quot, rem) \<Rightarrow>
        PROC_VAL (procFlag P rem) name (\<lambda>d. bitmask d ! quot) (\<lambda>f. bitmask_update (\<lambda>xs. xs[quot := f (xs ! quot)])))"

subsection \<open>The management TLVs\<close>

definition proc_CLOCK_DESCRIPTION :: "'s JsonProc \<Rightarrow> ('s, CLOCK_DESCRIPTION_t) jstep" where
  "proc_CLOCK_DESCRIPTION P = jand
     [PROC_VAL (procValue_uint16_t P) ''clockType'' CLOCK_DESCRIPTION_t.clockType CLOCK_DESCRIPTION_t.clockType_update,
      PROC_VAL (procValue_PTPText_t P) ''physicalLayerProtocol'' CLOCK_DESCRIPTION_t.physicalLayerProtocol CLOCK_DESCRIPTION_t.physicalLayerProtocol_update,
      PROC_BIN P ''physicalAddress'' CLOCK_DESCRIPTION_t.physicalAddress CLOCK_DESCRIPTION_t.physicalAddress_update CLOCK_DESCRIPTION_t.physicalAddressLength CLOCK_DESCRIPTION_t.physicalAddressLength_update,
      PROC_VAL (procValue_PortAddress_t P) ''protocolAddress'' CLOCK_DESCRIPTION_t.protocolAddress CLOCK_DESCRIPTION_t.protocolAddress_update,
      PROC_OCT P ''manufacturerIdentity'' 3 CLOCK_DESCRIPTION_t.manufacturerIdentity CLOCK_DESCRIPTION_t.manufacturerIdentity_update,
      PROC_VAL (procValue_PTPText_t P) ''productDescription'' CLOCK_DESCRIPTION_t.productDescription CLOCK_DESCRIPTION_t.productDescription_update,
      PROC_VAL (procValue_PTPText_t P) ''revisionData'' CLOCK_DESCRIPTION_t.revisionData CLOCK_DESCRIPTION_t.revisionData_update,
      PROC_VAL (procValue_PTPText_t P) ''userDescription'' CLOCK_DESCRIPTION_t.userDescription CLOCK_DESCRIPTION_t.userDescription_update,
      PROC_OCT P ''profileIdentity'' 6 CLOCK_DESCRIPTION_t.profileIdentity CLOCK_DESCRIPTION_t.profileIdentity_update]"

definition proc_USER_DESCRIPTION :: "'s JsonProc \<Rightarrow> ('s, USER_DESCRIPTION_t) jstep" where
  "proc_USER_DESCRIPTION P = jand
     [PROC_VAL (procValue_PTPText_t P) ''userDescription'' USER_DESCRIPTION_t.userDescription USER_DESCRIPTION_t.userDescription_update]"

definition proc_INITIALIZE :: "'s JsonProc \<Rightarrow> ('s, INITIALIZE_t) jstep" where
  "proc_INITIALIZE P = jand
     [PROC_VAL (procValue_uint16_t P) ''initializationKey'' INITIALIZE_t.initializationKey INITIALIZE_t.initializationKey_update]"

definition proc_FAULT_LOG :: "'s JsonProc \<Rightarrow> ('s, FAULT_LOG_t) jstep" where
  "proc_FAULT_LOG P = jand
     [PROC_VAL (procValue_uint16_t P) ''numberOfFaultRecords'' FAULT_LOG_t.numberOfFaultRecords FAULT_LOG_t.numberOfFaultRecords_update,
      PROC_VAL (procArray_FaultRecord_t P) ''faultRecords'' FAULT_LOG_t.faultRecords FAULT_LOG_t.faultRecords_update]"

definition proc_DEFAULT_DATA_SET :: "'s JsonProc \<Rightarrow> ('s, DEFAULT_DATA_SET_t) jstep" where
  "proc_DEFAULT_DATA_SET P = jand
     [PROC_ZFLG P DEFAULT_DATA_SET_t.flags DEFAULT_DATA_SET_t.flags_update,
      PROC_FLG P ''twoStepFlag'' 1 DEFAULT_DATA_SET_t.flags DEFAULT_DATA_SET_t.flags_update,
      PROC_FLG P ''slaveOnly'' 2 DEFAULT_DATA_SET_t.flags DEFAULT_DATA_SET_t.flags_update,
      PROC_VAL (procValue_uint16_t P) ''numberPorts'' DEFAULT_DATA_SET_t.numberPorts DEFAULT_DATA_SET_t.numberPorts_update,
      PROC_VAL (procValue_uint8_t P) ''priority1'' DEFAULT_DATA_SET_t.priority1 DEFAULT_DATA_SET_t.priority1_update,
      PROC_VAL (procValue_ClockQuality_t P) ''clockQuality'' DEFAULT_DATA_SET_t.clockQuality DEFAULT_DATA_SET_t.clockQuality_update,
      PROC_VAL (procValue_uint8_t P) ''priority2'' DEFAULT_DATA_SET_t.priority2 DEFAULT_DATA_SET_t.priority2_update,
      PROC_VAL (procValue_ClockIdentity_t P) ''clockIdentity'' DEFAULT_DATA_SET_t.clockIdentity DEFAULT_DATA_SET_t.clockIdentity_update,
      PROC_VAL (procValue_uint8_t P) ''domainNumber'' DEFAULT_DATA_SET_t.domainNumber DEFAULT_DATA_SET_t.domainNumber_update]"

definition proc_CURRENT_DATA_SET :: "'s JsonProc \<Rightarrow> ('s, CURRENT_DATA_SET_t) jstep" where
  "proc_CURRENT_DATA_SET P = jand
     [PROC_VAL (procValue_uint16_t P) ''stepsRemoved'' CURRENT_DATA_SET_t.stepsRemoved CURRENT_DATA_SET_t.stepsRemoved_update,
      PROC_VAL (procValue_TimeInterval_t P) ''offsetFromMaster'' CURRENT_DATA_SET_t.offsetFromMaster CURRENT_DATA_SET_t.offsetFromMaster_update,
      PROC_VAL (procValue_TimeInterval_t P) ''meanPathDelay'' CURRENT_DATA_SET_t.meanPathDelay CURRENT_DATA_SET_t.meanPathDelay_update]"

definition proc_PARENT_DATA_SET :: "'s JsonProc \<Rightarrow> ('s, PARENT_DATA_SET_t) jstep" where
  "proc_PARENT_DATA_SET P = jand
     [PROC_ZFLG P PARENT_DATA_SET_t.flags PARENT_DATA_SET_t.flags_update,
      PROC_VAL (procValue_PortIdentity_t P) ''parentPortIdentity'' PARENT_DATA_SET_t.parentPortIdentity PARENT_DATA_SET_t.parentPortIdentity_update,
      PROC_FLG P ''parentStats'' 1 PARENT_DATA_SET_t.flags PARENT_DATA_SET_t.flags_update,
      PROC_VAL (procValue_uint16_t P) ''observedParentOffsetScaledLogVariance'' PARENT_DATA_SET_t.observedParentOffsetScaledLogVariance PARENT_DATA_SET_t.observedParentOffsetScaledLogVariance_update,
      PROC_VAL (procValue_int32_t P) ''observedParentClockPhaseChangeRate'' PARENT_DATA_SET_t.observedParentClockPhaseChangeRate PARENT_DATA_SET_t.observedParentClockPhaseChangeRate_update,
      PROC_VAL (procValue_uint8_t P) ''grandmasterPriority1'' PARENT_DATA_SET_t.grandmasterPriority1 PARENT_DATA_SET_t.grandmasterPriority1_update,
      PROC_VAL (procValue_ClockQuality_t P) ''grandmasterClockQuality'' PARENT_DATA_SET_t.grandmasterClockQuality PARENT_DATA_SET_t.grandmasterClockQuality_update,
      PROC_VAL (procValue_uint8_t P) ''grandmasterPriority2'' PARENT_DATA_SET_t.grandmasterPriority2 PARENT_DATA_SET_t.grandmasterPriority2_update,
      PROC_VAL (procValue_ClockIdentity_t P) ''grandmasterIdentity'' PARENT_DATA_SET_t.grandmasterIdentity PARENT_DATA_SET_t.grandmasterIdentity_update]"

definition proc_TIME_PROPERTIES_DATA_SET :: "'s JsonProc \<Rightarrow> ('s, TIME_PROPERTIES_DATA_SET_t) jstep" where
  "proc_TIME_PROPERTIES_DATA_SET P = jand
     [PROC_ZFLG P TIME_PROPERTIES_DATA_SET_t.flags TIME_PROPERTIES_DATA_SET_t.flags_update,
      PROC_VAL (procValue_int16_t P) ''currentUtcOffset'' TIME_PROPERTIES_DATA_SET_t.currentUtcOffset TIME_PROPERTIES_DATA_SET_t.currentUtcOffset_update,
      PROC_FLG P ''leap61'' F_LI_61 TIME_PROPERTIES_DATA_SET_t.flags TIME_PROPERTIES_DATA_SET_t.flags_update,
      PROC_FLG P ''leap59'' F_LI_59 TIME_PROPERTIES_DATA_SET_t.flags TIME_PROPERTIES_DATA_SET_t.flags_update,
      PROC_FLG P ''currentUtcOffsetValid'' F_UTCV TIME_PROPERTIES_DATA_SET_t.flags TIME_PROPERTIES_DATA_SET_t.flags_update,
      PROC_FLG P ''ptpTimescale'' F_PTP TIME_PROPERTIES_DATA_SET_t.flags TIME_PROPERTIES_DATA_SET_t.flags_update,
      PROC_FLG P ''timeTraceable'' F_TTRA TIME_PROPERTIES_DATA_SET_t.flags TIME_PROPERTIES_DATA_SET_t.flags_update,
      PROC_FLG P ''frequencyTraceable'' F_FTRA TIME_PROPERTIES_DATA_SET_t.flags TIME_PROPERTIES_DATA_SET_t.flags_update,
      PROC_VAL (procValue_timeSource_e P) ''timeSource'' TIME_PROPERTIES_DATA_SET_t.timeSource TIME_PROPERTIES_DATA_SET_t.timeSource_update]"

definition proc_PORT_DATA_SET :: "'s JsonProc \<Rightarrow> ('s, PORT_DATA_SET_t) jstep" where
  "proc_PORT_DATA_SET P = jand
     [PROC_VAL (procValue_PortIdentity_t P) ''portIdentity'' PORT_DATA_SET_t.portIdentity PORT_DATA_SET_t.portIdentity_update,
      PROC_VAL (procValue_portState_e P) ''portState'' PORT_DATA_SET_t.portState PORT_DATA_SET_t.portState_update,
      PROC_VAL (procValue_int8_t P) ''logMinDelayReqInterval'' PORT_DATA_SET_t.logMinDelayReqInterval PORT_DATA_SET_t.logMinDelayReqInterval_update,
      PROC_VAL (procValue_TimeInterval_t P) ''peerMeanPathDelay'' PORT_DATA_SET_t.peerMeanPathDelay PORT_DATA_SET_t.peerMeanPathDelay_update,
      PROC_VAL (procValue_int8_t P) ''logAnnounceInterval'' PORT_DATA_SET_t.logAnnounceInterval PORT_DATA_SET_t.logAnnounceInterval_update,
      PROC_VAL (procValue_uint8_t P) ''announceReceiptTimeout'' PORT_DATA_SET_t.announceReceiptTimeout PORT_DATA_SET_t.announceReceiptTimeout_update,
      PROC_VAL (procValue_int8_t P) ''logSyncInterval'' PORT_DATA_SET_t.logSyncInterval PORT_DATA_SET_t.logSyncInterval_update,
      PROC_VAL (procValue_delayMechanism_e P) ''delayMechanism'' PORT_DATA_SET_t.delayMechanism PORT_DATA_SET_t.delayMechanism_update,
      PROC_VAL (procValue_int8_t P) ''logMinPdelayReqInterval'' PORT_DATA_SET_t.logMinPdelayReqInterval PORT_DATA_SET_t.logMinPdelayReqInterval_update,
      PROC_VAL (procValue_uint8_t P) ''versionNumber'' PORT_DATA_SET_t.versionNumber PORT_DATA_SET_t.versionNumber_update]"

definition proc_PRIORITY1 :: "'s JsonProc \<Rightarrow> ('s, PRIORITY1_t) jstep" where
  "proc_PRIORITY1 P = jand
     [PROC_VAL (procValue_uint8_t P) ''priority1'' PRIORITY1_t.priority1 PRIORITY1_t.priority1_update]"

definition proc_PRIORITY2 :: "'s JsonProc \<Rightarrow> ('s, PRIORITY2_t) jstep" where
  "proc_PRIORITY2 P = jand
     [PROC_VAL (procValue_uint8_t P) ''priority2'' PRIORITY2_t.priority2 PRIORITY2_t.priority2_update]"

definition proc_DOMAIN :: "'s JsonProc \<Rightarrow> ('s, DOMAIN_t) jstep" where
  "proc_DOMAIN P = jand
     [PROC_VAL (procValue_uint8_t P) ''domainNumber'' DOMAIN_t.domainNumber DOMAIN_t.domainNumber_update]"

definition proc_SLAVE_ONLY :: "'s JsonProc \<Rightarrow> ('s, SLAVE_ONLY_t) jstep" where
  "proc_SLAVE_ONLY P = jand
     [PROC_ZFLG P SLAVE_ONLY_t.flags SLAVE_ONLY_t.flags_update,
      PROC_FLG P ''slaveOnly'' 1 SLAVE_ONLY_t.flags SLAVE_ONLY_t.flags_update]"

definition proc_LOG_ANNOUNCE_INTERVAL :: "'s JsonProc \<Rightarrow> ('s, LOG_ANNOUNCE_INTERVAL_t) jstep" where
  "proc_LOG_ANNOUNCE_INTERVAL P = jand
     [PROC_VAL (procValue_int8_t P) ''logAnnounceInterval'' LOG_ANNOUNCE_INTERVAL_t.logAnnounceInterval LOG_ANNOUNCE_INTERVAL_t.logAnnounceInterval_update]"

definition proc_ANNOUNCE_RECEIPT_TIMEOUT :: "'s JsonProc \<Rightarrow> ('s, ANNOUNCE_RECEIPT_TIMEOUT_t) jstep" where
  "proc_ANNOUNCE_RECEIPT_TIMEOUT P = jand
     [PROC_VAL (procValue_uint8_t P) ''announceReceiptTimeout'' ANNOUNCE_RECEIPT_TIMEOUT_t.announceReceiptTimeout ANNOUNCE_RECEIPT_TIMEOUT_t.announceReceiptTimeout_update]"

definition proc_LOG_SYNC_INTERVAL :: "'s JsonProc \<Rightarrow> ('s, LOG_SYNC_INTERVAL_t) jstep" where
  "proc_LOG_SYNC_INTERVAL P = jand
     [PROC_VAL (procValue_int8_t P) ''logSyncInterval'' LOG_SYNC_INTERVAL_t.logSyncInterval LOG_SYNC_INTERVAL_t.logSyncInterval_update]"

definition proc_VERSION_NUMBER :: "'s JsonProc \<Rightarrow> ('s, VERSION_NUMBER_t) jstep" where
  "proc_VERSION_NUMBER P = jand
     [PROC_VAL (procValue_uint8_t P) ''versionNumber'' VERSION_NUMBER_t.versionNumber VERSION_NUMBER_t.versionNumber_update]"

definition proc_TIME :: "'s JsonProc \<Rightarrow> ('s, TIME_t) jstep" where
  "proc_TIME P = jand
     [PROC_VAL (procValue_Timestamp_t P) ''currentTime'' TIME_t.currentTime TIME_t.currentTime_update]"

definition proc_CLOCK_ACCURACY :: "'s JsonProc \<Rightarrow> ('s, CLOCK_ACCURACY_t) jstep" where
  "proc_CLOCK_ACCURACY P = jand
     [PROC_VAL (procValue_clockAccuracy_e P) ''clockAccuracy'' CLOCK_ACCURACY_t.clockAccuracy CLOCK_ACCURACY_t.clockAccuracy_update]"

definition proc_UTC_PROPERTIES :: "'s JsonProc \<Rightarrow> ('s, UTC_PROPERTIES_t) jstep" where
  "proc_UTC_PROPERTIES P = jand
     [PROC_ZFLG P UTC_PROPERTIES_t.flags UTC_PROPERTIES_t.flags_update,
      PROC_VAL (procValue_int16_t P) ''currentUtcOffset'' UTC_PROPERTIES_t.currentUtcOffset UTC_PROPERTIES_t.currentUtcOffset_update,
      PROC_FLG P ''leap61'' F_LI_61 UTC_PROPERTIES_t.flags UTC_PROPERTIES_t.flags_update,
      PROC_FLG P ''leap59'' F_LI_59 UTC_PROPERTIES_t.flags UTC_PROPERTIES_t.flags_update,
      PROC_FLG P ''currentUtcOffsetValid'' F_UTCV UTC_PROPERTIES_t.flags UTC_PROPERTIES_t.flags_update]"

definition proc_TRACEABILITY_PROPERTIES :: "'s JsonProc \<Rightarrow> ('s, TRACEABILITY_PROPERTIES_t) jstep" where
  "proc_TRACEABILITY_PROPERTIES P = jand
     [PROC_ZFLG P TRACEABILITY_PROPERTIES_t.flags TRACEABILITY_PROPERTIES_t.flags_update,
      PROC_FLG P ''timeTraceable'' F_TTRA TRACEABILITY_PROPERTIES_t.flags TRACEABILITY_PROPERTIES_t.flags_update,
      PROC_FLG P ''frequencyTraceable'' F_FTRA TRACEABILITY_PROPERTIES_t.flags TRACEABILITY_PROPERTIES_t.flags_update]"

definition proc_TIMESCALE_PROPERTIES :: "'s JsonProc \<Rightarrow> ('s, TIMESCALE_PROPERTIES_t) jstep" where
  "proc_TIMESCALE_PROPERTIES P = jand
     [PROC_ZFLG P TIMESCALE_PROPERTIES_t.flags TIMESCALE_PROPERTIES_t.flags_update,
      PROC_FLG P ''ptpTimescale'' F_PTP TIMESCALE_PROPERTIES_t.flags TIMESCALE_PROPERTIES_t.flags_update,
      PROC_VAL (procValue_timeSource_e P) ''timeSource'' TIMESCALE_PROPERTIES_t.timeSource TIMESCALE_PROPERTIES_t.timeSource_update]"

definition proc_UNICAST_NEGOTIATION_ENABLE :: "'s JsonProc \<Rightarrow> ('s, UNICAST_NEGOTIATION_ENABLE_t) jstep" where
  "proc_UNICAST_NEGOTIATION_ENABLE P = jand
     [PROC_ZFLG P UNICAST_NEGOTIATION_ENABLE_t.flags UNICAST_NEGOTIATION_ENABLE_t.flags_update,
      PROC_FLG P ''unicastNegotiationPortDS'' 1 UNICAST_NEGOTIATION_ENABLE_t.flags UNICAST_NEGOTIATION_ENABLE_t.flags_update]"

definition proc_PATH_TRACE_LIST :: "'s JsonProc \<Rightarrow> ('s, PATH_TRACE_LIST_t) jstep" where
  "proc_PATH_TRACE_LIST P = jand
     [PROC_VAL (procArray_ClockIdentity_t P) ''pathSequence'' PATH_TRACE_LIST_t.pathSequence PATH_TRACE_LIST_t.pathSequence_update]"

definition proc_PATH_TRACE_ENABLE :: "'s JsonProc \<Rightarrow> ('s, PATH_TRACE_ENABLE_t) jstep" where
  "proc_PATH_TRACE_ENABLE P = jand
     [PROC_ZFLG P PATH_TRACE_ENABLE_t.flags PATH_TRACE_ENABLE_t.flags_update,
      PROC_FLG P ''pathTraceDS'' 1 PATH_TRACE_ENABLE_t.flags PATH_TRACE_ENABLE_t.flags_update]"

definition proc_GRANDMASTER_CLUSTER_TABLE :: "'s JsonProc \<Rightarrow> ('s, GRANDMASTER_CLUSTER_TABLE_t) jstep" where
  "proc_GRANDMASTER_CLUSTER_TABLE P = jand
     [PROC_VAL (procValue_int8_t P) ''logQueryInterval'' GRANDMASTER_CLUSTER_TABLE_t.logQueryInterval GRANDMASTER_CLUSTER_TABLE_t.logQueryInterval_update,
      PROC_VAL (procValue_uint8_t P) ''actualTableSize'' GRANDMASTER_CLUSTER_TABLE_t.actualTableSize GRANDMASTER_CLUSTER_TABLE_t.actualTableSize_update,
      PROC_VAL (procArray_PortAddress_t P) ''PortAddress'' GRANDMASTER_CLUSTER_TABLE_t.PortAddress GRANDMASTER_CLUSTER_TABLE_t.PortAddress_update]"

definition proc_UNICAST_MASTER_TABLE :: "'s JsonProc \<Rightarrow> ('s, UNICAST_MASTER_TABLE_t) jstep" where
  "proc_UNICAST_MASTER_TABLE P = jand
     [PROC_VAL (procValue_int8_t P) ''logQueryInterval'' UNICAST_MASTER_TABLE_t.logQueryInterval UNICAST_MASTER_TABLE_t.logQueryInterval_update,
      PROC_VAL (procValue_uint16_t P) ''actualTableSize'' UNICAST_MASTER_TABLE_t.actualTableSize UNICAST_MASTER_TABLE_t.actualTableSize_update,
      PROC_VAL (procArray_PortAddress_t P) ''PortAddress'' UNICAST_MASTER_TABLE_t.PortAddress UNICAST_MASTER_TABLE_t.PortAddress_update]"

definition proc_UNICAST_MASTER_MAX_TABLE_SIZE :: "'s JsonProc \<Rightarrow> ('s, UNICAST_MASTER_MAX_TABLE_SIZE_t) jstep" where
  "proc_UNICAST_MASTER_MAX_TABLE_SIZE P = jand
     [PROC_VAL (procValue_uint16_t P) ''maxTableSize'' UNICAST_MASTER_MAX_TABLE_SIZE_t.maxTableSize UNICAST_MASTER_MAX_TABLE_SIZE_t.maxTableSize_update]"

definition proc_ACCEPTABLE_MASTER_TABLE :: "'s JsonProc \<Rightarrow> ('s, ACCEPTABLE_MASTER_TABLE_t) jstep" where
  "proc_ACCEPTABLE_MASTER_TABLE P = jand
     [PROC_VAL (procValue_int16_t P) ''actualTableSize'' ACCEPTABLE_MASTER_TABLE_t.actualTableSize ACCEPTABLE_MASTER_TABLE_t.actualTableSize_update,
      PROC_VAL (procArray_AcceptableMaster_t P) ''list'' ACCEPTABLE_MASTER_TABLE_t.list ACCEPTABLE_MASTER_TABLE_t.list_update]"

definition proc_ACCEPTABLE_MASTER_TABLE_ENABLED :: "'s JsonProc \<Rightarrow> ('s, ACCEPTABLE_MASTER_TABLE_ENABLED_t) jstep" where
  "proc_ACCEPTABLE_MASTER_TABLE_ENABLED P = jand
     [PROC_ZFLG P ACCEPTABLE_MASTER_TABLE_ENABLED_t.flags ACCEPTABLE_MASTER_TABLE_ENABLED_t.flags_update,
      PROC_FLG P ''acceptableMasterPortDS'' 1 ACCEPTABLE_MASTER_TABLE_ENABLED_t.flags ACCEPTABLE_MASTER_TABLE_ENABLED_t.flags_update]"

definition proc_ACCEPTABLE_MASTER_MAX_TABLE_SIZE :: "'s JsonProc \<Rightarrow> ('s, ACCEPTABLE_MASTER_MAX_TABLE_SIZE_t) jstep" where
  "proc_ACCEPTABLE_MASTER_MAX_TABLE_SIZE P = jand
     [PROC_VAL (procValue_uint16_t P) ''maxTableSize'' ACCEPTABLE_MASTER_MAX_TABLE_SIZE_t.maxTableSize ACCEPTABLE_MASTER_MAX_TABLE_SIZE_t.maxTableSize_update]"

definition proc_ALTERNATE_MASTER :: "'s JsonProc \<Rightarrow> ('s, ALTERNATE_MASTER_t) jstep" where
  "proc_ALTERNATE_MASTER P = jand
     [PROC_ZFLG P ALTERNATE_MASTER_t.flags ALTERNATE_MASTER_t.flags_update,
      PROC_FLG P ''transmitAlternateMulticastSync'' 1 ALTERNATE_MASTER_t.flags ALTERNATE_MASTER_t.flags_update,
      PROC_VAL (procValue_int8_t P) ''logAlternateMulticastSyncInterval'' ALTERNATE_MASTER_t.logAlternateMulticastSyncInterval ALTERNATE_MASTER_t.logAlternateMulticastSyncInterval_update,
      PROC_VAL (procValue_uint8_t P) ''numberOfAlternateMasters'' ALTERNATE_MASTER_t.numberOfAlternateMasters ALTERNATE_MASTER_t.numberOfAlternateMasters_update]"

definition proc_ALTERNATE_TIME_OFFSET_ENABLE :: "'s JsonProc \<Rightarrow> ('s, ALTERNATE_TIME_OFFSET_ENABLE_t) jstep" where
  "proc_ALTERNATE_TIME_OFFSET_ENABLE P = jand
     [PROC_ZFLG P ALTERNATE_TIME_OFFSET_ENABLE_t.flags ALTERNATE_TIME_OFFSET_ENABLE_t.flags_update,
      PROC_VAL (procValue_uint8_t P) ''keyField'' ALTERNATE_TIME_OFFSET_ENABLE_t.keyField ALTERNATE_TIME_OFFSET_ENABLE_t.keyField_update,
      PROC_FLG P ''alternateTimescaleOffsetsDS'' 1 ALTERNATE_TIME_OFFSET_ENABLE_t.flags ALTERNATE_TIME_OFFSET_ENABLE_t.flags_update]"

definition proc_ALTERNATE_TIME_OFFSET_NAME :: "'s JsonProc \<Rightarrow> ('s, ALTERNATE_TIME_OFFSET_NAME_t) jstep" where
  "proc_ALTERNATE_TIME_OFFSET_NAME P = jand
     [PROC_VAL (procValue_uint8_t P) ''keyField'' ALTERNATE_TIME_OFFSET_NAME_t.keyField ALTERNATE_TIME_OFFSET_NAME_t.keyField_update,
      PROC_VAL (procValue_PTPText_t P) ''displayName'' ALTERNATE_TIME_OFFSET_NAME_t.displayName ALTERNATE_TIME_OFFSET_NAME_t.displayName_update]"

definition proc_ALTERNATE_TIME_OFFSET_MAX_KEY :: "'s JsonProc \<Rightarrow> ('s, ALTERNATE_TIME_OFFSET_MAX_KEY_t) jstep" where
  "proc_ALTERNATE_TIME_OFFSET_MAX_KEY P = jand
     [PROC_VAL (procValue_uint8_t P) ''maxKey'' ALTERNATE_TIME_OFFSET_MAX_KEY_t.maxKey ALTERNATE_TIME_OFFSET_MAX_KEY_t.maxKey_update]"

definition proc_ALTERNATE_TIME_OFFSET_PROPERTIES :: "'s JsonProc \<Rightarrow> ('s, ALTERNATE_TIME_OFFSET_PROPERTIES_t) jstep" where
  "proc_ALTERNATE_TIME_OFFSET_PROPERTIES P = jand
     [PROC_VAL (procValue_uint8_t P) ''keyField'' ALTERNATE_TIME_OFFSET_PROPERTIES_t.keyField ALTERNATE_TIME_OFFSET_PROPERTIES_t.keyField_update,
      PROC_VAL (procValue_int32_t P) ''currentOffset'' ALTERNATE_TIME_OFFSET_PROPERTIES_t.currentOffset ALTERNATE_TIME_OFFSET_PROPERTIES_t.currentOffset_update,
      PROC_VAL (procValue_int32_t P) ''jumpSeconds'' ALTERNATE_TIME_OFFSET_PROPERTIES_t.jumpSeconds ALTERNATE_TIME_OFFSET_PROPERTIES_t.jumpSeconds_update,
      PROC_VAL (procValue_uint64_t P) ''timeOfNextJump'' ALTERNATE_TIME_OFFSET_PROPERTIES_t.timeOfNextJump ALTERNATE_TIME_OFFSET_PROPERTIES_t.timeOfNextJump_update]"

definition proc_TRANSPARENT_CLOCK_PORT_DATA_SET :: "'s JsonProc \<Rightarrow> ('s, TRANSPARENT_CLOCK_PORT_DATA_SET_t) jstep" where
  "proc_TRANSPARENT_CLOCK_PORT_DATA_SET P = jand
     [PROC_ZFLG P TRANSPARENT_CLOCK_PORT_DATA_SET_t.flags TRANSPARENT_CLOCK_PORT_DATA_SET_t.flags_update,
      PROC_VAL (procValue_PortIdentity_t P) ''portIdentity'' TRANSPARENT_CLOCK_PORT_DATA_SET_t.portIdentity TRANSPARENT_CLOCK_PORT_DATA_SET_t.portIdentity_update,
      PROC_FLG P ''transparentClockPortDS'' 1 TRANSPARENT_CLOCK_PORT_DATA_SET_t.flags TRANSPARENT_CLOCK_PORT_DATA_SET_t.flags_update,
      PROC_VAL (procValue_int8_t P) ''logMinPdelayReqInterval'' TRANSPARENT_CLOCK_PORT_DATA_SET_t.logMinPdelayReqInterval TRANSPARENT_CLOCK_PORT_DATA_SET_t.logMinPdelayReqInterval_update,
      PROC_VAL (procValue_TimeInterval_t P) ''peerMeanPathDelay'' TRANSPARENT_CLOCK_PORT_DATA_SET_t.peerMeanPathDelay TRANSPARENT_CLOCK_PORT_DATA_SET_t.peerMeanPathDelay_update]"

definition proc_LOG_MIN_PDELAY_REQ_INTERVAL :: "'s JsonProc \<Rightarrow> ('s, LOG_MIN_PDELAY_REQ_INTERVAL_t) jstep" where
  "proc_LOG_MIN_PDELAY_REQ_INTERVAL P = jand
     [PROC_VAL (procValue_int8_t P) ''logMinPdelayReqInterval'' LOG_MIN_PDELAY_REQ_INTERVAL_t.logMinPdelayReqInterval LOG_MIN_PDELAY_REQ_INTERVAL_t.logMinPdelayReqInterval_update]"

definition proc_TRANSPARENT_CLOCK_DEFAULT_DATA_SET :: "'s JsonProc \<Rightarrow> ('s, TRANSPARENT_CLOCK_DEFAULT_DATA_SET_t) jstep" where
  "proc_TRANSPARENT_CLOCK_DEFAULT_DATA_SET P = jand
     [PROC_VAL (procValue_ClockIdentity_t P) ''clockIdentity'' TRANSPARENT_CLOCK_DEFAULT_DATA_SET_t.clockIdentity TRANSPARENT_CLOCK_DEFAULT_DATA_SET_t.clockIdentity_update,
      PROC_VAL (procValue_uint16_t P) ''numberPorts'' TRANSPARENT_CLOCK_DEFAULT_DATA_SET_t.numberPorts TRANSPARENT_CLOCK_DEFAULT_DATA_SET_t.numberPorts_update,
      PROC_VAL (procValue_delayMechanism_e P) ''delayMechanism'' TRANSPARENT_CLOCK_DEFAULT_DATA_SET_t.delayMechanism TRANSPARENT_CLOCK_DEFAULT_DATA_SET_t.delayMechanism_update,
      PROC_VAL (procValue_uint8_t P) ''primaryDomain'' TRANSPARENT_CLOCK_DEFAULT_DATA_SET_t.primaryDomain TRANSPARENT_CLOCK_DEFAULT_DATA_SET_t.primaryDomain_update]"

definition proc_PRIMARY_DOMAIN :: "'s JsonProc \<Rightarrow> ('s, PRIMARY_DOMAIN_t) jstep" where
  "proc_PRIMARY_DOMAIN P = jand
     [PROC_VAL (procValue_uint8_t P) ''primaryDomain'' PRIMARY_DOMAIN_t.primaryDomain PRIMARY_DOMAIN_t.primaryDomain_update]"

definition proc_DELAY_MECHANISM :: "'s JsonProc \<Rightarrow> ('s, DELAY_MECHANISM_t) jstep" where
  "proc_DELAY_MECHANISM P = jand
     [PROC_VAL (procValue_delayMechanism_e P) ''delayMechanism'' DELAY_MECHANISM_t.delayMechanism DELAY_MECHANISM_t.delayMechanism_update]"

definition proc_EXTERNAL_PORT_CONFIGURATION_ENABLED :: "'s JsonProc \<Rightarrow> ('s, EXTERNAL_PORT_CONFIGURATION_ENABLED_t) jstep" where
  "proc_EXTERNAL_PORT_CONFIGURATION_ENABLED P = jand
     [PROC_ZFLG P EXTERNAL_PORT_CONFIGURATION_ENABLED_t.flags EXTERNAL_PORT_CONFIGURATION_ENABLED_t.flags_update,
      PROC_FLG P ''externalPortConfiguration'' 1 EXTERNAL_PORT_CONFIGURATION_ENABLED_t.flags EXTERNAL_PORT_CONFIGURATION_ENABLED_t.flags_update]"

definition proc_MASTER_ONLY :: "'s JsonProc \<Rightarrow> ('s, MASTER_ONLY_t) jstep" where
  "proc_MASTER_ONLY P = jand
     [PROC_ZFLG P MASTER_ONLY_t.flags MASTER_ONLY_t.flags_update,
      PROC_FLG P ''masterOnly'' 1 MASTER_ONLY_t.flags MASTER_ONLY_t.flags_update]"

definition proc_HOLDOVER_UPGRADE_ENABLE :: "'s JsonProc \<Rightarrow> ('s, HOLDOVER_UPGRADE_ENABLE_t) jstep" where
  "proc_HOLDOVER_UPGRADE_ENABLE P = jand
     [PROC_ZFLG P HOLDOVER_UPGRADE_ENABLE_t.flags HOLDOVER_UPGRADE_ENABLE_t.flags_update,
      PROC_FLG P ''holdoverUpgradeDS'' 1 HOLDOVER_UPGRADE_ENABLE_t.flags HOLDOVER_UPGRADE_ENABLE_t.flags_update]"

definition proc_EXT_PORT_CONFIG_PORT_DATA_SET :: "'s JsonProc \<Rightarrow> ('s, EXT_PORT_CONFIG_PORT_DATA_SET_t) jstep" where
  "proc_EXT_PORT_CONFIG_PORT_DATA_SET P = jand
     [PROC_ZFLG P EXT_PORT_CONFIG_PORT_DATA_SET_t.flags EXT_PORT_CONFIG_PORT_DATA_SET_t.flags_update,
      PROC_FLG P ''acceptableMasterPortDS'' 1 EXT_PORT_CONFIG_PORT_DATA_SET_t.flags EXT_PORT_CONFIG_PORT_DATA_SET_t.flags_update,
      PROC_VAL (procValue_portState_e P) ''desiredState'' EXT_PORT_CONFIG_PORT_DATA_SET_t.desiredState EXT_PORT_CONFIG_PORT_DATA_SET_t.desiredState_update]"

definition proc_TIME_STATUS_NP :: "'s JsonProc \<Rightarrow> ('s, TIME_STATUS_NP_t) jstep" where
  "proc_TIME_STATUS_NP P = jand
     [PROC_VAL (procValue_int64_t P) ''master_offset'' TIME_STATUS_NP_t.master_offset TIME_STATUS_NP_t.master_offset_update,
      PROC_VAL (procValue_int64_t P) ''ingress_time'' TIME_STATUS_NP_t.ingress_time TIME_STATUS_NP_t.ingress_time_update,
      PROC_VAL (procValue_int32_t P) ''cumulativeScaledRateOffset'' TIME_STATUS_NP_t.cumulativeScaledRateOffset TIME_STATUS_NP_t.cumulativeScaledRateOffset_update,
      PROC_VAL (procValue_int32_t P) ''scaledLastGmPhaseChange'' TIME_STATUS_NP_t.scaledLastGmPhaseChange TIME_STATUS_NP_t.scaledLastGmPhaseChange_update,
      PROC_VAL (procValue_uint16_t P) ''gmTimeBaseIndicator'' TIME_STATUS_NP_t.gmTimeBaseIndicator TIME_STATUS_NP_t.gmTimeBaseIndicator_update,
      PROC_VAL (procValue_uint16_t P) ''nanoseconds_msb'' TIME_STATUS_NP_t.nanoseconds_msb TIME_STATUS_NP_t.nanoseconds_msb_update,
      PROC_VAL (procValue_uint64_t P) ''nanoseconds_lsb'' TIME_STATUS_NP_t.nanoseconds_lsb TIME_STATUS_NP_t.nanoseconds_lsb_update,
      PROC_VAL (procValue_uint16_t P) ''fractional_nanoseconds'' TIME_STATUS_NP_t.fractional_nanoseconds TIME_STATUS_NP_t.fractional_nanoseconds_update,
      PROC_VAL (procValue_int32_t P) ''gmPresent'' TIME_STATUS_NP_t.gmPresent TIME_STATUS_NP_t.gmPresent_update,
      PROC_VAL (procValue_ClockIdentity_t P) ''gmIdentity'' TIME_STATUS_NP_t.gmIdentity TIME_STATUS_NP_t.gmIdentity_update]"

definition proc_GRANDMASTER_SETTINGS_NP :: "'s JsonProc \<Rightarrow> ('s, GRANDMASTER_SETTINGS_NP_t) jstep" where
  "proc_GRANDMASTER_SETTINGS_NP P = jand
     [PROC_ZFLG P GRANDMASTER_SETTINGS_NP_t.flags GRANDMASTER_SETTINGS_NP_t.flags_update,
      PROC_VAL (procValue_ClockQuality_t P) ''clockQuality'' GRANDMASTER_SETTINGS_NP_t.clockQuality GRANDMASTER_SETTINGS_NP_t.clockQuality_update,
      PROC_VAL (procValue_int16_t P) ''currentUtcOffset'' GRANDMASTER_SETTINGS_NP_t.currentUtcOffset GRANDMASTER_SETTINGS_NP_t.currentUtcOffset_update,
      PROC_FLG P ''leap61'' F_LI_61 GRANDMASTER_SETTINGS_NP_t.flags GRANDMASTER_SETTINGS_NP_t.flags_update,
      PROC_FLG P ''leap59'' F_LI_59 GRANDMASTER_SETTINGS_NP_t.flags GRANDMASTER_SETTINGS_NP_t.flags_update,
      PROC_FLG P ''currentUtcOffsetValid'' F_UTCV GRANDMASTER_SETTINGS_NP_t.flags GRANDMASTER_SETTINGS_NP_t.flags_update,
      PROC_FLG P ''ptpTimescale'' F_PTP GRANDMASTER_SETTINGS_NP_t.flags GRANDMASTER_SETTINGS_NP_t.flags_update,
      PROC_FLG P ''timeTraceable'' F_TTRA GRANDMASTER_SETTINGS_NP_t.flags GRANDMASTER_SETTINGS_NP_t.flags_update,
      PROC_FLG P ''frequencyTraceable'' F_FTRA GRANDMASTER_SETTINGS_NP_t.flags GRANDMASTER_SETTINGS_NP_t.flags_update,
      PROC_VAL (procValue_timeSource_e P) ''timeSource'' GRANDMASTER_SETTINGS_NP_t.timeSource GRANDMASTER_SETTINGS_NP_t.timeSource_update]"

definition proc_PORT_DATA_SET_NP :: "'s JsonProc \<Rightarrow> ('s, PORT_DATA_SET_NP_t) jstep" where
  "proc_PORT_DATA_SET_NP P = jand
     [PROC_VAL (procValue_uint32_t P) ''neighborPropDelayThresh'' PORT_DATA_SET_NP_t.neighborPropDelayThresh PORT_DATA_SET_NP_t.neighborPropDelayThresh_update,
      PROC_VAL (procValue_int32_t P) ''asCapable'' PORT_DATA_SET_NP_t.asCapable PORT_DATA_SET_NP_t.asCapable_update]"

definition proc_SUBSCRIBE_EVENTS_NP :: "'s JsonProc \<Rightarrow> ('s, SUBSCRIBE_EVENTS_NP_t) jstep" where
  "proc_SUBSCRIBE_EVENTS_NP P = jand
     [PROC_VAL (procValue_uint16_t P) ''duration'' SUBSCRIBE_EVENTS_NP_t.duration SUBSCRIBE_EVENTS_NP_t.duration_update,
      PROC_EVENT_FLG P ''NOTIFY_PORT_STATE'' NOTIFY_PORT_STATE,
      PROC_EVENT_FLG P ''NOTIFY_TIME_SYNC'' NOTIFY_TIME_SYNC,
      PROC_EVENT_FLG P ''NOTIFY_PARENT_DATA_SET'' NOTIFY_PARENT_DATA_SET,
      PROC_EVENT_FLG P ''NOTIFY_CMLDS'' NOTIFY_CMLDS]"

definition proc_PORT_PROPERTIES_NP :: "'s JsonProc \<Rightarrow> ('s, PORT_PROPERTIES_NP_t) jstep" where
  "proc_PORT_PROPERTIES_NP P = jand
     [PROC_VAL (procValue_PortIdentity_t P) ''portIdentity'' PORT_PROPERTIES_NP_t.portIdentity PORT_PROPERTIES_NP_t.portIdentity_update,
      PROC_VAL (procValue_portState_e P) ''portState'' PORT_PROPERTIES_NP_t.portState PORT_PROPERTIES_NP_t.portState_update,
      PROC_VAL (procValue_linuxptpTimeStamp_e P) ''timestamping'' PORT_PROPERTIES_NP_t.timestamping PORT_PROPERTIES_NP_t.timestamping_update,
      PROC_VAL (procValue_PTPText_t P) ''interface'' PORT_PROPERTIES_NP_t.interface PORT_PROPERTIES_NP_t.interface_update]"

definition proc_PORT_STATS_NP :: "'s JsonProc \<Rightarrow> ('s, PORT_STATS_NP_t) jstep" where
  "proc_PORT_STATS_NP P = jand
     [PROC_VAL (procValue_PortIdentity_t P) ''portIdentity'' PORT_STATS_NP_t.portIdentity PORT_STATS_NP_t.portIdentity_update,
      PROC_FLD P ''rx_Sync'' STAT_SYNC PORT_STATS_NP_t.rxMsgType PORT_STATS_NP_t.rxMsgType_update,
      PROC_FLD P ''rx_Delay_Req'' STAT_DELAY_REQ PORT_STATS_NP_t.rxMsgType PORT_STATS_NP_t.rxMsgType_update,
      PROC_FLD P ''rx_Pdelay_Req'' STAT_PDELAY_REQ PORT_STATS_NP_t.rxMsgType PORT_STATS_NP_t.rxMsgType_update,
      PROC_FLD P ''rx_Pdelay_Resp'' STAT_PDELAY_RESP PORT_STATS_NP_t.rxMsgType PORT_STATS_NP_t.rxMsgType_update,
      PROC_FLD P ''rx_Follow_Up'' STAT_FOLLOW_UP PORT_STATS_NP_t.rxMsgType PORT_STATS_NP_t.rxMsgType_update,
      PROC_FLD P ''rx_Delay_Resp'' STAT_DELAY_RESP PORT_STATS_NP_t.rxMsgType PORT_STATS_NP_t.rxMsgType_update,
      PROC_FLD P ''rx_Pdelay_Resp_Follow_Up'' STAT_PDELAY_RESP_FOLLOW_UP PORT_STATS_NP_t.rxMsgType PORT_STATS_NP_t.rxMsgType_update,
      PROC_FLD P ''rx_Announce'' STAT_ANNOUNCE PORT_STATS_NP_t.rxMsgType PORT_STATS_NP_t.rxMsgType_update,
      PROC_FLD P ''rx_Signaling'' STAT_SIGNALING PORT_STATS_NP_t.rxMsgType PORT_STATS_NP_t.rxMsgType_update,
      PROC_FLD P ''rx_Management'' STAT_MANAGEMENT PORT_STATS_NP_t.rxMsgType PORT_STATS_NP_t.rxMsgType_update,
      PROC_FLD P ''tx_Sync'' STAT_SYNC PORT_STATS_NP_t.txMsgType PORT_STATS_NP_t.txMsgType_update,
      PROC_FLD P ''tx_Delay_Req'' STAT_DELAY_REQ PORT_STATS_NP_t.txMsgType PORT_STATS_NP_t.txMsgType_update,
      PROC_FLD P ''tx_Pdelay_Req'' STAT_PDELAY_REQ PORT_STATS_NP_t.txMsgType PORT_STATS_NP_t.txMsgType_update,
      PROC_FLD P ''tx_Pdelay_Resp'' STAT_PDELAY_RESP PORT_STATS_NP_t.txMsgType PORT_STATS_NP_t.txMsgType_update,
      PROC_FLD P ''tx_Follow_Up'' STAT_FOLLOW_UP PORT_STATS_NP_t.txMsgType PORT_STATS_NP_t.txMsgType_update,
      PROC_FLD P ''tx_Delay_Resp'' STAT_DELAY_RESP PORT_STATS_NP_t.txMsgType PORT_STATS_NP_t.txMsgType_update,
      PROC_FLD P ''tx_Pdelay_Resp_Follow_Up'' STAT_PDELAY_RESP_FOLLOW_UP PORT_STATS_NP_t.txMsgType PORT_STATS_NP_t.txMsgType_update,
      PROC_FLD P ''tx_Announce'' STAT_ANNOUNCE PORT_STATS_NP_t.txMsgType PORT_STATS_NP_t.txMsgType_update,
      PROC_FLD P ''tx_Signaling'' STAT_SIGNALING PORT_STATS_NP_t.txMsgType PORT_STATS_NP_t.txMsgType_update,
      PROC_FLD P ''tx_Management'' STAT_MANAGEMENT PORT_STATS_NP_t.txMsgType PORT_STATS_NP_t.txMsgType_update]"

definition proc_SYNCHRONIZATION_UNCERTAIN_NP :: "'s JsonProc \<Rightarrow> ('s, SYNCHRONIZATION_UNCERTAIN_NP_t) jstep" where
  "proc_SYNCHRONIZATION_UNCERTAIN_NP P = jand
     [PROC_VAL (procValue_uint8_t P) ''val'' SYNCHRONIZATION_UNCERTAIN_NP_t.val SYNCHRONIZATION_UNCERTAIN_NP_t.val_update]"

definition proc_PORT_SERVICE_STATS_NP :: "'s JsonProc \<Rightarrow> ('s, PORT_SERVICE_STATS_NP_t) jstep" where
  "proc_PORT_SERVICE_STATS_NP P = jand
     [PROC_VAL (procValue_PortIdentity_t P) ''portIdentity'' PORT_SERVICE_STATS_NP_t.portIdentity PORT_SERVICE_STATS_NP_t.portIdentity_update,
      PROC_VAL (procValue_uint64_t P) ''announce_timeout'' PORT_SERVICE_STATS_NP_t.announce_timeout PORT_SERVICE_STATS_NP_t.announce_timeout_update,
      PROC_VAL (procValue_uint64_t P) ''sync_timeout'' PORT_SERVICE_STATS_NP_t.sync_timeout PORT_SERVICE_STATS_NP_t.sync_timeout_update,
      PROC_VAL (procValue_uint64_t P) ''delay_timeout'' PORT_SERVICE_STATS_NP_t.delay_timeout PORT_SERVICE_STATS_NP_t.delay_timeout_update,
      PROC_VAL (procValue_uint64_t P) ''unicast_service_timeout'' PORT_SERVICE_STATS_NP_t.unicast_service_timeout PORT_SERVICE_STATS_NP_t.unicast_service_timeout_update,
      PROC_VAL (procValue_uint64_t P) ''unicast_request_timeout'' PORT_SERVICE_STATS_NP_t.unicast_request_timeout PORT_SERVICE_STATS_NP_t.unicast_request_timeout_update,
      PROC_VAL (procValue_uint64_t P) ''master_announce_timeout'' PORT_SERVICE_STATS_NP_t.master_announce_timeout PORT_SERVICE_STATS_NP_t.master_announce_timeout_update,
      PROC_VAL (procValue_uint64_t P) ''master_sync_timeout'' PORT_SERVICE_STATS_NP_t.master_sync_timeout PORT_SERVICE_STATS_NP_t.master_sync_timeout_update,
      PROC_VAL (procValue_uint64_t P) ''qualification_timeout'' PORT_SERVICE_STATS_NP_t.qualification_timeout PORT_SERVICE_STATS_NP_t.qualification_timeout_update,
      PROC_VAL (procValue_uint64_t P) ''sync_mismatch'' PORT_SERVICE_STATS_NP_t.sync_mismatch PORT_SERVICE_STATS_NP_t.sync_mismatch_update,
      PROC_VAL (procValue_uint64_t P) ''followup_mismatch'' PORT_SERVICE_STATS_NP_t.followup_mismatch PORT_SERVICE_STATS_NP_t.followup_mismatch_update]"

definition proc_UNICAST_MASTER_TABLE_NP :: "'s JsonProc \<Rightarrow> ('s, UNICAST_MASTER_TABLE_NP_t) jstep" where
  "proc_UNICAST_MASTER_TABLE_NP P = jand
     [PROC_VAL (procValue_int16_t P) ''actualTableSize'' UNICAST_MASTER_TABLE_NP_t.actualTableSize UNICAST_MASTER_TABLE_NP_t.actualTableSize_update,
      PROC_VAL (procArray_LinuxptpUnicastMaster_t P) ''unicastMasters'' UNICAST_MASTER_TABLE_NP_t.unicastMasters UNICAST_MASTER_TABLE_NP_t.unicastMasters_update]"

definition proc_PORT_HWCLOCK_NP :: "'s JsonProc \<Rightarrow> ('s, PORT_HWCLOCK_NP_t) jstep" where
  "proc_PORT_HWCLOCK_NP P = jand
     [PROC_VAL (procValue_PortIdentity_t P) ''portIdentity'' PORT_HWCLOCK_NP_t.portIdentity PORT_HWCLOCK_NP_t.portIdentity_update,
      PROC_VAL (procValue_int32_t P) ''phc_index'' PORT_HWCLOCK_NP_t.phc_index PORT_HWCLOCK_NP_t.phc_index_update,
      PROC_VAL (procValue_uint8_t P) ''flags'' PORT_HWCLOCK_NP_t.flags PORT_HWCLOCK_NP_t.flags_update]"

definition proc_POWER_PROFILE_SETTINGS_NP :: "'s JsonProc \<Rightarrow> ('s, POWER_PROFILE_SETTINGS_NP_t) jstep" where
  "proc_POWER_PROFILE_SETTINGS_NP P = jand
     [PROC_VAL (procValue_linuxptpPowerProfileVersion_e P) ''version'' POWER_PROFILE_SETTINGS_NP_t.version POWER_PROFILE_SETTINGS_NP_t.version_update,
      PROC_VAL (procValue_uint16_t P) ''grandmasterID'' POWER_PROFILE_SETTINGS_NP_t.grandmasterID POWER_PROFILE_SETTINGS_NP_t.grandmasterID_update,
      PROC_VAL (procValue_uint32_t P) ''grandmasterTimeInaccuracy'' POWER_PROFILE_SETTINGS_NP_t.grandmasterTimeInaccuracy POWER_PROFILE_SETTINGS_NP_t.grandmasterTimeInaccuracy_update,
      PROC_VAL (procValue_uint32_t P) ''networkTimeInaccuracy'' POWER_PROFILE_SETTINGS_NP_t.networkTimeInaccuracy POWER_PROFILE_SETTINGS_NP_t.networkTimeInaccuracy_update,
      PROC_VAL (procValue_uint32_t P) ''totalTimeInaccuracy'' POWER_PROFILE_SETTINGS_NP_t.totalTimeInaccuracy POWER_PROFILE_SETTINGS_NP_t.totalTimeInaccuracy_update]"

definition proc_CMLDS_INFO_NP :: "'s JsonProc \<Rightarrow> ('s, CMLDS_INFO_NP_t) jstep" where
  "proc_CMLDS_INFO_NP P = jand
     [PROC_VAL (procValue_TimeInterval_t P) ''meanLinkDelay'' CMLDS_INFO_NP_t.meanLinkDelay CMLDS_INFO_NP_t.meanLinkDelay_update,
      PROC_VAL (procValue_int32_t P) ''scaledNeighborRateRatio'' CMLDS_INFO_NP_t.scaledNeighborRateRatio CMLDS_INFO_NP_t.scaledNeighborRateRatio_update,
      PROC_VAL (procValue_uint32_t P) ''as_capable'' CMLDS_INFO_NP_t.as_capable CMLDS_INFO_NP_t.as_capable_update]"

definition proc_PORT_CORRECTIONS_NP :: "'s JsonProc \<Rightarrow> ('s, PORT_CORRECTIONS_NP_t) jstep" where
  "proc_PORT_CORRECTIONS_NP P = jand
     [PROC_VAL (procValue_int64_t P) ''egressLatency'' PORT_CORRECTIONS_NP_t.egressLatency PORT_CORRECTIONS_NP_t.egressLatency_update,
      PROC_VAL (procValue_int64_t P) ''ingressLatency'' PORT_CORRECTIONS_NP_t.ingressLatency PORT_CORRECTIONS_NP_t.ingressLatency_update,
      PROC_VAL (procValue_int64_t P) ''delayAsymmetry'' PORT_CORRECTIONS_NP_t.delayAsymmetry PORT_CORRECTIONS_NP_t.delayAsymmetry_update]"

definition proc_EXTERNAL_GRANDMASTER_PROPERTIES_NP :: "'s JsonProc \<Rightarrow> ('s, EXTERNAL_GRANDMASTER_PROPERTIES_NP_t) jstep" where
  "proc_EXTERNAL_GRANDMASTER_PROPERTIES_NP P = jand
     [PROC_VAL (procValue_ClockIdentity_t P) ''gmIdentity'' EXTERNAL_GRANDMASTER_PROPERTIES_NP_t.gmIdentity EXTERNAL_GRANDMASTER_PROPERTIES_NP_t.gmIdentity_update,
      PROC_VAL (procValue_uint16_t P) ''stepsRemoved'' EXTERNAL_GRANDMASTER_PROPERTIES_NP_t.stepsRemoved EXTERNAL_GRANDMASTER_PROPERTIES_NP_t.stepsRemoved_update]"

lemmas proc_defs = proc_CLOCK_DESCRIPTION_def
  proc_USER_DESCRIPTION_def
  proc_INITIALIZE_def
  proc_FAULT_LOG_def
  proc_DEFAULT_DATA_SET_def
  proc_CURRENT_DATA_SET_def
  proc_PARENT_DATA_SET_def
  proc_TIME_PROPERTIES_DATA_SET_def
  proc_PORT_DATA_SET_def
  proc_PRIORITY1_def
  proc_PRIORITY2_def
  proc_DOMAIN_def
  proc_SLAVE_ONLY_def
  proc_LOG_ANNOUNCE_INTERVAL_def
  proc_ANNOUNCE_RECEIPT_TIMEOUT_def
  proc_LOG_SYNC_INTERVAL_def
  proc_VERSION_NUMBER_def
  proc_TIME_def
  proc_CLOCK_ACCURACY_def
  proc_UTC_PROPERTIES_def
  proc_TRACEABILITY_PROPERTIES_def
  proc_TIMESCALE_PROPERTIES_def
  proc_UNICAST_NEGOTIATION_ENABLE_def
  proc_PATH_TRACE_LIST_def
  proc_PATH_TRACE_ENABLE_def
  proc_GRANDMASTER_CLUSTER_TABLE_def
  proc_UNICAST_MASTER_TABLE_def
  proc_UNICAST_MASTER_MAX_TABLE_SIZE_def
  proc_ACCEPTABLE_MASTER_TABLE_def
  proc_ACCEPTABLE_MASTER_TABLE_ENABLED_def
  proc_ACCEPTABLE_MASTER_MAX_TABLE_SIZE_def
  proc_ALTERNATE_MASTER_def
  proc_ALTERNATE_TIME_OFFSET_ENABLE_def
  proc_ALTERNATE_TIME_OFFSET_NAME_def
  proc_ALTERNATE_TIME_OFFSET_MAX_KEY_def
  proc_ALTERNATE_TIME_OFFSET_PROPERTIES_def
  proc_TRANSPARENT_CLOCK_PORT_DATA_SET_def
  proc_LOG_MIN_PDELAY_REQ_INTERVAL_def
  proc_TRANSPARENT_CLOCK_DEFAULT_DATA_SET_def
  proc_PRIMARY_DOMAIN_def
  proc_DELAY_MECHANISM_def
  proc_EXTERNAL_PORT_CONFIGURATION_ENABLED_def
  proc_MASTER_ONLY_def
  proc_HOLDOVER_UPGRADE_ENABLE_def
  proc_EXT_PORT_CONFIG_PORT_DATA_SET_def
  proc_TIME_STATUS_NP_def
  proc_GRANDMASTER_SETTINGS_NP_def
  proc_PORT_DATA_SET_NP_def
  proc_SUBSCRIBE_EVENTS_NP_def
  proc_PORT_PROPERTIES_NP_def
  proc_PORT_STATS_NP_def
  proc_SYNCHRONIZATION_UNCERTAIN_NP_def
  proc_PORT_SERVICE_STATS_NP_def
  proc_UNICAST_MASTER_TABLE_NP_def
  proc_PORT_HWCLOCK_NP_def
  proc_POWER_PROFILE_SETTINGS_NP_def
  proc_CMLDS_INFO_NP_def
  proc_PORT_CORRECTIONS_NP_def
  proc_EXTERNAL_GRANDMASTER_PROPERTIES_NP_def

subsection \<open>The dispatch\<close>

definition lift_json :: "('d \<Rightarrow> BaseMngTlv) \<Rightarrow> ('s, 'd) jstep \<Rightarrow> 'd \<Rightarrow> 's \<Rightarrow> bool \<times> BaseMngTlv \<times> 's" where
  "lift_json C f d st = (case f d st of (ok, d', st') \<Rightarrow> (ok, C d', st'))"

text \<open>The TLV of SMPTE has no function: the identifier is not one of the table of \<^verbatim>\<open>procData\<close>.\<close>

primrec json_tlv :: "'s JsonProc \<Rightarrow> BaseMngTlv \<Rightarrow> 's \<Rightarrow> bool \<times> BaseMngTlv \<times> 's" where
    "json_tlv P (CLOCK_DESCRIPTION_v d) = lift_json CLOCK_DESCRIPTION_v (proc_CLOCK_DESCRIPTION P) d"
  | "json_tlv P (USER_DESCRIPTION_v d) = lift_json USER_DESCRIPTION_v (proc_USER_DESCRIPTION P) d"
  | "json_tlv P (INITIALIZE_v d) = lift_json INITIALIZE_v (proc_INITIALIZE P) d"
  | "json_tlv P (FAULT_LOG_v d) = lift_json FAULT_LOG_v (proc_FAULT_LOG P) d"
  | "json_tlv P (DEFAULT_DATA_SET_v d) = lift_json DEFAULT_DATA_SET_v (proc_DEFAULT_DATA_SET P) d"
  | "json_tlv P (CURRENT_DATA_SET_v d) = lift_json CURRENT_DATA_SET_v (proc_CURRENT_DATA_SET P) d"
  | "json_tlv P (PARENT_DATA_SET_v d) = lift_json PARENT_DATA_SET_v (proc_PARENT_DATA_SET P) d"
  | "json_tlv P (TIME_PROPERTIES_DATA_SET_v d) = lift_json TIME_PROPERTIES_DATA_SET_v (proc_TIME_PROPERTIES_DATA_SET P) d"
  | "json_tlv P (PORT_DATA_SET_v d) = lift_json PORT_DATA_SET_v (proc_PORT_DATA_SET P) d"
  | "json_tlv P (PRIORITY1_v d) = lift_json PRIORITY1_v (proc_PRIORITY1 P) d"
  | "json_tlv P (PRIORITY2_v d) = lift_json PRIORITY2_v (proc_PRIORITY2 P) d"
  | "json_tlv P (DOMAIN_v d) = lift_json DOMAIN_v (proc_DOMAIN P) d"
  | "json_tlv P (SLAVE_ONLY_v d) = lift_json SLAVE_ONLY_v (proc_SLAVE_ONLY P) d"
  | "json_tlv P (LOG_ANNOUNCE_INTERVAL_v d) = lift_json LOG_ANNOUNCE_INTERVAL_v (proc_LOG_ANNOUNCE_INTERVAL P) d"
  | "json_tlv P (ANNOUNCE_RECEIPT_TIMEOUT_v d) = lift_json ANNOUNCE_RECEIPT_TIMEOUT_v (proc_ANNOUNCE_RECEIPT_TIMEOUT P) d"
  | "json_tlv P (LOG_SYNC_INTERVAL_v d) = lift_json LOG_SYNC_INTERVAL_v (proc_LOG_SYNC_INTERVAL P) d"
  | "json_tlv P (VERSION_NUMBER_v d) = lift_json VERSION_NUMBER_v (proc_VERSION_NUMBER P) d"
  | "json_tlv P (TIME_v d) = lift_json TIME_v (proc_TIME P) d"
  | "json_tlv P (CLOCK_ACCURACY_v d) = lift_json CLOCK_ACCURACY_v (proc_CLOCK_ACCURACY P) d"
  | "json_tlv P (UTC_PROPERTIES_v d) = lift_json UTC_PROPERTIES_v (proc_UTC_PROPERTIES P) d"
  | "json_tlv P (TRACEABILITY_PROPERTIES_v d) = lift_json TRACEABILITY_PROPERTIES_v (proc_TRACEABILITY_PROPERTIES P) d"
  | "json_tlv P (TIMESCALE_PROPERTIES_v d) = lift_json TIMESCALE_PROPERTIES_v (proc_TIMESCALE_PROPERTIES P) d"
  | "json_tlv P (UNICAST_NEGOTIATION_ENABLE_v d) = lift_json UNICAST_NEGOTIATION_ENABLE_v (proc_UNICAST_NEGOTIATION_ENABLE P) d"
  | "json_tlv P (PATH_TRACE_LIST_v d) = lift_json PATH_TRACE_LIST_v (proc_PATH_TRACE_LIST P) d"
  | "json_tlv P (PATH_TRACE_ENABLE_v d) = lift_json PATH_TRACE_ENABLE_v (proc_PATH_TRACE_ENABLE P) d"
  | "json_tlv P (GRANDMASTER_CLUSTER_TABLE_v d) = lift_json GRANDMASTER_CLUSTER_TABLE_v (proc_GRANDMASTER_CLUSTER_TABLE P) d"
  | "json_tlv P (UNICAST_MASTER_TABLE_v d) = lift_json UNICAST_MASTER_TABLE_v (proc_UNICAST_MASTER_TABLE P) d"
  | "json_tlv P (UNICAST_MASTER_MAX_TABLE_SIZE_v d) = lift_json UNICAST_MASTER_MAX_TABLE_SIZE_v (proc_UNICAST_MASTER_MAX_TABLE_SIZE P) d"
  | "json_tlv P (ACCEPTABLE_MASTER_TABLE_v d) = lift_json ACCEPTABLE_MASTER_TABLE_v (proc_ACCEPTABLE_MASTER_TABLE P) d"
  | "json_tlv P (ACCEPTABLE_MASTER_TABLE_ENABLED_v d) = lift_json ACCEPTABLE_MASTER_TABLE_ENABLED_v (proc_ACCEPTABLE_MASTER_TABLE_ENABLED P) d"
  | "json_tlv P (ACCEPTABLE_MASTER_MAX_TABLE_SIZE_v d) = lift_json ACCEPTABLE_MASTER_MAX_TABLE_SIZE_v (proc_ACCEPTABLE_MASTER_MAX_TABLE_SIZE P) d"
  | "json_tlv P (ALTERNATE_MASTER_v d) = lift_json ALTERNATE_MASTER_v (proc_ALTERNATE_MASTER P) d"
  | "json_tlv P (ALTERNATE_TIME_OFFSET_ENABLE_v d) = lift_json ALTERNATE_TIME_OFFSET_ENABLE_v (proc_ALTERNATE_TIME_OFFSET_ENABLE P) d"
  | "json_tlv P (ALTERNATE_TIME_OFFSET_NAME_v d) = lift_json ALTERNATE_TIME_OFFSET_NAME_v (proc_ALTERNATE_TIME_OFFSET_NAME P) d"
  | "json_tlv P (ALTERNATE_TIME_OFFSET_MAX_KEY_v d) = lift_json ALTERNATE_TIME_OFFSET_MAX_KEY_v (proc_ALTERNATE_TIME_OFFSET_MAX_KEY P) d"
  | "json_tlv P (ALTERNATE_TIME_OFFSET_PROPERTIES_v d) = lift_json ALTERNATE_TIME_OFFSET_PROPERTIES_v (proc_ALTERNATE_TIME_OFFSET_PROPERTIES P) d"
  | "json_tlv P (TRANSPARENT_CLOCK_PORT_DATA_SET_v d) = lift_json TRANSPARENT_CLOCK_PORT_DATA_SET_v (proc_TRANSPARENT_CLOCK_PORT_DATA_SET P) d"
  | "json_tlv P (LOG_MIN_PDELAY_REQ_INTERVAL_v d) = lift_json LOG_MIN_PDELAY_REQ_INTERVAL_v (proc_LOG_MIN_PDELAY_REQ_INTERVAL P) d"
  | "json_tlv P (TRANSPARENT_CLOCK_DEFAULT_DATA_SET_v d) = lift_json TRANSPARENT_CLOCK_DEFAULT_DATA_SET_v (proc_TRANSPARENT_CLOCK_DEFAULT_DATA_SET P) d"
  | "json_tlv P (PRIMARY_DOMAIN_v d) = lift_json PRIMARY_DOMAIN_v (proc_PRIMARY_DOMAIN P) d"
  | "json_tlv P (DELAY_MECHANISM_v d) = lift_json DELAY_MECHANISM_v (proc_DELAY_MECHANISM P) d"
  | "json_tlv P (EXTERNAL_PORT_CONFIGURATION_ENABLED_v d) = lift_json EXTERNAL_PORT_CONFIGURATION_ENABLED_v (proc_EXTERNAL_PORT_CONFIGURATION_ENABLED P) d"
  | "json_tlv P (MASTER_ONLY_v d) = lift_json MASTER_ONLY_v (proc_MASTER_ONLY P) d"
  | "json_tlv P (HOLDOVER_UPGRADE_ENABLE_v d) = lift_json HOLDOVER_UPGRADE_ENABLE_v (proc_HOLDOVER_UPGRADE_ENABLE P) d"
  | "json_tlv P (EXT_PORT_CONFIG_PORT_DATA_SET_v d) = lift_json EXT_PORT_CONFIG_PORT_DATA_SET_v (proc_EXT_PORT_CONFIG_PORT_DATA_SET P) d"
  | "json_tlv P (TIME_STATUS_NP_v d) = lift_json TIME_STATUS_NP_v (proc_TIME_STATUS_NP P) d"
  | "json_tlv P (GRANDMASTER_SETTINGS_NP_v d) = lift_json GRANDMASTER_SETTINGS_NP_v (proc_GRANDMASTER_SETTINGS_NP P) d"
  | "json_tlv P (PORT_DATA_SET_NP_v d) = lift_json PORT_DATA_SET_NP_v (proc_PORT_DATA_SET_NP P) d"
  | "json_tlv P (SUBSCRIBE_EVENTS_NP_v d) = lift_json SUBSCRIBE_EVENTS_NP_v (proc_SUBSCRIBE_EVENTS_NP P) d"
  | "json_tlv P (PORT_PROPERTIES_NP_v d) = lift_json PORT_PROPERTIES_NP_v (proc_PORT_PROPERTIES_NP P) d"
  | "json_tlv P (PORT_STATS_NP_v d) = lift_json PORT_STATS_NP_v (proc_PORT_STATS_NP P) d"
  | "json_tlv P (SYNCHRONIZATION_UNCERTAIN_NP_v d) = lift_json SYNCHRONIZATION_UNCERTAIN_NP_v (proc_SYNCHRONIZATION_UNCERTAIN_NP P) d"
  | "json_tlv P (PORT_SERVICE_STATS_NP_v d) = lift_json PORT_SERVICE_STATS_NP_v (proc_PORT_SERVICE_STATS_NP P) d"
  | "json_tlv P (UNICAST_MASTER_TABLE_NP_v d) = lift_json UNICAST_MASTER_TABLE_NP_v (proc_UNICAST_MASTER_TABLE_NP P) d"
  | "json_tlv P (PORT_HWCLOCK_NP_v d) = lift_json PORT_HWCLOCK_NP_v (proc_PORT_HWCLOCK_NP P) d"
  | "json_tlv P (POWER_PROFILE_SETTINGS_NP_v d) = lift_json POWER_PROFILE_SETTINGS_NP_v (proc_POWER_PROFILE_SETTINGS_NP P) d"
  | "json_tlv P (CMLDS_INFO_NP_v d) = lift_json CMLDS_INFO_NP_v (proc_CMLDS_INFO_NP P) d"
  | "json_tlv P (PORT_CORRECTIONS_NP_v d) = lift_json PORT_CORRECTIONS_NP_v (proc_PORT_CORRECTIONS_NP P) d"
  | "json_tlv P (EXTERNAL_GRANDMASTER_PROPERTIES_NP_v d) = lift_json EXTERNAL_GRANDMASTER_PROPERTIES_NP_v (proc_EXTERNAL_GRANDMASTER_PROPERTIES_NP P) d"
  | "json_tlv P (SMPTE_ORGANIZATION_EXTENSION_v d) = (\<lambda>st. (False, SMPTE_ORGANIZATION_EXTENSION_v d, st))"

subsection \<open>A new TLV\<close>

text \<open>
  \<^verbatim>\<open>new n##_t\<close> runs the constructors of the members that have one and leaves the other members as the
  memory was: \<open>construct\<close> makes the object of a TLV with arbitrary members. Texts, octet strings and
  vectors start empty, arrays have their size, and only the structure of SUBSCRIBE_EVENTS_NP sets its
  members itself. The length field of a text and the counters of PORT_STATS_NP are not set.
\<close>

definition construct_PTPText :: "PTPText_t \<Rightarrow> PTPText_t" where
  "construct_PTPText t = t\<lparr>textField := []\<rparr>"

definition construct_FaultRecord :: "FaultRecord_t \<Rightarrow> FaultRecord_t" where
  "construct_FaultRecord r = r\<lparr>faultName := construct_PTPText (faultName r), faultValue := construct_PTPText (faultValue r),
     faultDescription := construct_PTPText (faultDescription r)\<rparr>"

definition array_of :: "nat \<Rightarrow> uint64_t list \<Rightarrow> uint64_t list" where
  "array_of n xs = take n (xs @ replicate n 0)"

fun construct :: "BaseMngTlv \<Rightarrow> BaseMngTlv" where
  "construct (CLOCK_DESCRIPTION_v d) = CLOCK_DESCRIPTION_v (d
     \<lparr>CLOCK_DESCRIPTION_t.physicalLayerProtocol := construct_PTPText (CLOCK_DESCRIPTION_t.physicalLayerProtocol d),
      CLOCK_DESCRIPTION_t.physicalAddress := [],
      CLOCK_DESCRIPTION_t.protocolAddress := (CLOCK_DESCRIPTION_t.protocolAddress d)\<lparr>PortAddress_t.addressField := []\<rparr>,
      CLOCK_DESCRIPTION_t.productDescription := construct_PTPText (CLOCK_DESCRIPTION_t.productDescription d),
      CLOCK_DESCRIPTION_t.revisionData := construct_PTPText (CLOCK_DESCRIPTION_t.revisionData d),
      CLOCK_DESCRIPTION_t.userDescription := construct_PTPText (CLOCK_DESCRIPTION_t.userDescription d)\<rparr>)"
| "construct (USER_DESCRIPTION_v d) = USER_DESCRIPTION_v (d
     \<lparr>USER_DESCRIPTION_t.userDescription := construct_PTPText (USER_DESCRIPTION_t.userDescription d)\<rparr>)"
| "construct (FAULT_LOG_v d) = FAULT_LOG_v (d\<lparr>FAULT_LOG_t.faultRecords := []\<rparr>)"
| "construct (PATH_TRACE_LIST_v d) = PATH_TRACE_LIST_v (d\<lparr>PATH_TRACE_LIST_t.pathSequence := []\<rparr>)"
| "construct (GRANDMASTER_CLUSTER_TABLE_v d) =
     GRANDMASTER_CLUSTER_TABLE_v (d\<lparr>GRANDMASTER_CLUSTER_TABLE_t.PortAddress := []\<rparr>)"
| "construct (UNICAST_MASTER_TABLE_v d) = UNICAST_MASTER_TABLE_v (d\<lparr>UNICAST_MASTER_TABLE_t.PortAddress := []\<rparr>)"
| "construct (ACCEPTABLE_MASTER_TABLE_v d) = ACCEPTABLE_MASTER_TABLE_v (d\<lparr>ACCEPTABLE_MASTER_TABLE_t.list := []\<rparr>)"
| "construct (ALTERNATE_TIME_OFFSET_NAME_v d) = ALTERNATE_TIME_OFFSET_NAME_v (d
     \<lparr>ALTERNATE_TIME_OFFSET_NAME_t.displayName := construct_PTPText (ALTERNATE_TIME_OFFSET_NAME_t.displayName d)\<rparr>)"
| "construct (SUBSCRIBE_EVENTS_NP_v d) = SUBSCRIBE_EVENTS_NP_v
     \<lparr>SUBSCRIBE_EVENTS_NP_t.duration = 0, SUBSCRIBE_EVENTS_NP_t.bitmask = replicate EVENT_BITMASK_CNT 0\<rparr>"
| "construct (PORT_PROPERTIES_NP_v d) = PORT_PROPERTIES_NP_v (d
     \<lparr>PORT_PROPERTIES_NP_t.interface := construct_PTPText (PORT_PROPERTIES_NP_t.interface d)\<rparr>)"
| "construct (PORT_STATS_NP_v d) = PORT_STATS_NP_v (d
     \<lparr>PORT_STATS_NP_t.rxMsgType := array_of 16 (PORT_STATS_NP_t.rxMsgType d),
      PORT_STATS_NP_t.txMsgType := array_of 16 (PORT_STATS_NP_t.txMsgType d)\<rparr>)"
| "construct (UNICAST_MASTER_TABLE_NP_v d) =
     UNICAST_MASTER_TABLE_NP_v (d\<lparr>UNICAST_MASTER_TABLE_NP_t.unicastMasters := []\<rparr>)"
| "construct t = t"

text \<open>
  The object for an identifier, from what the memory held where it is put: none when the table of \<^verbatim>\<open>procData\<close>
  does not have the identifier. Memory that is given as another structure counts as zero.
\<close>

definition new_object :: "(mng_vals_e \<Rightarrow> BaseMngTlv) \<Rightarrow> mng_vals_e \<Rightarrow> BaseMngTlv option" where
  "new_object mem i = map_option (\<lambda>t. construct (if tlv_type (mem i) = i then mem i else t)) (new_tlv i)"

text \<open>
  \<open>procData\<close>: without a TLV a new one is made, else it must have the structure of the identifier. An
  identifier without dataField, or one that the table does not have, fails.
\<close>

definition procData :: "'s JsonProc \<Rightarrow> (mng_vals_e \<Rightarrow> BaseMngTlv) \<Rightarrow> mng_vals_e \<Rightarrow> BaseMngTlv option \<Rightarrow> 's \<Rightarrow>
    bool \<times> BaseMngTlv option \<times> 's" where
  "procData P mem i tlv st =
     (case new_object mem i of
        None \<Rightarrow> (False, tlv, st)
      | Some new \<Rightarrow>
          (case tlv of
             None \<Rightarrow> (case json_tlv P new st of (ok, t', st') \<Rightarrow> (ok, Some t', st'))
           | Some t \<Rightarrow>
               if tlv_type t \<noteq> i then (False, tlv, st)
               else (case json_tlv P t st of (ok, t', st') \<Rightarrow> (ok, Some t', st'))))"

text \<open>An object is of its identifier, and its members are as their constructors leave them.\<close>

definition constructed :: "BaseMngTlv \<Rightarrow> bool" where
  "constructed t \<longleftrightarrow> (\<exists>x. t = construct x)"

lemma construct_type [simp]: "tlv_type (construct t) = tlv_type t"
  by (cases t) simp_all

lemma new_object_made:
  assumes "new_object mem i = Some t"
  shows "tlv_type t = i" "constructed t"
  using assms new_tlv_type [of i] by (auto simp: new_object_def constructed_def split: if_splits)

lemma new_object_exists: "new_object mem i = None \<longleftrightarrow> new_tlv i = None"
  by (simp add: new_object_def)

end
