(* ===== verification/Json_Num.thy ===== *)
theory Json_Num
  imports Json_Value Dec_Text Bin_Round
begin

text \<open>
  Access to JSON values: the casts to values, objects and arrays, the members by their key, and the
  numbers of a value as 64 bits integers and as a fraction with a given number of digits. The lemmas
  say that a number in decimal is read back.
\<close>

subsection \<open>Casts and look-up\<close>

type_synonym json_members = "(string \<times> jsonValueBase) list"

definition getVal :: "jsonValueBase \<Rightarrow> jsonValueBase option" where
  "getVal v = (if isJsonValue (jsonGetType v) then Some v else None)"

definition getObj :: "jsonValueBase \<Rightarrow> json_members option" where
  "getObj v = (case v of jObject ms \<Rightarrow> Some ms | _ \<Rightarrow> None)"

definition getArr :: "jsonValueBase \<Rightarrow> jsonValueBase list option" where
  "getArr v = (case v of jArray es \<Rightarrow> Some es | _ \<Rightarrow> None)"

definition obj_getType :: "string \<Rightarrow> json_members \<Rightarrow> e_type" where
  "obj_getType key ms = (case member_get key ms of None \<Rightarrow> t_non | Some v \<Rightarrow> jsonGetType v)"

definition obj_getVal :: "string \<Rightarrow> json_members \<Rightarrow> jsonValueBase option" where
  "obj_getVal key ms = (case member_get key ms of None \<Rightarrow> None | Some v \<Rightarrow> getVal v)"

definition obj_getObj :: "string \<Rightarrow> json_members \<Rightarrow> json_members option" where
  "obj_getObj key ms = (case member_get key ms of None \<Rightarrow> None | Some v \<Rightarrow> getObj v)"

definition obj_getArr :: "string \<Rightarrow> json_members \<Rightarrow> jsonValueBase list option" where
  "obj_getArr key ms = (case member_get key ms of None \<Rightarrow> None | Some v \<Rightarrow> getArr v)"

text \<open>The text and the Boolean that a value holds; the text of a number is the number as it was written.\<close>

definition jval_getStr :: "jsonValueBase \<Rightarrow> string" where
  "jval_getStr v = (case v of jString s \<Rightarrow> s | jNumber s _ _ \<Rightarrow> s | _ \<Rightarrow> [])"

definition jval_getBool :: "jsonValueBase \<Rightarrow> bool" where
  "jval_getBool v = (case v of jBoolean b \<Rightarrow> b | _ \<Rightarrow> False)"

subsection \<open>Numbers\<close>

text \<open>\<^verbatim>\<open>strchr(" \n\r\t", *endptr)\<close> also finds the zero at the end.\<close>

definition end_ok :: "bool \<Rightarrow> string \<Rightarrow> bool" where
  "end_ok flexible r \<longleftrightarrow> r = [] \<or> flexible \<and> json_ws (hd r)"

definition num_result :: "bool \<Rightarrow> int \<times> string \<Rightarrow> 64 word option" where
  "num_result flexible x = (case x of (n, r) \<Rightarrow> if end_ok flexible r then Some (word_of_int n) else None)"

definition getInt64 :: "jsonValueBase \<Rightarrow> bool \<Rightarrow> int64_t option" where
  "getInt64 v flexible =
     (case v of
        jNumber s dot_loc e_loc \<Rightarrow>
          if 0 < dot_loc \<or> 0 < e_loc then None
          else if s \<noteq> [] \<and> hd s = CHR ''0'' then Some 0
          else num_result flexible (strtoimax 10 (cstr s))
      | jString s \<Rightarrow> if flexible then num_result flexible (strtoimax 0 (cstr s)) else None
      | jBoolean b \<Rightarrow> if flexible then Some (if b then 1 else 0) else None
      | jNull \<Rightarrow> if flexible then Some 0 else None
      | _ \<Rightarrow> None)"

definition getUint64 :: "jsonValueBase \<Rightarrow> bool \<Rightarrow> uint64_t option" where
  "getUint64 v flexible =
     (case v of
        jNumber s dot_loc e_loc \<Rightarrow>
          if 0 < dot_loc \<or> 0 < e_loc \<or> s \<noteq> [] \<and> hd s = CHR ''-'' then None
          else if s \<noteq> [] \<and> hd s = CHR ''0'' then Some 0
          else num_result flexible (strtoumax 10 (cstr s))
      | jString s \<Rightarrow> if flexible then num_result flexible (strtoumax 0 (cstr s)) else None
      | jBoolean b \<Rightarrow> if flexible then Some (if b then 1 else 0) else None
      | jNull \<Rightarrow> if flexible then Some 0 else None
      | _ \<Rightarrow> None)"

text \<open>
  \<^verbatim>\<open>getFrac\<close>: the part before and the part behind the dot, the latter in units of the last of
  \<open>fracSize\<close> digits.
\<close>

definition getFrac :: "jsonValueBase \<Rightarrow> nat \<Rightarrow> (int64_t \<times> uint64_t) option" where
  "getFrac v fracSize =
     (case v of
        jNumber s dot_loc e_loc \<Rightarrow>
          if e_loc \<noteq> 0 then None
          else if dot_loc = 0 then map_option (\<lambda>n. (n, 0)) (getInt64 v False)
          else
            (let aDot = length s - dot_loc - 1 in
             if fracSize < aDot then None
             else
               (case (strtoimax 10 (cstr (take dot_loc s)), strtoumax 10 (cstr (drop (dot_loc + 1) s))) of
                  ((n, r), (f, r')) \<Rightarrow>
                    if r \<noteq> [] \<or> r' \<noteq> [] then None
                    else Some (word_of_int n, word_of_int f * 10 ^ (fracSize - aDot))))
      | _ \<Rightarrow> None)"

subsection \<open>Numbers in decimal are read back\<close>

lemma dec_cstr: "cstr (dec n) = dec n" "cstr (CHR ''-'' # dec n) = CHR ''-'' # dec n"
proof -
  have "CHR 0x00 \<notin> set (dec n)"
    using digit_char_plain(2) [of "CHR 0x00" n] by (auto simp: NUL_def)
  then show "cstr (dec n) = dec n" "cstr (CHR ''-'' # dec n) = CHR ''-'' # dec n"
    by (auto intro!: cstr_no_nul)
qed

lemma num_loop_digits:
  assumes "\<forall>c \<in> set s. isdigit c" "\<not> nl_haveZero st" "\<not> nl_zeroProhib st" "\<not> nl_lastNotDigit st \<or> s \<noteq> []"
  shows "getNum_loop z st s = Some (nl_ret st @ s, nl_dot st, nl_e st, [])"
  using assms
proof (induction s arbitrary: st)
  case (Cons c s)
  have c: "isdigit c" "\<not> ends_value c" "c \<notin> {CHR ''e'', CHR ''E'', CHR ''.'', CHR ''+'', CHR ''-''}"
    using Cons.prems(1) by (auto simp: isdigit_def ends_value_def json_ws_def LF_def CR_def TAB_def)
  then obtain st' where st: "num_step z c st = Some st'" "\<not> nl_haveZero st'" "\<not> nl_zeroProhib st'"
    "\<not> nl_lastNotDigit st'" "nl_ret st' = nl_ret st @ [c]" "nl_dot st' = nl_dot st" "nl_e st' = nl_e st"
    using Cons.prems(2,3) by (auto simp: num_step_def num_put_def)
  show ?case
    using Cons.IH [of st'] Cons.prems(1) c st by simp
qed simp

lemma dec_isdigit: "c \<in> set (dec n) \<Longrightarrow> isdigit c"
  using dec_digits [of n] of_char_48 by (fastforce simp: isdigit_def)

lemma dec_cons:
  obtains c s where "dec n = c # s" "isdigit c" "\<forall>c \<in> set s. isdigit c" "c = CHR ''0'' \<longleftrightarrow> n = 0" "n = 0 \<longrightarrow> s = []"
proof (cases "n = 0")
  case True
  then show ?thesis
    using that [of "CHR ''0''" "[]"] by (simp add: dec_0 isdigit_def)
next
  case False
  then show ?thesis
    using dec_head [OF False] that dec_isdigit [of _ n] by (metis list.sel(1) list.set_intros)
qed

lemma dec_zero: "hd (dec n) = CHR ''0'' \<longleftrightarrow> n = 0"
  by (rule dec_cons [of n]) simp

lemma getNum_dec: "getNum (dec n) = Some (dec n, 0, 0, [])" "getNum (CHR ''-'' # dec n) = Some (CHR ''-'' # dec n, 0, 0, [])"
proof -
  obtain c s where d: "dec n = c # s" "isdigit c" "\<forall>c \<in> set s. isdigit c" "c = CHR ''0'' \<longleftrightarrow> n = 0" "n = 0 \<longrightarrow> s = []"
    using dec_cons [of n] .
  have m: "c \<noteq> CHR ''-''"
    using d(2) by (auto simp: isdigit_def)
  show "getNum (dec n) = Some (dec n, 0, 0, [])"
    using d m num_loop_digits [of s "\<lparr>nl_ret = [c], nl_dot = 0, nl_e = 0, nl_haveZero = False, nl_lastNotDigit = False,
      nl_zeroProhib = False, nl_loc = 1\<rparr>" 0] by (cases "n = 0") (simp_all add: getNum_def Let_def)
  show "getNum (CHR ''-'' # dec n) = Some (CHR ''-'' # dec n, 0, 0, [])"
  proof (cases "n = 0")
    case True
    then show ?thesis
      by (simp add: dec_0 getNum_def Let_def num_step_def num_put_def isdigit_def ends_value_def json_ws_def LF_def CR_def TAB_def)
  next
    case False
    then show ?thesis
      using d num_loop_digits [of "c # s" "\<lparr>nl_ret = [CHR ''-''], nl_dot = 0, nl_e = 0, nl_haveZero = False,
        nl_lastNotDigit = True, nl_zeroProhib = False, nl_loc = 1\<rparr>" 0] by (auto simp: getNum_def Let_def simp del: getNum_loop.simps)
  qed
qed

text \<open>What \<^verbatim>\<open>std::to_string\<close> writes for a signed number.\<close>

definition dec_int :: "int \<Rightarrow> string" where
  "dec_int i = (if i < 0 then CHR ''-'' # dec (nat (- i)) else dec (nat i))"

lemma getNum_dec_int: "getNum (dec_int i) = Some (dec_int i, 0, 0, [])"
  using getNum_dec by (simp add: dec_int_def)

lemma getUint64_dec:
  assumes "n < 2 ^ 64"
  shows "getUint64 (jNumber (dec n) 0 0) flexible = Some (of_nat n)"
proof -
  have "strto_parts 10 (dec n) = (False, int n, [])"
    by (rule strto_dec) simp
  then show ?thesis
    using assms dec_start [of n] dec_zero [of n]
    by (simp add: getUint64_def dec_cstr num_result_def end_ok_def strtoumax_def)
qed

lemma getInt64_dec:
  assumes "- (2 ^ 63) \<le> i" "i < 2 ^ 63"
  shows "getInt64 (jNumber (dec_int i) 0 0) flexible = Some (word_of_int i)"
proof (cases "i < 0")
  case True
  then show ?thesis
    using assms strto_minus_dec [of "nat (- i)"]
    by (auto simp: getInt64_def dec_int_def dec_cstr num_result_def end_ok_def strtoimax_def)
next
  case False
  have "strto_parts 10 (dec (nat i)) = (False, int (nat i), [])"
    by (rule strto_dec) simp
  then show ?thesis
    using False assms dec_start [of "nat i"] dec_zero [of "nat i"]
    by (simp add: getInt64_def dec_int_def dec_cstr num_result_def end_ok_def strtoimax_def)
qed

end
