(* ===== verification/Msg_Strings.thy ===== *)
theory Msg_Strings
  imports Mng_Ids Bin_Text
begin

text \<open>
  The names of the enumerators in \<^verbatim>\<open>src/msg.cpp\<close> (\<^verbatim>\<open>err2str_c\<close>, \<^verbatim>\<open>mng2str_c\<close> and the
  other switches) and the searches of an enumerator by its name: \<^verbatim>\<open>findMngID\<close>,
  \<^verbatim>\<open>findTimeSrc\<close>, \<^verbatim>\<open>findPortState\<close> and \<^verbatim>\<open>findDelayMech\<close>. A switch is the table of
  its cases. A search returns whether it succeeds and the value it leaves in the caller's
  variable.
\<close>

subsection \<open>Names\<close>

definition name_of :: "('a \<times> string) list \<Rightarrow> string \<Rightarrow> 'a \<Rightarrow> string" where
  "name_of tbl dflt v = (case map_of tbl v of Some s \<Rightarrow> s | None \<Rightarrow> dflt)"

primrec err2str :: "MNG_PARSE_ERROR_e \<Rightarrow> string" where
  "err2str MNG_PARSE_ERROR_OK = ''MNG_PARSE_ERROR_OK''"
| "err2str MNG_PARSE_ERROR_MSG = ''MNG_PARSE_ERROR_MSG''"
| "err2str MNG_PARSE_ERROR_SIG = ''MNG_PARSE_ERROR_SIG''"
| "err2str MNG_PARSE_ERROR_SMPTE = ''MNG_PARSE_ERROR_SMPTE''"
| "err2str MNG_PARSE_ERROR_INVALID_ID = ''MNG_PARSE_ERROR_INVALID_ID''"
| "err2str MNG_PARSE_ERROR_INVALID_TLV = ''MNG_PARSE_ERROR_INVALID_TLV''"
| "err2str MNG_PARSE_ERROR_MISMATCH_TLV = ''MNG_PARSE_ERROR_MISMATCH_TLV''"
| "err2str MNG_PARSE_ERROR_SIZE_MISS = ''MNG_PARSE_ERROR_SIZE_MISS''"
| "err2str MNG_PARSE_ERROR_TOO_SMALL = ''MNG_PARSE_ERROR_TOO_SMALL''"
| "err2str MNG_PARSE_ERROR_SIZE = ''MNG_PARSE_ERROR_SIZE''"
| "err2str MNG_PARSE_ERROR_VAL = ''MNG_PARSE_ERROR_VAL''"
| "err2str MNG_PARSE_ERROR_HEADER = ''MNG_PARSE_ERROR_HEADER''"
| "err2str MNG_PARSE_ERROR_ACTION = ''MNG_PARSE_ERROR_ACTION''"
| "err2str MNG_PARSE_ERROR_UNSUPPORT = ''MNG_PARSE_ERROR_UNSUPPORT''"
| "err2str MNG_PARSE_ERROR_MEM = ''MNG_PARSE_ERROR_MEM''"
| "err2str MNG_PARSE_ERROR_AUTH = ''MNG_PARSE_ERROR_AUTH''"
| "err2str MNG_PARSE_ERROR_AUTH_NONE = ''MNG_PARSE_ERROR_AUTH_NONE''"
| "err2str MNG_PARSE_ERROR_AUTH_WRONG = ''MNG_PARSE_ERROR_AUTH_WRONG''"
| "err2str MNG_PARSE_ERROR_AUTH_NOKEY = ''MNG_PARSE_ERROR_AUTH_NOKEY''"

definition type2str_names :: "(msgType_e \<times> string) list" where
  "type2str_names =
     [(0x0, ''Sync''), (0x1, ''Delay_Req''), (0x2, ''Pdelay_Req''), (0x3, ''Pdelay_Resp''),
      (0x8, ''Follow_Up''), (0x9, ''Delay_Resp''), (0xa, ''Pdelay_Resp_Follow_Up''),
      (0xb, ''Announce''), (0xc, ''Signaling''), (0xd, ''Management'')]"

definition type2str :: "msgType_e \<Rightarrow> string" where
  "type2str v = name_of type2str_names ''unknown message type'' v"

definition tlv2str_names :: "(tlvType_e \<times> string) list" where
  "tlv2str_names =
     [(0x1, ''MANAGEMENT''), (0x2, ''MANAGEMENT_ERROR_STATUS''),
      (0x3, ''ORGANIZATION_EXTENSION''), (0x4, ''REQUEST_UNICAST_TRANSMISSION''),
      (0x5, ''GRANT_UNICAST_TRANSMISSION''), (0x6, ''CANCEL_UNICAST_TRANSMISSION''),
      (0x7, ''ACKNOWLEDGE_CANCEL_UNICAST_TRANSMISSION''), (0x8, ''PATH_TRACE''),
      (0x9, ''ALTERNATE_TIME_OFFSET_INDICATOR''), (0x4000, ''ORGANIZATION_EXTENSION_PROPAGATE''),
      (0x4001, ''ENHANCED_ACCURACY_METRICS''),
      (0x8000, ''ORGANIZATION_EXTENSION_DO_NOT_PROPAGATE''), (0x8001, ''L1_SYNC''),
      (0x8002, ''PORT_COMMUNICATION_AVAILABILITY''), (0x8003, ''PROTOCOL_ADDRESS''),
      (0x8004, ''SLAVE_RX_SYNC_TIMING_DATA''), (0x8005, ''SLAVE_RX_SYNC_COMPUTED_DATA''),
      (0x8006, ''SLAVE_TX_EVENT_TIMESTAMPS''), (0x8007, ''CUMULATIVE_RATE_RATIO''),
      (0x8009, ''AUTHENTICATION''), (0x7f00, ''SLAVE_DELAY_TIMING_DATA_NP''), (0x8008, ''PAD'')]"

definition tlv2str :: "tlvType_e \<Rightarrow> string" where
  "tlv2str v = name_of tlv2str_names ''unknown TLV'' v"

definition act2str_names :: "(actionField_e \<times> string) list" where
  "act2str_names =
     [(0x0, ''GET''), (0x1, ''SET''), (0x2, ''RESPONSE''), (0x3, ''COMMAND''),
      (0x4, ''ACKNOWLEDGE'')]"

definition act2str :: "actionField_e \<Rightarrow> string" where
  "act2str v = name_of act2str_names ''unknown'' v"

definition errId2str_names :: "(managementErrorId_e \<times> string) list" where
  "errId2str_names =
     [(0x1, ''RESPONSE_TOO_BIG''), (0x2, ''NO_SUCH_ID''), (0x3, ''WRONG_LENGTH''),
      (0x4, ''WRONG_VALUE''), (0x5, ''NOT_SETABLE''), (0x6, ''NOT_SUPPORTED''),
      (0xfffe, ''GENERAL_ERROR'')]"

definition errId2str :: "managementErrorId_e \<Rightarrow> string" where
  "errId2str v = name_of errId2str_names ''unknown'' v"

definition clkType2str_names :: "(uint16_t \<times> string) list" where
  "clkType2str_names =
     [(0x8000, ''ordinaryClock''), (0x4000, ''boundaryClock''), (0x2000, ''p2pTransparentClock''),
      (0x1000, ''e2eTransparentClock''), (0x800, ''managementClock'')]"

definition clkType2str :: "uint16_t \<Rightarrow> string" where
  "clkType2str v = name_of clkType2str_names ''unknown'' v"

definition netProt2str_names :: "(networkProtocol_e \<times> string) list" where
  "netProt2str_names =
     [(0x1, ''UDP_IPv4''), (0x2, ''UDP_IPv6''), (0x3, ''IEEE_802_3''), (0x4, ''DeviceNet''),
      (0x5, ''ControlNet''), (0x6, ''PROFINET'')]"

definition netProt2str :: "networkProtocol_e \<Rightarrow> string" where
  "netProt2str v = name_of netProt2str_names ''unknown'' v"

definition clockAcc2str_names :: "(clockAccuracy_e \<times> string) list" where
  "clockAcc2str_names =
     map (\<lambda>(v, s). (v, drop 9 s))
     [(0x17, ''Accurate_within_1ps''), (0x18, ''Accurate_within_2_5ps''),
      (0x19, ''Accurate_within_10ps''), (0x1a, ''Accurate_within_25ps''),
      (0x1b, ''Accurate_within_100ps''), (0x1c, ''Accurate_within_250ps''),
      (0x1d, ''Accurate_within_1ns''), (0x1e, ''Accurate_within_2_5ns''),
      (0x1f, ''Accurate_within_10ns''), (0x20, ''Accurate_within_25ns''),
      (0x21, ''Accurate_within_100ns''), (0x22, ''Accurate_within_250ns''),
      (0x23, ''Accurate_within_1us''), (0x24, ''Accurate_within_2_5us''),
      (0x25, ''Accurate_within_10us''), (0x26, ''Accurate_within_25us''),
      (0x27, ''Accurate_within_100us''), (0x28, ''Accurate_within_250us''),
      (0x29, ''Accurate_within_1ms''), (0x2a, ''Accurate_within_2_5ms''),
      (0x2b, ''Accurate_within_10ms''), (0x2c, ''Accurate_within_25ms''),
      (0x2d, ''Accurate_within_100ms''), (0x2e, ''Accurate_within_250ms''),
      (0x2f, ''Accurate_within_1s''), (0x30, ''Accurate_within_10s''),
      (0x31, ''Accurate_more_10s''), (0xfe, ''Accurate_Unknown'')]"

definition clockAcc2str :: "clockAccuracy_e \<Rightarrow> string" where
  "clockAcc2str v =
     (case map_of clockAcc2str_names v of Some s \<Rightarrow> s
      | None \<Rightarrow> if v < 0x17 then ''Accurate_small_1ps'' else ''Accurate_unknown_val'')"

definition faultRec2str_names :: "(faultRecord_e \<times> string) list" where
  "faultRec2str_names =
     map (\<lambda>(v, s). (v, drop 2 s))
     [(0x0, ''F_Emergency''), (0x1, ''F_Alert''), (0x2, ''F_Critical''), (0x3, ''F_Error''),
      (0x4, ''F_Warning''), (0x5, ''F_Notice''), (0x6, ''F_Informational''), (0x7, ''F_Debug'')]"

definition faultRec2str :: "faultRecord_e \<Rightarrow> string" where
  "faultRec2str v = name_of faultRec2str_names ''unknown fault record'' v"

definition timeSrc2str_names :: "(timeSource_e \<times> string) list" where
  "timeSrc2str_names =
     [(0x10, ''ATOMIC_CLOCK''), (0x20, ''GNSS''), (0x30, ''TERRESTRIAL_RADIO''),
      (0x39, ''SERIAL_TIME_CODE''), (0x40, ''PTP''), (0x50, ''NTP''), (0x60, ''HAND_SET''),
      (0x90, ''OTHER''), (0xa0, ''INTERNAL_OSCILLATOR'')]"

definition timeSrc2str :: "timeSource_e \<Rightarrow> string" where
  "timeSrc2str v = name_of timeSrc2str_names ''unknown clock'' v"

definition portState2str_names :: "(portState_e \<times> string) list" where
  "portState2str_names =
     [(0x1, ''INITIALIZING''), (0x2, ''FAULTY''), (0x3, ''DISABLED''), (0x4, ''LISTENING''),
      (0x5, ''PRE_TIME_TRANSMITTER''), (0x6, ''TIME_TRANSMITTER''), (0x7, ''PASSIVE''),
      (0x8, ''UNCALIBRATED''), (0x9, ''TIME_RECEIVER'')]"

definition portState2str :: "portState_e \<Rightarrow> string" where
  "portState2str v = name_of portState2str_names ''unknown state'' v"

definition delayMech2str_names :: "(delayMechanism_e \<times> string) list" where
  "delayMech2str_names =
     [(0x0, ''AUTO''), (0x1, ''E2E''), (0x2, ''P2P''), (0xfe, ''NO_MECHANISM''),
      (0x3, ''COMMON_P2P''), (0x4, ''SPECIAL'')]"

definition delayMech2str :: "delayMechanism_e \<Rightarrow> string" where
  "delayMech2str v = name_of delayMech2str_names ''unknown'' v"

definition smpteLck2str_names :: "(SMPTEmasterLockingStatus_e \<times> string) list" where
  "smpteLck2str_names =
     map (\<lambda>(v, s). (v, drop 6 s))
     [(0x0, ''SMPTE_NOT_IN_USE''), (0x1, ''SMPTE_FREE_RUN''), (0x2, ''SMPTE_COLD_LOCKING''),
      (0x3, ''SMPTE_WARM_LOCKING''), (0x4, ''SMPTE_LOCKED'')]"

definition smpteLck2str :: "SMPTEmasterLockingStatus_e \<Rightarrow> string" where
  "smpteLck2str v = name_of smpteLck2str_names ''unknown'' v"

definition ts2str_names :: "(linuxptpTimeStamp_e \<times> string) list" where
  "ts2str_names =
     map (\<lambda>(v, s). (v, drop 3 s))
     [(0x0, ''TS_SOFTWARE''), (0x1, ''TS_HARDWARE''), (0x2, ''TS_LEGACY_HW''),
      (0x3, ''TS_ONESTEP''), (0x4, ''TS_P2P1STEP'')]"

definition ts2str :: "linuxptpTimeStamp_e \<Rightarrow> string" where
  "ts2str v = name_of ts2str_names ''unknown'' v"

definition pwr2str_names :: "(linuxptpPowerProfileVersion_e \<times> string) list" where
  "pwr2str_names =
     map (\<lambda>(v, s). (v, drop 21 s))
     [(0x0, ''IEEE_C37_238_VERSION_NONE''), (0x1, ''IEEE_C37_238_VERSION_2011''),
      (0x2, ''IEEE_C37_238_VERSION_2017'')]"

definition pwr2str :: "linuxptpPowerProfileVersion_e \<Rightarrow> string" where
  "pwr2str v = name_of pwr2str_names ''unknown state'' v"

definition us2str_names :: "(linuxptpUnicastState_e \<times> string) list" where
  "us2str_names =
     map (\<lambda>(v, s). (v, drop 3 s))
     [(0x0, ''UC_WAIT''), (0x1, ''UC_HAVE_ANN''), (0x2, ''UC_NEED_SYDY''), (0x3, ''UC_HAVE_SYDY'')]"

definition us2str :: "linuxptpUnicastState_e \<Rightarrow> string" where
  "us2str v = name_of us2str_names ''???'' v"

primrec mng2str :: "mng_vals_e \<Rightarrow> string" where
  "mng2str NULL_PTP_MANAGEMENT = ''NULL_PTP_MANAGEMENT''"
| "mng2str CLOCK_DESCRIPTION = ''CLOCK_DESCRIPTION''"
| "mng2str USER_DESCRIPTION = ''USER_DESCRIPTION''"
| "mng2str SAVE_IN_NON_VOLATILE_STORAGE = ''SAVE_IN_NON_VOLATILE_STORAGE''"
| "mng2str RESET_NON_VOLATILE_STORAGE = ''RESET_NON_VOLATILE_STORAGE''"
| "mng2str INITIALIZE = ''INITIALIZE''"
| "mng2str FAULT_LOG = ''FAULT_LOG''"
| "mng2str FAULT_LOG_RESET = ''FAULT_LOG_RESET''"
| "mng2str DEFAULT_DATA_SET = ''DEFAULT_DATA_SET''"
| "mng2str CURRENT_DATA_SET = ''CURRENT_DATA_SET''"
| "mng2str PARENT_DATA_SET = ''PARENT_DATA_SET''"
| "mng2str TIME_PROPERTIES_DATA_SET = ''TIME_PROPERTIES_DATA_SET''"
| "mng2str PORT_DATA_SET = ''PORT_DATA_SET''"
| "mng2str PRIORITY1 = ''PRIORITY1''"
| "mng2str PRIORITY2 = ''PRIORITY2''"
| "mng2str DOMAIN = ''DOMAIN''"
| "mng2str SLAVE_ONLY = ''SLAVE_ONLY''"
| "mng2str LOG_ANNOUNCE_INTERVAL = ''LOG_ANNOUNCE_INTERVAL''"
| "mng2str ANNOUNCE_RECEIPT_TIMEOUT = ''ANNOUNCE_RECEIPT_TIMEOUT''"
| "mng2str LOG_SYNC_INTERVAL = ''LOG_SYNC_INTERVAL''"
| "mng2str VERSION_NUMBER = ''VERSION_NUMBER''"
| "mng2str ENABLE_PORT = ''ENABLE_PORT''"
| "mng2str DISABLE_PORT = ''DISABLE_PORT''"
| "mng2str TIME = ''TIME''"
| "mng2str CLOCK_ACCURACY = ''CLOCK_ACCURACY''"
| "mng2str UTC_PROPERTIES = ''UTC_PROPERTIES''"
| "mng2str TRACEABILITY_PROPERTIES = ''TRACEABILITY_PROPERTIES''"
| "mng2str TIMESCALE_PROPERTIES = ''TIMESCALE_PROPERTIES''"
| "mng2str UNICAST_NEGOTIATION_ENABLE = ''UNICAST_NEGOTIATION_ENABLE''"
| "mng2str PATH_TRACE_LIST = ''PATH_TRACE_LIST''"
| "mng2str PATH_TRACE_ENABLE = ''PATH_TRACE_ENABLE''"
| "mng2str GRANDMASTER_CLUSTER_TABLE = ''GRANDMASTER_CLUSTER_TABLE''"
| "mng2str UNICAST_MASTER_TABLE = ''UNICAST_MASTER_TABLE''"
| "mng2str UNICAST_MASTER_MAX_TABLE_SIZE = ''UNICAST_MASTER_MAX_TABLE_SIZE''"
| "mng2str ACCEPTABLE_MASTER_TABLE = ''ACCEPTABLE_MASTER_TABLE''"
| "mng2str ACCEPTABLE_MASTER_TABLE_ENABLED = ''ACCEPTABLE_MASTER_TABLE_ENABLED''"
| "mng2str ACCEPTABLE_MASTER_MAX_TABLE_SIZE = ''ACCEPTABLE_MASTER_MAX_TABLE_SIZE''"
| "mng2str ALTERNATE_MASTER = ''ALTERNATE_MASTER''"
| "mng2str ALTERNATE_TIME_OFFSET_ENABLE = ''ALTERNATE_TIME_OFFSET_ENABLE''"
| "mng2str ALTERNATE_TIME_OFFSET_NAME = ''ALTERNATE_TIME_OFFSET_NAME''"
| "mng2str ALTERNATE_TIME_OFFSET_MAX_KEY = ''ALTERNATE_TIME_OFFSET_MAX_KEY''"
| "mng2str ALTERNATE_TIME_OFFSET_PROPERTIES = ''ALTERNATE_TIME_OFFSET_PROPERTIES''"
| "mng2str TRANSPARENT_CLOCK_PORT_DATA_SET = ''TRANSPARENT_CLOCK_PORT_DATA_SET''"
| "mng2str LOG_MIN_PDELAY_REQ_INTERVAL = ''LOG_MIN_PDELAY_REQ_INTERVAL''"
| "mng2str TRANSPARENT_CLOCK_DEFAULT_DATA_SET = ''TRANSPARENT_CLOCK_DEFAULT_DATA_SET''"
| "mng2str PRIMARY_DOMAIN = ''PRIMARY_DOMAIN''"
| "mng2str DELAY_MECHANISM = ''DELAY_MECHANISM''"
| "mng2str EXTERNAL_PORT_CONFIGURATION_ENABLED = ''EXTERNAL_PORT_CONFIGURATION_ENABLED''"
| "mng2str MASTER_ONLY = ''MASTER_ONLY''"
| "mng2str HOLDOVER_UPGRADE_ENABLE = ''HOLDOVER_UPGRADE_ENABLE''"
| "mng2str EXT_PORT_CONFIG_PORT_DATA_SET = ''EXT_PORT_CONFIG_PORT_DATA_SET''"
| "mng2str TIME_STATUS_NP = ''TIME_STATUS_NP''"
| "mng2str GRANDMASTER_SETTINGS_NP = ''GRANDMASTER_SETTINGS_NP''"
| "mng2str PORT_DATA_SET_NP = ''PORT_DATA_SET_NP''"
| "mng2str SUBSCRIBE_EVENTS_NP = ''SUBSCRIBE_EVENTS_NP''"
| "mng2str PORT_PROPERTIES_NP = ''PORT_PROPERTIES_NP''"
| "mng2str PORT_STATS_NP = ''PORT_STATS_NP''"
| "mng2str SYNCHRONIZATION_UNCERTAIN_NP = ''SYNCHRONIZATION_UNCERTAIN_NP''"
| "mng2str PORT_SERVICE_STATS_NP = ''PORT_SERVICE_STATS_NP''"
| "mng2str UNICAST_MASTER_TABLE_NP = ''UNICAST_MASTER_TABLE_NP''"
| "mng2str PORT_HWCLOCK_NP = ''PORT_HWCLOCK_NP''"
| "mng2str POWER_PROFILE_SETTINGS_NP = ''POWER_PROFILE_SETTINGS_NP''"
| "mng2str CMLDS_INFO_NP = ''CMLDS_INFO_NP''"
| "mng2str PORT_CORRECTIONS_NP = ''PORT_CORRECTIONS_NP''"
| "mng2str EXTERNAL_GRANDMASTER_PROPERTIES_NP = ''EXTERNAL_GRANDMASTER_PROPERTIES_NP''"
| "mng2str LAST_MNG_ID = ''unknown''"
| "mng2str SMPTE_MNG_ID = ''unknown''"

subsection \<open>Comparing strings\<close>

definition tolower :: "char \<Rightarrow> char" where
  "tolower c = (let n = of_char c :: int in if 65 \<le> n \<and> n \<le> 90 then char_of (n + 32) else c)"

text \<open>\<^verbatim>\<open>strcmp\<close> and \<^verbatim>\<open>strcasecmp\<close> give zero; \<^verbatim>\<open>strcasestr\<close> finds something.\<close>

definition str_eq :: "bool \<Rightarrow> string \<Rightarrow> string \<Rightarrow> bool" where
  "str_eq exact s t \<longleftrightarrow> (if exact then s = t else map tolower s = map tolower t)"

fun occurs :: "string \<Rightarrow> string \<Rightarrow> bool" where
  "occurs [] needle \<longleftrightarrow> needle = []"
| "occurs (c # cs) needle \<longleftrightarrow> take (length needle) (c # cs) = needle \<or> occurs cs needle"

definition strcasestr :: "string \<Rightarrow> string \<Rightarrow> bool" where
  "strcasestr hay needle = occurs (map tolower hay) (map tolower needle)"

subsection \<open>Searches\<close>

text \<open>
  The loop of \<^verbatim>\<open>findMngID\<close> and \<^verbatim>\<open>findTimeSrc\<close> over the values with their names: a whole
  name ends it, partial matches count, and after the second one only whole names do. The
  comparison is chosen before the loop.
\<close>

fun find_loop :: "(string \<Rightarrow> string \<Rightarrow> bool) \<Rightarrow> string \<Rightarrow> ('a \<times> string) list \<Rightarrow> bool \<Rightarrow> nat \<Rightarrow> 'a \<Rightarrow>
    bool \<times> 'a" where
  "find_loop cmp str [] exact n v = (n = 1, v)"
| "find_loop cmp str ((c, name) # tbl) exact n v =
     (if cmp str name then (True, c)
      else if \<not> exact \<and> strcasestr name str
      then find_loop cmp str tbl (exact \<or> n + 1 > 1) (n + 1) c
      else find_loop cmp str tbl exact n v)"

definition findMngID :: "string \<Rightarrow> bool \<Rightarrow> mng_vals_e \<Rightarrow> bool \<times> mng_vals_e" where
  "findMngID str exact v =
     (if str = [] then (False, v)
      else if \<not> exact \<and> strcasestr (cstr str) ''NULL'' then (True, NULL_PTP_MANAGEMENT)
      else find_loop (str_eq exact) (cstr str) (map (\<lambda>i. (i, mng2str i)) mng_ids) exact 0 v)"

definition timeSrc_range :: "timeSource_e list" where
  "timeSrc_range = map of_nat [0x10..<0xa1]"

definition findTimeSrc :: "string \<Rightarrow> bool \<Rightarrow> timeSource_e \<Rightarrow> bool \<times> timeSource_e" where
  "findTimeSrc str exact v =
     (if str = [] then (False, v)
      else if str_eq exact (cstr str) ''GPS'' then (True, 0x20)
      else find_loop (str_eq exact) (cstr str) (map (\<lambda>i. (i, timeSrc2str i)) timeSrc_range)
             exact 0 v)"

text \<open>The loop of \<^verbatim>\<open>findPortState\<close> and \<^verbatim>\<open>findDelayMech\<close>: whole names only.\<close>

fun find_name :: "(string \<Rightarrow> string \<Rightarrow> bool) \<Rightarrow> string \<Rightarrow> ('a \<times> string) list \<Rightarrow> 'a \<Rightarrow> bool \<times> 'a" where
  "find_name cmp str [] v = (False, v)"
| "find_name cmp str ((c, name) # tbl) v =
     (if cmp str name then (True, c) else find_name cmp str tbl v)"

definition portState_range :: "portState_e list" where
  "portState_range = map of_nat [1..<10]"

definition findPortState :: "string \<Rightarrow> bool \<Rightarrow> portState_e \<Rightarrow> bool \<times> portState_e" where
  "findPortState str caseSens v =
     (if str = [] then (False, v)
      else find_name (str_eq caseSens) (cstr str)
        (map (\<lambda>i. (i, portState2str i)) portState_range @
         [(5, ''PRE_MASTER''), (6, ''MASTER''), (9, ''SLAVE'')]) v)"

definition delayMech_range :: "delayMechanism_e list" where
  "delayMech_range = map of_nat [0..<5]"

definition findDelayMech :: "string \<Rightarrow> bool \<Rightarrow> delayMechanism_e \<Rightarrow> bool \<times> delayMechanism_e" where
  "findDelayMech str exact v =
     (if str = [] then (False, v)
      else find_name (str_eq exact) (cstr str)
        (map (\<lambda>i. (i, delayMech2str i)) delayMech_range @ [(0xfe, delayMech2str 0xfe)]) v)"

subsection \<open>A name finds its value\<close>

text \<open>Names that differ when the case of letters is ignored.\<close>

definition names_differ :: "('a \<times> string) list \<Rightarrow> bool" where
  "names_differ tbl \<longleftrightarrow> distinct (map (map tolower \<circ> snd) tbl)"

lemma str_eq_refl [simp]: "str_eq exact s s"
  by (simp add: str_eq_def)

lemma str_eq_lower: "str_eq exact s t \<Longrightarrow> map tolower s = map tolower t"
  by (simp add: str_eq_def split: if_splits)

lemma find_loop_name:
  "names_differ tbl \<Longrightarrow> (c, name) \<in> set tbl \<Longrightarrow> find_loop (str_eq x) name tbl exact n v = (True, c)"
proof (induction "str_eq x" name tbl exact n v rule: find_loop.induct)
  case (2 str d other tbl exact n v)
  show ?case
  proof (cases "str_eq x str other")
    case True
    then show ?thesis
      using 2(3,4) str_eq_lower [OF True] by (force simp: names_differ_def)
  next
    case False
    then have "(c, str) \<in> set tbl" "names_differ tbl"
      using 2(3,4) by (auto simp: names_differ_def)
    then show ?thesis
      using False 2(1,2) by simp
  qed
qed simp

lemma find_name_name:
  "names_differ tbl \<Longrightarrow> (c, name) \<in> set tbl \<Longrightarrow> find_name (str_eq x) name tbl v = (True, c)"
proof (induction "str_eq x" name tbl v rule: find_name.induct)
  case (2 str d other tbl v)
  show ?case
  proof (cases "str_eq x str other")
    case True
    then show ?thesis
      using 2(2,3) str_eq_lower [OF True] by (force simp: names_differ_def)
  next
    case False
    then have "(c, str) \<in> set tbl" "names_differ tbl"
      using 2(2,3) by (auto simp: names_differ_def)
    then show ?thesis
      using False 2(1) by simp
  qed
qed simp

lemma mng_names_differ: "names_differ (map (\<lambda>i. (i, mng2str i)) mng_ids)"
  by code_simp

lemma portState_names_differ:
  "names_differ (map (\<lambda>i. (i, portState2str i)) portState_range @
     [(5, ''PRE_MASTER''), (6, ''MASTER''), (9, ''SLAVE'')])"
  by code_simp

lemma delayMech_names_differ:
  "names_differ (map (\<lambda>i. (i, delayMech2str i)) delayMech_range @ [(0xfe, delayMech2str 0xfe)])"
  by code_simp

lemma mng2str_plain:
  "\<forall>i \<in> set mng_ids. mng2str i \<noteq> [] \<and> cstr (mng2str i) = mng2str i \<and>
     (strcasestr (mng2str i) ''NULL'' \<longrightarrow> i = NULL_PTP_MANAGEMENT)"
  by code_simp

lemma findMngID_name:
  assumes "Mng_Ids.isValidId i"
  shows "findMngID (mng2str i) exact v = (True, i)"
  using find_loop_name [OF mng_names_differ, of i "mng2str i" exact exact 0 v] mng2str_plain assms
  by (auto simp: findMngID_def isValidId_ids)

lemma portState_plain:
  "\<forall>i \<in> set portState_range. portState2str i \<noteq> [] \<and> cstr (portState2str i) = portState2str i"
  by code_simp

lemma findPortState_name:
  assumes "i \<in> set portState_range"
  shows "findPortState (portState2str i) c v = (True, i)"
  using find_name_name [OF portState_names_differ, of i "portState2str i" c v] portState_plain assms
  by (auto simp: findPortState_def)

end
