(* ===== verification/Json_To.thy ===== *)
theory Json_To
  imports Json_Proc Json_Num Msg_Strings
begin

unbundle bit_operations_syntax

text \<open>
  \<^verbatim>\<open>struct JsonProcToJson\<close> of \<^verbatim>\<open>src/json.cpp\<close>: the implementation of \<open>JsonProc\<close> that writes the text
  of a message or of a TLV, with its state, and the functions \<open>msg2json\<close> and \<open>tlv2json\<close>. The texts of
  fields are written as they are, without escapes. Indentation is not negative here: a negative one
  makes \<^verbatim>\<open>std::string\<close> throw, so that the functions give no text.
\<close>

subsection \<open>Texts of values\<close>

definition text_of :: "octets \<Rightarrow> string" where
  "text_of xs = map (\<lambda>x. char_of (unat x)) xs"

text \<open>\<^verbatim>\<open>%ju.%.9u\<close>.\<close>

definition dec_pad :: "nat \<Rightarrow> nat \<Rightarrow> string" where
  "dec_pad w n = replicate (w - length (dec n)) (CHR ''0'') @ dec n"

definition Timestamp_string :: "Timestamp_t \<Rightarrow> string" where
  "Timestamp_string t = dec (unat (secondsField t)) @ ''.'' @ dec_pad 9 (unat (nanosecondsField t))"

definition ClockIdentity_string :: "ClockIdentity_t \<Rightarrow> string" where
  "ClockIdentity_string c =
     bufToHex (take 3 (ci_v c)) @ ''.'' @ bufToHex (take 2 (drop 3 (ci_v c))) @ ''.'' @ bufToHex (take 3 (drop 5 (ci_v c)))"

text \<open>\<^verbatim>\<open>0x%x\<close> of an octet.\<close>

definition hex_text :: "uint8_t \<Rightarrow> string" where
  "hex_text x = ''0x'' @ (if unat x < 16 then [hexdig (unat x)] else hex2 x)"

text \<open>
  \<^verbatim>\<open>std::to_string(double)\<close>, that is \<^verbatim>\<open>%f\<close>: the value rounded to six digits, to the even one when
  two are as near.
\<close>

definition half_even :: "nat \<Rightarrow> nat \<Rightarrow> nat" where
  "half_even n d =
     (let q = n div d; r = n mod d in if 2 * r < d \<or> 2 * r = d \<and> even q then q else q + 1)"

definition double_text :: "Float64_t \<Rightarrow> string" where
  "double_text w =
     (let sgn = (if bit w 63 then ''-'' else ''''); e = unat (drop_bit 52 w AND 0x7ff); m = unat (take_bit 52 w)
      in if e = 0x7ff then sgn @ (if m = 0 then ''inf'' else ''nan'')
         else
           (let mant = (if e = 0 then m else m + 2 ^ 52); ex = (if e = 0 then 1 else e);
                n = (if 1075 \<le> ex then mant * 2 ^ (ex - 1075) * 10 ^ 6 else half_even (mant * 10 ^ 6) (2 ^ (1075 - ex)))
            in sgn @ dec (n div 10 ^ 6) @ ''.'' @ dec_pad 6 (n mod 10 ^ 6)))"

subsection \<open>The writer\<close>

record ToJson =
  m_result :: string
  m_first_vals :: "bool list"
  m_base_indent :: nat
  m_first :: bool

definition new_ToJson :: "nat \<Rightarrow> ToJson" where
  "new_ToJson i = \<lparr>m_result = [], m_first_vals = [], m_base_indent = i, m_first = False\<rparr>"

definition emit :: "string \<Rightarrow> ToJson \<Rightarrow> ToJson" where
  "emit s st = st\<lparr>m_result := m_result st @ s\<rparr>"

definition close :: "ToJson \<Rightarrow> ToJson" where
  "close st = (emit ((if m_first st then [] else '','') @ [LF]) st)\<lparr>m_first := False\<rparr>"

definition indent :: "ToJson \<Rightarrow> ToJson" where
  "indent st = emit (replicate (2 * length (m_first_vals st) + m_base_indent st) (CHR '' '')) st"

definition startName :: "string \<Rightarrow> string \<Rightarrow> ToJson \<Rightarrow> ToJson" where
  "startName name en st = emit ([DQ] @ name @ [DQ] @ '' :'' @ en) (indent (close st))"

definition open_part :: "string \<Rightarrow> ToJson \<Rightarrow> ToJson" where
  "open_part c st = (let st' = emit c (indent st) in st'\<lparr>m_first_vals := m_first st' # m_first_vals st', m_first := True\<rparr>)"

definition close_part :: "string \<Rightarrow> ToJson \<Rightarrow> ToJson" where
  "close_part c st =
     (let st' = emit [LF] st
      in emit c (indent (st'\<lparr>m_first := hd (m_first_vals st'), m_first_vals := tl (m_first_vals st')\<rparr>)))"

definition startObject :: "ToJson \<Rightarrow> ToJson" where "startObject = open_part ''{''"
definition closeObject :: "ToJson \<Rightarrow> ToJson" where "closeObject = close_part ''}''"
definition startArray :: "ToJson \<Rightarrow> ToJson" where "startArray = open_part ''[''"
definition closeArray :: "ToJson \<Rightarrow> ToJson" where "closeArray = close_part '']''"

definition procObject :: "string \<Rightarrow> ToJson \<Rightarrow> ToJson" where
  "procObject name st = startObject (startName name [LF] st)"

definition procArray :: "string \<Rightarrow> ToJson \<Rightarrow> ToJson" where
  "procArray name st = startArray (startName name [LF] st)"

definition procString :: "string \<Rightarrow> string \<Rightarrow> ToJson \<Rightarrow> ToJson" where
  "procString name v st = emit (v @ [DQ]) (startName name ('' '' @ [DQ]) st)"

definition procText :: "string \<Rightarrow> string \<Rightarrow> ToJson \<Rightarrow> ToJson" where
  "procText name v st = emit v (startName name '' '' st)"

definition procBool :: "string \<Rightarrow> bool \<Rightarrow> ToJson \<Rightarrow> ToJson" where
  "procBool name b st = procText name (if b then ''true'' else ''false'') st"

definition procUint :: "string \<Rightarrow> 'a :: len word \<Rightarrow> ToJson \<Rightarrow> ToJson" where
  "procUint name v st = procText name (dec (unat v)) st"

definition procInt :: "string \<Rightarrow> 'a :: len word \<Rightarrow> ToJson \<Rightarrow> ToJson" where
  "procInt name v st = procText name (dec_int (sint v)) st"

definition procVector :: "('a \<Rightarrow> ToJson \<Rightarrow> ToJson) \<Rightarrow> string \<Rightarrow> 'a list \<Rightarrow> ToJson \<Rightarrow> ToJson" where
  "procVector f name xs st = closeArray (fold (\<lambda>x st. f x (close st)) xs (procArray name st))"

subsection \<open>Structures\<close>

definition to_clockAccuracy :: "string \<Rightarrow> clockAccuracy_e \<Rightarrow> ToJson \<Rightarrow> ToJson" where
  "to_clockAccuracy name v = procString name (if v < 0x17 then hex_text v else clockAcc2str v)"

definition to_mng_vals :: "string \<Rightarrow> mng_vals_e \<Rightarrow> ToJson \<Rightarrow> ToJson" where
  "to_mng_vals name v = procString name (if v \<noteq> SMPTE_MNG_ID then mng2str v else ''SMPTE_MNG_ID'')"

definition to_TimeInterval :: "string \<Rightarrow> TimeInterval_t \<Rightarrow> ToJson \<Rightarrow> ToJson" where
  "to_TimeInterval name v = procInt name (scaledNanoseconds v)"

definition to_Timestamp :: "string \<Rightarrow> Timestamp_t \<Rightarrow> ToJson \<Rightarrow> ToJson" where
  "to_Timestamp name v = procText name (Timestamp_string v)"

definition to_ClockIdentity :: "ClockIdentity_t \<Rightarrow> ToJson \<Rightarrow> ToJson" where
  "to_ClockIdentity v st = emit ([DQ] @ ClockIdentity_string v @ [DQ]) (indent st)"

definition to_PortIdentity :: "string \<Rightarrow> PortIdentity_t \<Rightarrow> ToJson \<Rightarrow> ToJson" where
  "to_PortIdentity name v st =
     closeObject (procUint ''portNumber'' (PortIdentity_t.portNumber v)
       (procString ''clockIdentity'' (ClockIdentity_string (PortIdentity_t.clockIdentity v)) (procObject name st)))"

definition to_Binary :: "string \<Rightarrow> octets \<Rightarrow> ToJson \<Rightarrow> ToJson" where
  "to_Binary name v = procString name (bufToId '':'' v)"

definition to_PortAddress :: "PortAddress_t \<Rightarrow> ToJson \<Rightarrow> ToJson" where
  "to_PortAddress v st =
     closeObject (to_Binary ''addressField'' (PortAddress_t.addressField v)
       (procString ''networkProtocol'' (netProt2str (PortAddress_t.networkProtocol v)) (startObject st)))"

definition to_ClockQuality :: "string \<Rightarrow> ClockQuality_t \<Rightarrow> ToJson \<Rightarrow> ToJson" where
  "to_ClockQuality name v st =
     closeObject (procUint ''offsetScaledLogVariance'' (ClockQuality_t.offsetScaledLogVariance v)
       (to_clockAccuracy ''clockAccuracy'' (ClockQuality_t.clockAccuracy v)
          (procUint ''clockClass'' (ClockQuality_t.clockClass v) (procObject name st))))"

definition to_PTPText :: "string \<Rightarrow> PTPText_t \<Rightarrow> ToJson \<Rightarrow> ToJson" where
  "to_PTPText name v = procString name (text_of (textField v))"

definition to_FaultRecord :: "FaultRecord_t \<Rightarrow> ToJson \<Rightarrow> ToJson" where
  "to_FaultRecord v st =
     closeObject (to_PTPText ''faultDescription'' (faultDescription v)
       (to_PTPText ''faultValue'' (faultValue v)
          (to_PTPText ''faultName'' (faultName v)
             (procString ''severityCode'' (faultRec2str (severityCode v))
                (to_Timestamp ''faultTime'' (faultTime v)
                   (procUint ''faultRecordLength'' (faultRecordLength v) (startObject st)))))))"

definition to_AcceptableMaster :: "AcceptableMaster_t \<Rightarrow> ToJson \<Rightarrow> ToJson" where
  "to_AcceptableMaster v st =
     closeObject (procUint ''alternatePriority1'' (AcceptableMaster_t.alternatePriority1 v)
       (to_PortIdentity ''acceptablePortIdentity'' (AcceptableMaster_t.acceptablePortIdentity v) (startObject st)))"

definition to_LinuxptpUnicastMaster :: "LinuxptpUnicastMaster_t \<Rightarrow> ToJson \<Rightarrow> ToJson" where
  "to_LinuxptpUnicastMaster v st =
     closeObject (to_PortAddress (LinuxptpUnicastMaster_t.portAddress v) (startName ''portAddress'' [LF]
       (procUint ''priority2'' (LinuxptpUnicastMaster_t.priority2 v)
          (procUint ''priority1'' (LinuxptpUnicastMaster_t.priority1 v)
             (procString ''portState'' (us2str (LinuxptpUnicastMaster_t.portState v))
                (procBool ''selected'' (LinuxptpUnicastMaster_t.selected v \<noteq> 0)
                   (to_ClockQuality ''clockQuality'' (LinuxptpUnicastMaster_t.clockQuality v)
                      (to_PortIdentity ''portIdentity'' (LinuxptpUnicastMaster_t.portIdentity v) (startObject st)))))))))"

definition named :: "('v \<Rightarrow> ToJson \<Rightarrow> ToJson) \<Rightarrow> string \<Rightarrow> 'v \<Rightarrow> ToJson \<Rightarrow> ToJson" where
  "named f name v st = f v (startName name [LF] st)"

text \<open>A function that writes always succeeds and leaves the value as it is.\<close>

definition writes :: "(string \<Rightarrow> 'v \<Rightarrow> ToJson \<Rightarrow> ToJson) \<Rightarrow> (ToJson, 'v) jval" where
  "writes f name v st = (True, v, f name v st)"

definition JsonProcToJson :: "ToJson JsonProc" where
  "JsonProcToJson =
     \<lparr>procValue_uint8_t = writes procUint, procValue_uint16_t = writes procUint,
      procValue_uint32_t = writes procUint, procValue_uint64_t = writes procUint,
      procValue_int8_t = writes procInt, procValue_int16_t = writes procInt,
      procValue_int32_t = writes procInt, procValue_int64_t = writes procInt,
      procValue_networkProtocol_e = writes (\<lambda>n v. procString n (netProt2str v)),
      procValue_clockAccuracy_e = writes to_clockAccuracy,
      procValue_faultRecord_e = writes (\<lambda>n v. procString n (faultRec2str v)),
      procValue_timeSource_e = writes (\<lambda>n v. procString n (timeSrc2str v)),
      procValue_portState_e = writes (\<lambda>n v. procString n (portState2str v)),
      procValue_delayMechanism_e = writes (\<lambda>n v. procString n (delayMech2str v)),
      procValue_linuxptpTimeStamp_e = writes (\<lambda>n v. procString n (ts2str v)),
      procValue_linuxptpPowerProfileVersion_e = writes (\<lambda>n v. procString n (pwr2str v)),
      procValue_linuxptpUnicastState_e = writes (\<lambda>n v. procString n (us2str v)),
      procValue_TimeInterval_t = writes to_TimeInterval, procValue_Timestamp_t = writes to_Timestamp,
      procValue_ClockIdentity_t = writes (\<lambda>n v. procString n (ClockIdentity_string v)),
      procValue_PortIdentity_t = writes to_PortIdentity,
      procValue_PortAddress_t = writes (named to_PortAddress),
      procValue_ClockQuality_t = writes to_ClockQuality, procValue_PTPText_t = writes to_PTPText,
      procValue_FaultRecord_t = writes (named to_FaultRecord),
      procValue_AcceptableMaster_t = writes (named to_AcceptableMaster),
      procValue_LinuxptpUnicastMaster_t = writes (named to_LinuxptpUnicastMaster),
      procBinary = writes (\<lambda>n v. to_Binary n (fst v)),
      procOctets = (\<lambda>len. writes (\<lambda>n v. to_Binary n (take len v))),
      procFlag = (\<lambda>msk. writes (\<lambda>n v. procBool n (v AND msk > 0))),
      procZeroFlag = (\<lambda>v st. (v, st)),
      procArray_ClockIdentity_t = writes (procVector to_ClockIdentity),
      procArray_PortAddress_t = writes (procVector to_PortAddress),
      procArray_FaultRecord_t = writes (procVector to_FaultRecord),
      procArray_AcceptableMaster_t = writes (procVector to_AcceptableMaster),
      procArray_LinuxptpUnicastMaster_t = writes (procVector to_LinuxptpUnicastMaster)\<rparr>"

text \<open>
  \<open>data2json\<close> with its header writes the member \<open>dataField\<close>, without it only the object; the result of
  \<open>procData\<close> is not used. There is a TLV, so that no new one is made.
\<close>

definition zero_memory :: "mng_vals_e \<Rightarrow> BaseMngTlv" where
  "zero_memory i = (case new_tlv i of None \<Rightarrow> INITIALIZE_v new_INITIALIZE | Some t \<Rightarrow> t)"

definition data2json :: "mng_vals_e \<Rightarrow> BaseMngTlv option \<Rightarrow> bool \<Rightarrow> ToJson \<Rightarrow> ToJson" where
  "data2json i tlv header st =
     (case tlv of
        None \<Rightarrow> st
      | Some t \<Rightarrow>
          closeObject (snd (snd (procData JsonProcToJson zero_memory i (Some t)
            (if header then procObject ''dataField'' st else startObject st)))))"

definition tlv2json :: "mng_vals_e \<Rightarrow> BaseMngTlv option \<Rightarrow> int \<Rightarrow> string option" where
  "tlv2json i tlv ind =
     (if tlv = None \<or> isEmpty i then Some ''{}''
      else if ind < 0 then None
      else Some (m_result (data2json i tlv False (new_ToJson (nat ind)))))"

end
