(* ===== verification/Json_From.thy ===== *)
theory Json_From
  imports Json_To
begin

unbundle bit_operations_syntax

text \<open>
  \<^verbatim>\<open>struct JsonProcFrom\<close> of \<^verbatim>\<open>src/jsonDef.cpp\<close>: the implementation of \<open>JsonProc\<close> that reads the
  members of a JSON object into a TLV, and \<^verbatim>\<open>class Json2msg\<close>, which takes the JSON text of a request and
  sets the action of a message. The state is the object \<^verbatim>\<open>m_obj\<close>, the list of its members.

  What is not fixed by the code is the record \<open>json_env\<close>: the seconds and nanoseconds of a number that is
  only read as floating point (\<^verbatim>\<open>stold\<close>, \<^verbatim>\<open>trunc\<close> and the arithmetic of \<^verbatim>\<open>long double\<close>), where \<^term>\<open>None\<close> is a
  number that \<^verbatim>\<open>stold\<close> does not read to its end or for which it throws \<^verbatim>\<open>out_of_range\<close>; what the memory holds
  in which a TLV is made; and what the local variable holds into which the record of a fault is read. The
  exception of \<^verbatim>\<open>stold\<close> leaves \<^verbatim>\<open>fromJson\<close>; here it is a refusal of the text. Allocation of octet strings
  succeeds.
\<close>

record json_env =
  je_float :: "string \<Rightarrow> Timestamp_t option"
  je_memory :: "mng_vals_e \<Rightarrow> BaseMngTlv"
  je_FaultRecord :: FaultRecord_t

subsection \<open>Values\<close>

type_synonym 'v reader = "(json_members, 'v) jval"

definition octets_of :: "string \<Rightarrow> octets" where
  "octets_of s = map (\<lambda>c. of_nat (of_char c)) s"

text \<open>\<^verbatim>\<open>GET_STR\<close>: the string of a key, and the function on it.\<close>

definition GET_STR :: "(string \<Rightarrow> 'v option) \<Rightarrow> 'v reader" where
  "GET_STR f key v ms =
     (if key = [] then (False, v, ms)
      else
        (case obj_getVal key ms of
           Some (jString s) \<Rightarrow> (case f s of None \<Rightarrow> (False, v, ms) | Some x \<Rightarrow> (True, x, ms))
         | _ \<Rightarrow> (False, v, ms)))"

text \<open>\<^verbatim>\<open>GET_NUM\<close> and \<^verbatim>\<open>GET_NUM_CNV\<close>: the number of a key, cut to the type of the value.\<close>

definition GET_NUM :: "(jsonValueBase \<Rightarrow> 'v option) \<Rightarrow> 'v reader" where
  "GET_NUM f key v ms =
     (if key = [] then (False, v, ms)
      else
        (case obj_getVal key ms of
           None \<Rightarrow> (False, v, ms)
         | Some j \<Rightarrow> (case f j of None \<Rightarrow> (False, v, ms) | Some x \<Rightarrow> (True, x, ms))))"

definition from_uint :: "('a :: len word) reader" where
  "from_uint = GET_NUM (\<lambda>j. map_option ucast (getUint64 j True))"

definition from_int :: "('a :: len word) reader" where
  "from_int = GET_NUM (\<lambda>j. map_option ucast (getInt64 j False))"

text \<open>A loop over the values of an enumerator, with their names.\<close>

definition find_enum :: "('a \<Rightarrow> string) \<Rightarrow> 'a list \<Rightarrow> string \<Rightarrow> 'a option" where
  "find_enum name vs s = find (\<lambda>v. s = name v) vs"

definition found :: "bool \<times> 'a \<Rightarrow> 'a option" where
  "found x = (if fst x then Some (snd x) else None)"

definition netProt_range :: "networkProtocol_e list" where "netProt_range = map of_nat [1..<7]"
definition clockAcc_range :: "clockAccuracy_e list" where "clockAcc_range = map of_nat [0x17..<0x32]"
definition faultRec_range :: "faultRecord_e list" where "faultRec_range = map of_nat [0..<8]"
definition ts_range :: "linuxptpTimeStamp_e list" where "ts_range = map of_nat [0..<5]"
definition pwr_range :: "linuxptpPowerProfileVersion_e list" where "pwr_range = map of_nat [0..<3]"
definition us_range :: "linuxptpUnicastState_e list" where "us_range = map of_nat [0..<4]"

definition clockAccuracy_num :: "jsonValueBase \<Rightarrow> clockAccuracy_e option" where
  "clockAccuracy_num j =
     (case getUint64 j True of
        None \<Rightarrow> None
      | Some u \<Rightarrow> if u = 0xfe \<or> u \<le> 0x31 then Some (ucast u) else None)"

definition read_clockAccuracy :: "jsonValueBase \<Rightarrow> clockAccuracy_e option" where
  "read_clockAccuracy j =
     (case j of
        jString s \<Rightarrow>
          if s = [] then None
          else if s = ''Unknown'' then Some 0xfe
          else (case find_enum clockAcc2str clockAcc_range s of Some x \<Rightarrow> Some x | None \<Rightarrow> clockAccuracy_num j)
      | jNumber _ _ _ \<Rightarrow> clockAccuracy_num j
      | _ \<Rightarrow> None)"

definition from_clockAccuracy :: "clockAccuracy_e reader" where
  "from_clockAccuracy key v ms =
     (case obj_getVal key ms of
        None \<Rightarrow> (False, v, ms)
      | Some j \<Rightarrow> (case read_clockAccuracy j of None \<Rightarrow> (False, v, ms) | Some x \<Rightarrow> (True, x, ms)))"

text \<open>A number with a fraction must have seconds; only other numbers are read as floating point.\<close>

definition from_Timestamp :: "json_env \<Rightarrow> Timestamp_t reader" where
  "from_Timestamp je = GET_NUM (\<lambda>j.
     case getFrac j 9 of
       Some (n, f) \<Rightarrow> if 0 < sint n then Some \<lparr>secondsField = n, nanosecondsField = ucast f\<rparr> else None
     | None \<Rightarrow> (case j of jNumber s _ _ \<Rightarrow> je_float je s | _ \<Rightarrow> None))"

definition from_TimeInterval :: "TimeInterval_t reader" where
  "from_TimeInterval = GET_NUM (\<lambda>j. map_option (\<lambda>n. \<lparr>scaledNanoseconds = n\<rparr>) (getInt64 j False))"

text \<open>Octet strings from a text.\<close>

definition hex_octets :: "string \<Rightarrow> octets option" where
  "hex_octets s = map_option b_octets (found (fromHex (\<lambda>_. True) s (new_Binary (\<lambda>_. True))))"

definition id_octets :: "string \<Rightarrow> octets option" where
  "id_octets s = map_option b_octets (found (fromId (\<lambda>_. True) s (new_Binary (\<lambda>_. True))))"

definition sized :: "nat \<Rightarrow> octets option \<Rightarrow> octets option" where
  "sized n x = (case x of None \<Rightarrow> None | Some xs \<Rightarrow> if length xs = n then Some xs else None)"

definition read_ClockIdentity :: "string \<Rightarrow> ClockIdentity_t option" where
  "read_ClockIdentity s = map_option (\<lambda>xs. \<lparr>ci_v = xs\<rparr>) (sized ClockIdentity_size (hex_octets s))"

text \<open>A text without octets is refused, but the octets are already gone.\<close>

definition from_Binary :: "(octets \<times> uint16_t) reader" where
  "from_Binary key v ms =
     (if key = [] then (False, v, ms)
      else
        (case obj_getVal key ms of
           Some (jString s) \<Rightarrow>
             (case id_octets s of
                None \<Rightarrow> (False, v, ms)
              | Some xs \<Rightarrow> if xs = [] then (False, ([], snd v), ms) else (True, (xs, of_nat (length xs)), ms))
         | _ \<Rightarrow> (False, v, ms)))"

definition from_octets :: "nat \<Rightarrow> octets reader" where
  "from_octets n = GET_STR (\<lambda>s. sized n (id_octets s))"

definition from_PTPText :: "PTPText_t reader" where
  "from_PTPText key v ms =
     (case GET_STR (\<lambda>s. Some (octets_of s)) key (textField v) ms of (ok, t, ms') \<Rightarrow> (ok, v\<lparr>textField := t\<rparr>, ms'))"

definition from_flag :: "uint8_t \<Rightarrow> uint8_t reader" where
  "from_flag msk key v ms =
     (if key = [] then (False, v, ms)
      else
        (case obj_getVal key ms of
           Some (jBoolean b) \<Rightarrow> (True, if b then v OR msk else v, ms)
         | _ \<Rightarrow> (False, v, ms)))"

subsection \<open>Structures\<close>

text \<open>\<^verbatim>\<open>GET_OBJ\<close>: the fields are read from the object of the key; the object at hand comes back after it.\<close>

definition GET_OBJ :: "(json_members, 'd) jstep \<Rightarrow> 'd reader" where
  "GET_OBJ f key v ms =
     (case obj_getObj key ms of
        None \<Rightarrow> (False, v, ms)
      | Some obj \<Rightarrow> (case f v obj of (ok, v', _) \<Rightarrow> (ok, v', ms)))"

definition fields_PortIdentity :: "(json_members, PortIdentity_t) jstep" where
  "fields_PortIdentity = jand
     [PROC_VAL (GET_STR read_ClockIdentity) ''clockIdentity'' PortIdentity_t.clockIdentity PortIdentity_t.clockIdentity_update,
      PROC_VAL from_uint ''portNumber'' PortIdentity_t.portNumber PortIdentity_t.portNumber_update]"

definition from_PortIdentity :: "PortIdentity_t reader" where
  "from_PortIdentity = GET_OBJ fields_PortIdentity"

definition from_netProt :: "networkProtocol_e reader" where
  "from_netProt = GET_STR (find_enum netProt2str netProt_range)"

definition from_PortAddress :: "(json_members, PortAddress_t) jstep" where
  "from_PortAddress = jand
     [PROC_VAL from_netProt ''networkProtocol'' PortAddress_t.networkProtocol PortAddress_t.networkProtocol_update,
      (\<lambda>d ms. case from_Binary ''addressField'' (PortAddress_t.addressField d, PortAddress_t.addressLength d) ms of
         (ok, (v, l), ms') \<Rightarrow> (ok, d\<lparr>PortAddress_t.addressField := v, PortAddress_t.addressLength := l\<rparr>, ms'))]"

definition fields_ClockQuality :: "(json_members, ClockQuality_t) jstep" where
  "fields_ClockQuality = jand
     [PROC_VAL from_uint ''clockClass'' ClockQuality_t.clockClass ClockQuality_t.clockClass_update,
      PROC_VAL from_clockAccuracy ''clockAccuracy'' ClockQuality_t.clockAccuracy ClockQuality_t.clockAccuracy_update,
      PROC_VAL from_uint ''offsetScaledLogVariance'' ClockQuality_t.offsetScaledLogVariance ClockQuality_t.offsetScaledLogVariance_update]"

definition from_ClockQuality :: "ClockQuality_t reader" where
  "from_ClockQuality = GET_OBJ fields_ClockQuality"

definition from_FaultRecord :: "json_env \<Rightarrow> (json_members, FaultRecord_t) jstep" where
  "from_FaultRecord je = jand
     [PROC_VAL from_uint ''faultRecordLength'' faultRecordLength faultRecordLength_update,
      PROC_VAL (from_Timestamp je) ''faultTime'' faultTime faultTime_update,
      PROC_VAL (GET_STR (find_enum faultRec2str faultRec_range)) ''severityCode'' severityCode severityCode_update,
      PROC_VAL from_PTPText ''faultName'' faultName faultName_update,
      PROC_VAL from_PTPText ''faultValue'' faultValue faultValue_update,
      PROC_VAL from_PTPText ''faultDescription'' faultDescription faultDescription_update]"

definition from_AcceptableMaster :: "(json_members, AcceptableMaster_t) jstep" where
  "from_AcceptableMaster = jand
     [PROC_VAL from_uint ''alternatePriority1'' AcceptableMaster_t.alternatePriority1 AcceptableMaster_t.alternatePriority1_update,
      PROC_VAL from_PortIdentity ''acceptablePortIdentity'' AcceptableMaster_t.acceptablePortIdentity AcceptableMaster_t.acceptablePortIdentity_update]"

definition from_LinuxptpUnicastMaster :: "(json_members, LinuxptpUnicastMaster_t) jstep" where
  "from_LinuxptpUnicastMaster = jand
     [PROC_VAL from_PortIdentity ''portIdentity'' LinuxptpUnicastMaster_t.portIdentity LinuxptpUnicastMaster_t.portIdentity_update,
      PROC_VAL from_ClockQuality ''clockQuality'' LinuxptpUnicastMaster_t.clockQuality LinuxptpUnicastMaster_t.clockQuality_update,
      PROC_VAL from_uint ''selected'' LinuxptpUnicastMaster_t.selected LinuxptpUnicastMaster_t.selected_update,
      PROC_VAL (GET_STR (find_enum us2str us_range)) ''portState'' LinuxptpUnicastMaster_t.portState LinuxptpUnicastMaster_t.portState_update,
      PROC_VAL from_uint ''priority1'' LinuxptpUnicastMaster_t.priority1 LinuxptpUnicastMaster_t.priority1_update,
      PROC_VAL from_uint ''priority2'' LinuxptpUnicastMaster_t.priority2 LinuxptpUnicastMaster_t.priority2_update,
      PROC_VAL (GET_OBJ from_PortAddress) ''portAddress'' LinuxptpUnicastMaster_t.portAddress LinuxptpUnicastMaster_t.portAddress_update]"

subsection \<open>Arrays\<close>

text \<open>
  The elements that were read before a wrong one stay. Every element is read into a new variable; all
  members of an address or a master are read, or the element is dropped, so that what the variable held
  before does not matter for them.
\<close>

fun read_elements :: "(jsonValueBase \<Rightarrow> 'a option) \<Rightarrow> jsonValueBase list \<Rightarrow> 'a list \<Rightarrow> bool \<times> 'a list" where
  "read_elements f [] xs = (True, xs)"
| "read_elements f (e # es) xs = (case f e of None \<Rightarrow> (False, xs) | Some x \<Rightarrow> read_elements f es (xs @ [x]))"

definition from_array :: "(jsonValueBase \<Rightarrow> 'a option) \<Rightarrow> ('a list) reader" where
  "from_array f key v ms =
     (case obj_getArr key ms of
        None \<Rightarrow> (False, v, ms)
      | Some arr \<Rightarrow> (case read_elements f arr v of (ok, v') \<Rightarrow> (ok, v', ms)))"

definition element_ClockIdentity :: "jsonValueBase \<Rightarrow> ClockIdentity_t option" where
  "element_ClockIdentity e = (case e of jString s \<Rightarrow> read_ClockIdentity s | _ \<Rightarrow> None)"

definition element_obj :: "(json_members, 'd) jstep \<Rightarrow> 'd \<Rightarrow> jsonValueBase \<Rightarrow> 'd option" where
  "element_obj f new e =
     (case getObj e of None \<Rightarrow> None | Some obj \<Rightarrow> (case f new obj of (ok, d, _) \<Rightarrow> if ok then Some d else None))"

definition JsonProcFrom :: "json_env \<Rightarrow> json_members JsonProc" where
  "JsonProcFrom je =
     \<lparr>procValue_uint8_t = from_uint, procValue_uint16_t = from_uint, procValue_uint32_t = from_uint,
      procValue_uint64_t = from_uint, procValue_int8_t = from_int, procValue_int16_t = from_int,
      procValue_int32_t = from_int, procValue_int64_t = from_int,
      procValue_networkProtocol_e = from_netProt,
      procValue_clockAccuracy_e = from_clockAccuracy,
      procValue_faultRecord_e = GET_STR (find_enum faultRec2str faultRec_range),
      procValue_timeSource_e = GET_STR (\<lambda>s. found (findTimeSrc s True 0)),
      procValue_portState_e = GET_STR (\<lambda>s. found (findPortState s True 0)),
      procValue_delayMechanism_e = GET_STR (\<lambda>s. found (findDelayMech s True 0)),
      procValue_linuxptpTimeStamp_e = GET_STR (find_enum ts2str ts_range),
      procValue_linuxptpPowerProfileVersion_e = GET_STR (find_enum pwr2str pwr_range),
      procValue_linuxptpUnicastState_e = GET_STR (find_enum us2str us_range),
      procValue_TimeInterval_t = from_TimeInterval, procValue_Timestamp_t = from_Timestamp je,
      procValue_ClockIdentity_t = GET_STR read_ClockIdentity,
      procValue_PortIdentity_t = from_PortIdentity,
      procValue_PortAddress_t = GET_OBJ from_PortAddress,
      procValue_ClockQuality_t = from_ClockQuality, procValue_PTPText_t = from_PTPText,
      procValue_FaultRecord_t = GET_OBJ (from_FaultRecord je),
      procValue_AcceptableMaster_t = GET_OBJ from_AcceptableMaster,
      procValue_LinuxptpUnicastMaster_t = GET_OBJ from_LinuxptpUnicastMaster,
      procBinary = from_Binary, procOctets = from_octets, procFlag = from_flag,
      procZeroFlag = (\<lambda>v ms. (0, ms)),
      procArray_ClockIdentity_t = from_array element_ClockIdentity,
      procArray_PortAddress_t = from_array (element_obj from_PortAddress zero_PortAddress),
      procArray_FaultRecord_t = from_array (element_obj (from_FaultRecord je) (construct_FaultRecord (je_FaultRecord je))),
      procArray_AcceptableMaster_t = from_array (element_obj from_AcceptableMaster zero_AcceptableMaster),
      procArray_LinuxptpUnicastMaster_t =
        from_array (element_obj from_LinuxptpUnicastMaster zero_LinuxptpUnicastMaster)\<rparr>"

subsection \<open>The request\<close>

text \<open>
  \<^verbatim>\<open>class Json2msg\<close> of \<^verbatim>\<open>pub/json.h\<close> and \<^verbatim>\<open>src/jsonDef.cpp\<close>: a request as JSON text, and the message it
  is for. \<open>fromJson\<close> goes over the members of the object one after the other and changes the object of
  the class as it goes; an object that is used again keeps what an earlier text set.
\<close>

datatype have_e = have_isUnicast | have_PTPProfileSpecific | have_domainNumber | have_versionPTP |
  have_minorVersionPTP | have_sequenceId | have_sdoId | have_srcPort | have_dstPort

record Json2msg =
  j_managementId :: mng_vals_e
  j_tlvData :: "BaseMngTlv option"
  j_action :: actionField_e
  j_have :: "have_e \<Rightarrow> bool"
  j_isUnicast :: bool
  j_PTPProfileSpecific :: uint8_t
  j_domainNumber :: uint8_t
  j_versionPTP :: uint8_t
  j_minorVersionPTP :: uint8_t
  j_sequenceId :: uint16_t
  j_sdoId :: uint32_t
  j_srcPort :: PortIdentity_t
  j_dstPort :: PortIdentity_t

definition new_Json2msg :: Json2msg where
  "new_Json2msg =
     \<lparr>j_managementId = NULL_PTP_MANAGEMENT, j_tlvData = None, j_action = GET, j_have = (\<lambda>_. False), j_isUnicast = False,
      j_PTPProfileSpecific = 0, j_domainNumber = 0, j_versionPTP = 2, j_minorVersionPTP = 1, j_sequenceId = 0,
      j_sdoId = 0, j_srcPort = zero_PortIdentity, j_dstPort = zero_PortIdentity\<rparr>"

type_synonym json_step = "(json_members, Json2msg) jstep"

definition testOpt :: "string \<Rightarrow> string \<Rightarrow> json_step" where
  "testOpt key res j ms =
     (0 < member_count key ms \<longrightarrow> member_get key ms = Some (jString res), j, ms)"

text \<open>\<^verbatim>\<open>testMand\<close> with what follows it.\<close>

definition testMand :: "string \<Rightarrow> (string \<Rightarrow> Json2msg \<Rightarrow> bool \<times> Json2msg) \<Rightarrow> json_step" where
  "testMand key f j ms =
     (case obj_getVal key ms of
        Some (jString s) \<Rightarrow> if s = [] then (False, j, ms) else (case f s j of (ok, j') \<Rightarrow> (ok, j', ms))
      | _ \<Rightarrow> (False, j, ms))"

definition json_action :: "string \<Rightarrow> Json2msg \<Rightarrow> bool \<times> Json2msg" where
  "json_action s j =
     (if s = ''GET'' then (True, j\<lparr>j_action := GET\<rparr>)
      else if s = ''SET'' then (True, j\<lparr>j_action := SET\<rparr>)
      else if s = ''COMMAND'' then (True, j\<lparr>j_action := COMMAND\<rparr>)
      else (False, j))"

definition json_managementId :: "string \<Rightarrow> Json2msg \<Rightarrow> bool \<times> Json2msg" where
  "json_managementId s j =
     (case findMngID s True (j_managementId j) of (ok, i) \<Rightarrow> (ok, j\<lparr>j_managementId := i\<rparr>))"

definition set_have :: "have_e \<Rightarrow> Json2msg \<Rightarrow> Json2msg" where
  "set_have h j = j\<lparr>j_have := (j_have j)(h := True)\<rparr>"

definition optProc :: "string \<Rightarrow> have_e \<Rightarrow> (int64_t \<Rightarrow> Json2msg \<Rightarrow> Json2msg) \<Rightarrow> json_step" where
  "optProc key h upd j ms =
     (if member_count key ms = 0 then (True, j, ms)
      else
        (case obj_getVal key ms of
           None \<Rightarrow> (False, j, ms)
         | Some v \<Rightarrow>
             (case getInt64 v False of None \<Rightarrow> (False, j, ms) | Some n \<Rightarrow> (True, upd n (set_have h j), ms))))"

definition json_unicastFlag :: json_step where
  "json_unicastFlag j ms =
     (if member_count ''unicastFlag'' ms = 0 then (True, j, ms)
      else
        (case obj_getVal ''unicastFlag'' ms of
           Some (jBoolean b) \<Rightarrow> (True, (set_have have_isUnicast j)\<lparr>j_isUnicast := b\<rparr>, ms)
         | _ \<Rightarrow> (False, j, ms)))"

definition portProc :: "string \<Rightarrow> have_e \<Rightarrow> (Json2msg \<Rightarrow> PortIdentity_t) \<Rightarrow> (PortIdentity_t \<Rightarrow> Json2msg \<Rightarrow> Json2msg) \<Rightarrow>
    json_step" where
  "portProc key h get upd j ms =
     (if member_count key ms = 0 then (True, j, ms)
      else
        (case from_PortIdentity key (get j) ms of (ok, p, _) \<Rightarrow>
           if ok then (True, set_have h (upd p j), ms) else (False, upd p j, ms)))"

text \<open>The last part: whether there is data, and the data.\<close>

definition json_data :: "json_env \<Rightarrow> json_step" where
  "json_data je j ms =
     (if 0 < member_count ''dataField'' ms \<and> obj_getType ''dataField'' ms \<notin> {t_object, t_null} then (False, j, ms)
      else
        (let have_data = (obj_getType ''dataField'' ms = t_object) in
         if j_action j = GET \<or> isEmpty (j_managementId j) then (\<not> have_data, j, ms)
         else
           (case obj_getObj ''dataField'' ms of
              None \<Rightarrow> (False, j, ms)
            | Some obj \<Rightarrow>
                (case procData (JsonProcFrom je) (je_memory je) (j_managementId j) None obj of (ok, t, _) \<Rightarrow>
                   if ok then (True, j\<lparr>j_tlvData := t\<rparr>, ms) else (False, j, ms)))))"

definition json_members_steps :: "json_env \<Rightarrow> json_step list" where
  "json_members_steps je =
     [testOpt ''messageType'' ''Management'', testOpt ''tlvType'' ''MANAGEMENT'',
      testMand ''actionField'' json_action, testMand ''managementId'' json_managementId,
      optProc ''sequenceId'' have_sequenceId (\<lambda>n. j_sequenceId_update (\<lambda>_. ucast n)),
      optProc ''sdoId'' have_sdoId (\<lambda>n. j_sdoId_update (\<lambda>_. ucast n)),
      optProc ''domainNumber'' have_domainNumber (\<lambda>n. j_domainNumber_update (\<lambda>_. ucast n)),
      optProc ''versionPTP'' have_versionPTP (\<lambda>n. j_versionPTP_update (\<lambda>_. ucast n)),
      optProc ''minorVersionPTP'' have_minorVersionPTP (\<lambda>n. j_minorVersionPTP_update (\<lambda>_. ucast n)),
      optProc ''PTPProfileSpecific'' have_PTPProfileSpecific (\<lambda>n. j_PTPProfileSpecific_update (\<lambda>_. ucast n)),
      json_unicastFlag,
      portProc ''sourcePortIdentity'' have_srcPort j_srcPort (\<lambda>p. j_srcPort_update (\<lambda>_. p)),
      portProc ''targetPortIdentity'' have_dstPort j_dstPort (\<lambda>p. j_dstPort_update (\<lambda>_. p)),
      json_data je]"

definition fromJson :: "json_env \<Rightarrow> string \<Rightarrow> Json2msg \<Rightarrow> bool \<times> Json2msg" where
  "fromJson je json j =
     (case parseBuffer json False None of
        (True, Some (jObject mobj)) \<Rightarrow>
          (case jand (json_members_steps je) j mobj of (ok, j', _) \<Rightarrow> (ok, j'))
      | _ \<Rightarrow> (False, j))"

definition json_setAction :: "Json2msg \<Rightarrow> Message \<Rightarrow> bool \<times> Message" where
  "json_setAction j m = setAction (j_action j) (j_managementId j) (j_tlvData j) m"

end
