(* ===== verification/Json_Doc.thy ===== *)
theory Json_Doc
  imports Json_From Json_Parsed "HOL-Library.Multiset"
begin

unbundle bit_operations_syntax

text \<open>
  What \<open>JsonProcToJson\<close> writes, as JSON values: every function puts one named value into the object at
  hand. The text of an object is a text of the grammar, so that the parser gives the members back, in the
  order of their keys.
\<close>

subsection \<open>Documents and their texts\<close>

abbreviation spaces :: "nat \<Rightarrow> string" where
  "spaces n \<equiv> replicate n (CHR '' '')"

definition sep :: "bool \<Rightarrow> string" where
  "sep first = (if first then [] else '','')"

definition lead :: "nat \<Rightarrow> jsonValueBase \<Rightarrow> string" where
  "lead n v = (case v of jObject _ \<Rightarrow> LF # spaces n | jArray _ \<Rightarrow> LF # spaces n | _ \<Rightarrow> '' '')"

fun bare :: "nat \<Rightarrow> jsonValueBase \<Rightarrow> string"
  and mtext :: "nat \<Rightarrow> bool \<Rightarrow> json_members \<Rightarrow> string"
  and etext :: "nat \<Rightarrow> bool \<Rightarrow> jsonValueBase list \<Rightarrow> string"
where
  "bare n (jString s) = [DQ] @ s @ [DQ]"
| "bare n (jNumber s d e) = s"
| "bare n (jBoolean b) = (if b then ''true'' else ''false'')"
| "bare n jNull = ''null''"
| "bare n (jObject ms) = ''{'' @ mtext (n + 2) True ms @ [LF] @ spaces n @ ''}''"
| "bare n (jArray es) = ''['' @ etext (n + 2) True es @ [LF] @ spaces n @ '']''"
| "mtext n first [] = []"
| "mtext n first ((k, v) # ms) =
     sep first @ [LF] @ spaces n @ [DQ] @ k @ [DQ] @ '' :'' @ lead n v @ bare n v @ mtext n False ms"
| "etext n first [] = []"
| "etext n first (v # es) = sep first @ [LF] @ spaces n @ bare n v @ etext n False es"

text \<open>Texts without escapes, and the values whose text is a JSON text.\<close>

definition raw :: "string \<Rightarrow> bool" where
  "raw s \<longleftrightarrow> list_all (\<lambda>c. c \<noteq> DQ \<and> c \<noteq> BS \<and> c \<noteq> NUL \<and> (of_char c :: nat) < 0x80) s"

fun raw_ok :: "jsonValueBase \<Rightarrow> bool"
  and raw_members :: "json_members \<Rightarrow> bool"
  and raw_elements :: "jsonValueBase list \<Rightarrow> bool"
where
  "raw_ok (jString s) \<longleftrightarrow> raw s"
| "raw_ok (jNumber s d e) \<longleftrightarrow> getNum s = Some (s, d, e, [])"
| "raw_ok (jBoolean b) \<longleftrightarrow> True"
| "raw_ok jNull \<longleftrightarrow> True"
| "raw_ok (jObject ms) \<longleftrightarrow> raw_members ms"
| "raw_ok (jArray es) \<longleftrightarrow> raw_elements es"
| "raw_members [] \<longleftrightarrow> True"
| "raw_members ((k, v) # ms) \<longleftrightarrow> raw k \<and> raw_ok v \<and> raw_members ms"
| "raw_elements [] \<longleftrightarrow> True"
| "raw_elements (v # es) \<longleftrightarrow> raw_ok v \<and> raw_elements es"

text \<open>The value the parser gives: members in the order of their keys.\<close>

fun norm :: "jsonValueBase \<Rightarrow> jsonValueBase"
  and norm_members :: "json_members \<Rightarrow> json_members"
  and norm_elements :: "jsonValueBase list \<Rightarrow> jsonValueBase list"
where
  "norm (jString s) = jString s"
| "norm (jNumber s d e) = jNumber s d e"
| "norm (jBoolean b) = jBoolean b"
| "norm jNull = jNull"
| "norm (jObject ms) = jObject (insert_members (norm_members ms) [])"
| "norm (jArray es) = jArray (norm_elements es)"
| "norm_members [] = []"
| "norm_members ((k, v) # ms) = (k, norm v) # norm_members ms"
| "norm_elements [] = []"
| "norm_elements (v # es) = norm v # norm_elements es"

lemma norm_parts: "norm_members ms = map (\<lambda>(k, v). (k, norm v)) ms" "norm_elements es = map norm es"
  by (induction ms) (auto, induction es, auto)

subsection \<open>Texts of documents are texts of the grammar\<close>

lemma raw_append [simp]: "raw (a @ b) \<longleftrightarrow> raw a \<and> raw b"
  by (simp add: raw_def)

lemma getStr_loop_raw: "raw s \<Longrightarrow> getStr_loop acc None (s @ DQ # r) = Some (acc @ s, r)"
proof (induction s arbitrary: acc)
  case (Cons c s)
  have c: "c \<noteq> DQ" "c \<noteq> BS" "checkUTF8 (c # s @ DQ # r) = Some ([c], s @ DQ # r)"
    using Cons.prems by (auto simp: raw_def checkUTF8_def Let_def)
  show ?case
    using Cons.IH [of "acc @ [c]"] Cons.prems c by (subst getStr_loop.simps) (simp add: raw_def)
qed (simp add: getStr_loop.simps)

lemma raw_string_text: "raw s \<Longrightarrow> string_text ([DQ] @ s @ [DQ]) s"
  using getStr_loop_raw [of s "[]"] by (auto simp: string_text_def getStr_def raw_def list_all_iff DQ_def NUL_def)

lemma ws_spaces [simp]: "list_all json_ws (spaces n)"
  by (simp add: list_all_iff)

lemma ws_lead [simp]: "list_all json_ws (lead n v)"
  by (simp add: lead_def split: jsonValueBase.split)

lemma text_comma:
  "ms \<noteq> [] \<Longrightarrow> mtext n False ms = '','' @ mtext n True ms" "es \<noteq> [] \<Longrightarrow> etext n False es = '','' @ etext n True es"
  by (cases ms; auto simp: sep_def) (cases es; auto simp: sep_def)

lemma bare_text:
  fixes first first' :: bool
  shows "raw_ok v \<Longrightarrow> value_text (bare n v) (norm v)"
    "raw_members ms \<Longrightarrow> ms \<noteq> [] \<Longrightarrow> list_all json_ws w \<Longrightarrow> members_of (mtext n True ms @ w) (norm_members ms)"
    "raw_elements es \<Longrightarrow> es \<noteq> [] \<Longrightarrow> list_all json_ws w' \<Longrightarrow> elements_of (etext n True es @ w') (norm_elements es)"
proof (induction n v and n first ms and n first' es arbitrary: and w and w' rule: bare_mtext_etext.induct)
  case (1 n s)
  then show ?case
    using string_value [OF raw_string_text] by simp
next
  case (2 n s d e)
  then show ?case
    using number_value by simp
next
  case (3 n b)
  then show ?case
    using true_value false_value by simp
next
  case (4 n)
  then show ?case
    using null_value by simp
next
  case (5 n ms)
  then show ?case
    using object [OF 5(1) [of "LF # spaces n"]] empty_object [of "LF # spaces n"]
    by (cases "ms = []") (simp_all add: insert_members_def)
next
  case (6 n es)
  then show ?case
    using array [OF 6(1) [of "LF # spaces n"]] empty_array [of "LF # spaces n"] by (cases "es = []") simp_all
next
  case (8 n first k v ms)
  show ?case
  proof (cases "ms = []")
    case True
    then show ?thesis
      using 8 last_member [of "LF # spaces n" "'' ''" "lead n v" w "[DQ] @ k @ [DQ]" k "bare n v" "norm v"]
        raw_string_text [of k] by (simp add: sep_def)
  next
    case False
    then show ?thesis
      using 8 next_member [of "LF # spaces n" "'' ''" "lead n v" "[]" "[DQ] @ k @ [DQ]" k "bare n v" "norm v"]
        raw_string_text [of k] by (simp add: sep_def text_comma)
  qed
next
  case (10 n first v es)
  then show ?case
    using last_element [of "LF # spaces n" w' "bare n v" "norm v"] next_element [of "LF # spaces n" "[]" "bare n v" "norm v"]
    by (cases "es = []") (simp_all add: sep_def text_comma)
qed simp_all

subsection \<open>Putting values\<close>

definition level :: "ToJson \<Rightarrow> nat" where
  "level st = 2 * length (m_first_vals st) + m_base_indent st"

definition put_items :: "json_members \<Rightarrow> ToJson \<Rightarrow> ToJson" where
  "put_items its st = st\<lparr>m_result := m_result st @ mtext (level st) (m_first st) its, m_first := m_first st \<and> its = []\<rparr>"

abbreviation put_item :: "string \<Rightarrow> jsonValueBase \<Rightarrow> ToJson \<Rightarrow> ToJson" where
  "put_item name v \<equiv> put_items [(name, v)]"

definition put_bare :: "jsonValueBase \<Rightarrow> ToJson \<Rightarrow> ToJson" where
  "put_bare v st = emit (spaces (level st) @ bare (level st) v) st"

lemma put_no_items [simp]: "put_items [] st = st"
  by (simp add: put_items_def)

lemma mtext_append: "mtext n first (a @ b) = mtext n first a @ mtext n (first \<and> a = []) b"
  by (induction a arbitrary: first) auto

lemma put_append: "put_items b (put_items a st) = put_items (a @ b) st"
  by (auto simp: put_items_def level_def mtext_append)

lemma put_Cons: "put_items its (put_item name v st) = put_items ((name, v) # its) st"
  by (simp add: put_append)

lemmas writer_defs = emit_def close_def indent_def startName_def open_part_def close_part_def startObject_def closeObject_def
  startArray_def closeArray_def procObject_def procArray_def procString_def procText_def

lemma put_string: "procString name s = put_item name (jString s)"
  by (rule ext) (simp add: writer_defs put_items_def level_def lead_def sep_def)

lemma put_number: "procText name s = put_item name (jNumber s d e)"
  by (rule ext) (simp add: writer_defs put_items_def level_def lead_def sep_def)

lemma put_bool: "procBool name b = put_item name (jBoolean b)"
  by (rule ext) (simp add: procBool_def writer_defs put_items_def level_def lead_def sep_def)

lemma put_object: "closeObject (put_items its (procObject name st)) = put_item name (jObject its) st"
  by (simp add: writer_defs put_items_def level_def lead_def sep_def Let_def)

lemma put_bare_object: "closeObject (put_items its (startObject st)) = put_bare (jObject its) st"
  by (simp add: writer_defs put_items_def put_bare_def level_def Let_def)

lemma put_named: "put_bare (jObject its) (startName name [LF] st) = put_item name (jObject its) st"
  by (simp add: writer_defs put_items_def put_bare_def level_def lead_def sep_def)

definition put_elements :: "jsonValueBase list \<Rightarrow> ToJson \<Rightarrow> ToJson" where
  "put_elements es st = st\<lparr>m_result := m_result st @ etext (level st) (m_first st) es, m_first := m_first st \<and> es = []\<rparr>"

lemma put_elements_fold:
  assumes "\<And>x st. x \<in> set xs \<Longrightarrow> f x st = put_bare (doc x) st"
  shows "fold (\<lambda>x st. f x (close st)) xs st = put_elements (map doc xs) st"
  using assms
proof (induction xs arbitrary: st)
  case (Cons x xs)
  have "f x (close st) = put_elements [doc x] st"
    using Cons.prems [of x "close st"] by (simp add: put_bare_def put_elements_def writer_defs level_def sep_def)
  then show ?case
    using Cons.IH [of "f x (close st)"] Cons.prems by (simp add: put_elements_def level_def)
qed (simp add: put_elements_def)

lemma put_vector:
  assumes "\<And>x st. x \<in> set xs \<Longrightarrow> f x st = put_bare (doc x) st"
  shows "procVector f name xs st = put_item name (jArray (map doc xs)) st"
proof -
  have "procVector f name xs st = closeArray (put_elements (map doc xs) (procArray name st))"
    using put_elements_fold [of xs f doc] assms by (simp add: procVector_def)
  then show ?thesis
    by (simp add: put_elements_def writer_defs put_items_def level_def lead_def sep_def Let_def)
qed

subsection \<open>Members of the parsed object\<close>

definition has :: "json_members \<Rightarrow> json_members \<Rightarrow> bool" where
  "has ms its \<longleftrightarrow> (\<forall>(k, v) \<in> set its. member_get k ms = Some (norm v))"

lemma has_simps [simp]:
  "has ms []" "has ms ((k, v) # its) \<longleftrightarrow> member_get k ms = Some (norm v) \<and> has ms its"
  "has ms (a @ b) \<longleftrightarrow> has ms a \<and> has ms b"
  by (auto simp: has_def)

lemma insert_member_mset: "mset (insert_member k v ms) = add_mset (k, v) (mset ms)"
  by (simp add: insert_member_def) (metis mset_append takeWhile_dropWhile_id)

lemma insert_members_mset: "mset (insert_members its ms) = mset its + mset ms"
  by (induction its arbitrary: ms) (auto simp: insert_members_def insert_member_mset)

lemma member_get_only:
  assumes "distinct (map fst ms)" "(k, v) \<in> set ms"
  shows "member_get k ms = Some v"
proof -
  have "filter (\<lambda>m. fst m = k) ms = [(k, v)]"
    using assms by (induction ms) (auto simp: filter_empty_conv rev_image_eqI)
  moreover have "find (\<lambda>m. fst m = k) ms = Some (k, v)"
    using assms by (induction ms) (auto simp: rev_image_eqI)
  ultimately show ?thesis
    by (simp add: member_get_def member_count_def)
qed

lemma has_members:
  assumes "distinct (map fst its)"
  shows "has (insert_members (norm_members its) []) its"
proof -
  let ?ms = "insert_members (norm_members its) []"
  have m: "mset ?ms = mset (norm_members its)"
    by (simp add: insert_members_mset)
  have "map fst (norm_members its) = map fst its"
    by (auto simp: norm_parts)
  then have "distinct (map fst ?ms)"
    using assms m by (metis mset_map mset_eq_imp_distinct_iff)
  moreover have "set ?ms = set (norm_members its)"
    using m by (metis set_mset_mset)
  ultimately show ?thesis
    by (auto simp: has_def norm_parts intro!: member_get_only)
qed

end
