(* ===== verification/Json_Codec.thy ===== *)
theory Json_Codec
  imports Json_Doc
begin

unbundle bit_operations_syntax

text \<open>
  What the two implementations of \<open>JsonProc\<close> promise each other. \<open>json_val\<close> is the contract of a named
  value: writing puts one JSON value, and reading this value gives the value back; \<open>cp v v0\<close> is what is
  read over \<open>v0\<close>. \<open>json_fields\<close> is the contract of a sequence of fields, and is closed under the macros of
  \<^verbatim>\<open>src/json.cpp\<close>, so that a TLV is an instance by its list of fields.
\<close>

locale json_val =
  fixes w :: "(ToJson, 'v) jval"
    and r :: "'v reader"
    and ok :: "'v \<Rightarrow> bool"
    and cp :: "'v \<Rightarrow> 'v \<Rightarrow> 'v"
    and doc :: "'v \<Rightarrow> jsonValueBase"
  assumes puts: "ok v \<Longrightarrow> w name v st = (True, v, put_item name (doc v) st)"
    and gets: "\<lbrakk>ok v; name \<noteq> []; member_get name ms = Some (norm (doc v))\<rbrakk> \<Longrightarrow> r name v0 ms = (True, cp v v0, ms)"
    and doc_ok: "ok v \<Longrightarrow> raw_ok (doc v)"

locale json_fields =
  fixes w :: "(ToJson, 'd) jstep"
    and r :: "(json_members, 'd) jstep"
    and ok :: "'d \<Rightarrow> bool"
    and cp :: "'d \<Rightarrow> 'd \<Rightarrow> 'd"
    and items :: "'d \<Rightarrow> json_members"
  assumes puts: "ok d \<Longrightarrow> w d st = (True, d, put_items (items d) st)"
    and gets: "\<lbrakk>ok d; has ms (items d)\<rbrakk> \<Longrightarrow> r d0 ms = (True, cp d d0, ms)"
    and items_ok: "ok d \<Longrightarrow> raw_members (items d)"

named_theorems json_vals
named_theorems json_intros

subsection \<open>Fields\<close>

lemma fields_Nil [json_intros]: "json_fields (jand []) (jand []) (\<lambda>_. True) (\<lambda>_ d0. d0) (\<lambda>_. [])"
  by unfold_locales simp_all

lemma raw_members_append [simp]: "raw_members (a @ b) \<longleftrightarrow> raw_members a \<and> raw_members b"
  by (induction a) auto

lemma fields_Cons [json_intros]:
  assumes "json_fields w r ok cp items" "json_fields (jand ws) (jand rs) ok' cp' items'"
  shows "json_fields (jand (w # ws)) (jand (r # rs)) (\<lambda>d. ok d \<and> ok' d) (\<lambda>d d0. cp' d (cp d d0)) (\<lambda>d. items d @ items' d)"
proof unfold_locales
  fix d d0 st ms
  assume k: "ok d \<and> ok' d"
  then show "jand (w # ws) d st = (True, d, put_items (items d @ items' d) st)" "raw_members (items d @ items' d)"
    using json_fields.puts [OF assms(1)] json_fields.puts [OF assms(2)]
      json_fields.items_ok [OF assms(1)] json_fields.items_ok [OF assms(2)] by (simp_all add: put_append)
  assume "has ms (items d @ items' d)"
  then show "jand (r # rs) d0 ms = (True, cp' d (cp d d0), ms)"
    using k json_fields.gets [OF assms(1), of d ms d0] json_fields.gets [OF assms(2), of d ms "cp d d0"] by simp
qed

lemma fields_val [json_intros]:
  assumes "json_val w r ok cp doc" "name \<noteq> []" "raw name" "\<And>d. upd (\<lambda>_. get d) d = d"
  shows "json_fields (PROC_VAL w name get upd) (PROC_VAL r name get upd) (\<lambda>d. ok (get d))
    (\<lambda>d d0. upd (\<lambda>_. cp (get d) (get d0)) d0) (\<lambda>d. [(name, doc (get d))])"
  using json_val.puts [OF assms(1)] json_val.gets [OF assms(1)] json_val.doc_ok [OF assms(1)] assms(2-)
  by unfold_locales (simp_all add: PROC_VAL_def)

lemma fields_zero [json_intros]:
  assumes "\<And>d. upd (\<lambda>_. get d) d = d"
  shows "json_fields (PROC_ZFLG JsonProcToJson get upd) (PROC_ZFLG (JsonProcFrom je) get upd) (\<lambda>_. True)
    (\<lambda>d d0. upd (\<lambda>_. 0) d0) (\<lambda>_. [])"
  using assms by unfold_locales (simp_all add: PROC_ZFLG_def JsonProcToJson_def JsonProcFrom_def)

lemma fields_bin [json_intros]:
  assumes "json_val (procBinary JsonProcToJson) (procBinary (JsonProcFrom je)) ok cp doc" "name \<noteq> []" "raw name"
    and "\<And>d. updl (\<lambda>_. getl d) (upd (\<lambda>_. get d) d) = d"
  shows "json_fields (PROC_BIN JsonProcToJson name get upd getl updl) (PROC_BIN (JsonProcFrom je) name get upd getl updl)
    (\<lambda>d. ok (get d, getl d))
    (\<lambda>d d0. case cp (get d, getl d) (get d0, getl d0) of (v, l) \<Rightarrow> updl (\<lambda>_. l) (upd (\<lambda>_. v) d0))
    (\<lambda>d. [(name, doc (get d, getl d))])"
  using json_val.puts [OF assms(1)] json_val.gets [OF assms(1)] json_val.doc_ok [OF assms(1)] assms(2-)
  by unfold_locales (simp_all add: PROC_BIN_def split: prod.splits)

subsection \<open>Numbers\<close>

lemma obj_getVal_simps [simp]:
  "member_get k ms = Some (jString s) \<Longrightarrow> obj_getVal k ms = Some (jString s)"
  "member_get k ms = Some (jNumber s d e) \<Longrightarrow> obj_getVal k ms = Some (jNumber s d e)"
  "member_get k ms = Some (jBoolean b) \<Longrightarrow> obj_getVal k ms = Some (jBoolean b)"
  by (simp_all add: obj_getVal_def getVal_def isJsonValue_def)

definition uint_doc :: "'a :: len word \<Rightarrow> jsonValueBase" where
  "uint_doc v = jNumber (dec (unat v)) 0 0"

definition int_doc :: "'a :: len word \<Rightarrow> jsonValueBase" where
  "int_doc v = jNumber (dec_int (sint v)) 0 0"

lemma cast_back:
  fixes v :: "'a :: len word"
  assumes "LENGTH('a) \<le> 64"
  shows "ucast (ucast v :: 64 word) = v" "ucast (scast v :: 64 word) = v"
proof -
  show "ucast (ucast v :: 64 word) = v"
    using assms by (rule_tac bit_word_eqI) (auto simp: bit_simps)
  show "ucast (scast v :: 64 word) = v"
  proof (rule bit_word_eqI)
    fix n
    assume "n < LENGTH('a)"
    then have "min n (LENGTH('a) - 1) = n"
      by simp
    then show "bit (ucast (scast v :: 64 word) :: 'a word) n \<longleftrightarrow> bit v n"
      using assms \<open>n < LENGTH('a)\<close> by (simp add: bit_simps)
  qed
qed

lemma val_uint [json_vals]:
  assumes "LENGTH('a) \<le> 64"
  shows "json_val (writes procUint) from_uint (\<lambda>_ :: 'a :: len word. True) (\<lambda>v _. v) uint_doc"
proof unfold_locales
  fix v :: "'a word" and v0 name ms
  have "unat v < 2 ^ 64"
    using unsigned_less [of v] assms by (meson less_le_trans one_le_numeral power_increasing)
  then have "getUint64 (uint_doc v) True = Some (of_nat (unat v))"
    using getUint64_dec by (simp add: uint_doc_def)
  then show "name \<noteq> [] \<Longrightarrow> member_get name ms = Some (norm (uint_doc v)) \<Longrightarrow> from_uint name v0 ms = (True, v, ms)"
    using cast_back(1) [OF assms, of v] by (simp add: from_uint_def GET_NUM_def uint_doc_def)
qed (simp_all add: writes_def procUint_def uint_doc_def put_number [of _ _ 0 0] getNum_dec)

lemma val_int [json_vals]:
  assumes "LENGTH('a) \<le> 64"
  shows "json_val (writes procInt) from_int (\<lambda>_ :: 'a :: len word. True) (\<lambda>v _. v) int_doc"
proof unfold_locales
  fix v :: "'a word" and v0 name ms
  have "- (2 ^ 63) \<le> - (2 ^ (LENGTH('a) - 1) :: int)" "(2 ^ (LENGTH('a) - 1) :: int) \<le> 2 ^ 63"
    using assms power_increasing [of "LENGTH('a) - 1" 63 "2 :: int"] by simp_all
  then have "- (2 ^ 63) \<le> sint v" "sint v < 2 ^ 63"
    using sint_lt [of v] sint_ge [of v] by linarith+
  then have "getInt64 (int_doc v) False = Some (word_of_int (sint v))"
    using getInt64_dec by (simp add: int_doc_def)
  moreover have "ucast (word_of_int (sint v) :: int64_t) = v"
    using cast_back [of v] assms by simp
  ultimately show "name \<noteq> [] \<Longrightarrow> member_get name ms = Some (norm (int_doc v)) \<Longrightarrow> from_int name v0 ms = (True, v, ms)"
    by (simp add: from_int_def GET_NUM_def int_doc_def)
qed (simp_all add: writes_def procInt_def int_doc_def put_number [of _ _ 0 0] getNum_dec_int)

subsection \<open>Strings and flags\<close>

lemma val_string:
  assumes "\<And>v. ok v \<Longrightarrow> f (nm v) = Some (g v) \<and> raw (nm v)"
  shows "json_val (writes (\<lambda>n v. procString n (nm v))) (GET_STR f) ok (\<lambda>v _. g v) (\<lambda>v. jString (nm v))"
  using assms by unfold_locales (auto simp: writes_def put_string GET_STR_def)

text \<open>The names of an enumerator are found again.\<close>

definition names_ok :: "(string \<Rightarrow> 'a option) \<Rightarrow> ('a \<Rightarrow> string) \<Rightarrow> 'a list \<Rightarrow> bool" where
  "names_ok f nm vs \<longleftrightarrow> list_all (\<lambda>v. f (nm v) = Some v \<and> raw (nm v)) vs"

lemma val_enum:
  assumes "names_ok f nm vs"
  shows "json_val (writes (\<lambda>n v. procString n (nm v))) (GET_STR f) (\<lambda>v. v \<in> set vs) (\<lambda>v _. v) (\<lambda>v. jString (nm v))"
  using val_string [of "\<lambda>v. v \<in> set vs" f nm "\<lambda>v. v"] assms by (simp add: names_ok_def list_all_iff)

definition timeSrc_values :: "timeSource_e list" where
  "timeSrc_values = map fst timeSrc2str_names"

definition delayMech_values :: "delayMechanism_e list" where
  "delayMech_values = map fst delayMech2str_names"

lemma enum_names:
  "names_ok (find_enum netProt2str netProt_range) netProt2str netProt_range"
  "names_ok (find_enum faultRec2str faultRec_range) faultRec2str faultRec_range"
  "names_ok (find_enum ts2str ts_range) ts2str ts_range"
  "names_ok (find_enum pwr2str pwr_range) pwr2str pwr_range"
  "names_ok (find_enum us2str us_range) us2str us_range"
  "names_ok (\<lambda>s. found (findPortState s True 0)) portState2str portState_range"
  "names_ok (\<lambda>s. found (findDelayMech s True 0)) delayMech2str delayMech_values"
  by code_simp+

text \<open>The loop over all time sources also meets numbers without a name; only the known ones have theirs.\<close>

lemma find_loop_exact:
  "c \<in> set vs \<Longrightarrow> (\<And>x. x \<in> set vs \<Longrightarrow> nm x = nm c \<Longrightarrow> x = c) \<Longrightarrow>
     find_loop (str_eq True) (nm c) (map (\<lambda>i. (i, nm i)) vs) True n v = (True, c)"
  by (induction vs) (auto simp: str_eq_def)

lemma timeSrc_known:
  assumes "v \<in> set timeSrc_values" "timeSrc2str x = timeSrc2str v"
  shows "x = v"
proof -
  have d: "distinct (map fst timeSrc2str_names)" "distinct (map snd timeSrc2str_names)"
    "''unknown clock'' \<notin> set (map snd timeSrc2str_names)"
    by code_simp+
  obtain s where s: "(v, s) \<in> set timeSrc2str_names"
    using assms(1) by (auto simp: timeSrc_values_def)
  then have v: "timeSrc2str v = s"
    using d(1) by (simp add: timeSrc2str_def name_of_def)
  have "s \<noteq> ''unknown clock''"
    using s d(3) by (metis image_eqI set_map snd_conv)
  then have "(x, s) \<in> set timeSrc2str_names"
    using assms(2) v by (auto simp: timeSrc2str_def name_of_def split: option.splits dest: map_of_SomeD)
  then show ?thesis
    using s d(2) by (metis eq_key_imp_eq_value distinct_map inj_onD prod.inject snd_conv)
qed

lemma timeSrc_names: "names_ok (\<lambda>s. found (findTimeSrc s True 0)) timeSrc2str timeSrc_values"
proof -
  have k: "list_all (\<lambda>v. raw (timeSrc2str v) \<and> timeSrc2str v \<noteq> [] \<and> cstr (timeSrc2str v) = timeSrc2str v \<and>
      timeSrc2str v \<noteq> ''GPS'' \<and> v \<in> set timeSrc_range) timeSrc_values"
    by code_simp
  have "found (findTimeSrc (timeSrc2str v) True 0) = Some v" if "v \<in> set timeSrc_values" for v
    using that k find_loop_exact [of v timeSrc_range timeSrc2str] timeSrc_known [OF that]
    by (simp add: list_all_iff findTimeSrc_def found_def str_eq_def)
  then show ?thesis
    using k by (simp add: names_ok_def list_all_iff)
qed

lemmas val_enums [json_vals] = enum_names [THEN val_enum] timeSrc_names [THEN val_enum]

lemma val_flag [json_vals]:
  "json_val (writes (\<lambda>n v. procBool n (v AND msk > 0))) (from_flag msk) (\<lambda>_. True)
     (\<lambda>v v0. if v AND msk > 0 then v0 OR msk else v0) (\<lambda>v. jBoolean (v AND msk > 0))"
  by unfold_locales (simp_all add: writes_def put_bool from_flag_def)

lemma text_of_octets: "octets_of (text_of xs) = xs"
proof -
  have "(of_nat (unat x mod 256) :: uint8_t) = x" for x
    using octet_bound [of x] by simp
  then show ?thesis
    by (simp add: octets_of_def text_of_def comp_def)
qed

definition text_ok :: "PTPText_t \<Rightarrow> bool" where
  "text_ok t \<longleftrightarrow> raw (text_of (textField t))"

definition text_doc :: "PTPText_t \<Rightarrow> jsonValueBase" where
  "text_doc t = jString (text_of (textField t))"

lemma val_text [json_vals]: "json_val (writes to_PTPText) from_PTPText text_ok (\<lambda>v v0. v0\<lparr>textField := textField v\<rparr>) text_doc"
  by unfold_locales
    (simp_all add: writes_def to_PTPText_def put_string from_PTPText_def GET_STR_def text_of_octets text_ok_def text_doc_def)

text \<open>Clock accuracies without a name are written as numbers.\<close>

definition acc_values :: "clockAccuracy_e list" where
  "acc_values = map of_nat [0..<0x32] @ [0xfe]"

definition acc_ok :: "clockAccuracy_e \<Rightarrow> bool" where
  "acc_ok v \<longleftrightarrow> v \<in> set acc_values"

definition acc_doc :: "clockAccuracy_e \<Rightarrow> jsonValueBase" where
  "acc_doc v = jString (if v < 0x17 then hex_text v else clockAcc2str v)"

lemma find_enum_inj: "distinct (map nm vs) \<Longrightarrow> v \<in> set vs \<Longrightarrow> find_enum nm vs (nm v) = Some v"
  by (induction vs) (auto simp: find_enum_def image_iff)

lemma acc_named:
  assumes "v \<in> set clockAcc_range"
  shows "read_clockAccuracy (acc_doc v) = Some v" "raw_ok (acc_doc v)"
proof -
  have "list_all (\<lambda>v. raw (clockAcc2str v) \<and> clockAcc2str v \<notin> {[], ''Unknown''} \<and> \<not> v < 0x17) clockAcc_range"
    by code_simp
  moreover have "distinct (map clockAcc2str clockAcc_range)"
    by code_simp
  then have "find_enum clockAcc2str clockAcc_range (clockAcc2str v) = Some v"
    using assms find_enum_inj by metis
  ultimately show "read_clockAccuracy (acc_doc v) = Some v" "raw_ok (acc_doc v)"
    using assms by (auto simp: read_clockAccuracy_def acc_doc_def list_all_iff)
qed

lemma acc_hex: "list_all (\<lambda>v. clockAccuracy_num (jString (hex_text v)) = Some v) (map of_nat [0..<0x17])"
  by code_simp

lemma acc_hex_plain:
  "list_all (\<lambda>v. raw (hex_text v) \<and> v < 0x17 \<and> hex_text v \<noteq> [] \<and> hex_text v \<noteq> ''Unknown'') (map of_nat [0..<0x17])"
  by code_simp

lemma acc_hex_other: "find_enum clockAcc2str clockAcc_range (hex_text v) = None"
proof -
  have k: "list_all (\<lambda>v. hd (clockAcc2str v) \<noteq> CHR ''0'') clockAcc_range"
    by code_simp
  have "hd (hex_text v) = CHR ''0''"
    by (simp add: hex_text_def)
  then have "hex_text v \<noteq> clockAcc2str x" if "x \<in> set clockAcc_range" for x
    using k [unfolded list_all_iff, rule_format, OF that] by metis
  then show ?thesis
    unfolding find_enum_def find_None_iff by blast
qed

lemma acc_number:
  assumes "v \<in> set (map of_nat [0..<0x17])"
  shows "read_clockAccuracy (acc_doc v) = Some v" "raw_ok (acc_doc v)"
  using acc_hex [unfolded list_all_iff, rule_format, OF assms] acc_hex_plain [unfolded list_all_iff, rule_format, OF assms]
  by (simp_all add: read_clockAccuracy_def acc_doc_def acc_hex_other)

lemma acc_read: "list_all (\<lambda>v. read_clockAccuracy (acc_doc v) = Some v \<and> raw_ok (acc_doc v)) acc_values"
proof -
  have "[0..<0x32] = [0..<0x17] @ [0x17..<0x32]"
    using upt_add_eq_append [of 0 "0x17" "0x1b"] by simp
  then have "acc_values = map of_nat [0..<0x17] @ clockAcc_range @ [0xfe]"
    by (simp only: acc_values_def clockAcc_range_def map_append append_assoc)
  moreover have "read_clockAccuracy (acc_doc 0xfe) = Some 0xfe" "raw_ok (acc_doc 0xfe)"
    by code_simp+
  ultimately show ?thesis
    unfolding list_all_iff using acc_named acc_number by (metis Un_iff empty_iff empty_set set_ConsD set_append)
qed

lemma val_acc [json_vals]: "json_val (writes to_clockAccuracy) from_clockAccuracy acc_ok (\<lambda>v _. v) acc_doc"
proof unfold_locales
  fix v v0 name ms
  assume v: "acc_ok v"
  then show "raw_ok (acc_doc v)"
    using acc_read by (simp add: acc_ok_def list_all_iff)
  assume "member_get name ms = Some (norm (acc_doc v))"
  then have "obj_getVal name ms = Some (acc_doc v)"
    by (simp add: acc_doc_def)
  then show "from_clockAccuracy name v0 ms = (True, v, ms)"
    using v acc_read by (simp add: from_clockAccuracy_def acc_ok_def list_all_iff)
qed (simp add: writes_def to_clockAccuracy_def put_string acc_doc_def)

subsection \<open>Times\<close>

lemma length_dec: "n < 10 ^ k \<Longrightarrow> 0 < k \<Longrightarrow> length (dec n) \<le> k"
proof (induction n arbitrary: k rule: dec.induct)
  case (1 n)
  show ?case
  proof (cases "n < 10")
    case True
    then show ?thesis
      using 1(3) by (simp add: dec.simps [of n])
  next
    case False
    then have "1 < k"
      using 1(2) by (cases "k = 1") (use 1(3) in auto)
    moreover have "n div 10 < 10 ^ (k - 1)"
      using 1(2,3) by (metis less_mult_imp_div_less power_minus_mult)
    ultimately have "length (dec (n div 10)) \<le> k - 1"
      using 1(1) [OF False, of "k - 1"] by simp
    then show ?thesis
      using False \<open>1 < k\<close> by (simp add: dec.simps [of n])
  qed
qed

lemma length_dec_pad: "n < 10 ^ w \<Longrightarrow> 0 < w \<Longrightarrow> length (dec_pad w n) = w"
  using length_dec [of n w] by (simp add: dec_pad_def)

lemma dec_pad_isdigit: "c \<in> set (dec_pad w n) \<Longrightarrow> isdigit c"
  using dec_isdigit by (auto simp: dec_pad_def isdigit_def)

lemma num_of_zeros: "num_of b (replicate k (CHR ''0'') @ s) = num_of b s"
  by (induction k) (simp_all add: num_of_def hexval_def)

lemma isdigit_below: "isdigit c \<Longrightarrow> digit_below 10 c"
  by (auto simp: isdigit_def digit_below_def hexval_def Let_def)

lemma isdigit_plain: "isdigit c \<Longrightarrow> \<not> isspace c \<and> c \<noteq> CHR ''-'' \<and> c \<noteq> CHR ''+'' \<and> c \<noteq> NUL"
  by (auto simp: isdigit_def isspace_def NUL_def Let_def)

lemma strto_dec_pad:
  assumes "n < 10 ^ w" "0 < w"
  shows "strto_parts 10 (dec_pad w n) = (False, int n, [])"
proof -
  have s: "dec_pad w n \<noteq> []"
    using length_dec_pad [OF assms] assms(2) by auto
  have "list_all (digit_below 10) (dec_pad w n)"
    using dec_pad_isdigit isdigit_below by (auto simp: list_all_iff)
  moreover have "\<not> isspace (hd (dec_pad w n))" "hd (dec_pad w n) \<notin> {CHR ''-'', CHR ''+''}"
    using isdigit_plain [OF dec_pad_isdigit [OF hd_in_set [OF s]]] by auto
  moreover have "num_of 10 (dec_pad w n) = int n"
    by (simp add: dec_pad_def num_of_zeros dec_num)
  ultimately show ?thesis
    using strto_digits(1) [OF s, of 10] by simp
qed

lemma dec_pad_cstr: "cstr (dec_pad w n) = dec_pad w n"
  using dec_pad_isdigit isdigit_plain by (intro cstr_no_nul) (auto simp: NUL_def)

lemma num_loop_prefix:
  assumes "\<forall>c \<in> set s. isdigit c" "\<not> nl_haveZero st" "\<not> nl_zeroProhib st" "\<not> nl_lastNotDigit st"
  obtains st' where "getNum_loop z st (s @ r) = getNum_loop z st' r" "nl_ret st' = nl_ret st @ s" "nl_dot st' = nl_dot st"
    "nl_e st' = nl_e st" "nl_loc st' = nl_loc st + length s" "\<not> nl_haveZero st'" "\<not> nl_zeroProhib st'" "\<not> nl_lastNotDigit st'"
proof -
  have "\<exists>st'. getNum_loop z st (s @ r) = getNum_loop z st' r \<and> nl_ret st' = nl_ret st @ s \<and> nl_dot st' = nl_dot st \<and>
    nl_e st' = nl_e st \<and> nl_loc st' = nl_loc st + length s \<and> \<not> nl_haveZero st' \<and> \<not> nl_zeroProhib st' \<and> \<not> nl_lastNotDigit st'"
    using assms
  proof (induction s arbitrary: st)
    case Nil
    then show ?case
      by auto
  next
    case (Cons c s)
    have c: "isdigit c" "\<not> ends_value c" "c \<notin> {CHR ''e'', CHR ''E'', CHR ''.'', CHR ''+'', CHR ''-''}"
      using Cons.prems(1) by (auto simp: isdigit_def ends_value_def json_ws_def LF_def CR_def TAB_def)
    define st1 where "st1 = num_put c st"
    have st: "num_step z c st = Some st1" "\<not> nl_haveZero st1" "\<not> nl_zeroProhib st1"
      "\<not> nl_lastNotDigit st1" "nl_ret st1 = nl_ret st @ [c]" "nl_dot st1 = nl_dot st" "nl_e st1 = nl_e st"
      "nl_loc st1 = Suc (nl_loc st)"
      using Cons.prems(2-) c by (auto simp: num_step_def num_put_def st1_def)
    show ?case
      using Cons.IH [of st1] Cons.prems(1) c st by fastforce
  qed
  then show ?thesis
    using that by blast
qed

lemma getNum_frac:
  assumes "0 < n" "f \<noteq> []" "\<forall>c \<in> set f. isdigit c"
  shows "getNum (dec n @ ''.'' @ f) = Some (dec n @ ''.'' @ f, length (dec n), 0, [])"
proof -
  obtain c s where d: "dec n = c # s" "isdigit c" "\<forall>c \<in> set s. isdigit c" "c = CHR ''0'' \<longleftrightarrow> n = 0" "n = 0 \<longrightarrow> s = []"
    using dec_cons [of n] .
  have m: "c \<noteq> CHR ''-''"
    using d(2) by (auto simp: isdigit_def)
  define st where "st = \<lparr>nl_ret = [c], nl_dot = 0, nl_e = 0, nl_haveZero = False, nl_lastNotDigit = False,
      nl_zeroProhib = False, nl_loc = 1\<rparr>"
  obtain st' where st': "getNum_loop 0 st (s @ ''.'' @ f) = getNum_loop 0 st' (''.'' @ f)" "nl_ret st' = [c] @ s" "nl_dot st' = 0"
    "nl_e st' = 0" "nl_loc st' = 1 + length s" "\<not> nl_haveZero st'" "\<not> nl_zeroProhib st'" "\<not> nl_lastNotDigit st'"
    using num_loop_prefix [of s st 0 "''.'' @ f"] d(3) by (auto simp: st_def)
  have "getNum_loop 0 st' (''.'' @ f) = Some ([c] @ s @ ''.'' @ f, 1 + length s, 0, [])"
    using st' num_loop_digits [OF assms(3), of "st'\<lparr>nl_dot := nl_loc st', nl_haveZero := False, nl_zeroProhib := False,
      nl_lastNotDigit := True, nl_ret := nl_ret st' @ ''.'', nl_loc := nl_loc st' + 1\<rparr>" 0] assms(2)
    by (simp add: num_step_def num_put_def ends_value_def json_ws_def LF_def CR_def TAB_def)
  then show ?thesis
    using st'(1) d m assms(1) by (simp add: getNum_def Let_def st_def)
qed

definition interval_doc :: "TimeInterval_t \<Rightarrow> jsonValueBase" where
  "interval_doc t = int_doc (scaledNanoseconds t)"

lemma val_interval [json_vals]: "json_val (writes to_TimeInterval) from_TimeInterval (\<lambda>_. True) (\<lambda>v _. v) interval_doc"
proof unfold_locales
  fix v v0 :: TimeInterval_t and name ms
  have "getInt64 (int_doc (scaledNanoseconds v)) False = Some (scaledNanoseconds v)"
    using getInt64_dec [of "sint (scaledNanoseconds v)"] sint_lt [of "scaledNanoseconds v"] sint_ge [of "scaledNanoseconds v"]
    by (simp add: int_doc_def)
  then show "name \<noteq> [] \<Longrightarrow> member_get name ms = Some (norm (interval_doc v)) \<Longrightarrow> from_TimeInterval name v0 ms = (True, v, ms)"
    by (simp add: from_TimeInterval_def GET_NUM_def interval_doc_def int_doc_def)
qed (simp_all add: writes_def to_TimeInterval_def procInt_def put_number [of _ _ 0 0] interval_doc_def int_doc_def getNum_dec_int)

definition stamp_ok :: "Timestamp_t \<Rightarrow> bool" where
  "stamp_ok t \<longleftrightarrow> 0 < unat (secondsField t) \<and> unat (secondsField t) < 2 ^ 63 \<and> unat (nanosecondsField t) < 10 ^ 9"

definition stamp_doc :: "Timestamp_t \<Rightarrow> jsonValueBase" where
  "stamp_doc t = jNumber (Timestamp_string t) (length (dec (unat (secondsField t)))) 0"

lemma uint_below: "unat w < k \<Longrightarrow> uint w < int k"
  by (metis of_nat_less_iff of_nat_unat)

lemma stamp_frac:
  assumes "stamp_ok t"
  shows "getFrac (stamp_doc t) 9 = Some (secondsField t, ucast (nanosecondsField t))"
proof -
  let ?n = "unat (secondsField t)" and ?f = "unat (nanosecondsField t)"
  have f: "strto_parts 10 (dec_pad 9 ?f) = (False, int ?f, [])" "length (dec_pad 9 ?f) = 9"
    using assms strto_dec_pad [of ?f 9] length_dec_pad [of ?f 9] by (simp_all add: stamp_ok_def)
  have n: "strto_parts 10 (dec ?n) = (False, int ?n, [])"
    by (rule strto_dec) simp
  have b: "uint (nanosecondsField t) < 2 ^ 64" "uint (secondsField t) \<le> 2 ^ 63 - 1"
    using assms unsigned_less [of "nanosecondsField t", where 'a = int] uint_below [of "secondsField t" "2 ^ 63"]
    by (auto simp: stamp_ok_def)
  show ?thesis
    using assms f n b dec_start(1) [of ?n]
    by (simp add: getFrac_def stamp_doc_def Timestamp_string_def dec_cstr dec_pad_cstr strtoimax_def strtoumax_def stamp_ok_def)
qed

lemma val_stamp [json_vals]: "json_val (writes to_Timestamp) (from_Timestamp je) stamp_ok (\<lambda>v _. v) stamp_doc"
proof unfold_locales
  fix v v0 name ms
  assume v: "stamp_ok v"
  have "dec_pad 9 (unat (nanosecondsField v)) \<noteq> []"
    using length_dec_pad [of "unat (nanosecondsField v)" 9] v by (auto simp: stamp_ok_def)
  then show "raw_ok (stamp_doc v)"
    using getNum_frac [of "unat (secondsField v)" "dec_pad 9 (unat (nanosecondsField v))"] v dec_pad_isdigit
    by (simp add: stamp_doc_def Timestamp_string_def stamp_ok_def)
  have "uint (secondsField v) < 2 ^ 63"
    using v uint_below [of "secondsField v" "2 ^ 63"] by (simp add: stamp_ok_def)
  then have "sint (secondsField v) = uint (secondsField v)"
    using signed_take_bit_int_eq_self [of 63 "uint (secondsField v)"] uint_ge_0 [of "secondsField v"] by (simp add: sint_uint)
  moreover have "0 < uint (secondsField v)"
    using v by (metis of_nat_0_less_iff of_nat_unat stamp_ok_def)
  ultimately have "0 < sint (secondsField v)"
    by simp
  then show "name \<noteq> [] \<Longrightarrow> member_get name ms = Some (norm (stamp_doc v)) \<Longrightarrow> from_Timestamp je name v0 ms = (True, v, ms)"
    using stamp_frac [OF v] cast_back(1) [of "nanosecondsField v"] by (simp add: from_Timestamp_def GET_NUM_def stamp_doc_def)
next
  fix v :: Timestamp_t and name st
  show "writes to_Timestamp name v st = (True, v, put_item name (stamp_doc v) st)"
    using put_number [of name "Timestamp_string v" "length (dec (unat (secondsField v)))" 0]
    by (simp add: stamp_doc_def writes_def to_Timestamp_def)
qed

end
