(* ===== verification/Json_Structs.thy ===== *)
theory Json_Structs
  imports Json_Codec
begin

unbundle bit_operations_syntax

text \<open>
  The contract of values for octet strings, identities, the structures of \<^verbatim>\<open>types.h\<close> and the arrays of
  them, and, at the end, for all functions of the two tables of \<open>JsonProc\<close>.
\<close>

subsection \<open>Octet strings\<close>

lemma hexdig_raw: "n < 16 \<Longrightarrow> raw [hexdig n]"
proof -
  have "list_all (\<lambda>n. raw [hexdig n]) [0..<16]"
    by code_simp
  then show "n < 16 \<Longrightarrow> raw [hexdig n]"
    by (simp add: list_all_iff)
qed

lemma hex2_raw: "raw (hex2 x)"
  using hexdig_raw [of "unat x div 16"] hexdig_raw [of "unat x mod 16"] by (simp add: hex2_def raw_def)

lemma raw_marks [simp]: "raw []" "raw '':''" "raw ''.''"
  by code_simp+

lemma bufToId_raw: "raw (bufToId '':'' xs)"
proof (induction "'':''" xs rule: bufToId.induct)
  case (3 x y r)
  then show ?case
    using raw_marks(2) raw_append [of "'':''" "bufToId '':'' (y # r)"] hex2_raw by simp
qed (simp_all add: hex2_raw)

lemma bufToHex_raw: "raw (bufToHex xs)"
  by (induction xs) (auto simp: bufToHex_def hex2_raw)

lemma id_octets_back: "xs \<noteq> [] \<Longrightarrow> id_octets (bufToId '':'' xs) = Some xs"
proof -
  assume xs: "xs \<noteq> []"
  have sep: "'':'' \<noteq> []" "set '':'' \<subseteq> set idsep"
    by (simp_all add: idsep_def)
  have "cstr (bufToId '':'' xs) = bufToId '':'' xs"
    using bufToId_chars [OF _ sep(2)] by (auto intro!: cstr_no_nul)
  then show ?thesis
    using length_bufToId [OF xs, of "'':''"] collected_set [OF new_Binary_ok(1), of xs]
    by (simp add: id_octets_def found_def fromId_def tokens_id [OF sep] parseBytes_hex)
qed

definition bin_ok :: "octets \<times> uint16_t \<Rightarrow> bool" where
  "bin_ok v \<longleftrightarrow> fst v \<noteq> [] \<and> snd v = of_nat (length (fst v))"

definition bin_doc :: "octets \<Rightarrow> jsonValueBase" where
  "bin_doc xs = jString (bufToId '':'' xs)"

lemma val_bin: "json_val (writes (\<lambda>n v. to_Binary n (fst v))) from_Binary bin_ok (\<lambda>v _. v) (\<lambda>v. bin_doc (fst v))"
  using id_octets_back bufToId_raw
  by unfold_locales (auto simp: writes_def to_Binary_def put_string bin_doc_def bin_ok_def from_Binary_def split: prod.splits)

lemma val_octets:
  assumes "0 < n"
  shows "json_val (writes (\<lambda>name v. to_Binary name (take n v))) (from_octets n) (\<lambda>v. length v = n) (\<lambda>v _. v) (\<lambda>v. bin_doc (take n v))"
  using val_string [of "\<lambda>v. length v = n" "\<lambda>s. sized n (id_octets s)" "\<lambda>v. bufToId '':'' (take n v)" "\<lambda>v. v"]
    id_octets_back bufToId_raw assms
  by (force simp: bin_doc_def to_Binary_def from_octets_def sized_def)

definition id_ok :: "ClockIdentity_t \<Rightarrow> bool" where
  "id_ok c \<longleftrightarrow> length (ci_v c) = ClockIdentity_size"

definition id_doc :: "ClockIdentity_t \<Rightarrow> jsonValueBase" where
  "id_doc c = jString (ClockIdentity_string c)"

lemma hex_octets_dots:
  assumes "a \<noteq> []" "b \<noteq> []" "c \<noteq> []"
  shows "hex_octets (bufToHex a @ ''.'' @ bufToHex b @ ''.'' @ bufToHex c) = Some (a @ b @ c)"
proof -
  let ?s = "bufToHex a @ ''.'' @ bufToHex b @ ''.'' @ bufToHex c"
  have n: "bufToHex x \<noteq> []" if "x \<noteq> []" for x
    using that by (cases x) (simp_all add: bufToHex_def hex2_def)
  have "cstr ?s = ?s"
    using bufToHex_chars by (intro cstr_no_nul) auto
  moreover have "tokens idsep ?s = [bufToHex a, bufToHex b, bufToHex c]"
    using tokens_Cons [OF n [OF assms(1)], of idsep "''.''"] tokens_Cons [OF n [OF assms(2)], of idsep "''.''"]
      tokens_one [OF n [OF assms(3)], of idsep] bufToHex_chars by (simp add: idsep_def)
  ultimately show ?thesis
    using collected_set [OF new_Binary_ok(1), of "a @ b @ c"] n [OF assms(1)]
    by (simp add: hex_octets_def found_def fromHex_def parseNibbles_hex)
qed

lemma read_id: "id_ok c \<Longrightarrow> read_ClockIdentity (ClockIdentity_string c) = Some c"
proof -
  assume c: "id_ok c"
  let ?x = "ci_v c"
  have "take 3 ?x \<noteq> []" "take 2 (drop 3 ?x) \<noteq> []" "take 3 (drop 5 ?x) \<noteq> []"
    using c by (auto simp: id_ok_def ClockIdentity_size_def)
  moreover have "take 3 ?x @ take 2 (drop 3 ?x) @ take 3 (drop 5 ?x) = ?x"
    using c append_take_drop_id [of 3 ?x] append_take_drop_id [of 2 "drop 3 ?x"]
    by (simp add: id_ok_def ClockIdentity_size_def)
  ultimately show ?thesis
    using c hex_octets_dots by (simp add: read_ClockIdentity_def ClockIdentity_string_def sized_def id_ok_def)
qed

lemma id_raw: "raw (ClockIdentity_string c)"
  using bufToHex_raw by (simp add: ClockIdentity_string_def) (simp add: raw_def DQ_def BS_def NUL_def)

lemma val_id [json_vals]:
  "json_val (writes (\<lambda>n v. procString n (ClockIdentity_string v))) (GET_STR read_ClockIdentity) id_ok (\<lambda>v _. v) id_doc"
  using val_string [of id_ok read_ClockIdentity ClockIdentity_string "\<lambda>v. v"] read_id id_raw by (simp add: id_doc_def [abs_def])

subsection \<open>Structures\<close>

text \<open>
  A structure is a sequence of fields in an object. What is written from a list of fields in one order may
  be read in another.
\<close>

lemma fields_conv:
  assumes "json_fields w r ok cp items" "\<And>d. ok2 d \<Longrightarrow> ok d" "\<And>d d0. ok2 d \<Longrightarrow> cp d d0 = cp2 d d0" "\<And>d. items d = items2 d"
  shows "json_fields w r ok2 cp2 items2"
proof unfold_locales
  fix d d0 st ms
  assume d: "ok2 d"
  then show "w d st = (True, d, put_items (items2 d) st)" "raw_members (items2 d)"
    using json_fields.puts [OF assms(1)] json_fields.items_ok [OF assms(1)] assms(2,4) by auto
  show "has ms (items2 d) \<Longrightarrow> r d0 ms = (True, cp2 d d0, ms)"
    using json_fields.gets [OF assms(1) assms(2) [OF d], of ms d0] assms(3) [OF d] assms(4) by simp
qed

lemma fields_swap:
  assumes "json_fields wa ra oka cpa ia" "json_fields wb rb okb cpb ib"
  shows "json_fields (jand [wa, wb]) (jand [rb, ra]) (\<lambda>d. oka d \<and> okb d) (\<lambda>d d0. cpa d (cpb d d0)) (\<lambda>d. ia d @ ib d)"
proof unfold_locales
  fix d d0 st ms
  assume d: "oka d \<and> okb d"
  then show "jand [wa, wb] d st = (True, d, put_items (ia d @ ib d) st)" "raw_members (ia d @ ib d)"
    using json_fields.puts [OF assms(1)] json_fields.puts [OF assms(2)]
      json_fields.items_ok [OF assms(1)] json_fields.items_ok [OF assms(2)] by (simp_all add: put_append)
  show "has ms (ia d @ ib d) \<Longrightarrow> jand [rb, ra] d0 ms = (True, cpa d (cpb d d0), ms)"
    using d json_fields.gets [OF assms(2), of d ms d0] json_fields.gets [OF assms(1), of d ms "cpb d d0"] by simp
qed

lemma norm_object:
  assumes "distinct (map fst its)"
  obtains ms where "norm (jObject its) = jObject ms" "has ms its"
  using has_members [OF assms] by simp

lemma obj_getObj_simp [simp]: "member_get k ms = Some (jObject os) \<Longrightarrow> obj_getObj k ms = Some os"
  by (simp add: obj_getObj_def getObj_def)

lemma val_object:
  assumes "json_fields ws r ok cp items" "\<And>d. distinct (map fst (items d))"
    and "\<And>name d st. w name d st = closeObject (snd (snd (ws d (procObject name st))))"
  shows "json_val (writes w) (GET_OBJ r) ok cp (\<lambda>d. jObject (items d))"
proof unfold_locales
  fix v v0 name st ms
  assume v: "ok v"
  then show "writes w name v st = (True, v, put_item name (jObject (items v)) st)" "raw_ok (jObject (items v))"
    using json_fields.puts [OF assms(1) v] json_fields.items_ok [OF assms(1) v] assms(3) by (simp_all add: writes_def put_object)
  obtain os where "norm (jObject (items v)) = jObject os" "has os (items v)"
    using norm_object [OF assms(2)] .
  then show "member_get name ms = Some (norm (jObject (items v))) \<Longrightarrow> GET_OBJ r name v0 ms = (True, cp v v0, ms)"
    using json_fields.gets [OF assms(1) v] by (simp add: GET_OBJ_def)
qed

text \<open>An element of an array.\<close>

definition json_elem :: "('v \<Rightarrow> ToJson \<Rightarrow> ToJson) \<Rightarrow> (jsonValueBase \<Rightarrow> 'v option) \<Rightarrow> ('v \<Rightarrow> bool) \<Rightarrow> ('v \<Rightarrow> 'v) \<Rightarrow>
    ('v \<Rightarrow> jsonValueBase) \<Rightarrow> bool" where
  "json_elem w r ok img doc \<longleftrightarrow>
     (\<forall>v. ok v \<longrightarrow> w v = put_bare (doc v) \<and> r (norm (doc v)) = Some (img v) \<and> raw_ok (doc v))"

lemma elem_object:
  assumes "json_fields ws r ok cp items" "\<And>d. distinct (map fst (items d))"
    and "\<And>d st. w d st = closeObject (snd (snd (ws d (startObject st))))"
  shows "json_elem w (element_obj r new) ok (\<lambda>d. cp d new) (\<lambda>d. jObject (items d))"
  unfolding json_elem_def
proof (intro allI impI conjI)
  fix v
  assume v: "ok v"
  then show "w v = put_bare (jObject (items v))" "raw_ok (jObject (items v))"
    using json_fields.puts [OF assms(1) v] json_fields.items_ok [OF assms(1) v] assms(3)
    by (simp_all add: fun_eq_iff put_bare_object)
  obtain os where "norm (jObject (items v)) = jObject os" "has os (items v)"
    using norm_object [OF assms(2)] .
  then show "element_obj r new (norm (jObject (items v))) = Some (cp v new)"
    using json_fields.gets [OF assms(1) v] by (simp add: element_obj_def getObj_def)
qed

lemma elem_conv:
  assumes "json_elem w r ok img doc" "\<And>v. ok2 v \<Longrightarrow> ok v \<and> img v = img2 v" "\<And>v. doc v = doc2 v"
  shows "json_elem w r ok2 img2 doc2"
  using assms by (simp add: json_elem_def)

lemma read_elements_back:
  assumes "json_elem w r ok img doc" "list_all ok xs"
  shows "read_elements r (map (norm \<circ> doc) xs) acc = (True, acc @ map img xs)"
  using assms by (induction xs arbitrary: acc) (auto simp: json_elem_def)

lemma raw_elements_all: "raw_elements es \<longleftrightarrow> list_all raw_ok es"
  by (induction es) auto

lemma val_array:
  assumes "json_elem w r ok img doc"
  shows "json_val (writes (procVector w)) (from_array r) (list_all ok) (\<lambda>v v0. v0 @ map img v) (\<lambda>v. jArray (map doc v))"
proof unfold_locales
  fix v v0 :: "'a list" and name st ms
  assume v: "list_all ok v"
  then have "procVector w name v st = put_item name (jArray (map doc v)) st"
    using assms by (intro put_vector) (simp add: json_elem_def list_all_iff)
  then show "writes (procVector w) name v st = (True, v, put_item name (jArray (map doc v)) st)"
    by (simp add: writes_def)
  show "raw_ok (jArray (map doc v))"
    using assms v by (simp add: raw_elements_all json_elem_def list_all_iff)
  show "from_array r name v0 ms = (True, v0 @ map img v, ms)" if "member_get name ms = Some (norm (jArray (map doc v)))"
    using that read_elements_back [OF assms v, of v0] by (simp add: from_array_def obj_getArr_def getArr_def norm_parts)
qed

end
