(* ===== verification/Json_Tables.thy ===== *)
theory Json_Tables
  imports Json_Structs
begin

unbundle bit_operations_syntax

text \<open>
  The structures of \<^verbatim>\<open>types.h\<close> and the arrays of them as JSON values, and the contract of every
  function of the two tables of \<open>JsonProc\<close>: what \<open>JsonProcToJson\<close> writes, \<open>JsonProcFrom\<close> reads.
\<close>

subsection \<open>Structures\<close>

definition port_ok :: "PortIdentity_t \<Rightarrow> bool" where
  "port_ok p \<longleftrightarrow> id_ok (PortIdentity_t.clockIdentity p)"

definition port_items :: "PortIdentity_t \<Rightarrow> json_members" where
  "port_items p = [(''clockIdentity'', id_doc (PortIdentity_t.clockIdentity p)), (''portNumber'', uint_doc (PortIdentity_t.portNumber p))]"

lemmas raw_eval = raw_def DQ_def BS_def NUL_def

lemma fields_port: "json_fields (jand
     [PROC_VAL (writes (\<lambda>n v. procString n (ClockIdentity_string v))) ''clockIdentity'' PortIdentity_t.clockIdentity PortIdentity_t.clockIdentity_update,
      PROC_VAL (writes procUint) ''portNumber'' PortIdentity_t.portNumber PortIdentity_t.portNumber_update])
   fields_PortIdentity port_ok (\<lambda>p _. p) port_items"
  unfolding fields_PortIdentity_def
  by (rule fields_conv)
    ((rule fields_Cons fields_val fields_Nil val_id val_uint | simp add: raw_eval port_ok_def port_items_def)+)

interpretation port_fields: json_fields "jand
     [PROC_VAL (writes (\<lambda>n v. procString n (ClockIdentity_string v))) ''clockIdentity'' PortIdentity_t.clockIdentity PortIdentity_t.clockIdentity_update,
      PROC_VAL (writes procUint) ''portNumber'' PortIdentity_t.portNumber PortIdentity_t.portNumber_update]"
   fields_PortIdentity port_ok "\<lambda>p _. p" port_items
  by (rule fields_port)

lemmas struct_simps = writes_def PROC_VAL_def put_object put_bare_object

lemma val_port [json_vals]: "json_val (writes to_PortIdentity) from_PortIdentity port_ok (\<lambda>p _. p) (\<lambda>p. jObject (port_items p))"
  unfolding from_PortIdentity_def
  by (rule val_object [OF port_fields.json_fields_axioms]) (simp_all add: port_items_def to_PortIdentity_def struct_simps)

interpretation port_value: json_val "writes to_PortIdentity" from_PortIdentity port_ok "\<lambda>p _. p" "\<lambda>p. jObject (port_items p)"
  by (rule val_port)

definition address_ok :: "PortAddress_t \<Rightarrow> bool" where
  "address_ok a \<longleftrightarrow> PortAddress_t.networkProtocol a \<in> set netProt_range \<and>
     bin_ok (PortAddress_t.addressField a, PortAddress_t.addressLength a)"

definition address_items :: "PortAddress_t \<Rightarrow> json_members" where
  "address_items a = [(''networkProtocol'', jString (netProt2str (PortAddress_t.networkProtocol a))),
     (''addressField'', bin_doc (PortAddress_t.addressField a))]"

lemma fields_address_bin: "json_fields
     (\<lambda>d st. (True, d, to_Binary ''addressField'' (PortAddress_t.addressField d) st))
     (\<lambda>d ms. case from_Binary ''addressField'' (PortAddress_t.addressField d, PortAddress_t.addressLength d) ms of
         (ok, (v, l), ms') \<Rightarrow> (ok, d\<lparr>PortAddress_t.addressField := v, PortAddress_t.addressLength := l\<rparr>, ms'))
     (\<lambda>d. bin_ok (PortAddress_t.addressField d, PortAddress_t.addressLength d))
     (\<lambda>d d0. d0\<lparr>PortAddress_t.addressField := PortAddress_t.addressField d, PortAddress_t.addressLength := PortAddress_t.addressLength d\<rparr>)
     (\<lambda>d. [(''addressField'', bin_doc (PortAddress_t.addressField d))])"
  using json_val.puts [OF val_bin] json_val.gets [OF val_bin] json_val.doc_ok [OF val_bin]
  by unfold_locales (auto simp: writes_def raw_eval)

lemma fields_address: "json_fields (jand
     [PROC_VAL (writes (\<lambda>n v. procString n (netProt2str v))) ''networkProtocol'' PortAddress_t.networkProtocol PortAddress_t.networkProtocol_update,
      (\<lambda>d st. (True, d, to_Binary ''addressField'' (PortAddress_t.addressField d) st))])
   from_PortAddress address_ok (\<lambda>a _. a) address_items"
  unfolding from_PortAddress_def from_netProt_def
  by (rule fields_conv)
    ((rule fields_Cons fields_val fields_address_bin fields_Nil val_enums | simp add: raw_eval address_ok_def address_items_def)+)

lemma val_address [json_vals]:
  "json_val (writes (named to_PortAddress)) (GET_OBJ from_PortAddress) address_ok (\<lambda>a _. a) (\<lambda>a. jObject (address_items a))"
  by (rule val_object [OF fields_address])
    (simp_all add: address_items_def named_def to_PortAddress_def struct_simps procObject_def)

lemma elem_address:
  "json_elem to_PortAddress (element_obj from_PortAddress new) address_ok (\<lambda>a. a) (\<lambda>a. jObject (address_items a))"
  by (rule elem_object [OF fields_address]) (simp_all add: address_items_def to_PortAddress_def struct_simps)

definition quality_ok :: "ClockQuality_t \<Rightarrow> bool" where
  "quality_ok q \<longleftrightarrow> acc_ok (ClockQuality_t.clockAccuracy q)"

definition quality_items :: "ClockQuality_t \<Rightarrow> json_members" where
  "quality_items q = [(''clockClass'', uint_doc (ClockQuality_t.clockClass q)),
     (''clockAccuracy'', acc_doc (ClockQuality_t.clockAccuracy q)),
     (''offsetScaledLogVariance'', uint_doc (ClockQuality_t.offsetScaledLogVariance q))]"

lemma fields_quality: "json_fields (jand
     [PROC_VAL (writes procUint) ''clockClass'' ClockQuality_t.clockClass ClockQuality_t.clockClass_update,
      PROC_VAL (writes to_clockAccuracy) ''clockAccuracy'' ClockQuality_t.clockAccuracy ClockQuality_t.clockAccuracy_update,
      PROC_VAL (writes procUint) ''offsetScaledLogVariance'' ClockQuality_t.offsetScaledLogVariance ClockQuality_t.offsetScaledLogVariance_update])
   fields_ClockQuality quality_ok (\<lambda>q _. q) quality_items"
  unfolding fields_ClockQuality_def
  by (rule fields_conv)
    ((rule fields_Cons fields_val fields_Nil val_acc val_uint | simp add: raw_eval quality_ok_def quality_items_def)+)

lemma val_quality [json_vals]:
  "json_val (writes to_ClockQuality) from_ClockQuality quality_ok (\<lambda>q _. q) (\<lambda>q. jObject (quality_items q))"
  unfolding from_ClockQuality_def
  by (rule val_object [OF fields_quality]) (simp_all add: quality_items_def to_ClockQuality_def struct_simps)

text \<open>The length of a text is not written; what is read back has the length field of the variable it is read into.\<close>

definition text_read :: "PTPText_t \<Rightarrow> PTPText_t \<Rightarrow> PTPText_t" where
  "text_read t t0 = t0\<lparr>textField := textField t\<rparr>"

definition text_part :: "PTPText_t \<Rightarrow> PTPText_t" where
  "text_part t = t\<lparr>lengthField := 0\<rparr>"

lemma text_part_read [simp]: "text_part (text_read t t0) = text_part t" "text_part (t0\<lparr>textField := textField t\<rparr>) = text_part t"
  by (simp_all add: text_part_def text_read_def)

definition fault_ok :: "FaultRecord_t \<Rightarrow> bool" where
  "fault_ok r \<longleftrightarrow> stamp_ok (faultTime r) \<and> severityCode r \<in> set faultRec_range \<and>
     text_ok (faultName r) \<and> text_ok (faultValue r) \<and> text_ok (faultDescription r)"

definition fault_read :: "FaultRecord_t \<Rightarrow> FaultRecord_t \<Rightarrow> FaultRecord_t" where
  "fault_read r r0 = r\<lparr>faultName := text_read (faultName r) (faultName r0), faultValue := text_read (faultValue r) (faultValue r0),
     faultDescription := text_read (faultDescription r) (faultDescription r0)\<rparr>"

definition fault_part :: "FaultRecord_t \<Rightarrow> FaultRecord_t" where
  "fault_part r = r\<lparr>faultName := text_part (faultName r), faultValue := text_part (faultValue r),
     faultDescription := text_part (faultDescription r)\<rparr>"

lemma fault_part_read [simp]: "fault_part (fault_read r r0) = fault_part r"
  by (simp add: fault_part_def fault_read_def)

definition fault_items :: "FaultRecord_t \<Rightarrow> json_members" where
  "fault_items r = [(''faultRecordLength'', uint_doc (faultRecordLength r)), (''faultTime'', stamp_doc (faultTime r)),
     (''severityCode'', jString (faultRec2str (severityCode r))), (''faultName'', text_doc (faultName r)),
     (''faultValue'', text_doc (faultValue r)), (''faultDescription'', text_doc (faultDescription r))]"

lemma fields_fault: "json_fields (jand
     [PROC_VAL (writes procUint) ''faultRecordLength'' faultRecordLength faultRecordLength_update,
      PROC_VAL (writes to_Timestamp) ''faultTime'' faultTime faultTime_update,
      PROC_VAL (writes (\<lambda>n v. procString n (faultRec2str v))) ''severityCode'' severityCode severityCode_update,
      PROC_VAL (writes to_PTPText) ''faultName'' faultName faultName_update,
      PROC_VAL (writes to_PTPText) ''faultValue'' faultValue faultValue_update,
      PROC_VAL (writes to_PTPText) ''faultDescription'' faultDescription faultDescription_update])
   (from_FaultRecord je) fault_ok
   fault_read fault_items"
  unfolding from_FaultRecord_def
  by (rule fields_conv)
    ((rule fields_Cons fields_val fields_Nil val_stamp val_text val_enums val_uint | simp add: raw_eval fault_ok_def fault_items_def fault_read_def text_read_def)+)

lemma elem_fault: "json_elem to_FaultRecord (element_obj (from_FaultRecord je) new) fault_ok (\<lambda>r. fault_read r new)
    (\<lambda>r. jObject (fault_items r))"
  by (rule elem_object [OF fields_fault]) (simp_all add: fault_items_def to_FaultRecord_def struct_simps)

definition master_ok :: "AcceptableMaster_t \<Rightarrow> bool" where
  "master_ok m \<longleftrightarrow> port_ok (AcceptableMaster_t.acceptablePortIdentity m)"

definition master_items :: "AcceptableMaster_t \<Rightarrow> json_members" where
  "master_items m = [(''acceptablePortIdentity'', jObject (port_items (AcceptableMaster_t.acceptablePortIdentity m))),
     (''alternatePriority1'', uint_doc (AcceptableMaster_t.alternatePriority1 m))]"

lemma fields_master: "json_fields (jand
     [PROC_VAL (writes to_PortIdentity) ''acceptablePortIdentity'' AcceptableMaster_t.acceptablePortIdentity AcceptableMaster_t.acceptablePortIdentity_update,
      PROC_VAL (writes procUint) ''alternatePriority1'' AcceptableMaster_t.alternatePriority1 AcceptableMaster_t.alternatePriority1_update])
   from_AcceptableMaster master_ok (\<lambda>m _. m) master_items"
  unfolding from_AcceptableMaster_def
  by (rule fields_conv, rule fields_swap)
    ((rule fields_val val_port val_uint | simp add: raw_eval master_ok_def master_items_def)+)

lemma elem_master: "json_elem to_AcceptableMaster (element_obj from_AcceptableMaster new) master_ok (\<lambda>m. m)
    (\<lambda>m. jObject (master_items m))"
  by (rule elem_object [OF fields_master]) (simp_all add: master_items_def to_AcceptableMaster_def struct_simps)

definition unicast_ok :: "LinuxptpUnicastMaster_t \<Rightarrow> bool" where
  "unicast_ok m \<longleftrightarrow> port_ok (LinuxptpUnicastMaster_t.portIdentity m) \<and> quality_ok (LinuxptpUnicastMaster_t.clockQuality m) \<and>
     LinuxptpUnicastMaster_t.selected m \<in> {0, 1} \<and> LinuxptpUnicastMaster_t.portState m \<in> set us_range \<and>
     address_ok (LinuxptpUnicastMaster_t.portAddress m)"

definition unicast_items :: "LinuxptpUnicastMaster_t \<Rightarrow> json_members" where
  "unicast_items m = [(''portIdentity'', jObject (port_items (LinuxptpUnicastMaster_t.portIdentity m))),
     (''clockQuality'', jObject (quality_items (LinuxptpUnicastMaster_t.clockQuality m))),
     (''selected'', jBoolean (LinuxptpUnicastMaster_t.selected m \<noteq> 0)),
     (''portState'', jString (us2str (LinuxptpUnicastMaster_t.portState m))),
     (''priority1'', uint_doc (LinuxptpUnicastMaster_t.priority1 m)),
     (''priority2'', uint_doc (LinuxptpUnicastMaster_t.priority2 m)),
     (''portAddress'', jObject (address_items (LinuxptpUnicastMaster_t.portAddress m)))]"

lemma val_selected:
  "json_val (writes (\<lambda>n v. procBool n (v \<noteq> 0))) from_uint (\<lambda>v :: uint8_t. v \<in> {0, 1}) (\<lambda>v _. v) (\<lambda>v. jBoolean (v \<noteq> 0))"
  by unfold_locales (auto simp: writes_def put_bool from_uint_def GET_NUM_def getUint64_def)

lemma fields_unicast: "json_fields (jand
     [PROC_VAL (writes to_PortIdentity) ''portIdentity'' LinuxptpUnicastMaster_t.portIdentity LinuxptpUnicastMaster_t.portIdentity_update,
      PROC_VAL (writes to_ClockQuality) ''clockQuality'' LinuxptpUnicastMaster_t.clockQuality LinuxptpUnicastMaster_t.clockQuality_update,
      PROC_VAL (writes (\<lambda>n v. procBool n (v \<noteq> 0))) ''selected'' LinuxptpUnicastMaster_t.selected LinuxptpUnicastMaster_t.selected_update,
      PROC_VAL (writes (\<lambda>n v. procString n (us2str v))) ''portState'' LinuxptpUnicastMaster_t.portState LinuxptpUnicastMaster_t.portState_update,
      PROC_VAL (writes procUint) ''priority1'' LinuxptpUnicastMaster_t.priority1 LinuxptpUnicastMaster_t.priority1_update,
      PROC_VAL (writes procUint) ''priority2'' LinuxptpUnicastMaster_t.priority2 LinuxptpUnicastMaster_t.priority2_update,
      PROC_VAL (writes (named to_PortAddress)) ''portAddress'' LinuxptpUnicastMaster_t.portAddress LinuxptpUnicastMaster_t.portAddress_update])
   from_LinuxptpUnicastMaster unicast_ok (\<lambda>m _. m) unicast_items"
  unfolding from_LinuxptpUnicastMaster_def
  by (rule fields_conv)
    ((rule fields_Cons fields_val fields_Nil val_port val_quality val_selected val_enums val_uint val_address
      | simp add: raw_eval unicast_ok_def unicast_items_def)+)

lemma elem_unicast: "json_elem to_LinuxptpUnicastMaster (element_obj from_LinuxptpUnicastMaster new) unicast_ok (\<lambda>m. m)
    (\<lambda>m. jObject (unicast_items m))"
  by (rule elem_object [OF fields_unicast]) (simp_all add: unicast_items_def to_LinuxptpUnicastMaster_def struct_simps named_def)

lemma elem_id: "json_elem to_ClockIdentity element_ClockIdentity id_ok (\<lambda>c. c) id_doc"
  using read_id id_raw
  by (simp add: json_elem_def element_ClockIdentity_def id_doc_def to_ClockIdentity_def put_bare_def level_def indent_def emit_def fun_eq_iff)

subsection \<open>The two tables\<close>

named_theorems proc_vals

lemmas tables = JsonProcToJson_def JsonProcFrom_def JsonProc.simps from_netProt_def

lemma table_uint8_t [proc_vals]:
  "json_val (procValue_uint8_t JsonProcToJson) (procValue_uint8_t (JsonProcFrom je)) (\<lambda>_. True) (\<lambda>v _. v) uint_doc"
  unfolding tables by (rule val_uint) simp

lemma table_uint16_t [proc_vals]:
  "json_val (procValue_uint16_t JsonProcToJson) (procValue_uint16_t (JsonProcFrom je)) (\<lambda>_. True) (\<lambda>v _. v) uint_doc"
  unfolding tables by (rule val_uint) simp

lemma table_uint32_t [proc_vals]:
  "json_val (procValue_uint32_t JsonProcToJson) (procValue_uint32_t (JsonProcFrom je)) (\<lambda>_. True) (\<lambda>v _. v) uint_doc"
  unfolding tables by (rule val_uint) simp

lemma table_uint64_t [proc_vals]:
  "json_val (procValue_uint64_t JsonProcToJson) (procValue_uint64_t (JsonProcFrom je)) (\<lambda>_. True) (\<lambda>v _. v) uint_doc"
  unfolding tables by (rule val_uint) simp

lemma table_int8_t [proc_vals]:
  "json_val (procValue_int8_t JsonProcToJson) (procValue_int8_t (JsonProcFrom je)) (\<lambda>_. True) (\<lambda>v _. v) int_doc"
  unfolding tables by (rule val_int) simp

lemma table_int16_t [proc_vals]:
  "json_val (procValue_int16_t JsonProcToJson) (procValue_int16_t (JsonProcFrom je)) (\<lambda>_. True) (\<lambda>v _. v) int_doc"
  unfolding tables by (rule val_int) simp

lemma table_int32_t [proc_vals]:
  "json_val (procValue_int32_t JsonProcToJson) (procValue_int32_t (JsonProcFrom je)) (\<lambda>_. True) (\<lambda>v _. v) int_doc"
  unfolding tables by (rule val_int) simp

lemma table_int64_t [proc_vals]:
  "json_val (procValue_int64_t JsonProcToJson) (procValue_int64_t (JsonProcFrom je)) (\<lambda>_. True) (\<lambda>v _. v) int_doc"
  unfolding tables by (rule val_int) simp

lemma table_networkProtocol_e [proc_vals]:
  "json_val (procValue_networkProtocol_e JsonProcToJson) (procValue_networkProtocol_e (JsonProcFrom je)) (\<lambda>v. v \<in> set netProt_range) (\<lambda>v _. v) (\<lambda>v. jString (netProt2str v))"
  unfolding tables by (rule val_enums)

lemma table_clockAccuracy_e [proc_vals]:
  "json_val (procValue_clockAccuracy_e JsonProcToJson) (procValue_clockAccuracy_e (JsonProcFrom je)) acc_ok (\<lambda>v _. v) acc_doc"
  unfolding tables by (rule val_acc)

lemma table_faultRecord_e [proc_vals]:
  "json_val (procValue_faultRecord_e JsonProcToJson) (procValue_faultRecord_e (JsonProcFrom je)) (\<lambda>v. v \<in> set faultRec_range) (\<lambda>v _. v) (\<lambda>v. jString (faultRec2str v))"
  unfolding tables by (rule val_enums)

lemma table_timeSource_e [proc_vals]:
  "json_val (procValue_timeSource_e JsonProcToJson) (procValue_timeSource_e (JsonProcFrom je)) (\<lambda>v. v \<in> set timeSrc_values) (\<lambda>v _. v) (\<lambda>v. jString (timeSrc2str v))"
  unfolding tables by (rule val_enums)

lemma table_portState_e [proc_vals]:
  "json_val (procValue_portState_e JsonProcToJson) (procValue_portState_e (JsonProcFrom je)) (\<lambda>v. v \<in> set portState_range) (\<lambda>v _. v) (\<lambda>v. jString (portState2str v))"
  unfolding tables by (rule val_enums)

lemma table_delayMechanism_e [proc_vals]:
  "json_val (procValue_delayMechanism_e JsonProcToJson) (procValue_delayMechanism_e (JsonProcFrom je)) (\<lambda>v. v \<in> set delayMech_values) (\<lambda>v _. v) (\<lambda>v. jString (delayMech2str v))"
  unfolding tables by (rule val_enums)

lemma table_linuxptpTimeStamp_e [proc_vals]:
  "json_val (procValue_linuxptpTimeStamp_e JsonProcToJson) (procValue_linuxptpTimeStamp_e (JsonProcFrom je)) (\<lambda>v. v \<in> set ts_range) (\<lambda>v _. v) (\<lambda>v. jString (ts2str v))"
  unfolding tables by (rule val_enums)

lemma table_linuxptpPowerProfileVersion_e [proc_vals]:
  "json_val (procValue_linuxptpPowerProfileVersion_e JsonProcToJson) (procValue_linuxptpPowerProfileVersion_e (JsonProcFrom je)) (\<lambda>v. v \<in> set pwr_range) (\<lambda>v _. v) (\<lambda>v. jString (pwr2str v))"
  unfolding tables by (rule val_enums)

lemma table_linuxptpUnicastState_e [proc_vals]:
  "json_val (procValue_linuxptpUnicastState_e JsonProcToJson) (procValue_linuxptpUnicastState_e (JsonProcFrom je)) (\<lambda>v. v \<in> set us_range) (\<lambda>v _. v) (\<lambda>v. jString (us2str v))"
  unfolding tables by (rule val_enums)

lemma table_TimeInterval_t [proc_vals]:
  "json_val (procValue_TimeInterval_t JsonProcToJson) (procValue_TimeInterval_t (JsonProcFrom je)) (\<lambda>_. True) (\<lambda>v _. v) interval_doc"
  unfolding tables by (rule val_interval)

lemma table_Timestamp_t [proc_vals]:
  "json_val (procValue_Timestamp_t JsonProcToJson) (procValue_Timestamp_t (JsonProcFrom je)) stamp_ok (\<lambda>v _. v) stamp_doc"
  unfolding tables by (rule val_stamp)

lemma table_ClockIdentity_t [proc_vals]:
  "json_val (procValue_ClockIdentity_t JsonProcToJson) (procValue_ClockIdentity_t (JsonProcFrom je)) id_ok (\<lambda>v _. v) id_doc"
  unfolding tables by (rule val_id)

lemma table_PortIdentity_t [proc_vals]:
  "json_val (procValue_PortIdentity_t JsonProcToJson) (procValue_PortIdentity_t (JsonProcFrom je)) port_ok (\<lambda>v _. v) (\<lambda>v. jObject (port_items v))"
  unfolding tables by (rule val_port)

lemma table_PortAddress_t [proc_vals]:
  "json_val (procValue_PortAddress_t JsonProcToJson) (procValue_PortAddress_t (JsonProcFrom je)) address_ok (\<lambda>v _. v) (\<lambda>v. jObject (address_items v))"
  unfolding tables by (rule val_address)

lemma table_ClockQuality_t [proc_vals]:
  "json_val (procValue_ClockQuality_t JsonProcToJson) (procValue_ClockQuality_t (JsonProcFrom je)) quality_ok (\<lambda>v _. v) (\<lambda>v. jObject (quality_items v))"
  unfolding tables by (rule val_quality)

lemma table_PTPText_t [proc_vals]:
  "json_val (procValue_PTPText_t JsonProcToJson) (procValue_PTPText_t (JsonProcFrom je)) text_ok (\<lambda>v v0. v0\<lparr>textField := textField v\<rparr>) text_doc"
  unfolding tables by (rule val_text)

lemma table_binary [proc_vals]:
  "json_val (procBinary JsonProcToJson) (procBinary (JsonProcFrom je)) bin_ok (\<lambda>v _. v) (\<lambda>v. bin_doc (fst v))"
  unfolding tables by (rule val_bin)

lemma table_array_ClockIdentity_t [proc_vals]:
  "json_val (procArray_ClockIdentity_t JsonProcToJson) (procArray_ClockIdentity_t (JsonProcFrom je)) (list_all id_ok) (\<lambda>v v0. v0 @ v) (\<lambda>v. jArray (map id_doc v))"
  unfolding tables by (rule val_array [OF elem_id, simplified])

lemma table_array_PortAddress_t [proc_vals]:
  "json_val (procArray_PortAddress_t JsonProcToJson) (procArray_PortAddress_t (JsonProcFrom je)) (list_all address_ok) (\<lambda>v v0. v0 @ v) (\<lambda>v. jArray (map (\<lambda>a. jObject (address_items a)) v))"
  unfolding tables by (rule val_array [OF elem_address, simplified])

lemma table_array_FaultRecord_t [proc_vals]:
  "json_val (procArray_FaultRecord_t JsonProcToJson) (procArray_FaultRecord_t (JsonProcFrom je)) (list_all fault_ok) (\<lambda>v v0. v0 @ map (\<lambda>r. fault_read r (construct_FaultRecord (je_FaultRecord je))) v) (\<lambda>v. jArray (map (\<lambda>r. jObject (fault_items r)) v))"
  unfolding tables by (rule val_array [OF elem_fault])

lemma table_array_AcceptableMaster_t [proc_vals]:
  "json_val (procArray_AcceptableMaster_t JsonProcToJson) (procArray_AcceptableMaster_t (JsonProcFrom je)) (list_all master_ok) (\<lambda>v v0. v0 @ v) (\<lambda>v. jArray (map (\<lambda>m. jObject (master_items m)) v))"
  unfolding tables by (rule val_array [OF elem_master, simplified])

lemma table_array_LinuxptpUnicastMaster_t [proc_vals]:
  "json_val (procArray_LinuxptpUnicastMaster_t JsonProcToJson) (procArray_LinuxptpUnicastMaster_t (JsonProcFrom je)) (list_all unicast_ok) (\<lambda>v v0. v0 @ v) (\<lambda>v. jArray (map (\<lambda>m. jObject (unicast_items m)) v))"
  unfolding tables by (rule val_array [OF elem_unicast, simplified])

lemma table_octets [proc_vals]:
  "0 < n \<Longrightarrow> json_val (procOctets JsonProcToJson n) (procOctets (JsonProcFrom je) n) (\<lambda>v. length v = n) (\<lambda>v _. v) (\<lambda>v. bin_doc (take n v))"
  unfolding tables by (rule val_octets)

text \<open>Reading the flags of a mask one by one gives the octet under the mask.\<close>

lemma flag_step:
  fixes v acc :: uint8_t
  shows "(if v AND push_bit n 1 > 0 then acc OR push_bit n 1 else acc) = acc OR (v AND push_bit n 1)"
  by (rule bit_word_eqI) (auto simp: bit_simps word_gt_0 and_exp_eq_0_iff_not_bit push_bit_eq_mult)

lemma table_flag:
  assumes "msk = push_bit n 1"
  shows "json_val (procFlag JsonProcToJson msk) (procFlag (JsonProcFrom je) msk) (\<lambda>_. True) (\<lambda>v v0. v0 OR (v AND msk))
    (\<lambda>v. jBoolean (v AND msk > 0))"
  using val_flag [of msk] unfolding tables assms flag_step .

lemmas table_flags [proc_vals] = table_flag [of 1 0, simplified] table_flag [of 2 1, simplified] table_flag [of 4 2, simplified]
  table_flag [of 8 3, simplified] table_flag [of 16 4, simplified] table_flag [of 32 5, simplified]

end
