(* ===== verification/Json_Tlvs.thy ===== *)
theory Json_Tlvs
  imports Json_Tables
begin

unbundle bit_operations_syntax

text \<open>
  Every management TLV as a JSON object. \<open>printable_X\<close> says which values of a TLV have a JSON text that
  is read back: enumerators with a name, flags that the structure has, identities of eight octets,
  addresses that are not empty and whose length field agrees, time stamps with seconds, texts without
  characters that need an escape. \<open>json_codec\<close> is the contract of a TLV: \<open>JsonProcToJson\<close> writes members
  with distinct keys, and from them \<open>JsonProcFrom\<close> reads into any object that \<^verbatim>\<open>new\<close> can make, whatever its
  memory held, a value that agrees with the first one in all that JSON carries.
\<close>

definition json_codec :: "(ToJson, 'd) jstep \<Rightarrow> (json_members, 'd) jstep \<Rightarrow> ('d \<Rightarrow> bool) \<Rightarrow> ('d \<Rightarrow> 'd) \<Rightarrow> ('d \<Rightarrow> BaseMngTlv) \<Rightarrow> bool" where
  "json_codec w r ok part C \<longleftrightarrow>
     (\<forall>d. ok d \<longrightarrow> (\<exists>its. distinct (map fst its) \<and> raw_members its \<and> (\<forall>st. w d st = (True, d, put_items its st)) \<and>
        (\<forall>d0 ms. constructed (C d0) \<and> has ms its \<longrightarrow> (\<exists>d'. r d0 ms = (True, d', ms) \<and> part d' = part d))))"

lemma json_codecI:
  assumes "json_fields w r ok' cp items" "\<And>d. ok d \<Longrightarrow> ok' d" "\<And>d. distinct (map fst (items d))"
    and "\<And>d d0. ok d \<Longrightarrow> constructed (C d0) \<Longrightarrow> part (cp d d0) = part d"
  shows "json_codec w r ok part C"
  unfolding json_codec_def
proof (intro allI impI)
  fix d
  assume d: "ok d"
  show "\<exists>its. distinct (map fst its) \<and> raw_members its \<and> (\<forall>st. w d st = (True, d, put_items its st)) \<and>
      (\<forall>d0 ms. constructed (C d0) \<and> has ms its \<longrightarrow> (\<exists>d'. r d0 ms = (True, d', ms) \<and> part d' = part d))"
    using json_fields.puts [OF assms(1) assms(2) [OF d]] json_fields.gets [OF assms(1) assms(2) [OF d]]
      json_fields.items_ok [OF assms(1) assms(2) [OF d]] assms(3) assms(4) [OF d] by (intro exI [of _ "items d"]) simp
qed

text \<open>What the constructors make of the members that are not read as a whole.\<close>

lemma constructed_vectors:
  "constructed (FAULT_LOG_v d1) \<Longrightarrow> FAULT_LOG_t.faultRecords d1 = []"
  "constructed (PATH_TRACE_LIST_v d2) \<Longrightarrow> PATH_TRACE_LIST_t.pathSequence d2 = []"
  "constructed (GRANDMASTER_CLUSTER_TABLE_v d3) \<Longrightarrow> GRANDMASTER_CLUSTER_TABLE_t.PortAddress d3 = []"
  "constructed (UNICAST_MASTER_TABLE_v d4) \<Longrightarrow> UNICAST_MASTER_TABLE_t.PortAddress d4 = []"
  "constructed (ACCEPTABLE_MASTER_TABLE_v d5) \<Longrightarrow> ACCEPTABLE_MASTER_TABLE_t.list d5 = []"
  "constructed (UNICAST_MASTER_TABLE_NP_v d6) \<Longrightarrow> UNICAST_MASTER_TABLE_NP_t.unicastMasters d6 = []"
  unfolding constructed_def by (erule exE, rename_tac x, case_tac x; simp)+

lemma constructed_arrays:
  "constructed (SUBSCRIBE_EVENTS_NP_v d1) \<Longrightarrow> SUBSCRIBE_EVENTS_NP_t.bitmask d1 = replicate 64 0"
  "constructed (PORT_STATS_NP_v d2) \<Longrightarrow> length (PORT_STATS_NP_t.rxMsgType d2) = 16"
  "constructed (PORT_STATS_NP_v d2) \<Longrightarrow> length (PORT_STATS_NP_t.txMsgType d2) = 16"
  unfolding constructed_def by (erule exE, rename_tac x, case_tac x; simp add: EVENT_BITMASK_CNT_def array_of_def)+

subsection \<open>Flags and counters\<close>

lemmas flag_masks = F_LI_61_def F_LI_59_def F_UTCV_def F_PTP_def F_TTRA_def F_FTRA_def

text \<open>The events that have a name, and the counters of messages that have one.\<close>

definition events_printable :: "octets \<Rightarrow> bool" where
  "events_printable b \<longleftrightarrow> b = (b ! 0 AND 0x0f) # replicate (EVENT_BITMASK_CNT - 1) 0"

definition stat_listed :: "nat list" where
  "stat_listed = [STAT_SYNC, STAT_DELAY_REQ, STAT_PDELAY_REQ, STAT_PDELAY_RESP, STAT_FOLLOW_UP, STAT_DELAY_RESP,
     STAT_PDELAY_RESP_FOLLOW_UP, STAT_ANNOUNCE, STAT_SIGNALING, STAT_MANAGEMENT]"

definition stats_printable :: "uint64_t list \<Rightarrow> bool" where
  "stats_printable xs \<longleftrightarrow> length xs = 16"

definition stats_part :: "uint64_t list \<Rightarrow> uint64_t list" where
  "stats_part xs = map (\<lambda>i. if i \<in> set stat_listed then xs ! i else 0) [0..<16]"

subsection \<open>What can be written\<close>

definition printable_CLOCK_DESCRIPTION :: "CLOCK_DESCRIPTION_t \<Rightarrow> bool" where
  "printable_CLOCK_DESCRIPTION d \<longleftrightarrow>
     text_ok (CLOCK_DESCRIPTION_t.physicalLayerProtocol d) \<and>
     bin_ok (CLOCK_DESCRIPTION_t.physicalAddress d, CLOCK_DESCRIPTION_t.physicalAddressLength d) \<and>
     address_ok (CLOCK_DESCRIPTION_t.protocolAddress d) \<and>
     length (CLOCK_DESCRIPTION_t.manufacturerIdentity d) = 3 \<and>
     text_ok (CLOCK_DESCRIPTION_t.productDescription d) \<and>
     text_ok (CLOCK_DESCRIPTION_t.revisionData d) \<and>
     text_ok (CLOCK_DESCRIPTION_t.userDescription d) \<and>
     length (CLOCK_DESCRIPTION_t.profileIdentity d) = 6"

definition part_CLOCK_DESCRIPTION :: "CLOCK_DESCRIPTION_t \<Rightarrow> CLOCK_DESCRIPTION_t" where
  "part_CLOCK_DESCRIPTION d = d\<lparr>CLOCK_DESCRIPTION_t.physicalLayerProtocol := text_part (CLOCK_DESCRIPTION_t.physicalLayerProtocol d), CLOCK_DESCRIPTION_t.productDescription := text_part (CLOCK_DESCRIPTION_t.productDescription d), CLOCK_DESCRIPTION_t.revisionData := text_part (CLOCK_DESCRIPTION_t.revisionData d), CLOCK_DESCRIPTION_t.userDescription := text_part (CLOCK_DESCRIPTION_t.userDescription d)\<rparr>"

definition printable_USER_DESCRIPTION :: "USER_DESCRIPTION_t \<Rightarrow> bool" where
  "printable_USER_DESCRIPTION d \<longleftrightarrow>
     text_ok (USER_DESCRIPTION_t.userDescription d)"

definition part_USER_DESCRIPTION :: "USER_DESCRIPTION_t \<Rightarrow> USER_DESCRIPTION_t" where
  "part_USER_DESCRIPTION d = d\<lparr>USER_DESCRIPTION_t.userDescription := text_part (USER_DESCRIPTION_t.userDescription d)\<rparr>"

definition printable_FAULT_LOG :: "FAULT_LOG_t \<Rightarrow> bool" where
  "printable_FAULT_LOG d \<longleftrightarrow>
     list_all fault_ok (FAULT_LOG_t.faultRecords d)"

definition part_FAULT_LOG :: "FAULT_LOG_t \<Rightarrow> FAULT_LOG_t" where
  "part_FAULT_LOG d = d\<lparr>FAULT_LOG_t.faultRecords := map fault_part (FAULT_LOG_t.faultRecords d)\<rparr>"

definition printable_DEFAULT_DATA_SET :: "DEFAULT_DATA_SET_t \<Rightarrow> bool" where
  "printable_DEFAULT_DATA_SET d \<longleftrightarrow>
     quality_ok (DEFAULT_DATA_SET_t.clockQuality d) \<and>
     id_ok (DEFAULT_DATA_SET_t.clockIdentity d) \<and>
     DEFAULT_DATA_SET_t.flags d AND (1 OR 2) = DEFAULT_DATA_SET_t.flags d"

definition printable_PARENT_DATA_SET :: "PARENT_DATA_SET_t \<Rightarrow> bool" where
  "printable_PARENT_DATA_SET d \<longleftrightarrow>
     port_ok (PARENT_DATA_SET_t.parentPortIdentity d) \<and>
     quality_ok (PARENT_DATA_SET_t.grandmasterClockQuality d) \<and>
     id_ok (PARENT_DATA_SET_t.grandmasterIdentity d) \<and>
     PARENT_DATA_SET_t.flags d AND (1) = PARENT_DATA_SET_t.flags d"

definition printable_TIME_PROPERTIES_DATA_SET :: "TIME_PROPERTIES_DATA_SET_t \<Rightarrow> bool" where
  "printable_TIME_PROPERTIES_DATA_SET d \<longleftrightarrow>
     TIME_PROPERTIES_DATA_SET_t.timeSource d \<in> set timeSrc_values \<and>
     TIME_PROPERTIES_DATA_SET_t.flags d AND (F_LI_61 OR F_LI_59 OR F_UTCV OR F_PTP OR F_TTRA OR F_FTRA) = TIME_PROPERTIES_DATA_SET_t.flags d"

definition printable_PORT_DATA_SET :: "PORT_DATA_SET_t \<Rightarrow> bool" where
  "printable_PORT_DATA_SET d \<longleftrightarrow>
     port_ok (PORT_DATA_SET_t.portIdentity d) \<and>
     PORT_DATA_SET_t.portState d \<in> set portState_range \<and>
     PORT_DATA_SET_t.delayMechanism d \<in> set delayMech_values"

definition printable_SLAVE_ONLY :: "SLAVE_ONLY_t \<Rightarrow> bool" where
  "printable_SLAVE_ONLY d \<longleftrightarrow>
     SLAVE_ONLY_t.flags d AND (1) = SLAVE_ONLY_t.flags d"

definition printable_TIME :: "TIME_t \<Rightarrow> bool" where
  "printable_TIME d \<longleftrightarrow>
     stamp_ok (TIME_t.currentTime d)"

definition printable_CLOCK_ACCURACY :: "CLOCK_ACCURACY_t \<Rightarrow> bool" where
  "printable_CLOCK_ACCURACY d \<longleftrightarrow>
     acc_ok (CLOCK_ACCURACY_t.clockAccuracy d)"

definition printable_UTC_PROPERTIES :: "UTC_PROPERTIES_t \<Rightarrow> bool" where
  "printable_UTC_PROPERTIES d \<longleftrightarrow>
     UTC_PROPERTIES_t.flags d AND (F_LI_61 OR F_LI_59 OR F_UTCV) = UTC_PROPERTIES_t.flags d"

definition printable_TRACEABILITY_PROPERTIES :: "TRACEABILITY_PROPERTIES_t \<Rightarrow> bool" where
  "printable_TRACEABILITY_PROPERTIES d \<longleftrightarrow>
     TRACEABILITY_PROPERTIES_t.flags d AND (F_TTRA OR F_FTRA) = TRACEABILITY_PROPERTIES_t.flags d"

definition printable_TIMESCALE_PROPERTIES :: "TIMESCALE_PROPERTIES_t \<Rightarrow> bool" where
  "printable_TIMESCALE_PROPERTIES d \<longleftrightarrow>
     TIMESCALE_PROPERTIES_t.timeSource d \<in> set timeSrc_values \<and>
     TIMESCALE_PROPERTIES_t.flags d AND (F_PTP) = TIMESCALE_PROPERTIES_t.flags d"

definition printable_UNICAST_NEGOTIATION_ENABLE :: "UNICAST_NEGOTIATION_ENABLE_t \<Rightarrow> bool" where
  "printable_UNICAST_NEGOTIATION_ENABLE d \<longleftrightarrow>
     UNICAST_NEGOTIATION_ENABLE_t.flags d AND (1) = UNICAST_NEGOTIATION_ENABLE_t.flags d"

definition printable_PATH_TRACE_LIST :: "PATH_TRACE_LIST_t \<Rightarrow> bool" where
  "printable_PATH_TRACE_LIST d \<longleftrightarrow>
     list_all id_ok (PATH_TRACE_LIST_t.pathSequence d)"

definition printable_PATH_TRACE_ENABLE :: "PATH_TRACE_ENABLE_t \<Rightarrow> bool" where
  "printable_PATH_TRACE_ENABLE d \<longleftrightarrow>
     PATH_TRACE_ENABLE_t.flags d AND (1) = PATH_TRACE_ENABLE_t.flags d"

definition printable_GRANDMASTER_CLUSTER_TABLE :: "GRANDMASTER_CLUSTER_TABLE_t \<Rightarrow> bool" where
  "printable_GRANDMASTER_CLUSTER_TABLE d \<longleftrightarrow>
     list_all address_ok (GRANDMASTER_CLUSTER_TABLE_t.PortAddress d)"

definition printable_UNICAST_MASTER_TABLE :: "UNICAST_MASTER_TABLE_t \<Rightarrow> bool" where
  "printable_UNICAST_MASTER_TABLE d \<longleftrightarrow>
     list_all address_ok (UNICAST_MASTER_TABLE_t.PortAddress d)"

definition printable_ACCEPTABLE_MASTER_TABLE :: "ACCEPTABLE_MASTER_TABLE_t \<Rightarrow> bool" where
  "printable_ACCEPTABLE_MASTER_TABLE d \<longleftrightarrow>
     list_all master_ok (ACCEPTABLE_MASTER_TABLE_t.list d)"

definition printable_ACCEPTABLE_MASTER_TABLE_ENABLED :: "ACCEPTABLE_MASTER_TABLE_ENABLED_t \<Rightarrow> bool" where
  "printable_ACCEPTABLE_MASTER_TABLE_ENABLED d \<longleftrightarrow>
     ACCEPTABLE_MASTER_TABLE_ENABLED_t.flags d AND (1) = ACCEPTABLE_MASTER_TABLE_ENABLED_t.flags d"

definition printable_ALTERNATE_MASTER :: "ALTERNATE_MASTER_t \<Rightarrow> bool" where
  "printable_ALTERNATE_MASTER d \<longleftrightarrow>
     ALTERNATE_MASTER_t.flags d AND (1) = ALTERNATE_MASTER_t.flags d"

definition printable_ALTERNATE_TIME_OFFSET_ENABLE :: "ALTERNATE_TIME_OFFSET_ENABLE_t \<Rightarrow> bool" where
  "printable_ALTERNATE_TIME_OFFSET_ENABLE d \<longleftrightarrow>
     ALTERNATE_TIME_OFFSET_ENABLE_t.flags d AND (1) = ALTERNATE_TIME_OFFSET_ENABLE_t.flags d"

definition printable_ALTERNATE_TIME_OFFSET_NAME :: "ALTERNATE_TIME_OFFSET_NAME_t \<Rightarrow> bool" where
  "printable_ALTERNATE_TIME_OFFSET_NAME d \<longleftrightarrow>
     text_ok (ALTERNATE_TIME_OFFSET_NAME_t.displayName d)"

definition part_ALTERNATE_TIME_OFFSET_NAME :: "ALTERNATE_TIME_OFFSET_NAME_t \<Rightarrow> ALTERNATE_TIME_OFFSET_NAME_t" where
  "part_ALTERNATE_TIME_OFFSET_NAME d = d\<lparr>ALTERNATE_TIME_OFFSET_NAME_t.displayName := text_part (ALTERNATE_TIME_OFFSET_NAME_t.displayName d)\<rparr>"

definition printable_TRANSPARENT_CLOCK_PORT_DATA_SET :: "TRANSPARENT_CLOCK_PORT_DATA_SET_t \<Rightarrow> bool" where
  "printable_TRANSPARENT_CLOCK_PORT_DATA_SET d \<longleftrightarrow>
     port_ok (TRANSPARENT_CLOCK_PORT_DATA_SET_t.portIdentity d) \<and>
     TRANSPARENT_CLOCK_PORT_DATA_SET_t.flags d AND (1) = TRANSPARENT_CLOCK_PORT_DATA_SET_t.flags d"

definition printable_TRANSPARENT_CLOCK_DEFAULT_DATA_SET :: "TRANSPARENT_CLOCK_DEFAULT_DATA_SET_t \<Rightarrow> bool" where
  "printable_TRANSPARENT_CLOCK_DEFAULT_DATA_SET d \<longleftrightarrow>
     id_ok (TRANSPARENT_CLOCK_DEFAULT_DATA_SET_t.clockIdentity d) \<and>
     TRANSPARENT_CLOCK_DEFAULT_DATA_SET_t.delayMechanism d \<in> set delayMech_values"

definition printable_DELAY_MECHANISM :: "DELAY_MECHANISM_t \<Rightarrow> bool" where
  "printable_DELAY_MECHANISM d \<longleftrightarrow>
     DELAY_MECHANISM_t.delayMechanism d \<in> set delayMech_values"

definition printable_EXTERNAL_PORT_CONFIGURATION_ENABLED :: "EXTERNAL_PORT_CONFIGURATION_ENABLED_t \<Rightarrow> bool" where
  "printable_EXTERNAL_PORT_CONFIGURATION_ENABLED d \<longleftrightarrow>
     EXTERNAL_PORT_CONFIGURATION_ENABLED_t.flags d AND (1) = EXTERNAL_PORT_CONFIGURATION_ENABLED_t.flags d"

definition printable_MASTER_ONLY :: "MASTER_ONLY_t \<Rightarrow> bool" where
  "printable_MASTER_ONLY d \<longleftrightarrow>
     MASTER_ONLY_t.flags d AND (1) = MASTER_ONLY_t.flags d"

definition printable_HOLDOVER_UPGRADE_ENABLE :: "HOLDOVER_UPGRADE_ENABLE_t \<Rightarrow> bool" where
  "printable_HOLDOVER_UPGRADE_ENABLE d \<longleftrightarrow>
     HOLDOVER_UPGRADE_ENABLE_t.flags d AND (1) = HOLDOVER_UPGRADE_ENABLE_t.flags d"

definition printable_EXT_PORT_CONFIG_PORT_DATA_SET :: "EXT_PORT_CONFIG_PORT_DATA_SET_t \<Rightarrow> bool" where
  "printable_EXT_PORT_CONFIG_PORT_DATA_SET d \<longleftrightarrow>
     EXT_PORT_CONFIG_PORT_DATA_SET_t.desiredState d \<in> set portState_range \<and>
     EXT_PORT_CONFIG_PORT_DATA_SET_t.flags d AND (1) = EXT_PORT_CONFIG_PORT_DATA_SET_t.flags d"

definition printable_TIME_STATUS_NP :: "TIME_STATUS_NP_t \<Rightarrow> bool" where
  "printable_TIME_STATUS_NP d \<longleftrightarrow>
     id_ok (TIME_STATUS_NP_t.gmIdentity d)"

definition printable_GRANDMASTER_SETTINGS_NP :: "GRANDMASTER_SETTINGS_NP_t \<Rightarrow> bool" where
  "printable_GRANDMASTER_SETTINGS_NP d \<longleftrightarrow>
     quality_ok (GRANDMASTER_SETTINGS_NP_t.clockQuality d) \<and>
     GRANDMASTER_SETTINGS_NP_t.timeSource d \<in> set timeSrc_values \<and>
     GRANDMASTER_SETTINGS_NP_t.flags d AND (F_LI_61 OR F_LI_59 OR F_UTCV OR F_PTP OR F_TTRA OR F_FTRA) = GRANDMASTER_SETTINGS_NP_t.flags d"

definition printable_SUBSCRIBE_EVENTS_NP :: "SUBSCRIBE_EVENTS_NP_t \<Rightarrow> bool" where
  "printable_SUBSCRIBE_EVENTS_NP d \<longleftrightarrow>
     events_printable (SUBSCRIBE_EVENTS_NP_t.bitmask d)"

definition printable_PORT_PROPERTIES_NP :: "PORT_PROPERTIES_NP_t \<Rightarrow> bool" where
  "printable_PORT_PROPERTIES_NP d \<longleftrightarrow>
     port_ok (PORT_PROPERTIES_NP_t.portIdentity d) \<and>
     PORT_PROPERTIES_NP_t.portState d \<in> set portState_range \<and>
     PORT_PROPERTIES_NP_t.timestamping d \<in> set ts_range \<and>
     text_ok (PORT_PROPERTIES_NP_t.interface d)"

definition part_PORT_PROPERTIES_NP :: "PORT_PROPERTIES_NP_t \<Rightarrow> PORT_PROPERTIES_NP_t" where
  "part_PORT_PROPERTIES_NP d = d\<lparr>PORT_PROPERTIES_NP_t.interface := text_part (PORT_PROPERTIES_NP_t.interface d)\<rparr>"

definition printable_PORT_STATS_NP :: "PORT_STATS_NP_t \<Rightarrow> bool" where
  "printable_PORT_STATS_NP d \<longleftrightarrow>
     port_ok (PORT_STATS_NP_t.portIdentity d) \<and>
     stats_printable (PORT_STATS_NP_t.rxMsgType d) \<and>
     stats_printable (PORT_STATS_NP_t.txMsgType d)"

definition part_PORT_STATS_NP :: "PORT_STATS_NP_t \<Rightarrow> PORT_STATS_NP_t" where
  "part_PORT_STATS_NP d = d\<lparr>PORT_STATS_NP_t.rxMsgType := stats_part (PORT_STATS_NP_t.rxMsgType d),
     PORT_STATS_NP_t.txMsgType := stats_part (PORT_STATS_NP_t.txMsgType d)\<rparr>"

definition printable_PORT_SERVICE_STATS_NP :: "PORT_SERVICE_STATS_NP_t \<Rightarrow> bool" where
  "printable_PORT_SERVICE_STATS_NP d \<longleftrightarrow>
     port_ok (PORT_SERVICE_STATS_NP_t.portIdentity d)"

definition printable_UNICAST_MASTER_TABLE_NP :: "UNICAST_MASTER_TABLE_NP_t \<Rightarrow> bool" where
  "printable_UNICAST_MASTER_TABLE_NP d \<longleftrightarrow>
     list_all unicast_ok (UNICAST_MASTER_TABLE_NP_t.unicastMasters d)"

definition printable_PORT_HWCLOCK_NP :: "PORT_HWCLOCK_NP_t \<Rightarrow> bool" where
  "printable_PORT_HWCLOCK_NP d \<longleftrightarrow>
     port_ok (PORT_HWCLOCK_NP_t.portIdentity d)"

definition printable_POWER_PROFILE_SETTINGS_NP :: "POWER_PROFILE_SETTINGS_NP_t \<Rightarrow> bool" where
  "printable_POWER_PROFILE_SETTINGS_NP d \<longleftrightarrow>
     POWER_PROFILE_SETTINGS_NP_t.version d \<in> set pwr_range"

definition printable_EXTERNAL_GRANDMASTER_PROPERTIES_NP :: "EXTERNAL_GRANDMASTER_PROPERTIES_NP_t \<Rightarrow> bool" where
  "printable_EXTERNAL_GRANDMASTER_PROPERTIES_NP d \<longleftrightarrow>
     id_ok (EXTERNAL_GRANDMASTER_PROPERTIES_NP_t.gmIdentity d)"

lemmas printable_defs = printable_CLOCK_DESCRIPTION_def
  printable_USER_DESCRIPTION_def
  printable_FAULT_LOG_def
  printable_DEFAULT_DATA_SET_def
  printable_PARENT_DATA_SET_def
  printable_TIME_PROPERTIES_DATA_SET_def
  printable_PORT_DATA_SET_def
  printable_SLAVE_ONLY_def
  printable_TIME_def
  printable_CLOCK_ACCURACY_def
  printable_UTC_PROPERTIES_def
  printable_TRACEABILITY_PROPERTIES_def
  printable_TIMESCALE_PROPERTIES_def
  printable_UNICAST_NEGOTIATION_ENABLE_def
  printable_PATH_TRACE_LIST_def
  printable_PATH_TRACE_ENABLE_def
  printable_GRANDMASTER_CLUSTER_TABLE_def
  printable_UNICAST_MASTER_TABLE_def
  printable_ACCEPTABLE_MASTER_TABLE_def
  printable_ACCEPTABLE_MASTER_TABLE_ENABLED_def
  printable_ALTERNATE_MASTER_def
  printable_ALTERNATE_TIME_OFFSET_ENABLE_def
  printable_ALTERNATE_TIME_OFFSET_NAME_def
  printable_TRANSPARENT_CLOCK_PORT_DATA_SET_def
  printable_TRANSPARENT_CLOCK_DEFAULT_DATA_SET_def
  printable_DELAY_MECHANISM_def
  printable_EXTERNAL_PORT_CONFIGURATION_ENABLED_def
  printable_MASTER_ONLY_def
  printable_HOLDOVER_UPGRADE_ENABLE_def
  printable_EXT_PORT_CONFIG_PORT_DATA_SET_def
  printable_TIME_STATUS_NP_def
  printable_GRANDMASTER_SETTINGS_NP_def
  printable_SUBSCRIBE_EVENTS_NP_def
  printable_PORT_PROPERTIES_NP_def
  printable_PORT_STATS_NP_def
  printable_PORT_SERVICE_STATS_NP_def
  printable_UNICAST_MASTER_TABLE_NP_def
  printable_PORT_HWCLOCK_NP_def
  printable_POWER_PROFILE_SETTINGS_NP_def
  printable_EXTERNAL_GRANDMASTER_PROPERTIES_NP_def

lemmas part_defs = part_CLOCK_DESCRIPTION_def part_USER_DESCRIPTION_def part_FAULT_LOG_def
  part_ALTERNATE_TIME_OFFSET_NAME_def part_PORT_PROPERTIES_NP_def part_PORT_STATS_NP_def

text \<open>The text of a TLV can be written and read back.\<close>

primrec printable :: "BaseMngTlv \<Rightarrow> bool" where
  "printable (CLOCK_DESCRIPTION_v d) \<longleftrightarrow> printable_CLOCK_DESCRIPTION d"
| "printable (USER_DESCRIPTION_v d) \<longleftrightarrow> printable_USER_DESCRIPTION d"
| "printable (INITIALIZE_v d) \<longleftrightarrow> True"
| "printable (FAULT_LOG_v d) \<longleftrightarrow> printable_FAULT_LOG d"
| "printable (DEFAULT_DATA_SET_v d) \<longleftrightarrow> printable_DEFAULT_DATA_SET d"
| "printable (CURRENT_DATA_SET_v d) \<longleftrightarrow> True"
| "printable (PARENT_DATA_SET_v d) \<longleftrightarrow> printable_PARENT_DATA_SET d"
| "printable (TIME_PROPERTIES_DATA_SET_v d) \<longleftrightarrow> printable_TIME_PROPERTIES_DATA_SET d"
| "printable (PORT_DATA_SET_v d) \<longleftrightarrow> printable_PORT_DATA_SET d"
| "printable (PRIORITY1_v d) \<longleftrightarrow> True"
| "printable (PRIORITY2_v d) \<longleftrightarrow> True"
| "printable (DOMAIN_v d) \<longleftrightarrow> True"
| "printable (SLAVE_ONLY_v d) \<longleftrightarrow> printable_SLAVE_ONLY d"
| "printable (LOG_ANNOUNCE_INTERVAL_v d) \<longleftrightarrow> True"
| "printable (ANNOUNCE_RECEIPT_TIMEOUT_v d) \<longleftrightarrow> True"
| "printable (LOG_SYNC_INTERVAL_v d) \<longleftrightarrow> True"
| "printable (VERSION_NUMBER_v d) \<longleftrightarrow> True"
| "printable (TIME_v d) \<longleftrightarrow> printable_TIME d"
| "printable (CLOCK_ACCURACY_v d) \<longleftrightarrow> printable_CLOCK_ACCURACY d"
| "printable (UTC_PROPERTIES_v d) \<longleftrightarrow> printable_UTC_PROPERTIES d"
| "printable (TRACEABILITY_PROPERTIES_v d) \<longleftrightarrow> printable_TRACEABILITY_PROPERTIES d"
| "printable (TIMESCALE_PROPERTIES_v d) \<longleftrightarrow> printable_TIMESCALE_PROPERTIES d"
| "printable (UNICAST_NEGOTIATION_ENABLE_v d) \<longleftrightarrow> printable_UNICAST_NEGOTIATION_ENABLE d"
| "printable (PATH_TRACE_LIST_v d) \<longleftrightarrow> printable_PATH_TRACE_LIST d"
| "printable (PATH_TRACE_ENABLE_v d) \<longleftrightarrow> printable_PATH_TRACE_ENABLE d"
| "printable (GRANDMASTER_CLUSTER_TABLE_v d) \<longleftrightarrow> printable_GRANDMASTER_CLUSTER_TABLE d"
| "printable (UNICAST_MASTER_TABLE_v d) \<longleftrightarrow> printable_UNICAST_MASTER_TABLE d"
| "printable (UNICAST_MASTER_MAX_TABLE_SIZE_v d) \<longleftrightarrow> True"
| "printable (ACCEPTABLE_MASTER_TABLE_v d) \<longleftrightarrow> printable_ACCEPTABLE_MASTER_TABLE d"
| "printable (ACCEPTABLE_MASTER_TABLE_ENABLED_v d) \<longleftrightarrow> printable_ACCEPTABLE_MASTER_TABLE_ENABLED d"
| "printable (ACCEPTABLE_MASTER_MAX_TABLE_SIZE_v d) \<longleftrightarrow> True"
| "printable (ALTERNATE_MASTER_v d) \<longleftrightarrow> printable_ALTERNATE_MASTER d"
| "printable (ALTERNATE_TIME_OFFSET_ENABLE_v d) \<longleftrightarrow> printable_ALTERNATE_TIME_OFFSET_ENABLE d"
| "printable (ALTERNATE_TIME_OFFSET_NAME_v d) \<longleftrightarrow> printable_ALTERNATE_TIME_OFFSET_NAME d"
| "printable (ALTERNATE_TIME_OFFSET_MAX_KEY_v d) \<longleftrightarrow> True"
| "printable (ALTERNATE_TIME_OFFSET_PROPERTIES_v d) \<longleftrightarrow> True"
| "printable (TRANSPARENT_CLOCK_PORT_DATA_SET_v d) \<longleftrightarrow> printable_TRANSPARENT_CLOCK_PORT_DATA_SET d"
| "printable (LOG_MIN_PDELAY_REQ_INTERVAL_v d) \<longleftrightarrow> True"
| "printable (TRANSPARENT_CLOCK_DEFAULT_DATA_SET_v d) \<longleftrightarrow> printable_TRANSPARENT_CLOCK_DEFAULT_DATA_SET d"
| "printable (PRIMARY_DOMAIN_v d) \<longleftrightarrow> True"
| "printable (DELAY_MECHANISM_v d) \<longleftrightarrow> printable_DELAY_MECHANISM d"
| "printable (EXTERNAL_PORT_CONFIGURATION_ENABLED_v d) \<longleftrightarrow> printable_EXTERNAL_PORT_CONFIGURATION_ENABLED d"
| "printable (MASTER_ONLY_v d) \<longleftrightarrow> printable_MASTER_ONLY d"
| "printable (HOLDOVER_UPGRADE_ENABLE_v d) \<longleftrightarrow> printable_HOLDOVER_UPGRADE_ENABLE d"
| "printable (EXT_PORT_CONFIG_PORT_DATA_SET_v d) \<longleftrightarrow> printable_EXT_PORT_CONFIG_PORT_DATA_SET d"
| "printable (TIME_STATUS_NP_v d) \<longleftrightarrow> printable_TIME_STATUS_NP d"
| "printable (GRANDMASTER_SETTINGS_NP_v d) \<longleftrightarrow> printable_GRANDMASTER_SETTINGS_NP d"
| "printable (PORT_DATA_SET_NP_v d) \<longleftrightarrow> True"
| "printable (SUBSCRIBE_EVENTS_NP_v d) \<longleftrightarrow> printable_SUBSCRIBE_EVENTS_NP d"
| "printable (PORT_PROPERTIES_NP_v d) \<longleftrightarrow> printable_PORT_PROPERTIES_NP d"
| "printable (PORT_STATS_NP_v d) \<longleftrightarrow> printable_PORT_STATS_NP d"
| "printable (SYNCHRONIZATION_UNCERTAIN_NP_v d) \<longleftrightarrow> True"
| "printable (PORT_SERVICE_STATS_NP_v d) \<longleftrightarrow> printable_PORT_SERVICE_STATS_NP d"
| "printable (UNICAST_MASTER_TABLE_NP_v d) \<longleftrightarrow> printable_UNICAST_MASTER_TABLE_NP d"
| "printable (PORT_HWCLOCK_NP_v d) \<longleftrightarrow> printable_PORT_HWCLOCK_NP d"
| "printable (POWER_PROFILE_SETTINGS_NP_v d) \<longleftrightarrow> printable_POWER_PROFILE_SETTINGS_NP d"
| "printable (CMLDS_INFO_NP_v d) \<longleftrightarrow> True"
| "printable (PORT_CORRECTIONS_NP_v d) \<longleftrightarrow> True"
| "printable (EXTERNAL_GRANDMASTER_PROPERTIES_NP_v d) \<longleftrightarrow> printable_EXTERNAL_GRANDMASTER_PROPERTIES_NP d"
| "printable (SMPTE_ORGANIZATION_EXTENSION_v d) \<longleftrightarrow> False"

text \<open>
  The part of a TLV that its JSON text carries: all of it but the length fields of texts and the counters
  of messages that have no name.
\<close>

fun json_part :: "BaseMngTlv \<Rightarrow> BaseMngTlv" where
  "json_part (CLOCK_DESCRIPTION_v d) = CLOCK_DESCRIPTION_v (part_CLOCK_DESCRIPTION d)"
| "json_part (USER_DESCRIPTION_v d) = USER_DESCRIPTION_v (part_USER_DESCRIPTION d)"
| "json_part (FAULT_LOG_v d) = FAULT_LOG_v (part_FAULT_LOG d)"
| "json_part (ALTERNATE_TIME_OFFSET_NAME_v d) = ALTERNATE_TIME_OFFSET_NAME_v (part_ALTERNATE_TIME_OFFSET_NAME d)"
| "json_part (PORT_PROPERTIES_NP_v d) = PORT_PROPERTIES_NP_v (part_PORT_PROPERTIES_NP d)"
| "json_part (PORT_STATS_NP_v d) = PORT_STATS_NP_v (part_PORT_STATS_NP d)"
| "json_part t = t"

end
