(* ===== verification/Json_Tlv_Codecs.thy ===== *)
theory Json_Tlv_Codecs
  imports Json_Tlvs
begin

unbundle bit_operations_syntax

text \<open>Every TLV has the contract \<open>json_codec\<close>, by its list of fields.\<close>

lemmas codec_intros = fields_Cons fields_zero fields_bin fields_val fields_Nil proc_vals

lemmas codec_unfold = PROC_OCT_def PROC_FLG_def PROC_FLD_def PROC_EVENT_FLG_def flag_masks

lemma events_new: "events_printable b \<Longrightarrow> (replicate 64 0)[0 := b ! 0 AND 0x0f] = b"
  unfolding events_printable_def EVENT_BITMASK_CNT_def by (metis Suc_diff_1 list_update_code(2) replicate_Suc zero_less_numeral)

lemma stats_new:
  assumes "length xs = 16" "length ys = 16"
  shows "stats_part (fold (\<lambda>i ys. ys[i := xs ! i]) stat_listed ys) = stats_part xs"
  using assms by (auto simp: stats_part_def stat_listed_def stat_numbers nth_list_update)

lemmas codec_simps = raw_eval flag_masks bit.conj_disj_distrib [symmetric] constructed_vectors constructed_arrays

lemma codec_CLOCK_DESCRIPTION: "json_codec (proc_CLOCK_DESCRIPTION JsonProcToJson) (proc_CLOCK_DESCRIPTION (JsonProcFrom je)) printable_CLOCK_DESCRIPTION part_CLOCK_DESCRIPTION CLOCK_DESCRIPTION_v"
  unfolding proc_CLOCK_DESCRIPTION_def codec_unfold
  by (rule json_codecI) ((rule codec_intros | simp add: codec_simps printable_CLOCK_DESCRIPTION_def part_CLOCK_DESCRIPTION_def | rule CLOCK_DESCRIPTION_t.equality)+)

lemma codec_USER_DESCRIPTION: "json_codec (proc_USER_DESCRIPTION JsonProcToJson) (proc_USER_DESCRIPTION (JsonProcFrom je)) printable_USER_DESCRIPTION part_USER_DESCRIPTION USER_DESCRIPTION_v"
  unfolding proc_USER_DESCRIPTION_def codec_unfold
  by (rule json_codecI) ((rule codec_intros | simp add: codec_simps printable_USER_DESCRIPTION_def part_USER_DESCRIPTION_def | rule USER_DESCRIPTION_t.equality)+)

lemma codec_INITIALIZE: "json_codec (proc_INITIALIZE JsonProcToJson) (proc_INITIALIZE (JsonProcFrom je)) (\<lambda>_. True) (\<lambda>d. d) INITIALIZE_v"
  unfolding proc_INITIALIZE_def codec_unfold
  by (rule json_codecI) ((rule codec_intros | simp add: codec_simps | rule INITIALIZE_t.equality)+)

lemma codec_FAULT_LOG: "json_codec (proc_FAULT_LOG JsonProcToJson) (proc_FAULT_LOG (JsonProcFrom je)) printable_FAULT_LOG part_FAULT_LOG FAULT_LOG_v"
  unfolding proc_FAULT_LOG_def codec_unfold
  by (rule json_codecI) ((rule codec_intros | simp add: codec_simps printable_FAULT_LOG_def part_FAULT_LOG_def | rule FAULT_LOG_t.equality)+)

lemma codec_DEFAULT_DATA_SET: "json_codec (proc_DEFAULT_DATA_SET JsonProcToJson) (proc_DEFAULT_DATA_SET (JsonProcFrom je)) printable_DEFAULT_DATA_SET (\<lambda>d. d) DEFAULT_DATA_SET_v"
  unfolding proc_DEFAULT_DATA_SET_def codec_unfold
  by (rule json_codecI) ((rule codec_intros | simp add: codec_simps printable_DEFAULT_DATA_SET_def | rule DEFAULT_DATA_SET_t.equality)+)

lemma codec_CURRENT_DATA_SET: "json_codec (proc_CURRENT_DATA_SET JsonProcToJson) (proc_CURRENT_DATA_SET (JsonProcFrom je)) (\<lambda>_. True) (\<lambda>d. d) CURRENT_DATA_SET_v"
  unfolding proc_CURRENT_DATA_SET_def codec_unfold
  by (rule json_codecI) ((rule codec_intros | simp add: codec_simps | rule CURRENT_DATA_SET_t.equality)+)

lemma codec_PARENT_DATA_SET: "json_codec (proc_PARENT_DATA_SET JsonProcToJson) (proc_PARENT_DATA_SET (JsonProcFrom je)) printable_PARENT_DATA_SET (\<lambda>d. d) PARENT_DATA_SET_v"
  unfolding proc_PARENT_DATA_SET_def codec_unfold
  by (rule json_codecI) ((rule codec_intros | simp add: codec_simps printable_PARENT_DATA_SET_def | rule PARENT_DATA_SET_t.equality)+)

lemma codec_TIME_PROPERTIES_DATA_SET: "json_codec (proc_TIME_PROPERTIES_DATA_SET JsonProcToJson) (proc_TIME_PROPERTIES_DATA_SET (JsonProcFrom je)) printable_TIME_PROPERTIES_DATA_SET (\<lambda>d. d) TIME_PROPERTIES_DATA_SET_v"
  unfolding proc_TIME_PROPERTIES_DATA_SET_def codec_unfold
  by (rule json_codecI) ((rule codec_intros | simp add: codec_simps printable_TIME_PROPERTIES_DATA_SET_def | rule TIME_PROPERTIES_DATA_SET_t.equality)+)

lemma codec_PORT_DATA_SET: "json_codec (proc_PORT_DATA_SET JsonProcToJson) (proc_PORT_DATA_SET (JsonProcFrom je)) printable_PORT_DATA_SET (\<lambda>d. d) PORT_DATA_SET_v"
  unfolding proc_PORT_DATA_SET_def codec_unfold
  by (rule json_codecI) ((rule codec_intros | simp add: codec_simps printable_PORT_DATA_SET_def | rule PORT_DATA_SET_t.equality)+)

lemma codec_PRIORITY1: "json_codec (proc_PRIORITY1 JsonProcToJson) (proc_PRIORITY1 (JsonProcFrom je)) (\<lambda>_. True) (\<lambda>d. d) PRIORITY1_v"
  unfolding proc_PRIORITY1_def codec_unfold
  by (rule json_codecI) ((rule codec_intros | simp add: codec_simps | rule PRIORITY1_t.equality)+)

lemma codec_PRIORITY2: "json_codec (proc_PRIORITY2 JsonProcToJson) (proc_PRIORITY2 (JsonProcFrom je)) (\<lambda>_. True) (\<lambda>d. d) PRIORITY2_v"
  unfolding proc_PRIORITY2_def codec_unfold
  by (rule json_codecI) ((rule codec_intros | simp add: codec_simps | rule PRIORITY2_t.equality)+)

lemma codec_DOMAIN: "json_codec (proc_DOMAIN JsonProcToJson) (proc_DOMAIN (JsonProcFrom je)) (\<lambda>_. True) (\<lambda>d. d) DOMAIN_v"
  unfolding proc_DOMAIN_def codec_unfold
  by (rule json_codecI) ((rule codec_intros | simp add: codec_simps | rule DOMAIN_t.equality)+)

lemma codec_SLAVE_ONLY: "json_codec (proc_SLAVE_ONLY JsonProcToJson) (proc_SLAVE_ONLY (JsonProcFrom je)) printable_SLAVE_ONLY (\<lambda>d. d) SLAVE_ONLY_v"
  unfolding proc_SLAVE_ONLY_def codec_unfold
  by (rule json_codecI) ((rule codec_intros | simp add: codec_simps printable_SLAVE_ONLY_def | rule SLAVE_ONLY_t.equality)+)

lemma codec_LOG_ANNOUNCE_INTERVAL: "json_codec (proc_LOG_ANNOUNCE_INTERVAL JsonProcToJson) (proc_LOG_ANNOUNCE_INTERVAL (JsonProcFrom je)) (\<lambda>_. True) (\<lambda>d. d) LOG_ANNOUNCE_INTERVAL_v"
  unfolding proc_LOG_ANNOUNCE_INTERVAL_def codec_unfold
  by (rule json_codecI) ((rule codec_intros | simp add: codec_simps | rule LOG_ANNOUNCE_INTERVAL_t.equality)+)

lemma codec_ANNOUNCE_RECEIPT_TIMEOUT: "json_codec (proc_ANNOUNCE_RECEIPT_TIMEOUT JsonProcToJson) (proc_ANNOUNCE_RECEIPT_TIMEOUT (JsonProcFrom je)) (\<lambda>_. True) (\<lambda>d. d) ANNOUNCE_RECEIPT_TIMEOUT_v"
  unfolding proc_ANNOUNCE_RECEIPT_TIMEOUT_def codec_unfold
  by (rule json_codecI) ((rule codec_intros | simp add: codec_simps | rule ANNOUNCE_RECEIPT_TIMEOUT_t.equality)+)

lemma codec_LOG_SYNC_INTERVAL: "json_codec (proc_LOG_SYNC_INTERVAL JsonProcToJson) (proc_LOG_SYNC_INTERVAL (JsonProcFrom je)) (\<lambda>_. True) (\<lambda>d. d) LOG_SYNC_INTERVAL_v"
  unfolding proc_LOG_SYNC_INTERVAL_def codec_unfold
  by (rule json_codecI) ((rule codec_intros | simp add: codec_simps | rule LOG_SYNC_INTERVAL_t.equality)+)

lemma codec_VERSION_NUMBER: "json_codec (proc_VERSION_NUMBER JsonProcToJson) (proc_VERSION_NUMBER (JsonProcFrom je)) (\<lambda>_. True) (\<lambda>d. d) VERSION_NUMBER_v"
  unfolding proc_VERSION_NUMBER_def codec_unfold
  by (rule json_codecI) ((rule codec_intros | simp add: codec_simps | rule VERSION_NUMBER_t.equality)+)

lemma codec_TIME: "json_codec (proc_TIME JsonProcToJson) (proc_TIME (JsonProcFrom je)) printable_TIME (\<lambda>d. d) TIME_v"
  unfolding proc_TIME_def codec_unfold
  by (rule json_codecI) ((rule codec_intros | simp add: codec_simps printable_TIME_def | rule TIME_t.equality)+)

lemma codec_CLOCK_ACCURACY: "json_codec (proc_CLOCK_ACCURACY JsonProcToJson) (proc_CLOCK_ACCURACY (JsonProcFrom je)) printable_CLOCK_ACCURACY (\<lambda>d. d) CLOCK_ACCURACY_v"
  unfolding proc_CLOCK_ACCURACY_def codec_unfold
  by (rule json_codecI) ((rule codec_intros | simp add: codec_simps printable_CLOCK_ACCURACY_def | rule CLOCK_ACCURACY_t.equality)+)

lemma codec_UTC_PROPERTIES: "json_codec (proc_UTC_PROPERTIES JsonProcToJson) (proc_UTC_PROPERTIES (JsonProcFrom je)) printable_UTC_PROPERTIES (\<lambda>d. d) UTC_PROPERTIES_v"
  unfolding proc_UTC_PROPERTIES_def codec_unfold
  by (rule json_codecI) ((rule codec_intros | simp add: codec_simps printable_UTC_PROPERTIES_def | rule UTC_PROPERTIES_t.equality)+)

lemma codec_TRACEABILITY_PROPERTIES: "json_codec (proc_TRACEABILITY_PROPERTIES JsonProcToJson) (proc_TRACEABILITY_PROPERTIES (JsonProcFrom je)) printable_TRACEABILITY_PROPERTIES (\<lambda>d. d) TRACEABILITY_PROPERTIES_v"
  unfolding proc_TRACEABILITY_PROPERTIES_def codec_unfold
  by (rule json_codecI) ((rule codec_intros | simp add: codec_simps printable_TRACEABILITY_PROPERTIES_def | rule TRACEABILITY_PROPERTIES_t.equality)+)

lemma codec_TIMESCALE_PROPERTIES: "json_codec (proc_TIMESCALE_PROPERTIES JsonProcToJson) (proc_TIMESCALE_PROPERTIES (JsonProcFrom je)) printable_TIMESCALE_PROPERTIES (\<lambda>d. d) TIMESCALE_PROPERTIES_v"
  unfolding proc_TIMESCALE_PROPERTIES_def codec_unfold
  by (rule json_codecI) ((rule codec_intros | simp add: codec_simps printable_TIMESCALE_PROPERTIES_def | rule TIMESCALE_PROPERTIES_t.equality)+)

lemma codec_UNICAST_NEGOTIATION_ENABLE: "json_codec (proc_UNICAST_NEGOTIATION_ENABLE JsonProcToJson) (proc_UNICAST_NEGOTIATION_ENABLE (JsonProcFrom je)) printable_UNICAST_NEGOTIATION_ENABLE (\<lambda>d. d) UNICAST_NEGOTIATION_ENABLE_v"
  unfolding proc_UNICAST_NEGOTIATION_ENABLE_def codec_unfold
  by (rule json_codecI) ((rule codec_intros | simp add: codec_simps printable_UNICAST_NEGOTIATION_ENABLE_def | rule UNICAST_NEGOTIATION_ENABLE_t.equality)+)

lemma codec_PATH_TRACE_LIST: "json_codec (proc_PATH_TRACE_LIST JsonProcToJson) (proc_PATH_TRACE_LIST (JsonProcFrom je)) printable_PATH_TRACE_LIST (\<lambda>d. d) PATH_TRACE_LIST_v"
  unfolding proc_PATH_TRACE_LIST_def codec_unfold
  by (rule json_codecI) ((rule codec_intros | simp add: codec_simps printable_PATH_TRACE_LIST_def | rule PATH_TRACE_LIST_t.equality)+)

lemma codec_PATH_TRACE_ENABLE: "json_codec (proc_PATH_TRACE_ENABLE JsonProcToJson) (proc_PATH_TRACE_ENABLE (JsonProcFrom je)) printable_PATH_TRACE_ENABLE (\<lambda>d. d) PATH_TRACE_ENABLE_v"
  unfolding proc_PATH_TRACE_ENABLE_def codec_unfold
  by (rule json_codecI) ((rule codec_intros | simp add: codec_simps printable_PATH_TRACE_ENABLE_def | rule PATH_TRACE_ENABLE_t.equality)+)

lemma codec_GRANDMASTER_CLUSTER_TABLE: "json_codec (proc_GRANDMASTER_CLUSTER_TABLE JsonProcToJson) (proc_GRANDMASTER_CLUSTER_TABLE (JsonProcFrom je)) printable_GRANDMASTER_CLUSTER_TABLE (\<lambda>d. d) GRANDMASTER_CLUSTER_TABLE_v"
  unfolding proc_GRANDMASTER_CLUSTER_TABLE_def codec_unfold
  by (rule json_codecI) ((rule codec_intros | simp add: codec_simps printable_GRANDMASTER_CLUSTER_TABLE_def | rule GRANDMASTER_CLUSTER_TABLE_t.equality)+)

lemma codec_UNICAST_MASTER_TABLE: "json_codec (proc_UNICAST_MASTER_TABLE JsonProcToJson) (proc_UNICAST_MASTER_TABLE (JsonProcFrom je)) printable_UNICAST_MASTER_TABLE (\<lambda>d. d) UNICAST_MASTER_TABLE_v"
  unfolding proc_UNICAST_MASTER_TABLE_def codec_unfold
  by (rule json_codecI) ((rule codec_intros | simp add: codec_simps printable_UNICAST_MASTER_TABLE_def | rule UNICAST_MASTER_TABLE_t.equality)+)

lemma codec_UNICAST_MASTER_MAX_TABLE_SIZE: "json_codec (proc_UNICAST_MASTER_MAX_TABLE_SIZE JsonProcToJson) (proc_UNICAST_MASTER_MAX_TABLE_SIZE (JsonProcFrom je)) (\<lambda>_. True) (\<lambda>d. d) UNICAST_MASTER_MAX_TABLE_SIZE_v"
  unfolding proc_UNICAST_MASTER_MAX_TABLE_SIZE_def codec_unfold
  by (rule json_codecI) ((rule codec_intros | simp add: codec_simps | rule UNICAST_MASTER_MAX_TABLE_SIZE_t.equality)+)

lemma codec_ACCEPTABLE_MASTER_TABLE: "json_codec (proc_ACCEPTABLE_MASTER_TABLE JsonProcToJson) (proc_ACCEPTABLE_MASTER_TABLE (JsonProcFrom je)) printable_ACCEPTABLE_MASTER_TABLE (\<lambda>d. d) ACCEPTABLE_MASTER_TABLE_v"
  unfolding proc_ACCEPTABLE_MASTER_TABLE_def codec_unfold
  by (rule json_codecI) ((rule codec_intros | simp add: codec_simps printable_ACCEPTABLE_MASTER_TABLE_def | rule ACCEPTABLE_MASTER_TABLE_t.equality)+)

lemma codec_ACCEPTABLE_MASTER_TABLE_ENABLED: "json_codec (proc_ACCEPTABLE_MASTER_TABLE_ENABLED JsonProcToJson) (proc_ACCEPTABLE_MASTER_TABLE_ENABLED (JsonProcFrom je)) printable_ACCEPTABLE_MASTER_TABLE_ENABLED (\<lambda>d. d) ACCEPTABLE_MASTER_TABLE_ENABLED_v"
  unfolding proc_ACCEPTABLE_MASTER_TABLE_ENABLED_def codec_unfold
  by (rule json_codecI) ((rule codec_intros | simp add: codec_simps printable_ACCEPTABLE_MASTER_TABLE_ENABLED_def | rule ACCEPTABLE_MASTER_TABLE_ENABLED_t.equality)+)

lemma codec_ACCEPTABLE_MASTER_MAX_TABLE_SIZE: "json_codec (proc_ACCEPTABLE_MASTER_MAX_TABLE_SIZE JsonProcToJson) (proc_ACCEPTABLE_MASTER_MAX_TABLE_SIZE (JsonProcFrom je)) (\<lambda>_. True) (\<lambda>d. d) ACCEPTABLE_MASTER_MAX_TABLE_SIZE_v"
  unfolding proc_ACCEPTABLE_MASTER_MAX_TABLE_SIZE_def codec_unfold
  by (rule json_codecI) ((rule codec_intros | simp add: codec_simps | rule ACCEPTABLE_MASTER_MAX_TABLE_SIZE_t.equality)+)

lemma codec_ALTERNATE_MASTER: "json_codec (proc_ALTERNATE_MASTER JsonProcToJson) (proc_ALTERNATE_MASTER (JsonProcFrom je)) printable_ALTERNATE_MASTER (\<lambda>d. d) ALTERNATE_MASTER_v"
  unfolding proc_ALTERNATE_MASTER_def codec_unfold
  by (rule json_codecI) ((rule codec_intros | simp add: codec_simps printable_ALTERNATE_MASTER_def | rule ALTERNATE_MASTER_t.equality)+)

lemma codec_ALTERNATE_TIME_OFFSET_ENABLE: "json_codec (proc_ALTERNATE_TIME_OFFSET_ENABLE JsonProcToJson) (proc_ALTERNATE_TIME_OFFSET_ENABLE (JsonProcFrom je)) printable_ALTERNATE_TIME_OFFSET_ENABLE (\<lambda>d. d) ALTERNATE_TIME_OFFSET_ENABLE_v"
  unfolding proc_ALTERNATE_TIME_OFFSET_ENABLE_def codec_unfold
  by (rule json_codecI) ((rule codec_intros | simp add: codec_simps printable_ALTERNATE_TIME_OFFSET_ENABLE_def | rule ALTERNATE_TIME_OFFSET_ENABLE_t.equality)+)

lemma codec_ALTERNATE_TIME_OFFSET_NAME: "json_codec (proc_ALTERNATE_TIME_OFFSET_NAME JsonProcToJson) (proc_ALTERNATE_TIME_OFFSET_NAME (JsonProcFrom je)) printable_ALTERNATE_TIME_OFFSET_NAME part_ALTERNATE_TIME_OFFSET_NAME ALTERNATE_TIME_OFFSET_NAME_v"
  unfolding proc_ALTERNATE_TIME_OFFSET_NAME_def codec_unfold
  by (rule json_codecI) ((rule codec_intros | simp add: codec_simps printable_ALTERNATE_TIME_OFFSET_NAME_def part_ALTERNATE_TIME_OFFSET_NAME_def | rule ALTERNATE_TIME_OFFSET_NAME_t.equality)+)

lemma codec_ALTERNATE_TIME_OFFSET_MAX_KEY: "json_codec (proc_ALTERNATE_TIME_OFFSET_MAX_KEY JsonProcToJson) (proc_ALTERNATE_TIME_OFFSET_MAX_KEY (JsonProcFrom je)) (\<lambda>_. True) (\<lambda>d. d) ALTERNATE_TIME_OFFSET_MAX_KEY_v"
  unfolding proc_ALTERNATE_TIME_OFFSET_MAX_KEY_def codec_unfold
  by (rule json_codecI) ((rule codec_intros | simp add: codec_simps | rule ALTERNATE_TIME_OFFSET_MAX_KEY_t.equality)+)

lemma codec_ALTERNATE_TIME_OFFSET_PROPERTIES: "json_codec (proc_ALTERNATE_TIME_OFFSET_PROPERTIES JsonProcToJson) (proc_ALTERNATE_TIME_OFFSET_PROPERTIES (JsonProcFrom je)) (\<lambda>_. True) (\<lambda>d. d) ALTERNATE_TIME_OFFSET_PROPERTIES_v"
  unfolding proc_ALTERNATE_TIME_OFFSET_PROPERTIES_def codec_unfold
  by (rule json_codecI) ((rule codec_intros | simp add: codec_simps | rule ALTERNATE_TIME_OFFSET_PROPERTIES_t.equality)+)

lemma codec_TRANSPARENT_CLOCK_PORT_DATA_SET: "json_codec (proc_TRANSPARENT_CLOCK_PORT_DATA_SET JsonProcToJson) (proc_TRANSPARENT_CLOCK_PORT_DATA_SET (JsonProcFrom je)) printable_TRANSPARENT_CLOCK_PORT_DATA_SET (\<lambda>d. d) TRANSPARENT_CLOCK_PORT_DATA_SET_v"
  unfolding proc_TRANSPARENT_CLOCK_PORT_DATA_SET_def codec_unfold
  by (rule json_codecI) ((rule codec_intros | simp add: codec_simps printable_TRANSPARENT_CLOCK_PORT_DATA_SET_def | rule TRANSPARENT_CLOCK_PORT_DATA_SET_t.equality)+)

lemma codec_LOG_MIN_PDELAY_REQ_INTERVAL: "json_codec (proc_LOG_MIN_PDELAY_REQ_INTERVAL JsonProcToJson) (proc_LOG_MIN_PDELAY_REQ_INTERVAL (JsonProcFrom je)) (\<lambda>_. True) (\<lambda>d. d) LOG_MIN_PDELAY_REQ_INTERVAL_v"
  unfolding proc_LOG_MIN_PDELAY_REQ_INTERVAL_def codec_unfold
  by (rule json_codecI) ((rule codec_intros | simp add: codec_simps | rule LOG_MIN_PDELAY_REQ_INTERVAL_t.equality)+)

lemma codec_TRANSPARENT_CLOCK_DEFAULT_DATA_SET: "json_codec (proc_TRANSPARENT_CLOCK_DEFAULT_DATA_SET JsonProcToJson) (proc_TRANSPARENT_CLOCK_DEFAULT_DATA_SET (JsonProcFrom je)) printable_TRANSPARENT_CLOCK_DEFAULT_DATA_SET (\<lambda>d. d) TRANSPARENT_CLOCK_DEFAULT_DATA_SET_v"
  unfolding proc_TRANSPARENT_CLOCK_DEFAULT_DATA_SET_def codec_unfold
  by (rule json_codecI) ((rule codec_intros | simp add: codec_simps printable_TRANSPARENT_CLOCK_DEFAULT_DATA_SET_def | rule TRANSPARENT_CLOCK_DEFAULT_DATA_SET_t.equality)+)

lemma codec_PRIMARY_DOMAIN: "json_codec (proc_PRIMARY_DOMAIN JsonProcToJson) (proc_PRIMARY_DOMAIN (JsonProcFrom je)) (\<lambda>_. True) (\<lambda>d. d) PRIMARY_DOMAIN_v"
  unfolding proc_PRIMARY_DOMAIN_def codec_unfold
  by (rule json_codecI) ((rule codec_intros | simp add: codec_simps | rule PRIMARY_DOMAIN_t.equality)+)

lemma codec_DELAY_MECHANISM: "json_codec (proc_DELAY_MECHANISM JsonProcToJson) (proc_DELAY_MECHANISM (JsonProcFrom je)) printable_DELAY_MECHANISM (\<lambda>d. d) DELAY_MECHANISM_v"
  unfolding proc_DELAY_MECHANISM_def codec_unfold
  by (rule json_codecI) ((rule codec_intros | simp add: codec_simps printable_DELAY_MECHANISM_def | rule DELAY_MECHANISM_t.equality)+)

lemma codec_EXTERNAL_PORT_CONFIGURATION_ENABLED: "json_codec (proc_EXTERNAL_PORT_CONFIGURATION_ENABLED JsonProcToJson) (proc_EXTERNAL_PORT_CONFIGURATION_ENABLED (JsonProcFrom je)) printable_EXTERNAL_PORT_CONFIGURATION_ENABLED (\<lambda>d. d) EXTERNAL_PORT_CONFIGURATION_ENABLED_v"
  unfolding proc_EXTERNAL_PORT_CONFIGURATION_ENABLED_def codec_unfold
  by (rule json_codecI) ((rule codec_intros | simp add: codec_simps printable_EXTERNAL_PORT_CONFIGURATION_ENABLED_def | rule EXTERNAL_PORT_CONFIGURATION_ENABLED_t.equality)+)

lemma codec_MASTER_ONLY: "json_codec (proc_MASTER_ONLY JsonProcToJson) (proc_MASTER_ONLY (JsonProcFrom je)) printable_MASTER_ONLY (\<lambda>d. d) MASTER_ONLY_v"
  unfolding proc_MASTER_ONLY_def codec_unfold
  by (rule json_codecI) ((rule codec_intros | simp add: codec_simps printable_MASTER_ONLY_def | rule MASTER_ONLY_t.equality)+)

lemma codec_HOLDOVER_UPGRADE_ENABLE: "json_codec (proc_HOLDOVER_UPGRADE_ENABLE JsonProcToJson) (proc_HOLDOVER_UPGRADE_ENABLE (JsonProcFrom je)) printable_HOLDOVER_UPGRADE_ENABLE (\<lambda>d. d) HOLDOVER_UPGRADE_ENABLE_v"
  unfolding proc_HOLDOVER_UPGRADE_ENABLE_def codec_unfold
  by (rule json_codecI) ((rule codec_intros | simp add: codec_simps printable_HOLDOVER_UPGRADE_ENABLE_def | rule HOLDOVER_UPGRADE_ENABLE_t.equality)+)

lemma codec_EXT_PORT_CONFIG_PORT_DATA_SET: "json_codec (proc_EXT_PORT_CONFIG_PORT_DATA_SET JsonProcToJson) (proc_EXT_PORT_CONFIG_PORT_DATA_SET (JsonProcFrom je)) printable_EXT_PORT_CONFIG_PORT_DATA_SET (\<lambda>d. d) EXT_PORT_CONFIG_PORT_DATA_SET_v"
  unfolding proc_EXT_PORT_CONFIG_PORT_DATA_SET_def codec_unfold
  by (rule json_codecI) ((rule codec_intros | simp add: codec_simps printable_EXT_PORT_CONFIG_PORT_DATA_SET_def | rule EXT_PORT_CONFIG_PORT_DATA_SET_t.equality)+)

lemma codec_TIME_STATUS_NP: "json_codec (proc_TIME_STATUS_NP JsonProcToJson) (proc_TIME_STATUS_NP (JsonProcFrom je)) printable_TIME_STATUS_NP (\<lambda>d. d) TIME_STATUS_NP_v"
  unfolding proc_TIME_STATUS_NP_def codec_unfold
  by (rule json_codecI) ((rule codec_intros | simp add: codec_simps printable_TIME_STATUS_NP_def | rule TIME_STATUS_NP_t.equality)+)

lemma codec_GRANDMASTER_SETTINGS_NP: "json_codec (proc_GRANDMASTER_SETTINGS_NP JsonProcToJson) (proc_GRANDMASTER_SETTINGS_NP (JsonProcFrom je)) printable_GRANDMASTER_SETTINGS_NP (\<lambda>d. d) GRANDMASTER_SETTINGS_NP_v"
  unfolding proc_GRANDMASTER_SETTINGS_NP_def codec_unfold
  by (rule json_codecI) ((rule codec_intros | simp add: codec_simps printable_GRANDMASTER_SETTINGS_NP_def | rule GRANDMASTER_SETTINGS_NP_t.equality)+)

lemma codec_PORT_DATA_SET_NP: "json_codec (proc_PORT_DATA_SET_NP JsonProcToJson) (proc_PORT_DATA_SET_NP (JsonProcFrom je)) (\<lambda>_. True) (\<lambda>d. d) PORT_DATA_SET_NP_v"
  unfolding proc_PORT_DATA_SET_NP_def codec_unfold
  by (rule json_codecI) ((rule codec_intros | simp add: codec_simps | rule PORT_DATA_SET_NP_t.equality)+)

lemma codec_SUBSCRIBE_EVENTS_NP: "json_codec (proc_SUBSCRIBE_EVENTS_NP JsonProcToJson) (proc_SUBSCRIBE_EVENTS_NP (JsonProcFrom je)) printable_SUBSCRIBE_EVENTS_NP (\<lambda>d. d) SUBSCRIBE_EVENTS_NP_v"
  unfolding proc_SUBSCRIBE_EVENTS_NP_def codec_unfold div_event_wo_def event_numbers
  by (rule json_codecI) ((rule codec_intros | simp add: codec_simps printable_SUBSCRIBE_EVENTS_NP_def events_new | rule SUBSCRIBE_EVENTS_NP_t.equality)+)

lemma codec_PORT_PROPERTIES_NP: "json_codec (proc_PORT_PROPERTIES_NP JsonProcToJson) (proc_PORT_PROPERTIES_NP (JsonProcFrom je)) printable_PORT_PROPERTIES_NP part_PORT_PROPERTIES_NP PORT_PROPERTIES_NP_v"
  unfolding proc_PORT_PROPERTIES_NP_def codec_unfold
  by (rule json_codecI) ((rule codec_intros | simp add: codec_simps printable_PORT_PROPERTIES_NP_def part_PORT_PROPERTIES_NP_def | rule PORT_PROPERTIES_NP_t.equality)+)

lemma codec_PORT_STATS_NP: "json_codec (proc_PORT_STATS_NP JsonProcToJson) (proc_PORT_STATS_NP (JsonProcFrom je)) printable_PORT_STATS_NP part_PORT_STATS_NP PORT_STATS_NP_v"
  unfolding proc_PORT_STATS_NP_def codec_unfold stat_numbers
  by (rule json_codecI) ((rule codec_intros | simp add: codec_simps printable_PORT_STATS_NP_def part_PORT_STATS_NP_def stats_printable_def stats_new [unfolded stat_listed_def stat_numbers, simplified] | rule PORT_STATS_NP_t.equality)+)

lemma codec_SYNCHRONIZATION_UNCERTAIN_NP: "json_codec (proc_SYNCHRONIZATION_UNCERTAIN_NP JsonProcToJson) (proc_SYNCHRONIZATION_UNCERTAIN_NP (JsonProcFrom je)) (\<lambda>_. True) (\<lambda>d. d) SYNCHRONIZATION_UNCERTAIN_NP_v"
  unfolding proc_SYNCHRONIZATION_UNCERTAIN_NP_def codec_unfold
  by (rule json_codecI) ((rule codec_intros | simp add: codec_simps | rule SYNCHRONIZATION_UNCERTAIN_NP_t.equality)+)

lemma codec_PORT_SERVICE_STATS_NP: "json_codec (proc_PORT_SERVICE_STATS_NP JsonProcToJson) (proc_PORT_SERVICE_STATS_NP (JsonProcFrom je)) printable_PORT_SERVICE_STATS_NP (\<lambda>d. d) PORT_SERVICE_STATS_NP_v"
  unfolding proc_PORT_SERVICE_STATS_NP_def codec_unfold
  by (rule json_codecI) ((rule codec_intros | simp add: codec_simps printable_PORT_SERVICE_STATS_NP_def | rule PORT_SERVICE_STATS_NP_t.equality)+)

lemma codec_UNICAST_MASTER_TABLE_NP: "json_codec (proc_UNICAST_MASTER_TABLE_NP JsonProcToJson) (proc_UNICAST_MASTER_TABLE_NP (JsonProcFrom je)) printable_UNICAST_MASTER_TABLE_NP (\<lambda>d. d) UNICAST_MASTER_TABLE_NP_v"
  unfolding proc_UNICAST_MASTER_TABLE_NP_def codec_unfold
  by (rule json_codecI) ((rule codec_intros | simp add: codec_simps printable_UNICAST_MASTER_TABLE_NP_def | rule UNICAST_MASTER_TABLE_NP_t.equality)+)

lemma codec_PORT_HWCLOCK_NP: "json_codec (proc_PORT_HWCLOCK_NP JsonProcToJson) (proc_PORT_HWCLOCK_NP (JsonProcFrom je)) printable_PORT_HWCLOCK_NP (\<lambda>d. d) PORT_HWCLOCK_NP_v"
  unfolding proc_PORT_HWCLOCK_NP_def codec_unfold
  by (rule json_codecI) ((rule codec_intros | simp add: codec_simps printable_PORT_HWCLOCK_NP_def | rule PORT_HWCLOCK_NP_t.equality)+)

lemma codec_POWER_PROFILE_SETTINGS_NP: "json_codec (proc_POWER_PROFILE_SETTINGS_NP JsonProcToJson) (proc_POWER_PROFILE_SETTINGS_NP (JsonProcFrom je)) printable_POWER_PROFILE_SETTINGS_NP (\<lambda>d. d) POWER_PROFILE_SETTINGS_NP_v"
  unfolding proc_POWER_PROFILE_SETTINGS_NP_def codec_unfold
  by (rule json_codecI) ((rule codec_intros | simp add: codec_simps printable_POWER_PROFILE_SETTINGS_NP_def | rule POWER_PROFILE_SETTINGS_NP_t.equality)+)

lemma codec_CMLDS_INFO_NP: "json_codec (proc_CMLDS_INFO_NP JsonProcToJson) (proc_CMLDS_INFO_NP (JsonProcFrom je)) (\<lambda>_. True) (\<lambda>d. d) CMLDS_INFO_NP_v"
  unfolding proc_CMLDS_INFO_NP_def codec_unfold
  by (rule json_codecI) ((rule codec_intros | simp add: codec_simps | rule CMLDS_INFO_NP_t.equality)+)

lemma codec_PORT_CORRECTIONS_NP: "json_codec (proc_PORT_CORRECTIONS_NP JsonProcToJson) (proc_PORT_CORRECTIONS_NP (JsonProcFrom je)) (\<lambda>_. True) (\<lambda>d. d) PORT_CORRECTIONS_NP_v"
  unfolding proc_PORT_CORRECTIONS_NP_def codec_unfold
  by (rule json_codecI) ((rule codec_intros | simp add: codec_simps | rule PORT_CORRECTIONS_NP_t.equality)+)

lemma codec_EXTERNAL_GRANDMASTER_PROPERTIES_NP: "json_codec (proc_EXTERNAL_GRANDMASTER_PROPERTIES_NP JsonProcToJson) (proc_EXTERNAL_GRANDMASTER_PROPERTIES_NP (JsonProcFrom je)) printable_EXTERNAL_GRANDMASTER_PROPERTIES_NP (\<lambda>d. d) EXTERNAL_GRANDMASTER_PROPERTIES_NP_v"
  unfolding proc_EXTERNAL_GRANDMASTER_PROPERTIES_NP_def codec_unfold
  by (rule json_codecI) ((rule codec_intros | simp add: codec_simps printable_EXTERNAL_GRANDMASTER_PROPERTIES_NP_def | rule EXTERNAL_GRANDMASTER_PROPERTIES_NP_t.equality)+)

lemmas json_codecs = codec_CLOCK_DESCRIPTION
  codec_USER_DESCRIPTION
  codec_INITIALIZE
  codec_FAULT_LOG
  codec_DEFAULT_DATA_SET
  codec_CURRENT_DATA_SET
  codec_PARENT_DATA_SET
  codec_TIME_PROPERTIES_DATA_SET
  codec_PORT_DATA_SET
  codec_PRIORITY1
  codec_PRIORITY2
  codec_DOMAIN
  codec_SLAVE_ONLY
  codec_LOG_ANNOUNCE_INTERVAL
  codec_ANNOUNCE_RECEIPT_TIMEOUT
  codec_LOG_SYNC_INTERVAL
  codec_VERSION_NUMBER
  codec_TIME
  codec_CLOCK_ACCURACY
  codec_UTC_PROPERTIES
  codec_TRACEABILITY_PROPERTIES
  codec_TIMESCALE_PROPERTIES
  codec_UNICAST_NEGOTIATION_ENABLE
  codec_PATH_TRACE_LIST
  codec_PATH_TRACE_ENABLE
  codec_GRANDMASTER_CLUSTER_TABLE
  codec_UNICAST_MASTER_TABLE
  codec_UNICAST_MASTER_MAX_TABLE_SIZE
  codec_ACCEPTABLE_MASTER_TABLE
  codec_ACCEPTABLE_MASTER_TABLE_ENABLED
  codec_ACCEPTABLE_MASTER_MAX_TABLE_SIZE
  codec_ALTERNATE_MASTER
  codec_ALTERNATE_TIME_OFFSET_ENABLE
  codec_ALTERNATE_TIME_OFFSET_NAME
  codec_ALTERNATE_TIME_OFFSET_MAX_KEY
  codec_ALTERNATE_TIME_OFFSET_PROPERTIES
  codec_TRANSPARENT_CLOCK_PORT_DATA_SET
  codec_LOG_MIN_PDELAY_REQ_INTERVAL
  codec_TRANSPARENT_CLOCK_DEFAULT_DATA_SET
  codec_PRIMARY_DOMAIN
  codec_DELAY_MECHANISM
  codec_EXTERNAL_PORT_CONFIGURATION_ENABLED
  codec_MASTER_ONLY
  codec_HOLDOVER_UPGRADE_ENABLE
  codec_EXT_PORT_CONFIG_PORT_DATA_SET
  codec_TIME_STATUS_NP
  codec_GRANDMASTER_SETTINGS_NP
  codec_PORT_DATA_SET_NP
  codec_SUBSCRIBE_EVENTS_NP
  codec_PORT_PROPERTIES_NP
  codec_PORT_STATS_NP
  codec_SYNCHRONIZATION_UNCERTAIN_NP
  codec_PORT_SERVICE_STATS_NP
  codec_UNICAST_MASTER_TABLE_NP
  codec_PORT_HWCLOCK_NP
  codec_POWER_PROFILE_SETTINGS_NP
  codec_CMLDS_INFO_NP
  codec_PORT_CORRECTIONS_NP
  codec_EXTERNAL_GRANDMASTER_PROPERTIES_NP

end
