(* ===== verification/Json_Print.thy ===== *)
theory Json_Print
  imports Json_To
begin

unbundle bit_operations_syntax

text \<open>
  The rest of \<^verbatim>\<open>struct JsonProcToJson\<close>: signaling TLVs, the TLV of SMPTE, and \<open>msg2json\<close> for a whole
  message. A signaling TLV is cast to the structure of its type without a check; the model looks at the
  structure, which is the one of the type in every message that was parsed.
\<close>

definition steps :: "(ToJson \<Rightarrow> ToJson) list \<Rightarrow> ToJson \<Rightarrow> ToJson" where
  "steps fs st = fold (\<lambda>f. f) fs st"

definition procDouble :: "string \<Rightarrow> Float64_t \<Rightarrow> ToJson \<Rightarrow> ToJson" where
  "procDouble name v = procText name (double_text v)"

definition PROC_FLGB :: "string \<Rightarrow> uint8_t \<Rightarrow> nat \<Rightarrow> ToJson \<Rightarrow> ToJson" where
  "PROC_FLGB name fl n = procBool name (fl AND push_bit n 1 > 0)"

subsection \<open>Records of signaling TLVs\<close>

definition to_SLAVE_RX_SYNC_TIMING_DATA_rec :: "SLAVE_RX_SYNC_TIMING_DATA_rec_t \<Rightarrow> ToJson \<Rightarrow> ToJson" where
  "to_SLAVE_RX_SYNC_TIMING_DATA_rec d = steps
     [startObject,
      procUint ''sequenceId'' (SLAVE_RX_SYNC_TIMING_DATA_rec_t.sequenceId d),
      to_Timestamp ''syncOriginTimestamp'' (SLAVE_RX_SYNC_TIMING_DATA_rec_t.syncOriginTimestamp d),
      to_TimeInterval ''totalCorrectionField'' (SLAVE_RX_SYNC_TIMING_DATA_rec_t.totalCorrectionField d),
      procInt ''scaledCumulativeRateOffset'' (SLAVE_RX_SYNC_TIMING_DATA_rec_t.scaledCumulativeRateOffset d),
      to_Timestamp ''syncEventIngressTimestamp'' (SLAVE_RX_SYNC_TIMING_DATA_rec_t.syncEventIngressTimestamp d),
      closeObject]"

definition to_SLAVE_RX_SYNC_COMPUTED_DATA_rec :: "SLAVE_RX_SYNC_COMPUTED_DATA_rec_t \<Rightarrow> ToJson \<Rightarrow> ToJson" where
  "to_SLAVE_RX_SYNC_COMPUTED_DATA_rec d = steps
     [startObject,
      procUint ''sequenceId'' (SLAVE_RX_SYNC_COMPUTED_DATA_rec_t.sequenceId d),
      to_TimeInterval ''offsetFromMaster'' (SLAVE_RX_SYNC_COMPUTED_DATA_rec_t.offsetFromMaster d),
      to_TimeInterval ''meanPathDelay'' (SLAVE_RX_SYNC_COMPUTED_DATA_rec_t.meanPathDelay d),
      procInt ''scaledNeighborRateRatio'' (SLAVE_RX_SYNC_COMPUTED_DATA_rec_t.scaledNeighborRateRatio d),
      closeObject]"

definition to_SLAVE_TX_EVENT_TIMESTAMPS_rec :: "SLAVE_TX_EVENT_TIMESTAMPS_rec_t \<Rightarrow> ToJson \<Rightarrow> ToJson" where
  "to_SLAVE_TX_EVENT_TIMESTAMPS_rec d = steps
     [startObject,
      procUint ''sequenceId'' (SLAVE_TX_EVENT_TIMESTAMPS_rec_t.sequenceId d),
      to_Timestamp ''eventEgressTimestamp'' (SLAVE_TX_EVENT_TIMESTAMPS_rec_t.eventEgressTimestamp d),
      closeObject]"

definition to_SLAVE_DELAY_TIMING_DATA_NP_rec :: "SLAVE_DELAY_TIMING_DATA_NP_rec_t \<Rightarrow> ToJson \<Rightarrow> ToJson" where
  "to_SLAVE_DELAY_TIMING_DATA_NP_rec d = steps
     [startObject,
      procUint ''sequenceId'' (SLAVE_DELAY_TIMING_DATA_NP_rec_t.sequenceId d),
      to_Timestamp ''delayOriginTimestamp'' (SLAVE_DELAY_TIMING_DATA_NP_rec_t.delayOriginTimestamp d),
      to_TimeInterval ''totalCorrectionField'' (SLAVE_DELAY_TIMING_DATA_NP_rec_t.totalCorrectionField d),
      to_Timestamp ''delayResponseTimestamp'' (SLAVE_DELAY_TIMING_DATA_NP_rec_t.delayResponseTimestamp d),
      closeObject]"

subsection \<open>Signaling TLVs\<close>

definition parse_MANAGEMENT :: "MANAGEMENT_t \<Rightarrow> ToJson \<Rightarrow> ToJson" where
  "parse_MANAGEMENT d = steps
     [to_mng_vals ''managementId'' (MANAGEMENT_t.managementId d),
      data2json (MANAGEMENT_t.managementId d) (tlvData d) True]"

definition parse_MANAGEMENT_ERROR_STATUS :: "MANAGEMENT_ERROR_STATUS_t \<Rightarrow> ToJson \<Rightarrow> ToJson" where
  "parse_MANAGEMENT_ERROR_STATUS d = steps
     [to_mng_vals ''managementId'' (MANAGEMENT_ERROR_STATUS_t.managementId d),
      procString ''managementErrorId'' (errId2str (MANAGEMENT_ERROR_STATUS_t.managementErrorId d)),
      to_PTPText ''displayData'' (MANAGEMENT_ERROR_STATUS_t.displayData d)]"

definition parse_ORGANIZATION_EXTENSION :: "ORGANIZATION_EXTENSION_t \<Rightarrow> ToJson \<Rightarrow> ToJson" where
  "parse_ORGANIZATION_EXTENSION d = steps
     [to_Binary ''organizationId'' (take 3 (ORGANIZATION_EXTENSION_t.organizationId d)),
      to_Binary ''organizationSubType'' (take 3 (ORGANIZATION_EXTENSION_t.organizationSubType d)),
      to_Binary ''dataField'' (ORGANIZATION_EXTENSION_t.dataField d)]"

definition parse_PATH_TRACE :: "PATH_TRACE_t \<Rightarrow> ToJson \<Rightarrow> ToJson" where
  "parse_PATH_TRACE d = steps
     [procVector to_ClockIdentity ''pathSequence'' (PATH_TRACE_t.pathSequence d)]"

definition parse_ALTERNATE_TIME_OFFSET_INDICATOR :: "ALTERNATE_TIME_OFFSET_INDICATOR_t \<Rightarrow> ToJson \<Rightarrow> ToJson" where
  "parse_ALTERNATE_TIME_OFFSET_INDICATOR d = steps
     [procUint ''keyField'' (ALTERNATE_TIME_OFFSET_INDICATOR_t.keyField d),
      procInt ''currentOffset'' (ALTERNATE_TIME_OFFSET_INDICATOR_t.currentOffset d),
      procInt ''jumpSeconds'' (ALTERNATE_TIME_OFFSET_INDICATOR_t.jumpSeconds d),
      procUint ''timeOfNextJump'' (ALTERNATE_TIME_OFFSET_INDICATOR_t.timeOfNextJump d),
      to_PTPText ''displayName'' (ALTERNATE_TIME_OFFSET_INDICATOR_t.displayName d)]"

definition parse_ENHANCED_ACCURACY_METRICS :: "ENHANCED_ACCURACY_METRICS_t \<Rightarrow> ToJson \<Rightarrow> ToJson" where
  "parse_ENHANCED_ACCURACY_METRICS d = steps
     [procUint ''bcHopCount'' (ENHANCED_ACCURACY_METRICS_t.bcHopCount d),
      procUint ''tcHopCount'' (ENHANCED_ACCURACY_METRICS_t.tcHopCount d),
      to_TimeInterval ''maxGmInaccuracy'' (ENHANCED_ACCURACY_METRICS_t.maxGmInaccuracy d),
      procDouble ''varGmInaccuracy'' (ENHANCED_ACCURACY_METRICS_t.varGmInaccuracy d),
      to_TimeInterval ''maxTransientInaccuracy'' (ENHANCED_ACCURACY_METRICS_t.maxTransientInaccuracy d),
      procDouble ''varTransientInaccuracy'' (ENHANCED_ACCURACY_METRICS_t.varTransientInaccuracy d),
      to_TimeInterval ''maxDynamicInaccuracy'' (ENHANCED_ACCURACY_METRICS_t.maxDynamicInaccuracy d),
      procDouble ''varDynamicInaccuracy'' (ENHANCED_ACCURACY_METRICS_t.varDynamicInaccuracy d),
      to_TimeInterval ''maxStaticInstanceInaccuracy'' (ENHANCED_ACCURACY_METRICS_t.maxStaticInstanceInaccuracy d),
      procDouble ''varStaticInstanceInaccuracy'' (ENHANCED_ACCURACY_METRICS_t.varStaticInstanceInaccuracy d),
      to_TimeInterval ''maxStaticMediumInaccuracy'' (ENHANCED_ACCURACY_METRICS_t.maxStaticMediumInaccuracy d),
      procDouble ''varStaticMediumInaccuracy'' (ENHANCED_ACCURACY_METRICS_t.varStaticMediumInaccuracy d)]"

definition parse_L1_SYNC :: "L1_SYNC_t \<Rightarrow> ToJson \<Rightarrow> ToJson" where
  "parse_L1_SYNC d = steps
     [PROC_FLGB ''txCoherentIsRequired'' (L1_SYNC_t.flags1 d) 0,
      PROC_FLGB ''rxCoherentIsRequired'' (L1_SYNC_t.flags1 d) 1,
      PROC_FLGB ''congruentIsRequired'' (L1_SYNC_t.flags1 d) 2,
      PROC_FLGB ''optParamsEnabled'' (L1_SYNC_t.flags1 d) 3,
      PROC_FLGB ''isTxCoherent'' (L1_SYNC_t.flags2 d) 0,
      PROC_FLGB ''isRxCoherent'' (L1_SYNC_t.flags2 d) 1,
      PROC_FLGB ''isCongruent'' (L1_SYNC_t.flags2 d) 2,
      (if L1_SYNC_t.flags1 d AND L1_SYNC_optParamsEnabled > 0 then steps
        [PROC_FLGB ''timestampsCorrectedTx'' (L1_SYNC_t.flags3 d) 0,
         PROC_FLGB ''phaseOffsetTxValid'' (L1_SYNC_t.flags3 d) 1,
         PROC_FLGB ''frequencyOffsetTxValid'' (L1_SYNC_t.flags3 d) 2,
         to_TimeInterval ''phaseOffsetTx'' (L1_SYNC_t.phaseOffsetTx d),
         to_Timestamp ''phaseOffsetTxTimestamp'' (L1_SYNC_t.phaseOffsetTxTimestamp d),
         to_TimeInterval ''freqOffsetTx'' (L1_SYNC_t.freqOffsetTx d),
         to_Timestamp ''freqOffsetTxTimestamp'' (L1_SYNC_t.freqOffsetTxTimestamp d)]
       else id)]"

definition parse_PORT_COMMUNICATION_AVAILABILITY :: "PORT_COMMUNICATION_AVAILABILITY_t \<Rightarrow> ToJson \<Rightarrow> ToJson" where
  "parse_PORT_COMMUNICATION_AVAILABILITY d = steps
     [procObject ''syncMessageAvailability'',
      PROC_FLGB ''multicastCapable'' (PORT_COMMUNICATION_AVAILABILITY_t.syncMessageAvailability d) 0,
      PROC_FLGB ''unicastCapable'' (PORT_COMMUNICATION_AVAILABILITY_t.syncMessageAvailability d) 1,
      PROC_FLGB ''unicastNegotiationCapableEnable'' (PORT_COMMUNICATION_AVAILABILITY_t.syncMessageAvailability d) 2,
      PROC_FLGB ''unicastNegotiationCapable'' (PORT_COMMUNICATION_AVAILABILITY_t.syncMessageAvailability d) 3,
      closeObject,
      procObject ''delayRespMessageAvailability'',
      PROC_FLGB ''multicastCapable'' (PORT_COMMUNICATION_AVAILABILITY_t.delayRespMessageAvailability d) 0,
      PROC_FLGB ''unicastCapable'' (PORT_COMMUNICATION_AVAILABILITY_t.delayRespMessageAvailability d) 1,
      PROC_FLGB ''unicastNegotiationCapableEnable'' (PORT_COMMUNICATION_AVAILABILITY_t.delayRespMessageAvailability d) 2,
      PROC_FLGB ''unicastNegotiationCapable'' (PORT_COMMUNICATION_AVAILABILITY_t.delayRespMessageAvailability d) 3,
      closeObject]"

definition parse_PROTOCOL_ADDRESS :: "PROTOCOL_ADDRESS_t \<Rightarrow> ToJson \<Rightarrow> ToJson" where
  "parse_PROTOCOL_ADDRESS d = steps
     [named to_PortAddress ''portProtocolAddress'' (PROTOCOL_ADDRESS_t.portProtocolAddress d)]"

definition parse_SLAVE_RX_SYNC_TIMING_DATA :: "SLAVE_RX_SYNC_TIMING_DATA_t \<Rightarrow> ToJson \<Rightarrow> ToJson" where
  "parse_SLAVE_RX_SYNC_TIMING_DATA d = steps
     [to_PortIdentity ''syncSourcePortIdentity'' (SLAVE_RX_SYNC_TIMING_DATA_t.syncSourcePortIdentity d),
      procVector to_SLAVE_RX_SYNC_TIMING_DATA_rec ''list'' (SLAVE_RX_SYNC_TIMING_DATA_t.list d)]"

definition parse_SLAVE_RX_SYNC_COMPUTED_DATA :: "SLAVE_RX_SYNC_COMPUTED_DATA_t \<Rightarrow> ToJson \<Rightarrow> ToJson" where
  "parse_SLAVE_RX_SYNC_COMPUTED_DATA d = steps
     [to_PortIdentity ''sourcePortIdentity'' (SLAVE_RX_SYNC_COMPUTED_DATA_t.sourcePortIdentity d),
      PROC_FLGB ''scaledNeighborRateRatioValid'' (SLAVE_RX_SYNC_COMPUTED_DATA_t.computedFlags d) 0,
      PROC_FLGB ''meanPathDelayValid'' (SLAVE_RX_SYNC_COMPUTED_DATA_t.computedFlags d) 1,
      PROC_FLGB ''offsetFromMasterValid'' (SLAVE_RX_SYNC_COMPUTED_DATA_t.computedFlags d) 2,
      procVector to_SLAVE_RX_SYNC_COMPUTED_DATA_rec ''list'' (SLAVE_RX_SYNC_COMPUTED_DATA_t.list d)]"

definition parse_SLAVE_TX_EVENT_TIMESTAMPS :: "SLAVE_TX_EVENT_TIMESTAMPS_t \<Rightarrow> ToJson \<Rightarrow> ToJson" where
  "parse_SLAVE_TX_EVENT_TIMESTAMPS d = steps
     [to_PortIdentity ''sourcePortIdentity'' (SLAVE_TX_EVENT_TIMESTAMPS_t.sourcePortIdentity d),
      procString ''eventMessageType'' (type2str (SLAVE_TX_EVENT_TIMESTAMPS_t.eventMessageType d)),
      procVector to_SLAVE_TX_EVENT_TIMESTAMPS_rec ''list'' (SLAVE_TX_EVENT_TIMESTAMPS_t.list d)]"

definition parse_CUMULATIVE_RATE_RATIO :: "CUMULATIVE_RATE_RATIO_t \<Rightarrow> ToJson \<Rightarrow> ToJson" where
  "parse_CUMULATIVE_RATE_RATIO d = steps
     [procInt ''scaledCumulativeRateRatio'' (CUMULATIVE_RATE_RATIO_t.scaledCumulativeRateRatio d)]"

definition parse_SMPTE_ORGANIZATION_EXTENSION :: "SMPTE_ORGANIZATION_EXTENSION_t \<Rightarrow> ToJson \<Rightarrow> ToJson" where
  "parse_SMPTE_ORGANIZATION_EXTENSION d = steps
     [to_Binary ''organizationId'' (take 3 (SMPTE_ORGANIZATION_EXTENSION_t.organizationId d)),
      to_Binary ''organizationSubType'' (take 3 (SMPTE_ORGANIZATION_EXTENSION_t.organizationSubType d)),
      procUint ''defaultSystemFrameRate_numerator'' (SMPTE_ORGANIZATION_EXTENSION_t.defaultSystemFrameRate_numerator d),
      procUint ''defaultSystemFrameRate_denominator'' (SMPTE_ORGANIZATION_EXTENSION_t.defaultSystemFrameRate_denominator d),
      procString ''masterLockingStatus'' (smpteLck2str (SMPTE_ORGANIZATION_EXTENSION_t.masterLockingStatus d)),
      procUint ''timeAddressFlags'' (SMPTE_ORGANIZATION_EXTENSION_t.timeAddressFlags d),
      procInt ''currentLocalOffset'' (SMPTE_ORGANIZATION_EXTENSION_t.currentLocalOffset d),
      procInt ''jumpSeconds'' (SMPTE_ORGANIZATION_EXTENSION_t.jumpSeconds d),
      procUint ''timeOfNextJump'' (SMPTE_ORGANIZATION_EXTENSION_t.timeOfNextJump d),
      procUint ''timeOfNextJam'' (SMPTE_ORGANIZATION_EXTENSION_t.timeOfNextJam d),
      procUint ''timeOfPreviousJam'' (SMPTE_ORGANIZATION_EXTENSION_t.timeOfPreviousJam d),
      procInt ''previousJamLocalOffset'' (SMPTE_ORGANIZATION_EXTENSION_t.previousJamLocalOffset d),
      procUint ''daylightSaving'' (SMPTE_ORGANIZATION_EXTENSION_t.daylightSaving d),
      procUint ''leapSecondJump'' (SMPTE_ORGANIZATION_EXTENSION_t.leapSecondJump d)]"

definition parse_SLAVE_DELAY_TIMING_DATA_NP :: "SLAVE_DELAY_TIMING_DATA_NP_t \<Rightarrow> ToJson \<Rightarrow> ToJson" where
  "parse_SLAVE_DELAY_TIMING_DATA_NP d = steps
     [to_PortIdentity ''sourcePortIdentity'' (SLAVE_DELAY_TIMING_DATA_NP_t.sourcePortIdentity d),
      procVector to_SLAVE_DELAY_TIMING_DATA_NP_rec ''list'' (SLAVE_DELAY_TIMING_DATA_NP_t.list d)]"

primrec sig_json :: "BaseSigTlv \<Rightarrow> ToJson \<Rightarrow> ToJson" where
  "sig_json (MANAGEMENT_v d) = parse_MANAGEMENT d"
| "sig_json (MANAGEMENT_ERROR_STATUS_v d) = parse_MANAGEMENT_ERROR_STATUS d"
| "sig_json (ORGANIZATION_EXTENSION_v d) = parse_ORGANIZATION_EXTENSION d"
| "sig_json (PATH_TRACE_v d) = parse_PATH_TRACE d"
| "sig_json (ALTERNATE_TIME_OFFSET_INDICATOR_v d) = parse_ALTERNATE_TIME_OFFSET_INDICATOR d"
| "sig_json (ENHANCED_ACCURACY_METRICS_v d) = parse_ENHANCED_ACCURACY_METRICS d"
| "sig_json (L1_SYNC_v d) = parse_L1_SYNC d"
| "sig_json (PORT_COMMUNICATION_AVAILABILITY_v d) = parse_PORT_COMMUNICATION_AVAILABILITY d"
| "sig_json (PROTOCOL_ADDRESS_v d) = parse_PROTOCOL_ADDRESS d"
| "sig_json (SLAVE_RX_SYNC_TIMING_DATA_v d) = parse_SLAVE_RX_SYNC_TIMING_DATA d"
| "sig_json (SLAVE_RX_SYNC_COMPUTED_DATA_v d) = parse_SLAVE_RX_SYNC_COMPUTED_DATA d"
| "sig_json (SLAVE_TX_EVENT_TIMESTAMPS_v d) = parse_SLAVE_TX_EVENT_TIMESTAMPS d"
| "sig_json (CUMULATIVE_RATE_RATIO_v d) = parse_CUMULATIVE_RATE_RATIO d"
| "sig_json (SLAVE_DELAY_TIMING_DATA_NP_v d) = parse_SLAVE_DELAY_TIMING_DATA_NP d"

definition sig_json_types :: "tlvType_e list" where
  "sig_json_types =
     [MANAGEMENT, MANAGEMENT_ERROR_STATUS, ORGANIZATION_EXTENSION_PROPAGATE, ORGANIZATION_EXTENSION_DO_NOT_PROPAGATE,
      ORGANIZATION_EXTENSION, PATH_TRACE, ALTERNATE_TIME_OFFSET_INDICATOR,
      ENHANCED_ACCURACY_METRICS, L1_SYNC, PORT_COMMUNICATION_AVAILABILITY,
      PROTOCOL_ADDRESS, SLAVE_RX_SYNC_TIMING_DATA, SLAVE_RX_SYNC_COMPUTED_DATA,
      SLAVE_TX_EVENT_TIMESTAMPS, CUMULATIVE_RATE_RATIO, SLAVE_DELAY_TIMING_DATA_NP]"

definition sig2json :: "tlvType_e \<Rightarrow> BaseSigTlv \<Rightarrow> ToJson \<Rightarrow> ToJson" where
  "sig2json ty tlv = steps
     [close, startObject, procString ''tlvType'' (tlv2str ty),
      (if ty \<in> set sig_json_types then sig_json tlv else id), closeObject]"

definition smpte2json :: "BaseMngTlv option \<Rightarrow> ToJson \<Rightarrow> ToJson" where
  "smpte2json tlv = (case tlv of Some (SMPTE_ORGANIZATION_EXTENSION_v d) \<Rightarrow> parse_SMPTE_ORGANIZATION_EXTENSION d | _ \<Rightarrow> id)"

subsection \<open>Messages\<close>

definition mng2json :: "Message \<Rightarrow> ToJson \<Rightarrow> ToJson" where
  "mng2json m = steps
     [procString ''actionField'' (act2str (m_replyAction m)),
      procString ''tlvType'' (tlv2str (m_mngType m)),
      to_mng_vals ''managementId'' (m_replayTlv_id m),
      (if m_mngType m = MANAGEMENT then data2json (m_replayTlv_id m) (m_dataGet m) True
       else if m_mngType m = MANAGEMENT_ERROR_STATUS then steps
         [procString ''managementErrorId'' (errId2str (m_errorId m)),
          procString ''displayData'' (text_of (textField (m_errorDisplay m)))]
       else if m_mngType m = ORGANIZATION_EXTENSION \<and> m_replayTlv_id m = SMPTE_MNG_ID then smpte2json (m_dataGet m)
       else id)]"

definition sigs2json :: "Message \<Rightarrow> ToJson \<Rightarrow> ToJson" where
  "sigs2json m st =
     closeArray (snd (SigTlvs_traverse (\<lambda>ty tlv st. (False, sig2json ty tlv st)) (m_sigTlvs m) (procArray ''TLVs'' st)))"

definition msg_header2json :: "Message \<Rightarrow> ToJson \<Rightarrow> ToJson" where
  "msg_header2json m = steps
     [procUint ''sequenceId'' (m_sequence m), procUint ''sdoId'' (m_sdoId m),
      procUint ''domainNumber'' (m_domainNumber m), procUint ''versionPTP'' (m_versionPTP m),
      procUint ''minorVersionPTP'' (m_minorVersionPTP m), procBool ''unicastFlag'' (m_isUnicast m),
      procUint ''PTPProfileSpecific'' (m_PTPProfileSpecific m),
      procString ''messageType'' (type2str (m_type m)),
      to_PortIdentity ''sourcePortIdentity'' (m_peer m), to_PortIdentity ''targetPortIdentity'' (m_target m)]"

definition msg2json :: "Message \<Rightarrow> int \<Rightarrow> string option" where
  "msg2json m ind =
     (if ind < 0 then None
      else Some (m_result (steps
        [startObject, msg_header2json m,
         (if m_type m = Management then mng2json m else if m_type m = Signaling then sigs2json m else id),
         closeObject] (new_ToJson (nat ind)))))"

end
