(* ===== verification/Json_Survives.thy ===== *)
theory Json_Survives
  imports Json_Tlv_Codecs Json_Print Tlv_Sets
begin

unbundle bit_operations_syntax

text \<open>
  Both directions together: the text of a TLV, and the text of a management message, are read back by
  the parser and by \<^verbatim>\<open>Json2msg\<close>.
\<close>

subsection \<open>The dispatch over the TLVs\<close>

text \<open>
  What is read back from the text of a TLV: all that JSON carries, and, the counters of PORT_STATS_NP apart,
  all that \<open>build\<close> puts on the wire.
\<close>

definition reads_back :: "BaseMngTlv \<Rightarrow> BaseMngTlv \<Rightarrow> bool" where
  "reads_back t t' \<longleftrightarrow> tlv_type t' = tlv_type t \<and> json_part t' = json_part t \<and> (tlv_type t \<noteq> PORT_STATS_NP \<longrightarrow> built t' = built t)"

lemma set_part: "set_PTPText (text_part t) = set_PTPText t"
  by (simp add: text_part_def set_PTPText_def)

lemma set_fault_part: "set_FaultRecord (fault_part r) = set_FaultRecord r"
  by (simp add: fault_part_def set_FaultRecord_def set_part FaultRecord_size_def PTPText_size_def) (simp add: text_part_def)

lemma built_part: "tlv_type t \<noteq> PORT_STATS_NP \<Longrightarrow> built (json_part t) = built t"
  by (cases t) (simp_all add: part_defs set_CLOCK_DESCRIPTION_def set_USER_DESCRIPTION_def set_FAULT_LOG_def
      set_ALTERNATE_TIME_OFFSET_NAME_def set_PORT_PROPERTIES_NP_def set_part set_fault_part o_def)

lemma part_type [simp]: "tlv_type (json_part t) = tlv_type t"
  by (cases t) simp_all

lemma reads_backI: "json_part t' = json_part t \<Longrightarrow> reads_back t t'"
  unfolding reads_back_def by (metis built_part part_type)

text \<open>The members that are written for a TLV, and what reading them into a new one gives.\<close>

definition tlv_members :: "json_env \<Rightarrow> BaseMngTlv \<Rightarrow> json_members \<Rightarrow> bool" where
  "tlv_members je t its \<longleftrightarrow> distinct (map fst its) \<and> raw_members its \<and>
     (\<forall>st. json_tlv JsonProcToJson t st = (True, t, put_items its st)) \<and> new_tlv (tlv_type t) \<noteq> None \<and>
     (\<forall>t0 ms. tlv_type t0 = tlv_type t \<and> constructed t0 \<and> has ms its \<longrightarrow>
        (\<exists>t'. json_tlv (JsonProcFrom je) t0 ms = (True, t', ms) \<and> reads_back t t'))"

lemma lift_codec:
  assumes "json_codec w r ok part C" "ok d"
    and "new_tlv (tlv_type (C d)) \<noteq> None" "\<And>x. json_part (C x) = C (part x)"
    and "\<And>x. json_tlv JsonProcToJson (C x) = lift_json C w x" "\<And>x. json_tlv (JsonProcFrom je) (C x) = lift_json C r x"
    and "\<And>t0. tlv_type t0 = tlv_type (C d) \<Longrightarrow> \<exists>d0. t0 = C d0"
  shows "\<exists>its. tlv_members je (C d) its"
proof -
  obtain its where its: "distinct (map fst its)" "raw_members its" "\<And>st. w d st = (True, d, put_items its st)"
    "\<And>d0 ms. constructed (C d0) \<Longrightarrow> has ms its \<Longrightarrow> \<exists>d'. r d0 ms = (True, d', ms) \<and> part d' = part d"
    using assms(1,2) unfolding json_codec_def by blast
  have "\<exists>t'. json_tlv (JsonProcFrom je) t0 ms = (True, t', ms) \<and> reads_back (C d) t'"
    if "tlv_type t0 = tlv_type (C d)" "constructed t0" "has ms its" for t0 ms
  proof -
    from assms(7) [OF that(1)] obtain d0 where t0: "t0 = C d0" ..
    with its(4) that(2,3) obtain d' where "r d0 ms = (True, d', ms)" "part d' = part d"
      by blast
    then show ?thesis
      using assms(4,6) by (intro exI [of _ "C d'"]) (simp add: t0 lift_json_def reads_backI)
  qed
  then show ?thesis
    using its assms(3,5) by (intro exI [of _ its]) (simp add: tlv_members_def lift_json_def)
qed

lemma tlv_codec: "printable t \<Longrightarrow> \<exists>its. tlv_members je t its"
  by (cases t; clarsimp) ((rule json_codecs [THEN lift_codec]; ((simp; fail) | (rename_tac t0, case_tac t0; simp)))+)

lemma tlv_not_empty: "printable t \<Longrightarrow> \<not> isEmpty (tlv_type t)"
  by (cases t) (simp_all add: isEmpty_def mng_size_def)

lemma procData_written:
  assumes "tlv_members je t its"
  shows "procData JsonProcToJson mem (tlv_type t) (Some t) st = (True, Some t, put_items its st)"
    "has ms its \<Longrightarrow> \<exists>t'. procData (JsonProcFrom je) mem (tlv_type t) None ms = (True, Some t', ms) \<and> reads_back t t'"
proof -
  obtain t0 where t0: "new_object mem (tlv_type t) = Some t0"
    using assms new_object_exists [of mem "tlv_type t"] by (auto simp: tlv_members_def)
  then show "procData JsonProcToJson mem (tlv_type t) (Some t) st = (True, Some t, put_items its st)"
    using assms by (simp add: tlv_members_def procData_def)
  assume "has ms its"
  then obtain t' where "json_tlv (JsonProcFrom je) t0 ms = (True, t', ms)" "reads_back t t'"
    using assms new_object_made [OF t0] unfolding tlv_members_def by blast
  then show "\<exists>t'. procData (JsonProcFrom je) mem (tlv_type t) None ms = (True, Some t', ms) \<and> reads_back t t'"
    using t0 by (simp add: procData_def)
qed

subsection \<open>The text of a TLV\<close>

lemma put_bare_new: "m_result (put_bare v (new_ToJson n)) = spaces n @ bare n v"
  by (simp add: put_bare_def new_ToJson_def emit_def level_def)

lemma parse_bare:
  assumes "raw_members its" "distinct (map fst its)"
  obtains ms where "parseBuffer (spaces n @ bare n (jObject its)) u main = (True, Some (jObject ms))" "has ms its"
    "\<And>k. k \<notin> set (map fst its) \<Longrightarrow> member_count k ms = 0"
proof -
  let ?ms = "insert_members (norm_members its) []"
  have "mset ?ms = mset (norm_members its)"
    by (simp only: insert_members_mset mset.simps(1) add_0_right)
  then have "set ?ms = set (norm_members its)"
    by (rule mset_eq_setD)
  then have "fst ` set ?ms = fst ` set its"
    unfolding norm_parts(1) by (simp add: image_image case_prod_unfold)
  then have "member_count k ?ms = 0" if "k \<notin> set (map fst its)" for k
    using that unfolding member_count_def by (metis (mono_tags, lifting) filter_False image_eqI list.size(3) list.set_map)
  moreover have "value_text (bare n (jObject its)) (jObject ?ms)"
    using bare_text(1) [of "jObject its" n] assms(1) by simp
  then have "parseBuffer (spaces n @ bare n (jObject its)) u main = (True, Some (jObject ?ms))"
    using parse_text [of _ _ "spaces n" "[]"] by simp
  ultimately show ?thesis
    using that has_members [OF assms(2)] by blast
qed

lemma tlv_json_back:
  assumes "printable t" "0 \<le> ind"
  obtains s ms t' where "tlv2json (tlv_type t) (Some t) ind = Some s" "parseBuffer s u main = (True, Some (jObject ms))"
    "procData (JsonProcFrom je) mem (tlv_type t) None ms = (True, Some t', ms)" "reads_back t t'"
proof -
  obtain its where its: "tlv_members je t its"
    using tlv_codec [OF assms(1)] by blast
  then obtain ms where ms: "parseBuffer (spaces (nat ind) @ bare (nat ind) (jObject its)) u main = (True, Some (jObject ms))" "has ms its"
    using parse_bare [of its] by (metis tlv_members_def)
  have "tlv2json (tlv_type t) (Some t) ind = Some (spaces (nat ind) @ bare (nat ind) (jObject its))"
    using assms(2) tlv_not_empty [OF assms(1)] procData_written(1) [OF its] put_bare_new by (simp add: tlv2json_def data2json_def put_bare_object)
  then show ?thesis
    using that ms procData_written(2) [OF its] by blast
qed

subsection \<open>The text of a request\<close>

definition header_items :: "Message \<Rightarrow> json_members" where
  "header_items m =
     [(''sequenceId'', uint_doc (m_sequence m)), (''sdoId'', uint_doc (m_sdoId m)),
      (''domainNumber'', uint_doc (m_domainNumber m)), (''versionPTP'', uint_doc (m_versionPTP m)),
      (''minorVersionPTP'', uint_doc (m_minorVersionPTP m)), (''unicastFlag'', jBoolean (m_isUnicast m)),
      (''PTPProfileSpecific'', uint_doc (m_PTPProfileSpecific m)),
      (''messageType'', jString (type2str (m_type m))),
      (''sourcePortIdentity'', jObject (port_items (m_peer m))), (''targetPortIdentity'', jObject (port_items (m_target m)))]"

definition mng_items :: "Message \<Rightarrow> json_members option \<Rightarrow> json_members" where
  "mng_items m its =
     [(''actionField'', jString (act2str (m_replyAction m))), (''tlvType'', jString (tlv2str (m_mngType m))),
      (''managementId'', jString (mng2str (m_replayTlv_id m)))] @
     (case its of None \<Rightarrow> [] | Some ds \<Rightarrow> [(''dataField'', jObject ds)])"

text \<open>
  A request that can be written: the message of a \<open>GET\<close>, a \<open>SET\<close> or a \<open>COMMAND\<close> with a known identifier,
  which has data when the identifier has some and the action is not \<open>GET\<close>.
\<close>

definition data_fits :: "actionField_e \<Rightarrow> mng_vals_e \<Rightarrow> BaseMngTlv option \<Rightarrow> bool" where
  "data_fits a i tlv \<longleftrightarrow>
     (case tlv of
        None \<Rightarrow> a = GET \<or> isEmpty i
      | Some t \<Rightarrow> a \<noteq> GET \<and> tlv_type t = i \<and> printable t)"

definition request_ok :: "Message \<Rightarrow> bool" where
  "request_ok m \<longleftrightarrow> m_type m = Management \<and> m_mngType m = MANAGEMENT \<and> m_replyAction m \<in> {GET, SET, COMMAND} \<and>
     Mng_Ids.isValidId (m_replayTlv_id m) \<and> port_ok (m_peer m) \<and> port_ok (m_target m) \<and>
     data_fits (m_replyAction m) (m_replayTlv_id m) (m_dataGet m)"

definition data_read :: "BaseMngTlv option \<Rightarrow> BaseMngTlv option \<Rightarrow> BaseMngTlv option \<Rightarrow> bool" where
  "data_read tlv old new \<longleftrightarrow> (case tlv of None \<Rightarrow> new = old | Some t \<Rightarrow> \<exists>t'. new = Some t' \<and> reads_back t t')"

definition request_read :: "Message \<Rightarrow> BaseMngTlv option \<Rightarrow> Json2msg \<Rightarrow> Json2msg" where
  "request_read m tlv j = j\<lparr>j_managementId := m_replayTlv_id m, j_tlvData := tlv,
     j_action := m_replyAction m, j_have := (\<lambda>_. True), j_isUnicast := m_isUnicast m,
     j_PTPProfileSpecific := m_PTPProfileSpecific m, j_domainNumber := m_domainNumber m, j_versionPTP := m_versionPTP m,
     j_minorVersionPTP := m_minorVersionPTP m, j_sequenceId := m_sequence m, j_sdoId := m_sdoId m,
     j_srcPort := m_peer m, j_dstPort := m_target m\<rparr>"

lemma put_uint: "procUint name v = put_item name (uint_doc v)"
  by (rule ext) (simp add: procUint_def uint_doc_def put_number [of _ _ 0 0])

lemma put_port: "port_ok p \<Longrightarrow> to_PortIdentity name p st = put_item name (jObject (port_items p)) st"
  using port_value.puts [of p name st] by (simp add: writes_def)

lemma header_written: "port_ok (m_peer m) \<Longrightarrow> port_ok (m_target m) \<Longrightarrow> msg_header2json m st = put_items (header_items m) st"
  by (simp add: msg_header2json_def steps_def put_uint put_bool put_string put_port put_append header_items_def)

lemma mng_plain: "\<forall>i \<in> set mng_ids. raw (mng2str i) \<and> i \<noteq> SMPTE_MNG_ID"
  by code_simp

lemma mng_names:
  assumes "Mng_Ids.isValidId i"
  shows "raw (mng2str i)" "i \<noteq> SMPTE_MNG_ID" "mng2str i \<noteq> []"
  using assms mng_plain mng2str_plain unfolding isValidId_ids by blast+

lemma request_names:
  "a \<in> {GET, SET, COMMAND} \<Longrightarrow> raw (act2str a)" "tlv2str MANAGEMENT = ''MANAGEMENT''" "type2str Management = ''Management''"
  "a \<in> {GET, SET, COMMAND} \<Longrightarrow> act2str a \<noteq> [] \<and> json_action (act2str a) j = (True, j\<lparr>j_action := a\<rparr>)"
  by (auto simp: act2str_def act2str_names_def name_of_def GET_def SET_def COMMAND_def raw_eval tlv2str_def tlv2str_names_def
      type2str_def type2str_names_def MANAGEMENT_def Management_def json_action_def)

lemma mng_written:
  assumes "request_ok m" "\<And>t. m_dataGet m = Some t \<Longrightarrow> its = Some (ts t) \<and> tlv_members je t (ts t)" "m_dataGet m = None \<Longrightarrow> its = None"
  shows "mng2json m st = put_items (mng_items m its) st"
proof (cases "m_dataGet m")
  case None
  then show ?thesis
    using assms mng_names(2) by (simp add: mng2json_def steps_def put_string to_mng_vals_def data2json_def request_ok_def mng_items_def put_append)
next
  case (Some t)
  then have i: "m_replayTlv_id m = tlv_type t"
    using assms(1) by (simp add: request_ok_def data_fits_def)
  show ?thesis
    using Some assms mng_names(2) [of "tlv_type t"] procData_written(1) [of je t "ts t"]
    by (simp add: mng2json_def steps_def put_string to_mng_vals_def data2json_def request_ok_def mng_items_def put_append i put_object)
qed

text \<open>Reading the members of a request.\<close>

lemma count_pos: "member_get k ms = Some v \<Longrightarrow> member_count k ms \<noteq> 0"
  by (auto simp: member_get_def split: if_splits)

lemma norm_plain [simp]: "norm (uint_doc v) = uint_doc v" "norm (id_doc c) = id_doc c"
  by (simp_all add: uint_doc_def id_doc_def)

lemma uint_raw [simp]: "raw_ok (uint_doc v)"
  by (simp add: uint_doc_def getNum_dec)

lemma getInt64_uint:
  fixes v :: "'a :: len word"
  assumes "LENGTH('a) \<le> 32"
  shows "getInt64 (uint_doc v) False = Some (ucast v)"
proof -
  have "uint v < 2 ^ LENGTH('a)" "(2 :: int) ^ LENGTH('a) \<le> 2 ^ 32"
    using unsigned_less [of v, where 'a = int] assms power_increasing [of "LENGTH('a)" 32 "2 :: int"] by simp_all
  then have "uint v < 2 ^ 32"
    by linarith
  then have "- (2 ^ 63) \<le> uint v" "uint v < 2 ^ 63"
    using order_trans [of "- (2 ^ 63)" 0 "uint v"] by simp_all
  moreover have "dec_int (uint v) = dec (unat v)"
    using uint_ge_0 [of v] by (simp add: dec_int_def)
  ultimately show ?thesis
    using getInt64_dec [of "uint v"] by (simp add: uint_doc_def)
qed

lemma optProc_uint:
  fixes v :: "'a :: len word"
  assumes "LENGTH('a) \<le> 32" "member_get key ms = Some (uint_doc v)"
  shows "optProc key h upd j ms = (True, upd (ucast v) (set_have h j), ms)"
  using assms count_pos [OF assms(2)] getInt64_uint [OF assms(1), of v] by (simp add: optProc_def uint_doc_def)

lemma portProc_port:
  assumes "port_ok p" "member_get key ms = Some (norm (jObject (port_items p)))" "key \<noteq> []"
  shows "portProc key h get upd j ms = (True, set_have h (upd p j), ms)"
  using port_value.gets [OF assms(1,3,2), of "get j"] count_pos [OF assms(2)] by (simp add: portProc_def)

lemma json_data_fits:
  assumes "data_fits (j_action j) (j_managementId j) tlv"
    and "tlv = None \<Longrightarrow> member_count ''dataField'' ms = 0"
    and "\<And>t. tlv = Some t \<Longrightarrow> \<exists>os its. member_get ''dataField'' ms = Some (jObject os) \<and> tlv_members je t its \<and> has os its"
  shows "\<exists>new. json_data je j ms = (True, j\<lparr>j_tlvData := new\<rparr>, ms) \<and> data_read tlv (j_tlvData j) new"
proof (cases tlv)
  case None
  then have "member_get ''dataField'' ms = None"
    using assms(2) by (simp add: member_get_def)
  then show ?thesis
    using None assms(1,2) by (intro exI [of _ "j_tlvData j"]) (simp add: json_data_def data_fits_def obj_getType_def data_read_def)
next
  case (Some t)
  then obtain os its where o: "member_get ''dataField'' ms = Some (jObject os)" "tlv_members je t its" "has os its"
    using assms(3) by blast
  then obtain t' where "procData (JsonProcFrom je) (je_memory je) (tlv_type t) None os = (True, Some t', os)" "reads_back t t'"
    using procData_written(2) [OF o(2,3)] by blast
  then show ?thesis
    using Some assms(1) o(1) tlv_not_empty [of t]
    by (intro exI [of _ "Some t'"]) (simp add: json_data_def data_fits_def obj_getType_def data_read_def)
qed

lemma request_numbers:
  assumes "has ms (header_items m)"
  shows "optProc ''sequenceId'' hv u x ms = (True, u (ucast (m_sequence m)) (set_have hv x), ms)"
    "optProc ''sdoId'' hv u x ms = (True, u (ucast (m_sdoId m)) (set_have hv x), ms)"
    "optProc ''domainNumber'' hv u x ms = (True, u (ucast (m_domainNumber m)) (set_have hv x), ms)"
    "optProc ''versionPTP'' hv u x ms = (True, u (ucast (m_versionPTP m)) (set_have hv x), ms)"
    "optProc ''minorVersionPTP'' hv u x ms = (True, u (ucast (m_minorVersionPTP m)) (set_have hv x), ms)"
    "optProc ''PTPProfileSpecific'' hv u x ms = (True, u (ucast (m_PTPProfileSpecific m)) (set_have hv x), ms)"
  using assms by (simp_all add: optProc_uint header_items_def)

lemma request_header:
  assumes "has ms (header_items m)" "port_ok (m_peer m)" "port_ok (m_target m)" "m_type m = Management"
  shows "portProc ''sourcePortIdentity'' hv g up x ms = (True, set_have hv (up (m_peer m) x), ms)"
    "portProc ''targetPortIdentity'' hv g up x ms = (True, set_have hv (up (m_target m) x), ms)"
    "json_unicastFlag x ms = (True, (set_have have_isUnicast x)\<lparr>j_isUnicast := m_isUnicast m\<rparr>, ms)"
    "testOpt ''messageType'' ''Management'' x ms = (True, x, ms)"
proof -
  have g: "member_get ''sourcePortIdentity'' ms = Some (norm (jObject (port_items (m_peer m))))"
    "member_get ''targetPortIdentity'' ms = Some (norm (jObject (port_items (m_target m))))"
    "member_get ''unicastFlag'' ms = Some (jBoolean (m_isUnicast m))"
    "member_get ''messageType'' ms = Some (jString ''Management'')"
    using assms(1,4) request_names(3) by (simp_all add: header_items_def)
  show "portProc ''sourcePortIdentity'' hv g up x ms = (True, set_have hv (up (m_peer m) x), ms)"
    by (rule portProc_port [OF assms(2) g(1)]) simp
  show "portProc ''targetPortIdentity'' hv g up x ms = (True, set_have hv (up (m_target m) x), ms)"
    by (rule portProc_port [OF assms(3) g(2)]) simp
  show "json_unicastFlag x ms = (True, (set_have have_isUnicast x)\<lparr>j_isUnicast := m_isUnicast m\<rparr>, ms)"
    "testOpt ''messageType'' ''Management'' x ms = (True, x, ms)"
    using g(3,4) count_pos [OF g(3)] by (simp_all add: json_unicastFlag_def testOpt_def)
qed

lemma request_strings:
  assumes "has ms (mng_items m its)" "m_mngType m = MANAGEMENT" "m_replyAction m \<in> {GET, SET, COMMAND}"
    "Mng_Ids.isValidId (m_replayTlv_id m)"
  shows "testOpt ''tlvType'' ''MANAGEMENT'' x ms = (True, x, ms)"
    "testMand ''actionField'' json_action x ms = (True, x\<lparr>j_action := m_replyAction m\<rparr>, ms)"
    "testMand ''managementId'' json_managementId x ms = (True, x\<lparr>j_managementId := m_replayTlv_id m\<rparr>, ms)"
proof -
  have g: "member_get ''tlvType'' ms = Some (jString ''MANAGEMENT'')"
    "member_get ''actionField'' ms = Some (jString (act2str (m_replyAction m)))"
    "member_get ''managementId'' ms = Some (jString (mng2str (m_replayTlv_id m)))"
    using assms(1,2) request_names(2) by (simp_all add: mng_items_def)
  show "testOpt ''tlvType'' ''MANAGEMENT'' x ms = (True, x, ms)"
    using g(1) by (simp add: testOpt_def)
  show "testMand ''actionField'' json_action x ms = (True, x\<lparr>j_action := m_replyAction m\<rparr>, ms)"
    using g(2) request_names(4) [OF assms(3)] by (simp add: testMand_def)
  show "testMand ''managementId'' json_managementId x ms = (True, x\<lparr>j_managementId := m_replayTlv_id m\<rparr>, ms)"
    using g(3) mng_names [OF assms(4)] findMngID_name [OF assms(4)] by (simp add: testMand_def json_managementId_def)
qed

lemma have_all:
  "f(have_sequenceId := True, have_sdoId := True, have_domainNumber := True, have_versionPTP := True,
     have_minorVersionPTP := True, have_PTPProfileSpecific := True, have_isUnicast := True, have_srcPort := True,
     have_dstPort := True) = (\<lambda>_. True)"
  by (rule ext, rename_tac h, case_tac h) simp_all

lemma jand_last: "jand fs d st = (True, d', st') \<Longrightarrow> jand (fs @ [f]) d st = f d' st'"
  by (induction fs arbitrary: d st) (auto split: prod.splits if_splits)

lemma request_data:
  assumes "has ms (mng_items m its)" "data_fits (m_replyAction m) (m_replayTlv_id m) (m_dataGet m)"
    and "m_dataGet m = None \<Longrightarrow> member_count ''dataField'' ms = 0"
    and "\<And>t. m_dataGet m = Some t \<Longrightarrow> \<exists>ds. its = Some ds \<and> tlv_members je t ds"
    and "j_action x = m_replyAction m" "j_managementId x = m_replayTlv_id m"
  shows "\<exists>new. json_data je x ms = (True, x\<lparr>j_tlvData := new\<rparr>, ms) \<and> data_read (m_dataGet m) (j_tlvData x) new"
proof (rule json_data_fits)
  fix t
  assume "m_dataGet m = Some t"
  then obtain ds where ds: "its = Some ds" "tlv_members je t ds"
    using assms(4) by blast
  then obtain os where "norm (jObject ds) = jObject os" "has os ds"
    using norm_object [of ds] by (metis tlv_members_def)
  moreover have "member_get ''dataField'' ms = Some (norm (jObject ds))"
    using assms(1) ds(1) by (simp add: mng_items_def)
  ultimately show "\<exists>os ds. member_get ''dataField'' ms = Some (jObject os) \<and> tlv_members je t ds \<and> has os ds"
    using ds(2) by metis
qed (use assms in simp_all)

lemma request_steps:
  assumes "request_ok m" "has ms (header_items m @ mng_items m its)"
    and "m_dataGet m = None \<Longrightarrow> member_count ''dataField'' ms = 0"
    and "\<And>t. m_dataGet m = Some t \<Longrightarrow> \<exists>ds. its = Some ds \<and> tlv_members je t ds"
  shows "\<exists>new. jand (json_members_steps je) j ms = (True, request_read m new j, ms) \<and> data_read (m_dataGet m) (j_tlvData j) new"
proof -
  have h: "has ms (header_items m)" "has ms (mng_items m its)"
    using assms(2) by auto
  have m: "m_type m = Management" "m_mngType m = MANAGEMENT" "m_replyAction m \<in> {GET, SET, COMMAND}"
    "Mng_Ids.isValidId (m_replayTlv_id m)" "port_ok (m_peer m)" "port_ok (m_target m)"
    "data_fits (m_replyAction m) (m_replayTlv_id m) (m_dataGet m)"
    using assms(1) by (auto simp: request_ok_def)
  note steps = request_numbers [OF h(1)] request_header [OF h(1) m(5,6,1)] request_strings [OF h(2) m(2,3,4)]
  obtain new where new: "json_data je (request_read m (j_tlvData j) j) ms =
      (True, (request_read m (j_tlvData j) j)\<lparr>j_tlvData := new\<rparr>, ms)" "data_read (m_dataGet m) (j_tlvData j) new"
    using request_data [OF h(2) m(7) assms(3,4), of "request_read m (j_tlvData j) j"] by (auto simp: request_read_def)
  have "jand (butlast (json_members_steps je)) j ms = (True, request_read m (j_tlvData j) j, ms)"
    by (simp add: json_members_steps_def steps set_have_def have_all cast_back(1)) (simp add: request_read_def)
  moreover have "json_members_steps je = butlast (json_members_steps je) @ [json_data je]"
    by (simp add: json_members_steps_def)
  ultimately have "jand (json_members_steps je) j ms = json_data je (request_read m (j_tlvData j) j) ms"
    using jand_last by metis
  then show ?thesis
    using new by (intro exI [of _ new]) (simp add: request_read_def)
qed

lemma request_items:
  assumes "request_ok m" "\<And>ds. its = Some ds \<Longrightarrow> raw_members ds"
  shows "raw_members (header_items m @ mng_items m its)" "distinct (map fst (header_items m @ mng_items m its))"
proof -
  have p: "raw_members (port_items p)" if "port_ok p" for p
    using port_value.doc_ok [OF that] by simp
  have names: "raw (act2str (m_replyAction m))" "raw (mng2str (m_replayTlv_id m))"
    using assms(1) request_names(1) mng_names(1) by (auto simp: request_ok_def)
  show "raw_members (header_items m @ mng_items m its)"
    using assms names request_names(2,3) p
    by (cases its) (auto simp: header_items_def mng_items_def request_ok_def raw_eval)
  show "distinct (map fst (header_items m @ mng_items m its))"
    by (cases its) (simp_all add: header_items_def mng_items_def)
qed

lemma request_back:
  assumes "request_ok m" "0 \<le> ind"
  shows "\<exists>s new. msg2json m ind = Some s \<and> fromJson je s j = (True, request_read m new j) \<and>
    data_read (m_dataGet m) (j_tlvData j) new"
proof -
  obtain its where its: "\<And>t. m_dataGet m = Some t \<Longrightarrow> \<exists>ds. its = Some ds \<and> tlv_members je t ds" "m_dataGet m = None \<Longrightarrow> its = None"
  proof (cases "m_dataGet m")
    case (Some t)
    then obtain ds where "tlv_members je t ds"
      using assms(1) tlv_codec by (auto simp: request_ok_def data_fits_def)
    then show ?thesis
      using that [of "Some ds"] Some by simp
  qed (use that [of None] in simp)
  let ?its = "header_items m @ mng_items m its"
  have "raw_members ds" if "its = Some ds" for ds
    using that its by (cases "m_dataGet m") (auto simp: tlv_members_def)
  note ok = request_items [OF assms(1) this]
  obtain ms where ms: "parseBuffer (spaces (nat ind) @ bare (nat ind) (jObject ?its)) False None = (True, Some (jObject ms))"
    "has ms ?its" "\<And>k. k \<notin> set (map fst ?its) \<Longrightarrow> member_count k ms = 0"
    using parse_bare [OF ok] by metis
  have "mng2json m st = put_items (mng_items m its) st" for st
    by (rule mng_written [OF assms(1), where ts = "\<lambda>_. the its" and je = je]) (use its in fastforce)+
  then have "msg2json m ind = Some (spaces (nat ind) @ bare (nat ind) (jObject ?its))"
    using assms header_written put_bare_new
    by (simp add: msg2json_def steps_def request_ok_def put_append put_bare_object)
  moreover have "\<exists>new. jand (json_members_steps je) j ms = (True, request_read m new j, ms) \<and>
      data_read (m_dataGet m) (j_tlvData j) new"
  proof (rule request_steps [OF assms(1) ms(2) _ its(1)])
    show "m_dataGet m = None \<Longrightarrow> member_count ''dataField'' ms = 0"
      using its(2) ms(3) [of "''dataField''"] by (simp add: header_items_def mng_items_def)
  qed
  ultimately show ?thesis
    using ms(1) by (auto simp: fromJson_def)
qed

end
