(* ===== verification/Json_Accepted.thy ===== *)
theory Json_Accepted
  imports Json_Survives
begin

unbundle bit_operations_syntax

text \<open>
  Whatever text \<^verbatim>\<open>Json2msg\<close> accepts: the action is one of a request, the identifier is one of the table,
  and when the request needs data there is a TLV of its identifier, so that \<open>setAction\<close> of the message
  takes the request when the table allows the action.
\<close>

lemma verifyTlv_valid:
  assumes "Mng_Ids.isValidId i"
  shows "verifyTlv i d \<longleftrightarrow> (\<exists>t. d = Some t \<and> tlv_type t = i)"
proof -
  have "\<exists>r. mng_all_vals i = Some r \<and> mid_func r \<noteq> NA" if "tlv_type t = i" for t
    using tlv_row [of t] that assms by (cases "tlv_type t = SMPTE_MNG_ID") (auto simp: isValidId_def)
  note row = this
  show ?thesis
  proof (cases d)
    case (Some t)
    then show ?thesis
      using row [of t] by (cases "tlv_type t = i") (auto simp: verifyTlv_def split: option.splits)
  qed (simp add: verifyTlv_def)
qed

lemma json_tlv_type: "json_tlv P t st = (ok, t', st') \<Longrightarrow> tlv_type t' = tlv_type t"
  by (cases t) (auto simp: lift_json_def split: prod.splits)

lemma procData_type:
  assumes "procData P mem i None st = (True, d, st')"
  obtains t where "d = Some t" "tlv_type t = i"
  using assms json_tlv_type [of P] new_object_made(1) [of mem i] by (fastforce simp: procData_def split: option.splits prod.splits)

lemma find_loop_exact_in: "find_loop cmp s tbl True 0 v = (True, c) \<Longrightarrow> c \<in> fst ` set tbl"
  by (induction cmp s tbl True "0 :: nat" v rule: find_loop.induct) (auto split: if_splits)

lemma findMngID_valid: "findMngID s True v = (True, i) \<Longrightarrow> Mng_Ids.isValidId i"
  by (auto simp: findMngID_def isValidId_ids split: if_splits dest!: find_loop_exact_in)

subsection \<open>Steps that keep the request\<close>

lemma jand_True:
  "jand (f # fs) d st = (True, d', st') \<longleftrightarrow> (\<exists>d1 st1. f d st = (True, d1, st1) \<and> jand fs d1 st1 = (True, d', st'))"
  by (auto split: prod.splits)

definition keeps :: "json_step \<Rightarrow> bool" where
  "keeps f \<longleftrightarrow> (\<forall>j ms. j_action (fst (snd (f j ms))) = j_action j \<and> j_managementId (fst (snd (f j ms))) = j_managementId j)"

lemma keeps_optProc:
  assumes "\<And>n j. j_action (upd n j) = j_action j \<and> j_managementId (upd n j) = j_managementId j"
  shows "keeps (optProc key h upd)"
  using assms by (auto simp: keeps_def optProc_def set_have_def split: option.splits)

lemma keeps_portProc:
  assumes "\<And>p j. j_action (upd p j) = j_action j \<and> j_managementId (upd p j) = j_managementId j"
  shows "keeps (portProc key h get upd)"
  using assms by (auto simp: keeps_def portProc_def set_have_def split: prod.splits)

lemma keeps_rest: "keeps (testOpt key s)" "keeps json_unicastFlag"
  by (auto simp: keeps_def testOpt_def json_unicastFlag_def set_have_def split: option.splits jsonValueBase.splits)

lemma keeps_jand: "list_all keeps fs \<Longrightarrow> jand fs j ms = (True, j', ms') \<Longrightarrow> j_action j' = j_action j \<and> j_managementId j' = j_managementId j"
proof (induction fs arbitrary: j ms)
  case (Cons f fs)
  then obtain j1 ms1 where s: "f j ms = (True, j1, ms1)" "jand fs j1 ms1 = (True, j', ms')"
    unfolding jand_True by blast
  have "j_action j1 = j_action j" "j_managementId j1 = j_managementId j"
    using Cons.prems(1) s(1) by (auto simp: keeps_def dest!: spec [of _ j] spec [of _ ms])
  then show ?case
    using Cons.IH [OF _ s(2)] Cons.prems(1) by simp
qed simp

definition request_fits :: "Json2msg \<Rightarrow> bool" where
  "request_fits j \<longleftrightarrow> j_action j \<in> {GET, SET, COMMAND} \<and> Mng_Ids.isValidId (j_managementId j) \<and>
     (j_action j = GET \<or> isEmpty (j_managementId j) \<or> (\<exists>t. j_tlvData j = Some t \<and> tlv_type t = j_managementId j))"

lemma action_step: "testMand key json_action j ms = (True, j', ms') \<Longrightarrow> j_action j' \<in> {GET, SET, COMMAND}"
  by (auto simp: testMand_def json_action_def split: option.splits jsonValueBase.splits if_splits)

lemma managementId_step:
  "testMand key json_managementId j ms = (True, j', ms') \<Longrightarrow> Mng_Ids.isValidId (j_managementId j') \<and> j_action j' = j_action j"
  by (auto simp: testMand_def json_managementId_def dest: findMngID_valid split: option.splits jsonValueBase.splits if_splits prod.splits)

lemma data_step:
  assumes "json_data je j ms = (True, j', ms')"
  shows "j_action j' = j_action j" "j_managementId j' = j_managementId j"
    "j_action j = GET \<or> isEmpty (j_managementId j) \<or> (\<exists>t. j_tlvData j' = Some t \<and> tlv_type t = j_managementId j)"
  using assms by (auto simp: json_data_def Let_def split: if_splits option.splits prod.splits elim!: procData_type)

lemma jand_append:
  "jand (fs @ gs) d st = (True, d', st') \<longleftrightarrow> (\<exists>d1 st1. jand fs d st = (True, d1, st1) \<and> jand gs d1 st1 = (True, d', st'))"
proof (induction fs arbitrary: d st)
  case (Cons f fs)
  show ?case
    unfolding append_Cons jand_True Cons.IH by blast
qed simp

lemma fromJson_fits:
  assumes "fromJson je s j = (True, j')"
  shows "request_fits j'"
proof -
  define opts where "opts =
     [optProc ''sequenceId'' have_sequenceId (\<lambda>n. j_sequenceId_update (\<lambda>_. ucast n)),
      optProc ''sdoId'' have_sdoId (\<lambda>n. j_sdoId_update (\<lambda>_. ucast n)),
      optProc ''domainNumber'' have_domainNumber (\<lambda>n. j_domainNumber_update (\<lambda>_. ucast n)),
      optProc ''versionPTP'' have_versionPTP (\<lambda>n. j_versionPTP_update (\<lambda>_. ucast n)),
      optProc ''minorVersionPTP'' have_minorVersionPTP (\<lambda>n. j_minorVersionPTP_update (\<lambda>_. ucast n)),
      optProc ''PTPProfileSpecific'' have_PTPProfileSpecific (\<lambda>n. j_PTPProfileSpecific_update (\<lambda>_. ucast n)),
      json_unicastFlag,
      portProc ''sourcePortIdentity'' have_srcPort j_srcPort (\<lambda>p. j_srcPort_update (\<lambda>_. p)),
      portProc ''targetPortIdentity'' have_dstPort j_dstPort (\<lambda>p. j_dstPort_update (\<lambda>_. p))]"
  have k: "list_all keeps opts"
    by (simp add: opts_def keeps_optProc keeps_portProc keeps_rest)
  have steps: "json_members_steps je = [testOpt ''messageType'' ''Management'', testOpt ''tlvType'' ''MANAGEMENT'',
      testMand ''actionField'' json_action, testMand ''managementId'' json_managementId] @ opts @ [json_data je]"
    by (simp add: json_members_steps_def opts_def)
  obtain ms ms' where "jand (json_members_steps je) j ms = (True, j', ms')"
    using assms by (auto simp: fromJson_def split: prod.splits bool.splits option.splits jsonValueBase.splits)
  then obtain j2 m2 j3 m3 j4 m4 j5 m5 where s: "testMand ''actionField'' json_action j2 m2 = (True, j3, m3)"
    "testMand ''managementId'' json_managementId j3 m3 = (True, j4, m4)" "jand opts j4 m4 = (True, j5, m5)"
    "json_data je j5 m5 = (True, j', ms')"
    unfolding steps jand_append jand_True by auto
  show ?thesis
    using action_step [OF s(1)] managementId_step [OF s(2)] keeps_jand [OF k s(3)] data_step [OF s(4)]
    by (simp add: request_fits_def)
qed

lemma fits_setAction:
  assumes "request_fits j"
  shows "json_setAction j m =
    (if allowedAction (m_prms m) (j_managementId j) (j_action j)
     then (True, m\<lparr>m_dataSend := (if j_action j = GET \<or> isEmpty (j_managementId j) then None else j_tlvData j),
                   m_sendAction := j_action j, m_tlv_id := j_managementId j\<rparr>)
     else (False, m))"
proof -
  have v: "Mng_Ids.isValidId (j_managementId j)"
    using assms by (simp add: request_fits_def)
  have "mng_size NULL_PTP_MANAGEMENT = 0"
    by (simp add: mng_size_def)
  then show ?thesis
    using assms verifyTlv_valid [OF v, of "j_tlvData j"] v
    by (auto simp: json_setAction_def setAction_def request_fits_def isEmpty_def)
qed

end
