(* ===== verification/Ptp_Time.thy ===== *)
theory Ptp_Time
  imports Ptp_Types
begin

unbundle bit_operations_syntax

text \<open>
  What the time stamps of \<^verbatim>\<open>src/types.cpp\<close> promise. \<open>ts_nat\<close> is the time in nanoseconds as
  a number; the operations are shown to be arithmetic on it while the 64 bits of the seconds
  do not overflow, and to keep time stamps normalised.
\<close>

definition ts_nat :: "Timestamp_t \<Rightarrow> nat" where
  "ts_nat t = unat (secondsField t) * NSEC_PER_SEC + unat (nanosecondsField t)"

definition ts_norm :: "Timestamp_t \<Rightarrow> bool" where
  "ts_norm t \<longleftrightarrow> unat (nanosecondsField t) < NSEC_PER_SEC"

lemma NSEC_word [simp]: "unat (of_nat NSEC_PER_SEC :: uint32_t) = NSEC_PER_SEC"
  "unat (of_nat NSEC_PER_SEC :: uint64_t) = NSEC_PER_SEC"
  by (simp_all add: NSEC_PER_SEC_def)

subsection \<open>Nanoseconds\<close>

lemma neg_div:
  fixes a b :: int
  assumes "b > 0"
  shows "(- a) div b = (if a mod b = 0 then - (a div b) else - (a div b) - 1)"
  using assms zdiv_zminus1_eq_if [of b a] by auto

lemma lldiv_eq:
  assumes "b > 0"
  shows "lldiv a b =
    (if a < 0 \<and> a mod b \<noteq> 0 then (a div b + 1, a mod b - b) else (a div b, a mod b))"
proof -
  have m: "a - b * (a div b) = a mod b"
    by (rule minus_mult_div_eq_mod)
  show ?thesis
  proof (cases "a < 0")
    case True
    then have "lldiv a b = (- ((- a) div b), a + b * ((- a) div b))"
      using assms by (simp add: lldiv_def)
    then show ?thesis
      using True m neg_div [OF assms, of a] by (auto simp: algebra_simps)
  next
    case False
    then have "lldiv a b = (a div b, a - b * (a div b))"
      using assms by (cases "a = 0") (simp_all add: lldiv_def)
    then show ?thesis
      using False m by simp
  qed
qed

lemma fix_rem_done: "0 \<le> r \<Longrightarrow> fix_rem (q, r) = (q, r)"
  by (simp add: fix_rem.simps)

lemma fix_rem_once: "- int NSEC_PER_SEC \<le> r \<Longrightarrow> r < 0 \<Longrightarrow> fix_rem (q, r) = (q - 1, r + int NSEC_PER_SEC)"
  by (subst fix_rem.simps) (simp add: fix_rem_done)

lemma fix_rem_lldiv:
  "fix_rem (lldiv a (int NSEC_PER_SEC)) = (a div int NSEC_PER_SEC, a mod int NSEC_PER_SEC)"
proof -
  have b: "int NSEC_PER_SEC > 0"
    by (simp add: NSEC_PER_SEC_def)
  have "0 \<le> a mod int NSEC_PER_SEC" "a mod int NSEC_PER_SEC < int NSEC_PER_SEC"
    using b by simp_all
  then show ?thesis
    unfolding lldiv_eq [OF b] by (simp add: fix_rem_done fix_rem_once)
qed

lemma fromNanoseconds_eq:
  "fromNanoseconds n = \<lparr>secondsField = word_of_int (sint n div int NSEC_PER_SEC),
     nanosecondsField = word_of_int (sint n mod int NSEC_PER_SEC)\<rparr>"
  by (simp add: fromNanoseconds_def fix_rem_lldiv)

lemma nano_bound: "0 \<le> (a :: int) mod int NSEC_PER_SEC" "a mod int NSEC_PER_SEC < 2 ^ 32"
  using pos_mod_bound [of "int NSEC_PER_SEC" a] by (simp_all add: NSEC_PER_SEC_def)

lemma ts_norm_fromNanoseconds: "ts_norm (fromNanoseconds n)"
proof -
  have "sint n mod int NSEC_PER_SEC < int NSEC_PER_SEC"
    by (simp add: NSEC_PER_SEC_def)
  then show ?thesis
    using nano_bound [of "sint n"]
    by (simp add: ts_norm_def fromNanoseconds_eq unsigned_of_int take_bit_int_eq_self nat_less_iff)
qed

lemma nanoseconds_round: "toNanoseconds (fromNanoseconds n) = n"
proof -
  let ?b = "int NSEC_PER_SEC"
  have c: "ucast (word_of_int (sint n mod ?b) :: uint32_t) = (word_of_int (sint n mod ?b) :: uint64_t)"
    using nano_bound [of "sint n"]
    by (simp add: unsigned_ucast_eq word_eq_iff_unsigned unsigned_of_int take_bit_int_eq_self)
  have "toNanoseconds (fromNanoseconds n) =
      word_of_int (sint n mod ?b) + word_of_int (sint n div ?b) * word_of_int ?b"
    unfolding toNanoseconds_def fromNanoseconds_eq by (simp add: c)
  also have "\<dots> = word_of_int (sint n div ?b * ?b + sint n mod ?b)"
    unfolding of_int_add of_int_mult by (rule add.commute)
  also have "\<dots> = n"
    unfolding div_mult_mod_eq by simp
  finally show ?thesis .
qed

subsection \<open>Arithmetic\<close>

lemma normNano_done: "ts_norm t \<Longrightarrow> normNano t = t"
  by (simp add: normNano.simps [of t] ts_norm_def word_le_nat_alt)

text \<open>The carry keeps the time as long as the seconds do not overflow.\<close>

lemma normNano_time:
  "unat (secondsField t) + unat (nanosecondsField t) div NSEC_PER_SEC < 2 ^ 64 \<Longrightarrow>
   ts_norm (normNano t) \<and> ts_nat (normNano t) = ts_nat t"
proof (induction t rule: normNano.induct)
  case (1 t)
  show ?case
  proof (cases "of_nat NSEC_PER_SEC \<le> nanosecondsField t")
    case True
    let ?u = "t\<lparr>nanosecondsField := nanosecondsField t - of_nat NSEC_PER_SEC,
      secondsField := secondsField t + 1\<rparr>"
    have le: "NSEC_PER_SEC \<le> unat (nanosecondsField t)"
      using True by (simp add: word_le_nat_alt)
    have n: "unat (nanosecondsField ?u) = unat (nanosecondsField t) - NSEC_PER_SEC"
      using True by (simp add: unat_sub)
    have d: "unat (nanosecondsField t) div NSEC_PER_SEC =
        Suc ((unat (nanosecondsField t) - NSEC_PER_SEC) div NSEC_PER_SEC)"
      using le by (simp add: NSEC_PER_SEC_def le_div_geq)
    have s: "unat (secondsField ?u) = unat (secondsField t) + 1"
      using 1(2) d by (simp add: unat_word_ariths)
    have "ts_nat ?u = ts_nat t"
      using le n s by (simp add: ts_nat_def)
    moreover have "normNano t = normNano ?u"
      using True by (subst normNano.simps) simp
    moreover have "unat (secondsField ?u) + unat (nanosecondsField ?u) div NSEC_PER_SEC < 2 ^ 64"
      using 1(2) d n s by simp
    ultimately show ?thesis
      using 1(1) [OF True] by simp
  next
    case False
    then have "ts_norm t"
      by (simp add: ts_norm_def word_le_nat_alt)
    then show ?thesis
      by (simp add: normNano_done)
  qed
qed

lemma add_time:
  assumes "ts_norm t" "ts_norm u" "unat (secondsField t) + unat (secondsField u) + 1 < 2 ^ 64"
  shows "ts_norm (Timestamp_add t u) \<and> ts_nat (Timestamp_add t u) = ts_nat t + ts_nat u"
proof -
  let ?v = "t\<lparr>secondsField := secondsField t + secondsField u,
    nanosecondsField := nanosecondsField t + nanosecondsField u\<rparr>"
  have n: "unat (nanosecondsField ?v) = unat (nanosecondsField t) + unat (nanosecondsField u)"
    using assms(1,2) by (simp add: ts_norm_def NSEC_PER_SEC_def unat_word_ariths)
  have s: "unat (secondsField ?v) = unat (secondsField t) + unat (secondsField u)"
    using assms(3) by (simp add: unat_word_ariths)
  have "unat (nanosecondsField ?v) div NSEC_PER_SEC \<le> 1"
    using assms(1,2) n by (simp add: ts_norm_def NSEC_PER_SEC_def)
  then have "unat (secondsField ?v) + unat (nanosecondsField ?v) div NSEC_PER_SEC < 2 ^ 64"
    using assms(3) s by linarith
  note normNano_time [OF this]
  moreover have "ts_nat ?v = ts_nat t + ts_nat u"
    using n s by (simp add: ts_nat_def algebra_simps)
  ultimately show ?thesis
    by (simp add: Timestamp_add_def)
qed

lemma borrowNano_done: "\<not> nanosecondsField t < n \<Longrightarrow> borrowNano n t = Some t"
  by (simp add: borrowNano.simps [of n t])

lemma borrowNano_once:
  assumes "ts_norm t" "unat n < NSEC_PER_SEC" "nanosecondsField t < n"
  shows "borrowNano n t = Some (t\<lparr>nanosecondsField := nanosecondsField t + of_nat NSEC_PER_SEC,
    secondsField := secondsField t - 1\<rparr>)"
proof -
  let ?u = "t\<lparr>nanosecondsField := nanosecondsField t + of_nat NSEC_PER_SEC,
    secondsField := secondsField t - 1\<rparr>"
  have "unat (nanosecondsField ?u) = unat (nanosecondsField t) + NSEC_PER_SEC"
    using assms(1) by (simp add: ts_norm_def NSEC_PER_SEC_def unat_word_ariths)
  then have "\<not> nanosecondsField ?u < n"
    using assms(2) by (simp add: word_less_nat_alt)
  then show ?thesis
    using assms(3) by (simp add: borrowNano.simps [of n t] borrowNano_done)
qed

lemma subt_time:
  assumes "ts_norm t" "ts_norm u" "ts_nat u \<le> ts_nat t"
  shows "\<exists>r. Timestamp_subt t u = Some r \<and> ts_norm r \<and> ts_nat r = ts_nat t - ts_nat u"
proof -
  have le: "secondsField u \<le> secondsField t"
    using assms by (simp add: ts_norm_def ts_nat_def NSEC_PER_SEC_def word_le_nat_alt)
  let ?v = "t\<lparr>secondsField := secondsField t - secondsField u\<rparr>"
  have s: "unat (secondsField ?v) = unat (secondsField t) - unat (secondsField u)"
    using le by (simp add: unat_sub)
  have v: "ts_norm ?v" and n: "unat (nanosecondsField u) < NSEC_PER_SEC"
    using assms(1,2) by (simp_all add: ts_norm_def)
  show ?thesis
  proof (cases "nanosecondsField t < nanosecondsField u")
    case False
    let ?r = "?v\<lparr>nanosecondsField := nanosecondsField t - nanosecondsField u\<rparr>"
    have rn: "unat (nanosecondsField ?r) = unat (nanosecondsField t) - unat (nanosecondsField u)"
      using False by (simp add: unat_sub)
    have "ts_norm ?r"
      using assms(1) rn by (simp add: ts_norm_def)
    moreover have "ts_nat ?r = ts_nat t - ts_nat u"
      using s rn False le by (simp add: ts_nat_def word_le_nat_alt word_less_nat_alt algebra_simps diff_mult_distrib)
    moreover have "Timestamp_subt t u = Some (normNano ?r)"
      using False by (simp add: Timestamp_subt_def borrowNano_done)
    ultimately show ?thesis
      by (simp add: normNano_done)
  next
    case True
    let ?r = "t\<lparr>secondsField := secondsField t - secondsField u - 1,
      nanosecondsField := nanosecondsField t + of_nat NSEC_PER_SEC - nanosecondsField u\<rparr>"
    have "secondsField u < secondsField t"
      using assms True by (simp add: ts_norm_def ts_nat_def NSEC_PER_SEC_def word_less_nat_alt)
    then have "0 < unat (secondsField ?v)"
      using s by (simp add: word_less_nat_alt)
    then have rs: "unat (secondsField ?r) = unat (secondsField t) - unat (secondsField u) - 1"
      using s unat_minus_one [of "secondsField ?v"] by fastforce
    have "unat (nanosecondsField t + of_nat NSEC_PER_SEC) = unat (nanosecondsField t) + NSEC_PER_SEC"
      using assms(1) by (simp add: ts_norm_def NSEC_PER_SEC_def unat_word_ariths)
    then have rn: "unat (nanosecondsField ?r) =
        unat (nanosecondsField t) + NSEC_PER_SEC - unat (nanosecondsField u)"
      using n by (simp add: unat_sub word_le_nat_alt)
    have "ts_norm ?r"
      using True n rn by (simp add: ts_norm_def word_less_nat_alt)
    moreover have "ts_nat ?r = ts_nat t - ts_nat u"
    proof -
      obtain k where k: "unat (secondsField t) = unat (secondsField u) + 1 + k"
        using \<open>secondsField u < secondsField t\<close> less_iff_Suc_add [of "unat (secondsField u)"]
        by (auto simp: word_less_nat_alt)
      then show ?thesis
        using rs rn n by (simp add: ts_nat_def algebra_simps)
    qed
    moreover have "Timestamp_subt t u = Some (normNano ?r)"
      using borrowNano_once [OF v n] True by (simp add: Timestamp_subt_def)
    ultimately show ?thesis
      by (simp add: normNano_done)
  qed
qed

lemma less_time:
  assumes "ts_norm t" "ts_norm u"
  shows "Timestamp_less t u \<longleftrightarrow> ts_nat t < ts_nat u"
proof (cases "secondsField t" "secondsField u" rule: linorder_cases)
  case equal
  then show ?thesis
    by (simp add: Timestamp_less_def ts_nat_def word_less_nat_alt)
qed (use assms in \<open>auto simp: Timestamp_less_def ts_norm_def ts_nat_def NSEC_PER_SEC_def word_less_nat_alt\<close>)

lemma and_511: "(x :: uint32_t) AND 0x1ff = 0 \<longleftrightarrow> 512 dvd unat x"
proof -
  have "x AND 0x1ff = take_bit 9 x"
    by (simp add: take_bit_eq_mask mask_eq_exp_minus_1)
  then have "unat (x AND 0x1ff) = take_bit 9 (unat x)"
    by (simp only: unsigned_take_bit_eq)
  then have "unat (x AND 0x1ff) = unat x mod 512"
    by (simp add: take_bit_eq_mod)
  then show ?thesis
    by (metis dvd_eq_mod_eq_0 unat_eq_zero)
qed

lemma add_multiple_512: "(x :: uint32_t) AND 0x1ff = 0 \<Longrightarrow> (x + of_nat NSEC_PER_SEC) AND 0x1ff = 0"
  unfolding and_511 by (simp add: NSEC_PER_SEC_def unat_word_ariths dvd_mod_iff)

lemma borrowNano_multiple:
  "borrowNano n t = Some r \<Longrightarrow> \<not> (n = 0xffffffff \<and> nanosecondsField t AND 0x1ff = 0)"
proof (rule borrowNano.raw_induct
    [where P = "\<lambda>n t r. \<not> (n = 0xffffffff \<and> nanosecondsField t AND 0x1ff = 0)"])
  fix borrow :: "UInteger32_t \<Rightarrow> Timestamp_t \<Rightarrow> Timestamp_t option" and n t r
  assume IH: "\<And>n t r. borrow n t = Some r \<Longrightarrow> \<not> (n = 0xffffffff \<and> nanosecondsField t AND 0x1ff = 0)"
    and body: "(if nanosecondsField t < n
      then borrow n (t\<lparr>nanosecondsField := nanosecondsField t + of_nat NSEC_PER_SEC,
        secondsField := secondsField t - 1\<rparr>) else Some t) = Some r"
  show "\<not> (n = 0xffffffff \<and> nanosecondsField t AND 0x1ff = 0)"
  proof
    assume n: "n = 0xffffffff \<and> nanosecondsField t AND 0x1ff = 0"
    then have "nanosecondsField t \<noteq> n"
      by auto
    then have "nanosecondsField t < n"
      using n word_bound [of "nanosecondsField t"] by (simp add: order_less_le word_le_nat_alt)
    then show False
      using IH [of n _ r] body n add_multiple_512 [of "nanosecondsField t"] by fastforce
  qed
qed

lemma borrowNano_forever: "nanosecondsField t AND 0x1ff = 0 \<Longrightarrow> borrowNano 0xffffffff t = None"
  using borrowNano_multiple [of "0xffffffff" t] by (cases "borrowNano 0xffffffff t") auto

end
