(* ===== verification/Clk_Events.thy ===== *)
theory Clk_Events
  imports Ptp_Prelude
begin

unbundle bit_operations_syntax

text \<open>
  Clock manager, what a client subscribes to and what it is told: the events a proxy sends
  (\<^verbatim>\<open>common/ptp_event.hpp\<close>), the clock events a client keeps (\<^verbatim>\<open>pub/clkmgr/event.h\<close>,
  \<^verbatim>\<open>client/clock_event.cpp\<close>) and the subscriptions (\<^verbatim>\<open>pub/clkmgr/subscription.h\<close>,
  \<^verbatim>\<open>client/subscription.cpp\<close>) with their C interface. A derived class is the extension of the
  record of its base class, as \<^verbatim>\<open>PTPClockEvent\<close> of \<^verbatim>\<open>ClockEventBase\<close>;
  \<^verbatim>\<open>SysClockEvent\<close> and \<^verbatim>\<open>SysClockSubscription\<close> add no member to theirs.
\<close>

subsection \<open>Event bits\<close>

definition EventOffsetInRange :: uint32_t where "EventOffsetInRange = 1"
definition EventSyncedWithGm :: uint32_t where "EventSyncedWithGm = 2"
definition EventAsCapable :: uint32_t where "EventAsCapable = 4"
definition EventGmChanged :: uint32_t where "EventGmChanged = 8"

lemmas event_bits = EventOffsetInRange_def EventSyncedWithGm_def EventAsCapable_def EventGmChanged_def

definition PTP_EVENT_ALL :: uint32_t where
  "PTP_EVENT_ALL = EventOffsetInRange OR EventSyncedWithGm OR EventAsCapable OR EventGmChanged"

definition SYS_EVENT_ALL :: uint32_t where
  "SYS_EVENT_ALL = EventOffsetInRange"

definition PTP_COMPOSITE_EVENT_ALL :: uint32_t where
  "PTP_COMPOSITE_EVENT_ALL = EventOffsetInRange OR EventSyncedWithGm OR EventAsCapable"

datatype ClockType = PTPClock | SysClock | otherClock uint8_t

definition ClockType_value :: "ClockType \<Rightarrow> uint8_t" where
  "ClockType_value t = (case t of PTPClock \<Rightarrow> 1 | SysClock \<Rightarrow> 2 | otherClock v \<Rightarrow> v)"

subsection \<open>What the proxy sends\<close>

record ptp_event =
  ev_clockOffset :: int64_t
  ev_gmClockUUID :: uint64_t
  ev_syncInterval :: uint64_t
  ev_asCapable :: bool
  ev_syncedWithGm :: bool

record chrony_event =
  ch_clockOffset :: int64_t
  ch_gmClockUUID :: uint64_t
  ch_syncInterval :: uint64_t

definition no_ptp_event :: ptp_event where
  "no_ptp_event = \<lparr>ev_clockOffset = 0, ev_gmClockUUID = 0, ev_syncInterval = 0,
     ev_asCapable = False, ev_syncedWithGm = False\<rparr>"

definition no_chrony_event :: chrony_event where
  "no_chrony_event = \<lparr>ch_clockOffset = 0, ch_gmClockUUID = 0, ch_syncInterval = 0\<rparr>"

subsection \<open>What the client keeps\<close>

record ClockEventBase =
  clockOffset :: int64_t
  syncInterval :: uint64_t
  gmClockUUID :: uint64_t
  notificationTimestamp :: uint64_t
  offsetInRangeCount :: uint32_t
  gmChangedCount :: uint32_t
  offsetInRange :: bool
  gmChanged :: bool

record PTPClockEvent = ClockEventBase +
  syncedWithGmCount :: uint32_t
  asCapableCount :: uint32_t
  compositeEventCount :: uint32_t
  syncedWithGm :: bool
  isAsCapable :: bool
  compositeEvent :: bool

type_synonym SysClockEvent = ClockEventBase

definition new_SysClockEvent :: SysClockEvent where
  "new_SysClockEvent = \<lparr>clockOffset = 0, syncInterval = 0, gmClockUUID = 0,
     notificationTimestamp = 0, offsetInRangeCount = 0, gmChangedCount = 0,
     offsetInRange = True, gmChanged = False\<rparr>"

definition new_PTPClockEvent :: PTPClockEvent where
  "new_PTPClockEvent = ClockEventBase.extend new_SysClockEvent
     (PTPClockEvent.fields 0 0 0 False False False)"

subsection \<open>Subscriptions\<close>

record ClockSubscriptionBase =
  clockOffsetThreshold :: uint32_t
  eventMask :: uint32_t

record PTPClockSubscription = ClockSubscriptionBase +
  m_composite_event_mask :: uint32_t

type_synonym SysClockSubscription = ClockSubscriptionBase

definition new_SysClockSubscription :: SysClockSubscription where
  "new_SysClockSubscription = \<lparr>clockOffsetThreshold = 0, eventMask = 0\<rparr>"

definition new_PTPClockSubscription :: PTPClockSubscription where
  "new_PTPClockSubscription =
     \<lparr>clockOffsetThreshold = 0, eventMask = 0, m_composite_event_mask = 0\<rparr>"

definition setClockOffsetThreshold ::
  "uint32_t \<Rightarrow> 'a ClockSubscriptionBase_scheme \<Rightarrow> 'a ClockSubscriptionBase_scheme" where
  "setClockOffsetThreshold v s = s\<lparr>clockOffsetThreshold := v\<rparr>"

definition modifyEventMask ::
  "uint32_t \<Rightarrow> 'a ClockSubscriptionBase_scheme \<Rightarrow> 'a ClockSubscriptionBase_scheme" where
  "modifyEventMask newEventMask s = s\<lparr>eventMask := newEventMask\<rparr>"

definition PTP_setEventMask :: "uint32_t \<Rightarrow> PTPClockSubscription \<Rightarrow> bool \<times> PTPClockSubscription" where
  "PTP_setEventMask newEventMask s =
     (if newEventMask > PTP_EVENT_ALL then (False, s) else (True, modifyEventMask newEventMask s))"

definition setCompositeEventMask :: "uint32_t \<Rightarrow> PTPClockSubscription \<Rightarrow> bool \<times> PTPClockSubscription" where
  "setCompositeEventMask composite_event_mask s =
     (if composite_event_mask AND NOT PTP_COMPOSITE_EVENT_ALL \<noteq> 0 then (False, s)
      else (True, s\<lparr>m_composite_event_mask := composite_event_mask\<rparr>))"

definition Sys_setEventMask :: "uint32_t \<Rightarrow> SysClockSubscription \<Rightarrow> bool \<times> SysClockSubscription" where
  "Sys_setEventMask newEventMask s =
     (if newEventMask > SYS_EVENT_ALL then (False, s) else (True, modifyEventMask newEventMask s))"

record ClockSyncSubscription =
  ptpSubscription :: PTPClockSubscription
  sysSubscription :: SysClockSubscription
  ptpSubscribed :: bool
  sysSubscribed :: bool

definition new_ClockSyncSubscription :: ClockSyncSubscription where
  "new_ClockSyncSubscription = \<lparr>ptpSubscription = new_PTPClockSubscription,
     sysSubscription = new_SysClockSubscription, ptpSubscribed = False, sysSubscribed = False\<rparr>"

definition setPtpSubscription :: "PTPClockSubscription \<Rightarrow> ClockSyncSubscription \<Rightarrow> ClockSyncSubscription" where
  "setPtpSubscription p s = s\<lparr>ptpSubscription := p, ptpSubscribed := True\<rparr>"

definition setSysSubscription :: "SysClockSubscription \<Rightarrow> ClockSyncSubscription \<Rightarrow> ClockSyncSubscription" where
  "setSysSubscription p s = s\<lparr>sysSubscription := p, sysSubscribed := True\<rparr>"

definition enablePtpSubscription :: "ClockSyncSubscription \<Rightarrow> ClockSyncSubscription" where
  "enablePtpSubscription s = s\<lparr>ptpSubscribed := True\<rparr>"

definition disablePtpSubscription :: "ClockSyncSubscription \<Rightarrow> ClockSyncSubscription" where
  "disablePtpSubscription s = s\<lparr>ptpSubscribed := False\<rparr>"

definition enableSysSubscription :: "ClockSyncSubscription \<Rightarrow> ClockSyncSubscription" where
  "enableSysSubscription s = s\<lparr>sysSubscribed := True\<rparr>"

definition disableSysSubscription :: "ClockSyncSubscription \<Rightarrow> ClockSyncSubscription" where
  "disableSysSubscription s = s\<lparr>sysSubscribed := False\<rparr>"

subsection \<open>The masks hold known events only\<close>

definition ptp_sub_ok :: "PTPClockSubscription \<Rightarrow> bool" where
  "ptp_sub_ok s \<longleftrightarrow> eventMask s AND NOT PTP_EVENT_ALL = 0 \<and>
     m_composite_event_mask s AND NOT PTP_COMPOSITE_EVENT_ALL = 0"

definition sys_sub_ok :: "SysClockSubscription \<Rightarrow> bool" where
  "sys_sub_ok s \<longleftrightarrow> eventMask s AND NOT SYS_EVENT_ALL = 0"

lemma masks_all: "PTP_EVENT_ALL = 15" "SYS_EVENT_ALL = 1" "PTP_COMPOSITE_EVENT_ALL = 7"
  by (simp_all add: PTP_EVENT_ALL_def SYS_EVENT_ALL_def PTP_COMPOSITE_EVENT_ALL_def event_bits)

text \<open>
  The masks of all events are of the form \<open>2 ^ n - 1\<close>, so the comparison the code makes
  says the same as a test of the bits.
\<close>

lemma above_low_bits: "w AND NOT (mask n) = 0 \<longleftrightarrow> unat w < 2 ^ n" for w :: "'a::len word"
proof -
  have "w AND NOT (mask n) = 0 \<longleftrightarrow> take_bit n w = w"
    by (auto simp: bit_eq_iff bit_simps)
  also have "\<dots> \<longleftrightarrow> take_bit n (unat w) = unat w"
    by (metis unsigned_take_bit_eq word_unat_eq_iff)
  finally show ?thesis
    by (simp add: take_bit_nat_eq_self_iff)
qed

lemma below_mask: "w AND NOT (mask n) = 0 \<longleftrightarrow> \<not> w > mask n" if "n < 32" for w :: uint32_t
proof -
  have "unat (mask n :: uint32_t) = unat (of_nat (mask n) :: uint32_t)"
    by (simp only: of_nat_mask_eq)
  also have "\<dots> = 2 ^ n - 1"
    using that by (simp only: unsigned_of_nat take_bit_of_mask) (simp add: min_def mask_eq_exp_minus_1)
  finally have "unat (mask n :: uint32_t) = 2 ^ n - 1" .
  moreover have "(1 :: nat) \<le> 2 ^ n"
    by simp
  ultimately show ?thesis
    unfolding above_low_bits word_less_nat_alt by linarith
qed

lemma known_bits:
  "w AND NOT PTP_EVENT_ALL = 0 \<longleftrightarrow> \<not> w > PTP_EVENT_ALL"
  "w AND NOT SYS_EVENT_ALL = 0 \<longleftrightarrow> \<not> w > SYS_EVENT_ALL"
  using below_mask [of 4 w] below_mask [of 1 w] by (simp_all add: masks_all mask_eq_exp_minus_1)

lemma PTP_setEventMask_iff:
  "PTP_setEventMask w s =
     (w AND NOT PTP_EVENT_ALL = 0, if w AND NOT PTP_EVENT_ALL = 0 then s\<lparr>eventMask := w\<rparr> else s)"
  by (simp add: PTP_setEventMask_def known_bits modifyEventMask_def)

lemma Sys_setEventMask_iff:
  "Sys_setEventMask w s =
     (w AND NOT SYS_EVENT_ALL = 0, if w AND NOT SYS_EVENT_ALL = 0 then s\<lparr>eventMask := w\<rparr> else s)"
  by (simp add: Sys_setEventMask_def known_bits modifyEventMask_def)

lemma setCompositeEventMask_iff:
  "setCompositeEventMask w s =
     (w AND NOT PTP_COMPOSITE_EVENT_ALL = 0,
      if w AND NOT PTP_COMPOSITE_EVENT_ALL = 0 then s\<lparr>m_composite_event_mask := w\<rparr> else s)"
  by (simp add: setCompositeEventMask_def)

lemmas set_mask_iffs = PTP_setEventMask_iff Sys_setEventMask_iff setCompositeEventMask_iff

lemma subs_ok:
  "ptp_sub_ok new_PTPClockSubscription" "sys_sub_ok new_SysClockSubscription"
  "ptp_sub_ok p \<Longrightarrow> ptp_sub_ok (setClockOffsetThreshold v p)"
  "ptp_sub_ok p \<Longrightarrow> ptp_sub_ok (snd (PTP_setEventMask w p))"
  "ptp_sub_ok p \<Longrightarrow> ptp_sub_ok (snd (setCompositeEventMask w p))"
  "sys_sub_ok q \<Longrightarrow> sys_sub_ok (setClockOffsetThreshold v q)"
  "sys_sub_ok q \<Longrightarrow> sys_sub_ok (snd (Sys_setEventMask w q))"
  by (simp_all add: ptp_sub_ok_def sys_sub_ok_def new_PTPClockSubscription_def
      new_SysClockSubscription_def setClockOffsetThreshold_def set_mask_iffs)

subsection \<open>The C interface\<close>

text \<open>
  \<^verbatim>\<open>Clkmgr_Subscription\<close> keeps the two subscriptions beside the one that holds copies of
  them; a null pointer is \<^term>\<open>None\<close>. \<^verbatim>\<open>clkmgr_setClockOffsetThreshold\<close> takes the
  type of the clock as a number.
\<close>

record Clkmgr_Subscription =
  c_ptp :: PTPClockSubscription
  c_sys :: SysClockSubscription
  c_sub :: ClockSyncSubscription

definition clkmgr_constructSubscriptionInstance :: Clkmgr_Subscription where
  "clkmgr_constructSubscriptionInstance = \<lparr>c_ptp = new_PTPClockSubscription,
     c_sys = new_SysClockSubscription, c_sub = new_ClockSyncSubscription\<rparr>"

type_synonym c_setter = "Clkmgr_Subscription option \<Rightarrow> bool \<times> Clkmgr_Subscription option"

definition store_ptp :: "PTPClockSubscription \<Rightarrow> Clkmgr_Subscription \<Rightarrow> Clkmgr_Subscription" where
  "store_ptp p c = c\<lparr>c_ptp := p, c_sub := setPtpSubscription p (c_sub c)\<rparr>"

definition store_sys :: "SysClockSubscription \<Rightarrow> Clkmgr_Subscription \<Rightarrow> Clkmgr_Subscription" where
  "store_sys p c = c\<lparr>c_sys := p, c_sub := setSysSubscription p (c_sub c)\<rparr>"

definition clkmgr_setEventMask :: "ClockType \<Rightarrow> uint32_t \<Rightarrow> c_setter" where
  "clkmgr_setEventMask clock_type w sub_c =
     (case sub_c of None \<Rightarrow> (False, None)
      | Some c \<Rightarrow>
          (case clock_type of
             PTPClock \<Rightarrow>
               (case PTP_setEventMask w (c_ptp c) of
                  (True, p) \<Rightarrow> (True, Some (store_ptp p c))
                | (False, p) \<Rightarrow> (False, Some (c\<lparr>c_ptp := p\<rparr>)))
           | SysClock \<Rightarrow>
               (case Sys_setEventMask w (c_sys c) of
                  (True, p) \<Rightarrow> (True, Some (store_sys p c))
                | (False, p) \<Rightarrow> (False, Some (c\<lparr>c_sys := p\<rparr>)))
           | _ \<Rightarrow> (False, Some c)))"

definition clkmgr_getEventMask :: "Clkmgr_Subscription option \<Rightarrow> ClockType \<Rightarrow> uint32_t" where
  "clkmgr_getEventMask sub_c clock_type =
     (case sub_c of None \<Rightarrow> 0
      | Some c \<Rightarrow>
          (case clock_type of
             PTPClock \<Rightarrow> eventMask (ptpSubscription (c_sub c))
           | SysClock \<Rightarrow> eventMask (sysSubscription (c_sub c))
           | _ \<Rightarrow> 0))"

definition clkmgr_setPtpCompositeEventMask :: "uint32_t \<Rightarrow> c_setter" where
  "clkmgr_setPtpCompositeEventMask w sub_c =
     (case sub_c of None \<Rightarrow> (False, None)
      | Some c \<Rightarrow>
          (case setCompositeEventMask w (c_ptp c) of
             (True, p) \<Rightarrow> (True, Some (store_ptp p c))
           | (False, p) \<Rightarrow> (False, Some (c\<lparr>c_ptp := p\<rparr>))))"

definition clkmgr_getPtpCompositeEventMask :: "Clkmgr_Subscription option \<Rightarrow> uint32_t" where
  "clkmgr_getPtpCompositeEventMask sub_c =
     (case sub_c of None \<Rightarrow> 0 | Some c \<Rightarrow> m_composite_event_mask (ptpSubscription (c_sub c)))"

definition clkmgr_setClockOffsetThreshold :: "uint32_t \<Rightarrow> uint32_t \<Rightarrow> c_setter" where
  "clkmgr_setClockOffsetThreshold clock_type threshold sub_c =
     (case sub_c of None \<Rightarrow> (False, None)
      | Some c \<Rightarrow>
          (if clock_type = 1
           then (True, Some (store_ptp (setClockOffsetThreshold threshold (c_ptp c)) c))
           else if clock_type = 2
           then (True, Some (store_sys (setClockOffsetThreshold threshold (c_sys c)) c))
           else (False, Some c)))"

definition clkmgr_getClockOffsetThreshold :: "Clkmgr_Subscription option \<Rightarrow> ClockType \<Rightarrow> uint32_t" where
  "clkmgr_getClockOffsetThreshold sub_c clock_type =
     (case sub_c of None \<Rightarrow> 0
      | Some c \<Rightarrow>
          (case clock_type of
             PTPClock \<Rightarrow> clockOffsetThreshold (ptpSubscription (c_sub c))
           | SysClock \<Rightarrow> clockOffsetThreshold (sysSubscription (c_sub c))
           | _ \<Rightarrow> 0))"

definition clkmgr_enableSubscription :: "ClockType \<Rightarrow> c_setter" where
  "clkmgr_enableSubscription clock_type sub_c =
     (case sub_c of None \<Rightarrow> (False, None)
      | Some c \<Rightarrow>
          (case clock_type of
             PTPClock \<Rightarrow> (True, Some (c\<lparr>c_sub := enablePtpSubscription (c_sub c)\<rparr>))
           | SysClock \<Rightarrow> (True, Some (c\<lparr>c_sub := enableSysSubscription (c_sub c)\<rparr>))
           | _ \<Rightarrow> (False, Some c)))"

definition clkmgr_disableSubscription :: "ClockType \<Rightarrow> c_setter" where
  "clkmgr_disableSubscription clock_type sub_c =
     (case sub_c of None \<Rightarrow> (False, None)
      | Some c \<Rightarrow>
          (case clock_type of
             PTPClock \<Rightarrow> (True, Some (c\<lparr>c_sub := disablePtpSubscription (c_sub c)\<rparr>))
           | SysClock \<Rightarrow> (True, Some (c\<lparr>c_sub := disableSysSubscription (c_sub c)\<rparr>))
           | _ \<Rightarrow> (False, Some c)))"

definition clkmgr_isSubscriptionEnabled :: "Clkmgr_Subscription option \<Rightarrow> ClockType \<Rightarrow> bool" where
  "clkmgr_isSubscriptionEnabled sub_c clock_type =
     (case sub_c of None \<Rightarrow> False
      | Some c \<Rightarrow>
          (case clock_type of
             PTPClock \<Rightarrow> ptpSubscribed (c_sub c)
           | SysClock \<Rightarrow> sysSubscribed (c_sub c)
           | _ \<Rightarrow> False))"

text \<open>
  Whatever the order of the calls, the subscription a client passes on holds what was set:
  the copies inside it never fall behind the subscriptions beside it.
\<close>

definition c_sub_ok :: "Clkmgr_Subscription option \<Rightarrow> bool" where
  "c_sub_ok sub_c = (case sub_c of None \<Rightarrow> True
     | Some c \<Rightarrow> ptpSubscription (c_sub c) = c_ptp c \<and> sysSubscription (c_sub c) = c_sys c \<and>
         ptp_sub_ok (c_ptp c) \<and> sys_sub_ok (c_sys c))"

lemmas c_sub_defs = store_ptp_def store_sys_def setPtpSubscription_def setSysSubscription_def
  enablePtpSubscription_def disablePtpSubscription_def enableSysSubscription_def
  disableSysSubscription_def ptp_sub_ok_def sys_sub_ok_def setClockOffsetThreshold_def

lemma c_sub_ok_new: "c_sub_ok (Some clkmgr_constructSubscriptionInstance)"
  using subs_ok(1,2)
  by (simp add: c_sub_ok_def clkmgr_constructSubscriptionInstance_def new_ClockSyncSubscription_def)

lemma c_sub_ok_steps:
  assumes "c_sub_ok c"
  shows "c_sub_ok (snd (clkmgr_setEventMask t w c))"
    and "c_sub_ok (snd (clkmgr_setPtpCompositeEventMask w c))"
    and "c_sub_ok (snd (clkmgr_setClockOffsetThreshold n w c))"
    and "c_sub_ok (snd (clkmgr_enableSubscription t c))"
    and "c_sub_ok (snd (clkmgr_disableSubscription t c))"
  using assms
  by (auto simp: c_sub_ok_def clkmgr_setEventMask_def clkmgr_setPtpCompositeEventMask_def
      clkmgr_setClockOffsetThreshold_def clkmgr_enableSubscription_def
      clkmgr_disableSubscription_def set_mask_iffs c_sub_defs
      split: option.splits ClockType.splits)

lemma c_mask_read_back:
  assumes "fst (clkmgr_setEventMask t w c)"
  shows "clkmgr_getEventMask (snd (clkmgr_setEventMask t w c)) t = w"
    and "clkmgr_isSubscriptionEnabled (snd (clkmgr_setEventMask t w c)) t"
  using assms
  by (auto simp: clkmgr_setEventMask_def clkmgr_getEventMask_def clkmgr_isSubscriptionEnabled_def
      set_mask_iffs c_sub_defs split: option.splits ClockType.splits)

end
