(* ===== verification/Clk_Messages.thy ===== *)
theory Clk_Messages
  imports Ptp_Prelude Clk_Events
begin

section \<open>The buffer\<close>

text \<open>
  Clock manager, the buffer of a message queue and its macros: \<^verbatim>\<open>class Buffer\<close> of
  \<^verbatim>\<open>common/msgq_tport.hpp\<close>, \<^verbatim>\<open>PARSE_RX\<close> and \<^verbatim>\<open>WRITE_TX\<close> of
  \<^verbatim>\<open>common/serialize.hpp\<close>. The macros copy the object representation of a variable, so
  the octets depend on the byte order of the host and on the padding of structures; both are
  kept in \<open>host\<close>, on which nothing is assumed. Proxy and client run on the same host.
\<close>

definition MAX_BUFFER_LENGTH :: nat where
  "MAX_BUFFER_LENGTH = 8192"

record Buffer =
  m_offset :: nat
  m_rcvSize :: nat
  m_buffer :: octets

definition setLen :: "nat \<Rightarrow> Buffer \<Rightarrow> Buffer" where
  "setLen rcvSize b = b\<lparr>m_rcvSize := rcvSize, m_offset := 0\<rparr>"

definition resetOffset :: "Buffer \<Rightarrow> Buffer" where
  "resetOffset b = b\<lparr>m_offset := 0\<rparr>"

definition addOffset :: "nat \<Rightarrow> Buffer \<Rightarrow> Buffer" where
  "addOffset n b = b\<lparr>m_offset := m_offset b + n\<rparr>"

definition sizeLeft :: "Buffer \<Rightarrow> nat" where
  "sizeLeft b = (if m_offset b \<le> MAX_BUFFER_LENGTH then MAX_BUFFER_LENGTH - m_offset b
     else MAX_BUFFER_LENGTH + 2 ^ 64 - m_offset b)"

definition lenLeft :: "Buffer \<Rightarrow> nat" where
  "lenLeft b = (if m_offset b \<le> m_rcvSize b then m_rcvSize b - m_offset b
     else m_rcvSize b + 2 ^ 64 - m_offset b)"

text \<open>\<open>PARSE_RX n\<close> takes a variable of \<open>n\<close> octets, or nothing.\<close>

type_synonym 'a rx = "Buffer \<Rightarrow> 'a option \<times> Buffer"

definition PARSE_RX :: "nat \<Rightarrow> octets rx" where
  "PARSE_RX var_len b =
     (if lenLeft b \<ge> var_len
      then (Some (mem_read (m_buffer b) (m_offset b) var_len), addOffset var_len b)
      else (None, b))"

definition WRITE_TX :: "octets \<Rightarrow> Buffer \<Rightarrow> bool \<times> Buffer" where
  "WRITE_TX var b =
     (if sizeLeft b \<ge> length var
      then (True, addOffset (length var) (b\<lparr>m_buffer := mem_write (m_buffer b) (m_offset b) var\<rparr>))
      else (False, b))"

text \<open>A chain of writes joined by \<^verbatim>\<open>&&\<close>, and of reads.\<close>

fun WRITE_all :: "octets list \<Rightarrow> Buffer \<Rightarrow> bool \<times> Buffer" where
  "WRITE_all [] b = (True, b)"
| "WRITE_all (v # vs) b = (case WRITE_TX v b of (True, b1) \<Rightarrow> WRITE_all vs b1 | r \<Rightarrow> r)"

definition rx_then :: "'a rx \<Rightarrow> ('a \<Rightarrow> 'b rx) \<Rightarrow> 'b rx" where
  "rx_then f g b = (case f b of (None, b1) \<Rightarrow> (None, b1) | (Some x, b1) \<Rightarrow> g x b1)"

definition rx_give :: "'a \<Rightarrow> 'a rx" where
  "rx_give x b = (Some x, b)"

text \<open>A received message of the queue; what the buffer holds behind it is never read.\<close>

definition rx_load :: "octets \<Rightarrow> Buffer" where
  "rx_load bs = setLen (length bs) \<lparr>m_offset = 0, m_rcvSize = 0,
     m_buffer = bs @ replicate (MAX_BUFFER_LENGTH - length bs) 0\<rparr>"

subsection \<open>Object representations\<close>

record host =
  big_endian :: bool
  filler :: octets

definition host_order :: "host \<Rightarrow> octets \<Rightarrow> octets" where
  "host_order h bs = (if big_endian h then bs else rev bs)"

definition host_octets :: "host \<Rightarrow> 'a::len word \<Rightarrow> octets" where
  "host_octets h w = host_order h (cpu_to_net w)"

definition host_word :: "host \<Rightarrow> octets \<Rightarrow> 'a::len word" where
  "host_word h bs = net_to_cpu (host_order h bs)"

definition bool_octet :: "bool \<Rightarrow> octets" where
  "bool_octet b = [of_bool b]"

definition octet_bool :: "octets \<Rightarrow> bool" where
  "octet_bool bs \<longleftrightarrow> hd bs \<noteq> 0"

definition pad_octets :: "host \<Rightarrow> nat \<Rightarrow> octets" where
  "pad_octets h n = take n (filler h @ replicate n 0)"

definition RX :: "host \<Rightarrow> 'a::len word rx" where
  "RX h = rx_then (PARSE_RX (LENGTH('a) div 8)) (\<lambda>bs. rx_give (host_word h bs))"

lemma length_host_octets [simp]: "length (host_octets h (w :: 'a::len word)) = LENGTH('a) div 8"
  by (simp add: host_octets_def host_order_def)

lemma length_pad_octets [simp]: "length (pad_octets h n) = n"
  by (simp add: pad_octets_def)

lemma length_bool_octet [simp]: "length (bool_octet b) = 1"
  by (simp add: bool_octet_def)

lemma octet_bool_octet [simp]: "octet_bool (bool_octet b) = b"
  by (simp add: octet_bool_def bool_octet_def)

lemma host_word_octets [simp]:
  "host_word h (host_octets h (a :: 8 word)) = a" "host_word h (host_octets h (b :: 16 word)) = b"
  "host_word h (host_octets h (c :: 64 word)) = c"
  by (simp_all add: host_word_def host_octets_def host_order_def net_to_cpu_to_net)

subsection \<open>What was written is read\<close>

definition buffer_ok :: "Buffer \<Rightarrow> bool" where
  "buffer_ok b \<longleftrightarrow> length (m_buffer b) = MAX_BUFFER_LENGTH \<and> m_offset b \<le> MAX_BUFFER_LENGTH"

definition written :: "Buffer \<Rightarrow> octets" where
  "written b = take (m_offset b) (m_buffer b)"

text \<open>\<open>pending b\<close>: the octets of the received message that are still to be parsed.\<close>

definition pending :: "Buffer \<Rightarrow> octets" where
  "pending b = take (m_rcvSize b - m_offset b) (drop (m_offset b) (m_buffer b))"

definition received_ok :: "Buffer \<Rightarrow> bool" where
  "received_ok b \<longleftrightarrow> m_offset b \<le> m_rcvSize b \<and> m_rcvSize b \<le> length (m_buffer b)"

lemma WRITE_TX_ok:
  assumes "buffer_ok b" and "WRITE_TX v b = (ok, b1)"
  shows "ok \<longleftrightarrow> length (written b) + length v \<le> MAX_BUFFER_LENGTH"
    and "buffer_ok b1" and "ok \<Longrightarrow> written b1 = written b @ v"
  using assms
  by (auto simp: WRITE_TX_def buffer_ok_def sizeLeft_def written_def addOffset_def mem_write_def
      split: if_splits)

lemma WRITE_all_ok:
  "buffer_ok b \<Longrightarrow> WRITE_all vs b = (ok, b1) \<Longrightarrow>
     (ok \<longleftrightarrow> length (written b) + length (concat vs) \<le> MAX_BUFFER_LENGTH) \<and>
     buffer_ok b1 \<and> (ok \<longrightarrow> written b1 = written b @ concat vs)"
proof (induction vs arbitrary: b)
  case Nil
  then show ?case
    by (auto simp: buffer_ok_def written_def)
next
  case (Cons v vs)
  obtain ok0 b0 where eq: "WRITE_TX v b = (ok0, b0)"
    by (cases "WRITE_TX v b")
  note w = WRITE_TX_ok [OF Cons.prems(1) eq]
  show ?case
  proof (cases ok0)
    case True
    then show ?thesis
      using Cons.IH [OF w(2)] Cons.prems(2) w eq by auto
  next
    case False
    then show ?thesis
      using Cons.prems(2) w eq by auto
  qed
qed

lemma PARSE_RX_pending:
  assumes "received_ok b"
  shows "PARSE_RX n b =
     (if n \<le> length (pending b) then (Some (take n (pending b)), addOffset n b) else (None, b))"
    and "n \<le> length (pending b) \<Longrightarrow> received_ok (addOffset n b) \<and> pending (addOffset n b) = drop n (pending b)"
proof -
  have len: "length (pending b) = m_rcvSize b - m_offset b"
    using assms by (auto simp: pending_def received_ok_def)
  show "PARSE_RX n b =
     (if n \<le> length (pending b) then (Some (take n (pending b)), addOffset n b) else (None, b))"
    using assms by (auto simp: PARSE_RX_def lenLeft_def received_ok_def len)
      (simp add: pending_def mem_read_def min_def)
  show "n \<le> length (pending b) \<Longrightarrow> received_ok (addOffset n b) \<and> pending (addOffset n b) = drop n (pending b)"
    using assms by (auto simp: len received_ok_def addOffset_def)
      (simp add: pending_def drop_take add.commute)
qed

text \<open>\<open>takes f bs v\<close>: of a message that goes on with \<open>bs\<close>, \<open>f\<close> takes these octets and gives \<open>v\<close>.\<close>

definition takes :: "'a rx \<Rightarrow> octets \<Rightarrow> 'a \<Rightarrow> bool" where
  "takes f bs v \<longleftrightarrow> (\<forall>b rest. received_ok b \<and> pending b = bs @ rest \<longrightarrow>
     (\<exists>b'. f b = (Some v, b') \<and> received_ok b' \<and> pending b' = rest \<and> m_buffer b' = m_buffer b))"

lemma takesD:
  assumes "takes f bs v" "received_ok b" "pending b = bs @ rest"
  obtains b' where "f b = (Some v, b')" "received_ok b'" "pending b' = rest" "m_buffer b' = m_buffer b"
  using assms unfolding takes_def by blast

lemma takes_PARSE_RX [step_intros]: "length bs = n \<Longrightarrow> takes (PARSE_RX n) bs bs"
  using PARSE_RX_pending by (auto simp: takes_def) (simp add: addOffset_def)

lemma takes_give [step_intros]: "takes (rx_give x) [] x"
  by (simp add: takes_def rx_give_def)

lemma takes_then: "takes f bs v \<Longrightarrow> takes (g v) cs w \<Longrightarrow> takes (rx_then f g) (bs @ cs) w"
  unfolding takes_def by (simp add: rx_then_def) (metis (no_types, lifting) case_prod_conv option.simps(5))

lemma takes_then_last: "takes f bs v \<Longrightarrow> takes (g v) [] w \<Longrightarrow> takes (rx_then f g) bs w"
  using takes_then [of f bs v g "[]" w] by simp

lemma takes_RX [step_intros]:
  "takes (RX h) (host_octets h (a :: 8 word)) a" "takes (RX h) (host_octets h (b :: 16 word)) b"
  "takes (RX h) (host_octets h (c :: 64 word)) c"
  by (auto simp: RX_def intro!: takes_then_last takes_PARSE_RX takes_give
      intro: back_subst [of "\<lambda>x. takes (rx_give x) [] _", OF takes_give])

lemma received_buffer_ok:
  "received_ok b \<Longrightarrow> length (m_buffer b) = MAX_BUFFER_LENGTH \<Longrightarrow> buffer_ok b"
  by (simp add: received_ok_def buffer_ok_def)

lemma rx_load_ok: "length bs \<le> MAX_BUFFER_LENGTH \<Longrightarrow> received_ok (rx_load bs) \<and> pending (rx_load bs) = bs \<and> buffer_ok (rx_load bs)"
  by (simp add: rx_load_def setLen_def received_ok_def pending_def buffer_ok_def)

section \<open>The messages\<close>

text \<open>
  Clock manager, the messages between a client and the proxy: \<^verbatim>\<open>common/message.hpp\<close>,
  \<^verbatim>\<open>common/message.cpp\<close> and the four common classes of messages. The class of a message
  is its body; a derived class of the proxy or of the client adds the tail of the message,
  which is an argument here and defined with the proxy and the client.
\<close>

subsection \<open>Constants\<close>

definition CLIENTID_LENGTH :: nat where "CLIENTID_LENGTH = 512"
definition InvalidSessionId :: uint16_t where "InvalidSessionId = 0xffff"
definition ValidMaskSessionId :: uint16_t where "ValidMaskSessionId = drop_bit 1 0xffff"
definition STRING_SIZE_MAX :: nat where "STRING_SIZE_MAX = 64"

definition ACK_NONE :: uint8_t where "ACK_NONE = 0"
definition ACK_SUCCESS :: uint8_t where "ACK_SUCCESS = 1"

definition CONNECT_MSG :: uint8_t where "CONNECT_MSG = 0"
definition SUBSCRIBE_MSG :: uint8_t where "SUBSCRIBE_MSG = 1"
definition NOTIFY_MESSAGE :: uint8_t where "NOTIFY_MESSAGE = 2"
definition DISCONNECT_MSG :: uint8_t where "DISCONNECT_MSG = 3"

lemmas msg_ids = CONNECT_MSG_def SUBSCRIBE_MSG_def NOTIFY_MESSAGE_def DISCONNECT_MSG_def

lemma session_consts [simp]: "ValidMaskSessionId = 0x7fff"
  by (simp add: ValidMaskSessionId_def)

subsection \<open>Messages\<close>

datatype msg_body =
    ConnectMessage (clientId: octets)
  | SubscribeMessage (sub_timeBaseIndex: uint64_t)
  | NotificationMessage (ntf_timeBaseIndex: uint64_t)
  | DisconnectMessage

record ClkMessage =
  m_msgAck :: uint8_t
  m_sessionId :: uint16_t
  msg_body :: msg_body

fun get_msgId :: "msg_body \<Rightarrow> uint8_t" where
  "get_msgId (ConnectMessage c) = CONNECT_MSG"
| "get_msgId (SubscribeMessage i) = SUBSCRIBE_MSG"
| "get_msgId (NotificationMessage i) = NOTIFY_MESSAGE"
| "get_msgId DisconnectMessage = DISCONNECT_MSG"

definition new_ClkMessage :: "msg_body \<Rightarrow> ClkMessage" where
  "new_ClkMessage b = \<lparr>m_msgAck = ACK_NONE, m_sessionId = InvalidSessionId, msg_body = b\<rparr>"

text \<open>The setters of the index take an \<^verbatim>\<open>int\<close>: a larger index is cut and extended again.\<close>

definition int_index :: "uint64_t \<Rightarrow> uint64_t" where
  "int_index i = scast (ucast i :: int32_t)"

subsection \<open>Structures on the wire\<close>

record TimeBaseCfg =
  cfg_timeBaseIndex :: uint64_t
  cfg_timeBaseName :: octets
  cfg_interfaceName :: octets
  cfg_transportSpecific :: uint8_t
  cfg_domainNumber :: uint8_t
  cfg_haveSys :: bool
  cfg_havePtp :: bool

definition tbcfg_ok :: "TimeBaseCfg \<Rightarrow> bool" where
  "tbcfg_ok c \<longleftrightarrow> length (cfg_timeBaseName c) = STRING_SIZE_MAX \<and>
     length (cfg_interfaceName c) = STRING_SIZE_MAX"

definition cfg_octets :: "host \<Rightarrow> TimeBaseCfg \<Rightarrow> octets" where
  "cfg_octets h c = host_octets h (cfg_timeBaseIndex c) @ cfg_timeBaseName c @ cfg_interfaceName c @
     [cfg_transportSpecific c, cfg_domainNumber c] @ bool_octet (cfg_haveSys c) @
     bool_octet (cfg_havePtp c) @ pad_octets h 4"

definition ptp_event_octets :: "host \<Rightarrow> ptp_event \<Rightarrow> octets" where
  "ptp_event_octets h e = host_octets h (ev_clockOffset e) @ host_octets h (ev_gmClockUUID e) @
     host_octets h (ev_syncInterval e) @ bool_octet (ev_asCapable e) @
     bool_octet (ev_syncedWithGm e) @ pad_octets h 6"

definition chrony_event_octets :: "host \<Rightarrow> chrony_event \<Rightarrow> octets" where
  "chrony_event_octets h e = host_octets h (ch_clockOffset e) @ host_octets h (ch_gmClockUUID e) @
     host_octets h (ch_syncInterval e)"

definition field :: "nat \<Rightarrow> nat \<Rightarrow> octets \<Rightarrow> octets" where
  "field off n bs = take n (drop off bs)"

definition RX_cfg :: "host \<Rightarrow> TimeBaseCfg rx" where
  "RX_cfg h = rx_then (PARSE_RX 144) (\<lambda>bs. rx_give
     \<lparr>cfg_timeBaseIndex = host_word h (field 0 8 bs), cfg_timeBaseName = field 8 64 bs,
      cfg_interfaceName = field 72 64 bs, cfg_transportSpecific = hd (field 136 1 bs),
      cfg_domainNumber = hd (field 137 1 bs), cfg_haveSys = octet_bool (field 138 1 bs),
      cfg_havePtp = octet_bool (field 139 1 bs)\<rparr>)"

definition RX_ptp_event :: "host \<Rightarrow> ptp_event rx" where
  "RX_ptp_event h = rx_then (PARSE_RX 32) (\<lambda>bs. rx_give
     \<lparr>ev_clockOffset = host_word h (field 0 8 bs), ev_gmClockUUID = host_word h (field 8 8 bs),
      ev_syncInterval = host_word h (field 16 8 bs), ev_asCapable = octet_bool (field 24 1 bs),
      ev_syncedWithGm = octet_bool (field 25 1 bs)\<rparr>)"

definition RX_chrony_event :: "host \<Rightarrow> chrony_event rx" where
  "RX_chrony_event h = rx_then (PARSE_RX 24) (\<lambda>bs. rx_give
     \<lparr>ch_clockOffset = host_word h (field 0 8 bs), ch_gmClockUUID = host_word h (field 8 8 bs),
      ch_syncInterval = host_word h (field 16 8 bs)\<rparr>)"

subsection \<open>Making and parsing a message\<close>

definition clientIdEncaps :: "octets \<Rightarrow> octets" where
  "clientIdEncaps c = take CLIENTID_LENGTH (c @ replicate CLIENTID_LENGTH 0)"

definition Connect_makeBufferComm :: "host \<Rightarrow> uint16_t \<Rightarrow> octets \<Rightarrow> octets list" where
  [simp]: "Connect_makeBufferComm h sid c = [host_octets h sid, clientIdEncaps c]"

definition Subscribe_makeBufferComm :: "host \<Rightarrow> uint16_t \<Rightarrow> uint64_t \<Rightarrow> octets list" where
  [simp]: "Subscribe_makeBufferComm h sid i = [host_octets h sid, host_octets h i]"

definition Notification_makeBufferComm :: "host \<Rightarrow> uint64_t \<Rightarrow> octets list" where
  [simp]: "Notification_makeBufferComm h i = [host_octets h i]"

definition Disconnect_makeBufferComm :: "host \<Rightarrow> uint16_t \<Rightarrow> octets list" where
  [simp]: "Disconnect_makeBufferComm h sid = [host_octets h sid]"

fun makeBufferComm :: "host \<Rightarrow> uint16_t \<Rightarrow> msg_body \<Rightarrow> octets list" where
  "makeBufferComm h sid (ConnectMessage c) = Connect_makeBufferComm h sid c"
| "makeBufferComm h sid (SubscribeMessage i) = Subscribe_makeBufferComm h sid i"
| "makeBufferComm h sid (NotificationMessage i) = Notification_makeBufferComm h i"
| "makeBufferComm h sid DisconnectMessage = Disconnect_makeBufferComm h sid"

definition makeBuffer :: "host \<Rightarrow> octets list \<Rightarrow> ClkMessage \<Rightarrow> Buffer \<Rightarrow> bool \<times> Buffer" where
  "makeBuffer h tail_vars msg b =
     WRITE_all ([[get_msgId (msg_body msg)], [m_msgAck msg]] @
       makeBufferComm h (m_sessionId msg) (msg_body msg) @ tail_vars) (resetOffset b)"

definition Connect_parseBufferComm :: "host \<Rightarrow> ClkMessage \<Rightarrow> ClkMessage rx" where
  [simp]: "Connect_parseBufferComm h msg =
     rx_then (RX h) (\<lambda>sid. rx_then (PARSE_RX CLIENTID_LENGTH) (\<lambda>e.
       rx_give (msg\<lparr>msg_body := ConnectMessage e, m_sessionId := sid\<rparr>)))"

definition Subscribe_parseBufferComm :: "host \<Rightarrow> ClkMessage \<Rightarrow> ClkMessage rx" where
  [simp]: "Subscribe_parseBufferComm h msg =
     rx_then (RX h) (\<lambda>sid. rx_then (RX h) (\<lambda>j.
       rx_give (msg\<lparr>msg_body := SubscribeMessage j, m_sessionId := sid\<rparr>)))"

definition Notification_parseBufferComm :: "host \<Rightarrow> ClkMessage \<Rightarrow> ClkMessage rx" where
  [simp]: "Notification_parseBufferComm h msg =
     rx_then (RX h) (\<lambda>j. rx_give (msg\<lparr>msg_body := NotificationMessage j\<rparr>))"

definition Disconnect_parseBufferComm :: "host \<Rightarrow> ClkMessage \<Rightarrow> ClkMessage rx" where
  [simp]: "Disconnect_parseBufferComm h msg =
     rx_then (RX h) (\<lambda>sid. rx_give (msg\<lparr>m_sessionId := sid\<rparr>))"

fun parseBufferComm :: "host \<Rightarrow> ClkMessage \<Rightarrow> msg_body \<Rightarrow> ClkMessage rx" where
  "parseBufferComm h msg (ConnectMessage c) = Connect_parseBufferComm h msg"
| "parseBufferComm h msg (SubscribeMessage i) = Subscribe_parseBufferComm h msg"
| "parseBufferComm h msg (NotificationMessage i) = Notification_parseBufferComm h msg"
| "parseBufferComm h msg DisconnectMessage = Disconnect_parseBufferComm h msg"

text \<open>
  \<open>allocMessage ids n\<close>: the message made for the number \<open>n\<close>, when it is one of the
  registered ones. \<open>parseHead\<close> is what both static and virtual \<^verbatim>\<open>parseBuffer\<close> do before
  the tail of the class.
\<close>

definition allocMessage :: "uint8_t list \<Rightarrow> uint8_t \<Rightarrow> ClkMessage option" where
  "allocMessage ids n =
     (if n \<notin> set ids then None
      else if n = CONNECT_MSG then Some (new_ClkMessage (ConnectMessage []))
      else if n = SUBSCRIBE_MSG then Some (new_ClkMessage (SubscribeMessage 0))
      else if n = NOTIFY_MESSAGE then Some (new_ClkMessage (NotificationMessage 0))
      else if n = DISCONNECT_MSG then Some (new_ClkMessage DisconnectMessage)
      else None)"

definition parseHead :: "host \<Rightarrow> uint8_t list \<Rightarrow> ClkMessage rx" where
  "parseHead h ids =
     rx_then (RX h) (\<lambda>msgId.
       case allocMessage ids msgId of None \<Rightarrow> (\<lambda>b. (None, b))
       | Some msg \<Rightarrow> rx_then (RX h) (\<lambda>ack.
           parseBufferComm h (msg\<lparr>m_msgAck := ack\<rparr>) (msg_body msg)))"

subsection \<open>What is made is parsed back\<close>

lemma field_append [simp]:
  "off + n \<le> length as \<Longrightarrow> field off n (as @ bs) = field off n as"
  "length as \<le> off \<Longrightarrow> field off n (as @ bs) = field (off - length as) n bs"
  by (simp_all add: field_def)

lemma field_all [simp]: "length bs = n \<Longrightarrow> field 0 n bs = bs"
  by (simp add: field_def)

lemma struct_sizes [simp]:
  "length (ptp_event_octets h e) = 32" "length (chrony_event_octets h f) = 24"
  "tbcfg_ok c \<Longrightarrow> length (cfg_octets h c) = 144"
  by (simp_all add: ptp_event_octets_def chrony_event_octets_def cfg_octets_def tbcfg_ok_def STRING_SIZE_MAX_def)

lemma takes_one: "takes f bs v \<Longrightarrow> g v = w \<Longrightarrow> takes (rx_then f (\<lambda>x. rx_give (g x))) bs w"
  using takes_give [of w] by (auto intro!: takes_then_last)

lemma takes_two:
  "takes f bs v \<Longrightarrow> takes f' cs u \<Longrightarrow> g v u = w \<Longrightarrow>
     takes (rx_then f (\<lambda>x. rx_then f' (\<lambda>y. rx_give (g x y)))) (bs @ cs) w"
  by (rule takes_then [where v = v], assumption, rule takes_one)

lemmas takes_struct = takes_one [OF takes_PARSE_RX]

lemma takes_ptp_event [step_intros]: "takes (RX_ptp_event h) (ptp_event_octets h e) e"
  unfolding RX_ptp_event_def by (rule takes_struct) (simp_all add: ptp_event_octets_def)

lemma takes_chrony_event [step_intros]: "takes (RX_chrony_event h) (chrony_event_octets h e) e"
  unfolding RX_chrony_event_def by (rule takes_struct) (simp_all add: chrony_event_octets_def)

lemma takes_cfg [step_intros]: "tbcfg_ok c \<Longrightarrow> takes (RX_cfg h) (cfg_octets h c) c"
  unfolding RX_cfg_def
  by (rule takes_struct) (simp_all add: cfg_octets_def tbcfg_ok_def STRING_SIZE_MAX_def field_def)

text \<open>The client identifier is sent with a fixed length.\<close>

lemma length_clientIdEncaps [simp]: "length (clientIdEncaps c) = CLIENTID_LENGTH"
  by (simp add: clientIdEncaps_def CLIENTID_LENGTH_def)

fun sent_body :: "msg_body \<Rightarrow> msg_body" where
  "sent_body (ConnectMessage c) = ConnectMessage (clientIdEncaps c)"
| "sent_body b = b"

fun has_session :: "msg_body \<Rightarrow> bool" where
  "has_session (NotificationMessage i) = False"
| "has_session b = True"

definition head_octets :: "host \<Rightarrow> ClkMessage \<Rightarrow> octets" where
  "head_octets h msg = [get_msgId (msg_body msg), m_msgAck msg] @
     concat (makeBufferComm h (m_sessionId msg) (msg_body msg))"

definition received :: "ClkMessage \<Rightarrow> ClkMessage" where
  "received msg = \<lparr>m_msgAck = m_msgAck msg,
     m_sessionId = (if has_session (msg_body msg) then m_sessionId msg else InvalidSessionId),
     msg_body = sent_body (msg_body msg)\<rparr>"

lemma takes_octet: "takes (RX h) [a] (a :: 8 word)"
proof -
  have "be_bytes (Suc 0) (unat a) = [a]"
    by simp
  then have "host_octets h a = [a]"
    by (simp add: host_octets_def host_order_def cpu_to_net_def del: be_bytes.simps)
  then show ?thesis
    using takes_RX(1) [of h a] by simp
qed

lemma takes_parseHead:
  assumes "get_msgId (msg_body msg) \<in> set ids"
  shows "takes (parseHead h ids) (head_octets h msg) (received msg)"
proof -
  define new where "new = (case msg_body msg of ConnectMessage c \<Rightarrow> ConnectMessage []
    | SubscribeMessage i \<Rightarrow> SubscribeMessage 0 | NotificationMessage i \<Rightarrow> NotificationMessage 0
    | DisconnectMessage \<Rightarrow> DisconnectMessage)"
  have alloc: "allocMessage ids (get_msgId (msg_body msg)) = Some (new_ClkMessage new)"
    using assms by (cases "msg_body msg") (simp_all add: allocMessage_def msg_ids new_def)
  have comm: "takes (parseBufferComm h ((new_ClkMessage new)\<lparr>m_msgAck := m_msgAck msg\<rparr>) new)
      (concat (makeBufferComm h (m_sessionId msg) (msg_body msg))) (received msg)"
    by (cases "msg_body msg")
      (auto simp: new_def received_def new_ClkMessage_def
        intro!: takes_two [OF takes_RX(2)] takes_one [OF takes_RX(2)] takes_one [OF takes_RX(3)]
          takes_RX takes_PARSE_RX)
  have "takes (parseHead h ids)
      ([get_msgId (msg_body msg)] @ [m_msgAck msg] @
       concat (makeBufferComm h (m_sessionId msg) (msg_body msg))) (received msg)"
    unfolding parseHead_def
    by (rule takes_then, rule takes_octet, simp only: alloc option.case, rule takes_then, rule takes_octet)
      (use comm in \<open>simp add: new_ClkMessage_def\<close>)
  then show ?thesis
    by (simp add: head_octets_def)
qed

end
