(* ===== verification/Clk_Proxy.thy ===== *)
theory Clk_Proxy
  imports Clk_Messages
begin

text \<open>
  Clock manager, the proxy: sessions of clients, their subscriptions, and the messages the
  proxy takes and sends (\<^verbatim>\<open>proxy/client.cpp\<close>, \<^verbatim>\<open>proxy/*_msg.cpp\<close>,
  \<^verbatim>\<open>common/msgq_tport.cpp\<close>). The message queues of the system are arguments: whether a queue
  can be opened and whether it takes a message; what was sent is part of the result. The
  operations here run from their start to their end, one after the other; the parts of them
  between which the code holds no lock have definitions of their own, of which \<open>Clk_Threads\<close>
  makes the steps of threads that run at the same time.
\<close>

subsection \<open>State\<close>

record TimeBaseCfgFull =
  cfg_base :: TimeBaseCfg
  udsAddrChrony :: octets
  udsAddrPtp4l :: octets

record TimeBaseData =
  subscribedClients :: "uint16_t set"
  td_ptpEvent :: ptp_event
  td_chronyEvent :: chrony_event

record Proxy =
  nextSession :: uint16_t
  sessionMap :: "uint16_t \<rightharpoonup> octets"
  timeBaseDataMap :: "uint64_t \<rightharpoonup> TimeBaseData"
  timeBaseCfgs :: "TimeBaseCfgFull list"

record queues =
  mq_opens :: "octets \<Rightarrow> bool"
  mq_sends :: "octets \<Rightarrow> octets \<Rightarrow> bool"

type_synonym sent = "(octets \<times> octets) list"

definition new_TimeBaseData :: TimeBaseData where
  "new_TimeBaseData = \<lparr>subscribedClients = {}, td_ptpEvent = no_ptp_event, td_chronyEvent = no_chrony_event\<rparr>"

text \<open>
  The constructors of \<^verbatim>\<open>ptpEvent\<close> and \<^verbatim>\<open>chronyEvent\<close> make the data of their time base;
  \<^verbatim>\<open>registerSrv\<close> runs them for every configuration with an address of the service. Whether the
  proxy was built with \<^verbatim>\<open>HAVE_LIBCHRONY\<close>, and so connects to chrony at all, is an argument.
\<close>

definition new_event :: "uint64_t \<Rightarrow> (uint64_t \<rightharpoonup> TimeBaseData) \<Rightarrow> (uint64_t \<rightharpoonup> TimeBaseData)" where
  "new_event i m = (case m i of None \<Rightarrow> m(i \<mapsto> new_TimeBaseData) | Some d \<Rightarrow> m)"

definition registerSrv :: "(TimeBaseCfgFull \<Rightarrow> octets) \<Rightarrow> TimeBaseCfgFull list \<Rightarrow>
    (uint64_t \<rightharpoonup> TimeBaseData) \<Rightarrow> (uint64_t \<rightharpoonup> TimeBaseData)" where
  "registerSrv addr cfgs m =
     fold (\<lambda>cfg. if addr cfg \<noteq> [] then new_event (cfg_timeBaseIndex (cfg_base cfg)) else id) cfgs m"

definition new_Proxy :: "bool \<Rightarrow> TimeBaseCfgFull list \<Rightarrow> Proxy" where
  "new_Proxy have_chrony cfgs = \<lparr>nextSession = 0, sessionMap = Map.empty,
     timeBaseDataMap = (if have_chrony then registerSrv udsAddrChrony cfgs else id)
       (registerSrv udsAddrPtp4l cfgs Map.empty),
     timeBaseCfgs = cfgs\<rparr>"

subsection \<open>Sessions\<close>

definition next_id :: "uint16_t \<Rightarrow> uint16_t" where
  "next_id n = and (n + 1) ValidMaskSessionId"

partial_function (option) free_session :: "(uint16_t \<rightharpoonup> octets) \<Rightarrow> uint16_t \<Rightarrow> uint16_t option" where
  "free_session m n = (if m n \<noteq> None then free_session m (next_id n) else Some n)"

text \<open>\<^term>\<open>None\<close>: the search for a free session does not end.\<close>

definition CreateClientSession :: "queues \<Rightarrow> octets \<Rightarrow> Proxy \<Rightarrow> (uint16_t \<times> Proxy) option" where
  "CreateClientSession q clid P =
     (case free_session (sessionMap P) (nextSession P) of None \<Rightarrow> None
      | Some cur \<Rightarrow>
          (if mq_opens q clid
           then Some (cur, P\<lparr>nextSession := next_id cur, sessionMap := (sessionMap P)(cur \<mapsto> clid)\<rparr>)
           else Some (InvalidSessionId, P\<lparr>nextSession := cur\<rparr>)))"

definition existClient :: "Proxy \<Rightarrow> uint16_t \<Rightarrow> bool" where
  "existClient P sessionId \<longleftrightarrow> sessionMap P sessionId \<noteq> None"

definition proxy_connect :: "queues \<Rightarrow> uint16_t \<Rightarrow> octets \<Rightarrow> Proxy \<Rightarrow> (uint16_t \<times> Proxy) option" where
  "proxy_connect q sessionId clid P =
     (if sessionId \<noteq> InvalidSessionId
      then (if existClient P sessionId then Some (sessionId, P) else Some (InvalidSessionId, P))
      else CreateClientSession q clid P)"

text \<open>
  A subscription: the session is looked up under the lock of the sessions, and inserted into
  the clients of the time base later, under the lock of these.
\<close>

definition subscribe_check :: "uint64_t \<Rightarrow> uint16_t \<Rightarrow> Proxy \<Rightarrow> bool" where
  "subscribe_check timeBaseIndex sessionId P \<longleftrightarrow>
     \<not> (sessionId = InvalidSessionId \<or> timeBaseDataMap P timeBaseIndex = None) \<and> existClient P sessionId"

definition subscribe_insert :: "uint64_t \<Rightarrow> uint16_t \<Rightarrow> Proxy \<Rightarrow> Proxy" where
  "subscribe_insert timeBaseIndex sessionId P =
     P\<lparr>timeBaseDataMap := (timeBaseDataMap P)(timeBaseIndex := map_option
       (\<lambda>d. d\<lparr>subscribedClients := insert sessionId (subscribedClients d)\<rparr>) (timeBaseDataMap P timeBaseIndex))\<rparr>"

definition proxy_subscribe :: "uint64_t \<Rightarrow> uint16_t \<Rightarrow> Proxy \<Rightarrow> bool \<times> Proxy" where
  "proxy_subscribe timeBaseIndex sessionId P =
     (if subscribe_check timeBaseIndex sessionId P then (True, subscribe_insert timeBaseIndex sessionId P)
      else (False, P))"

text \<open>
  The end of a session: it is erased under the lock of the sessions, and then from the clients
  of one time base after the other, in the order of their indices.
\<close>

definition remove_session :: "uint16_t \<Rightarrow> Proxy \<Rightarrow> Proxy" where
  "remove_session sessionId P = P\<lparr>sessionMap := (sessionMap P)(sessionId := None)\<rparr>"

definition remove_subscription :: "uint16_t \<Rightarrow> uint64_t \<Rightarrow> Proxy \<Rightarrow> Proxy" where
  "remove_subscription sessionId timeBaseIndex P =
     P\<lparr>timeBaseDataMap := (timeBaseDataMap P)(timeBaseIndex := map_option
       (\<lambda>d. d\<lparr>subscribedClients := subscribedClients d - {sessionId}\<rparr>) (timeBaseDataMap P timeBaseIndex))\<rparr>"

definition time_bases :: "Proxy \<Rightarrow> uint64_t list" where
  "time_bases P = sorted_list_of_set (dom (timeBaseDataMap P))"

definition removeClient :: "uint16_t \<Rightarrow> Proxy \<Rightarrow> Proxy" where
  "removeClient sessionId P = fold (remove_subscription sessionId) (time_bases P) (remove_session sessionId P)"

definition getTransmitter :: "Proxy \<Rightarrow> uint16_t \<Rightarrow> octets option" where
  "getTransmitter P sessionId =
     (if sessionId = InvalidSessionId then None else sessionMap P sessionId)"

subsection \<open>Events\<close>

definition getPTPEvent :: "Proxy \<Rightarrow> uint64_t \<Rightarrow> ptp_event" where
  "getPTPEvent P timeBaseIndex =
     (case timeBaseDataMap P timeBaseIndex of None \<Rightarrow> no_ptp_event | Some d \<Rightarrow> td_ptpEvent d)"

definition getChronyEvent :: "Proxy \<Rightarrow> uint64_t \<Rightarrow> chrony_event" where
  "getChronyEvent P timeBaseIndex =
     (case timeBaseDataMap P timeBaseIndex of None \<Rightarrow> no_chrony_event | Some d \<Rightarrow> td_chronyEvent d)"

definition copy_ptpEvent :: "uint64_t \<Rightarrow> ptp_event \<Rightarrow> Proxy \<Rightarrow> Proxy" where
  "copy_ptpEvent i ev P = P\<lparr>timeBaseDataMap := (timeBaseDataMap P)(i \<mapsto>
     (case timeBaseDataMap P i of None \<Rightarrow> new_TimeBaseData | Some d \<Rightarrow> d)\<lparr>td_ptpEvent := ev\<rparr>)\<rparr>"

definition copy_chronyEvent :: "uint64_t \<Rightarrow> chrony_event \<Rightarrow> Proxy \<Rightarrow> Proxy" where
  "copy_chronyEvent i ev P = P\<lparr>timeBaseDataMap := (timeBaseDataMap P)(i \<mapsto>
     (case timeBaseDataMap P i of None \<Rightarrow> new_TimeBaseData | Some d \<Rightarrow> d)\<lparr>td_chronyEvent := ev\<rparr>)\<rparr>"

subsection \<open>Messages of the proxy\<close>

definition Connect_makeTail :: "host \<Rightarrow> Proxy \<Rightarrow> octets list" where
  [simp]: "Connect_makeTail h P =
     host_octets h (word_of_nat (length (timeBaseCfgs P)) :: uint64_t) #
     map (\<lambda>row. cfg_octets h (cfg_base row)) (timeBaseCfgs P)"

definition Subscribe_makeTail :: "host \<Rightarrow> Proxy \<Rightarrow> uint64_t \<Rightarrow> octets list" where
  [simp]: "Subscribe_makeTail h P i =
     [ptp_event_octets h (getPTPEvent P i), chrony_event_octets h (getChronyEvent P i)]"

definition Notification_makeTail :: "host \<Rightarrow> Proxy \<Rightarrow> ClockType \<Rightarrow> uint64_t \<Rightarrow> octets list" where
  [simp]: "Notification_makeTail h P t i =
     [ClockType_value t] #
     (if t = PTPClock then [ptp_event_octets h (getPTPEvent P i)] else []) @
     (if t = SysClock then [chrony_event_octets h (getChronyEvent P i)] else [])"

fun proxy_makeTail :: "host \<Rightarrow> Proxy \<Rightarrow> ClockType \<Rightarrow> msg_body \<Rightarrow> octets list" where
  "proxy_makeTail h P t (ConnectMessage c) = Connect_makeTail h P"
| "proxy_makeTail h P t (SubscribeMessage i) = Subscribe_makeTail h P i"
| "proxy_makeTail h P t (NotificationMessage i) = Notification_makeTail h P t i"
| "proxy_makeTail h P t DisconnectMessage = []"

definition Connect_parseTail :: "queues \<Rightarrow> ClkMessage \<Rightarrow> octets \<Rightarrow> Proxy \<Rightarrow> (bool \<times> ClkMessage \<times> Proxy) option" where
  [simp]: "Connect_parseTail q msg c P =
     (case proxy_connect q (m_sessionId msg) c P of None \<Rightarrow> None
      | Some (sessionId, P1) \<Rightarrow>
          Some (if sessionId = InvalidSessionId then (False, msg, P1)
                else (True, msg\<lparr>m_sessionId := sessionId, m_msgAck := ACK_SUCCESS\<rparr>, P1)))"

definition Subscribe_parseTail :: "ClkMessage \<Rightarrow> uint64_t \<Rightarrow> Proxy \<Rightarrow> bool \<times> ClkMessage \<times> Proxy" where
  [simp]: "Subscribe_parseTail msg i P =
     (case proxy_subscribe i (m_sessionId msg) P of
        (False, P1) \<Rightarrow> (False, msg, P1)
      | (True, P1) \<Rightarrow> (True, msg\<lparr>m_msgAck := ACK_SUCCESS\<rparr>, P1))"

definition Disconnect_parseTail :: "ClkMessage \<Rightarrow> Proxy \<Rightarrow> bool \<times> ClkMessage \<times> Proxy" where
  [simp]: "Disconnect_parseTail msg P = (True, msg, removeClient (m_sessionId msg) P)"

fun proxy_parseTail :: "queues \<Rightarrow> ClkMessage \<Rightarrow> msg_body \<Rightarrow> Proxy \<Rightarrow> (bool \<times> ClkMessage \<times> Proxy) option" where
  "proxy_parseTail q msg (ConnectMessage c) P = Connect_parseTail q msg c P"
| "proxy_parseTail q msg (SubscribeMessage i) P = Some (Subscribe_parseTail msg i P)"
| "proxy_parseTail q msg (NotificationMessage i) P = Some (True, msg, P)"
| "proxy_parseTail q msg DisconnectMessage P = Some (Disconnect_parseTail msg P)"

definition proxy_ids :: "uint8_t list" where
  "proxy_ids = [CONNECT_MSG, SUBSCRIBE_MSG, DISCONNECT_MSG]"

text \<open>
  \<^verbatim>\<open>Listener::MqListenerWork\<close> on a received message: whether the listener goes on, what it
  sent, and the new state. \<^term>\<open>None\<close>: it does not come back.
\<close>

definition proxy_work :: "host \<Rightarrow> queues \<Rightarrow> octets \<Rightarrow> Proxy \<Rightarrow> (bool \<times> sent \<times> Proxy) option" where
  "proxy_work h q bs P =
     (if bs = [] then Some (True, [], P) else
      case parseHead h proxy_ids (rx_load bs) of (None, b1) \<Rightarrow> Some (False, [], P)
      | (Some msg, b1) \<Rightarrow>
          (case proxy_parseTail q msg (msg_body msg) P of None \<Rightarrow> None
           | Some (False, msg1, P1) \<Rightarrow> Some (False, [], P1)
           | Some (True, msg1, P1) \<Rightarrow>
               (if m_msgAck msg1 = ACK_NONE then Some (True, [], P1)
                else
                  (case makeBuffer h (proxy_makeTail h P1 PTPClock (msg_body msg1)) msg1 b1 of
                     (False, b2) \<Rightarrow> Some (False, [], P1)
                   | (True, b2) \<Rightarrow>
                       (case getTransmitter P1 (m_sessionId msg1) of None \<Rightarrow> Some (False, [], P1)
                        | Some tx \<Rightarrow>
                            Some (if mq_sends q tx (written b2) then (True, [(tx, written b2)], P1)
                                  else (False, [], P1)))))))"

text \<open>The messages sent to a list of sessions, and the sessions that could not be reached.\<close>

fun send_to :: "queues \<Rightarrow> octets \<Rightarrow> (uint16_t \<rightharpoonup> octets) \<Rightarrow> uint16_t list \<Rightarrow> sent \<times> uint16_t list" where
  "send_to q bs tx_of [] = ([], [])"
| "send_to q bs tx_of (s # ss) =
     (let (out_msgs, sessionIdToRemove) = send_to q bs tx_of ss
      in case tx_of s of None \<Rightarrow> (out_msgs, s # sessionIdToRemove)
         | Some tx \<Rightarrow>
             if mq_sends q tx bs then ((tx, bs) # out_msgs, sessionIdToRemove)
             else (out_msgs, s # sessionIdToRemove))"

definition notifyClients :: "host \<Rightarrow> queues \<Rightarrow> Buffer \<Rightarrow> uint64_t \<Rightarrow> ClockType \<Rightarrow> Proxy \<Rightarrow> sent \<times> Proxy" where
  "notifyClients h q notifyBuff timeBaseIndex type P =
     (case timeBaseDataMap P timeBaseIndex of None \<Rightarrow> ([], P)
      | Some d \<Rightarrow>
          (let msg = new_ClkMessage (NotificationMessage (int_index timeBaseIndex))
           in case makeBuffer h (proxy_makeTail h P type (msg_body msg)) msg notifyBuff of
                (False, b) \<Rightarrow> ([], P)
              | (True, b) \<Rightarrow>
                  (let (out_msgs, sessionIdToRemove) =
                         send_to q (written b) (getTransmitter P) (sorted_list_of_set (subscribedClients d))
                   in (out_msgs, fold removeClient sessionIdToRemove P))))"

definition proxy_notifyDisconnect :: "host \<Rightarrow> queues \<Rightarrow> Buffer \<Rightarrow> Proxy \<Rightarrow> sent \<times> Proxy" where
  "proxy_notifyDisconnect h q notifyBuff P =
     (case makeBuffer h [] (new_ClkMessage DisconnectMessage) notifyBuff of
        (False, b) \<Rightarrow> ([], P)
      | (True, b) \<Rightarrow>
          (let sessions = sorted_list_of_set (dom (sessionMap P))
           in (fst (send_to q (written b) (sessionMap P) sessions), fold removeClient sessions P)))"

definition removeAll_finalize :: "Proxy \<Rightarrow> Proxy" where
  "removeAll_finalize P = P\<lparr>sessionMap := Map.empty\<rparr>"

section \<open>Sessions\<close>

subsection \<open>The operations as a whole\<close>

lemma proxy_subscribe_eq:
  "proxy_subscribe i s P =
     (case timeBaseDataMap P i of None \<Rightarrow> (False, P)
      | Some d \<Rightarrow>
          (if s = InvalidSessionId \<or> \<not> existClient P s then (False, P)
           else (True, P\<lparr>timeBaseDataMap := (timeBaseDataMap P)(i \<mapsto>
             d\<lparr>subscribedClients := insert s (subscribedClients d)\<rparr>)\<rparr>)))"
  by (auto simp: proxy_subscribe_def subscribe_check_def subscribe_insert_def split: option.split)

lemma remove_subscriptions:
  "fold (remove_subscription s) is P =
     P\<lparr>timeBaseDataMap := (\<lambda>i. if i \<in> set is then map_option
         (\<lambda>d. d\<lparr>subscribedClients := subscribedClients d - {s}\<rparr>) (timeBaseDataMap P i) else timeBaseDataMap P i)\<rparr>"
proof (induction "is" arbitrary: P)
  case (Cons j js)
  show ?case
    unfolding fold_simps comp_def Cons
    by (auto simp: remove_subscription_def option.map_comp o_def fun_eq_iff intro!: Proxy.equality ext)
qed simp

lemma set_time_bases [simp]: "set (time_bases P) = dom (timeBaseDataMap P)"
  by (simp add: time_bases_def)

lemma removeClient_eq:
  "removeClient s P =
     P\<lparr>sessionMap := (sessionMap P)(s := None),
       timeBaseDataMap := (\<lambda>i. map_option
         (\<lambda>d. d\<lparr>subscribedClients := subscribedClients d - {s}\<rparr>) (timeBaseDataMap P i))\<rparr>"
  by (auto simp: removeClient_def remove_subscriptions remove_session_def fun_eq_iff dom_def)

text \<open>
  The sessions of the proxy: the search for a free number ends when there is one and never
  ends when there is none, the numbers stay in their range, and a client that receives
  notifications has a session.
\<close>

subsection \<open>The search for a free session\<close>

definition valid_id :: "uint16_t \<Rightarrow> bool" where
  "valid_id n \<longleftrightarrow> unat n < 2 ^ 15"

lemma unat_next_id: "unat (next_id n) = (unat n + 1) mod 2 ^ 15"
proof -
  have "next_id n = take_bit 15 (n + 1)"
    by (simp add: next_id_def take_bit_eq_mask mask_eq_exp_minus_1)
  then have "unat (next_id n) = take_bit 15 (unat (n + 1))"
    by (simp add: unsigned_take_bit_eq)
  also have "\<dots> = (unat n + 1) mod 2 ^ 16 mod 2 ^ 15"
    by (simp add: take_bit_eq_mod unat_word_ariths)
  also have "\<dots> = (unat n + 1) mod 2 ^ 15"
    by (simp add: mod_mod_cancel)
  finally show ?thesis .
qed

lemma valid_next_id [simp]: "valid_id (next_id n)"
  by (simp add: valid_id_def unat_next_id)

lemma unat_next_ids: "valid_id n \<Longrightarrow> unat ((next_id ^^ j) n) = (unat n + j) mod 2 ^ 15"
  by (induction j) (simp_all add: unat_next_id mod_Suc_eq valid_id_def)

lemma next_ids_reach:
  assumes "valid_id n" "valid_id k"
  obtains j where "(next_id ^^ j) n = k"
proof
  let ?j = "2 ^ 15 + unat k - unat n"
  have "unat ((next_id ^^ ?j) n) = unat k"
    using assms by (simp add: unat_next_ids valid_id_def)
  then show "(next_id ^^ ?j) n = k"
    by (simp add: word_unat_eq_iff)
qed

lemma free_session_here: "m n = None \<Longrightarrow> free_session m n = Some n"
  by (subst free_session.simps) simp

lemma free_session_next: "m n \<noteq> None \<Longrightarrow> free_session m n = free_session m (next_id n)"
  by (subst free_session.simps) simp

lemma free_session_from: "m ((next_id ^^ j) n) = None \<Longrightarrow> \<exists>k. free_session m n = Some k"
proof (induction j arbitrary: n)
  case 0
  then show ?case
    by (auto simp: free_session_here)
next
  case (Suc j)
  then show ?case
    by (cases "m n") (auto simp: free_session_here free_session_next funpow_swap1)
qed

lemma free_session_Some:
  assumes "free_session m n = Some k"
  shows "m k = None \<and> (valid_id n \<longrightarrow> valid_id k)"
proof (rule free_session.raw_induct [OF _ assms])
  fix f m n k
  assume "\<And>m n k. f m n = Some k \<Longrightarrow> m k = None \<and> (valid_id n \<longrightarrow> valid_id k)"
    and "(if m n \<noteq> None then f m (next_id n) else Some n) = Some k"
  then show "m k = None \<and> (valid_id n \<longrightarrow> valid_id k)"
    by (cases "m n") fastforce+
qed

text \<open>The search ends exactly when a number is free.\<close>

lemma free_session_ends:
  assumes "valid_id n"
  shows "(\<exists>k. free_session m n = Some k) \<longleftrightarrow> (\<exists>k. valid_id k \<and> m k = None)"
proof
  assume "\<exists>k. free_session m n = Some k"
  then show "\<exists>k. valid_id k \<and> m k = None"
    using assms free_session_Some by blast
next
  assume "\<exists>k. valid_id k \<and> m k = None"
  then obtain k where k: "valid_id k" "m k = None"
    by blast
  from assms k(1) obtain j where "(next_id ^^ j) n = k"
    by (rule next_ids_reach)
  with k(2) show "\<exists>k. free_session m n = Some k"
    using free_session_from by blast
qed

subsection \<open>Invariant of the proxy\<close>

text \<open>
  The numbers of sessions are in their range, which leaves out \<^verbatim>\<open>InvalidSessionId\<close>, and
  every client that is subscribed to a time base has a session.
\<close>

definition proxy_ok :: "Proxy \<Rightarrow> bool" where
  "proxy_ok P \<longleftrightarrow> valid_id (nextSession P) \<and> (\<forall>s. existClient P s \<longrightarrow> valid_id s) \<and>
     (\<forall>i d s. timeBaseDataMap P i = Some d \<and> s \<in> subscribedClients d \<longrightarrow> existClient P s)"

lemma invalid_not_valid [simp]: "\<not> valid_id InvalidSessionId"
  by (simp add: valid_id_def InvalidSessionId_def)

lemma registerSrv_empty:
  assumes "\<And>i d. m i = Some d \<Longrightarrow> subscribedClients d = {}" and "registerSrv addr cfgs m i = Some d"
  shows "subscribedClients d = {}"
  using assms unfolding registerSrv_def
proof (induction cfgs arbitrary: m)
  case (Cons cfg cfgs)
  have "subscribedClients e = {}"
    if "(if addr cfg \<noteq> [] then new_event (cfg_timeBaseIndex (cfg_base cfg)) else id) m j = Some e" for j e
    using that Cons.prems(1)
    by (auto simp: new_event_def new_TimeBaseData_def split: if_splits option.splits)
  then show ?case
    using Cons.IH [OF _ Cons.prems(2) [unfolded fold_simps]] by blast
qed simp

lemma proxy_ok_new: "proxy_ok (new_Proxy hc cfgs)"
proof -
  have "subscribedClients d = {}" if "timeBaseDataMap (new_Proxy hc cfgs) i = Some d" for i d
    using that registerSrv_empty [of "registerSrv udsAddrPtp4l cfgs Map.empty" udsAddrChrony cfgs i d]
      registerSrv_empty [of Map.empty udsAddrPtp4l cfgs]
    by (force simp: new_Proxy_def split: if_splits)
  then show ?thesis
    by (simp add: proxy_ok_def) (simp add: new_Proxy_def existClient_def valid_id_def)
qed

lemma CreateClientSession_Some:
  assumes "CreateClientSession q clid P = Some (s, P')" "valid_id (nextSession P)"
  shows "(if mq_opens q clid
          then valid_id s \<and> \<not> existClient P s \<and>
            P' = P\<lparr>nextSession := next_id s, sessionMap := (sessionMap P)(s \<mapsto> clid)\<rparr>
          else s = InvalidSessionId \<and> (\<exists>n. valid_id n \<and> P' = P\<lparr>nextSession := n\<rparr>))"
  using assms
  by (auto simp: CreateClientSession_def existClient_def split: option.splits if_splits
      dest!: free_session_Some)

lemma proxy_ok_connect:
  "proxy_ok P \<Longrightarrow> proxy_connect q s0 clid P = Some (s, P') \<Longrightarrow> proxy_ok P'"
  using CreateClientSession_Some [of q clid P s P']
  by (fastforce simp: proxy_connect_def proxy_ok_def existClient_def split: if_splits)

lemma proxy_ok_subscribe: "proxy_ok P \<Longrightarrow> proxy_subscribe i s P = (ok, P') \<Longrightarrow> proxy_ok P'"
  by (auto simp: proxy_subscribe_eq proxy_ok_def existClient_def split: option.splits if_splits)

lemma proxy_ok_remove: "proxy_ok P \<Longrightarrow> proxy_ok (removeClient s P)"
  by (auto simp: removeClient_eq proxy_ok_def existClient_def)

lemma proxy_ok_removes: "proxy_ok P \<Longrightarrow> proxy_ok (fold removeClient ss P)"
  by (induction ss arbitrary: P) (auto simp: proxy_ok_remove)

lemma proxy_ok_copy:
  "proxy_ok P \<Longrightarrow> proxy_ok (copy_ptpEvent i ev P)" "proxy_ok P \<Longrightarrow> proxy_ok (copy_chronyEvent i ev' P)"
  by (auto simp: copy_ptpEvent_def copy_chronyEvent_def proxy_ok_def existClient_def new_TimeBaseData_def
      split: option.splits if_splits)

lemma proxy_ok_notify: "proxy_ok P \<Longrightarrow> proxy_ok (snd (notifyClients h q b i t P))"
  by (auto simp: notifyClients_def Let_def proxy_ok_removes split: option.splits prod.splits bool.splits)

lemma proxy_ok_notifyDisconnect: "proxy_ok P \<Longrightarrow> proxy_ok (snd (proxy_notifyDisconnect h q b P))"
  by (auto simp: proxy_notifyDisconnect_def Let_def proxy_ok_removes split: prod.splits bool.splits)

lemma proxy_ok_parseTail:
  "proxy_ok P \<Longrightarrow> proxy_parseTail q msg b P = Some (ok, msg', P') \<Longrightarrow> proxy_ok P'"
  by (cases b) (auto simp: proxy_ok_remove split: option.splits prod.splits bool.splits if_splits
      dest: proxy_ok_connect proxy_ok_subscribe)

lemma proxy_ok_work:
  assumes "proxy_ok P" "proxy_work h q bs P = Some (ok, out_msgs, P')"
  shows "proxy_ok P'"
  using assms
  by (auto simp: proxy_work_def Let_def split: option.splits prod.splits bool.splits if_splits
      dest: proxy_ok_parseTail)

subsection \<open>Reachable states\<close>

text \<open>
  What happens to a proxy: it works on a message, a service has a new event for its time base,
  or the proxy ends. \<open>proxy_step P msgs P'\<close> sends \<open>msgs\<close>.
\<close>

inductive proxy_step :: "host \<Rightarrow> Proxy \<Rightarrow> sent \<Rightarrow> Proxy \<Rightarrow> bool" for h where
  message: "proxy_work h q bs P = Some (ok, msgs, P') \<Longrightarrow> proxy_step h P msgs P'"
| ptp: "timeBaseDataMap P i \<noteq> None \<Longrightarrow>
    notifyClients h q b i PTPClock (copy_ptpEvent i ev P) = (msgs, P') \<Longrightarrow> proxy_step h P msgs P'"
| chrony: "timeBaseDataMap P i \<noteq> None \<Longrightarrow>
    notifyClients h q b i SysClock (copy_chronyEvent i ev P) = (msgs, P') \<Longrightarrow> proxy_step h P msgs P'"
| stop: "proxy_notifyDisconnect h q b P = (msgs, P') \<Longrightarrow> proxy_step h P msgs P'"

text \<open>The states of a proxy that was built with or without \<^verbatim>\<open>HAVE_LIBCHRONY\<close>.\<close>

inductive proxy_reach :: "host \<Rightarrow> TimeBaseCfgFull list \<Rightarrow> Proxy \<Rightarrow> bool" for h cfgs where
  start: "proxy_reach h cfgs (new_Proxy have_chrony cfgs)"
| step: "proxy_reach h cfgs P \<Longrightarrow> proxy_step h P msgs P' \<Longrightarrow> proxy_reach h cfgs P'"

lemma proxy_ok_step: "proxy_step h P msgs P' \<Longrightarrow> proxy_ok P \<Longrightarrow> proxy_ok P'"
  by (induction rule: proxy_step.induct)
    (metis proxy_ok_work, (metis proxy_ok_copy proxy_ok_notify proxy_ok_notifyDisconnect snd_conv)+)

lemma proxy_ok_reach: "proxy_reach h cfgs P \<Longrightarrow> proxy_ok P"
  by (induction rule: proxy_reach.induct) (auto simp: proxy_ok_new dest: proxy_ok_step)

text \<open>The configurations and the time bases never change.\<close>

lemma removes_keep:
  "timeBaseCfgs (fold removeClient ss P) = timeBaseCfgs P"
  "dom (timeBaseDataMap (fold removeClient ss P)) = dom (timeBaseDataMap P)"
  by (induction ss arbitrary: P) (auto simp: removeClient_eq dom_def)

end
