(* ===== verification/Clk_States.thy ===== *)
theory Clk_States
  imports Clk_Events Ptp_Types
begin

unbundle bit_operations_syntax

text \<open>
  Clock manager, the client's view of the time bases: \<^verbatim>\<open>client/timebase_state.hpp\<close> and
  \<^verbatim>\<open>client/timebase_state.cpp\<close>. A notification of the proxy updates the events the client
  subscribed to and counts their changes; a read of the state gives the counts and starts
  them again. The result of \<^verbatim>\<open>clock_gettime\<close> is an argument, \<^term>\<open>None\<close> when it fails.
  The mutex of the class makes each of these operations one step.
\<close>

subsection \<open>State of a time base\<close>

record TimeBaseState =
  subscribed :: bool
  event_changed :: bool
  ptpEventState :: PTPClockEvent
  sysEventState :: SysClockEvent
  ptpEventSub :: PTPClockSubscription
  sysEventSub :: SysClockSubscription
  last_notification_time :: timespec
  havePtPData :: bool
  haveSysData :: bool

definition no_time :: timespec where
  "no_time = \<lparr>tv_sec = 0, tv_nsec = 0\<rparr>"

definition new_TimeBaseState :: TimeBaseState where
  "new_TimeBaseState = \<lparr>subscribed = False, event_changed = False,
     ptpEventState = new_PTPClockEvent, sysEventState = new_SysClockEvent,
     ptpEventSub = new_PTPClockSubscription, sysEventSub = new_SysClockSubscription,
     last_notification_time = no_time, havePtPData = False, haveSysData = False\<rparr>"

definition set_ptpEventSub :: "PTPClockSubscription \<Rightarrow> TimeBaseState \<Rightarrow> bool \<times> TimeBaseState" where
  "set_ptpEventSub eSub s =
     (let p = setClockOffsetThreshold (clockOffsetThreshold eSub) (ptpEventSub s);
          (ok1, p1) = PTP_setEventMask (eventMask eSub) p;
          (ok2, p2) = (if ok1 then setCompositeEventMask (m_composite_event_mask eSub) p1
                       else (False, p1))
      in (ok2, s\<lparr>ptpEventSub := p2\<rparr>))"

definition set_sysEventSub :: "SysClockSubscription \<Rightarrow> TimeBaseState \<Rightarrow> bool \<times> TimeBaseState" where
  "set_sysEventSub eSub s =
     (let p = setClockOffsetThreshold (clockOffsetThreshold eSub) (sysEventSub s);
          (ok1, p1) = Sys_setEventMask (eventMask eSub) p
      in (ok1, s\<lparr>sysEventSub := p1\<rparr>))"

subsection \<open>Updates of the events\<close>

text \<open>
  Each block of \<^verbatim>\<open>setTimeBaseStatePtp\<close> is an update of the event state that also tells
  whether the block called \<^verbatim>\<open>set_event_changed(true)\<close>. The threshold is converted to
  \<^verbatim>\<open>int32_t\<close>, and negated in this type.
\<close>

definition inThreshold :: "int32_t \<Rightarrow> int64_t \<Rightarrow> bool" where
  "inThreshold threshold off \<longleftrightarrow> sint off \<ge> sint (- threshold) \<and> sint off \<le> sint threshold"

type_synonym 'e update = "'e \<Rightarrow> bool \<times> 'e"

definition upd_offset :: "uint32_t \<Rightarrow> int32_t \<Rightarrow> int64_t \<Rightarrow> 'a ClockEventBase_scheme update" where
  "upd_offset eventSub threshold newOffset e =
     (if eventSub AND EventOffsetInRange \<noteq> 0 \<and> newOffset \<noteq> clockOffset e
      then
        (let e1 = e\<lparr>clockOffset := newOffset\<rparr>
         in if inThreshold threshold (clockOffset e1)
            then (if \<not> offsetInRange e1
                  then (True, e1\<lparr>offsetInRange := True,
                    offsetInRangeCount := offsetInRangeCount e1 + 1\<rparr>)
                  else (False, e1))
            else (if offsetInRange e1
                  then (True, e1\<lparr>offsetInRange := False,
                    offsetInRangeCount := offsetInRangeCount e1 + 1\<rparr>)
                  else (False, e1)))
      else (False, e))"

definition upd_synced :: "uint32_t \<Rightarrow> ptp_event \<Rightarrow> PTPClockEvent update" where
  "upd_synced eventSub newEvent e =
     (if eventSub AND EventSyncedWithGm \<noteq> 0 \<and> ev_syncedWithGm newEvent \<noteq> syncedWithGm e
      then (True, e\<lparr>syncedWithGm := ev_syncedWithGm newEvent,
        syncedWithGmCount := syncedWithGmCount e + 1\<rparr>)
      else (False, e))"

definition upd_gm :: "uint32_t \<Rightarrow> ptp_event \<Rightarrow> PTPClockEvent update" where
  "upd_gm eventSub newEvent e =
     (let sourceClockUUID = gmClockUUID e
      in if eventSub AND EventGmChanged \<noteq> 0 \<and> sourceClockUUID \<noteq> ev_gmClockUUID newEvent
         then (True, e\<lparr>gmClockUUID := ev_gmClockUUID newEvent, gmChanged := True,
           gmChangedCount := gmChangedCount e + 1\<rparr>)
         else (False, e))"

definition upd_as :: "uint32_t \<Rightarrow> ptp_event \<Rightarrow> PTPClockEvent update" where
  "upd_as eventSub newEvent e =
     (if eventSub AND EventAsCapable \<noteq> 0 \<and> ev_asCapable newEvent \<noteq> isAsCapable e
      then (True, e\<lparr>isAsCapable := ev_asCapable newEvent, asCapableCount := asCapableCount e + 1\<rparr>)
      else (False, e))"

definition composite_event :: "uint32_t \<Rightarrow> PTPClockEvent \<Rightarrow> bool" where
  "composite_event compositeSub e =
     (let c0 = True;
          c1 = (if compositeSub AND EventOffsetInRange \<noteq> 0 then c0 \<and> offsetInRange e else c0);
          c2 = (if compositeSub AND EventSyncedWithGm \<noteq> 0 then c1 \<and> syncedWithGm e else c1)
      in if compositeSub AND EventAsCapable \<noteq> 0 then c2 \<and> isAsCapable e else c2)"

definition upd_composite :: "uint32_t \<Rightarrow> PTPClockEvent update" where
  "upd_composite compositeSub e =
     (if compositeSub \<noteq> 0 \<and> composite_event compositeSub e \<noteq> compositeEvent e
      then (True, e\<lparr>compositeEvent := composite_event compositeSub e,
        compositeEventCount := compositeEventCount e + 1\<rparr>)
      else (False, e))"

text \<open>One block after the other; the event has changed when one of them said so.\<close>

definition and_then :: "'e update \<Rightarrow> 'e update \<Rightarrow> 'e update" where
  "and_then f g e = (let (a, e1) = f e; (b, e2) = g e1 in (a \<or> b, e2))"

definition notification_timestamp :: "timespec \<Rightarrow> uint64_t" where
  "notification_timestamp t = tv_sec t * 1000000000 + tv_nsec t"

definition ptp_blocks :: "PTPClockSubscription \<Rightarrow> ptp_event \<Rightarrow> PTPClockEvent update" where
  "ptp_blocks ptpSub newEvent =
     and_then (upd_offset (eventMask ptpSub) (clockOffsetThreshold ptpSub) (ev_clockOffset newEvent))
       (and_then (upd_synced (eventMask ptpSub) newEvent)
       (and_then (upd_gm (eventMask ptpSub) newEvent)
       (and_then (upd_as (eventMask ptpSub) newEvent)
         (upd_composite (m_composite_event_mask ptpSub)))))"

definition notify_ptp :: "timespec option \<Rightarrow> ptp_event \<Rightarrow> TimeBaseState \<Rightarrow> TimeBaseState" where
  "notify_ptp now newEvent s =
     (let time = (case now of None \<Rightarrow> no_time | Some t \<Rightarrow> t);
          s1 = (case now of None \<Rightarrow> s | Some t \<Rightarrow> s\<lparr>last_notification_time := t\<rparr>);
          (c, e) = ptp_blocks (ptpEventSub s1) newEvent (ptpEventState s1);
          e1 = e\<lparr>notificationTimestamp := notification_timestamp time,
                 syncInterval := ev_syncInterval newEvent\<rparr>
      in s1\<lparr>event_changed := event_changed s1 \<or> c, ptpEventState := e1, havePtPData := True\<rparr>)"

definition notify_sys :: "timespec option \<Rightarrow> chrony_event \<Rightarrow> TimeBaseState \<Rightarrow> TimeBaseState" where
  "notify_sys now newEvent s =
     (let time = (case now of None \<Rightarrow> no_time | Some t \<Rightarrow> t);
          s1 = (case now of None \<Rightarrow> s | Some t \<Rightarrow> s\<lparr>last_notification_time := t\<rparr>);
          sysSub = sysEventSub s1;
          (c, e) = upd_offset (eventMask sysSub) (clockOffsetThreshold sysSub)
                     (ch_clockOffset newEvent) (sysEventState s1);
          e1 = e\<lparr>gmClockUUID := ch_gmClockUUID newEvent, syncInterval := ch_syncInterval newEvent,
                 notificationTimestamp := notification_timestamp time\<rparr>
      in s1\<lparr>event_changed := event_changed s1 \<or> c, sysEventState := e1, haveSysData := True\<rparr>)"

definition reset_events :: "TimeBaseState \<Rightarrow> TimeBaseState" where
  "reset_events s =
     s\<lparr>ptpEventState := (ptpEventState s)\<lparr>offsetInRangeCount := 0, syncedWithGmCount := 0,
         gmChangedCount := 0, asCapableCount := 0, compositeEventCount := 0, gmChanged := False\<rparr>,
       sysEventState := (sysEventState s)\<lparr>offsetInRangeCount := 0\<rparr>,
       event_changed := False\<rparr>"

subsection \<open>All time bases\<close>

text \<open>
  The map has keys of type \<^verbatim>\<open>int\<close>, while the operations take a \<^verbatim>\<open>size_t\<close>: an index is
  cut to 32 bits. An access with \<^verbatim>\<open>[]\<close> makes a new state when there is none.
\<close>

type_synonym TimeBaseStates = "int32_t \<rightharpoonup> TimeBaseState"

definition key_of :: "uint64_t \<Rightarrow> int32_t" where
  "key_of timeBaseIndex = ucast timeBaseIndex"

definition stateAt :: "TimeBaseStates \<Rightarrow> uint64_t \<Rightarrow> TimeBaseState" where
  "stateAt m timeBaseIndex =
     (case m (key_of timeBaseIndex) of None \<Rightarrow> new_TimeBaseState | Some s \<Rightarrow> s)"

definition getTimeBaseState :: "uint64_t \<Rightarrow> TimeBaseStates \<Rightarrow> TimeBaseState option \<times> TimeBaseStates" where
  "getTimeBaseState timeBaseIndex m =
     (case m (key_of timeBaseIndex) of None \<Rightarrow> (None, m)
      | Some s \<Rightarrow> (Some s, m(key_of timeBaseIndex \<mapsto> reset_events s)))"

definition setTimeBaseStatePtp ::
  "timespec option \<Rightarrow> uint64_t \<Rightarrow> ptp_event \<Rightarrow> TimeBaseStates \<Rightarrow> TimeBaseStates" where
  "setTimeBaseStatePtp now timeBaseIndex newEvent m =
     m(key_of timeBaseIndex \<mapsto> notify_ptp now newEvent (stateAt m timeBaseIndex))"

definition setTimeBaseStateSys ::
  "timespec option \<Rightarrow> uint64_t \<Rightarrow> chrony_event \<Rightarrow> TimeBaseStates \<Rightarrow> TimeBaseStates" where
  "setTimeBaseStateSys now timeBaseIndex newEvent m =
     m(key_of timeBaseIndex \<mapsto> notify_sys now newEvent (stateAt m timeBaseIndex))"

definition setPtpEventSubscription ::
  "uint64_t \<Rightarrow> PTPClockSubscription \<Rightarrow> TimeBaseStates \<Rightarrow> bool \<times> TimeBaseStates" where
  "setPtpEventSubscription timeBaseIndex sub m =
     (let (ok, s) = set_ptpEventSub sub (stateAt m timeBaseIndex)
      in (ok, m(key_of timeBaseIndex \<mapsto> s)))"

definition setSysEventSubscription ::
  "uint64_t \<Rightarrow> SysClockSubscription \<Rightarrow> TimeBaseStates \<Rightarrow> bool \<times> TimeBaseStates" where
  "setSysEventSubscription timeBaseIndex sub m =
     (let (ok, s) = set_sysEventSub sub (stateAt m timeBaseIndex)
      in (ok, m(key_of timeBaseIndex \<mapsto> s)))"

definition getSubscribed :: "TimeBaseStates \<Rightarrow> uint64_t \<Rightarrow> bool" where
  "getSubscribed m timeBaseIndex =
     (case m (key_of timeBaseIndex) of None \<Rightarrow> False | Some s \<Rightarrow> subscribed s)"

definition setSubscribed :: "uint64_t \<Rightarrow> bool \<Rightarrow> TimeBaseStates \<Rightarrow> TimeBaseStates" where
  "setSubscribed timeBaseIndex b m =
     m(key_of timeBaseIndex \<mapsto> (stateAt m timeBaseIndex)\<lparr>subscribed := b\<rparr>)"

definition getLastNotificationTime :: "TimeBaseStates \<Rightarrow> uint64_t \<Rightarrow> timespec option" where
  "getLastNotificationTime m timeBaseIndex =
     map_option last_notification_time (m (key_of timeBaseIndex))"

definition isPTPDataEmpty :: "ptp_event \<Rightarrow> bool" where
  "isPTPDataEmpty ptpData \<longleftrightarrow> ev_clockOffset ptpData = 0 \<and> ev_gmClockUUID ptpData = 0 \<and>
     ev_syncInterval ptpData = 0 \<and> \<not> ev_asCapable ptpData \<and> \<not> ev_syncedWithGm ptpData"

definition isChronyDataEmpty :: "chrony_event \<Rightarrow> bool" where
  "isChronyDataEmpty chronyData \<longleftrightarrow> ch_clockOffset chronyData = 0 \<and>
     ch_gmClockUUID chronyData = 0 \<and> ch_syncInterval chronyData = 0"

definition subscribeReply ::
  "timespec option \<Rightarrow> timespec option \<Rightarrow> uint64_t \<Rightarrow> ptp_event \<Rightarrow> chrony_event \<Rightarrow>
     TimeBaseStates \<Rightarrow> TimeBaseStates" where
  "subscribeReply now1 now2 timeBaseIndex ptpData chronyData m =
     (let m1 = (if isPTPDataEmpty ptpData then m else setTimeBaseStatePtp now1 timeBaseIndex ptpData m);
          m2 = (if isChronyDataEmpty chronyData then m1
                else setTimeBaseStateSys now2 timeBaseIndex chronyData m1)
      in setSubscribed timeBaseIndex True m2)"

end
