(* ===== verification/Clk_Counts.thy ===== *)
theory Clk_Counts
  imports Clk_States
begin

unbundle bit_operations_syntax

text \<open>
  What the counters of a time base say: read together, they count every change of the
  observed value exactly once, and \<^verbatim>\<open>is_event_changed\<close> tells whether something changed
  since the last read. The law of one counter is a locale, proved once and interpreted for
  the six counters of the code.
\<close>

subsection \<open>Closed form of the updates\<close>

lemma upd_offset_eq:
  "upd_offset w t v e =
     (let f = (w AND EventOffsetInRange \<noteq> 0 \<and> v \<noteq> clockOffset e);
          r = (if f then inThreshold t v else offsetInRange e)
      in (r \<noteq> offsetInRange e,
          e\<lparr>clockOffset := if f then v else clockOffset e, offsetInRange := r,
            offsetInRangeCount := offsetInRangeCount e + of_bool (r \<noteq> offsetInRange e)\<rparr>))"
  by (cases e) (auto simp: upd_offset_def Let_def)

lemma upd_synced_eq:
  "upd_synced w n e =
     (let r = (if w AND EventSyncedWithGm \<noteq> 0 then ev_syncedWithGm n else syncedWithGm e)
      in (r \<noteq> syncedWithGm e,
          e\<lparr>syncedWithGm := r, syncedWithGmCount := syncedWithGmCount e + of_bool (r \<noteq> syncedWithGm e)\<rparr>))"
  by (cases e) (auto simp: upd_synced_def Let_def)

lemma upd_gm_eq:
  "upd_gm w n e =
     (let r = (if w AND EventGmChanged \<noteq> 0 then ev_gmClockUUID n else gmClockUUID e)
      in (r \<noteq> gmClockUUID e,
          e\<lparr>gmClockUUID := r, gmChanged := gmChanged e \<or> r \<noteq> gmClockUUID e,
            gmChangedCount := gmChangedCount e + of_bool (r \<noteq> gmClockUUID e)\<rparr>))"
  by (cases e) (auto simp: upd_gm_def Let_def)

lemma upd_as_eq:
  "upd_as w n e =
     (let r = (if w AND EventAsCapable \<noteq> 0 then ev_asCapable n else isAsCapable e)
      in (r \<noteq> isAsCapable e,
          e\<lparr>isAsCapable := r, asCapableCount := asCapableCount e + of_bool (r \<noteq> isAsCapable e)\<rparr>))"
  by (cases e) (auto simp: upd_as_def Let_def)

lemma upd_composite_eq:
  "upd_composite w e =
     (let r = (if w \<noteq> 0 then composite_event w e else compositeEvent e)
      in (r \<noteq> compositeEvent e,
          e\<lparr>compositeEvent := r,
            compositeEventCount := compositeEventCount e + of_bool (r \<noteq> compositeEvent e)\<rparr>))"
  by (cases e) (auto simp: upd_composite_def Let_def)

lemmas upd_eqs = upd_offset_eq upd_synced_eq upd_gm_eq upd_as_eq upd_composite_eq

lemma composite_event_iff:
  "composite_event w e \<longleftrightarrow> (w AND EventOffsetInRange \<noteq> 0 \<longrightarrow> offsetInRange e) \<and>
     (w AND EventSyncedWithGm \<noteq> 0 \<longrightarrow> syncedWithGm e) \<and>
     (w AND EventAsCapable \<noteq> 0 \<longrightarrow> isAsCapable e)"
  by (auto simp: composite_event_def)

subsection \<open>Notifications and reads of a time base\<close>

datatype notification = Ptp "timespec option" ptp_event | Sys "timespec option" chrony_event

fun notify :: "notification \<Rightarrow> TimeBaseState \<Rightarrow> TimeBaseState" where
  "notify (Ptp now ev) s = notify_ptp now ev s"
| "notify (Sys now ev) s = notify_sys now ev s"

datatype tb_event = Notified notification | Read_out

text \<open>The states read in a sequence of events of a time base, and the state it leaves.\<close>

fun tb_run :: "tb_event list \<Rightarrow> TimeBaseState \<Rightarrow> TimeBaseState list \<times> TimeBaseState" where
  "tb_run [] s = ([], s)"
| "tb_run (Notified n # es) s = tb_run es (notify n s)"
| "tb_run (Read_out # es) s = (let (rs, s') = tb_run es (reset_events s) in (s # rs, s'))"

fun notified :: "tb_event list \<Rightarrow> notification list" where
  "notified [] = []"
| "notified (Notified n # es) = n # notified es"
| "notified (Read_out # es) = notified es"

text \<open>How often a value changes along a sequence.\<close>

fun changes :: "'v \<Rightarrow> 'v list \<Rightarrow> nat" where
  "changes x [] = 0"
| "changes x (y # ys) = of_bool (x \<noteq> y) + changes y ys"

subsection \<open>The law of a counter\<close>

locale counted =
  fixes ok :: "TimeBaseState \<Rightarrow> bool" and cnt :: "TimeBaseState \<Rightarrow> uint32_t"
    and cur :: "TimeBaseState \<Rightarrow> 'v" and told :: "notification \<Rightarrow> 'v option"
  assumes ok_notify: "ok s \<Longrightarrow> ok (notify n s)" and ok_reset: "ok s \<Longrightarrow> ok (reset_events s)"
    and cnt_notify: "ok s \<Longrightarrow> cnt (notify n s) = cnt s + of_bool (cur (notify n s) \<noteq> cur s)"
    and cur_notify: "ok s \<Longrightarrow> cur (notify n s) = (case told n of None \<Rightarrow> cur s | Some v \<Rightarrow> v)"
    and cnt_reset: "cnt (reset_events s) = 0" and cur_reset: "cur (reset_events s) = cur s"
begin

lemma counts_changes:
  "ok s \<Longrightarrow> sum_list (map cnt (fst (tb_run es s))) + cnt (snd (tb_run es s)) =
     cnt s + of_nat (changes (cur s) (List.map_filter told (notified es)))"
proof (induction es s rule: tb_run.induct)
  case (2 n es s)
  then show ?case
    by (cases "told n") (auto simp: ok_notify cnt_notify cur_notify List.map_filter_simps)
next
  case (3 es s)
  then show ?case
    by (simp add: ok_reset cnt_reset cur_reset case_prod_beta algebra_simps)
qed (simp add: List.map_filter_simps)

lemma last_told:
  "ok s \<Longrightarrow> cur (snd (tb_run es s)) = last (cur s # List.map_filter told (notified es))"
proof (induction es s rule: tb_run.induct)
  case (2 n es s)
  then show ?case
    by (cases "told n") (auto simp: ok_notify cur_notify List.map_filter_simps)
next
  case (3 es s)
  then show ?case
    by (simp add: ok_reset cur_reset case_prod_beta)
qed (simp add: List.map_filter_simps)

end

subsection \<open>The counters of the code\<close>

text \<open>
  \<open>observing p q s\<close>: the time base has the subscriptions \<open>p\<close> and \<open>q\<close>, and the
  offsets are known to be in or out of range of their thresholds.
\<close>

definition offset_known :: "'a ClockSubscriptionBase_scheme \<Rightarrow> 'b ClockEventBase_scheme \<Rightarrow> bool" where
  "offset_known sub e \<longleftrightarrow> offsetInRange e = inThreshold (clockOffsetThreshold sub) (clockOffset e)"

definition observing :: "PTPClockSubscription \<Rightarrow> SysClockSubscription \<Rightarrow> TimeBaseState \<Rightarrow> bool" where
  "observing p q s \<longleftrightarrow> ptpEventSub s = p \<and> sysEventSub s = q \<and>
     offset_known p (ptpEventState s) \<and> offset_known q (sysEventState s)"

definition wants :: "uint32_t \<Rightarrow> 'a ClockSubscriptionBase_scheme \<Rightarrow> bool" where
  "wants event sub \<longleftrightarrow> eventMask sub AND event \<noteq> 0"

lemma notify_ptp_fields:
  "ptpEventSub (notify_ptp now n s) = ptpEventSub s"
  "sysEventSub (notify_ptp now n s) = sysEventSub s"
  "sysEventState (notify_ptp now n s) = sysEventState s"
  "subscribed (notify_ptp now n s) = subscribed s"
  "havePtPData (notify_ptp now n s)"
  "haveSysData (notify_ptp now n s) = haveSysData s"
  "event_changed (notify_ptp now n s) \<longleftrightarrow>
     event_changed s \<or> fst (ptp_blocks (ptpEventSub s) n (ptpEventState s))"
  "ptpEventState (notify_ptp now n s) =
     (snd (ptp_blocks (ptpEventSub s) n (ptpEventState s)))
       \<lparr>notificationTimestamp := notification_timestamp (case now of None \<Rightarrow> no_time | Some t \<Rightarrow> t),
        syncInterval := ev_syncInterval n\<rparr>"
  by (auto simp: notify_ptp_def Let_def case_prod_beta split: option.splits)

lemma notify_sys_fields:
  "ptpEventSub (notify_sys now n s) = ptpEventSub s"
  "sysEventSub (notify_sys now n s) = sysEventSub s"
  "ptpEventState (notify_sys now n s) = ptpEventState s"
  "subscribed (notify_sys now n s) = subscribed s"
  "havePtPData (notify_sys now n s) = havePtPData s"
  "haveSysData (notify_sys now n s)"
  "event_changed (notify_sys now n s) \<longleftrightarrow>
     event_changed s \<or> fst (upd_offset (eventMask (sysEventSub s)) (clockOffsetThreshold (sysEventSub s))
       (ch_clockOffset n) (sysEventState s))"
  "sysEventState (notify_sys now n s) =
     (snd (upd_offset (eventMask (sysEventSub s)) (clockOffsetThreshold (sysEventSub s))
       (ch_clockOffset n) (sysEventState s)))
       \<lparr>gmClockUUID := ch_gmClockUUID n, syncInterval := ch_syncInterval n,
        notificationTimestamp := notification_timestamp (case now of None \<Rightarrow> no_time | Some t \<Rightarrow> t)\<rparr>"
  by (auto simp: notify_sys_def Let_def case_prod_beta split: option.splits)

lemmas notify_fields = notify_ptp_fields notify_sys_fields

lemma reset_fields:
  "ptpEventSub (reset_events s) = ptpEventSub s" "sysEventSub (reset_events s) = sysEventSub s"
  "subscribed (reset_events s) = subscribed s" "\<not> event_changed (reset_events s)"
  "havePtPData (reset_events s) = havePtPData s" "haveSysData (reset_events s) = haveSysData s"
  "last_notification_time (reset_events s) = last_notification_time s"
  "offsetInRangeCount (ptpEventState (reset_events s)) = 0"
  "offsetInRange (ptpEventState (reset_events s)) = offsetInRange (ptpEventState s)"
  "syncedWithGmCount (ptpEventState (reset_events s)) = 0"
  "syncedWithGm (ptpEventState (reset_events s)) = syncedWithGm (ptpEventState s)"
  "gmChangedCount (ptpEventState (reset_events s)) = 0"
  "gmClockUUID (ptpEventState (reset_events s)) = gmClockUUID (ptpEventState s)"
  "asCapableCount (ptpEventState (reset_events s)) = 0"
  "isAsCapable (ptpEventState (reset_events s)) = isAsCapable (ptpEventState s)"
  "compositeEventCount (ptpEventState (reset_events s)) = 0"
  "compositeEvent (ptpEventState (reset_events s)) = compositeEvent (ptpEventState s)"
  "offsetInRangeCount (sysEventState (reset_events s)) = 0"
  "offsetInRange (sysEventState (reset_events s)) = offsetInRange (sysEventState s)"
  by (simp_all add: reset_events_def)

text \<open>The values the blocks leave, one by one.\<close>

lemma ptp_blocks_values:
  fixes p :: PTPClockSubscription
  defines "r \<equiv> \<lambda>n e. snd (ptp_blocks p n e)"
  shows "clockOffset (r n e) = (if wants EventOffsetInRange p then ev_clockOffset n else clockOffset e)"
    and "offsetInRange (r n e) =
      (if wants EventOffsetInRange p \<and> ev_clockOffset n \<noteq> clockOffset e
       then inThreshold (clockOffsetThreshold p) (ev_clockOffset n) else offsetInRange e)"
    and "syncedWithGm (r n e) = (if wants EventSyncedWithGm p then ev_syncedWithGm n else syncedWithGm e)"
    and "gmClockUUID (r n e) = (if wants EventGmChanged p then ev_gmClockUUID n else gmClockUUID e)"
    and "isAsCapable (r n e) = (if wants EventAsCapable p then ev_asCapable n else isAsCapable e)"
    and "compositeEvent (r n e) =
      (if m_composite_event_mask p \<noteq> 0 then composite_event (m_composite_event_mask p) (r n e)
       else compositeEvent e)"
  unfolding r_def
  by (simp_all add: ptp_blocks_def and_then_def upd_eqs wants_def Let_def case_prod_beta composite_event_iff)

lemma ptp_blocks_counts:
  fixes p :: PTPClockSubscription
  defines "r \<equiv> \<lambda>n e. snd (ptp_blocks p n e)"
  shows "offsetInRangeCount (r n e) = offsetInRangeCount e + of_bool (offsetInRange (r n e) \<noteq> offsetInRange e)"
    and "syncedWithGmCount (r n e) = syncedWithGmCount e + of_bool (syncedWithGm (r n e) \<noteq> syncedWithGm e)"
    and "gmChangedCount (r n e) = gmChangedCount e + of_bool (gmClockUUID (r n e) \<noteq> gmClockUUID e)"
    and "asCapableCount (r n e) = asCapableCount e + of_bool (isAsCapable (r n e) \<noteq> isAsCapable e)"
    and "compositeEventCount (r n e) =
      compositeEventCount e + of_bool (compositeEvent (r n e) \<noteq> compositeEvent e)"
    and "fst (ptp_blocks p n e) \<longleftrightarrow> offsetInRange (r n e) \<noteq> offsetInRange e \<or>
      syncedWithGm (r n e) \<noteq> syncedWithGm e \<or> gmClockUUID (r n e) \<noteq> gmClockUUID e \<or>
      isAsCapable (r n e) \<noteq> isAsCapable e \<or> compositeEvent (r n e) \<noteq> compositeEvent e"
  unfolding r_def
  by (simp_all add: ptp_blocks_def and_then_def upd_eqs Let_def case_prod_beta)

lemma observing_kept:
  "observing p q s \<Longrightarrow> observing p q (notify n s)"
  "observing p q s \<Longrightarrow> observing p q (reset_events s)"
  by (cases n; simp add: observing_def offset_known_def notify_fields ptp_blocks_values upd_offset_eq Let_def)
    (simp add: observing_def offset_known_def reset_events_def)

text \<open>What a notification tells about each observed value.\<close>

fun told_offset :: "PTPClockSubscription \<Rightarrow> notification \<Rightarrow> bool option" where
  "told_offset p (Ptp now n) = Some (inThreshold (clockOffsetThreshold p) (ev_clockOffset n))"
| "told_offset p (Sys now n) = None"

fun told_synced :: "notification \<Rightarrow> bool option" where
  "told_synced (Ptp now n) = Some (ev_syncedWithGm n)"
| "told_synced (Sys now n) = None"

fun told_gm :: "notification \<Rightarrow> uint64_t option" where
  "told_gm (Ptp now n) = Some (ev_gmClockUUID n)"
| "told_gm (Sys now n) = None"

fun told_as :: "notification \<Rightarrow> bool option" where
  "told_as (Ptp now n) = Some (ev_asCapable n)"
| "told_as (Sys now n) = None"

fun told_composite :: "PTPClockSubscription \<Rightarrow> notification \<Rightarrow> bool option" where
  "told_composite p (Ptp now n) =
     Some ((m_composite_event_mask p AND EventOffsetInRange \<noteq> 0 \<longrightarrow>
              inThreshold (clockOffsetThreshold p) (ev_clockOffset n)) \<and>
           (m_composite_event_mask p AND EventSyncedWithGm \<noteq> 0 \<longrightarrow> ev_syncedWithGm n) \<and>
           (m_composite_event_mask p AND EventAsCapable \<noteq> 0 \<longrightarrow> ev_asCapable n))"
| "told_composite p (Sys now n) = None"

fun told_sys_offset :: "SysClockSubscription \<Rightarrow> notification \<Rightarrow> bool option" where
  "told_sys_offset q (Ptp now n) = None"
| "told_sys_offset q (Sys now n) = Some (inThreshold (clockOffsetThreshold q) (ch_clockOffset n))"

text \<open>A composite event can be told when the client also subscribed to its parts.\<close>

definition wants_composite :: "PTPClockSubscription \<Rightarrow> bool" where
  "wants_composite p \<longleftrightarrow> m_composite_event_mask p \<noteq> 0 \<and>
     (m_composite_event_mask p AND EventOffsetInRange \<noteq> 0 \<longrightarrow> wants EventOffsetInRange p) \<and>
     (m_composite_event_mask p AND EventSyncedWithGm \<noteq> 0 \<longrightarrow> wants EventSyncedWithGm p) \<and>
     (m_composite_event_mask p AND EventAsCapable \<noteq> 0 \<longrightarrow> wants EventAsCapable p)"

lemmas counted_simps = notify_fields ptp_blocks_values ptp_blocks_counts reset_events_def observing_def
  offset_known_def

interpretation offset_count: counted "\<lambda>s. observing p q s \<and> wants EventOffsetInRange p"
  "\<lambda>s. offsetInRangeCount (ptpEventState s)" "\<lambda>s. offsetInRange (ptpEventState s)" "told_offset p" for p q
proof unfold_locales
  fix s n assume ok: "observing p q s \<and> wants EventOffsetInRange p"
  show "offsetInRangeCount (ptpEventState (notify n s)) = offsetInRangeCount (ptpEventState s) +
      of_bool (offsetInRange (ptpEventState (notify n s)) \<noteq> offsetInRange (ptpEventState s))"
    by (cases n) (simp_all add: counted_simps)
  show "offsetInRange (ptpEventState (notify n s)) =
      (case told_offset p n of None \<Rightarrow> offsetInRange (ptpEventState s) | Some v \<Rightarrow> v)"
    using ok by (cases n) (auto simp: counted_simps)
qed (auto simp: observing_kept reset_fields)

interpretation synced_count: counted "\<lambda>s. observing p q s \<and> wants EventSyncedWithGm p"
  "\<lambda>s. syncedWithGmCount (ptpEventState s)" "\<lambda>s. syncedWithGm (ptpEventState s)" told_synced for p q
proof unfold_locales
  fix s n assume ok: "observing p q s \<and> wants EventSyncedWithGm p"
  show "syncedWithGmCount (ptpEventState (notify n s)) = syncedWithGmCount (ptpEventState s) +
      of_bool (syncedWithGm (ptpEventState (notify n s)) \<noteq> syncedWithGm (ptpEventState s))"
    by (cases n) (simp_all add: counted_simps)
  show "syncedWithGm (ptpEventState (notify n s)) =
      (case told_synced n of None \<Rightarrow> syncedWithGm (ptpEventState s) | Some v \<Rightarrow> v)"
    using ok by (cases n) (auto simp: counted_simps)
qed (auto simp: observing_kept reset_fields)

interpretation gm_count: counted "\<lambda>s. observing p q s \<and> wants EventGmChanged p"
  "\<lambda>s. gmChangedCount (ptpEventState s)" "\<lambda>s. gmClockUUID (ptpEventState s)" told_gm for p q
proof unfold_locales
  fix s n assume ok: "observing p q s \<and> wants EventGmChanged p"
  show "gmChangedCount (ptpEventState (notify n s)) = gmChangedCount (ptpEventState s) +
      of_bool (gmClockUUID (ptpEventState (notify n s)) \<noteq> gmClockUUID (ptpEventState s))"
    by (cases n) (simp_all add: counted_simps)
  show "gmClockUUID (ptpEventState (notify n s)) =
      (case told_gm n of None \<Rightarrow> gmClockUUID (ptpEventState s) | Some v \<Rightarrow> v)"
    using ok by (cases n) (auto simp: counted_simps)
qed (auto simp: observing_kept reset_fields)

interpretation as_count: counted "\<lambda>s. observing p q s \<and> wants EventAsCapable p"
  "\<lambda>s. asCapableCount (ptpEventState s)" "\<lambda>s. isAsCapable (ptpEventState s)" told_as for p q
proof unfold_locales
  fix s n assume ok: "observing p q s \<and> wants EventAsCapable p"
  show "asCapableCount (ptpEventState (notify n s)) = asCapableCount (ptpEventState s) +
      of_bool (isAsCapable (ptpEventState (notify n s)) \<noteq> isAsCapable (ptpEventState s))"
    by (cases n) (simp_all add: counted_simps)
  show "isAsCapable (ptpEventState (notify n s)) =
      (case told_as n of None \<Rightarrow> isAsCapable (ptpEventState s) | Some v \<Rightarrow> v)"
    using ok by (cases n) (auto simp: counted_simps)
qed (auto simp: observing_kept reset_fields)

interpretation composite_count: counted "\<lambda>s. observing p q s \<and> wants_composite p"
  "\<lambda>s. compositeEventCount (ptpEventState s)" "\<lambda>s. compositeEvent (ptpEventState s)"
  "told_composite p" for p q
proof unfold_locales
  fix s n assume ok: "observing p q s \<and> wants_composite p"
  show "compositeEventCount (ptpEventState (notify n s)) = compositeEventCount (ptpEventState s) +
      of_bool (compositeEvent (ptpEventState (notify n s)) \<noteq> compositeEvent (ptpEventState s))"
    by (cases n) (simp_all add: counted_simps)
  show "compositeEvent (ptpEventState (notify n s)) =
      (case told_composite p n of None \<Rightarrow> compositeEvent (ptpEventState s) | Some v \<Rightarrow> v)"
    using ok by (cases n) (auto simp: counted_simps wants_composite_def composite_event_iff)
qed (auto simp: observing_kept reset_fields)

interpretation sys_offset_count: counted "\<lambda>s. observing p q s \<and> wants EventOffsetInRange q"
  "\<lambda>s. offsetInRangeCount (sysEventState s)" "\<lambda>s. offsetInRange (sysEventState s)" "told_sys_offset q" for p q
proof unfold_locales
  fix s n assume ok: "observing p q s \<and> wants EventOffsetInRange q"
  show "offsetInRangeCount (sysEventState (notify n s)) = offsetInRangeCount (sysEventState s) +
      of_bool (offsetInRange (sysEventState (notify n s)) \<noteq> offsetInRange (sysEventState s))"
    by (cases n) (simp_all add: counted_simps upd_offset_eq Let_def)
  show "offsetInRange (sysEventState (notify n s)) =
      (case told_sys_offset q n of None \<Rightarrow> offsetInRange (sysEventState s) | Some v \<Rightarrow> v)"
    using ok by (cases n) (auto simp: counted_simps upd_offset_eq wants_def Let_def)
qed (auto simp: observing_kept reset_fields)

subsection \<open>When the client is told of a change\<close>

definition observed :: "TimeBaseState \<Rightarrow> (bool \<times> bool \<times> uint64_t \<times> bool \<times> bool) \<times> bool" where
  "observed s =
     ((offsetInRange (ptpEventState s), syncedWithGm (ptpEventState s), gmClockUUID (ptpEventState s),
       isAsCapable (ptpEventState s), compositeEvent (ptpEventState s)), offsetInRange (sysEventState s))"

lemma changed_notify:
  "event_changed (notify n s) \<longleftrightarrow> event_changed s \<or> observed (notify n s) \<noteq> observed s"
  by (cases n) (auto simp: observed_def notify_fields ptp_blocks_counts upd_offset_eq Let_def)

lemma observed_reset: "observed (reset_events s) = observed s"
  by (simp add: observed_def reset_fields)

text \<open>The states a sequence of notifications goes through.\<close>

fun through :: "notification list \<Rightarrow> TimeBaseState \<Rightarrow> TimeBaseState list" where
  "through [] s = []"
| "through (n # ns) s = notify n s # through ns (notify n s)"

lemma changed_through:
  "event_changed (fold notify ns s) \<longleftrightarrow>
     event_changed s \<or> changes (observed s) (map observed (through ns s)) > 0"
  by (induction ns s rule: through.induct) (auto simp: changed_notify)

lemma last_through: "fold notify ns s = last (s # through ns s)"
  by (induction ns s rule: through.induct) auto

lemma changes_0: "changes x ys = 0 \<longleftrightarrow> set ys \<subseteq> {x}"
  by (induction ys arbitrary: x) auto

lemma changes_pos: "y \<in> set ys \<Longrightarrow> y \<noteq> x \<Longrightarrow> 0 < changes x ys"
  using changes_0 [of x ys] by auto

subsection \<open>All time bases of a client\<close>

datatype states_op = Tell_ptp "timespec option" uint64_t ptp_event
  | Tell_sys "timespec option" uint64_t chrony_event | Read uint64_t

fun states_run :: "states_op list \<Rightarrow> TimeBaseStates \<Rightarrow> (int32_t \<times> TimeBaseState) list \<times> TimeBaseStates" where
  "states_run [] m = ([], m)"
| "states_run (Tell_ptp now i ev # ops) m = states_run ops (setTimeBaseStatePtp now i ev m)"
| "states_run (Tell_sys now i ev # ops) m = states_run ops (setTimeBaseStateSys now i ev m)"
| "states_run (Read i # ops) m =
     (let (r, m1) = getTimeBaseState i m; (rs, m2) = states_run ops m1
      in (case r of None \<Rightarrow> rs | Some s \<Rightarrow> (key_of i, s) # rs, m2))"

fun events_at :: "int32_t \<Rightarrow> states_op list \<Rightarrow> tb_event list" where
  "events_at k [] = []"
| "events_at k (Tell_ptp now i ev # ops) =
     (if key_of i = k then Notified (Ptp now ev) # events_at k ops else events_at k ops)"
| "events_at k (Tell_sys now i ev # ops) =
     (if key_of i = k then Notified (Sys now ev) # events_at k ops else events_at k ops)"
| "events_at k (Read i # ops) = (if key_of i = k then Read_out # events_at k ops else events_at k ops)"

definition reads_at :: "int32_t \<Rightarrow> (int32_t \<times> TimeBaseState) list \<Rightarrow> TimeBaseState list" where
  "reads_at k rs = map snd (filter (\<lambda>(i, s). i = k) rs)"

text \<open>The time bases do not disturb each other.\<close>

lemma states_run_at:
  "m k = Some s \<Longrightarrow>
     reads_at k (fst (states_run ops m)) = fst (tb_run (events_at k ops) s) \<and>
     snd (states_run ops m) k = Some (snd (tb_run (events_at k ops) s))"
proof (induction ops arbitrary: m s)
  case (Cons a ops)
  show ?case
  proof (cases a)
    case (Read i)
    show ?thesis
    proof (cases "key_of i = k")
      case True
      define m1 where "m1 = m(k \<mapsto> reset_events s)"
      then have "m1 k = Some (reset_events s)"
        by simp
      then show ?thesis
        using Cons.IH [of m1 "reset_events s"] Read True Cons.prems
        by (simp add: m1_def [symmetric] getTimeBaseState_def case_prod_beta reads_at_def)
    next
      case False
      have "snd (getTimeBaseState i m) k = Some s"
        using False Cons.prems by (simp add: getTimeBaseState_def split: option.split)
      then show ?thesis
        using Cons.IH [of "snd (getTimeBaseState i m)" s] Read False
        by (simp add: getTimeBaseState_def case_prod_beta reads_at_def split: option.split)
    qed
  qed (use Cons in \<open>auto simp: setTimeBaseStatePtp_def setTimeBaseStateSys_def stateAt_def\<close>)
qed (simp add: reads_at_def)

end
