(* ===== verification/Clk_Client.thy ===== *)
theory Clk_Client
  imports Clk_Messages Clk_Counts "HOL-Library.Signed_Division"
begin

text \<open>
  Clock manager, the client: the configurations the proxy announced
  (\<^verbatim>\<open>client/timebase_configs.cpp\<close>), the state of the connection
  (\<^verbatim>\<open>client/client_state.cpp\<close>), the tails of the messages a client receives
  (\<^verbatim>\<open>client/*_msg.cpp\<close>), and the calls of the application (\<^verbatim>\<open>client/clockmanager.cpp\<close>).
  The listener thread of the client works on messages while the application waits, so a wait
  is a list of rounds: what was received before the thread of the application went on.
\<close>

subsection \<open>Configurations of the time bases\<close>

record PTPCfg =
  m_ifName :: octets
  m_ptpTransport :: uint8_t
  m_ptpDomain :: uint8_t
  m_ifIndex :: int
  m_ptpIndex :: int

record TimeBaseRecord =
  m_index :: uint64_t
  m_name :: octets
  m_have_ptp :: bool
  m_ptp :: PTPCfg
  m_have_sys :: bool

definition default_PTPCfg :: PTPCfg where
  "default_PTPCfg = \<lparr>m_ifName = [], m_ptpTransport = 1, m_ptpDomain = 0,
     m_ifIndex = -1, m_ptpIndex = -1\<rparr>"

definition new_PTPCfg :: "octets \<Rightarrow> uint8_t \<Rightarrow> uint8_t \<Rightarrow> PTPCfg" where
  "new_PTPCfg ifn ts dn = \<lparr>m_ifName = ifn, m_ptpTransport = ts, m_ptpDomain = dn,
      m_ifIndex = -1, m_ptpIndex = -1\<rparr>"

definition new_TimeBaseRecord :: "uint64_t \<Rightarrow> octets \<Rightarrow> TimeBaseRecord" where
  "new_TimeBaseRecord index name = \<lparr>m_index = index, m_name = name, m_have_ptp = False,
     m_ptp = default_PTPCfg, m_have_sys = False\<rparr>"

definition setPtp :: "PTPCfg \<Rightarrow> TimeBaseRecord \<Rightarrow> TimeBaseRecord" where
  "setPtp p r = r\<lparr>m_ptp := p, m_have_ptp := True\<rparr>"

text \<open>A text of C ends before its first zero; without one it goes on in the members that follow.\<close>

definition c_text :: "octets \<Rightarrow> octets" where
  "c_text bs = takeWhile (\<lambda>b. b \<noteq> 0) bs"

definition after_names :: "TimeBaseCfg \<Rightarrow> octets" where
  "after_names c = [cfg_transportSpecific c, cfg_domainNumber c, of_bool (cfg_haveSys c),
     of_bool (cfg_havePtp c)]"

definition addTimeBaseCfg :: "TimeBaseCfg \<Rightarrow> (uint64_t \<rightharpoonup> TimeBaseRecord) \<Rightarrow> (uint64_t \<rightharpoonup> TimeBaseRecord)" where
  "addTimeBaseCfg cfg m_cfgs =
     (let r = new_TimeBaseRecord (cfg_timeBaseIndex cfg)
                (c_text (cfg_timeBaseName cfg @ cfg_interfaceName cfg @ after_names cfg));
          r1 = (if hd (cfg_interfaceName cfg) \<noteq> 0
                then setPtp (new_PTPCfg (c_text (cfg_interfaceName cfg @ after_names cfg))
                       (cfg_transportSpecific cfg) (cfg_domainNumber cfg)) r
                else r);
          r2 = (if cfg_haveSys cfg then r1\<lparr>m_have_sys := True\<rparr> else r1);
          r3 = (if cfg_havePtp cfg then r2\<lparr>m_have_ptp := True\<rparr> else r2)
      in m_cfgs(cfg_timeBaseIndex cfg \<mapsto> r3))"

definition isTimeBaseIndexPresent :: "(uint64_t \<rightharpoonup> TimeBaseRecord) \<Rightarrow> uint64_t \<Rightarrow> bool" where
  "isTimeBaseIndexPresent m_cfgs timeBaseIndex \<longleftrightarrow> m_cfgs timeBaseIndex \<noteq> None"

definition getRecord :: "(uint64_t \<rightharpoonup> TimeBaseRecord) \<Rightarrow> uint64_t \<Rightarrow> TimeBaseRecord" where
  "getRecord m_cfgs timeBaseIndex =
     (if isTimeBaseIndexPresent m_cfgs timeBaseIndex then the (m_cfgs timeBaseIndex)
      else new_TimeBaseRecord 0 [])"

definition BaseNameToBaseIndex :: "(uint64_t \<rightharpoonup> TimeBaseRecord) \<Rightarrow> octets \<Rightarrow> uint64_t option" where
  "BaseNameToBaseIndex m_cfgs timeBaseName =
     find (\<lambda>i. map_option m_name (m_cfgs i) = Some timeBaseName) (sorted_list_of_set (dom m_cfgs))"

subsection \<open>State of a client\<close>

text \<open>
  The static members of \<^verbatim>\<open>ClientState\<close>, \<^verbatim>\<open>TimeBaseConfigurations\<close> and
  \<^verbatim>\<open>TimeBaseStates\<close>, and whether the listener thread runs.
\<close>

record Client_State =
  m_clientID :: octets
  cl_sessionId :: uint16_t
  m_connected :: bool
  m_cfgs :: "uint64_t \<rightharpoonup> TimeBaseRecord"
  timeBaseStateMap :: TimeBaseStates
  cl_listening :: bool

definition new_Client_State :: "octets \<Rightarrow> Client_State" where
  "new_Client_State name = \<lparr>m_clientID = name, cl_sessionId = InvalidSessionId, m_connected = False,
     m_cfgs = Map.empty, timeBaseStateMap = Map.empty, cl_listening = True\<rparr>"

definition connectReply :: "uint16_t \<Rightarrow> Client_State \<Rightarrow> Client_State" where
  "connectReply sessionId c = c\<lparr>m_connected := True, cl_sessionId := sessionId\<rparr>"

subsection \<open>Tails of the received messages\<close>

text \<open>The two clock readings of a message, for the time base and for the system clock.\<close>

type_synonym clock = "timespec option \<times> timespec option"

fun rx_cfgs :: "host \<Rightarrow> nat \<Rightarrow> Client_State \<Rightarrow> Buffer \<Rightarrow> bool \<times> Client_State" where
  "rx_cfgs h 0 c b = (True, c)"
| "rx_cfgs h (Suc n) c b =
     (case RX_cfg h b of (None, b1) \<Rightarrow> (False, c)
      | (Some newCfg, b1) \<Rightarrow> rx_cfgs h n (c\<lparr>m_cfgs := addTimeBaseCfg newCfg (m_cfgs c)\<rparr>) b1)"

definition connect_tail :: "host \<Rightarrow> ClkMessage \<Rightarrow> Buffer \<Rightarrow> Client_State \<Rightarrow> bool \<times> ClkMessage \<times> Client_State" where
  "connect_tail h msg b c =
     (case (RX h :: uint64_t rx) b of (None, b1) \<Rightarrow> (False, msg, c)
      | (Some mapSize, b1) \<Rightarrow>
          (case rx_cfgs h (unat mapSize) c b1 of (False, c1) \<Rightarrow> (False, msg, c1)
           | (True, c1) \<Rightarrow> (True, msg\<lparr>m_msgAck := ACK_NONE\<rparr>, connectReply (m_sessionId msg) c1)))"

definition subscribe_tail ::
  "host \<Rightarrow> clock \<Rightarrow> uint64_t \<Rightarrow> ClkMessage \<Rightarrow> Buffer \<Rightarrow> Client_State \<Rightarrow> bool \<times> ClkMessage \<times> Client_State" where
  "subscribe_tail h clk timeBaseIndex msg b c =
     (case rx_then (RX_ptp_event h) (\<lambda>p. rx_then (RX_chrony_event h) (\<lambda>q. rx_give (p, q))) b of
        (None, b1) \<Rightarrow> (False, msg, c)
      | (Some (ptpData, chronyData), b1) \<Rightarrow>
          (True, msg\<lparr>m_msgAck := ACK_NONE\<rparr>,
           c\<lparr>timeBaseStateMap := subscribeReply (fst clk) (snd clk) timeBaseIndex ptpData chronyData
               (timeBaseStateMap c)\<rparr>))"

definition notification_tail ::
  "host \<Rightarrow> clock \<Rightarrow> uint64_t \<Rightarrow> ClkMessage \<Rightarrow> Buffer \<Rightarrow> Client_State \<Rightarrow> bool \<times> ClkMessage \<times> Client_State" where
  "notification_tail h clk timeBaseIndex msg b c =
     (case (RX h :: uint8_t rx) b of (None, b1) \<Rightarrow> (False, msg, c)
      | (Some clockType, b1) \<Rightarrow>
          (if clockType = ClockType_value PTPClock then
             (case RX_ptp_event h b1 of (None, b2) \<Rightarrow> (False, msg, c)
              | (Some ptpData, b2) \<Rightarrow>
                  (True, msg, c\<lparr>timeBaseStateMap :=
                     setTimeBaseStatePtp (fst clk) timeBaseIndex ptpData (timeBaseStateMap c)\<rparr>))
           else if clockType = ClockType_value SysClock then
             (case RX_chrony_event h b1 of (None, b2) \<Rightarrow> (False, msg, c)
              | (Some chronyData, b2) \<Rightarrow>
                  (True, msg, c\<lparr>timeBaseStateMap :=
                     setTimeBaseStateSys (snd clk) timeBaseIndex chronyData (timeBaseStateMap c)\<rparr>))
           else (True, msg, c)))"

definition disconnect_tail :: "ClkMessage \<Rightarrow> Client_State \<Rightarrow> bool \<times> ClkMessage \<times> Client_State" where
  [simp]: "disconnect_tail msg c = (True, msg, c\<lparr>m_connected := False\<rparr>)"

fun client_tail :: "host \<Rightarrow> clock \<Rightarrow> ClkMessage \<Rightarrow> msg_body \<Rightarrow> Buffer \<Rightarrow> Client_State \<Rightarrow>
    bool \<times> ClkMessage \<times> Client_State" where
  "client_tail h clk msg (ConnectMessage i) b c = connect_tail h msg b c"
| "client_tail h clk msg (SubscribeMessage i) b c = subscribe_tail h clk i msg b c"
| "client_tail h clk msg (NotificationMessage i) b c = notification_tail h clk i msg b c"
| "client_tail h clk msg DisconnectMessage b c = disconnect_tail msg c"

definition client_ids :: "uint8_t list" where
  "client_ids = [CONNECT_MSG, SUBSCRIBE_MSG, NOTIFY_MESSAGE, DISCONNECT_MSG]"

definition client_parse :: "host \<Rightarrow> clock \<Rightarrow> Buffer \<Rightarrow> Client_State \<Rightarrow> ClkMessage option \<times> Client_State" where
  "client_parse h clk b c =
     (case parseHead h client_ids b of (None, b1) \<Rightarrow> (None, c)
      | (Some msg, b1) \<Rightarrow>
          (case client_tail h clk msg (msg_body msg) b1 c of
             (True, msg1, c1) \<Rightarrow> (Some msg1, c1)
           | (False, msg1, c1) \<Rightarrow> (None, c1)))"

text \<open>
  \<open>MqListenerWork\<close> of a client for a received message, from the buffer on: the queue gave the
  octets \<open>bs\<close>. The answer, if the message asks for one, is left to the queue: \<open>sends\<close> tells
  whether \<^verbatim>\<open>mq_send\<close> works. The thread ends when the work fails.
\<close>

definition client_work :: "host \<Rightarrow> (octets \<Rightarrow> bool) \<Rightarrow> clock \<Rightarrow> octets \<Rightarrow> Client_State \<Rightarrow> bool \<times> Client_State" where
  "client_work h sends clk bs c =
     (if bs = [] then (True, c)
      else
        (case client_parse h clk (rx_load bs) c of (None, c1) \<Rightarrow> (False, c1)
         | (Some msg, c1) \<Rightarrow>
             (if m_msgAck msg \<noteq> ACK_NONE
              then (case makeBuffer h [] msg (rx_load bs) of (ok, b1) \<Rightarrow> (ok \<and> sends (written b1), c1))
              else (True, c1))))"

definition client_listen :: "host \<Rightarrow> (octets \<Rightarrow> bool) \<Rightarrow> clock \<times> octets \<Rightarrow> Client_State \<Rightarrow> Client_State" where
  "client_listen h sends rx c =
     (if cl_listening c
      then (case client_work h sends (fst rx) (snd rx) c of (ok, c1) \<Rightarrow> c1\<lparr>cl_listening := ok\<rparr>)
      else c)"

end
