(* ===== verification/Clk_Calls.thy ===== *)
theory Clk_Calls
  imports Clk_Client
begin

text \<open>
  Clock manager, the calls of an application: \<^verbatim>\<open>ClientState::connect\<close> and
  \<^verbatim>\<open>notifyDisconnect\<close>, \<^verbatim>\<open>TimeBaseStates::subscribe\<close>, and \<^verbatim>\<open>client/clockmanager.cpp\<close>.
  A call that waits takes the list of its rounds and gives \<^term>\<open>None\<close> when it still waits at
  the end of the list.
\<close>

subsection \<open>Sending\<close>

definition blank_buffer :: Buffer where
  "blank_buffer = \<lparr>m_offset = 0, m_rcvSize = 0, m_buffer = replicate MAX_BUFFER_LENGTH 0\<rparr>"

definition sendMessage :: "host \<Rightarrow> (octets \<Rightarrow> bool) \<Rightarrow> ClkMessage \<Rightarrow> octets option" where
  "sendMessage h sends msg =
     (case makeBuffer h [] msg blank_buffer of (False, b) \<Rightarrow> None
      | (True, b) \<Rightarrow> if sends (written b) then Some (written b) else None)"

definition connect_message :: "Client_State \<Rightarrow> ClkMessage" where
  "connect_message c = (new_ClkMessage (ConnectMessage (m_clientID c)))\<lparr>m_sessionId := cl_sessionId c\<rparr>"

definition subscribe_message :: "uint64_t \<Rightarrow> Client_State \<Rightarrow> ClkMessage" where
  "subscribe_message timeBaseIndex c =
     (new_ClkMessage (SubscribeMessage (int_index timeBaseIndex)))\<lparr>m_sessionId := cl_sessionId c\<rparr>"

definition client_notifyDisconnect :: "host \<Rightarrow> (octets \<Rightarrow> bool) \<Rightarrow> Client_State \<Rightarrow> bool \<times> Client_State" where
  "client_notifyDisconnect h sends c =
     (case sendMessage h sends ((new_ClkMessage DisconnectMessage)\<lparr>m_sessionId := cl_sessionId c\<rparr>) of
        None \<Rightarrow> (False, c)
      | Some bs \<Rightarrow> (True, c\<lparr>m_connected := False\<rparr>))"

subsection \<open>Waiting for the proxy\<close>

type_synonym rx_msg = "clock \<times> octets"

record round =
  rd_rx :: "rx_msg list"
  rd_timeout :: bool
  rd_clock :: "timespec option"

definition listen_all :: "host \<Rightarrow> (octets \<Rightarrow> bool) \<Rightarrow> rx_msg list \<Rightarrow> Client_State \<Rightarrow> Client_State" where
  "listen_all h sends ms c = fold (client_listen h sends) ms c"

fun connect_wait :: "host \<Rightarrow> (octets \<Rightarrow> bool) \<Rightarrow> round list \<Rightarrow> Client_State \<Rightarrow> timespec \<Rightarrow>
    (bool \<times> Client_State \<times> timespec) option" where
  "connect_wait h sends [] c lct = (if m_connected c then Some (True, c, lct) else None)"
| "connect_wait h sends (r # rs) c lct =
     (if m_connected c then Some (True, c, lct)
      else
        (let c1 = listen_all h sends (rd_rx r) c
         in if rd_timeout r
            then (if \<not> m_connected c1 then Some (False, c1, lct) else Some (True, c1, lct))
            else connect_wait h sends rs c1 (case rd_clock r of None \<Rightarrow> lct | Some t \<Rightarrow> t)))"

text \<open>
  \<^verbatim>\<open>ClientState::connect\<close> sends \<^term>\<open>connect_message\<close> after it left the connection, and waits
  whether or not the queue took the message.
\<close>

definition client_connect :: "host \<Rightarrow> (octets \<Rightarrow> bool) \<Rightarrow> round list \<Rightarrow> Client_State \<Rightarrow> timespec \<Rightarrow>
    (bool \<times> Client_State \<times> timespec) option" where
  "client_connect h sends rs c lct = connect_wait h sends rs (c\<lparr>m_connected := False\<rparr>) lct"

fun subscribe_wait :: "host \<Rightarrow> (octets \<Rightarrow> bool) \<Rightarrow> uint64_t \<Rightarrow> round list \<Rightarrow> Client_State \<Rightarrow>
    (bool \<times> Client_State) option" where
  "subscribe_wait h sends i [] c = (if getSubscribed (timeBaseStateMap c) i then Some (True, c) else None)"
| "subscribe_wait h sends i (r # rs) c =
     (if getSubscribed (timeBaseStateMap c) i then Some (True, c)
      else
        (let c1 = listen_all h sends (rd_rx r) c
         in if rd_timeout r
            then (if \<not> getSubscribed (timeBaseStateMap c1) i then Some (False, c1) else Some (True, c1))
            else subscribe_wait h sends i rs c1))"

text \<open>
  What \<^verbatim>\<open>TimeBaseStates::subscribe\<close> does before it sends its message: \<^term>\<open>None\<close> when it
  refuses. The message itself is \<^term>\<open>subscribe_message\<close>.
\<close>

definition subscribe_set :: "uint64_t \<Rightarrow> ClockSyncSubscription \<Rightarrow> Client_State \<Rightarrow> bool \<times> Client_State" where
  "subscribe_set timeBaseIndex newSub c =
     (if \<not> m_connected c then (False, c)
      else if \<not> isTimeBaseIndexPresent (m_cfgs c) timeBaseIndex then (False, c)
      else
        (let (ok1, m1) = (if ptpSubscribed newSub
               then setPtpEventSubscription timeBaseIndex (ptpSubscription newSub) (timeBaseStateMap c)
               else (True, timeBaseStateMap c))
         in if \<not> ok1 then (False, c\<lparr>timeBaseStateMap := m1\<rparr>)
            else
              (let (ok2, m2) = (if sysSubscribed newSub
                     then setSysEventSubscription timeBaseIndex (sysSubscription newSub) m1
                     else (True, m1))
               in (ok2, c\<lparr>timeBaseStateMap := m2\<rparr>))))"

definition subscribe :: "host \<Rightarrow> (octets \<Rightarrow> bool) \<Rightarrow> round list \<Rightarrow> uint64_t \<Rightarrow> ClockSyncSubscription \<Rightarrow>
    Client_State \<Rightarrow> (bool \<times> Client_State) option" where
  "subscribe h sends rs timeBaseIndex newSub c =
     (case subscribe_set timeBaseIndex newSub c of (False, c1) \<Rightarrow> Some (False, c1)
      | (True, c1) \<Rightarrow> subscribe_wait h sends timeBaseIndex rs c1)"

subsection \<open>Data of the application\<close>

record ClockSyncData =
  ptpClockSync :: PTPClockEvent
  sysClockSync :: SysClockEvent
  ptpAvailable :: bool
  sysAvailable :: bool

definition updateAll :: "TimeBaseState \<Rightarrow> ClockSyncData \<Rightarrow> ClockSyncData" where
  "updateAll state d =
     (let d1 = (if havePtPData state
                then d\<lparr>ptpClockSync := ptpEventState state, ptpAvailable := True\<rparr>
                else d\<lparr>ptpAvailable := False\<rparr>)
      in if haveSysData state
         then d1\<lparr>sysClockSync := sysEventState state, sysAvailable := True\<rparr>
         else d1\<lparr>sysAvailable := False\<rparr>)"

definition manager_subscribe :: "host \<Rightarrow> (octets \<Rightarrow> bool) \<Rightarrow> round list \<Rightarrow> uint64_t \<Rightarrow> ClockSyncSubscription \<Rightarrow>
    Client_State \<Rightarrow> ClockSyncData \<Rightarrow> (bool \<times> Client_State \<times> ClockSyncData) option" where
  "manager_subscribe h sends rs timeBaseIndex newSub c d =
     (case subscribe h sends rs timeBaseIndex newSub c of None \<Rightarrow> None
      | Some (False, c1) \<Rightarrow> Some (False, c1, d)
      | Some (True, c1) \<Rightarrow>
          (case getTimeBaseState timeBaseIndex (timeBaseStateMap c1) of
             (None, m) \<Rightarrow> Some (False, c1, d)
           | (Some state, m) \<Rightarrow> Some (True, c1\<lparr>timeBaseStateMap := m\<rparr>, updateAll state d)))"

subsection \<open>Waiting for an event\<close>

datatype StatusWaitResult = SWRLostConnection | SWRInvalidArgument | SWRNoEventDetected | SWREventDetected

text \<open>
  The difference of two times in milliseconds, in the 64 bits of the code; the division of C
  rounds towards zero.
\<close>

definition timespec_delta :: "timespec \<Rightarrow> timespec \<Rightarrow> int64_t" where
  "timespec_delta prev cur = (tv_sec cur - tv_sec prev) * 1000 +
     word_of_int (sint (tv_nsec cur - tv_nsec prev) sdiv 1000000)"

definition DEFAULT_LIVENESS_TIMEOUT_IN_MS :: int where
  "DEFAULT_LIVENESS_TIMEOUT_IN_MS = 200"

definition recent :: "timespec \<Rightarrow> timespec \<Rightarrow> bool" where
  "recent prev cur \<longleftrightarrow> sint (timespec_delta prev cur) < DEFAULT_LIVENESS_TIMEOUT_IN_MS"

definition check_proxy_liveness :: "host \<Rightarrow> (octets \<Rightarrow> bool) \<Rightarrow> timespec option \<Rightarrow> round list \<Rightarrow> uint64_t \<Rightarrow>
    Client_State \<Rightarrow> timespec \<Rightarrow> (bool \<times> Client_State \<times> timespec) option" where
  "check_proxy_liveness h sends now rs timeBaseIndex c lastConnectTime =
     (case now of None \<Rightarrow> client_connect h sends rs c lastConnectTime
      | Some currentTime \<Rightarrow>
          (case getLastNotificationTime (timeBaseStateMap c) timeBaseIndex of
             None \<Rightarrow> client_connect h sends rs c lastConnectTime
           | Some lastNotificationTime \<Rightarrow>
               (if recent lastNotificationTime currentTime then Some (True, c, lastConnectTime)
                else if recent lastConnectTime currentTime then Some (True, c, lastConnectTime)
                else client_connect h sends rs c lastConnectTime)))"

text \<open>
  One turn of the loop of \<^verbatim>\<open>_statusWait\<close>: what the listener receives before each of its steps,
  the clock of the liveness check, the rounds of a new connection, and whether there is time left.
\<close>

record turn =
  tn_start :: "rx_msg list"
  tn_connected :: "rx_msg list"
  tn_read :: "rx_msg list"
  tn_clock :: "timespec option"
  tn_rounds :: "round list"
  tn_alive :: "rx_msg list"
  tn_more :: bool

type_synonym wait_result = "StatusWaitResult \<times> Client_State \<times> timespec \<times> ClockSyncData"

fun wait_loop :: "host \<Rightarrow> (octets \<Rightarrow> bool) \<Rightarrow> uint64_t \<Rightarrow> turn list \<Rightarrow> Client_State \<Rightarrow> timespec \<Rightarrow>
    ClockSyncData \<Rightarrow> wait_result option" where
  "wait_loop h sends i [] c lct d = None"
| "wait_loop h sends i (t # ts) c lct d =
     (let c0 = listen_all h sends (tn_start t) c
      in if \<not> m_connected c0 then Some (SWRLostConnection, c0, lct, d)
         else
           (let c1 = listen_all h sends (tn_connected t) c0
            in case getTimeBaseState i (timeBaseStateMap c1) of
                 (None, m) \<Rightarrow> Some (SWRInvalidArgument, c1, lct, d)
               | (Some state, m) \<Rightarrow>
                   (let c2 = c1\<lparr>timeBaseStateMap := m\<rparr>
                    in if event_changed state then Some (SWREventDetected, c2, lct, updateAll state d)
                       else
                         (case check_proxy_liveness h sends (tn_clock t) (tn_rounds t) i
                                 (listen_all h sends (tn_read t) c2) lct of
                            None \<Rightarrow> None
                          | Some (False, c3, lct3) \<Rightarrow> Some (SWRLostConnection, c3, lct3, d)
                          | Some (True, c3, lct3) \<Rightarrow>
                              (let c4 = listen_all h sends (tn_alive t) c3
                               in if tn_more t then wait_loop h sends i ts c4 lct3 d
                                  else Some (SWRNoEventDetected, c4, lct3, updateAll state d))))))"

definition statusWait :: "host \<Rightarrow> (octets \<Rightarrow> bool) \<Rightarrow> turn list \<Rightarrow> uint64_t \<Rightarrow> Client_State \<Rightarrow> timespec \<Rightarrow>
    ClockSyncData \<Rightarrow> wait_result option" where
  "statusWait h sends ts timeBaseIndex c lct d =
     (if \<not> m_connected c then Some (SWRLostConnection, c, lct, d)
      else if \<not> getSubscribed (timeBaseStateMap c) timeBaseIndex then Some (SWRInvalidArgument, c, lct, d)
      else wait_loop h sends timeBaseIndex ts c lct d)"

definition statusWaitByName :: "host \<Rightarrow> (octets \<Rightarrow> bool) \<Rightarrow> turn list \<Rightarrow> octets \<Rightarrow> Client_State \<Rightarrow> timespec \<Rightarrow>
    ClockSyncData \<Rightarrow> wait_result option" where
  "statusWaitByName h sends ts timeBaseName c lct d =
     (if \<not> m_connected c then Some (SWRLostConnection, c, lct, d)
      else (case BaseNameToBaseIndex (m_cfgs c) timeBaseName of
              None \<Rightarrow> Some (SWRInvalidArgument, c, lct, d)
            | Some timeBaseIndex \<Rightarrow>
                if \<not> getSubscribed (timeBaseStateMap c) timeBaseIndex
                then Some (SWRInvalidArgument, c, lct, d)
                else wait_loop h sends timeBaseIndex ts c lct d))"

end
