(* ===== verification/Clk_Delivery.thy ===== *)
theory Clk_Delivery
  imports Clk_Proxy Clk_Calls
begin

text \<open>
  Proxy and client together: what the proxy sends is what the client takes. The connection,
  the subscription and a notification are followed from one side to the other.
\<close>

subsection \<open>Octets of a message\<close>

lemma makeBuffer_octets:
  assumes "buffer_ok b" and "makeBuffer h vars msg b = (ok, b1)"
  shows "ok \<longleftrightarrow> length (head_octets h msg @ concat vars) \<le> MAX_BUFFER_LENGTH"
    and "buffer_ok b1" and "ok \<Longrightarrow> written b1 = head_octets h msg @ concat vars"
proof -
  have ok: "buffer_ok (resetOffset b)" and empty: "written (resetOffset b) = []"
    using assms(1) by (simp_all add: resetOffset_def buffer_ok_def written_def)
  show "ok \<longleftrightarrow> length (head_octets h msg @ concat vars) \<le> MAX_BUFFER_LENGTH"
    and "buffer_ok b1" and "ok \<Longrightarrow> written b1 = head_octets h msg @ concat vars"
    using WRITE_all_ok [OF ok assms(2) [unfolded makeBuffer_def]] empty
    by (simp_all add: head_octets_def)
qed

lemma length_head_octets:
  "length (head_octets h msg) =
     (case msg_body msg of ConnectMessage c \<Rightarrow> 516 | SubscribeMessage i \<Rightarrow> 12
      | NotificationMessage i \<Rightarrow> 10 | DisconnectMessage \<Rightarrow> 4)"
  by (cases "msg_body msg") (simp_all add: head_octets_def CLIENTID_LENGTH_def)

lemma blank_buffer_ok: "buffer_ok blank_buffer"
  by (simp add: buffer_ok_def blank_buffer_def)

lemma sendMessage_octets:
  assumes "sends (head_octets h msg)"
  shows "sendMessage h sends msg = Some (head_octets h msg)"
proof -
  obtain ok b where mk: "makeBuffer h [] msg blank_buffer = (ok, b)"
    by fastforce
  note o = makeBuffer_octets [OF blank_buffer_ok mk]
  have "ok"
    using o(1) length_head_octets [of h msg] by (simp add: MAX_BUFFER_LENGTH_def split: msg_body.splits)
  then show ?thesis
    using assms o(3) by (simp add: sendMessage_def mk)
qed

text \<open>A message arrives and its head is parsed.\<close>

lemma head_arrives:
  assumes "get_msgId (msg_body msg) \<in> set ids"
    and "length (head_octets h msg @ rest) \<le> MAX_BUFFER_LENGTH"
  obtains b where "parseHead h ids (rx_load (head_octets h msg @ rest)) = (Some (received msg), b)"
    "received_ok b" "pending b = rest" "buffer_ok b"
proof -
  note l = rx_load_ok [OF assms(2)]
  obtain b where "parseHead h ids (rx_load (head_octets h msg @ rest)) = (Some (received msg), b)"
      "received_ok b" "pending b = rest" "m_buffer b = m_buffer (rx_load (head_octets h msg @ rest))"
    using takesD [OF takes_parseHead [OF assms(1)]] l by metis
  then show thesis
    using that received_buffer_ok l by (simp add: buffer_ok_def)
qed

lemma head_octets_nonempty [simp]: "head_octets h msg \<noteq> []"
  by (simp add: head_octets_def)

subsection \<open>Notifications\<close>

definition ptp_notification :: "host \<Rightarrow> uint64_t \<Rightarrow> ptp_event \<Rightarrow> octets" where
  "ptp_notification h i ev = head_octets h (new_ClkMessage (NotificationMessage i)) @
     [ClockType_value PTPClock] @ ptp_event_octets h ev"

definition sys_notification :: "host \<Rightarrow> uint64_t \<Rightarrow> chrony_event \<Rightarrow> octets" where
  "sys_notification h i ev = head_octets h (new_ClkMessage (NotificationMessage i)) @
     [ClockType_value SysClock] @ chrony_event_octets h ev"

lemma received_notification [simp]:
  "received (new_ClkMessage (NotificationMessage i)) = new_ClkMessage (NotificationMessage i)"
  by (simp add: received_def new_ClkMessage_def)

lemma client_takes_ptp:
  assumes "cl_listening c"
  shows "client_listen h sends (clk, ptp_notification h i ev) c =
     c\<lparr>timeBaseStateMap := setTimeBaseStatePtp (fst clk) i ev (timeBaseStateMap c)\<rparr>"
proof -
  let ?msg = "new_ClkMessage (NotificationMessage i)"
  let ?rest = "[ClockType_value PTPClock] @ ptp_event_octets h ev"
  have id: "get_msgId (msg_body ?msg) \<in> set client_ids"
    by (simp add: new_ClkMessage_def client_ids_def)
  have len: "length (head_octets h ?msg @ ?rest) \<le> MAX_BUFFER_LENGTH"
    by (simp add: length_head_octets new_ClkMessage_def MAX_BUFFER_LENGTH_def)
  obtain b where b: "parseHead h client_ids (rx_load (head_octets h ?msg @ ?rest)) = (Some ?msg, b)"
      "received_ok b" "pending b = ?rest"
    using head_arrives [OF id len] by auto
  obtain b1 where b1: "RX h b = (Some (ClockType_value PTPClock), b1)" "received_ok b1"
      "pending b1 = ptp_event_octets h ev @ []"
    using takesD [OF takes_octet b(2,3)] by auto
  obtain b2 where b2: "RX_ptp_event h b1 = (Some ev, b2)"
    using takesD [OF takes_ptp_event b1(2,3)] by metis
  show ?thesis
    using assms b b1(1) b2
    by (simp add: client_listen_def client_work_def client_parse_def ptp_notification_def
        notification_tail_def new_ClkMessage_def head_octets_def)
qed

lemma client_takes_sys:
  assumes "cl_listening c"
  shows "client_listen h sends (clk, sys_notification h i ev) c =
     c\<lparr>timeBaseStateMap := setTimeBaseStateSys (snd clk) i ev (timeBaseStateMap c)\<rparr>"
proof -
  let ?msg = "new_ClkMessage (NotificationMessage i)"
  let ?rest = "[ClockType_value SysClock] @ chrony_event_octets h ev"
  have id: "get_msgId (msg_body ?msg) \<in> set client_ids"
    by (simp add: new_ClkMessage_def client_ids_def)
  have len: "length (head_octets h ?msg @ ?rest) \<le> MAX_BUFFER_LENGTH"
    by (simp add: length_head_octets new_ClkMessage_def MAX_BUFFER_LENGTH_def)
  obtain b where b: "parseHead h client_ids (rx_load (head_octets h ?msg @ ?rest)) = (Some ?msg, b)"
      "received_ok b" "pending b = ?rest"
    using head_arrives [OF id len] by auto
  obtain b1 where b1: "RX h b = (Some (ClockType_value SysClock), b1)" "received_ok b1"
      "pending b1 = chrony_event_octets h ev @ []"
    using takesD [OF takes_octet b(2,3)] by auto
  obtain b2 where b2: "RX_chrony_event h b1 = (Some ev, b2)"
    using takesD [OF takes_chrony_event b1(2,3)] by metis
  show ?thesis
    using assms b b1(1) b2
    by (simp add: client_listen_def client_work_def client_parse_def sys_notification_def
        notification_tail_def new_ClkMessage_def head_octets_def ClockType_value_def)
qed

text \<open>The sessions a notification reaches, and the ones it removes.\<close>

definition reached :: "queues \<Rightarrow> octets \<Rightarrow> (uint16_t \<rightharpoonup> octets) \<Rightarrow> uint16_t \<Rightarrow> bool" where
  "reached q bs tx_of s \<longleftrightarrow> (\<exists>tx. tx_of s = Some tx \<and> mq_sends q tx bs)"

lemma send_to_reached:
  "set (fst (send_to q bs tx_of ss)) = {(tx, bs) | tx s. s \<in> set ss \<and> tx_of s = Some tx \<and> mq_sends q tx bs}"
  "snd (send_to q bs tx_of ss) = filter (\<lambda>s. \<not> reached q bs tx_of s) ss"
  by (induction ss) (auto simp: reached_def Let_def split: prod.splits option.splits)

lemma removes_sessions:
  "sessionMap (fold removeClient ss P) = (\<lambda>s. if s \<in> set ss then None else sessionMap P s)"
  by (induction ss arbitrary: P) (auto simp: removeClient_eq)

lemma removes_data:
  "timeBaseDataMap (fold removeClient ss P) i =
     map_option (\<lambda>d. d\<lparr>subscribedClients := subscribedClients d - set ss\<rparr>) (timeBaseDataMap P i)"
  by (induction ss arbitrary: P)
    (auto simp: removeClient_eq option.map_comp o_def Diff_insert2 [symmetric] option.map_ident
      intro!: option.map_cong)

definition notification_octets :: "host \<Rightarrow> Proxy \<Rightarrow> ClockType \<Rightarrow> uint64_t \<Rightarrow> octets" where
  "notification_octets h P t i = head_octets h (new_ClkMessage (NotificationMessage i)) @
     concat (proxy_makeTail h P t (NotificationMessage i))"

lemma notification_octets_eqs:
  "notification_octets h P PTPClock i = ptp_notification h i (getPTPEvent P i)"
  "notification_octets h P SysClock i = sys_notification h i (getChronyEvent P i)"
  by (simp_all add: notification_octets_def ptp_notification_def sys_notification_def)

lemma notifyClients_eq:
  assumes "buffer_ok b" and "timeBaseDataMap P i = Some d"
    and bs_def: "bs = notification_octets h P t (int_index i)"
  shows "set (fst (notifyClients h q b i t P)) =
      {(tx, bs) | tx s. s \<in> subscribedClients d \<and> getTransmitter P s = Some tx \<and> mq_sends q tx bs}"
    and "snd (notifyClients h q b i t P) =
      fold removeClient (filter (\<lambda>s. \<not> reached q bs (getTransmitter P) s)
        (sorted_list_of_set (subscribedClients d))) P"
proof -
  let ?msg = "new_ClkMessage (NotificationMessage (int_index i))"
  obtain ok b1 where mk: "makeBuffer h (proxy_makeTail h P t (msg_body ?msg)) ?msg b = (ok, b1)"
    by fastforce
  note o = makeBuffer_octets [OF assms(1) mk]
  have "ok"
    using o(1) by (simp add: length_head_octets new_ClkMessage_def MAX_BUFFER_LENGTH_def)
  then have w: "written b1 = bs"
    using o(3) by (simp add: bs_def notification_octets_def new_ClkMessage_def)
  show "set (fst (notifyClients h q b i t P)) =
      {(tx, bs) | tx s. s \<in> subscribedClients d \<and> getTransmitter P s = Some tx \<and> mq_sends q tx bs}"
    and "snd (notifyClients h q b i t P) =
      fold removeClient (filter (\<lambda>s. \<not> reached q bs (getTransmitter P) s)
        (sorted_list_of_set (subscribedClients d))) P"
    using \<open>ok\<close> mk w assms(2)
    by (simp_all add: notifyClients_def Let_def case_prod_beta send_to_reached)
qed

subsection \<open>Connection\<close>

definition connect_reply :: "host \<Rightarrow> TimeBaseCfg list \<Rightarrow> uint16_t \<Rightarrow> octets \<Rightarrow> octets" where
  "connect_reply h cfgs s name =
     head_octets h \<lparr>m_msgAck = ACK_SUCCESS, m_sessionId = s, msg_body = ConnectMessage name\<rparr> @
     host_octets h (word_of_nat (length cfgs) :: uint64_t) @ concat (map (cfg_octets h) cfgs)"

lemma length_connect_reply:
  "\<forall>cfg \<in> set cfgs. tbcfg_ok cfg \<Longrightarrow> length (connect_reply h cfgs s name) = 524 + 144 * length cfgs"
proof -
  assume "\<forall>cfg \<in> set cfgs. tbcfg_ok cfg"
  then have "length (concat (map (cfg_octets h) cfgs)) = 144 * length cfgs"
    by (induction cfgs) auto
  then show ?thesis
    by (simp add: connect_reply_def length_head_octets)
qed

definition announced :: "Proxy \<Rightarrow> TimeBaseCfg list" where
  "announced P = map cfg_base (timeBaseCfgs P)"

lemma proxy_work_connect:
  assumes conn: "proxy_connect q s0 (clientIdEncaps name) P = Some (s, P1)"
    and cfgs: "\<forall>cfg \<in> set (announced P1). tbcfg_ok cfg"
    and bs_def: "bs = head_octets h ((new_ClkMessage (ConnectMessage name))\<lparr>m_sessionId := s0\<rparr>)"
    and reply_def: "reply = connect_reply h (announced P1) s (clientIdEncaps name)"
  shows "proxy_work h q bs P =
    (if s = InvalidSessionId then Some (False, [], P1)
     else if length (announced P1) > 53 then Some (False, [], P1)
     else (case getTransmitter P1 s of None \<Rightarrow> Some (False, [], P1)
           | Some tx \<Rightarrow> Some (if mq_sends q tx reply then (True, [(tx, reply)], P1) else (False, [], P1))))"
proof -
  let ?msg = "(new_ClkMessage (ConnectMessage name))\<lparr>m_sessionId := s0\<rparr>"
  let ?got = "\<lparr>m_msgAck = ACK_NONE, m_sessionId = s0, msg_body = ConnectMessage (clientIdEncaps name)\<rparr>"
  let ?ans = "\<lparr>m_msgAck = ACK_SUCCESS, m_sessionId = s, msg_body = ConnectMessage (clientIdEncaps name)\<rparr>"
  have id: "get_msgId (msg_body ?msg) \<in> set proxy_ids"
    by (simp add: new_ClkMessage_def proxy_ids_def)
  have len: "length (head_octets h ?msg @ []) \<le> MAX_BUFFER_LENGTH"
    by (simp add: length_head_octets new_ClkMessage_def MAX_BUFFER_LENGTH_def)
  obtain b where b: "parseHead h proxy_ids (rx_load bs) = (Some ?got, b)" "buffer_ok b"
    using head_arrives [OF id len] by (auto simp: bs_def received_def new_ClkMessage_def)
  obtain ok b1 where mk: "makeBuffer h (proxy_makeTail h P1 PTPClock (msg_body ?ans)) ?ans b = (ok, b1)"
    by fastforce
  have reply: "head_octets h ?ans @ concat (proxy_makeTail h P1 PTPClock (msg_body ?ans)) = reply"
    by (simp add: reply_def connect_reply_def announced_def o_def)
  have ok: "ok \<longleftrightarrow> length (announced P1) \<le> 53" and w: "ok \<Longrightarrow> written b1 = reply"
    using makeBuffer_octets [OF b(2) mk] length_connect_reply [OF cfgs, of h s]
    by (simp_all only: reply) (auto simp: reply_def MAX_BUFFER_LENGTH_def)
  have "bs \<noteq> []"
    by (simp add: bs_def head_octets_def)
  show ?thesis
    using b(1) conn mk ok w \<open>bs \<noteq> []\<close>
    by (auto simp: proxy_work_def ACK_SUCCESS_def ACK_NONE_def split: option.split)
qed

lemma rx_cfgs_all:
  "\<forall>cfg \<in> set cfgs. tbcfg_ok cfg \<Longrightarrow> received_ok b \<Longrightarrow> pending b = concat (map (cfg_octets h) cfgs) @ rest \<Longrightarrow>
     rx_cfgs h (length cfgs) c b = (True, c\<lparr>m_cfgs := fold addTimeBaseCfg cfgs (m_cfgs c)\<rparr>)"
proof (induction cfgs arbitrary: b c)
  case (Cons cfg cfgs)
  have "takes (RX_cfg h) (cfg_octets h cfg) cfg"
    using Cons.prems(1) by (simp add: takes_cfg)
  then obtain b1 where b1: "RX_cfg h b = (Some cfg, b1)" "received_ok b1"
      "pending b1 = concat (map (cfg_octets h) cfgs) @ rest"
    using takesD [OF _ Cons.prems(2), of "RX_cfg h" "cfg_octets h cfg" cfg] Cons.prems(3) by auto
  show ?case
    using Cons.IH [OF _ b1(2,3)] Cons.prems(1) b1(1) by simp
qed simp

lemma client_takes_reply:
  assumes "cl_listening c" and cfgs: "\<forall>cfg \<in> set cfgs. tbcfg_ok cfg" and n: "length cfgs \<le> 53"
    and name: "length name = CLIENTID_LENGTH"
  shows "client_listen h sends (clk, connect_reply h cfgs s name) c =
     c\<lparr>m_connected := True, cl_sessionId := s, m_cfgs := fold addTimeBaseCfg cfgs (m_cfgs c)\<rparr>"
proof -
  let ?msg = "\<lparr>m_msgAck = ACK_SUCCESS, m_sessionId = s, msg_body = ConnectMessage name\<rparr>"
  let ?rest = "host_octets h (word_of_nat (length cfgs) :: uint64_t) @ concat (map (cfg_octets h) cfgs)"
  have id: "get_msgId (msg_body ?msg) \<in> set client_ids"
    by (simp add: client_ids_def)
  have len: "length (head_octets h ?msg @ ?rest) \<le> MAX_BUFFER_LENGTH"
    using length_connect_reply [OF cfgs, of h s name] n
    by (simp add: connect_reply_def MAX_BUFFER_LENGTH_def)
  have enc: "clientIdEncaps name = name"
    using name by (simp add: clientIdEncaps_def)
  obtain b where b: "parseHead h client_ids (rx_load (head_octets h ?msg @ ?rest)) = (Some ?msg, b)"
      "received_ok b" "pending b = ?rest"
    using head_arrives [OF id len] by (auto simp: received_def enc)
  obtain b1 where b1: "RX h b = (Some (word_of_nat (length cfgs) :: uint64_t), b1)" "received_ok b1"
      "pending b1 = concat (map (cfg_octets h) cfgs) @ []"
    using takesD [OF takes_RX(3) b(2,3)] by auto
  have "unat (word_of_nat (length cfgs) :: uint64_t) = length cfgs"
    using n by (simp add: unsigned_of_nat take_bit_nat_eq_self)
  then show ?thesis
    using assms(1) b(1) b1(1) rx_cfgs_all [OF cfgs b1(2,3)]
    by (simp add: client_listen_def client_work_def client_parse_def connect_tail_def
        connect_reply_def connectReply_def)
qed

subsection \<open>Subscription\<close>

definition subscribe_reply :: "host \<Rightarrow> uint64_t \<Rightarrow> uint16_t \<Rightarrow> ptp_event \<Rightarrow> chrony_event \<Rightarrow> octets" where
  "subscribe_reply h i s p q =
     head_octets h \<lparr>m_msgAck = ACK_SUCCESS, m_sessionId = s, msg_body = SubscribeMessage i\<rparr> @
     ptp_event_octets h p @ chrony_event_octets h q"

lemma client_takes_subscribe_reply:
  assumes "cl_listening c"
  shows "client_listen h sends (clk, subscribe_reply h i s p q) c =
     c\<lparr>timeBaseStateMap := subscribeReply (fst clk) (snd clk) i p q (timeBaseStateMap c)\<rparr>"
proof -
  let ?msg = "\<lparr>m_msgAck = ACK_SUCCESS, m_sessionId = s, msg_body = SubscribeMessage i\<rparr>"
  let ?rest = "ptp_event_octets h p @ chrony_event_octets h q"
  have id: "get_msgId (msg_body ?msg) \<in> set client_ids"
    by (simp add: client_ids_def)
  have len: "length (head_octets h ?msg @ ?rest) \<le> MAX_BUFFER_LENGTH"
    by (simp add: length_head_octets MAX_BUFFER_LENGTH_def)
  obtain b where b: "parseHead h client_ids (rx_load (head_octets h ?msg @ ?rest)) = (Some ?msg, b)"
      "received_ok b" "pending b = ?rest @ []"
    using head_arrives [OF id len] by (auto simp: received_def)
  have "takes (rx_then (RX_ptp_event h) (\<lambda>p. rx_then (RX_chrony_event h) (\<lambda>q. rx_give (p, q)))) ?rest (p, q)"
    by (rule takes_two) (auto intro: takes_ptp_event takes_chrony_event)
  then obtain b1 where
    "rx_then (RX_ptp_event h) (\<lambda>p. rx_then (RX_chrony_event h) (\<lambda>q. rx_give (p, q))) b = (Some (p, q), b1)"
    using takesD [OF _ b(2,3)] by metis
  then show ?thesis
    using assms b(1)
    by (simp add: client_listen_def client_work_def client_parse_def subscribe_tail_def subscribe_reply_def)
qed

lemma proxy_work_subscribe:
  assumes sub: "proxy_subscribe i s P = (True, P1)" and tx: "sessionMap P s = Some tx"
    and bs_def: "bs = head_octets h ((new_ClkMessage (SubscribeMessage i))\<lparr>m_sessionId := s\<rparr>)"
    and reply_def: "reply = subscribe_reply h i s (getPTPEvent P1 i) (getChronyEvent P1 i)"
  shows "proxy_work h q bs P =
    Some (if mq_sends q tx reply then (True, [(tx, reply)], P1) else (False, [], P1))"
proof -
  let ?msg = "(new_ClkMessage (SubscribeMessage i))\<lparr>m_sessionId := s\<rparr>"
  let ?ans = "\<lparr>m_msgAck = ACK_SUCCESS, m_sessionId = s, msg_body = SubscribeMessage i\<rparr>"
  have id: "get_msgId (msg_body ?msg) \<in> set proxy_ids"
    by (simp add: new_ClkMessage_def proxy_ids_def)
  have len: "length (head_octets h ?msg @ []) \<le> MAX_BUFFER_LENGTH"
    by (simp add: length_head_octets new_ClkMessage_def MAX_BUFFER_LENGTH_def)
  obtain b where b: "parseHead h proxy_ids (rx_load bs) = (Some ?msg, b)" "buffer_ok b"
    using head_arrives [OF id len] by (auto simp: bs_def received_def new_ClkMessage_def)
  obtain ok b1 where mk: "makeBuffer h (proxy_makeTail h P1 PTPClock (msg_body ?ans)) ?ans b = (ok, b1)"
    by fastforce
  have reply: "head_octets h ?ans @ concat (proxy_makeTail h P1 PTPClock (msg_body ?ans)) = reply"
    by (simp add: reply_def subscribe_reply_def)
  have "length reply \<le> MAX_BUFFER_LENGTH"
    by (simp add: reply_def subscribe_reply_def length_head_octets MAX_BUFFER_LENGTH_def)
  then have "ok" and w: "written b1 = reply"
    using makeBuffer_octets [OF b(2) mk] by (simp_all only: reply)
  moreover have "getTransmitter P1 s = Some tx"
    using sub tx by (auto simp: proxy_subscribe_eq getTransmitter_def split: option.splits if_splits)
  moreover have "bs \<noteq> []"
    by (simp add: bs_def head_octets_def)
  ultimately show ?thesis
    using b(1) sub mk
    by (simp add: proxy_work_def new_ClkMessage_def ACK_SUCCESS_def ACK_NONE_def)
qed

end
