(* ===== verification/Clk_Waits.thy ===== *)
theory Clk_Waits
  imports Clk_Delivery
begin

text \<open>
  A client that waits for an event: every change of an observed value that arrives while it
  waits ends the wait, with the data of the change. Notifications are followed from the
  octets of the queue to the state of the time base.
\<close>

subsection \<open>Notifications as they arrive\<close>

datatype notice = Note_ptp "timespec option" uint64_t ptp_event | Note_sys "timespec option" uint64_t chrony_event

fun note_rx :: "host \<Rightarrow> notice \<Rightarrow> rx_msg" where
  "note_rx h (Note_ptp now i ev) = ((now, None), ptp_notification h i ev)"
| "note_rx h (Note_sys now i ev) = ((None, now), sys_notification h i ev)"

fun tell :: "notice \<Rightarrow> TimeBaseStates \<Rightarrow> TimeBaseStates" where
  "tell (Note_ptp now i ev) m = setTimeBaseStatePtp now i ev m"
| "tell (Note_sys now i ev) m = setTimeBaseStateSys now i ev m"

fun note_at :: "int32_t \<Rightarrow> notice \<Rightarrow> notification option" where
  "note_at k (Note_ptp now i ev) = (if key_of i = k then Some (Ptp now ev) else None)"
| "note_at k (Note_sys now i ev) = (if key_of i = k then Some (Sys now ev) else None)"

definition notes_at :: "int32_t \<Rightarrow> notice list \<Rightarrow> notification list" where
  "notes_at k ns = List.map_filter (note_at k) ns"

lemma notes_at_simps [simp]:
  "notes_at k [] = []" "notes_at k (as @ bs) = notes_at k as @ notes_at k bs"
  "notes_at k (n # ns) = (case note_at k n of None \<Rightarrow> notes_at k ns | Some x \<Rightarrow> x # notes_at k ns)"
  by (simp_all add: notes_at_def List.map_filter_def split: option.split)

lemma listen_note: "cl_listening c \<Longrightarrow>
    client_listen h sends (note_rx h n) c = c\<lparr>timeBaseStateMap := tell n (timeBaseStateMap c)\<rparr>"
  by (cases n) (simp_all add: client_takes_ptp client_takes_sys)

lemma listen_notes: "cl_listening c \<Longrightarrow>
    listen_all h sends (map (note_rx h) ns) c = c\<lparr>timeBaseStateMap := fold tell ns (timeBaseStateMap c)\<rparr>"
  unfolding listen_all_def by (induction ns arbitrary: c) (simp_all add: listen_note)

lemma tell_at: "m k = Some s \<Longrightarrow> fold tell ns m k = Some (fold notify (notes_at k ns) s)"
proof (induction ns arbitrary: m s)
  case (Cons n ns)
  have "tell n m k = Some (case note_at k n of None \<Rightarrow> s | Some x \<Rightarrow> notify x s)"
    using Cons.prems
    by (cases n) (auto simp: setTimeBaseStatePtp_def setTimeBaseStateSys_def stateAt_def)
  then show ?case
    using Cons.IH [of "tell n m"] by (cases "note_at k n") auto
qed simp

subsection \<open>Reads do not disturb the observed values\<close>

definition same :: "TimeBaseState \<Rightarrow> TimeBaseState \<Rightarrow> bool" where
  "same s t \<longleftrightarrow> ptpEventSub s = ptpEventSub t \<and> sysEventSub s = sysEventSub t \<and> observed s = observed t \<and>
     clockOffset (ptpEventState s) = clockOffset (ptpEventState t) \<and>
     clockOffset (sysEventState s) = clockOffset (sysEventState t)"

lemma same_reset: "same (reset_events s) s"
  by (simp add: same_def observed_reset reset_fields) (simp add: reset_events_def)

lemma same_notify: "same s t \<Longrightarrow> same (notify n s) (notify n t)"
  by (cases n)
    (simp_all add: same_def observed_def notify_fields ptp_blocks_values composite_event_iff upd_offset_eq Let_def)

lemma same_notifies: "same s t \<Longrightarrow> same (fold notify ns s) (fold notify ns t)"
  by (induction ns arbitrary: s t) (simp_all add: same_notify)

text \<open>A change among notifications: after some of them the observed values differ.\<close>

definition some_change :: "notification list \<Rightarrow> TimeBaseState \<Rightarrow> bool" where
  "some_change ns s \<longleftrightarrow> (\<exists>j. observed (fold notify (take j ns) s) \<noteq> observed s)"

lemma some_change_same: "same s t \<Longrightarrow> some_change ns s \<longleftrightarrow> some_change ns t"
  unfolding some_change_def using same_notifies [of s t] by (metis same_def)

lemma no_change: "\<not> some_change ns s \<Longrightarrow> observed (fold notify ns s) = observed s"
  unfolding some_change_def by (metis order_refl take_all)

lemma some_change_append:
  "some_change (as @ bs) s \<Longrightarrow> some_change as s \<or> some_change bs (fold notify as s)"
proof -
  assume "some_change (as @ bs) s"
  then obtain j where j: "observed (fold notify (take (j - length as) bs) (fold notify (take j as) s)) \<noteq> observed s"
    by (auto simp: some_change_def)
  show ?thesis
  proof (cases "j \<le> length as")
    case True
    then show ?thesis
      using j by (auto simp: some_change_def)
  next
    case False
    then show ?thesis
      using j no_change [of as s] by (auto simp: some_change_def)
  qed
qed

lemma changed_stays: "event_changed s \<Longrightarrow> event_changed (fold notify ns s)"
  by (induction ns arbitrary: s) (auto simp: changed_notify)

lemma unchanged_quiet: "\<not> event_changed (fold notify ns s) \<Longrightarrow> \<not> event_changed s \<and> \<not> some_change ns s"
proof (induction ns arbitrary: s)
  case Nil
  then show ?case
    by (simp add: some_change_def)
next
  case (Cons n ns)
  then have ih: "\<not> event_changed (notify n s)" "\<not> some_change ns (notify n s)"
    by simp_all
  moreover have "\<not> some_change [n] s"
    using ih(1) by (auto simp: some_change_def changed_notify take_Cons')
  ultimately show ?case
    using some_change_append [of "[n]" ns s] by (auto simp: changed_notify)
qed

subsection \<open>Turns of the loop without incident\<close>

text \<open>
  A turn in which only notifications arrive, there is time left, and the proxy is alive: its
  last notification or the last connection is recent. \<open>calm_at\<close> follows the state of the time
  base through the turns.
\<close>

record calm =
  cm_start :: "notice list"
  cm_connected :: "notice list"
  cm_read :: "notice list"
  cm_now :: timespec
  cm_alive :: "notice list"

definition turn_of :: "host \<Rightarrow> calm \<Rightarrow> turn" where
  "turn_of h t = \<lparr>tn_start = map (note_rx h) (cm_start t), tn_connected = map (note_rx h) (cm_connected t),
     tn_read = map (note_rx h) (cm_read t), tn_clock = Some (cm_now t), tn_rounds = [],
     tn_alive = map (note_rx h) (cm_alive t), tn_more = True\<rparr>"

fun calm_turns :: "timespec \<Rightarrow> int32_t \<Rightarrow> calm list \<Rightarrow> TimeBaseState \<Rightarrow> bool" where
  "calm_turns lct k [] s = True"
| "calm_turns lct k (t # ts) s =
     (let s1 = fold notify (notes_at k (cm_start t @ cm_connected t)) s;
          s2 = fold notify (notes_at k (cm_read t)) (reset_events s1)
      in (recent (last_notification_time s2) (cm_now t) \<or> recent lct (cm_now t)) \<and>
         calm_turns lct k ts (fold notify (notes_at k (cm_alive t)) s2))"

definition before_read :: "int32_t \<Rightarrow> calm \<Rightarrow> notification list" where
  "before_read k t = notes_at k (cm_start t @ cm_connected t)"

definition arriving :: "int32_t \<Rightarrow> calm list \<Rightarrow> notification list" where
  "arriving k ts = concat (map (\<lambda>t. before_read k t @ notes_at k (cm_read t) @ notes_at k (cm_alive t)) ts)"

lemma wait_loop_turn:
  assumes "m_connected c" "cl_listening c" "timeBaseStateMap c (key_of i) = Some s"
    and "recent (last_notification_time (fold notify (notes_at (key_of i) (cm_read t))
           (reset_events (fold notify (before_read (key_of i) t) s)))) (cm_now t) \<or> recent lct (cm_now t)"
  defines "s1 \<equiv> fold notify (before_read (key_of i) t) s"
  shows "\<exists>c'. m_connected c' \<and> cl_listening c' \<and>
     (if event_changed s1
      then wait_loop h sends i (turn_of h t # ts) c lct d = Some (SWREventDetected, c', lct, updateAll s1 d) \<and>
        timeBaseStateMap c' (key_of i) = Some (reset_events s1)
      else wait_loop h sends i (turn_of h t # ts) c lct d = wait_loop h sends i ts c' lct d \<and>
        timeBaseStateMap c' (key_of i) =
          Some (fold notify (notes_at (key_of i) (cm_read t) @ notes_at (key_of i) (cm_alive t)) (reset_events s1)))"
proof -
  let ?k = "key_of i"
  let ?m1 = "fold tell (cm_start t @ cm_connected t) (timeBaseStateMap c)"
  let ?m2 = "?m1(?k \<mapsto> reset_events s1)"
  let ?m3 = "fold tell (cm_read t) ?m2"
  have m1: "?m1 ?k = Some s1"
    using tell_at [where m = "timeBaseStateMap c" and k = ?k, OF assms(3), of "cm_start t @ cm_connected t"] by (simp add: s1_def before_read_def)
  have m2: "?m2 ?k = Some (reset_events s1)"
    by simp
  have m3: "?m3 ?k = Some (fold notify (notes_at ?k (cm_read t)) (reset_events s1))"
    by (rule tell_at [where m = ?m2 and k = ?k]) simp
  have m4: "fold tell (cm_alive t) ?m3 ?k =
      Some (fold notify (notes_at ?k (cm_read t) @ notes_at ?k (cm_alive t)) (reset_events s1))"
    using tell_at [where m = ?m3 and k = ?k, OF m3, of "cm_alive t"] by simp
  have get: "getTimeBaseState i ?m1 = (Some s1, ?m2)"
    using m1 by (simp add: getTimeBaseState_def)
  have alive: "check_proxy_liveness h sends (Some (cm_now t)) [] i (c\<lparr>timeBaseStateMap := ?m3\<rparr>) lct =
      Some (True, c\<lparr>timeBaseStateMap := ?m3\<rparr>, lct)"
    using assms(4) m3 by (auto simp: check_proxy_liveness_def getLastNotificationTime_def s1_def)
  show ?thesis
  proof (cases "event_changed s1")
    case True
    then show ?thesis
      using assms(1,2) get m2
      by (intro exI [of _ "c\<lparr>timeBaseStateMap := ?m2\<rparr>"])
        (simp add: turn_of_def listen_notes Let_def)
  next
    case False
    then show ?thesis
      using assms(1,2) get alive m4
      by (intro exI [of _ "c\<lparr>timeBaseStateMap := fold tell (cm_alive t) ?m3\<rparr>"])
        (simp add: turn_of_def listen_notes Let_def)
  qed
qed

declare wait_loop.simps(2) [simp del]

lemma calm_turns_Cons:
  "calm_turns lct k (t # ts) s \<longleftrightarrow>
     (recent (last_notification_time (fold notify (notes_at k (cm_read t))
        (reset_events (fold notify (before_read k t) s)))) (cm_now t) \<or> recent lct (cm_now t)) \<and>
     calm_turns lct k ts (fold notify (notes_at k (cm_read t) @ notes_at k (cm_alive t))
       (reset_events (fold notify (before_read k t) s)))"
  by (simp add: before_read_def Let_def)

declare calm_turns.simps(2) [simp del]

text \<open>The wait ends with the first read after a change.\<close>

lemma wait_ends:
  assumes "m_connected c" "cl_listening c" "timeBaseStateMap c (key_of i) = Some s"
    and "calm_turns lct (key_of i) (ts @ [t]) s"
    and "event_changed s \<or> some_change (arriving (key_of i) ts @ before_read (key_of i) t) s"
  shows "\<exists>c' st. wait_loop h sends i (map (turn_of h) (ts @ [t]) @ rest) c lct d =
     Some (SWREventDetected, c', lct, updateAll st d) \<and> event_changed st \<and>
     timeBaseStateMap c' (key_of i) = Some (reset_events st)"
  using assms
proof (induction ts arbitrary: c s)
  case Nil
  have "event_changed (fold notify (before_read (key_of i) t) s)"
    using Nil.prems(5) unchanged_quiet by (force simp: arriving_def)
  then show ?case
    using wait_loop_turn [OF Nil.prems(1-3), of t lct h sends rest d] Nil.prems(4)
    by (auto simp: calm_turns_Cons)
next
  case (Cons u ts)
  let ?k = "key_of i"
  let ?s1 = "fold notify (before_read ?k u) s"
  let ?s2 = "fold notify (notes_at ?k (cm_read u) @ notes_at ?k (cm_alive u)) (reset_events ?s1)"
  let ?rest = "map (turn_of h) (ts @ [t]) @ rest"
  obtain c' where c': "m_connected c'" "cl_listening c'"
    and result: "if event_changed ?s1
      then wait_loop h sends i (turn_of h u # ?rest) c lct d = Some (SWREventDetected, c', lct, updateAll ?s1 d) \<and>
        timeBaseStateMap c' ?k = Some (reset_events ?s1)
      else wait_loop h sends i (turn_of h u # ?rest) c lct d = wait_loop h sends i ?rest c' lct d \<and>
        timeBaseStateMap c' ?k = Some ?s2"
    using wait_loop_turn [OF Cons.prems(1-3), of u lct h sends ?rest d] Cons.prems(4) calm_turns_Cons
    by (metis append_Cons)
  show ?case
  proof (cases "event_changed ?s1")
    case True
    then show ?thesis
      using result by auto
  next
    case False
    let ?as = "notes_at ?k (cm_read u) @ notes_at ?k (cm_alive u)"
    let ?bs = "arriving ?k ts @ before_read ?k t"
    have quiet: "\<not> event_changed s" "\<not> some_change (before_read ?k u) s"
      using unchanged_quiet [OF False] by simp_all
    have "some_change (before_read ?k u @ ?as @ ?bs) s"
      using Cons.prems(5) quiet(1) by (simp add: arriving_def)
    then have "some_change (?as @ ?bs) ?s1"
      using some_change_append quiet(2) by blast
    then have "some_change (?as @ ?bs) (reset_events ?s1)"
      using some_change_same [OF same_reset] by blast
    then have "event_changed ?s2 \<or> some_change ?bs ?s2"
      using some_change_append unchanged_quiet by blast
    moreover have "calm_turns lct ?k (ts @ [t]) ?s2"
      using Cons.prems(4) calm_turns_Cons by (metis append_Cons)
    ultimately show ?thesis
      using Cons.IH [OF c'] result False by simp
  qed
qed

end
