(* ===== verification/Msg_Call.thy ===== *)
theory Msg_Call
  imports Message_Base
begin

text \<open>
  \<^verbatim>\<open>MessageDispatcher\<close> and \<^verbatim>\<open>MessageBuilder\<close> of \<^verbatim>\<open>src/msgCall.cpp\<close>, \<^verbatim>\<open>pub/msgCall.h\<close>
  and \<^verbatim>\<open>src/callDef.m4\<close>: call-backs of a class of the user for the TLV of a message. Which
  call-backs the class of the user overrides, and what a building call-back does with the new
  TLV, are arguments.
\<close>

subsection \<open>Dispatch\<close>

datatype (plugins only: code) handler_call =
    Handler mng_vals_e BaseMngTlv
  | noTlv
  | noTlvCallBack mng_vals_e

text \<open>
  \<open>iCallHandler\<close>: the identifiers of the switch are those with a structure; the handler is
  called when the structure is that of the identifier, and a handler that the user did not
  override sets \<^verbatim>\<open>_nc\<close>. The result is the call, if any, and \<^verbatim>\<open>_nc\<close>; \<^term>\<open>None\<close> stands for
  no identifier text.
\<close>

definition iCallHandler :: "(mng_vals_e \<Rightarrow> bool) \<Rightarrow> mng_vals_e \<Rightarrow> BaseMngTlv \<Rightarrow>
    (handler_call list \<times> bool) option" where
  "iCallHandler overrides i t =
     (case new_tlv i of None \<Rightarrow> None
      | Some t0 \<Rightarrow>
          Some (if tlv_type t = i then (if overrides i then ([Handler i t], False) else ([], True))
                else ([], False)))"

definition callHadler_tlv :: "(mng_vals_e \<Rightarrow> bool) \<Rightarrow> Message \<Rightarrow> mng_vals_e \<Rightarrow> BaseMngTlv option \<Rightarrow>
    handler_call list" where
  "callHadler_tlv overrides msg i tlv =
     (case tlv of None \<Rightarrow> [noTlv]
      | Some t \<Rightarrow>
          if \<not> Message_isValidId msg i \<or> isEmpty i then [noTlv]
          else
            (case iCallHandler overrides i t of None \<Rightarrow> [noTlv]
             | Some (calls, nc) \<Rightarrow> calls @ (if nc then [noTlvCallBack i] else [])))"

definition callHadler :: "(mng_vals_e \<Rightarrow> bool) \<Rightarrow> Message \<Rightarrow> handler_call list" where
  "callHadler overrides msg = callHadler_tlv overrides msg (m_replayTlv_id msg) (m_dataGet msg)"

lemma valid_new_tlv: "Mng_Ids.isValidId (tlv_type t) \<Longrightarrow> new_tlv (tlv_type t) \<noteq> None"
  by (cases t) (simp_all add: Mng_Ids.isValidId_def)

lemma callHadler_one:
  assumes "Message_isValidId msg (tlv_type t)" "\<not> isEmpty (tlv_type t)"
  shows "callHadler_tlv overrides msg (tlv_type t) (Some t) =
     (if overrides (tlv_type t) then [Handler (tlv_type t) t] else [noTlvCallBack (tlv_type t)])"
proof -
  obtain t0 where "new_tlv (tlv_type t) = Some t0"
    using valid_new_tlv [of t] assms(1) by (auto simp: Message_isValidId_def split: if_splits)
  then show ?thesis
    using assms by (simp add: callHadler_tlv_def iCallHandler_def)
qed

subsection \<open>Building\<close>

text \<open>
  The builder owns the TLV it made last and the message keeps a pointer to it. Objects have
  addresses: \<open>mb_live\<close> are the live ones, \<open>mb_tlv\<close> the one the builder owns, and \<open>mb_send\<close> the
  one the message points to. \<open>fill i t\<close> is the call-back of the user for the new TLV.
\<close>

record MessageBuilder =
  mb_msg :: Message
  mb_send :: "nat option"
  mb_tlv :: "nat option"
  mb_live :: "nat set"
  mb_new :: nat

definition new_MessageBuilder :: "Message \<Rightarrow> MessageBuilder" where
  "new_MessageBuilder m = \<lparr>mb_msg = m, mb_send = None, mb_tlv = None, mb_live = {}, mb_new = 0\<rparr>"

definition mb_reset :: "nat option \<Rightarrow> MessageBuilder \<Rightarrow> MessageBuilder" where
  "mb_reset p b = b\<lparr>mb_tlv := p,
     mb_live := mb_live b - (case mb_tlv b of None \<Rightarrow> {} | Some a \<Rightarrow> if p = Some a then {} else {a})\<rparr>"

definition mb_clear :: "MessageBuilder \<Rightarrow> MessageBuilder" where
  "mb_clear b = mb_reset None (b\<lparr>mb_msg := clearData (mb_msg b), mb_send := None\<rparr>)"

text \<open>The identifiers of the switch of \<^verbatim>\<open>iBuild\<close> are marked with \<^verbatim>\<open>UFB\<close> in the table.\<close>

definition builds :: "mng_vals_e \<Rightarrow> bool" where
  "builds i = (case mng_all_vals i of None \<Rightarrow> False | Some r \<Rightarrow> mid_func r = UFB \<or> mid_func r = UFBS)"

definition iBuild :: "(BaseMngTlv \<Rightarrow> BaseMngTlv option) \<Rightarrow> mng_vals_e \<Rightarrow>
    BaseMngTlv option" where
  "iBuild fill i =
     (if builds i then (case new_tlv i of None \<Rightarrow> None | Some t0 \<Rightarrow> fill t0) else None)"

definition buildTlv :: "(BaseMngTlv \<Rightarrow> BaseMngTlv option) \<Rightarrow> actionField_e \<Rightarrow>
    mng_vals_e \<Rightarrow> MessageBuilder \<Rightarrow> bool \<times> MessageBuilder" where
  "buildTlv fill a i b =
     (if \<not> Message_isValidId (mb_msg b) i then (False, b)
      else if a = GET \<or> isEmpty i then
        (case setAction a i None (mb_msg b) of (ok, m) \<Rightarrow>
           (ok, b\<lparr>mb_msg := m, mb_send := if ok then None else mb_send b\<rparr>))
      else if a \<noteq> SET \<and> a \<noteq> COMMAND then (False, b)
      else
        (case iBuild fill i of None \<Rightarrow> (False, b)
         | Some t \<Rightarrow>
             (case setAction a i (Some t) (mb_msg b) of
                (False, m) \<Rightarrow> (False, b\<lparr>mb_msg := m, mb_new := mb_new b + 1\<rparr>)
              | (True, m) \<Rightarrow>
                  (True, mb_reset (Some (mb_new b)) (b\<lparr>mb_msg := m,
                     mb_send := if m_dataSend m = None then None else Some (mb_new b),
                     mb_live := insert (mb_new b) (mb_live b), mb_new := mb_new b + 1\<rparr>)))))"

text \<open>The destructor of the builder frees its TLV; the message is not told.\<close>

definition delete_MessageBuilder :: "MessageBuilder \<Rightarrow> MessageBuilder" where
  "delete_MessageBuilder b = mb_reset None b"

text \<open>While the builder lives, the message points to a live TLV, the one of the builder.\<close>

definition builder_ok :: "MessageBuilder \<Rightarrow> bool" where
  "builder_ok b \<longleftrightarrow> (mb_send b = None \<longleftrightarrow> m_dataSend (mb_msg b) = None) \<and>
     (\<forall>a. mb_send b = Some a \<longrightarrow> mb_tlv b = Some a) \<and>
     (\<forall>a. mb_tlv b = Some a \<longrightarrow> a \<in> mb_live b) \<and> (\<forall>a \<in> mb_live b. a < mb_new b)"

lemma builder_ok_new: "m_dataSend m = None \<Longrightarrow> builder_ok (new_MessageBuilder m)"
  by (simp add: builder_ok_def new_MessageBuilder_def)

lemma builder_ok_clear: "builder_ok b \<Longrightarrow> builder_ok (mb_clear b)"
  by (auto simp: builder_ok_def mb_clear_def mb_reset_def clearData_def split: option.splits)

lemma setAction_send:
  "setAction a i d m = (ok, m') \<Longrightarrow>
     (if ok then m_dataSend m' = None \<or> m_dataSend m' = d \<and> d \<noteq> None else m' = m)"
  by (auto simp: setAction_def verifyTlv_def split: if_splits option.splits)

lemma builder_ok_build: "builder_ok b \<Longrightarrow> builder_ok (snd (buildTlv fill a i b))"
proof -
  assume ok: "builder_ok b"
  have get: "builder_ok (b\<lparr>mb_msg := m, mb_send := if r then None else mb_send b\<rparr>)"
    if "setAction a i None (mb_msg b) = (r, m)" for r m
    using ok setAction_send [OF that] by (auto simp: builder_ok_def split: if_splits)
  have failed: "builder_ok (b\<lparr>mb_msg := m, mb_new := mb_new b + 1\<rparr>)"
    if "setAction a i (Some t) (mb_msg b) = (False, m)" for t m
    using ok setAction_send [OF that] by (auto simp: builder_ok_def)
  have set: "builder_ok (mb_reset (Some (mb_new b)) (b\<lparr>mb_msg := m,
      mb_send := if m_dataSend m = None then None else Some (mb_new b),
      mb_live := insert (mb_new b) (mb_live b), mb_new := mb_new b + 1\<rparr>))" for m
    using ok by (auto simp: builder_ok_def mb_reset_def split: option.splits if_splits)
  obtain r0 m0 where set0: "setAction a i None (mb_msg b) = (r0, m0)"
    by fastforce
  show ?thesis
  proof (cases "iBuild fill i")
    case None
    then show ?thesis
      using ok get [OF set0] by (simp add: buildTlv_def set0)
  next
    case (Some t)
    obtain r1 m1 where set1: "setAction a i (Some t) (mb_msg b) = (r1, m1)"
      by fastforce
    show ?thesis
      using ok get [OF set0] failed [of t m1] set [of m1] Some
      by (cases r1) (simp_all add: buildTlv_def set0 set1)
  qed
qed

text \<open>A TLV of the structure of its identifier is taken when the action is allowed.\<close>

lemma buildTlv_takes:
  assumes "fill t0 = Some t" "new_tlv i = Some t0" "tlv_type t = i" "builds i"
    and "a = SET \<or> a = COMMAND" "\<not> isEmpty i" "Message_isValidId (mb_msg b) i"
    and "allowedAction (m_prms (mb_msg b)) i a"
  shows "fst (buildTlv fill a i b)"
    and "m_dataSend (mb_msg (snd (buildTlv fill a i b))) = Some t"
    and "m_tlv_id (mb_msg (snd (buildTlv fill a i b))) = i"
proof -
  have "a \<noteq> GET"
    using assms(5) by (auto simp: GET_def SET_def COMMAND_def)
  moreover have "i \<noteq> NULL_PTP_MANAGEMENT" "mng_size i \<noteq> 0"
    using assms(2,6,7) by (auto simp: isEmpty_def Message_isValidId_def split: if_splits)
  moreover have "verifyTlv i (Some t)"
    using assms(3,4) by (auto simp: verifyTlv_def builds_def split: option.splits)
  ultimately have "setAction a i (Some t) (mb_msg b) =
      (True, (mb_msg b)\<lparr>m_dataSend := Some t, m_sendAction := a, m_tlv_id := i\<rparr>)"
    using assms(8) by (simp add: setAction_def)
  then show "fst (buildTlv fill a i b)"
    and "m_dataSend (mb_msg (snd (buildTlv fill a i b))) = Some t"
    and "m_tlv_id (mb_msg (snd (buildTlv fill a i b))) = i"
    using assms \<open>a \<noteq> GET\<close> by (auto simp: buildTlv_def iBuild_def mb_reset_def)
qed

text \<open>After its end the message points to a TLV that is no more.\<close>

lemma dangling_after_delete:
  "builder_ok b \<Longrightarrow> mb_send b = Some a \<Longrightarrow> a \<notin> mb_live (delete_MessageBuilder b) \<and>
     m_dataSend (mb_msg (delete_MessageBuilder b)) \<noteq> None"
  by (auto simp: builder_ok_def delete_MessageBuilder_def mb_reset_def)

end
