(* ===== verification/Clk_Ptp4l.thy ===== *)
theory Clk_Ptp4l
  imports Clk_Proxy Msg_Call Msg_Parse Msg_Build Mng_Events Json_To Json_Proc
begin

unbundle bit_operations_syntax

text \<open>
  Clock manager, the service of the proxy that watches ptp4l (\<^verbatim>\<open>proxy/connect_ptp4l.cpp\<close>): the
  management messages of ptp4l, parsed and dispatched by the library, become the event of a
  time base that the proxy sends to its clients. The socket is an argument: whether it takes a
  message. A service has its own \<^verbatim>\<open>Message\<close>.
\<close>

subsection \<open>State of the service\<close>

record ptpSet =
  ps_index :: uint64_t
  ps_event :: ptp_event
  ps_msg :: Message
  do_notify :: bool
  ps_seq :: int
  ps_gmIdentity :: ClockIdentity_t
  need_set_action :: bool
  lost_connection :: bool

definition portDataClear :: "ptp_event \<Rightarrow> ptp_event" where
  "portDataClear e = e\<lparr>ev_clockOffset := 0, ev_syncInterval := 0, ev_syncedWithGm := False\<rparr>"

definition portDataReset :: "ptpSet \<Rightarrow> ptpSet" where
  "portDataReset s = s\<lparr>ps_event := portDataClear (ps_event s), need_set_action := True\<rparr>"

definition portReset :: "ptpSet \<Rightarrow> ptpSet" where
  "portReset s = s\<lparr>ps_event := no_ptp_event, need_set_action := True\<rparr>"

subsection \<open>Sending to ptp4l\<close>

record ptp_env =
  en_parse :: parse_env
  en_hmac :: hmac_lib
  en_buf :: octets
  en_send :: "octets \<Rightarrow> bool"
  en_big :: "int \<Rightarrow> uint64_t"

text \<open>\<open>en_buf\<close> is the buffer of the service; \<open>msg_send\<close> gives the octets it sent.\<close>

definition msg_send :: "ptp_env \<Rightarrow> ptpSet \<Rightarrow> bool \<times> octets list \<times> ptpSet" where
  "msg_send env s =
     (case build (en_hmac env) (ps_msg s) (Some (en_buf env)) (word_of_int (ps_seq s)) of
        (err, b, m) \<Rightarrow>
          let s1 = s\<lparr>ps_msg := m\<rparr>; bs = take (m_msgLen m) (case b of None \<Rightarrow> [] | Some x \<Rightarrow> x)
          in if err \<noteq> MNG_PARSE_ERROR_OK then (False, [], s1)
             else if \<not> en_send env bs then (False, [], s1)
             else (True, [bs], s1\<lparr>ps_seq := ps_seq s + 1\<rparr>))"

definition msg_set_action :: "ptp_env \<Rightarrow> mng_vals_e \<Rightarrow> ptpSet \<Rightarrow> bool \<times> octets list \<times> ptpSet" where
  "msg_set_action env i s =
     (case setAction GET i None (ps_msg s) of
        (False, m) \<Rightarrow> (False, [], s\<lparr>ps_msg := m\<rparr>)
      | (True, m) \<Rightarrow> msg_send env (s\<lparr>ps_msg := m\<rparr>))"

definition eventsTlv :: SUBSCRIBE_EVENTS_NP_t where
  "eventsTlv = setEvent NOTIFY_CMLDS (setEvent NOTIFY_PORT_STATE (setEvent NOTIFY_TIME_SYNC
     (new_SUBSCRIBE_EVENTS_NP\<lparr>SUBSCRIBE_EVENTS_NP_t.duration := 0xffff\<rparr>)))"

definition event_subscription :: "ptp_env \<Rightarrow> ptpSet \<Rightarrow> bool \<times> octets list \<times> ptpSet" where
  "event_subscription env s =
     (case setAction SET SUBSCRIBE_EVENTS_NP (Some (SUBSCRIBE_EVENTS_NP_v eventsTlv)) (ps_msg s) of
        (False, m) \<Rightarrow> (False, [], s\<lparr>ps_msg := m\<rparr>)
      | (True, m) \<Rightarrow> msg_send env (s\<lparr>ps_msg := m\<rparr>))"

subsection \<open>Call-backs\<close>

definition clock_uuid :: "octets \<Rightarrow> uint64_t" where
  "clock_uuid v = fold (\<lambda>i u. u OR push_bit (8 * (7 - i)) (ucast (v ! i))) [0..<8] 0"

definition on_TIME_STATUS_NP :: "TIME_STATUS_NP_t \<Rightarrow> ptpSet \<Rightarrow> ptpSet" where
  "on_TIME_STATUS_NP tlv s =
     s\<lparr>ps_event := (ps_event s)\<lparr>ev_clockOffset := TIME_STATUS_NP_t.master_offset tlv,
         ev_gmClockUUID := clock_uuid (ci_v (TIME_STATUS_NP_t.gmIdentity tlv))\<rparr>,
       ps_gmIdentity := TIME_STATUS_NP_t.gmIdentity tlv, do_notify := True\<rparr>"

text \<open>
  \<^verbatim>\<open>pow(2.0, k) * USEC_PER_SEC\<close> has no rounding error; its conversion to an integer cuts the
  fraction. A value that does not fit has no defined conversion: \<open>en_big\<close>.
\<close>

definition log_usec :: "(int \<Rightarrow> uint64_t) \<Rightarrow> int8_t \<Rightarrow> uint64_t" where
  "log_usec big k =
     (let e = sint k
      in if e < 0 then word_of_nat (1000000 div 2 ^ nat (- e))
         else if 1000000 * 2 ^ nat e < (2 :: nat) ^ 64 then word_of_nat (1000000 * 2 ^ nat e)
         else big e)"

definition on_LOG_SYNC_INTERVAL :: "ptp_env \<Rightarrow> LOG_SYNC_INTERVAL_t \<Rightarrow> ptpSet \<Rightarrow> ptpSet" where
  "on_LOG_SYNC_INTERVAL env tlv s =
     (if (ucast (ev_syncInterval (ps_event s)) :: int8_t) \<noteq> LOG_SYNC_INTERVAL_t.logSyncInterval tlv
      then s\<lparr>ps_event := (ps_event s)\<lparr>ev_syncInterval :=
               log_usec (en_big env) (LOG_SYNC_INTERVAL_t.logSyncInterval tlv)\<rparr>, do_notify := True\<rparr>
      else s)"

definition ask_interval :: "ptp_env \<Rightarrow> ptpSet \<Rightarrow> octets list \<times> ptpSet" where
  "ask_interval env s =
     (if need_set_action s
      then (case msg_set_action env LOG_SYNC_INTERVAL s of (ok, bss, s1) \<Rightarrow>
              (bss, s1\<lparr>need_set_action := False\<rparr>))
      else ([], s))"

definition on_PORT_DATA_SET :: "ptp_env \<Rightarrow> PORT_DATA_SET_t \<Rightarrow> ptpSet \<Rightarrow> octets list \<times> ptpSet" where
  "on_PORT_DATA_SET env tlv s =
     (let st = PORT_DATA_SET_t.portState tlv; id = PortIdentity_t.clockIdentity (PORT_DATA_SET_t.portIdentity tlv)
      in if st \<in> {1, 2, 3, 4, 5, 7, 8} then ([], (portDataReset s)\<lparr>do_notify := True\<rparr>)
         else if st = 6 then
           (if ClockIdentity_eq (ps_gmIdentity s) id then ([], s)
            else
              (let s1 = portDataReset s;
                   s2 = s1\<lparr>ps_event := (ps_event s1)\<lparr>ev_gmClockUUID := clock_uuid (ci_v id)\<rparr>,
                           ps_gmIdentity := id\<rparr>;
                   (bss, s3) = ask_interval env s2
               in (bss, s3\<lparr>do_notify := True\<rparr>)))
         else if st = 9 then
           (let s1 = s\<lparr>ps_event := (ps_event s)\<lparr>ev_syncedWithGm := True\<rparr>\<rparr>;
                (bss, s2) = ask_interval env s1
            in (bss, s2\<lparr>do_notify := True\<rparr>))
         else ([], s\<lparr>do_notify := True\<rparr>))"

definition on_CMLDS_INFO_NP :: "CMLDS_INFO_NP_t \<Rightarrow> ptpSet \<Rightarrow> ptpSet" where
  "on_CMLDS_INFO_NP tlv s =
     (if PortIdentity_t.portNumber (m_peer (ps_msg s)) = 0 then s
      else
        (let capable = (CMLDS_INFO_NP_t.as_capable tlv > 0)
         in if ev_asCapable (ps_event s) \<noteq> capable
            then s\<lparr>ps_event := (ps_event s)\<lparr>ev_asCapable := capable\<rparr>, do_notify := True\<rparr>
            else s))"

definition overrides :: "mng_vals_e \<Rightarrow> bool" where
  "overrides i \<longleftrightarrow> i \<in> {TIME_STATUS_NP, PORT_DATA_SET, CMLDS_INFO_NP, LOG_SYNC_INTERVAL}"

definition on_call :: "ptp_env \<Rightarrow> handler_call \<Rightarrow> ptpSet \<Rightarrow> octets list \<times> ptpSet" where
  "on_call env c s =
     (case c of
        Handler i t \<Rightarrow>
          (case t of
             TIME_STATUS_NP_v d \<Rightarrow> ([], on_TIME_STATUS_NP d s)
           | PORT_DATA_SET_v d \<Rightarrow> on_PORT_DATA_SET env d s
           | CMLDS_INFO_NP_v d \<Rightarrow> ([], on_CMLDS_INFO_NP d s)
           | LOG_SYNC_INTERVAL_v d \<Rightarrow> ([], on_LOG_SYNC_INTERVAL env d s)
           | _ \<Rightarrow> ([], s))
      | _ \<Rightarrow> ([], s))"

text \<open>\<^verbatim>\<open>callHadler\<close> makes at most one call.\<close>

definition call_backs :: "ptp_env \<Rightarrow> ptpSet \<Rightarrow> octets list \<times> ptpSet" where
  "call_backs env s =
     (case callHadler overrides (ps_msg s) of [] \<Rightarrow> ([], s) | c # cs \<Rightarrow> on_call env c s)"

subsection \<open>The thread\<close>

text \<open>
  The result of a step: what was sent to ptp4l, what was sent to clients, the service and the
  proxy. The thread is followed while \<^verbatim>\<open>stopThread\<close> is not set.
\<close>

type_synonym ptp_result = "octets list \<times> sent \<times> ptpSet \<times> Proxy"

definition event_handle :: "ptp_env \<Rightarrow> host \<Rightarrow> queues \<Rightarrow> Buffer \<Rightarrow> ptpSet \<Rightarrow> Proxy \<Rightarrow> ptp_result" where
  "event_handle env h q b s P =
     (case call_backs env (s\<lparr>do_notify := False\<rparr>) of (bss, s1) \<Rightarrow>
        (if do_notify s1
         then (case notifyClients h q b (ps_index s1) PTPClock
                 (copy_ptpEvent (ps_index s1) (ps_event s1) P) of
                 (msgs, P1) \<Rightarrow> (bss, msgs, s1, P1))
         else (bss, [], s1, P)))"

definition ptp_receive :: "ptp_env \<Rightarrow> host \<Rightarrow> queues \<Rightarrow> Buffer \<Rightarrow> octets \<Rightarrow> ptpSet \<Rightarrow> Proxy \<Rightarrow> ptp_result" where
  "ptp_receive env h q b bs s P =
     (case parse (en_parse env) (ps_msg s) bs (int (length bs)) of (err, m) \<Rightarrow>
        (if err = MNG_PARSE_ERROR_OK then event_handle env h q b (s\<lparr>ps_msg := m\<rparr>) P
         else ([], [], s\<lparr>ps_msg := m\<rparr>, P)))"

text \<open>
  No message in time: the service subscribes again, once for each of the attempts \<open>envs\<close>; the
  first result tells whether it succeeded within them.
\<close>

fun ptp_retry :: "ptp_env list \<Rightarrow> host \<Rightarrow> queues \<Rightarrow> Buffer \<Rightarrow> ptpSet \<Rightarrow> Proxy \<Rightarrow> bool \<times> ptp_result" where
  "ptp_retry [] h q b s P = (False, [], [], s, P)"
| "ptp_retry (env # envs) h q b s P =
     (case event_subscription env s of
        (True, bss, s1) \<Rightarrow> (True, bss, [], s1\<lparr>lost_connection := False\<rparr>, P)
      | (False, bss, s1) \<Rightarrow>
          if lost_connection s1 then ptp_retry envs h q b s1 P
          else
            (let s2 = (portReset s1)\<lparr>lost_connection := True\<rparr>
             in case notifyClients h q b (ps_index s2) PTPClock
                       (copy_ptpEvent (ps_index s2) (ps_event s2) P) of
                  (msgs, P1) \<Rightarrow>
                    (case ptp_retry envs h q b s2 P1 of (ended, bss, msgs', s', P') \<Rightarrow>
                       (ended, bss, msgs @ msgs', s', P'))))"

definition ptp_start :: "ptp_env \<Rightarrow> ptpSet \<Rightarrow> octets list \<times> ptpSet" where
  "ptp_start env s =
     (case event_subscription env s of
        (False, bss, s1) \<Rightarrow> (bss, s1\<lparr>lost_connection := True\<rparr>)
      | (True, bss, s1) \<Rightarrow>
          (let (ok2, bss2, s2) = msg_set_action env TIME_STATUS_NP (s1\<lparr>lost_connection := False\<rparr>);
               (ok3, bss3, s3) = msg_set_action env PORT_DATA_SET s2;
               (ok4, bss4, s4) = msg_set_action env LOG_SYNC_INTERVAL s3
           in (bss @ bss2 @ bss3 @ bss4, s4)))"

end
