(* ===== verification/Clk_Services.thy ===== *)
theory Clk_Services
  imports Clk_Ptp4l
begin

unbundle bit_operations_syntax

text \<open>
  Clock manager, the service of the proxy that watches chrony (\<^verbatim>\<open>proxy/connect_chrony.cpp\<close>), and
  what both services do to the proxy. The library of chrony is not part of the program: what its
  functions return in a turn of the loop is an argument, and so are the sockets. The thread is
  followed while \<^verbatim>\<open>stopThread\<close> is not set.
\<close>

subsection \<open>The service of chrony\<close>

text \<open>The results of \<^verbatim>\<open>poll\<close> while chrony still has to respond, and of the library for a response.\<close>

datatype chrony_poll = Poll_timeout | Poll_failed | Poll_response bool

fun process_chronyd_data :: "chrony_poll list \<Rightarrow> bool" where
  "process_chronyd_data [] = True"
| "process_chronyd_data (Poll_response False # ps) = False"
| "process_chronyd_data (p # ps) = process_chronyd_data ps"

text \<open>
  The offset in nanoseconds is converted from floating point, so it is given as the integer; the
  interval is a power of two, as in \<^const>\<open>log_usec\<close>.
\<close>

record chrony_answers =
  ca_request :: bool
  ca_polls :: "chrony_poll list"
  ca_reference :: uint64_t
  ca_poll :: int64_t
  ca_offset :: int64_t
  ca_big :: "int \<Rightarrow> int64_t"

record ChronyThreadSet =
  cs_index :: uint64_t
  cs_event :: chrony_event
  cs_session :: bool
  cs_syncInterval :: int64_t

definition def_syncInterval :: int64_t where
  "def_syncInterval = 10"

definition new_ChronyThreadSet :: "uint64_t \<Rightarrow> bool \<Rightarrow> ChronyThreadSet" where
  "new_ChronyThreadSet i connected = \<lparr>cs_index = i, cs_event = no_chrony_event, cs_session = connected,
     cs_syncInterval = def_syncInterval\<rparr>"

definition chrony_usec :: "(int \<Rightarrow> int64_t) \<Rightarrow> int64_t \<Rightarrow> int64_t" where
  "chrony_usec big k =
     (let e = sint (ucast k :: 16 word)
      in if e < 0 then word_of_nat (1000000 div 2 ^ nat (- e))
         else if 1000000 * 2 ^ nat e < (2 :: nat) ^ 63 then word_of_nat (1000000 * 2 ^ nat e)
         else big e)"

type_synonym chrony_result = "bool \<times> sent \<times> ChronyThreadSet \<times> Proxy"

definition subscribe_to_chronyd :: "host \<Rightarrow> queues \<Rightarrow> Buffer \<Rightarrow> chrony_answers \<Rightarrow> ChronyThreadSet \<Rightarrow> Proxy \<Rightarrow> chrony_result" where
  "subscribe_to_chronyd h q b ans s P =
     (if \<not> cs_session s \<or> \<not> ca_request ans \<or> \<not> process_chronyd_data (ca_polls ans) then (False, [], s, P)
      else
        (let interval = chrony_usec (ca_big ans) (ca_poll ans);
             ev = \<lparr>ch_clockOffset = ca_offset ans, ch_gmClockUUID = ca_reference ans, ch_syncInterval = interval\<rparr>
         in case notifyClients h q b (cs_index s) SysClock (copy_chronyEvent (cs_index s) ev P) of
              (msgs, P1) \<Rightarrow> (True, msgs, s\<lparr>cs_event := ev, cs_syncInterval := interval\<rparr>, P1)))"

text \<open>
  The loop that connects again: whether the socket was opened and whether the session was made,
  for each attempt.
\<close>

fun chrony_reconnect :: "(bool \<times> bool) list \<Rightarrow> bool" where
  "chrony_reconnect [] = False"
| "chrony_reconnect ((opened, started) # as) = (if opened \<and> started then True else chrony_reconnect as)"

text \<open>One turn of \<^verbatim>\<open>thread_loop\<close>, and whether it ended: it may still try to connect after the attempts.\<close>

definition chrony_turn :: "host \<Rightarrow> queues \<Rightarrow> Buffer \<Rightarrow> chrony_answers \<Rightarrow> (bool \<times> bool) list \<Rightarrow>
    ChronyThreadSet \<Rightarrow> Proxy \<Rightarrow> chrony_result" where
  "chrony_turn h q b ans attempts s P =
     (case subscribe_to_chronyd h q b ans s P of
        (True, msgs, s1, P1) \<Rightarrow> (True, msgs, s1, P1)
      | (False, msgs, s1, P1) \<Rightarrow>
          (let s2 = s1\<lparr>cs_session := False, cs_syncInterval := def_syncInterval, cs_event := no_chrony_event\<rparr>
           in case notifyClients h q b (cs_index s2) SysClock (copy_chronyEvent (cs_index s2) (cs_event s2) P1) of
                (msgs2, P2) \<Rightarrow>
                  (chrony_reconnect attempts, msgs2, s2\<lparr>cs_session := chrony_reconnect attempts\<rparr>, P2)))"

subsection \<open>What a service does to the proxy\<close>

text \<open>Nothing, or the proxy gets an event and tells the clients.\<close>

definition tells :: "host \<Rightarrow> uint64_t \<Rightarrow> Proxy \<Rightarrow> sent \<Rightarrow> Proxy \<Rightarrow> bool" where
  "tells h i P msgs P' \<longleftrightarrow> msgs = [] \<and> P' = P \<or>
     (\<exists>q b ev. notifyClients h q b i PTPClock (copy_ptpEvent i ev P) = (msgs, P')) \<or>
     (\<exists>q b ev. notifyClients h q b i SysClock (copy_chronyEvent i ev P) = (msgs, P'))"

lemma notify_dom: "dom (timeBaseDataMap (snd (notifyClients h q b i t P))) = dom (timeBaseDataMap P)"
  by (simp add: notifyClients_def Let_def case_prod_beta removes_keep split: option.split bool.split)

lemma notify_keeps_dom: "notifyClients h q b i t P = (msgs, P') \<Longrightarrow> dom (timeBaseDataMap P') = dom (timeBaseDataMap P)"
  using notify_dom [of h q b i t P] by simp

lemma tells_keeps_dom:
  assumes "tells h i P msgs P'" "timeBaseDataMap P i \<noteq> None"
  shows "dom (timeBaseDataMap P') = dom (timeBaseDataMap P)"
proof -
  have "insert i (dom (timeBaseDataMap P)) = dom (timeBaseDataMap P)"
    using assms(2) by auto
  then show ?thesis
    using assms(1) unfolding tells_def copy_ptpEvent_def copy_chronyEvent_def
    by (elim disjE exE conjE) (simp_all add: notify_keeps_dom)
qed

lemma tells_reach:
  assumes "tells h i P msgs P'" "timeBaseDataMap P i \<noteq> None" "proxy_reach h cfgs P"
  shows "proxy_reach h cfgs P'"
  using assms proxy_reach.step [OF assms(3)] proxy_step.ptp [OF assms(2)] proxy_step.chrony [OF assms(2)]
  unfolding tells_def by metis

text \<open>
  The contract of a service: a run of it leaves the index of its time base, and tells the clients
  or nobody. A proxy with any number of runs of services is one of the reachable proxies.
\<close>

locale service =
  fixes h :: host
    and index :: "'s \<Rightarrow> uint64_t"
    and run :: "'s \<Rightarrow> Proxy \<Rightarrow> sent \<Rightarrow> 's \<Rightarrow> Proxy \<Rightarrow> bool"
  assumes keeps_index: "run s P msgs s' P' \<Longrightarrow> index s' = index s"
    and run_tells: "run s P msgs s' P' \<Longrightarrow> tells h (index s) P msgs P'"
begin

inductive runs :: "'s \<Rightarrow> Proxy \<Rightarrow> 's \<Rightarrow> Proxy \<Rightarrow> bool" where
  none: "runs s P s P"
| more: "runs s P s' P' \<Longrightarrow> run s' P' msgs s'' P'' \<Longrightarrow> runs s P s'' P''"

lemma runs_reach:
  assumes "runs s P s' P'" "proxy_reach h cfgs P" "timeBaseDataMap P (index s) \<noteq> None"
  shows "proxy_reach h cfgs P' \<and> timeBaseDataMap P' (index s') \<noteq> None \<and> index s' = index s"
  using assms
proof (induction rule: runs.induct)
  case (more s P s' P' msgs s'' P'')
  then have ih: "proxy_reach h cfgs P'" "timeBaseDataMap P' (index s') \<noteq> None" "index s' = index s"
    by blast+
  have t: "tells h (index s') P' msgs P''" and i: "index s'' = index s'"
    using more.hyps(2) run_tells keeps_index by blast+
  show ?case
    using tells_reach [OF t ih(2,1)] tells_keeps_dom [OF t ih(2)] i ih(2,3) by (auto simp: dom_def)
qed simp

end

subsection \<open>Both services keep the contract\<close>

lemma msg_send_index: "msg_send env s = (ok, bss, s') \<Longrightarrow> ps_index s' = ps_index s"
  by (auto simp: msg_send_def Let_def split: prod.splits if_splits)

lemma set_action_index: "msg_set_action env i s = (ok, bss, s') \<Longrightarrow> ps_index s' = ps_index s"
  by (auto simp: msg_set_action_def split: prod.splits bool.splits dest!: msg_send_index)

lemma event_subscription_index: "event_subscription env s = (ok, bss, s') \<Longrightarrow> ps_index s' = ps_index s"
  by (auto simp: event_subscription_def split: prod.splits bool.splits dest!: msg_send_index)

lemma ask_index: "ask_interval env s = (bss, s') \<Longrightarrow> ps_index s' = ps_index s"
  by (auto simp: ask_interval_def split: if_splits prod.splits dest!: set_action_index)

lemma on_PORT_DATA_SET_index: "on_PORT_DATA_SET env tlv s = (bss, s') \<Longrightarrow> ps_index s' = ps_index s"
  by (auto simp: on_PORT_DATA_SET_def portDataReset_def Let_def split: if_splits prod.splits dest!: ask_index)

lemma call_backs_index: "call_backs env s = (bss, s') \<Longrightarrow> ps_index s' = ps_index s"
  by (auto simp: call_backs_def on_call_def on_TIME_STATUS_NP_def on_CMLDS_INFO_NP_def on_LOG_SYNC_INTERVAL_def Let_def
      split: list.splits handler_call.splits BaseMngTlv.splits if_splits dest: on_PORT_DATA_SET_index)

lemma ptp_receive_tells:
  assumes "ptp_receive env h q b bs s P = (bss, msgs, s', P')"
  shows "tells h (ps_index s) P msgs P'" "ps_index s' = ps_index s"
  using assms
  by (auto simp: ptp_receive_def event_handle_def tells_def split: prod.splits if_splits dest!: call_backs_index)

lemma ptp_retry_lost:
  "ptp_retry envs h q b s P = (ended, bss, msgs, s', P') \<Longrightarrow> lost_connection s \<Longrightarrow>
     msgs = [] \<and> P' = P \<and> ps_index s' = ps_index s"
proof (induction envs arbitrary: s)
  case (Cons env envs)
  have l: "lost_connection s1 = lost_connection s" if "event_subscription env s = (ok, bs1, s1)" for ok bs1 s1
    using that by (auto simp: event_subscription_def msg_send_def Let_def split: prod.splits bool.splits if_splits)
  show ?case
    using Cons l by (auto split: prod.splits bool.splits if_splits dest!: event_subscription_index)
qed simp

lemma ptp_retry_tells:
  assumes "ptp_retry envs h q b s P = (ended, bss, msgs, s', P')"
  shows "tells h (ps_index s) P msgs P' \<and> ps_index s' = ps_index s"
proof (cases envs)
  case (Cons env es)
  obtain ok bs1 s1 where e: "event_subscription env s = (ok, bs1, s1)"
    using prod_cases3 by blast
  note i = event_subscription_index [OF e]
  show ?thesis
  proof (cases "ok \<or> lost_connection s1")
    case True
    then show ?thesis
      using assms e i ptp_retry_lost [of es h q b s1 P ended bss msgs s' P'] by (auto simp: Cons tells_def split: bool.splits)
  next
    case False
    then show ?thesis
      using assms e i ptp_retry_lost [of es h q b "(portReset s1)\<lparr>lost_connection := True\<rparr>"]
      by (fastforce simp: Cons tells_def portReset_def Let_def split: bool.splits prod.splits)
  qed
qed (use assms in \<open>simp add: tells_def\<close>)

definition ptp_run :: "host \<Rightarrow> ptpSet \<Rightarrow> Proxy \<Rightarrow> sent \<Rightarrow> ptpSet \<Rightarrow> Proxy \<Rightarrow> bool" where
  "ptp_run h s P msgs s' P' \<longleftrightarrow>
     (\<exists>env q b bs bss. ptp_receive env h q b bs s P = (bss, msgs, s', P')) \<or>
     (\<exists>envs q b ended bss. ptp_retry envs h q b s P = (ended, bss, msgs, s', P'))"

interpretation ptp4l: service h ps_index "ptp_run h" for h
  by unfold_locales (auto simp: ptp_run_def dest: ptp_receive_tells ptp_retry_tells)

lemma chrony_turn_tells:
  assumes "chrony_turn h q b ans attempts s P = (ended, msgs, s', P')"
  shows "tells h (cs_index s) P msgs P' \<and> cs_index s' = cs_index s"
  using assms
  by (fastforce simp: chrony_turn_def subscribe_to_chronyd_def tells_def Let_def split: prod.splits if_splits bool.splits)

interpretation chrony: service h cs_index
  "\<lambda>s P msgs s' P'. \<exists>q b ans attempts ended. chrony_turn h q b ans attempts s P = (ended, msgs, s', P')" for h
  by unfold_locales (auto dest: chrony_turn_tells)

section \<open>From ptp4l to the application\<close>

text \<open>
  From ptp4l to the application: the identity of the grandmaster and the offset of the clock go
  through a management message, the event of the proxy, a notification, and the state of the
  client.
\<close>

subsection \<open>Identity of the grandmaster\<close>

text \<open>\<^verbatim>\<open>ClockEventBase::getGmIdentityStr\<close>: the octets of the number as a text.\<close>

definition gm_octets :: "uint64_t \<Rightarrow> octets" where
  "gm_octets u = map (\<lambda>i. ucast (drop_bit (8 * (7 - i)) u AND 0xff)) [0..<8]"

definition getGmIdentityStr :: "uint64_t \<Rightarrow> string" where
  "getGmIdentityStr u =
     (let id = gm_octets u
      in hex2 (id ! 0) @ hex2 (id ! 1) @ hex2 (id ! 2) @ ''.'' @ hex2 (id ! 3) @ hex2 (id ! 4) @ ''.'' @
         hex2 (id ! 5) @ hex2 (id ! 6) @ hex2 (id ! 7))"

lemma list8: "length v = 8 \<Longrightarrow> \<exists>a b c d e f g h. v = [a, b, c, d, e, f, g, h]"
  by (auto simp: numeral_eq_Suc length_Suc_conv)

lemma bit_octet_mask: "n < 8 \<Longrightarrow> bit (0xff :: int) n"
  using bit_mask_iff [of 8 n, where 'a = int] by (simp add: mask_eq_exp_minus_1)

lemma gm_octets_uuid: "length v = 8 \<Longrightarrow> gm_octets (clock_uuid v) = v"
proof -
  assume "length v = 8"
  then obtain a b c d e f g h where v: "v = [a, b, c, d, e, f, g, h]"
    using list8 by blast
  show ?thesis
    unfolding v clock_uuid_def gm_octets_def
    by (simp add: upt_rec)
      (auto simp: bit_eq_iff bit_simps bit_octet_mask dest: bit_imp_le_length)
qed

text \<open>The application sees the text the library has for the identity.\<close>

lemma identity_text:
  assumes "length (ci_v c) = 8"
  shows "getGmIdentityStr (clock_uuid (ci_v c)) = ClockIdentity_string c"
proof -
  obtain x0 x1 x2 x3 x4 x5 x6 x7 where "ci_v c = [x0, x1, x2, x3, x4, x5, x6, x7]"
    using list8 [OF assms] by blast
  then show ?thesis
    using gm_octets_uuid [OF assms]
    by (simp add: getGmIdentityStr_def ClockIdentity_string_def bufToHex_def)
qed

subsection \<open>The interval of one second\<close>

text \<open>
  The interval, in microseconds, is compared with the logarithm of the new one. A new service
  has the interval 0, so the logarithm 0 is taken for no change.
\<close>

lemma one_second_ignored:
  assumes "ev_syncInterval (ps_event s) = 0" and "LOG_SYNC_INTERVAL_t.logSyncInterval tlv = 0"
  shows "on_LOG_SYNC_INTERVAL env tlv s = s"
  using assms by (simp add: on_LOG_SYNC_INTERVAL_def)

subsection \<open>Offset of the clock\<close>

definition told_event :: "ptp_event \<Rightarrow> TIME_STATUS_NP_t \<Rightarrow> ptp_event" where
  "told_event e t = e\<lparr>ev_clockOffset := TIME_STATUS_NP_t.master_offset t,
     ev_gmClockUUID := clock_uuid (ci_v (TIME_STATUS_NP_t.gmIdentity t))\<rparr>"

lemma handled_time_status:
  assumes "m_replayTlv_id (ps_msg s) = TIME_STATUS_NP" "m_dataGet (ps_msg s) = Some (TIME_STATUS_NP_v t)"
    and "Message_isValidId (ps_msg s) TIME_STATUS_NP"
  shows "call_backs env s = ([], on_TIME_STATUS_NP t s)"
proof -
  have "\<not> isEmpty TIME_STATUS_NP"
    by (simp add: isEmpty_def mng_size_def row_def)
  then have "callHadler overrides (ps_msg s) = [Handler TIME_STATUS_NP (TIME_STATUS_NP_v t)]"
    using callHadler_one [of "ps_msg s" "TIME_STATUS_NP_v t" overrides] assms
    by (simp add: callHadler_def overrides_def)
  then show ?thesis
    by (simp add: call_backs_def on_call_def)
qed

end
