(* ===== verification/Clk_Config.thy ===== *)
theory Clk_Config
  imports Clk_Delivery Json_Num
begin

text \<open>
  Clock manager, the configuration of the proxy (\<^verbatim>\<open>proxy/config_parser.cpp\<close>): the time bases a
  JSON file describes. The result of \<^verbatim>\<open>jsonMain::parseFile\<close> is an argument: whether the file was
  parsed, and the value the object has then.
\<close>

subsection \<open>Values of an object\<close>

text \<open>A result \<^term>\<open>None\<close> is \<^verbatim>\<open>false\<close>. Texts are octets, as in the structures.\<close>

definition get_Int_Val :: "json_members \<Rightarrow> string \<Rightarrow> uint8_t option \<Rightarrow> uint8_t option" where
  "get_Int_Val obj key defaultVal =
     (case obj_getVal key obj of None \<Rightarrow> defaultVal
      | Some v \<Rightarrow>
          (case getInt64 v False of None \<Rightarrow> None
           | Some i \<Rightarrow>
               if jsonGetType v \<noteq> t_number \<or> sint i < 0 \<or> sint i > 255 then None else Some (ucast i)))"

definition get_Str_Val :: "json_members \<Rightarrow> string \<Rightarrow> string option \<Rightarrow> octets option" where
  "get_Str_Val obj key defaultVal =
     (case obj_getVal key obj of None \<Rightarrow> map_option (map of_char) defaultVal
      | Some v \<Rightarrow>
          if jsonGetType v \<noteq> t_string \<or> jval_getStr v = [] then None else Some (map of_char (jval_getStr v)))"

text \<open>\<^verbatim>\<open>strncpy\<close> into an array of zeros.\<close>

definition strncpy_octets :: "octets \<Rightarrow> octets" where
  "strncpy_octets r = (let s = take (STRING_SIZE_MAX - 1) (c_text r) in s @ replicate (STRING_SIZE_MAX - length s) 0)"

definition get_Chars_Val :: "json_members \<Rightarrow> string \<Rightarrow> string option \<Rightarrow> octets option" where
  "get_Chars_Val obj key defaultVal =
     (case get_Str_Val obj key defaultVal of None \<Rightarrow> None
      | Some r \<Rightarrow> if length r \<ge> STRING_SIZE_MAX then None else Some (strncpy_octets r))"

subsection \<open>The time bases\<close>

definition defaultUdsPtp4l :: string where
  "defaultUdsPtp4l = ''/var/run/ptp/ptp4l''"

definition defaultUdsChrony :: string where
  "defaultUdsChrony = ''/var/run/chrony/chronyd.sock''"

definition new_row :: TimeBaseCfgFull where
  "new_row = \<lparr>cfg_base = \<lparr>cfg_timeBaseIndex = 0, cfg_timeBaseName = replicate STRING_SIZE_MAX 0,
     cfg_interfaceName = replicate STRING_SIZE_MAX 0, cfg_transportSpecific = 0, cfg_domainNumber = 0,
     cfg_haveSys = False, cfg_havePtp = False\<rparr>, udsAddrChrony = [], udsAddrPtp4l = []\<rparr>"

definition row_ptp4l :: "json_members option \<Rightarrow> TimeBaseCfgFull \<Rightarrow> TimeBaseCfgFull option" where
  "row_ptp4l ptp4lObj row =
     (case ptp4lObj of None \<Rightarrow> Some row
      | Some obj \<Rightarrow>
          (case get_Chars_Val obj ''interfaceName'' None of None \<Rightarrow> None
           | Some ifn \<Rightarrow>
          (case get_Str_Val obj ''udsAddr'' (Some defaultUdsPtp4l) of None \<Rightarrow> None
           | Some uds \<Rightarrow>
          (case get_Int_Val obj ''domainNumber'' (Some 0) of None \<Rightarrow> None
           | Some dn \<Rightarrow>
          (case get_Int_Val obj ''transportSpecific'' (Some 0) of None \<Rightarrow> None
           | Some ts \<Rightarrow>
               Some (row\<lparr>udsAddrPtp4l := uds, cfg_base := (cfg_base row)\<lparr>cfg_interfaceName := ifn,
                 cfg_domainNumber := dn, cfg_transportSpecific := ts, cfg_havePtp := True\<rparr>\<rparr>))))))"

definition row_chrony :: "json_members option \<Rightarrow> TimeBaseCfgFull \<Rightarrow> TimeBaseCfgFull option" where
  "row_chrony chronyObj row =
     (case chronyObj of None \<Rightarrow> Some row
      | Some obj \<Rightarrow>
          (case get_Str_Val obj ''udsAddr'' (Some defaultUdsChrony) of None \<Rightarrow> None
           | Some uds \<Rightarrow>
               Some (row\<lparr>udsAddrChrony := uds, cfg_base := (cfg_base row)\<lparr>cfg_haveSys := True\<rparr>\<rparr>)))"

definition process_row :: "uint64_t \<Rightarrow> jsonValueBase \<Rightarrow> TimeBaseCfgFull option" where
  "process_row currentIndex it =
     (case getObj it of None \<Rightarrow> None
      | Some timeBaseObj \<Rightarrow>
          (case get_Chars_Val timeBaseObj ''timeBaseName'' None of None \<Rightarrow> None
           | Some name \<Rightarrow>
          (case row_ptp4l (obj_getObj ''ptp4l'' timeBaseObj)
                  (new_row\<lparr>cfg_base := (cfg_base new_row)\<lparr>cfg_timeBaseName := name\<rparr>\<rparr>) of None \<Rightarrow> None
           | Some row1 \<Rightarrow>
          (case row_chrony (obj_getObj ''chrony'' timeBaseObj) row1 of None \<Rightarrow> None
           | Some row2 \<Rightarrow> Some (row2\<lparr>cfg_base := (cfg_base row2)\<lparr>cfg_timeBaseIndex := currentIndex\<rparr>\<rparr>)))))"

fun process_rows :: "jsonValueBase list \<Rightarrow> uint64_t \<Rightarrow> bool \<times> TimeBaseCfgFull list" where
  "process_rows [] currentIndex = (True, [])"
| "process_rows (it # its) currentIndex =
     (case process_row currentIndex it of None \<Rightarrow> (False, [])
      | Some row \<Rightarrow> (case process_rows its (currentIndex + 1) of (ok, rows) \<Rightarrow> (ok, row # rows)))"

text \<open>
  The configurations the parser holds after \<^verbatim>\<open>process_json\<close>. The value of the file is taken for an
  object without a check: \<^term>\<open>None\<close> is the use of the null pointer when it is none.
\<close>

definition process_json :: "bool \<times> jsonValueBase option \<Rightarrow> (bool \<times> TimeBaseCfgFull list) option" where
  "process_json parsed =
     (case parsed of (False, main) \<Rightarrow> Some (False, [])
      | (True, main) \<Rightarrow>
          (case (case main of None \<Rightarrow> None | Some v \<Rightarrow> getObj v) of None \<Rightarrow> None
           | Some obj \<Rightarrow>
               (case obj_getArr ''timeBases'' obj of None \<Rightarrow> Some (False, [])
                | Some timeBaseArray \<Rightarrow> Some (process_rows timeBaseArray 1))))"

subsection \<open>What an accepted configuration has\<close>

definition cfg_text :: "octets \<Rightarrow> bool" where
  "cfg_text bs \<longleftrightarrow> length bs = STRING_SIZE_MAX \<and> bs ! 63 = 0"

definition row_ok :: "TimeBaseCfgFull \<Rightarrow> bool" where
  "row_ok row \<longleftrightarrow> cfg_text (cfg_timeBaseName (cfg_base row)) \<and> cfg_text (cfg_interfaceName (cfg_base row)) \<and>
     (cfg_havePtp (cfg_base row) \<longleftrightarrow> udsAddrPtp4l row \<noteq> []) \<and>
     (cfg_haveSys (cfg_base row) \<longleftrightarrow> udsAddrChrony row \<noteq> []) \<and>
     (hd (cfg_interfaceName (cfg_base row)) \<noteq> 0 \<longrightarrow> cfg_havePtp (cfg_base row))"

lemma cfg_text_copied: "cfg_text (strncpy_octets r)"
proof -
  have "length (take 63 (c_text r)) \<le> 63"
    by simp
  then show ?thesis
    by (simp add: cfg_text_def strncpy_octets_def STRING_SIZE_MAX_def Let_def nth_append)
qed

lemma cfg_text_zeros: "cfg_text (replicate STRING_SIZE_MAX 0)" "hd (replicate STRING_SIZE_MAX (0 :: uint8_t)) = 0"
  by (simp_all add: cfg_text_def STRING_SIZE_MAX_def)

lemma cfg_text_chars: "get_Chars_Val obj key d = Some bs \<Longrightarrow> cfg_text bs"
  by (auto simp: get_Chars_Val_def cfg_text_copied split: option.splits if_splits)

lemma get_Str_nonempty: "get_Str_Val obj key d = Some bs \<Longrightarrow> d \<noteq> Some [] \<Longrightarrow> bs \<noteq> []"
  by (auto simp: get_Str_Val_def split: option.splits if_splits)

lemma uds_nonempty [simp]: "defaultUdsPtp4l \<noteq> []" "defaultUdsChrony \<noteq> []"
  by (simp_all add: defaultUdsPtp4l_def defaultUdsChrony_def)

lemma row_ok_ptp4l:
  assumes "row_ptp4l obj row = Some row'" "row_ok row" "udsAddrPtp4l row = []"
  shows "row_ok row'"
  using assms
  by (auto simp: row_ptp4l_def row_ok_def cfg_text_chars split: option.splits dest: get_Str_nonempty)

lemma row_ok_chrony:
  assumes "row_chrony obj row = Some row'" "row_ok row"
  shows "row_ok row'"
  using assms by (auto simp: row_chrony_def row_ok_def split: option.splits dest: get_Str_nonempty)

lemma process_row_ok:
  assumes "process_row i it = Some row"
  shows "row_ok row" "cfg_timeBaseIndex (cfg_base row) = i"
proof -
  obtain obj name row1 row2 where r: "get_Chars_Val obj ''timeBaseName'' None = Some name"
      "row_ptp4l (obj_getObj ''ptp4l'' obj) (new_row\<lparr>cfg_base := (cfg_base new_row)\<lparr>cfg_timeBaseName := name\<rparr>\<rparr>) = Some row1"
      "row_chrony (obj_getObj ''chrony'' obj) row1 = Some row2"
      "row = row2\<lparr>cfg_base := (cfg_base row2)\<lparr>cfg_timeBaseIndex := i\<rparr>\<rparr>"
    using assms by (auto simp: process_row_def split: option.splits)
  have "row_ok row2"
    using row_ok_chrony [OF r(3) row_ok_ptp4l [OF r(2)]] cfg_text_chars [OF r(1)]
    by (auto simp: row_ok_def new_row_def cfg_text_zeros)
  then show "row_ok row" "cfg_timeBaseIndex (cfg_base row) = i"
    by (auto simp: r(4) row_ok_def)
qed

lemma process_rows_ok:
  "process_rows its i = (ok, rows) \<Longrightarrow> k < length rows \<Longrightarrow>
     row_ok (rows ! k) \<and> cfg_timeBaseIndex (cfg_base (rows ! k)) = i + of_nat k"
  by (induction its i arbitrary: ok rows k rule: process_rows.induct)
    (auto simp: nth_Cons' algebra_simps of_nat_diff split: option.splits prod.splits if_splits
      dest: process_row_ok)

lemma process_json_rows:
  assumes "process_json parsed = Some (ok, cfgs)" "k < length cfgs"
  shows "row_ok (cfgs ! k)" "cfg_timeBaseIndex (cfg_base (cfgs ! k)) = of_nat (k + 1)"
  using assms process_rows_ok [of _ 1 ok cfgs k]
  by (auto simp: process_json_def split: option.splits prod.splits bool.splits)

lemma row_ok_tbcfg: "row_ok row \<Longrightarrow> tbcfg_ok (cfg_base row)"
  by (simp add: row_ok_def cfg_text_def tbcfg_ok_def)

lemma cfg_text_zero: "cfg_text bs \<Longrightarrow> 0 \<in> set bs"
  by (auto simp: cfg_text_def STRING_SIZE_MAX_def in_set_conv_nth intro: exI [of _ 63])

lemma c_text_ends: "cfg_text bs \<Longrightarrow> c_text (bs @ cs) = c_text bs"
  using cfg_text_zero [of bs] by (simp add: c_text_def takeWhile_append1)

subsection \<open>What the proxy and the client make of it\<close>

text \<open>The indices of the time bases are different.\<close>

definition indices :: "TimeBaseCfgFull list \<Rightarrow> uint64_t list" where
  "indices cfgs = map (\<lambda>row. cfg_timeBaseIndex (cfg_base row)) cfgs"

lemma distinct_indices:
  assumes "process_json parsed = Some (ok, cfgs)" "length cfgs < 2 ^ 64"
  shows "distinct (indices cfgs)"
proof -
  have "j = k" if "j < length cfgs" "k < length cfgs" "indices cfgs ! j = indices cfgs ! k" for j k
  proof -
    have "(of_nat (j + 1) :: uint64_t) = of_nat (k + 1)"
      using that process_json_rows(2) [OF assms(1)] by (simp add: indices_def)
    then have "unat (of_nat (j + 1) :: uint64_t) = unat (of_nat (k + 1) :: uint64_t)"
      by simp
    moreover have "unat (of_nat (n + 1) :: uint64_t) = n + 1" if "n < length cfgs" for n
      using that assms(2) by (simp only: unsigned_of_nat) (simp add: take_bit_nat_eq_self)
    ultimately show ?thesis
      using that by simp
  qed
  then show ?thesis
    by (auto simp: distinct_conv_nth indices_def)
qed

lemma add_cfg_at: "addTimeBaseCfg cfg m i = (if i = cfg_timeBaseIndex cfg then addTimeBaseCfg cfg Map.empty i else m i)"
  by (simp add: addTimeBaseCfg_def Let_def)

lemma added_cfgs:
  "distinct (map cfg_timeBaseIndex cfgs) \<Longrightarrow> cfg \<in> set cfgs \<Longrightarrow>
     fold addTimeBaseCfg cfgs m (cfg_timeBaseIndex cfg) = addTimeBaseCfg cfg Map.empty (cfg_timeBaseIndex cfg)"
proof (induction cfgs arbitrary: m)
  case (Cons c cfgs)
  have "fold addTimeBaseCfg cs m i = m i" if "i \<notin> cfg_timeBaseIndex ` set cs" for cs m i
    using that by (induction cs arbitrary: m) (simp_all add: add_cfg_at [of _ _ i])
  then show ?case
    using Cons by (auto simp: add_cfg_at [of _ m])
qed simp

lemma record_of_row:
  assumes "row_ok row" "cfg = cfg_base row"
  shows "\<exists>r. addTimeBaseCfg cfg m (cfg_timeBaseIndex cfg) = Some r \<and> m_index r = cfg_timeBaseIndex cfg \<and>
    m_name r = c_text (cfg_timeBaseName cfg) \<and> m_have_ptp r = cfg_havePtp cfg \<and> m_have_sys r = cfg_haveSys cfg"
  using assms
  by (auto simp: addTimeBaseCfg_def Let_def c_text_ends row_ok_def new_TimeBaseRecord_def setPtp_def)

lemma registered:
  "registerSrv addr cfgs m i \<noteq> None \<longleftrightarrow>
     m i \<noteq> None \<or> (\<exists>row \<in> set cfgs. addr row \<noteq> [] \<and> cfg_timeBaseIndex (cfg_base row) = i)"
proof (induction cfgs arbitrary: m)
  case (Cons row cfgs)
  have "new_event j m i \<noteq> None \<longleftrightarrow> m i \<noteq> None \<or> i = j" for j
    by (auto simp: new_event_def split: option.splits)
  then show ?case
    using Cons [unfolded registerSrv_def] by (auto simp: registerSrv_def)
qed (simp add: registerSrv_def)

end
