(* ===== verification/Clk_End.thy ===== *)
theory Clk_End
  imports Clk_Calls
begin

text \<open>
  Clock manager, begin and end: the listener thread of \<^verbatim>\<open>common/msgq_tport.cpp\<close>, the end of all
  objects in \<^verbatim>\<open>common/termin.cpp\<close>, and the calls of \<^verbatim>\<open>client/clockmanager.cpp\<close> that connect and
  disconnect an application. What the system calls return is an argument.
\<close>

subsection \<open>The listener\<close>

text \<open>
  The members of \<^verbatim>\<open>Listener\<close> that outlive a thread: whether the thread is told to end, and whether
  the promise of its result is kept. The object is made once, and no function sets them back.
\<close>

record Listener =
  m_exitVal :: bool
  m_promised :: bool

definition new_Listener :: Listener where
  "new_Listener = \<lparr>m_exitVal = False, m_promised = False\<rparr>"

text \<open>
  \<^verbatim>\<open>dispatchLoop\<close>: for each message, whether \<^verbatim>\<open>MqListenerWork\<close> returned \<^verbatim>\<open>true\<close>, and whether the thread is
  told to end after it. The result is the value of the promise. When the promise was already kept,
  the exception of \<^verbatim>\<open>set_value_at_thread_exit\<close> terminates the program. A list that ends before the
  loop does leaves the thread running.
\<close>

datatype 'a thread_state = Running | Ended 'a | Terminated

definition keep_promise :: "bool \<Rightarrow> Listener \<Rightarrow> (bool \<times> Listener) thread_state" where
  "keep_promise promiseVal l = (if m_promised l then Terminated else Ended (promiseVal, l\<lparr>m_promised := True\<rparr>))"

fun dispatchLoop :: "(bool \<times> bool) list \<Rightarrow> Listener \<Rightarrow> (bool \<times> Listener) thread_state" where
  "dispatchLoop ws l =
     (if m_exitVal l then keep_promise True l
      else
        (case ws of [] \<Rightarrow> Running
         | (worked, told) # ws' \<Rightarrow>
             (let l1 = l\<lparr>m_exitVal := m_exitVal l \<or> told\<rparr>
              in if \<not> worked then keep_promise False l1 else dispatchLoop ws' l1)))"

declare dispatchLoop.simps [simp del]

lemma dispatchLoop_exit: "m_exitVal l \<Longrightarrow> dispatchLoop ws l = keep_promise True l"
  by (simp add: dispatchLoop.simps)

lemma dispatchLoop_ended: "dispatchLoop ws l = Ended (v, l') \<Longrightarrow> m_promised l' \<and> (v \<longrightarrow> m_exitVal l')"
proof (induction ws l rule: dispatchLoop.induct)
  case (1 ws l)
  show ?case
  proof (cases "m_exitVal l")
    case True
    then show ?thesis
      using "1.prems" by (auto simp: dispatchLoop_exit keep_promise_def split: if_splits)
  next
    case False
    then obtain worked told ws' where ws: "ws = (worked, told) # ws'"
      using "1.prems" by (cases ws) (auto simp: dispatchLoop.simps)
    show ?thesis
      using "1.prems" "1.IH" [OF False ws refl refl] False
      by (cases worked) (auto simp: ws dispatchLoop.simps [of "_ # _"] keep_promise_def Let_def split: if_splits)
  qed
qed

text \<open>A listener that was stopped once can not be started again: the program ends with an exception.\<close>

lemma second_run_terminates:
  assumes "dispatchLoop ws new_Listener = Ended (True, l)"
  shows "dispatchLoop ws' l = Terminated"
  using dispatchLoop_ended [OF assms] by (simp add: dispatchLoop_exit keep_promise_def)

subsection \<open>The end of all objects\<close>

record End =
  e_stop :: bool
  e_finalize :: bool

text \<open>\<^verbatim>\<open>stopAll\<close>: its result, and for each object whether its \<^verbatim>\<open>finalize\<close> was called.\<close>

fun finalize_all :: "bool \<Rightarrow> End list \<Rightarrow> bool \<times> bool list" where
  "finalize_all ret [] = (ret, [])"
| "finalize_all ret (e # es) =
     (if e_stop e \<and> ret
      then (case finalize_all (e_finalize e) es of (r, called) \<Rightarrow> (r, True # called))
      else (case finalize_all ret es of (r, called) \<Rightarrow> (r, False # called)))"

definition stopAll :: "End list \<Rightarrow> bool \<times> bool list" where
  "stopAll es = finalize_all (list_all e_stop es) es"

lemma finalize_none: "finalize_all False es = (False, replicate (length es) False)"
  by (induction es) simp_all

lemma finalize_result: "fst (finalize_all True es) = list_all (\<lambda>e. e_stop e \<longrightarrow> e_finalize e) es"
proof (induction es)
  case (Cons e es)
  show ?case
  proof (cases "e_finalize e")
    case True
    then show ?thesis
      using Cons by (auto split: prod.splits)
  next
    case False
    then show ?thesis
      using Cons by (auto simp: finalize_none split: prod.splits)
  qed
qed simp

text \<open>
  The result is that of the comment in the header. The calls are not: when one object can not stop,
  no object is finalized, and none behind the first that can not be finalized.
\<close>

lemma stopAll_result: "fst (stopAll es) \<longleftrightarrow> list_all (\<lambda>e. e_stop e \<and> e_finalize e) es"
proof (cases "list_all e_stop es")
  case True
  then show ?thesis
    using finalize_result [of es] by (auto simp: stopAll_def list_all_iff)
next
  case False
  then have "\<not> fst (stopAll es)"
    by (simp add: stopAll_def finalize_none)
  then show ?thesis
    using False by (auto simp: list_all_iff)
qed

lemma stopAll_no_finalize: "\<not> list_all e_stop es \<Longrightarrow> snd (stopAll es) = replicate (length es) False"
  by (simp add: stopAll_def finalize_none)

subsection \<open>Calls of the application\<close>

text \<open>
  \<^verbatim>\<open>ClientState::init\<close> opens the queues and starts the listener; it is \<^term>\<open>Some\<close> name of the queue
  when it succeeds. The first component of the state is \<^verbatim>\<open>doInit\<close>.
\<close>

definition manager_connect :: "host \<Rightarrow> (octets \<Rightarrow> bool) \<Rightarrow> octets option \<Rightarrow> round list \<Rightarrow> bool \<times> Client_State \<Rightarrow>
    (bool \<times> bool \<times> Client_State) option" where
  "manager_connect h sends init rs st =
     (case st of (doInit, c) \<Rightarrow>
        if doInit then map_option (\<lambda>(ok, c1, t). (ok, True, c1)) (client_connect h sends rs c no_time)
        else (case init of None \<Rightarrow> Some (False, False, c)
              | Some name \<Rightarrow>
                  map_option (\<lambda>(ok, c1, t). (ok, True, c1))
                    (client_connect h sends rs (c\<lparr>m_clientID := name, cl_listening := True\<rparr>) no_time)))"

definition manager_disconnect :: "host \<Rightarrow> (octets \<Rightarrow> bool) \<Rightarrow> End list \<Rightarrow> bool \<times> Client_State \<Rightarrow>
    bool \<times> bool \<times> Client_State" where
  "manager_disconnect h sends es st =
     (case st of (doInit, c) \<Rightarrow>
        if \<not> doInit then (True, doInit, c)
        else
          (case (if m_connected c then client_notifyDisconnect h sends c else (True, c)) of
             (False, c1) \<Rightarrow> (False, doInit, c1)
           | (True, c1) \<Rightarrow>
               (let ok = fst (stopAll es); c2 = c1\<lparr>cl_listening := False\<rparr>
                in if ok then (True, False, c2) else (False, doInit, c2))))"

definition getTimebaseCfgs :: "host \<Rightarrow> (octets \<Rightarrow> bool) \<Rightarrow> octets option \<Rightarrow> round list \<Rightarrow> bool \<times> Client_State \<Rightarrow>
    ((uint64_t \<rightharpoonup> TimeBaseRecord) \<times> bool \<times> Client_State) option" where
  "getTimebaseCfgs h sends init rs st =
     (if m_connected (snd st) then Some (m_cfgs (snd st), st)
      else map_option (\<lambda>(ok, st1). (m_cfgs (snd st1), st1)) (manager_connect h sends init rs st))"

text \<open>The connection a subscription makes first when there is none.\<close>

definition connect_first :: "host \<Rightarrow> (octets \<Rightarrow> bool) \<Rightarrow> octets option \<Rightarrow> round list \<Rightarrow> bool \<times> Client_State \<Rightarrow>
    (bool \<times> bool \<times> Client_State) option" where
  "connect_first h sends init rs st =
     (if m_connected (snd st) then Some (True, st)
      else map_option (\<lambda>(ok, st1). (m_connected (snd st1), st1)) (manager_connect h sends init rs st))"

definition ClockManager_subscribe :: "host \<Rightarrow> (octets \<Rightarrow> bool) \<Rightarrow> octets option \<Rightarrow> round list \<Rightarrow> round list \<Rightarrow> uint64_t \<Rightarrow>
    ClockSyncSubscription \<Rightarrow> ClockSyncData \<Rightarrow> bool \<times> Client_State \<Rightarrow> (bool \<times> ClockSyncData \<times> bool \<times> Client_State) option" where
  "ClockManager_subscribe h sends init rs rs2 timeBaseIndex newSub d st =
     (case connect_first h sends init rs st of None \<Rightarrow> None
      | Some (False, st1) \<Rightarrow> Some (False, d, st1)
      | Some (True, doInit, c) \<Rightarrow>
          map_option (\<lambda>(ok, c1, d1). (ok, d1, doInit, c1)) (manager_subscribe h sends rs2 timeBaseIndex newSub c d))"

definition subscribeByName :: "host \<Rightarrow> (octets \<Rightarrow> bool) \<Rightarrow> octets option \<Rightarrow> round list \<Rightarrow> round list \<Rightarrow> octets \<Rightarrow>
    ClockSyncSubscription \<Rightarrow> ClockSyncData \<Rightarrow> bool \<times> Client_State \<Rightarrow> (bool \<times> ClockSyncData \<times> bool \<times> Client_State) option" where
  "subscribeByName h sends init rs rs2 timeBaseName newSub d st =
     (case connect_first h sends init rs st of None \<Rightarrow> None
      | Some (False, st1) \<Rightarrow> Some (False, d, st1)
      | Some (True, doInit, c) \<Rightarrow>
          (case BaseNameToBaseIndex (m_cfgs c) timeBaseName of None \<Rightarrow> Some (False, d, doInit, c)
           | Some timeBaseIndex \<Rightarrow>
               map_option (\<lambda>(ok, c1, d1). (ok, d1, doInit, c1))
                 (manager_subscribe h sends rs2 timeBaseIndex newSub c d)))"

text \<open>After a successful call the application is as it wanted to be.\<close>

lemma connect_wait_connected:
  "connect_wait h sends rs c lct = Some (ok, c', lct') \<Longrightarrow> ok = m_connected c'"
  by (induction h sends rs c lct rule: connect_wait.induct) (auto simp: Let_def split: if_splits)

lemma manager_connect_connected:
  assumes "manager_connect h sends init rs st = Some (True, doInit, c')"
  shows "doInit \<and> m_connected c'"
  using assms by (auto simp: manager_connect_def client_connect_def split: prod.splits if_splits option.splits
      dest: connect_wait_connected)

lemma manager_disconnect_disconnected:
  assumes "manager_disconnect h sends es (doInit, c) = (True, doInit', c')" "doInit \<or> \<not> m_connected c"
  shows "\<not> doInit' \<and> \<not> m_connected c'"
  using assms by (auto simp: manager_disconnect_def client_notifyDisconnect_def Let_def
      split: if_splits option.splits prod.splits bool.splits)

end
