(* ===== verification/Clk_Threads.thy ===== *)
theory Clk_Threads
  imports Clk_Delivery "HOL-Library.Multiset"
begin

text \<open>
  The threads of the proxy. The listener, the thread of every service and the thread that ends
  the proxy call the operations of \<^verbatim>\<open>proxy/client.cpp\<close> at the same time. Each operation holds
  \<^verbatim>\<open>sessionMapLock\<close> or the \<^verbatim>\<open>clientListMutex\<close> of one time base, never for all of its work: what
  it does between taking and releasing a lock is one step here, and the steps of the threads
  come in any order. Any number of calls may be under way; that is more than the threads of
  the code have, so what holds here holds for them.
\<close>

subsection \<open>Calls under way\<close>

text \<open>
  What is left of a call: the insertion of a subscription whose session was found; the sessions
  a notification still has to send to and the ones it could not reach, with \<^verbatim>\<open>clientListMutex\<close>
  of the time base held for reading all along; sessions to remove; a session that was erased
  with the time bases it still has to be erased from, and the sessions to remove after it.
\<close>

datatype task =
    Subscribing uint64_t uint16_t
  | Notifying uint64_t "uint16_t list" "uint16_t list"
  | Removing "uint16_t list"
  | Erasing uint16_t "uint64_t list" "uint16_t list"

datatype proxy_act =
    Connects uint16_t octets
  | Checks uint64_t uint16_t
  | Inserts uint64_t uint16_t
  | Inserts_late uint64_t uint16_t
  | Copies uint64_t
  | Notifies uint64_t
  | Sends uint64_t uint16_t
  | Misses uint64_t uint16_t
  | Notified uint64_t
  | Removes "uint16_t list"
  | Erases_session uint16_t
  | Erases uint64_t uint16_t
  | Erased uint16_t
  | Disconnects
  | Finalizes

text \<open>The lock of the clients of a time base is free for writing when no notification holds it.\<close>

definition write_free :: "uint64_t \<Rightarrow> task multiset \<Rightarrow> bool" where
  "write_free i T \<longleftrightarrow> (\<forall>todo failed. Notifying i todo failed \<notin># T)"

definition inserts :: "uint64_t \<Rightarrow> uint16_t \<Rightarrow> Proxy \<Rightarrow> proxy_act" where
  "inserts i s P = (if existClient P s then Inserts i s else Inserts_late i s)"

text \<open>
  A step of a thread. \<^verbatim>\<open>Inserts_late\<close> is the insertion of a subscription whose session ended
  after it was found. A send to a transmitter may fail at any time.
\<close>

inductive thread_step :: "proxy_act \<Rightarrow> Proxy \<times> task multiset \<Rightarrow> Proxy \<times> task multiset \<Rightarrow> bool" where
  connect: "proxy_connect q s0 clid P = Some (s, P') \<Longrightarrow> thread_step (Connects s0 clid) (P, T) (P', T)"
| check: "subscribe_check i s P \<Longrightarrow> thread_step (Checks i s) (P, T) (P, add_mset (Subscribing i s) T)"
| insert: "write_free i T \<Longrightarrow>
    thread_step (inserts i s P) (P, add_mset (Subscribing i s) T) (subscribe_insert i s P, T)"
| copy_ptp: "timeBaseDataMap P i \<noteq> None \<Longrightarrow> thread_step (Copies i) (P, T) (copy_ptpEvent i ev P, T)"
| copy_chrony: "timeBaseDataMap P i \<noteq> None \<Longrightarrow> thread_step (Copies i) (P, T) (copy_chronyEvent i ce P, T)"
| notify: "timeBaseDataMap P i = Some d \<Longrightarrow>
    thread_step (Notifies i) (P, T)
      (P, add_mset (Notifying i (sorted_list_of_set (subscribedClients d)) []) T)"
| send: "getTransmitter P s \<noteq> None \<Longrightarrow>
    thread_step (Sends i s) (P, add_mset (Notifying i (s # todo) failed) T) (P, add_mset (Notifying i todo failed) T)"
| miss: "thread_step (Misses i s) (P, add_mset (Notifying i (s # todo) failed) T)
    (P, add_mset (Notifying i todo (failed @ [s])) T)"
| notified: "thread_step (Notified i) (P, add_mset (Notifying i [] failed) T) (P, add_mset (Removing failed) T)"
| remove: "thread_step (Removes ss) (P, T) (P, add_mset (Removing ss) T)"
| erase_session: "thread_step (Erases_session s) (P, add_mset (Removing (s # ss)) T)
    (remove_session s P, add_mset (Erasing s (time_bases P) ss) T)"
| erase: "write_free i T \<Longrightarrow> thread_step (Erases i s) (P, add_mset (Erasing s (i # is) ss) T)
    (remove_subscription s i P, add_mset (Erasing s is ss) T)"
| erased: "thread_step (Erased s) (P, add_mset (Erasing s [] ss) T) (P, add_mset (Removing ss) T)"
| removed: "thread_step (Removes []) (P, add_mset (Removing []) T) (P, T)"
| disconnect: "thread_step Disconnects (P, T)
    (P, add_mset (Removing (sorted_list_of_set (dom (sessionMap P)))) T)"
| finalize: "thread_step Finalizes (P, T) (removeAll_finalize P, T)"

inductive thread_run :: "Proxy \<times> task multiset \<Rightarrow> proxy_act list \<Rightarrow> Proxy \<times> task multiset \<Rightarrow> bool" where
  none: "thread_run X [] X"
| more: "thread_run X acts Y \<Longrightarrow> thread_step a Y Z \<Longrightarrow> thread_run X (acts @ [a]) Z"

text \<open>A client that was erased from the sessions and is still to be erased from a time base.\<close>

definition in_erasure :: "task multiset \<Rightarrow> uint64_t \<Rightarrow> uint16_t \<Rightarrow> bool" where
  "in_erasure T i s \<longleftrightarrow> (\<exists>is ss. Erasing s is ss \<in># T \<and> i \<in> set is)"

definition subscribed_to :: "Proxy \<Rightarrow> uint64_t \<Rightarrow> uint16_t \<Rightarrow> bool" where
  "subscribed_to P i s \<longleftrightarrow> (\<exists>d. timeBaseDataMap P i = Some d \<and> s \<in> subscribedClients d)"

definition numbers_ok :: "Proxy \<times> task multiset \<Rightarrow> bool" where
  "numbers_ok X \<longleftrightarrow> valid_id (nextSession (fst X)) \<and> (\<forall>s. existClient (fst X) s \<longrightarrow> valid_id s) \<and>
     (\<forall>i s. subscribed_to (fst X) i s \<or> Subscribing i s \<in># snd X \<longrightarrow> valid_id s)"

definition accounted :: "proxy_act list \<Rightarrow> Proxy \<times> task multiset \<Rightarrow> bool" where
  "accounted acts X \<longleftrightarrow> (\<forall>i s. subscribed_to (fst X) i s \<longrightarrow>
     existClient (fst X) s \<or> in_erasure (snd X) i s \<or> Inserts_late i s \<in> set acts \<or> Finalizes \<in> set acts)"

lemma subscribed_simps:
  "subscribed_to (subscribe_insert i s P) j t \<longleftrightarrow>
     subscribed_to P j t \<or> j = i \<and> t = s \<and> timeBaseDataMap P i \<noteq> None"
  "subscribed_to (remove_session s P) j t \<longleftrightarrow> subscribed_to P j t"
  "subscribed_to (remove_subscription s i P) j t \<longleftrightarrow> subscribed_to P j t \<and> \<not> (j = i \<and> t = s)"
  "subscribed_to (removeAll_finalize P) j t \<longleftrightarrow> subscribed_to P j t"
  by (auto simp: subscribed_to_def subscribe_insert_def remove_session_def remove_subscription_def removeAll_finalize_def)

lemma subscribed_copy:
  "timeBaseDataMap P i \<noteq> None \<Longrightarrow> subscribed_to (copy_ptpEvent i ev P) j t \<longleftrightarrow> subscribed_to P j t"
  "timeBaseDataMap P i \<noteq> None \<Longrightarrow> subscribed_to (copy_chronyEvent i ce P) j t \<longleftrightarrow> subscribed_to P j t"
  by (auto simp: subscribed_to_def copy_ptpEvent_def copy_chronyEvent_def)

lemma exist_simps:
  "existClient (subscribe_insert i s P) t \<longleftrightarrow> existClient P t"
  "existClient (remove_session s P) t \<longleftrightarrow> existClient P t \<and> t \<noteq> s"
  "existClient (remove_subscription s i P) t \<longleftrightarrow> existClient P t"
  "\<not> existClient (removeAll_finalize P) t"
  "existClient (copy_ptpEvent i ev P) t \<longleftrightarrow> existClient P t"
  "existClient (copy_chronyEvent i ce P) t \<longleftrightarrow> existClient P t"
  by (auto simp: existClient_def subscribe_insert_def remove_session_def remove_subscription_def
      removeAll_finalize_def copy_ptpEvent_def copy_chronyEvent_def)

lemma next_simps:
  "nextSession (subscribe_insert i s P) = nextSession P" "nextSession (remove_session s P) = nextSession P"
  "nextSession (remove_subscription s i P) = nextSession P" "nextSession (removeAll_finalize P) = nextSession P"
  "nextSession (copy_ptpEvent i ev P) = nextSession P" "nextSession (copy_chronyEvent i ce P) = nextSession P"
  by (simp_all add: subscribe_insert_def remove_session_def remove_subscription_def
      removeAll_finalize_def copy_ptpEvent_def copy_chronyEvent_def)

lemmas op_simps = subscribed_simps subscribed_copy exist_simps next_simps

lemma connect_grows:
  assumes "proxy_connect q s0 clid P = Some (s, P')" "valid_id (nextSession P)"
  shows "valid_id (nextSession P')" and "subscribed_to P' i t \<longleftrightarrow> subscribed_to P i t"
    and "existClient P t \<Longrightarrow> existClient P' t" and "existClient P' t \<Longrightarrow> existClient P t \<or> valid_id t"
  using assms CreateClientSession_Some [of q clid P s P']
  by (fastforce simp: proxy_connect_def existClient_def subscribed_to_def split: if_splits)+

lemma numbers_step: "thread_step a X Y \<Longrightarrow> numbers_ok X \<Longrightarrow> numbers_ok Y"
proof (induction rule: thread_step.induct)
  case (connect q s0 clid P s P' T)
  then show ?case
    using connect_grows [OF connect.hyps] unfolding numbers_ok_def fst_conv snd_conv by blast
next
  case (check i s P T)
  then show ?case
    by (auto simp: numbers_ok_def subscribe_check_def)
qed (auto simp: numbers_ok_def op_simps)

lemma in_erasure_add:
  "in_erasure (add_mset t T) i s \<longleftrightarrow> (\<exists>is ss. t = Erasing s is ss \<and> i \<in> set is) \<or> in_erasure T i s"
  by (auto simp: in_erasure_def)

lemma accounted_step: "thread_step a X Y \<Longrightarrow> numbers_ok X \<Longrightarrow> accounted acts X \<Longrightarrow> accounted (acts @ [a]) Y"
proof (induction rule: thread_step.induct)
  case (connect q s0 clid P s P' T)
  then show ?case
    using connect_grows [OF connect.hyps] unfolding numbers_ok_def accounted_def fst_conv snd_conv set_append
    by blast
next
  case (erase_session s P ss T)
  then show ?case
    by (auto simp: accounted_def op_simps in_erasure_add) (auto simp: subscribed_to_def)
qed (auto simp: accounted_def op_simps in_erasure_add inserts_def)

lemma thread_run_ok:
  assumes "thread_run X acts Y" "numbers_ok X" "accounted [] X"
  shows "numbers_ok Y \<and> accounted acts Y"
  using assms by (induction rule: thread_run.induct) (auto intro: numbers_step accounted_step)

lemma threads_start:
  "numbers_ok (new_Proxy hc cfgs, {#})" "accounted [] (new_Proxy hc cfgs, {#})"
  using proxy_ok_new [of hc cfgs]
  by (auto simp: numbers_ok_def accounted_def proxy_ok_def subscribed_to_def)

subsection \<open>Calls one after the other\<close>

text \<open>
  The operations of \<open>Clk_Proxy\<close> are runs of a single thread: from no call under way to no call
  under way, without a late insertion.
\<close>

definition quiet :: "proxy_act \<Rightarrow> bool" where
  "quiet a \<longleftrightarrow> a \<noteq> Finalizes \<and> (\<forall>i s. a \<noteq> Inserts_late i s)"

definition quiet_run :: "Proxy \<times> task multiset \<Rightarrow> Proxy \<times> task multiset \<Rightarrow> bool" where
  "quiet_run X Y \<longleftrightarrow> (\<exists>acts. thread_run X acts Y \<and> (\<forall>a \<in> set acts. quiet a))"

lemma thread_run_trans: "thread_run Y bs Z \<Longrightarrow> thread_run X as Y \<Longrightarrow> thread_run X (as @ bs) Z"
  by (induction rule: thread_run.induct) (auto simp flip: append_assoc intro: thread_run.intros)

lemma quiet_refl [simp]: "quiet_run X X"
  unfolding quiet_run_def by (intro exI [of _ "[]"]) (simp add: thread_run.none)

lemma quiet_trans [trans]: "quiet_run X Y \<Longrightarrow> quiet_run Y Z \<Longrightarrow> quiet_run X Z"
  unfolding quiet_run_def by (metis Un_iff set_append thread_run_trans)

lemma quiet_step: "thread_step a X Y \<Longrightarrow> quiet a \<Longrightarrow> quiet_run X Y"
  unfolding quiet_run_def using thread_run.more [OF thread_run.none]
  by (metis append_Nil empty_iff empty_set set_ConsD)

lemma quiet_steps:
  "proxy_connect q s0 clid P = Some (s, P') \<Longrightarrow> quiet_run (P, T) (P', T)"
  "timeBaseDataMap P i \<noteq> None \<Longrightarrow> quiet_run (P, T) (copy_ptpEvent i ev P, T)"
  "timeBaseDataMap P i \<noteq> None \<Longrightarrow> quiet_run (P, T) (copy_chronyEvent i ce P, T)"
  "timeBaseDataMap P i = Some d \<Longrightarrow>
     quiet_run (P, T) (P, add_mset (Notifying i (sorted_list_of_set (subscribedClients d)) []) T)"
  "quiet_run (P, add_mset (Notifying i [] failed) T) (P, add_mset (Removing failed) T)"
  "quiet_run (P, T) (P, add_mset (Removing ss) T)"
  "quiet_run (P, add_mset (Removing []) T) (P, T)"
  by (rule quiet_step, rule thread_step.intros, assumption?, simp add: quiet_def)+

lemma quiet_subscribe:
  assumes "proxy_subscribe i s P = (ok, P')"
  shows "quiet_run (P, {#}) (P', {#})"
proof (cases "subscribe_check i s P")
  case True
  then have "quiet_run (P, {#}) (P, {#Subscribing i s#})"
    by (intro quiet_step [OF thread_step.check]) (simp_all add: quiet_def)
  also have "quiet_run \<dots> (subscribe_insert i s P, {#})"
    using True by (intro quiet_step [OF thread_step.insert])
      (simp_all add: quiet_def write_free_def inserts_def subscribe_check_def)
  finally show ?thesis
    using True assms by (simp add: proxy_subscribe_def)
qed (use assms in \<open>simp add: proxy_subscribe_def\<close>)

lemma quiet_erase:
  "quiet_run (P, {#Erasing s is ss#}) (fold (remove_subscription s) is P, {#Erasing s [] ss#})"
proof (induction "is" arbitrary: P)
  case (Cons i js)
  have "quiet_run (P, {#Erasing s (i # js) ss#}) (remove_subscription s i P, {#Erasing s js ss#})"
    by (intro quiet_step [OF thread_step.erase]) (simp_all add: quiet_def write_free_def)
  from quiet_trans [OF this Cons] show ?case
    by simp
qed simp

lemma quiet_removes: "quiet_run (P, {#Removing ss#}) (fold removeClient ss P, {#})"
proof (induction ss arbitrary: P)
  case (Cons s ss)
  have "quiet_run (P, {#Removing (s # ss)#}) (remove_session s P, {#Erasing s (time_bases P) ss#})"
    by (intro quiet_step [OF thread_step.erase_session]) (simp add: quiet_def)
  also have "quiet_run \<dots> (removeClient s P, {#Erasing s [] ss#})"
    unfolding removeClient_def by (rule quiet_erase)
  also have "quiet_run \<dots> (removeClient s P, {#Removing ss#})"
    by (intro quiet_step [OF thread_step.erased]) (simp add: quiet_def)
  also note Cons
  finally show ?case
    by simp
qed (simp add: quiet_steps)

lemma quiet_sends:
  "quiet_run (P, {#Notifying i ss failed#})
     (P, {#Notifying i [] (failed @ filter (\<lambda>s. \<not> reached q bs (getTransmitter P) s) ss)#})"
proof (induction ss arbitrary: failed)
  case (Cons s ss)
  show ?case
  proof (cases "reached q bs (getTransmitter P) s")
    case True
    then have "quiet_run (P, {#Notifying i (s # ss) failed#}) (P, {#Notifying i ss failed#})"
      by (intro quiet_step [OF thread_step.send]) (auto simp: quiet_def reached_def)
    from quiet_trans [OF this Cons] show ?thesis
      using True by simp
  next
    case False
    have "quiet_run (P, {#Notifying i (s # ss) failed#}) (P, {#Notifying i ss (failed @ [s])#})"
      by (intro quiet_step [OF thread_step.miss]) (simp add: quiet_def)
    from quiet_trans [OF this Cons] show ?thesis
      using False by simp
  qed
qed simp

lemma quiet_notify: "quiet_run (P, {#}) (snd (notifyClients h q b i t P), {#})"
proof (cases "timeBaseDataMap P i")
  case (Some d)
  let ?ss = "sorted_list_of_set (subscribedClients d)"
  have "quiet_run (P, {#}) (fold removeClient (filter (\<lambda>s. \<not> reached q bs (getTransmitter P) s) ?ss) P, {#})" for bs
  proof -
    have "quiet_run (P, {#}) (P, {#Notifying i ?ss []#})"
      using quiet_steps(4) [OF Some, of "{#}"] by simp
    also note quiet_sends [of P i ?ss "[]" q bs]
    also note quiet_steps(5) [of P i _ "{#}"]
    also note quiet_removes
    finally show ?thesis
      by simp
  qed
  then show ?thesis
    using Some by (auto simp: notifyClients_def Let_def case_prod_beta send_to_reached split: bool.split)
qed (simp add: notifyClients_def)

lemma quiet_stop: "quiet_run (P, {#}) (snd (proxy_notifyDisconnect h q b P), {#})"
proof -
  have "quiet_run (P, {#}) (fold removeClient ss P, {#})" for ss
    using quiet_trans [OF quiet_steps(6) quiet_removes] by simp
  then show ?thesis
    by (auto simp: proxy_notifyDisconnect_def Let_def split: prod.split bool.split)
qed

lemma quiet_tail: "proxy_parseTail q msg b P = Some (ok, msg', P') \<Longrightarrow> quiet_run (P, {#}) (P', {#})"
proof (cases b)
  case DisconnectMessage
  then show "proxy_parseTail q msg b P = Some (ok, msg', P') \<Longrightarrow> ?thesis"
    using quiet_trans [OF quiet_steps(6) quiet_removes, of P "[m_sessionId msg]"] by auto
qed (auto split: option.splits prod.splits bool.splits if_splits dest: quiet_steps(1) quiet_subscribe)

lemma steps_are_runs: "proxy_step h P msgs P' \<Longrightarrow> quiet_run (P, {#}) (P', {#})"
proof (induction rule: proxy_step.induct)
  case (message q bs P ok msgs P')
  then show ?case
    by (auto simp: proxy_work_def Let_def split: option.splits prod.splits bool.splits if_splits dest: quiet_tail)
next
  case (ptp P i q b ev msgs P')
  then show ?case
    using quiet_trans [OF quiet_steps(2) quiet_notify, of P i] by (metis snd_conv)
next
  case (chrony P i q b ev msgs P')
  then show ?case
    using quiet_trans [OF quiet_steps(3) quiet_notify, of P i] by (metis snd_conv)
next
  case (stop q b P msgs P')
  then show ?case
    using quiet_stop by (metis snd_conv)
qed

lemma reach_is_run: "proxy_reach h cfgs P \<Longrightarrow> \<exists>hc. quiet_run (new_Proxy hc cfgs, {#}) (P, {#})"
proof (induction rule: proxy_reach.induct)
  case (step P msgs P')
  then show ?case
    using quiet_trans [OF _ steps_are_runs] by blast
qed (blast intro: quiet_refl)

end
