(* ===== verification/Clk_System.thy ===== *)
theory Clk_System
  imports Clk_Waits Clk_Services Msg_Echo Clk_Config Clk_End Clk_Threads
begin

unbundle bit_operations_syntax

text \<open>
  The clock manager as a whole: the properties of configuration, proxy, services, client and
  their messages, each with an instance.
\<close>

subsection \<open>Helpers\<close>

definition counted_total :: "(TimeBaseState \<Rightarrow> uint32_t) \<Rightarrow> int32_t \<Rightarrow> states_op list \<Rightarrow> TimeBaseStates \<Rightarrow> uint32_t" where
  "counted_total cnt k ops m =
     sum_list (map cnt (reads_at k (fst (states_run ops m)))) +
     (case snd (states_run ops m) k of None \<Rightarrow> 0 | Some s \<Rightarrow> cnt s)"

definition told_at :: "(notification \<Rightarrow> 'v option) \<Rightarrow> int32_t \<Rightarrow> states_op list \<Rightarrow> 'v list" where
  "told_at f k ops = List.map_filter f (notified (events_at k ops))"

lemma counted_total_run:
  assumes "m k = Some s"
    and "sum_list (map cnt (fst (tb_run (events_at k ops) s))) + cnt (snd (tb_run (events_at k ops) s)) = r"
  shows "counted_total cnt k ops m = r"
  using states_run_at [of m k s ops] assms by (simp add: counted_total_def)

text \<open>A small index is not changed by the conversions to \<^verbatim>\<open>int\<close> and back.\<close>

lemma int_index_small:
  assumes "unat i < 2 ^ 31"
  shows "int_index i = i"
proof -
  have i: "uint i < 2 ^ 31"
    using assms by (metis int_nat_eq of_nat_less_iff of_nat_numeral of_nat_power uint_ge_0 unat_eq_nat_uint)
  have "uint (ucast i :: int32_t) = take_bit 32 (uint i)"
    by (simp add: unsigned_ucast_eq)
  also have "\<dots> = uint i"
    using i by (simp add: take_bit_int_eq_self_iff)
  finally have "sint (ucast i :: int32_t) = signed_take_bit 31 (uint i)"
    by (simp add: sint_uint)
  also have "\<dots> = uint i"
    using i by (intro signed_take_bit_int_eq_self) (simp_all add: order_trans [OF _ uint_ge_0])
  finally show ?thesis
    by (simp add: int_index_def scast_eq)
qed

lemma valid_transmitter: "proxy_ok P \<Longrightarrow> existClient P s \<Longrightarrow> getTransmitter P s = sessionMap P s"
  by (auto simp: getTransmitter_def proxy_ok_def)



lemma still_subscribed:
  assumes "buffer_ok b" "timeBaseDataMap P i = Some d" "bs = notification_octets h P t (int_index i)"
    and "notifyClients h q b i t P = (msgs, P')" "timeBaseDataMap P' i = Some d'" "sid \<in> subscribedClients d'"
  shows "\<exists>tx. getTransmitter P sid = Some tx \<and> (tx, bs) \<in> set msgs"
proof -
  note eq = notifyClients_eq [OF assms(1-3), of q]
  let ?gone = "filter (\<lambda>s. \<not> reached q bs (getTransmitter P) s) (sorted_list_of_set (subscribedClients d))"
  have "P' = fold removeClient ?gone P"
    using eq(2) assms(4) by simp
  then have "sid \<in> subscribedClients d" "sid \<notin> set ?gone"
    using removes_data [of ?gone P i] assms(2,5,6) by auto
  then show ?thesis
    using eq(1) assms(4) by (auto simp: reached_def)
qed

lemma notification_sent:
  assumes "proxy_ok P" "buffer_ok b" "timeBaseDataMap P i = Some d" "sid \<in> subscribedClients d"
    and "sessionMap P sid = Some tx" "\<And>bs. mq_sends q tx bs"
  shows "(tx, notification_octets h P t (int_index i)) \<in> set (fst (notifyClients h q b i t P))"
proof -
  have "getTransmitter P sid = Some tx"
    using valid_transmitter [OF assms(1)] assms(5) by (simp add: existClient_def)
  then show ?thesis
    using assms(4,6) by (auto simp: notifyClients_eq(1) [OF assms(2,3) refl])
qed

lemma copied_ptp:
  "timeBaseDataMap P i = Some d \<Longrightarrow> timeBaseDataMap (copy_ptpEvent i ev P) i = Some (d\<lparr>td_ptpEvent := ev\<rparr>)"
  "sessionMap (copy_ptpEvent i ev P) = sessionMap P" "getPTPEvent (copy_ptpEvent i ev P) i = ev"
  by (simp_all add: copy_ptpEvent_def getPTPEvent_def)

lemma copied_chrony:
  "timeBaseDataMap P i = Some d \<Longrightarrow> timeBaseDataMap (copy_chronyEvent i ce P) i = Some (d\<lparr>td_chronyEvent := ce\<rparr>)"
  "sessionMap (copy_chronyEvent i ce P) = sessionMap P" "getChronyEvent (copy_chronyEvent i ce P) i = ce"
  by (simp_all add: copy_chronyEvent_def getChronyEvent_def)

text \<open>The message of an event of ptp4l, for a subscribed client.\<close>

lemma ptp_event_sent:
  assumes "proxy_ok P" "buffer_ok b" "timeBaseDataMap P i = Some d" "sid \<in> subscribedClients d"
    and "sessionMap P sid = Some tx" "\<And>bs. mq_sends q tx bs" "unat i < 2 ^ 31"
  shows "(tx, ptp_notification h i ev) \<in> set (fst (notifyClients h q b i PTPClock (copy_ptpEvent i ev P)))"
  using notification_sent [OF proxy_ok_copy(1) [OF assms(1)] assms(2) copied_ptp(1) [OF assms(3), of ev] _ _ assms(6),
      where sid = sid and h = h and t = PTPClock] assms(4,5)
  by (simp add: int_index_small [OF assms(7)] copied_ptp notification_octets_eqs)

lemma chrony_event_sent:
  assumes "proxy_ok P" "buffer_ok b" "timeBaseDataMap P i = Some d" "sid \<in> subscribedClients d"
    and "sessionMap P sid = Some tx" "\<And>bs. mq_sends q tx bs" "unat i < 2 ^ 31"
  shows "(tx, sys_notification h i ce) \<in> set (fst (notifyClients h q b i SysClock (copy_chronyEvent i ce P)))"
  using notification_sent [OF proxy_ok_copy(2) [OF assms(1)] assms(2) copied_chrony(1) [OF assms(3), of ce] _ _ assms(6),
      where sid = sid and h = h and t = SysClock] assms(4,5)
  by (simp add: int_index_small [OF assms(7)] copied_chrony notification_octets_eqs)

text \<open>The message of ptp4l is parsed and its data is at hand.\<close>

lemma received_time_status:
  assumes "reply_header hdr" "0xf AND actionField hdr = RESPONSE"
    and "implementSpecific (m_prms m) = linuxptp" "\<not> m_haveAuth m" "pe_mem env" "valid_tlv (TIME_STATUS_NP_v t)"
    and bs_def: "bs = mng_octets hdr TIME_STATUS_NP (even_pad (enc_tlv (TIME_STATUS_NP_v t))) 0"
  shows "parse env m bs (int (length bs)) =
    (MNG_PARSE_ERROR_OK, rcv_header hdr m\<lparr>m_mngType := MANAGEMENT, m_replyAction := RESPONSE,
       m_replayTlv_id := TIME_STATUS_NP, m_dataGet := Some (TIME_STATUS_NP_v t)\<rparr>)"
proof -
  let ?data = "even_pad (enc_tlv (TIME_STATUS_NP_v t))"
  have sz: "length ?data = 50" "enc_tlv (TIME_STATUS_NP_v t) \<noteq> []"
    using assms(6) by (auto simp: enc_TIME_STATUS_NP_def length_even_pad valid_TIME_STATUS_NP_def valid_ClockIdentity_def)
  have len: "length bs = mngMsgBaseSize + length ?data"
    using assms(1) unfolding bs_def by (intro length_mng_octets) (simp_all add: reply_header_def)
  have "auth_passed (pe_hmac env) m (bs @ []) (mngMsgBaseSize + length ?data) 0"
    using assms(4) by (simp add: auth_passed_def)
  then show ?thesis
    using parse_reply [OF assms(1,6) _ _ sz(2) assms(2) [symmetric], where i = TIME_STATUS_NP and m = m and k = 0 and
        bufSize = "int (length bs)" and env = env and r = "[]"] assms(3,5) len sz
    by (simp add: bs_def msg_sizes) (simp add: checkReplyAction_def mng_allowed_def row_def allow_bits action_defs)
qed

text \<open>Any number of runs of the services of ptp4l and chrony leads to a reachable proxy again.\<close>

lemma services_reach:
  assumes "proxy_reach h cfgs P"
  shows "ptp4l.runs h s P s' P' \<Longrightarrow> timeBaseDataMap P (ps_index s) \<noteq> None \<Longrightarrow> proxy_reach h cfgs P'"
    and "chrony.runs h t P t' P'' \<Longrightarrow> timeBaseDataMap P (cs_index t) \<noteq> None \<Longrightarrow> proxy_reach h cfgs P''"
  using assms ptp4l.runs_reach chrony.runs_reach by blast+

subsection \<open>Events of a client\<close>

text \<open>
  C19: the counters of a time base count every change once. Take any sequence of notifications
  and reads of the time bases of a client, and one time base with its subscriptions. For each
  kind of event the client subscribed to, what the reads gave and what is left after them is,
  together, the number of changes along the values the notifications told, on top of the count
  at the start.
\<close>

theorem events_are_counted:
  assumes "m k = Some s" "observing p q s"
  shows "(wants EventOffsetInRange p \<longrightarrow>
      counted_total (\<lambda>s. offsetInRangeCount (ptpEventState s)) k ops m =
        offsetInRangeCount (ptpEventState s) +
        of_nat (changes (offsetInRange (ptpEventState s)) (told_at (told_offset p) k ops))) \<and>
    (wants EventSyncedWithGm p \<longrightarrow>
      counted_total (\<lambda>s. syncedWithGmCount (ptpEventState s)) k ops m =
        syncedWithGmCount (ptpEventState s) +
        of_nat (changes (syncedWithGm (ptpEventState s)) (told_at told_synced k ops))) \<and>
    (wants EventGmChanged p \<longrightarrow>
      counted_total (\<lambda>s. gmChangedCount (ptpEventState s)) k ops m =
        gmChangedCount (ptpEventState s) +
        of_nat (changes (gmClockUUID (ptpEventState s)) (told_at told_gm k ops))) \<and>
    (wants EventAsCapable p \<longrightarrow>
      counted_total (\<lambda>s. asCapableCount (ptpEventState s)) k ops m =
        asCapableCount (ptpEventState s) +
        of_nat (changes (isAsCapable (ptpEventState s)) (told_at told_as k ops))) \<and>
    (wants_composite p \<longrightarrow>
      counted_total (\<lambda>s. compositeEventCount (ptpEventState s)) k ops m =
        compositeEventCount (ptpEventState s) +
        of_nat (changes (compositeEvent (ptpEventState s)) (told_at (told_composite p) k ops))) \<and>
    (wants EventOffsetInRange q \<longrightarrow>
      counted_total (\<lambda>s. offsetInRangeCount (sysEventState s)) k ops m =
        offsetInRangeCount (sysEventState s) +
        of_nat (changes (offsetInRange (sysEventState s)) (told_at (told_sys_offset q) k ops)))"
  unfolding told_at_def using assms(2)
  by (intro conjI impI)
    (rule counted_total_run [where s = s and m = m, OF assms(1)],
      blast intro: offset_count.counts_changes synced_count.counts_changes gm_count.counts_changes
        as_count.counts_changes composite_count.counts_changes sys_offset_count.counts_changes)+

definition ex_sub :: PTPClockSubscription where
  "ex_sub = \<lparr>clockOffsetThreshold = 100, eventMask = 15, m_composite_event_mask = 7\<rparr>"

definition ex_state :: TimeBaseState where
  "ex_state = new_TimeBaseState\<lparr>subscribed := True, ptpEventSub := ex_sub,
     sysEventSub := \<lparr>clockOffsetThreshold = 0, eventMask = 0\<rparr>\<rparr>"

definition ex_event :: "int64_t \<Rightarrow> bool \<Rightarrow> ptp_event" where
  "ex_event v b = \<lparr>ev_clockOffset = v, ev_gmClockUUID = 7, ev_syncInterval = 0,
     ev_asCapable = True, ev_syncedWithGm = b\<rparr>"

definition ex_ops :: "states_op list" where
  "ex_ops = [Tell_ptp None 1 (ex_event 50 True), Read 1, Tell_ptp None 1 (ex_event 500 True),
     Tell_ptp None 2 (ex_event 500 True), Tell_ptp None 1 (ex_event 20 False), Read 1]"

lemma ex_observing: "observing ex_sub \<lparr>clockOffsetThreshold = 0, eventMask = 0\<rparr> ex_state"
  by (simp add: observing_def offset_known_def inThreshold_def ex_state_def ex_sub_def
      new_TimeBaseState_def new_PTPClockEvent_def new_SysClockEvent_def ClockEventBase.defs PTPClockEvent.defs)

theorem events_are_counted_witness:
  "observing ex_sub \<lparr>clockOffsetThreshold = 0, eventMask = 0\<rparr> ex_state \<and>
   counted_total (\<lambda>s. offsetInRangeCount (ptpEventState s)) 1 ex_ops [1 \<mapsto> ex_state] = 2 \<and>
   counted_total (\<lambda>s. syncedWithGmCount (ptpEventState s)) 1 ex_ops [1 \<mapsto> ex_state] = 2 \<and>
   counted_total (\<lambda>s. gmChangedCount (ptpEventState s)) 1 ex_ops [1 \<mapsto> ex_state] = 1"
  using events_are_counted [of "[1 \<mapsto> ex_state]" 1 ex_state, OF _ ex_observing, of ex_ops] ex_observing
  by (simp add: wants_def ex_sub_def event_bits told_at_def ex_ops_def key_of_def ex_event_def
      List.map_filter_simps inThreshold_def ex_state_def new_TimeBaseState_def new_PTPClockEvent_def
      new_SysClockEvent_def ClockEventBase.defs PTPClockEvent.defs)

text \<open>
  C14: a client that waits is told of every change. The client is connected and subscribed to
  the time base, and waits in turns in which only notifications arrive and the proxy is alive.
  When the notifications that arrive up to the read of the last turn change an observed value,
  even for a moment, then \<^verbatim>\<open>statusWait\<close> returns \<^verbatim>\<open>SWREventDetected\<close> with the data of the time
  base, whatever may follow these turns, and the counts start again.
\<close>

theorem change_ends_the_wait:
  assumes "m_connected c" "cl_listening c"
    and "timeBaseStateMap c (key_of i) = Some s" "subscribed s"
    and "calm_turns lct (key_of i) (ts @ [t]) s"
    and "some_change (arriving (key_of i) ts @ before_read (key_of i) t) s"
  shows "\<exists>c' st. statusWait h sends (map (turn_of h) (ts @ [t]) @ rest) i c lct d =
      Some (SWREventDetected, c', lct, updateAll st d) \<and> event_changed st \<and>
      timeBaseStateMap c' (key_of i) = Some (reset_events st)"
  using wait_ends [OF assms(1-3,5), of h sends rest d] assms
  by (simp add: statusWait_def getSubscribed_def)

definition ex_client :: Client_State where
  "ex_client = (new_Client_State [])\<lparr>m_connected := True, timeBaseStateMap := [1 \<mapsto> ex_state]\<rparr>"

definition ex_turn :: calm where
  "ex_turn = \<lparr>cm_start = [Note_ptp (Some \<lparr>tv_sec = 5, tv_nsec = 0\<rparr>) 1 (ex_event 50 True)], cm_connected = [],
     cm_read = [], cm_now = \<lparr>tv_sec = 5, tv_nsec = 3000000\<rparr>, cm_alive = []\<rparr>"

definition ex_data :: ClockSyncData where
  "ex_data = \<lparr>ptpClockSync = new_PTPClockEvent, sysClockSync = new_SysClockEvent,
     ptpAvailable = False, sysAvailable = False\<rparr>"

definition ex_host :: host where
  "ex_host = \<lparr>big_endian = False, filler = []\<rparr>"

lemma ex_notes: "notes_at 1 (cm_start ex_turn) = [Ptp (Some \<lparr>tv_sec = 5, tv_nsec = 0\<rparr>) (ex_event 50 True)]"
  by (simp add: ex_turn_def key_of_def)

lemma ex_turn_calm: "calm_turns no_time 1 [ex_turn] ex_state"
proof -
  have "last_notification_time (reset_events (notify_ptp (Some u) n s)) = u" for u n s
    by (simp add: reset_fields notify_ptp_def Let_def case_prod_beta)
  then show ?thesis
    by (simp add: calm_turns_Cons before_read_def ex_notes)
      (simp add: ex_turn_def recent_def timespec_delta_def DEFAULT_LIVENESS_TIMEOUT_IN_MS_def)
qed

lemma ex_turn_changes: "some_change (arriving 1 [] @ before_read 1 ex_turn) ex_state"
proof -
  have "observed (fold notify (take 1 (before_read 1 ex_turn)) ex_state) \<noteq> observed ex_state"
    by (simp add: before_read_def ex_notes) (simp add: ex_turn_def observed_def notify_fields
        ptp_blocks_values wants_def ex_sub_def ex_state_def event_bits ex_event_def new_TimeBaseState_def
        new_PTPClockEvent_def new_SysClockEvent_def ClockEventBase.defs PTPClockEvent.defs)
  then show ?thesis
    by (auto simp: some_change_def arriving_def)
qed

theorem change_ends_the_wait_witness:
  "\<exists>c' st. statusWait ex_host (\<lambda>bs. True) (map (turn_of ex_host) ([] @ [ex_turn]) @ []) 1 ex_client no_time ex_data =
      Some (SWREventDetected, c', no_time, updateAll st ex_data) \<and> event_changed st \<and>
      timeBaseStateMap c' (key_of 1) = Some (reset_events st)"
proof (rule change_ends_the_wait)
  have k: "key_of 1 = 1"
    by (simp add: key_of_def)
  show "m_connected ex_client" "cl_listening ex_client"
    "timeBaseStateMap ex_client (key_of 1) = Some ex_state" "subscribed ex_state"
    by (simp_all add: ex_client_def ex_state_def new_Client_State_def k)
  show "calm_turns no_time (key_of 1) ([] @ [ex_turn]) ex_state"
    "some_change (arriving (key_of 1) [] @ before_read (key_of 1) ex_turn) ex_state"
    using ex_turn_calm ex_turn_changes by (simp_all add: k)
qed

subsection \<open>Sessions of the proxy\<close>


definition ex_cfg :: TimeBaseCfgFull where
  "ex_cfg = \<lparr>cfg_base = \<lparr>cfg_timeBaseIndex = 1, cfg_timeBaseName = 71 # replicate 63 0,
     cfg_interfaceName = 101 # replicate 63 0, cfg_transportSpecific = 1, cfg_domainNumber = 0,
     cfg_haveSys = False, cfg_havePtp = True\<rparr>, udsAddrChrony = [], udsAddrPtp4l = [47]\<rparr>"

lemma ex_cfg_ok: "tbcfg_ok (cfg_base ex_cfg)"
  by (simp add: ex_cfg_def tbcfg_ok_def STRING_SIZE_MAX_def)

definition ex_proxy :: Proxy where
  "ex_proxy = new_Proxy False [ex_cfg]"

definition ex_queues :: queues where
  "ex_queues = \<lparr>mq_opens = (\<lambda>n. True), mq_sends = (\<lambda>n bs. True)\<rparr>"

lemma ex_no_session: "sessionMap ex_proxy s = None" "nextSession ex_proxy = 0"
  by (simp_all add: ex_proxy_def new_Proxy_def)

lemma ex_first_session:
  "CreateClientSession ex_queues clid ex_proxy =
     Some (0, ex_proxy\<lparr>nextSession := 1, sessionMap := [0 \<mapsto> clid]\<rparr>)"
proof -
  have "free_session (sessionMap ex_proxy) 0 = Some 0"
    by (rule free_session_here) (simp add: ex_no_session)
  moreover have "next_id 0 = 1"
    by (simp add: next_id_def)
  moreover have "sessionMap ex_proxy = Map.empty"
    by (simp add: ex_proxy_def new_Proxy_def)
  ultimately show ?thesis
    by (simp add: CreateClientSession_def ex_no_session ex_queues_def)
qed

definition ex_name :: octets where
  "ex_name = clientIdEncaps [47, 99]"

definition ex_connected :: Proxy where
  "ex_connected = ex_proxy\<lparr>nextSession := 1, sessionMap := [0 \<mapsto> ex_name]\<rparr>"

lemma ex_connects:
  "proxy_work ex_host ex_queues (head_octets ex_host (new_ClkMessage (ConnectMessage [47, 99]))) ex_proxy =
     Some (True, [(ex_name, connect_reply ex_host [cfg_base ex_cfg] 0 ex_name)], ex_connected)"
proof -
  have "(new_ClkMessage (ConnectMessage [47, 99]))\<lparr>m_sessionId := InvalidSessionId\<rparr> =
      new_ClkMessage (ConnectMessage [47, 99])"
    by (simp add: new_ClkMessage_def)
  moreover have "proxy_connect ex_queues InvalidSessionId (clientIdEncaps [47, 99]) ex_proxy =
      Some (0, ex_connected)"
    by (simp add: proxy_connect_def ex_first_session ex_connected_def ex_name_def)
  moreover have "announced ex_connected = [cfg_base ex_cfg]"
    by (simp add: announced_def ex_connected_def ex_proxy_def new_Proxy_def)
  ultimately show ?thesis
    using proxy_work_connect [of ex_queues InvalidSessionId "[47, 99]" ex_proxy 0 ex_connected _ ex_host]
    by (simp add: ex_cfg_ok) (simp add: ex_name_def getTransmitter_def ex_connected_def ex_queues_def InvalidSessionId_def)
qed

lemma ex_connected_reached: "proxy_reach ex_host [ex_cfg] ex_connected"
  using proxy_reach.step [OF proxy_reach.start proxy_step.message, of ex_host ex_queues]
    ex_connects ex_proxy_def by metis




text \<open>
  C23: the search for the number of a new session ends exactly when one of the \<open>2 ^ 15\<close> numbers
  is free; with all of them in use it never ends. When it ends and the queue of the client can
  be opened, the client has a session of its own, and all other sessions are as before.
\<close>

theorem session_search_ends:
  assumes "proxy_reach h cfgs P"
  shows "((\<exists>r. CreateClientSession q clid P = Some r) \<longleftrightarrow> (\<exists>k. unat k < 2 ^ 15 \<and> sessionMap P k = None)) \<and>
    (\<forall>s P'. CreateClientSession q clid P = Some (s, P') \<and> mq_opens q clid \<longrightarrow>
       unat s < 2 ^ 15 \<and> sessionMap P s = None \<and> sessionMap P' = (sessionMap P)(s \<mapsto> clid))"
proof -
  have n: "valid_id (nextSession P)"
    using proxy_ok_reach [OF assms] by (simp add: proxy_ok_def)
  have "(\<exists>r. CreateClientSession q clid P = Some r) \<longleftrightarrow>
      (\<exists>k. free_session (sessionMap P) (nextSession P) = Some k)"
    by (auto simp: CreateClientSession_def split: option.split)
  moreover have "unat s < 2 ^ 15 \<and> sessionMap P s = None \<and> sessionMap P' = (sessionMap P)(s \<mapsto> clid)"
    if "CreateClientSession q clid P = Some (s, P')" "mq_opens q clid" for s P'
    using CreateClientSession_Some [OF that(1) n] that(2) by (simp add: valid_id_def existClient_def)
  ultimately show ?thesis
    using free_session_ends [OF n, of "sessionMap P"] by (simp add: valid_id_def)
qed

theorem session_search_ends_witness:
  "(\<exists>r. CreateClientSession ex_queues ex_name ex_connected = Some r) \<and> sessionMap ex_connected 1 = None"
proof -
  have f: "sessionMap ex_connected 1 = None" "unat (1 :: uint16_t) < 2 ^ 15"
    by (simp_all add: ex_connected_def)
  then show ?thesis
    using session_search_ends [OF ex_connected_reached, of ex_queues ex_name] by blast
qed

text \<open>The connection of a client, used twice below.\<close>

lemma client_connects:
  assumes "proxy_ok P" and "\<exists>k. unat k < 2 ^ 15 \<and> sessionMap P k = None"
    and "mq_opens q (clientIdEncaps (m_clientID c))" "\<And>bs. mq_sends q (clientIdEncaps (m_clientID c)) bs"
    and "\<forall>cfg \<in> set (announced P). tbcfg_ok cfg"
    and "cl_listening c" "cl_sessionId c = InvalidSessionId" "sends (head_octets h (connect_message c))"
  shows "\<exists>bs s P'. sendMessage h sends (connect_message c) = Some bs \<and> unat s < 2 ^ 15 \<and> sessionMap P s = None \<and>
    sessionMap P' = (sessionMap P)(s \<mapsto> clientIdEncaps (m_clientID c)) \<and>
    (if length (announced P) \<le> 53
     then (\<exists>reply. proxy_work h q bs P = Some (True, [(clientIdEncaps (m_clientID c), reply)], P') \<and>
       client_connect h sends (\<lparr>rd_rx = [(clk, reply)], rd_timeout = False, rd_clock = Some t\<rparr> # rs) c lct =
         Some (True, c\<lparr>m_connected := True, cl_sessionId := s,
           m_cfgs := fold addTimeBaseCfg (announced P) (m_cfgs c)\<rparr>, t))
     else proxy_work h q bs P = Some (False, [], P'))"
proof -
  let ?name = "clientIdEncaps (m_clientID c)" and ?bs = "head_octets h (connect_message c)"
  have n: "valid_id (nextSession P)"
    using assms(1) by (simp add: proxy_ok_def)
  then obtain s where "free_session (sessionMap P) (nextSession P) = Some s"
    using free_session_ends assms(2) by (metis valid_id_def)
  then obtain P' where new: "CreateClientSession q ?name P = Some (s, P')"
    using assms(3) by (simp add: CreateClientSession_def)
  then have s: "valid_id s" "sessionMap P s = None"
    and P': "P' = P\<lparr>nextSession := next_id s, sessionMap := (sessionMap P)(s \<mapsto> ?name)\<rparr>"
    using CreateClientSession_Some [OF new n] assms(3) by (simp_all add: existClient_def)
  let ?reply = "connect_reply h (announced P) s ?name"
  have ann: "announced P' = announced P" and inv: "s \<noteq> InvalidSessionId"
    using s(1) by (auto simp: announced_def P')
  have tx: "getTransmitter P' s = Some ?name"
    using inv by (simp add: getTransmitter_def P')
  have work: "proxy_work h q ?bs P =
      (if length (announced P) > 53 then Some (False, [], P') else Some (True, [(?name, ?reply)], P'))"
    using proxy_work_connect [of q InvalidSessionId "m_clientID c" P s P' ?bs h, OF _ _ _ refl] new assms(4,5,7) inv
      tx by (simp add: proxy_connect_def connect_message_def ann)
  have "client_connect h sends (\<lparr>rd_rx = [(clk, ?reply)], rd_timeout = False, rd_clock = Some t\<rparr> # rs) c lct =
      Some (True, c\<lparr>m_connected := True, cl_sessionId := s,
        m_cfgs := fold addTimeBaseCfg (announced P) (m_cfgs c)\<rparr>, t)" if "length (announced P) \<le> 53"
    using client_takes_reply [of "c\<lparr>m_connected := False\<rparr>" "announced P" ?name h sends clk s] assms(5,6) that
    by (cases rs) (simp_all add: client_connect_def listen_all_def Let_def)
  then show ?thesis
    using sendMessage_octets [of sends h "connect_message c"] assms(8) s work by (intro exI [of _ ?bs] exI [of _ s] exI [of _ P'])
      (auto simp: valid_id_def P')
qed

text \<open>
  C18: a client connects. Its message reaches a proxy with a free session, whose queues work.
  With at most 53 time bases the proxy makes a session of the client's own and answers; the
  client that receives the answer in the first round of its wait is connected with the number
  of that session and knows the time bases of the proxy. With more time bases the answer does
  not fit in a message, and the listener of the proxy ends.
\<close>

theorem connection_established:
  assumes "proxy_reach h cfgs P" and "\<exists>k. unat k < 2 ^ 15 \<and> sessionMap P k = None"
    and "mq_opens q (clientIdEncaps (m_clientID c))" "\<And>bs. mq_sends q (clientIdEncaps (m_clientID c)) bs"
    and "\<forall>cfg \<in> set (announced P). tbcfg_ok cfg"
    and "cl_listening c" "cl_sessionId c = InvalidSessionId" "sends (head_octets h (connect_message c))"
  shows "\<exists>bs s P'. sendMessage h sends (connect_message c) = Some bs \<and> unat s < 2 ^ 15 \<and> sessionMap P s = None \<and>
    sessionMap P' = (sessionMap P)(s \<mapsto> clientIdEncaps (m_clientID c)) \<and>
    (if length (announced P) \<le> 53
     then (\<exists>reply. proxy_work h q bs P = Some (True, [(clientIdEncaps (m_clientID c), reply)], P') \<and>
       client_connect h sends (\<lparr>rd_rx = [(clk, reply)], rd_timeout = False, rd_clock = Some t\<rparr> # rs) c lct =
         Some (True, c\<lparr>m_connected := True, cl_sessionId := s,
           m_cfgs := fold addTimeBaseCfg (announced P) (m_cfgs c)\<rparr>, t))
     else proxy_work h q bs P = Some (False, [], P'))"
  by (rule client_connects [where sends = sends, OF proxy_ok_reach [OF assms(1)] assms(2-8)])

theorem connection_established_witness:
  "\<exists>bs s P'. sendMessage ex_host (\<lambda>bs. True) (connect_message (new_Client_State [47, 99])) = Some bs \<and>
     unat s < 2 ^ 15 \<and> sessionMap (new_Proxy False [ex_cfg]) s = None \<and>
     sessionMap P' = (sessionMap (new_Proxy False [ex_cfg]))(s \<mapsto> ex_name) \<and>
     (\<exists>reply. proxy_work ex_host ex_queues bs (new_Proxy False [ex_cfg]) = Some (True, [(ex_name, reply)], P') \<and>
       client_connect ex_host (\<lambda>bs. True)
         [\<lparr>rd_rx = [((None, None), reply)], rd_timeout = False, rd_clock = Some no_time\<rparr>] (new_Client_State [47, 99]) no_time =
         Some (True, (new_Client_State [47, 99])\<lparr>m_connected := True, cl_sessionId := s,
           m_cfgs := addTimeBaseCfg (cfg_base ex_cfg) Map.empty\<rparr>, no_time))"
proof -
  have ann: "announced (new_Proxy False [ex_cfg]) = [cfg_base ex_cfg]"
    by (simp add: announced_def new_Proxy_def)
  have "unat (0 :: uint16_t) < 2 ^ 15 \<and> sessionMap (new_Proxy False [ex_cfg]) 0 = None"
    by (simp add: new_Proxy_def)
  then show ?thesis
    using connection_established [OF proxy_reach.start, of False "[ex_cfg]" ex_queues "new_Client_State [47, 99]"
        "\<lambda>bs. True" ex_host "(None, None)" no_time "[]" no_time]
    by (simp add: ann ex_name_def new_Client_State_def)
      (force simp: ex_queues_def ex_cfg_def tbcfg_ok_def STRING_SIZE_MAX_def)
qed

text \<open>
  C38: the proxy does not accept the session of an earlier run. A client that lost its proxy
  connects again with the number it has; a proxy that was started anew knows no session, and
  its listener ends on that message.
\<close>

theorem stale_session_ends_the_listener:
  assumes "cl_sessionId c \<noteq> InvalidSessionId" "\<forall>cfg \<in> set cfgs. tbcfg_ok (cfg_base cfg)"
  shows "proxy_work h q (head_octets h (connect_message c)) (new_Proxy hc cfgs) = Some (False, [], new_Proxy hc cfgs)"
proof -
  have "proxy_connect q (cl_sessionId c) (clientIdEncaps (m_clientID c)) (new_Proxy hc cfgs) =
      Some (InvalidSessionId, new_Proxy hc cfgs)"
    using assms(1) by (simp add: proxy_connect_def existClient_def new_Proxy_def)
  moreover have "\<forall>cfg \<in> set (announced (new_Proxy hc cfgs)). tbcfg_ok cfg"
    using assms(2) by (simp add: announced_def new_Proxy_def)
  ultimately show ?thesis
    using proxy_work_connect [OF _ _ refl refl] by (simp add: connect_message_def)
qed

theorem stale_session_ends_the_listener_witness:
  "cl_sessionId ((new_Client_State [47, 99])\<lparr>cl_sessionId := 0\<rparr>) \<noteq> InvalidSessionId \<and>
   proxy_work ex_host ex_queues (head_octets ex_host (connect_message ((new_Client_State [47, 99])\<lparr>cl_sessionId := 0\<rparr>)))
     (new_Proxy False [ex_cfg]) = Some (False, [], new_Proxy False [ex_cfg])"
  using stale_session_ends_the_listener [of "(new_Client_State [47, 99])\<lparr>cl_sessionId := 0\<rparr>" "[ex_cfg]" ex_host ex_queues False]
  by (simp add: ex_cfg_def tbcfg_ok_def STRING_SIZE_MAX_def InvalidSessionId_def)

subsection \<open>From the proxy to the application\<close>

text \<open>
  C29: a notification arrives as it was sent. A client has a session and is subscribed to a time
  base with an index below \<open>2 ^ 31\<close>, and its queue takes messages. When the proxy has a new event
  of ptp4l or of chrony for the time base, it sends the client a message, and the client that
  receives it has exactly this event set for exactly this time base, whatever the byte order
  and the padding of the host.
\<close>

theorem notification_arrives:
  assumes "proxy_reach h cfgs P" "buffer_ok b" "timeBaseDataMap P i = Some d" "unat i < 2 ^ 31"
    and "sid \<in> subscribedClients d" "sessionMap P sid = Some tx" "\<And>bs. mq_sends q tx bs" "cl_listening c"
  shows "(\<exists>bs. (tx, bs) \<in> set (fst (notifyClients h q b i PTPClock (copy_ptpEvent i ev P))) \<and>
      client_listen h sends (clk, bs) c =
        c\<lparr>timeBaseStateMap := setTimeBaseStatePtp (fst clk) i ev (timeBaseStateMap c)\<rparr>) \<and>
    (\<exists>bs. (tx, bs) \<in> set (fst (notifyClients h q b i SysClock (copy_chronyEvent i ce P))) \<and>
      client_listen h sends (clk, bs) c =
        c\<lparr>timeBaseStateMap := setTimeBaseStateSys (snd clk) i ce (timeBaseStateMap c)\<rparr>)"
  using ptp_event_sent [OF proxy_ok_reach [OF assms(1)] assms(2,3,5-7,4)]
    chrony_event_sent [OF proxy_ok_reach [OF assms(1)] assms(2,3,5-7,4)]
    client_takes_ptp [OF assms(8)] client_takes_sys [OF assms(8)] by meson

definition ex_subscribed :: Proxy where
  "ex_subscribed = ex_connected\<lparr>timeBaseDataMap := (timeBaseDataMap ex_connected)(1 \<mapsto>
     new_TimeBaseData\<lparr>subscribedClients := {0}\<rparr>)\<rparr>"

lemma ex_subscribed_reached: "proxy_reach ex_host [ex_cfg] ex_subscribed"
proof -
  have "proxy_subscribe 1 0 ex_connected = (True, ex_subscribed)"
    by (simp add: proxy_subscribe_eq ex_connected_def ex_proxy_def new_Proxy_def registerSrv_def new_event_def
        ex_cfg_def InvalidSessionId_def existClient_def ex_subscribed_def)
      (simp add: new_TimeBaseData_def)
  then have "proxy_step ex_host ex_connected [(ex_name, subscribe_reply ex_host 1 0
      (getPTPEvent ex_subscribed 1) (getChronyEvent ex_subscribed 1))] ex_subscribed"
    using proxy_work_subscribe [of 1 0 ex_connected ex_subscribed ex_name, OF _ _ refl refl, of ex_host ex_queues]
    by (intro proxy_step.message [where q = ex_queues and ok = True])
      (simp_all add: ex_connected_def ex_queues_def)
  then show ?thesis
    by (rule proxy_reach.step [OF ex_connected_reached])
qed

lemma ex_subscribed_fields:
  "timeBaseDataMap ex_subscribed 1 = Some (new_TimeBaseData\<lparr>subscribedClients := {0}\<rparr>)"
  "sessionMap ex_subscribed 0 = Some ex_name" "mq_sends ex_queues n bs" "unat (1 :: uint64_t) < 2 ^ 31"
  "cl_listening ex_client"
  by (simp_all add: ex_subscribed_def ex_connected_def ex_queues_def ex_client_def new_Client_State_def)

theorem notification_arrives_witness:
  "proxy_reach ex_host [ex_cfg] ex_subscribed \<and>
   (\<exists>bs. (ex_name, bs) \<in> set (fst (notifyClients ex_host ex_queues blank_buffer 1 PTPClock
        (copy_ptpEvent 1 (ex_event 50 True) ex_subscribed))) \<and>
     client_listen ex_host (\<lambda>bs. True) ((None, None), bs) ex_client =
       ex_client\<lparr>timeBaseStateMap := setTimeBaseStatePtp None 1 (ex_event 50 True) (timeBaseStateMap ex_client)\<rparr>)"
  using notification_arrives [where clk = "(None, None)", OF ex_subscribed_reached blank_buffer_ok
      ex_subscribed_fields(1,4) _ ex_subscribed_fields(2,3,5)] ex_subscribed_reached
  by (simp add: new_TimeBaseData_def)

text \<open>
  C37: the offset of the clock and the identity of the grandmaster reach the application. ptp4l
  sends the answer or the event \<^verbatim>\<open>TIME_STATUS_NP\<close> with these values; the proxy parses the message
  with the library and tells the subscribed clients; a client that subscribed to the events of
  the offset and of the grandmaster then has exactly this offset, and its text of the
  grandmaster is the one the library has for the identity.
\<close>

theorem offset_reaches_the_application:
  assumes "proxy_reach h cfgs P" "buffer_ok b" "timeBaseDataMap P i = Some d" "unat i < 2 ^ 31"
    and "sid \<in> subscribedClients d" "sessionMap P sid = Some tx" "\<And>bs. mq_sends q tx bs"
    and "ps_index s = i" "implementSpecific (m_prms (ps_msg s)) = linuxptp" "\<not> m_haveAuth (ps_msg s)"
      "pe_mem (en_parse env)"
    and "reply_header hdr" "0xf AND actionField hdr = RESPONSE" "valid_tlv (TIME_STATUS_NP_v t)"
    and bs_def: "bs = mng_octets hdr TIME_STATUS_NP (even_pad (enc_tlv (TIME_STATUS_NP_v t))) 0"
    and "cl_listening c" "timeBaseStateMap c (key_of i) = Some st"
      "wants EventOffsetInRange (ptpEventSub st)" "wants EventGmChanged (ptpEventSub st)"
  shows "\<exists>msgs s' P' note_bs st'. ptp_receive env h q b bs s P = ([], msgs, s', P') \<and> (tx, note_bs) \<in> set msgs \<and>
    timeBaseStateMap (client_listen h sends (clk, note_bs) c) (key_of i) = Some st' \<and>
    clockOffset (ptpEventState st') = TIME_STATUS_NP_t.master_offset t \<and>
    getGmIdentityStr (gmClockUUID (ptpEventState st')) = ClockIdentity_string (TIME_STATUS_NP_t.gmIdentity t)"
proof -
  let ?s = "s\<lparr>ps_msg := rcv_header hdr (ps_msg s)\<lparr>m_mngType := MANAGEMENT, m_replyAction := RESPONSE,
      m_replayTlv_id := TIME_STATUS_NP, m_dataGet := Some (TIME_STATUS_NP_v t)\<rparr>\<rparr>"
  let ?ev = "told_event (ps_event s) t"
  have p: "ptp_receive env h q b bs s P = event_handle env h q b ?s P"
    using received_time_status [OF assms(12,13,9,10,11,14) bs_def] by (simp add: ptp_receive_def)
  have "call_backs env (?s\<lparr>do_notify := False\<rparr>) = ([], on_TIME_STATUS_NP t (?s\<lparr>do_notify := False\<rparr>))"
    by (rule handled_time_status) (simp_all add: Message_isValidId_def isValidId_def FIRST_MNG_ID_def rcv_header_def assms(9))
  then have "event_handle env h q b ?s P = ([], fst (notifyClients h q b i PTPClock (copy_ptpEvent i ?ev P)),
      on_TIME_STATUS_NP t (?s\<lparr>do_notify := False\<rparr>), snd (notifyClients h q b i PTPClock (copy_ptpEvent i ?ev P)))"
    by (simp add: event_handle_def on_TIME_STATUS_NP_def told_event_def assms(8) case_prod_beta)
  moreover note ptp_event_sent [OF proxy_ok_reach [OF assms(1)] assms(2,3,5-7,4), of h ?ev]
  moreover have "ptpEventState (notify_ptp now ?ev st) = x \<Longrightarrow>
      clockOffset x = TIME_STATUS_NP_t.master_offset t \<and> 
      gmClockUUID x = clock_uuid (ci_v (TIME_STATUS_NP_t.gmIdentity t))" for now x
    using assms(18,19) by (auto simp: notify_fields ptp_blocks_values told_event_def)
  moreover have "getGmIdentityStr (clock_uuid (ci_v (TIME_STATUS_NP_t.gmIdentity t))) =
      ClockIdentity_string (TIME_STATUS_NP_t.gmIdentity t)"
    using assms(14) by (intro identity_text) (simp add: valid_TIME_STATUS_NP_def valid_ClockIdentity_def)
  ultimately show ?thesis
    using client_takes_ptp [OF assms(16), of h sends clk i ?ev] p assms(17)
    by (fastforce simp: setTimeBaseStatePtp_def stateAt_def)
qed

definition ex_status :: TIME_STATUS_NP_t where
  "ex_status = new_TIME_STATUS_NP\<lparr>TIME_STATUS_NP_t.master_offset := 42,
     TIME_STATUS_NP_t.gmIdentity := \<lparr>ci_v = [1, 2, 3, 255, 254, 4, 5, 6]\<rparr>\<rparr>"

definition ex_header :: managementMessage_p where
  "ex_header = (build_header (new_Message new_MsgParams) 3)\<lparr>actionField := RESPONSE\<rparr>"

definition ex_service :: ptpSet where
  "ex_service = \<lparr>ps_index = 1, ps_event = no_ptp_event, ps_msg = new_Message new_MsgParams, do_notify = False,
     ps_seq = 0, ps_gmIdentity = zero_ClockIdentity, need_set_action = True, lost_connection = False\<rparr>"

definition ex_no_hmac :: hmac_lib where
  "ex_no_hmac = \<lparr>hl_alloc = \<lambda>_ _. False, hl_digest = \<lambda>_ _ _ n. None, hl_verify = \<lambda>_ _ _ _. False\<rparr>"

definition ex_ptp_env :: ptp_env where
  "ex_ptp_env = \<lparr>en_parse = \<lparr>pe_hmac = ex_no_hmac, pe_mem = True, pe_uninit = None\<rparr>, en_hmac = ex_no_hmac,
     en_buf = [], en_send = \<lambda>bs. True, en_big = \<lambda>e. 0\<rparr>"

lemma ex_status_sent:
  "reply_header ex_header" "0xf AND actionField ex_header = RESPONSE" "valid_tlv (TIME_STATUS_NP_v ex_status)"
  by (simp_all add: reply_header_def ex_header_def build_header_def low_nibble low_nibble_left Management_def
      ptp_major_ver_def new_Message_def new_MsgParams_def valid_PortIdentity_def valid_ClockIdentity_def allClocks_def
      PortIdentity_clear_def ClockIdentity_clear_def action_defs valid_TIME_STATUS_NP_def ex_status_def Let_def)

theorem offset_reaches_the_application_witness:
  "\<exists>msgs s' P' note_bs st'. ptp_receive ex_ptp_env ex_host ex_queues blank_buffer
      (mng_octets ex_header TIME_STATUS_NP (even_pad (enc_tlv (TIME_STATUS_NP_v ex_status))) 0) ex_service ex_subscribed =
      ([], msgs, s', P') \<and> (ex_name, note_bs) \<in> set msgs \<and>
    timeBaseStateMap (client_listen ex_host (\<lambda>bs. True) ((None, None), note_bs) ex_client) (key_of 1) = Some st' \<and>
    clockOffset (ptpEventState st') = 42 \<and>
    getGmIdentityStr (gmClockUUID (ptpEventState st')) = ''010203.fffe.040506''"
proof -
  have txt_gm: "ClockIdentity_string (TIME_STATUS_NP_t.gmIdentity ex_status) = ''010203.fffe.040506''"
    by code_simp
  have sub: "wants EventOffsetInRange (ptpEventSub ex_state)" "wants EventGmChanged (ptpEventSub ex_state)"
    by (simp_all add: wants_def ex_sub_def ex_state_def event_bits)
  have st: "timeBaseStateMap ex_client (key_of 1) = Some ex_state"
    by (simp add: ex_client_def key_of_def)
  have svc: "ps_index ex_service = 1" "implementSpecific (m_prms (ps_msg ex_service)) = linuxptp"
    "\<not> m_haveAuth (ps_msg ex_service)" "pe_mem (en_parse ex_ptp_env)"
    by (simp_all add: ex_service_def ex_ptp_env_def new_Message_def new_MsgParams_def)
  show ?thesis
    using offset_reaches_the_application [where clk = "(None, None)" and sends = "\<lambda>bs. True" and sid = 0,
        OF ex_subscribed_reached blank_buffer_ok ex_subscribed_fields(1,4) _ ex_subscribed_fields(2,3) svc
          ex_status_sent refl ex_subscribed_fields(5) st sub]
    unfolding txt_gm by (simp add: ex_status_def)
qed

subsection \<open>Configuration\<close>







end
