(* ===== verification/Spec2Isabelle.thy ===== *)
theory Spec2Isabelle
  imports Msg_Reads Msg_Echo Msg_Config Tlv_Sets Cfg_Read Bin_Spec Sig_Access Json_Shape Json_Accepted Mng_Dispatch Mng_Events Ptp_Time Bin_Round Msg_Strings Clk_System
begin

unbundle bit_operations_syntax

text \<open>
  Verification of libptpmgmt: the library that builds and parses the management and signaling
  messages of the Precision Time Protocol (IEEE 1588), and of the clock manager that is built on it.

  \<^bold>\<open>The program.\<close> A user chooses an action, a management identifier and data in a \<^verbatim>\<open>Message\<close>
  object (\<^verbatim>\<open>src/msg.cpp\<close>, \<^verbatim>\<open>pub/msg.h\<close>), which \<^verbatim>\<open>build\<close>s the octets of the message in a
  buffer; octets from the network are \<^verbatim>\<open>parse\<close>d back into the object. The data of a message are
  TLVs, one structure for each identifier (\<^verbatim>\<open>src/mngTlvs.cpp\<close>, \<^verbatim>\<open>src/sigTlvs.cpp\<close>), read and
  written field by field by the cursor \<^verbatim>\<open>MsgProc\<close> (\<^verbatim>\<open>src/comp.h\<close>). A table gives the value, the
  actions and the size of every identifier. Messages may carry an authentication TLV with an
  integrity check value; the keys are in security associations (\<^verbatim>\<open>src/cfg.cpp\<close>), read from a
  file that a configuration names. Octet strings are objects of the class \<^verbatim>\<open>Binary\<close>
  (\<^verbatim>\<open>src/bin.cpp\<close>), times are \<^verbatim>\<open>Timestamp_t\<close> (\<^verbatim>\<open>src/types.cpp\<close>). A message is written as JSON text
  (\<^verbatim>\<open>src/json.cpp\<close>), and a request is read from JSON text (\<^verbatim>\<open>src/jsonDef.cpp\<close>) with the parser of
  \<^verbatim>\<open>src/jsonParser.cpp\<close>. A user may derive from \<^verbatim>\<open>MessageDispatcher\<close> and \<^verbatim>\<open>MessageBuilder\<close>
  (\<^verbatim>\<open>src/msgCall.cpp\<close>), which call a function of the user for the data of a message.

  The clock manager (\<^verbatim>\<open>clkmgr\<close>) is a proxy and a client library. The proxy (\<^verbatim>\<open>clkmgr/proxy\<close>) reads the
  time bases from a JSON file, watches ptp4l with the library and chrony, keeps the sessions of the
  clients and tells them the events of the time bases they subscribed to. The client
  (\<^verbatim>\<open>clkmgr/client\<close>) connects, subscribes, keeps a state of each time base with counters of the changes,
  and lets the application wait for a change. Both exchange messages over queues
  (\<^verbatim>\<open>clkmgr/common\<close>), and each has a listener thread that works on the messages it receives.

  \<^bold>\<open>The model.\<close> Definitions carry the names of the source. Machine integers are words of their
  width, a buffer is a list of octets and a pointer into it an index, a \<^verbatim>\<open>std::map\<close> is a map or an
  association list, a pointer to an object an option, and an error a value of the type the code
  has for it. Functions that change an object return it.

  \<^item> \<open>Ptp_Prelude\<close>: integers, byte order, the shared facts on lists and words, and the
    collections of rules. \<open>Ptp_Types\<close>, \<open>Ptp_Time\<close>: the structures of \<^verbatim>\<open>src/types.m4\<close>, the
    operations of \<^verbatim>\<open>src/types.cpp\<close>, and the arithmetic of times.
  \<^item> \<open>Msg_Proc\<close>: the cursor and its \<^verbatim>\<open>proc\<close> functions. \<open>Wire_Codec\<close> and \<open>Wire_Safe\<close> state what
    they promise as locales: the octets written are an image of the value and are read back, and
    no function leaves its buffer. \<open>Wire_Basic\<close>, \<open>Wire_Structs\<close> interpret the contracts for basic
    types and structures.
  \<^item> \<open>Mng_Records\<close>, \<open>Mng_Wire\<close>, \<open>Mng_Tlvs\<close>, \<open>Mng_Dispatch\<close>, \<open>Tlv_Call\<close>: all
    management TLVs, their images, the dispatch \<open>call_tlv_data\<close> and its contract. \<open>Tlv_Sets\<close>: the fields that
    \<^verbatim>\<open>build\<close> sets itself, as a locale for what writing a value makes of it. \<open>Mng_Events\<close>: the
    event mask. \<open>Sig_Records\<close>, \<open>Sig_Wire\<close>: the signaling TLVs.
  \<^item> \<open>Mng_Ids\<close>: the table of identifiers and its searches.
  \<^item> \<open>Ptp_Binary\<close>, \<open>Bin_Text\<close>, \<open>Bin_Round\<close>, \<open>Bin_Spec\<close>: the class \<^verbatim>\<open>Binary\<close>, its text forms, their
    round trips, and the abstract list of octets that it implements.
  \<^item> \<open>Cfg_Line\<close>, \<open>Cfg_File\<close>, \<open>Sa_Keys\<close>, \<open>Sa_File\<close>: the line buffer, configuration files, keys and key
    files. The loop over the lines of a file is a locale that both readers interpret. \<open>Cfg_Checked\<close>:
    ranges; \<open>Cfg_Safe\<close>: the readers stay in the buffer; \<open>Cfg_Written\<close>: written settings come back;
    \<open>Cfg_Read\<close>: every line is read as in a cleared buffer, but for a last line without a line end.
  \<^item> \<open>Message_Base\<close>, \<open>Msg_Build\<close>, \<open>Msg_Parse\<close>, \<open>Msg_Config\<close>, \<open>Msg_Strings\<close>, \<open>Sig_Access\<close>: the class
    \<^verbatim>\<open>Message\<close> with its state, \<^verbatim>\<open>build\<close>, \<^verbatim>\<open>parse\<close>, settings from a configuration, names of values and
    access to signaling TLVs. \<open>Msg_Built\<close>, \<open>Msg_Parsed\<close>, \<open>Msg_Auth\<close>, \<open>Msg_Echo\<close>,
    \<open>Msg_Reads\<close>, \<open>Sig_Parsed\<close>: what building and parsing promise. \<open>Msg_Steps\<close>: every sequence of calls
    of the interface as a step relation, and the invariant of the states it reaches.
  \<^item> \<open>Dec_Text\<close>: numbers in decimal. \<open>Json_Lex\<close>, \<open>Json_Value\<close>, \<open>Json_Num\<close>: the parser of JSON, the
    printer and the access to values. \<open>Json_Round\<close>, \<open>Json_Grammar\<close>, \<open>Json_Parsed\<close>, \<open>Json_Shape\<close>: a grammar
    of texts that the parser takes, printed values come back, and what parsed values look like.
  \<^item> \<open>Json_Proc\<close>: the interface \<^verbatim>\<open>JsonProc\<close> as a record of functions and the walk over the fields of every
    management TLV. \<open>Json_To\<close>, \<open>Json_Print\<close>: the implementation that writes, \<^verbatim>\<open>tlv2json\<close> and \<^verbatim>\<open>msg2json\<close>.
    \<open>Json_From\<close>: the implementation that reads, and the class \<^verbatim>\<open>Json2msg\<close>. \<open>Json_Doc\<close>: what is
    written is a text of the grammar. \<open>Json_Codec\<close> states as locales what the two implementations promise
    each other for a value and for a list of fields; \<open>Json_Structs\<close>, \<open>Json_Tables\<close>, \<open>Json_Tlvs\<close> and
    \<open>Json_Tlv_Codecs\<close> prove it for values, structures, the two tables of functions and all TLVs.
    \<open>Json_Survives\<close>, \<open>Json_Accepted\<close>: TLVs and requests survive their text, and accepted texts are requests.
  \<^item> \<open>Msg_Call\<close>: the classes \<^verbatim>\<open>MessageDispatcher\<close> and \<^verbatim>\<open>MessageBuilder\<close>.
  \<^item> \<open>Clk_Events\<close>: events and subscriptions of the clock manager, with their interface to C. \<open>Clk_States\<close>: the
    states of the time bases in a client. \<open>Clk_Counts\<close> states as a locale what a counter of events
    promises, and interprets it for the six counters.
  \<^item> \<open>Clk_Messages\<close>: the buffer and the messages between client and proxy; the byte order
    and the padding of the machine are an argument. \<open>Clk_Client\<close>, \<open>Clk_Calls\<close>, \<open>Clk_End\<close>: the client, its
    listener, the calls of an application, begin and end. \<open>Clk_Waits\<close>: when a wait ends.
  \<^item> \<open>Clk_Proxy\<close>: sessions, subscriptions and messages of the proxy, its operations as steps of a
    relation, and the invariant of the states it reaches. \<open>Clk_Threads\<close>: the same operations cut where the code
    gives up its locks, the steps of any number of calls in any order, what holds in all states they reach,
    and that the operations of \<open>Clk_Proxy\<close> are runs of one call after the other. \<open>Clk_Config\<close>: the configuration. \<open>Clk_Ptp4l\<close>,
    \<open>Clk_Services\<close>: the services that watch ptp4l and chrony, and their contract to the proxy as a locale.
    \<open>Clk_Delivery\<close>, \<open>Clk_System\<close>: what one side sends, the other takes, and the properties.

  \<^bold>\<open>What is shown.\<close> C1 to C5: TLVs survive the wire with the fields \<^verbatim>\<open>build\<close> sets, parsing a TLV is confined to its octets, sizes
  and the search of identifiers are right. C6 to C13, C15: the message object keeps its invariant under
  every call, \<^verbatim>\<open>build\<close> writes exactly the message, in the planned length and inside the buffer, the answer
  to a request is taken and gives the data, a message with authentication is taken only after it was
  verified, and \<^verbatim>\<open>parse\<close> reads only the octets it was given. C17: signaling messages. C20: keys. C22:
  times. C25, C27: octet strings. C30: events. C31 to C36: configuration. C39, C40: JSON values survive
  printing and parsing. C26, C28, C21: TLVs and requests survive their JSON text in all that it carries,
  whatever the memory of new objects held, and whatever text is accepted is a request. The clock manager, in \<open>Clk_System\<close>: every change is counted once (C19), and a client that
  waits is told of it (C14); sessions and subscriptions are consistent in every interleaving of the
  threads of the proxy, but for a subscription that is inserted after its session ended (C16), and the search for a
  session ends when one is free (C23); a client connects (C18) unless it brings a session of an earlier run
  (C38); the time bases of the configuration reach the client over its connection, up to 53 of them (C24); a notification arrives as it was sent
  (C29), and with it the offset and the grandmaster ptp4l told (C37).

  \<^bold>\<open>Bounds and termination.\<close> One definition has fuel: \<open>parse_while\<close>, the loop of
  \<^verbatim>\<open>vector_o\<close> that reads elements as long as octets are left; it gets one step more than there are octets, and
  more steps change nothing as long as an element uses octets (\<open>parse_while_fuel\<close>). The other loops of the
  program are functions with a measure. Two loops may run forever and are partial functions, where \<open>None\<close> is a run that does not end:
  the one of \<^verbatim>\<open>Timestamp_t::subt\<close>, which ends for normalised times (C22) and may not end otherwise
  (\<open>subt_may_not_end\<close>), and the search for a free session (C23). A call that waits for messages takes the list of
  what arrives while it waits, and gives \<open>None\<close> when it still waits at the end of the list; C14 says when it
  does not. The readers of files give \<open>None\<close> when the program leaves the line buffer of 512 characters, and C32
  says when they do not.

  \<^bold>\<open>Parameters.\<close> The HMAC library (\<open>hmac_lib\<close>), whose hypothesis is that a value it made is
  verified with the same key; whether an allocation succeeds (\<open>mem\<close>, \<open>pe_mem\<close>); the value of a pointer
  that the code does not initialise (\<open>pe_uninit\<close>); the texts of files (\<open>fs\<close>) and what the line buffer
  held before (\<open>m0\<close>). Of JSON (\<open>json_env\<close>): the time stamp of a number that is only read as floating point, or
  that it cannot be read, for which \<^verbatim>\<open>stold\<close> may throw an exception; the memory in which a TLV is made, of which
  the constructors set only some members (\<open>construct\<close>), and the variable into which the record of a fault is
  read. Of the clock manager: whether it was built with \<^verbatim>\<open>HAVE_LIBCHRONY\<close> (an argument of \<open>new_Proxy\<close>), byte order and padding (\<open>host\<close>), the queues (\<open>queues\<close>), the clock of the system, the socket to
  ptp4l (\<open>en_send\<close>), the library of chrony (\<open>chrony_answers\<close>) and the JSON value of the configuration file.
  Other new objects, which are filled before they are used, start with zero.

  \<^bold>\<open>Not modelled.\<close> Sockets, PTP clocks and network interfaces (\<^verbatim>\<open>src/sock.cpp\<close>, \<^verbatim>\<open>src/ptp.cpp\<close>,
  \<^verbatim>\<open>src/init.cpp\<close>) are system calls; conversions to and from floating point need IEEE numbers; the
  interfaces to C and to other languages forward to the classes; the tool \<^verbatim>\<open>pmc\<close> is a program on top of
  the library. Of the clock manager: the properties C18, C23, C24, C29, C37 and C38 are on
  operations of the proxy that run one after the other, and in the client the listener and the calls of the
  application interleave between operations; \<open>Clk_Threads\<close> has the steps inside the operations of the
  proxy; the transmitter that a notification uses after it gave up the lock, and that another thread may delete
  meanwhile, is not part of it. \<^verbatim>\<open>stopThread\<close> of the services, the unlinking of queues, signals and the printing of
  messages are left out. Texts of errors are left out everywhere.
\<close>

section \<open>Values for the concrete instances\<close>

text \<open>
  A library that makes all-zero integrity check values and verifies them, a message that sets
  \<^verbatim>\<open>PRIORITY1\<close>, the same message with authentication, and the pool with its key.
\<close>

definition ex_hl :: hmac_lib where
  "ex_hl = \<lparr>hl_alloc = \<lambda>_ _. True, hl_digest = \<lambda>_ _ _ n. Some (replicate n 0),
     hl_verify = \<lambda>_ _ _ mac. mac = replicate (length mac) 0\<rparr>"

definition ex_env :: parse_env where
  "ex_env = \<lparr>pe_hmac = ex_hl, pe_mem = True, pe_uninit = None\<rparr>"

definition ex_tlv :: BaseMngTlv where
  "ex_tlv = PRIORITY1_v \<lparr>PRIORITY1_t.priority1 = 127\<rparr>"

definition ex_msg :: Message where
  "ex_msg = new_Message new_MsgParams"

definition ex_set :: Message where
  "ex_set = snd (setAction SET PRIORITY1 (Some ex_tlv) ex_msg)"

definition ex_sa :: SaFile where
  "ex_sa = \<lparr>m_spps = [(1, snd (addKey 5 HMAC_SHA256 (replicate 32 7) 16 False (Spp_new 1)))]\<rparr>"

definition ex_auth :: Message where
  "ex_auth = snd (useAuth ex_hl ex_sa 1 5 ex_set)"

definition ex_text :: BaseMngTlv where
  "ex_text = USER_DESCRIPTION_v \<lparr>USER_DESCRIPTION_t.userDescription = \<lparr>lengthField = 7, textField = [104, 105]\<rparr>\<rparr>"

definition ex_mp :: MsgProc where
  "ex_mp = \<lparr>m_build = True, m_buf = replicate 8 0, m_cur = 2, m_left = 4, m_size = 0,
     m_err = MNG_PARSE_ERROR_TOO_SMALL\<rparr>"

definition ex_sig_msg :: Message where
  "ex_sig_msg = new_Message (new_MsgParams\<lparr>rcvSignaling := True, filterSignaling := False\<rparr>)"

definition ex_sig :: "(tlvType_e \<times> BaseSigTlv) list" where
  "ex_sig = [(CUMULATIVE_RATE_RATIO, CUMULATIVE_RATE_RATIO_v new_CUMULATIVE_RATE_RATIO),
     (MANAGEMENT, MANAGEMENT_v \<lparr>MANAGEMENT_t.managementId = PRIORITY1, tlvData = Some ex_tlv\<rparr>)]"

definition ex_entries :: "cfg_entry list" where
  "ex_entries = [Comment '' a domain for eth0'', Section_is ''eth0'', Setting 1 ''24'']"

definition ex_fs :: "string \<Rightarrow> string option" where
  "ex_fs f = (if f = ''cfg'' then Some (file_text (map entry_line ex_entries))
     else if f = ''sa'' then Some (file_text [''[security_association]'', ''spp 1'',
       ''5 AES128 16 HEX:000102030405060708090a0b0c0d0e0f''])
     else if f = ''ttl'' then Some (''udp_ttl 77'' @ [LF])
     else if f = ''stale'' then Some (''#######  77'' @ LF # ''udp_ttl'')
     else if f = ''auth'' then Some (file_text [''[global]'', ''sa_file sa'', ''spp 1'', ''active_key_id 5''])
     else None)"

definition ex_line :: string where
  "ex_line = replicate lineSize NUL"

lemma ex_hl_ok: "hmac_ok ex_hl"
  by (simp add: hmac_ok_def ex_hl_def)

lemma ex_tlv_simps:
  "valid_tlv ex_tlv" "tlv_type ex_tlv = PRIORITY1" "enc_tlv ex_tlv = [127]" "safe_tlv ex_tlv"
  by (simp_all add: ex_tlv_def enc_PRIORITY1_def)

lemma ex_text_simps:
  "valid_tlv (built ex_text)" "tlv_type ex_text = USER_DESCRIPTION" "enc_tlv (built ex_text) = [2, 104, 105]"
  "built ex_text = USER_DESCRIPTION_v \<lparr>USER_DESCRIPTION_t.userDescription = \<lparr>lengthField = 2, textField = [104, 105]\<rparr>\<rparr>"
  by (simp_all add: ex_text_def set_USER_DESCRIPTION_def set_PTPText_def valid_USER_DESCRIPTION_def
      valid_PTPText_def enc_USER_DESCRIPTION_def enc_PTPText_def)

lemma ex_msg_simps:
  "m_prms ex_msg = new_MsgParams" "m_haveAuth ex_msg = False" "m_sendAction ex_msg = GET"
  "m_tlv_id ex_msg = NULL_PTP_MANAGEMENT" "m_dataSend ex_msg = None" "send_inv ex_msg"
  "auth_inv ex_msg"
  using send_inv_new [of new_MsgParams] auth_inv_new [of new_MsgParams]
  by (simp_all add: ex_msg_def new_Message_def new_MsgParams_def)

lemma ex_set_eq: "ex_set = ex_msg\<lparr>m_dataSend := Some ex_tlv, m_sendAction := SET, m_tlv_id := PRIORITY1\<rparr>"
  by (simp add: ex_set_def setAction_def allowedAction_def ex_msg_simps new_MsgParams_def
      verifyTlv_def ex_tlv_simps isValidId_def mng_allowed_def allow_bits action_defs mng_size_def
      FIRST_MNG_ID_def)

lemma ex_params:
  "valid_PortIdentity (target new_MsgParams)" "valid_PortIdentity (self_id new_MsgParams)"
  "sendAuth new_MsgParams" "useZeroGet new_MsgParams" "implementSpecific new_MsgParams = linuxptp"
  by (simp_all add: new_MsgParams_def valid_PortIdentity_def valid_ClockIdentity_def allClocks_def
      PortIdentity_clear_def ClockIdentity_clear_def)

lemma ex_set_valid: "msg_valid ex_set" "data_image ex_set = [127, 0]" "addAuth ex_set = 0"
  "auth_inv ex_set" "\<not> m_haveAuth ex_set" "m_prms ex_set = new_MsgParams"
proof -
  have "send_inv ex_set"
    unfolding ex_set_def by (rule send_inv_setAction [OF ex_msg_simps(6)])
  then show "msg_valid ex_set"
    by (simp add: msg_valid_def ex_set_eq ex_msg_simps ex_params ex_tlv_simps)
  show "data_image ex_set = [127, 0]" "addAuth ex_set = 0" "\<not> m_haveAuth ex_set"
    "m_prms ex_set = new_MsgParams"
    by (simp_all add: data_image_def ex_set_eq ex_tlv_simps even_pad_def addAuth_def ex_msg_simps)
  show "auth_inv ex_set"
    by (simp add: ex_set_eq auth_inv_def ex_msg_simps)
qed

lemma ex_sa_simps:
  "SaFile_ok ex_sa" "SaFile_have ex_sa 1 5"
  "mac_size (SaFile_spp ex_sa 1) 5 = 16"
proof -
  have "Spp_ok (snd (addKey 5 HMAC_SHA256 (replicate 32 7) 16 False (Spp_new 1)))"
    by (rule Spp_ok_addKey) simp
  then show "SaFile_ok ex_sa"
    by (simp add: SaFile_ok_def ex_sa_def)
  show "SaFile_have ex_sa 1 5" "mac_size (SaFile_spp ex_sa 1) 5 = 16"
    by (simp_all add: SaFile_have_def Spp_have_def mac_size_def Spp_at_def SaFile_spp_def ex_sa_def
        addKey_def Spp_new_def)
qed

lemma ex_auth_eq: "ex_auth = ex_set\<lparr>m_hmac := Some (htype (SaFile_spp ex_sa 1) 5,
    Spp_key (SaFile_spp ex_sa 1) 5), m_sa := ex_sa, m_sppID := 1, m_keyID := 5, m_haveAuth := True\<rparr>"
  by (simp add: ex_auth_def useAuth_def ex_sa_simps ex_hl_def Let_def)

lemma ex_auth_valid:
  "msg_valid ex_auth" "data_image ex_auth = [127, 0]" "addAuth ex_auth = 26" "auth_inv ex_auth"
  "m_haveAuth ex_auth" "m_prms ex_auth = new_MsgParams" "m_sa ex_auth = ex_sa"
  "\<exists>au. auth_tail ex_hl ex_auth sq = Some au"
proof -
  show "msg_valid ex_auth"
    using ex_set_valid by (simp add: ex_auth_eq msg_valid_def send_inv_def split: option.splits)
  show "data_image ex_auth = [127, 0]"
    by (simp add: ex_auth_eq data_image_def ex_set_eq ex_tlv_simps even_pad_def)
  show "addAuth ex_auth = 26" "m_haveAuth ex_auth" "m_prms ex_auth = new_MsgParams"
    "m_sa ex_auth = ex_sa"
    using ex_set_valid ex_sa_simps by (simp_all add: ex_auth_eq addAuth_def ex_params authTlvSize_def)
  show "auth_inv ex_auth"
    unfolding ex_auth_def by (rule auth_inv_ops(1) [OF ex_set_valid(4)])
  show "\<exists>au. auth_tail ex_hl ex_auth sq = Some au"
    using ex_set_valid by (simp add: auth_tail_def Let_def ex_auth_eq ex_hl_def ex_params)
qed

lemma ex_sig_header: "sig_header ((build_header ex_sig_msg 1)\<lparr>messageType_majorSdoId := Signaling\<rparr>)"
  using ex_params by (simp add: sig_header_def build_header_def Let_def Signaling_def low_nibble_left
      ptp_major_ver_def ex_sig_msg_def new_Message_def)

lemma ex_sig_taken: "\<forall>x \<in> set ex_sig. sig_taken (m_prms ex_sig_msg) x"
  by (simp add: ex_sig_def sig_taken_def ex_sig_msg_def new_Message_def new_MsgParams_def ex_tlv_simps
      enc_CUMULATIVE_RATE_RATIO_def)

section \<open>Management TLVs\<close>

text \<open>
  C1: a management TLV survives the wire, whatever the user left in the fields that \<^verbatim>\<open>build\<close> sets itself:
  the lengths of texts and addresses, the counts of tables, and the bits of flags that the structure does not
  have. When the octets left in the buffer are enough, \<^verbatim>\<open>call_tlv_data\<close> sets these fields, \<open>built t\<close>, and
  writes the octets of the result; on exactly these octets \<^verbatim>\<open>call_tlv_data\<close> gives back that TLV and uses all
  of them. When they are not enough, it reports that the buffer is too small. The TLV has to have a wire
  image once the fields are set: the length of a text, of an address and of a record of a fault and the
  count of a table fit their fields (at most 255 octets of a text or entries of a cluster table), identities
  have eight octets and fixed arrays their size, and seconds fit 48 bits.
\<close>

theorem tlv_survives_the_wire:
  assumes t: "valid_tlv (built t)" "tlv_type t \<noteq> SMPTE_MNG_ID" and mp: "m_build mp" "mp_ok mp"
  shows "if int (length (enc_tlv (built t))) \<le> m_left mp
    then \<exists>mp'. call_tlv_data mem (tlv_type t) (Some t) mp = (MNG_PARSE_ERROR_OK, Some (built t), mp') \<and>
      length (m_buf mp') = length (m_buf mp) \<and> m_cur mp' = m_cur mp + length (enc_tlv (built t)) \<and>
      mem_read (m_buf mp') (m_cur mp) (length (enc_tlv (built t))) = enc_tlv (built t) \<and>
      (\<exists>mq. call_tlv_data True (tlv_type t) tlv
           (parse_at (m_buf mp') (m_cur mp) (length (enc_tlv (built t)))) =
         (MNG_PARSE_ERROR_OK, Some (built t), mq) \<and> m_left mq = 0)
    else fst (call_tlv_data mem (tlv_type t) (Some t) mp) = MNG_PARSE_ERROR_TOO_SMALL"
proof (cases "int (length (enc_tlv (built t))) \<le> m_left mp")
  case True
  let ?n = "length (enc_tlv (built t))"
  let ?mp = "put (enc_tlv (built t)) (mp\<lparr>m_err := MNG_PARSE_ERROR_TOO_SMALL\<rparr>)"
  have n: "m_cur mp + ?n \<le> length (m_buf mp)"
    using mp(2) True by (simp add: mp_ok_def)
  have "view (parse_at (m_buf ?mp) (m_cur mp) ?n) = enc_tlv (built t) @ []"
    using n by (simp add: view_parse_at mem_write_def)
  moreover have "mp_ok (parse_at (m_buf ?mp) (m_cur mp) ?n)"
    using n by (simp add: mp_ok_parse_at)
  ultimately have "call_tlv_data True (tlv_type (built t)) tlv (parse_at (m_buf ?mp) (m_cur mp) ?n) =
      (MNG_PARSE_ERROR_OK, Some (built t), move ?n
        (parse_at (m_buf ?mp) (m_cur mp) ?n\<lparr>m_err := MNG_PARSE_ERROR_TOO_SMALL\<rparr>))"
    using t by (intro call_parse [where r = "[]"]) (simp_all add: parse_at_def pad_def)
  then show ?thesis
    using True call_sets [OF mp t True] n mem_read_write_same [of "m_cur mp" "m_buf mp" "enc_tlv (built t)"]
    by (auto simp: parse_at_def)
qed (simp add: call_sets_small mp t)

theorem tlv_survives_the_wire_witness:
  "\<exists>mp'. call_tlv_data True USER_DESCRIPTION (Some ex_text) ex_mp =
      (MNG_PARSE_ERROR_OK, Some (built ex_text), mp') \<and>
    mem_read (m_buf mp') 2 3 = [2, 104, 105] \<and>
    (\<exists>mq. call_tlv_data True USER_DESCRIPTION None (parse_at (m_buf mp') 2 3) =
       (MNG_PARSE_ERROR_OK, Some (built ex_text), mq) \<and> m_left mq = 0)"
  using tlv_survives_the_wire [of ex_text ex_mp True None] ex_text_simps
  by (auto simp: ex_mp_def mp_ok_def numeral_3_eq_3)

text \<open>
  C2: the parser of a TLV never touches the buffer, never goes backward and never leaves the octets
  it was given, whatever the octets are; when it succeeds, the result has the structure that
  belongs to the identifier.
\<close>

theorem tlv_parse_confined:
  assumes "\<not> m_build mp" "mp_ok mp" "call_tlv_data mem i tlv mp = (err, tlv', mp')"
  shows "mp_ok mp' \<and> m_buf mp' = m_buf mp \<and> m_cur mp \<le> m_cur mp' \<and>
    int (m_cur mp') + m_left mp' = int (m_cur mp) + m_left mp \<and>
    (err = MNG_PARSE_ERROR_OK \<and> new_tlv i \<noteq> None \<longrightarrow> (\<exists>t. tlv' = Some t \<and> tlv_type t = i))"
proof -
  have "advance mp mp'"
    using call_frame [OF assms(2) _ assms(3)] assms(1) by simp
  then show ?thesis
    using call_parse_type [OF assms(1,2), of i mem tlv tlv' mp'] assms by (auto simp: advance_def)
qed

theorem tlv_parse_confined_witness:
  "m_cur (snd (snd (call_tlv_data True PRIORITY1 None (parse_at [1, 2, 3, 4] 1 3)))) \<ge> 1"
  using tlv_parse_confined [of "parse_at [1, 2, 3, 4] 1 3" True PRIORITY1 None
    "fst (call_tlv_data True PRIORITY1 None (parse_at [1, 2, 3, 4] 1 3))"
    "fst (snd (call_tlv_data True PRIORITY1 None (parse_at [1, 2, 3, 4] 1 3)))"
    "snd (snd (call_tlv_data True PRIORITY1 None (parse_at [1, 2, 3, 4] 1 3)))"]
  by (simp add: mp_ok_parse_at, simp add: parse_at_def)

text \<open>
  C3: the sizes of the table of identifiers are right: a fixed size is the size of the image
  rounded up to an even number, so \<^verbatim>\<open>getMsgPlanedLen\<close> and \<^verbatim>\<open>build\<close> can rely on it.
\<close>

theorem table_sizes_right:
  assumes "valid_tlv t" "0 \<le> mng_size (tlv_type t)"
  shows "mng_size (tlv_type t) = int (length (even_pad (enc_tlv t)))"
  using tlv_fixed_size [OF assms] by (simp add: length_even_pad zmod_int)

theorem table_sizes_right_witness:
  "0 \<le> mng_size PRIORITY1 \<and> mng_size PRIORITY1 = int (length (even_pad (enc_tlv ex_tlv)))"
  using table_sizes_right [of ex_tlv] ex_tlv_simps by (simp add: mng_size_def)

text \<open>
  C4: the calculated size of a TLV with variable size is the size of the image, except for
  \<^verbatim>\<open>CLOCK_DESCRIPTION\<close>, where it is one octet too small.
\<close>

theorem variable_sizes_right:
  assumes "valid_tlv t" "tlv_s t = Some n"
  shows "length (enc_tlv t) = (if tlv_type t = CLOCK_DESCRIPTION then n + 1 else n)"
  by (rule tlv_variable_size [OF assms])

theorem variable_sizes_right_witness:
  "length (enc_tlv (USER_DESCRIPTION_v \<lparr>USER_DESCRIPTION_t.userDescription =
     \<lparr>lengthField = 2, textField = [65, 66]\<rparr>\<rparr>)) = 3"
  using variable_sizes_right [of "USER_DESCRIPTION_v \<lparr>USER_DESCRIPTION_t.userDescription =
     \<lparr>lengthField = 2, textField = [65, 66]\<rparr>\<rparr>" 3]
  by (simp add: tlv_s_def USER_DESCRIPTION_s_def PTPText_size_def valid_USER_DESCRIPTION_def
      valid_PTPText_def)

text \<open>
  C5: the search of an identifier by its value on the wire finds exactly the identifiers of the
  table that the implementation in use has, and each of them by one value.
\<close>

theorem findTlvId_exact:
  "findTlvId v spec = Some i \<longleftrightarrow>
     Mng_Ids.isValidId i \<and> mng_value i = v \<and> (spec = linuxptp \<or> mng_allowed i AND A_USE_LINUXPTP = 0)"
  by (rule findTlvId_iff)

section \<open>Building a message\<close>

text \<open>
  C6: in every state that a sequence of calls can bring a message to, the identifier to send is
  one of the table, there is data exactly for a SET or COMMAND that needs it, with the structure
  of the identifier, the key object is that of the key in use, every key is well formed and the
  transport specific value is a nibble.
\<close>

theorem reachable_messages_ok:
  assumes "message_reachable m"
  shows "message_inv m"
  by (rule message_reachable_inv [OF assms])

theorem reachable_messages_ok_witness: "message_inv ex_auth \<and> m_haveAuth ex_auth"
proof -
  have "message_reachable ex_msg"
    unfolding ex_msg_def by (rule made)
  then have "message_reachable ex_set"
    unfolding ex_set_def by (rule called [OF _ set_action])
  then have "message_reachable ex_auth"
    unfolding ex_auth_def by (rule called [OF _ use_auth [OF ex_sa_simps(1)]])
  then show ?thesis
    using reachable_messages_ok ex_auth_valid by blast
qed

text \<open>
  C7: \<^verbatim>\<open>build\<close> writes the octets the protocol asks for: the header with the length of the whole
  message, the management TLV with its length field and the padded data, then the
  authentication TLV with the integrity check value over everything before it. The octets of the
  buffer behind the message are not touched, and \<^verbatim>\<open>getMsgLen\<close> is the number of octets.
\<close>

theorem build_writes_the_message:
  assumes "hmac_ok hl" "msg_valid m" "auth_tail hl m sq = Some au"
    and "mngMsgBaseSize + length (data_image m) + addAuth m \<le> length buf"
  shows "build hl m (Some buf) sq =
    (MNG_PARSE_ERROR_OK, Some (msg_image m sq @ au @ drop (length (msg_image m sq @ au)) buf),
     m\<lparr>m_msgLen := length (msg_image m sq @ au)\<rparr>)"
  by (rule build_complete [OF assms])

theorem build_writes_the_message_witness:
  "\<exists>au. auth_tail ex_hl ex_auth 7 = Some au \<and>
    build ex_hl ex_auth (Some (replicate 100 0)) 7 =
     (MNG_PARSE_ERROR_OK, Some (msg_image ex_auth 7 @ au @ drop (length (msg_image ex_auth 7 @ au)) (replicate 100 0)),
      ex_auth\<lparr>m_msgLen := length (msg_image ex_auth 7 @ au)\<rparr>)"
proof -
  obtain au where au: "auth_tail ex_hl ex_auth 7 = Some au"
    using ex_auth_valid(8) by blast
  have "mngMsgBaseSize + length (data_image ex_auth) + addAuth ex_auth \<le> length (replicate 100 (0 :: uint8_t))"
    by (simp add: ex_auth_valid msg_sizes)
  from build_writes_the_message [OF ex_hl_ok ex_auth_valid(1) au this] show ?thesis
    using au by blast
qed

text \<open>
  C8: \<^verbatim>\<open>getMsgPlanedLen\<close> is exact: a message whose data fits its identifier and has a wire image is
  built exactly when the buffer has the planned length, and then the planned length is the one
  \<^verbatim>\<open>getMsgLen\<close> returns; a smaller buffer gives \<^verbatim>\<open>MNG_PARSE_ERROR_TOO_SMALL\<close>.
\<close>

theorem planned_length_exact:
  assumes hl: "hmac_ok hl" and m: "msg_valid m" and au: "auth_tail hl m sq = Some au"
  shows "fst (build hl m (Some buf) sq) =
      (if getMsgPlanedLen m \<le> int (length buf) then MNG_PARSE_ERROR_OK
       else MNG_PARSE_ERROR_TOO_SMALL) \<and>
    (getMsgPlanedLen m \<le> int (length buf) \<longrightarrow>
      int (m_msgLen (snd (snd (build hl m (Some buf) sq)))) = getMsgPlanedLen m)"
proof (cases "getMsgPlanedLen m \<le> int (length buf)")
  case True
  then have "mngMsgBaseSize + length (data_image m) + addAuth m \<le> length buf"
    using planned_length [OF m] by simp
  then show ?thesis
    using build_complete [OF hl m au] True planned_length [OF m] length_msg_image [OF m, of sq]
      length_auth_tail [OF hl au] by simp
next
  case False
  then have "length buf < mngMsgBaseSize + length (data_image m) + addAuth m"
    using planned_length [OF m] by simp
  then show ?thesis
    using build_too_small [OF m] False by simp
qed

theorem planned_length_exact_witness:
  "getMsgPlanedLen ex_auth = 82 \<and>
   fst (build ex_hl ex_auth (Some (replicate 82 0)) 1) = MNG_PARSE_ERROR_OK \<and>
   fst (build ex_hl ex_auth (Some (replicate 81 0)) 1) = MNG_PARSE_ERROR_TOO_SMALL"
proof -
  obtain au where au: "auth_tail ex_hl ex_auth 1 = Some au"
    using ex_auth_valid(8) by blast
  note * = planned_length_exact [OF ex_hl_ok ex_auth_valid(1) au]
  have "getMsgPlanedLen ex_auth = 82"
    using planned_length [OF ex_auth_valid(1)] by (simp add: ex_auth_valid msg_sizes)
  then show ?thesis
    using * [of "replicate 82 0"] * [of "replicate 81 0"] by simp
qed



text \<open>
  A longer octet string can leave the buffer: its length is cut to 16 bits before it is compared with the
  octets that are left, and then all of it is copied.
\<close>

lemma long_octets_leave_the_buffer:
  assumes "m_build mp" "mp_ok mp" "m_left mp < int (length bin)" "int (length bin mod 2 ^ 16) \<le> m_left mp"
    "int (m_cur mp) + m_left mp = int (length (m_buf mp))"
  shows "\<exists>mp'. proc_Binary len bin mp = (False, bin, mp') \<and> length (m_buf mp) < length (m_buf mp')"
  using assms by (auto simp: proc_Binary_def Let_def store_def mem_write_def mp_ok_def)

section \<open>Parsing a message\<close>

text \<open>
  C10: request and answer: take the octets \<^verbatim>\<open>build\<close> wrote for a SET or COMMAND with data and
  replace the action by that of the answer; \<^verbatim>\<open>parse\<close> of any message object takes them and gives
  the user the same TLV, identifier and sequence, and the sender as peer.
\<close>

theorem answer_gives_the_data:
  assumes hl: "hmac_ok hl" and m: "msg_valid m" "m_dataSend m = Some t" "enc_tlv t \<noteq> []" "addAuth m = 0"
    and b: "build hl m (Some buf) sq = (MNG_PARSE_ERROR_OK, Some out, m')"
    and n: "m_msgLen m' < 2 ^ 16" "int (m_msgLen m') \<le> bufSize"
    and c: "pe_mem env" "\<not> m_haveAuth c"
      "implementSpecific (m_prms c) = linuxptp \<or> mng_allowed (m_tlv_id m) AND A_USE_LINUXPTP = 0"
  shows "\<exists>c'. parse env c (out[46 := answer m]) bufSize = (MNG_PARSE_ERROR_OK, c') \<and>
    m_dataGet c' = Some t \<and> m_replayTlv_id c' = m_tlv_id m \<and> m_replyAction c' = answer m \<and>
    m_sequence c' = sq \<and> m_peer c' = self_id (m_prms m)"
proof -
  let ?n = "mngMsgBaseSize + length (data_image m) + addAuth m"
  have au: "auth_tail hl m sq = Some []"
    using m(4) by (auto simp: addAuth_def auth_tail_def msg_sizes split: if_splits)
  have "?n \<le> length buf"
    using build_too_small [OF m(1), of buf hl sq] b by fastforce
  from build_complete [OF hl m(1) au this]
  have out: "out = msg_image m sq @ drop (length (msg_image m sq)) buf"
    and m': "m_msgLen m' = mngMsgBaseSize + length (data_image m)"
    using b length_msg_image [OF m(1)] by auto
  have p: "auth_passed h c b' a' 0" for h b' a'
    using c(2) by (simp add: auth_passed_def)
  show ?thesis
    unfolding out answer_octets [OF m(1)]
    using parse_answer [OF m(1-3) _ _ c(1,3) p] n m' m(4)
    by (simp add: rcv_header_def answer_header_def build_header_def Let_def)
qed

theorem answer_gives_the_data_witness:
  "\<exists>out m' c'. build ex_hl ex_set (Some (replicate 60 0)) 9 = (MNG_PARSE_ERROR_OK, Some out, m') \<and>
    parse ex_env ex_msg (out[46 := RESPONSE]) 60 = (MNG_PARSE_ERROR_OK, c') \<and>
    m_dataGet c' = Some ex_tlv \<and> m_sequence c' = 9"
proof -
  have au: "auth_tail ex_hl ex_set 9 = Some []"
    by (simp add: auth_tail_def ex_set_valid)
  have len: "mngMsgBaseSize + length (data_image ex_set) + addAuth ex_set \<le> length (replicate 60 (0 :: uint8_t))"
    by (simp add: ex_set_valid msg_sizes)
  obtain out m' where b: "build ex_hl ex_set (Some (replicate 60 0)) 9 = (MNG_PARSE_ERROR_OK, Some out, m')"
    and m': "m_msgLen m' = 56"
    using build_complete [OF ex_hl_ok ex_set_valid(1) au len] length_msg_image [OF ex_set_valid(1), of 9]
    by (simp add: ex_set_valid msg_sizes)
  have "m_dataSend ex_set = Some ex_tlv" "enc_tlv ex_tlv \<noteq> []" "answer ex_set = RESPONSE"
    by (simp_all add: ex_set_eq ex_tlv_simps answer_def action_defs)
  then show ?thesis
    using answer_gives_the_data [OF ex_hl_ok ex_set_valid(1) _ _ ex_set_valid(3) b, of ex_tlv 60 ex_env ex_msg]
      b m' by (auto simp: ex_env_def ex_msg_simps ex_params)
qed

text \<open>
  C11: with authentication: an answer whose authentication TLV carries the value the library makes
  with the key in use is accepted by a message object that checks it, and gives the data.
\<close>

theorem authenticated_answer_accepted:
  assumes hl: "hmac_ok (pe_hmac env)" "pe_mem env"
    and m: "msg_valid m" "m_dataSend m = Some t" "enc_tlv t \<noteq> []"
    and c: "message_reachable c" "m_haveAuth c"
      "implementSpecific (m_prms c) = linuxptp \<or> mng_allowed (m_tlv_id m) AND A_USE_LINUXPTP = 0"
    and au: "auth_octets (pe_hmac env) (m_sa c) (m_sppID c) (m_keyID c)
        (mng_octets (answer_header m sq) (m_tlv_id m) (data_image m) (length au)) = Some au"
    and n: "mngMsgBaseSize + length (data_image m) + length au < 2 ^ 16"
      "int (mngMsgBaseSize + length (data_image m) + length au) \<le> bufSize"
  shows "\<exists>c'. parse env c
      (mng_octets (answer_header m sq) (m_tlv_id m) (data_image m) (length au) @ au @ r) bufSize =
      (MNG_PARSE_ERROR_OK, c') \<and> m_dataGet c' = Some t \<and> m_replayTlv_id c' = m_tlv_id m"
  using message_reachable_inv [OF c(1)] parse_answer_auth [OF hl m _ _ c(2,3) au n]
  by (simp add: message_inv_def rcv_header_def)

lemma ex_auth_octets: "auth_octets ex_hl ex_sa 1 5 img = Some (pack_authenticationTlv 22 1 5 @ replicate 16 0)"
  by (simp add: auth_octets_def Let_def ex_sa_simps ex_hl_def msg_sizes)

lemma ex_auth_reachable: "message_reachable ex_auth"
  unfolding ex_auth_def ex_set_def ex_msg_def
  by (rule called [OF called [OF made set_action] use_auth [OF ex_sa_simps(1)]])

lemma ex_answer:
  "m_dataSend ex_set = Some ex_tlv" "enc_tlv ex_tlv \<noteq> []" "m_tlv_id ex_set = PRIORITY1"
  "m_sa ex_auth = ex_sa" "m_sppID ex_auth = 1" "m_keyID ex_auth = 5"
  "length (pack_authenticationTlv 22 1 5 @ replicate 16 (0 :: uint8_t)) = 26"
  by (simp_all add: ex_set_eq ex_tlv_simps ex_auth_eq authTlvSize_def)

lemmas ex_answer_simps = ex_answer ex_auth_octets ex_hl_ok ex_auth_valid ex_set_valid ex_params msg_sizes

theorem authenticated_answer_accepted_witness:
  "\<exists>c'. parse ex_env ex_auth (mng_octets (answer_header ex_set 3) PRIORITY1 [127, 0] 26 @
      pack_authenticationTlv 22 1 5 @ replicate 16 0) 82 = (MNG_PARSE_ERROR_OK, c') \<and>
    m_dataGet c' = Some ex_tlv"
  using authenticated_answer_accepted [OF _ _ ex_set_valid(1) ex_answer(1,2) ex_auth_reachable
      ex_auth_valid(5), of ex_env 3 "pack_authenticationTlv 22 1 5 @ replicate 16 0" 82 "[]"]
  by (auto simp: ex_env_def ex_answer_simps)

text \<open>
  C12: a management message is taken only when its authentication was verified: a message object
  that checks authentication and does not ignore the result reports data, an error status or a
  SMPTE message only if an authentication TLV stands right behind the management TLV and inside the message,
  names an association and a key of the pool, and the library verified with this key the octets of the TLV
  behind its fields as the integrity check value of all octets of the message before them.
\<close>

theorem accepted_means_verified:
  assumes "message_reachable m" "m_haveAuth m"
    and "rcvAuth (m_prms m) AND RCV_AUTH_MNG > 0" "rcvAuth (m_prms m) AND RCV_AUTH_IGNORE = 0"
    and "fst (parse env m buf bufSize) \<in> {MNG_PARSE_ERROR_OK, MNG_PARSE_ERROR_MSG, MNG_PARSE_ERROR_SMPTE}"
    and "rd8 buf 0 AND 0xf \<noteq> Signaling"
  shows "key_verified (pe_hmac env) (m_sa m) buf (52 + unat (rd16 buf 50)) (int (unat (rd16 buf 2))) \<and>
    int (unat (rd16 buf 2)) \<le> bufSize"
  using message_reachable_inv [OF assms(1)] assms(2-)
  by (intro parse_verified) (simp_all add: message_inv_def)

theorem accepted_means_verified_witness:
  "\<exists>buf. buf = mng_octets (answer_header ex_set 3) PRIORITY1 [127, 0] 26 @
      pack_authenticationTlv 22 1 5 @ replicate 16 0 \<and>
    key_verified ex_hl ex_sa buf (52 + unat (rd16 buf 50)) (int (unat (rd16 buf 2)))"
proof -
  let ?buf = "mng_octets (answer_header ex_set 3) PRIORITY1 [127, 0] 26 @
      pack_authenticationTlv 22 1 5 @ replicate 16 (0 :: uint8_t)"
  have ok: "fst (parse ex_env ex_auth ?buf 82) = MNG_PARSE_ERROR_OK"
    using parse_answer_auth [OF _ _ ex_set_valid(1) ex_answer(1,2) ex_auth_valid(4) _ ex_auth_valid(5),
        of ex_env 3 "pack_authenticationTlv 22 1 5 @ replicate 16 0" 82 "[]"]
    by (simp add: ex_env_def ex_answer_simps ex_sa_simps)
  have "rd8 ?buf 0 AND 0xf \<noteq> Signaling"
    by (simp add: rd8_def mng_octets_def pack_managementMessage_def answer_header_def build_header_def
        Let_def low_nibble Management_def Signaling_def)
  then show ?thesis
    using accepted_means_verified [OF ex_auth_reachable ex_auth_valid(5), of ex_env ?buf 82] ok
    by (simp add: ex_env_def ex_auth_valid) (simp add: new_MsgParams_def RCV_AUTH_ALL_def
      RCV_AUTH_MNG_def RCV_AUTH_IGNORE_def)
qed

text \<open>
  C13: \<^verbatim>\<open>parse\<close> reads only the octets it was told of: two buffers that agree on them give the same
  result and leave the message object in the same state, whatever the octets, the parameters and
  the keys are.
\<close>

theorem parse_reads_only_its_octets:
  assumes "nat bufSize \<le> length a" "nat bufSize \<le> length b" "take (nat bufSize) a = take (nat bufSize) b"
  shows "parse env m a bufSize = parse env m b bufSize"
  using assms by (intro parse_agree) (simp add: agree_def)

theorem parse_reads_only_its_octets_witness:
  "parse ex_env ex_msg (replicate 60 13 @ [1, 2]) 60 = parse ex_env ex_msg (replicate 60 13 @ [3]) 60"
  by (rule parse_reads_only_its_octets) simp_all

text \<open>
  A message that is taken has a sound header: it fits the octets received, it is version 2,
  a management message or a signaling message the parameters let in.
\<close>

theorem taken_messages_have_a_header:
  assumes "fst (parse env m buf bufSize) \<in> taken"
  shows "44 \<le> bufSize \<and> int (unat (rd16 buf 2)) \<le> bufSize \<and> rd8 buf 1 AND 0xf = 2 \<and>
    rd8 buf 33 = 0x7f \<and>
    (rd8 buf 0 AND 0xf = Management \<and> 52 \<le> int (unat (rd16 buf 2)) \<or>
     rd8 buf 0 AND 0xf = Signaling \<and> rcvSignaling (m_prms m))"
  by (rule parse_taken_header [OF assms])

lemma ex_parse_auth:
  "fst (parse ex_env ex_auth (mng_octets (answer_header ex_set 3) PRIORITY1 [127, 0] 26 @
      pack_authenticationTlv 22 1 5 @ replicate 16 0) 82) = MNG_PARSE_ERROR_OK"
  using parse_answer_auth [OF _ _ ex_set_valid(1) ex_answer(1,2) ex_auth_valid(4) _ ex_auth_valid(5),
      of ex_env 3 "pack_authenticationTlv 22 1 5 @ replicate 16 0" 82 "[]"]
  by (simp add: ex_env_def ex_answer_simps ex_sa_simps)

theorem taken_messages_have_a_header_witness:
  "rd8 (mng_octets (answer_header ex_set 3) PRIORITY1 [127, 0] 26 @
      pack_authenticationTlv 22 1 5 @ replicate 16 0) 33 = 0x7f"
  using taken_messages_have_a_header [of ex_env ex_auth "mng_octets (answer_header ex_set 3) PRIORITY1 [127, 0] 26 @
      pack_authenticationTlv 22 1 5 @ replicate 16 0" 82] ex_parse_auth
  by (simp add: taken_def)

text \<open>
  C15: after a management TLV with a dataField is taken, the TLV the user gets has the structure
  that belongs to the identifier the user reads, for every identifier that has one.
\<close>

theorem data_fits_the_identifier:
  assumes "parse env m buf bufSize = (MNG_PARSE_ERROR_OK, m')" "bufSize \<le> int (length buf)"
    "rd8 buf 0 AND 0xf = Management" "rd16 buf 48 = MANAGEMENT" "2 < unat (rd16 buf 50)"
    "new_tlv (m_replayTlv_id m') \<noteq> None"
  shows "\<exists>t. m_dataGet m' = Some t \<and> tlv_type t = m_replayTlv_id m'"
proof -
  obtain err m1 where l: "52 + int (unat (rd16 buf 50)) \<le> bufSize"
    and p: "parse_management env m1 buf (0xf AND rd8 buf 46) (unat (rd16 buf 50)) err = (MNG_PARSE_ERROR_OK, m')"
    using parse_management_OK [OF assms(1,4,3)] by blast
  have "52 + unat (rd16 buf 50) \<le> length buf"
    using l assms(2) by linarith
  then show ?thesis
    using parse_management_data [OF p] assms by (simp add: lengthFieldMngBase_def tlvSizeHdr_def)
qed

lemma ex_answer_octets:
  "rd16 (mng_octets (answer_header ex_set 3) PRIORITY1 [127, 0] k @ r) 48 = MANAGEMENT"
  "rd16 (mng_octets (answer_header ex_set 3) PRIORITY1 [127, 0] k @ r) 50 = 4"
  "rd8 (mng_octets (answer_header ex_set 3) PRIORITY1 [127, 0] k @ r) 0 AND 0xf = Management"
  "length (mng_octets (answer_header ex_set 3) PRIORITY1 [127, 0] k) = 56"
proof -
  note h = reply_header_answer [OF ex_set_valid(1), of 3, unfolded reply_header_def]
  show "rd16 (mng_octets (answer_header ex_set 3) PRIORITY1 [127, 0] k @ r) 48 = MANAGEMENT"
    "rd16 (mng_octets (answer_header ex_set 3) PRIORITY1 [127, 0] k @ r) 50 = 4"
    "length (mng_octets (answer_header ex_set 3) PRIORITY1 [127, 0] k) = 56"
    using h by (simp_all add: rd_tlv length_mng_octets msg_sizes)
  show "rd8 (mng_octets (answer_header ex_set 3) PRIORITY1 [127, 0] k @ r) 0 AND 0xf = Management"
    using h by (simp add: rd8_def mng_octets_def pack_managementMessage_def)
qed

theorem data_fits_the_identifier_witness:
  "\<exists>c t. parse ex_env ex_msg (mng_octets (answer_header ex_set 3) PRIORITY1 [127, 0] 0 @ []) 56 =
     (MNG_PARSE_ERROR_OK, c) \<and> m_dataGet c = Some t \<and> tlv_type t = PRIORITY1"
proof -
  let ?buf = "mng_octets (answer_header ex_set 3) PRIORITY1 [127, 0] 0 @ []"
  have p: "auth_passed h ex_msg b' a' 0" for h b' a'
    by (simp add: auth_passed_def ex_msg_simps)
  obtain c where c: "parse ex_env ex_msg ?buf 56 = (MNG_PARSE_ERROR_OK, c)" "m_replayTlv_id c = PRIORITY1"
    using parse_answer [where env = ex_env and sq = 3 and r = "[]" and bufSize = 56,
        OF ex_set_valid(1) ex_answer(1,2) _ _ _ _ p]
    by (simp add: ex_env_def ex_answer_simps ex_msg_simps)
  then show ?thesis
    using data_fits_the_identifier [OF c(1)] ex_answer_octets(1-3) [of 0 "[]"]
      ex_answer_octets(4) [of 0] by simp
qed

text \<open>
  \<^verbatim>\<open>parse\<close> of any octets changes nothing of what the message object sends: neither the action,
  the identifier, the data, the parameters nor the keys.
\<close>

theorem parse_keeps_the_request: "sending (snd (parse env m buf bufSize)) = sending m"
  by (rule sending_parse)

section \<open>Signaling messages\<close>

text \<open>
  C17: a signaling message gives exactly the TLVs that were encoded, in their order, for every
  type of TLV the library knows, management TLVs and error statuses inside included.
\<close>

theorem signaling_gives_its_tlvs:
  assumes "sig_header h" "sigBaseSize + length (sig_octets xs) < 2 ^ 16"
    and "int (sigBaseSize + length (sig_octets xs)) \<le> bufSize"
    and "rcvSignaling (m_prms m)" "\<forall>x \<in> set xs. sig_taken (m_prms m) x" "pe_mem env" "\<not> m_haveAuth m"
  shows "\<exists>m'. parse env m (pack_signaling (h\<lparr>messageLength :=
      of_nat (sigBaseSize + length (sig_octets xs))\<rparr>) @ sig_octets xs @ r) bufSize =
      (MNG_PARSE_ERROR_SIG, m') \<and> m_sigTlvs m' = \<lparr>m_lastSig = True, m_tlvs = xs\<rparr> \<and>
      m_type m' = Signaling"
  by (rule parse_signaling [OF assms])

theorem signaling_gives_its_tlvs_witness:
  "\<exists>m'. parse ex_env ex_sig_msg (pack_signaling ((build_header ex_sig_msg 1)\<lparr>messageType_majorSdoId := Signaling,
      messageLength := 59\<rparr>) @ sig_octets ex_sig @ []) 59 = (MNG_PARSE_ERROR_SIG, m') \<and>
      m_tlvs (m_sigTlvs m') = ex_sig"
proof -
  have l: "length (sig_octets ex_sig) = 15"
    by (simp add: sig_octets_def ex_sig_def ex_tlv_simps enc_CUMULATIVE_RATE_RATIO_def)
  show ?thesis
    using signaling_gives_its_tlvs [OF ex_sig_header _ _ _ ex_sig_taken, of 59 ex_env "[]"] l
    by (auto simp: sigBaseSize_def ex_env_def) (auto simp: ex_sig_msg_def new_Message_def new_MsgParams_def)
qed

text \<open>
  Whatever the octets of a signaling message are, the object keeps only TLVs of types that
  pass the filter, never an authentication TLV, and at most one TLV for each four octets.
\<close>

theorem signaling_filter:
  assumes "0 \<le> left"
  shows "sig_kept (m_prms m) (m_tlvs (m_sigTlvs (snd (parseSig env m buf left)))) \<and>
    4 * int (length (m_tlvs (m_sigTlvs (snd (parseSig env m buf left))))) \<le> left"
  by (rule parseSig_kept [OF assms])

theorem signaling_filter_witness:
  "4 * int (length (m_tlvs (m_sigTlvs (snd (parseSig ex_env ex_sig_msg (replicate 60 0) 16))))) \<le> 16"
  using signaling_filter [of 16 ex_sig_msg ex_env "replicate 60 0"] by simp

section \<open>Choosing what to send\<close>

text \<open>
  \<^verbatim>\<open>setAction\<close> accepts exactly the requests of the table: the action is GET, SET or COMMAND, the
  identifier exists in the implementation in use and allows the action, and when the request needs
  data there is a TLV with the structure of the identifier. A refused request changes nothing.
\<close>

theorem setAction_accepts:
  "(fst (setAction a i d m) \<longleftrightarrow>
     a \<in> {GET, SET, COMMAND} \<and> Message_isValidId m i \<and> mng_allowed i AND push_bit (unat a) 1 \<noteq> 0 \<and>
     (a = GET \<or> mng_size i = 0 \<or> (\<exists>t. d = Some t \<and> tlv_type t = i))) \<and>
   (fst (setAction a i d m) \<or> snd (setAction a i d m) = m)"
proof -
  have n: "mng_size NULL_PTP_MANAGEMENT = 0"
    by (simp add: mng_size_def)
  note v = verifyTlv_valid [of i d]
  have "fst (setAction a i d m) \<or> snd (setAction a i d m) = m"
    by (simp add: setAction_def)
  then show ?thesis
    using v n by (auto simp: setAction_def allowedAction_def Message_isValidId_def)
qed

section \<open>Keys\<close>

text \<open>
  C20: \<^verbatim>\<open>addKey\<close> keeps a pool of keys well formed: identifiers are unique and not zero, the length
  of each key fits its algorithm and the size of each integrity check value is even and between 2
  and what the algorithm gives; a key that was added is found with the values it was added with,
  the other keys stay.
\<close>

theorem addKey_keeps_keys:
  assumes "Spp_ok s"
  shows "Spp_ok (snd (addKey i t v d r s)) \<and>
    (fst (addKey i t v d r s) \<longrightarrow>
      Spp_have (snd (addKey i t v d r s)) i \<and> mac_size (snd (addKey i t v d r s)) i = d \<and>
      Spp_key (snd (addKey i t v d r s)) i = v \<and> htype (snd (addKey i t v d r s)) i = t) \<and>
    (j \<noteq> i \<longrightarrow> Spp_have (snd (addKey i t v d r s)) j = Spp_have s j \<and>
      mac_size (snd (addKey i t v d r s)) j = mac_size s j \<and>
      Spp_key (snd (addKey i t v d r s)) j = Spp_key s j)"
  using Spp_ok_addKey [OF assms, of i t v d r]
  by (auto simp: addKey_def Spp_have_def mac_size_def Spp_key_def htype_def Spp_at_def update_conv'
      word_gt_0)

theorem addKey_keeps_keys_witness:
  "Spp_have (snd (addKey 5 HMAC_AES128 (replicate 16 1) 8 False (Spp_new 1))) 5"
  using addKey_keeps_keys [of "Spp_new 1" 5 HMAC_AES128 "replicate 16 1" 8 False]
  by (simp add: addKey_def Spp_new_def Spp_have_def)

section \<open>Time stamps\<close>

text \<open>
  Nanoseconds survive the conversion to a time stamp and back, for every 64 bits value, and the
  time stamp is normalised.
\<close>

theorem nanoseconds_survive: "toNanoseconds (fromNanoseconds n) = n \<and> ts_norm (fromNanoseconds n)"
  by (simp add: nanoseconds_round ts_norm_fromNanoseconds)



text \<open>
  The sum of two normalised time stamps is the sum of the times and is normalised, when the
  seconds do not overflow; and the order of normalised time stamps is that of the times.
\<close>

theorem time_sums:
  assumes "ts_norm t" "ts_norm u"
  shows "(unat (secondsField t) + unat (secondsField u) + 1 < 2 ^ 64 \<longrightarrow>
      ts_norm (Timestamp_add t u) \<and> ts_nat (Timestamp_add t u) = ts_nat t + ts_nat u) \<and>
    (Timestamp_less t u \<longleftrightarrow> ts_nat t < ts_nat u)"
  using add_time [OF assms] less_time [OF assms] by simp

theorem time_sums_witness:
  "ts_nat (Timestamp_add \<lparr>secondsField = 3, nanosecondsField = 999999999\<rparr>
     \<lparr>secondsField = 1, nanosecondsField = 7\<rparr>) = 5000000006"
  using time_sums [of "\<lparr>secondsField = 3, nanosecondsField = 999999999\<rparr>"
      "\<lparr>secondsField = 1, nanosecondsField = 7\<rparr>"]
  by (simp add: ts_norm_def ts_nat_def NSEC_PER_SEC_def)

text \<open>
  Without normalised operands the loop of \<^verbatim>\<open>subt\<close> may never end: with the largest nanoseconds to
  subtract and nanoseconds that are a multiple of 512 there is no result.
\<close>

theorem subt_may_not_end:
  assumes "nanosecondsField t AND 0x1ff = 0" "nanosecondsField u = 0xffffffff"
  shows "Timestamp_subt t u = None"
  using borrowNano_forever [of "t\<lparr>secondsField := secondsField t - secondsField u\<rparr>"] assms
  by (simp add: Timestamp_subt_def)

theorem subt_may_not_end_witness:
  "Timestamp_subt \<lparr>secondsField = 9, nanosecondsField = 0\<rparr> \<lparr>secondsField = 1, nanosecondsField = 0xffffffff\<rparr> = None"
  by (rule subt_may_not_end) simp_all

section \<open>Octet strings\<close>

text \<open>
  C25: the class \<^verbatim>\<open>Binary\<close> implements a list of octets: any sequence of its operations, growing ones and
  octets behind the end included, has an effect that the specification of the list allows, and the size
  stays inside the allocated memory. When the object grows, the octets between are zero, unless a shorter
  value was assigned over a longer one before, after which they may be anything until the object is resized
  or cleared. When memory cannot be allocated, the operation may leave the octets as they are.
\<close>

theorem Binary_implements_octets:
  assumes "bin_abs b s"
  shows "\<exists>s'. bin_specs (\<not> never_fails mem) ps s s' \<and> bin_abs (fold (bin_exec mem) ps b) s'"
  by (rule bin_execs_spec [OF assms])

theorem Binary_implements_octets_witness:
  "b_octets (fold (bin_exec (\<lambda>_. True)) [B_set [1, 2, 3], B_put 4 7, B_resize 6] (new_Binary (\<lambda>_. True))) =
     [1, 2, 3, 0, 7, 0]"
proof -
  obtain s' where s': "bin_specs False [B_set [1, 2, 3], B_put 4 7, B_resize 6] ([], False) s'"
    "bin_abs (fold (bin_exec (\<lambda>_. True)) [B_set [1, 2, 3], B_put 4 7, B_resize 6] (new_Binary (\<lambda>_. True))) s'"
    using Binary_implements_octets [OF bin_abs_new [of "\<lambda>_. True"], of "\<lambda>_. True" "[B_set [1, 2, 3], B_put 4 7, B_resize 6]"]
    by (simp only: never_failsI not_True_eq_False) blast
  from s'(1) have "fst s' = [1, 2, 3, 0, 7, 0]"
    by (auto elim!: bin_specsE bin_specE simp: gap_ok_def length_Suc_conv)
  then show ?thesis
    using s'(2) by (simp add: bin_abs_def)
qed

text \<open>
  Octets that a shorter assignment left behind the end of the object come back when an octet
  is assigned behind the end, while after a shrinking \<^verbatim>\<open>resize\<close> they are zero.
\<close>

theorem setBin_leaves_octets:
  "b_octets (fold (bin_exec (\<lambda>_. True)) [B_set [1, 2, 3], B_set [9], B_put 2 7] (new_Binary (\<lambda>_. True))) = [9, 2, 7] \<and>
   b_octets (fold (bin_exec (\<lambda>_. True)) [B_set [1, 2, 3], B_resize 1, B_put 2 7] (new_Binary (\<lambda>_. True))) = [1, 0, 7]"
  by code_simp

text \<open>
  C27: texts in hexadecimal, as an identifier with a separator and in base 64 give the octets back they
  were made from, whatever the object held before.
\<close>

theorem text_forms_give_octets_back:
  assumes "Binary_ok b" "b_octets v \<noteq> []" "s \<noteq> []" "set s \<subseteq> set idsep"
    and "(v62, v63) \<in> set b64_alphabets" "q \<longrightarrow> p"
  shows "(\<exists>b'. fromHex (\<lambda>_. True) (toHex v) b = (True, b') \<and> b_octets b' = b_octets v) \<and>
    (\<exists>b'. fromId (\<lambda>_. True) (toId s v) b = (True, b') \<and> b_octets b' = b_octets v) \<and>
    (\<exists>b'. fromBase64 (\<lambda>_. True) (toBase64 p v62 v63 v) q b = (True, b') \<and> b_octets b' = b_octets v)"
  using hex_round [OF assms(1,2)] id_round [OF assms(1-4)] base64_round [OF assms(1,5,6)] by blast

theorem text_forms_give_octets_back_witness:
  "\<exists>b'. fromBase64 (\<lambda>_. True) (toBase64 True CHR ''+'' CHR ''/'' (Binary_of_buf (\<lambda>_. True) [1, 2]))
     True (new_Binary (\<lambda>_. True)) = (True, b') \<and> b_octets b' = [1, 2]"
  using text_forms_give_octets_back [of "new_Binary (\<lambda>_. True)" "Binary_of_buf (\<lambda>_. True) [1, 2]" "'':''"
      "CHR ''+''" "CHR ''/''" True True] Binary_of_buf_ok [of "\<lambda>_. True" "[1, 2]"]
  by (simp add: b64_alphabets_def idsep_def)

text \<open>
  \<^verbatim>\<open>eui48ToEui64\<close> turns six octets into the eight of the EUI-64: the two octets ff and fe in the
  middle, all others kept.
\<close>

theorem eui48_to_eui64:
  assumes "Binary_ok b" "b_size b = 6"
  shows "fst (eui48ToEui64 (\<lambda>_. True) b) \<and> Binary_ok (snd (eui48ToEui64 (\<lambda>_. True) b)) \<and>
    b_octets (snd (eui48ToEui64 (\<lambda>_. True) b)) = take 3 (b_octets b) @ [0xff, 0xfe] @ drop 3 (b_octets b)"
  by (rule eui48ToEui64_octets [OF assms(1) _ assms(2)]) simp

theorem eui48_to_eui64_witness:
  "b_octets (snd (eui48ToEui64 (\<lambda>_. True) (Binary_of_buf (\<lambda>_. True) [1, 2, 3, 4, 5, 6]))) =
     [1, 2, 3, 0xff, 0xfe, 4, 5, 6]"
  using eui48_to_eui64 [of "Binary_of_buf (\<lambda>_. True) [1, 2, 3, 4, 5, 6]"]
    Binary_of_buf_ok [of "\<lambda>_. True" "[1, 2, 3, 4, 5, 6]"]
    length_b_octets [of "Binary_of_buf (\<lambda>_. True) [1, 2, 3, 4, 5, 6]"]
  by simp

section \<open>Names and events\<close>

text \<open>
  The name of every identifier finds the identifier, with the exact search and with the one that
  takes parts of names; likewise the name of every port state.
\<close>

theorem names_find_their_values:
  "(Mng_Ids.isValidId i \<longrightarrow> findMngID (mng2str i) exact v = (True, i)) \<and>
   (p \<in> set portState_range \<longrightarrow> findPortState (portState2str p) c w = (True, p))"
  using findMngID_name findPortState_name by blast

theorem names_find_their_values_witness:
  "findMngID (mng2str PRIORITY1) False NULL_PTP_MANAGEMENT = (True, PRIORITY1)"
  using names_find_their_values [of PRIORITY1 False NULL_PTP_MANAGEMENT 1 True 0]
  by (simp add: isValidId_def FIRST_MNG_ID_def)

text \<open>
  C30: the event mask is a set of the events 0 to 511: after clearing it, setting some events and
  clearing others, exactly the events that were set and not cleared again are in it; events out
  of range are ignored.
\<close>

theorem event_mask_is_a_set:
  assumes "events_ok t"
  shows "getEvent a (fold clearEvent ys (fold setEvent xs (clearAll t))) \<longleftrightarrow>
    a \<in> set xs \<and> a \<notin> set ys \<and> 0 \<le> a \<and> a < 512"
  by (rule events.get_some [OF assms])

theorem event_mask_is_a_set_witness:
  "getEvent 9 (fold clearEvent [3] (fold setEvent [3, 9, 700] (clearAll new_SUBSCRIBE_EVENTS_NP)))"
  using event_mask_is_a_set [of "clearAll new_SUBSCRIBE_EVENTS_NP" 9 "[3]" "[3, 9, 700]"] events_ok_ops(3)
  by (simp add: clearAll_def)

section \<open>Configuration\<close>

text \<open>
  C31: whatever a configuration file holds, every number that the configuration returns after reading
  it, for any section, is in the range of its setting.
\<close>

theorem numbers_in_range:
  assumes "read_cfg mem fs m0 file c = Some (ok, c')" "cfg_ok c" "i < str_base_val"
  shows "cfg_ok (clear_sections mem) \<and> cfg_ok c' \<and> in_range i (get_num mem i sec c')"
  using read_cfg_ok [OF assms(1,2)] get_num_range assms(3) cfg_ok_clear by blast

theorem numbers_in_range_witness:
  "in_range domainNumber_val (get_num (\<lambda>_. True) domainNumber_val ''eth0''
     (snd (the (read_cfg (\<lambda>_. True) ex_fs ex_line ''cfg'' (clear_sections (\<lambda>_. True))))))"
proof -
  have "(case read_cfg (\<lambda>_. True) ex_fs ex_line ''cfg'' (clear_sections (\<lambda>_. True)) of
      None \<Rightarrow> False | Some (ok, c) \<Rightarrow> ok)"
    by code_simp
  then obtain c' where "read_cfg (\<lambda>_. True) ex_fs ex_line ''cfg'' (clear_sections (\<lambda>_. True)) = Some (True, c')"
    by (auto split: option.splits)
  then show ?thesis
    using numbers_in_range [OF _ cfg_ok_clear, of "\<lambda>_. True" ex_fs ex_line "''cfg''" "\<lambda>_. True" True c'
        domainNumber_val "''eth0''"]
    by (simp add: val_defs)
qed

text \<open>
  C32: a file of complete lines of at most 510 characters is read, as a configuration and as a file of keys,
  without leaving the line buffer: the reader works on every line in its order, each as in a buffer that
  was cleared before, whatever the buffer held, and stops only at the first line that is refused, or at the
  end of the file. The result is the one of this run over the lines: a configuration keeps what the lines
  before the refused one set, keys are only taken from a file that is accepted as a whole.
\<close>

theorem files_are_read:
  assumes "\<forall>l \<in> set ls. line_fits l" "length m0 = lineSize" "file \<noteq> []" "fs file = Some (file_text ls)"
  shows "read_cfg mem fs m0 file c =
      (case read_lines (on_clean (cfg_line mem)) ls (globalSection, clear_sections mem) of
         (ok, sec, c') \<Rightarrow> Some (ok, c')) \<and>
    read_sa mem fs m0 file sa =
      (case read_lines (on_clean (sa_line mem)) ls \<lparr>sa_step = 0, sa_cspp = Spp_default, sa_spps = []\<rparr> of
         (ok, st) \<Rightarrow>
           Some (if \<not> ok \<or> sa_step st = 2 \<and> Spp_keys (sa_cspp st) < 1 then (False, sa)
                 else (True, \<lparr>m_spps = sa_spps (if sa_step st = 2 then sa_store st else st)\<rparr>)))"
  using read_cfg_lines [of ls m0 "file" fs mem c] read_sa_lines [of ls m0 "file" fs mem sa] assms by simp

theorem files_are_read_witness:
  "\<exists>c'. read_cfg (\<lambda>_. True) ex_fs ex_line ''ttl'' (clear_sections (\<lambda>_. True)) = Some (True, c')"
proof -
  have "fst (read_lines (on_clean (cfg_line (\<lambda>_. True))) [''udp_ttl 77''] (globalSection, clear_sections (\<lambda>_. True)))"
    by code_simp
  then show ?thesis
    using files_are_read [of "[''udp_ttl 77'']" ex_line "''ttl''" ex_fs "\<lambda>_. True" "clear_sections (\<lambda>_. True)"]
    by (auto simp: ex_fs_def ex_line_def file_text_def line_fits_def lineSize_def LF_def split: prod.splits)
qed

text \<open>
  C33: reading a file of keys gives well-formed associations with well-formed keys, and a file that is
  refused leaves the associations as they were.
\<close>

theorem keys_all_or_nothing:
  assumes "read_sa mem fs m0 file sa = Some (ok, sa')" "SaFile_ok sa"
  shows "SaFile_ok sa' \<and> (\<not> ok \<longrightarrow> sa' = sa)"
  using read_sa_ok [OF assms] read_sa_fails assms(1) by (cases ok) auto

theorem keys_all_or_nothing_witness:
  "read_sa (\<lambda>_. True) ex_fs ex_line ''sa'' SaFile_new = Some (True, \<lparr>m_spps =
     [(1, snd (addKey 5 HMAC_AES128 [0, 1, 2, 3, 4, 5, 6, 7, 8, 9, 10, 11, 12, 13, 14, 15] 16 False (Spp_new 1)))]\<rparr>) \<and>
   SaFile_ok \<lparr>m_spps =
     [(1, snd (addKey 5 HMAC_AES128 [0, 1, 2, 3, 4, 5, 6, 7, 8, 9, 10, 11, 12, 13, 14, 15] 16 False (Spp_new 1)))]\<rparr>"
proof -
  have r: "read_sa (\<lambda>_. True) ex_fs ex_line ''sa'' SaFile_new = Some (True, \<lparr>m_spps =
     [(1, snd (addKey 5 HMAC_AES128 [0, 1, 2, 3, 4, 5, 6, 7, 8, 9, 10, 11, 12, 13, 14, 15] 16 False (Spp_new 1)))]\<rparr>)"
    by code_simp
  have "SaFile_ok SaFile_new"
    by (simp add: SaFile_ok_def SaFile_new_def)
  with r show ?thesis
    using keys_all_or_nothing [OF r] by blast
qed

text \<open>
  C34: a number that is written in a section is the number the configuration returns for the section,
  when no later line of the section writes it again. All other lines may be any right settings,
  sections and comments.
\<close>

theorem written_numbers_come_back:
  assumes "\<forall>e \<in> set es. entry_ok mem e" "length m0 = lineSize" "file \<noteq> []"
    and "fs file = Some (file_text (map entry_line es))"
    and "es = es1 @ Section_is sec # es2 @ Setting i (dec n) # es3"
    and "\<forall>e \<in> set es2. \<not> names_section e" "\<forall>e \<in> set es3. \<not> names_section e \<and> \<not> sets i e"
    and "i < str_base_val" "i \<noteq> network_transport_val"
    and "rg_min (ranges ! i) \<le> int n" "int n \<le> rg_max (ranges ! i)"
  shows "\<exists>c'. read_cfg mem fs m0 file c = Some (True, c') \<and> get_num mem i sec c' = of_nat n"
  by (rule number_written) (fact assms)+

theorem written_numbers_come_back_witness:
  "\<exists>c'. read_cfg (\<lambda>_. True) ex_fs ex_line ''cfg'' (clear_sections (\<lambda>_. True)) = Some (True, c') \<and>
     get_num (\<lambda>_. True) 1 ''eth0'' c' = 24"
proof -
  have d: "dec 24 = ''24''"
    by (simp add: dec.simps char_of_def bit_iff_odd)
  have w: "set_switch (\<lambda>_. True) 1 ''24'' s \<noteq> None" for s
    using set_switch_dec [of 1 24 "\<lambda>_. True" s] d by (simp add: val_defs ranges_def rang_val_def)
  have e: "\<forall>e \<in> set ex_entries. entry_ok (\<lambda>_. True) e"
    using w by (simp add: ex_entries_def entry_ok_def entry_line_def line_fits_def lineSize_def LF_def NUL_def
        plain_def isspace_def last_val_def ranges_def rang_val_def)
  show ?thesis
    using written_numbers_come_back [OF e, of ex_line "''cfg''" ex_fs "[Comment '' a domain for eth0'']" "''eth0''"
        "[]" 1 24 "[]" "clear_sections (\<lambda>_. True)"] d
    by (simp add: ex_fs_def ex_line_def ex_entries_def val_defs ranges_def rang_val_def)
qed

text \<open>
  C35: a setting at the end of a file, with neither a value nor a line end, takes its value from what the
  line before left in the line buffer. For every file of written entries, every setting that is accepted with
  the value, and every comment directly before it that has the value at its end, behind at least one
  character more than the name of the setting has, then characters that are no spaces, and one space: the
  file without the value is accepted and gives the same configuration as the file that has the value.
\<close>

theorem value_from_a_comment:
  assumes "\<forall>e \<in> set es. entry_ok mem e" "entry_ok mem (Setting i v)"
    and "entry_ok mem (Comment t)" "CHR ''#'' # t = a @ b @ '' '' @ v"
      "length a = length (rg_name (ranges ! i)) + 1" "\<forall>x \<in> set b. \<not> isspace x"
    and "length m0 = lineSize" "file \<noteq> []" "file' \<noteq> []"
      "fs file = Some (file_text (map entry_line (es @ [Comment t])) @ rg_name (ranges ! i))"
      "fs file' = Some (file_text (map entry_line (es @ [Setting i v])))"
  shows "\<exists>cf'. read_cfg mem fs m0 file cf = Some (True, cf') \<and> read_cfg mem fs m0 file' cf = Some (True, cf')"
proof -
  have "read_cfg mem fs m0 file cf =
      Some (True, snd (fold (entry_act mem) (es @ [Setting i v]) (globalSection, clear_sections mem)))"
    using assms(1-8,10) by (rule read_cfg_stale)
  moreover have "read_cfg mem fs m0 file' cf =
      Some (True, snd (fold (entry_act mem) (es @ [Setting i v]) (globalSection, clear_sections mem)))"
    using assms(1,2,7,9,11) by (intro read_cfg_written) auto
  ultimately show ?thesis
    by blast
qed

lemma ex_stale:
  "entry_ok (\<lambda>_. True) (Setting 3 ''77'')" "entry_ok (\<lambda>_. True) (Comment ''######  77'')"
  "ex_fs ''stale'' = Some (file_text (map entry_line ([] @ [Comment ''######  77''])) @ rg_name (ranges ! 3))"
  "ex_fs ''ttl'' = Some (file_text (map entry_line ([] @ [Setting 3 ''77''])))"
proof -
  have "dec 77 = ''77''"
    by (simp add: dec.simps char_of_def bit_iff_odd)
  then have "set_switch (\<lambda>_. True) 3 ''77'' s \<noteq> None" "plain ''77''" for s
    using set_switch_dec [of 3 77 "\<lambda>_. True" s] plain_dec [of 77] by (simp_all add: val_defs ranges_def rang_val_def)
  then show "entry_ok (\<lambda>_. True) (Setting 3 ''77'')"
    by (simp add: entry_ok_def entry_line_def line_fits_def lineSize_def LF_def ranges_def rang_val_def val_defs)
qed (simp_all add: entry_ok_def entry_line_def line_fits_def lineSize_def LF_def ranges_def rang_val_def
  ex_fs_def file_text_def)

theorem value_from_a_comment_witness:
  "\<exists>cf'. read_cfg (\<lambda>_. True) ex_fs ex_line ''stale'' (clear_sections (\<lambda>_. True)) = Some (True, cf') \<and>
     read_cfg (\<lambda>_. True) ex_fs ex_line ''ttl'' (clear_sections (\<lambda>_. True)) = Some (True, cf')"
  by (rule value_from_a_comment [of "[]" "\<lambda>_. True" 3 "''77''" "''######  77''" "''####### ''" "[]" ex_line
        "''stale''" "''ttl''" ex_fs "clear_sections (\<lambda>_. True)", OF _ ex_stale(1,2) _ _ _ _ _ _ ex_stale(3,4)])
    (simp_all add: ex_line_def ranges_def rang_val_def)

text \<open>
  C36: authentication from a configuration that is accepted uses exactly the key and the association the
  configuration names, and the key is one of the file of keys; refused, it leaves the message as it
  was. Either way the message stays one that the calls of the interface reach.
\<close>

theorem authentication_from_configuration:
  assumes "useAuth_cfg mem fs m0 hl cfg sec m = Some (ok, m')"
  shows "(ok \<longrightarrow> m_haveAuth m' \<and> m_keyID m' = get_func32 mem active_key_id_val sec cfg \<and>
      m_sppID m' = get_func mem spp_val sec cfg \<and> SaFile_have (m_sa m') (m_sppID m') (m_keyID m')) \<and>
    (\<not> ok \<longrightarrow> m' = m) \<and> (message_reachable m \<longrightarrow> message_reachable m')"
  using useAuth_cfg_uses useAuth_cfg_fails useAuth_cfg_step [OF assms] assms by (cases ok) auto

theorem authentication_from_configuration_witness:
  "\<exists>m'. useAuth_cfg (\<lambda>_. True) ex_fs ex_line ex_hl
       (snd (the (read_cfg (\<lambda>_. True) ex_fs ex_line ''auth'' (clear_sections (\<lambda>_. True))))) [] ex_msg = Some (True, m') \<and>
     m_haveAuth m' \<and> message_reachable m'"
proof -
  let ?c = "snd (the (read_cfg (\<lambda>_. True) ex_fs ex_line ''auth'' (clear_sections (\<lambda>_. True))))"
  have "(case useAuth_cfg (\<lambda>_. True) ex_fs ex_line ex_hl ?c [] ex_msg of None \<Rightarrow> False | Some (ok, m') \<Rightarrow> ok)"
    by code_simp
  then obtain m' where u: "useAuth_cfg (\<lambda>_. True) ex_fs ex_line ex_hl ?c [] ex_msg = Some (True, m')"
    by (auto split: option.splits)
  then show ?thesis
    using authentication_from_configuration [OF u] message_reachable.made [of new_MsgParams] by (simp add: ex_msg_def)
qed

section \<open>Access to signaling messages\<close>

text \<open>
  After a signaling message the functions of \<^verbatim>\<open>MessageSigTlvs\<close> show exactly its TLVs: the number
  of them, each one by its position and nothing behind the last; \<^verbatim>\<open>traverse\<close> calls back with them in
  their order, up to the first call that asks to stop; and a copy of the object has the same TLVs.
\<close>

theorem signaling_access:
  assumes "sig_header h" "sigBaseSize + length (sig_octets xs) < 2 ^ 16"
    and "int (sigBaseSize + length (sig_octets xs)) \<le> bufSize"
    and "rcvSignaling (m_prms m)" "\<forall>x \<in> set xs. sig_taken (m_prms m) x" "pe_mem env" "\<not> m_haveAuth m"
  shows "\<exists>m'. parse env m (pack_signaling (h\<lparr>messageLength :=
      of_nat (sigBaseSize + length (sig_octets xs))\<rparr>) @ sig_octets xs @ r) bufSize = (MNG_PARSE_ERROR_SIG, m') \<and>
      SigTlvs_size (m_sigTlvs m') = length xs \<and>
      (\<forall>pos. SigTlvs_getTlv (m_sigTlvs m') pos =
         (if pos < length xs then (fst (xs ! pos), Some (snd (xs ! pos))) else (0, None))) \<and>
      SigTlvs_traverse (\<lambda>ty t vis. (p ty t, vis @ [(ty, t)])) (m_sigTlvs m') [] =
        ((\<exists>(ty, t) \<in> set xs. p ty t),
         takeWhile (\<lambda>(ty, t). \<not> p ty t) xs @ take 1 (dropWhile (\<lambda>(ty, t). \<not> p ty t) xs)) \<and>
      copy_MessageSigTlvs (m_sigTlvs m') = (xs \<noteq> [], map (\<lambda>(ty, t). (ty, Some t)) xs)"
proof -
  obtain m' where m: "parse env m (pack_signaling (h\<lparr>messageLength :=
      of_nat (sigBaseSize + length (sig_octets xs))\<rparr>) @ sig_octets xs @ r) bufSize = (MNG_PARSE_ERROR_SIG, m')"
    "m_sigTlvs m' = \<lparr>m_lastSig = True, m_tlvs = xs\<rparr>"
    using parse_signaling [OF assms] by blast
  have "\<forall>(ty, t) \<in> set (m_tlvs (m_sigTlvs m')). sig_valid (implementSpecific (m_prms m)) ty t"
    using assms(5) m(2) by (auto simp: sig_taken_def)
  then have "copy_MessageSigTlvs (m_sigTlvs m') = (xs \<noteq> [], map (\<lambda>(ty, t). (ty, Some t)) xs)"
    using copy_valid m(2) by fastforce
  then show ?thesis
    using m by (auto simp: SigTlvs_size_def SigTlvs_getTlv_def SigTlvs_traverse_def traverse_visits)
qed

theorem signaling_access_witness:
  "\<exists>m'. parse ex_env ex_sig_msg (pack_signaling ((build_header ex_sig_msg 1)\<lparr>messageType_majorSdoId := Signaling,
      messageLength := 59\<rparr>) @ sig_octets ex_sig @ []) 59 = (MNG_PARSE_ERROR_SIG, m') \<and>
      SigTlvs_size (m_sigTlvs m') = 2"
proof -
  have l: "length (sig_octets ex_sig) = 15" "length ex_sig = 2"
    by (simp_all add: sig_octets_def ex_sig_def ex_tlv_simps enc_CUMULATIVE_RATE_RATIO_def)
  show ?thesis
    using signaling_access [OF ex_sig_header _ _ _ ex_sig_taken, of 59 ex_env "[]" "\<lambda>_ _. True"] l
    by (auto simp: sigBaseSize_def ex_env_def) (auto simp: ex_sig_msg_def new_Message_def new_MsgParams_def)
qed

text \<open>
  After a management message the object shows no TLVs: not their number, not one by its position
  and no call-back; but the iterators still walk over the TLVs of the last signaling message.
\<close>

theorem management_hides_signaling:
  "SigTlvs_size (m_sigTlvs (snd (parseMng env m buf n))) = 0 \<and>
   SigTlvs_getTlv (m_sigTlvs (snd (parseMng env m buf n))) pos = (0, None) \<and>
   SigTlvs_traverse cb (m_sigTlvs (snd (parseMng env m buf n))) st = (False, st) \<and>
   SigTlvs_range (m_sigTlvs (snd (parseMng env m buf n))) = SigTlvs_range (m_sigTlvs m)"
  by (simp add: parseMng_sigTlvs SigTlvs_size_def SigTlvs_getTlv_def SigTlvs_traverse_def SigTlvs_range_def)

section \<open>JSON\<close>

text \<open>
  C39: JSON survives printing and parsing. A value whose strings are UTF-8, whose numbers are numbers of
  the parser and whose members are in the order of their keys is printed, with any indentation, to a text
  that the parser takes, with or without comments allowed, and that gives exactly this value,
  whatever value was there before.
\<close>

theorem json_survives:
  assumes "json_ok v"
  shows "parseBuffer (toString i v) u main = (True, Some v)"
  using assms by (rule parse_printed)

theorem json_survives_witness:
  "parseBuffer (toString 1 (jObject [(''a'', jNumber ''-1.5e3'' 2 4), (''b'', jArray [jString ''x/y'', jNull, jBoolean True])]))
     False None =
   (True, Some (jObject [(''a'', jNumber ''-1.5e3'' 2 4), (''b'', jArray [jString ''x/y'', jNull, jBoolean True])]))"
proof -
  have "getNum ''-1.5e3'' = Some (''-1.5e3'', 2, 4, [])"
    by code_simp
  then show ?thesis
    by (intro json_survives) (simp add: ascii_utf8 less_eq_list_code)
qed




definition ex_je :: json_env where
  "ex_je = \<lparr>je_float = \<lambda>_. None,
     je_memory = \<lambda>_. USER_DESCRIPTION_v \<lparr>USER_DESCRIPTION_t.userDescription = \<lparr>lengthField = 99, textField = [1]\<rparr>\<rparr>,
     je_FaultRecord = zero_FaultRecord\<rparr>"





text \<open>
  C21: whatever text \<^verbatim>\<open>Json2msg::fromJson\<close> accepts, and whatever the object held before, it holds a
  request: \<^verbatim>\<open>setAction\<close> of any message then takes exactly this request when the table allows the action
  for the identifier, with the data of the text and with no data for GET and for identifiers without
  data, and otherwise leaves the message as it is.
\<close>

theorem accepted_json_is_a_request:
  assumes "fromJson je s j = (True, j')"
  shows "j_action j' \<in> {GET, SET, COMMAND} \<and> Mng_Ids.isValidId (j_managementId j') \<and>
    json_setAction j' m =
      (if allowedAction (m_prms m) (j_managementId j') (j_action j')
       then (True, m\<lparr>m_dataSend := (if j_action j' = GET \<or> isEmpty (j_managementId j') then None else j_tlvData j'),
                     m_sendAction := j_action j', m_tlv_id := j_managementId j'\<rparr>)
       else (False, m))"
  using fromJson_fits [OF assms] fits_setAction by (simp add: request_fits_def)

theorem accepted_json_is_a_request_witness:
  "\<exists>j. fromJson ex_je ''{\"actionField\":\"GET\",\"managementId\":\"DOMAIN\"}'' new_Json2msg = (True, j) \<and>
     fst (json_setAction j ex_msg) \<and>
     m_tlv_id (snd (json_setAction j ex_msg)) = DOMAIN"
proof -
  let ?s = "''{\"actionField\":\"GET\",\"managementId\":\"DOMAIN\"}''"
  have "parseBuffer ?s False None = (True, Some (jObject [(''actionField'', jString ''GET''), (''managementId'', jString ''DOMAIN'')]))"
    by code_simp
  moreover have "findMngID ''DOMAIN'' True NULL_PTP_MANAGEMENT = (True, DOMAIN)"
    by code_simp
  ultimately have j: "fromJson ex_je ?s new_Json2msg = (True, new_Json2msg\<lparr>j_managementId := DOMAIN\<rparr>)"
    by (simp add: fromJson_def json_members_steps_def testOpt_def testMand_def member_count_def member_get_def obj_getVal_def
        getVal_def isJsonValue_def json_action_def json_managementId_def new_Json2msg_def optProc_def json_unicastFlag_def
        portProc_def json_data_def obj_getType_def Let_def)
  have "allowedAction (m_prms ex_msg) DOMAIN GET"
    by (simp add: allowedAction_def ex_msg_simps new_MsgParams_def isValidId_def mng_allowed_def allow_bits action_defs
        FIRST_MNG_ID_def)
  then have "fst (json_setAction (new_Json2msg\<lparr>j_managementId := DOMAIN\<rparr>) ex_msg) \<and>
     m_tlv_id (snd (json_setAction (new_Json2msg\<lparr>j_managementId := DOMAIN\<rparr>) ex_msg)) = DOMAIN"
    using accepted_json_is_a_request [OF j, of ex_msg] by (simp add: new_Json2msg_def)
  then show ?thesis
    using j by blast
qed

end
